(* ===== verification/Prelude.thy ===== *)
theory Prelude
  imports Main "HOL-Library.Word" "HOL-Library.Monad_Syntax" "HOL-Library.Multiset"
begin

text \<open>
  What every component of the development shares: the machine integer types of
  \<^verbatim>\<open>Gep/Include/ps2/types.h\<close>, the byte views of a 16-bit register (the union
  \<^verbatim>\<open>SNRegU\<close> on the little-endian host), bounds on bitwise operations, the runner of a list
  of micro-operations and the interface of a byte-addressed bus.
\<close>

unbundle bit_operations_syntax

section \<open>Machine integers\<close>

type_synonym u8 = "8 word"
type_synonym u16 = "16 word"
type_synonym u32 = "32 word"

named_theorems byte_simps \<open>splitting 16-bit values into bytes and joining them again\<close>
named_theorems bnd_intros \<open>upper bounds of word expressions, read as natural numbers\<close>

definition lo8 :: "u16 \<Rightarrow> u8" where
  "lo8 w = ucast w"

definition hi8 :: "u16 \<Rightarrow> u8" where
  "hi8 w = ucast (drop_bit 8 w)"

definition mk16 :: "u8 \<Rightarrow> u8 \<Rightarrow> u16" where
  "mk16 h l = (push_bit 8 (ucast h)) OR ucast l"

text \<open>Assignment to one byte of the union: \<^verbatim>\<open>r.b.l = v\<close> and \<^verbatim>\<open>r.b.h = v\<close>.\<close>

definition set_lo8 :: "u16 \<Rightarrow> u8 \<Rightarrow> u16" where
  "set_lo8 w v = mk16 (hi8 w) v"

definition set_hi8 :: "u16 \<Rightarrow> u8 \<Rightarrow> u16" where
  "set_hi8 w v = mk16 v (lo8 w)"

lemma lo8_mk16 [simp, byte_simps]: "lo8 (mk16 h l) = l"
  unfolding lo8_def mk16_def by (rule bit_word_eqI) (auto simp: bit_simps)

lemma hi8_mk16 [simp, byte_simps]: "hi8 (mk16 h l) = h"
  unfolding hi8_def mk16_def by (rule bit_word_eqI) (auto simp: bit_simps dest: bit_imp_le_length)

lemma mk16_hi8_lo8 [simp, byte_simps]: "mk16 (hi8 w) (lo8 w) = w"
  unfolding hi8_def lo8_def mk16_def
  by (rule bit_word_eqI) (auto simp: bit_simps not_le)

lemma lo8_set_lo8 [simp]: "lo8 (set_lo8 w v) = v"
  and hi8_set_lo8 [simp]: "hi8 (set_lo8 w v) = hi8 w"
  and lo8_set_hi8 [simp]: "lo8 (set_hi8 w v) = lo8 w"
  and hi8_set_hi8 [simp]: "hi8 (set_hi8 w v) = v"
  by (simp_all add: set_lo8_def set_hi8_def)

lemma set_lo8_same [simp]: "set_lo8 w (lo8 w) = w"
  and set_hi8_same [simp]: "set_hi8 w (hi8 w) = w"
  by (simp_all add: set_lo8_def set_hi8_def)

lemma set_lo8_set_lo8 [simp]: "set_lo8 (set_lo8 w a) b = set_lo8 w b"
  by (simp add: set_lo8_def)

text \<open>The value a byte pair has when the C code rebuilds it with shifts in 32 bits.\<close>

definition join16 :: "u8 \<Rightarrow> u8 \<Rightarrow> u32" where
  "join16 h l = ucast l OR push_bit 8 (ucast h)"

definition join24 :: "u8 \<Rightarrow> u8 \<Rightarrow> u8 \<Rightarrow> u32" where
  "join24 b h l = ucast l OR push_bit 8 (ucast h) OR push_bit 16 (ucast b)"

lemma ucast_join16 [simp, byte_simps]: "ucast (join16 h l) = mk16 h l"
  unfolding join16_def mk16_def
  by (rule bit_word_eqI) (auto simp: bit_simps)

lemma join16_hi8_lo8 [simp, byte_simps]: "join16 (hi8 w) (lo8 w) = ucast w"
  unfolding join16_def hi8_def lo8_def
  by (rule bit_word_eqI) (auto simp: bit_simps not_le dest: bit_imp_le_length)

section \<open>Upper bounds of bitwise expressions\<close>

lemma or_lt_two_power:
  fixes a b :: "'a::len word"
  assumes "unat a < 2 ^ n" and "unat b < 2 ^ n"
  shows "unat (a OR b) < 2 ^ n"
proof -
  have "take_bit n (unat a) = unat a" "take_bit n (unat b) = unat b"
    using assms by (simp_all add: take_bit_nat_eq_self_iff)
  then have "take_bit n (unat a OR unat b) = unat a OR unat b"
    by (simp add: take_bit_or)
  then show ?thesis
    by (metis take_bit_nat_eq_self_iff unsigned_or_eq)
qed

lemma xor_lt_two_power:
  fixes a b :: "'a::len word"
  assumes "unat a < 2 ^ n" and "unat b < 2 ^ n"
  shows "unat (a XOR b) < 2 ^ n"
proof -
  have "take_bit n (unat a) = unat a" "take_bit n (unat b) = unat b"
    using assms by (simp_all add: take_bit_nat_eq_self_iff)
  then have "take_bit n (unat a XOR unat b) = unat a XOR unat b"
    by (simp add: take_bit_xor)
  then show ?thesis
    by (metis take_bit_nat_eq_self_iff unsigned_xor_eq)
qed

lemma and_le_left: "unat (a AND b) \<le> unat (a :: 'a::len word)"
  by (simp add: unsigned_and_eq) (metis Bit_Operations.and_nat_def word_and_le2 word_le_nat_alt unsigned_and_eq)

lemma and_le_right: "unat (a AND b) \<le> unat (b :: 'a::len word)"
  using and_le_left [of b a] by (simp add: and.commute)

lemma unat_u8_le [bnd_intros]: "unat (a :: u8) \<le> 255"
  using unsigned_less [of a, where 'a=nat] by simp

lemma unat_u16_le [bnd_intros]: "unat (a :: u16) \<le> 65535"
  using unsigned_less [of a, where 'a=nat] by simp

lemma unat_u32_le [bnd_intros]: "unat (a :: u32) \<le> 4294967295"
  using unsigned_less [of a, where 'a=nat] by simp

lemma unat_ucast_u8_u32 [simp]: "unat (ucast (a :: u8) :: u32) = unat a"
  by (simp add: unsigned_ucast_eq take_bit_nat_eq_self_iff le_less_trans [OF unat_u8_le])

lemma unat_ucast_u16_u32 [simp]: "unat (ucast (a :: u16) :: u32) = unat a"
  by (simp add: unsigned_ucast_eq take_bit_nat_eq_self_iff le_less_trans [OF unat_u16_le])

text \<open>Setting or clearing bits outside a mask does not show through it.\<close>

lemma or_disjoint: "v AND m = 0 \<Longrightarrow> (p OR v) AND m = p AND (m :: 'a::len word)"
  by (simp add: word_ao_dist)

lemma and_NOT_disjoint: "v AND m = 0 \<Longrightarrow> (p AND NOT v) AND m = p AND (m :: 'a::len word)"
proof (rule bit_word_eqI)
  fix n
  assume v: "v AND m = 0" and n: "n < LENGTH('a)"
  from v have "bit (v AND m) n = False" by simp
  then show "bit ((p AND NOT v) AND m) n = bit (p AND m) n"
    using n by (auto simp: bit_simps)
qed

text \<open>The flag in bit one.\<close>

lemma bit1_cases: "p AND 2 = 2 \<or> p AND 2 = (0 :: u8)"
proof (cases "bit p 1")
  case True
  have "p AND 2 = 2" by (rule bit_word_eqI) (use True in \<open>auto simp: bit_simps numeral_eq_Suc less_Suc_eq\<close>)
  then show ?thesis ..
next
  case False
  have "p AND 2 = 0" by (rule bit_word_eqI) (use False in \<open>auto simp: bit_simps numeral_eq_Suc less_Suc_eq\<close>)
  then show ?thesis ..
qed

text \<open>Narrowing and joining, in natural numbers.\<close>

lemma unat_ucast_u32_u8: "unat (ucast (w :: u32) :: u8) = unat w mod 256"
  and unat_ucast_u32_u16: "unat (ucast (w :: u32) :: u16) = unat w mod 65536"
  by (simp_all add: unsigned_ucast_eq take_bit_eq_mod)

lemma ucast_parts: "(ucast w :: u8) = of_nat (unat w)" "(ucast (drop_bit 8 w) :: u8) = of_nat (unat w div 256)" for w :: u32
  by (simp_all add: word_unat_eq_iff unat_ucast_u32_u8 unat_of_nat drop_bit_eq_div unat_div)

lemma join16_unat: "unat (join16 h l) = 256 * unat h + unat l"
proof -
  have d: "push_bit 8 (ucast h :: u32) AND ucast l = 0"
    by (rule bit_word_eqI) (auto simp: bit_simps dest: bit_imp_le_length)
  have "unat (push_bit 8 (ucast h) :: u32) = 256 * unat h"
    using unat_u8_le [of h] by (simp add: push_bit_eq_mult unat_word_ariths)
  moreover have "join16 h l = push_bit 8 (ucast h) + ucast l"
    unfolding join16_def using word_plus_and_or [of "push_bit 8 (ucast h :: u32)" "ucast l"] d by (simp add: or.commute)
  ultimately show ?thesis
    using unat_u8_le [of h] unat_u8_le [of l] by (simp add: unat_word_ariths)
qed

lemma unat_mult_u8: "unat (ucast a * ucast b :: u32) = unat (a :: u8) * unat (b :: u8)"
proof -
  have "unat a * unat b \<le> 255 * 255" by (intro mult_le_mono unat_u8_le)
  then show ?thesis by (simp add: unat_word_ariths)
qed

text \<open>Masking an index.\<close>

lemma unat_and_mask: "unat (a AND mask n) = unat a mod 2 ^ n" for a :: "'a::len word"
  by (simp add: take_bit_eq_mask [symmetric] unsigned_take_bit_eq take_bit_nat_def)

section \<open>Computations that may be undefined\<close>

text \<open>
  A step of the code is a value of an option type: \<^const>\<open>None\<close> where C leaves the behaviour
  undefined. \<open>returns m Q\<close> is total correctness of such a step: it is defined and its
  result satisfies \<open>Q\<close>.
\<close>

definition returns :: "'a option \<Rightarrow> ('a \<Rightarrow> bool) \<Rightarrow> bool" where
  "returns m Q \<longleftrightarrow> (\<exists>r. m = Some r \<and> Q r)"

named_theorems returns_rules \<open>introduction rules for total correctness of option computations\<close>

lemma returns_Some [simp]: "returns (Some r) Q \<longleftrightarrow> Q r"
  and returns_None [simp]: "\<not> returns None Q"
  by (simp_all add: returns_def)

lemma returns_bind: "returns m P \<Longrightarrow> (\<And>x. P x \<Longrightarrow> returns (f x) Q) \<Longrightarrow> returns (m \<bind> f) Q"
  by (auto simp: returns_def)

lemma returns_bind_iff: "returns (m \<bind> f) Q \<longleftrightarrow> returns m (\<lambda>x. returns (f x) Q)"
  by (cases m) simp_all

lemma returns_mono: "returns m P \<Longrightarrow> (\<And>x. P x \<Longrightarrow> Q x) \<Longrightarrow> returns m Q"
  by (auto simp: returns_def)

lemma returns_prod_mono:
  "returns m (\<lambda>(x, y). P x y) \<Longrightarrow> (\<And>x y. P x y \<Longrightarrow> Q (x, y)) \<Longrightarrow> returns m Q"
  by (auto simp: returns_def)

lemma returns_pair: "returns m (\<lambda>(v, c). P v c) \<Longrightarrow> \<exists>v c. m = Some (v, c) \<and> P v c"
  by (auto simp: returns_def)

lemma returns_Ex: "returns m Q \<Longrightarrow> \<exists>r. m = Some r \<and> Q r"
  by (simp add: returns_def)

lemma rel_option_bind:
  "rel_option R m m' \<Longrightarrow> (\<And>x y. R x y \<Longrightarrow> rel_option Q (f x) (g y)) \<Longrightarrow> rel_option Q (m \<bind> f) (m' \<bind> g)"
  by (cases m; cases m') auto

section \<open>Running a list of micro-operations\<close>

text \<open>The statements of a handler, one after the other.\<close>

fun run_ops :: "('op \<Rightarrow> 's \<Rightarrow> 's option) \<Rightarrow> 'op list \<Rightarrow> 's \<Rightarrow> 's option" where
  "run_ops ex [] s = Some s"
| "run_ops ex (u # us) s = do { s \<leftarrow> ex u s; run_ops ex us s }"

lemma run_ops_append: "run_ops ex (us @ vs) s = run_ops ex us s \<bind> run_ops ex vs"
  by (induction us arbitrary: s) (auto split: bind_splits)

text \<open>
  A static checker over such a list: it computes bounds before and after every operation and
  gives up (\<^const>\<open>None\<close>) on an operation that it cannot show to be defined.
\<close>

fun check_ops :: "('op \<Rightarrow> 'b \<Rightarrow> 'b option) \<Rightarrow> 'op list \<Rightarrow> 'b \<Rightarrow> 'b option" where
  "check_ops ab [] b = Some b"
| "check_ops ab (u # us) b = do { b \<leftarrow> ab u b; check_ops ab us b }"

locale microcode =
  fixes ex :: "'op \<Rightarrow> 's \<Rightarrow> 's option"
    and ab :: "'op \<Rightarrow> 'b \<Rightarrow> 'b option"
    and within :: "'b \<Rightarrow> 's \<Rightarrow> bool"
    and step :: "'s \<Rightarrow> 's \<Rightarrow> bool"
  assumes ab_sound: "ab u b = Some b' \<Longrightarrow> within b s \<Longrightarrow> returns (ex u s) (\<lambda>s'. within b' s' \<and> step s s')"
    and step_refl: "step s s"
    and step_trans: "step s s' \<Longrightarrow> step s' s'' \<Longrightarrow> step s s''"
begin

lemma check_sound:
  "check_ops ab us b = Some b' \<Longrightarrow> within b s \<Longrightarrow>
     returns (run_ops ex us s) (\<lambda>s'. within b' s' \<and> step s s')"
proof (induction us arbitrary: b s)
  case Nil
  then show ?case by (simp add: step_refl)
next
  case (Cons u us)
  from Cons.prems(1) obtain b1 where u: "ab u b = Some b1" and us: "check_ops ab us b1 = Some b'"
    by (auto split: bind_splits)
  show ?case
    unfolding run_ops.simps
  proof (rule returns_bind [OF ab_sound [OF u Cons.prems(2)]])
    fix s1 assume s1: "within b1 s1 \<and> step s s1"
    show "returns (run_ops ex us s1) (\<lambda>s'. within b' s' \<and> step s s')"
      by (rule returns_mono [OF Cons.IH [OF us]]) (use s1 step_trans in blast)+
  qed
qed

end

section \<open>Switches\<close>

text \<open>
  A \<^verbatim>\<open>switch\<close> is a table of handlers with their \<^verbatim>\<open>case\<close> labels. C rejects a table in which
  a label occurs twice, so the order of the search does not matter.
\<close>

fun find_case :: "(nat list \<times> 'h) list \<Rightarrow> nat \<Rightarrow> 'h option" where
  "find_case [] k = None"
| "find_case ((ls, h) # hs) k = (if k \<in> set ls then Some h else find_case hs k)"

lemma find_case_in: "find_case hs k = Some h \<Longrightarrow> \<exists>ls. (ls, h) \<in> set hs \<and> k \<in> set ls"
  by (induction hs k rule: find_case.induct) (auto split: if_splits)

lemma find_case_None: "find_case hs k = None \<longleftrightarrow> k \<notin> set (concat (map fst hs))"
  by (induction hs k rule: find_case.induct) auto

lemma find_case_unique:
  "distinct (concat (map fst hs)) \<Longrightarrow> (ls, h) \<in> set hs \<Longrightarrow> k \<in> set ls \<Longrightarrow> find_case hs k = Some h"
  by (induction hs k rule: find_case.induct) (auto simp: image_iff, fastforce+)

lemma find_case_append: "find_case (hs @ hs') k = (case find_case hs k of None \<Rightarrow> find_case hs' k | Some h \<Rightarrow> Some h)"
  by (induction hs k rule: find_case.induct) auto

text \<open>Merging the sorted label lists of a table, to see which labels there are and how often.\<close>

fun merge :: "nat list \<Rightarrow> nat list \<Rightarrow> nat list" where
  "merge [] ys = ys"
| "merge xs [] = xs"
| "merge (x # xs) (y # ys) = (if x \<le> y then x # merge xs (y # ys) else y # merge (x # xs) ys)"

fun merge_pairs :: "nat list list \<Rightarrow> nat list list" where
  "merge_pairs (xs # ys # zss) = merge xs ys # merge_pairs zss"
| "merge_pairs xss = xss"

lemma length_merge_pairs: "length (merge_pairs xss) \<le> length xss"
  by (induction xss rule: merge_pairs.induct) auto

function merge_all :: "nat list list \<Rightarrow> nat list" where
  "merge_all [] = []"
| "merge_all [xs] = xs"
| "merge_all (xs # ys # zss) = merge_all (merge xs ys # merge_pairs zss)"
  by pat_completeness auto
termination
  by (relation "measure length") (auto simp: le_imp_less_Suc length_merge_pairs)

lemma mset_merge: "mset (merge xs ys) = mset xs + mset ys"
  by (induction xs ys rule: merge.induct) auto

lemma mset_merge_pairs: "mset (concat (merge_pairs xss)) = mset (concat xss)"
  by (induction xss rule: merge_pairs.induct) (auto simp: mset_merge)

lemma mset_merge_all: "mset (merge_all xss) = mset (concat xss)"
  by (induction xss rule: merge_all.induct) (auto simp: mset_merge mset_merge_pairs)

text \<open>A sorted list without gaps or repetitions.\<close>

fun consecutive :: "nat \<Rightarrow> nat list \<Rightarrow> bool" where
  "consecutive k [] \<longleftrightarrow> True"
| "consecutive k (x # xs) \<longleftrightarrow> x = k \<and> consecutive (x + 1) xs"

lemma consecutive_upt: "consecutive k xs \<Longrightarrow> xs = [k..<k + length xs]"
proof (induction xs arbitrary: k)
  case (Cons x xs)
  have "[k..<k + length (x # xs)] = k # [Suc k..<Suc k + length xs]"
    by (simp add: upt_conv_Cons del: upt_Suc)
  with Cons.IH [of "Suc k"] Cons.prems show ?case by (auto simp del: upt_Suc)
qed simp

text \<open>
  The labels of a table that belong to page \<open>m\<close>, sorted: a table over several pages of 256
  labels is checked a page at a time.
\<close>

definition page_labels :: "nat \<Rightarrow> nat list list \<Rightarrow> nat list" where
  "page_labels m lss = merge_all (map (filter (\<lambda>k. k div 256 = m)) lss)"

lemma mset_concat_filter: "mset (concat (map (filter P) lss)) = filter_mset P (mset (concat lss))"
  by (induction lss) auto

lemma page_labels_count:
  assumes "consecutive b (page_labels m lss)" and "length (page_labels m lss) = 256"
    and "k div 256 = m" and "b = 256 * m"
  shows "count (mset (concat lss)) k = 1"
proof -
  have "page_labels m lss = [256 * m..<256 * m + 256]"
    using consecutive_upt [OF assms(1)] assms(2,4) by simp
  moreover have "mset (page_labels m lss) = filter_mset (\<lambda>k. k div 256 = m) (mset (concat lss))"
    unfolding page_labels_def mset_merge_all by (rule mset_concat_filter)
  ultimately have "count (filter_mset (\<lambda>k. k div 256 = m) (mset (concat lss))) k = count (mset [256 * m..<256 * m + 256]) k"
    by simp
  also have "\<dots> = 1"
    using assms(3) by (auto simp: count_mset_0_iff distinct_count_atmost_1 in_multiset_in_set)
  finally show ?thesis using assms(3) by simp
qed

section \<open>Byte-addressed memory\<close>

text \<open>
  The interface of a memory whose addresses may alias: an address that is plain memory denotes
  a cell, reading gives the content of the cell, writing changes that cell only and leaves the
  address map as it is. Multi-byte accesses are little-endian, byte by byte.
\<close>

locale byte_bus =
  fixes rd :: "'s \<Rightarrow> u32 \<Rightarrow> (u8 \<times> 's) option"
    and wr :: "'s \<Rightarrow> u32 \<Rightarrow> u8 \<Rightarrow> 's option"
    and plain :: "'s \<Rightarrow> u32 \<Rightarrow> bool"
    and cell :: "'s \<Rightarrow> u32 \<Rightarrow> 'k"
    and content :: "'s \<Rightarrow> 'k \<Rightarrow> u8"
  assumes rd_plain: "plain s a \<Longrightarrow> rd s a = Some (content s (cell s a), s)"
    and wr_plain: "plain s a \<Longrightarrow> returns (wr s a v) (\<lambda>s'. content s' = (content s)(cell s a := v)
                     \<and> plain s' = plain s \<and> cell s' = cell s)"
begin

lemma read_after_write:
  assumes "plain s a" and "plain s b"
  shows "returns (wr s a v \<bind> (\<lambda>s'. rd s' b))
           (\<lambda>(w, s'). w = (if cell s b = cell s a then v else content s (cell s b)))"
  by (rule returns_bind [OF wr_plain [OF assms(1)]]) (simp add: rd_plain assms)

lemma write16_read16:
  assumes "plain s a" and "plain s (a + 1)" and "cell s (a + 1) \<noteq> cell s a"
  shows "returns (do { s \<leftarrow> wr s a (lo8 w); s \<leftarrow> wr s (a + 1) (hi8 w);
                       (l, s) \<leftarrow> rd s a; (h, s) \<leftarrow> rd s (a + 1); Some (join16 h l, s) })
           (\<lambda>(x, s'). x = ucast w)"
proof (rule returns_bind [OF wr_plain [OF assms(1)]])
  fix s1 assume s1: "content s1 = (content s)(cell s a := lo8 w) \<and> plain s1 = plain s \<and> cell s1 = cell s"
  then have p: "plain s1 (a + 1)" using assms by simp
  show "returns (do { s \<leftarrow> wr s1 (a + 1) (hi8 w);
                       (l, s) \<leftarrow> rd s a; (h, s) \<leftarrow> rd s (a + 1); Some (join16 h l, s) })
           (\<lambda>(x, s'). x = ucast w)"
    by (rule returns_bind [OF wr_plain [OF p]]) (use assms s1 in \<open>simp add: rd_plain\<close>)
qed

end

end
