(* ===== verification/Host_Memory.thy ===== *)
theory Host_Memory
  imports Prelude
begin

text \<open>
  The memory of the host, as far as the emulator reaches it through pointers. A pointer is
  a block (an array the program owns) and an offset into it, which C's pointer arithmetic may
  move outside the block: \<^verbatim>\<open>pMem - Addr\<close> of \<^verbatim>\<open>SNCPUSetBank\<close> does.
  A heap says which cells exist and what they hold. A load from or a store to a cell that does
  not exist is undefined in C; it is \<^const>\<open>None\<close> here.
\<close>

type_synonym ptr = "nat \<times> int"
type_synonym heap = "ptr \<rightharpoonup> u8"

definition ptr_add :: "ptr \<Rightarrow> int \<Rightarrow> ptr" where
  "ptr_add p i = (fst p, snd p + i)"

definition hload :: "heap \<Rightarrow> ptr \<Rightarrow> u8 option" where
  "hload h p = h p"

definition hstore :: "heap \<Rightarrow> ptr \<Rightarrow> u8 \<Rightarrow> heap option" where
  "hstore h p v = (case h p of None \<Rightarrow> None | Some _ \<Rightarrow> Some (h(p \<mapsto> v)))"

text \<open>\<open>n\<close> consecutive bytes, as \<^verbatim>\<open>memcpy\<close> reads them.\<close>

fun hload_bytes :: "heap \<Rightarrow> ptr \<Rightarrow> nat \<Rightarrow> u8 list option" where
  "hload_bytes h p 0 = Some []"
| "hload_bytes h p (Suc n) =
     do { v \<leftarrow> hload h p; vs \<leftarrow> hload_bytes h (ptr_add p 1) n; Some (v # vs) }"

text \<open>All cells of a range of addresses exist below a (rebased) pointer.\<close>

definition cells :: "heap \<Rightarrow> ptr \<Rightarrow> nat \<Rightarrow> nat \<Rightarrow> bool" where
  "cells h p lo hi \<longleftrightarrow> (\<forall>a \<in> {lo..<hi}. ptr_add p (int a) \<in> dom h)"

lemma hstore_SomeD: "hstore h p v = Some h' \<Longrightarrow> h' = h(p \<mapsto> v) \<and> dom h' = dom h"
  by (auto simp: hstore_def split: option.splits if_splits)

lemma hstore_in_dom: "p \<in> dom h \<Longrightarrow> hstore h p v = Some (h(p \<mapsto> v))"
  by (auto simp: hstore_def)

lemma cells_dom_cong: "dom h' = dom h \<Longrightarrow> cells h' p a b = cells h p a b"
  by (simp add: cells_def)

lemma cells_mono: "cells h p a b \<Longrightarrow> a \<le> a' \<Longrightarrow> b' \<le> b \<Longrightarrow> cells h p a' b'"
  by (auto simp: cells_def)

lemma cells_load: "cells h p a b \<Longrightarrow> a \<le> i \<Longrightarrow> i < b \<Longrightarrow> \<exists>v. hload h (ptr_add p (int i)) = Some v"
  by (auto simp: cells_def hload_def)

end
