(* ===== verification/Sn_Cpu.thy ===== *)
theory Sn_Cpu
  imports Host_Memory
begin

text \<open>
  The 65816 processor state and its memory interface:
  \<^verbatim>\<open>SNESticle/Source/common/sncpudefs.h\<close>, \<^verbatim>\<open>sncpu.h\<close> and \<^verbatim>\<open>sncpu.c\<close>.
  The struct \<^verbatim>\<open>SNCpuT\<close> is the record below; its field \<open>pUserData\<close> holds the client's
  state itself (the C field points to it), and the field \<open>hMem\<close>, which the struct does
  not have, is the host memory that the bank pointers address. An access outside
  \<^verbatim>\<open>Bank[SNCPU_BANK_NUM]\<close>, through an invalid pointer or through a null function pointer
  is undefined in C and is \<^const>\<open>None\<close> here, and so is a failed \<^verbatim>\<open>assert\<close>.
\<close>

section \<open>Constants of sncpudefs.h\<close>

definition SNCPU_FLAG_C :: u8 where "SNCPU_FLAG_C = 0x01"
definition SNCPU_FLAG_Z :: u8 where "SNCPU_FLAG_Z = 0x02"
definition SNCPU_FLAG_I :: u8 where "SNCPU_FLAG_I = 0x04"
definition SNCPU_FLAG_D :: u8 where "SNCPU_FLAG_D = 0x08"
definition SNCPU_FLAG_X :: u8 where "SNCPU_FLAG_X = 0x10"
definition SNCPU_FLAG_M :: u8 where "SNCPU_FLAG_M = 0x20"
definition SNCPU_FLAG_V :: u8 where "SNCPU_FLAG_V = 0x40"
definition SNCPU_FLAG_N :: u8 where "SNCPU_FLAG_N = 0x80"
definition SNCPU_FLAG_B :: u8 where "SNCPU_FLAG_B = 0x10"

lemmas flag_defs =
  SNCPU_FLAG_C_def SNCPU_FLAG_Z_def SNCPU_FLAG_I_def SNCPU_FLAG_D_def SNCPU_FLAG_X_def
  SNCPU_FLAG_M_def SNCPU_FLAG_V_def SNCPU_FLAG_N_def SNCPU_FLAG_B_def

definition SNCPU_VECTORE_IRQ :: u32 where "SNCPU_VECTORE_IRQ = 0x00FFFE"
definition SNCPU_VECTORE_NMI :: u32 where "SNCPU_VECTORE_NMI = 0x00FFFA"
definition SNCPU_VECTOR_IRQ :: u32 where "SNCPU_VECTOR_IRQ = 0x00FFEE"
definition SNCPU_VECTOR_NMI :: u32 where "SNCPU_VECTOR_NMI = 0x00FFEA"
definition SNCPU_VECTOR_RESET :: u32 where "SNCPU_VECTOR_RESET = 0x00FFFC"

lemmas vector_defs =
  SNCPU_VECTORE_IRQ_def SNCPU_VECTORE_NMI_def SNCPU_VECTOR_IRQ_def SNCPU_VECTOR_NMI_def
  SNCPU_VECTOR_RESET_def

definition SNCPU_SIGNAL_NMI :: u8 where "SNCPU_SIGNAL_NMI = 0x80"
definition SNCPU_SIGNAL_NMIEDGE :: u8 where "SNCPU_SIGNAL_NMIEDGE = 0x40"
definition SNCPU_SIGNAL_DMA :: u8 where "SNCPU_SIGNAL_DMA = 0x08"
definition SNCPU_SIGNAL_IRQ :: u8 where "SNCPU_SIGNAL_IRQ = 0x04"
definition SNCPU_SIGNAL_WAI :: u8 where "SNCPU_SIGNAL_WAI = 0x02"

lemmas signal_defs =
  SNCPU_SIGNAL_NMI_def SNCPU_SIGNAL_NMIEDGE_def SNCPU_SIGNAL_DMA_def SNCPU_SIGNAL_IRQ_def
  SNCPU_SIGNAL_WAI_def

definition SNCPU_MEM_SIZE :: u32 where "SNCPU_MEM_SIZE = 0x1010000"
definition SNCPU_BANK_SHIFT :: nat where "SNCPU_BANK_SHIFT = 13"
definition SNCPU_BANK_SIZE :: u32 where "SNCPU_BANK_SIZE = push_bit SNCPU_BANK_SHIFT 1"
definition SNCPU_BANK_NUM :: nat where "SNCPU_BANK_NUM = 0x1010000 div 0x2000"
definition SNCPU_BANK_MASK :: u32 where "SNCPU_BANK_MASK = SNCPU_BANK_SIZE - 1"
definition SNCPU_CYCLE_SLOW :: int where "SNCPU_CYCLE_SLOW = 8"
definition SNCPU_CYCLE_FAST :: int where "SNCPU_CYCLE_FAST = 6"

lemma SNCPU_BANK_NUM_eq [simp]: "SNCPU_BANK_NUM = 2056"
  by (simp add: SNCPU_BANK_NUM_def)

lemma SNCPU_BANK_SIZE_eq [simp]: "SNCPU_BANK_SIZE = 0x2000"
  by (simp add: SNCPU_BANK_SIZE_def SNCPU_BANK_SHIFT_def)

lemma SNCPU_BANK_MASK_eq [simp]: "SNCPU_BANK_MASK = 0x1FFF"
  by (simp add: SNCPU_BANK_MASK_def)

section \<open>The processor state of sncpu.h\<close>

type_synonym SNRegU = u16

record SNCpuRegsT =
  rA :: SNRegU
  rX :: SNRegU
  rY :: SNRegU
  rS :: SNRegU
  rP :: u8
  rE :: u8
  rDP :: u16
  rPC :: u32
  rDB :: u32

text \<open>
  A function pointer of a bank: null, the default handler of \<^verbatim>\<open>sncpu.c\<close>, or a handler the
  client has installed with \<^verbatim>\<open>SNCPUSetTrap\<close>.
\<close>

datatype trapfn = NullFn | DefaultFn | UserFn nat

record SNCpuBankT =
  pMem :: "ptr option"
  pReadTrapFunc :: trapfn
  pWriteTrapFunc :: trapfn
  uBankCycle :: u8
  bRAM :: u8

record 'w SNCpuT =
  Regs :: SNCpuRegsT
  Cycles :: int
  Counter :: "int list"
  pUserData :: 'w
  nAbortCycles :: int
  bRunning :: bool
  uSignal :: u8
  Bank :: "nat \<Rightarrow> SNCpuBankT"
  hMem :: heap

text \<open>The code of the client's handlers, a parameter of everything that can reach a trap.\<close>

record 'w traps =
  rtrap :: "nat \<Rightarrow> 'w SNCpuT \<Rightarrow> u32 \<Rightarrow> (u8 \<times> 'w SNCpuT) option"
  wtrap :: "nat \<Rightarrow> 'w SNCpuT \<Rightarrow> u32 \<Rightarrow> u8 \<Rightarrow> 'w SNCpuT option"

definition u_SNCPUDefaultRead :: "'w SNCpuT \<Rightarrow> u32 \<Rightarrow> u8 \<times> 'w SNCpuT" where
  "u_SNCPUDefaultRead c a = (0xFF, c)"

definition u_SNCPUDefaultWrite :: "'w SNCpuT \<Rightarrow> u32 \<Rightarrow> u8 \<Rightarrow> 'w SNCpuT" where
  "u_SNCPUDefaultWrite c a v = c"

text \<open>Calling through a function pointer.\<close>

fun call_read :: "'w traps \<Rightarrow> trapfn \<Rightarrow> 'w SNCpuT \<Rightarrow> u32 \<Rightarrow> (u8 \<times> 'w SNCpuT) option" where
  "call_read T NullFn c a = None"
| "call_read T DefaultFn c a = Some (u_SNCPUDefaultRead c a)"
| "call_read T (UserFn k) c a = rtrap T k c a"

fun call_write :: "'w traps \<Rightarrow> trapfn \<Rightarrow> 'w SNCpuT \<Rightarrow> u32 \<Rightarrow> u8 \<Rightarrow> 'w SNCpuT option" where
  "call_write T NullFn c a v = None"
| "call_write T DefaultFn c a v = Some (u_SNCPUDefaultWrite c a v)"
| "call_write T (UserFn k) c a v = wtrap T k c a v"

section \<open>Reset\<close>

definition SNCPUResetCounters :: "'w SNCpuT \<Rightarrow> 'w SNCpuT" where
  "SNCPUResetCounters c = c\<lparr>Cycles := 0, nAbortCycles := 0, Counter := [0, 0, 0, 0]\<rparr>"

definition SNCPUResetRegs :: "'w SNCpuT \<Rightarrow> 'w SNCpuT" where
  "SNCPUResetRegs c = c\<lparr>Regs := (Regs c)\<lparr>rA := 0, rX := 0, rY := 0, rS := 0,
     rP := SNCPU_FLAG_I, rPC := 0, rDP := 0, rDB := 0\<rparr>\<rparr>"

section \<open>Configuring the banks\<close>

text \<open>
  The loop \<^verbatim>\<open>while ((nBanks > 0) && (iBank < SNCPU_BANK_NUM))\<close> that the four set
  functions share; \<open>f\<close> is its body, which writes one bank.
\<close>

fun bank_loop :: "(SNCpuBankT \<Rightarrow> SNCpuBankT) \<Rightarrow> nat \<Rightarrow> nat \<Rightarrow> (nat \<Rightarrow> SNCpuBankT) \<Rightarrow> (nat \<Rightarrow> SNCpuBankT)" where
  "bank_loop f iBank 0 bs = bs"
| "bank_loop f iBank (Suc n) bs =
     (if iBank < SNCPU_BANK_NUM then bank_loop f (Suc iBank) n (bs(iBank := f (bs iBank))) else bs)"

definition bank_update :: "(SNCpuBankT \<Rightarrow> SNCpuBankT) \<Rightarrow> 'w SNCpuT \<Rightarrow> u32 \<Rightarrow> u32 \<Rightarrow> 'w SNCpuT option" where
  "bank_update f c Addr Size =
     (if Size AND SNCPU_BANK_MASK = 0 \<and> Addr AND SNCPU_BANK_MASK = 0
      then let iBank = unat (drop_bit SNCPU_BANK_SHIFT Addr);
               nBanks = unat (drop_bit SNCPU_BANK_SHIFT Size)
           in Some (c\<lparr>Bank := bank_loop f iBank nBanks (Bank c)\<rparr>)
      else None)"

definition SNCPUSetBank :: "'w SNCpuT \<Rightarrow> u32 \<Rightarrow> u32 \<Rightarrow> ptr option \<Rightarrow> bool \<Rightarrow> 'w SNCpuT option" where
  "SNCPUSetBank c Addr Size p ram =
     (let ram = (if p = None then False else ram)
      in bank_update (\<lambda>b. b\<lparr>pMem := map_option (\<lambda>q. ptr_add q (- uint Addr)) p,
                             bRAM := (if ram then 0xFF else 0)\<rparr>) c Addr Size)"

definition SNCPUSetTrap :: "'w SNCpuT \<Rightarrow> u32 \<Rightarrow> u32 \<Rightarrow> trapfn \<Rightarrow> trapfn \<Rightarrow> 'w SNCpuT option" where
  "SNCPUSetTrap c Addr Size pRead pWrite =
     (let pRead = (if pRead = NullFn then DefaultFn else pRead);
          pWrite = (if pWrite = NullFn then DefaultFn else pWrite)
      in bank_update (\<lambda>b. b\<lparr>pReadTrapFunc := pRead, pWriteTrapFunc := pWrite,
                             pMem := None, bRAM := 0\<rparr>) c Addr Size)"

definition SNCPUSetMemSpeed :: "'w SNCpuT \<Rightarrow> u32 \<Rightarrow> u32 \<Rightarrow> u32 \<Rightarrow> 'w SNCpuT option" where
  "SNCPUSetMemSpeed c Addr Size uCycles =
     bank_update (\<lambda>b. b\<lparr>uBankCycle := ucast uCycles\<rparr>) c Addr Size"

definition SNCPUSetRomSpeed :: "'w SNCpuT \<Rightarrow> u32 \<Rightarrow> u32 \<Rightarrow> u32 \<Rightarrow> 'w SNCpuT option" where
  "SNCPUSetRomSpeed c Addr Size uCycles =
     bank_update (\<lambda>b. if pMem b \<noteq> None \<and> bRAM b = 0
                       then b\<lparr>uBankCycle := ucast uCycles\<rparr> else b) c Addr Size"

text \<open>
  \<^verbatim>\<open>memset(pCpu, 0, sizeof *pCpu)\<close>: every field zero or null. The client's state and the
  host memory are not part of the struct and stay.
\<close>

definition zero_regs :: SNCpuRegsT where
  "zero_regs = \<lparr>rA = 0, rX = 0, rY = 0, rS = 0, rP = 0, rE = 0, rDP = 0, rPC = 0, rDB = 0\<rparr>"

definition zero_bank :: SNCpuBankT where
  "zero_bank = \<lparr>pMem = None, pReadTrapFunc = NullFn, pWriteTrapFunc = NullFn, uBankCycle = 0, bRAM = 0\<rparr>"

definition SNCPUNew :: "'w SNCpuT \<Rightarrow> 'w SNCpuT option" where
  "SNCPUNew c =
     do { let c = c\<lparr>Regs := zero_regs, Cycles := 0, Counter := [0, 0, 0, 0], nAbortCycles := 0,
                     bRunning := False, uSignal := 0, Bank := (\<lambda>_. zero_bank)\<rparr>;
          c \<leftarrow> SNCPUSetBank c 0 SNCPU_MEM_SIZE None False;
          c \<leftarrow> SNCPUSetTrap c 0 SNCPU_MEM_SIZE NullFn NullFn;
          c \<leftarrow> SNCPUSetMemSpeed c 0 SNCPU_MEM_SIZE (of_int SNCPU_CYCLE_SLOW);
          Some (SNCPUResetCounters (SNCPUResetRegs c)) }"

section \<open>Memory access\<close>

text \<open>The index \<^verbatim>\<open>Addr >> SNCPU_BANK_SHIFT\<close> into \<^verbatim>\<open>Bank[]\<close>.\<close>

definition bank_index :: "u32 \<Rightarrow> nat" where
  "bank_index a = unat (drop_bit SNCPU_BANK_SHIFT a)"

definition bank_at :: "'w SNCpuT \<Rightarrow> u32 \<Rightarrow> SNCpuBankT option" where
  "bank_at c a = (if bank_index a < SNCPU_BANK_NUM then Some (Bank c (bank_index a)) else None)"

definition SNCPUPeek8 :: "'w SNCpuT \<Rightarrow> u32 \<Rightarrow> u8 option" where
  "SNCPUPeek8 c Addr =
     do { b \<leftarrow> bank_at c Addr;
          (case pMem b of
             Some p \<Rightarrow> hload (hMem c) (ptr_add p (uint Addr))
           | None \<Rightarrow> Some 0xFF) }"

definition SNCPURead8 :: "'w traps \<Rightarrow> 'w SNCpuT \<Rightarrow> u32 \<Rightarrow> (u8 \<times> 'w SNCpuT) option" where
  "SNCPURead8 T c Addr =
     do { b \<leftarrow> bank_at c Addr;
          (case pMem b of
             Some p \<Rightarrow> do { v \<leftarrow> hload (hMem c) (ptr_add p (uint Addr)); Some (v, c) }
           | None \<Rightarrow> call_read T (pReadTrapFunc b) c Addr) }"

definition SNCPURead16 :: "'w traps \<Rightarrow> 'w SNCpuT \<Rightarrow> u32 \<Rightarrow> (u16 \<times> 'w SNCpuT) option" where
  "SNCPURead16 T c Addr =
     do { (l, c) \<leftarrow> SNCPURead8 T c Addr;
          (h, c) \<leftarrow> SNCPURead8 T c (Addr + 1);
          Some (ucast (join16 h l), c) }"

definition SNCPURead24 :: "'w traps \<Rightarrow> 'w SNCpuT \<Rightarrow> u32 \<Rightarrow> (u32 \<times> 'w SNCpuT) option" where
  "SNCPURead24 T c Addr =
     do { (l, c) \<leftarrow> SNCPURead8 T c (Addr + 0);
          (h, c) \<leftarrow> SNCPURead8 T c (Addr + 1);
          (b, c) \<leftarrow> SNCPURead8 T c (Addr + 2);
          Some (join24 b h l, c) }"

text \<open>
  \<^verbatim>\<open>SNCPUReadMem\<close> as it is when \<^verbatim>\<open>SNCPU_FASTREADMEM\<close> is false: one byte at a
  time. The bytes written to \<^verbatim>\<open>pBuffer\<close> are the returned list.
\<close>

fun SNCPUReadMem_slow :: "'w traps \<Rightarrow> 'w SNCpuT \<Rightarrow> u32 \<Rightarrow> nat \<Rightarrow> (u8 list \<times> 'w SNCpuT) option" where
  "SNCPUReadMem_slow T c Addr 0 = Some ([], c)"
| "SNCPUReadMem_slow T c Addr (Suc nBytes) =
     do { (v, c) \<leftarrow> SNCPURead8 T c Addr;
          (vs, c) \<leftarrow> SNCPUReadMem_slow T c (Addr + 1) nBytes;
          Some (v # vs, c) }"

text \<open>
  The compiled version copies up to the end of a bank at a time. Its inner loop over a trapped
  bank calls the handler of \<^verbatim>\<open>pCpu->Bank[iBank]\<close> afresh for each byte.
\<close>

fun trap_bytes :: "'w traps \<Rightarrow> nat \<Rightarrow> 'w SNCpuT \<Rightarrow> u32 \<Rightarrow> nat \<Rightarrow> (u8 list \<times> 'w SNCpuT) option" where
  "trap_bytes T iBank c a 0 = Some ([], c)"
| "trap_bytes T iBank c a (Suc n) =
     do { (v, c) \<leftarrow> call_read T (pReadTrapFunc (Bank c iBank)) c a;
          (vs, c) \<leftarrow> trap_bytes T iBank c (a + 1) n;
          Some (v # vs, c) }"

text \<open>
  Bytes up to the end of the bank of \<open>a\<close>: \<^verbatim>\<open>SNCPU_BANK_SIZE - (uAddr & (SNCPU_BANK_SIZE-1))\<close>.
\<close>

definition bank_bytes :: "u32 \<Rightarrow> nat" where
  "bank_bytes a = unat (SNCPU_BANK_SIZE - (a AND (SNCPU_BANK_SIZE - 1)))"

lemma bank_bytes_eq: "bank_bytes a = 8192 - unat a mod 8192"
proof -
  have m: "a AND 8191 = take_bit 13 a"
    by (simp add: take_bit_eq_mask mask_eq_exp_minus_1)
  have "unat (take_bit 13 a) = unat a mod 8192"
    by (simp add: unsigned_take_bit_eq take_bit_nat_def)
  moreover from this have "take_bit 13 a \<le> 8192"
    by (simp add: word_le_nat_alt)
  ultimately show ?thesis
    by (simp add: bank_bytes_def m unat_sub)
qed

lemma bank_bytes_pos [simp]: "0 < bank_bytes a"
  by (simp add: bank_bytes_eq)

function SNCPUReadMem :: "'w traps \<Rightarrow> 'w SNCpuT \<Rightarrow> u32 \<Rightarrow> nat \<Rightarrow> (u8 list \<times> 'w SNCpuT) option" where
  "SNCPUReadMem T c uAddr nTotalBytes =
     (if nTotalBytes > 0 then
        let nBytes = min nTotalBytes (bank_bytes uAddr);
            iBank = bank_index uAddr
        in do { b \<leftarrow> bank_at c uAddr;
                (vs, c) \<leftarrow> (case pMem b of
                    Some p \<Rightarrow> do { vs \<leftarrow> hload_bytes (hMem c) (ptr_add p (uint uAddr)) nBytes;
                                    Some (vs, c) }
                  | None \<Rightarrow> trap_bytes T iBank c uAddr nBytes);
                (ws, c) \<leftarrow> SNCPUReadMem T c (uAddr + of_nat nBytes) (nTotalBytes - nBytes);
                Some (vs @ ws, c) }
      else Some ([], c))"
  by pat_completeness auto
termination
  by (relation "measure (\<lambda>(T, c, a, n). n)") (auto simp: min_def)

declare SNCPUReadMem.simps [simp del]

definition SNCPUWrite8 :: "'w traps \<Rightarrow> 'w SNCpuT \<Rightarrow> u32 \<Rightarrow> u8 \<Rightarrow> 'w SNCpuT option" where
  "SNCPUWrite8 T c Addr Data =
     do { b \<leftarrow> bank_at c Addr;
          (if bRAM b \<noteq> 0
           then do { p \<leftarrow> pMem b;
                     m \<leftarrow> hstore (hMem c) (ptr_add p (uint Addr)) Data;
                     Some (c\<lparr>hMem := m\<rparr>) }
           else call_write T (pWriteTrapFunc b) c Addr Data) }"

definition SNCPUWrite16 :: "'w traps \<Rightarrow> 'w SNCpuT \<Rightarrow> u32 \<Rightarrow> u16 \<Rightarrow> 'w SNCpuT option" where
  "SNCPUWrite16 T c Addr Data =
     do { c \<leftarrow> SNCPUWrite8 T c (Addr + 0) (lo8 Data);
          SNCPUWrite8 T c (Addr + 1) (hi8 Data) }"

section \<open>The stack\<close>

text \<open>Stepping the stack pointer: 8 bits in emulation mode, 16 bits otherwise.\<close>

definition stack_dec :: "SNCpuRegsT \<Rightarrow> SNCpuRegsT" where
  "stack_dec r = (if rE r \<noteq> 0 then r\<lparr>rS := set_lo8 (rS r) (lo8 (rS r) - 1)\<rparr>
                  else r\<lparr>rS := rS r - 1\<rparr>)"

definition stack_inc :: "SNCpuRegsT \<Rightarrow> SNCpuRegsT" where
  "stack_inc r = (if rE r \<noteq> 0 then r\<lparr>rS := set_lo8 (rS r) (lo8 (rS r) + 1)\<rparr>
                  else r\<lparr>rS := rS r + 1\<rparr>)"

definition SNCPUPush8 :: "'w traps \<Rightarrow> 'w SNCpuT \<Rightarrow> u8 \<Rightarrow> 'w SNCpuT option" where
  "SNCPUPush8 T c Data =
     do { c \<leftarrow> SNCPUWrite8 T c (ucast (rS (Regs c))) Data;
          Some (c\<lparr>Regs := stack_dec (Regs c)\<rparr>) }"

definition SNCPUPush16 :: "'w traps \<Rightarrow> 'w SNCpuT \<Rightarrow> u16 \<Rightarrow> 'w SNCpuT option" where
  "SNCPUPush16 T c Data =
     do { c \<leftarrow> SNCPUPush8 T c (hi8 Data);
          SNCPUPush8 T c (lo8 Data) }"

definition SNCPUPush24 :: "'w traps \<Rightarrow> 'w SNCpuT \<Rightarrow> u32 \<Rightarrow> 'w SNCpuT option" where
  "SNCPUPush24 T c Data =
     do { c \<leftarrow> SNCPUPush8 T c (ucast (drop_bit 16 Data));
          c \<leftarrow> SNCPUPush8 T c (ucast (drop_bit 8 Data));
          SNCPUPush8 T c (ucast (Data AND 0xFF)) }"

definition SNCPUPop8 :: "'w traps \<Rightarrow> 'w SNCpuT \<Rightarrow> (u8 \<times> 'w SNCpuT) option" where
  "SNCPUPop8 T c =
     (let c = c\<lparr>Regs := stack_inc (Regs c)\<rparr>
      in SNCPURead8 T c (ucast (rS (Regs c))))"

definition SNCPUPop16 :: "'w traps \<Rightarrow> 'w SNCpuT \<Rightarrow> (u16 \<times> 'w SNCpuT) option" where
  "SNCPUPop16 T c =
     do { (l, c) \<leftarrow> SNCPUPop8 T c;
          (h, c) \<leftarrow> SNCPUPop8 T c;
          Some (ucast (join16 h l), c) }"

definition SNCPUPop24 :: "'w traps \<Rightarrow> 'w SNCpuT \<Rightarrow> (u32 \<times> 'w SNCpuT) option" where
  "SNCPUPop24 T c =
     do { (l, c) \<leftarrow> SNCPUPop8 T c;
          (h, c) \<leftarrow> SNCPUPop8 T c;
          (b, c) \<leftarrow> SNCPUPop8 T c;
          Some (join24 b h l, c) }"

definition SNCPUReset :: "'w traps \<Rightarrow> 'w SNCpuT \<Rightarrow> bool \<Rightarrow> 'w SNCpuT option" where
  "SNCPUReset T c bHardReset =
     (let c = (if bHardReset then SNCPUResetRegs (SNCPUResetCounters c) else c);
          c = c\<lparr>uSignal := 0, Regs := (Regs c)\<lparr>rP := SNCPU_FLAG_M OR SNCPU_FLAG_X OR SNCPU_FLAG_I,
                                                 rE := 1\<rparr>\<rparr>
      in do { (w, c) \<leftarrow> SNCPURead16 T c SNCPU_VECTOR_RESET;
              Some (c\<lparr>Regs := (Regs c)\<lparr>rPC := ucast w, rS := set_hi8 (rS (Regs c)) 0x01\<rparr>\<rparr>) })"

end
