(* ===== verification/Sn_Cpu_Bus.thy ===== *)
theory Sn_Cpu_Bus
  imports Sn_Cpu
begin

text \<open>
  Correctness of the memory interface of \<^verbatim>\<open>sncpu.c\<close>: what the bank configuration functions
  establish, that accesses below \<^verbatim>\<open>SNCPU_MEM_SIZE\<close> never leave the bank table or the
  memory behind it, what a read returns after a write, that the bank-at-a-time
  \<^verbatim>\<open>SNCPUReadMem\<close> equals the byte-at-a-time one, and that the stack is a stack.
\<close>

section \<open>The banks an address range configures\<close>

lemma bank_loop_eq:
  "bank_loop f i n bs = (\<lambda>j. if i \<le> j \<and> j < i + n \<and> j < 2056 then f (bs j) else bs j)"
  by (induction n arbitrary: i bs) (auto simp: fun_eq_iff)

lemma bank_update_eq:
  "bank_update f c Addr Size =
     (if Size AND 0x1FFF = 0 \<and> Addr AND 0x1FFF = 0
      then Some (c\<lparr>Bank := (\<lambda>j. if bank_index Addr \<le> j \<and> j < bank_index Addr + bank_index Size \<and> j < 2056
                                   then f (Bank c j) else Bank c j)\<rparr>)
      else None)"
  by (simp add: bank_update_def bank_index_def bank_loop_eq Let_def)

lemma bank_index_eq: "bank_index a = unat a div 8192"
proof -
  have "unat (drop_bit 13 a) = drop_bit 13 (unat a)"
    by (rule unat_drop_bit_eq)
  then show ?thesis
    by (simp only: bank_index_def SNCPU_BANK_SHIFT_def drop_bit_nat_def) simp
qed

lemma bank_range: "bank_index a * 8192 \<le> unat a" "unat a < Suc (bank_index a) * 8192"
  using dividend_less_div_times [of 8192 "unat a"] by (simp_all add: bank_index_eq)

lemma bank_index_lt: "unat a < 0x1010000 \<Longrightarrow> bank_index a < 2056"
  by (simp add: bank_index_eq)

lemma bank_index_lt_iff: "bank_index a < 2056 \<longleftrightarrow> unat a < 0x1010000"
  by (simp add: bank_index_eq div_less_iff_less_mult)

lemma bank_at_Some: "unat a < 0x1010000 \<Longrightarrow> bank_at c a = Some (Bank c (bank_index a))"
  by (simp add: bank_at_def bank_index_lt)

lemma bank_at_None: "0x1010000 \<le> unat a \<Longrightarrow> bank_at c a = None"
  by (simp add: bank_at_def bank_index_lt_iff flip: not_less)

section \<open>Well-formed bank tables\<close>

text \<open>
  Every bank costs cycles, can be written (to memory or through a handler) and read (from
  existing cells or through a handler).
\<close>

definition bank_ok :: "heap \<Rightarrow> nat \<Rightarrow> SNCpuBankT \<Rightarrow> bool" where
  "bank_ok m i b \<longleftrightarrow>
     uBankCycle b \<noteq> 0 \<and> (bRAM b = 0 \<longrightarrow> pWriteTrapFunc b \<noteq> NullFn) \<and>
     (case pMem b of None \<Rightarrow> bRAM b = 0 \<and> pReadTrapFunc b \<noteq> NullFn
      | Some p \<Rightarrow> cells m p (i * 0x2000) (Suc i * 0x2000))"

definition bus_ok :: "'w SNCpuT \<Rightarrow> bool" where
  "bus_ok c \<longleftrightarrow> (\<forall>i < SNCPU_BANK_NUM. bank_ok (hMem c) i (Bank c i))"

lemma bank_ok_dom_cong: "dom m' = dom m \<Longrightarrow> bank_ok m' i b = bank_ok m i b"
  by (cases "pMem b") (simp_all add: bank_ok_def cells_def)

lemma bus_ok_upd [simp]:
  "bus_ok (c\<lparr>Regs := r\<rparr>) = bus_ok c"
  "bus_ok (c\<lparr>Cycles := n\<rparr>) = bus_ok c"
  "bus_ok (c\<lparr>Counter := k\<rparr>) = bus_ok c"
  "bus_ok (c\<lparr>uSignal := s\<rparr>) = bus_ok c"
  "bus_ok (c\<lparr>nAbortCycles := n\<rparr>) = bus_ok c"
  "bus_ok (c\<lparr>bRunning := b\<rparr>) = bus_ok c"
  by (simp_all add: bus_ok_def)

lemma bus_okD: "bus_ok c \<Longrightarrow> unat a < 0x1010000 \<Longrightarrow> bank_ok (hMem c) (bank_index a) (Bank c (bank_index a))"
  by (simp add: bus_ok_def bank_index_lt)

lemma bus_ok_hMem: "bus_ok c \<Longrightarrow> dom m = dom (hMem c) \<Longrightarrow> bus_ok (c\<lparr>hMem := m\<rparr>)"
  by (simp add: bus_ok_def bank_ok_dom_cong [of m "hMem c"])

lemma bus_ok_bank_update:
  assumes "bus_ok c" and "bank_update f c Addr Size = Some c'"
    and "\<And>i. bank_index Addr \<le> i \<Longrightarrow> i < bank_index Addr + bank_index Size \<Longrightarrow> i < 2056 \<Longrightarrow>
           bank_ok (hMem c) i (Bank c i) \<Longrightarrow> bank_ok (hMem c) i (f (Bank c i))"
  shows "bus_ok c'"
  using assms by (auto simp: bus_ok_def bank_update_eq split: if_splits)

lemma align_div: "a AND 0x1FFF = (0 :: u32) \<Longrightarrow> bank_index a * 8192 = unat a"
proof -
  assume "a AND 0x1FFF = 0"
  then have "take_bit 13 a = 0"
    by (simp add: take_bit_eq_mask mask_eq_exp_minus_1)
  then have "unat (take_bit 13 a) = 0" by simp
  then have "unat a mod 8192 = 0"
    by (simp add: unsigned_take_bit_eq take_bit_nat_def)
  then show ?thesis by (simp add: bank_index_eq mult.commute mod_eq_0_iff_dvd)
qed

text \<open>
  Mapping a memory block whose cells cover the range keeps the table well-formed, if the
  handlers are set up (as they are after \<^verbatim>\<open>SNCPUNew\<close>).
\<close>

definition handlers_set :: "'w SNCpuT \<Rightarrow> bool" where
  "handlers_set c \<longleftrightarrow> (\<forall>i < SNCPU_BANK_NUM. pReadTrapFunc (Bank c i) \<noteq> NullFn
                                              \<and> pWriteTrapFunc (Bank c i) \<noteq> NullFn)"

lemma SNCPUSetBank_ok:
  assumes "bus_ok c" and "handlers_set c" and "SNCPUSetBank c Addr Size p ram = Some c'"
    and "\<And>q. p = Some q \<Longrightarrow> cells (hMem c) q 0 (unat Size)"
  shows "bus_ok c' \<and> handlers_set c'"
proof
  have al: "Size AND 0x1FFF = 0" "Addr AND 0x1FFF = 0"
    using assms(3) by (auto simp: SNCPUSetBank_def bank_update_eq split: if_splits)
  note idx = align_div [OF al(1)] align_div [OF al(2)]
  show "bus_ok c'"
  proof (rule bus_ok_bank_update [OF assms(1) assms(3) [unfolded SNCPUSetBank_def Let_def]])
    fix i
    assume 1: "bank_index Addr \<le> i" "i < bank_index Addr + bank_index Size" "i < 2056"
      "bank_ok (hMem c) i (Bank c i)"
    show "bank_ok (hMem c) i (Bank c i\<lparr>pMem := map_option (\<lambda>q. ptr_add q (- uint Addr)) p,
            bRAM := if if p = None then False else ram then 0xFF else 0\<rparr>)"
    proof (cases p)
      case None
      with 1 assms(2) show ?thesis by (simp add: bank_ok_def handlers_set_def)
    next
      case (Some q)
      have "ptr_add (ptr_add q (- uint Addr)) (int a) \<in> dom (hMem c)"
        if "i * 8192 \<le> a" "a < Suc i * 8192" for a
      proof -
        have lo: "bank_index Addr * 8192 \<le> i * 8192" and hi: "Suc i * 8192 \<le> (bank_index Addr + bank_index Size) * 8192"
          using 1 by (intro mult_le_mono; simp)+
        have "unat Addr \<le> a" "a - unat Addr < unat Size"
          using that lo hi idx by (simp_all add: algebra_simps)
        then have "a - unat Addr \<in> {0..<unat Size}" by simp
        then have "ptr_add q (int (a - unat Addr)) \<in> dom (hMem c)"
          using assms(4) [OF Some] unfolding cells_def by blast
        moreover have "int (a - unat Addr) = - uint Addr + int a"
          using \<open>unat Addr \<le> a\<close> by (simp add: of_nat_diff)
        ultimately show ?thesis by (simp add: ptr_add_def algebra_simps)
      qed
      with 1 Some assms(2) show ?thesis
        by (auto simp: bank_ok_def handlers_set_def cells_def)
    qed
  qed
  show "handlers_set c'"
    using assms(2,3) by (auto simp: SNCPUSetBank_def bank_update_eq handlers_set_def split: if_splits)
qed

lemma SNCPUSetTrap_ok:
  assumes "bus_ok c" and "handlers_set c" and "SNCPUSetTrap c Addr Size pr pw = Some c'"
  shows "bus_ok c' \<and> handlers_set c'"
proof
  show "bus_ok c'"
    by (rule bus_ok_bank_update [OF assms(1) assms(3) [unfolded SNCPUSetTrap_def Let_def]])
      (auto simp: bank_ok_def)
  show "handlers_set c'"
    using assms(2,3) by (auto simp: SNCPUSetTrap_def Let_def bank_update_eq handlers_set_def split: if_splits)
qed

lemma SNCPUSetMemSpeed_ok:
  assumes "bus_ok c" and "handlers_set c" and "SNCPUSetMemSpeed c Addr Size n = Some c'" and "ucast n \<noteq> (0 :: u8)"
  shows "bus_ok c' \<and> handlers_set c'"
proof
  show "bus_ok c'"
    by (rule bus_ok_bank_update [OF assms(1) assms(3) [unfolded SNCPUSetMemSpeed_def]])
      (use assms(4) in \<open>auto simp: bank_ok_def split: option.splits\<close>)
  show "handlers_set c'"
    using assms(2,3) by (auto simp: SNCPUSetMemSpeed_def bank_update_eq handlers_set_def split: if_splits)
qed

lemma SNCPUSetRomSpeed_ok:
  assumes "bus_ok c" and "handlers_set c" and "SNCPUSetRomSpeed c Addr Size n = Some c'" and "ucast n \<noteq> (0 :: u8)"
  shows "bus_ok c' \<and> handlers_set c'"
proof
  show "bus_ok c'"
    by (rule bus_ok_bank_update [OF assms(1) assms(3) [unfolded SNCPUSetRomSpeed_def]])
      (use assms(4) in \<open>auto simp: bank_ok_def split: option.splits\<close>)
  show "handlers_set c'"
    using assms(2,3) by (auto simp: SNCPUSetRomSpeed_def bank_update_eq handlers_set_def split: if_splits)
qed

lemma SNCPUNew_ok: "returns (SNCPUNew c) (\<lambda>c'. bus_ok c' \<and> handlers_set c'
     \<and> Regs c' = zero_regs\<lparr>rP := SNCPU_FLAG_I\<rparr> \<and> Cycles c' = 0 \<and> Counter c' = [0, 0, 0, 0]
     \<and> hMem c' = hMem c \<and> pUserData c' = pUserData c)"
  by (simp add: SNCPUNew_def SNCPUSetBank_def SNCPUSetTrap_def SNCPUSetMemSpeed_def bank_update_eq
      bank_index_eq SNCPU_MEM_SIZE_def SNCPUResetRegs_def SNCPUResetCounters_def bus_ok_def
      handlers_set_def bank_ok_def SNCPU_CYCLE_SLOW_def zero_regs_def Let_def)

section \<open>Accesses stay inside the bank table and the memory behind it\<close>

text \<open>
  What every access keeps: the machine invariant (the bank table and the client's part of it),
  the registers, and that the cycle counter is not refilled.
\<close>

definition machine_ok :: "('w \<Rightarrow> (nat \<Rightarrow> SNCpuBankT) \<Rightarrow> ptr set \<Rightarrow> bool) \<Rightarrow> 'w SNCpuT \<Rightarrow> bool" where
  "machine_ok winv c \<longleftrightarrow> bus_ok c \<and> length (Counter c) = 4 \<and> winv (pUserData c) (Bank c) (dom (hMem c))"

definition access :: "('w \<Rightarrow> (nat \<Rightarrow> SNCpuBankT) \<Rightarrow> ptr set \<Rightarrow> bool) \<Rightarrow> 'w SNCpuT \<Rightarrow> 'w SNCpuT \<Rightarrow> bool" where
  "access winv c c' \<longleftrightarrow> machine_ok winv c' \<and> Regs c' = Regs c \<and> nat (Cycles c') \<le> nat (Cycles c)"

lemma machine_ok_upd [simp]:
  "machine_ok winv (c\<lparr>Regs := r\<rparr>) = machine_ok winv c"
  "machine_ok winv (c\<lparr>Cycles := n\<rparr>) = machine_ok winv c"
  "length k = length (Counter c) \<Longrightarrow> machine_ok winv (c\<lparr>Counter := k\<rparr>) = machine_ok winv c"
  "machine_ok winv (c\<lparr>uSignal := s\<rparr>) = machine_ok winv c"
  "machine_ok winv (c\<lparr>nAbortCycles := n\<rparr>) = machine_ok winv c"
  "machine_ok winv (c\<lparr>bRunning := b\<rparr>) = machine_ok winv c"
  by (simp_all add: machine_ok_def)

lemma access_refl: "machine_ok winv c \<Longrightarrow> access winv c c"
  by (simp add: access_def)

lemma access_trans: "access winv c c' \<Longrightarrow> access winv c' c'' \<Longrightarrow> access winv c c''"
  by (auto simp: access_def)

text \<open>
  The contract of the client's handlers. A handler that a bank refers to, called for an address
  of that bank, is defined, keeps the machine invariant and the registers and does not refill
  the cycle counter (an abort may set a counter that is already negative to zero, which
  \<^const>\<open>nat\<close> does not see).
\<close>

locale trap_contract =
  fixes T :: "'w traps" and winv :: "'w \<Rightarrow> (nat \<Rightarrow> SNCpuBankT) \<Rightarrow> ptr set \<Rightarrow> bool"
  assumes rtrap_ok: "machine_ok winv c \<Longrightarrow> unat a < 0x1010000 \<Longrightarrow>
      pReadTrapFunc (Bank c (bank_index a)) = UserFn k \<Longrightarrow>
      returns (rtrap T k c a) (\<lambda>(v, c'). access winv c c')"
    and wtrap_ok: "machine_ok winv c \<Longrightarrow> unat a < 0x1010000 \<Longrightarrow>
      pWriteTrapFunc (Bank c (bank_index a)) = UserFn k \<Longrightarrow>
      returns (wtrap T k c a v) (access winv c)"
begin

lemma call_read_ok:
  assumes "machine_ok winv c" and "unat a < 0x1010000" and "pReadTrapFunc (Bank c (bank_index a)) \<noteq> NullFn"
  shows "returns (call_read T (pReadTrapFunc (Bank c (bank_index a))) c a) (\<lambda>(v, c'). access winv c c')"
  using assms rtrap_ok [OF assms(1,2)]
  by (cases "pReadTrapFunc (Bank c (bank_index a))") (auto simp: u_SNCPUDefaultRead_def access_refl)

lemma call_write_ok:
  assumes "machine_ok winv c" and "unat a < 0x1010000" and "pWriteTrapFunc (Bank c (bank_index a)) \<noteq> NullFn"
  shows "returns (call_write T (pWriteTrapFunc (Bank c (bank_index a))) c a v) (access winv c)"
  using assms wtrap_ok [OF assms(1,2)]
  by (cases "pWriteTrapFunc (Bank c (bank_index a))") (auto simp: u_SNCPUDefaultWrite_def access_refl)

lemma read8_ok:
  assumes "machine_ok winv c" and "unat a < 0x1010000"
  shows "returns (SNCPURead8 T c a) (\<lambda>(v, c'). access winv c c')"
proof -
  let ?b = "Bank c (bank_index a)"
  have ok: "bank_ok (hMem c) (bank_index a) ?b"
    using assms by (simp add: machine_ok_def bus_okD)
  show ?thesis
  proof (cases "pMem ?b")
    case None
    with ok call_read_ok [OF assms] show ?thesis
      by (simp add: SNCPURead8_def bank_at_Some assms bank_ok_def)
  next
    case (Some p)
    with ok have "cells (hMem c) p (bank_index a * 8192) (Suc (bank_index a) * 8192)"
      by (simp add: bank_ok_def)
    then have "\<exists>v. hload (hMem c) (ptr_add p (int (unat a))) = Some v"
      by (rule cells_load) (rule bank_range)+
    with Some assms show ?thesis
      by (auto simp: SNCPURead8_def bank_at_Some access_refl)
  qed
qed

lemma write8_ok:
  assumes "machine_ok winv c" and "unat a < 0x1010000"
  shows "returns (SNCPUWrite8 T c a v) (access winv c)"
proof -
  let ?b = "Bank c (bank_index a)"
  have ok: "bank_ok (hMem c) (bank_index a) ?b"
    using assms by (simp add: machine_ok_def bus_okD)
  show ?thesis
  proof (cases "bRAM ?b = 0")
    case True
    with ok call_write_ok [OF assms] show ?thesis
      by (simp add: SNCPUWrite8_def bank_at_Some assms bank_ok_def)
  next
    case False
    with ok obtain p where p: "pMem ?b = Some p" and c: "cells (hMem c) p (bank_index a * 8192) (Suc (bank_index a) * 8192)"
      by (cases "pMem ?b") (auto simp: bank_ok_def)
    from c have "\<exists>v. hload (hMem c) (ptr_add p (int (unat a))) = Some v"
      by (rule cells_load) (rule bank_range)+
    then have d: "ptr_add p (uint a) \<in> dom (hMem c)" by (auto simp: hload_def)
    then have "dom ((hMem c)(ptr_add p (uint a) \<mapsto> v)) = dom (hMem c)" by auto
    with assms(1) have "machine_ok winv (c\<lparr>hMem := (hMem c)(ptr_add p (uint a) \<mapsto> v)\<rparr>)"
      by (simp add: machine_ok_def bus_ok_hMem)
    with False p d show ?thesis
      by (simp add: SNCPUWrite8_def bank_at_Some assms hstore_in_dom access_def)
  qed
qed

end

section \<open>The handlers of sncpu.c satisfy the contract\<close>

text \<open>A client that installs no handler: every bank refers to the default ones or to memory.\<close>

definition no_traps :: "'w traps" where
  "no_traps = \<lparr>rtrap = (\<lambda>k c a. None), wtrap = (\<lambda>k c a v. None)\<rparr>"

definition default_only :: "'w \<Rightarrow> (nat \<Rightarrow> SNCpuBankT) \<Rightarrow> ptr set \<Rightarrow> bool" where
  "default_only w bs host \<longleftrightarrow> (\<forall>i k. i < SNCPU_BANK_NUM \<longrightarrow>
     pReadTrapFunc (bs i) \<noteq> UserFn k \<and> pWriteTrapFunc (bs i) \<noteq> UserFn k)"

interpretation default_traps: trap_contract no_traps default_only
  by unfold_locales (auto simp: machine_ok_def default_only_def bank_index_lt)

lemma SNCPUNew_default_only: "SNCPUNew c = Some c' \<Longrightarrow> default_only w (Bank c') host"
  by (auto simp: SNCPUNew_def SNCPUSetBank_def SNCPUSetTrap_def SNCPUSetMemSpeed_def bank_update_eq
      bank_index_eq SNCPU_MEM_SIZE_def SNCPUResetRegs_def SNCPUResetCounters_def default_only_def Let_def)

section \<open>Reads see writes\<close>

text \<open>Addresses backed by writable memory, and the host cell behind them.\<close>

definition host_cell :: "'w SNCpuT \<Rightarrow> u32 \<Rightarrow> ptr" where
  "host_cell c a = (case pMem (Bank c (bank_index a)) of Some p \<Rightarrow> ptr_add p (uint a) | None \<Rightarrow> (0, 0))"

definition ram_at :: "'w SNCpuT \<Rightarrow> u32 \<Rightarrow> bool" where
  "ram_at c a \<longleftrightarrow> unat a < 0x1010000 \<and> pMem (Bank c (bank_index a)) \<noteq> None
     \<and> bRAM (Bank c (bank_index a)) \<noteq> 0 \<and> host_cell c a \<in> dom (hMem c)"

definition host_content :: "'w SNCpuT \<Rightarrow> ptr \<Rightarrow> u8" where
  "host_content c p = (case hMem c p of Some v \<Rightarrow> v | None \<Rightarrow> 0)"

lemma SNCPURead8_ram: "ram_at c a \<Longrightarrow> SNCPURead8 T c a = Some (host_content c (host_cell c a), c)"
  by (auto simp: ram_at_def SNCPURead8_def bank_at_Some host_cell_def host_content_def hload_def)

lemma SNCPUWrite8_ram:
  "ram_at c a \<Longrightarrow> SNCPUWrite8 T c a v = Some (c\<lparr>hMem := (hMem c)(host_cell c a \<mapsto> v)\<rparr>)"
  by (auto simp: ram_at_def SNCPUWrite8_def bank_at_Some host_cell_def hstore_def)

lemma ram_at_hMem [simp]: "p \<in> dom (hMem c) \<Longrightarrow> ram_at (c\<lparr>hMem := (hMem c)(p \<mapsto> v)\<rparr>) a = ram_at c a"
  by (auto simp: ram_at_def host_cell_def)

lemma host_cell_hMem [simp]: "host_cell (c\<lparr>hMem := m\<rparr>) a = host_cell c a"
  by (simp add: host_cell_def)

lemma ram_at_Regs [simp]: "ram_at (c\<lparr>Regs := r\<rparr>) a = ram_at c a"
  by (simp add: ram_at_def host_cell_def)

lemma host_cell_Regs [simp]: "host_cell (c\<lparr>Regs := r\<rparr>) a = host_cell c a"
  by (simp add: host_cell_def)

lemma ram_at_dom: "ram_at c a \<Longrightarrow> host_cell c a \<in> dom (hMem c)"
  by (simp add: ram_at_def)

interpretation cpu_bus: byte_bus "SNCPURead8 T" "SNCPUWrite8 T" ram_at host_cell host_content
  for T :: "'w traps"
proof unfold_locales
  fix s :: "'w SNCpuT" and a v
  assume r: "ram_at s a"
  then show "SNCPURead8 T s a = Some (host_content s (host_cell s a), s)"
    by (rule SNCPURead8_ram)
  show "returns (SNCPUWrite8 T s a v) (\<lambda>s'. host_content s' = (host_content s)(host_cell s a := v)
           \<and> ram_at s' = ram_at s \<and> host_cell s' = host_cell s)"
    using r by (auto simp: SNCPUWrite8_ram host_content_def ram_at_dom fun_eq_iff)
qed

section \<open>Reading a block: by banks or by bytes\<close>

lemma next_in_bank:
  assumes "1 < bank_bytes a"
  shows "unat (a + 1) = unat a + 1" and "bank_index (a + 1) = bank_index a"
    and "bank_bytes (a + 1) = bank_bytes a - 1"
proof -
  have m: "unat a mod 8192 < 8191" using assms by (simp add: bank_bytes_eq)
  have "unat a div 8192 \<le> 524287"
    using div_le_mono [OF unat_u32_le [of a], of 8192] by simp
  with m have "unat a + 1 < 4294967296"
    using mult_div_mod_eq [of 8192 "unat a"] by linarith
  then show u: "unat (a + 1) = unat a + 1" by (simp add: unat_word_ariths)
  show "bank_index (a + 1) = bank_index a" using m by (simp add: bank_index_eq u div_Suc mod_Suc)
  show "bank_bytes (a + 1) = bank_bytes a - 1" using m by (simp add: bank_bytes_eq u mod_Suc)
qed

lemma slow_mem_chunk:
  assumes "bank_index a < 2056" and "pMem (Bank c (bank_index a)) = Some p" and "n \<le> bank_bytes a"
  shows "SNCPUReadMem_slow T c a n =
           do { vs \<leftarrow> hload_bytes (hMem c) (ptr_add p (uint a)) n; Some (vs, c) }"
  using assms
proof (induction n arbitrary: a)
  case 0
  then show ?case by simp
next
  case (Suc n)
  have hd: "SNCPURead8 T c a = do { v \<leftarrow> hload (hMem c) (ptr_add p (uint a)); Some (v, c) }"
    using Suc.prems by (simp add: SNCPURead8_def bank_at_def)
  show ?case
  proof (cases n)
    case 0
    then show ?thesis by (simp add: hd split: bind_splits)
  next
    case (Suc m)
    then have b: "1 < bank_bytes a" using Suc.prems by simp
    have "uint (a + 1) = uint a + 1"
      using next_in_bank(1) [OF b] by (metis of_nat_1 of_nat_add uint_nat)
    then have "ptr_add p (uint (a + 1)) = ptr_add (ptr_add p (uint a)) 1"
      by (simp add: ptr_add_def add.assoc)
    moreover have "SNCPUReadMem_slow T c (a + 1) n =
        do { vs \<leftarrow> hload_bytes (hMem c) (ptr_add p (uint (a + 1))) n; Some (vs, c) }"
      using Suc.prems by (intro Suc.IH) (simp_all add: next_in_bank [OF b])
    ultimately show ?thesis by (simp add: hd split: bind_splits)
  qed
qed

lemma slow_append:
  "SNCPUReadMem_slow T c a (n + m) =
     do { (vs, c) \<leftarrow> SNCPUReadMem_slow T c a n;
          (ws, c) \<leftarrow> SNCPUReadMem_slow T c (a + of_nat n) m;
          Some (vs @ ws, c) }"
proof (induction n arbitrary: c a)
  case 0
  show ?case by (simp add: case_prod_unfold split: bind_splits)
next
  case (Suc n)
  have e: "a + of_nat (Suc n) = (a + 1) + of_nat n" by simp
  show ?case
    unfolding add_Suc e SNCPUReadMem_slow.simps(2) Suc.IH
    by (cases "SNCPURead8 T c a") (auto simp: case_prod_unfold split: bind_splits)
qed

text \<open>
  Copying a bank at a time reads the bank's pointer once. It agrees with the byte-at-a-time
  loop when no read handler remaps the banks.
\<close>

locale steady_reads =
  fixes T :: "'w traps"
  assumes rtrap_Bank: "rtrap T k c a = Some (v, c') \<Longrightarrow> Bank c' = Bank c"
begin

lemma call_read_Bank: "call_read T f c a = Some (v, c') \<Longrightarrow> Bank c' = Bank c"
  by (cases f) (auto simp: u_SNCPUDefaultRead_def rtrap_Bank)

lemma slow_trap_chunk:
  assumes "bank_index a < 2056" and "pMem (Bank c (bank_index a)) = None" and "n \<le> bank_bytes a"
  shows "SNCPUReadMem_slow T c a n = trap_bytes T (bank_index a) c a n"
  using assms
proof (induction n arbitrary: a c)
  case 0
  then show ?case by simp
next
  case (Suc n)
  have hd: "SNCPURead8 T c a = call_read T (pReadTrapFunc (Bank c (bank_index a))) c a"
    using Suc.prems by (simp add: SNCPURead8_def bank_at_def)
  show ?case
  proof (cases "call_read T (pReadTrapFunc (Bank c (bank_index a))) c a")
    case None
    then show ?thesis by (simp add: hd)
  next
    case (Some r)
    then obtain v c1 where r: "r = (v, c1)" by (cases r)
    have b: "Bank c1 = Bank c" using Some r by (auto intro: call_read_Bank)
    have "SNCPUReadMem_slow T c1 (a + 1) n = trap_bytes T (bank_index a) c1 (a + 1) n"
    proof (cases n)
      case (Suc m)
      then have "1 < bank_bytes a" using Suc.prems by simp
      note nx = next_in_bank [OF this]
      have "SNCPUReadMem_slow T c1 (a + 1) n = trap_bytes T (bank_index (a + 1)) c1 (a + 1) n"
        using Suc.prems by (intro Suc.IH) (simp_all add: nx b)
      then show ?thesis by (simp add: nx)
    qed simp
    with Some r show ?thesis by (simp add: hd)
  qed
qed

lemma fast_eq_slow: "SNCPUReadMem T c a n = SNCPUReadMem_slow T c a n"
proof (induction n arbitrary: c a rule: less_induct)
  case (less n)
  show ?case
  proof (cases "n = 0 \<or> bank_at c a = None")
    case True
    then show ?thesis
      by (subst SNCPUReadMem.simps) (cases n; auto simp: SNCPURead8_def Let_def)
  next
    case False
    define k where "k = min n (bank_bytes a)"
    have n: "n = k + (n - k)" "0 < n" and k: "k \<le> bank_bytes a" and i: "bank_index a < 2056"
      using False by (auto simp: k_def bank_at_def split: if_splits)
    have at: "bank_at c a = Some (Bank c (bank_index a))" using i by (simp add: bank_at_def)
    have IH: "SNCPUReadMem T c1 (a + of_nat k) (n - k) = SNCPUReadMem_slow T c1 (a + of_nat k) (n - k)" for c1
      by (rule less.IH) (use n in \<open>simp add: k_def\<close>)
    have "SNCPUReadMem_slow T c a n =
      do { (vs, c) \<leftarrow> SNCPUReadMem_slow T c a k;
           (ws, c) \<leftarrow> SNCPUReadMem_slow T c (a + of_nat k) (n - k);
           Some (vs @ ws, c) }"
      using slow_append [of T c a k "n - k"] n by simp
    also have "\<dots> = SNCPUReadMem T c a n"
    proof (cases "pMem (Bank c (bank_index a))")
      case None
      with n(2) show ?thesis
        by (simp add: SNCPUReadMem.simps [of T c a n] Let_def at IH k_def [symmetric] slow_trap_chunk [OF i _ k])
    next
      case (Some p)
      with n(2) show ?thesis
        by (simp add: SNCPUReadMem.simps [of T c a n] Let_def at IH k_def [symmetric] slow_mem_chunk [OF i Some k])
    qed
    finally show ?thesis by simp
  qed
qed

end

interpretation default_reads: steady_reads no_traps
  by unfold_locales (simp add: no_traps_def)

section \<open>The stack\<close>

lemma stack_inc_dec [simp]: "stack_inc (stack_dec r) = r"
  by (simp add: stack_inc_def stack_dec_def)

lemma stack_mode [simp]: "rE (stack_dec r) = rE r" "rE (stack_inc r) = rE r"
  by (simp_all add: stack_inc_def stack_dec_def)

lemma stack_page: "rE r \<noteq> 0 \<Longrightarrow> hi8 (rS (stack_dec r)) = hi8 (rS r) \<and> hi8 (rS (stack_inc r)) = hi8 (rS r)"
  by (simp add: stack_dec_def stack_inc_def)

text \<open>Writing to the stack and reading it back; \<open>stack_ram\<close> is where the next push goes.\<close>

definition stack_ram :: "'w SNCpuT \<Rightarrow> bool" where
  "stack_ram c \<longleftrightarrow> ram_at c (ucast (rS (Regs c)))"

lemma SNCPUPush8_ram:
  "stack_ram c \<Longrightarrow> SNCPUPush8 T c v =
     Some (c\<lparr>hMem := (hMem c)(host_cell c (ucast (rS (Regs c))) \<mapsto> v), Regs := stack_dec (Regs c)\<rparr>)"
  by (simp add: stack_ram_def SNCPUPush8_def SNCPUWrite8_ram)

lemma SNCPUPop8_ram:
  "ram_at c (ucast (rS (stack_inc (Regs c)))) \<Longrightarrow> SNCPUPop8 T c =
     Some (host_content c (host_cell c (ucast (rS (stack_inc (Regs c))))), c\<lparr>Regs := stack_inc (Regs c)\<rparr>)"
  by (simp add: SNCPUPop8_def SNCPURead8_ram Let_def host_content_def)

lemma pop_after_push:
  assumes "stack_ram c" and "SNCPUPush8 T c v = Some c'"
  shows "SNCPUPop8 T c' = Some (v, c'\<lparr>Regs := Regs c\<rparr>)"
proof -
  have "c' = c\<lparr>hMem := (hMem c)(host_cell c (ucast (rS (Regs c))) \<mapsto> v), Regs := stack_dec (Regs c)\<rparr>"
    using assms SNCPUPush8_ram by fastforce
  moreover have "host_cell c (ucast (rS (Regs c))) \<in> dom (hMem c)"
    using assms(1) by (simp add: stack_ram_def ram_at_dom)
  ultimately show ?thesis
    using assms(1) by (simp add: SNCPUPop8_ram stack_ram_def host_content_def)
qed

end
