(* ===== verification/Sn_Cpu_Control.thy ===== *)
theory Sn_Cpu_Control
  imports Sn_Cpu_Bus
begin

text \<open>
  Interrupts, the signal lines and the execution wrappers of \<^verbatim>\<open>sncpu.c\<close>:
  \<^verbatim>\<open>SNCPUNMI\<close>, \<^verbatim>\<open>SNCPUIRQ\<close>, \<^verbatim>\<open>SNCPUAbort\<close>, the three signal functions,
  \<^verbatim>\<open>SNCPUExecute\<close>, \<^verbatim>\<open>SNCPUExecuteOne\<close> and the switch of the execute function for
  debugging. The logging that \<^verbatim>\<open>SNES_DEBUG\<close> compiles in is left out.
\<close>

section \<open>Interrupts\<close>

text \<open>Leaving a \<^verbatim>\<open>WAI\<close>: the program counter moves past it and the signal is dropped.\<close>

definition skip_WAI :: "'w SNCpuT \<Rightarrow> 'w SNCpuT" where
  "skip_WAI c =
     (if uSignal c AND SNCPU_SIGNAL_WAI \<noteq> 0
      then c\<lparr>Regs := (Regs c)\<lparr>rPC := rPC (Regs c) + 1\<rparr>, uSignal := uSignal c AND NOT SNCPU_SIGNAL_WAI\<rparr>
      else c)"

text \<open>
  The part \<^verbatim>\<open>SNCPUNMI\<close> and \<^verbatim>\<open>SNCPUIRQ\<close> have in common: push the return address and
  the flags, then load the vector of the current mode.
\<close>

definition push_and_vector :: "'w traps \<Rightarrow> 'w SNCpuT \<Rightarrow> u32 \<Rightarrow> u32 \<Rightarrow> 'w SNCpuT option" where
  "push_and_vector T c vecE vecN =
     (if rE (Regs c) \<noteq> 0
      then do { c \<leftarrow> SNCPUPush8 T c (ucast (drop_bit 8 (rPC (Regs c))));
                c \<leftarrow> SNCPUPush8 T c (ucast (rPC (Regs c)));
                c \<leftarrow> SNCPUPush8 T c (rP (Regs c) AND NOT SNCPU_FLAG_B);
                (w, c) \<leftarrow> SNCPURead16 T c vecE;
                Some (c\<lparr>Regs := (Regs c)\<lparr>rPC := ucast w\<rparr>\<rparr>) }
      else do { c \<leftarrow> SNCPUPush8 T c (ucast (drop_bit 16 (rPC (Regs c))));
                c \<leftarrow> SNCPUPush8 T c (ucast (drop_bit 8 (rPC (Regs c))));
                c \<leftarrow> SNCPUPush8 T c (ucast (rPC (Regs c)));
                c \<leftarrow> SNCPUPush8 T c (rP (Regs c));
                (w, c) \<leftarrow> SNCPURead16 T c vecN;
                Some (c\<lparr>Regs := (Regs c)\<lparr>rPC := ucast w\<rparr>\<rparr>) })"

definition SNCPUConsumeCycles :: "'w SNCpuT \<Rightarrow> int \<Rightarrow> 'w SNCpuT" where
  "SNCPUConsumeCycles c n = c\<lparr>Cycles := Cycles c - n\<rparr>"

definition SNCPUNMI :: "'w traps \<Rightarrow> 'w SNCpuT \<Rightarrow> 'w SNCpuT option" where
  "SNCPUNMI T c =
     do { c \<leftarrow> push_and_vector T (skip_WAI c) SNCPU_VECTORE_NMI SNCPU_VECTOR_NMI;
          let c = c\<lparr>Regs := (Regs c)\<lparr>rP := rP (Regs c) AND NOT SNCPU_FLAG_D\<rparr>\<rparr>;
          Some (SNCPUConsumeCycles c (SNCPU_CYCLE_SLOW * 6 + SNCPU_CYCLE_FAST * 2)) }"

definition SNCPUIRQ :: "'w traps \<Rightarrow> 'w SNCpuT \<Rightarrow> 'w SNCpuT option" where
  "SNCPUIRQ T c =
     (if rP (Regs c) AND SNCPU_FLAG_I = 0
      then do { c \<leftarrow> push_and_vector T (skip_WAI c) SNCPU_VECTORE_IRQ SNCPU_VECTOR_IRQ;
                let c = c\<lparr>Regs := (Regs c)\<lparr>rP := (rP (Regs c) AND NOT SNCPU_FLAG_D) OR SNCPU_FLAG_I\<rparr>\<rparr>;
                Some (SNCPUConsumeCycles c (SNCPU_CYCLE_SLOW * 6 + SNCPU_CYCLE_FAST * 2)) }
      else Some c)"

section \<open>Signals and aborts\<close>

definition SNCPUAbort :: "'w SNCpuT \<Rightarrow> 'w SNCpuT" where
  "SNCPUAbort c = (if bRunning c then c\<lparr>nAbortCycles := Cycles c, Cycles := 0\<rparr> else c)"

definition SNCPUSignalIRQ :: "'w SNCpuT \<Rightarrow> bool \<Rightarrow> 'w SNCpuT" where
  "SNCPUSignalIRQ c bEnable =
     (if bEnable then SNCPUAbort (c\<lparr>uSignal := uSignal c OR SNCPU_SIGNAL_IRQ\<rparr>)
      else c\<lparr>uSignal := uSignal c AND NOT SNCPU_SIGNAL_IRQ\<rparr>)"

definition SNCPUSignalNMI :: "'w SNCpuT \<Rightarrow> bool \<Rightarrow> 'w SNCpuT" where
  "SNCPUSignalNMI c bEnable =
     (if bEnable
      then let c = (if uSignal c AND SNCPU_SIGNAL_NMI = 0
                    then SNCPUAbort (c\<lparr>uSignal := uSignal c OR SNCPU_SIGNAL_NMIEDGE\<rparr>) else c)
           in c\<lparr>uSignal := uSignal c OR SNCPU_SIGNAL_NMI\<rparr>
      else c\<lparr>uSignal := uSignal c AND NOT (SNCPU_SIGNAL_NMI OR SNCPU_SIGNAL_NMIEDGE)\<rparr>)"

definition SNCPUSignalDMA :: "'w SNCpuT \<Rightarrow> bool \<Rightarrow> 'w SNCpuT" where
  "SNCPUSignalDMA c bEnable =
     (if bEnable then SNCPUAbort (c\<lparr>uSignal := uSignal c OR SNCPU_SIGNAL_DMA\<rparr>)
      else c\<lparr>uSignal := uSignal c AND NOT SNCPU_SIGNAL_DMA\<rparr>)"

section \<open>Counters and the execution wrappers\<close>

text \<open>An index outside \<^verbatim>\<open>Counter[SNCPU_COUNTER_NUM]\<close> is undefined in C.\<close>

definition SNCPUGetCounter :: "'w SNCpuT \<Rightarrow> nat \<Rightarrow> int option" where
  "SNCPUGetCounter c i = (if i < length (Counter c) then Some (Counter c ! i - Cycles c) else None)"

definition SNCPUResetCounter :: "'w SNCpuT \<Rightarrow> nat \<Rightarrow> 'w SNCpuT option" where
  "SNCPUResetCounter c i = (if i < length (Counter c) then Some (c\<lparr>Counter := (Counter c)[i := 0]\<rparr>) else None)"

definition SNCPUAddCycles :: "'w SNCpuT \<Rightarrow> int \<Rightarrow> 'w SNCpuT" where
  "SNCPUAddCycles c n = c\<lparr>Cycles := Cycles c + n, Counter := map (\<lambda>k. k + n) (Counter c)\<rparr>"

text \<open>
  \<open>ex\<close> is the function that \<^verbatim>\<open>_SNCPU_pExecuteFunc\<close> points to. The returned flag is
  \<^verbatim>\<open>FALSE\<close> when the run was aborted.
\<close>

definition SNCPUExecute :: "('w SNCpuT \<Rightarrow> 'w SNCpuT option) \<Rightarrow> 'w SNCpuT \<Rightarrow> (bool \<times> 'w SNCpuT) option" where
  "SNCPUExecute ex c =
     do { c \<leftarrow> ex (c\<lparr>nAbortCycles := 0, bRunning := True\<rparr>);
          let c = c\<lparr>bRunning := False\<rparr>;
          (if nAbortCycles c \<noteq> 0
           then Some (False, c\<lparr>Cycles := nAbortCycles c, nAbortCycles := 0\<rparr>)
           else Some (True, c)) }"

definition SNCPUExecuteOne :: "('w SNCpuT \<Rightarrow> 'w SNCpuT option) \<Rightarrow> 'w SNCpuT \<Rightarrow> (bool \<times> 'w SNCpuT) option" where
  "SNCPUExecuteOne ex c =
     (if Cycles c > 0
      then let delta = Cycles c - 1;
               c = c\<lparr>Cycles := Cycles c - delta, Counter := map (\<lambda>k. k - delta) (Counter c)\<rparr>
           in do { (b, c) \<leftarrow> SNCPUExecute ex c;
                   Some (True, c\<lparr>Cycles := Cycles c + delta, Counter := map (\<lambda>k. k + delta) (Counter c)\<rparr>) }
      else Some (False, c))"

text \<open>The static variables that select the execute function.\<close>

datatype execfn = DefaultExecuteFunc | ExecuteDebugFunc | ClientExecuteFunc nat

record execvars =
  pExecuteFunc :: execfn
  pDebugExecuteFunc :: execfn
  bDebug :: bool
  nDebugCycles :: int

definition execvars_init :: execvars where
  "execvars_init = \<lparr>pExecuteFunc = DefaultExecuteFunc, pDebugExecuteFunc = DefaultExecuteFunc,
                     bDebug = False, nDebugCycles = 1\<rparr>"

definition SNCPUSetExecuteFunc :: "execvars \<Rightarrow> execfn \<Rightarrow> execvars" where
  "SNCPUSetExecuteFunc g f = (if bDebug g then g\<lparr>pDebugExecuteFunc := f\<rparr> else g\<lparr>pExecuteFunc := f\<rparr>)"

definition SNCPUSetDebug :: "execvars \<Rightarrow> bool \<Rightarrow> int \<Rightarrow> execvars" where
  "SNCPUSetDebug g b n =
     (let g = (if bDebug g \<noteq> b
               then (if b then g\<lparr>pDebugExecuteFunc := pExecuteFunc g, pExecuteFunc := ExecuteDebugFunc\<rparr>
                     else g\<lparr>pExecuteFunc := pDebugExecuteFunc g\<rparr>)\<lparr>bDebug := b\<rparr>
               else g)
      in g\<lparr>nDebugCycles := n\<rparr>)"

definition u_SNCPUDefaultExecuteFunc :: "'w SNCpuT \<Rightarrow> 'w SNCpuT option" where
  "u_SNCPUDefaultExecuteFunc c = Some (c\<lparr>Cycles := 0\<rparr>)"

section \<open>Lemmas\<close>

lemma skip_WAI_mem [simp]:
  "hMem (skip_WAI c) = hMem c" "Bank (skip_WAI c) = Bank c" "Cycles (skip_WAI c) = Cycles c"
  "rS (Regs (skip_WAI c)) = rS (Regs c)" "rE (Regs (skip_WAI c)) = rE (Regs c)"
  "rP (Regs (skip_WAI c)) = rP (Regs c)"
  by (simp_all add: skip_WAI_def)

text \<open>
  An aborted run ends with the cycle count it had when it was aborted: \<^verbatim>\<open>SNCPUAbort\<close> inside
  the run is undone by \<^verbatim>\<open>SNCPUExecute\<close>.
\<close>

lemma abort_restores:
  assumes "ex (c\<lparr>nAbortCycles := 0, bRunning := True\<rparr>) = Some (SNCPUAbort c1)" and "bRunning c1" and "Cycles c1 \<noteq> 0"
  shows "SNCPUExecute ex c = Some (False, c1\<lparr>bRunning := False, nAbortCycles := 0\<rparr>)"
  using assms by (simp add: SNCPUExecute_def SNCPUAbort_def Let_def)

text \<open>What every counter shows, \<open>Counter[i] - Cycles\<close>, is independent of the splitting of a run.\<close>

lemma GetCounter_AddCycles: "SNCPUGetCounter (SNCPUAddCycles c n) i = SNCPUGetCounter c i"
  by (simp add: SNCPUGetCounter_def SNCPUAddCycles_def)

lemma ExecuteOne_counters:
  assumes "Cycles c > 0" and "SNCPUExecute ex (c\<lparr>Cycles := 1, Counter := map (\<lambda>k. k - (Cycles c - 1)) (Counter c)\<rparr>) = Some (b, c1)"
    and "length (Counter c1) = length (Counter c)"
  shows "\<exists>c2. SNCPUExecuteOne ex c = Some (True, c2) \<and> SNCPUGetCounter c2 i = SNCPUGetCounter c1 i
            \<and> Cycles c2 = Cycles c1 + (Cycles c - 1)"
  using assms by (auto simp: SNCPUExecuteOne_def Let_def SNCPUGetCounter_def)

end
