(* ===== verification/Sn_Cpu_Demo.thy ===== *)
theory Sn_Cpu_Demo
  imports Sn_Cpu_Control
begin

text \<open>
  The concrete machine of the witnesses: one block of host memory that covers the whole address
  space, writable, and no handlers installed.
\<close>

definition flat_bank :: SNCpuBankT where
  "flat_bank = \<lparr>pMem = Some (0, 0), pReadTrapFunc = DefaultFn, pWriteTrapFunc = DefaultFn,
                uBankCycle = 8, bRAM = 0xFF\<rparr>"

definition flat_mem :: "(int \<Rightarrow> u8) \<Rightarrow> heap" where
  "flat_mem f = (\<lambda>(b, i). if b = 0 \<and> 0 \<le> i \<and> i < 0x1010000 then Some (f i) else None)"

definition flat_cpu :: "(int \<Rightarrow> u8) \<Rightarrow> SNCpuRegsT \<Rightarrow> int \<Rightarrow> unit SNCpuT" where
  "flat_cpu f r n = \<lparr>Regs = r, Cycles = n, Counter = [0, 0, 0, 0], pUserData = (), nAbortCycles = 0,
     bRunning = False, uSignal = 0, Bank = (\<lambda>_. flat_bank), hMem = flat_mem f\<rparr>"

lemma flat_ok: "machine_ok default_only (flat_cpu f r n)"
proof -
  have "bank_ok (flat_mem f) i flat_bank" if "i < 2056" for i
    using that by (auto simp: bank_ok_def flat_bank_def cells_def flat_mem_def ptr_add_def dom_def)
  then show ?thesis
    by (simp add: machine_ok_def bus_ok_def flat_cpu_def default_only_def flat_bank_def [symmetric])
       (simp add: flat_bank_def)
qed

lemma flat_ram: "unat a < 0x1010000 \<Longrightarrow> ram_at (flat_cpu f r n) a"
proof -
  assume a: "unat a < 0x1010000"
  then have "int (unat a) < 0x1010000" by linarith
  then have "uint a < 0x1010000" by simp
  then show ?thesis
    using a by (auto simp: ram_at_def flat_cpu_def flat_bank_def host_cell_def ptr_add_def flat_mem_def)
qed

lemma flat_cell: "host_cell (flat_cpu f r n) a = (0, uint a)"
  by (simp add: host_cell_def flat_cpu_def flat_bank_def ptr_add_def)

end
