(* ===== verification/Sn_Cpu_C.thy ===== *)
theory Sn_Cpu_C
  imports Sn_Cpu_Control
begin

text \<open>
  The building blocks of the interpreter in \<^verbatim>\<open>sncpu_c.c\<close>: the local variables of
  \<^verbatim>\<open>SNCPUExecute_C\<close>, the memory accesses that charge cycles, the decimal adders and the
  macros in which the instruction handlers of \<^verbatim>\<open>op65816.h\<close> are written. A macro is a
  constructor of \<open>uop\<close>, its replacement text is the equation of \<open>exec_uop\<close> for it.
\<close>

section \<open>Decimal arithmetic\<close>

definition u_SNCpuDecimalADC8 :: "u32 \<Rightarrow> u32 \<Rightarrow> u32 \<Rightarrow> u32" where
  "u_SNCpuDecimalADC8 uDest uTarget uSrc =
     (let uDest = uDest + ((uTarget AND 0x0F) + (uSrc AND 0x0F));
          uDest = (if uDest \<ge> 0x000A then ((uDest - 0x000A) AND 0x000F) + 0x0010 else uDest);
          uDest = uDest + ((uTarget AND 0xF0) + (uSrc AND 0xF0));
          uDest = (if uDest \<ge> 0x00A0 then ((uDest - 0x00A0) AND 0x00FF) + 0x0100 else uDest)
      in uDest)"

definition u_SNCpuDecimalADC16 :: "u32 \<Rightarrow> u32 \<Rightarrow> u32 \<Rightarrow> u32" where
  "u_SNCpuDecimalADC16 uDest uTarget uSrc =
     (let uDest = uDest + ((uTarget AND 0x000F) + (uSrc AND 0x000F));
          uDest = (if uDest \<ge> 0x000A then ((uDest - 0x000A) AND 0x000F) + 0x00010 else uDest);
          uDest = uDest + ((uTarget AND 0x00F0) + (uSrc AND 0x00F0));
          uDest = (if uDest \<ge> 0x00A0 then ((uDest - 0x00A0) AND 0x00FF) + 0x00100 else uDest);
          uDest = uDest + ((uTarget AND 0x0F00) + (uSrc AND 0x0F00));
          uDest = (if uDest \<ge> 0x0A00 then ((uDest - 0x0A00) AND 0x0FFF) + 0x01000 else uDest);
          uDest = uDest + ((uTarget AND 0xF000) + (uSrc AND 0xF000));
          uDest = (if uDest \<ge> 0xA000 then ((uDest - 0xA000) AND 0xFFFF) + 0x10000 else uDest)
      in uDest)"

definition u_SNCpuDecimalSBC8 :: "u32 \<Rightarrow> u32 \<Rightarrow> u32 \<Rightarrow> u32" where
  "u_SNCpuDecimalSBC8 uDest uTarget uSrc =
     (let uDest = uDest + 0xFFFFFFFF;
          uSrc = uSrc XOR 0xFF;
          uDest = uDest + ((uTarget AND 0x0F) - (uSrc AND 0x0F));
          uDest = (if uDest \<ge> 0x000A then ((uDest + 0x000A) AND 0x000F) - 0x00010 else uDest);
          uDest = uDest + ((uTarget AND 0xF0) - (uSrc AND 0xF0));
          uDest = (if uDest \<ge> 0x00A0 then ((uDest + 0x00A0) AND 0x00FF) - 0x00100 else uDest)
      in uDest XOR 0x100)"

definition u_SNCpuDecimalSBC16 :: "u32 \<Rightarrow> u32 \<Rightarrow> u32 \<Rightarrow> u32" where
  "u_SNCpuDecimalSBC16 uDest uTarget uSrc =
     (let uDest = uDest + 0xFFFFFFFF;
          uSrc = uSrc XOR 0xFFFF;
          uDest = uDest + ((uTarget AND 0x000F) - (uSrc AND 0x000F));
          uDest = (if uDest \<ge> 0x000A then ((uDest + 0x000A) AND 0x000F) - 0x00010 else uDest);
          uDest = uDest + ((uTarget AND 0x00F0) - (uSrc AND 0x00F0));
          uDest = (if uDest \<ge> 0x00A0 then ((uDest + 0x00A0) AND 0x00FF) - 0x00100 else uDest);
          uDest = uDest + ((uTarget AND 0x0F00) - (uSrc AND 0x0F00));
          uDest = (if uDest \<ge> 0x0A00 then ((uDest + 0x0A00) AND 0x0FFF) - 0x01000 else uDest);
          uDest = uDest + ((uTarget AND 0xF000) - (uSrc AND 0xF000));
          uDest = (if uDest \<ge> 0xA000 then ((uDest + 0xA000) AND 0xFFFF) - 0x10000 else uDest)
      in uDest XOR 0x10000)"

section \<open>Memory i/o that charges cycles\<close>

definition SNCPU_SUBCYCLES_c :: "nat \<Rightarrow> 'w SNCpuT \<Rightarrow> 'w SNCpuT" where
  "SNCPU_SUBCYCLES_c n c = c\<lparr>Cycles := Cycles c - int n * SNCPU_CYCLE_FAST\<rparr>"

definition SNCPU_SUBCYCLESSLOW :: "nat \<Rightarrow> 'w SNCpuT \<Rightarrow> 'w SNCpuT" where
  "SNCPU_SUBCYCLESSLOW n c = c\<lparr>Cycles := Cycles c - int n * SNCPU_CYCLE_SLOW\<rparr>"

definition SNCPU_SUBMEMCYCLES :: "u32 \<Rightarrow> nat \<Rightarrow> 'w SNCpuT \<Rightarrow> 'w SNCpuT option" where
  "SNCPU_SUBMEMCYCLES Addr n c =
     do { b \<leftarrow> bank_at c Addr; Some (c\<lparr>Cycles := Cycles c - uint (uBankCycle b) * int n\<rparr>) }"

definition uu_SNCPURead8 :: "'w traps \<Rightarrow> 'w SNCpuT \<Rightarrow> u32 \<Rightarrow> (u8 \<times> 'w SNCpuT) option" where
  "uu_SNCPURead8 T c Addr =
     do { b \<leftarrow> bank_at c Addr;
          (case pMem b of
             Some p \<Rightarrow> do { v \<leftarrow> hload (hMem c) (ptr_add p (uint Addr)); Some (v, c) }
           | None \<Rightarrow> call_read T (pReadTrapFunc b) c Addr) }"

definition u_SNCPURead8 :: "'w traps \<Rightarrow> 'w SNCpuT \<Rightarrow> u32 \<Rightarrow> (u8 \<times> 'w SNCpuT) option" where
  "u_SNCPURead8 T c Addr = do { c \<leftarrow> SNCPU_SUBMEMCYCLES Addr 1 c; uu_SNCPURead8 T c Addr }"

definition u_SNCPURead16 :: "'w traps \<Rightarrow> 'w SNCpuT \<Rightarrow> u32 \<Rightarrow> (u16 \<times> 'w SNCpuT) option" where
  "u_SNCPURead16 T c Addr =
     do { c \<leftarrow> SNCPU_SUBMEMCYCLES Addr 2 c;
          (l, c) \<leftarrow> uu_SNCPURead8 T c Addr;
          (h, c) \<leftarrow> uu_SNCPURead8 T c (Addr + 1);
          Some (ucast (join16 h l), c) }"

definition u_SNCPURead24 :: "'w traps \<Rightarrow> 'w SNCpuT \<Rightarrow> u32 \<Rightarrow> (u32 \<times> 'w SNCpuT) option" where
  "u_SNCPURead24 T c Addr =
     do { c \<leftarrow> SNCPU_SUBMEMCYCLES Addr 3 c;
          (l, c) \<leftarrow> uu_SNCPURead8 T c (Addr + 0);
          (h, c) \<leftarrow> uu_SNCPURead8 T c (Addr + 1);
          (b, c) \<leftarrow> uu_SNCPURead8 T c (Addr + 2);
          Some (join24 b h l, c) }"

definition uu_SNCPUFetch8 :: "'w traps \<Rightarrow> 'w SNCpuT \<Rightarrow> u32 \<Rightarrow> (u8 \<times> 'w SNCpuT) option" where
  "uu_SNCPUFetch8 T c Addr =
     do { b \<leftarrow> bank_at c Addr;
          (case pMem b of
             Some p \<Rightarrow> do { v \<leftarrow> hload (hMem c) (ptr_add p (uint Addr)); Some (v, c) }
           | None \<Rightarrow> call_read T (pReadTrapFunc b) c Addr) }"

definition u_SNCPUFetch8 :: "'w traps \<Rightarrow> 'w SNCpuT \<Rightarrow> u32 \<Rightarrow> (u8 \<times> 'w SNCpuT) option" where
  "u_SNCPUFetch8 T c Addr = do { c \<leftarrow> SNCPU_SUBMEMCYCLES Addr 1 c; uu_SNCPUFetch8 T c Addr }"

definition u_SNCPUFetch16 :: "'w traps \<Rightarrow> 'w SNCpuT \<Rightarrow> u32 \<Rightarrow> (u16 \<times> 'w SNCpuT) option" where
  "u_SNCPUFetch16 T c Addr =
     do { c \<leftarrow> SNCPU_SUBMEMCYCLES Addr 2 c;
          (l, c) \<leftarrow> uu_SNCPUFetch8 T c Addr;
          (h, c) \<leftarrow> uu_SNCPUFetch8 T c (Addr + 1);
          Some (ucast (join16 h l), c) }"

definition u_SNCPUFetch24 :: "'w traps \<Rightarrow> 'w SNCpuT \<Rightarrow> u32 \<Rightarrow> (u32 \<times> 'w SNCpuT) option" where
  "u_SNCPUFetch24 T c Addr =
     do { c \<leftarrow> SNCPU_SUBMEMCYCLES Addr 3 c;
          (l, c) \<leftarrow> uu_SNCPUFetch8 T c (Addr + 0);
          (h, c) \<leftarrow> uu_SNCPUFetch8 T c (Addr + 1);
          (b, c) \<leftarrow> uu_SNCPUFetch8 T c (Addr + 2);
          Some (join24 b h l, c) }"

definition uu_SNCPUWrite8 :: "'w traps \<Rightarrow> 'w SNCpuT \<Rightarrow> u32 \<Rightarrow> u8 \<Rightarrow> 'w SNCpuT option" where
  "uu_SNCPUWrite8 T c Addr Data =
     do { b \<leftarrow> bank_at c Addr;
          (if bRAM b \<noteq> 0
           then do { p \<leftarrow> pMem b;
                     m \<leftarrow> hstore (hMem c) (ptr_add p (uint Addr)) Data;
                     Some (c\<lparr>hMem := m\<rparr>) }
           else call_write T (pWriteTrapFunc b) c Addr Data) }"

definition u_SNCPUWrite8 :: "'w traps \<Rightarrow> 'w SNCpuT \<Rightarrow> u32 \<Rightarrow> u8 \<Rightarrow> 'w SNCpuT option" where
  "u_SNCPUWrite8 T c Addr Data =
     do { c \<leftarrow> SNCPU_SUBMEMCYCLES Addr 1 c; uu_SNCPUWrite8 T c (Addr + 0) Data }"

definition u_SNCPUWrite16 :: "'w traps \<Rightarrow> 'w SNCpuT \<Rightarrow> u32 \<Rightarrow> u16 \<Rightarrow> 'w SNCpuT option" where
  "u_SNCPUWrite16 T c Addr Data =
     do { c \<leftarrow> SNCPU_SUBMEMCYCLES Addr 2 c;
          c \<leftarrow> uu_SNCPUWrite8 T c (Addr + 0) (lo8 Data);
          uu_SNCPUWrite8 T c (Addr + 1) (hi8 Data) }"

definition u_SNCPUPush8 :: "'w traps \<Rightarrow> 'w SNCpuT \<Rightarrow> u8 \<Rightarrow> 'w SNCpuT option" where
  "u_SNCPUPush8 T c Data =
     do { let c = SNCPU_SUBCYCLESSLOW 1 c;
          c \<leftarrow> uu_SNCPUWrite8 T c (ucast (rS (Regs c))) Data;
          Some (c\<lparr>Regs := stack_dec (Regs c)\<rparr>) }"

definition u_SNCPUPush16 :: "'w traps \<Rightarrow> 'w SNCpuT \<Rightarrow> u16 \<Rightarrow> 'w SNCpuT option" where
  "u_SNCPUPush16 T c Data =
     do { c \<leftarrow> u_SNCPUPush8 T c (hi8 Data);
          u_SNCPUPush8 T c (lo8 Data) }"

definition u_SNCPUPush24 :: "'w traps \<Rightarrow> 'w SNCpuT \<Rightarrow> u32 \<Rightarrow> 'w SNCpuT option" where
  "u_SNCPUPush24 T c Data =
     do { c \<leftarrow> u_SNCPUPush8 T c (ucast (drop_bit 16 Data));
          c \<leftarrow> u_SNCPUPush8 T c (ucast (drop_bit 8 Data));
          u_SNCPUPush8 T c (ucast (Data AND 0xFF)) }"

definition u_SNCPUPop8 :: "'w traps \<Rightarrow> 'w SNCpuT \<Rightarrow> (u8 \<times> 'w SNCpuT) option" where
  "u_SNCPUPop8 T c =
     (let c = SNCPU_SUBCYCLESSLOW 1 (c\<lparr>Regs := stack_inc (Regs c)\<rparr>)
      in uu_SNCPURead8 T c (ucast (rS (Regs c))))"

definition u_SNCPUPop16 :: "'w traps \<Rightarrow> 'w SNCpuT \<Rightarrow> (u16 \<times> 'w SNCpuT) option" where
  "u_SNCPUPop16 T c =
     do { (l, c) \<leftarrow> u_SNCPUPop8 T c;
          (h, c) \<leftarrow> u_SNCPUPop8 T c;
          Some (ucast (join16 h l), c) }"

definition u_SNCPUPop24 :: "'w traps \<Rightarrow> 'w SNCpuT \<Rightarrow> (u32 \<times> 'w SNCpuT) option" where
  "u_SNCPUPop24 T c =
     do { (l, c) \<leftarrow> u_SNCPUPop8 T c;
          (h, c) \<leftarrow> u_SNCPUPop8 T c;
          (b, c) \<leftarrow> u_SNCPUPop8 T c;
          Some (join24 b h l, c) }"

section \<open>The local variables of SNCPUExecute_C\<close>

record 'w xst =
  pCpu :: "'w SNCpuT"
  l_rPC :: u32
  uOpcodeMod :: u32
  l_DPMASK :: u32
  fN :: u32
  fZ :: u32
  fC :: u32
  l_t0 :: u32
  l_t1 :: u32
  l_t2 :: u32

definition SNCPU_OPCODE_E :: u32 where "SNCPU_OPCODE_E = 0x400"

text \<open>The registers live in \<open>Regs (pCpu x)\<close>; updating them is a common step.\<close>

definition upd_regs :: "(SNCpuRegsT \<Rightarrow> SNCpuRegsT) \<Rightarrow> 'w xst \<Rightarrow> 'w xst" where
  "upd_regs f x = x\<lparr>pCpu := (pCpu x)\<lparr>Regs := f (Regs (pCpu x))\<rparr>\<rparr>"

definition SNCPU_SETFLAG_E_x :: "u8 \<Rightarrow> 'w xst \<Rightarrow> 'w xst" where
  "SNCPU_SETFLAG_E_x e x =
     (if e \<noteq> 0
      then (upd_regs (\<lambda>r. r\<lparr>rE := e, rP := rP r OR (SNCPU_FLAG_M OR SNCPU_FLAG_X),
                             rS := set_hi8 (rS r) 1, rDP := 0\<rparr>) x)
             \<lparr>uOpcodeMod := SNCPU_OPCODE_E, l_DPMASK := 0x00FF\<rparr>
      else (upd_regs (\<lambda>r. r\<lparr>rE := e\<rparr>) x)
             \<lparr>uOpcodeMod := push_bit 4 (ucast (rP (Regs (pCpu x)))) AND 0x300, l_DPMASK := 0xFFFF\<rparr>)"

text \<open>\<^verbatim>\<open>if (..&SNCPU_FLAG_X) {rX.b.h = 0; rY.b.h = 0;}\<close>\<close>

definition clear_index_high :: "u8 \<Rightarrow> 'w xst \<Rightarrow> 'w xst" where
  "clear_index_high p x =
     (if p AND SNCPU_FLAG_X \<noteq> 0
      then upd_regs (\<lambda>r. r\<lparr>rX := set_hi8 (rX r) 0, rY := set_hi8 (rY r) 0\<rparr>) x else x)"

definition SNCPU_UNPACKFLAGS :: "'w xst \<Rightarrow> 'w xst" where
  "SNCPU_UNPACKFLAGS x =
     (let p = rP (Regs (pCpu x));
          x = x\<lparr>fC := ucast (p AND SNCPU_FLAG_C),
                fZ := ucast ((p AND SNCPU_FLAG_Z) XOR SNCPU_FLAG_Z),
                fN := push_bit 8 (ucast p)\<rparr>;
          x = clear_index_high p x
      in SNCPU_SETFLAG_E_x (rE (Regs (pCpu x))) x)"

definition SNCPU_PACKFLAGS :: "'w xst \<Rightarrow> 'w xst" where
  "SNCPU_PACKFLAGS x =
     upd_regs (\<lambda>r. let p = rP r AND NOT (SNCPU_FLAG_C OR SNCPU_FLAG_Z OR SNCPU_FLAG_N);
                        p = p OR ucast (fC x);
                        p = p OR ucast (drop_bit 8 (fN x) AND 0x80);
                        p = (if fZ x AND 0xFFFF = 0 then p OR SNCPU_FLAG_Z else p)
                    in r\<lparr>rP := p\<rparr>) x"

section \<open>The macros\<close>

datatype treg = R_t0 | R_t1 | R_t2

datatype src = Tmp treg | R_X | R_Y | R_S | R_DP | R_DB | R_DPMASK

fun get_t :: "treg \<Rightarrow> 'w xst \<Rightarrow> u32" where
  "get_t R_t0 x = l_t0 x"
| "get_t R_t1 x = l_t1 x"
| "get_t R_t2 x = l_t2 x"

fun set_t :: "treg \<Rightarrow> u32 \<Rightarrow> 'w xst \<Rightarrow> 'w xst" where
  "set_t R_t0 v x = x\<lparr>l_t0 := v\<rparr>"
| "set_t R_t1 v x = x\<lparr>l_t1 := v\<rparr>"
| "set_t R_t2 v x = x\<lparr>l_t2 := v\<rparr>"

fun get_src :: "src \<Rightarrow> 'w xst \<Rightarrow> u32" where
  "get_src (Tmp t) x = get_t t x"
| "get_src R_X x = ucast (rX (Regs (pCpu x)))"
| "get_src R_Y x = ucast (rY (Regs (pCpu x)))"
| "get_src R_S x = ucast (rS (Regs (pCpu x)))"
| "get_src R_DP x = ucast (rDP (Regs (pCpu x)))"
| "get_src R_DB x = rDB (Regs (pCpu x))"
| "get_src R_DPMASK x = l_DPMASK x"

text \<open>
  The macros come in families (a register to get or set, a width of a memory access, an
  operation on two operands); a family is one constructor, the macro names are abbreviations.
\<close>

datatype width = W8 | W16 | W24

datatype reg = A8 | X8 | Y8 | S8 | A16 | X16 | Y16 | S16 | DP | DB

datatype flag = Z8 | Z16 | N8 | N16 | FlagC | FlagV

datatype alu = AluADD | AluSUB | AluOR | AluXOR | AluAND

datatype adder = ADC8 | ADC16 | SBC8 | SBC16

datatype uop =
    SNCPU_SUBCYCLES nat
  | SNCPU_ENDOP nat
  | FETCH width treg
  | WRITE width treg treg
  | READ width treg treg
  | PUSH width treg
  | POP width treg
  | SET reg treg
  | GET reg treg
  | SNCPU_GETI treg u32
  | SNCPU_GET_PC treg
  | SNCPU_SET_PC16 treg
  | SNCPU_SET_PC24 treg
  | SNCPU_SET_P treg
  | SNCPU_GET_P treg
  | SETFLAG flag treg
  | SNCPU_SETFLAGI_C u32
  | SNCPU_SETFLAGI_V u32
  | SNCPU_GETFLAG_C treg
  | SNCPU_GETFLAG_E treg
  | SNCPU_SETFLAG_E treg
  | SETBIT u8
  | CLRBIT u8
  | ALU alu treg src
  | ALUI alu treg u32
  | SNCPU_SHLI treg nat
  | SNCPU_SHRI treg nat
  | ADDER adder treg treg

abbreviation "SNCPU_FETCH8 \<equiv> FETCH W8"
abbreviation "SNCPU_FETCH16 \<equiv> FETCH W16"
abbreviation "SNCPU_FETCH24 \<equiv> FETCH W24"
abbreviation "SNCPU_WRITE8 \<equiv> WRITE W8"
abbreviation "SNCPU_WRITE16 \<equiv> WRITE W16"
abbreviation "SNCPU_READ8 \<equiv> READ W8"
abbreviation "SNCPU_READ16 \<equiv> READ W16"
abbreviation "SNCPU_READ24 \<equiv> READ W24"
abbreviation "SNCPU_PUSH8 \<equiv> PUSH W8"
abbreviation "SNCPU_PUSH16 \<equiv> PUSH W16"
abbreviation "SNCPU_PUSH24 \<equiv> PUSH W24"
abbreviation "SNCPU_POP8 \<equiv> POP W8"
abbreviation "SNCPU_POP16 \<equiv> POP W16"
abbreviation "SNCPU_POP24 \<equiv> POP W24"
abbreviation "SNCPU_SET_A8 \<equiv> SET A8"
abbreviation "SNCPU_SET_X8 \<equiv> SET X8"
abbreviation "SNCPU_SET_Y8 \<equiv> SET Y8"
abbreviation "SNCPU_SET_S8 \<equiv> SET S8"
abbreviation "SNCPU_SET_A16 \<equiv> SET A16"
abbreviation "SNCPU_SET_X16 \<equiv> SET X16"
abbreviation "SNCPU_SET_Y16 \<equiv> SET Y16"
abbreviation "SNCPU_SET_S16 \<equiv> SET S16"
abbreviation "SNCPU_SET_DP \<equiv> SET DP"
abbreviation "SNCPU_SET_DB \<equiv> SET DB"
abbreviation "SNCPU_GET_A8 \<equiv> GET A8"
abbreviation "SNCPU_GET_X8 \<equiv> GET X8"
abbreviation "SNCPU_GET_Y8 \<equiv> GET Y8"
abbreviation "SNCPU_GET_S8 \<equiv> GET S8"
abbreviation "SNCPU_GET_A16 \<equiv> GET A16"
abbreviation "SNCPU_GET_X16 \<equiv> GET X16"
abbreviation "SNCPU_GET_Y16 \<equiv> GET Y16"
abbreviation "SNCPU_GET_S16 \<equiv> GET S16"
abbreviation "SNCPU_GET_DP \<equiv> GET DP"
abbreviation "SNCPU_GET_DB \<equiv> GET DB"
abbreviation "SNCPU_SETFLAG_Z8 \<equiv> SETFLAG Z8"
abbreviation "SNCPU_SETFLAG_Z16 \<equiv> SETFLAG Z16"
abbreviation "SNCPU_SETFLAG_N8 \<equiv> SETFLAG N8"
abbreviation "SNCPU_SETFLAG_N16 \<equiv> SETFLAG N16"
abbreviation "SNCPU_SETFLAG_C \<equiv> SETFLAG FlagC"
abbreviation "SNCPU_SETFLAG_V \<equiv> SETFLAG FlagV"
abbreviation "SNCPU_SETFLAG_I \<equiv> SETBIT SNCPU_FLAG_I"
abbreviation "SNCPU_CLRFLAG_I \<equiv> CLRBIT SNCPU_FLAG_I"
abbreviation "SNCPU_SETFLAG_D \<equiv> SETBIT SNCPU_FLAG_D"
abbreviation "SNCPU_CLRFLAG_D \<equiv> CLRBIT SNCPU_FLAG_D"
abbreviation "SNCPU_ADD \<equiv> ALU AluADD"
abbreviation "SNCPU_SUB \<equiv> ALU AluSUB"
abbreviation "SNCPU_OR \<equiv> ALU AluOR"
abbreviation "SNCPU_XOR \<equiv> ALU AluXOR"
abbreviation "SNCPU_AND \<equiv> ALU AluAND"
abbreviation "SNCPU_ADDI \<equiv> ALUI AluADD"
abbreviation "SNCPU_SUBI \<equiv> ALUI AluSUB"
abbreviation "SNCPU_XORI \<equiv> ALUI AluXOR"
abbreviation "SNCPU_ANDI \<equiv> ALUI AluAND"
abbreviation "SNCPU_NOT8 t \<equiv> ALUI AluXOR t 0xFF"
abbreviation "SNCPU_NOT16 t \<equiv> ALUI AluXOR t 0xFFFF"
abbreviation "SNCPU_ADC8 \<equiv> ADDER ADC8"
abbreviation "SNCPU_ADC16 \<equiv> ADDER ADC16"
abbreviation "SNCPU_SBC8 \<equiv> ADDER SBC8"
abbreviation "SNCPU_SBC16 \<equiv> ADDER SBC16"

subsection \<open>Registers, flags and operations\<close>

fun get_reg :: "reg \<Rightarrow> SNCpuRegsT \<Rightarrow> u32" where
  "get_reg A8 r = ucast (lo8 (rA r))"
| "get_reg X8 r = ucast (lo8 (rX r))"
| "get_reg Y8 r = ucast (lo8 (rY r))"
| "get_reg S8 r = ucast (lo8 (rS r))"
| "get_reg A16 r = ucast (rA r)"
| "get_reg X16 r = ucast (rX r)"
| "get_reg Y16 r = ucast (rY r)"
| "get_reg S16 r = ucast (rS r)"
| "get_reg DP r = ucast (rDP r)"
| "get_reg DB r = rDB r"

fun set_reg :: "reg \<Rightarrow> u32 \<Rightarrow> SNCpuRegsT \<Rightarrow> SNCpuRegsT" where
  "set_reg A8 v r = r\<lparr>rA := set_lo8 (rA r) (ucast v)\<rparr>"
| "set_reg X8 v r = r\<lparr>rX := set_lo8 (rX r) (ucast v)\<rparr>"
| "set_reg Y8 v r = r\<lparr>rY := set_lo8 (rY r) (ucast v)\<rparr>"
| "set_reg S8 v r = r\<lparr>rS := set_lo8 (rS r) (ucast v)\<rparr>"
| "set_reg A16 v r = r\<lparr>rA := ucast v\<rparr>"
| "set_reg X16 v r = r\<lparr>rX := ucast v\<rparr>"
| "set_reg Y16 v r = r\<lparr>rY := ucast v\<rparr>"
| "set_reg S16 v r = r\<lparr>rS := ucast v\<rparr>"
| "set_reg DP v r = r\<lparr>rDP := ucast v\<rparr>"
| "set_reg DB v r = r\<lparr>rDB := v\<rparr>"

definition set_V :: "u32 \<Rightarrow> SNCpuRegsT \<Rightarrow> SNCpuRegsT" where
  "set_V v r = r\<lparr>rP := (rP r AND NOT SNCPU_FLAG_V) OR ucast (push_bit 6 (v AND 1))\<rparr>"

fun set_flag :: "flag \<Rightarrow> u32 \<Rightarrow> 'w xst \<Rightarrow> 'w xst" where
  "set_flag Z8 v x = x\<lparr>fZ := push_bit 8 v\<rparr>"
| "set_flag Z16 v x = x\<lparr>fZ := push_bit 0 v\<rparr>"
| "set_flag N8 v x = x\<lparr>fN := push_bit 8 v\<rparr>"
| "set_flag N16 v x = x\<lparr>fN := push_bit 0 v\<rparr>"
| "set_flag FlagC v x = x\<lparr>fC := v AND 1\<rparr>"
| "set_flag FlagV v x = upd_regs (set_V v) x"

fun alu_op :: "alu \<Rightarrow> u32 \<Rightarrow> u32 \<Rightarrow> u32" where
  "alu_op AluADD a b = a + b"
| "alu_op AluSUB a b = a - b"
| "alu_op AluOR a b = a OR b"
| "alu_op AluXOR a b = a XOR b"
| "alu_op AluAND a b = a AND b"

text \<open>The four add macros differ in the sign bit and in the decimal routine.\<close>

fun adder_sign :: "adder \<Rightarrow> u32" where
  "adder_sign ADC8 = 0x80"
| "adder_sign ADC16 = 0x8000"
| "adder_sign SBC8 = 0x80"
| "adder_sign SBC16 = 0x8000"

fun adder_decimal :: "adder \<Rightarrow> u32 \<Rightarrow> u32 \<Rightarrow> u32 \<Rightarrow> u32" where
  "adder_decimal ADC8 = u_SNCpuDecimalADC8"
| "adder_decimal ADC16 = u_SNCpuDecimalADC16"
| "adder_decimal SBC8 = u_SNCpuDecimalSBC8"
| "adder_decimal SBC16 = u_SNCpuDecimalSBC16"

definition add_macro :: "adder \<Rightarrow> treg \<Rightarrow> treg \<Rightarrow> 'w xst \<Rightarrow> 'w xst" where
  "add_macro k d s x =
     (let Target = get_t d x;
          Src = get_t s x;
          Dest = Target + Src + (fC x AND 1);
          x = upd_regs (\<lambda>r. if NOT (Target XOR Src) AND (Target XOR Dest) AND adder_sign k \<noteq> 0
                             then r\<lparr>rP := rP r OR SNCPU_FLAG_V\<rparr>
                             else r\<lparr>rP := rP r AND NOT SNCPU_FLAG_V\<rparr>) x
      in set_t d (if rP (Regs (pCpu x)) AND SNCPU_FLAG_D \<noteq> 0
                  then adder_decimal k (fC x AND 1) Target Src else Dest) x)"

subsection \<open>Memory macros\<close>

definition lift_read :: "treg \<Rightarrow> 'w xst \<Rightarrow> ('v \<Rightarrow> u32) \<Rightarrow> ('v \<times> 'w SNCpuT) option \<Rightarrow> 'w xst option" where
  "lift_read t x f m = do { (v, c) \<leftarrow> m; Some (set_t t (f v) (x\<lparr>pCpu := c\<rparr>)) }"

definition lift_write :: "'w xst \<Rightarrow> 'w SNCpuT option \<Rightarrow> 'w xst option" where
  "lift_write x m = do { c \<leftarrow> m; Some (x\<lparr>pCpu := c\<rparr>) }"

definition bump_PC :: "u32 \<Rightarrow> 'w xst \<Rightarrow> 'w xst" where
  "bump_PC n x = x\<lparr>l_rPC := l_rPC x + n\<rparr>"

fun exec_fetch :: "'w traps \<Rightarrow> width \<Rightarrow> treg \<Rightarrow> 'w xst \<Rightarrow> 'w xst option" where
  "exec_fetch T W8 t x = map_option (bump_PC 1) (lift_read t x ucast (u_SNCPUFetch8 T (pCpu x) (l_rPC x)))"
| "exec_fetch T W16 t x = map_option (bump_PC 2) (lift_read t x ucast (u_SNCPUFetch16 T (pCpu x) (l_rPC x)))"
| "exec_fetch T W24 t x = map_option (bump_PC 3) (lift_read t x id (u_SNCPUFetch24 T (pCpu x) (l_rPC x)))"

fun exec_read :: "'w traps \<Rightarrow> width \<Rightarrow> treg \<Rightarrow> treg \<Rightarrow> 'w xst \<Rightarrow> 'w xst option" where
  "exec_read T W8 a t x = lift_read t x ucast (u_SNCPURead8 T (pCpu x) (get_t a x))"
| "exec_read T W16 a t x = lift_read t x ucast (u_SNCPURead16 T (pCpu x) (get_t a x))"
| "exec_read T W24 a t x = lift_read t x id (u_SNCPURead24 T (pCpu x) (get_t a x))"

text \<open>There is no 24-bit write macro; the operation does not occur.\<close>

fun exec_write :: "'w traps \<Rightarrow> width \<Rightarrow> treg \<Rightarrow> treg \<Rightarrow> 'w xst \<Rightarrow> 'w xst option" where
  "exec_write T W8 a d x = lift_write x (u_SNCPUWrite8 T (pCpu x) (get_t a x) (ucast (get_t d x)))"
| "exec_write T W16 a d x = lift_write x (u_SNCPUWrite16 T (pCpu x) (get_t a x) (ucast (get_t d x)))"
| "exec_write T W24 a d x = None"

fun exec_push :: "'w traps \<Rightarrow> width \<Rightarrow> treg \<Rightarrow> 'w xst \<Rightarrow> 'w xst option" where
  "exec_push T W8 d x = lift_write x (u_SNCPUPush8 T (pCpu x) (ucast (get_t d x)))"
| "exec_push T W16 d x = lift_write x (u_SNCPUPush16 T (pCpu x) (ucast (get_t d x)))"
| "exec_push T W24 d x = lift_write x (u_SNCPUPush24 T (pCpu x) (get_t d x))"

fun exec_pop :: "'w traps \<Rightarrow> width \<Rightarrow> treg \<Rightarrow> 'w xst \<Rightarrow> 'w xst option" where
  "exec_pop T W8 t x = lift_read t x ucast (u_SNCPUPop8 T (pCpu x))"
| "exec_pop T W16 t x = lift_read t x ucast (u_SNCPUPop16 T (pCpu x))"
| "exec_pop T W24 t x = lift_read t x id (u_SNCPUPop24 T (pCpu x))"

primrec exec_uop :: "'w traps \<Rightarrow> uop \<Rightarrow> 'w xst \<Rightarrow> 'w xst option" where
  "exec_uop T (SNCPU_SUBCYCLES n) x = Some (x\<lparr>pCpu := SNCPU_SUBCYCLES_c n (pCpu x)\<rparr>)"
| "exec_uop T (SNCPU_ENDOP n) x = Some (x\<lparr>pCpu := SNCPU_SUBCYCLES_c n (pCpu x)\<rparr>)"
| "exec_uop T (FETCH w t) x = exec_fetch T w t x"
| "exec_uop T (WRITE w a d) x = exec_write T w a d x"
| "exec_uop T (READ w a t) x = exec_read T w a t x"
| "exec_uop T (PUSH w d) x = exec_push T w d x"
| "exec_uop T (POP w t) x = exec_pop T w t x"
| "exec_uop T (SET r t) x = Some (upd_regs (set_reg r (get_t t x)) x)"
| "exec_uop T (GET r t) x = Some (set_t t (get_reg r (Regs (pCpu x))) x)"
| "exec_uop T (SNCPU_GETI t i) x = Some (set_t t i x)"
| "exec_uop T (SNCPU_GET_PC t) x = Some (set_t t (l_rPC x) x)"
| "exec_uop T (SNCPU_SET_PC16 t) x =
     Some (x\<lparr>l_rPC := ((l_rPC x - 1) AND NOT 0xFFFF) OR get_t t x\<rparr>)"
| "exec_uop T (SNCPU_SET_PC24 t) x = Some (x\<lparr>l_rPC := get_t t x AND 0xFFFFFF\<rparr>)"
| "exec_uop T (SNCPU_SET_P t) x = Some (SNCPU_UNPACKFLAGS (upd_regs (\<lambda>r. r\<lparr>rP := ucast (get_t t x)\<rparr>) x))"
| "exec_uop T (SNCPU_GET_P t) x =
     Some (let x = SNCPU_PACKFLAGS x in set_t t (ucast (rP (Regs (pCpu x)))) x)"
| "exec_uop T (SETFLAG f t) x = Some (set_flag f (get_t t x) x)"
| "exec_uop T (SNCPU_SETFLAGI_C i) x = Some (x\<lparr>fC := i AND 1\<rparr>)"
| "exec_uop T (SNCPU_SETFLAGI_V i) x = Some (upd_regs (set_V i) x)"
| "exec_uop T (SNCPU_GETFLAG_C t) x = Some (set_t t (fC x AND 1) x)"
| "exec_uop T (SNCPU_GETFLAG_E t) x = Some (set_t t (ucast (rE (Regs (pCpu x)))) x)"
| "exec_uop T (SNCPU_SETFLAG_E t) x = Some (SNCPU_SETFLAG_E_x (ucast (get_t t x)) x)"
| "exec_uop T (SETBIT b) x = Some (upd_regs (\<lambda>r. r\<lparr>rP := rP r OR b\<rparr>) x)"
| "exec_uop T (CLRBIT b) x = Some (upd_regs (\<lambda>r. r\<lparr>rP := rP r AND NOT b\<rparr>) x)"
| "exec_uop T (ALU k t s) x = Some (set_t t (alu_op k (get_t t x) (get_src s x)) x)"
| "exec_uop T (ALUI k t i) x = Some (set_t t (alu_op k (get_t t x) i) x)"
| "exec_uop T (SNCPU_SHLI t n) x = Some (set_t t (push_bit n (get_t t x)) x)"
| "exec_uop T (SNCPU_SHRI t n) x = Some (set_t t (drop_bit n (get_t t x)) x)"
| "exec_uop T (ADDER k d s) x = Some (add_macro k d s x)"

end
