(* ===== verification/Op65816_Arith.thy ===== *)
theory Op65816_Arith
  imports Sn_Cpu_C
begin

text \<open>
  Instruction handlers of \<^verbatim>\<open>SNESticle/XML/op65816.h\<close>: the arithmetic of the accumulator: ADC, SBC and the comparisons.
  A handler is the list of its \<^verbatim>\<open>case\<close> labels (opcode byte, plus \<^verbatim>\<open>0x100\<close> when X is set,
  \<^verbatim>\<open>0x200\<close> when M is set, \<^verbatim>\<open>0x400\<close> in emulation mode) with the macros of its body, in order.
\<close>

definition op65816_ADC_1 :: "(nat list \<times> uop list) list" where
  "op65816_ADC_1 =
   [
    \<comment> \<open>addr_dp_ix_indirect_read_ADC_m0\<close> ([0x061, 0x161],
      [SNCPU_FETCH8 R_t0, SNCPU_ADD R_t0 R_DP, SNCPU_ANDI R_t0 0xFFFF, SNCPU_SUBCYCLES 1,
      SNCPU_ADD R_t0 R_X, SNCPU_AND R_t0 R_DPMASK, SNCPU_READ16 R_t0 R_t0, SNCPU_OR R_t0 R_DB,
      SNCPU_READ16 R_t0 R_t1, SNCPU_GET_A16 R_t2, SNCPU_ADC16 R_t2 R_t1, SNCPU_SET_A16 R_t2,
      SNCPU_SETFLAG_Z16 R_t2, SNCPU_SETFLAG_N16 R_t2, SNCPU_SHRI R_t2 16, SNCPU_SETFLAG_C R_t2,
      SNCPU_ENDOP 0]),
    \<comment> \<open>addr_dp_ix_indirect_read_ADC_m1\<close> ([0x261, 0x361, 0x461],
      [SNCPU_FETCH8 R_t0, SNCPU_ADD R_t0 R_DP, SNCPU_ANDI R_t0 0xFFFF, SNCPU_SUBCYCLES 1,
      SNCPU_ADD R_t0 R_X, SNCPU_AND R_t0 R_DPMASK, SNCPU_READ16 R_t0 R_t0, SNCPU_OR R_t0 R_DB,
      SNCPU_READ8 R_t0 R_t1, SNCPU_GET_A8 R_t2, SNCPU_ADC8 R_t2 R_t1, SNCPU_SET_A8 R_t2,
      SNCPU_SETFLAG_Z8 R_t2, SNCPU_SETFLAG_N8 R_t2, SNCPU_SHRI R_t2 8, SNCPU_SETFLAG_C R_t2,
      SNCPU_ENDOP 0]),
    \<comment> \<open>addr_sr_read_ADC_m0\<close> ([0x063, 0x163],
      [SNCPU_FETCH8 R_t0, SNCPU_ADD R_t0 R_S, SNCPU_ANDI R_t0 0xFFFF, SNCPU_SUBCYCLES 1,
      SNCPU_READ16 R_t0 R_t1, SNCPU_GET_A16 R_t2, SNCPU_ADC16 R_t2 R_t1, SNCPU_SET_A16 R_t2,
      SNCPU_SETFLAG_Z16 R_t2, SNCPU_SETFLAG_N16 R_t2, SNCPU_SHRI R_t2 16, SNCPU_SETFLAG_C R_t2,
      SNCPU_ENDOP 0]),
    \<comment> \<open>addr_sr_read_ADC_m1\<close> ([0x263, 0x363, 0x463],
      [SNCPU_FETCH8 R_t0, SNCPU_ADD R_t0 R_S, SNCPU_ANDI R_t0 0xFFFF, SNCPU_SUBCYCLES 1,
      SNCPU_READ8 R_t0 R_t1, SNCPU_GET_A8 R_t2, SNCPU_ADC8 R_t2 R_t1, SNCPU_SET_A8 R_t2,
      SNCPU_SETFLAG_Z8 R_t2, SNCPU_SETFLAG_N8 R_t2, SNCPU_SHRI R_t2 8, SNCPU_SETFLAG_C R_t2,
      SNCPU_ENDOP 0]),
    \<comment> \<open>addr_dp_read_ADC_m0\<close> ([0x065, 0x165],
      [SNCPU_FETCH8 R_t0, SNCPU_ADD R_t0 R_DP, SNCPU_ANDI R_t0 0xFFFF, SNCPU_READ16 R_t0 R_t1,
      SNCPU_GET_A16 R_t2, SNCPU_ADC16 R_t2 R_t1, SNCPU_SET_A16 R_t2, SNCPU_SETFLAG_Z16 R_t2,
      SNCPU_SETFLAG_N16 R_t2, SNCPU_SHRI R_t2 16, SNCPU_SETFLAG_C R_t2, SNCPU_ENDOP 0]),
    \<comment> \<open>addr_dp_read_ADC_m1\<close> ([0x265, 0x365, 0x465],
      [SNCPU_FETCH8 R_t0, SNCPU_ADD R_t0 R_DP, SNCPU_ANDI R_t0 0xFFFF, SNCPU_READ8 R_t0 R_t1,
      SNCPU_GET_A8 R_t2, SNCPU_ADC8 R_t2 R_t1, SNCPU_SET_A8 R_t2, SNCPU_SETFLAG_Z8 R_t2,
      SNCPU_SETFLAG_N8 R_t2, SNCPU_SHRI R_t2 8, SNCPU_SETFLAG_C R_t2, SNCPU_ENDOP 0]),
    \<comment> \<open>addr_dp_indirectlong_read_ADC_m0\<close> ([0x067, 0x167],
      [SNCPU_FETCH8 R_t0, SNCPU_ADD R_t0 R_DP, SNCPU_ANDI R_t0 0xFFFF, SNCPU_READ24 R_t0 R_t0,
      SNCPU_READ16 R_t0 R_t1, SNCPU_GET_A16 R_t2, SNCPU_ADC16 R_t2 R_t1, SNCPU_SET_A16 R_t2,
      SNCPU_SETFLAG_Z16 R_t2, SNCPU_SETFLAG_N16 R_t2, SNCPU_SHRI R_t2 16, SNCPU_SETFLAG_C R_t2,
      SNCPU_ENDOP 0]),
    \<comment> \<open>addr_dp_indirectlong_read_ADC_m1\<close> ([0x267, 0x367, 0x467],
      [SNCPU_FETCH8 R_t0, SNCPU_ADD R_t0 R_DP, SNCPU_ANDI R_t0 0xFFFF, SNCPU_READ24 R_t0 R_t0,
      SNCPU_READ8 R_t0 R_t1, SNCPU_GET_A8 R_t2, SNCPU_ADC8 R_t2 R_t1, SNCPU_SET_A8 R_t2,
      SNCPU_SETFLAG_Z8 R_t2, SNCPU_SETFLAG_N8 R_t2, SNCPU_SHRI R_t2 8, SNCPU_SETFLAG_C R_t2,
      SNCPU_ENDOP 0])]"

definition op65816_ADC_2 :: "(nat list \<times> uop list) list" where
  "op65816_ADC_2 =
   [
    \<comment> \<open>addr_imma_ADC_m0\<close> ([0x069, 0x169],
      [SNCPU_FETCH16 R_t1, SNCPU_GET_A16 R_t2, SNCPU_ADC16 R_t2 R_t1, SNCPU_SET_A16 R_t2,
      SNCPU_SETFLAG_Z16 R_t2, SNCPU_SETFLAG_N16 R_t2, SNCPU_SHRI R_t2 16, SNCPU_SETFLAG_C R_t2,
      SNCPU_ENDOP 0]),
    \<comment> \<open>addr_imma_ADC_m1\<close> ([0x269, 0x369, 0x469],
      [SNCPU_FETCH8 R_t1, SNCPU_GET_A8 R_t2, SNCPU_ADC8 R_t2 R_t1, SNCPU_SET_A8 R_t2,
      SNCPU_SETFLAG_Z8 R_t2, SNCPU_SETFLAG_N8 R_t2, SNCPU_SHRI R_t2 8, SNCPU_SETFLAG_C R_t2,
      SNCPU_ENDOP 0]),
    \<comment> \<open>addr_abs_read_ADC_m0\<close> ([0x06d, 0x16d],
      [SNCPU_FETCH16 R_t0, SNCPU_OR R_t0 R_DB, SNCPU_READ16 R_t0 R_t1, SNCPU_GET_A16 R_t2,
      SNCPU_ADC16 R_t2 R_t1, SNCPU_SET_A16 R_t2, SNCPU_SETFLAG_Z16 R_t2,
      SNCPU_SETFLAG_N16 R_t2, SNCPU_SHRI R_t2 16, SNCPU_SETFLAG_C R_t2, SNCPU_ENDOP 0]),
    \<comment> \<open>addr_abs_read_ADC_m1\<close> ([0x26d, 0x36d, 0x46d],
      [SNCPU_FETCH16 R_t0, SNCPU_OR R_t0 R_DB, SNCPU_READ8 R_t0 R_t1, SNCPU_GET_A8 R_t2,
      SNCPU_ADC8 R_t2 R_t1, SNCPU_SET_A8 R_t2, SNCPU_SETFLAG_Z8 R_t2, SNCPU_SETFLAG_N8 R_t2,
      SNCPU_SHRI R_t2 8, SNCPU_SETFLAG_C R_t2, SNCPU_ENDOP 0]),
    \<comment> \<open>addr_abslong_read_ADC_m0\<close> ([0x06f, 0x16f],
      [SNCPU_FETCH24 R_t0, SNCPU_READ16 R_t0 R_t1, SNCPU_GET_A16 R_t2, SNCPU_ADC16 R_t2 R_t1,
      SNCPU_SET_A16 R_t2, SNCPU_SETFLAG_Z16 R_t2, SNCPU_SETFLAG_N16 R_t2, SNCPU_SHRI R_t2 16,
      SNCPU_SETFLAG_C R_t2, SNCPU_ENDOP 0]),
    \<comment> \<open>addr_abslong_read_ADC_m1\<close> ([0x26f, 0x36f, 0x46f],
      [SNCPU_FETCH24 R_t0, SNCPU_READ8 R_t0 R_t1, SNCPU_GET_A8 R_t2, SNCPU_ADC8 R_t2 R_t1,
      SNCPU_SET_A8 R_t2, SNCPU_SETFLAG_Z8 R_t2, SNCPU_SETFLAG_N8 R_t2, SNCPU_SHRI R_t2 8,
      SNCPU_SETFLAG_C R_t2, SNCPU_ENDOP 0]),
    \<comment> \<open>addr_dp_indirect_iy_read_ADC_m0\<close> ([0x071, 0x171],
      [SNCPU_FETCH8 R_t0, SNCPU_ADD R_t0 R_DP, SNCPU_ANDI R_t0 0xFFFF, SNCPU_READ16 R_t0 R_t0,
      SNCPU_OR R_t0 R_DB, SNCPU_ADD R_t0 R_Y, SNCPU_READ16 R_t0 R_t1, SNCPU_GET_A16 R_t2,
      SNCPU_ADC16 R_t2 R_t1, SNCPU_SET_A16 R_t2, SNCPU_SETFLAG_Z16 R_t2,
      SNCPU_SETFLAG_N16 R_t2, SNCPU_SHRI R_t2 16, SNCPU_SETFLAG_C R_t2, SNCPU_ENDOP 0]),
    \<comment> \<open>addr_dp_indirect_iy_read_ADC_m1\<close> ([0x271, 0x371, 0x471],
      [SNCPU_FETCH8 R_t0, SNCPU_ADD R_t0 R_DP, SNCPU_ANDI R_t0 0xFFFF, SNCPU_READ16 R_t0 R_t0,
      SNCPU_OR R_t0 R_DB, SNCPU_ADD R_t0 R_Y, SNCPU_READ8 R_t0 R_t1, SNCPU_GET_A8 R_t2,
      SNCPU_ADC8 R_t2 R_t1, SNCPU_SET_A8 R_t2, SNCPU_SETFLAG_Z8 R_t2, SNCPU_SETFLAG_N8 R_t2,
      SNCPU_SHRI R_t2 8, SNCPU_SETFLAG_C R_t2, SNCPU_ENDOP 0]),
    \<comment> \<open>addr_dp_indirect_read_ADC_m0\<close> ([0x072, 0x172],
      [SNCPU_FETCH8 R_t0, SNCPU_ADD R_t0 R_DP, SNCPU_ANDI R_t0 0xFFFF, SNCPU_READ16 R_t0 R_t0,
      SNCPU_OR R_t0 R_DB, SNCPU_READ16 R_t0 R_t1, SNCPU_GET_A16 R_t2, SNCPU_ADC16 R_t2 R_t1,
      SNCPU_SET_A16 R_t2, SNCPU_SETFLAG_Z16 R_t2, SNCPU_SETFLAG_N16 R_t2, SNCPU_SHRI R_t2 16,
      SNCPU_SETFLAG_C R_t2, SNCPU_ENDOP 0])]"

definition op65816_ADC_3 :: "(nat list \<times> uop list) list" where
  "op65816_ADC_3 =
   [
    \<comment> \<open>addr_dp_indirect_read_ADC_m1\<close> ([0x272, 0x372, 0x472],
      [SNCPU_FETCH8 R_t0, SNCPU_ADD R_t0 R_DP, SNCPU_ANDI R_t0 0xFFFF, SNCPU_READ16 R_t0 R_t0,
      SNCPU_OR R_t0 R_DB, SNCPU_READ8 R_t0 R_t1, SNCPU_GET_A8 R_t2, SNCPU_ADC8 R_t2 R_t1,
      SNCPU_SET_A8 R_t2, SNCPU_SETFLAG_Z8 R_t2, SNCPU_SETFLAG_N8 R_t2, SNCPU_SHRI R_t2 8,
      SNCPU_SETFLAG_C R_t2, SNCPU_ENDOP 0]),
    \<comment> \<open>addr_sr_indirect_iy_read_ADC_m0\<close> ([0x073, 0x173],
      [SNCPU_FETCH8 R_t0, SNCPU_ADD R_t0 R_S, SNCPU_ANDI R_t0 0xFFFF, SNCPU_SUBCYCLES 1,
      SNCPU_READ16 R_t0 R_t0, SNCPU_OR R_t0 R_DB, SNCPU_SUBCYCLES 1, SNCPU_ADD R_t0 R_Y,
      SNCPU_READ16 R_t0 R_t1, SNCPU_GET_A16 R_t2, SNCPU_ADC16 R_t2 R_t1, SNCPU_SET_A16 R_t2,
      SNCPU_SETFLAG_Z16 R_t2, SNCPU_SETFLAG_N16 R_t2, SNCPU_SHRI R_t2 16, SNCPU_SETFLAG_C R_t2,
      SNCPU_ENDOP 0]),
    \<comment> \<open>addr_sr_indirect_iy_read_ADC_m1\<close> ([0x273, 0x373, 0x473],
      [SNCPU_FETCH8 R_t0, SNCPU_ADD R_t0 R_S, SNCPU_ANDI R_t0 0xFFFF, SNCPU_SUBCYCLES 1,
      SNCPU_READ16 R_t0 R_t0, SNCPU_OR R_t0 R_DB, SNCPU_SUBCYCLES 1, SNCPU_ADD R_t0 R_Y,
      SNCPU_READ8 R_t0 R_t1, SNCPU_GET_A8 R_t2, SNCPU_ADC8 R_t2 R_t1, SNCPU_SET_A8 R_t2,
      SNCPU_SETFLAG_Z8 R_t2, SNCPU_SETFLAG_N8 R_t2, SNCPU_SHRI R_t2 8, SNCPU_SETFLAG_C R_t2,
      SNCPU_ENDOP 0]),
    \<comment> \<open>addr_dp_ix_read_ADC_m0\<close> ([0x075, 0x175],
      [SNCPU_FETCH8 R_t0, SNCPU_ADD R_t0 R_DP, SNCPU_ANDI R_t0 0xFFFF, SNCPU_SUBCYCLES 1,
      SNCPU_ADD R_t0 R_X, SNCPU_AND R_t0 R_DPMASK, SNCPU_READ16 R_t0 R_t1, SNCPU_GET_A16 R_t2,
      SNCPU_ADC16 R_t2 R_t1, SNCPU_SET_A16 R_t2, SNCPU_SETFLAG_Z16 R_t2,
      SNCPU_SETFLAG_N16 R_t2, SNCPU_SHRI R_t2 16, SNCPU_SETFLAG_C R_t2, SNCPU_ENDOP 0]),
    \<comment> \<open>addr_dp_ix_read_ADC_m1\<close> ([0x275, 0x375, 0x475],
      [SNCPU_FETCH8 R_t0, SNCPU_ADD R_t0 R_DP, SNCPU_ANDI R_t0 0xFFFF, SNCPU_SUBCYCLES 1,
      SNCPU_ADD R_t0 R_X, SNCPU_AND R_t0 R_DPMASK, SNCPU_READ8 R_t0 R_t1, SNCPU_GET_A8 R_t2,
      SNCPU_ADC8 R_t2 R_t1, SNCPU_SET_A8 R_t2, SNCPU_SETFLAG_Z8 R_t2, SNCPU_SETFLAG_N8 R_t2,
      SNCPU_SHRI R_t2 8, SNCPU_SETFLAG_C R_t2, SNCPU_ENDOP 0]),
    \<comment> \<open>addr_dp_indirectlong_iy_read_ADC_m0\<close> ([0x077, 0x177],
      [SNCPU_FETCH8 R_t0, SNCPU_ADD R_t0 R_DP, SNCPU_ANDI R_t0 0xFFFF, SNCPU_READ24 R_t0 R_t0,
      SNCPU_ADD R_t0 R_Y, SNCPU_READ16 R_t0 R_t1, SNCPU_GET_A16 R_t2, SNCPU_ADC16 R_t2 R_t1,
      SNCPU_SET_A16 R_t2, SNCPU_SETFLAG_Z16 R_t2, SNCPU_SETFLAG_N16 R_t2, SNCPU_SHRI R_t2 16,
      SNCPU_SETFLAG_C R_t2, SNCPU_ENDOP 0]),
    \<comment> \<open>addr_dp_indirectlong_iy_read_ADC_m1\<close> ([0x277, 0x377, 0x477],
      [SNCPU_FETCH8 R_t0, SNCPU_ADD R_t0 R_DP, SNCPU_ANDI R_t0 0xFFFF, SNCPU_READ24 R_t0 R_t0,
      SNCPU_ADD R_t0 R_Y, SNCPU_READ8 R_t0 R_t1, SNCPU_GET_A8 R_t2, SNCPU_ADC8 R_t2 R_t1,
      SNCPU_SET_A8 R_t2, SNCPU_SETFLAG_Z8 R_t2, SNCPU_SETFLAG_N8 R_t2, SNCPU_SHRI R_t2 8,
      SNCPU_SETFLAG_C R_t2, SNCPU_ENDOP 0])]"

definition op65816_ADC_4 :: "(nat list \<times> uop list) list" where
  "op65816_ADC_4 =
   [
    \<comment> \<open>addr_abs_iy_read_ADC_m0\<close> ([0x079, 0x179],
      [SNCPU_FETCH16 R_t0, SNCPU_OR R_t0 R_DB, SNCPU_ADD R_t0 R_Y, SNCPU_READ16 R_t0 R_t1,
      SNCPU_GET_A16 R_t2, SNCPU_ADC16 R_t2 R_t1, SNCPU_SET_A16 R_t2, SNCPU_SETFLAG_Z16 R_t2,
      SNCPU_SETFLAG_N16 R_t2, SNCPU_SHRI R_t2 16, SNCPU_SETFLAG_C R_t2, SNCPU_ENDOP 0]),
    \<comment> \<open>addr_abs_iy_read_ADC_m1\<close> ([0x279, 0x379, 0x479],
      [SNCPU_FETCH16 R_t0, SNCPU_OR R_t0 R_DB, SNCPU_ADD R_t0 R_Y, SNCPU_READ8 R_t0 R_t1,
      SNCPU_GET_A8 R_t2, SNCPU_ADC8 R_t2 R_t1, SNCPU_SET_A8 R_t2, SNCPU_SETFLAG_Z8 R_t2,
      SNCPU_SETFLAG_N8 R_t2, SNCPU_SHRI R_t2 8, SNCPU_SETFLAG_C R_t2, SNCPU_ENDOP 0]),
    \<comment> \<open>addr_abs_ix_read_ADC_m0\<close> ([0x07d, 0x17d],
      [SNCPU_FETCH16 R_t0, SNCPU_OR R_t0 R_DB, SNCPU_ADD R_t0 R_X, SNCPU_READ16 R_t0 R_t1,
      SNCPU_GET_A16 R_t2, SNCPU_ADC16 R_t2 R_t1, SNCPU_SET_A16 R_t2, SNCPU_SETFLAG_Z16 R_t2,
      SNCPU_SETFLAG_N16 R_t2, SNCPU_SHRI R_t2 16, SNCPU_SETFLAG_C R_t2, SNCPU_ENDOP 0]),
    \<comment> \<open>addr_abs_ix_read_ADC_m1\<close> ([0x27d, 0x37d, 0x47d],
      [SNCPU_FETCH16 R_t0, SNCPU_OR R_t0 R_DB, SNCPU_ADD R_t0 R_X, SNCPU_READ8 R_t0 R_t1,
      SNCPU_GET_A8 R_t2, SNCPU_ADC8 R_t2 R_t1, SNCPU_SET_A8 R_t2, SNCPU_SETFLAG_Z8 R_t2,
      SNCPU_SETFLAG_N8 R_t2, SNCPU_SHRI R_t2 8, SNCPU_SETFLAG_C R_t2, SNCPU_ENDOP 0]),
    \<comment> \<open>addr_abslong_ix_read_ADC_m0\<close> ([0x07f, 0x17f],
      [SNCPU_FETCH24 R_t0, SNCPU_ADD R_t0 R_X, SNCPU_READ16 R_t0 R_t1, SNCPU_GET_A16 R_t2,
      SNCPU_ADC16 R_t2 R_t1, SNCPU_SET_A16 R_t2, SNCPU_SETFLAG_Z16 R_t2,
      SNCPU_SETFLAG_N16 R_t2, SNCPU_SHRI R_t2 16, SNCPU_SETFLAG_C R_t2, SNCPU_ENDOP 0]),
    \<comment> \<open>addr_abslong_ix_read_ADC_m1\<close> ([0x27f, 0x37f, 0x47f],
      [SNCPU_FETCH24 R_t0, SNCPU_ADD R_t0 R_X, SNCPU_READ8 R_t0 R_t1, SNCPU_GET_A8 R_t2,
      SNCPU_ADC8 R_t2 R_t1, SNCPU_SET_A8 R_t2, SNCPU_SETFLAG_Z8 R_t2, SNCPU_SETFLAG_N8 R_t2,
      SNCPU_SHRI R_t2 8, SNCPU_SETFLAG_C R_t2, SNCPU_ENDOP 0])]"

definition op65816_SBC_1 :: "(nat list \<times> uop list) list" where
  "op65816_SBC_1 =
   [
    \<comment> \<open>addr_dp_ix_indirect_read_SBC_m0\<close> ([0x0e1, 0x1e1],
      [SNCPU_FETCH8 R_t0, SNCPU_ADD R_t0 R_DP, SNCPU_ANDI R_t0 0xFFFF, SNCPU_SUBCYCLES 1,
      SNCPU_ADD R_t0 R_X, SNCPU_AND R_t0 R_DPMASK, SNCPU_READ16 R_t0 R_t0, SNCPU_OR R_t0 R_DB,
      SNCPU_READ16 R_t0 R_t1, SNCPU_NOT16 R_t1, SNCPU_GET_A16 R_t2, SNCPU_SBC16 R_t2 R_t1,
      SNCPU_SET_A16 R_t2, SNCPU_SETFLAG_Z16 R_t2, SNCPU_SETFLAG_N16 R_t2, SNCPU_SHRI R_t2 16,
      SNCPU_SETFLAG_C R_t2, SNCPU_ENDOP 0]),
    \<comment> \<open>addr_dp_ix_indirect_read_SBC_m1\<close> ([0x2e1, 0x3e1, 0x4e1],
      [SNCPU_FETCH8 R_t0, SNCPU_ADD R_t0 R_DP, SNCPU_ANDI R_t0 0xFFFF, SNCPU_SUBCYCLES 1,
      SNCPU_ADD R_t0 R_X, SNCPU_AND R_t0 R_DPMASK, SNCPU_READ16 R_t0 R_t0, SNCPU_OR R_t0 R_DB,
      SNCPU_READ8 R_t0 R_t1, SNCPU_NOT8 R_t1, SNCPU_GET_A8 R_t2, SNCPU_SBC8 R_t2 R_t1,
      SNCPU_SET_A8 R_t2, SNCPU_SETFLAG_Z8 R_t2, SNCPU_SETFLAG_N8 R_t2, SNCPU_SHRI R_t2 8,
      SNCPU_SETFLAG_C R_t2, SNCPU_ENDOP 0]),
    \<comment> \<open>addr_sr_read_SBC_m0\<close> ([0x0e3, 0x1e3],
      [SNCPU_FETCH8 R_t0, SNCPU_ADD R_t0 R_S, SNCPU_ANDI R_t0 0xFFFF, SNCPU_SUBCYCLES 1,
      SNCPU_READ16 R_t0 R_t1, SNCPU_NOT16 R_t1, SNCPU_GET_A16 R_t2, SNCPU_SBC16 R_t2 R_t1,
      SNCPU_SET_A16 R_t2, SNCPU_SETFLAG_Z16 R_t2, SNCPU_SETFLAG_N16 R_t2, SNCPU_SHRI R_t2 16,
      SNCPU_SETFLAG_C R_t2, SNCPU_ENDOP 0]),
    \<comment> \<open>addr_sr_read_SBC_m1\<close> ([0x2e3, 0x3e3, 0x4e3],
      [SNCPU_FETCH8 R_t0, SNCPU_ADD R_t0 R_S, SNCPU_ANDI R_t0 0xFFFF, SNCPU_SUBCYCLES 1,
      SNCPU_READ8 R_t0 R_t1, SNCPU_NOT8 R_t1, SNCPU_GET_A8 R_t2, SNCPU_SBC8 R_t2 R_t1,
      SNCPU_SET_A8 R_t2, SNCPU_SETFLAG_Z8 R_t2, SNCPU_SETFLAG_N8 R_t2, SNCPU_SHRI R_t2 8,
      SNCPU_SETFLAG_C R_t2, SNCPU_ENDOP 0]),
    \<comment> \<open>addr_dp_read_SBC_m0\<close> ([0x0e5, 0x1e5],
      [SNCPU_FETCH8 R_t0, SNCPU_ADD R_t0 R_DP, SNCPU_ANDI R_t0 0xFFFF, SNCPU_READ16 R_t0 R_t1,
      SNCPU_NOT16 R_t1, SNCPU_GET_A16 R_t2, SNCPU_SBC16 R_t2 R_t1, SNCPU_SET_A16 R_t2,
      SNCPU_SETFLAG_Z16 R_t2, SNCPU_SETFLAG_N16 R_t2, SNCPU_SHRI R_t2 16, SNCPU_SETFLAG_C R_t2,
      SNCPU_ENDOP 0]),
    \<comment> \<open>addr_dp_read_SBC_m1\<close> ([0x2e5, 0x3e5, 0x4e5],
      [SNCPU_FETCH8 R_t0, SNCPU_ADD R_t0 R_DP, SNCPU_ANDI R_t0 0xFFFF, SNCPU_READ8 R_t0 R_t1,
      SNCPU_NOT8 R_t1, SNCPU_GET_A8 R_t2, SNCPU_SBC8 R_t2 R_t1, SNCPU_SET_A8 R_t2,
      SNCPU_SETFLAG_Z8 R_t2, SNCPU_SETFLAG_N8 R_t2, SNCPU_SHRI R_t2 8, SNCPU_SETFLAG_C R_t2,
      SNCPU_ENDOP 0]),
    \<comment> \<open>addr_dp_indirectlong_read_SBC_m0\<close> ([0x0e7, 0x1e7],
      [SNCPU_FETCH8 R_t0, SNCPU_ADD R_t0 R_DP, SNCPU_ANDI R_t0 0xFFFF, SNCPU_READ24 R_t0 R_t0,
      SNCPU_READ16 R_t0 R_t1, SNCPU_NOT16 R_t1, SNCPU_GET_A16 R_t2, SNCPU_SBC16 R_t2 R_t1,
      SNCPU_SET_A16 R_t2, SNCPU_SETFLAG_Z16 R_t2, SNCPU_SETFLAG_N16 R_t2, SNCPU_SHRI R_t2 16,
      SNCPU_SETFLAG_C R_t2, SNCPU_ENDOP 0])]"

definition op65816_SBC_2 :: "(nat list \<times> uop list) list" where
  "op65816_SBC_2 =
   [
    \<comment> \<open>addr_dp_indirectlong_read_SBC_m1\<close> ([0x2e7, 0x3e7, 0x4e7],
      [SNCPU_FETCH8 R_t0, SNCPU_ADD R_t0 R_DP, SNCPU_ANDI R_t0 0xFFFF, SNCPU_READ24 R_t0 R_t0,
      SNCPU_READ8 R_t0 R_t1, SNCPU_NOT8 R_t1, SNCPU_GET_A8 R_t2, SNCPU_SBC8 R_t2 R_t1,
      SNCPU_SET_A8 R_t2, SNCPU_SETFLAG_Z8 R_t2, SNCPU_SETFLAG_N8 R_t2, SNCPU_SHRI R_t2 8,
      SNCPU_SETFLAG_C R_t2, SNCPU_ENDOP 0]),
    \<comment> \<open>addr_imma_SBC_m0\<close> ([0x0e9, 0x1e9],
      [SNCPU_FETCH16 R_t1, SNCPU_NOT16 R_t1, SNCPU_GET_A16 R_t2, SNCPU_SBC16 R_t2 R_t1,
      SNCPU_SET_A16 R_t2, SNCPU_SETFLAG_Z16 R_t2, SNCPU_SETFLAG_N16 R_t2, SNCPU_SHRI R_t2 16,
      SNCPU_SETFLAG_C R_t2, SNCPU_ENDOP 0]),
    \<comment> \<open>addr_imma_SBC_m1\<close> ([0x2e9, 0x3e9, 0x4e9],
      [SNCPU_FETCH8 R_t1, SNCPU_NOT8 R_t1, SNCPU_GET_A8 R_t2, SNCPU_SBC8 R_t2 R_t1,
      SNCPU_SET_A8 R_t2, SNCPU_SETFLAG_Z8 R_t2, SNCPU_SETFLAG_N8 R_t2, SNCPU_SHRI R_t2 8,
      SNCPU_SETFLAG_C R_t2, SNCPU_ENDOP 0]),
    \<comment> \<open>addr_abs_read_SBC_m0\<close> ([0x0ed, 0x1ed],
      [SNCPU_FETCH16 R_t0, SNCPU_OR R_t0 R_DB, SNCPU_READ16 R_t0 R_t1, SNCPU_NOT16 R_t1,
      SNCPU_GET_A16 R_t2, SNCPU_SBC16 R_t2 R_t1, SNCPU_SET_A16 R_t2, SNCPU_SETFLAG_Z16 R_t2,
      SNCPU_SETFLAG_N16 R_t2, SNCPU_SHRI R_t2 16, SNCPU_SETFLAG_C R_t2, SNCPU_ENDOP 0]),
    \<comment> \<open>addr_abs_read_SBC_m1\<close> ([0x2ed, 0x3ed, 0x4ed],
      [SNCPU_FETCH16 R_t0, SNCPU_OR R_t0 R_DB, SNCPU_READ8 R_t0 R_t1, SNCPU_NOT8 R_t1,
      SNCPU_GET_A8 R_t2, SNCPU_SBC8 R_t2 R_t1, SNCPU_SET_A8 R_t2, SNCPU_SETFLAG_Z8 R_t2,
      SNCPU_SETFLAG_N8 R_t2, SNCPU_SHRI R_t2 8, SNCPU_SETFLAG_C R_t2, SNCPU_ENDOP 0]),
    \<comment> \<open>addr_abslong_read_SBC_m0\<close> ([0x0ef, 0x1ef],
      [SNCPU_FETCH24 R_t0, SNCPU_READ16 R_t0 R_t1, SNCPU_NOT16 R_t1, SNCPU_GET_A16 R_t2,
      SNCPU_SBC16 R_t2 R_t1, SNCPU_SET_A16 R_t2, SNCPU_SETFLAG_Z16 R_t2,
      SNCPU_SETFLAG_N16 R_t2, SNCPU_SHRI R_t2 16, SNCPU_SETFLAG_C R_t2, SNCPU_ENDOP 0]),
    \<comment> \<open>addr_abslong_read_SBC_m1\<close> ([0x2ef, 0x3ef, 0x4ef],
      [SNCPU_FETCH24 R_t0, SNCPU_READ8 R_t0 R_t1, SNCPU_NOT8 R_t1, SNCPU_GET_A8 R_t2,
      SNCPU_SBC8 R_t2 R_t1, SNCPU_SET_A8 R_t2, SNCPU_SETFLAG_Z8 R_t2, SNCPU_SETFLAG_N8 R_t2,
      SNCPU_SHRI R_t2 8, SNCPU_SETFLAG_C R_t2, SNCPU_ENDOP 0]),
    \<comment> \<open>addr_dp_indirect_iy_read_SBC_m0\<close> ([0x0f1, 0x1f1],
      [SNCPU_FETCH8 R_t0, SNCPU_ADD R_t0 R_DP, SNCPU_ANDI R_t0 0xFFFF, SNCPU_READ16 R_t0 R_t0,
      SNCPU_OR R_t0 R_DB, SNCPU_ADD R_t0 R_Y, SNCPU_READ16 R_t0 R_t1, SNCPU_NOT16 R_t1,
      SNCPU_GET_A16 R_t2, SNCPU_SBC16 R_t2 R_t1, SNCPU_SET_A16 R_t2, SNCPU_SETFLAG_Z16 R_t2,
      SNCPU_SETFLAG_N16 R_t2, SNCPU_SHRI R_t2 16, SNCPU_SETFLAG_C R_t2, SNCPU_ENDOP 0])]"

definition op65816_SBC_3 :: "(nat list \<times> uop list) list" where
  "op65816_SBC_3 =
   [
    \<comment> \<open>addr_dp_indirect_iy_read_SBC_m1\<close> ([0x2f1, 0x3f1, 0x4f1],
      [SNCPU_FETCH8 R_t0, SNCPU_ADD R_t0 R_DP, SNCPU_ANDI R_t0 0xFFFF, SNCPU_READ16 R_t0 R_t0,
      SNCPU_OR R_t0 R_DB, SNCPU_ADD R_t0 R_Y, SNCPU_READ8 R_t0 R_t1, SNCPU_NOT8 R_t1,
      SNCPU_GET_A8 R_t2, SNCPU_SBC8 R_t2 R_t1, SNCPU_SET_A8 R_t2, SNCPU_SETFLAG_Z8 R_t2,
      SNCPU_SETFLAG_N8 R_t2, SNCPU_SHRI R_t2 8, SNCPU_SETFLAG_C R_t2, SNCPU_ENDOP 0]),
    \<comment> \<open>addr_dp_indirect_read_SBC_m0\<close> ([0x0f2, 0x1f2],
      [SNCPU_FETCH8 R_t0, SNCPU_ADD R_t0 R_DP, SNCPU_ANDI R_t0 0xFFFF, SNCPU_READ16 R_t0 R_t0,
      SNCPU_OR R_t0 R_DB, SNCPU_READ16 R_t0 R_t1, SNCPU_NOT16 R_t1, SNCPU_GET_A16 R_t2,
      SNCPU_SBC16 R_t2 R_t1, SNCPU_SET_A16 R_t2, SNCPU_SETFLAG_Z16 R_t2,
      SNCPU_SETFLAG_N16 R_t2, SNCPU_SHRI R_t2 16, SNCPU_SETFLAG_C R_t2, SNCPU_ENDOP 0]),
    \<comment> \<open>addr_dp_indirect_read_SBC_m1\<close> ([0x2f2, 0x3f2, 0x4f2],
      [SNCPU_FETCH8 R_t0, SNCPU_ADD R_t0 R_DP, SNCPU_ANDI R_t0 0xFFFF, SNCPU_READ16 R_t0 R_t0,
      SNCPU_OR R_t0 R_DB, SNCPU_READ8 R_t0 R_t1, SNCPU_NOT8 R_t1, SNCPU_GET_A8 R_t2,
      SNCPU_SBC8 R_t2 R_t1, SNCPU_SET_A8 R_t2, SNCPU_SETFLAG_Z8 R_t2, SNCPU_SETFLAG_N8 R_t2,
      SNCPU_SHRI R_t2 8, SNCPU_SETFLAG_C R_t2, SNCPU_ENDOP 0]),
    \<comment> \<open>addr_sr_indirect_iy_read_SBC_m0\<close> ([0x0f3, 0x1f3],
      [SNCPU_FETCH8 R_t0, SNCPU_ADD R_t0 R_S, SNCPU_ANDI R_t0 0xFFFF, SNCPU_SUBCYCLES 1,
      SNCPU_READ16 R_t0 R_t0, SNCPU_OR R_t0 R_DB, SNCPU_SUBCYCLES 1, SNCPU_ADD R_t0 R_Y,
      SNCPU_READ16 R_t0 R_t1, SNCPU_NOT16 R_t1, SNCPU_GET_A16 R_t2, SNCPU_SBC16 R_t2 R_t1,
      SNCPU_SET_A16 R_t2, SNCPU_SETFLAG_Z16 R_t2, SNCPU_SETFLAG_N16 R_t2, SNCPU_SHRI R_t2 16,
      SNCPU_SETFLAG_C R_t2, SNCPU_ENDOP 0]),
    \<comment> \<open>addr_sr_indirect_iy_read_SBC_m1\<close> ([0x2f3, 0x3f3, 0x4f3],
      [SNCPU_FETCH8 R_t0, SNCPU_ADD R_t0 R_S, SNCPU_ANDI R_t0 0xFFFF, SNCPU_SUBCYCLES 1,
      SNCPU_READ16 R_t0 R_t0, SNCPU_OR R_t0 R_DB, SNCPU_SUBCYCLES 1, SNCPU_ADD R_t0 R_Y,
      SNCPU_READ8 R_t0 R_t1, SNCPU_NOT8 R_t1, SNCPU_GET_A8 R_t2, SNCPU_SBC8 R_t2 R_t1,
      SNCPU_SET_A8 R_t2, SNCPU_SETFLAG_Z8 R_t2, SNCPU_SETFLAG_N8 R_t2, SNCPU_SHRI R_t2 8,
      SNCPU_SETFLAG_C R_t2, SNCPU_ENDOP 0]),
    \<comment> \<open>addr_dp_ix_read_SBC_m0\<close> ([0x0f5, 0x1f5],
      [SNCPU_FETCH8 R_t0, SNCPU_ADD R_t0 R_DP, SNCPU_ANDI R_t0 0xFFFF, SNCPU_SUBCYCLES 1,
      SNCPU_ADD R_t0 R_X, SNCPU_AND R_t0 R_DPMASK, SNCPU_READ16 R_t0 R_t1, SNCPU_NOT16 R_t1,
      SNCPU_GET_A16 R_t2, SNCPU_SBC16 R_t2 R_t1, SNCPU_SET_A16 R_t2, SNCPU_SETFLAG_Z16 R_t2,
      SNCPU_SETFLAG_N16 R_t2, SNCPU_SHRI R_t2 16, SNCPU_SETFLAG_C R_t2, SNCPU_ENDOP 0]),
    \<comment> \<open>addr_dp_ix_read_SBC_m1\<close> ([0x2f5, 0x3f5, 0x4f5],
      [SNCPU_FETCH8 R_t0, SNCPU_ADD R_t0 R_DP, SNCPU_ANDI R_t0 0xFFFF, SNCPU_SUBCYCLES 1,
      SNCPU_ADD R_t0 R_X, SNCPU_AND R_t0 R_DPMASK, SNCPU_READ8 R_t0 R_t1, SNCPU_NOT8 R_t1,
      SNCPU_GET_A8 R_t2, SNCPU_SBC8 R_t2 R_t1, SNCPU_SET_A8 R_t2, SNCPU_SETFLAG_Z8 R_t2,
      SNCPU_SETFLAG_N8 R_t2, SNCPU_SHRI R_t2 8, SNCPU_SETFLAG_C R_t2, SNCPU_ENDOP 0])]"

definition op65816_SBC_4 :: "(nat list \<times> uop list) list" where
  "op65816_SBC_4 =
   [
    \<comment> \<open>addr_dp_indirectlong_iy_read_SBC_m0\<close> ([0x0f7, 0x1f7],
      [SNCPU_FETCH8 R_t0, SNCPU_ADD R_t0 R_DP, SNCPU_ANDI R_t0 0xFFFF, SNCPU_READ24 R_t0 R_t0,
      SNCPU_ADD R_t0 R_Y, SNCPU_READ16 R_t0 R_t1, SNCPU_NOT16 R_t1, SNCPU_GET_A16 R_t2,
      SNCPU_SBC16 R_t2 R_t1, SNCPU_SET_A16 R_t2, SNCPU_SETFLAG_Z16 R_t2,
      SNCPU_SETFLAG_N16 R_t2, SNCPU_SHRI R_t2 16, SNCPU_SETFLAG_C R_t2, SNCPU_ENDOP 0]),
    \<comment> \<open>addr_dp_indirectlong_iy_read_SBC_m1\<close> ([0x2f7, 0x3f7, 0x4f7],
      [SNCPU_FETCH8 R_t0, SNCPU_ADD R_t0 R_DP, SNCPU_ANDI R_t0 0xFFFF, SNCPU_READ24 R_t0 R_t0,
      SNCPU_ADD R_t0 R_Y, SNCPU_READ8 R_t0 R_t1, SNCPU_NOT8 R_t1, SNCPU_GET_A8 R_t2,
      SNCPU_SBC8 R_t2 R_t1, SNCPU_SET_A8 R_t2, SNCPU_SETFLAG_Z8 R_t2, SNCPU_SETFLAG_N8 R_t2,
      SNCPU_SHRI R_t2 8, SNCPU_SETFLAG_C R_t2, SNCPU_ENDOP 0]),
    \<comment> \<open>addr_abs_iy_read_SBC_m0\<close> ([0x0f9, 0x1f9],
      [SNCPU_FETCH16 R_t0, SNCPU_OR R_t0 R_DB, SNCPU_ADD R_t0 R_Y, SNCPU_READ16 R_t0 R_t1,
      SNCPU_NOT16 R_t1, SNCPU_GET_A16 R_t2, SNCPU_SBC16 R_t2 R_t1, SNCPU_SET_A16 R_t2,
      SNCPU_SETFLAG_Z16 R_t2, SNCPU_SETFLAG_N16 R_t2, SNCPU_SHRI R_t2 16, SNCPU_SETFLAG_C R_t2,
      SNCPU_ENDOP 0]),
    \<comment> \<open>addr_abs_iy_read_SBC_m1\<close> ([0x2f9, 0x3f9, 0x4f9],
      [SNCPU_FETCH16 R_t0, SNCPU_OR R_t0 R_DB, SNCPU_ADD R_t0 R_Y, SNCPU_READ8 R_t0 R_t1,
      SNCPU_NOT8 R_t1, SNCPU_GET_A8 R_t2, SNCPU_SBC8 R_t2 R_t1, SNCPU_SET_A8 R_t2,
      SNCPU_SETFLAG_Z8 R_t2, SNCPU_SETFLAG_N8 R_t2, SNCPU_SHRI R_t2 8, SNCPU_SETFLAG_C R_t2,
      SNCPU_ENDOP 0]),
    \<comment> \<open>addr_abs_ix_read_SBC_m0\<close> ([0x0fd, 0x1fd],
      [SNCPU_FETCH16 R_t0, SNCPU_OR R_t0 R_DB, SNCPU_ADD R_t0 R_X, SNCPU_READ16 R_t0 R_t1,
      SNCPU_NOT16 R_t1, SNCPU_GET_A16 R_t2, SNCPU_SBC16 R_t2 R_t1, SNCPU_SET_A16 R_t2,
      SNCPU_SETFLAG_Z16 R_t2, SNCPU_SETFLAG_N16 R_t2, SNCPU_SHRI R_t2 16, SNCPU_SETFLAG_C R_t2,
      SNCPU_ENDOP 0]),
    \<comment> \<open>addr_abs_ix_read_SBC_m1\<close> ([0x2fd, 0x3fd, 0x4fd],
      [SNCPU_FETCH16 R_t0, SNCPU_OR R_t0 R_DB, SNCPU_ADD R_t0 R_X, SNCPU_READ8 R_t0 R_t1,
      SNCPU_NOT8 R_t1, SNCPU_GET_A8 R_t2, SNCPU_SBC8 R_t2 R_t1, SNCPU_SET_A8 R_t2,
      SNCPU_SETFLAG_Z8 R_t2, SNCPU_SETFLAG_N8 R_t2, SNCPU_SHRI R_t2 8, SNCPU_SETFLAG_C R_t2,
      SNCPU_ENDOP 0]),
    \<comment> \<open>addr_abslong_ix_read_SBC_m0\<close> ([0x0ff, 0x1ff],
      [SNCPU_FETCH24 R_t0, SNCPU_ADD R_t0 R_X, SNCPU_READ16 R_t0 R_t1, SNCPU_NOT16 R_t1,
      SNCPU_GET_A16 R_t2, SNCPU_SBC16 R_t2 R_t1, SNCPU_SET_A16 R_t2, SNCPU_SETFLAG_Z16 R_t2,
      SNCPU_SETFLAG_N16 R_t2, SNCPU_SHRI R_t2 16, SNCPU_SETFLAG_C R_t2, SNCPU_ENDOP 0]),
    \<comment> \<open>addr_abslong_ix_read_SBC_m1\<close> ([0x2ff, 0x3ff, 0x4ff],
      [SNCPU_FETCH24 R_t0, SNCPU_ADD R_t0 R_X, SNCPU_READ8 R_t0 R_t1, SNCPU_NOT8 R_t1,
      SNCPU_GET_A8 R_t2, SNCPU_SBC8 R_t2 R_t1, SNCPU_SET_A8 R_t2, SNCPU_SETFLAG_Z8 R_t2,
      SNCPU_SETFLAG_N8 R_t2, SNCPU_SHRI R_t2 8, SNCPU_SETFLAG_C R_t2, SNCPU_ENDOP 0])]"

definition op65816_CMP_1 :: "(nat list \<times> uop list) list" where
  "op65816_CMP_1 =
   [
    \<comment> \<open>addr_dp_ix_indirect_read_CMP_m0\<close> ([0x0c1, 0x1c1],
      [SNCPU_FETCH8 R_t0, SNCPU_ADD R_t0 R_DP, SNCPU_ANDI R_t0 0xFFFF, SNCPU_SUBCYCLES 1,
      SNCPU_ADD R_t0 R_X, SNCPU_AND R_t0 R_DPMASK, SNCPU_READ16 R_t0 R_t0, SNCPU_OR R_t0 R_DB,
      SNCPU_READ16 R_t0 R_t1, SNCPU_GET_A16 R_t2, SNCPU_SUB R_t2 (Tmp R_t1),
      SNCPU_SETFLAG_Z16 R_t2, SNCPU_SETFLAG_N16 R_t2, SNCPU_SHRI R_t2 16, SNCPU_XORI R_t2 1,
      SNCPU_SETFLAG_C R_t2, SNCPU_ENDOP 0]),
    \<comment> \<open>addr_dp_ix_indirect_read_CMP_m1\<close> ([0x2c1, 0x3c1, 0x4c1],
      [SNCPU_FETCH8 R_t0, SNCPU_ADD R_t0 R_DP, SNCPU_ANDI R_t0 0xFFFF, SNCPU_SUBCYCLES 1,
      SNCPU_ADD R_t0 R_X, SNCPU_AND R_t0 R_DPMASK, SNCPU_READ16 R_t0 R_t0, SNCPU_OR R_t0 R_DB,
      SNCPU_READ8 R_t0 R_t1, SNCPU_GET_A8 R_t2, SNCPU_SUB R_t2 (Tmp R_t1),
      SNCPU_SETFLAG_Z8 R_t2, SNCPU_SETFLAG_N8 R_t2, SNCPU_SHRI R_t2 8, SNCPU_XORI R_t2 1,
      SNCPU_SETFLAG_C R_t2, SNCPU_ENDOP 0]),
    \<comment> \<open>addr_sr_read_CMP_m0\<close> ([0x0c3, 0x1c3],
      [SNCPU_FETCH8 R_t0, SNCPU_ADD R_t0 R_S, SNCPU_ANDI R_t0 0xFFFF, SNCPU_SUBCYCLES 1,
      SNCPU_READ16 R_t0 R_t1, SNCPU_GET_A16 R_t2, SNCPU_SUB R_t2 (Tmp R_t1),
      SNCPU_SETFLAG_Z16 R_t2, SNCPU_SETFLAG_N16 R_t2, SNCPU_SHRI R_t2 16, SNCPU_XORI R_t2 1,
      SNCPU_SETFLAG_C R_t2, SNCPU_ENDOP 0]),
    \<comment> \<open>addr_sr_read_CMP_m1\<close> ([0x2c3, 0x3c3, 0x4c3],
      [SNCPU_FETCH8 R_t0, SNCPU_ADD R_t0 R_S, SNCPU_ANDI R_t0 0xFFFF, SNCPU_SUBCYCLES 1,
      SNCPU_READ8 R_t0 R_t1, SNCPU_GET_A8 R_t2, SNCPU_SUB R_t2 (Tmp R_t1),
      SNCPU_SETFLAG_Z8 R_t2, SNCPU_SETFLAG_N8 R_t2, SNCPU_SHRI R_t2 8, SNCPU_XORI R_t2 1,
      SNCPU_SETFLAG_C R_t2, SNCPU_ENDOP 0]),
    \<comment> \<open>addr_dp_read_CMP_m0\<close> ([0x0c5, 0x1c5],
      [SNCPU_FETCH8 R_t0, SNCPU_ADD R_t0 R_DP, SNCPU_ANDI R_t0 0xFFFF, SNCPU_READ16 R_t0 R_t1,
      SNCPU_GET_A16 R_t2, SNCPU_SUB R_t2 (Tmp R_t1), SNCPU_SETFLAG_Z16 R_t2,
      SNCPU_SETFLAG_N16 R_t2, SNCPU_SHRI R_t2 16, SNCPU_XORI R_t2 1, SNCPU_SETFLAG_C R_t2,
      SNCPU_ENDOP 0]),
    \<comment> \<open>addr_dp_read_CMP_m1\<close> ([0x2c5, 0x3c5, 0x4c5],
      [SNCPU_FETCH8 R_t0, SNCPU_ADD R_t0 R_DP, SNCPU_ANDI R_t0 0xFFFF, SNCPU_READ8 R_t0 R_t1,
      SNCPU_GET_A8 R_t2, SNCPU_SUB R_t2 (Tmp R_t1), SNCPU_SETFLAG_Z8 R_t2,
      SNCPU_SETFLAG_N8 R_t2, SNCPU_SHRI R_t2 8, SNCPU_XORI R_t2 1, SNCPU_SETFLAG_C R_t2,
      SNCPU_ENDOP 0]),
    \<comment> \<open>addr_dp_indirectlong_read_CMP_m0\<close> ([0x0c7, 0x1c7],
      [SNCPU_FETCH8 R_t0, SNCPU_ADD R_t0 R_DP, SNCPU_ANDI R_t0 0xFFFF, SNCPU_READ24 R_t0 R_t0,
      SNCPU_READ16 R_t0 R_t1, SNCPU_GET_A16 R_t2, SNCPU_SUB R_t2 (Tmp R_t1),
      SNCPU_SETFLAG_Z16 R_t2, SNCPU_SETFLAG_N16 R_t2, SNCPU_SHRI R_t2 16, SNCPU_XORI R_t2 1,
      SNCPU_SETFLAG_C R_t2, SNCPU_ENDOP 0]),
    \<comment> \<open>addr_dp_indirectlong_read_CMP_m1\<close> ([0x2c7, 0x3c7, 0x4c7],
      [SNCPU_FETCH8 R_t0, SNCPU_ADD R_t0 R_DP, SNCPU_ANDI R_t0 0xFFFF, SNCPU_READ24 R_t0 R_t0,
      SNCPU_READ8 R_t0 R_t1, SNCPU_GET_A8 R_t2, SNCPU_SUB R_t2 (Tmp R_t1),
      SNCPU_SETFLAG_Z8 R_t2, SNCPU_SETFLAG_N8 R_t2, SNCPU_SHRI R_t2 8, SNCPU_XORI R_t2 1,
      SNCPU_SETFLAG_C R_t2, SNCPU_ENDOP 0])]"

definition op65816_CMP_2 :: "(nat list \<times> uop list) list" where
  "op65816_CMP_2 =
   [
    \<comment> \<open>addr_imma_CMP_m0\<close> ([0x0c9, 0x1c9],
      [SNCPU_FETCH16 R_t1, SNCPU_GET_A16 R_t2, SNCPU_SUB R_t2 (Tmp R_t1),
      SNCPU_SETFLAG_Z16 R_t2, SNCPU_SETFLAG_N16 R_t2, SNCPU_SHRI R_t2 16, SNCPU_XORI R_t2 1,
      SNCPU_SETFLAG_C R_t2, SNCPU_ENDOP 0]),
    \<comment> \<open>addr_imma_CMP_m1\<close> ([0x2c9, 0x3c9, 0x4c9],
      [SNCPU_FETCH8 R_t1, SNCPU_GET_A8 R_t2, SNCPU_SUB R_t2 (Tmp R_t1), SNCPU_SETFLAG_Z8 R_t2,
      SNCPU_SETFLAG_N8 R_t2, SNCPU_SHRI R_t2 8, SNCPU_XORI R_t2 1, SNCPU_SETFLAG_C R_t2,
      SNCPU_ENDOP 0]),
    \<comment> \<open>addr_abs_read_CMP_m0\<close> ([0x0cd, 0x1cd],
      [SNCPU_FETCH16 R_t0, SNCPU_OR R_t0 R_DB, SNCPU_READ16 R_t0 R_t1, SNCPU_GET_A16 R_t2,
      SNCPU_SUB R_t2 (Tmp R_t1), SNCPU_SETFLAG_Z16 R_t2, SNCPU_SETFLAG_N16 R_t2,
      SNCPU_SHRI R_t2 16, SNCPU_XORI R_t2 1, SNCPU_SETFLAG_C R_t2, SNCPU_ENDOP 0]),
    \<comment> \<open>addr_abs_read_CMP_m1\<close> ([0x2cd, 0x3cd, 0x4cd],
      [SNCPU_FETCH16 R_t0, SNCPU_OR R_t0 R_DB, SNCPU_READ8 R_t0 R_t1, SNCPU_GET_A8 R_t2,
      SNCPU_SUB R_t2 (Tmp R_t1), SNCPU_SETFLAG_Z8 R_t2, SNCPU_SETFLAG_N8 R_t2,
      SNCPU_SHRI R_t2 8, SNCPU_XORI R_t2 1, SNCPU_SETFLAG_C R_t2, SNCPU_ENDOP 0]),
    \<comment> \<open>addr_abslong_read_CMP_m0\<close> ([0x0cf, 0x1cf],
      [SNCPU_FETCH24 R_t0, SNCPU_READ16 R_t0 R_t1, SNCPU_GET_A16 R_t2,
      SNCPU_SUB R_t2 (Tmp R_t1), SNCPU_SETFLAG_Z16 R_t2, SNCPU_SETFLAG_N16 R_t2,
      SNCPU_SHRI R_t2 16, SNCPU_XORI R_t2 1, SNCPU_SETFLAG_C R_t2, SNCPU_ENDOP 0]),
    \<comment> \<open>addr_abslong_read_CMP_m1\<close> ([0x2cf, 0x3cf, 0x4cf],
      [SNCPU_FETCH24 R_t0, SNCPU_READ8 R_t0 R_t1, SNCPU_GET_A8 R_t2, SNCPU_SUB R_t2 (Tmp R_t1),
      SNCPU_SETFLAG_Z8 R_t2, SNCPU_SETFLAG_N8 R_t2, SNCPU_SHRI R_t2 8, SNCPU_XORI R_t2 1,
      SNCPU_SETFLAG_C R_t2, SNCPU_ENDOP 0]),
    \<comment> \<open>addr_dp_indirect_iy_read_CMP_m0\<close> ([0x0d1, 0x1d1],
      [SNCPU_FETCH8 R_t0, SNCPU_ADD R_t0 R_DP, SNCPU_ANDI R_t0 0xFFFF, SNCPU_READ16 R_t0 R_t0,
      SNCPU_OR R_t0 R_DB, SNCPU_ADD R_t0 R_Y, SNCPU_READ16 R_t0 R_t1, SNCPU_GET_A16 R_t2,
      SNCPU_SUB R_t2 (Tmp R_t1), SNCPU_SETFLAG_Z16 R_t2, SNCPU_SETFLAG_N16 R_t2,
      SNCPU_SHRI R_t2 16, SNCPU_XORI R_t2 1, SNCPU_SETFLAG_C R_t2, SNCPU_ENDOP 0]),
    \<comment> \<open>addr_dp_indirect_iy_read_CMP_m1\<close> ([0x2d1, 0x3d1, 0x4d1],
      [SNCPU_FETCH8 R_t0, SNCPU_ADD R_t0 R_DP, SNCPU_ANDI R_t0 0xFFFF, SNCPU_READ16 R_t0 R_t0,
      SNCPU_OR R_t0 R_DB, SNCPU_ADD R_t0 R_Y, SNCPU_READ8 R_t0 R_t1, SNCPU_GET_A8 R_t2,
      SNCPU_SUB R_t2 (Tmp R_t1), SNCPU_SETFLAG_Z8 R_t2, SNCPU_SETFLAG_N8 R_t2,
      SNCPU_SHRI R_t2 8, SNCPU_XORI R_t2 1, SNCPU_SETFLAG_C R_t2, SNCPU_ENDOP 0]),
    \<comment> \<open>addr_dp_indirect_read_CMP_m0\<close> ([0x0d2, 0x1d2],
      [SNCPU_FETCH8 R_t0, SNCPU_ADD R_t0 R_DP, SNCPU_ANDI R_t0 0xFFFF, SNCPU_READ16 R_t0 R_t0,
      SNCPU_OR R_t0 R_DB, SNCPU_READ16 R_t0 R_t1, SNCPU_GET_A16 R_t2,
      SNCPU_SUB R_t2 (Tmp R_t1), SNCPU_SETFLAG_Z16 R_t2, SNCPU_SETFLAG_N16 R_t2,
      SNCPU_SHRI R_t2 16, SNCPU_XORI R_t2 1, SNCPU_SETFLAG_C R_t2, SNCPU_ENDOP 0])]"

definition op65816_CMP_3 :: "(nat list \<times> uop list) list" where
  "op65816_CMP_3 =
   [
    \<comment> \<open>addr_dp_indirect_read_CMP_m1\<close> ([0x2d2, 0x3d2, 0x4d2],
      [SNCPU_FETCH8 R_t0, SNCPU_ADD R_t0 R_DP, SNCPU_ANDI R_t0 0xFFFF, SNCPU_READ16 R_t0 R_t0,
      SNCPU_OR R_t0 R_DB, SNCPU_READ8 R_t0 R_t1, SNCPU_GET_A8 R_t2, SNCPU_SUB R_t2 (Tmp R_t1),
      SNCPU_SETFLAG_Z8 R_t2, SNCPU_SETFLAG_N8 R_t2, SNCPU_SHRI R_t2 8, SNCPU_XORI R_t2 1,
      SNCPU_SETFLAG_C R_t2, SNCPU_ENDOP 0]),
    \<comment> \<open>addr_sr_indirect_iy_read_CMP_m0\<close> ([0x0d3, 0x1d3],
      [SNCPU_FETCH8 R_t0, SNCPU_ADD R_t0 R_S, SNCPU_ANDI R_t0 0xFFFF, SNCPU_SUBCYCLES 1,
      SNCPU_READ16 R_t0 R_t0, SNCPU_OR R_t0 R_DB, SNCPU_SUBCYCLES 1, SNCPU_ADD R_t0 R_Y,
      SNCPU_READ16 R_t0 R_t1, SNCPU_GET_A16 R_t2, SNCPU_SUB R_t2 (Tmp R_t1),
      SNCPU_SETFLAG_Z16 R_t2, SNCPU_SETFLAG_N16 R_t2, SNCPU_SHRI R_t2 16, SNCPU_XORI R_t2 1,
      SNCPU_SETFLAG_C R_t2, SNCPU_ENDOP 0]),
    \<comment> \<open>addr_sr_indirect_iy_read_CMP_m1\<close> ([0x2d3, 0x3d3, 0x4d3],
      [SNCPU_FETCH8 R_t0, SNCPU_ADD R_t0 R_S, SNCPU_ANDI R_t0 0xFFFF, SNCPU_SUBCYCLES 1,
      SNCPU_READ16 R_t0 R_t0, SNCPU_OR R_t0 R_DB, SNCPU_SUBCYCLES 1, SNCPU_ADD R_t0 R_Y,
      SNCPU_READ8 R_t0 R_t1, SNCPU_GET_A8 R_t2, SNCPU_SUB R_t2 (Tmp R_t1),
      SNCPU_SETFLAG_Z8 R_t2, SNCPU_SETFLAG_N8 R_t2, SNCPU_SHRI R_t2 8, SNCPU_XORI R_t2 1,
      SNCPU_SETFLAG_C R_t2, SNCPU_ENDOP 0]),
    \<comment> \<open>addr_dp_ix_read_CMP_m0\<close> ([0x0d5, 0x1d5],
      [SNCPU_FETCH8 R_t0, SNCPU_ADD R_t0 R_DP, SNCPU_ANDI R_t0 0xFFFF, SNCPU_SUBCYCLES 1,
      SNCPU_ADD R_t0 R_X, SNCPU_AND R_t0 R_DPMASK, SNCPU_READ16 R_t0 R_t1, SNCPU_GET_A16 R_t2,
      SNCPU_SUB R_t2 (Tmp R_t1), SNCPU_SETFLAG_Z16 R_t2, SNCPU_SETFLAG_N16 R_t2,
      SNCPU_SHRI R_t2 16, SNCPU_XORI R_t2 1, SNCPU_SETFLAG_C R_t2, SNCPU_ENDOP 0]),
    \<comment> \<open>addr_dp_ix_read_CMP_m1\<close> ([0x2d5, 0x3d5, 0x4d5],
      [SNCPU_FETCH8 R_t0, SNCPU_ADD R_t0 R_DP, SNCPU_ANDI R_t0 0xFFFF, SNCPU_SUBCYCLES 1,
      SNCPU_ADD R_t0 R_X, SNCPU_AND R_t0 R_DPMASK, SNCPU_READ8 R_t0 R_t1, SNCPU_GET_A8 R_t2,
      SNCPU_SUB R_t2 (Tmp R_t1), SNCPU_SETFLAG_Z8 R_t2, SNCPU_SETFLAG_N8 R_t2,
      SNCPU_SHRI R_t2 8, SNCPU_XORI R_t2 1, SNCPU_SETFLAG_C R_t2, SNCPU_ENDOP 0]),
    \<comment> \<open>addr_dp_indirectlong_iy_read_CMP_m0\<close> ([0x0d7, 0x1d7],
      [SNCPU_FETCH8 R_t0, SNCPU_ADD R_t0 R_DP, SNCPU_ANDI R_t0 0xFFFF, SNCPU_READ24 R_t0 R_t0,
      SNCPU_ADD R_t0 R_Y, SNCPU_READ16 R_t0 R_t1, SNCPU_GET_A16 R_t2,
      SNCPU_SUB R_t2 (Tmp R_t1), SNCPU_SETFLAG_Z16 R_t2, SNCPU_SETFLAG_N16 R_t2,
      SNCPU_SHRI R_t2 16, SNCPU_XORI R_t2 1, SNCPU_SETFLAG_C R_t2, SNCPU_ENDOP 0]),
    \<comment> \<open>addr_dp_indirectlong_iy_read_CMP_m1\<close> ([0x2d7, 0x3d7, 0x4d7],
      [SNCPU_FETCH8 R_t0, SNCPU_ADD R_t0 R_DP, SNCPU_ANDI R_t0 0xFFFF, SNCPU_READ24 R_t0 R_t0,
      SNCPU_ADD R_t0 R_Y, SNCPU_READ8 R_t0 R_t1, SNCPU_GET_A8 R_t2, SNCPU_SUB R_t2 (Tmp R_t1),
      SNCPU_SETFLAG_Z8 R_t2, SNCPU_SETFLAG_N8 R_t2, SNCPU_SHRI R_t2 8, SNCPU_XORI R_t2 1,
      SNCPU_SETFLAG_C R_t2, SNCPU_ENDOP 0])]"

definition op65816_CMP_4 :: "(nat list \<times> uop list) list" where
  "op65816_CMP_4 =
   [
    \<comment> \<open>addr_abs_iy_read_CMP_m0\<close> ([0x0d9, 0x1d9],
      [SNCPU_FETCH16 R_t0, SNCPU_OR R_t0 R_DB, SNCPU_ADD R_t0 R_Y, SNCPU_READ16 R_t0 R_t1,
      SNCPU_GET_A16 R_t2, SNCPU_SUB R_t2 (Tmp R_t1), SNCPU_SETFLAG_Z16 R_t2,
      SNCPU_SETFLAG_N16 R_t2, SNCPU_SHRI R_t2 16, SNCPU_XORI R_t2 1, SNCPU_SETFLAG_C R_t2,
      SNCPU_ENDOP 0]),
    \<comment> \<open>addr_abs_iy_read_CMP_m1\<close> ([0x2d9, 0x3d9, 0x4d9],
      [SNCPU_FETCH16 R_t0, SNCPU_OR R_t0 R_DB, SNCPU_ADD R_t0 R_Y, SNCPU_READ8 R_t0 R_t1,
      SNCPU_GET_A8 R_t2, SNCPU_SUB R_t2 (Tmp R_t1), SNCPU_SETFLAG_Z8 R_t2,
      SNCPU_SETFLAG_N8 R_t2, SNCPU_SHRI R_t2 8, SNCPU_XORI R_t2 1, SNCPU_SETFLAG_C R_t2,
      SNCPU_ENDOP 0]),
    \<comment> \<open>addr_abs_ix_read_CMP_m0\<close> ([0x0dd, 0x1dd],
      [SNCPU_FETCH16 R_t0, SNCPU_OR R_t0 R_DB, SNCPU_ADD R_t0 R_X, SNCPU_READ16 R_t0 R_t1,
      SNCPU_GET_A16 R_t2, SNCPU_SUB R_t2 (Tmp R_t1), SNCPU_SETFLAG_Z16 R_t2,
      SNCPU_SETFLAG_N16 R_t2, SNCPU_SHRI R_t2 16, SNCPU_XORI R_t2 1, SNCPU_SETFLAG_C R_t2,
      SNCPU_ENDOP 0]),
    \<comment> \<open>addr_abs_ix_read_CMP_m1\<close> ([0x2dd, 0x3dd, 0x4dd],
      [SNCPU_FETCH16 R_t0, SNCPU_OR R_t0 R_DB, SNCPU_ADD R_t0 R_X, SNCPU_READ8 R_t0 R_t1,
      SNCPU_GET_A8 R_t2, SNCPU_SUB R_t2 (Tmp R_t1), SNCPU_SETFLAG_Z8 R_t2,
      SNCPU_SETFLAG_N8 R_t2, SNCPU_SHRI R_t2 8, SNCPU_XORI R_t2 1, SNCPU_SETFLAG_C R_t2,
      SNCPU_ENDOP 0]),
    \<comment> \<open>addr_abslong_ix_read_CMP_m0\<close> ([0x0df, 0x1df],
      [SNCPU_FETCH24 R_t0, SNCPU_ADD R_t0 R_X, SNCPU_READ16 R_t0 R_t1, SNCPU_GET_A16 R_t2,
      SNCPU_SUB R_t2 (Tmp R_t1), SNCPU_SETFLAG_Z16 R_t2, SNCPU_SETFLAG_N16 R_t2,
      SNCPU_SHRI R_t2 16, SNCPU_XORI R_t2 1, SNCPU_SETFLAG_C R_t2, SNCPU_ENDOP 0]),
    \<comment> \<open>addr_abslong_ix_read_CMP_m1\<close> ([0x2df, 0x3df, 0x4df],
      [SNCPU_FETCH24 R_t0, SNCPU_ADD R_t0 R_X, SNCPU_READ8 R_t0 R_t1, SNCPU_GET_A8 R_t2,
      SNCPU_SUB R_t2 (Tmp R_t1), SNCPU_SETFLAG_Z8 R_t2, SNCPU_SETFLAG_N8 R_t2,
      SNCPU_SHRI R_t2 8, SNCPU_XORI R_t2 1, SNCPU_SETFLAG_C R_t2, SNCPU_ENDOP 0])]"

definition op65816_CPX_CPY_1 :: "(nat list \<times> uop list) list" where
  "op65816_CPX_CPY_1 =
   [
    \<comment> \<open>addr_immx_CPX_x0\<close> ([0x0e0, 0x2e0],
      [SNCPU_FETCH16 R_t1, SNCPU_GET_X16 R_t2, SNCPU_SUB R_t2 (Tmp R_t1),
      SNCPU_SETFLAG_Z16 R_t2, SNCPU_SETFLAG_N16 R_t2, SNCPU_SHRI R_t2 16, SNCPU_XORI R_t2 1,
      SNCPU_SETFLAG_C R_t2, SNCPU_ENDOP 0]),
    \<comment> \<open>addr_immx_CPX_x1\<close> ([0x1e0, 0x3e0, 0x4e0],
      [SNCPU_FETCH8 R_t1, SNCPU_GET_X8 R_t2, SNCPU_SUB R_t2 (Tmp R_t1), SNCPU_SETFLAG_Z8 R_t2,
      SNCPU_SETFLAG_N8 R_t2, SNCPU_SHRI R_t2 8, SNCPU_XORI R_t2 1, SNCPU_SETFLAG_C R_t2,
      SNCPU_ENDOP 0]),
    \<comment> \<open>addr_dp_read_CPX_x0\<close> ([0x0e4, 0x2e4],
      [SNCPU_FETCH8 R_t0, SNCPU_ADD R_t0 R_DP, SNCPU_ANDI R_t0 0xFFFF, SNCPU_READ16 R_t0 R_t1,
      SNCPU_GET_X16 R_t2, SNCPU_SUB R_t2 (Tmp R_t1), SNCPU_SETFLAG_Z16 R_t2,
      SNCPU_SETFLAG_N16 R_t2, SNCPU_SHRI R_t2 16, SNCPU_XORI R_t2 1, SNCPU_SETFLAG_C R_t2,
      SNCPU_ENDOP 0]),
    \<comment> \<open>addr_dp_read_CPX_x1\<close> ([0x1e4, 0x3e4, 0x4e4],
      [SNCPU_FETCH8 R_t0, SNCPU_ADD R_t0 R_DP, SNCPU_ANDI R_t0 0xFFFF, SNCPU_READ8 R_t0 R_t1,
      SNCPU_GET_X8 R_t2, SNCPU_SUB R_t2 (Tmp R_t1), SNCPU_SETFLAG_Z8 R_t2,
      SNCPU_SETFLAG_N8 R_t2, SNCPU_SHRI R_t2 8, SNCPU_XORI R_t2 1, SNCPU_SETFLAG_C R_t2,
      SNCPU_ENDOP 0]),
    \<comment> \<open>addr_abs_read_CPX_x0\<close> ([0x0ec, 0x2ec],
      [SNCPU_FETCH16 R_t0, SNCPU_OR R_t0 R_DB, SNCPU_READ16 R_t0 R_t1, SNCPU_GET_X16 R_t2,
      SNCPU_SUB R_t2 (Tmp R_t1), SNCPU_SETFLAG_Z16 R_t2, SNCPU_SETFLAG_N16 R_t2,
      SNCPU_SHRI R_t2 16, SNCPU_XORI R_t2 1, SNCPU_SETFLAG_C R_t2, SNCPU_ENDOP 0]),
    \<comment> \<open>addr_abs_read_CPX_x1\<close> ([0x1ec, 0x3ec, 0x4ec],
      [SNCPU_FETCH16 R_t0, SNCPU_OR R_t0 R_DB, SNCPU_READ8 R_t0 R_t1, SNCPU_GET_X8 R_t2,
      SNCPU_SUB R_t2 (Tmp R_t1), SNCPU_SETFLAG_Z8 R_t2, SNCPU_SETFLAG_N8 R_t2,
      SNCPU_SHRI R_t2 8, SNCPU_XORI R_t2 1, SNCPU_SETFLAG_C R_t2, SNCPU_ENDOP 0]),
    \<comment> \<open>addr_immx_CPY_x0\<close> ([0x0c0, 0x2c0],
      [SNCPU_FETCH16 R_t1, SNCPU_GET_Y16 R_t2, SNCPU_SUB R_t2 (Tmp R_t1),
      SNCPU_SETFLAG_Z16 R_t2, SNCPU_SETFLAG_N16 R_t2, SNCPU_SHRI R_t2 16, SNCPU_XORI R_t2 1,
      SNCPU_SETFLAG_C R_t2, SNCPU_ENDOP 0]),
    \<comment> \<open>addr_immx_CPY_x1\<close> ([0x1c0, 0x3c0, 0x4c0],
      [SNCPU_FETCH8 R_t1, SNCPU_GET_Y8 R_t2, SNCPU_SUB R_t2 (Tmp R_t1), SNCPU_SETFLAG_Z8 R_t2,
      SNCPU_SETFLAG_N8 R_t2, SNCPU_SHRI R_t2 8, SNCPU_XORI R_t2 1, SNCPU_SETFLAG_C R_t2,
      SNCPU_ENDOP 0]),
    \<comment> \<open>addr_dp_read_CPY_x0\<close> ([0x0c4, 0x2c4],
      [SNCPU_FETCH8 R_t0, SNCPU_ADD R_t0 R_DP, SNCPU_ANDI R_t0 0xFFFF, SNCPU_READ16 R_t0 R_t1,
      SNCPU_GET_Y16 R_t2, SNCPU_SUB R_t2 (Tmp R_t1), SNCPU_SETFLAG_Z16 R_t2,
      SNCPU_SETFLAG_N16 R_t2, SNCPU_SHRI R_t2 16, SNCPU_XORI R_t2 1, SNCPU_SETFLAG_C R_t2,
      SNCPU_ENDOP 0]),
    \<comment> \<open>addr_dp_read_CPY_x1\<close> ([0x1c4, 0x3c4, 0x4c4],
      [SNCPU_FETCH8 R_t0, SNCPU_ADD R_t0 R_DP, SNCPU_ANDI R_t0 0xFFFF, SNCPU_READ8 R_t0 R_t1,
      SNCPU_GET_Y8 R_t2, SNCPU_SUB R_t2 (Tmp R_t1), SNCPU_SETFLAG_Z8 R_t2,
      SNCPU_SETFLAG_N8 R_t2, SNCPU_SHRI R_t2 8, SNCPU_XORI R_t2 1, SNCPU_SETFLAG_C R_t2,
      SNCPU_ENDOP 0])]"

definition op65816_CPX_CPY_2 :: "(nat list \<times> uop list) list" where
  "op65816_CPX_CPY_2 =
   [
    \<comment> \<open>addr_abs_read_CPY_x0\<close> ([0x0cc, 0x2cc],
      [SNCPU_FETCH16 R_t0, SNCPU_OR R_t0 R_DB, SNCPU_READ16 R_t0 R_t1, SNCPU_GET_Y16 R_t2,
      SNCPU_SUB R_t2 (Tmp R_t1), SNCPU_SETFLAG_Z16 R_t2, SNCPU_SETFLAG_N16 R_t2,
      SNCPU_SHRI R_t2 16, SNCPU_XORI R_t2 1, SNCPU_SETFLAG_C R_t2, SNCPU_ENDOP 0]),
    \<comment> \<open>addr_abs_read_CPY_x1\<close> ([0x1cc, 0x3cc, 0x4cc],
      [SNCPU_FETCH16 R_t0, SNCPU_OR R_t0 R_DB, SNCPU_READ8 R_t0 R_t1, SNCPU_GET_Y8 R_t2,
      SNCPU_SUB R_t2 (Tmp R_t1), SNCPU_SETFLAG_Z8 R_t2, SNCPU_SETFLAG_N8 R_t2,
      SNCPU_SHRI R_t2 8, SNCPU_XORI R_t2 1, SNCPU_SETFLAG_C R_t2, SNCPU_ENDOP 0])]"

definition op65816_arith :: "(nat list \<times> uop list) list" where
  "op65816_arith =
     op65816_ADC_1 @
     op65816_ADC_2 @
     op65816_ADC_3 @
     op65816_ADC_4 @
     op65816_SBC_1 @
     op65816_SBC_2 @
     op65816_SBC_3 @
     op65816_SBC_4 @
     op65816_CMP_1 @
     op65816_CMP_2 @
     op65816_CMP_3 @
     op65816_CMP_4 @
     op65816_CPX_CPY_1 @
     op65816_CPX_CPY_2"

lemmas op65816_arith_defs =
  op65816_ADC_1_def
  op65816_ADC_2_def
  op65816_ADC_3_def
  op65816_ADC_4_def
  op65816_SBC_1_def
  op65816_SBC_2_def
  op65816_SBC_3_def
  op65816_SBC_4_def
  op65816_CMP_1_def
  op65816_CMP_2_def
  op65816_CMP_3_def
  op65816_CMP_4_def
  op65816_CPX_CPY_1_def
  op65816_CPX_CPY_2_def

end
