(* ===== verification/Sn_Cpu_Arith.thy ===== *)
theory Sn_Cpu_Arith
  imports Op65816_Arith
begin

text \<open>
  The 8-bit adders: the decimal routines compute on packed decimal digits what addition and
  subtraction compute on numbers, and the binary path of the ADC and SBC handlers is addition
  with carry, with the flags of the processor manual.
\<close>

section \<open>Decimal addition\<close>

text \<open>A number below 100 in packed decimal form.\<close>

definition bcd8 :: "nat \<Rightarrow> u32" where
  "bcd8 n = of_nat (16 * (n div 10) + n mod 10)"

lemma of_nat_and_mask: "(of_nat k :: u32) AND of_nat (2 ^ n - 1) = of_nat (k mod 2 ^ n)" if "n \<le> 32"
proof -
  have "(of_nat (2 ^ n - 1) :: u32) = mask n" by (simp add: mask_eq_exp_minus_1 of_nat_diff)
  then have "(of_nat k :: u32) AND of_nat (2 ^ n - 1) = take_bit n (of_nat k)" by (simp add: take_bit_eq_mask)
  also have "\<dots> = of_nat (take_bit n k)" by (rule take_bit_of_nat)
  finally show ?thesis by (simp add: take_bit_eq_mod)
qed

lemma and_F: "(of_nat k :: u32) AND 0xF = of_nat (k mod 16)"
  and and_FF: "(of_nat k :: u32) AND 0xFF = of_nat (k mod 256)"
  using of_nat_and_mask [of 4 k] of_nat_and_mask [of 8 k] by simp_all

lemma and_F0: "a < 10 \<Longrightarrow> b < 10 \<Longrightarrow> (of_nat (16 * a + b) :: u32) AND 0xF0 = of_nat (16 * a)"
  by (auto simp: numeral_eq_Suc less_Suc_eq)

lemma le_of_nat: "k < 2 ^ 32 \<Longrightarrow> m < 2 ^ 32 \<Longrightarrow> (of_nat m :: u32) \<le> of_nat k \<longleftrightarrow> m \<le> k"
  by (simp add: word_le_nat_alt unat_of_nat)

text \<open>One digit: the correction by six when the sum is ten or more.\<close>

lemma adjust_low:
  assumes "k < 20"
  shows "(if (of_nat k :: u32) \<ge> 0x000A then ((of_nat k - 0x000A) AND 0x000F) + 0x0010 else of_nat k) =
    (of_nat (if k \<ge> 10 then k + 6 else k) :: u32)"
proof (cases "10 \<le> k")
  case True
  then have e: "(of_nat k - 0xA :: u32) = of_nat (k - 10)" by (simp add: of_nat_diff)
  have "(k - 10) mod 16 = k - 10" using assms by simp
  then have "((of_nat k - 0xA) AND 0xf) + 0x10 = (of_nat (k - 10 + 16) :: u32)"
    unfolding e and_F by simp
  moreover have "k - 10 + 16 = k + 6" using True by simp
  ultimately show ?thesis using True assms le_of_nat [of k 10] by simp
next
  case False
  with le_of_nat [of k 10] show ?thesis by simp
qed

lemma adjust_high:
  assumes "k < 416"
  shows "(if (of_nat k :: u32) \<ge> 0x00A0 then ((of_nat k - 0x00A0) AND 0x00FF) + 0x0100 else of_nat k) =
    (of_nat (if k \<ge> 160 then k + 96 else k) :: u32)"
proof (cases "160 \<le> k")
  case True
  then have e: "(of_nat k - 0xA0 :: u32) = of_nat (k - 160)" by (simp add: of_nat_diff)
  have "(k - 160) mod 256 = k - 160" using assms by simp
  then have "((of_nat k - 0xA0) AND 0xff) + 0x100 = (of_nat (k - 160 + 256) :: u32)"
    unfolding e and_FF by simp
  moreover have "k - 160 + 256 = k + 96" using True by simp
  ultimately show ?thesis using True assms le_of_nat [of k 160] by simp
next
  case False
  with assms le_of_nat [of k 160] show ?thesis by simp
qed

lemma adc_digits:
  assumes "a < 10" "b < 10" "c < 10" "d < 10" "e \<le> 1"
  shows "u_SNCpuDecimalADC8 (of_nat e) (of_nat (16 * a + b)) (of_nat (16 * c + d)) =
    of_nat (let l = b + d + e; h = a + c + (if l \<ge> 10 then 1 else 0) in
       16 * (h mod 10) + l mod 10 + (if h \<ge> 10 then 0x100 else 0))"
proof -
  let ?l = "b + d + e"
  let ?l' = "if 10 \<le> ?l then ?l + 6 else ?l"
  let ?h = "a + c + (if 10 \<le> ?l then 1 else 0)"
  have 1: "(of_nat e + ((of_nat (16 * a + b) AND 0x0F) + (of_nat (16 * c + d) AND 0x0F)) :: u32) = of_nat ?l"
    unfolding and_F using assms by (simp add: mod_mult_self4 add.commute add.left_commute)
  have 2: "(of_nat ?l' + ((of_nat (16 * a + b) AND 0xF0) + (of_nat (16 * c + d) AND 0xF0)) :: u32)
      = of_nat (?l' + 16 * (a + c))"
    unfolding and_F0 [OF assms(1,2)] and_F0 [OF assms(3,4)] by (simp add: algebra_simps)
  have "?l < 20" using assms by simp
  note low = adjust_low [OF this]
  have "?l' + 16 * (a + c) < 416" using assms by auto
  note high = adjust_high [OF this]
  have "16 * (?h mod 10) + ?l mod 10 + (if ?h \<ge> 10 then 0x100 else 0) =
      (if 160 \<le> ?l' + 16 * (a + c) then ?l' + 16 * (a + c) + 96 else ?l' + 16 * (a + c))"
  proof -
    have l: "?l mod 10 = (if 10 \<le> ?l then ?l - 10 else ?l)" using assms by (auto simp: mod_if)
    have h: "?h mod 10 = (if 10 \<le> ?h then ?h - 10 else ?h)" using assms by (auto simp: mod_if)
    show ?thesis unfolding l h using assms by auto
  qed
  then show ?thesis
    unfolding u_SNCpuDecimalADC8_def Let_def 1 low 2 high by simp
qed

lemma carry_digit:
  assumes "b < 10" "d < 10" "e \<le> (1 :: nat)"
  shows "b + d + e = 10 * (if 10 \<le> b + d + e then 1 else 0) + (b + d + e) mod 10"
  using assms by (auto simp: mod_if)

lemma sum_digits:
  assumes "m < 100" "n < 100" "e \<le> (1::nat)"
  defines "l \<equiv> m mod 10 + n mod 10 + e"
  defines "h \<equiv> m div 10 + n div 10 + (if 10 \<le> l then 1 else 0)"
  shows "(m + n + e) mod 100 div 10 = h mod 10" "(m + n + e) mod 100 mod 10 = l mod 10"
    "m + n + e \<ge> 100 \<longleftrightarrow> h \<ge> 10" "h < 20"
proof -
  have "l = 10 * (if 10 \<le> l then 1 else 0) + l mod 10"
    using carry_digit [of "m mod 10" "n mod 10" e] assms by simp
  then have s: "m + n + e = 10 * h + l mod 10"
    using div_mult_mod_eq [of m 10] div_mult_mod_eq [of n 10] unfolding l_def h_def by (simp add: algebra_simps split: if_splits)
  have "m div 10 < 10" "n div 10 < 10" using assms by auto
  then show h: "h < 20" unfolding h_def by simp
  have t: "10 * h + l mod 10 = 100 * (h div 10) + (10 * (h mod 10) + l mod 10)"
    using div_mult_mod_eq [of h 10] by linarith
  have lt: "l mod 10 < 10" "h mod 10 < 10" by simp_all
  then have "10 * (h mod 10) + l mod 10 < 100" by linarith
  then have m: "(m + n + e) mod 100 = 10 * (h mod 10) + l mod 10" unfolding s t by simp
  show "(m + n + e) mod 100 div 10 = h mod 10" "(m + n + e) mod 100 mod 10 = l mod 10"
    unfolding m using lt by simp_all
  show "m + n + e \<ge> 100 \<longleftrightarrow> h \<ge> 10" unfolding s using lt by linarith
qed

lemma DecimalADC8_bcd: "m < 100 \<Longrightarrow> n < 100 \<Longrightarrow> e \<le> 1 \<Longrightarrow>
   u_SNCpuDecimalADC8 (of_nat e) (bcd8 m) (bcd8 n) =
   bcd8 ((m + n + e) mod 100) + (if m + n + e \<ge> 100 then 0x100 else 0)"
proof -
  assume a: "m < 100" "n < 100" "e \<le> 1"
  then have "m div 10 < 10" "n div 10 < 10" by auto
  with a show ?thesis
    unfolding bcd8_def sum_digits [OF a]
    by (subst adc_digits) (simp_all add: Let_def sum_digits(3) [OF a, simplified])
qed

section \<open>Decimal subtraction\<close>

lemma int_and_F: "(word_of_int k :: u32) AND 0xF = word_of_int (k mod 16)"
  and int_and_FF: "(word_of_int k :: u32) AND 0xFF = word_of_int (k mod 256)"
proof -
  have "(word_of_int k :: u32) AND mask n = word_of_int (take_bit n k)" if "n \<le> 32" for n
    using that by (simp flip: take_bit_eq_mask add: take_bit_of_int)
  from this [of 4] this [of 8]
  show "(word_of_int k :: u32) AND 0xF = word_of_int (k mod 16)"
    "(word_of_int k :: u32) AND 0xFF = word_of_int (k mod 256)"
    by (simp_all add: mask_eq_exp_minus_1 take_bit_eq_mod)
qed

text \<open>Small negative numbers are large as unsigned words.\<close>

lemma negative_word:
  assumes "- 512 \<le> k" and "k < int m" and "m < 512"
  shows "(of_nat m :: u32) \<le> word_of_int k \<longleftrightarrow> k < 0"
proof -
  have u: "uint (word_of_int k :: u32) = (if k < 0 then k + 4294967296 else k)"
  proof (cases "k < 0")
    case True
    have "(k + 4294967296) mod 4294967296 = k + 4294967296"
      using assms(1) True by (intro mod_pos_pos_trivial) simp_all
    then show ?thesis using True by (simp add: uint_word_of_int)
  next
    case False
    then show ?thesis using assms by (simp add: uint_word_of_int)
  qed
  have "uint (of_nat m :: u32) = int m" using assms(3) by (simp add: unsigned_of_nat take_bit_nat_eq_self)
  with u assms show ?thesis by (simp add: word_le_def)
qed

lemma borrow_low:
  assumes "- 11 \<le> k" and "k < 10"
  shows "(if (word_of_int k :: u32) \<ge> 0x000A then ((word_of_int k + 0x000A) AND 0x000F) - 0x00010 else word_of_int k) =
    (word_of_int (if k < 0 then (k + 10) mod 16 - 16 else k) :: u32)"
proof -
  have "(word_of_int k + 0xA :: u32) = word_of_int (k + 10)" by simp
  then have "((word_of_int k + 0xA) AND 0xF) - 0x10 = (word_of_int ((k + 10) mod 16 - 16) :: u32)"
    by (simp only: int_and_F) simp
  with assms negative_word [of k 10] show ?thesis by simp
qed

lemma borrow_high:
  assumes "- 160 \<le> k" and "k < 160"
  shows "(if (word_of_int k :: u32) \<ge> 0x00A0 then ((word_of_int k + 0x00A0) AND 0x00FF) - 0x00100 else word_of_int k) =
    (word_of_int (if k < 0 then k - 96 else k) :: u32)"
proof -
  have "(word_of_int k + 0xA0 :: u32) = word_of_int (k + 160)" by simp
  then have "((word_of_int k + 0xA0) AND 0xFF) - 0x100 = (word_of_int ((k + 160) mod 256 - 256) :: u32)"
    by (simp only: int_and_FF) simp
  moreover have "k < 0 \<Longrightarrow> (k + 160) mod 256 - 256 = k - 96" using assms by simp
  ultimately show ?thesis using assms negative_word [of k 160] by simp
qed

lemma xor_bit8:
  assumes "k < 256"
  shows "(of_nat k :: u32) XOR 0x100 = of_nat k + 0x100"
    "(of_nat k + 0xFFFFFF00 :: u32) XOR 0x100 = of_nat k + 0xFFFFFE00"
proof -
  have a: "(of_nat k :: u32) = of_nat k AND 0xFF" using assms by (simp add: and_FF)
  have p: "(of_nat k :: u32) + m = of_nat k XOR m" if "0xFF AND m = 0" for m :: u32
  proof -
    have z: "(of_nat k :: u32) AND m = 0" by (subst a) (simp add: and.assoc that)
    have "(of_nat k :: u32) OR m = of_nat k XOR m"
    proof (rule bit_word_eqI)
      fix n
      have "bit ((of_nat k :: u32) AND m) n = False" unfolding z by simp
      then show "bit (of_nat k OR m) n = bit (of_nat k XOR m) n" by (auto simp: bit_or_iff bit_xor_iff bit_and_iff)
    qed
    with z show ?thesis using word_plus_and_or [of "of_nat k :: u32" m] by simp
  qed
  show "(of_nat k :: u32) XOR 0x100 = of_nat k + 0x100" by (subst p) simp_all
  show "(of_nat k + 0xFFFFFF00 :: u32) XOR 0x100 = of_nat k + 0xFFFFFE00"
    by (subst (1 2) p) (simp_all add: xor.assoc)
qed


lemma sbc_digits:
  assumes "a < 10" "b < 10" "c < 10" "d < 10" "e \<le> (1 :: nat)"
  defines "l \<equiv> int b - int d - (1 - int e)"
  defines "h \<equiv> int a - int c - (if l < 0 then 1 else 0)"
  shows "u_SNCpuDecimalSBC8 (of_nat e) (of_nat (16 * a + b)) (of_nat (16 * c + d) XOR 0xFF) =
    of_nat (16 * nat (h mod 10) + nat (l mod 10)) + (if h < 0 then 0xFFFFFE00 else 0x100)"
proof -
  let ?y = "(if l < 0 then (l + 10) mod 16 - 16 else l) + 16 * (int a - int c)"
  let ?z = "if ?y < 0 then ?y - 96 else ?y"
  have x: "((of_nat (16 * c + d) :: u32) XOR 0xFF) XOR 0xFF = of_nat (16 * c + d)"
    by (simp add: xor.assoc)
  have nib: "(of_nat (16 * a + b) :: u32) AND 0x0F = of_nat b" "(of_nat (16 * c + d) :: u32) AND 0x0F = of_nat d"
    unfolding and_F using assms by simp_all
  have 1: "(of_nat e + 0xFFFFFFFF + (of_nat b - of_nat d) :: u32) = word_of_int l"
    unfolding l_def by simp
  have l: "- 11 \<le> l" "- 10 \<le> l" "l < 10" using assms by (simp_all add: l_def)
  have 2: "(word_of_int (if l < 0 then (l + 10) mod 16 - 16 else l) + (of_nat (16 * a) - of_nat (16 * c)) :: u32)
     = word_of_int ?y"
    by simp
  have l10: "(if l < 0 then (l + 10) mod 16 - 16 else l) = (if l < 0 then l - 6 else l)" using l by simp
  have y: "- 160 \<le> ?y" "?y < 160" using l assms(1-4) unfolding l10 by (auto split: if_splits)
  have yh: "?y = 16 * h + (if l < 0 then l + 10 else l)" unfolding l10 h_def by auto
  have lm: "l mod 10 = (if l < 0 then l + 10 else l)"
  proof (cases "l < 0")
    case True
    then have "(l + 10) mod 10 = l + 10" using l by (intro mod_pos_pos_trivial) simp_all
    then show ?thesis using True by simp
  qed (use l in simp)
  have h: "- 10 \<le> h" "h < 10" using assms(1-4) by (auto simp: h_def)
  have hm: "h mod 10 = (if h < 0 then h + 10 else h)"
  proof (cases "h < 0")
    case True
    then have "(h + 10) mod 10 = h + 10" using h by (intro mod_pos_pos_trivial) simp_all
    then show ?thesis using True by simp
  qed (use h in simp)
  have l0: "0 \<le> l mod 10" "l mod 10 < 10" "0 \<le> h mod 10" "h mod 10 < 10" by simp_all
  have neg: "?y < 0 \<longleftrightarrow> h < 0" unfolding yh lm [symmetric] using l0 by linarith
  define k where "k = 16 * nat (h mod 10) + nat (l mod 10)"
  have k: "int k = 16 * (h mod 10) + l mod 10" "k < 256" using l0 by (simp_all add: k_def)
  have z: "?z = int k + (if h < 0 then - 256 else 0)"
    unfolding neg k(1) hm unfolding yh lm [symmetric] by simp
  then have "(word_of_int ?z :: u32) = of_nat k + (if h < 0 then 0xFFFFFF00 else 0)"
    by (simp only: of_int_add) simp
  with xor_bit8 [OF k(2)] have "(word_of_int ?z :: u32) XOR 0x100 = of_nat k + (if h < 0 then 0xFFFFFE00 else 0x100)"
    by (simp split: if_splits)
  then show ?thesis
    unfolding u_SNCpuDecimalSBC8_def Let_def x nib 1 borrow_low [OF l(1,3)] and_F0 [OF assms(1,2)] and_F0 [OF assms(3,4)]
      2 borrow_high [OF y] k_def .
qed

text \<open>The digits of a difference, with the borrow of the lower one.\<close>

lemma diff_digits:
  assumes "m < 100" "n < 100" "e \<le> (1 :: nat)"
  defines "l \<equiv> int (m mod 10) - int (n mod 10) - (1 - int e)"
  defines "h \<equiv> int (m div 10) - int (n div 10) - (if l < 0 then 1 else 0)"
  defines "r \<equiv> int m - int n - (1 - int e)"
  shows "nat (r mod 100) div 10 = nat (h mod 10)" "nat (r mod 100) mod 10 = nat (l mod 10)" "r < 0 \<longleftrightarrow> h < 0"
proof -
  have "- 10 \<le> l" "l < 10" using assms(3) unfolding l_def by auto
  then have lm: "l = 10 * (if l < 0 then - 1 else 0) + l mod 10"
    using mod_pos_pos_trivial [of "l + 10" 10] by auto
  have s: "r = 10 * h + l mod 10"
  proof -
    have "int m = 10 * int (m div 10) + int (m mod 10)" "int n = 10 * int (n div 10) + int (n mod 10)"
      using div_mult_mod_eq [of m 10] div_mult_mod_eq [of n 10] by linarith+
    moreover have "l - l mod 10 = (if l < 0 then - 10 else 0)"
      using lm by (cases "l < 0") simp_all
    ultimately show ?thesis unfolding r_def h_def by (simp split: if_splits) (simp_all add: l_def)
  qed
  have lt: "0 \<le> l mod 10" "l mod 10 < 10" "0 \<le> h mod 10" "h mod 10 < 10" by simp_all
  show "r < 0 \<longleftrightarrow> h < 0" unfolding s using lt by linarith
  have t: "10 * h + l mod 10 = 100 * (h div 10) + (10 * (h mod 10) + l mod 10)"
    using div_mult_mod_eq [of h 10] by linarith
  have "0 \<le> 10 * (h mod 10) + l mod 10" "10 * (h mod 10) + l mod 10 < 100" using lt by linarith+
  then have "r mod 100 = 10 * (h mod 10) + l mod 10" unfolding s t by simp
  then have "nat (r mod 100) = 10 * nat (h mod 10) + nat (l mod 10)" using lt by (simp add: nat_add_distrib nat_mult_distrib)
  then show "nat (r mod 100) div 10 = nat (h mod 10)" "nat (r mod 100) mod 10 = nat (l mod 10)"
    using lt by simp_all
qed

lemma DecimalSBC8_bcd:
  assumes "m < 100" "n < 100" "e \<le> 1"
  defines "r \<equiv> int m - int n - (1 - int e)"
  shows "u_SNCpuDecimalSBC8 (of_nat e) (bcd8 m) (bcd8 n XOR 0xFF) =
    bcd8 (nat (r mod 100)) + (if r < 0 then 0xFFFFFE00 else 0x100)"
proof -
  have d: "m div 10 < 10" "n div 10 < 10" using assms by auto
  show ?thesis
    unfolding bcd8_def r_def diff_digits [OF assms(1-3)]
    by (subst sbc_digits) (use d assms(3) in simp_all)
qed

section \<open>The overflow flag\<close>

lemma bit7_div: "bit (w :: 'a::len word) 7 \<longleftrightarrow> odd (unat w div 128)"
proof -
  have "bit w 7 \<longleftrightarrow> bit (unat w) 7" by (simp add: bit_unsigned_iff)
  then show ?thesis by (simp add: bit_iff_odd)
qed

lemma bit7_u8: "bit (a :: u8) 7 \<longleftrightarrow> 128 \<le> unat a"
proof -
  have "unat a div 128 = (if 128 \<le> unat a then 1 else 0)" using unat_u8_le [of a] by (auto simp: div_if)
  then show ?thesis by (simp add: bit7_div)
qed

lemma sint_u8: "sint (a :: u8) = (if 128 \<le> unat a then int (unat a) - 256 else int (unat a))"
proof -
  have "sint a = (uint a + 128) mod 256 - 128"
    by (simp add: sint_uint signed_take_bit_eq_take_bit_shift take_bit_eq_mod)
  then have s: "sint a = (int (unat a) + 128) mod 256 - 128" by simp
  show ?thesis
  proof (cases "128 \<le> unat a")
    case True
    then have "(int (unat a) + 128 - 256) mod 256 = int (unat a) + 128 - 256"
      using unat_u8_le [of a] by (intro mod_pos_pos_trivial) linarith+
    then have "(int (unat a) + 128) mod 256 = int (unat a) + 128 - 256"
      using minus_mod_self2 [of "int (unat a) + 128" 256] by presburger
    with True s show ?thesis by simp
  next
    case False
    then have "(int (unat a) + 128) mod 256 = int (unat a) + 128"
      by (intro mod_pos_pos_trivial) linarith+
    with False s show ?thesis by simp
  qed
qed

lemma add8_unat:
  fixes a b :: u8 and c :: u32
  assumes "c \<le> 1"
  shows "unat (ucast a + ucast b + c :: u32) = unat a + unat b + unat c"
proof -
  have "unat c \<le> 1" using assms by (simp add: word_le_nat_alt)
  with unat_u8_le [of a] unat_u8_le [of b] show ?thesis
    by (simp add: unat_word_ariths)
qed

lemma overflow8:
  fixes a b :: u8 and c :: u32
  assumes "c \<le> 1"
  defines "d \<equiv> (ucast a + ucast b + c :: u32)"
  shows "NOT (ucast a XOR ucast b) AND (ucast a XOR d) AND 0x80 \<noteq> 0 \<longleftrightarrow>
           sint a + sint b + uint c < - 128 \<or> 127 < sint a + sint b + uint c"
proof -
  have "w AND 0x80 \<noteq> 0 \<longleftrightarrow> bit w 7" for w :: u32
    using and_exp_eq_0_iff_not_bit [of w 7] by simp
  then have "NOT (ucast a XOR ucast b) AND (ucast a XOR d) AND 0x80 \<noteq> 0 \<longleftrightarrow> 
     bit (NOT (ucast a XOR ucast b) AND (ucast a XOR d)) 7" by (simp only: and.assoc [symmetric])
  also have "\<dots> \<longleftrightarrow> bit a 7 = bit b 7 \<and> bit a 7 \<noteq> bit d 7"
    by (auto simp: bit_simps)
  finally have 1: "NOT (ucast a XOR ucast b) AND (ucast a XOR d) AND 0x80 \<noteq> 0 \<longleftrightarrow> 
    bit a 7 = bit b 7 \<and> bit a 7 \<noteq> bit d 7" .
  have c: "unat c \<le> 1" using assms by (simp add: word_le_nat_alt)
  let ?d = "unat a + unat b + unat c"
  have "?d div 128 = (if ?d < 128 then 0 else if ?d < 256 then 1 else if ?d < 384 then 2 else 3)"
    using c unat_u8_le [of a] unat_u8_le [of b] by auto
  then have bd: "bit d 7 \<longleftrightarrow> 128 \<le> ?d \<and> ?d < 256 \<or> 384 \<le> ?d"
    unfolding d_def bit7_div add8_unat [OF assms(1)] using c unat_u8_le [of a] unat_u8_le [of b] by auto
  have arith: "((128 \<le> A) = (128 \<le> B) \<and> (128 \<le> A) \<noteq> (128 \<le> A + B + C \<and> A + B + C < 256 \<or> 384 \<le> A + B + C)) \<longleftrightarrow>
      (if 128 \<le> A then int A - 256 else int A) + (if 128 \<le> B then int B - 256 else int B) + int C < - 128 \<or>
      127 < (if 128 \<le> A then int A - 256 else int A) + (if 128 \<le> B then int B - 256 else int B) + int C"
    if "A \<le> 255" "B \<le> 255" "C \<le> 1" for A B C :: nat
    using that by (cases "128 \<le> A"; cases "128 \<le> B") auto
  show ?thesis
    unfolding 1 bd bit7_u8 sint_u8 uint_nat by (rule arith [OF unat_u8_le unat_u8_le c])
qed

section \<open>The handlers\<close>

text \<open>
  How an 8-bit ADC or SBC handler ends, once the operand is in \<^verbatim>\<open>t1\<close>: an SBC handler
  inverts the operand first.
\<close>

definition adder8_tail :: "adder \<Rightarrow> uop list" where
  "adder8_tail k = [SNCPU_GET_A8 R_t2, ADDER k R_t2 R_t1, SNCPU_SET_A8 R_t2, SNCPU_SETFLAG_Z8 R_t2,
     SNCPU_SETFLAG_N8 R_t2, SNCPU_SHRI R_t2 8, SNCPU_SETFLAG_C R_t2, SNCPU_ENDOP 0]"

definition adder8_value :: "adder \<Rightarrow> bool \<Rightarrow> u32 \<Rightarrow> u32 \<Rightarrow> u32 \<Rightarrow> u32" where
  "adder8_value k dec c a b = (if dec then adder_decimal k c a b else a + b + c)"

definition ends_with :: "'a list \<Rightarrow> 'a list \<Rightarrow> bool" where
  "ends_with t us \<longleftrightarrow> drop (length us - length t) us = t"

definition accumulator_width :: "nat list \<Rightarrow> nat" where
  "accumulator_width ls = (if list_all (\<lambda>k. k div 0x200 \<noteq> 0) ls then 8 else 16)"

lemma adc_handlers_end:
  "list_all (\<lambda>(ls, us). accumulator_width ls = 8 \<longrightarrow> ends_with (adder8_tail ADC8) us)
     (op65816_ADC_1 @ op65816_ADC_2 @ op65816_ADC_3 @ op65816_ADC_4)"
  by (simp add: op65816_arith_defs ends_with_def adder8_tail_def accumulator_width_def)

lemma sbc_handlers_end:
  "list_all (\<lambda>(ls, us). accumulator_width ls = 8 \<longrightarrow> ends_with (SNCPU_NOT8 R_t1 # adder8_tail SBC8) us)
     (op65816_SBC_1 @ op65816_SBC_2 @ op65816_SBC_3 @ op65816_SBC_4)"
  by (simp add: op65816_arith_defs ends_with_def adder8_tail_def accumulator_width_def)

lemma V_leaves_D [simp]:
  "(p OR SNCPU_FLAG_V) AND SNCPU_FLAG_D = p AND SNCPU_FLAG_D"
  "(p AND NOT SNCPU_FLAG_V) AND SNCPU_FLAG_D = p AND SNCPU_FLAG_D"
  by (rule or_disjoint and_NOT_disjoint, simp add: flag_defs)+

text \<open>What the eight macros do to the accumulator and the flags.\<close>

lemma adder8_run:
  fixes x :: "'w xst" and k :: adder
  defines "a \<equiv> lo8 (rA (Regs (pCpu x)))"
  defines "v \<equiv> adder8_value k (rP (Regs (pCpu x)) AND SNCPU_FLAG_D \<noteq> 0) (fC x AND 1) (ucast a) (l_t1 x)"
  shows "\<exists>x'. run_ops (exec_uop T) (adder8_tail k) x = Some x'
     \<and> rA (Regs (pCpu x')) = set_lo8 (rA (Regs (pCpu x))) (ucast v)
     \<and> fC x' = drop_bit 8 v AND 1 \<and> fZ x' = push_bit 8 v \<and> fN x' = push_bit 8 v
     \<and> rP (Regs (pCpu x')) = (if NOT (ucast a XOR l_t1 x) AND (ucast a XOR (ucast a + l_t1 x + (fC x AND 1)))
           AND adder_sign k \<noteq> 0 then rP (Regs (pCpu x)) OR SNCPU_FLAG_V else rP (Regs (pCpu x)) AND NOT SNCPU_FLAG_V)"
  unfolding adder8_tail_def a_def v_def
  by (simp add: add_macro_def Let_def adder8_value_def upd_regs_def SNCPU_SUBCYCLES_c_def)

text \<open>The flags a result in 32 bits gives after the shifts of the flag macros.\<close>

lemma carry_bit: "drop_bit 8 (v :: u32) AND 1 = (if bit v 8 then 1 else 0)"
  by (auto simp: and_one_eq bit_iff_odd_drop_bit odd_iff_mod_2_eq_one even_iff_mod_2_eq_zero)

lemma zero_test: "push_bit 8 (v :: u32) AND 0xFFFF = 0 \<longleftrightarrow> (ucast v :: u8) = 0"
proof -
  have "push_bit 8 v AND 0xFFFF = push_bit 8 (ucast (ucast v :: u8) :: u32)"
  proof (rule bit_word_eqI)
    fix n
    have "bit (0xFFFF :: u32) n \<longleftrightarrow> n < 16"
      using bit_mask_iff [of 16 n, where 'a = u32] by (auto simp: mask_eq_exp_minus_1)
    then show "bit (push_bit 8 v AND 0xFFFF) n = bit (push_bit 8 (ucast (ucast v :: u8) :: u32)) n"
      by (auto simp: bit_simps)
  qed
  moreover have "push_bit 8 (ucast w :: u32) = 0 \<longleftrightarrow> w = 0" for w :: u8
  proof
    assume "push_bit 8 (ucast w :: u32) = 0"
    then have "drop_bit 8 (push_bit 8 (ucast w :: u32)) = 0" by simp
    moreover have "drop_bit 8 (push_bit 8 (ucast w :: u32)) = ucast w"
      by (rule bit_word_eqI) (auto simp: bit_simps dest: bit_imp_le_length)
    ultimately have "unat (ucast w :: u32) = 0" by simp
    then show "w = 0" by (simp add: word_unat_eq_iff)
  qed simp
  ultimately show ?thesis by simp
qed

lemma sign_test: "push_bit 8 (v :: u32) AND 0x8000 \<noteq> 0 \<longleftrightarrow> bit (ucast v :: u8) 7"
proof -
  have "push_bit 8 v AND 0x8000 \<noteq> 0 \<longleftrightarrow> bit (push_bit 8 v) 15"
    using and_exp_eq_0_iff_not_bit [of "push_bit 8 v" 15] by simp
  then show ?thesis by (simp add: bit_simps)
qed

text \<open>The overflow flag after setting or clearing it.\<close>

lemma V_flag [simp]: "SNCPU_FLAG_V \<noteq> 0" "(p AND NOT SNCPU_FLAG_V) AND SNCPU_FLAG_V = 0"
  by (simp_all add: flag_defs and.assoc)

text \<open>The register and flag effect of an addition, in the terms of the processor manual.\<close>

definition adder8_effect :: "'w xst \<Rightarrow> u8 \<Rightarrow> bool \<Rightarrow> bool \<Rightarrow> 'w xst \<Rightarrow> bool" where
  "adder8_effect x r carry overflow x' \<longleftrightarrow>
     rA (Regs (pCpu x')) = set_lo8 (rA (Regs (pCpu x))) r
     \<and> fC x' = (if carry then 1 else 0)
     \<and> (fZ x' AND 0xFFFF = 0 \<longleftrightarrow> r = 0)
     \<and> (fN x' AND 0x8000 \<noteq> 0 \<longleftrightarrow> 128 \<le> unat r)
     \<and> (rP (Regs (pCpu x')) AND SNCPU_FLAG_V \<noteq> 0 \<longleftrightarrow> overflow)"

lemma adder8_tail_effect:
  fixes x :: "'w xst" and b :: u8 and k :: adder
  defines "a \<equiv> lo8 (rA (Regs (pCpu x)))"
  defines "v \<equiv> adder8_value k (rP (Regs (pCpu x)) AND SNCPU_FLAG_D \<noteq> 0) (fC x) (ucast a) (ucast b)"
  assumes "l_t1 x = ucast b" and "fC x \<le> 1" and "adder_sign k = 0x80"
  shows "\<exists>x'. run_ops (exec_uop T) (adder8_tail k) x = Some x' \<and>
     adder8_effect x (ucast v) (bit v 8)
       (sint a + sint b + uint (fC x) < - 128 \<or> 127 < sint a + sint b + uint (fC x)) x'"
proof -
  have c: "fC x AND 1 = fC x"
  proof -
    have "unat (fC x) = 0 \<or> unat (fC x) = 1" using assms(4) by (auto simp: word_le_nat_alt)
    then have "fC x = 0 \<or> fC x = 1" by (simp add: word_unat_eq_iff)
    then show ?thesis by auto
  qed
  show ?thesis
    using adder8_run [where k = k and x = x and T = T] overflow8 [OF assms(4), of a b]
    unfolding a_def v_def adder8_effect_def assms(3,5) c
    by (auto simp: carry_bit zero_test sign_test bit7_u8)
qed

lemma bit8_div: "bit (w :: 'a::len word) 8 \<longleftrightarrow> odd (unat w div 256)"
proof -
  have "bit w 8 \<longleftrightarrow> bit (unat w) 8" by (simp add: bit_unsigned_iff)
  then show ?thesis by (simp add: bit_iff_odd)
qed

lemma ucast_add8: "(ucast (ucast a + ucast b + (c :: u32)) :: u8) = a + b + ucast c"
  by (simp add: word_unat_eq_iff unat_word_ariths unat_ucast_u32_u8 mod_simps mod_mod_cancel)

text \<open>Packed decimal numbers as bytes.\<close>

lemma bcd8_less:
  assumes "n < (100 :: nat)"
  shows "16 * (n div 10) + n mod 10 < 160"
proof -
  have "n div 10 < 10" using assms by auto
  then show ?thesis using mod_less_divisor [of 10 n] by linarith
qed

lemma unat_bcd8: "n < 100 \<Longrightarrow> unat (bcd8 n) = 16 * (n div 10) + n mod 10"
  using bcd8_less [of n] by (simp add: bcd8_def unat_of_nat del: of_nat_add of_nat_mult)

lemma ucast_bcd8: "n < 100 \<Longrightarrow> (ucast (ucast (bcd8 n) :: u8) :: u32) = bcd8 n"
  using bcd8_less [of n] unat_bcd8 [of n] by (simp add: word_unat_eq_iff unat_ucast_u32_u8)

lemma bcd8_high:
  assumes "n < 100"
  shows "\<not> bit (bcd8 n) 8" "bit (bcd8 n + 0x100) 8" "\<not> bit (bcd8 n + 0xFFFFFE00) 8"
proof -
  let ?k = "16 * (n div 10) + n mod 10"
  have k: "?k < 160" by (rule bcd8_less [OF assms])
  have "?k div 256 = 0" "(?k + 0x100) div 256 = 1" "(?k + 0xFFFFFE00) div 256 = 0xFFFFFE"
    using k by (intro div_nat_eqI; simp)+
  moreover have "unat (bcd8 n + 0x100) = ?k + 0x100" "unat (bcd8 n + 0xFFFFFE00) = ?k + 0xFFFFFE00"
    using k unat_bcd8 [OF assms] by (simp_all add: unat_word_ariths)
  ultimately show "\<not> bit (bcd8 n) 8" "bit (bcd8 n + 0x100) 8" "\<not> bit (bcd8 n + 0xFFFFFE00) 8"
    unfolding bit8_div unat_bcd8 [OF assms] by simp_all
qed

lemma ucast_bcd8_plus: "(ucast (bcd8 n + 0x100) :: u8) = ucast (bcd8 n)" "(ucast (bcd8 n + 0xFFFFFE00) :: u8) = ucast (bcd8 n)"
proof -
  have "(unat (bcd8 n) + m * 256) mod 4294967296 mod 256 = unat (bcd8 n) mod 256" for m
    by (simp add: mod_mod_cancel)
  from this [of 1] this [of "0xFFFFFE"]
  show "(ucast (bcd8 n + 0x100) :: u8) = ucast (bcd8 n)" "(ucast (bcd8 n + 0xFFFFFE00) :: u8) = ucast (bcd8 n)"
    by (simp_all add: word_unat_eq_iff unat_word_ariths unat_ucast_u32_u8)
qed

end
