(* ===== verification/Op65816_Move.thy ===== *)
theory Op65816_Move
  imports Sn_Cpu_C
begin

text \<open>
  Instruction handlers of \<^verbatim>\<open>SNESticle/XML/op65816.h\<close>: loads, stores and transfers: the flag instructions, the register transfers, LDA, LDX, LDY,
  STA, STX, STY, STZ, the jumps and calls, and the stack instructions.
  A handler is the list of its \<^verbatim>\<open>case\<close> labels (opcode byte, plus \<^verbatim>\<open>0x100\<close> when X is set,
  \<^verbatim>\<open>0x200\<close> when M is set, \<^verbatim>\<open>0x400\<close> in emulation mode) with the macros of its body, in order.
\<close>

definition op65816_flags :: "(nat list \<times> uop list) list" where
  "op65816_flags =
   [
    \<comment> \<open>NOP_\<close> ([0x0ea, 0x1ea, 0x2ea, 0x3ea, 0x4ea],
      [SNCPU_ENDOP 1]),
    \<comment> \<open>SEI_\<close> ([0x078, 0x178, 0x278, 0x378, 0x478],
      [SNCPU_SETFLAG_I, SNCPU_ENDOP 1]),
    \<comment> \<open>CLI_\<close> ([0x058, 0x158, 0x258, 0x358, 0x458],
      [SNCPU_CLRFLAG_I, SNCPU_ENDOP 1]),
    \<comment> \<open>CLV_\<close> ([0x0b8, 0x1b8, 0x2b8, 0x3b8, 0x4b8],
      [SNCPU_SETFLAGI_V 0, SNCPU_ENDOP 1]),
    \<comment> \<open>CLC_\<close> ([0x018, 0x118, 0x218, 0x318, 0x418],
      [SNCPU_SETFLAGI_C 0, SNCPU_ENDOP 1]),
    \<comment> \<open>SEC_\<close> ([0x038, 0x138, 0x238, 0x338, 0x438],
      [SNCPU_SETFLAGI_C 1, SNCPU_ENDOP 1]),
    \<comment> \<open>CLD_\<close> ([0x0d8, 0x1d8, 0x2d8, 0x3d8, 0x4d8],
      [SNCPU_CLRFLAG_D, SNCPU_ENDOP 1]),
    \<comment> \<open>SED_\<close> ([0x0f8, 0x1f8, 0x2f8, 0x3f8, 0x4f8],
      [SNCPU_SETFLAG_D, SNCPU_ENDOP 1]),
    \<comment> \<open>xce_\<close> ([0x0fb, 0x1fb, 0x2fb, 0x3fb, 0x4fb],
      [SNCPU_GETFLAG_E R_t1, SNCPU_GETFLAG_C R_t0, SNCPU_SETFLAG_C R_t1, SNCPU_SETFLAG_E R_t0,
      SNCPU_ENDOP 1])]"

definition op65816_transfer_1 :: "(nat list \<times> uop list) list" where
  "op65816_transfer_1 =
   [
    \<comment> \<open>tcd_\<close> ([0x05b, 0x15b, 0x25b, 0x35b, 0x45b],
      [SNCPU_GET_A16 R_t0, SNCPU_SET_DP R_t0, SNCPU_SETFLAG_Z16 R_t0, SNCPU_SETFLAG_N16 R_t0,
      SNCPU_ENDOP 1]),
    \<comment> \<open>TDC_\<close> ([0x07b, 0x17b, 0x27b, 0x37b, 0x47b],
      [SNCPU_GET_DP R_t0, SNCPU_SET_A16 R_t0, SNCPU_SETFLAG_Z16 R_t0, SNCPU_SETFLAG_N16 R_t0,
      SNCPU_ENDOP 1]),
    \<comment> \<open>TSC_\<close> ([0x03b, 0x13b, 0x23b, 0x33b, 0x43b],
      [SNCPU_GET_S16 R_t0, SNCPU_SET_A16 R_t0, SNCPU_SETFLAG_Z16 R_t0, SNCPU_SETFLAG_N16 R_t0,
      SNCPU_ENDOP 1]),
    \<comment> \<open>tas_\<close> ([0x01b, 0x11b, 0x21b, 0x31b],
      [SNCPU_GET_A16 R_t0, SNCPU_SET_S16 R_t0, SNCPU_ENDOP 1]),
    \<comment> \<open>tas_\<close> ([0x41b],
      [SNCPU_GET_A8 R_t0, SNCPU_SET_S8 R_t0, SNCPU_ENDOP 1]),
    \<comment> \<open>txa_m0\<close> ([0x08a, 0x18a],
      [SNCPU_GET_X16 R_t0, SNCPU_SET_A16 R_t0, SNCPU_SETFLAG_N16 R_t0, SNCPU_SETFLAG_Z16 R_t0,
      SNCPU_ENDOP 1]),
    \<comment> \<open>txa_m1\<close> ([0x28a, 0x38a, 0x48a],
      [SNCPU_GET_X8 R_t0, SNCPU_SET_A8 R_t0, SNCPU_SETFLAG_N8 R_t0, SNCPU_SETFLAG_Z8 R_t0,
      SNCPU_ENDOP 1]),
    \<comment> \<open>tya_m0\<close> ([0x098, 0x198],
      [SNCPU_GET_Y16 R_t0, SNCPU_SET_A16 R_t0, SNCPU_SETFLAG_N16 R_t0, SNCPU_SETFLAG_Z16 R_t0,
      SNCPU_ENDOP 1]),
    \<comment> \<open>tya_m1\<close> ([0x298, 0x398, 0x498],
      [SNCPU_GET_Y8 R_t0, SNCPU_SET_A8 R_t0, SNCPU_SETFLAG_N8 R_t0, SNCPU_SETFLAG_Z8 R_t0,
      SNCPU_ENDOP 1]),
    \<comment> \<open>tay_x0\<close> ([0x0a8, 0x2a8],
      [SNCPU_GET_A16 R_t0, SNCPU_SET_Y16 R_t0, SNCPU_SETFLAG_N16 R_t0, SNCPU_SETFLAG_Z16 R_t0,
      SNCPU_ENDOP 1]),
    \<comment> \<open>tay_x1\<close> ([0x1a8, 0x3a8, 0x4a8],
      [SNCPU_GET_A8 R_t0, SNCPU_SET_Y8 R_t0, SNCPU_SETFLAG_N8 R_t0, SNCPU_SETFLAG_Z8 R_t0,
      SNCPU_ENDOP 1]),
    \<comment> \<open>tax_x0\<close> ([0x0aa, 0x2aa],
      [SNCPU_GET_A16 R_t0, SNCPU_SET_X16 R_t0, SNCPU_SETFLAG_N16 R_t0, SNCPU_SETFLAG_Z16 R_t0,
      SNCPU_ENDOP 1]),
    \<comment> \<open>tax_x1\<close> ([0x1aa, 0x3aa, 0x4aa],
      [SNCPU_GET_A8 R_t0, SNCPU_SET_X8 R_t0, SNCPU_SETFLAG_N8 R_t0, SNCPU_SETFLAG_Z8 R_t0,
      SNCPU_ENDOP 1]),
    \<comment> \<open>TXY_x0\<close> ([0x09b, 0x29b],
      [SNCPU_GET_X16 R_t0, SNCPU_SET_Y16 R_t0, SNCPU_SETFLAG_N16 R_t0, SNCPU_SETFLAG_Z16 R_t0,
      SNCPU_ENDOP 1]),
    \<comment> \<open>TXY_x1\<close> ([0x19b, 0x39b, 0x49b],
      [SNCPU_GET_X16 R_t0, SNCPU_SET_Y16 R_t0, SNCPU_SETFLAG_N8 R_t0, SNCPU_SETFLAG_Z8 R_t0,
      SNCPU_ENDOP 1])]"

definition op65816_transfer_2 :: "(nat list \<times> uop list) list" where
  "op65816_transfer_2 =
   [
    \<comment> \<open>TYX_x0\<close> ([0x0bb, 0x2bb],
      [SNCPU_GET_Y16 R_t0, SNCPU_SET_X16 R_t0, SNCPU_SETFLAG_N16 R_t0, SNCPU_SETFLAG_Z16 R_t0,
      SNCPU_ENDOP 1]),
    \<comment> \<open>TYX_x1\<close> ([0x1bb, 0x3bb, 0x4bb],
      [SNCPU_GET_Y16 R_t0, SNCPU_SET_X16 R_t0, SNCPU_SETFLAG_N8 R_t0, SNCPU_SETFLAG_Z8 R_t0,
      SNCPU_ENDOP 1]),
    \<comment> \<open>txs_\<close> ([0x09a, 0x19a, 0x29a, 0x39a],
      [SNCPU_GET_X16 R_t0, SNCPU_SET_S16 R_t0, SNCPU_ENDOP 1]),
    \<comment> \<open>txs_\<close> ([0x49a],
      [SNCPU_GET_X8 R_t0, SNCPU_SET_S8 R_t0, SNCPU_ENDOP 1]),
    \<comment> \<open>tsx_x0\<close> ([0x0ba, 0x2ba],
      [SNCPU_GET_S16 R_t0, SNCPU_SET_X16 R_t0, SNCPU_SETFLAG_N16 R_t0, SNCPU_SETFLAG_Z16 R_t0,
      SNCPU_ENDOP 1]),
    \<comment> \<open>tsx_x1\<close> ([0x1ba, 0x3ba, 0x4ba],
      [SNCPU_GET_S8 R_t0, SNCPU_SET_X8 R_t0, SNCPU_SETFLAG_N8 R_t0, SNCPU_SETFLAG_Z8 R_t0,
      SNCPU_ENDOP 1])]"

definition op65816_index_incdec :: "(nat list \<times> uop list) list" where
  "op65816_index_incdec =
   [
    \<comment> \<open>DEX_x0\<close> ([0x0ca, 0x2ca],
      [SNCPU_GET_X16 R_t1, SNCPU_SUBI R_t1 1, SNCPU_SET_X16 R_t1, SNCPU_SETFLAG_Z16 R_t1,
      SNCPU_SETFLAG_N16 R_t1, SNCPU_ENDOP 1]),
    \<comment> \<open>DEX_x1\<close> ([0x1ca, 0x3ca, 0x4ca],
      [SNCPU_GET_X8 R_t1, SNCPU_SUBI R_t1 1, SNCPU_SET_X8 R_t1, SNCPU_SETFLAG_Z8 R_t1,
      SNCPU_SETFLAG_N8 R_t1, SNCPU_ENDOP 1]),
    \<comment> \<open>DEY_x0\<close> ([0x088, 0x288],
      [SNCPU_GET_Y16 R_t1, SNCPU_SUBI R_t1 1, SNCPU_SET_Y16 R_t1, SNCPU_SETFLAG_Z16 R_t1,
      SNCPU_SETFLAG_N16 R_t1, SNCPU_ENDOP 1]),
    \<comment> \<open>DEY_x1\<close> ([0x188, 0x388, 0x488],
      [SNCPU_GET_Y8 R_t1, SNCPU_SUBI R_t1 1, SNCPU_SET_Y8 R_t1, SNCPU_SETFLAG_Z8 R_t1,
      SNCPU_SETFLAG_N8 R_t1, SNCPU_ENDOP 1]),
    \<comment> \<open>INX_x0\<close> ([0x0e8, 0x2e8],
      [SNCPU_GET_X16 R_t1, SNCPU_ADDI R_t1 1, SNCPU_SET_X16 R_t1, SNCPU_SETFLAG_Z16 R_t1,
      SNCPU_SETFLAG_N16 R_t1, SNCPU_ENDOP 1]),
    \<comment> \<open>INX_x1\<close> ([0x1e8, 0x3e8, 0x4e8],
      [SNCPU_GET_X8 R_t1, SNCPU_ADDI R_t1 1, SNCPU_SET_X8 R_t1, SNCPU_SETFLAG_Z8 R_t1,
      SNCPU_SETFLAG_N8 R_t1, SNCPU_ENDOP 1]),
    \<comment> \<open>INY_x0\<close> ([0x0c8, 0x2c8],
      [SNCPU_GET_Y16 R_t1, SNCPU_ADDI R_t1 1, SNCPU_SET_Y16 R_t1, SNCPU_SETFLAG_Z16 R_t1,
      SNCPU_SETFLAG_N16 R_t1, SNCPU_ENDOP 1]),
    \<comment> \<open>INY_x1\<close> ([0x1c8, 0x3c8, 0x4c8],
      [SNCPU_GET_Y8 R_t1, SNCPU_ADDI R_t1 1, SNCPU_SET_Y8 R_t1, SNCPU_SETFLAG_Z8 R_t1,
      SNCPU_SETFLAG_N8 R_t1, SNCPU_ENDOP 1])]"

definition op65816_LDA_1 :: "(nat list \<times> uop list) list" where
  "op65816_LDA_1 =
   [
    \<comment> \<open>addr_imma_LDA_m0\<close> ([0x0a9, 0x1a9],
      [SNCPU_FETCH16 R_t1, SNCPU_SET_A16 R_t1, SNCPU_SETFLAG_Z16 R_t1, SNCPU_SETFLAG_N16 R_t1,
      SNCPU_ENDOP 0]),
    \<comment> \<open>addr_imma_LDA_m1\<close> ([0x2a9, 0x3a9, 0x4a9],
      [SNCPU_FETCH8 R_t1, SNCPU_SET_A8 R_t1, SNCPU_SETFLAG_Z8 R_t1, SNCPU_SETFLAG_N8 R_t1,
      SNCPU_ENDOP 0]),
    \<comment> \<open>addr_abs_read_LDA_m0\<close> ([0x0ad, 0x1ad],
      [SNCPU_FETCH16 R_t0, SNCPU_OR R_t0 R_DB, SNCPU_READ16 R_t0 R_t1, SNCPU_SET_A16 R_t1,
      SNCPU_SETFLAG_Z16 R_t1, SNCPU_SETFLAG_N16 R_t1, SNCPU_ENDOP 0]),
    \<comment> \<open>addr_abs_read_LDA_m1\<close> ([0x2ad, 0x3ad, 0x4ad],
      [SNCPU_FETCH16 R_t0, SNCPU_OR R_t0 R_DB, SNCPU_READ8 R_t0 R_t1, SNCPU_SET_A8 R_t1,
      SNCPU_SETFLAG_Z8 R_t1, SNCPU_SETFLAG_N8 R_t1, SNCPU_ENDOP 0]),
    \<comment> \<open>addr_abslong_read_LDA_m0\<close> ([0x0af, 0x1af],
      [SNCPU_FETCH24 R_t0, SNCPU_READ16 R_t0 R_t1, SNCPU_SET_A16 R_t1, SNCPU_SETFLAG_Z16 R_t1,
      SNCPU_SETFLAG_N16 R_t1, SNCPU_ENDOP 0]),
    \<comment> \<open>addr_abslong_read_LDA_m1\<close> ([0x2af, 0x3af, 0x4af],
      [SNCPU_FETCH24 R_t0, SNCPU_READ8 R_t0 R_t1, SNCPU_SET_A8 R_t1, SNCPU_SETFLAG_Z8 R_t1,
      SNCPU_SETFLAG_N8 R_t1, SNCPU_ENDOP 0]),
    \<comment> \<open>addr_abslong_ix_read_LDA_m0\<close> ([0x0bf, 0x1bf],
      [SNCPU_FETCH24 R_t0, SNCPU_ADD R_t0 R_X, SNCPU_READ16 R_t0 R_t1, SNCPU_SET_A16 R_t1,
      SNCPU_SETFLAG_Z16 R_t1, SNCPU_SETFLAG_N16 R_t1, SNCPU_ENDOP 0]),
    \<comment> \<open>addr_abslong_ix_read_LDA_m1\<close> ([0x2bf, 0x3bf, 0x4bf],
      [SNCPU_FETCH24 R_t0, SNCPU_ADD R_t0 R_X, SNCPU_READ8 R_t0 R_t1, SNCPU_SET_A8 R_t1,
      SNCPU_SETFLAG_Z8 R_t1, SNCPU_SETFLAG_N8 R_t1, SNCPU_ENDOP 0]),
    \<comment> \<open>addr_dp_ix_indirect_read_LDA_m0\<close> ([0x0a1, 0x1a1],
      [SNCPU_FETCH8 R_t0, SNCPU_ADD R_t0 R_DP, SNCPU_ANDI R_t0 0xFFFF, SNCPU_SUBCYCLES 1,
      SNCPU_ADD R_t0 R_X, SNCPU_AND R_t0 R_DPMASK, SNCPU_READ16 R_t0 R_t0, SNCPU_OR R_t0 R_DB,
      SNCPU_READ16 R_t0 R_t1, SNCPU_SET_A16 R_t1, SNCPU_SETFLAG_Z16 R_t1,
      SNCPU_SETFLAG_N16 R_t1, SNCPU_ENDOP 0]),
    \<comment> \<open>addr_dp_ix_indirect_read_LDA_m1\<close> ([0x2a1, 0x3a1, 0x4a1],
      [SNCPU_FETCH8 R_t0, SNCPU_ADD R_t0 R_DP, SNCPU_ANDI R_t0 0xFFFF, SNCPU_SUBCYCLES 1,
      SNCPU_ADD R_t0 R_X, SNCPU_AND R_t0 R_DPMASK, SNCPU_READ16 R_t0 R_t0, SNCPU_OR R_t0 R_DB,
      SNCPU_READ8 R_t0 R_t1, SNCPU_SET_A8 R_t1, SNCPU_SETFLAG_Z8 R_t1, SNCPU_SETFLAG_N8 R_t1,
      SNCPU_ENDOP 0]),
    \<comment> \<open>addr_sr_read_LDA_m0\<close> ([0x0a3, 0x1a3],
      [SNCPU_FETCH8 R_t0, SNCPU_ADD R_t0 R_S, SNCPU_ANDI R_t0 0xFFFF, SNCPU_SUBCYCLES 1,
      SNCPU_READ16 R_t0 R_t1, SNCPU_SET_A16 R_t1, SNCPU_SETFLAG_Z16 R_t1,
      SNCPU_SETFLAG_N16 R_t1, SNCPU_ENDOP 0]),
    \<comment> \<open>addr_sr_read_LDA_m1\<close> ([0x2a3, 0x3a3, 0x4a3],
      [SNCPU_FETCH8 R_t0, SNCPU_ADD R_t0 R_S, SNCPU_ANDI R_t0 0xFFFF, SNCPU_SUBCYCLES 1,
      SNCPU_READ8 R_t0 R_t1, SNCPU_SET_A8 R_t1, SNCPU_SETFLAG_Z8 R_t1, SNCPU_SETFLAG_N8 R_t1,
      SNCPU_ENDOP 0])]"

definition op65816_LDA_2 :: "(nat list \<times> uop list) list" where
  "op65816_LDA_2 =
   [
    \<comment> \<open>addr_dp_read_LDA_m0\<close> ([0x0a5, 0x1a5],
      [SNCPU_FETCH8 R_t0, SNCPU_ADD R_t0 R_DP, SNCPU_ANDI R_t0 0xFFFF, SNCPU_READ16 R_t0 R_t1,
      SNCPU_SET_A16 R_t1, SNCPU_SETFLAG_Z16 R_t1, SNCPU_SETFLAG_N16 R_t1, SNCPU_ENDOP 0]),
    \<comment> \<open>addr_dp_read_LDA_m1\<close> ([0x2a5, 0x3a5, 0x4a5],
      [SNCPU_FETCH8 R_t0, SNCPU_ADD R_t0 R_DP, SNCPU_ANDI R_t0 0xFFFF, SNCPU_READ8 R_t0 R_t1,
      SNCPU_SET_A8 R_t1, SNCPU_SETFLAG_Z8 R_t1, SNCPU_SETFLAG_N8 R_t1, SNCPU_ENDOP 0]),
    \<comment> \<open>addr_dp_indirectlong_read_LDA_m0\<close> ([0x0a7, 0x1a7],
      [SNCPU_FETCH8 R_t0, SNCPU_ADD R_t0 R_DP, SNCPU_ANDI R_t0 0xFFFF, SNCPU_READ24 R_t0 R_t0,
      SNCPU_READ16 R_t0 R_t1, SNCPU_SET_A16 R_t1, SNCPU_SETFLAG_Z16 R_t1,
      SNCPU_SETFLAG_N16 R_t1, SNCPU_ENDOP 0]),
    \<comment> \<open>addr_dp_indirectlong_read_LDA_m1\<close> ([0x2a7, 0x3a7, 0x4a7],
      [SNCPU_FETCH8 R_t0, SNCPU_ADD R_t0 R_DP, SNCPU_ANDI R_t0 0xFFFF, SNCPU_READ24 R_t0 R_t0,
      SNCPU_READ8 R_t0 R_t1, SNCPU_SET_A8 R_t1, SNCPU_SETFLAG_Z8 R_t1, SNCPU_SETFLAG_N8 R_t1,
      SNCPU_ENDOP 0]),
    \<comment> \<open>addr_dp_indirect_iy_read_LDA_m0\<close> ([0x0b1, 0x1b1],
      [SNCPU_FETCH8 R_t0, SNCPU_ADD R_t0 R_DP, SNCPU_ANDI R_t0 0xFFFF, SNCPU_READ16 R_t0 R_t0,
      SNCPU_OR R_t0 R_DB, SNCPU_ADD R_t0 R_Y, SNCPU_READ16 R_t0 R_t1, SNCPU_SET_A16 R_t1,
      SNCPU_SETFLAG_Z16 R_t1, SNCPU_SETFLAG_N16 R_t1, SNCPU_ENDOP 0]),
    \<comment> \<open>addr_dp_indirect_iy_read_LDA_m1\<close> ([0x2b1, 0x3b1, 0x4b1],
      [SNCPU_FETCH8 R_t0, SNCPU_ADD R_t0 R_DP, SNCPU_ANDI R_t0 0xFFFF, SNCPU_READ16 R_t0 R_t0,
      SNCPU_OR R_t0 R_DB, SNCPU_ADD R_t0 R_Y, SNCPU_READ8 R_t0 R_t1, SNCPU_SET_A8 R_t1,
      SNCPU_SETFLAG_Z8 R_t1, SNCPU_SETFLAG_N8 R_t1, SNCPU_ENDOP 0]),
    \<comment> \<open>addr_dp_indirect_read_LDA_m0\<close> ([0x0b2, 0x1b2],
      [SNCPU_FETCH8 R_t0, SNCPU_ADD R_t0 R_DP, SNCPU_ANDI R_t0 0xFFFF, SNCPU_READ16 R_t0 R_t0,
      SNCPU_OR R_t0 R_DB, SNCPU_READ16 R_t0 R_t1, SNCPU_SET_A16 R_t1, SNCPU_SETFLAG_Z16 R_t1,
      SNCPU_SETFLAG_N16 R_t1, SNCPU_ENDOP 0]),
    \<comment> \<open>addr_dp_indirect_read_LDA_m1\<close> ([0x2b2, 0x3b2, 0x4b2],
      [SNCPU_FETCH8 R_t0, SNCPU_ADD R_t0 R_DP, SNCPU_ANDI R_t0 0xFFFF, SNCPU_READ16 R_t0 R_t0,
      SNCPU_OR R_t0 R_DB, SNCPU_READ8 R_t0 R_t1, SNCPU_SET_A8 R_t1, SNCPU_SETFLAG_Z8 R_t1,
      SNCPU_SETFLAG_N8 R_t1, SNCPU_ENDOP 0]),
    \<comment> \<open>addr_sr_indirect_iy_read_LDA_m0\<close> ([0x0b3, 0x1b3],
      [SNCPU_FETCH8 R_t0, SNCPU_ADD R_t0 R_S, SNCPU_ANDI R_t0 0xFFFF, SNCPU_SUBCYCLES 1,
      SNCPU_READ16 R_t0 R_t0, SNCPU_OR R_t0 R_DB, SNCPU_SUBCYCLES 1, SNCPU_ADD R_t0 R_Y,
      SNCPU_READ16 R_t0 R_t1, SNCPU_SET_A16 R_t1, SNCPU_SETFLAG_Z16 R_t1,
      SNCPU_SETFLAG_N16 R_t1, SNCPU_ENDOP 0]),
    \<comment> \<open>addr_sr_indirect_iy_read_LDA_m1\<close> ([0x2b3, 0x3b3, 0x4b3],
      [SNCPU_FETCH8 R_t0, SNCPU_ADD R_t0 R_S, SNCPU_ANDI R_t0 0xFFFF, SNCPU_SUBCYCLES 1,
      SNCPU_READ16 R_t0 R_t0, SNCPU_OR R_t0 R_DB, SNCPU_SUBCYCLES 1, SNCPU_ADD R_t0 R_Y,
      SNCPU_READ8 R_t0 R_t1, SNCPU_SET_A8 R_t1, SNCPU_SETFLAG_Z8 R_t1, SNCPU_SETFLAG_N8 R_t1,
      SNCPU_ENDOP 0])]"

definition op65816_LDA_3 :: "(nat list \<times> uop list) list" where
  "op65816_LDA_3 =
   [
    \<comment> \<open>addr_dp_ix_read_LDA_m0\<close> ([0x0b5, 0x1b5],
      [SNCPU_FETCH8 R_t0, SNCPU_ADD R_t0 R_DP, SNCPU_ANDI R_t0 0xFFFF, SNCPU_SUBCYCLES 1,
      SNCPU_ADD R_t0 R_X, SNCPU_AND R_t0 R_DPMASK, SNCPU_READ16 R_t0 R_t1, SNCPU_SET_A16 R_t1,
      SNCPU_SETFLAG_Z16 R_t1, SNCPU_SETFLAG_N16 R_t1, SNCPU_ENDOP 0]),
    \<comment> \<open>addr_dp_ix_read_LDA_m1\<close> ([0x2b5, 0x3b5, 0x4b5],
      [SNCPU_FETCH8 R_t0, SNCPU_ADD R_t0 R_DP, SNCPU_ANDI R_t0 0xFFFF, SNCPU_SUBCYCLES 1,
      SNCPU_ADD R_t0 R_X, SNCPU_AND R_t0 R_DPMASK, SNCPU_READ8 R_t0 R_t1, SNCPU_SET_A8 R_t1,
      SNCPU_SETFLAG_Z8 R_t1, SNCPU_SETFLAG_N8 R_t1, SNCPU_ENDOP 0]),
    \<comment> \<open>addr_dp_indirectlong_iy_read_LDA_m0\<close> ([0x0b7, 0x1b7],
      [SNCPU_FETCH8 R_t0, SNCPU_ADD R_t0 R_DP, SNCPU_ANDI R_t0 0xFFFF, SNCPU_READ24 R_t0 R_t0,
      SNCPU_ADD R_t0 R_Y, SNCPU_READ16 R_t0 R_t1, SNCPU_SET_A16 R_t1, SNCPU_SETFLAG_Z16 R_t1,
      SNCPU_SETFLAG_N16 R_t1, SNCPU_ENDOP 0]),
    \<comment> \<open>addr_dp_indirectlong_iy_read_LDA_m1\<close> ([0x2b7, 0x3b7, 0x4b7],
      [SNCPU_FETCH8 R_t0, SNCPU_ADD R_t0 R_DP, SNCPU_ANDI R_t0 0xFFFF, SNCPU_READ24 R_t0 R_t0,
      SNCPU_ADD R_t0 R_Y, SNCPU_READ8 R_t0 R_t1, SNCPU_SET_A8 R_t1, SNCPU_SETFLAG_Z8 R_t1,
      SNCPU_SETFLAG_N8 R_t1, SNCPU_ENDOP 0]),
    \<comment> \<open>addr_abs_iy_read_LDA_m0\<close> ([0x0b9, 0x1b9],
      [SNCPU_FETCH16 R_t0, SNCPU_OR R_t0 R_DB, SNCPU_ADD R_t0 R_Y, SNCPU_READ16 R_t0 R_t1,
      SNCPU_SET_A16 R_t1, SNCPU_SETFLAG_Z16 R_t1, SNCPU_SETFLAG_N16 R_t1, SNCPU_ENDOP 0]),
    \<comment> \<open>addr_abs_iy_read_LDA_m1\<close> ([0x2b9, 0x3b9, 0x4b9],
      [SNCPU_FETCH16 R_t0, SNCPU_OR R_t0 R_DB, SNCPU_ADD R_t0 R_Y, SNCPU_READ8 R_t0 R_t1,
      SNCPU_SET_A8 R_t1, SNCPU_SETFLAG_Z8 R_t1, SNCPU_SETFLAG_N8 R_t1, SNCPU_ENDOP 0]),
    \<comment> \<open>addr_abs_ix_read_LDA_m0\<close> ([0x0bd, 0x1bd],
      [SNCPU_FETCH16 R_t0, SNCPU_OR R_t0 R_DB, SNCPU_ADD R_t0 R_X, SNCPU_READ16 R_t0 R_t1,
      SNCPU_SET_A16 R_t1, SNCPU_SETFLAG_Z16 R_t1, SNCPU_SETFLAG_N16 R_t1, SNCPU_ENDOP 0]),
    \<comment> \<open>addr_abs_ix_read_LDA_m1\<close> ([0x2bd, 0x3bd, 0x4bd],
      [SNCPU_FETCH16 R_t0, SNCPU_OR R_t0 R_DB, SNCPU_ADD R_t0 R_X, SNCPU_READ8 R_t0 R_t1,
      SNCPU_SET_A8 R_t1, SNCPU_SETFLAG_Z8 R_t1, SNCPU_SETFLAG_N8 R_t1, SNCPU_ENDOP 0])]"

definition op65816_STA_1 :: "(nat list \<times> uop list) list" where
  "op65816_STA_1 =
   [
    \<comment> \<open>addr_abs_STA_m0\<close> ([0x08d, 0x18d],
      [SNCPU_FETCH16 R_t0, SNCPU_OR R_t0 R_DB, SNCPU_GET_A16 R_t1, SNCPU_WRITE16 R_t0 R_t1,
      SNCPU_ENDOP 0]),
    \<comment> \<open>addr_abs_STA_m1\<close> ([0x28d, 0x38d, 0x48d],
      [SNCPU_FETCH16 R_t0, SNCPU_OR R_t0 R_DB, SNCPU_GET_A8 R_t1, SNCPU_WRITE8 R_t0 R_t1,
      SNCPU_ENDOP 0]),
    \<comment> \<open>addr_abslong_STA_m0\<close> ([0x08f, 0x18f],
      [SNCPU_FETCH24 R_t0, SNCPU_GET_A16 R_t1, SNCPU_WRITE16 R_t0 R_t1, SNCPU_ENDOP 0]),
    \<comment> \<open>addr_abslong_STA_m1\<close> ([0x28f, 0x38f, 0x48f],
      [SNCPU_FETCH24 R_t0, SNCPU_GET_A8 R_t1, SNCPU_WRITE8 R_t0 R_t1, SNCPU_ENDOP 0]),
    \<comment> \<open>addr_abslong_ix_STA_m0\<close> ([0x09f, 0x19f],
      [SNCPU_FETCH24 R_t0, SNCPU_ADD R_t0 R_X, SNCPU_GET_A16 R_t1, SNCPU_WRITE16 R_t0 R_t1,
      SNCPU_ENDOP 0]),
    \<comment> \<open>addr_abslong_ix_STA_m1\<close> ([0x29f, 0x39f, 0x49f],
      [SNCPU_FETCH24 R_t0, SNCPU_ADD R_t0 R_X, SNCPU_GET_A8 R_t1, SNCPU_WRITE8 R_t0 R_t1,
      SNCPU_ENDOP 0]),
    \<comment> \<open>addr_dp_ix_indirect_STA_m0\<close> ([0x081, 0x181],
      [SNCPU_FETCH8 R_t0, SNCPU_ADD R_t0 R_DP, SNCPU_ANDI R_t0 0xFFFF, SNCPU_SUBCYCLES 1,
      SNCPU_ADD R_t0 R_X, SNCPU_AND R_t0 R_DPMASK, SNCPU_READ16 R_t0 R_t0, SNCPU_OR R_t0 R_DB,
      SNCPU_GET_A16 R_t1, SNCPU_WRITE16 R_t0 R_t1, SNCPU_ENDOP 0]),
    \<comment> \<open>addr_dp_ix_indirect_STA_m1\<close> ([0x281, 0x381, 0x481],
      [SNCPU_FETCH8 R_t0, SNCPU_ADD R_t0 R_DP, SNCPU_ANDI R_t0 0xFFFF, SNCPU_SUBCYCLES 1,
      SNCPU_ADD R_t0 R_X, SNCPU_AND R_t0 R_DPMASK, SNCPU_READ16 R_t0 R_t0, SNCPU_OR R_t0 R_DB,
      SNCPU_GET_A8 R_t1, SNCPU_WRITE8 R_t0 R_t1, SNCPU_ENDOP 0]),
    \<comment> \<open>addr_sr_STA_m0\<close> ([0x083, 0x183],
      [SNCPU_FETCH8 R_t0, SNCPU_ADD R_t0 R_S, SNCPU_ANDI R_t0 0xFFFF, SNCPU_SUBCYCLES 1,
      SNCPU_GET_A16 R_t1, SNCPU_WRITE16 R_t0 R_t1, SNCPU_ENDOP 0]),
    \<comment> \<open>addr_sr_STA_m1\<close> ([0x283, 0x383, 0x483],
      [SNCPU_FETCH8 R_t0, SNCPU_ADD R_t0 R_S, SNCPU_ANDI R_t0 0xFFFF, SNCPU_SUBCYCLES 1,
      SNCPU_GET_A8 R_t1, SNCPU_WRITE8 R_t0 R_t1, SNCPU_ENDOP 0]),
    \<comment> \<open>addr_dp_STA_m0\<close> ([0x085, 0x185],
      [SNCPU_FETCH8 R_t0, SNCPU_ADD R_t0 R_DP, SNCPU_ANDI R_t0 0xFFFF, SNCPU_GET_A16 R_t1,
      SNCPU_WRITE16 R_t0 R_t1, SNCPU_ENDOP 0]),
    \<comment> \<open>addr_dp_STA_m1\<close> ([0x285, 0x385, 0x485],
      [SNCPU_FETCH8 R_t0, SNCPU_ADD R_t0 R_DP, SNCPU_ANDI R_t0 0xFFFF, SNCPU_GET_A8 R_t1,
      SNCPU_WRITE8 R_t0 R_t1, SNCPU_ENDOP 0]),
    \<comment> \<open>addr_dp_indirectlong_STA_m0\<close> ([0x087, 0x187],
      [SNCPU_FETCH8 R_t0, SNCPU_ADD R_t0 R_DP, SNCPU_ANDI R_t0 0xFFFF, SNCPU_READ24 R_t0 R_t0,
      SNCPU_GET_A16 R_t1, SNCPU_WRITE16 R_t0 R_t1, SNCPU_ENDOP 0])]"

definition op65816_STA_2 :: "(nat list \<times> uop list) list" where
  "op65816_STA_2 =
   [
    \<comment> \<open>addr_dp_indirectlong_STA_m1\<close> ([0x287, 0x387, 0x487],
      [SNCPU_FETCH8 R_t0, SNCPU_ADD R_t0 R_DP, SNCPU_ANDI R_t0 0xFFFF, SNCPU_READ24 R_t0 R_t0,
      SNCPU_GET_A8 R_t1, SNCPU_WRITE8 R_t0 R_t1, SNCPU_ENDOP 0]),
    \<comment> \<open>addr_dp_indirect_iy_cycle_STA_m0\<close> ([0x091, 0x191],
      [SNCPU_FETCH8 R_t0, SNCPU_ADD R_t0 R_DP, SNCPU_ANDI R_t0 0xFFFF, SNCPU_READ16 R_t0 R_t0,
      SNCPU_OR R_t0 R_DB, SNCPU_ADD R_t0 R_Y, SNCPU_SUBCYCLES 1, SNCPU_GET_A16 R_t1,
      SNCPU_WRITE16 R_t0 R_t1, SNCPU_ENDOP 0]),
    \<comment> \<open>addr_dp_indirect_iy_cycle_STA_m1\<close> ([0x291, 0x391, 0x491],
      [SNCPU_FETCH8 R_t0, SNCPU_ADD R_t0 R_DP, SNCPU_ANDI R_t0 0xFFFF, SNCPU_READ16 R_t0 R_t0,
      SNCPU_OR R_t0 R_DB, SNCPU_ADD R_t0 R_Y, SNCPU_SUBCYCLES 1, SNCPU_GET_A8 R_t1,
      SNCPU_WRITE8 R_t0 R_t1, SNCPU_ENDOP 0]),
    \<comment> \<open>addr_dp_indirect_STA_m0\<close> ([0x092, 0x192],
      [SNCPU_FETCH8 R_t0, SNCPU_ADD R_t0 R_DP, SNCPU_ANDI R_t0 0xFFFF, SNCPU_READ16 R_t0 R_t0,
      SNCPU_OR R_t0 R_DB, SNCPU_GET_A16 R_t1, SNCPU_WRITE16 R_t0 R_t1, SNCPU_ENDOP 0]),
    \<comment> \<open>addr_dp_indirect_STA_m1\<close> ([0x292, 0x392, 0x492],
      [SNCPU_FETCH8 R_t0, SNCPU_ADD R_t0 R_DP, SNCPU_ANDI R_t0 0xFFFF, SNCPU_READ16 R_t0 R_t0,
      SNCPU_OR R_t0 R_DB, SNCPU_GET_A8 R_t1, SNCPU_WRITE8 R_t0 R_t1, SNCPU_ENDOP 0]),
    \<comment> \<open>addr_sr_indirect_iy_STA_m0\<close> ([0x093, 0x193],
      [SNCPU_FETCH8 R_t0, SNCPU_ADD R_t0 R_S, SNCPU_ANDI R_t0 0xFFFF, SNCPU_SUBCYCLES 1,
      SNCPU_READ16 R_t0 R_t0, SNCPU_OR R_t0 R_DB, SNCPU_SUBCYCLES 1, SNCPU_ADD R_t0 R_Y,
      SNCPU_GET_A16 R_t1, SNCPU_WRITE16 R_t0 R_t1, SNCPU_ENDOP 0]),
    \<comment> \<open>addr_sr_indirect_iy_STA_m1\<close> ([0x293, 0x393, 0x493],
      [SNCPU_FETCH8 R_t0, SNCPU_ADD R_t0 R_S, SNCPU_ANDI R_t0 0xFFFF, SNCPU_SUBCYCLES 1,
      SNCPU_READ16 R_t0 R_t0, SNCPU_OR R_t0 R_DB, SNCPU_SUBCYCLES 1, SNCPU_ADD R_t0 R_Y,
      SNCPU_GET_A8 R_t1, SNCPU_WRITE8 R_t0 R_t1, SNCPU_ENDOP 0]),
    \<comment> \<open>addr_dp_ix_STA_m0\<close> ([0x095, 0x195],
      [SNCPU_FETCH8 R_t0, SNCPU_ADD R_t0 R_DP, SNCPU_ANDI R_t0 0xFFFF, SNCPU_SUBCYCLES 1,
      SNCPU_ADD R_t0 R_X, SNCPU_AND R_t0 R_DPMASK, SNCPU_GET_A16 R_t1, SNCPU_WRITE16 R_t0 R_t1,
      SNCPU_ENDOP 0]),
    \<comment> \<open>addr_dp_ix_STA_m1\<close> ([0x295, 0x395, 0x495],
      [SNCPU_FETCH8 R_t0, SNCPU_ADD R_t0 R_DP, SNCPU_ANDI R_t0 0xFFFF, SNCPU_SUBCYCLES 1,
      SNCPU_ADD R_t0 R_X, SNCPU_AND R_t0 R_DPMASK, SNCPU_GET_A8 R_t1, SNCPU_WRITE8 R_t0 R_t1,
      SNCPU_ENDOP 0]),
    \<comment> \<open>addr_dp_indirectlong_iy_STA_m0\<close> ([0x097, 0x197],
      [SNCPU_FETCH8 R_t0, SNCPU_ADD R_t0 R_DP, SNCPU_ANDI R_t0 0xFFFF, SNCPU_READ24 R_t0 R_t0,
      SNCPU_ADD R_t0 R_Y, SNCPU_GET_A16 R_t1, SNCPU_WRITE16 R_t0 R_t1, SNCPU_ENDOP 0]),
    \<comment> \<open>addr_dp_indirectlong_iy_STA_m1\<close> ([0x297, 0x397, 0x497],
      [SNCPU_FETCH8 R_t0, SNCPU_ADD R_t0 R_DP, SNCPU_ANDI R_t0 0xFFFF, SNCPU_READ24 R_t0 R_t0,
      SNCPU_ADD R_t0 R_Y, SNCPU_GET_A8 R_t1, SNCPU_WRITE8 R_t0 R_t1, SNCPU_ENDOP 0])]"

definition op65816_STA_3 :: "(nat list \<times> uop list) list" where
  "op65816_STA_3 =
   [
    \<comment> \<open>addr_abs_iy_cycle_STA_m0\<close> ([0x099, 0x199],
      [SNCPU_FETCH16 R_t0, SNCPU_OR R_t0 R_DB, SNCPU_ADD R_t0 R_Y, SNCPU_SUBCYCLES 1,
      SNCPU_GET_A16 R_t1, SNCPU_WRITE16 R_t0 R_t1, SNCPU_ENDOP 0]),
    \<comment> \<open>addr_abs_iy_cycle_STA_m1\<close> ([0x299, 0x399, 0x499],
      [SNCPU_FETCH16 R_t0, SNCPU_OR R_t0 R_DB, SNCPU_ADD R_t0 R_Y, SNCPU_SUBCYCLES 1,
      SNCPU_GET_A8 R_t1, SNCPU_WRITE8 R_t0 R_t1, SNCPU_ENDOP 0]),
    \<comment> \<open>addr_abs_ix_cycle_STA_m0\<close> ([0x09d, 0x19d],
      [SNCPU_FETCH16 R_t0, SNCPU_OR R_t0 R_DB, SNCPU_ADD R_t0 R_X, SNCPU_SUBCYCLES 1,
      SNCPU_GET_A16 R_t1, SNCPU_WRITE16 R_t0 R_t1, SNCPU_ENDOP 0]),
    \<comment> \<open>addr_abs_ix_cycle_STA_m1\<close> ([0x29d, 0x39d, 0x49d],
      [SNCPU_FETCH16 R_t0, SNCPU_OR R_t0 R_DB, SNCPU_ADD R_t0 R_X, SNCPU_SUBCYCLES 1,
      SNCPU_GET_A8 R_t1, SNCPU_WRITE8 R_t0 R_t1, SNCPU_ENDOP 0])]"

definition op65816_STX_STY_STZ_1 :: "(nat list \<times> uop list) list" where
  "op65816_STX_STY_STZ_1 =
   [
    \<comment> \<open>addr_dp_STX_x0\<close> ([0x086, 0x286],
      [SNCPU_FETCH8 R_t0, SNCPU_ADD R_t0 R_DP, SNCPU_ANDI R_t0 0xFFFF, SNCPU_GET_X16 R_t1,
      SNCPU_WRITE16 R_t0 R_t1, SNCPU_ENDOP 0]),
    \<comment> \<open>addr_dp_STX_x1\<close> ([0x186, 0x386, 0x486],
      [SNCPU_FETCH8 R_t0, SNCPU_ADD R_t0 R_DP, SNCPU_ANDI R_t0 0xFFFF, SNCPU_GET_X8 R_t1,
      SNCPU_WRITE8 R_t0 R_t1, SNCPU_ENDOP 0]),
    \<comment> \<open>addr_abs_STX_x0\<close> ([0x08e, 0x28e],
      [SNCPU_FETCH16 R_t0, SNCPU_OR R_t0 R_DB, SNCPU_GET_X16 R_t1, SNCPU_WRITE16 R_t0 R_t1,
      SNCPU_ENDOP 0]),
    \<comment> \<open>addr_abs_STX_x1\<close> ([0x18e, 0x38e, 0x48e],
      [SNCPU_FETCH16 R_t0, SNCPU_OR R_t0 R_DB, SNCPU_GET_X8 R_t1, SNCPU_WRITE8 R_t0 R_t1,
      SNCPU_ENDOP 0]),
    \<comment> \<open>addr_dp_iy_STX_x0\<close> ([0x096, 0x296],
      [SNCPU_FETCH8 R_t0, SNCPU_ADD R_t0 R_DP, SNCPU_ANDI R_t0 0xFFFF, SNCPU_SUBCYCLES 1,
      SNCPU_ADD R_t0 R_Y, SNCPU_AND R_t0 R_DPMASK, SNCPU_GET_X16 R_t1, SNCPU_WRITE16 R_t0 R_t1,
      SNCPU_ENDOP 0]),
    \<comment> \<open>addr_dp_iy_STX_x1\<close> ([0x196, 0x396, 0x496],
      [SNCPU_FETCH8 R_t0, SNCPU_ADD R_t0 R_DP, SNCPU_ANDI R_t0 0xFFFF, SNCPU_SUBCYCLES 1,
      SNCPU_ADD R_t0 R_Y, SNCPU_AND R_t0 R_DPMASK, SNCPU_GET_X8 R_t1, SNCPU_WRITE8 R_t0 R_t1,
      SNCPU_ENDOP 0]),
    \<comment> \<open>addr_dp_STY_x0\<close> ([0x084, 0x284],
      [SNCPU_FETCH8 R_t0, SNCPU_ADD R_t0 R_DP, SNCPU_ANDI R_t0 0xFFFF, SNCPU_GET_Y16 R_t1,
      SNCPU_WRITE16 R_t0 R_t1, SNCPU_ENDOP 0]),
    \<comment> \<open>addr_dp_STY_x1\<close> ([0x184, 0x384, 0x484],
      [SNCPU_FETCH8 R_t0, SNCPU_ADD R_t0 R_DP, SNCPU_ANDI R_t0 0xFFFF, SNCPU_GET_Y8 R_t1,
      SNCPU_WRITE8 R_t0 R_t1, SNCPU_ENDOP 0]),
    \<comment> \<open>addr_abs_STY_x0\<close> ([0x08c, 0x28c],
      [SNCPU_FETCH16 R_t0, SNCPU_OR R_t0 R_DB, SNCPU_GET_Y16 R_t1, SNCPU_WRITE16 R_t0 R_t1,
      SNCPU_ENDOP 0]),
    \<comment> \<open>addr_abs_STY_x1\<close> ([0x18c, 0x38c, 0x48c],
      [SNCPU_FETCH16 R_t0, SNCPU_OR R_t0 R_DB, SNCPU_GET_Y8 R_t1, SNCPU_WRITE8 R_t0 R_t1,
      SNCPU_ENDOP 0]),
    \<comment> \<open>addr_dp_ix_STY_x0\<close> ([0x094, 0x294],
      [SNCPU_FETCH8 R_t0, SNCPU_ADD R_t0 R_DP, SNCPU_ANDI R_t0 0xFFFF, SNCPU_SUBCYCLES 1,
      SNCPU_ADD R_t0 R_X, SNCPU_AND R_t0 R_DPMASK, SNCPU_GET_Y16 R_t1, SNCPU_WRITE16 R_t0 R_t1,
      SNCPU_ENDOP 0]),
    \<comment> \<open>addr_dp_ix_STY_x1\<close> ([0x194, 0x394, 0x494],
      [SNCPU_FETCH8 R_t0, SNCPU_ADD R_t0 R_DP, SNCPU_ANDI R_t0 0xFFFF, SNCPU_SUBCYCLES 1,
      SNCPU_ADD R_t0 R_X, SNCPU_AND R_t0 R_DPMASK, SNCPU_GET_Y8 R_t1, SNCPU_WRITE8 R_t0 R_t1,
      SNCPU_ENDOP 0]),
    \<comment> \<open>addr_dp_STZ_m0\<close> ([0x064, 0x164],
      [SNCPU_FETCH8 R_t0, SNCPU_ADD R_t0 R_DP, SNCPU_ANDI R_t0 0xFFFF, SNCPU_GETI R_t1 0,
      SNCPU_WRITE16 R_t0 R_t1, SNCPU_ENDOP 0])]"

definition op65816_STX_STY_STZ_2 :: "(nat list \<times> uop list) list" where
  "op65816_STX_STY_STZ_2 =
   [
    \<comment> \<open>addr_dp_STZ_m1\<close> ([0x264, 0x364, 0x464],
      [SNCPU_FETCH8 R_t0, SNCPU_ADD R_t0 R_DP, SNCPU_ANDI R_t0 0xFFFF, SNCPU_GETI R_t1 0,
      SNCPU_WRITE8 R_t0 R_t1, SNCPU_ENDOP 0]),
    \<comment> \<open>addr_dp_ix_STZ_m0\<close> ([0x074, 0x174],
      [SNCPU_FETCH8 R_t0, SNCPU_ADD R_t0 R_DP, SNCPU_ANDI R_t0 0xFFFF, SNCPU_SUBCYCLES 1,
      SNCPU_ADD R_t0 R_X, SNCPU_AND R_t0 R_DPMASK, SNCPU_GETI R_t1 0, SNCPU_WRITE16 R_t0 R_t1,
      SNCPU_ENDOP 0]),
    \<comment> \<open>addr_dp_ix_STZ_m1\<close> ([0x274, 0x374, 0x474],
      [SNCPU_FETCH8 R_t0, SNCPU_ADD R_t0 R_DP, SNCPU_ANDI R_t0 0xFFFF, SNCPU_SUBCYCLES 1,
      SNCPU_ADD R_t0 R_X, SNCPU_AND R_t0 R_DPMASK, SNCPU_GETI R_t1 0, SNCPU_WRITE8 R_t0 R_t1,
      SNCPU_ENDOP 0]),
    \<comment> \<open>addr_abs_STZ_m0\<close> ([0x09c, 0x19c],
      [SNCPU_FETCH16 R_t0, SNCPU_OR R_t0 R_DB, SNCPU_GETI R_t1 0, SNCPU_WRITE16 R_t0 R_t1,
      SNCPU_ENDOP 0]),
    \<comment> \<open>addr_abs_STZ_m1\<close> ([0x29c, 0x39c, 0x49c],
      [SNCPU_FETCH16 R_t0, SNCPU_OR R_t0 R_DB, SNCPU_GETI R_t1 0, SNCPU_WRITE8 R_t0 R_t1,
      SNCPU_ENDOP 0]),
    \<comment> \<open>addr_abs_ix_cycle_STZ_m0\<close> ([0x09e, 0x19e],
      [SNCPU_FETCH16 R_t0, SNCPU_OR R_t0 R_DB, SNCPU_ADD R_t0 R_X, SNCPU_SUBCYCLES 1,
      SNCPU_GETI R_t1 0, SNCPU_WRITE16 R_t0 R_t1, SNCPU_ENDOP 0]),
    \<comment> \<open>addr_abs_ix_cycle_STZ_m1\<close> ([0x29e, 0x39e, 0x49e],
      [SNCPU_FETCH16 R_t0, SNCPU_OR R_t0 R_DB, SNCPU_ADD R_t0 R_X, SNCPU_SUBCYCLES 1,
      SNCPU_GETI R_t1 0, SNCPU_WRITE8 R_t0 R_t1, SNCPU_ENDOP 0])]"

definition op65816_LDX_LDY_1 :: "(nat list \<times> uop list) list" where
  "op65816_LDX_LDY_1 =
   [
    \<comment> \<open>addr_immx_LDX_x0\<close> ([0x0a2, 0x2a2],
      [SNCPU_FETCH16 R_t1, SNCPU_SET_X16 R_t1, SNCPU_SETFLAG_Z16 R_t1, SNCPU_SETFLAG_N16 R_t1,
      SNCPU_ENDOP 0]),
    \<comment> \<open>addr_immx_LDX_x1\<close> ([0x1a2, 0x3a2, 0x4a2],
      [SNCPU_FETCH8 R_t1, SNCPU_SET_X8 R_t1, SNCPU_SETFLAG_Z8 R_t1, SNCPU_SETFLAG_N8 R_t1,
      SNCPU_ENDOP 0]),
    \<comment> \<open>addr_dp_read_LDX_x0\<close> ([0x0a6, 0x2a6],
      [SNCPU_FETCH8 R_t0, SNCPU_ADD R_t0 R_DP, SNCPU_ANDI R_t0 0xFFFF, SNCPU_READ16 R_t0 R_t1,
      SNCPU_SET_X16 R_t1, SNCPU_SETFLAG_Z16 R_t1, SNCPU_SETFLAG_N16 R_t1, SNCPU_ENDOP 0]),
    \<comment> \<open>addr_dp_read_LDX_x1\<close> ([0x1a6, 0x3a6, 0x4a6],
      [SNCPU_FETCH8 R_t0, SNCPU_ADD R_t0 R_DP, SNCPU_ANDI R_t0 0xFFFF, SNCPU_READ8 R_t0 R_t1,
      SNCPU_SET_X8 R_t1, SNCPU_SETFLAG_Z8 R_t1, SNCPU_SETFLAG_N8 R_t1, SNCPU_ENDOP 0]),
    \<comment> \<open>addr_abs_read_LDX_x0\<close> ([0x0ae, 0x2ae],
      [SNCPU_FETCH16 R_t0, SNCPU_OR R_t0 R_DB, SNCPU_READ16 R_t0 R_t1, SNCPU_SET_X16 R_t1,
      SNCPU_SETFLAG_Z16 R_t1, SNCPU_SETFLAG_N16 R_t1, SNCPU_ENDOP 0]),
    \<comment> \<open>addr_abs_read_LDX_x1\<close> ([0x1ae, 0x3ae, 0x4ae],
      [SNCPU_FETCH16 R_t0, SNCPU_OR R_t0 R_DB, SNCPU_READ8 R_t0 R_t1, SNCPU_SET_X8 R_t1,
      SNCPU_SETFLAG_Z8 R_t1, SNCPU_SETFLAG_N8 R_t1, SNCPU_ENDOP 0]),
    \<comment> \<open>addr_dp_iy_read_LDX_x0\<close> ([0x0b6, 0x2b6],
      [SNCPU_FETCH8 R_t0, SNCPU_ADD R_t0 R_DP, SNCPU_ANDI R_t0 0xFFFF, SNCPU_SUBCYCLES 1,
      SNCPU_ADD R_t0 R_Y, SNCPU_AND R_t0 R_DPMASK, SNCPU_READ16 R_t0 R_t1, SNCPU_SET_X16 R_t1,
      SNCPU_SETFLAG_Z16 R_t1, SNCPU_SETFLAG_N16 R_t1, SNCPU_ENDOP 0]),
    \<comment> \<open>addr_dp_iy_read_LDX_x1\<close> ([0x1b6, 0x3b6, 0x4b6],
      [SNCPU_FETCH8 R_t0, SNCPU_ADD R_t0 R_DP, SNCPU_ANDI R_t0 0xFFFF, SNCPU_SUBCYCLES 1,
      SNCPU_ADD R_t0 R_Y, SNCPU_AND R_t0 R_DPMASK, SNCPU_READ8 R_t0 R_t1, SNCPU_SET_X8 R_t1,
      SNCPU_SETFLAG_Z8 R_t1, SNCPU_SETFLAG_N8 R_t1, SNCPU_ENDOP 0]),
    \<comment> \<open>addr_abs_iy_read_LDX_x0\<close> ([0x0be, 0x2be],
      [SNCPU_FETCH16 R_t0, SNCPU_OR R_t0 R_DB, SNCPU_ADD R_t0 R_Y, SNCPU_READ16 R_t0 R_t1,
      SNCPU_SET_X16 R_t1, SNCPU_SETFLAG_Z16 R_t1, SNCPU_SETFLAG_N16 R_t1, SNCPU_ENDOP 0]),
    \<comment> \<open>addr_abs_iy_read_LDX_x1\<close> ([0x1be, 0x3be, 0x4be],
      [SNCPU_FETCH16 R_t0, SNCPU_OR R_t0 R_DB, SNCPU_ADD R_t0 R_Y, SNCPU_READ8 R_t0 R_t1,
      SNCPU_SET_X8 R_t1, SNCPU_SETFLAG_Z8 R_t1, SNCPU_SETFLAG_N8 R_t1, SNCPU_ENDOP 0]),
    \<comment> \<open>addr_immx_LDY_x0\<close> ([0x0a0, 0x2a0],
      [SNCPU_FETCH16 R_t1, SNCPU_SET_Y16 R_t1, SNCPU_SETFLAG_Z16 R_t1, SNCPU_SETFLAG_N16 R_t1,
      SNCPU_ENDOP 0]),
    \<comment> \<open>addr_immx_LDY_x1\<close> ([0x1a0, 0x3a0, 0x4a0],
      [SNCPU_FETCH8 R_t1, SNCPU_SET_Y8 R_t1, SNCPU_SETFLAG_Z8 R_t1, SNCPU_SETFLAG_N8 R_t1,
      SNCPU_ENDOP 0])]"

definition op65816_LDX_LDY_2 :: "(nat list \<times> uop list) list" where
  "op65816_LDX_LDY_2 =
   [
    \<comment> \<open>addr_dp_read_LDY_x0\<close> ([0x0a4, 0x2a4],
      [SNCPU_FETCH8 R_t0, SNCPU_ADD R_t0 R_DP, SNCPU_ANDI R_t0 0xFFFF, SNCPU_READ16 R_t0 R_t1,
      SNCPU_SET_Y16 R_t1, SNCPU_SETFLAG_Z16 R_t1, SNCPU_SETFLAG_N16 R_t1, SNCPU_ENDOP 0]),
    \<comment> \<open>addr_dp_read_LDY_x1\<close> ([0x1a4, 0x3a4, 0x4a4],
      [SNCPU_FETCH8 R_t0, SNCPU_ADD R_t0 R_DP, SNCPU_ANDI R_t0 0xFFFF, SNCPU_READ8 R_t0 R_t1,
      SNCPU_SET_Y8 R_t1, SNCPU_SETFLAG_Z8 R_t1, SNCPU_SETFLAG_N8 R_t1, SNCPU_ENDOP 0]),
    \<comment> \<open>addr_abs_read_LDY_x0\<close> ([0x0ac, 0x2ac],
      [SNCPU_FETCH16 R_t0, SNCPU_OR R_t0 R_DB, SNCPU_READ16 R_t0 R_t1, SNCPU_SET_Y16 R_t1,
      SNCPU_SETFLAG_Z16 R_t1, SNCPU_SETFLAG_N16 R_t1, SNCPU_ENDOP 0]),
    \<comment> \<open>addr_abs_read_LDY_x1\<close> ([0x1ac, 0x3ac, 0x4ac],
      [SNCPU_FETCH16 R_t0, SNCPU_OR R_t0 R_DB, SNCPU_READ8 R_t0 R_t1, SNCPU_SET_Y8 R_t1,
      SNCPU_SETFLAG_Z8 R_t1, SNCPU_SETFLAG_N8 R_t1, SNCPU_ENDOP 0]),
    \<comment> \<open>addr_dp_ix_read_LDY_x0\<close> ([0x0b4, 0x2b4],
      [SNCPU_FETCH8 R_t0, SNCPU_ADD R_t0 R_DP, SNCPU_ANDI R_t0 0xFFFF, SNCPU_SUBCYCLES 1,
      SNCPU_ADD R_t0 R_X, SNCPU_AND R_t0 R_DPMASK, SNCPU_READ16 R_t0 R_t1, SNCPU_SET_Y16 R_t1,
      SNCPU_SETFLAG_Z16 R_t1, SNCPU_SETFLAG_N16 R_t1, SNCPU_ENDOP 0]),
    \<comment> \<open>addr_dp_ix_read_LDY_x1\<close> ([0x1b4, 0x3b4, 0x4b4],
      [SNCPU_FETCH8 R_t0, SNCPU_ADD R_t0 R_DP, SNCPU_ANDI R_t0 0xFFFF, SNCPU_SUBCYCLES 1,
      SNCPU_ADD R_t0 R_X, SNCPU_AND R_t0 R_DPMASK, SNCPU_READ8 R_t0 R_t1, SNCPU_SET_Y8 R_t1,
      SNCPU_SETFLAG_Z8 R_t1, SNCPU_SETFLAG_N8 R_t1, SNCPU_ENDOP 0]),
    \<comment> \<open>addr_abs_ix_read_LDY_x0\<close> ([0x0bc, 0x2bc],
      [SNCPU_FETCH16 R_t0, SNCPU_OR R_t0 R_DB, SNCPU_ADD R_t0 R_X, SNCPU_READ16 R_t0 R_t1,
      SNCPU_SET_Y16 R_t1, SNCPU_SETFLAG_Z16 R_t1, SNCPU_SETFLAG_N16 R_t1, SNCPU_ENDOP 0]),
    \<comment> \<open>addr_abs_ix_read_LDY_x1\<close> ([0x1bc, 0x3bc, 0x4bc],
      [SNCPU_FETCH16 R_t0, SNCPU_OR R_t0 R_DB, SNCPU_ADD R_t0 R_X, SNCPU_READ8 R_t0 R_t1,
      SNCPU_SET_Y8 R_t1, SNCPU_SETFLAG_Z8 R_t1, SNCPU_SETFLAG_N8 R_t1, SNCPU_ENDOP 0])]"

definition op65816_jumps :: "(nat list \<times> uop list) list" where
  "op65816_jumps =
   [
    \<comment> \<open>addr_abs_zero_JSR_\<close> ([0x020, 0x120, 0x220, 0x320, 0x420],
      [SNCPU_FETCH16 R_t0, SNCPU_GET_PC R_t2, SNCPU_SUBI R_t2 1, SNCPU_PUSH16 R_t2,
      SNCPU_SET_PC16 R_t0, SNCPU_ENDOP 1]),
    \<comment> \<open>addr_abs_zero_JMP_\<close> ([0x04c, 0x14c, 0x24c, 0x34c, 0x44c],
      [SNCPU_FETCH16 R_t0, SNCPU_SET_PC16 R_t0, SNCPU_ENDOP 0]),
    \<comment> \<open>addr_abslong_JSL_\<close> ([0x022, 0x122, 0x222, 0x322, 0x422],
      [SNCPU_FETCH24 R_t0, SNCPU_GET_PC R_t2, SNCPU_SUBI R_t2 1, SNCPU_PUSH24 R_t2,
      SNCPU_SET_PC24 R_t0, SNCPU_ENDOP 1]),
    \<comment> \<open>addr_abslong_JMPL_\<close> ([0x05c, 0x15c, 0x25c, 0x35c, 0x45c],
      [SNCPU_FETCH24 R_t0, SNCPU_SET_PC24 R_t0, SNCPU_ENDOP 0]),
    \<comment> \<open>addr_abs_indirect_JMP_\<close> ([0x06c, 0x16c, 0x26c, 0x36c, 0x46c],
      [SNCPU_FETCH16 R_t0, SNCPU_READ16 R_t0 R_t0, SNCPU_ANDI R_t0 0xFFFF, SNCPU_SET_PC16 R_t0,
      SNCPU_ENDOP 0]),
    \<comment> \<open>addr_abs_indirectlong_JMPL_\<close> ([0x0dc, 0x1dc, 0x2dc, 0x3dc, 0x4dc],
      [SNCPU_FETCH16 R_t0, SNCPU_READ24 R_t0 R_t0, SNCPU_SET_PC24 R_t0, SNCPU_ENDOP 0]),
    \<comment> \<open>addr_pb_abs_ix_indirect_JSR_\<close> ([0x0fc, 0x1fc, 0x2fc, 0x3fc, 0x4fc],
      [SNCPU_FETCH16 R_t0, SNCPU_ADD R_t0 R_X, SNCPU_ANDI R_t0 0xFFFF, SNCPU_GET_PC R_t1,
      SNCPU_SHRI R_t1 16, SNCPU_SHLI R_t1 16, SNCPU_OR R_t0 (Tmp R_t1), SNCPU_READ16 R_t0 R_t0,
      SNCPU_ANDI R_t0 0xFFFF, SNCPU_GET_PC R_t2, SNCPU_SUBI R_t2 1, SNCPU_PUSH16 R_t2,
      SNCPU_SET_PC16 R_t0, SNCPU_ENDOP 1]),
    \<comment> \<open>addr_pb_abs_ix_indirect_JMP_\<close> ([0x07c, 0x17c, 0x27c, 0x37c, 0x47c],
      [SNCPU_FETCH16 R_t0, SNCPU_ADD R_t0 R_X, SNCPU_ANDI R_t0 0xFFFF, SNCPU_GET_PC R_t1,
      SNCPU_SHRI R_t1 16, SNCPU_SHLI R_t1 16, SNCPU_OR R_t0 (Tmp R_t1), SNCPU_READ16 R_t0 R_t0,
      SNCPU_ANDI R_t0 0xFFFF, SNCPU_SET_PC16 R_t0, SNCPU_ENDOP 1]),
    \<comment> \<open>RTS_\<close> ([0x060, 0x160, 0x260, 0x360, 0x460],
      [SNCPU_POP16 R_t0, SNCPU_ADDI R_t0 1, SNCPU_SET_PC16 R_t0, SNCPU_ENDOP 3]),
    \<comment> \<open>RTL_\<close> ([0x06b, 0x16b, 0x26b, 0x36b, 0x46b],
      [SNCPU_POP24 R_t0, SNCPU_ADDI R_t0 1, SNCPU_SET_PC24 R_t0, SNCPU_ENDOP 2]),
    \<comment> \<open>RTI_\<close> ([0x040, 0x140, 0x240, 0x340],
      [SNCPU_POP8 R_t0, SNCPU_SET_P R_t0, SNCPU_POP24 R_t0, SNCPU_SET_PC24 R_t0, SNCPU_ENDOP 2]),
    \<comment> \<open>RTI_\<close> ([0x440],
      [SNCPU_POP8 R_t0, SNCPU_SET_P R_t0, SNCPU_POP16 R_t0, SNCPU_SET_PC16 R_t0, SNCPU_ENDOP 2])]"

definition op65816_stack_1 :: "(nat list \<times> uop list) list" where
  "op65816_stack_1 =
   [
    \<comment> \<open>PER_\<close> ([0x062, 0x162, 0x262, 0x362, 0x462],
      [SNCPU_FETCH16 R_t0, SNCPU_GET_PC R_t1, SNCPU_ADD R_t0 (Tmp R_t1), SNCPU_PUSH16 R_t0,
      SNCPU_ENDOP 1]),
    \<comment> \<open>PEA_\<close> ([0x0f4, 0x1f4, 0x2f4, 0x3f4, 0x4f4],
      [SNCPU_FETCH16 R_t0, SNCPU_PUSH16 R_t0, SNCPU_ENDOP 0]),
    \<comment> \<open>PEI_addr_dp_indirect_\<close> ([0x0d4, 0x1d4, 0x2d4, 0x3d4, 0x4d4],
      [SNCPU_FETCH8 R_t0, SNCPU_ADD R_t0 R_DP, SNCPU_ANDI R_t0 0xFFFF, SNCPU_READ16 R_t0 R_t0,
      SNCPU_OR R_t0 R_DB, SNCPU_PUSH16 R_t0, SNCPU_ENDOP 0]),
    \<comment> \<open>PHK_\<close> ([0x04b, 0x14b, 0x24b, 0x34b, 0x44b],
      [SNCPU_GET_PC R_t0, SNCPU_SHRI R_t0 16, SNCPU_PUSH8 R_t0, SNCPU_ENDOP 1]),
    \<comment> \<open>PHP_\<close> ([0x008, 0x108, 0x208, 0x308, 0x408],
      [SNCPU_GET_P R_t0, SNCPU_PUSH8 R_t0, SNCPU_ENDOP 1]),
    \<comment> \<open>PLP_\<close> ([0x028, 0x128, 0x228, 0x328, 0x428],
      [SNCPU_POP8 R_t0, SNCPU_SET_P R_t0, SNCPU_ENDOP 2]),
    \<comment> \<open>PHA_m0\<close> ([0x048, 0x148],
      [SNCPU_GET_A16 R_t0, SNCPU_PUSH16 R_t0, SNCPU_ENDOP 1]),
    \<comment> \<open>PHA_m1\<close> ([0x248, 0x348, 0x448],
      [SNCPU_GET_A8 R_t0, SNCPU_PUSH8 R_t0, SNCPU_ENDOP 1]),
    \<comment> \<open>PLA_m0\<close> ([0x068, 0x168],
      [SNCPU_POP16 R_t0, SNCPU_SET_A16 R_t0, SNCPU_SETFLAG_N16 R_t0, SNCPU_SETFLAG_Z16 R_t0,
      SNCPU_ENDOP 2]),
    \<comment> \<open>PLA_m1\<close> ([0x268, 0x368, 0x468],
      [SNCPU_POP8 R_t0, SNCPU_SET_A8 R_t0, SNCPU_SETFLAG_N8 R_t0, SNCPU_SETFLAG_Z8 R_t0,
      SNCPU_ENDOP 2]),
    \<comment> \<open>PHX_x0\<close> ([0x0da, 0x2da],
      [SNCPU_GET_X16 R_t0, SNCPU_PUSH16 R_t0, SNCPU_ENDOP 1]),
    \<comment> \<open>PHX_x1\<close> ([0x1da, 0x3da, 0x4da],
      [SNCPU_GET_X8 R_t0, SNCPU_PUSH8 R_t0, SNCPU_ENDOP 1]),
    \<comment> \<open>PLX_x0\<close> ([0x0fa, 0x2fa],
      [SNCPU_POP16 R_t0, SNCPU_SET_X16 R_t0, SNCPU_SETFLAG_N16 R_t0, SNCPU_SETFLAG_Z16 R_t0,
      SNCPU_ENDOP 2]),
    \<comment> \<open>PLX_x1\<close> ([0x1fa, 0x3fa, 0x4fa],
      [SNCPU_POP8 R_t0, SNCPU_SET_X8 R_t0, SNCPU_SETFLAG_N8 R_t0, SNCPU_SETFLAG_Z8 R_t0,
      SNCPU_ENDOP 2]),
    \<comment> \<open>PHY_x0\<close> ([0x05a, 0x25a],
      [SNCPU_GET_Y16 R_t0, SNCPU_PUSH16 R_t0, SNCPU_ENDOP 1]),
    \<comment> \<open>PHY_x1\<close> ([0x15a, 0x35a, 0x45a],
      [SNCPU_GET_Y8 R_t0, SNCPU_PUSH8 R_t0, SNCPU_ENDOP 1])]"

definition op65816_stack_2 :: "(nat list \<times> uop list) list" where
  "op65816_stack_2 =
   [
    \<comment> \<open>PLY_x0\<close> ([0x07a, 0x27a],
      [SNCPU_POP16 R_t0, SNCPU_SET_Y16 R_t0, SNCPU_SETFLAG_N16 R_t0, SNCPU_SETFLAG_Z16 R_t0,
      SNCPU_ENDOP 2]),
    \<comment> \<open>PLY_x1\<close> ([0x17a, 0x37a, 0x47a],
      [SNCPU_POP8 R_t0, SNCPU_SET_Y8 R_t0, SNCPU_SETFLAG_N8 R_t0, SNCPU_SETFLAG_Z8 R_t0,
      SNCPU_ENDOP 2]),
    \<comment> \<open>PHD_\<close> ([0x00b, 0x10b, 0x20b, 0x30b, 0x40b],
      [SNCPU_GET_DP R_t0, SNCPU_PUSH16 R_t0, SNCPU_ENDOP 1]),
    \<comment> \<open>PLD_\<close> ([0x02b, 0x12b, 0x22b, 0x32b, 0x42b],
      [SNCPU_POP16 R_t0, SNCPU_SET_DP R_t0, SNCPU_SETFLAG_N16 R_t0, SNCPU_SETFLAG_Z16 R_t0,
      SNCPU_ENDOP 2]),
    \<comment> \<open>PHB_\<close> ([0x08b, 0x18b, 0x28b, 0x38b, 0x48b],
      [SNCPU_GET_DB R_t0, SNCPU_SHRI R_t0 16, SNCPU_PUSH8 R_t0, SNCPU_ENDOP 1]),
    \<comment> \<open>PLB_\<close> ([0x0ab, 0x1ab, 0x2ab, 0x3ab, 0x4ab],
      [SNCPU_POP8 R_t0, SNCPU_SETFLAG_N8 R_t0, SNCPU_SETFLAG_Z8 R_t0, SNCPU_SHLI R_t0 16,
      SNCPU_SET_DB R_t0, SNCPU_ENDOP 2])]"

definition op65816_BRK_COP :: "(nat list \<times> uop list) list" where
  "op65816_BRK_COP =
   [
    \<comment> \<open>XBA_\<close> ([0x0eb, 0x1eb, 0x2eb, 0x3eb, 0x4eb],
      [SNCPU_GET_A16 R_t0, SNCPU_GET_A16 R_t1, SNCPU_SHRI R_t0 8, SNCPU_SHLI R_t1 8,
      SNCPU_OR R_t1 (Tmp R_t0), SNCPU_SET_A16 R_t1, SNCPU_SETFLAG_N8 R_t0,
      SNCPU_SETFLAG_Z8 R_t0, SNCPU_ENDOP 2]),
    \<comment> \<open>BRK_\<close> ([0x000, 0x100, 0x200, 0x300],
      [SNCPU_GET_PC R_t2, SNCPU_ADDI R_t2 1, SNCPU_PUSH24 R_t2, SNCPU_GET_P R_t0,
      SNCPU_PUSH8 R_t0, SNCPU_CLRFLAG_D, SNCPU_SETFLAG_I, SNCPU_GETI R_t0 65510,
      SNCPU_READ16 R_t0 R_t0, SNCPU_SET_PC24 R_t0, SNCPU_ENDOP 1]),
    \<comment> \<open>COP_\<close> ([0x002, 0x102, 0x202, 0x302, 0x402],
      [SNCPU_GET_PC R_t2, SNCPU_ADDI R_t2 1, SNCPU_PUSH24 R_t2, SNCPU_GET_P R_t0,
      SNCPU_PUSH8 R_t0, SNCPU_CLRFLAG_D, SNCPU_SETFLAG_I, SNCPU_GETI R_t0 65508,
      SNCPU_READ16 R_t0 R_t0, SNCPU_SET_PC24 R_t0, SNCPU_ENDOP 1]),
    \<comment> \<open>BRK_\<close> ([0x400],
      [SNCPU_GET_PC R_t2, SNCPU_ADDI R_t2 1, SNCPU_PUSH16 R_t2, SNCPU_GET_P R_t0,
      SNCPU_PUSH8 R_t0, SNCPU_CLRFLAG_D, SNCPU_SETFLAG_I, SNCPU_GETI R_t0 65526,
      SNCPU_READ16 R_t0 R_t0, SNCPU_SET_PC24 R_t0, SNCPU_ENDOP 2])]"

definition op65816_move :: "(nat list \<times> uop list) list" where
  "op65816_move =
     op65816_flags @
     op65816_transfer_1 @
     op65816_transfer_2 @
     op65816_index_incdec @
     op65816_LDA_1 @
     op65816_LDA_2 @
     op65816_LDA_3 @
     op65816_STA_1 @
     op65816_STA_2 @
     op65816_STA_3 @
     op65816_STX_STY_STZ_1 @
     op65816_STX_STY_STZ_2 @
     op65816_LDX_LDY_1 @
     op65816_LDX_LDY_2 @
     op65816_jumps @
     op65816_stack_1 @
     op65816_stack_2 @
     op65816_BRK_COP"

lemmas op65816_move_defs =
  op65816_flags_def
  op65816_transfer_1_def
  op65816_transfer_2_def
  op65816_index_incdec_def
  op65816_LDA_1_def
  op65816_LDA_2_def
  op65816_LDA_3_def
  op65816_STA_1_def
  op65816_STA_2_def
  op65816_STA_3_def
  op65816_STX_STY_STZ_1_def
  op65816_STX_STY_STZ_2_def
  op65816_LDX_LDY_1_def
  op65816_LDX_LDY_2_def
  op65816_jumps_def
  op65816_stack_1_def
  op65816_stack_2_def
  op65816_BRK_COP_def

end
