(* ===== verification/Op65816_Logic.thy ===== *)
theory Op65816_Logic
  imports Sn_Cpu_C
begin

text \<open>
  Instruction handlers of \<^verbatim>\<open>SNESticle/XML/op65816.h\<close>: the bitwise, shift and read-modify-write instructions.
  A handler is the list of its \<^verbatim>\<open>case\<close> labels (opcode byte, plus \<^verbatim>\<open>0x100\<close> when X is set,
  \<^verbatim>\<open>0x200\<close> when M is set, \<^verbatim>\<open>0x400\<close> in emulation mode) with the macros of its body, in order.
\<close>

definition op65816_AND_1 :: "(nat list \<times> uop list) list" where
  "op65816_AND_1 =
   [
    \<comment> \<open>addr_dp_ix_indirect_read_AND_m0\<close> ([0x021, 0x121],
      [SNCPU_FETCH8 R_t0, SNCPU_ADD R_t0 R_DP, SNCPU_ANDI R_t0 0xFFFF, SNCPU_SUBCYCLES 1,
      SNCPU_ADD R_t0 R_X, SNCPU_AND R_t0 R_DPMASK, SNCPU_READ16 R_t0 R_t0, SNCPU_OR R_t0 R_DB,
      SNCPU_READ16 R_t0 R_t1, SNCPU_GET_A16 R_t2, SNCPU_AND R_t2 (Tmp R_t1),
      SNCPU_SET_A16 R_t2, SNCPU_SETFLAG_Z16 R_t2, SNCPU_SETFLAG_N16 R_t2, SNCPU_ENDOP 0]),
    \<comment> \<open>addr_dp_ix_indirect_read_AND_m1\<close> ([0x221, 0x321, 0x421],
      [SNCPU_FETCH8 R_t0, SNCPU_ADD R_t0 R_DP, SNCPU_ANDI R_t0 0xFFFF, SNCPU_SUBCYCLES 1,
      SNCPU_ADD R_t0 R_X, SNCPU_AND R_t0 R_DPMASK, SNCPU_READ16 R_t0 R_t0, SNCPU_OR R_t0 R_DB,
      SNCPU_READ8 R_t0 R_t1, SNCPU_GET_A8 R_t2, SNCPU_AND R_t2 (Tmp R_t1), SNCPU_SET_A8 R_t2,
      SNCPU_SETFLAG_Z8 R_t2, SNCPU_SETFLAG_N8 R_t2, SNCPU_ENDOP 0]),
    \<comment> \<open>addr_sr_read_AND_m0\<close> ([0x023, 0x123],
      [SNCPU_FETCH8 R_t0, SNCPU_ADD R_t0 R_S, SNCPU_ANDI R_t0 0xFFFF, SNCPU_SUBCYCLES 1,
      SNCPU_READ16 R_t0 R_t1, SNCPU_GET_A16 R_t2, SNCPU_AND R_t2 (Tmp R_t1),
      SNCPU_SET_A16 R_t2, SNCPU_SETFLAG_Z16 R_t2, SNCPU_SETFLAG_N16 R_t2, SNCPU_ENDOP 0]),
    \<comment> \<open>addr_sr_read_AND_m1\<close> ([0x223, 0x323, 0x423],
      [SNCPU_FETCH8 R_t0, SNCPU_ADD R_t0 R_S, SNCPU_ANDI R_t0 0xFFFF, SNCPU_SUBCYCLES 1,
      SNCPU_READ8 R_t0 R_t1, SNCPU_GET_A8 R_t2, SNCPU_AND R_t2 (Tmp R_t1), SNCPU_SET_A8 R_t2,
      SNCPU_SETFLAG_Z8 R_t2, SNCPU_SETFLAG_N8 R_t2, SNCPU_ENDOP 0]),
    \<comment> \<open>addr_dp_read_AND_m0\<close> ([0x025, 0x125],
      [SNCPU_FETCH8 R_t0, SNCPU_ADD R_t0 R_DP, SNCPU_ANDI R_t0 0xFFFF, SNCPU_READ16 R_t0 R_t1,
      SNCPU_GET_A16 R_t2, SNCPU_AND R_t2 (Tmp R_t1), SNCPU_SET_A16 R_t2,
      SNCPU_SETFLAG_Z16 R_t2, SNCPU_SETFLAG_N16 R_t2, SNCPU_ENDOP 0]),
    \<comment> \<open>addr_dp_read_AND_m1\<close> ([0x225, 0x325, 0x425],
      [SNCPU_FETCH8 R_t0, SNCPU_ADD R_t0 R_DP, SNCPU_ANDI R_t0 0xFFFF, SNCPU_READ8 R_t0 R_t1,
      SNCPU_GET_A8 R_t2, SNCPU_AND R_t2 (Tmp R_t1), SNCPU_SET_A8 R_t2, SNCPU_SETFLAG_Z8 R_t2,
      SNCPU_SETFLAG_N8 R_t2, SNCPU_ENDOP 0]),
    \<comment> \<open>addr_dp_indirectlong_read_AND_m0\<close> ([0x027, 0x127],
      [SNCPU_FETCH8 R_t0, SNCPU_ADD R_t0 R_DP, SNCPU_ANDI R_t0 0xFFFF, SNCPU_READ24 R_t0 R_t0,
      SNCPU_READ16 R_t0 R_t1, SNCPU_GET_A16 R_t2, SNCPU_AND R_t2 (Tmp R_t1),
      SNCPU_SET_A16 R_t2, SNCPU_SETFLAG_Z16 R_t2, SNCPU_SETFLAG_N16 R_t2, SNCPU_ENDOP 0]),
    \<comment> \<open>addr_dp_indirectlong_read_AND_m1\<close> ([0x227, 0x327, 0x427],
      [SNCPU_FETCH8 R_t0, SNCPU_ADD R_t0 R_DP, SNCPU_ANDI R_t0 0xFFFF, SNCPU_READ24 R_t0 R_t0,
      SNCPU_READ8 R_t0 R_t1, SNCPU_GET_A8 R_t2, SNCPU_AND R_t2 (Tmp R_t1), SNCPU_SET_A8 R_t2,
      SNCPU_SETFLAG_Z8 R_t2, SNCPU_SETFLAG_N8 R_t2, SNCPU_ENDOP 0]),
    \<comment> \<open>addr_imma_AND_m0\<close> ([0x029, 0x129],
      [SNCPU_FETCH16 R_t1, SNCPU_GET_A16 R_t2, SNCPU_AND R_t2 (Tmp R_t1), SNCPU_SET_A16 R_t2,
      SNCPU_SETFLAG_Z16 R_t2, SNCPU_SETFLAG_N16 R_t2, SNCPU_ENDOP 0])]"

definition op65816_AND_2 :: "(nat list \<times> uop list) list" where
  "op65816_AND_2 =
   [
    \<comment> \<open>addr_imma_AND_m1\<close> ([0x229, 0x329, 0x429],
      [SNCPU_FETCH8 R_t1, SNCPU_GET_A8 R_t2, SNCPU_AND R_t2 (Tmp R_t1), SNCPU_SET_A8 R_t2,
      SNCPU_SETFLAG_Z8 R_t2, SNCPU_SETFLAG_N8 R_t2, SNCPU_ENDOP 0]),
    \<comment> \<open>addr_abs_read_AND_m0\<close> ([0x02d, 0x12d],
      [SNCPU_FETCH16 R_t0, SNCPU_OR R_t0 R_DB, SNCPU_READ16 R_t0 R_t1, SNCPU_GET_A16 R_t2,
      SNCPU_AND R_t2 (Tmp R_t1), SNCPU_SET_A16 R_t2, SNCPU_SETFLAG_Z16 R_t2,
      SNCPU_SETFLAG_N16 R_t2, SNCPU_ENDOP 0]),
    \<comment> \<open>addr_abs_read_AND_m1\<close> ([0x22d, 0x32d, 0x42d],
      [SNCPU_FETCH16 R_t0, SNCPU_OR R_t0 R_DB, SNCPU_READ8 R_t0 R_t1, SNCPU_GET_A8 R_t2,
      SNCPU_AND R_t2 (Tmp R_t1), SNCPU_SET_A8 R_t2, SNCPU_SETFLAG_Z8 R_t2,
      SNCPU_SETFLAG_N8 R_t2, SNCPU_ENDOP 0]),
    \<comment> \<open>addr_abslong_read_AND_m0\<close> ([0x02f, 0x12f],
      [SNCPU_FETCH24 R_t0, SNCPU_READ16 R_t0 R_t1, SNCPU_GET_A16 R_t2,
      SNCPU_AND R_t2 (Tmp R_t1), SNCPU_SET_A16 R_t2, SNCPU_SETFLAG_Z16 R_t2,
      SNCPU_SETFLAG_N16 R_t2, SNCPU_ENDOP 0]),
    \<comment> \<open>addr_abslong_read_AND_m1\<close> ([0x22f, 0x32f, 0x42f],
      [SNCPU_FETCH24 R_t0, SNCPU_READ8 R_t0 R_t1, SNCPU_GET_A8 R_t2, SNCPU_AND R_t2 (Tmp R_t1),
      SNCPU_SET_A8 R_t2, SNCPU_SETFLAG_Z8 R_t2, SNCPU_SETFLAG_N8 R_t2, SNCPU_ENDOP 0]),
    \<comment> \<open>addr_dp_indirect_iy_read_AND_m0\<close> ([0x031, 0x131],
      [SNCPU_FETCH8 R_t0, SNCPU_ADD R_t0 R_DP, SNCPU_ANDI R_t0 0xFFFF, SNCPU_READ16 R_t0 R_t0,
      SNCPU_OR R_t0 R_DB, SNCPU_ADD R_t0 R_Y, SNCPU_READ16 R_t0 R_t1, SNCPU_GET_A16 R_t2,
      SNCPU_AND R_t2 (Tmp R_t1), SNCPU_SET_A16 R_t2, SNCPU_SETFLAG_Z16 R_t2,
      SNCPU_SETFLAG_N16 R_t2, SNCPU_ENDOP 0]),
    \<comment> \<open>addr_dp_indirect_iy_read_AND_m1\<close> ([0x231, 0x331, 0x431],
      [SNCPU_FETCH8 R_t0, SNCPU_ADD R_t0 R_DP, SNCPU_ANDI R_t0 0xFFFF, SNCPU_READ16 R_t0 R_t0,
      SNCPU_OR R_t0 R_DB, SNCPU_ADD R_t0 R_Y, SNCPU_READ8 R_t0 R_t1, SNCPU_GET_A8 R_t2,
      SNCPU_AND R_t2 (Tmp R_t1), SNCPU_SET_A8 R_t2, SNCPU_SETFLAG_Z8 R_t2,
      SNCPU_SETFLAG_N8 R_t2, SNCPU_ENDOP 0]),
    \<comment> \<open>addr_dp_indirect_read_AND_m0\<close> ([0x032, 0x132],
      [SNCPU_FETCH8 R_t0, SNCPU_ADD R_t0 R_DP, SNCPU_ANDI R_t0 0xFFFF, SNCPU_READ16 R_t0 R_t0,
      SNCPU_OR R_t0 R_DB, SNCPU_READ16 R_t0 R_t1, SNCPU_GET_A16 R_t2,
      SNCPU_AND R_t2 (Tmp R_t1), SNCPU_SET_A16 R_t2, SNCPU_SETFLAG_Z16 R_t2,
      SNCPU_SETFLAG_N16 R_t2, SNCPU_ENDOP 0]),
    \<comment> \<open>addr_dp_indirect_read_AND_m1\<close> ([0x232, 0x332, 0x432],
      [SNCPU_FETCH8 R_t0, SNCPU_ADD R_t0 R_DP, SNCPU_ANDI R_t0 0xFFFF, SNCPU_READ16 R_t0 R_t0,
      SNCPU_OR R_t0 R_DB, SNCPU_READ8 R_t0 R_t1, SNCPU_GET_A8 R_t2, SNCPU_AND R_t2 (Tmp R_t1),
      SNCPU_SET_A8 R_t2, SNCPU_SETFLAG_Z8 R_t2, SNCPU_SETFLAG_N8 R_t2, SNCPU_ENDOP 0]),
    \<comment> \<open>addr_sr_indirect_iy_read_AND_m0\<close> ([0x033, 0x133],
      [SNCPU_FETCH8 R_t0, SNCPU_ADD R_t0 R_S, SNCPU_ANDI R_t0 0xFFFF, SNCPU_SUBCYCLES 1,
      SNCPU_READ16 R_t0 R_t0, SNCPU_OR R_t0 R_DB, SNCPU_SUBCYCLES 1, SNCPU_ADD R_t0 R_Y,
      SNCPU_READ16 R_t0 R_t1, SNCPU_GET_A16 R_t2, SNCPU_AND R_t2 (Tmp R_t1),
      SNCPU_SET_A16 R_t2, SNCPU_SETFLAG_Z16 R_t2, SNCPU_SETFLAG_N16 R_t2, SNCPU_ENDOP 0])]"

definition op65816_AND_3 :: "(nat list \<times> uop list) list" where
  "op65816_AND_3 =
   [
    \<comment> \<open>addr_sr_indirect_iy_read_AND_m1\<close> ([0x233, 0x333, 0x433],
      [SNCPU_FETCH8 R_t0, SNCPU_ADD R_t0 R_S, SNCPU_ANDI R_t0 0xFFFF, SNCPU_SUBCYCLES 1,
      SNCPU_READ16 R_t0 R_t0, SNCPU_OR R_t0 R_DB, SNCPU_SUBCYCLES 1, SNCPU_ADD R_t0 R_Y,
      SNCPU_READ8 R_t0 R_t1, SNCPU_GET_A8 R_t2, SNCPU_AND R_t2 (Tmp R_t1), SNCPU_SET_A8 R_t2,
      SNCPU_SETFLAG_Z8 R_t2, SNCPU_SETFLAG_N8 R_t2, SNCPU_ENDOP 0]),
    \<comment> \<open>addr_dp_ix_read_AND_m0\<close> ([0x035, 0x135],
      [SNCPU_FETCH8 R_t0, SNCPU_ADD R_t0 R_DP, SNCPU_ANDI R_t0 0xFFFF, SNCPU_SUBCYCLES 1,
      SNCPU_ADD R_t0 R_X, SNCPU_AND R_t0 R_DPMASK, SNCPU_READ16 R_t0 R_t1, SNCPU_GET_A16 R_t2,
      SNCPU_AND R_t2 (Tmp R_t1), SNCPU_SET_A16 R_t2, SNCPU_SETFLAG_Z16 R_t2,
      SNCPU_SETFLAG_N16 R_t2, SNCPU_ENDOP 0]),
    \<comment> \<open>addr_dp_ix_read_AND_m1\<close> ([0x235, 0x335, 0x435],
      [SNCPU_FETCH8 R_t0, SNCPU_ADD R_t0 R_DP, SNCPU_ANDI R_t0 0xFFFF, SNCPU_SUBCYCLES 1,
      SNCPU_ADD R_t0 R_X, SNCPU_AND R_t0 R_DPMASK, SNCPU_READ8 R_t0 R_t1, SNCPU_GET_A8 R_t2,
      SNCPU_AND R_t2 (Tmp R_t1), SNCPU_SET_A8 R_t2, SNCPU_SETFLAG_Z8 R_t2,
      SNCPU_SETFLAG_N8 R_t2, SNCPU_ENDOP 0]),
    \<comment> \<open>addr_dp_indirectlong_iy_read_AND_m0\<close> ([0x037, 0x137],
      [SNCPU_FETCH8 R_t0, SNCPU_ADD R_t0 R_DP, SNCPU_ANDI R_t0 0xFFFF, SNCPU_READ24 R_t0 R_t0,
      SNCPU_ADD R_t0 R_Y, SNCPU_READ16 R_t0 R_t1, SNCPU_GET_A16 R_t2,
      SNCPU_AND R_t2 (Tmp R_t1), SNCPU_SET_A16 R_t2, SNCPU_SETFLAG_Z16 R_t2,
      SNCPU_SETFLAG_N16 R_t2, SNCPU_ENDOP 0]),
    \<comment> \<open>addr_dp_indirectlong_iy_read_AND_m1\<close> ([0x237, 0x337, 0x437],
      [SNCPU_FETCH8 R_t0, SNCPU_ADD R_t0 R_DP, SNCPU_ANDI R_t0 0xFFFF, SNCPU_READ24 R_t0 R_t0,
      SNCPU_ADD R_t0 R_Y, SNCPU_READ8 R_t0 R_t1, SNCPU_GET_A8 R_t2, SNCPU_AND R_t2 (Tmp R_t1),
      SNCPU_SET_A8 R_t2, SNCPU_SETFLAG_Z8 R_t2, SNCPU_SETFLAG_N8 R_t2, SNCPU_ENDOP 0]),
    \<comment> \<open>addr_abs_iy_read_AND_m0\<close> ([0x039, 0x139],
      [SNCPU_FETCH16 R_t0, SNCPU_OR R_t0 R_DB, SNCPU_ADD R_t0 R_Y, SNCPU_READ16 R_t0 R_t1,
      SNCPU_GET_A16 R_t2, SNCPU_AND R_t2 (Tmp R_t1), SNCPU_SET_A16 R_t2,
      SNCPU_SETFLAG_Z16 R_t2, SNCPU_SETFLAG_N16 R_t2, SNCPU_ENDOP 0]),
    \<comment> \<open>addr_abs_iy_read_AND_m1\<close> ([0x239, 0x339, 0x439],
      [SNCPU_FETCH16 R_t0, SNCPU_OR R_t0 R_DB, SNCPU_ADD R_t0 R_Y, SNCPU_READ8 R_t0 R_t1,
      SNCPU_GET_A8 R_t2, SNCPU_AND R_t2 (Tmp R_t1), SNCPU_SET_A8 R_t2, SNCPU_SETFLAG_Z8 R_t2,
      SNCPU_SETFLAG_N8 R_t2, SNCPU_ENDOP 0]),
    \<comment> \<open>addr_abs_ix_read_AND_m0\<close> ([0x03d, 0x13d],
      [SNCPU_FETCH16 R_t0, SNCPU_OR R_t0 R_DB, SNCPU_ADD R_t0 R_X, SNCPU_READ16 R_t0 R_t1,
      SNCPU_GET_A16 R_t2, SNCPU_AND R_t2 (Tmp R_t1), SNCPU_SET_A16 R_t2,
      SNCPU_SETFLAG_Z16 R_t2, SNCPU_SETFLAG_N16 R_t2, SNCPU_ENDOP 0]),
    \<comment> \<open>addr_abs_ix_read_AND_m1\<close> ([0x23d, 0x33d, 0x43d],
      [SNCPU_FETCH16 R_t0, SNCPU_OR R_t0 R_DB, SNCPU_ADD R_t0 R_X, SNCPU_READ8 R_t0 R_t1,
      SNCPU_GET_A8 R_t2, SNCPU_AND R_t2 (Tmp R_t1), SNCPU_SET_A8 R_t2, SNCPU_SETFLAG_Z8 R_t2,
      SNCPU_SETFLAG_N8 R_t2, SNCPU_ENDOP 0])]"

definition op65816_AND_4 :: "(nat list \<times> uop list) list" where
  "op65816_AND_4 =
   [
    \<comment> \<open>addr_abslong_ix_read_AND_m0\<close> ([0x03f, 0x13f],
      [SNCPU_FETCH24 R_t0, SNCPU_ADD R_t0 R_X, SNCPU_READ16 R_t0 R_t1, SNCPU_GET_A16 R_t2,
      SNCPU_AND R_t2 (Tmp R_t1), SNCPU_SET_A16 R_t2, SNCPU_SETFLAG_Z16 R_t2,
      SNCPU_SETFLAG_N16 R_t2, SNCPU_ENDOP 0]),
    \<comment> \<open>addr_abslong_ix_read_AND_m1\<close> ([0x23f, 0x33f, 0x43f],
      [SNCPU_FETCH24 R_t0, SNCPU_ADD R_t0 R_X, SNCPU_READ8 R_t0 R_t1, SNCPU_GET_A8 R_t2,
      SNCPU_AND R_t2 (Tmp R_t1), SNCPU_SET_A8 R_t2, SNCPU_SETFLAG_Z8 R_t2,
      SNCPU_SETFLAG_N8 R_t2, SNCPU_ENDOP 0])]"

definition op65816_EOR_1 :: "(nat list \<times> uop list) list" where
  "op65816_EOR_1 =
   [
    \<comment> \<open>addr_dp_ix_indirect_read_EOR_m0\<close> ([0x041, 0x141],
      [SNCPU_FETCH8 R_t0, SNCPU_ADD R_t0 R_DP, SNCPU_ANDI R_t0 0xFFFF, SNCPU_SUBCYCLES 1,
      SNCPU_ADD R_t0 R_X, SNCPU_AND R_t0 R_DPMASK, SNCPU_READ16 R_t0 R_t0, SNCPU_OR R_t0 R_DB,
      SNCPU_READ16 R_t0 R_t1, SNCPU_GET_A16 R_t2, SNCPU_XOR R_t2 (Tmp R_t1),
      SNCPU_SET_A16 R_t2, SNCPU_SETFLAG_Z16 R_t2, SNCPU_SETFLAG_N16 R_t2, SNCPU_ENDOP 0]),
    \<comment> \<open>addr_dp_ix_indirect_read_EOR_m1\<close> ([0x241, 0x341, 0x441],
      [SNCPU_FETCH8 R_t0, SNCPU_ADD R_t0 R_DP, SNCPU_ANDI R_t0 0xFFFF, SNCPU_SUBCYCLES 1,
      SNCPU_ADD R_t0 R_X, SNCPU_AND R_t0 R_DPMASK, SNCPU_READ16 R_t0 R_t0, SNCPU_OR R_t0 R_DB,
      SNCPU_READ8 R_t0 R_t1, SNCPU_GET_A8 R_t2, SNCPU_XOR R_t2 (Tmp R_t1), SNCPU_SET_A8 R_t2,
      SNCPU_SETFLAG_Z8 R_t2, SNCPU_SETFLAG_N8 R_t2, SNCPU_ENDOP 0]),
    \<comment> \<open>addr_sr_read_EOR_m0\<close> ([0x043, 0x143],
      [SNCPU_FETCH8 R_t0, SNCPU_ADD R_t0 R_S, SNCPU_ANDI R_t0 0xFFFF, SNCPU_SUBCYCLES 1,
      SNCPU_READ16 R_t0 R_t1, SNCPU_GET_A16 R_t2, SNCPU_XOR R_t2 (Tmp R_t1),
      SNCPU_SET_A16 R_t2, SNCPU_SETFLAG_Z16 R_t2, SNCPU_SETFLAG_N16 R_t2, SNCPU_ENDOP 0]),
    \<comment> \<open>addr_sr_read_EOR_m1\<close> ([0x243, 0x343, 0x443],
      [SNCPU_FETCH8 R_t0, SNCPU_ADD R_t0 R_S, SNCPU_ANDI R_t0 0xFFFF, SNCPU_SUBCYCLES 1,
      SNCPU_READ8 R_t0 R_t1, SNCPU_GET_A8 R_t2, SNCPU_XOR R_t2 (Tmp R_t1), SNCPU_SET_A8 R_t2,
      SNCPU_SETFLAG_Z8 R_t2, SNCPU_SETFLAG_N8 R_t2, SNCPU_ENDOP 0]),
    \<comment> \<open>addr_dp_read_EOR_m0\<close> ([0x045, 0x145],
      [SNCPU_FETCH8 R_t0, SNCPU_ADD R_t0 R_DP, SNCPU_ANDI R_t0 0xFFFF, SNCPU_READ16 R_t0 R_t1,
      SNCPU_GET_A16 R_t2, SNCPU_XOR R_t2 (Tmp R_t1), SNCPU_SET_A16 R_t2,
      SNCPU_SETFLAG_Z16 R_t2, SNCPU_SETFLAG_N16 R_t2, SNCPU_ENDOP 0]),
    \<comment> \<open>addr_dp_read_EOR_m1\<close> ([0x245, 0x345, 0x445],
      [SNCPU_FETCH8 R_t0, SNCPU_ADD R_t0 R_DP, SNCPU_ANDI R_t0 0xFFFF, SNCPU_READ8 R_t0 R_t1,
      SNCPU_GET_A8 R_t2, SNCPU_XOR R_t2 (Tmp R_t1), SNCPU_SET_A8 R_t2, SNCPU_SETFLAG_Z8 R_t2,
      SNCPU_SETFLAG_N8 R_t2, SNCPU_ENDOP 0]),
    \<comment> \<open>addr_dp_indirectlong_read_EOR_m0\<close> ([0x047, 0x147],
      [SNCPU_FETCH8 R_t0, SNCPU_ADD R_t0 R_DP, SNCPU_ANDI R_t0 0xFFFF, SNCPU_READ24 R_t0 R_t0,
      SNCPU_READ16 R_t0 R_t1, SNCPU_GET_A16 R_t2, SNCPU_XOR R_t2 (Tmp R_t1),
      SNCPU_SET_A16 R_t2, SNCPU_SETFLAG_Z16 R_t2, SNCPU_SETFLAG_N16 R_t2, SNCPU_ENDOP 0]),
    \<comment> \<open>addr_dp_indirectlong_read_EOR_m1\<close> ([0x247, 0x347, 0x447],
      [SNCPU_FETCH8 R_t0, SNCPU_ADD R_t0 R_DP, SNCPU_ANDI R_t0 0xFFFF, SNCPU_READ24 R_t0 R_t0,
      SNCPU_READ8 R_t0 R_t1, SNCPU_GET_A8 R_t2, SNCPU_XOR R_t2 (Tmp R_t1), SNCPU_SET_A8 R_t2,
      SNCPU_SETFLAG_Z8 R_t2, SNCPU_SETFLAG_N8 R_t2, SNCPU_ENDOP 0]),
    \<comment> \<open>addr_imma_EOR_m0\<close> ([0x049, 0x149],
      [SNCPU_FETCH16 R_t1, SNCPU_GET_A16 R_t2, SNCPU_XOR R_t2 (Tmp R_t1), SNCPU_SET_A16 R_t2,
      SNCPU_SETFLAG_Z16 R_t2, SNCPU_SETFLAG_N16 R_t2, SNCPU_ENDOP 0])]"

definition op65816_EOR_2 :: "(nat list \<times> uop list) list" where
  "op65816_EOR_2 =
   [
    \<comment> \<open>addr_imma_EOR_m1\<close> ([0x249, 0x349, 0x449],
      [SNCPU_FETCH8 R_t1, SNCPU_GET_A8 R_t2, SNCPU_XOR R_t2 (Tmp R_t1), SNCPU_SET_A8 R_t2,
      SNCPU_SETFLAG_Z8 R_t2, SNCPU_SETFLAG_N8 R_t2, SNCPU_ENDOP 0]),
    \<comment> \<open>addr_abs_read_EOR_m0\<close> ([0x04d, 0x14d],
      [SNCPU_FETCH16 R_t0, SNCPU_OR R_t0 R_DB, SNCPU_READ16 R_t0 R_t1, SNCPU_GET_A16 R_t2,
      SNCPU_XOR R_t2 (Tmp R_t1), SNCPU_SET_A16 R_t2, SNCPU_SETFLAG_Z16 R_t2,
      SNCPU_SETFLAG_N16 R_t2, SNCPU_ENDOP 0]),
    \<comment> \<open>addr_abs_read_EOR_m1\<close> ([0x24d, 0x34d, 0x44d],
      [SNCPU_FETCH16 R_t0, SNCPU_OR R_t0 R_DB, SNCPU_READ8 R_t0 R_t1, SNCPU_GET_A8 R_t2,
      SNCPU_XOR R_t2 (Tmp R_t1), SNCPU_SET_A8 R_t2, SNCPU_SETFLAG_Z8 R_t2,
      SNCPU_SETFLAG_N8 R_t2, SNCPU_ENDOP 0]),
    \<comment> \<open>addr_abslong_read_EOR_m0\<close> ([0x04f, 0x14f],
      [SNCPU_FETCH24 R_t0, SNCPU_READ16 R_t0 R_t1, SNCPU_GET_A16 R_t2,
      SNCPU_XOR R_t2 (Tmp R_t1), SNCPU_SET_A16 R_t2, SNCPU_SETFLAG_Z16 R_t2,
      SNCPU_SETFLAG_N16 R_t2, SNCPU_ENDOP 0]),
    \<comment> \<open>addr_abslong_read_EOR_m1\<close> ([0x24f, 0x34f, 0x44f],
      [SNCPU_FETCH24 R_t0, SNCPU_READ8 R_t0 R_t1, SNCPU_GET_A8 R_t2, SNCPU_XOR R_t2 (Tmp R_t1),
      SNCPU_SET_A8 R_t2, SNCPU_SETFLAG_Z8 R_t2, SNCPU_SETFLAG_N8 R_t2, SNCPU_ENDOP 0]),
    \<comment> \<open>addr_dp_indirect_iy_read_EOR_m0\<close> ([0x051, 0x151],
      [SNCPU_FETCH8 R_t0, SNCPU_ADD R_t0 R_DP, SNCPU_ANDI R_t0 0xFFFF, SNCPU_READ16 R_t0 R_t0,
      SNCPU_OR R_t0 R_DB, SNCPU_ADD R_t0 R_Y, SNCPU_READ16 R_t0 R_t1, SNCPU_GET_A16 R_t2,
      SNCPU_XOR R_t2 (Tmp R_t1), SNCPU_SET_A16 R_t2, SNCPU_SETFLAG_Z16 R_t2,
      SNCPU_SETFLAG_N16 R_t2, SNCPU_ENDOP 0]),
    \<comment> \<open>addr_dp_indirect_iy_read_EOR_m1\<close> ([0x251, 0x351, 0x451],
      [SNCPU_FETCH8 R_t0, SNCPU_ADD R_t0 R_DP, SNCPU_ANDI R_t0 0xFFFF, SNCPU_READ16 R_t0 R_t0,
      SNCPU_OR R_t0 R_DB, SNCPU_ADD R_t0 R_Y, SNCPU_READ8 R_t0 R_t1, SNCPU_GET_A8 R_t2,
      SNCPU_XOR R_t2 (Tmp R_t1), SNCPU_SET_A8 R_t2, SNCPU_SETFLAG_Z8 R_t2,
      SNCPU_SETFLAG_N8 R_t2, SNCPU_ENDOP 0]),
    \<comment> \<open>addr_dp_indirect_read_EOR_m0\<close> ([0x052, 0x152],
      [SNCPU_FETCH8 R_t0, SNCPU_ADD R_t0 R_DP, SNCPU_ANDI R_t0 0xFFFF, SNCPU_READ16 R_t0 R_t0,
      SNCPU_OR R_t0 R_DB, SNCPU_READ16 R_t0 R_t1, SNCPU_GET_A16 R_t2,
      SNCPU_XOR R_t2 (Tmp R_t1), SNCPU_SET_A16 R_t2, SNCPU_SETFLAG_Z16 R_t2,
      SNCPU_SETFLAG_N16 R_t2, SNCPU_ENDOP 0]),
    \<comment> \<open>addr_dp_indirect_read_EOR_m1\<close> ([0x252, 0x352, 0x452],
      [SNCPU_FETCH8 R_t0, SNCPU_ADD R_t0 R_DP, SNCPU_ANDI R_t0 0xFFFF, SNCPU_READ16 R_t0 R_t0,
      SNCPU_OR R_t0 R_DB, SNCPU_READ8 R_t0 R_t1, SNCPU_GET_A8 R_t2, SNCPU_XOR R_t2 (Tmp R_t1),
      SNCPU_SET_A8 R_t2, SNCPU_SETFLAG_Z8 R_t2, SNCPU_SETFLAG_N8 R_t2, SNCPU_ENDOP 0]),
    \<comment> \<open>addr_sr_indirect_iy_read_EOR_m0\<close> ([0x053, 0x153],
      [SNCPU_FETCH8 R_t0, SNCPU_ADD R_t0 R_S, SNCPU_ANDI R_t0 0xFFFF, SNCPU_SUBCYCLES 1,
      SNCPU_READ16 R_t0 R_t0, SNCPU_OR R_t0 R_DB, SNCPU_SUBCYCLES 1, SNCPU_ADD R_t0 R_Y,
      SNCPU_READ16 R_t0 R_t1, SNCPU_GET_A16 R_t2, SNCPU_XOR R_t2 (Tmp R_t1),
      SNCPU_SET_A16 R_t2, SNCPU_SETFLAG_Z16 R_t2, SNCPU_SETFLAG_N16 R_t2, SNCPU_ENDOP 0])]"

definition op65816_EOR_3 :: "(nat list \<times> uop list) list" where
  "op65816_EOR_3 =
   [
    \<comment> \<open>addr_sr_indirect_iy_read_EOR_m1\<close> ([0x253, 0x353, 0x453],
      [SNCPU_FETCH8 R_t0, SNCPU_ADD R_t0 R_S, SNCPU_ANDI R_t0 0xFFFF, SNCPU_SUBCYCLES 1,
      SNCPU_READ16 R_t0 R_t0, SNCPU_OR R_t0 R_DB, SNCPU_SUBCYCLES 1, SNCPU_ADD R_t0 R_Y,
      SNCPU_READ8 R_t0 R_t1, SNCPU_GET_A8 R_t2, SNCPU_XOR R_t2 (Tmp R_t1), SNCPU_SET_A8 R_t2,
      SNCPU_SETFLAG_Z8 R_t2, SNCPU_SETFLAG_N8 R_t2, SNCPU_ENDOP 0]),
    \<comment> \<open>addr_dp_ix_read_EOR_m0\<close> ([0x055, 0x155],
      [SNCPU_FETCH8 R_t0, SNCPU_ADD R_t0 R_DP, SNCPU_ANDI R_t0 0xFFFF, SNCPU_SUBCYCLES 1,
      SNCPU_ADD R_t0 R_X, SNCPU_AND R_t0 R_DPMASK, SNCPU_READ16 R_t0 R_t1, SNCPU_GET_A16 R_t2,
      SNCPU_XOR R_t2 (Tmp R_t1), SNCPU_SET_A16 R_t2, SNCPU_SETFLAG_Z16 R_t2,
      SNCPU_SETFLAG_N16 R_t2, SNCPU_ENDOP 0]),
    \<comment> \<open>addr_dp_ix_read_EOR_m1\<close> ([0x255, 0x355, 0x455],
      [SNCPU_FETCH8 R_t0, SNCPU_ADD R_t0 R_DP, SNCPU_ANDI R_t0 0xFFFF, SNCPU_SUBCYCLES 1,
      SNCPU_ADD R_t0 R_X, SNCPU_AND R_t0 R_DPMASK, SNCPU_READ8 R_t0 R_t1, SNCPU_GET_A8 R_t2,
      SNCPU_XOR R_t2 (Tmp R_t1), SNCPU_SET_A8 R_t2, SNCPU_SETFLAG_Z8 R_t2,
      SNCPU_SETFLAG_N8 R_t2, SNCPU_ENDOP 0]),
    \<comment> \<open>addr_dp_indirectlong_iy_read_EOR_m0\<close> ([0x057, 0x157],
      [SNCPU_FETCH8 R_t0, SNCPU_ADD R_t0 R_DP, SNCPU_ANDI R_t0 0xFFFF, SNCPU_READ24 R_t0 R_t0,
      SNCPU_ADD R_t0 R_Y, SNCPU_READ16 R_t0 R_t1, SNCPU_GET_A16 R_t2,
      SNCPU_XOR R_t2 (Tmp R_t1), SNCPU_SET_A16 R_t2, SNCPU_SETFLAG_Z16 R_t2,
      SNCPU_SETFLAG_N16 R_t2, SNCPU_ENDOP 0]),
    \<comment> \<open>addr_dp_indirectlong_iy_read_EOR_m1\<close> ([0x257, 0x357, 0x457],
      [SNCPU_FETCH8 R_t0, SNCPU_ADD R_t0 R_DP, SNCPU_ANDI R_t0 0xFFFF, SNCPU_READ24 R_t0 R_t0,
      SNCPU_ADD R_t0 R_Y, SNCPU_READ8 R_t0 R_t1, SNCPU_GET_A8 R_t2, SNCPU_XOR R_t2 (Tmp R_t1),
      SNCPU_SET_A8 R_t2, SNCPU_SETFLAG_Z8 R_t2, SNCPU_SETFLAG_N8 R_t2, SNCPU_ENDOP 0]),
    \<comment> \<open>addr_abs_iy_read_EOR_m0\<close> ([0x059, 0x159],
      [SNCPU_FETCH16 R_t0, SNCPU_OR R_t0 R_DB, SNCPU_ADD R_t0 R_Y, SNCPU_READ16 R_t0 R_t1,
      SNCPU_GET_A16 R_t2, SNCPU_XOR R_t2 (Tmp R_t1), SNCPU_SET_A16 R_t2,
      SNCPU_SETFLAG_Z16 R_t2, SNCPU_SETFLAG_N16 R_t2, SNCPU_ENDOP 0]),
    \<comment> \<open>addr_abs_iy_read_EOR_m1\<close> ([0x259, 0x359, 0x459],
      [SNCPU_FETCH16 R_t0, SNCPU_OR R_t0 R_DB, SNCPU_ADD R_t0 R_Y, SNCPU_READ8 R_t0 R_t1,
      SNCPU_GET_A8 R_t2, SNCPU_XOR R_t2 (Tmp R_t1), SNCPU_SET_A8 R_t2, SNCPU_SETFLAG_Z8 R_t2,
      SNCPU_SETFLAG_N8 R_t2, SNCPU_ENDOP 0]),
    \<comment> \<open>addr_abs_ix_read_EOR_m0\<close> ([0x05d, 0x15d],
      [SNCPU_FETCH16 R_t0, SNCPU_OR R_t0 R_DB, SNCPU_ADD R_t0 R_X, SNCPU_READ16 R_t0 R_t1,
      SNCPU_GET_A16 R_t2, SNCPU_XOR R_t2 (Tmp R_t1), SNCPU_SET_A16 R_t2,
      SNCPU_SETFLAG_Z16 R_t2, SNCPU_SETFLAG_N16 R_t2, SNCPU_ENDOP 0]),
    \<comment> \<open>addr_abs_ix_read_EOR_m1\<close> ([0x25d, 0x35d, 0x45d],
      [SNCPU_FETCH16 R_t0, SNCPU_OR R_t0 R_DB, SNCPU_ADD R_t0 R_X, SNCPU_READ8 R_t0 R_t1,
      SNCPU_GET_A8 R_t2, SNCPU_XOR R_t2 (Tmp R_t1), SNCPU_SET_A8 R_t2, SNCPU_SETFLAG_Z8 R_t2,
      SNCPU_SETFLAG_N8 R_t2, SNCPU_ENDOP 0])]"

definition op65816_EOR_4 :: "(nat list \<times> uop list) list" where
  "op65816_EOR_4 =
   [
    \<comment> \<open>addr_abslong_ix_read_EOR_m0\<close> ([0x05f, 0x15f],
      [SNCPU_FETCH24 R_t0, SNCPU_ADD R_t0 R_X, SNCPU_READ16 R_t0 R_t1, SNCPU_GET_A16 R_t2,
      SNCPU_XOR R_t2 (Tmp R_t1), SNCPU_SET_A16 R_t2, SNCPU_SETFLAG_Z16 R_t2,
      SNCPU_SETFLAG_N16 R_t2, SNCPU_ENDOP 0]),
    \<comment> \<open>addr_abslong_ix_read_EOR_m1\<close> ([0x25f, 0x35f, 0x45f],
      [SNCPU_FETCH24 R_t0, SNCPU_ADD R_t0 R_X, SNCPU_READ8 R_t0 R_t1, SNCPU_GET_A8 R_t2,
      SNCPU_XOR R_t2 (Tmp R_t1), SNCPU_SET_A8 R_t2, SNCPU_SETFLAG_Z8 R_t2,
      SNCPU_SETFLAG_N8 R_t2, SNCPU_ENDOP 0])]"

definition op65816_ORA_1 :: "(nat list \<times> uop list) list" where
  "op65816_ORA_1 =
   [
    \<comment> \<open>addr_sr_read_ORA_m0\<close> ([0x003, 0x103],
      [SNCPU_FETCH8 R_t0, SNCPU_ADD R_t0 R_S, SNCPU_ANDI R_t0 0xFFFF, SNCPU_SUBCYCLES 1,
      SNCPU_READ16 R_t0 R_t1, SNCPU_GET_A16 R_t2, SNCPU_OR R_t2 (Tmp R_t1), SNCPU_SET_A16 R_t2,
      SNCPU_SETFLAG_Z16 R_t2, SNCPU_SETFLAG_N16 R_t2, SNCPU_ENDOP 0]),
    \<comment> \<open>addr_sr_read_ORA_m1\<close> ([0x203, 0x303, 0x403],
      [SNCPU_FETCH8 R_t0, SNCPU_ADD R_t0 R_S, SNCPU_ANDI R_t0 0xFFFF, SNCPU_SUBCYCLES 1,
      SNCPU_READ8 R_t0 R_t1, SNCPU_GET_A8 R_t2, SNCPU_OR R_t2 (Tmp R_t1), SNCPU_SET_A8 R_t2,
      SNCPU_SETFLAG_Z8 R_t2, SNCPU_SETFLAG_N8 R_t2, SNCPU_ENDOP 0]),
    \<comment> \<open>addr_dp_read_ORA_m0\<close> ([0x005, 0x105],
      [SNCPU_FETCH8 R_t0, SNCPU_ADD R_t0 R_DP, SNCPU_ANDI R_t0 0xFFFF, SNCPU_READ16 R_t0 R_t1,
      SNCPU_GET_A16 R_t2, SNCPU_OR R_t2 (Tmp R_t1), SNCPU_SET_A16 R_t2, SNCPU_SETFLAG_Z16 R_t2,
      SNCPU_SETFLAG_N16 R_t2, SNCPU_ENDOP 0]),
    \<comment> \<open>addr_dp_read_ORA_m1\<close> ([0x205, 0x305, 0x405],
      [SNCPU_FETCH8 R_t0, SNCPU_ADD R_t0 R_DP, SNCPU_ANDI R_t0 0xFFFF, SNCPU_READ8 R_t0 R_t1,
      SNCPU_GET_A8 R_t2, SNCPU_OR R_t2 (Tmp R_t1), SNCPU_SET_A8 R_t2, SNCPU_SETFLAG_Z8 R_t2,
      SNCPU_SETFLAG_N8 R_t2, SNCPU_ENDOP 0]),
    \<comment> \<open>addr_dp_indirectlong_read_ORA_m0\<close> ([0x007, 0x107],
      [SNCPU_FETCH8 R_t0, SNCPU_ADD R_t0 R_DP, SNCPU_ANDI R_t0 0xFFFF, SNCPU_READ24 R_t0 R_t0,
      SNCPU_READ16 R_t0 R_t1, SNCPU_GET_A16 R_t2, SNCPU_OR R_t2 (Tmp R_t1), SNCPU_SET_A16 R_t2,
      SNCPU_SETFLAG_Z16 R_t2, SNCPU_SETFLAG_N16 R_t2, SNCPU_ENDOP 0]),
    \<comment> \<open>addr_dp_indirectlong_read_ORA_m1\<close> ([0x207, 0x307, 0x407],
      [SNCPU_FETCH8 R_t0, SNCPU_ADD R_t0 R_DP, SNCPU_ANDI R_t0 0xFFFF, SNCPU_READ24 R_t0 R_t0,
      SNCPU_READ8 R_t0 R_t1, SNCPU_GET_A8 R_t2, SNCPU_OR R_t2 (Tmp R_t1), SNCPU_SET_A8 R_t2,
      SNCPU_SETFLAG_Z8 R_t2, SNCPU_SETFLAG_N8 R_t2, SNCPU_ENDOP 0]),
    \<comment> \<open>addr_imma_ORA_m0\<close> ([0x009, 0x109],
      [SNCPU_FETCH16 R_t1, SNCPU_GET_A16 R_t2, SNCPU_OR R_t2 (Tmp R_t1), SNCPU_SET_A16 R_t2,
      SNCPU_SETFLAG_Z16 R_t2, SNCPU_SETFLAG_N16 R_t2, SNCPU_ENDOP 0]),
    \<comment> \<open>addr_imma_ORA_m1\<close> ([0x209, 0x309, 0x409],
      [SNCPU_FETCH8 R_t1, SNCPU_GET_A8 R_t2, SNCPU_OR R_t2 (Tmp R_t1), SNCPU_SET_A8 R_t2,
      SNCPU_SETFLAG_Z8 R_t2, SNCPU_SETFLAG_N8 R_t2, SNCPU_ENDOP 0]),
    \<comment> \<open>addr_abs_read_ORA_m0\<close> ([0x00d, 0x10d],
      [SNCPU_FETCH16 R_t0, SNCPU_OR R_t0 R_DB, SNCPU_READ16 R_t0 R_t1, SNCPU_GET_A16 R_t2,
      SNCPU_OR R_t2 (Tmp R_t1), SNCPU_SET_A16 R_t2, SNCPU_SETFLAG_Z16 R_t2,
      SNCPU_SETFLAG_N16 R_t2, SNCPU_ENDOP 0]),
    \<comment> \<open>addr_abs_read_ORA_m1\<close> ([0x20d, 0x30d, 0x40d],
      [SNCPU_FETCH16 R_t0, SNCPU_OR R_t0 R_DB, SNCPU_READ8 R_t0 R_t1, SNCPU_GET_A8 R_t2,
      SNCPU_OR R_t2 (Tmp R_t1), SNCPU_SET_A8 R_t2, SNCPU_SETFLAG_Z8 R_t2,
      SNCPU_SETFLAG_N8 R_t2, SNCPU_ENDOP 0])]"

definition op65816_ORA_2 :: "(nat list \<times> uop list) list" where
  "op65816_ORA_2 =
   [
    \<comment> \<open>addr_abslong_read_ORA_m0\<close> ([0x00f, 0x10f],
      [SNCPU_FETCH24 R_t0, SNCPU_READ16 R_t0 R_t1, SNCPU_GET_A16 R_t2, SNCPU_OR R_t2 (Tmp R_t1),
      SNCPU_SET_A16 R_t2, SNCPU_SETFLAG_Z16 R_t2, SNCPU_SETFLAG_N16 R_t2, SNCPU_ENDOP 0]),
    \<comment> \<open>addr_abslong_read_ORA_m1\<close> ([0x20f, 0x30f, 0x40f],
      [SNCPU_FETCH24 R_t0, SNCPU_READ8 R_t0 R_t1, SNCPU_GET_A8 R_t2, SNCPU_OR R_t2 (Tmp R_t1),
      SNCPU_SET_A8 R_t2, SNCPU_SETFLAG_Z8 R_t2, SNCPU_SETFLAG_N8 R_t2, SNCPU_ENDOP 0]),
    \<comment> \<open>addr_dp_indirect_iy_read_ORA_m0\<close> ([0x011, 0x111],
      [SNCPU_FETCH8 R_t0, SNCPU_ADD R_t0 R_DP, SNCPU_ANDI R_t0 0xFFFF, SNCPU_READ16 R_t0 R_t0,
      SNCPU_OR R_t0 R_DB, SNCPU_ADD R_t0 R_Y, SNCPU_READ16 R_t0 R_t1, SNCPU_GET_A16 R_t2,
      SNCPU_OR R_t2 (Tmp R_t1), SNCPU_SET_A16 R_t2, SNCPU_SETFLAG_Z16 R_t2,
      SNCPU_SETFLAG_N16 R_t2, SNCPU_ENDOP 0]),
    \<comment> \<open>addr_dp_indirect_iy_read_ORA_m1\<close> ([0x211, 0x311, 0x411],
      [SNCPU_FETCH8 R_t0, SNCPU_ADD R_t0 R_DP, SNCPU_ANDI R_t0 0xFFFF, SNCPU_READ16 R_t0 R_t0,
      SNCPU_OR R_t0 R_DB, SNCPU_ADD R_t0 R_Y, SNCPU_READ8 R_t0 R_t1, SNCPU_GET_A8 R_t2,
      SNCPU_OR R_t2 (Tmp R_t1), SNCPU_SET_A8 R_t2, SNCPU_SETFLAG_Z8 R_t2,
      SNCPU_SETFLAG_N8 R_t2, SNCPU_ENDOP 0]),
    \<comment> \<open>addr_dp_indirect_read_ORA_m0\<close> ([0x012, 0x112],
      [SNCPU_FETCH8 R_t0, SNCPU_ADD R_t0 R_DP, SNCPU_ANDI R_t0 0xFFFF, SNCPU_READ16 R_t0 R_t0,
      SNCPU_OR R_t0 R_DB, SNCPU_READ16 R_t0 R_t1, SNCPU_GET_A16 R_t2, SNCPU_OR R_t2 (Tmp R_t1),
      SNCPU_SET_A16 R_t2, SNCPU_SETFLAG_Z16 R_t2, SNCPU_SETFLAG_N16 R_t2, SNCPU_ENDOP 0]),
    \<comment> \<open>addr_dp_indirect_read_ORA_m1\<close> ([0x212, 0x312, 0x412],
      [SNCPU_FETCH8 R_t0, SNCPU_ADD R_t0 R_DP, SNCPU_ANDI R_t0 0xFFFF, SNCPU_READ16 R_t0 R_t0,
      SNCPU_OR R_t0 R_DB, SNCPU_READ8 R_t0 R_t1, SNCPU_GET_A8 R_t2, SNCPU_OR R_t2 (Tmp R_t1),
      SNCPU_SET_A8 R_t2, SNCPU_SETFLAG_Z8 R_t2, SNCPU_SETFLAG_N8 R_t2, SNCPU_ENDOP 0]),
    \<comment> \<open>addr_sr_indirect_iy_read_ORA_m0\<close> ([0x013, 0x113],
      [SNCPU_FETCH8 R_t0, SNCPU_ADD R_t0 R_S, SNCPU_ANDI R_t0 0xFFFF, SNCPU_SUBCYCLES 1,
      SNCPU_READ16 R_t0 R_t0, SNCPU_OR R_t0 R_DB, SNCPU_SUBCYCLES 1, SNCPU_ADD R_t0 R_Y,
      SNCPU_READ16 R_t0 R_t1, SNCPU_GET_A16 R_t2, SNCPU_OR R_t2 (Tmp R_t1), SNCPU_SET_A16 R_t2,
      SNCPU_SETFLAG_Z16 R_t2, SNCPU_SETFLAG_N16 R_t2, SNCPU_ENDOP 0]),
    \<comment> \<open>addr_sr_indirect_iy_read_ORA_m1\<close> ([0x213, 0x313, 0x413],
      [SNCPU_FETCH8 R_t0, SNCPU_ADD R_t0 R_S, SNCPU_ANDI R_t0 0xFFFF, SNCPU_SUBCYCLES 1,
      SNCPU_READ16 R_t0 R_t0, SNCPU_OR R_t0 R_DB, SNCPU_SUBCYCLES 1, SNCPU_ADD R_t0 R_Y,
      SNCPU_READ8 R_t0 R_t1, SNCPU_GET_A8 R_t2, SNCPU_OR R_t2 (Tmp R_t1), SNCPU_SET_A8 R_t2,
      SNCPU_SETFLAG_Z8 R_t2, SNCPU_SETFLAG_N8 R_t2, SNCPU_ENDOP 0]),
    \<comment> \<open>addr_dp_ix_read_ORA_m0\<close> ([0x015, 0x115],
      [SNCPU_FETCH8 R_t0, SNCPU_ADD R_t0 R_DP, SNCPU_ANDI R_t0 0xFFFF, SNCPU_SUBCYCLES 1,
      SNCPU_ADD R_t0 R_X, SNCPU_AND R_t0 R_DPMASK, SNCPU_READ16 R_t0 R_t1, SNCPU_GET_A16 R_t2,
      SNCPU_OR R_t2 (Tmp R_t1), SNCPU_SET_A16 R_t2, SNCPU_SETFLAG_Z16 R_t2,
      SNCPU_SETFLAG_N16 R_t2, SNCPU_ENDOP 0])]"

definition op65816_ORA_3 :: "(nat list \<times> uop list) list" where
  "op65816_ORA_3 =
   [
    \<comment> \<open>addr_dp_ix_read_ORA_m1\<close> ([0x215, 0x315, 0x415],
      [SNCPU_FETCH8 R_t0, SNCPU_ADD R_t0 R_DP, SNCPU_ANDI R_t0 0xFFFF, SNCPU_SUBCYCLES 1,
      SNCPU_ADD R_t0 R_X, SNCPU_AND R_t0 R_DPMASK, SNCPU_READ8 R_t0 R_t1, SNCPU_GET_A8 R_t2,
      SNCPU_OR R_t2 (Tmp R_t1), SNCPU_SET_A8 R_t2, SNCPU_SETFLAG_Z8 R_t2,
      SNCPU_SETFLAG_N8 R_t2, SNCPU_ENDOP 0]),
    \<comment> \<open>addr_dp_indirectlong_iy_read_ORA_m0\<close> ([0x017, 0x117],
      [SNCPU_FETCH8 R_t0, SNCPU_ADD R_t0 R_DP, SNCPU_ANDI R_t0 0xFFFF, SNCPU_READ24 R_t0 R_t0,
      SNCPU_ADD R_t0 R_Y, SNCPU_READ16 R_t0 R_t1, SNCPU_GET_A16 R_t2, SNCPU_OR R_t2 (Tmp R_t1),
      SNCPU_SET_A16 R_t2, SNCPU_SETFLAG_Z16 R_t2, SNCPU_SETFLAG_N16 R_t2, SNCPU_ENDOP 0]),
    \<comment> \<open>addr_dp_indirectlong_iy_read_ORA_m1\<close> ([0x217, 0x317, 0x417],
      [SNCPU_FETCH8 R_t0, SNCPU_ADD R_t0 R_DP, SNCPU_ANDI R_t0 0xFFFF, SNCPU_READ24 R_t0 R_t0,
      SNCPU_ADD R_t0 R_Y, SNCPU_READ8 R_t0 R_t1, SNCPU_GET_A8 R_t2, SNCPU_OR R_t2 (Tmp R_t1),
      SNCPU_SET_A8 R_t2, SNCPU_SETFLAG_Z8 R_t2, SNCPU_SETFLAG_N8 R_t2, SNCPU_ENDOP 0]),
    \<comment> \<open>addr_dp_ix_indirect_read_ORA_m0\<close> ([0x001, 0x101],
      [SNCPU_FETCH8 R_t0, SNCPU_ADD R_t0 R_DP, SNCPU_ANDI R_t0 0xFFFF, SNCPU_SUBCYCLES 1,
      SNCPU_ADD R_t0 R_X, SNCPU_AND R_t0 R_DPMASK, SNCPU_READ16 R_t0 R_t0, SNCPU_OR R_t0 R_DB,
      SNCPU_READ16 R_t0 R_t1, SNCPU_GET_A16 R_t2, SNCPU_OR R_t2 (Tmp R_t1), SNCPU_SET_A16 R_t2,
      SNCPU_SETFLAG_Z16 R_t2, SNCPU_SETFLAG_N16 R_t2, SNCPU_ENDOP 0]),
    \<comment> \<open>addr_dp_ix_indirect_read_ORA_m1\<close> ([0x201, 0x301, 0x401],
      [SNCPU_FETCH8 R_t0, SNCPU_ADD R_t0 R_DP, SNCPU_ANDI R_t0 0xFFFF, SNCPU_SUBCYCLES 1,
      SNCPU_ADD R_t0 R_X, SNCPU_AND R_t0 R_DPMASK, SNCPU_READ16 R_t0 R_t0, SNCPU_OR R_t0 R_DB,
      SNCPU_READ8 R_t0 R_t1, SNCPU_GET_A8 R_t2, SNCPU_OR R_t2 (Tmp R_t1), SNCPU_SET_A8 R_t2,
      SNCPU_SETFLAG_Z8 R_t2, SNCPU_SETFLAG_N8 R_t2, SNCPU_ENDOP 0]),
    \<comment> \<open>addr_abs_iy_read_ORA_m0\<close> ([0x019, 0x119],
      [SNCPU_FETCH16 R_t0, SNCPU_OR R_t0 R_DB, SNCPU_ADD R_t0 R_Y, SNCPU_READ16 R_t0 R_t1,
      SNCPU_GET_A16 R_t2, SNCPU_OR R_t2 (Tmp R_t1), SNCPU_SET_A16 R_t2, SNCPU_SETFLAG_Z16 R_t2,
      SNCPU_SETFLAG_N16 R_t2, SNCPU_ENDOP 0]),
    \<comment> \<open>addr_abs_iy_read_ORA_m1\<close> ([0x219, 0x319, 0x419],
      [SNCPU_FETCH16 R_t0, SNCPU_OR R_t0 R_DB, SNCPU_ADD R_t0 R_Y, SNCPU_READ8 R_t0 R_t1,
      SNCPU_GET_A8 R_t2, SNCPU_OR R_t2 (Tmp R_t1), SNCPU_SET_A8 R_t2, SNCPU_SETFLAG_Z8 R_t2,
      SNCPU_SETFLAG_N8 R_t2, SNCPU_ENDOP 0]),
    \<comment> \<open>addr_abs_ix_read_ORA_m0\<close> ([0x01d, 0x11d],
      [SNCPU_FETCH16 R_t0, SNCPU_OR R_t0 R_DB, SNCPU_ADD R_t0 R_X, SNCPU_READ16 R_t0 R_t1,
      SNCPU_GET_A16 R_t2, SNCPU_OR R_t2 (Tmp R_t1), SNCPU_SET_A16 R_t2, SNCPU_SETFLAG_Z16 R_t2,
      SNCPU_SETFLAG_N16 R_t2, SNCPU_ENDOP 0]),
    \<comment> \<open>addr_abs_ix_read_ORA_m1\<close> ([0x21d, 0x31d, 0x41d],
      [SNCPU_FETCH16 R_t0, SNCPU_OR R_t0 R_DB, SNCPU_ADD R_t0 R_X, SNCPU_READ8 R_t0 R_t1,
      SNCPU_GET_A8 R_t2, SNCPU_OR R_t2 (Tmp R_t1), SNCPU_SET_A8 R_t2, SNCPU_SETFLAG_Z8 R_t2,
      SNCPU_SETFLAG_N8 R_t2, SNCPU_ENDOP 0])]"

definition op65816_ORA_4 :: "(nat list \<times> uop list) list" where
  "op65816_ORA_4 =
   [
    \<comment> \<open>addr_abslong_ix_read_ORA_m0\<close> ([0x01f, 0x11f],
      [SNCPU_FETCH24 R_t0, SNCPU_ADD R_t0 R_X, SNCPU_READ16 R_t0 R_t1, SNCPU_GET_A16 R_t2,
      SNCPU_OR R_t2 (Tmp R_t1), SNCPU_SET_A16 R_t2, SNCPU_SETFLAG_Z16 R_t2,
      SNCPU_SETFLAG_N16 R_t2, SNCPU_ENDOP 0]),
    \<comment> \<open>addr_abslong_ix_read_ORA_m1\<close> ([0x21f, 0x31f, 0x41f],
      [SNCPU_FETCH24 R_t0, SNCPU_ADD R_t0 R_X, SNCPU_READ8 R_t0 R_t1, SNCPU_GET_A8 R_t2,
      SNCPU_OR R_t2 (Tmp R_t1), SNCPU_SET_A8 R_t2, SNCPU_SETFLAG_Z8 R_t2,
      SNCPU_SETFLAG_N8 R_t2, SNCPU_ENDOP 0])]"

definition op65816_accumulator :: "(nat list \<times> uop list) list" where
  "op65816_accumulator =
   [
    \<comment> \<open>DEA_m0\<close> ([0x03a, 0x13a],
      [SNCPU_GET_A16 R_t1, SNCPU_SUBI R_t1 1, SNCPU_SET_A16 R_t1, SNCPU_SETFLAG_Z16 R_t1,
      SNCPU_SETFLAG_N16 R_t1, SNCPU_ENDOP 1]),
    \<comment> \<open>DEA_m1\<close> ([0x23a, 0x33a, 0x43a],
      [SNCPU_GET_A8 R_t1, SNCPU_SUBI R_t1 1, SNCPU_SET_A8 R_t1, SNCPU_SETFLAG_Z8 R_t1,
      SNCPU_SETFLAG_N8 R_t1, SNCPU_ENDOP 1]),
    \<comment> \<open>INA_m0\<close> ([0x01a, 0x11a],
      [SNCPU_GET_A16 R_t1, SNCPU_ADDI R_t1 1, SNCPU_SET_A16 R_t1, SNCPU_SETFLAG_Z16 R_t1,
      SNCPU_SETFLAG_N16 R_t1, SNCPU_ENDOP 1]),
    \<comment> \<open>INA_m1\<close> ([0x21a, 0x31a, 0x41a],
      [SNCPU_GET_A8 R_t1, SNCPU_ADDI R_t1 1, SNCPU_SET_A8 R_t1, SNCPU_SETFLAG_Z8 R_t1,
      SNCPU_SETFLAG_N8 R_t1, SNCPU_ENDOP 1]),
    \<comment> \<open>ASLA_m0\<close> ([0x00a, 0x10a],
      [SNCPU_GET_A16 R_t1, SNCPU_SHLI R_t1 1, SNCPU_SET_A16 R_t1, SNCPU_SETFLAG_Z16 R_t1,
      SNCPU_SETFLAG_N16 R_t1, SNCPU_SHRI R_t1 16, SNCPU_SETFLAG_C R_t1, SNCPU_ENDOP 1]),
    \<comment> \<open>ASLA_m1\<close> ([0x20a, 0x30a, 0x40a],
      [SNCPU_GET_A8 R_t1, SNCPU_SHLI R_t1 1, SNCPU_SET_A8 R_t1, SNCPU_SETFLAG_Z8 R_t1,
      SNCPU_SETFLAG_N8 R_t1, SNCPU_SHRI R_t1 8, SNCPU_SETFLAG_C R_t1, SNCPU_ENDOP 1]),
    \<comment> \<open>LSRA_m0\<close> ([0x04a, 0x14a],
      [SNCPU_GET_A16 R_t1, SNCPU_SETFLAG_C R_t1, SNCPU_SHRI R_t1 1, SNCPU_SET_A16 R_t1,
      SNCPU_SETFLAG_Z16 R_t1, SNCPU_SETFLAG_N16 R_t1, SNCPU_ENDOP 1]),
    \<comment> \<open>LSRA_m1\<close> ([0x24a, 0x34a, 0x44a],
      [SNCPU_GET_A8 R_t1, SNCPU_SETFLAG_C R_t1, SNCPU_SHRI R_t1 1, SNCPU_SET_A8 R_t1,
      SNCPU_SETFLAG_Z8 R_t1, SNCPU_SETFLAG_N8 R_t1, SNCPU_ENDOP 1]),
    \<comment> \<open>ROLA_m0\<close> ([0x02a, 0x12a],
      [SNCPU_GET_A16 R_t1, SNCPU_GETFLAG_C R_t2, SNCPU_SHLI R_t1 1, SNCPU_OR R_t1 (Tmp R_t2),
      SNCPU_SET_A16 R_t1, SNCPU_SETFLAG_Z16 R_t1, SNCPU_SETFLAG_N16 R_t1, SNCPU_SHRI R_t1 16,
      SNCPU_SETFLAG_C R_t1, SNCPU_ENDOP 1]),
    \<comment> \<open>ROLA_m1\<close> ([0x22a, 0x32a, 0x42a],
      [SNCPU_GET_A8 R_t1, SNCPU_GETFLAG_C R_t2, SNCPU_SHLI R_t1 1, SNCPU_OR R_t1 (Tmp R_t2),
      SNCPU_SET_A8 R_t1, SNCPU_SETFLAG_Z8 R_t1, SNCPU_SETFLAG_N8 R_t1, SNCPU_SHRI R_t1 8,
      SNCPU_SETFLAG_C R_t1, SNCPU_ENDOP 1]),
    \<comment> \<open>RORA_m0\<close> ([0x06a, 0x16a],
      [SNCPU_GET_A16 R_t1, SNCPU_GETFLAG_C R_t2, SNCPU_SHLI R_t2 16, SNCPU_SETFLAG_C R_t1,
      SNCPU_OR R_t1 (Tmp R_t2), SNCPU_SHRI R_t1 1, SNCPU_SET_A16 R_t1, SNCPU_SETFLAG_Z16 R_t1,
      SNCPU_SETFLAG_N16 R_t1, SNCPU_ENDOP 1]),
    \<comment> \<open>RORA_m1\<close> ([0x26a, 0x36a, 0x46a],
      [SNCPU_GET_A8 R_t1, SNCPU_GETFLAG_C R_t2, SNCPU_SHLI R_t2 8, SNCPU_SETFLAG_C R_t1,
      SNCPU_OR R_t1 (Tmp R_t2), SNCPU_SHRI R_t1 1, SNCPU_SET_A8 R_t1, SNCPU_SETFLAG_Z8 R_t1,
      SNCPU_SETFLAG_N8 R_t1, SNCPU_ENDOP 1])]"

definition op65816_DEC_INC_1 :: "(nat list \<times> uop list) list" where
  "op65816_DEC_INC_1 =
   [
    \<comment> \<open>addr_dp_read_DEC_m0\<close> ([0x0c6, 0x1c6],
      [SNCPU_FETCH8 R_t0, SNCPU_ADD R_t0 R_DP, SNCPU_ANDI R_t0 0xFFFF, SNCPU_READ16 R_t0 R_t1,
      SNCPU_SUBI R_t1 1, SNCPU_WRITE16 R_t0 R_t1, SNCPU_SETFLAG_Z16 R_t1,
      SNCPU_SETFLAG_N16 R_t1, SNCPU_ENDOP 1]),
    \<comment> \<open>addr_dp_read_DEC_m1\<close> ([0x2c6, 0x3c6, 0x4c6],
      [SNCPU_FETCH8 R_t0, SNCPU_ADD R_t0 R_DP, SNCPU_ANDI R_t0 0xFFFF, SNCPU_READ8 R_t0 R_t1,
      SNCPU_SUBI R_t1 1, SNCPU_WRITE8 R_t0 R_t1, SNCPU_SETFLAG_Z8 R_t1, SNCPU_SETFLAG_N8 R_t1,
      SNCPU_ENDOP 1]),
    \<comment> \<open>addr_abs_read_DEC_m0\<close> ([0x0ce, 0x1ce],
      [SNCPU_FETCH16 R_t0, SNCPU_OR R_t0 R_DB, SNCPU_READ16 R_t0 R_t1, SNCPU_SUBI R_t1 1,
      SNCPU_WRITE16 R_t0 R_t1, SNCPU_SETFLAG_Z16 R_t1, SNCPU_SETFLAG_N16 R_t1, SNCPU_ENDOP 1]),
    \<comment> \<open>addr_abs_read_DEC_m1\<close> ([0x2ce, 0x3ce, 0x4ce],
      [SNCPU_FETCH16 R_t0, SNCPU_OR R_t0 R_DB, SNCPU_READ8 R_t0 R_t1, SNCPU_SUBI R_t1 1,
      SNCPU_WRITE8 R_t0 R_t1, SNCPU_SETFLAG_Z8 R_t1, SNCPU_SETFLAG_N8 R_t1, SNCPU_ENDOP 1]),
    \<comment> \<open>addr_dp_ix_read_DEC_m0\<close> ([0x0d6, 0x1d6],
      [SNCPU_FETCH8 R_t0, SNCPU_ADD R_t0 R_DP, SNCPU_ANDI R_t0 0xFFFF, SNCPU_SUBCYCLES 1,
      SNCPU_ADD R_t0 R_X, SNCPU_AND R_t0 R_DPMASK, SNCPU_READ16 R_t0 R_t1, SNCPU_SUBI R_t1 1,
      SNCPU_WRITE16 R_t0 R_t1, SNCPU_SETFLAG_Z16 R_t1, SNCPU_SETFLAG_N16 R_t1, SNCPU_ENDOP 1]),
    \<comment> \<open>addr_dp_ix_read_DEC_m1\<close> ([0x2d6, 0x3d6, 0x4d6],
      [SNCPU_FETCH8 R_t0, SNCPU_ADD R_t0 R_DP, SNCPU_ANDI R_t0 0xFFFF, SNCPU_SUBCYCLES 1,
      SNCPU_ADD R_t0 R_X, SNCPU_AND R_t0 R_DPMASK, SNCPU_READ8 R_t0 R_t1, SNCPU_SUBI R_t1 1,
      SNCPU_WRITE8 R_t0 R_t1, SNCPU_SETFLAG_Z8 R_t1, SNCPU_SETFLAG_N8 R_t1, SNCPU_ENDOP 1]),
    \<comment> \<open>addr_abs_ix_read_DEC_m0\<close> ([0x0de, 0x1de],
      [SNCPU_FETCH16 R_t0, SNCPU_OR R_t0 R_DB, SNCPU_ADD R_t0 R_X, SNCPU_READ16 R_t0 R_t1,
      SNCPU_SUBI R_t1 1, SNCPU_WRITE16 R_t0 R_t1, SNCPU_SETFLAG_Z16 R_t1,
      SNCPU_SETFLAG_N16 R_t1, SNCPU_ENDOP 2]),
    \<comment> \<open>addr_abs_ix_read_DEC_m1\<close> ([0x2de, 0x3de, 0x4de],
      [SNCPU_FETCH16 R_t0, SNCPU_OR R_t0 R_DB, SNCPU_ADD R_t0 R_X, SNCPU_READ8 R_t0 R_t1,
      SNCPU_SUBI R_t1 1, SNCPU_WRITE8 R_t0 R_t1, SNCPU_SETFLAG_Z8 R_t1, SNCPU_SETFLAG_N8 R_t1,
      SNCPU_ENDOP 2]),
    \<comment> \<open>addr_dp_read_INC_m0\<close> ([0x0e6, 0x1e6],
      [SNCPU_FETCH8 R_t0, SNCPU_ADD R_t0 R_DP, SNCPU_ANDI R_t0 0xFFFF, SNCPU_READ16 R_t0 R_t1,
      SNCPU_ADDI R_t1 1, SNCPU_WRITE16 R_t0 R_t1, SNCPU_SETFLAG_Z16 R_t1,
      SNCPU_SETFLAG_N16 R_t1, SNCPU_ENDOP 1]),
    \<comment> \<open>addr_dp_read_INC_m1\<close> ([0x2e6, 0x3e6, 0x4e6],
      [SNCPU_FETCH8 R_t0, SNCPU_ADD R_t0 R_DP, SNCPU_ANDI R_t0 0xFFFF, SNCPU_READ8 R_t0 R_t1,
      SNCPU_ADDI R_t1 1, SNCPU_WRITE8 R_t0 R_t1, SNCPU_SETFLAG_Z8 R_t1, SNCPU_SETFLAG_N8 R_t1,
      SNCPU_ENDOP 1]),
    \<comment> \<open>addr_abs_read_INC_m0\<close> ([0x0ee, 0x1ee],
      [SNCPU_FETCH16 R_t0, SNCPU_OR R_t0 R_DB, SNCPU_READ16 R_t0 R_t1, SNCPU_ADDI R_t1 1,
      SNCPU_WRITE16 R_t0 R_t1, SNCPU_SETFLAG_Z16 R_t1, SNCPU_SETFLAG_N16 R_t1, SNCPU_ENDOP 1])]"

definition op65816_DEC_INC_2 :: "(nat list \<times> uop list) list" where
  "op65816_DEC_INC_2 =
   [
    \<comment> \<open>addr_abs_read_INC_m1\<close> ([0x2ee, 0x3ee, 0x4ee],
      [SNCPU_FETCH16 R_t0, SNCPU_OR R_t0 R_DB, SNCPU_READ8 R_t0 R_t1, SNCPU_ADDI R_t1 1,
      SNCPU_WRITE8 R_t0 R_t1, SNCPU_SETFLAG_Z8 R_t1, SNCPU_SETFLAG_N8 R_t1, SNCPU_ENDOP 1]),
    \<comment> \<open>addr_dp_ix_read_INC_m0\<close> ([0x0f6, 0x1f6],
      [SNCPU_FETCH8 R_t0, SNCPU_ADD R_t0 R_DP, SNCPU_ANDI R_t0 0xFFFF, SNCPU_SUBCYCLES 1,
      SNCPU_ADD R_t0 R_X, SNCPU_AND R_t0 R_DPMASK, SNCPU_READ16 R_t0 R_t1, SNCPU_ADDI R_t1 1,
      SNCPU_WRITE16 R_t0 R_t1, SNCPU_SETFLAG_Z16 R_t1, SNCPU_SETFLAG_N16 R_t1, SNCPU_ENDOP 1]),
    \<comment> \<open>addr_dp_ix_read_INC_m1\<close> ([0x2f6, 0x3f6, 0x4f6],
      [SNCPU_FETCH8 R_t0, SNCPU_ADD R_t0 R_DP, SNCPU_ANDI R_t0 0xFFFF, SNCPU_SUBCYCLES 1,
      SNCPU_ADD R_t0 R_X, SNCPU_AND R_t0 R_DPMASK, SNCPU_READ8 R_t0 R_t1, SNCPU_ADDI R_t1 1,
      SNCPU_WRITE8 R_t0 R_t1, SNCPU_SETFLAG_Z8 R_t1, SNCPU_SETFLAG_N8 R_t1, SNCPU_ENDOP 1]),
    \<comment> \<open>addr_abs_ix_read_INC_m0\<close> ([0x0fe, 0x1fe],
      [SNCPU_FETCH16 R_t0, SNCPU_OR R_t0 R_DB, SNCPU_ADD R_t0 R_X, SNCPU_READ16 R_t0 R_t1,
      SNCPU_ADDI R_t1 1, SNCPU_WRITE16 R_t0 R_t1, SNCPU_SETFLAG_Z16 R_t1,
      SNCPU_SETFLAG_N16 R_t1, SNCPU_ENDOP 2]),
    \<comment> \<open>addr_abs_ix_read_INC_m1\<close> ([0x2fe, 0x3fe, 0x4fe],
      [SNCPU_FETCH16 R_t0, SNCPU_OR R_t0 R_DB, SNCPU_ADD R_t0 R_X, SNCPU_READ8 R_t0 R_t1,
      SNCPU_ADDI R_t1 1, SNCPU_WRITE8 R_t0 R_t1, SNCPU_SETFLAG_Z8 R_t1, SNCPU_SETFLAG_N8 R_t1,
      SNCPU_ENDOP 2])]"

definition op65816_ASL :: "(nat list \<times> uop list) list" where
  "op65816_ASL =
   [
    \<comment> \<open>addr_dp_read_ASL_m0\<close> ([0x006, 0x106],
      [SNCPU_FETCH8 R_t0, SNCPU_ADD R_t0 R_DP, SNCPU_ANDI R_t0 0xFFFF, SNCPU_READ16 R_t0 R_t1,
      SNCPU_SHLI R_t1 1, SNCPU_WRITE16 R_t0 R_t1, SNCPU_SETFLAG_Z16 R_t1,
      SNCPU_SETFLAG_N16 R_t1, SNCPU_SHRI R_t1 16, SNCPU_SETFLAG_C R_t1, SNCPU_ENDOP 1]),
    \<comment> \<open>addr_dp_read_ASL_m1\<close> ([0x206, 0x306, 0x406],
      [SNCPU_FETCH8 R_t0, SNCPU_ADD R_t0 R_DP, SNCPU_ANDI R_t0 0xFFFF, SNCPU_READ8 R_t0 R_t1,
      SNCPU_SHLI R_t1 1, SNCPU_WRITE8 R_t0 R_t1, SNCPU_SETFLAG_Z8 R_t1, SNCPU_SETFLAG_N8 R_t1,
      SNCPU_SHRI R_t1 8, SNCPU_SETFLAG_C R_t1, SNCPU_ENDOP 1]),
    \<comment> \<open>addr_abs_read_ASL_m0\<close> ([0x00e, 0x10e],
      [SNCPU_FETCH16 R_t0, SNCPU_OR R_t0 R_DB, SNCPU_READ16 R_t0 R_t1, SNCPU_SHLI R_t1 1,
      SNCPU_WRITE16 R_t0 R_t1, SNCPU_SETFLAG_Z16 R_t1, SNCPU_SETFLAG_N16 R_t1,
      SNCPU_SHRI R_t1 16, SNCPU_SETFLAG_C R_t1, SNCPU_ENDOP 1]),
    \<comment> \<open>addr_abs_read_ASL_m1\<close> ([0x20e, 0x30e, 0x40e],
      [SNCPU_FETCH16 R_t0, SNCPU_OR R_t0 R_DB, SNCPU_READ8 R_t0 R_t1, SNCPU_SHLI R_t1 1,
      SNCPU_WRITE8 R_t0 R_t1, SNCPU_SETFLAG_Z8 R_t1, SNCPU_SETFLAG_N8 R_t1, SNCPU_SHRI R_t1 8,
      SNCPU_SETFLAG_C R_t1, SNCPU_ENDOP 1]),
    \<comment> \<open>addr_dp_ix_read_ASL_m0\<close> ([0x016, 0x116],
      [SNCPU_FETCH8 R_t0, SNCPU_ADD R_t0 R_DP, SNCPU_ANDI R_t0 0xFFFF, SNCPU_SUBCYCLES 1,
      SNCPU_ADD R_t0 R_X, SNCPU_AND R_t0 R_DPMASK, SNCPU_READ16 R_t0 R_t1, SNCPU_SHLI R_t1 1,
      SNCPU_WRITE16 R_t0 R_t1, SNCPU_SETFLAG_Z16 R_t1, SNCPU_SETFLAG_N16 R_t1,
      SNCPU_SHRI R_t1 16, SNCPU_SETFLAG_C R_t1, SNCPU_ENDOP 1]),
    \<comment> \<open>addr_dp_ix_read_ASL_m1\<close> ([0x216, 0x316, 0x416],
      [SNCPU_FETCH8 R_t0, SNCPU_ADD R_t0 R_DP, SNCPU_ANDI R_t0 0xFFFF, SNCPU_SUBCYCLES 1,
      SNCPU_ADD R_t0 R_X, SNCPU_AND R_t0 R_DPMASK, SNCPU_READ8 R_t0 R_t1, SNCPU_SHLI R_t1 1,
      SNCPU_WRITE8 R_t0 R_t1, SNCPU_SETFLAG_Z8 R_t1, SNCPU_SETFLAG_N8 R_t1, SNCPU_SHRI R_t1 8,
      SNCPU_SETFLAG_C R_t1, SNCPU_ENDOP 1]),
    \<comment> \<open>addr_abs_ix_read_ASL_m0\<close> ([0x01e, 0x11e],
      [SNCPU_FETCH16 R_t0, SNCPU_OR R_t0 R_DB, SNCPU_ADD R_t0 R_X, SNCPU_READ16 R_t0 R_t1,
      SNCPU_SHLI R_t1 1, SNCPU_WRITE16 R_t0 R_t1, SNCPU_SETFLAG_Z16 R_t1,
      SNCPU_SETFLAG_N16 R_t1, SNCPU_SHRI R_t1 16, SNCPU_SETFLAG_C R_t1, SNCPU_ENDOP 2]),
    \<comment> \<open>addr_abs_ix_read_ASL_m1\<close> ([0x21e, 0x31e, 0x41e],
      [SNCPU_FETCH16 R_t0, SNCPU_OR R_t0 R_DB, SNCPU_ADD R_t0 R_X, SNCPU_READ8 R_t0 R_t1,
      SNCPU_SHLI R_t1 1, SNCPU_WRITE8 R_t0 R_t1, SNCPU_SETFLAG_Z8 R_t1, SNCPU_SETFLAG_N8 R_t1,
      SNCPU_SHRI R_t1 8, SNCPU_SETFLAG_C R_t1, SNCPU_ENDOP 2])]"

definition op65816_LSR :: "(nat list \<times> uop list) list" where
  "op65816_LSR =
   [
    \<comment> \<open>addr_dp_read_LSR_m0\<close> ([0x046, 0x146],
      [SNCPU_FETCH8 R_t0, SNCPU_ADD R_t0 R_DP, SNCPU_ANDI R_t0 0xFFFF, SNCPU_READ16 R_t0 R_t1,
      SNCPU_SETFLAG_C R_t1, SNCPU_SHRI R_t1 1, SNCPU_WRITE16 R_t0 R_t1, SNCPU_SETFLAG_Z16 R_t1,
      SNCPU_SETFLAG_N16 R_t1, SNCPU_ENDOP 1]),
    \<comment> \<open>addr_dp_read_LSR_m1\<close> ([0x246, 0x346, 0x446],
      [SNCPU_FETCH8 R_t0, SNCPU_ADD R_t0 R_DP, SNCPU_ANDI R_t0 0xFFFF, SNCPU_READ8 R_t0 R_t1,
      SNCPU_SETFLAG_C R_t1, SNCPU_SHRI R_t1 1, SNCPU_WRITE8 R_t0 R_t1, SNCPU_SETFLAG_Z8 R_t1,
      SNCPU_SETFLAG_N8 R_t1, SNCPU_ENDOP 1]),
    \<comment> \<open>addr_abs_read_LSR_m0\<close> ([0x04e, 0x14e],
      [SNCPU_FETCH16 R_t0, SNCPU_OR R_t0 R_DB, SNCPU_READ16 R_t0 R_t1, SNCPU_SETFLAG_C R_t1,
      SNCPU_SHRI R_t1 1, SNCPU_WRITE16 R_t0 R_t1, SNCPU_SETFLAG_Z16 R_t1,
      SNCPU_SETFLAG_N16 R_t1, SNCPU_ENDOP 1]),
    \<comment> \<open>addr_abs_read_LSR_m1\<close> ([0x24e, 0x34e, 0x44e],
      [SNCPU_FETCH16 R_t0, SNCPU_OR R_t0 R_DB, SNCPU_READ8 R_t0 R_t1, SNCPU_SETFLAG_C R_t1,
      SNCPU_SHRI R_t1 1, SNCPU_WRITE8 R_t0 R_t1, SNCPU_SETFLAG_Z8 R_t1, SNCPU_SETFLAG_N8 R_t1,
      SNCPU_ENDOP 1]),
    \<comment> \<open>addr_dp_ix_read_LSR_m0\<close> ([0x056, 0x156],
      [SNCPU_FETCH8 R_t0, SNCPU_ADD R_t0 R_DP, SNCPU_ANDI R_t0 0xFFFF, SNCPU_SUBCYCLES 1,
      SNCPU_ADD R_t0 R_X, SNCPU_AND R_t0 R_DPMASK, SNCPU_READ16 R_t0 R_t1,
      SNCPU_SETFLAG_C R_t1, SNCPU_SHRI R_t1 1, SNCPU_WRITE16 R_t0 R_t1, SNCPU_SETFLAG_Z16 R_t1,
      SNCPU_SETFLAG_N16 R_t1, SNCPU_ENDOP 1]),
    \<comment> \<open>addr_dp_ix_read_LSR_m1\<close> ([0x256, 0x356, 0x456],
      [SNCPU_FETCH8 R_t0, SNCPU_ADD R_t0 R_DP, SNCPU_ANDI R_t0 0xFFFF, SNCPU_SUBCYCLES 1,
      SNCPU_ADD R_t0 R_X, SNCPU_AND R_t0 R_DPMASK, SNCPU_READ8 R_t0 R_t1, SNCPU_SETFLAG_C R_t1,
      SNCPU_SHRI R_t1 1, SNCPU_WRITE8 R_t0 R_t1, SNCPU_SETFLAG_Z8 R_t1, SNCPU_SETFLAG_N8 R_t1,
      SNCPU_ENDOP 1]),
    \<comment> \<open>addr_abs_ix_read_LSR_m0\<close> ([0x05e, 0x15e],
      [SNCPU_FETCH16 R_t0, SNCPU_OR R_t0 R_DB, SNCPU_ADD R_t0 R_X, SNCPU_READ16 R_t0 R_t1,
      SNCPU_SETFLAG_C R_t1, SNCPU_SHRI R_t1 1, SNCPU_WRITE16 R_t0 R_t1, SNCPU_SETFLAG_Z16 R_t1,
      SNCPU_SETFLAG_N16 R_t1, SNCPU_ENDOP 2]),
    \<comment> \<open>addr_abs_ix_read_LSR_m1\<close> ([0x25e, 0x35e, 0x45e],
      [SNCPU_FETCH16 R_t0, SNCPU_OR R_t0 R_DB, SNCPU_ADD R_t0 R_X, SNCPU_READ8 R_t0 R_t1,
      SNCPU_SETFLAG_C R_t1, SNCPU_SHRI R_t1 1, SNCPU_WRITE8 R_t0 R_t1, SNCPU_SETFLAG_Z8 R_t1,
      SNCPU_SETFLAG_N8 R_t1, SNCPU_ENDOP 2])]"

definition op65816_ROL :: "(nat list \<times> uop list) list" where
  "op65816_ROL =
   [
    \<comment> \<open>addr_dp_read_ROL_m0\<close> ([0x026, 0x126],
      [SNCPU_FETCH8 R_t0, SNCPU_ADD R_t0 R_DP, SNCPU_ANDI R_t0 0xFFFF, SNCPU_READ16 R_t0 R_t1,
      SNCPU_GETFLAG_C R_t2, SNCPU_SHLI R_t1 1, SNCPU_OR R_t1 (Tmp R_t2),
      SNCPU_WRITE16 R_t0 R_t1, SNCPU_SETFLAG_Z16 R_t1, SNCPU_SETFLAG_N16 R_t1,
      SNCPU_SHRI R_t1 16, SNCPU_SETFLAG_C R_t1, SNCPU_ENDOP 1]),
    \<comment> \<open>addr_dp_read_ROL_m1\<close> ([0x226, 0x326, 0x426],
      [SNCPU_FETCH8 R_t0, SNCPU_ADD R_t0 R_DP, SNCPU_ANDI R_t0 0xFFFF, SNCPU_READ8 R_t0 R_t1,
      SNCPU_GETFLAG_C R_t2, SNCPU_SHLI R_t1 1, SNCPU_OR R_t1 (Tmp R_t2),
      SNCPU_WRITE8 R_t0 R_t1, SNCPU_SETFLAG_Z8 R_t1, SNCPU_SETFLAG_N8 R_t1, SNCPU_SHRI R_t1 8,
      SNCPU_SETFLAG_C R_t1, SNCPU_ENDOP 1]),
    \<comment> \<open>addr_abs_read_ROL_m0\<close> ([0x02e, 0x12e],
      [SNCPU_FETCH16 R_t0, SNCPU_OR R_t0 R_DB, SNCPU_READ16 R_t0 R_t1, SNCPU_GETFLAG_C R_t2,
      SNCPU_SHLI R_t1 1, SNCPU_OR R_t1 (Tmp R_t2), SNCPU_WRITE16 R_t0 R_t1,
      SNCPU_SETFLAG_Z16 R_t1, SNCPU_SETFLAG_N16 R_t1, SNCPU_SHRI R_t1 16, SNCPU_SETFLAG_C R_t1,
      SNCPU_ENDOP 1]),
    \<comment> \<open>addr_abs_read_ROL_m1\<close> ([0x22e, 0x32e, 0x42e],
      [SNCPU_FETCH16 R_t0, SNCPU_OR R_t0 R_DB, SNCPU_READ8 R_t0 R_t1, SNCPU_GETFLAG_C R_t2,
      SNCPU_SHLI R_t1 1, SNCPU_OR R_t1 (Tmp R_t2), SNCPU_WRITE8 R_t0 R_t1,
      SNCPU_SETFLAG_Z8 R_t1, SNCPU_SETFLAG_N8 R_t1, SNCPU_SHRI R_t1 8, SNCPU_SETFLAG_C R_t1,
      SNCPU_ENDOP 1]),
    \<comment> \<open>addr_dp_ix_read_ROL_m0\<close> ([0x036, 0x136],
      [SNCPU_FETCH8 R_t0, SNCPU_ADD R_t0 R_DP, SNCPU_ANDI R_t0 0xFFFF, SNCPU_SUBCYCLES 1,
      SNCPU_ADD R_t0 R_X, SNCPU_AND R_t0 R_DPMASK, SNCPU_READ16 R_t0 R_t1,
      SNCPU_GETFLAG_C R_t2, SNCPU_SHLI R_t1 1, SNCPU_OR R_t1 (Tmp R_t2),
      SNCPU_WRITE16 R_t0 R_t1, SNCPU_SETFLAG_Z16 R_t1, SNCPU_SETFLAG_N16 R_t1,
      SNCPU_SHRI R_t1 16, SNCPU_SETFLAG_C R_t1, SNCPU_ENDOP 1]),
    \<comment> \<open>addr_dp_ix_read_ROL_m1\<close> ([0x236, 0x336, 0x436],
      [SNCPU_FETCH8 R_t0, SNCPU_ADD R_t0 R_DP, SNCPU_ANDI R_t0 0xFFFF, SNCPU_SUBCYCLES 1,
      SNCPU_ADD R_t0 R_X, SNCPU_AND R_t0 R_DPMASK, SNCPU_READ8 R_t0 R_t1, SNCPU_GETFLAG_C R_t2,
      SNCPU_SHLI R_t1 1, SNCPU_OR R_t1 (Tmp R_t2), SNCPU_WRITE8 R_t0 R_t1,
      SNCPU_SETFLAG_Z8 R_t1, SNCPU_SETFLAG_N8 R_t1, SNCPU_SHRI R_t1 8, SNCPU_SETFLAG_C R_t1,
      SNCPU_ENDOP 1]),
    \<comment> \<open>addr_abs_ix_read_ROL_m0\<close> ([0x03e, 0x13e],
      [SNCPU_FETCH16 R_t0, SNCPU_OR R_t0 R_DB, SNCPU_ADD R_t0 R_X, SNCPU_READ16 R_t0 R_t1,
      SNCPU_GETFLAG_C R_t2, SNCPU_SHLI R_t1 1, SNCPU_OR R_t1 (Tmp R_t2),
      SNCPU_WRITE16 R_t0 R_t1, SNCPU_SETFLAG_Z16 R_t1, SNCPU_SETFLAG_N16 R_t1,
      SNCPU_SHRI R_t1 16, SNCPU_SETFLAG_C R_t1, SNCPU_ENDOP 2]),
    \<comment> \<open>addr_abs_ix_read_ROL_m1\<close> ([0x23e, 0x33e, 0x43e],
      [SNCPU_FETCH16 R_t0, SNCPU_OR R_t0 R_DB, SNCPU_ADD R_t0 R_X, SNCPU_READ8 R_t0 R_t1,
      SNCPU_GETFLAG_C R_t2, SNCPU_SHLI R_t1 1, SNCPU_OR R_t1 (Tmp R_t2),
      SNCPU_WRITE8 R_t0 R_t1, SNCPU_SETFLAG_Z8 R_t1, SNCPU_SETFLAG_N8 R_t1, SNCPU_SHRI R_t1 8,
      SNCPU_SETFLAG_C R_t1, SNCPU_ENDOP 2])]"

definition op65816_ROR :: "(nat list \<times> uop list) list" where
  "op65816_ROR =
   [
    \<comment> \<open>addr_dp_read_ROR_m0\<close> ([0x066, 0x166],
      [SNCPU_FETCH8 R_t0, SNCPU_ADD R_t0 R_DP, SNCPU_ANDI R_t0 0xFFFF, SNCPU_READ16 R_t0 R_t1,
      SNCPU_GETFLAG_C R_t2, SNCPU_SHLI R_t2 16, SNCPU_SETFLAG_C R_t1, SNCPU_OR R_t1 (Tmp R_t2),
      SNCPU_SHRI R_t1 1, SNCPU_WRITE16 R_t0 R_t1, SNCPU_SETFLAG_Z16 R_t1,
      SNCPU_SETFLAG_N16 R_t1, SNCPU_ENDOP 1]),
    \<comment> \<open>addr_dp_read_ROR_m1\<close> ([0x266, 0x366, 0x466],
      [SNCPU_FETCH8 R_t0, SNCPU_ADD R_t0 R_DP, SNCPU_ANDI R_t0 0xFFFF, SNCPU_READ8 R_t0 R_t1,
      SNCPU_GETFLAG_C R_t2, SNCPU_SHLI R_t2 8, SNCPU_SETFLAG_C R_t1, SNCPU_OR R_t1 (Tmp R_t2),
      SNCPU_SHRI R_t1 1, SNCPU_WRITE8 R_t0 R_t1, SNCPU_SETFLAG_Z8 R_t1, SNCPU_SETFLAG_N8 R_t1,
      SNCPU_ENDOP 1]),
    \<comment> \<open>addr_abs_read_ROR_m0\<close> ([0x06e, 0x16e],
      [SNCPU_FETCH16 R_t0, SNCPU_OR R_t0 R_DB, SNCPU_READ16 R_t0 R_t1, SNCPU_GETFLAG_C R_t2,
      SNCPU_SHLI R_t2 16, SNCPU_SETFLAG_C R_t1, SNCPU_OR R_t1 (Tmp R_t2), SNCPU_SHRI R_t1 1,
      SNCPU_WRITE16 R_t0 R_t1, SNCPU_SETFLAG_Z16 R_t1, SNCPU_SETFLAG_N16 R_t1, SNCPU_ENDOP 1]),
    \<comment> \<open>addr_abs_read_ROR_m1\<close> ([0x26e, 0x36e, 0x46e],
      [SNCPU_FETCH16 R_t0, SNCPU_OR R_t0 R_DB, SNCPU_READ8 R_t0 R_t1, SNCPU_GETFLAG_C R_t2,
      SNCPU_SHLI R_t2 8, SNCPU_SETFLAG_C R_t1, SNCPU_OR R_t1 (Tmp R_t2), SNCPU_SHRI R_t1 1,
      SNCPU_WRITE8 R_t0 R_t1, SNCPU_SETFLAG_Z8 R_t1, SNCPU_SETFLAG_N8 R_t1, SNCPU_ENDOP 1]),
    \<comment> \<open>addr_dp_ix_read_ROR_m0\<close> ([0x076, 0x176],
      [SNCPU_FETCH8 R_t0, SNCPU_ADD R_t0 R_DP, SNCPU_ANDI R_t0 0xFFFF, SNCPU_SUBCYCLES 1,
      SNCPU_ADD R_t0 R_X, SNCPU_AND R_t0 R_DPMASK, SNCPU_READ16 R_t0 R_t1,
      SNCPU_GETFLAG_C R_t2, SNCPU_SHLI R_t2 16, SNCPU_SETFLAG_C R_t1, SNCPU_OR R_t1 (Tmp R_t2),
      SNCPU_SHRI R_t1 1, SNCPU_WRITE16 R_t0 R_t1, SNCPU_SETFLAG_Z16 R_t1,
      SNCPU_SETFLAG_N16 R_t1, SNCPU_ENDOP 1]),
    \<comment> \<open>addr_dp_ix_read_ROR_m1\<close> ([0x276, 0x376, 0x476],
      [SNCPU_FETCH8 R_t0, SNCPU_ADD R_t0 R_DP, SNCPU_ANDI R_t0 0xFFFF, SNCPU_SUBCYCLES 1,
      SNCPU_ADD R_t0 R_X, SNCPU_AND R_t0 R_DPMASK, SNCPU_READ8 R_t0 R_t1, SNCPU_GETFLAG_C R_t2,
      SNCPU_SHLI R_t2 8, SNCPU_SETFLAG_C R_t1, SNCPU_OR R_t1 (Tmp R_t2), SNCPU_SHRI R_t1 1,
      SNCPU_WRITE8 R_t0 R_t1, SNCPU_SETFLAG_Z8 R_t1, SNCPU_SETFLAG_N8 R_t1, SNCPU_ENDOP 1]),
    \<comment> \<open>addr_abs_ix_read_ROR_m0\<close> ([0x07e, 0x17e],
      [SNCPU_FETCH16 R_t0, SNCPU_OR R_t0 R_DB, SNCPU_ADD R_t0 R_X, SNCPU_READ16 R_t0 R_t1,
      SNCPU_GETFLAG_C R_t2, SNCPU_SHLI R_t2 16, SNCPU_SETFLAG_C R_t1, SNCPU_OR R_t1 (Tmp R_t2),
      SNCPU_SHRI R_t1 1, SNCPU_WRITE16 R_t0 R_t1, SNCPU_SETFLAG_Z16 R_t1,
      SNCPU_SETFLAG_N16 R_t1, SNCPU_ENDOP 2]),
    \<comment> \<open>addr_abs_ix_read_ROR_m1\<close> ([0x27e, 0x37e, 0x47e],
      [SNCPU_FETCH16 R_t0, SNCPU_OR R_t0 R_DB, SNCPU_ADD R_t0 R_X, SNCPU_READ8 R_t0 R_t1,
      SNCPU_GETFLAG_C R_t2, SNCPU_SHLI R_t2 8, SNCPU_SETFLAG_C R_t1, SNCPU_OR R_t1 (Tmp R_t2),
      SNCPU_SHRI R_t1 1, SNCPU_WRITE8 R_t0 R_t1, SNCPU_SETFLAG_Z8 R_t1, SNCPU_SETFLAG_N8 R_t1,
      SNCPU_ENDOP 2])]"

definition op65816_BIT :: "(nat list \<times> uop list) list" where
  "op65816_BIT =
   [
    \<comment> \<open>addr_dp_read_BIT_m0\<close> ([0x024, 0x124],
      [SNCPU_FETCH8 R_t0, SNCPU_ADD R_t0 R_DP, SNCPU_ANDI R_t0 0xFFFF, SNCPU_READ16 R_t0 R_t1,
      SNCPU_GET_A16 R_t2, SNCPU_AND R_t2 (Tmp R_t1), SNCPU_SETFLAG_Z16 R_t2,
      SNCPU_SETFLAG_N16 R_t1, SNCPU_SHRI R_t1 14, SNCPU_SETFLAG_V R_t1, SNCPU_ENDOP 0]),
    \<comment> \<open>addr_dp_read_BIT_m1\<close> ([0x224, 0x324, 0x424],
      [SNCPU_FETCH8 R_t0, SNCPU_ADD R_t0 R_DP, SNCPU_ANDI R_t0 0xFFFF, SNCPU_READ8 R_t0 R_t1,
      SNCPU_GET_A8 R_t2, SNCPU_AND R_t2 (Tmp R_t1), SNCPU_SETFLAG_Z8 R_t2,
      SNCPU_SETFLAG_N8 R_t1, SNCPU_SHRI R_t1 6, SNCPU_SETFLAG_V R_t1, SNCPU_ENDOP 0]),
    \<comment> \<open>addr_abs_read_BIT_m0\<close> ([0x02c, 0x12c],
      [SNCPU_FETCH16 R_t0, SNCPU_OR R_t0 R_DB, SNCPU_READ16 R_t0 R_t1, SNCPU_GET_A16 R_t2,
      SNCPU_AND R_t2 (Tmp R_t1), SNCPU_SETFLAG_Z16 R_t2, SNCPU_SETFLAG_N16 R_t1,
      SNCPU_SHRI R_t1 14, SNCPU_SETFLAG_V R_t1, SNCPU_ENDOP 0]),
    \<comment> \<open>addr_abs_read_BIT_m1\<close> ([0x22c, 0x32c, 0x42c],
      [SNCPU_FETCH16 R_t0, SNCPU_OR R_t0 R_DB, SNCPU_READ8 R_t0 R_t1, SNCPU_GET_A8 R_t2,
      SNCPU_AND R_t2 (Tmp R_t1), SNCPU_SETFLAG_Z8 R_t2, SNCPU_SETFLAG_N8 R_t1,
      SNCPU_SHRI R_t1 6, SNCPU_SETFLAG_V R_t1, SNCPU_ENDOP 0]),
    \<comment> \<open>addr_dp_ix_read_BIT_m0\<close> ([0x034, 0x134],
      [SNCPU_FETCH8 R_t0, SNCPU_ADD R_t0 R_DP, SNCPU_ANDI R_t0 0xFFFF, SNCPU_SUBCYCLES 1,
      SNCPU_ADD R_t0 R_X, SNCPU_AND R_t0 R_DPMASK, SNCPU_READ16 R_t0 R_t1, SNCPU_GET_A16 R_t2,
      SNCPU_AND R_t2 (Tmp R_t1), SNCPU_SETFLAG_Z16 R_t2, SNCPU_SETFLAG_N16 R_t1,
      SNCPU_SHRI R_t1 14, SNCPU_SETFLAG_V R_t1, SNCPU_ENDOP 0]),
    \<comment> \<open>addr_dp_ix_read_BIT_m1\<close> ([0x234, 0x334, 0x434],
      [SNCPU_FETCH8 R_t0, SNCPU_ADD R_t0 R_DP, SNCPU_ANDI R_t0 0xFFFF, SNCPU_SUBCYCLES 1,
      SNCPU_ADD R_t0 R_X, SNCPU_AND R_t0 R_DPMASK, SNCPU_READ8 R_t0 R_t1, SNCPU_GET_A8 R_t2,
      SNCPU_AND R_t2 (Tmp R_t1), SNCPU_SETFLAG_Z8 R_t2, SNCPU_SETFLAG_N8 R_t1,
      SNCPU_SHRI R_t1 6, SNCPU_SETFLAG_V R_t1, SNCPU_ENDOP 0]),
    \<comment> \<open>addr_abs_ix_read_BIT_m0\<close> ([0x03c, 0x13c],
      [SNCPU_FETCH16 R_t0, SNCPU_OR R_t0 R_DB, SNCPU_ADD R_t0 R_X, SNCPU_READ16 R_t0 R_t1,
      SNCPU_GET_A16 R_t2, SNCPU_AND R_t2 (Tmp R_t1), SNCPU_SETFLAG_Z16 R_t2,
      SNCPU_SETFLAG_N16 R_t1, SNCPU_SHRI R_t1 14, SNCPU_SETFLAG_V R_t1, SNCPU_ENDOP 0]),
    \<comment> \<open>addr_abs_ix_read_BIT_m1\<close> ([0x23c, 0x33c, 0x43c],
      [SNCPU_FETCH16 R_t0, SNCPU_OR R_t0 R_DB, SNCPU_ADD R_t0 R_X, SNCPU_READ8 R_t0 R_t1,
      SNCPU_GET_A8 R_t2, SNCPU_AND R_t2 (Tmp R_t1), SNCPU_SETFLAG_Z8 R_t2,
      SNCPU_SETFLAG_N8 R_t1, SNCPU_SHRI R_t1 6, SNCPU_SETFLAG_V R_t1, SNCPU_ENDOP 0]),
    \<comment> \<open>addr_imma_BITI_m0\<close> ([0x089, 0x189],
      [SNCPU_FETCH16 R_t1, SNCPU_GET_A16 R_t2, SNCPU_AND R_t2 (Tmp R_t1),
      SNCPU_SETFLAG_Z16 R_t2, SNCPU_ENDOP 0]),
    \<comment> \<open>addr_imma_BITI_m1\<close> ([0x289, 0x389, 0x489],
      [SNCPU_FETCH8 R_t1, SNCPU_GET_A8 R_t2, SNCPU_AND R_t2 (Tmp R_t1), SNCPU_SETFLAG_Z8 R_t2,
      SNCPU_ENDOP 0])]"

definition op65816_TRB_TSB :: "(nat list \<times> uop list) list" where
  "op65816_TRB_TSB =
   [
    \<comment> \<open>addr_dp_read_TRB_m0\<close> ([0x014, 0x114],
      [SNCPU_FETCH8 R_t0, SNCPU_ADD R_t0 R_DP, SNCPU_ANDI R_t0 0xFFFF, SNCPU_READ16 R_t0 R_t1,
      SNCPU_GET_A16 R_t2, SNCPU_AND R_t2 (Tmp R_t1), SNCPU_SETFLAG_Z16 R_t2,
      SNCPU_GET_A16 R_t2, SNCPU_OR R_t1 (Tmp R_t2), SNCPU_XOR R_t1 (Tmp R_t2),
      SNCPU_WRITE16 R_t0 R_t1, SNCPU_ENDOP 1]),
    \<comment> \<open>addr_dp_read_TRB_m1\<close> ([0x214, 0x314, 0x414],
      [SNCPU_FETCH8 R_t0, SNCPU_ADD R_t0 R_DP, SNCPU_ANDI R_t0 0xFFFF, SNCPU_READ8 R_t0 R_t1,
      SNCPU_GET_A8 R_t2, SNCPU_AND R_t2 (Tmp R_t1), SNCPU_SETFLAG_Z8 R_t2, SNCPU_GET_A8 R_t2,
      SNCPU_OR R_t1 (Tmp R_t2), SNCPU_XOR R_t1 (Tmp R_t2), SNCPU_WRITE8 R_t0 R_t1, SNCPU_ENDOP 1]),
    \<comment> \<open>addr_abs_read_TRB_m0\<close> ([0x01c, 0x11c],
      [SNCPU_FETCH16 R_t0, SNCPU_OR R_t0 R_DB, SNCPU_READ16 R_t0 R_t1, SNCPU_GET_A16 R_t2,
      SNCPU_AND R_t2 (Tmp R_t1), SNCPU_SETFLAG_Z16 R_t2, SNCPU_GET_A16 R_t2,
      SNCPU_OR R_t1 (Tmp R_t2), SNCPU_XOR R_t1 (Tmp R_t2), SNCPU_WRITE16 R_t0 R_t1,
      SNCPU_ENDOP 1]),
    \<comment> \<open>addr_abs_read_TRB_m1\<close> ([0x21c, 0x31c, 0x41c],
      [SNCPU_FETCH16 R_t0, SNCPU_OR R_t0 R_DB, SNCPU_READ8 R_t0 R_t1, SNCPU_GET_A8 R_t2,
      SNCPU_AND R_t2 (Tmp R_t1), SNCPU_SETFLAG_Z8 R_t2, SNCPU_GET_A8 R_t2,
      SNCPU_OR R_t1 (Tmp R_t2), SNCPU_XOR R_t1 (Tmp R_t2), SNCPU_WRITE8 R_t0 R_t1, SNCPU_ENDOP 1]),
    \<comment> \<open>addr_dp_read_TSB_m0\<close> ([0x004, 0x104],
      [SNCPU_FETCH8 R_t0, SNCPU_ADD R_t0 R_DP, SNCPU_ANDI R_t0 0xFFFF, SNCPU_READ16 R_t0 R_t1,
      SNCPU_GET_A16 R_t2, SNCPU_AND R_t2 (Tmp R_t1), SNCPU_SETFLAG_Z16 R_t2,
      SNCPU_GET_A16 R_t2, SNCPU_OR R_t1 (Tmp R_t2), SNCPU_WRITE16 R_t0 R_t1, SNCPU_ENDOP 1]),
    \<comment> \<open>addr_dp_read_TSB_m1\<close> ([0x204, 0x304, 0x404],
      [SNCPU_FETCH8 R_t0, SNCPU_ADD R_t0 R_DP, SNCPU_ANDI R_t0 0xFFFF, SNCPU_READ8 R_t0 R_t1,
      SNCPU_GET_A8 R_t2, SNCPU_AND R_t2 (Tmp R_t1), SNCPU_SETFLAG_Z8 R_t2, SNCPU_GET_A8 R_t2,
      SNCPU_OR R_t1 (Tmp R_t2), SNCPU_WRITE8 R_t0 R_t1, SNCPU_ENDOP 1]),
    \<comment> \<open>addr_abs_read_TSB_m0\<close> ([0x00c, 0x10c],
      [SNCPU_FETCH16 R_t0, SNCPU_OR R_t0 R_DB, SNCPU_READ16 R_t0 R_t1, SNCPU_GET_A16 R_t2,
      SNCPU_AND R_t2 (Tmp R_t1), SNCPU_SETFLAG_Z16 R_t2, SNCPU_GET_A16 R_t2,
      SNCPU_OR R_t1 (Tmp R_t2), SNCPU_WRITE16 R_t0 R_t1, SNCPU_ENDOP 1]),
    \<comment> \<open>addr_abs_read_TSB_m1\<close> ([0x20c, 0x30c, 0x40c],
      [SNCPU_FETCH16 R_t0, SNCPU_OR R_t0 R_DB, SNCPU_READ8 R_t0 R_t1, SNCPU_GET_A8 R_t2,
      SNCPU_AND R_t2 (Tmp R_t1), SNCPU_SETFLAG_Z8 R_t2, SNCPU_GET_A8 R_t2,
      SNCPU_OR R_t1 (Tmp R_t2), SNCPU_WRITE8 R_t0 R_t1, SNCPU_ENDOP 1])]"

definition op65816_logic :: "(nat list \<times> uop list) list" where
  "op65816_logic =
     op65816_AND_1 @
     op65816_AND_2 @
     op65816_AND_3 @
     op65816_AND_4 @
     op65816_EOR_1 @
     op65816_EOR_2 @
     op65816_EOR_3 @
     op65816_EOR_4 @
     op65816_ORA_1 @
     op65816_ORA_2 @
     op65816_ORA_3 @
     op65816_ORA_4 @
     op65816_accumulator @
     op65816_DEC_INC_1 @
     op65816_DEC_INC_2 @
     op65816_ASL @
     op65816_LSR @
     op65816_ROL @
     op65816_ROR @
     op65816_BIT @
     op65816_TRB_TSB"

lemmas op65816_logic_defs =
  op65816_AND_1_def
  op65816_AND_2_def
  op65816_AND_3_def
  op65816_AND_4_def
  op65816_EOR_1_def
  op65816_EOR_2_def
  op65816_EOR_3_def
  op65816_EOR_4_def
  op65816_ORA_1_def
  op65816_ORA_2_def
  op65816_ORA_3_def
  op65816_ORA_4_def
  op65816_accumulator_def
  op65816_DEC_INC_1_def
  op65816_DEC_INC_2_def
  op65816_ASL_def
  op65816_LSR_def
  op65816_ROL_def
  op65816_ROR_def
  op65816_BIT_def
  op65816_TRB_TSB_def

end
