(* ===== verification/Sn_Cpu_Exec.thy ===== *)
theory Sn_Cpu_Exec
  imports Op65816_Move Op65816_Arith Op65816_Logic
begin

text \<open>
  The interpreter loop \<^verbatim>\<open>SNCPUExecute_C\<close> of \<^verbatim>\<open>sncpu_c.c\<close>: the handlers it
  writes out by hand (SEP, REP, the branches, the block moves, WAI), the \<^verbatim>\<open>switch\<close> over the
  opcode and the mode bits, one iteration, and the loop, which is a partial function: its outer
  \<^const>\<open>None\<close> is a loop that never ends, the inner one undefined behaviour.
\<close>

section \<open>Handlers written out in sncpu_c.c\<close>

definition SNCPU_OP_ALL :: "nat \<Rightarrow> nat list" where
  "SNCPU_OP_ALL n = [0x000 + n, 0x100 + n, 0x200 + n, 0x300 + n, 0x400 + n]"

definition SNCPU_OP_X0 :: "nat \<Rightarrow> nat list" where
  "SNCPU_OP_X0 n = [0x000 + n, 0x200 + n]"

definition SNCPU_OP_X1E1 :: "nat \<Rightarrow> nat list" where
  "SNCPU_OP_X1E1 n = [0x100 + n, 0x300 + n, 0x400 + n]"

definition sub_cycles :: "nat \<Rightarrow> 'w xst \<Rightarrow> 'w xst" where
  "sub_cycles n x = x\<lparr>pCpu := SNCPU_SUBCYCLES_c n (pCpu x)\<rparr>"

definition SEP_flags :: "u8 \<Rightarrow> 'w xst \<Rightarrow> 'w xst" where
  "SEP_flags t1 x =
     (let x = upd_regs (\<lambda>r. r\<lparr>rP := rP r OR t1\<rparr>) x;
          x = (if t1 AND SNCPU_FLAG_C \<noteq> 0 then x\<lparr>fC := 1\<rparr> else x);
          x = (if t1 AND SNCPU_FLAG_Z \<noteq> 0 then x\<lparr>fZ := 0\<rparr> else x);
          x = (if t1 AND SNCPU_FLAG_N \<noteq> 0 then x\<lparr>fN := 0xFFFF\<rparr> else x);
          x = clear_index_high t1 x
      in SNCPU_SETFLAG_E_x (rE (Regs (pCpu x))) x)"

definition exec_SEP :: "'w traps \<Rightarrow> 'w xst \<Rightarrow> 'w xst option" where
  "exec_SEP T x =
     do { x \<leftarrow> exec_uop T (SNCPU_FETCH8 R_t1) x;
          Some (sub_cycles 1 (SEP_flags (ucast (l_t1 x)) x)) }"

definition REP_flags :: "u8 \<Rightarrow> 'w xst \<Rightarrow> 'w xst" where
  "REP_flags t1 x =
     (let x = upd_regs (\<lambda>r. r\<lparr>rP := rP r OR t1\<rparr>) x;
          x = upd_regs (\<lambda>r. r\<lparr>rP := rP r XOR t1\<rparr>) x;
          x = (if t1 AND SNCPU_FLAG_C \<noteq> 0 then x\<lparr>fC := 0\<rparr> else x);
          x = (if t1 AND SNCPU_FLAG_Z \<noteq> 0 then x\<lparr>fZ := 1\<rparr> else x);
          x = (if t1 AND SNCPU_FLAG_N \<noteq> 0 then x\<lparr>fN := 0\<rparr> else x)
      in SNCPU_SETFLAG_E_x (rE (Regs (pCpu x))) x)"

definition exec_REP :: "'w traps \<Rightarrow> 'w xst \<Rightarrow> 'w xst option" where
  "exec_REP T x =
     do { x \<leftarrow> exec_uop T (SNCPU_FETCH8 R_t1) x;
          Some (sub_cycles 1 (REP_flags (ucast (l_t1 x)) x)) }"

text \<open>
  A fetch into a local variable of a handler: \<^verbatim>\<open>SNCPU_FETCH8(v)\<close> where \<open>v\<close> is none of
  \<open>t0\<close>, \<open>t1\<close>, \<open>t2\<close>.
\<close>

definition fetch8_local :: "'w traps \<Rightarrow> 'w xst \<Rightarrow> (u8 \<times> 'w xst) option" where
  "fetch8_local T x =
     do { (v, c) \<leftarrow> u_SNCPUFetch8 T (pCpu x) (l_rPC x); Some (v, bump_PC 1 (x\<lparr>pCpu := c\<rparr>)) }"

definition fetch16_local :: "'w traps \<Rightarrow> 'w xst \<Rightarrow> (u16 \<times> 'w xst) option" where
  "fetch16_local T x =
     do { (v, c) \<leftarrow> u_SNCPUFetch16 T (pCpu x) (l_rPC x); Some (v, bump_PC 2 (x\<lparr>pCpu := c\<rparr>)) }"

text \<open>The sign extension \<^verbatim>\<open>iRel <<= n; iRel >>= n\<close> of a 32-bit signed variable.\<close>

definition sign_extend :: "nat \<Rightarrow> u32 \<Rightarrow> u32" where
  "sign_extend n v = signed_drop_bit n (push_bit n v)"

definition SNCPU_BRREL :: "'w traps \<Rightarrow> ('w xst \<Rightarrow> bool) \<Rightarrow> 'w xst \<Rightarrow> 'w xst option" where
  "SNCPU_BRREL T bTest x =
     do { (iRel, x) \<leftarrow> fetch8_local T x;
          Some (if bTest x
                then sub_cycles 1 (x\<lparr>l_rPC := l_rPC x + sign_extend 24 (ucast iRel)\<rparr>)
                else x) }"

definition exec_BRL :: "'w traps \<Rightarrow> 'w xst \<Rightarrow> 'w xst option" where
  "exec_BRL T x =
     do { (v, x) \<leftarrow> fetch16_local T x;
          let iRel = sign_extend 16 (ucast v) + l_rPC x;
          Some (sub_cycles 1 (x\<lparr>l_rPC := (l_rPC x AND 0xFF0000) + (iRel AND 0xFFFF)\<rparr>)) }"

text \<open>
  The four block move handlers differ in the width of the index registers and in the
  direction: \<open>ix\<close> and \<open>iy\<close> read the index registers, \<open>adv\<close> steps both.
\<close>

definition move_byte :: "'w traps \<Rightarrow> (SNCpuRegsT \<Rightarrow> u32) \<Rightarrow> (SNCpuRegsT \<Rightarrow> u32) \<Rightarrow> (SNCpuRegsT \<Rightarrow> SNCpuRegsT)
    \<Rightarrow> u32 \<Rightarrow> u32 \<Rightarrow> 'w xst \<Rightarrow> 'w xst option" where
  "move_byte T ix iy adv uDestBank uSrcBank x =
     do { let x = upd_regs (\<lambda>r. r\<lparr>rDB := uDestBank\<rparr>) x;
          (uData, c) \<leftarrow> u_SNCPURead8 T (pCpu x) (uSrcBank OR ix (Regs (pCpu x)));
          c \<leftarrow> u_SNCPUWrite8 T c (uDestBank OR iy (Regs c)) uData;
          let x = upd_regs adv (x\<lparr>pCpu := c\<rparr>);
          let x = (if rA (Regs (pCpu x)) \<noteq> 0 then x\<lparr>l_rPC := l_rPC x - 3\<rparr> else x);
          Some (sub_cycles 2 (upd_regs (\<lambda>r. r\<lparr>rA := rA r - 1\<rparr>) x)) }"

definition block_move :: "'w traps \<Rightarrow> (SNCpuRegsT \<Rightarrow> u32) \<Rightarrow> (SNCpuRegsT \<Rightarrow> u32) \<Rightarrow> (SNCpuRegsT \<Rightarrow> SNCpuRegsT)
    \<Rightarrow> 'w xst \<Rightarrow> 'w xst option" where
  "block_move T ix iy adv x =
     do { (d, x) \<leftarrow> fetch8_local T x;
          (s, x) \<leftarrow> fetch8_local T x;
          move_byte T ix iy adv (push_bit 16 (ucast d)) (push_bit 16 (ucast s)) x }"

definition step16 :: "u16 \<Rightarrow> SNCpuRegsT \<Rightarrow> SNCpuRegsT" where
  "step16 d r = r\<lparr>rX := rX r + d, rY := rY r + d\<rparr>"

definition step8 :: "u8 \<Rightarrow> SNCpuRegsT \<Rightarrow> SNCpuRegsT" where
  "step8 d r = r\<lparr>rX := set_lo8 (rX r) (lo8 (rX r) + d), rY := set_lo8 (rY r) (lo8 (rY r) + d)\<rparr>"

definition exec_MVN_X0 :: "'w traps \<Rightarrow> 'w xst \<Rightarrow> 'w xst option" where
  "exec_MVN_X0 T = block_move T (get_reg X16) (get_reg Y16) (step16 1)"

definition exec_MVN_X1E1 :: "'w traps \<Rightarrow> 'w xst \<Rightarrow> 'w xst option" where
  "exec_MVN_X1E1 T = block_move T (get_reg X8) (get_reg Y8) (step8 1)"

definition exec_MVP_X0 :: "'w traps \<Rightarrow> 'w xst \<Rightarrow> 'w xst option" where
  "exec_MVP_X0 T = block_move T (get_reg X16) (get_reg Y16) (step16 (- 1))"

definition exec_MVP_X1E1 :: "'w traps \<Rightarrow> 'w xst \<Rightarrow> 'w xst option" where
  "exec_MVP_X1E1 T = block_move T (get_reg X8) (get_reg Y8) (step8 (- 1))"

definition exec_WAI :: "'w xst \<Rightarrow> 'w xst option" where
  "exec_WAI x =
     (let c = pCpu x;
          x = (if uSignal c AND SNCPU_SIGNAL_IRQ = 0
               then x\<lparr>pCpu := c\<lparr>uSignal := uSignal c OR SNCPU_SIGNAL_WAI, Cycles := 0\<rparr>, l_rPC := l_rPC x - 1\<rparr>
               else x\<lparr>pCpu := c\<lparr>uSignal := uSignal c AND NOT SNCPU_SIGNAL_WAI\<rparr>\<rparr>)
      in Some (sub_cycles 2 x))"

text \<open>The conditions of the nine relative branches.\<close>

datatype cond = BPL | BMI | BEQ | BNE | BCC | BCS | BVC | BVS | BRA

fun cond_test :: "cond \<Rightarrow> 'w xst \<Rightarrow> bool" where
  "cond_test BPL x = (fN x AND 0x8000 = 0)"
| "cond_test BMI x = (fN x AND 0x8000 \<noteq> 0)"
| "cond_test BEQ x = (fZ x AND 0xFFFF = 0)"
| "cond_test BNE x = (fZ x AND 0xFFFF \<noteq> 0)"
| "cond_test BCC x = (fC x = 0)"
| "cond_test BCS x = (fC x \<noteq> 0)"
| "cond_test BVC x = (rP (Regs (pCpu x)) AND SNCPU_FLAG_V = 0)"
| "cond_test BVS x = (rP (Regs (pCpu x)) AND SNCPU_FLAG_V \<noteq> 0)"
| "cond_test BRA x = True"

datatype hand = H_SEP | H_REP | H_BR cond | H_BRL | H_MVN_X0 | H_MVN_X1E1 | H_MVP_X0 | H_MVP_X1E1 | H_WAI

fun exec_hand :: "'w traps \<Rightarrow> hand \<Rightarrow> 'w xst \<Rightarrow> 'w xst option" where
  "exec_hand T H_SEP x = exec_SEP T x"
| "exec_hand T H_REP x = exec_REP T x"
| "exec_hand T (H_BR k) x = SNCPU_BRREL T (cond_test k) x"
| "exec_hand T H_BRL x = exec_BRL T x"
| "exec_hand T H_MVN_X0 x = exec_MVN_X0 T x"
| "exec_hand T H_MVN_X1E1 x = exec_MVN_X1E1 T x"
| "exec_hand T H_MVP_X0 x = exec_MVP_X0 T x"
| "exec_hand T H_MVP_X1E1 x = exec_MVP_X1E1 T x"
| "exec_hand T H_WAI x = exec_WAI x"

section \<open>The switch\<close>

definition op65816 :: "(nat list \<times> uop list) list" where
  "op65816 = op65816_move @ op65816_arith @ op65816_logic"

definition hand_cases :: "(nat list \<times> hand) list" where
  "hand_cases =
    [(SNCPU_OP_ALL 0xE2, H_SEP), (SNCPU_OP_ALL 0xC2, H_REP),
     (SNCPU_OP_ALL 0x10, H_BR BPL), (SNCPU_OP_ALL 0x30, H_BR BMI), (SNCPU_OP_ALL 0xF0, H_BR BEQ),
     (SNCPU_OP_ALL 0xD0, H_BR BNE), (SNCPU_OP_ALL 0x90, H_BR BCC), (SNCPU_OP_ALL 0xB0, H_BR BCS),
     (SNCPU_OP_ALL 0x50, H_BR BVC), (SNCPU_OP_ALL 0x70, H_BR BVS), (SNCPU_OP_ALL 0x80, H_BR BRA),
     (SNCPU_OP_ALL 0x82, H_BRL), (SNCPU_OP_X0 0x54, H_MVN_X0), (SNCPU_OP_X1E1 0x54, H_MVN_X1E1),
     (SNCPU_OP_X0 0x44, H_MVP_X0), (SNCPU_OP_X1E1 0x44, H_MVP_X1E1), (SNCPU_OP_ALL 0xCB, H_WAI)]"

definition exec_op :: "'w traps \<Rightarrow> nat \<Rightarrow> 'w xst \<Rightarrow> 'w xst option" where
  "exec_op T uOpcode x =
     (case find_case op65816 uOpcode of
        Some us \<Rightarrow> run_ops (exec_uop T) us x
      | None \<Rightarrow> (case find_case hand_cases uOpcode of
                   Some h \<Rightarrow> exec_hand T h x
                 | None \<Rightarrow> Some (sub_cycles 1 x)))"

section \<open>The loop\<close>

definition opcode_of :: "u8 \<Rightarrow> u32 \<Rightarrow> nat" where
  "opcode_of b m = unat ((ucast b OR m) AND 0x7FF)"

text \<open>
  One iteration. The locals \<open>t0\<close>, \<open>t1\<close> and \<open>t2\<close>, which C leaves uninitialised here,
  keep the value of the last iteration; no handler reads one before it has set it
  (\<open>exec_step_locals\<close>), so the value does not matter.
\<close>

definition exec_step :: "'w traps \<Rightarrow> 'w xst \<Rightarrow> 'w xst option" where
  "exec_step T x =
     do { (b, x) \<leftarrow> fetch8_local T x;
          exec_op T (opcode_of b (uOpcodeMod x)) x }"

partial_function (option) exec_loop :: "'w traps \<Rightarrow> 'w xst \<Rightarrow> 'w xst option option" where
  [code]: "exec_loop T x =
     (if Cycles (pCpu x) > 0
      then (case exec_step T x of None \<Rightarrow> Some None | Some x' \<Rightarrow> exec_loop T x')
      else Some (Some x))"

definition exec_enter :: "'w SNCpuT \<Rightarrow> 'w xst" where
  "exec_enter c = SNCPU_UNPACKFLAGS
     \<lparr>pCpu = c, l_rPC = rPC (Regs c), uOpcodeMod = 0, l_DPMASK = 0, fN = 0, fZ = 0, fC = 0,
      l_t0 = 0, l_t1 = 0, l_t2 = 0\<rparr>"

definition exec_leave :: "'w xst \<Rightarrow> 'w SNCpuT" where
  "exec_leave x = (let x = SNCPU_PACKFLAGS x in pCpu (upd_regs (\<lambda>r. r\<lparr>rPC := l_rPC x\<rparr>) x))"

definition SNCPUExecute_C :: "'w traps \<Rightarrow> 'w SNCpuT \<Rightarrow> 'w SNCpuT option option" where
  "SNCPUExecute_C T c = map_option (map_option exec_leave) (exec_loop T (exec_enter c))"

section \<open>Labels\<close>

text \<open>
  The labels of the 65816 switch, those of the header and those written out in
  \<^verbatim>\<open>sncpu_c.c\<close> together: every opcode in every mode has exactly one, except
  \<^verbatim>\<open>WDM\<close> (\<^verbatim>\<open>0x42\<close>) and \<^verbatim>\<open>STP\<close> (\<^verbatim>\<open>0xDB\<close>), which are left to the
  default branch.
\<close>

definition unimplemented :: "nat list list" where
  "unimplemented = [SNCPU_OP_ALL 0x42, SNCPU_OP_ALL 0xDB]"

definition all_labels :: "nat list list" where
  "all_labels = map fst op65816 @ map fst hand_cases @ unimplemented"

lemmas all_labels_defs = all_labels_def unimplemented_def op65816_def op65816_move_def op65816_move_defs
  op65816_arith_def op65816_arith_defs op65816_logic_def op65816_logic_defs
  hand_cases_def SNCPU_OP_ALL_def SNCPU_OP_X0_def SNCPU_OP_X1E1_def

lemma labels_page0: "consecutive 0 (page_labels 0 all_labels)" "length (page_labels 0 all_labels) = 256"
  by (simp_all add: all_labels_defs page_labels_def del: One_nat_def)

lemma labels_page1: "consecutive 256 (page_labels 1 all_labels)" "length (page_labels 1 all_labels) = 256"
  by (simp_all add: all_labels_defs page_labels_def del: One_nat_def)

lemma labels_page2: "consecutive 512 (page_labels 2 all_labels)" "length (page_labels 2 all_labels) = 256"
  by (simp_all add: all_labels_defs page_labels_def del: One_nat_def)

lemma labels_page3: "consecutive 768 (page_labels 3 all_labels)" "length (page_labels 3 all_labels) = 256"
  by (simp_all add: all_labels_defs page_labels_def del: One_nat_def)

lemma labels_page4: "consecutive 1024 (page_labels 4 all_labels)" "length (page_labels 4 all_labels) = 256"
  by (simp_all add: all_labels_defs page_labels_def del: One_nat_def)

lemma labels_range: "list_all (list_all (\<lambda>k. k < 1280)) all_labels"
  by (simp add: all_labels_defs)

lemma labels_once: "count (mset (concat all_labels)) k = (if k < 1280 then 1 else 0)"
proof (cases "k < 1280")
  case True
  then have "k div 256 \<in> {0, 1, 2, 3, 4}" by auto
  then show ?thesis
    using True page_labels_count [OF labels_page0] page_labels_count [OF labels_page1]
      page_labels_count [OF labels_page2] page_labels_count [OF labels_page3] page_labels_count [OF labels_page4]
    by auto
next
  case False
  with labels_range have "k \<notin> set (concat all_labels)"
    by (auto simp: list_all_iff)
  with False show ?thesis by (simp add: count_mset_0_iff)
qed

lemma labels_mset: "mset (concat all_labels) = mset [0..<1280]"
  by (rule multiset_eqI) (simp add: labels_once count_mset_0_iff distinct_count_atmost_1 [THEN iffD1])

text \<open>So a handler of the table is found under each of its labels.\<close>

lemma op65816_distinct: "distinct (concat (map fst op65816))"
proof -
  have "distinct (concat all_labels)"
    using labels_mset by (metis distinct_upt mset_eq_imp_distinct_iff)
  then show ?thesis by (simp add: all_labels_def)
qed

lemma switch_case: "(ls, us) \<in> set op65816 \<Longrightarrow> k \<in> set ls \<Longrightarrow> find_case op65816 k = Some us"
  by (rule find_case_unique [OF op65816_distinct])

end
