(* ===== verification/C_Integers.thy ===== *)
theory C_Integers
  imports Prelude
begin

text \<open>
  Machine integers: upper bounds of words, words as signed numbers, and signed C integers.
\<close>

section \<open>Bounds\<close>

text \<open>
  Upper bounds of 32-bit values, as the static checks of the instruction handlers compute them: the
  largest value, and the bounds of the bitwise operations and shifts.
\<close>

definition btop :: nat where "btop = 0xFFFFFFFF"

definition orb :: "nat \<Rightarrow> nat \<Rightarrow> nat" where
  "orb m n = (if m \<le> 0xFF \<and> n \<le> 0xFF then 0xFF else if m \<le> 0xFFFF \<and> n \<le> 0xFFFF then 0xFFFF
              else if m \<le> 0xFFFFFF \<and> n \<le> 0xFFFFFF then 0xFFFFFF else btop)"

lemma add_bound: "unat (v :: u32) \<le> m \<Longrightarrow> unat w \<le> n \<Longrightarrow> unat (v + w) \<le> m + n"
  by (rule order_trans [of _ "unat v + unat w"]) (simp_all add: unat_word_ariths add_mono)

lemma orb_bound:
  fixes v w :: u32
  assumes "unat v \<le> m" and "unat w \<le> n"
  shows "unat (v OR w) \<le> orb m n" "unat (v XOR w) \<le> orb m n"
proof -
  have "unat (v OR w) < 2 ^ k \<and> unat (v XOR w) < 2 ^ k" if "m < 2 ^ k" "n < 2 ^ k" for k
    using assms that by (intro conjI or_lt_two_power xor_lt_two_power) simp_all
  from this [of 8] this [of 16] this [of 24]
  have "unat (v OR w) \<le> orb m n \<and> unat (v XOR w) \<le> orb m n"
    using unat_u32_le [of "v OR w"] unat_u32_le [of "v XOR w"] by (auto simp: orb_def btop_def)
  then show "unat (v OR w) \<le> orb m n" "unat (v XOR w) \<le> orb m n" by simp_all
qed

lemma shl_bound: "unat (v :: u32) \<le> m \<Longrightarrow> unat (push_bit n v) \<le> (if m * 2 ^ n \<le> btop then m * 2 ^ n else btop)"
proof -
  assume "unat v \<le> m"
  then have "unat v * 2 ^ n \<le> m * 2 ^ n" by simp
  moreover have "unat (push_bit n v) \<le> unat v * 2 ^ n"
    unfolding unsigned_push_bit_eq push_bit_eq_mult [of n "unat v"] by (rule take_bit_nat_less_eq_self)
  ultimately have "unat (push_bit n v) \<le> m * 2 ^ n" by (rule order_trans [rotated])
  then show ?thesis using unat_u32_le [of "push_bit n v"] by (simp add: btop_def)
qed

lemma shr_bound: "unat (v :: u32) \<le> m \<Longrightarrow> unat (drop_bit n v) \<le> m div 2 ^ n"
  unfolding unsigned_drop_bit_eq drop_bit_eq_div [where 'a=nat]
  by (auto intro!: div_le_mono intro: order_trans [OF take_bit_nat_less_eq_self])

section \<open>Words read as signed integers\<close>

text \<open>
  Machine words read as signed integers and as indices: what \<^verbatim>\<open>Int32\<close>, \<^verbatim>\<open>Int16\<close>
  and the masks of the C sources come to in arithmetic.
\<close>

lemma sint_word: "sint w = (if uint w < 2 ^ (LENGTH('a) - 1) then uint w else uint w - 2 ^ LENGTH('a))"
  for w :: "'a::len word"
proof -
  obtain n where n: "LENGTH('a) = Suc n" by (metis len_gt_0 Suc_pred')
  have u: "0 \<le> uint w" "uint w < 2 * 2 ^ n" using uint_bounded [of w] by (auto simp: n)
  have "sint w = (uint w + 2 ^ n) mod (2 * 2 ^ n) - 2 ^ n"
    by (simp add: sint_uint signed_take_bit_eq_take_bit_shift take_bit_eq_mod n)
  moreover have "(uint w + 2 ^ n) mod (2 * 2 ^ n) = (if uint w < 2 ^ n then uint w + 2 ^ n else uint w - 2 ^ n)"
  proof (cases "uint w < 2 ^ n")
    case False
    have "(uint w + 2 ^ n) mod (2 * 2 ^ n) = (uint w - 2 ^ n + 1 * (2 * 2 ^ n)) mod (2 * 2 ^ n)" by (simp add: ac_simps)
    also have "\<dots> = (uint w - 2 ^ n) mod (2 * 2 ^ n)" by (rule mod_mult_self1)
    also have "\<dots> = uint w - 2 ^ n" using u False by (intro mod_pos_pos_trivial) auto
    finally show ?thesis using False by simp
  qed (use u in \<open>simp add: mod_pos_pos_trivial\<close>)
  ultimately show ?thesis by (auto simp: n)
qed

lemma sint_small: "unat w < 2 ^ (LENGTH('a) - 1) \<Longrightarrow> sint w = int (unat w)" for w :: "'a::len word"
proof -
  assume "unat w < 2 ^ (LENGTH('a) - 1)"
  then have "int (unat w) < 2 ^ (LENGTH('a) - 1)" by (metis of_nat_less_numeral_power_cancel_iff of_nat_numeral)
  then have "uint w < 2 ^ (LENGTH('a) - 1)" by simp
  then show ?thesis by (simp add: sint_word)
qed

lemma sint_u32_small: "unat w < 2147483648 \<Longrightarrow> sint w = int (unat w)" for w :: u32
  by (rule sint_small) simp

lemma unat_and_127: "unat (w AND 127) = unat w mod 128" for w :: u32
  using unat_and_mask [of w 7] by (simp add: mask_eq_exp_minus_1)

section \<open>Signed C integers\<close>

text \<open>
  Signed C integers as integers: conversion to 16 and 32 bits, clamping, and shifts. A right shift of
  a negative number rounds down on the compilers the program is written for. Where an intermediate
  result provably fits, the definitions use plain integer arithmetic.
\<close>

definition to_Int8 :: "int \<Rightarrow> int" where "to_Int8 v = signed_take_bit 7 v"
definition to_Int16 :: "int \<Rightarrow> int" where "to_Int16 v = signed_take_bit 15 v"
definition to_Int32 :: "int \<Rightarrow> int" where "to_Int32 v = signed_take_bit 31 v"

definition clamp16 :: "int \<Rightarrow> int" where
  "clamp16 v = (if v > 0x7FFF then 0x7FFF else if v < -0x8000 then -0x8000 else v)"

text \<open>Reading a byte register as \<^verbatim>\<open>Int8\<close>.\<close>

definition Int8_of :: "8 word \<Rightarrow> int" where "Int8_of b = to_Int8 (uint b)"

lemma to_Int16_range: "-0x8000 \<le> to_Int16 v" "to_Int16 v \<le> 0x7FFF"
proof -
  show "-0x8000 \<le> to_Int16 v"
    using signed_take_bit_int_greater_eq_minus_exp [of 15 v] by (simp add: to_Int16_def)
  show "to_Int16 v \<le> 0x7FFF"
    using signed_take_bit_int_less_exp [of 15 v] by (simp add: to_Int16_def)
qed

lemma to_Int32_range: "-0x80000000 \<le> to_Int32 v" "to_Int32 v \<le> 0x7FFFFFFF"
  using signed_take_bit_int_greater_eq_minus_exp [of 31 v] signed_take_bit_int_less_exp [of 31 v]
  by (simp_all add: to_Int32_def)

lemma to_Int16_id: "-0x8000 \<le> v \<Longrightarrow> v \<le> 0x7FFF \<Longrightarrow> to_Int16 v = v"
  by (simp add: to_Int16_def signed_take_bit_int_eq_self)

lemma to_Int32_id: "-0x80000000 \<le> v \<Longrightarrow> v \<le> 0x7FFFFFFF \<Longrightarrow> to_Int32 v = v"
  by (simp add: to_Int32_def signed_take_bit_int_eq_self)

lemma to_Int16_even: "even (to_Int16 v) = even v"
  using bit_signed_take_bit_iff [of 15 v 0] by (simp add: to_Int16_def bit_0)

lemma clamp16_range: "-0x8000 \<le> clamp16 v" "clamp16 v \<le> 0x7FFF"
  by (simp_all add: clamp16_def)

lemma Int8_of_range: "-128 \<le> Int8_of b" "Int8_of b \<le> 127"
  using signed_take_bit_int_greater_eq_minus_exp [of 7 "uint b"] signed_take_bit_int_less_exp [of 7 "uint b"]
  by (simp_all add: Int8_of_def to_Int8_def)

text \<open>An arithmetic shift right is a division that rounds down.\<close>

lemma drop_bit_int_bounds: "2 ^ n * drop_bit n v \<le> v" "v < 2 ^ n * drop_bit n v + 2 ^ n" for v :: int
proof -
  have "v = 2 ^ n * drop_bit n v + v mod 2 ^ n" by (simp add: drop_bit_eq_div)
  moreover have "0 \<le> v mod 2 ^ n" "v mod 2 ^ n < 2 ^ n" by simp_all
  ultimately show "2 ^ n * drop_bit n v \<le> v" "v < 2 ^ n * drop_bit n v + 2 ^ n" by linarith+
qed

end
