(* ===== verification/Sn_Cpu_Safe.thy ===== *)
theory Sn_Cpu_Safe
  imports Sn_Cpu_Exec C_Integers
begin

text \<open>
  A static check of the instruction handlers. It bounds the temporaries and the program counter
  before every macro and accepts a memory macro only when its whole access lies below
  \<^verbatim>\<open>SNCPU_MEM_SIZE\<close>, the end of the bank table. The check is proved sound for every client
  that meets the contract of the traps; the table of handlers passes it by evaluation.
\<close>

section \<open>Bounds\<close>

record bnd =
  bt0 :: nat
  bt1 :: nat
  bt2 :: nat
  bPC :: nat
  bnz :: bool

fun bget :: "treg \<Rightarrow> bnd \<Rightarrow> nat" where
  "bget R_t0 b = bt0 b"
| "bget R_t1 b = bt1 b"
| "bget R_t2 b = bt2 b"

fun bset :: "treg \<Rightarrow> nat \<Rightarrow> bnd \<Rightarrow> bnd" where
  "bset R_t0 n b = b\<lparr>bt0 := n\<rparr>"
| "bset R_t1 n b = b\<lparr>bt1 := n\<rparr>"
| "bset R_t2 n b = b\<lparr>bt2 := n\<rparr>"

fun wlen :: "width \<Rightarrow> nat" where
  "wlen W8 = 1" | "wlen W16 = 2" | "wlen W24 = 3"

fun wmax :: "width \<Rightarrow> nat" where
  "wmax W8 = 0xFF" | "wmax W16 = 0xFFFF" | "wmax W24 = 0xFFFFFF"

fun bsrc :: "src \<Rightarrow> bnd \<Rightarrow> nat" where
  "bsrc (Tmp t) b = bget t b"
| "bsrc R_DB b = 0xFFFFFF"
| "bsrc _ b = 0xFFFF"

fun balu :: "alu \<Rightarrow> nat \<Rightarrow> nat \<Rightarrow> nat" where
  "balu AluADD m n = (if m + n \<le> btop then m + n else btop)"
| "balu AluSUB m n = btop"
| "balu AluOR m n = orb m n"
| "balu AluXOR m n = orb m n"
| "balu AluAND m n = min m n"

fun breg :: "reg \<Rightarrow> nat" where
  "breg A8 = 0xFF" | "breg X8 = 0xFF" | "breg Y8 = 0xFF" | "breg S8 = 0xFF"
| "breg A16 = 0xFFFF" | "breg X16 = 0xFFFF" | "breg Y16 = 0xFFFF" | "breg S16 = 0xFFFF"
| "breg DP = 0xFFFF" | "breg DB = 0xFFFFFF"

definition mem_limit :: nat where "mem_limit = 0x1010000"

primrec ab_uop :: "uop \<Rightarrow> bnd \<Rightarrow> bnd option" where
  "ab_uop (SNCPU_SUBCYCLES n) b = Some b"
| "ab_uop (SNCPU_ENDOP n) b = Some b"
| "ab_uop (FETCH w t) b =
     (if bPC b + wlen w \<le> mem_limit then Some (bset t (wmax w) (b\<lparr>bPC := bPC b + wlen w, bnz := True\<rparr>))
      else None)"
| "ab_uop (WRITE w a d) b = (if w \<noteq> W24 \<and> bget a b + wlen w \<le> mem_limit then Some b else None)"
| "ab_uop (READ w a t) b = (if bget a b + wlen w \<le> mem_limit then Some (bset t (wmax w) b) else None)"
| "ab_uop (PUSH w d) b = Some b"
| "ab_uop (POP w t) b = Some (bset t (wmax w) b)"
| "ab_uop (SET r t) b = (if r = DB \<and> bget t b > 0xFFFFFF then None else Some b)"
| "ab_uop (GET r t) b = Some (bset t (breg r) b)"
| "ab_uop (SNCPU_GETI t i) b = Some (bset t (unat i) b)"
| "ab_uop (SNCPU_GET_PC t) b = Some (bset t (bPC b) b)"
| "ab_uop (SNCPU_SET_PC16 t) b =
     (if bnz b then Some (b\<lparr>bPC := orb (bPC b) (bget t b), bnz := False\<rparr>) else None)"
| "ab_uop (SNCPU_SET_PC24 t) b = Some (b\<lparr>bPC := 0xFFFFFF, bnz := False\<rparr>)"
| "ab_uop (SNCPU_SET_P t) b = Some b"
| "ab_uop (SNCPU_GET_P t) b = Some (bset t 0xFF b)"
| "ab_uop (SETFLAG f t) b = Some b"
| "ab_uop (SNCPU_SETFLAGI_C i) b = Some b"
| "ab_uop (SNCPU_SETFLAGI_V i) b = Some b"
| "ab_uop (SNCPU_GETFLAG_C t) b = Some (bset t 1 b)"
| "ab_uop (SNCPU_GETFLAG_E t) b = Some (bset t 0xFF b)"
| "ab_uop (SNCPU_SETFLAG_E t) b = Some b"
| "ab_uop (SETBIT v) b = (if v AND 0x30 = 0 then Some b else None)"
| "ab_uop (CLRBIT v) b = (if v AND 0x30 = 0 then Some b else None)"
| "ab_uop (ALU k t s) b = Some (bset t (balu k (bget t b) (bsrc s b)) b)"
| "ab_uop (ALUI k t i) b = Some (bset t (balu k (bget t b) (unat i)) b)"
| "ab_uop (SNCPU_SHLI t n) b =
     Some (bset t (if bget t b * 2 ^ n \<le> btop then bget t b * 2 ^ n else btop) b)"
| "ab_uop (SNCPU_SHRI t n) b = Some (bset t (bget t b div 2 ^ n) b)"
| "ab_uop (ADDER k d s) b = Some (bset d btop b)"

lemma wlen_pos [simp]: "0 < wlen w"
  by (cases w) simp_all

text \<open>
  The state at the start of a handler: anything in the temporaries, and a program counter from
  which the three bytes after the opcode lie in the address space.
\<close>

definition pc_limit :: nat where "pc_limit = 0xFFFFFC"

definition bstart :: bnd where
  "bstart = \<lparr>bt0 = btop, bt1 = btop, bt2 = btop, bPC = pc_limit + 1, bnz = True\<rparr>"

definition handler_ok :: "uop list \<Rightarrow> bool" where
  "handler_ok us = (check_ops ab_uop us bstart \<noteq> None)"


lemmas check_defs = flag_defs handler_ok_def bstart_def pc_limit_def btop_def orb_def mem_limit_def

lemma handlers_ok_move: "list_all (\<lambda>(ls, us). handler_ok us) op65816_move"
  by (simp add: op65816_move_def op65816_move_defs check_defs)

lemma handlers_ok_arith: "list_all (\<lambda>(ls, us). handler_ok us) op65816_arith"
  by (simp add: op65816_arith_def op65816_arith_defs check_defs)

lemma handlers_ok_logic: "list_all (\<lambda>(ls, us). handler_ok us) op65816_logic"
  by (simp add: op65816_logic_def op65816_logic_defs check_defs)

section \<open>Soundness\<close>

text \<open>
  What a memory macro keeps of the processor: the machine invariant, the data bank register, the
  mode and the flags, and that the cycle counter is not refilled.
\<close>

definition keeps :: "('w \<Rightarrow> (nat \<Rightarrow> SNCpuBankT) \<Rightarrow> ptr set \<Rightarrow> bool) \<Rightarrow> 'w SNCpuT \<Rightarrow> 'w SNCpuT \<Rightarrow> bool" where
  "keeps winv c c' \<longleftrightarrow> machine_ok winv c' \<and> rDB (Regs c') = rDB (Regs c) \<and> rE (Regs c') = rE (Regs c)
     \<and> rP (Regs c') = rP (Regs c) \<and> nat (Cycles c') \<le> nat (Cycles c)"

lemma access_keeps: "access winv c c' \<Longrightarrow> keeps winv c c'"
  by (simp add: access_def keeps_def)

lemma keeps_trans: "keeps winv c c' \<Longrightarrow> keeps winv c' c'' \<Longrightarrow> keeps winv c c''"
  by (auto simp: keeps_def)

lemma unat_plus_1: "unat (a :: u32) + 2 \<le> 0x1010000 \<Longrightarrow> unat (a + 1) = unat a + 1"
  and unat_plus_2: "unat (a :: u32) + 3 \<le> 0x1010000 \<Longrightarrow> unat (a + 2) = unat a + 2"
  by (simp_all add: unat_word_ariths)

lemma unat_plus_wlen: "unat (a :: u32) + n \<le> 0x1010000 \<Longrightarrow> unat (a + of_nat n) = unat a + n"
  by (simp add: unat_word_ariths unat_of_nat)

lemma uu_accesses:
  "uu_SNCPURead8 = SNCPURead8" "uu_SNCPUFetch8 = SNCPURead8" "uu_SNCPUWrite8 = SNCPUWrite8"
  by (simp_all add: fun_eq_iff uu_SNCPURead8_def uu_SNCPUFetch8_def uu_SNCPUWrite8_def
      SNCPURead8_def SNCPUWrite8_def)

lemma SUBMEMCYCLES_ok:
  assumes "machine_ok winv c" and "unat a < 0x1010000"
  shows "returns (SNCPU_SUBMEMCYCLES a n c) (access winv c)"
proof -
  have "0 \<le> uint (uBankCycle (Bank c (bank_index a))) * int n"
    by simp
  with assms show ?thesis
    by (auto simp: SNCPU_SUBMEMCYCLES_def bank_at_Some access_def intro: nat_mono)
qed

lemma SUBMEMCYCLES_less:
  assumes "machine_ok winv c" and "unat a < 0x1010000" and "0 < n" and "0 < Cycles c"
  shows "returns (SNCPU_SUBMEMCYCLES a n c) (\<lambda>c'. access winv c c' \<and> nat (Cycles c') < nat (Cycles c))"
proof -
  have "bank_ok (hMem c) (bank_index a) (Bank c (bank_index a))"
    using assms by (simp add: machine_ok_def bus_okD)
  then have "uint (uBankCycle (Bank c (bank_index a))) \<noteq> 0"
    unfolding bank_ok_def by (metis unsigned_0 word_uint_eqI)
  then have "0 < uint (uBankCycle (Bank c (bank_index a))) * int n"
    using assms(3) by (simp add: order_le_neq_trans)
  then show ?thesis
    using assms by (auto simp: SNCPU_SUBMEMCYCLES_def bank_at_Some access_def)
qed

text \<open>Sequencing accesses: the processor is threaded through and every access keeps it.\<close>

lemma seq_access:
  assumes "returns m (\<lambda>(v, c1). access winv c c1)"
    and "\<And>v c1. access winv c c1 \<Longrightarrow> returns (f v c1) (\<lambda>(w, c2). access winv c1 c2)"
  shows "returns (m \<bind> (\<lambda>(v, c1). f v c1)) (\<lambda>(w, c2). access winv c c2)"
  by (rule returns_bind [OF assms(1)]) (auto intro!: returns_mono [OF assms(2)] intro: access_trans)

lemma seq_access_cpu:
  assumes "returns m (access winv c)"
    and "\<And>c1. access winv c c1 \<Longrightarrow> returns (f c1) (\<lambda>(w, c2). access winv c1 c2)"
  shows "returns (m \<bind> f) (\<lambda>(w, c2). access winv c c2)"
  by (rule returns_bind [OF assms(1)]) (auto intro!: returns_mono [OF assms(2)] intro: access_trans)

lemma seq_access_write:
  assumes "returns m (access winv c)"
    and "\<And>c1. access winv c c1 \<Longrightarrow> returns (f c1) (access winv c1)"
  shows "returns (m \<bind> f) (access winv c)"
  by (rule returns_bind [OF assms(1)]) (auto intro!: returns_mono [OF assms(2)] intro: access_trans)

lemma seq_keeps:
  assumes "returns m (keeps winv c)"
    and "\<And>c1. keeps winv c c1 \<Longrightarrow> returns (f c1) (keeps winv c1)"
  shows "returns (m \<bind> f) (keeps winv c)"
  by (rule returns_bind [OF assms(1)]) (auto intro!: returns_mono [OF assms(2)] intro: keeps_trans)

lemma seq_keeps_val:
  assumes "returns m (\<lambda>(v, c1). keeps winv c c1)"
    and "\<And>v c1. keeps winv c c1 \<Longrightarrow> returns (f v c1) (\<lambda>(w, c2). keeps winv c1 c2)"
  shows "returns (m \<bind> (\<lambda>(v, c1). f v c1)) (\<lambda>(w, c2). keeps winv c c2)"
  by (rule returns_bind [OF assms(1)]) (auto intro!: returns_mono [OF assms(2)] intro: keeps_trans)

lemma access_ok: "access winv c c' \<Longrightarrow> machine_ok winv c'"
  and keeps_ok: "keeps winv c c' \<Longrightarrow> machine_ok winv c'"
  by (simp_all add: access_def keeps_def)

lemma stack_addr: "unat (ucast (rS r) :: u32) < 0x1010000"
  using unat_u16_le [of "rS r"] by simp

lemma keeps_stack [simp]:
  "keeps winv c (c'\<lparr>Regs := stack_dec (Regs c')\<rparr>) = keeps winv c c'"
  "keeps winv c (c'\<lparr>Regs := stack_inc (Regs c')\<rparr>) = keeps winv c c'"
  by (simp_all add: keeps_def stack_dec_def stack_inc_def)

lemma keeps_slow: "machine_ok winv c \<Longrightarrow> keeps winv c (SNCPU_SUBCYCLESSLOW n c)"
  by (auto simp: keeps_def SNCPU_SUBCYCLESSLOW_def SNCPU_CYCLE_SLOW_def intro: nat_mono)

lemma keeps_sub: "machine_ok winv c \<Longrightarrow> keeps winv c (SNCPU_SUBCYCLES_c n c)"
  by (auto simp: keeps_def SNCPU_SUBCYCLES_c_def SNCPU_CYCLE_FAST_def intro: nat_mono)

context trap_contract begin

lemma u_Read8_ok:
  assumes "machine_ok winv c" and "unat a + 1 \<le> 0x1010000"
  shows "returns (u_SNCPURead8 T c a) (\<lambda>(v, c'). access winv c c')"
proof -
  have a: "unat a < 0x1010000" using assms(2) by simp
  show ?thesis
    unfolding u_SNCPURead8_def uu_accesses
    by (intro seq_access_cpu SUBMEMCYCLES_ok read8_ok assms a) (auto dest: access_ok)
qed

lemma u_Read16_ok:
  assumes "machine_ok winv c" and "unat a + 2 \<le> 0x1010000"
  shows "returns (u_SNCPURead16 T c a) (\<lambda>(v, c'). access winv c c')"
proof -
  have a: "unat a < 0x1010000" "unat (a + 1) < 0x1010000"
    using assms(2) by (simp_all add: unat_plus_1)
  show ?thesis
    unfolding u_SNCPURead16_def uu_accesses
    by (intro seq_access_cpu seq_access SUBMEMCYCLES_ok read8_ok assms a)
      (auto dest: access_ok intro: access_refl)
qed

lemma u_Read24_ok:
  assumes "machine_ok winv c" and "unat a + 3 \<le> 0x1010000"
  shows "returns (u_SNCPURead24 T c a) (\<lambda>(v, c'). access winv c c')"
proof -
  have a: "unat a < 0x1010000" "unat (a + 0) < 0x1010000" "unat (a + 1) < 0x1010000" "unat (a + 2) < 0x1010000"
    using assms(2) by (simp_all add: unat_plus_1 unat_plus_2)
  show ?thesis
    unfolding u_SNCPURead24_def uu_accesses
    by (intro seq_access_cpu seq_access SUBMEMCYCLES_ok read8_ok assms a)
      (auto dest: access_ok intro: access_refl)
qed

lemma u_Fetch_Read:
  "u_SNCPUFetch8 = u_SNCPURead8" "u_SNCPUFetch16 = u_SNCPURead16" "u_SNCPUFetch24 = u_SNCPURead24"
  by (simp_all add: fun_eq_iff u_SNCPUFetch8_def u_SNCPURead8_def u_SNCPUFetch16_def u_SNCPURead16_def
      u_SNCPUFetch24_def u_SNCPURead24_def uu_accesses)

lemma u_Write8_ok:
  assumes "machine_ok winv c" and "unat a + 1 \<le> 0x1010000"
  shows "returns (u_SNCPUWrite8 T c a v) (access winv c)"
proof -
  have a: "unat a < 0x1010000" "unat (a + 0) < 0x1010000" using assms(2) by simp_all
  show ?thesis
    unfolding u_SNCPUWrite8_def uu_accesses
    by (intro seq_access_write SUBMEMCYCLES_ok write8_ok assms a) (auto dest: access_ok)
qed

lemma u_Write16_ok:
  assumes "machine_ok winv c" and "unat a + 2 \<le> 0x1010000"
  shows "returns (u_SNCPUWrite16 T c a v) (access winv c)"
proof -
  have a: "unat a < 0x1010000" "unat (a + 0) < 0x1010000" "unat (a + 1) < 0x1010000"
    using assms(2) by (simp_all add: unat_plus_1)
  show ?thesis
    unfolding u_SNCPUWrite16_def uu_accesses
    by (intro seq_access_write SUBMEMCYCLES_ok write8_ok assms a) (auto dest: access_ok)
qed

lemma u_Push8_ok: "machine_ok winv c \<Longrightarrow> returns (u_SNCPUPush8 T c v) (keeps winv c)"
  unfolding u_SNCPUPush8_def uu_accesses Let_def
  by (rule returns_bind [OF write8_ok [OF keeps_ok [OF keeps_slow] stack_addr]])
    (auto intro: keeps_trans [OF keeps_slow] access_keeps)

lemma u_Push16_ok: "machine_ok winv c \<Longrightarrow> returns (u_SNCPUPush16 T c v) (keeps winv c)"
  unfolding u_SNCPUPush16_def by (intro seq_keeps u_Push8_ok) (auto dest: keeps_ok)

lemma u_Push24_ok: "machine_ok winv c \<Longrightarrow> returns (u_SNCPUPush24 T c v) (keeps winv c)"
  unfolding u_SNCPUPush24_def by (intro seq_keeps u_Push8_ok) (auto dest: keeps_ok)

lemma u_Pop8_ok:
  assumes "machine_ok winv c"
  shows "returns (u_SNCPUPop8 T c) (\<lambda>(v, c'). keeps winv c c')"
proof -
  let ?c = "SNCPU_SUBCYCLESSLOW 1 (c\<lparr>Regs := stack_inc (Regs c)\<rparr>)"
  have 1: "keeps winv c ?c"
    by (rule keeps_trans [OF _ keeps_slow]) (use assms in \<open>simp_all add: keeps_def stack_inc_def\<close>)
  show ?thesis
    unfolding u_SNCPUPop8_def uu_accesses Let_def
    by (rule returns_prod_mono [OF read8_ok [OF keeps_ok [OF 1] stack_addr]])
      (auto simp del: One_nat_def intro: keeps_trans [OF 1] access_keeps)
qed

lemma u_Pop16_ok: "machine_ok winv c \<Longrightarrow> returns (u_SNCPUPop16 T c) (\<lambda>(v, c'). keeps winv c c')"
  unfolding u_SNCPUPop16_def by (intro seq_keeps_val u_Pop8_ok) (auto dest: keeps_ok simp: keeps_def)

lemma u_Pop24_ok: "machine_ok winv c \<Longrightarrow> returns (u_SNCPUPop24 T c) (\<lambda>(v, c'). keeps winv c c')"
  unfolding u_SNCPUPop24_def by (intro seq_keeps_val u_Pop8_ok) (auto dest: keeps_ok simp: keeps_def)

end

section \<open>Every macro respects its bounds\<close>

text \<open>
  The interpreter state is well-formed: the data bank register is a bank address, the carry is one
  bit, and the decoder's mode bits and the direct page mask are those of the flags register.
\<close>

definition cpu_ok :: "('w \<Rightarrow> (nat \<Rightarrow> SNCpuBankT) \<Rightarrow> ptr set \<Rightarrow> bool) \<Rightarrow> 'w SNCpuT \<Rightarrow> bool" where
  "cpu_ok winv c \<longleftrightarrow> machine_ok winv c \<and> unat (rDB (Regs c)) \<le> 0xFFFFFF"

definition mode_bits :: "SNCpuRegsT \<Rightarrow> u32" where
  "mode_bits r = (if rE r \<noteq> 0 then 0x400 else push_bit 4 (ucast (rP r)) AND 0x300)"

definition in_mode :: "'w xst \<Rightarrow> bool" where
  "in_mode x \<longleftrightarrow> uOpcodeMod x = mode_bits (Regs (pCpu x))
     \<and> l_DPMASK x = (if rE (Regs (pCpu x)) \<noteq> 0 then 0x00FF else 0xFFFF)"

definition xst_ok :: "('w \<Rightarrow> (nat \<Rightarrow> SNCpuBankT) \<Rightarrow> ptr set \<Rightarrow> bool) \<Rightarrow> 'w xst \<Rightarrow> bool" where
  "xst_ok winv x \<longleftrightarrow> cpu_ok winv (pCpu x) \<and> fC x AND 1 = fC x \<and> in_mode x"

lemma in_mode_upd [simp]:
  "in_mode (x\<lparr>l_rPC := p\<rparr>) = in_mode x" "in_mode (x\<lparr>fC := n\<rparr>) = in_mode x"
  "in_mode (x\<lparr>fZ := n\<rparr>) = in_mode x" "in_mode (x\<lparr>fN := n\<rparr>) = in_mode x"
  "in_mode (x\<lparr>l_t0 := n\<rparr>) = in_mode x" "in_mode (x\<lparr>l_t1 := n\<rparr>) = in_mode x"
  "in_mode (x\<lparr>l_t2 := n\<rparr>) = in_mode x"
  by (simp_all add: in_mode_def)

lemma in_mode_cpu [simp]: "Regs c = Regs (pCpu x) \<Longrightarrow> in_mode (x\<lparr>pCpu := c\<rparr>) = in_mode x"
  by (simp add: in_mode_def)

lemma cpu_ok_P [simp]: "cpu_ok winv (c\<lparr>Regs := (Regs c)\<lparr>rP := p\<rparr>\<rparr>) = cpu_ok winv c"
  by (simp add: cpu_ok_def)

lemma xst_okD: "xst_ok winv x \<Longrightarrow> machine_ok winv (pCpu x)"
  by (simp add: xst_ok_def cpu_ok_def)

text \<open>Only the bits M and X of the flags register enter the mode.\<close>

lemma mode_bits_cong:
  assumes "rE r' = rE r" and "rP r' AND 0x30 = rP r AND 0x30"
  shows "mode_bits r' = mode_bits r"
proof -
  have "push_bit 4 (ucast p) AND (0x300 :: u32) = push_bit 4 (ucast (p AND 0x30))" for p :: u8
  proof -
    have "(0x300 :: u32) = push_bit 4 (ucast (0x30 :: u8))" by simp
    then show ?thesis by (simp only: push_bit_and [symmetric] unsigned_and_eq)
  qed
  with assms show ?thesis by (simp add: mode_bits_def)
qed

lemma one_bit: "(c :: u32) AND 1 = c \<Longrightarrow> c = 0 \<or> c = 1"
  by (simp add: and_one_eq) (metis of_bool_def parity_cases mod2_eq_if)

lemma carry_mode: "c AND 1 = c \<Longrightarrow> ucast (c :: u32) AND (0x30 :: u8) = 0"
  using one_bit by fastforce

lemma sign_mode: "(ucast (c AND 0x80 :: u32) :: u8) AND 0x30 = 0"
proof -
  have "(ucast (c AND 0x80 :: u32) :: u8) = ucast c AND 0x80" by (simp add: unsigned_and_eq)
  then show ?thesis by (simp add: and.assoc)
qed

definition locals_in :: "bnd \<Rightarrow> 'w xst \<Rightarrow> bool" where
  "locals_in b x \<longleftrightarrow> unat (l_t0 x) \<le> bt0 b \<and> unat (l_t1 x) \<le> bt1 b \<and> unat (l_t2 x) \<le> bt2 b
     \<and> unat (l_rPC x) \<le> bPC b \<and> (bnz b \<longrightarrow> l_rPC x \<noteq> 0)"

definition within :: "('w \<Rightarrow> (nat \<Rightarrow> SNCpuBankT) \<Rightarrow> ptr set \<Rightarrow> bool) \<Rightarrow> bnd \<Rightarrow> 'w xst \<Rightarrow> bool" where
  "within winv b x \<longleftrightarrow> xst_ok winv x \<and> locals_in b x"

definition cyc_le :: "'w xst \<Rightarrow> 'w xst \<Rightarrow> bool" where
  "cyc_le x x' \<longleftrightarrow> nat (Cycles (pCpu x')) \<le> nat (Cycles (pCpu x))"

lemma cyc_le_refl [simp]: "cyc_le x x"
  and cyc_le_trans: "cyc_le x y \<Longrightarrow> cyc_le y z \<Longrightarrow> cyc_le x z"
  by (simp_all add: cyc_le_def)

lemma bget_bound: "locals_in b x \<Longrightarrow> unat (get_t t x) \<le> bget t b"
  by (cases t) (simp_all add: locals_in_def)

lemma set_t_simps [simp]:
  "pCpu (set_t t v x) = pCpu x" "l_rPC (set_t t v x) = l_rPC x" "l_DPMASK (set_t t v x) = l_DPMASK x"
  "fC (set_t t v x) = fC x" "fN (set_t t v x) = fN x" "fZ (set_t t v x) = fZ x"
  "uOpcodeMod (set_t t v x) = uOpcodeMod x"
  by (cases t; simp)+

lemma upd_regs_simps [simp]:
  "pCpu (upd_regs f x) = (pCpu x)\<lparr>Regs := f (Regs (pCpu x))\<rparr>" "l_rPC (upd_regs f x) = l_rPC x"
  "l_DPMASK (upd_regs f x) = l_DPMASK x" "fC (upd_regs f x) = fC x" "fN (upd_regs f x) = fN x"
  "fZ (upd_regs f x) = fZ x" "uOpcodeMod (upd_regs f x) = uOpcodeMod x"
  "l_t0 (upd_regs f x) = l_t0 x" "l_t1 (upd_regs f x) = l_t1 x" "l_t2 (upd_regs f x) = l_t2 x"
  by (simp_all add: upd_regs_def)

lemma within_set_t: "within winv b x \<Longrightarrow> unat v \<le> n \<Longrightarrow> within winv (bset t n b) (set_t t v x)"
  by (cases t) (auto simp: within_def xst_ok_def locals_in_def)

lemma in_mode_cong:
  assumes "in_mode x" and "uOpcodeMod x' = uOpcodeMod x" and "l_DPMASK x' = l_DPMASK x"
    and "rE (Regs (pCpu x')) = rE (Regs (pCpu x))"
    and "rP (Regs (pCpu x')) AND 0x30 = rP (Regs (pCpu x)) AND 0x30"
  shows "in_mode x'"
  using assms mode_bits_cong [OF assms(4,5)] by (simp add: in_mode_def)

lemma within_cpu: "within winv b x \<Longrightarrow> keeps winv (pCpu x) c \<Longrightarrow> within winv b (x\<lparr>pCpu := c\<rparr>)"
  by (auto simp: within_def xst_ok_def cpu_ok_def locals_in_def keeps_def elim: in_mode_cong)

lemma within_regs:
  "within winv b x \<Longrightarrow> unat (rDB (f (Regs (pCpu x)))) \<le> 0xFFFFFF \<Longrightarrow>
   rE (f (Regs (pCpu x))) = rE (Regs (pCpu x)) \<Longrightarrow>
   rP (f (Regs (pCpu x))) AND 0x30 = rP (Regs (pCpu x)) AND 0x30 \<Longrightarrow> within winv b (upd_regs f x)"
  by (auto simp: within_def xst_ok_def cpu_ok_def locals_in_def elim: in_mode_cong)

lemma within_DB: "within winv b x \<Longrightarrow> unat (rDB (Regs (pCpu x))) \<le> 0xFFFFFF"
  by (simp add: within_def xst_ok_def cpu_ok_def)

lemma within_machine: "within winv b x \<Longrightarrow> machine_ok winv (pCpu x)"
  by (simp add: within_def xst_okD)

lemma within_locals: "within winv b x \<Longrightarrow> locals_in b x"
  by (simp add: within_def)

lemma cyc_cpu: "keeps winv (pCpu x) c \<Longrightarrow> cyc_le x (set_t t v (x\<lparr>pCpu := c\<rparr>))"
  "keeps winv (pCpu x) c \<Longrightarrow> cyc_le x (x\<lparr>pCpu := c\<rparr>)"
  by (simp_all add: cyc_le_def keeps_def)

lemma bsrc_bound: "within winv b x \<Longrightarrow> unat (get_src s x) \<le> bsrc s b"
  by (cases s) (auto simp: within_def xst_ok_def cpu_ok_def in_mode_def bget_bound intro: unat_u16_le)

lemma balu_bound:
  assumes "unat v \<le> m" and "unat w \<le> n"
  shows "unat (alu_op k v w) \<le> balu k m n"
proof (cases k)
  case AluADD
  have "unat (v + w) \<le> unat v + unat w"
    by (simp add: unat_word_ariths)
  with AluADD assms unat_u32_le [of "v + w"] show ?thesis by (auto simp: btop_def)
next
  case AluSUB
  with unat_u32_le show ?thesis by (simp add: btop_def)
next
  case AluAND
  with assms and_le_left [of v w] and_le_right [of v w] show ?thesis by simp
qed (use orb_bound [OF assms] in simp_all)

lemma breg_bound: "unat (rDB r) \<le> 0xFFFFFF \<Longrightarrow> unat (get_reg k r) \<le> breg k"
  using unat_u8_le unat_u16_le by (cases k) (simp_all del: unat_u8_le unat_u16_le)

lemma join24_bound: "unat (join24 b h l) \<le> 0xFFFFFF"
proof -
  have "unat (ucast l OR push_bit 8 (ucast h) OR push_bit 16 (ucast b) :: u32) < 2 ^ 24"
    using unat_u8_le [of l] unat_u8_le [of h] unat_u8_le [of b]
      shl_bound [of "ucast h" 255 8] shl_bound [of "ucast b" 255 16]
    by (intro or_lt_two_power) (simp_all add: btop_def)
  then show ?thesis by (simp add: join24_def)
qed

text \<open>The flag macros change neither the bounds nor what the bounds speak of.\<close>

lemma SETFLAG_E_within:
  "cpu_ok winv (pCpu x) \<Longrightarrow> fC x AND 1 = fC x \<Longrightarrow> locals_in b x \<Longrightarrow> within winv b (SNCPU_SETFLAG_E_x e x)"
  by (auto simp: SNCPU_SETFLAG_E_x_def within_def xst_ok_def cpu_ok_def locals_in_def in_mode_def
      mode_bits_def SNCPU_OPCODE_E_def)

lemma flag_mode [simp]:
  "SNCPU_FLAG_Z AND 0x30 = 0" "(SNCPU_FLAG_C OR SNCPU_FLAG_Z OR SNCPU_FLAG_N) AND 0x30 = 0" "SNCPU_FLAG_V AND 0x30 = 0"
  by (simp_all add: flag_defs)

lemma PACKFLAGS_within: "within winv b x \<Longrightarrow> within winv b (SNCPU_PACKFLAGS x)"
  using and_NOT_disjoint [OF flag_mode(2), of "rP (Regs (pCpu x))"] unfolding SNCPU_PACKFLAGS_def
  by (intro within_regs)
    (auto simp: Let_def within_DB within_def xst_ok_def cpu_ok_def or_disjoint carry_mode sign_mode)

lemma clear_index_high_pre [simp]:
  "cpu_ok winv (pCpu (clear_index_high p x)) = cpu_ok winv (pCpu x)" "fC (clear_index_high p x) = fC x"
  "locals_in b (clear_index_high p x) = locals_in b x"
  by (simp_all add: clear_index_high_def cpu_ok_def locals_in_def)

lemma UNPACKFLAGS_within:
  assumes "cpu_ok winv (pCpu x)" and "locals_in b x"
  shows "within winv b (SNCPU_UNPACKFLAGS x)"
proof -
  have "ucast (p AND 1 :: u8) AND 1 = (ucast (p AND 1) :: u32)" for p
    by (rule bit_word_eqI) (auto simp: bit_simps bit_1_iff)
  with assms show ?thesis
    unfolding SNCPU_UNPACKFLAGS_def Let_def
    by (intro SETFLAG_E_within) (simp_all add: SNCPU_FLAG_C_def, simp add: locals_in_def)
qed

lemma flag_macros_Cycles [simp]:
  "Cycles (pCpu (SNCPU_SETFLAG_E_x e x)) = Cycles (pCpu x)"
  "Cycles (pCpu (SNCPU_PACKFLAGS x)) = Cycles (pCpu x)"
  "Cycles (pCpu (clear_index_high p x)) = Cycles (pCpu x)"
  "Cycles (pCpu (SNCPU_UNPACKFLAGS x)) = Cycles (pCpu x)"
  by (simp_all add: SNCPU_SETFLAG_E_x_def SNCPU_PACKFLAGS_def clear_index_high_def SNCPU_UNPACKFLAGS_def Let_def)

lemma add_macro_Cycles [simp]: "Cycles (pCpu (add_macro k d s x)) = Cycles (pCpu x)"
  by (simp add: add_macro_def Let_def)

lemma set_reg_mode [simp]: "rE (set_reg r v g) = rE g" "rP (set_reg r v g) = rP g"
  by (cases r; simp)+

lemma set_reg_DB: "rDB (set_reg r v g) = (if r = DB then v else rDB g)"
  by (cases r) simp_all

lemma set_V_mode: "rP (set_V v r) AND 0x30 = rP r AND 0x30"
proof -
  have "(ucast (push_bit 6 (v AND 1)) :: u8) AND 0x30 = 0"
    by (auto simp: and_one_eq mod2_eq_if)
  then show ?thesis by (simp add: set_V_def or_disjoint and_NOT_disjoint)
qed

lemma set_flag_within: "within winv b x \<Longrightarrow> within winv b (set_flag f v x)"
proof (cases f)
  case FlagV
  then show "within winv b x \<Longrightarrow> ?thesis" using set_V_mode [of v] by (auto simp: within_DB set_V_def intro!: within_regs)
qed (auto simp: within_def xst_ok_def locals_in_def in_mode_def)

lemma set_flag_Cycles [simp]: "Cycles (pCpu (set_flag f v x)) = Cycles (pCpu x)"
  by (cases f) simp_all

lemma lift_read_ok:
  assumes "returns m (\<lambda>(v, c). keeps winv (pCpu x) c)" and "within winv b x"
    and "\<And>v c. m = Some (v, c) \<Longrightarrow> unat (f v) \<le> n"
  shows "returns (lift_read t x f m) (\<lambda>x'. within winv (bset t n b) x' \<and> l_rPC x' = l_rPC x \<and> cyc_le x x')"
  using assms unfolding lift_read_def
  by (auto simp: returns_def intro!: within_set_t within_cpu cyc_cpu)

lemma lift_write_ok:
  assumes "returns m (keeps winv (pCpu x))" and "within winv b x"
  shows "returns (lift_write x m) (\<lambda>x'. within winv b x' \<and> cyc_le x x')"
  unfolding lift_write_def
  by (rule returns_bind [OF assms(1)]) (auto intro!: within_cpu assms cyc_cpu)

lemma bump_PC_within:
  assumes "within winv b x" and "bPC b + n \<le> mem_limit" and "0 < n"
  shows "within winv (b\<lparr>bPC := bPC b + n, bnz := True\<rparr>) (bump_PC (of_nat n) x)"
proof -
  have le: "unat (l_rPC x) \<le> bPC b" using assms(1) by (simp add: within_def locals_in_def)
  then have "unat (l_rPC x + of_nat n) = unat (l_rPC x) + n"
    using assms(2) by (intro unat_plus_wlen) (simp add: mem_limit_def)
  with le assms show ?thesis
    by (auto simp: within_def xst_ok_def locals_in_def bump_PC_def simp flip: unat_eq_zero)
qed

lemma bump_PC_cyc [simp]: "cyc_le x (bump_PC n y) = cyc_le x y"
  by (simp add: cyc_le_def bump_PC_def)

lemma bset_PC [simp]: "bPC (bset t n b) = bPC b" "bget t (b\<lparr>bPC := m, bnz := z\<rparr>) = bget t b"
  "(bset t n b)\<lparr>bPC := m, bnz := z\<rparr> = bset t n (b\<lparr>bPC := m, bnz := z\<rparr>)"
  by (cases t; simp)+

text \<open>A 24-bit value is assembled from three bytes.\<close>

lemma u_SNCPURead24_le: "u_SNCPURead24 T c a = Some (v, c') \<Longrightarrow> unat v \<le> 0xFFFFFF"
  and u_SNCPUPop24_le: "u_SNCPUPop24 T c = Some (v, c') \<Longrightarrow> unat v \<le> 0xFFFFFF"
  using join24_bound by (auto simp: u_SNCPURead24_def u_SNCPUPop24_def split: bind_splits)

context trap_contract begin

text \<open>Reads and fetches load from an address, which comes from a temporary or is the program counter.\<close>

lemma load_ok:
  assumes "within winv b x" and "unat a + wlen w \<le> 0x1010000"
  shows "returns (case w of W8 \<Rightarrow> lift_read t x ucast (u_SNCPURead8 T (pCpu x) a)
      | W16 \<Rightarrow> lift_read t x ucast (u_SNCPURead16 T (pCpu x) a)
      | W24 \<Rightarrow> lift_read t x id (u_SNCPURead24 T (pCpu x) a))
    (\<lambda>x'. within winv (bset t (wmax w) b) x' \<and> l_rPC x' = l_rPC x \<and> cyc_le x x')"
proof -
  have m: "machine_ok winv (pCpu x)"
    using assms by (simp add: within_machine)
  show ?thesis
  proof (cases w)
    case W8
    with assms(2) have "returns (u_SNCPURead8 T (pCpu x) a) (\<lambda>(v, c). keeps winv (pCpu x) c)"
      by (intro returns_prod_mono [OF u_Read8_ok [OF m]]) (auto simp: access_keeps)
    from lift_read_ok [OF this assms(1)] W8 show ?thesis by (simp add: unat_u8_le)
  next
    case W16
    with assms(2) have "returns (u_SNCPURead16 T (pCpu x) a) (\<lambda>(v, c). keeps winv (pCpu x) c)"
      by (intro returns_prod_mono [OF u_Read16_ok [OF m]]) (auto simp: access_keeps)
    from lift_read_ok [OF this assms(1)] W16 show ?thesis by (simp add: unat_u16_le)
  next
    case W24
    with assms(2) have "returns (u_SNCPURead24 T (pCpu x) a) (\<lambda>(v, c). keeps winv (pCpu x) c)"
      by (intro returns_prod_mono [OF u_Read24_ok [OF m]]) (auto simp: access_keeps)
    from lift_read_ok [OF this assms(1)] W24 show ?thesis by (simp add: u_SNCPURead24_le)
  qed
qed

lemma read_ok:
  assumes "within winv b x" and "bget a b + wlen w \<le> mem_limit"
  shows "returns (exec_read T w a t x) (\<lambda>x'. within winv (bset t (wmax w) b) x' \<and> l_rPC x' = l_rPC x \<and> cyc_le x x')"
proof -
  have "unat (get_t a x) + wlen w \<le> 0x1010000"
    using assms bget_bound [of b x a] by (auto simp: within_def mem_limit_def)
  from load_ok [OF assms(1) this, of t] show ?thesis
    by (cases w) simp_all
qed

lemma exec_fetch_eq:
  "exec_fetch T w t x = map_option (bump_PC (of_nat (wlen w)))
     (case w of W8 \<Rightarrow> lift_read t x ucast (u_SNCPURead8 T (pCpu x) (l_rPC x))
      | W16 \<Rightarrow> lift_read t x ucast (u_SNCPURead16 T (pCpu x) (l_rPC x))
      | W24 \<Rightarrow> lift_read t x id (u_SNCPURead24 T (pCpu x) (l_rPC x)))"
  by (cases w) (simp_all add: u_Fetch_Read)

lemma fetch_ok:
  assumes "within winv b x" and "bPC b + wlen w \<le> mem_limit"
  shows "returns (exec_fetch T w t x)
           (\<lambda>x'. within winv (bset t (wmax w) (b\<lparr>bPC := bPC b + wlen w, bnz := True\<rparr>)) x' \<and> cyc_le x x')"
proof -
  have "unat (l_rPC x) + wlen w \<le> 0x1010000"
    using assms by (simp add: within_def locals_in_def mem_limit_def)
  from load_ok [OF assms(1) this, of t] obtain x1
    where x1: "(case w of W8 \<Rightarrow> lift_read t x ucast (u_SNCPURead8 T (pCpu x) (l_rPC x))
        | W16 \<Rightarrow> lift_read t x ucast (u_SNCPURead16 T (pCpu x) (l_rPC x))
        | W24 \<Rightarrow> lift_read t x id (u_SNCPURead24 T (pCpu x) (l_rPC x))) = Some x1"
      "within winv (bset t (wmax w) b) x1" "cyc_le x x1"
    by (auto simp: returns_def)
  have "within winv ((bset t (wmax w) b)\<lparr>bPC := bPC (bset t (wmax w) b) + wlen w, bnz := True\<rparr>)
          (bump_PC (of_nat (wlen w)) x1)"
    by (rule bump_PC_within) (use x1 assms in simp_all)
  with x1 show ?thesis by (simp add: exec_fetch_eq)
qed

lemma write_ok:
  assumes "within winv b x" and "w \<noteq> W24" and "bget a b + wlen w \<le> mem_limit"
  shows "returns (exec_write T w a d x) (\<lambda>x'. within winv b x' \<and> cyc_le x x')"
proof -
  have a: "unat (get_t a x) + wlen w \<le> 0x1010000" and m: "machine_ok winv (pCpu x)"
    using assms bget_bound [of b x a] by (auto simp: within_machine within_locals mem_limit_def)
  with assms show ?thesis
    by (cases w) (auto intro!: lift_write_ok returns_mono [OF u_Write8_ok [OF m]]
        returns_mono [OF u_Write16_ok [OF m]] intro: access_keeps)
qed

lemma push_ok:
  assumes "within winv b x"
  shows "returns (exec_push T w d x) (\<lambda>x'. within winv b x' \<and> cyc_le x x')"
proof -
  have m: "machine_ok winv (pCpu x)" using assms by (simp add: within_machine)
  show ?thesis
    using assms by (cases w) (simp_all add: lift_write_ok u_Push8_ok u_Push16_ok u_Push24_ok m)
qed

lemma pop_ok:
  assumes "within winv b x"
  shows "returns (exec_pop T w t x) (\<lambda>x'. within winv (bset t (wmax w) b) x' \<and> cyc_le x x')"
proof -
  have m: "machine_ok winv (pCpu x)" using assms by (simp add: within_machine)
  have b: "unat (id v) \<le> 0xFFFFFF" if "u_SNCPUPop24 T (pCpu x) = Some (v, c)" for v c
    using u_SNCPUPop24_le [OF that] by simp
  note 1 = lift_read_ok [OF u_Pop8_ok [OF m] assms, where f = ucast and n = "0xFF" and t = t]
    lift_read_ok [OF u_Pop16_ok [OF m] assms, where f = ucast and n = "0xFFFF" and t = t]
    lift_read_ok [OF u_Pop24_ok [OF m] assms b, where t = t]
  have "returns (exec_pop T w t x) (\<lambda>x'. within winv (bset t (wmax w) b) x' \<and> l_rPC x' = l_rPC x \<and> cyc_le x x')"
    using 1 by (cases w) (simp_all add: unat_u8_le unat_u16_le)
  then show ?thesis by (rule returns_mono) simp
qed

lemma ab_uop_sound:
  assumes "ab_uop u b = Some b'" and "within winv b x"
  shows "returns (exec_uop T u x) (\<lambda>x'. within winv b' x' \<and> cyc_le x x')"
proof -
  note wb = assms(2)
  have lb: "locals_in b x" and m: "machine_ok winv (pCpu x)" using wb by (simp_all add: within_machine within_locals)
  note tb = bget_bound [OF lb]
  note db = within_DB [OF wb]
  show ?thesis
  proof (cases u)
    case (FETCH w t)
    with assms fetch_ok [OF wb, of w t] show ?thesis by (auto split: if_splits)
  next
    case (READ w a t)
    with assms read_ok [OF wb, of a w t] show ?thesis
      by (auto split: if_splits elim: returns_mono)
  next
    case (WRITE w a t)
    with assms write_ok [OF wb, of w a t] show ?thesis by (auto split: if_splits)
  next
    case (SNCPU_SET_PC16 t)
    then have b': "b' = b\<lparr>bPC := orb (bPC b) (bget t b), bnz := False\<rparr>" and nz: "l_rPC x \<noteq> 0"
      using assms by (auto simp: within_def locals_in_def split: if_splits)
    have "unat (l_rPC x - 1) \<le> unat (l_rPC x)" using nz by (simp add: unat_minus_one)
    then have "unat ((l_rPC x - 1) AND NOT 0xFFFF) \<le> bPC b"
      using and_le_left [of "l_rPC x - 1" "NOT 0xFFFF"] lb by (simp add: locals_in_def)
    then have "unat (((l_rPC x - 1) AND NOT 0xFFFF) OR get_t t x) \<le> orb (bPC b) (bget t b)"
      by (rule orb_bound) (rule tb)
    with SNCPU_SET_PC16 b' wb show ?thesis
      by (simp add: within_def xst_ok_def locals_in_def cyc_le_def)
  next
    case (SNCPU_SET_PC24 t)
    have "unat (get_t t x AND 0xFFFFFF) \<le> 0xFFFFFF" using and_le_right [of "get_t t x" "0xFFFFFF"] by simp
    with SNCPU_SET_PC24 assms show ?thesis
      by (auto simp: within_def xst_ok_def locals_in_def cyc_le_def)
  next
    case (SET r t)
    with assms db tb [of t] show ?thesis
      by (auto simp: cyc_le_def set_reg_DB intro!: within_regs split: if_splits)
  next
    case (SNCPU_GETFLAG_C t)
    have "unat (fC x AND 1) \<le> 1" using and_le_right [of "fC x" 1] by simp
    with SNCPU_GETFLAG_C assms show ?thesis by (auto simp: cyc_le_def intro!: within_set_t)
  next
    case (SNCPU_GET_P t)
    with assms show ?thesis
      by (auto simp: cyc_le_def Let_def unat_u8_le intro!: within_set_t PACKFLAGS_within)
  next
    case (SNCPU_SET_P t)
    with assms show ?thesis
      by (auto simp: cyc_le_def intro!: UNPACKFLAGS_within)
         (use wb in \<open>simp_all add: within_def xst_ok_def locals_in_def\<close>)
  next
    case (ALU k t s)
    with assms balu_bound [OF tb bsrc_bound [OF wb], of k t s] show ?thesis
      by (auto simp: cyc_le_def intro!: within_set_t)
  next
    case (ALUI k t i)
    with assms balu_bound [OF tb order_refl, of k t i] show ?thesis
      by (auto simp: cyc_le_def intro!: within_set_t)
  next
    case (ADDER k d s)
    with assms db show ?thesis
      by (auto simp: cyc_le_def add_macro_def Let_def btop_def unat_u32_le or_disjoint and_NOT_disjoint intro!: within_set_t within_regs)
  next
    case (GET r t)
    with assms breg_bound [OF db, of r] show ?thesis
      by (auto simp: cyc_le_def intro!: within_set_t)
  next
    case (SNCPU_SUBCYCLES n)
    with assms keeps_sub [OF m, of n] show ?thesis
      by (auto simp: cyc_le_def keeps_def intro!: within_cpu keeps_sub m)
  next
    case (SNCPU_ENDOP n)
    with assms keeps_sub [OF m, of n] show ?thesis
      by (auto simp: cyc_le_def keeps_def intro!: within_cpu keeps_sub m)
  next
    case (PUSH w d)
    with assms push_ok [OF wb, of w d] show ?thesis by simp
  next
    case (POP w t)
    with assms pop_ok [OF wb, of w t] show ?thesis by auto
  next
    case (SNCPU_SHLI t n)
    with assms shl_bound [OF tb [of t], of n] show ?thesis by (auto simp: cyc_le_def intro!: within_set_t)
  next
    case (SNCPU_SHRI t n)
    with assms shr_bound [OF tb [of t], of n] show ?thesis by (auto simp: cyc_le_def intro!: within_set_t)
  next
    case (SNCPU_GET_PC t)
    with assms lb show ?thesis by (auto simp: cyc_le_def locals_in_def intro!: within_set_t)
  next
    case (SNCPU_GETI t i)
    with assms show ?thesis by (auto simp: cyc_le_def intro!: within_set_t)
  next
    case (SNCPU_GETFLAG_E t)
    with assms show ?thesis by (auto simp: cyc_le_def unat_u8_le intro!: within_set_t)
  next
    case (SNCPU_SETFLAG_E t)
    with assms show ?thesis by (auto simp: cyc_le_def intro!: SETFLAG_E_within) (auto simp: within_def xst_ok_def)
  next
    case (SETFLAG f t)
    with assms show ?thesis by (auto simp: cyc_le_def intro!: set_flag_within)
  next
    case (SNCPU_SETFLAGI_C i)
    have "(i AND 1) AND 1 = i AND 1" by (simp add: and.assoc)
    with SNCPU_SETFLAGI_C assms show ?thesis by (auto simp: cyc_le_def within_def xst_ok_def locals_in_def)
  next
    case (SNCPU_SETFLAGI_V i)
    with assms db set_V_mode [of i "Regs (pCpu x)"] show ?thesis
      by (auto simp: cyc_le_def intro!: within_regs) (simp_all add: set_V_def)
  qed (use assms db in \<open>auto simp: cyc_le_def or_disjoint and_NOT_disjoint intro!: within_regs split: if_splits\<close>)
qed

end

sublocale trap_contract \<subseteq> handler: microcode "exec_uop T" ab_uop "within winv" cyc_le
  by unfold_locales (use ab_uop_sound cyc_le_trans in auto)

section \<open>One iteration\<close>

lemma handlers_ok: "(ls, us) \<in> set op65816 \<Longrightarrow> handler_ok us"
  using handlers_ok_move handlers_ok_arith handlers_ok_logic
  by (auto simp: op65816_def list_all_iff)

lemma xst_ok_PC [simp]: "xst_ok winv (x\<lparr>l_rPC := p\<rparr>) = xst_ok winv x"
  and xst_ok_flags [simp]: "xst_ok winv (x\<lparr>fZ := n\<rparr>) = xst_ok winv x"
    "xst_ok winv (x\<lparr>fN := n\<rparr>) = xst_ok winv x"
  and xst_ok_bump [simp]: "xst_ok winv (bump_PC n x) = xst_ok winv x"
  by (simp_all add: xst_ok_def bump_PC_def)

text \<open>Where a state may be anything in its locals, being well-formed is being within these bounds.\<close>

definition ball :: bnd where
  "ball = \<lparr>bt0 = btop, bt1 = btop, bt2 = btop, bPC = btop, bnz = False\<rparr>"

lemma within_ball [simp]: "within winv ball x = xst_ok winv x"
  using unat_u32_le by (auto simp: within_def locals_in_def ball_def btop_def)

lemma xst_ok_sub: "xst_ok winv x \<Longrightarrow> xst_ok winv (sub_cycles n x)"
  using within_cpu [OF _ keeps_sub, of winv ball x n] by (simp add: sub_cycles_def xst_okD)

lemma cyc_le_sub: "xst_ok winv x \<Longrightarrow> cyc_le x (sub_cycles n x)"
  using keeps_sub [of winv "pCpu x" n] by (simp add: sub_cycles_def cyc_le_def keeps_def xst_okD)

lemma locals_in_ball [simp]: "locals_in ball x"
  using unat_u32_le by (auto simp: locals_in_def ball_def btop_def)

lemma SETFLAG_E_ok: "cpu_ok winv (pCpu x) \<Longrightarrow> fC x AND 1 = fC x \<Longrightarrow> xst_ok winv (SNCPU_SETFLAG_E_x e x)"
  using SETFLAG_E_within [of winv x ball] by simp

lemma SEP_flags_ok: "xst_ok winv x \<Longrightarrow> xst_ok winv (SEP_flags t x) \<and> cyc_le x (SEP_flags t x)"
  and REP_flags_ok: "xst_ok winv x \<Longrightarrow> xst_ok winv (REP_flags t x) \<and> cyc_le x (REP_flags t x)"
  unfolding SEP_flags_def REP_flags_def Let_def
  by (intro conjI SETFLAG_E_ok; simp add: xst_ok_def cyc_le_def)+

lemmas upd_regs_ok = within_regs [of _ ball, simplified]

context trap_contract begin

lemma fetch8_local_ok:
  assumes "xst_ok winv x" and "unat (l_rPC x) < 0x1010000"
  shows "returns (fetch8_local T x) (\<lambda>(v, x'). xst_ok winv x' \<and> l_rPC x' = l_rPC x + 1 \<and> cyc_le x x'
           \<and> (0 < Cycles (pCpu x) \<longrightarrow> nat (Cycles (pCpu x')) < nat (Cycles (pCpu x))))"
proof -
  have m: "machine_ok winv (pCpu x)" using assms(1) by (rule xst_okD)
  have 1: "returns (SNCPU_SUBMEMCYCLES (l_rPC x) 1 (pCpu x)) (\<lambda>c. access winv (pCpu x) c
      \<and> (0 < Cycles (pCpu x) \<longrightarrow> nat (Cycles c) < nat (Cycles (pCpu x))))"
    using SUBMEMCYCLES_less [OF m assms(2), of 1] SUBMEMCYCLES_ok [OF m assms(2), of 1]
    by (cases "0 < Cycles (pCpu x)") auto
  have "returns (u_SNCPUFetch8 T (pCpu x) (l_rPC x)) (\<lambda>(v, c). access winv (pCpu x) c
      \<and> (0 < Cycles (pCpu x) \<longrightarrow> nat (Cycles c) < nat (Cycles (pCpu x))))"
    unfolding u_SNCPUFetch8_def uu_accesses
    by (rule returns_bind [OF 1], rule returns_prod_mono [OF read8_ok [OF _ assms(2)]])
      (auto simp: access_def)
  then show ?thesis
    using assms(1) unfolding fetch8_local_def
    by (auto simp: returns_def xst_ok_def cpu_ok_def bump_PC_def cyc_le_def access_def elim: in_mode_cong)
qed

lemma fetch16_local_ok:
  assumes "xst_ok winv x" and "unat (l_rPC x) + 2 \<le> 0x1010000"
  shows "returns (fetch16_local T x) (\<lambda>(v, x'). xst_ok winv x' \<and> cyc_le x x')"
proof -
  have "returns (u_SNCPURead16 T (pCpu x) (l_rPC x)) (\<lambda>(v, c). access winv (pCpu x) c)"
    using assms by (intro u_Read16_ok) (simp_all add: xst_okD)
  then show ?thesis
    using assms(1) unfolding fetch16_local_def u_Fetch_Read
    by (auto simp: returns_def xst_ok_def cpu_ok_def bump_PC_def cyc_le_def access_def elim: in_mode_cong)
qed

text \<open>The bank byte of a block move and an index register make an address below \<^verbatim>\<open>0x1000000\<close>.\<close>

lemma bank_or_index:
  assumes "unat (i :: u32) \<le> 0xFFFF"
  shows "unat (push_bit 16 (ucast (b :: u8)) OR i) + 1 \<le> 0x1010000"
proof -
  have "unat (push_bit 16 (ucast b) OR i) < 2 ^ 24"
    using shl_bound [of "ucast b" 255 16] unat_u8_le [of b] assms
    by (intro or_lt_two_power) (simp_all add: btop_def)
  then show ?thesis by simp
qed

lemma move_byte_ok:
  fixes d s :: u8
  assumes "xst_ok winv x"
    and "\<And>r. unat (ix r) \<le> 0xFFFF" and "\<And>r. unat (iy r) \<le> 0xFFFF" and "\<And>r. rDB (adv r) = rDB r"
    and "\<And>r. rE (adv r) = rE r \<and> rP (adv r) = rP r"
  shows "returns (move_byte T ix iy adv (push_bit 16 (ucast d)) (push_bit 16 (ucast s)) x)
           (\<lambda>x'. xst_ok winv x' \<and> cyc_le x x')"
proof -
  let ?x = "upd_regs (\<lambda>r. r\<lparr>rDB := push_bit 16 (ucast d)\<rparr>) x"
  have "unat (push_bit 16 (ucast d) :: u32) \<le> 0xFFFFFF"
    using shl_bound [of "ucast d" 255 16] unat_u8_le [of d] by (simp add: btop_def)
  with assms(1) have ok: "xst_ok winv ?x" by (intro upd_regs_ok) simp_all
  then have m: "machine_ok winv (pCpu ?x)" by (rule xst_okD)
  from returns_pair [OF u_Read8_ok [OF m bank_or_index [OF assms(2) [of "Regs (pCpu ?x)"], of s]]] obtain v c
    where r: "u_SNCPURead8 T (pCpu ?x) (push_bit 16 (ucast s) OR ix (Regs (pCpu ?x))) = Some (v, c)"
      and c: "access winv (pCpu ?x) c"
    by blast
  from returns_Ex [OF u_Write8_ok [OF access_ok [OF c] bank_or_index [OF assms(3) [of "Regs c"], of d]]] obtain c'
    where w: "u_SNCPUWrite8 T c (push_bit 16 (ucast d) OR iy (Regs c)) v = Some c'" and c': "access winv c c'"
    by blast
  let ?y = "upd_regs adv (?x\<lparr>pCpu := c'\<rparr>)"
  let ?z = "upd_regs (\<lambda>r. r\<lparr>rA := rA r - 1\<rparr>)
              (if rA (Regs (pCpu ?y)) \<noteq> 0 then ?y\<lparr>l_rPC := l_rPC ?y - 3\<rparr> else ?y)"
  from access_trans [OF c c'] ok have z: "xst_ok winv ?z" "cyc_le x ?z"
    by (auto simp: xst_ok_def cpu_ok_def in_mode_def access_def assms(4,5) cyc_le_def cong: mode_bits_cong)
  have "move_byte T ix iy adv (push_bit 16 (ucast d)) (push_bit 16 (ucast s)) x = Some (sub_cycles 2 ?z)"
    using r w by (simp add: move_byte_def Let_def)
  with xst_ok_sub [OF z(1)] cyc_le_trans [OF z(2) cyc_le_sub [OF z(1)]] show ?thesis by simp
qed

lemma block_move_ok:
  assumes "xst_ok winv x" and "unat (l_rPC x) + 2 \<le> 0x1010000"
    and "\<And>r. unat (ix r) \<le> 0xFFFF" and "\<And>r. unat (iy r) \<le> 0xFFFF" and "\<And>r. rDB (adv r) = rDB r"
    and "\<And>r. rE (adv r) = rE r \<and> rP (adv r) = rP r"
  shows "returns (block_move T ix iy adv x) (\<lambda>x'. xst_ok winv x' \<and> cyc_le x x')"
proof -
  have a: "unat (l_rPC x) < 0x1010000" using assms(2) by simp
  from fetch8_local_ok [OF assms(1) a] obtain d x1
    where d: "fetch8_local T x = Some (d, x1)" and x1: "xst_ok winv x1" "l_rPC x1 = l_rPC x + 1" "cyc_le x x1"
    by (auto simp: returns_def)
  then have "unat (l_rPC x1) < 0x1010000" using assms(2) by (simp add: unat_plus_1)
  from fetch8_local_ok [OF x1(1) this] obtain s x2
    where s: "fetch8_local T x1 = Some (s, x2)" and x2: "xst_ok winv x2" "cyc_le x1 x2"
    by (auto simp: returns_def)
  have "returns (move_byte T ix iy adv (push_bit 16 (ucast d)) (push_bit 16 (ucast s)) x2)
           (\<lambda>x'. xst_ok winv x' \<and> cyc_le x2 x')"
    by (rule move_byte_ok) (use x2 assms in auto)
  then show ?thesis
    using cyc_le_trans [OF x1(3) x2(2)] by (auto simp: block_move_def d s elim!: returns_mono intro: cyc_le_trans)
qed

lemma exec_hand_ok:
  assumes "xst_ok winv x" and "unat (l_rPC x) + 2 \<le> 0x1010000"
  shows "returns (exec_hand T h x) (\<lambda>x'. xst_ok winv x' \<and> cyc_le x x')"
proof -
  have a: "unat (l_rPC x) < 0x1010000" using assms(2) by simp
  note f8 = fetch8_local_ok [OF assms(1) a]
  have sub: "xst_ok winv y \<and> cyc_le x y \<Longrightarrow> xst_ok winv (sub_cycles n y) \<and> cyc_le x (sub_cycles n y)" for y n
    using cyc_le_trans cyc_le_sub xst_ok_sub by blast
  have t1: "returns (exec_uop T (SNCPU_FETCH8 R_t1) x) (\<lambda>x'. xst_ok winv x' \<and> cyc_le x x')"
  proof -
    have "within winv \<lparr>bt0 = btop, bt1 = btop, bt2 = btop, bPC = mem_limit - 1, bnz = False\<rparr> x"
      using a assms(1) unat_u32_le by (auto simp: within_def locals_in_def btop_def mem_limit_def)
    from ab_uop_sound [OF _ this, of "SNCPU_FETCH8 R_t1"] show ?thesis
      by (auto simp: mem_limit_def within_def elim!: returns_mono)
  qed
  show ?thesis
  proof (cases h)
    case H_SEP
    show ?thesis
      unfolding H_SEP exec_hand.simps exec_SEP_def
      by (rule returns_bind [OF t1]) (use SEP_flags_ok sub cyc_le_trans in \<open>simp del: One_nat_def, blast\<close>)
  next
    case H_REP
    show ?thesis
      unfolding H_REP exec_hand.simps exec_REP_def
      by (rule returns_bind [OF t1]) (use REP_flags_ok sub cyc_le_trans in \<open>simp del: One_nat_def, blast\<close>)
  next
    case (H_BR k)
    then show ?thesis
      by (auto simp: SNCPU_BRREL_def intro!: returns_bind [OF f8] sub) (auto simp: cyc_le_def)
  next
    case H_BRL
    then show ?thesis
      by (auto simp: exec_BRL_def Let_def intro!: returns_bind [OF fetch16_local_ok [OF assms]] sub)
         (auto simp: cyc_le_def)
  next
    case H_WAI
    have "xst_ok winv y \<and> cyc_le x y" if "y = (if uSignal (pCpu x) AND SNCPU_SIGNAL_IRQ = 0
         then x\<lparr>pCpu := (pCpu x)\<lparr>uSignal := uSignal (pCpu x) OR SNCPU_SIGNAL_WAI, Cycles := 0\<rparr>, l_rPC := l_rPC x - 1\<rparr>
         else x\<lparr>pCpu := (pCpu x)\<lparr>uSignal := uSignal (pCpu x) AND NOT SNCPU_SIGNAL_WAI\<rparr>\<rparr>)" for y
      using assms(1) that by (auto simp: xst_ok_def cpu_ok_def in_mode_def cyc_le_def)
    with H_WAI sub show ?thesis by (simp add: exec_WAI_def Let_def)
  qed (use block_move_ok [OF assms] in
      \<open>simp_all add: exec_MVN_X0_def exec_MVN_X1E1_def exec_MVP_X0_def exec_MVP_X1E1_def step16_def step8_def
         unat_u16_le unat_u8_le [THEN order_trans]\<close>)
qed

lemma exec_op_ok:
  assumes "xst_ok winv x" and "l_rPC x \<noteq> 0" and "unat (l_rPC x) \<le> pc_limit + 1"
  shows "returns (exec_op T op x) (\<lambda>x'. xst_ok winv x' \<and> cyc_le x x')"
proof (cases "find_case op65816 op")
  case None
  have "unat (l_rPC x) + 2 \<le> 0x1010000" using assms(3) by (simp add: pc_limit_def)
  from exec_hand_ok [OF assms(1) this] None assms(1) show ?thesis
    by (auto simp: exec_op_def xst_ok_sub cyc_le_sub split: option.splits)
next
  case (Some us)
  then obtain ls where "(ls, us) \<in> set op65816" using find_case_in by metis
  then obtain b' where "check_ops ab_uop us bstart = Some b'"
    using handlers_ok by (auto simp: handler_ok_def)
  moreover have "within winv bstart x"
    using assms unat_u32_le by (auto simp: within_def locals_in_def bstart_def btop_def)
  ultimately show ?thesis
    using Some handler.check_sound [of us bstart b' x]
    by (auto simp: exec_op_def within_def elim!: returns_mono)
qed

lemma exec_step_ok:
  assumes "xst_ok winv x" and "unat (l_rPC x) \<le> pc_limit" and "0 < Cycles (pCpu x)"
  shows "returns (exec_step T x) (\<lambda>x'. xst_ok winv x' \<and> nat (Cycles (pCpu x')) < nat (Cycles (pCpu x)))"
proof -
  have "unat (l_rPC x) < 0x1010000" using assms(2) by (simp add: pc_limit_def)
  from fetch8_local_ok [OF assms(1) this] assms(3) obtain v x1
    where f: "fetch8_local T x = Some (v, x1)" and x1: "xst_ok winv x1" "l_rPC x1 = l_rPC x + 1"
      "nat (Cycles (pCpu x1)) < nat (Cycles (pCpu x))"
    by (auto simp: returns_def)
  have "unat (l_rPC x1) = unat (l_rPC x) + 1" using assms(2) x1(2) by (simp add: unat_plus_1 pc_limit_def)
  with assms(2) have "l_rPC x1 \<noteq> 0" "unat (l_rPC x1) \<le> pc_limit + 1" by auto
  from exec_op_ok [OF x1(1) this] have
    "returns (exec_op T (opcode_of v (uOpcodeMod x1)) x1) (\<lambda>x'. xst_ok winv x' \<and> cyc_le x1 x')" .
  with x1(3) f show ?thesis
    unfolding exec_step_def cyc_le_def by (auto simp: returns_def)
qed

end

end
