(* ===== verification/Sn_Cpu_Run.thy ===== *)
theory Sn_Cpu_Run
  imports Sn_Cpu_Safe
begin

text \<open>
  The interpreter loop as a transition system: its iterations, the states it reaches, that it
  returns, and what the temporaries of an iteration depend on.
\<close>

section \<open>Reachable states\<close>

inductive exec_reach :: "'w traps \<Rightarrow> 'w xst \<Rightarrow> 'w xst \<Rightarrow> bool" for T :: "'w traps" and x :: "'w xst" where
  reach_refl: "exec_reach T x x"
| reach_step: "exec_reach T x y \<Longrightarrow> 0 < Cycles (pCpu y) \<Longrightarrow> exec_step T y = Some z \<Longrightarrow> exec_reach T x z"

inductive_cases exec_reachE: "exec_reach T x y"

lemma exec_reach_trans: "exec_reach T y z \<Longrightarrow> exec_reach T x y \<Longrightarrow> exec_reach T x z"
  by (induction rule: exec_reach.induct) (auto intro: exec_reach.intros)

lemma exec_reach_first:
  "0 < Cycles (pCpu x) \<Longrightarrow> exec_step T x = Some y \<Longrightarrow> exec_reach T y z \<Longrightarrow> exec_reach T x z"
  by (blast intro: exec_reach_trans reach_refl reach_step)

section \<open>The loop returns\<close>

context trap_contract begin

lemma exec_loop_returns:
  assumes "xst_ok winv x" and "\<And>y. exec_reach T x y \<Longrightarrow> unat (l_rPC y) \<le> pc_limit"
  shows "\<exists>y. exec_loop T x = Some (Some y) \<and> xst_ok winv y \<and> exec_reach T x y \<and> Cycles (pCpu y) \<le> 0"
  using assms
proof (induction "nat (Cycles (pCpu x))" arbitrary: x rule: less_induct)
  case less
  show ?case
  proof (cases "0 < Cycles (pCpu x)")
    case True
    from exec_step_ok [OF less.prems(1) less.prems(2) [OF reach_refl] True] obtain x'
      where x': "exec_step T x = Some x'" "xst_ok winv x'" "nat (Cycles (pCpu x')) < nat (Cycles (pCpu x))"
      by (auto simp: returns_def)
    have reach: "exec_reach T x z" if "exec_reach T x' z" for z
      using True x'(1) that by (rule exec_reach_first)
    from less.hyps [OF x'(3) x'(2)] less.prems(2) reach
    obtain y where "exec_loop T x' = Some (Some y)" "xst_ok winv y" "exec_reach T x' y" "Cycles (pCpu y) \<le> 0"
      by blast
    with True x' reach show ?thesis by (subst exec_loop.simps) auto
  next
    case False
    with less.prems show ?thesis by (subst exec_loop.simps) (auto intro: reach_refl)
  qed
qed

end

section \<open>The temporaries of an iteration\<close>

text \<open>
  \<^verbatim>\<open>t0\<close>, \<^verbatim>\<open>t1\<close> and \<^verbatim>\<open>t2\<close> are uninitialised in C. A check of the handlers
  shows that each is set before it is read: \<open>reads\<close> and \<open>sets\<close> are the temporaries a macro
  uses.
\<close>

definition strip :: "'w xst \<Rightarrow> 'w xst" where
  "strip x = x\<lparr>l_t0 := 0, l_t1 := 0, l_t2 := 0\<rparr>"

fun src_reads :: "src \<Rightarrow> treg list" where
  "src_reads (Tmp t) = [t]"
| "src_reads _ = []"

fun reads :: "uop \<Rightarrow> treg list" where
  "reads (WRITE w a d) = [a, d]"
| "reads (READ w a t) = [a]"
| "reads (PUSH w d) = [d]"
| "reads (SET r t) = [t]"
| "reads (SNCPU_SET_PC16 t) = [t]"
| "reads (SNCPU_SET_PC24 t) = [t]"
| "reads (SNCPU_SET_P t) = [t]"
| "reads (SETFLAG f t) = [t]"
| "reads (SNCPU_SETFLAG_E t) = [t]"
| "reads (ALU k t s) = t # src_reads s"
| "reads (ALUI k t i) = [t]"
| "reads (SNCPU_SHLI t n) = [t]"
| "reads (SNCPU_SHRI t n) = [t]"
| "reads (ADDER k d s) = [d, s]"
| "reads _ = []"

fun sets :: "uop \<Rightarrow> treg list" where
  "sets (FETCH w t) = [t]"
| "sets (READ w a t) = [t]"
| "sets (POP w t) = [t]"
| "sets (GET r t) = [t]"
| "sets (SNCPU_GETI t i) = [t]"
| "sets (SNCPU_GET_PC t) = [t]"
| "sets (SNCPU_GET_P t) = [t]"
| "sets (SNCPU_GETFLAG_C t) = [t]"
| "sets (SNCPU_GETFLAG_E t) = [t]"
| "sets _ = []"

definition assigned :: "uop \<Rightarrow> treg list \<Rightarrow> treg list option" where
  "assigned u S = (if list_all (\<lambda>t. t \<in> set S) (reads u) then Some (sets u @ S) else None)"

definition locals_ok :: "uop list \<Rightarrow> bool" where
  "locals_ok us = (check_ops assigned us [] \<noteq> None)"

lemma locals_ok_move: "list_all (\<lambda>(ls, us). locals_ok us) op65816_move"
  by (simp add: op65816_move_def op65816_move_defs locals_ok_def assigned_def)

lemma locals_ok_arith: "list_all (\<lambda>(ls, us). locals_ok us) op65816_arith"
  by (simp add: op65816_arith_def op65816_arith_defs locals_ok_def assigned_def)

lemma locals_ok_logic: "list_all (\<lambda>(ls, us). locals_ok us) op65816_logic"
  by (simp add: op65816_logic_def op65816_logic_defs locals_ok_def assigned_def)

text \<open>Two runs from states that differ in unassigned temporaries only, side by side.\<close>

definition agree :: "treg list \<Rightarrow> 'w xst \<Rightarrow> 'w xst \<Rightarrow> bool" where
  "agree S x y \<longleftrightarrow> strip x = strip y \<and> (\<forall>t \<in> set S. get_t t x = get_t t y)"

definition twin :: "'w traps \<Rightarrow> uop \<Rightarrow> 'w xst option \<times> 'w xst option \<Rightarrow> ('w xst option \<times> 'w xst option) option" where
  "twin T u p = Some (fst p \<bind> exec_uop T u, snd p \<bind> exec_uop T u)"

definition twins :: "treg list \<Rightarrow> 'w xst option \<times> 'w xst option \<Rightarrow> bool" where
  "twins S p \<longleftrightarrow> rel_option (agree S) (fst p) (snd p)"

lemma agree_eqs:
  assumes "agree S x y"
  shows "pCpu x = pCpu y" "l_rPC x = l_rPC y" "uOpcodeMod x = uOpcodeMod y" "l_DPMASK x = l_DPMASK y"
    "fN x = fN y" "fZ x = fZ y" "fC x = fC y"
  using assms by (cases x; cases y; simp add: agree_def strip_def)+

lemma agreeI:
  assumes "pCpu x = pCpu y" "l_rPC x = l_rPC y" "uOpcodeMod x = uOpcodeMod y" "l_DPMASK x = l_DPMASK y"
    "fN x = fN y" "fZ x = fZ y" "fC x = fC y" "\<And>t. t \<in> set S \<Longrightarrow> get_t t x = get_t t y"
  shows "agree S x y"
  using assms by (cases x; cases y; simp add: agree_def strip_def)

lemma get_t_set_t: "get_t t (set_t t' v x) = (if t = t' then v else get_t t x)"
  by (cases t; cases t') simp_all

lemma get_t_upd [simp]: "get_t t (upd_regs f x) = get_t t x" "get_t t (x\<lparr>pCpu := c\<rparr>) = get_t t x"
  "get_t t (x\<lparr>l_rPC := p\<rparr>) = get_t t x" "get_t t (x\<lparr>fC := n\<rparr>) = get_t t x" "get_t t (x\<lparr>fZ := n\<rparr>) = get_t t x"
  "get_t t (x\<lparr>fN := n\<rparr>) = get_t t x" "get_t t (x\<lparr>uOpcodeMod := n\<rparr>) = get_t t x"
  "get_t t (x\<lparr>l_DPMASK := n\<rparr>) = get_t t x" "get_t t (bump_PC n x) = get_t t x"
  by (cases t; simp add: bump_PC_def)+

lemma get_t_flags [simp]: "get_t t (SNCPU_SETFLAG_E_x e x) = get_t t x" "get_t t (SNCPU_PACKFLAGS x) = get_t t x"
  "get_t t (SNCPU_UNPACKFLAGS x) = get_t t x" "get_t t (clear_index_high p x) = get_t t x"
  "get_t t (set_flag f v x) = get_t t x" "get_t t (sub_cycles n x) = get_t t x"
  by (auto simp: SNCPU_SETFLAG_E_x_def SNCPU_PACKFLAGS_def SNCPU_UNPACKFLAGS_def clear_index_high_def Let_def
      sub_cycles_def) (cases f; simp)

lemma agree_get: "agree S x y \<Longrightarrow> t \<in> set S \<Longrightarrow> get_t t x = get_t t y"
  by (simp add: agree_def)

lemma agree_set_t:
  assumes "agree S x y"
  shows "agree (t # S) (set_t t v x) (set_t t v y)"
  by (rule agreeI) (use agree_eqs [OF assms] agree_get [OF assms] in \<open>auto simp: get_t_set_t\<close>)

lemma agree_mono: "agree S x y \<Longrightarrow> set S' \<subseteq> set S \<Longrightarrow> agree S' x y"
  by (auto simp: agree_def)

lemma agree_set_same:
  assumes "agree S x y"
  shows "agree S (set_t t v x) (set_t t v y)"
  by (rule agree_mono [OF agree_set_t [OF assms, of t v]]) auto

lemma agree_via:
  assumes "agree S x y" and "strip (g x) = g (strip x)" and "strip (g y) = g (strip y)"
    and "\<And>t z. get_t t (g z) = get_t t z"
  shows "agree S (g x) (g y)"
  using assms by (simp add: agree_def)

lemma strip_upd [simp]:
  "strip (upd_regs f x) = upd_regs f (strip x)" "strip (x\<lparr>pCpu := c\<rparr>) = (strip x)\<lparr>pCpu := c\<rparr>"
  "strip (x\<lparr>l_rPC := p\<rparr>) = (strip x)\<lparr>l_rPC := p\<rparr>" "strip (x\<lparr>fC := n\<rparr>) = (strip x)\<lparr>fC := n\<rparr>"
  "strip (x\<lparr>fZ := n\<rparr>) = (strip x)\<lparr>fZ := n\<rparr>" "strip (x\<lparr>fN := n\<rparr>) = (strip x)\<lparr>fN := n\<rparr>"
  "strip (bump_PC n x) = bump_PC n (strip x)"
  by (simp_all add: strip_def upd_regs_def bump_PC_def)

lemma strip_eqs [simp]: "pCpu (strip x) = pCpu x" "l_rPC (strip x) = l_rPC x" "uOpcodeMod (strip x) = uOpcodeMod x"
  "l_DPMASK (strip x) = l_DPMASK x" "fN (strip x) = fN x" "fZ (strip x) = fZ x" "fC (strip x) = fC x"
  "strip (strip x) = strip x"
  by (simp_all add: strip_def)

lemma strip_flags [simp]:
  "strip (SNCPU_SETFLAG_E_x e x) = SNCPU_SETFLAG_E_x e (strip x)"
  "strip (SNCPU_PACKFLAGS x) = SNCPU_PACKFLAGS (strip x)"
  "strip (clear_index_high p x) = clear_index_high p (strip x)"
  "strip (set_flag f v x) = set_flag f v (strip x)"
  "strip (sub_cycles n x) = sub_cycles n (strip x)"
proof -
  show "strip (SNCPU_SETFLAG_E_x e x) = SNCPU_SETFLAG_E_x e (strip x)"
    "strip (clear_index_high p x) = clear_index_high p (strip x)"
    by (simp_all add: SNCPU_SETFLAG_E_x_def clear_index_high_def strip_def upd_regs_def)
  show "strip (SNCPU_PACKFLAGS x) = SNCPU_PACKFLAGS (strip x)" "strip (sub_cycles n x) = sub_cycles n (strip x)"
    by (simp_all add: SNCPU_PACKFLAGS_def sub_cycles_def)
  show "strip (set_flag f v x) = set_flag f v (strip x)"
    by (cases f) simp_all
qed

lemma strip_UNPACK [simp]: "strip (SNCPU_UNPACKFLAGS x) = SNCPU_UNPACKFLAGS (strip x)"
  by (simp add: SNCPU_UNPACKFLAGS_def Let_def clear_index_high_def)

text \<open>The two runs get the same value from memory and the same processor.\<close>

lemma agree_lift_read:
  assumes "agree S x y" and "m = m'"
  shows "rel_option (agree (t # S)) (lift_read t x f m) (lift_read t y f m')"
  unfolding lift_read_def assms(2)
  by (cases m') (auto intro!: agree_set_t agree_via [OF assms(1), where g = "\<lambda>x. x\<lparr>pCpu := c\<rparr>" for c])

lemma agree_lift_write:
  assumes "agree S x y" and "m = m'"
  shows "rel_option (agree S) (lift_write x m) (lift_write y m')"
  unfolding lift_write_def assms(2)
  by (cases m') (auto intro!: agree_via [OF assms(1), where g = "\<lambda>x. x\<lparr>pCpu := c\<rparr>" for c])

lemma agree_bump: "rel_option (agree S) m m' \<Longrightarrow> rel_option (agree S) (map_option (bump_PC n) m) (map_option (bump_PC n) m')"
  by (cases m; cases m') (auto intro!: agree_via [where g = "bump_PC n"])

lemma agree_src: "agree S x y \<Longrightarrow> list_all (\<lambda>t. t \<in> set S) (src_reads s) \<Longrightarrow> get_src s x = get_src s y"
  by (cases s) (auto simp: agree_eqs agree_get)

lemma assigned_sound:
  assumes xy: "agree S x y" and "assigned u S = Some S'"
  shows "rel_option (agree S') (exec_uop T u x) (exec_uop T u y)"
proof -
  have S': "S' = sets u @ S" and rd: "list_all (\<lambda>t. t \<in> set S) (reads u)"
    using assms(2) by (auto simp: assigned_def split: if_splits)
  note eqs = agree_eqs [OF xy]
  have via: "agree S (g x) (g y)" if "\<And>z. strip (g z) = g (strip z)" "\<And>t z. get_t t (g z) = get_t t z" for g
    using xy that by (simp add: agree_def)
  show ?thesis
  proof (cases u)
    case (FETCH w t)
    then show ?thesis
      by (cases w) (auto simp: S' eqs intro!: agree_bump agree_lift_read [OF xy])
  next
    case (READ w a t)
    then show ?thesis
      using rd agree_get [OF xy, of a] by (cases w) (auto simp: S' eqs intro!: agree_lift_read [OF xy])
  next
    case (POP w t)
    then show ?thesis by (cases w) (auto simp: S' eqs intro!: agree_lift_read [OF xy])
  next
    case (WRITE w a d)
    then show ?thesis
      using rd agree_get [OF xy, of a] agree_get [OF xy, of d]
      by (cases w) (auto simp: S' eqs intro!: agree_lift_write [OF xy])
  next
    case (PUSH w d)
    then show ?thesis
      using rd agree_get [OF xy, of d] by (cases w) (auto simp: S' eqs intro!: agree_lift_write [OF xy])
  next
    case (SNCPU_GET_P t)
    then show ?thesis
      by (auto simp: S' SNCPU_PACKFLAGS_def Let_def eqs intro!: agree_set_t via)
  next
    case (ALU k t s)
    then show ?thesis
      using rd agree_get [OF xy, of t] agree_src [OF xy, of s] by (simp add: S' agree_set_same xy)
  next
    case (ADDER k d s)
    then show ?thesis
      using rd agree_get [OF xy, of d] agree_get [OF xy, of s]
      by (auto simp: S' add_macro_def Let_def eqs intro!: agree_set_same via)
  next
    case (ALUI k t i)
    with rd agree_get [OF xy, of t] show ?thesis by (simp add: S' agree_set_same xy)
  next
    case (SNCPU_SHLI t n)
    with rd agree_get [OF xy, of t] show ?thesis by (simp add: S' agree_set_same xy)
  next
    case (SNCPU_SHRI t n)
    with rd agree_get [OF xy, of t] show ?thesis by (simp add: S' agree_set_same xy)
  qed (use rd xy agree_get [OF xy] in \<open>auto simp: S' eqs intro!: agree_set_t via\<close>)
qed

interpretation paired: microcode "twin T" assigned twins "\<lambda>_ _. True" for T :: "'w traps"
proof
  fix u S S' and p :: "'w xst option \<times> 'w xst option"
  assume a: "assigned u S = Some S'" and t: "twins S p"
  show "returns (twin T u p) (\<lambda>p'. twins S' p' \<and> True)"
    using t assigned_sound [OF _ a] by (cases p; cases "fst p"; cases "snd p") (auto simp: twin_def twins_def)
qed simp_all

lemma run_twin: "run_ops (twin T) us (p, q) = Some (p \<bind> run_ops (exec_uop T) us, q \<bind> run_ops (exec_uop T) us)"
  by (induction us arbitrary: p q) (auto simp: twin_def intro: arg_cong2 [where f = "\<lambda>a b. Some (a, b)"] split: bind_splits)

lemma handler_agree:
  assumes "locals_ok us" and "strip x = strip y"
  shows "rel_option (agree []) (run_ops (exec_uop T) us x) (run_ops (exec_uop T) us y)"
proof -
  from assms(1) obtain S where "check_ops assigned us [] = Some S"
    by (auto simp: locals_ok_def)
  moreover have "twins [] (Some x, Some y)" using assms(2) by (simp add: twins_def agree_def)
  ultimately have "returns (run_ops (twin T) us (Some x, Some y)) (\<lambda>p. twins S p \<and> True)"
    by (rule paired.check_sound)
  then have "rel_option (agree S) (run_ops (exec_uop T) us x) (run_ops (exec_uop T) us y)"
    by (simp add: run_twin twins_def)
  then show ?thesis by (rule option.rel_mono_strong) (auto intro: agree_mono)
qed

lemma handlers_locals_ok: "(ls, us) \<in> set op65816 \<Longrightarrow> locals_ok us"
  using locals_ok_move locals_ok_arith locals_ok_logic by (auto simp: op65816_def list_all_iff)

lemma agree_Nil: "agree [] x y \<longleftrightarrow> strip x = strip y"
  by (simp add: agree_def)

lemma agree_step:
  assumes "agree S x y" and "\<And>z. strip (g z) = g (strip z)"
  shows "agree [] (g x) (g y)"
  using assms by (simp add: agree_def)

lemma strip_SEP [simp]: "strip (SEP_flags t x) = SEP_flags t (strip x)"
  and strip_REP [simp]: "strip (REP_flags t x) = REP_flags t (strip x)"
  by (simp_all add: SEP_flags_def REP_flags_def Let_def clear_index_high_def)

lemma exec_hand_agree:
  assumes "agree [] x y"
  shows "rel_option (agree []) (exec_hand T h x) (exec_hand T h y)"
proof -
  note eqs = agree_eqs [OF assms]
  have t1: "rel_option (agree [R_t1]) (exec_uop T (SNCPU_FETCH8 R_t1) x) (exec_uop T (SNCPU_FETCH8 R_t1) y)"
    by (rule assigned_sound [OF assms]) (simp add: assigned_def)
  have f8: "rel_option (\<lambda>(v, x) (w, y). v = w \<and> agree [] x y) (fetch8_local T x') (fetch8_local T y')"
    if "agree [] x' y'" for x' y'
    unfolding fetch8_local_def agree_eqs [OF that]
    by (cases "u_SNCPUFetch8 T (pCpu y') (l_rPC y')") (use that in \<open>auto simp: agree_Nil\<close>)
  have mb: "rel_option (agree []) (move_byte T ix iy adv d s x') (move_byte T ix iy adv d s y')"
    if "agree [] x' y'" for ix iy adv d s x' y'
    unfolding move_byte_def Let_def upd_regs_simps agree_eqs [OF that]
    by (auto simp: agree_Nil rel_option_iff agree_eqs [OF that] split: bind_splits option.splits)
       (use that in \<open>auto simp: agree_Nil\<close>)
  have bm: "rel_option (agree []) (block_move T ix iy adv x) (block_move T ix iy adv y)" for ix iy adv
    unfolding block_move_def
    by (rule rel_option_bind [OF f8 [OF assms]], clarify, rule rel_option_bind [OF f8], assumption, clarify, rule mb)
  show ?thesis
  proof (cases h)
    case H_SEP
    from t1 show ?thesis unfolding H_SEP exec_hand.simps exec_SEP_def
      by (cases rule: option.rel_cases) (auto simp: agree_def)
  next
    case H_REP
    from t1 show ?thesis unfolding H_REP exec_hand.simps exec_REP_def
      by (cases rule: option.rel_cases) (auto simp: agree_def)
  next
    case (H_BR k)
    have tst: "cond_test k z = cond_test k z'" if "agree [] z z'" for z z'
      using agree_eqs [OF that] by (cases k) simp_all
    have "agree [] (if cond_test k z then sub_cycles 1 (z\<lparr>l_rPC := l_rPC z + v\<rparr>) else z)
            (if cond_test k z' then sub_cycles 1 (z'\<lparr>l_rPC := l_rPC z' + v\<rparr>) else z')"
      if "agree [] z z'" for z z' v
      using that tst [OF that] by (simp add: agree_Nil agree_eqs [OF that])
    then show ?thesis unfolding H_BR exec_hand.simps SNCPU_BRREL_def
      by (intro rel_option_bind [OF f8 [OF assms]]) (auto simp del: One_nat_def split del: if_split)
  next
    case H_BRL
    show ?thesis unfolding H_BRL exec_hand.simps exec_BRL_def fetch16_local_def eqs
      by (cases "u_SNCPUFetch16 T (pCpu y) (l_rPC y)") (use assms in \<open>auto simp: agree_Nil Let_def bump_PC_def eqs\<close>)
  next
    case H_WAI
    show ?thesis unfolding H_WAI exec_hand.simps exec_WAI_def eqs
      using assms by (simp add: agree_Nil Let_def)
  qed (use bm in \<open>simp_all add: exec_MVN_X0_def exec_MVN_X1E1_def exec_MVP_X0_def exec_MVP_X1E1_def\<close>)
qed

lemma exec_op_agree:
  assumes "agree [] x y"
  shows "rel_option (agree []) (exec_op T op x) (exec_op T op y)"
proof (cases "find_case op65816 op")
  case None
  with exec_hand_agree [OF assms] assms show ?thesis
    by (auto simp: exec_op_def agree_Nil split: option.splits)
next
  case (Some us)
  with find_case_in handlers_locals_ok have "locals_ok us" by metis
  with handler_agree Some assms show ?thesis by (simp add: exec_op_def agree_Nil)
qed

lemma exec_step_agree:
  assumes "agree [] x y"
  shows "rel_option (agree []) (exec_step T x) (exec_step T y)"
proof -
  have "rel_option (agree []) (exec_op T (opcode_of b (uOpcodeMod x1)) x1) (exec_op T (opcode_of b (uOpcodeMod x2)) x2)"
    if "agree [] x1 x2" for b x1 x2
    using exec_op_agree [OF that] by (simp add: agree_eqs [OF that])
  then show ?thesis
    unfolding exec_step_def fetch8_local_def agree_eqs [OF assms]
    by (cases "u_SNCPUFetch8 T (pCpu y) (l_rPC y)") (use assms in \<open>auto simp: agree_Nil\<close>)
qed

end
