(* ===== verification/Sn_Cpu_Props.thy ===== *)
theory Sn_Cpu_Props
  imports Sn_Cpu_Demo Sn_Cpu_Arith Sn_Cpu_Run Sn_Cpu_Exec
begin

text \<open>
  The properties of the 65816 interpreter \<^verbatim>\<open>SNCPUExecute_C\<close>.
\<close>

section \<open>A state for the witnesses\<close>

lemmas eval_defs =
  flat_cpu_def flat_bank_def flat_mem_def zero_regs_def flag_defs exec_step_def fetch8_local_def exec_enter_def
  SNCPU_UNPACKFLAGS_def SNCPU_SETFLAG_E_x_def clear_index_high_def upd_regs_def SNCPU_OPCODE_E_def
  u_SNCPUFetch8_def SNCPU_SUBMEMCYCLES_def uu_SNCPUFetch8_def bank_at_def bank_index_def SNCPU_BANK_SHIFT_def
  ptr_add_def hload_def bump_PC_def opcode_of_def exec_op_def SNCPU_SUBCYCLES_c_def SNCPU_CYCLE_FAST_def

lemma find_NOP: "find_case op65816 0x4EA = Some [SNCPU_ENDOP 1]"
  by (simp add: op65816_def op65816_move_def find_case_append op65816_flags_def)

abbreviation demo :: "unit xst" where
  "demo \<equiv> exec_enter (flat_cpu (\<lambda>_. 0xEA) (zero_regs\<lparr>rE := 1\<rparr>) 1)"

lemma demo_ok: "xst_ok default_only demo" "l_rPC demo = 0" "Cycles (pCpu demo) = 1"
proof -
  let ?c = "flat_cpu (\<lambda>_. 0xEA) (zero_regs\<lparr>rE := 1\<rparr>) 1"
  have "cpu_ok default_only ?c"
    using flat_ok [of "\<lambda>_. 0xEA" "zero_regs\<lparr>rE := 1\<rparr>" 1] by (simp add: cpu_ok_def) (simp add: flat_cpu_def zero_regs_def)
  then show "xst_ok default_only demo" unfolding exec_enter_def
    by (intro UNPACKFLAGS_within [of _ _ ball, simplified]) simp
  show "l_rPC demo = 0" "Cycles (pCpu demo) = 1" by (simp_all add: eval_defs)
qed

section \<open>The interpreter\<close>

text \<open>
  C1: every iteration of the interpreter is defined. Whatever the opcode and the registers are, an
  iteration that starts with the instruction inside the 24-bit address space accesses only the bank
  table and the memory behind it, keeps the state well-formed and uses up cycles.
\<close>

theorem instruction_defined:
  assumes "trap_contract T winv" and "xst_ok winv x" and "unat (l_rPC x) \<le> pc_limit" and "0 < Cycles (pCpu x)"
  shows "\<exists>x'. exec_step T x = Some x' \<and> xst_ok winv x' \<and> nat (Cycles (pCpu x')) < nat (Cycles (pCpu x))"
  using trap_contract.exec_step_ok [OF assms] by (simp add: returns_def)

theorem instruction_defined_witness:
  "\<exists>x'. exec_step no_traps demo = Some x' \<and> xst_ok default_only x' \<and> nat (Cycles (pCpu x')) < 1"
  using instruction_defined [OF default_traps.trap_contract_axioms demo_ok(1)] demo_ok(2,3)
  by (simp add: pc_limit_def)

lemma demo_step: "exec_step no_traps demo = Some y \<Longrightarrow> l_rPC y = 1 \<and> Cycles (pCpu y) \<le> 0"
  by (auto simp: eval_defs find_NOP)

lemma demo_reach: "exec_reach no_traps demo y \<Longrightarrow> y = demo \<or> l_rPC y = 1 \<and> Cycles (pCpu y) \<le> 0"
  by (induction rule: exec_reach.induct) (auto dest: demo_step)



text \<open>
  C5: the decoder stays in step with the processor. In every state a run reaches from
  \<^verbatim>\<open>SNCPUExecute_C\<close>, the mode bits that are or-ed into the opcode are those of the E, M and X
  flags of the registers, the direct page mask is that of the E flag and the carry is a single bit.
\<close>

theorem decoder_in_step:
  assumes "trap_contract T winv" and "cpu_ok winv c" and "exec_reach T (exec_enter c) y"
    and "\<And>z. exec_reach T (exec_enter c) z \<Longrightarrow> unat (l_rPC z) \<le> pc_limit"
  shows "uOpcodeMod y = mode_bits (Regs (pCpu y)) \<and> fC y AND 1 = fC y
    \<and> l_DPMASK y = (if rE (Regs (pCpu y)) \<noteq> 0 then 0x00FF else 0xFFFF)"
proof -
  have "xst_ok winv y"
    using assms(3)
  proof (induction rule: exec_reach.induct)
    case reach_refl
    show ?case unfolding exec_enter_def
      by (intro UNPACKFLAGS_within [of _ _ ball, simplified]) (use assms(2) in simp)
  next
    case (reach_step y z)
    from trap_contract.exec_step_ok [OF assms(1) reach_step.IH assms(4) [OF reach_step.hyps(1)] reach_step.hyps(2)]
    show ?case using reach_step.hyps(3) by simp
  qed
  then show ?thesis by (simp add: xst_ok_def in_mode_def)
qed

theorem decoder_in_step_witness:
  "uOpcodeMod demo = mode_bits (Regs (pCpu demo)) \<and> fC demo AND 1 = fC demo
    \<and> l_DPMASK demo = (if rE (Regs (pCpu demo)) \<noteq> 0 then 0x00FF else 0xFFFF)"
proof (rule decoder_in_step [OF default_traps.trap_contract_axioms _ reach_refl])
  show "cpu_ok default_only (flat_cpu (\<lambda>_. 0xEA) (zero_regs\<lparr>rE := 1\<rparr>) 1)"
    using flat_ok [of "\<lambda>_. 0xEA" "zero_regs\<lparr>rE := 1\<rparr>" 1] by (simp add: cpu_ok_def) (simp add: flat_cpu_def zero_regs_def)
  show "unat (l_rPC y) \<le> pc_limit" if "exec_reach no_traps demo y" for y
    using demo_reach [OF that] demo_ok(2) by (auto simp: pc_limit_def)
qed

text \<open>
  C7: the uninitialised temporaries of an iteration do not matter. Two states that differ in
  \<^verbatim>\<open>t0\<close>, \<^verbatim>\<open>t1\<close>, \<^verbatim>\<open>t2\<close> only are taken to states that differ in them only, or
  both are undefined: no handler reads a temporary before it has set it.
\<close>

theorem temporaries_irrelevant:
  assumes "strip x = strip y"
  shows "map_option strip (exec_step T x) = map_option strip (exec_step T y)"
proof -
  have "rel_option (agree []) (exec_step T x) (exec_step T y)"
    by (rule exec_step_agree) (simp add: agree_Nil assms)
  then show ?thesis by (cases rule: option.rel_cases) (auto simp: agree_Nil)
qed

theorem temporaries_irrelevant_witness:
  "map_option strip (exec_step no_traps (demo\<lparr>l_t0 := 5, l_t1 := 6\<rparr>)) = map_option strip (exec_step no_traps demo)"
  by (rule temporaries_irrelevant) (simp add: strip_def)

text \<open>
  the switch of the interpreter. The \<^verbatim>\<open>case\<close> labels of \<^verbatim>\<open>op65816.h\<close> and of
  \<^verbatim>\<open>sncpu_c.c\<close> are, each once, all opcodes in all five modes but \<^verbatim>\<open>WDM\<close>
  (\<^verbatim>\<open>0x42\<close>) and \<^verbatim>\<open>STP\<close> (\<^verbatim>\<open>0xDB\<close>).
\<close>

theorem switch_labels:
  "mset (concat (map fst op65816)) + mset (concat (map fst hand_cases)) +
     mset [0x042, 0x142, 0x242, 0x342, 0x442, 0x0DB, 0x1DB, 0x2DB, 0x3DB, 0x4DB] = mset [0..<0x500]"
proof -
  have "concat unimplemented = [0x042, 0x142, 0x242, 0x342, 0x442, 0x0DB, 0x1DB, 0x2DB, 0x3DB, 0x4DB]"
    by (simp add: unimplemented_def SNCPU_OP_ALL_def)
  then show ?thesis
    using labels_mset unfolding all_labels_def by (simp add: add.assoc)
qed

section \<open>Arithmetic\<close>

text \<open>
  the 8-bit ADC in binary mode. The macros every such handler ends with add the operand and the
  carry to the low byte of the accumulator, the high byte stays, and carry, zero, negative and
  overflow are those of the addition (overflow: the signed sum does not fit in eight bits).
\<close>

theorem ADC8_binary:
  fixes b :: u8
  assumes "l_t1 x = ucast b" and "fC x \<le> 1" and "rP (Regs (pCpu x)) AND SNCPU_FLAG_D = 0"
  shows "\<exists>x'. run_ops (exec_uop T) (adder8_tail ADC8) x = Some x' \<and>
    (let a = lo8 (rA (Regs (pCpu x))); s = sint a + sint b + uint (fC x) in
     adder8_effect x (a + b + ucast (fC x)) (256 \<le> unat a + unat b + unat (fC x)) (s < - 128 \<or> 127 < s) x')"
proof -
  let ?a = "lo8 (rA (Regs (pCpu x)))"
  let ?v = "ucast ?a + ucast b + fC x :: u32"
  have "unat ?v = unat ?a + unat b + unat (fC x)" by (rule add8_unat [OF assms(2)])
  moreover have "unat (fC x) \<le> 1" using assms(2) by (simp add: word_le_nat_alt)
  ultimately have "bit ?v 8 \<longleftrightarrow> 256 \<le> unat ?a + unat b + unat (fC x)"
    using unat_u8_le [of ?a] unat_u8_le [of b] by (auto simp: bit8_div div_if)
  moreover have "(ucast ?v :: u8) = ?a + b + ucast (fC x)"
    by (simp add: ucast_add8)
  ultimately show ?thesis
    using adder8_tail_effect [OF assms(1,2), of ADC8 T] assms(3) by (simp add: adder8_value_def Let_def)
qed

theorem ADC8_binary_witness:
  "\<exists>x'. run_ops (exec_uop no_traps) (adder8_tail ADC8) (demo\<lparr>l_t1 := 0x7F, fC := 1\<rparr>) = Some x' \<and>
     adder8_effect (demo\<lparr>l_t1 := 0x7F, fC := 1\<rparr>) 0x80 False True x'"
  using ADC8_binary [of "demo\<lparr>l_t1 := 0x7F, fC := 1\<rparr>" "0x7F" no_traps]
  by (simp add: eval_defs Let_def lo8_def)

text \<open>
  C8: the 8-bit ADC in decimal mode. If the accumulator and the operand hold packed decimal numbers,
  the accumulator becomes their sum with the carry, modulo 100, and the carry flag says whether the
  sum was 100 or more.
\<close>

theorem ADC8_decimal:
  assumes "lo8 (rA (Regs (pCpu x))) = ucast (bcd8 m)" and "l_t1 x = bcd8 n" and "m < 100" and "n < 100"
    and "fC x = of_nat e" and "e \<le> 1" and "rP (Regs (pCpu x)) AND SNCPU_FLAG_D \<noteq> 0"
  shows "\<exists>x' v. run_ops (exec_uop T) (adder8_tail ADC8) x = Some x' \<and>
    adder8_effect x (ucast (bcd8 ((m + n + e) mod 100))) (100 \<le> m + n + e) v x'"
proof -
  have c: "fC x \<le> 1" using assms(5,6) by (auto simp: le_Suc_eq)
  have t: "l_t1 x = ucast (ucast (bcd8 n) :: u8)" by (simp add: assms ucast_bcd8)
  have "adder8_value ADC8 True (fC x) (ucast (lo8 (rA (Regs (pCpu x))))) (ucast (ucast (bcd8 n) :: u8)) =
      bcd8 ((m + n + e) mod 100) + (if 100 \<le> m + n + e then 0x100 else 0)"
    by (simp only: adder8_value_def assms(1,5) ucast_bcd8 [OF assms(3)] ucast_bcd8 [OF assms(4)]
      DecimalADC8_bcd [OF assms(3,4,6)] if_True adder_decimal.simps)
  with adder8_tail_effect [OF t c, of ADC8 T] bcd8_high [of "(m + n + e) mod 100"] assms(7) show ?thesis
    by (auto simp: ucast_bcd8_plus split: if_splits)
qed

theorem ADC8_decimal_witness:
  "\<exists>x' v. run_ops (exec_uop no_traps) (adder8_tail ADC8) (upd_regs (\<lambda>r. r\<lparr>rA := 0x58, rP := 8\<rparr>) (demo\<lparr>l_t1 := 0x46, fC := 1\<rparr>)) = Some x'
     \<and> adder8_effect (upd_regs (\<lambda>r. r\<lparr>rA := 0x58, rP := 8\<rparr>) (demo\<lparr>l_t1 := 0x46, fC := 1\<rparr>)) 0x05 True v x'"
  using ADC8_decimal [of "upd_regs (\<lambda>r. r\<lparr>rA := 0x58, rP := 8\<rparr>) (demo\<lparr>l_t1 := 0x46, fC := 1\<rparr>)" 58 46 1 no_traps]
  by (simp add: lo8_def bcd8_def flag_defs)

text \<open>
  C9: the 8-bit SBC in decimal mode. If the accumulator and the operand hold packed decimal numbers,
  the accumulator becomes their difference less the borrow, modulo 100, and the carry flag is set
  when there is no borrow. (The operand was inverted by the macro before.)
\<close>

theorem SBC8_decimal:
  assumes "lo8 (rA (Regs (pCpu x))) = ucast (bcd8 m)" and "l_t1 x = bcd8 n XOR 0xFF" and "m < 100" and "n < 100"
    and "fC x = of_nat e" and "e \<le> 1" and "rP (Regs (pCpu x)) AND SNCPU_FLAG_D \<noteq> 0"
  shows "\<exists>x' v. run_ops (exec_uop T) (adder8_tail SBC8) x = Some x' \<and>
    adder8_effect x (ucast (bcd8 (nat ((int m - int n - (1 - int e)) mod 100)))) (0 \<le> int m - int n - (1 - int e)) v x'"
proof -
  let ?r = "int m - int n - (1 - int e)"
  have c: "fC x \<le> 1" using assms(5,6) by (auto simp: le_Suc_eq)
  have n: "(ucast (ucast (bcd8 n XOR 0xFF) :: u8) :: u32) = bcd8 n XOR 0xFF"
  proof -
    have "unat (bcd8 n) < 2 ^ 8" using bcd8_less [OF assms(4)] unat_bcd8 [OF assms(4)] by simp
    then have "unat (bcd8 n XOR 0xFF) < 2 ^ 8" by (rule xor_lt_two_power) simp
    then show ?thesis by (simp add: word_unat_eq_iff unat_ucast_u32_u8)
  qed
  then have t: "l_t1 x = ucast (ucast (bcd8 n XOR 0xFF) :: u8)" by (simp add: assms)
  have "adder8_value SBC8 True (fC x) (ucast (lo8 (rA (Regs (pCpu x))))) (ucast (ucast (bcd8 n XOR 0xFF) :: u8)) =
      bcd8 (nat (?r mod 100)) + (if ?r < 0 then 0xFFFFFE00 else 0x100)"
    by (simp only: adder8_value_def assms(1,5) ucast_bcd8 [OF assms(3)] n DecimalSBC8_bcd [OF assms(3,4,6)]
      if_True adder_decimal.simps)
  with adder8_tail_effect [OF t c, of SBC8 T] bcd8_high [of "nat (?r mod 100)"] assms(7) show ?thesis
    by (auto simp: ucast_bcd8_plus nat_less_iff split: if_splits)
qed

theorem SBC8_decimal_witness:
  "\<exists>x' v. run_ops (exec_uop no_traps) (adder8_tail SBC8) (upd_regs (\<lambda>r. r\<lparr>rA := 0x05, rP := 8\<rparr>) (demo\<lparr>l_t1 := 0xB9, fC := 1\<rparr>)) = Some x'
     \<and> adder8_effect (upd_regs (\<lambda>r. r\<lparr>rA := 0x05, rP := 8\<rparr>) (demo\<lparr>l_t1 := 0xB9, fC := 1\<rparr>)) 0x59 False v x'"
  using SBC8_decimal [of "upd_regs (\<lambda>r. r\<lparr>rA := 0x05, rP := 8\<rparr>) (demo\<lparr>l_t1 := 0xB9, fC := 1\<rparr>)" 5 46 1 no_traps]
  by (simp add: lo8_def bcd8_def flag_defs)

end
