(* ===== verification/Sn_Cpu_Bus_Props.thy ===== *)
theory Sn_Cpu_Bus_Props
  imports Sn_Cpu_Demo
begin

text \<open>
  The properties of the 65816's memory interface, stack, interrupt lines and execution wrappers
  (\<^verbatim>\<open>sncpu.c\<close>).
\<close>

section \<open>Memory\<close>

text \<open>
  a fresh processor is well-formed. After \<^verbatim>\<open>SNCPUNew\<close> every bank has handlers and a
  non-zero cycle cost, the registers are zero but for the I flag, the counters are zero, and the
  client's state and the host memory are untouched.
\<close>

theorem New_well_formed:
  "\<exists>c'. SNCPUNew c = Some c' \<and> bus_ok c' \<and> handlers_set c' \<and> default_only w (Bank c') (dom (hMem c'))
     \<and> Regs c' = zero_regs\<lparr>rP := SNCPU_FLAG_I\<rparr> \<and> Cycles c' = 0 \<and> Counter c' = [0, 0, 0, 0]
     \<and> hMem c' = hMem c \<and> pUserData c' = pUserData c"
  using SNCPUNew_ok [of c] SNCPUNew_default_only [of c _ w] by (auto simp: returns_def)

text \<open>
  mapping memory keeps the bank table well-formed, provided the block that is mapped is as long
  as the range it is mapped to.
\<close>

theorem SetBank_well_formed:
  assumes "bus_ok c" and "handlers_set c" and "SNCPUSetBank c Addr Size p ram = Some c'"
    and "\<And>q. p = Some q \<Longrightarrow> cells (hMem c) q 0 (unat Size)"
  shows "bus_ok c' \<and> handlers_set c'"
  using assms by (rule SNCPUSetBank_ok)

theorem SetBank_well_formed_witness:
  "\<exists>c'. SNCPUSetBank (flat_cpu (\<lambda>_. 0) zero_regs 1) 0x7E0000 0x20000 (Some (0, 0)) True = Some c' \<and> bus_ok c' \<and> handlers_set c'"
proof -
  have e: "\<exists>c'. SNCPUSetBank (flat_cpu (\<lambda>_. 0) zero_regs 1) 0x7E0000 0x20000 (Some (0, 0)) True = Some c'"
    by (simp add: SNCPUSetBank_def bank_update_eq)
  then obtain c' where c': "SNCPUSetBank (flat_cpu (\<lambda>_. 0) zero_regs 1) 0x7E0000 0x20000 (Some (0, 0)) True = Some c'" ..
  moreover have "bus_ok c' \<and> handlers_set c'"
  proof (rule SetBank_well_formed [OF _ _ c'])
    show "bus_ok (flat_cpu (\<lambda>_. 0) zero_regs 1)" using flat_ok [of "\<lambda>_. 0" zero_regs 1] by (simp add: machine_ok_def)
    show "handlers_set (flat_cpu (\<lambda>_. 0) zero_regs 1)" by (simp add: handlers_set_def flat_cpu_def flat_bank_def)
    show "cells (hMem (flat_cpu (\<lambda>_. 0) zero_regs 1)) q 0 (unat (0x20000 :: u32))" if "Some (0, 0) = Some q" for q
      using that by (auto simp: cells_def flat_cpu_def flat_mem_def ptr_add_def dom_def)
  qed
  ultimately show ?thesis by blast
qed

text \<open>
  every access inside the address space is defined, for any client whose handlers meet their
  contract, and keeps the bank table, the client's invariant and the registers.
\<close>

theorem accesses_defined:
  assumes "trap_contract T winv" and "machine_ok winv c" and "unat a < unat SNCPU_MEM_SIZE"
  shows "(\<exists>u c'. SNCPURead8 T c a = Some (u, c') \<and> access winv c c') \<and>
         (\<exists>c'. SNCPUWrite8 T c a v = Some c' \<and> access winv c c')"
  using trap_contract.read8_ok [OF assms(1,2)] trap_contract.write8_ok [OF assms(1,2)] assms(3)
  by (auto simp: SNCPU_MEM_SIZE_def returns_def)

theorem accesses_defined_witness:
  "(\<exists>u c'. SNCPURead8 no_traps (flat_cpu (\<lambda>_. 0) zero_regs 1) 0x100FFFF = Some (u, c') \<and>
      access default_only (flat_cpu (\<lambda>_. 0) zero_regs 1) c') \<and>
   (\<exists>c'. SNCPUWrite8 no_traps (flat_cpu (\<lambda>_. 0) zero_regs 1) 0x100FFFF 5 = Some c' \<and>
      access default_only (flat_cpu (\<lambda>_. 0) zero_regs 1) c')"
  by (rule accesses_defined [OF default_traps.trap_contract_axioms flat_ok]) (simp add: SNCPU_MEM_SIZE_def)

text \<open>
  C10: reads see writes, through every alias. After a byte is written to an address backed by
  writable memory, reading any such address gives that byte if both denote the same host cell (the
  banks may mirror each other) and the old content if they do not; nothing else changes.
\<close>

theorem write_then_read:
  assumes "ram_at c a" and "ram_at c b" and "SNCPUWrite8 T c a v = Some c'"
  shows "SNCPURead8 T c' b =
    Some (if host_cell c b = host_cell c a then v else host_content c (host_cell c b), c')"
proof -
  have "returns (SNCPURead8 T c' b)
      (\<lambda>(w, s'). w = (if host_cell c b = host_cell c a then v else host_content c (host_cell c b)))"
    using cpu_bus.read_after_write [OF assms(1,2), of T v] assms(3) by simp
  moreover have "ram_at c' b"
    using assms by (simp add: SNCPUWrite8_ram) (metis ram_at_dom ram_at_hMem)
  ultimately show ?thesis by (auto simp: SNCPURead8_ram)
qed

theorem write_then_read_witness:
  "\<exists>c'. SNCPUWrite8 no_traps (flat_cpu (\<lambda>_. 0) zero_regs 1) 0x7E0010 0x55 = Some c' \<and>
        SNCPURead8 no_traps c' 0x7E0010 = Some (0x55, c')"
proof -
  have r: "ram_at (flat_cpu (\<lambda>_. 0) zero_regs 1) 0x7E0010" by (rule flat_ram) simp
  then obtain c' where w: "SNCPUWrite8 no_traps (flat_cpu (\<lambda>_. 0) zero_regs 1) 0x7E0010 0x55 = Some c'"
    by (simp add: SNCPUWrite8_ram)
  from write_then_read [OF r r w] w show ?thesis by simp
qed

text \<open>
  the block copy \<^verbatim>\<open>SNCPUReadMem\<close>, which moves a bank at a time, delivers the bytes and
  the final processor that reading byte by byte delivers, if no read handler remaps the banks.
\<close>

theorem ReadMem_bytewise:
  assumes "\<And>k c a v c'. rtrap T k c a = Some (v, c') \<Longrightarrow> Bank c' = Bank c"
  shows "SNCPUReadMem T c a n = SNCPUReadMem_slow T c a n"
proof -
  have "steady_reads T" by unfold_locales (rule assms)
  then show ?thesis by (rule steady_reads.fast_eq_slow)
qed

theorem ReadMem_bytewise_witness:
  "SNCPUReadMem no_traps (flat_cpu (\<lambda>_. 0) zero_regs 1) 0x7FFF 3 =
     SNCPUReadMem_slow no_traps (flat_cpu (\<lambda>_. 0) zero_regs 1) 0x7FFF 3"
  by (rule ReadMem_bytewise) (simp add: no_traps_def)

text \<open>
  the stack in memory. A byte that was pushed is popped again and all registers are as before
  the push, in native mode and in emulation mode, where the stack pointer wraps inside page one.
\<close>

theorem push_pop:
  assumes "stack_ram c" and "SNCPUPush8 T c v = Some c'"
  shows "SNCPUPop8 T c' = Some (v, c'\<lparr>Regs := Regs c\<rparr>)"
  using assms by (rule pop_after_push)

theorem push_pop_witness:
  "\<exists>c'. SNCPUPush8 no_traps (flat_cpu (\<lambda>_. 0) (zero_regs\<lparr>rE := 1, rS := 0x100\<rparr>) 1) 0x55 = Some c' \<and>
        rS (Regs c') = 0x1FF \<and>
        SNCPUPop8 no_traps c' = Some (0x55, c'\<lparr>Regs := zero_regs\<lparr>rE := 1, rS := 0x100\<rparr>\<rparr>)"
proof -
  let ?c = "flat_cpu (\<lambda>_. 0) (zero_regs\<lparr>rE := 1, rS := 0x100\<rparr>) 1"
  have r: "stack_ram ?c" unfolding stack_ram_def by (rule flat_ram) (simp add: flat_cpu_def)
  from SNCPUPush8_ram [OF r, where T = no_traps and v = "0x55"] obtain c' where c': "SNCPUPush8 no_traps ?c 0x55 = Some c'"
    and s: "rS (Regs c') = rS (stack_dec (Regs ?c))" by simp
  have "rS (stack_dec (Regs ?c)) = 0x1FF"
    by (simp add: stack_dec_def flat_cpu_def set_lo8_def mk16_def lo8_def hi8_def)
  with s push_pop [OF r c'] c' show ?thesis by (simp add: flat_cpu_def)
qed

section \<open>Interrupt lines\<close>

text \<open>
  C11: the NMI line is edge triggered. Raising it from low latches the edge and aborts the running
  slice; raising it again while it is high changes nothing; lowering it drops level and edge.
\<close>

theorem NMI_edge:
  assumes "uSignal c AND SNCPU_SIGNAL_NMI = 0"
  shows "SNCPUSignalNMI c True = (SNCPUAbort c)\<lparr>uSignal := uSignal c OR (SNCPU_SIGNAL_NMI OR SNCPU_SIGNAL_NMIEDGE)\<rparr>
   \<and> SNCPUSignalNMI (SNCPUSignalNMI c True) True = SNCPUSignalNMI c True
   \<and> uSignal (SNCPUSignalNMI (SNCPUSignalNMI c True) False) = uSignal c AND NOT (SNCPU_SIGNAL_NMI OR SNCPU_SIGNAL_NMIEDGE)"
proof -
  let ?m = "SNCPU_SIGNAL_NMI OR SNCPU_SIGNAL_NMIEDGE"
  have 1: "SNCPUSignalNMI c True = (SNCPUAbort c)\<lparr>uSignal := uSignal c OR ?m\<rparr>"
    using assms by (simp add: SNCPUSignalNMI_def SNCPUAbort_def or.assoc or.commute or.left_commute)
  have "(uSignal c OR ?m) AND SNCPU_SIGNAL_NMI = SNCPU_SIGNAL_NMI"
    by (rule bit_word_eqI) (auto simp: bit_simps)
  moreover have "(uSignal c OR ?m) OR SNCPU_SIGNAL_NMI = uSignal c OR ?m"
    by (rule bit_word_eqI) (auto simp: bit_simps)
  moreover have "SNCPU_SIGNAL_NMI \<noteq> 0" by (simp add: signal_defs)
  ultimately have 2: "SNCPUSignalNMI (SNCPUSignalNMI c True) True = SNCPUSignalNMI c True"
    unfolding 1 by (simp add: SNCPUSignalNMI_def)
  have "(uSignal c OR ?m) AND NOT ?m = uSignal c AND NOT ?m"
    by (rule bit_word_eqI) (auto simp: bit_simps)
  then have 3: "uSignal (SNCPUSignalNMI (SNCPUSignalNMI c True) False) = uSignal c AND NOT ?m"
    unfolding 1 by (simp add: SNCPUSignalNMI_def)
  from 1 2 3 show ?thesis by blast
qed

theorem NMI_edge_witness:
  "SNCPUSignalNMI (SNCPUSignalNMI (flat_cpu (\<lambda>_. 0) zero_regs 100) True) True =
   SNCPUSignalNMI (flat_cpu (\<lambda>_. 0) zero_regs 100) True"
proof -
  have "uSignal (flat_cpu (\<lambda>_. 0) zero_regs 100) AND SNCPU_SIGNAL_NMI = 0" by (simp add: flat_cpu_def)
  from NMI_edge [OF this] show ?thesis by blast
qed

section \<open>Running\<close>

text \<open>
  an aborted slice. If the run of \<^verbatim>\<open>SNCPUExecute\<close> ends by \<^verbatim>\<open>SNCPUAbort\<close> with
  cycles left, the caller gets \<^verbatim>\<open>FALSE\<close> and the cycles that were left when it was aborted.
\<close>

theorem abort_restores_cycles:
  assumes "ex (c\<lparr>nAbortCycles := 0, bRunning := True\<rparr>) = Some (SNCPUAbort c1)" and "bRunning c1" and "Cycles c1 \<noteq> 0"
  shows "SNCPUExecute ex c = Some (False, c1\<lparr>bRunning := False, nAbortCycles := 0\<rparr>)"
  using assms by (rule abort_restores)

theorem abort_restores_cycles_witness:
  "SNCPUExecute (\<lambda>c. Some (SNCPUAbort c)) (flat_cpu (\<lambda>_. 0) zero_regs 42) =
     Some (False, (flat_cpu (\<lambda>_. 0) zero_regs 42)\<lparr>nAbortCycles := 0, bRunning := False\<rparr>)"
  using abort_restores_cycles [of "\<lambda>c. Some (SNCPUAbort c)" "flat_cpu (\<lambda>_. 0) zero_regs 42"
      "(flat_cpu (\<lambda>_. 0) zero_regs 42)\<lparr>nAbortCycles := 0, bRunning := True\<rparr>"]
  by (simp add: flat_cpu_def)

text \<open>
  single stepping is invisible to the counters. \<^verbatim>\<open>SNCPUExecuteOne\<close> runs the processor with a
  cycle budget of one; every counter then shows what it shows at the end of that run, and the cycles
  the caller had are back, less those the instruction took.
\<close>

theorem single_step_counters:
  assumes "Cycles c > 0"
    and "SNCPUExecute ex (c\<lparr>Cycles := 1, Counter := map (\<lambda>k. k - (Cycles c - 1)) (Counter c)\<rparr>) = Some (b, c1)"
    and "length (Counter c1) = length (Counter c)"
  shows "\<exists>c2. SNCPUExecuteOne ex c = Some (True, c2) \<and> SNCPUGetCounter c2 i = SNCPUGetCounter c1 i
            \<and> Cycles c2 = Cycles c1 + (Cycles c - 1)"
  using assms by (rule ExecuteOne_counters)

theorem single_step_counters_witness:
  "\<exists>c2. SNCPUExecuteOne (\<lambda>c. Some (c\<lparr>Cycles := Cycles c - 14\<rparr>)) (flat_cpu (\<lambda>_. 0) zero_regs 100) = Some (True, c2)
      \<and> SNCPUGetCounter c2 0 = Some (- 86) \<and> Cycles c2 = 86"
  using single_step_counters [of "flat_cpu (\<lambda>_. 0) zero_regs 100" "\<lambda>c. Some (c\<lparr>Cycles := Cycles c - 14\<rparr>)" True
      "(flat_cpu (\<lambda>_. 0) zero_regs (- 13))\<lparr>Counter := [- 99, - 99, - 99, - 99]\<rparr>" 0]
  by (simp add: flat_cpu_def SNCPUExecute_def SNCPUGetCounter_def Let_def)

text \<open>
  switching the debugger on and off again restores the execute function that was selected, also
  when a new one was selected in between (it takes effect when the debugger is switched off).
\<close>

theorem debug_switch:
  assumes "\<not> bDebug g"
  shows "pExecuteFunc (SNCPUSetDebug (SNCPUSetDebug g True n) False m) = pExecuteFunc g \<and>
         pExecuteFunc (SNCPUSetDebug (SNCPUSetExecuteFunc (SNCPUSetDebug g True n) f) False m) = f \<and>
         pExecuteFunc (SNCPUSetDebug g True n) = ExecuteDebugFunc"
  using assms by (simp add: SNCPUSetDebug_def SNCPUSetExecuteFunc_def Let_def)

theorem debug_switch_witness:
  "pExecuteFunc (SNCPUSetDebug (SNCPUSetDebug execvars_init True 1) False 1) = DefaultExecuteFunc"
  using debug_switch [of execvars_init] by (simp add: execvars_init_def)

end
