(* ===== verification/Sn_Cpu_Irq.thy ===== *)
theory Sn_Cpu_Irq
  imports Sn_Cpu_Exec Sn_Cpu_Demo
begin

text \<open>
  The flags register and the unpacked flags, and the pair of an interrupt and the RTI handler:
  what the interrupt pushed, RTI restores.
\<close>

section \<open>Packed and unpacked flags\<close>

lemma pack_bits: "((p AND NOT 0x83) OR ucast (ucast (p AND 1 :: u8) :: u32)) OR ucast (drop_bit 8 (push_bit 8 (ucast p :: u32)) AND 0x80) OR (p AND 2)
   = (p :: u8)"
proof -
  have 1: "ucast (ucast (p AND 1) :: u32) = p AND 1"
    by (rule bit_word_eqI) (auto simp: bit_simps)
  have 2: "ucast (drop_bit 8 (push_bit 8 (ucast p :: u32)) AND 0x80) = p AND 0x80"
    by (rule bit_word_eqI) (auto simp: bit_simps dest: bit_imp_le_length)
  show ?thesis
    unfolding 1 2
    by (rule bit_word_eqI) (auto simp: bit_simps numeral_eq_Suc less_Suc_eq)
qed

lemma unpacked_Z: "ucast ((p AND 2) XOR 2 :: u8) AND (0xFFFF :: u32) = 0 \<longleftrightarrow> p AND 2 = 2"
  using bit1_cases [of p] by auto

text \<open>
  The registers as the processor has them: with 8-bit index registers their high bytes are zero; in
  emulation mode M and X are set, the stack is in page one and the direct page is zero.
\<close>

definition canonical :: "SNCpuRegsT \<Rightarrow> bool" where
  "canonical r \<longleftrightarrow> (rP r AND SNCPU_FLAG_X \<noteq> 0 \<longrightarrow> hi8 (rX r) = 0 \<and> hi8 (rY r) = 0) \<and>
     (rE r \<noteq> 0 \<longrightarrow> rP r OR (SNCPU_FLAG_M OR SNCPU_FLAG_X) = rP r \<and> hi8 (rS r) = 1 \<and> rDP r = 0)"

lemma set_hi8_id: "hi8 w = v \<Longrightarrow> set_hi8 w v = w"
  by auto

lemma clear_index_high_canonical:
  assumes "canonical (Regs (pCpu x))"
  shows "clear_index_high (rP (Regs (pCpu x))) x = x"
proof (cases "rP (Regs (pCpu x)) AND SNCPU_FLAG_X = 0")
  case False
  with assms have "hi8 (rX (Regs (pCpu x))) = 0" "hi8 (rY (Regs (pCpu x))) = 0"
    by (simp_all add: canonical_def)
  then show ?thesis by (simp add: clear_index_high_def upd_regs_def set_hi8_id)
qed (simp add: clear_index_high_def)

lemma unpack_pCpu:
  assumes "canonical (Regs (pCpu x))"
  shows "pCpu (SNCPU_UNPACKFLAGS x) = pCpu x"
proof -
  let ?r = "Regs (pCpu x)"
  have "clear_index_high (rP ?r) (x\<lparr>fC := c, fZ := z, fN := n\<rparr>) = x\<lparr>fC := c, fZ := z, fN := n\<rparr>" for c z n
    using clear_index_high_canonical [of "x\<lparr>fC := c, fZ := z, fN := n\<rparr>"] assms by simp
  then show ?thesis
    using assms by (auto simp: SNCPU_UNPACKFLAGS_def Let_def SNCPU_SETFLAG_E_x_def canonical_def upd_regs_def set_hi8_id)
qed

lemma unpack_flags:
  "fC (SNCPU_UNPACKFLAGS x) = ucast (rP (Regs (pCpu x)) AND SNCPU_FLAG_C)"
  "fZ (SNCPU_UNPACKFLAGS x) = ucast ((rP (Regs (pCpu x)) AND SNCPU_FLAG_Z) XOR SNCPU_FLAG_Z)"
  "fN (SNCPU_UNPACKFLAGS x) = push_bit 8 (ucast (rP (Regs (pCpu x))))"
  "l_rPC (SNCPU_UNPACKFLAGS x) = l_rPC x"
  by (simp_all add: SNCPU_UNPACKFLAGS_def Let_def SNCPU_SETFLAG_E_x_def clear_index_high_def upd_regs_def)

text \<open>Packing what was unpacked gives the flags register back.\<close>

lemma pack_unpack:
  assumes "fC x = ucast (p AND SNCPU_FLAG_C)" and "fZ x = ucast ((p AND SNCPU_FLAG_Z) XOR SNCPU_FLAG_Z)"
    and "fN x = push_bit 8 (ucast p)" and "rP (Regs (pCpu x)) = p"
  shows "SNCPU_PACKFLAGS x = x"
proof -
  have "(if ucast ((p AND 2) XOR 2 :: u8) AND (0xFFFF :: u32) = 0 then
      ((p AND NOT 0x83 OR ucast (ucast (p AND 1) :: u32)) OR ucast (drop_bit 8 (push_bit 8 (ucast p :: u32)) AND 0x80)) OR 2
      else (p AND NOT 0x83 OR ucast (ucast (p AND 1) :: u32)) OR ucast (drop_bit 8 (push_bit 8 (ucast p :: u32)) AND 0x80)) = p"
    using pack_bits [of p] unpacked_Z [of p] bit1_cases [of p] by (auto simp: or.assoc)
  then have "upd_regs (\<lambda>r. r\<lparr>rP := p\<rparr>) x = SNCPU_PACKFLAGS x"
    using assms by (cases "ucast ((p AND 2) XOR 2 :: u8) AND (0xFFFF :: u32) = 0")
      (simp_all add: SNCPU_PACKFLAGS_def upd_regs_def Let_def flag_defs)
  moreover have "upd_regs (\<lambda>r. r\<lparr>rP := p\<rparr>) x = x"
    by (simp add: upd_regs_def flip: assms(4))
  ultimately show ?thesis by simp
qed

lemma leave_unpack:
  assumes "canonical (Regs (pCpu x))"
  shows "exec_leave (SNCPU_UNPACKFLAGS x) = (pCpu x)\<lparr>Regs := (Regs (pCpu x))\<lparr>rPC := l_rPC x\<rparr>\<rparr>"
proof -
  have "SNCPU_PACKFLAGS (SNCPU_UNPACKFLAGS x) = SNCPU_UNPACKFLAGS x"
    by (rule pack_unpack [where p = "rP (Regs (pCpu x))"]) (simp_all add: unpack_flags unpack_pCpu [OF assms])
  then show ?thesis
    by (simp add: exec_leave_def Let_def upd_regs_def unpack_pCpu [OF assms] unpack_flags)
qed

lemma leave_enter: "canonical (Regs c) \<Longrightarrow> exec_leave (exec_enter c) = c"
  unfolding exec_enter_def by (subst leave_unpack) simp_all

section \<open>An interrupt and its return\<close>

text \<open>Addresses backed by memory, read-only or not: a read has no effect.\<close>

definition mem_at :: "'w SNCpuT \<Rightarrow> u32 \<Rightarrow> bool" where
  "mem_at c a \<longleftrightarrow> unat a < 0x1010000 \<and> pMem (Bank c (bank_index a)) \<noteq> None \<and> host_cell c a \<in> dom (hMem c)"

lemma SNCPURead8_mem: "mem_at c a \<Longrightarrow> SNCPURead8 T c a = Some (host_content c (host_cell c a), c)"
  by (auto simp: mem_at_def SNCPURead8_def bank_at_Some host_cell_def host_content_def hload_def)

lemma mem_at_upd [simp]: "mem_at (c\<lparr>Regs := r\<rparr>) a = mem_at c a"
  "p \<in> dom (hMem c) \<Longrightarrow> mem_at (c\<lparr>hMem := (hMem c)(p \<mapsto> v)\<rparr>) a = mem_at c a"
  by (auto simp: mem_at_def host_cell_def)

lemma mem_at_dom_eq: "dom m = dom (hMem c) \<Longrightarrow> mem_at (c\<lparr>hMem := m\<rparr>) a = mem_at c a"
  and ram_at_dom_eq: "dom m = dom (hMem c) \<Longrightarrow> ram_at (c\<lparr>hMem := m\<rparr>) a = ram_at c a"
  by (auto simp: mem_at_def ram_at_def host_cell_def)

text \<open>The four cells below the stack pointer, writable and different from each other.\<close>

definition stack4 :: "'w SNCpuT \<Rightarrow> bool" where
  "stack4 c \<longleftrightarrow> (let cells = map (\<lambda>i. host_cell c (ucast (rS (Regs c) - i))) [0, 1, 2, 3]
     in list_all (\<lambda>i. ram_at c (ucast (rS (Regs c) - i))) [0, 1, 2, 3] \<and> distinct cells)"

lemma push_and_vector_native:
  assumes "stack4 c" and "rE (Regs c) = 0" and "mem_at c vec" and "mem_at c (vec + 1)"
  defines "s \<equiv> \<lambda>i. host_cell c (ucast (rS (Regs c) - i))"
  defines "m \<equiv> (hMem c)(s 0 \<mapsto> ucast (drop_bit 16 (rPC (Regs c))), s 1 \<mapsto> ucast (drop_bit 8 (rPC (Regs c))),
                         s 2 \<mapsto> ucast (rPC (Regs c)), s 3 \<mapsto> rP (Regs c))"
  shows "\<exists>w. push_and_vector T c vecE vec = Some (c\<lparr>hMem := m,
            Regs := (Regs c)\<lparr>rS := rS (Regs c) - 4, rPC := w\<rparr>\<rparr>)"
proof -
  have r: "ram_at c (ucast (rS (Regs c)))" "ram_at c (ucast (rS (Regs c) - 1))" "ram_at c (ucast (rS (Regs c) - 2))"
    "ram_at c (ucast (rS (Regs c) - 3))"
    using assms(1) by (simp_all add: stack4_def)
  note d = r [THEN ram_at_dom]
  show ?thesis
    using assms(2-4) r d
    by (simp add: push_and_vector_def SNCPUPush8_ram stack_ram_def stack_dec_def
        mem_at_dom_eq ram_at_dom_eq insert_absorb SNCPURead16_def SNCPURead8_mem m_def s_def) (rule exI, rule refl)
qed

section \<open>Return from interrupt\<close>

text \<open>Popping from memory.\<close>

lemma ram_at_mem: "ram_at c a \<Longrightarrow> mem_at c a"
  by (simp add: ram_at_def mem_at_def)

lemma mem_at_Cycles [simp]: "mem_at (c\<lparr>Cycles := n\<rparr>) a = mem_at c a" "host_cell (c\<lparr>Cycles := n\<rparr>) a = host_cell c a"
  by (simp_all add: mem_at_def host_cell_def)

lemma uu_SNCPURead8_mem: "mem_at c a \<Longrightarrow> uu_SNCPURead8 T c a = Some (host_content c (host_cell c a), c)"
  using SNCPURead8_mem [of c a T] by (simp add: uu_SNCPURead8_def SNCPURead8_def)

lemma u_SNCPUPop8_mem:
  "rE (Regs c) = 0 \<Longrightarrow> mem_at c (ucast (rS (Regs c) + 1)) \<Longrightarrow> u_SNCPUPop8 T c =
     Some (host_content c (host_cell c (ucast (rS (Regs c) + 1))),
           c\<lparr>Regs := (Regs c)\<lparr>rS := rS (Regs c) + 1\<rparr>, Cycles := Cycles c - 8\<rparr>)"
  by (simp add: u_SNCPUPop8_def Let_def SNCPU_SUBCYCLESSLOW_def SNCPU_CYCLE_SLOW_def uu_SNCPURead8_mem host_content_def
      stack_inc_def)

definition RTI_native :: "uop list" where
  "RTI_native = [SNCPU_POP8 R_t0, SNCPU_SET_P R_t0, SNCPU_POP24 R_t0, SNCPU_SET_PC24 R_t0, SNCPU_ENDOP 2]"

lemma find_RTI: "k \<in> {0x040, 0x140, 0x240, 0x340} \<Longrightarrow> find_case op65816 k = Some RTI_native"
  by (rule switch_case [of "[0x040, 0x140, 0x240, 0x340]"])
    (auto simp: op65816_def op65816_move_def op65816_jumps_def RTI_native_def)

text \<open>The four bytes above the stack pointer, and the processor with them popped.\<close>

definition above :: "'w SNCpuT \<Rightarrow> u16 \<Rightarrow> u8" where
  "above c i = host_content c (host_cell c (ucast (rS (Regs c) + i)))"

lemma RTI_run:
  assumes e: "rE (Regs c) = 0" and m: "list_all (\<lambda>i. mem_at c (ucast (rS (Regs c) + i))) [1, 2, 3, 4]"
    and x: "pCpu x = c" and k: "canonical ((Regs c)\<lparr>rP := above c 1\<rparr>)"
  shows "\<exists>x'. run_ops (exec_uop T) RTI_native x = Some x' \<and>
     exec_leave x' = c\<lparr>Cycles := Cycles c - 44,
       Regs := (Regs c)\<lparr>rP := above c 1, rS := rS (Regs c) + 4, rPC := join24 (above c 4) (above c 3) (above c 2) AND 0xFFFFFF\<rparr>\<rparr>"
proof -
  define c1 where "c1 = c\<lparr>Regs := (Regs c)\<lparr>rS := rS (Regs c) + 1, rP := above c 1\<rparr>, Cycles := Cycles c - 8\<rparr>"
  define x1 where "x1 = upd_regs (\<lambda>r. r\<lparr>rP := above c 1\<rparr>) (x\<lparr>
     pCpu := c\<lparr>Regs := (Regs c)\<lparr>rS := rS (Regs c) + 1\<rparr>, Cycles := Cycles c - 8\<rparr>, l_t0 := ucast (above c 1)\<rparr>)"
  define x2 where "x2 = SNCPU_UNPACKFLAGS x1"
  have uu: "ucast (ucast v :: u32) = v" for v :: u8
    by (rule bit_word_eqI) (auto simp: bit_simps)
  have p1: "pCpu x1 = c1" by (simp add: x1_def c1_def upd_regs_def)
  then have "canonical (Regs (pCpu x1))" using k e by (simp add: c1_def canonical_def)
  then have u: "pCpu x2 = c1" by (simp add: x2_def unpack_pCpu p1)
  have f: "fC x2 = ucast (above c 1 AND SNCPU_FLAG_C)" "fZ x2 = ucast ((above c 1 AND SNCPU_FLAG_Z) XOR SNCPU_FLAG_Z)"
    "fN x2 = push_bit 8 (ucast (above c 1))"
    by (simp_all add: x2_def unpack_flags p1 c1_def)
  have a: "rS (Regs c) + 1 + 1 = rS (Regs c) + 2" "rS (Regs c) + 2 + 1 = rS (Regs c) + 3" "rS (Regs c) + 3 + 1 = rS (Regs c) + 4"
    by simp_all
  have h: "host_content (c\<lparr>Regs := r, Cycles := n\<rparr>) = host_content c" "host_cell (c\<lparr>Regs := r, Cycles := n\<rparr>) = host_cell c" for r n
    by (simp_all add: fun_eq_iff host_content_def host_cell_def)
  define x3 where "x3 = x2\<lparr>pCpu := c1\<lparr>Regs := (Regs c1)\<lparr>rS := rS (Regs c) + 4\<rparr>, Cycles := Cycles c - 44\<rparr>,
      l_t0 := join24 (above c 4) (above c 3) (above c 2), l_rPC := join24 (above c 4) (above c 3) (above c 2) AND 0xFFFFFF\<rparr>"
  have r: "run_ops (exec_uop T) RTI_native x = Some x3"
    using e m x
    apply (simp add: RTI_native_def u_SNCPUPop8_mem lift_read_def above_def [symmetric] uu x1_def [symmetric] x2_def [symmetric])
    apply (simp add: u u_SNCPUPop24_def u_SNCPUPop8_mem c1_def a above_def [symmetric] h)
    apply (simp add: x3_def SNCPU_SUBCYCLES_c_def SNCPU_CYCLE_FAST_def c1_def)
    done
  have "SNCPU_PACKFLAGS x3 = x3"
    by (rule pack_unpack [where p = "above c 1"]) (simp_all add: x3_def f c1_def)
  then have "exec_leave x3 = c\<lparr>Cycles := Cycles c - 44,
       Regs := (Regs c)\<lparr>rP := above c 1, rS := rS (Regs c) + 4, rPC := join24 (above c 4) (above c 3) (above c 2) AND 0xFFFFFF\<rparr>\<rparr>"
    by (simp add: exec_leave_def upd_regs_def) (simp add: x3_def c1_def)
  with r show ?thesis by blast
qed

lemma opcode_RTI: "opcode_of 0x40 (push_bit 4 (ucast (rP r)) AND 0x300) \<in> {0x040, 0x140, 0x240, 0x340}"
proof -
  have "q AND 0x300 = (if bit q 9 then 0x200 else 0) OR (if bit q 8 then 0x100 else 0)" for q :: u32
    by (rule bit_word_eqI) (auto simp: bit_simps numeral_eq_Suc less_Suc_eq)
  then show ?thesis by (simp add: opcode_of_def)
qed

lemma join24_split:
  fixes w :: u32
  shows "join24 (ucast (drop_bit 16 w)) (ucast (drop_bit 8 w)) (ucast w) AND 0xFFFFFF = w AND 0xFFFFFF"
proof (rule bit_word_eqI)
  fix n
  have m: "(0xFFFFFF :: u32) = mask 24" by (simp add: mask_eq_exp_minus_1)
  show "bit (join24 (ucast (drop_bit 16 w)) (ucast (drop_bit 8 w)) (ucast w) AND 0xFFFFFF) n = bit (w AND 0xFFFFFF) n"
    unfolding m join24_def by (cases "n < 8"; cases "n < 16"; cases "n < 24") (auto simp: bit_simps)
qed

text \<open>The processor while the interrupt is being served.\<close>

lemma RTI_after_IRQ:
  fixes w n p
  assumes "stack4 c" and "rE (Regs c) = 0" and "canonical (Regs c)" and "p AND SNCPU_FLAG_X = rP (Regs c) AND SNCPU_FLAG_X"
  defines "s \<equiv> \<lambda>i. host_cell c (ucast (rS (Regs c) - i))"
  defines "m \<equiv> (hMem c)(s 0 \<mapsto> ucast (drop_bit 16 (rPC (Regs c))), s 1 \<mapsto> ucast (drop_bit 8 (rPC (Regs c))),
                         s 2 \<mapsto> ucast (rPC (Regs c)), s 3 \<mapsto> rP (Regs c))"
  defines "c1 \<equiv> c\<lparr>hMem := m, Regs := (Regs c)\<lparr>rS := rS (Regs c) - 4, rPC := w, rP := p\<rparr>, Cycles := n\<rparr>"
  shows "\<exists>x'. exec_op T (opcode_of 0x40 (uOpcodeMod (exec_enter c1))) (exec_enter c1) = Some x' \<and>
     Regs (exec_leave x') = (Regs c)\<lparr>rPC := rPC (Regs c) AND 0xFFFFFF\<rparr> \<and> hMem (exec_leave x') = m"
proof -
  have r: "ram_at c (ucast (rS (Regs c)))" "ram_at c (ucast (rS (Regs c) - 1))" "ram_at c (ucast (rS (Regs c) - 2))"
    "ram_at c (ucast (rS (Regs c) - 3))" and d: "distinct [s 0, s 1, s 2, s 3]"
    using assms(1) by (simp_all add: stack4_def s_def)
  have dm: "dom m = dom (hMem c)" using r [THEN ram_at_dom] by (auto simp: m_def s_def)
  have a: "rS (Regs c) - 4 + 1 = rS (Regs c) - 3" "rS (Regs c) - 4 + 2 = rS (Regs c) - 2"
    "rS (Regs c) - 4 + 3 = rS (Regs c) - 1" "rS (Regs c) - 4 + 4 = rS (Regs c)"
    by simp_all
  have h: "host_cell c1 = host_cell c" "hMem c1 = m" by (simp_all add: fun_eq_iff host_cell_def c1_def)
  have ab: "above c1 1 = rP (Regs c)" "above c1 2 = ucast (rPC (Regs c))" "above c1 3 = ucast (drop_bit 8 (rPC (Regs c)))"
    "above c1 4 = ucast (drop_bit 16 (rPC (Regs c)))"
    unfolding above_def h host_content_def
    using d by (simp_all add: c1_def a m_def s_def [symmetric] del: diff_conv_add_uminus) (auto simp: s_def)
  have "canonical (Regs c1)"
    using assms(2-4) by (simp add: c1_def canonical_def)
  then have px: "pCpu (exec_enter c1) = c1" by (simp add: exec_enter_def unpack_pCpu)
  have "uOpcodeMod (exec_enter c1) = push_bit 4 (ucast (rP (Regs c1))) AND 0x300"
    using assms(2) by (simp add: exec_enter_def SNCPU_UNPACKFLAGS_def Let_def SNCPU_SETFLAG_E_x_def clear_index_high_def
        upd_regs_def c1_def)
  then have op: "find_case op65816 (opcode_of 0x40 (uOpcodeMod (exec_enter c1))) = Some RTI_native"
    using find_RTI [OF opcode_RTI [of "Regs c1"]] by simp
  have m1: "list_all (\<lambda>i. mem_at c1 (ucast (rS (Regs c1) + i))) [1, 2, 3, 4]"
    using r [THEN ram_at_mem] by (simp add: c1_def mem_at_dom_eq dm a)
  have k1: "canonical ((Regs c1)\<lparr>rP := above c1 1\<rparr>)"
    using assms(2,3) by (simp add: ab canonical_def) (simp add: c1_def)
  from RTI_run [OF _ m1 px k1, of T] assms(2) obtain x' where x': "run_ops (exec_uop T) RTI_native (exec_enter c1) = Some x'"
    "exec_leave x' = c1\<lparr>Cycles := Cycles c1 - 44, Regs := (Regs c1)\<lparr>rP := rP (Regs c), rS := rS (Regs c1) + 4,
       rPC := join24 (above c1 4) (above c1 3) (above c1 2) AND 0xFFFFFF\<rparr>\<rparr>"
    unfolding ab(1) by (auto simp: c1_def)
  then show ?thesis
    by (simp add: exec_op_def op ab join24_split) (simp add: c1_def)
qed


section \<open>Properties\<close>

text \<open>
  C10: entering and leaving the interpreter is the identity. Unpacking the flag register into the
  lazy flags and packing them again gives back the processor, registers, flags and all, provided the
  registers are as the processor has them (see \<^const>\<open>canonical\<close>).
\<close>

theorem enter_leave:
  assumes "canonical (Regs c)"
  shows "exec_leave (exec_enter c) = c"
  using assms by (rule leave_enter)

theorem enter_leave_witness:
  "exec_leave (exec_enter (flat_cpu (\<lambda>_. 0) (zero_regs\<lparr>rP := 0xC3, rX := 0x1234\<rparr>) 5)) =
     flat_cpu (\<lambda>_. 0) (zero_regs\<lparr>rP := 0xC3, rX := 0x1234\<rparr>) 5"
  by (rule enter_leave) (simp add: canonical_def flat_cpu_def zero_regs_def flag_defs)

text \<open>
  taking an interrupt in native mode. The program bank, the program counter, high byte first, and
  the flags are pushed below the stack pointer, which drops by four; nothing else in memory changes,
  and only the stack pointer and the program counter do among the registers.
\<close>

theorem interrupt_frame:
  assumes "stack4 c" and "rE (Regs c) = 0" and "mem_at c vec" and "mem_at c (vec + 1)"
  shows "\<exists>w. push_and_vector T c vecE vec = Some (c\<lparr>hMem := (hMem c)
            (host_cell c (ucast (rS (Regs c))) \<mapsto> ucast (drop_bit 16 (rPC (Regs c))),
             host_cell c (ucast (rS (Regs c) - 1)) \<mapsto> ucast (drop_bit 8 (rPC (Regs c))),
             host_cell c (ucast (rS (Regs c) - 2)) \<mapsto> ucast (rPC (Regs c)),
             host_cell c (ucast (rS (Regs c) - 3)) \<mapsto> rP (Regs c)),
           Regs := (Regs c)\<lparr>rS := rS (Regs c) - 4, rPC := w\<rparr>\<rparr>)"
  using push_and_vector_native [OF assms] by simp

theorem interrupt_frame_witness:
  "\<exists>c'. push_and_vector no_traps (flat_cpu (\<lambda>_. 0) (zero_regs\<lparr>rS := 0x1FF, rPC := 0x123456\<rparr>) 100) 0 0xFFEE = Some c' \<and>
     rS (Regs c') = 0x1FB \<and> hMem c' (0, 0x1FF) = Some 0x12 \<and> hMem c' (0, 0x1FE) = Some 0x34 \<and> hMem c' (0, 0x1FD) = Some 0x56"
proof -
  let ?c = "flat_cpu (\<lambda>_. 0) (zero_regs\<lparr>rS := 0x1FF, rPC := 0x123456\<rparr>) 100"
  have s: "stack4 ?c"
    using flat_ram [of _ "\<lambda>_. 0" "zero_regs\<lparr>rS := 0x1FF, rPC := 0x123456\<rparr>" 100]
    by (simp add: stack4_def flat_cell) (simp add: flat_cpu_def)
  have v: "mem_at ?c 0xFFEE" "mem_at ?c (0xFFEE + 1)" and e: "rE (Regs ?c) = 0"
    by (rule ram_at_mem, rule flat_ram, simp)+ (simp add: flat_cpu_def zero_regs_def)
  from interrupt_frame [OF s e v, of no_traps 0] show ?thesis
    by (simp only: flat_cell) (auto simp: flat_cpu_def)
qed

text \<open>
  C6: an interrupt is transparent. An IRQ taken in native mode followed by the RTI that the handler ends
  with (here at once; the flags the handler runs under do not matter) restores every register, the
  program counter within its 24 bits, and leaves all of memory as it was outside the four bytes
  below the stack pointer.
\<close>

theorem interrupt_return:
  assumes "stack4 c" and "rE (Regs c) = 0" and "canonical (Regs c)" and "rP (Regs c) AND SNCPU_FLAG_I = 0"
    and "uSignal c AND SNCPU_SIGNAL_WAI = 0" and "mem_at c SNCPU_VECTOR_IRQ" and "mem_at c (SNCPU_VECTOR_IRQ + 1)"
  shows "\<exists>c1 x'. SNCPUIRQ T c = Some c1 \<and>
     exec_op T (opcode_of 0x40 (uOpcodeMod (exec_enter c1))) (exec_enter c1) = Some x' \<and>
     Regs (exec_leave x') = (Regs c)\<lparr>rPC := rPC (Regs c) AND 0xFFFFFF\<rparr> \<and>
     (\<forall>q. hMem (exec_leave x') q = hMem c q \<or> q \<in> (\<lambda>i. host_cell c (ucast (rS (Regs c) - i))) ` {0, 1, 2, 3})"
proof -
  have p: "((rP (Regs c) AND NOT SNCPU_FLAG_D) OR SNCPU_FLAG_I) AND SNCPU_FLAG_X = rP (Regs c) AND SNCPU_FLAG_X"
    by (rule bit_word_eqI) (auto simp: flag_defs bit_simps numeral_eq_Suc less_Suc_eq)
  have "skip_WAI c = c" using assms(5) by (simp add: skip_WAI_def)
  with push_and_vector_native [OF assms(1,2,6,7), of T SNCPU_VECTORE_IRQ] assms(4) show ?thesis
    using RTI_after_IRQ [OF assms(1-3) p, of T]
    by (fastforce simp: SNCPUIRQ_def SNCPUConsumeCycles_def)
qed

theorem interrupt_return_witness:
  "\<exists>c1 x'. SNCPUIRQ no_traps (flat_cpu (\<lambda>_. 0) (zero_regs\<lparr>rS := 0x1FF, rPC := 0x123456\<rparr>) 100) = Some c1 \<and>
     exec_op no_traps (opcode_of 0x40 (uOpcodeMod (exec_enter c1))) (exec_enter c1) = Some x' \<and>
     Regs (exec_leave x') = zero_regs\<lparr>rS := 0x1FF, rPC := 0x123456\<rparr>"
proof -
  let ?c = "flat_cpu (\<lambda>_. 0) (zero_regs\<lparr>rS := 0x1FF, rPC := 0x123456\<rparr>) 100"
  have s: "stack4 ?c"
    using flat_ram [of _ "\<lambda>_. 0" "zero_regs\<lparr>rS := 0x1FF, rPC := 0x123456\<rparr>" 100]
    by (simp add: stack4_def flat_cell) (simp add: flat_cpu_def)
  have v: "mem_at ?c SNCPU_VECTOR_IRQ" "mem_at ?c (SNCPU_VECTOR_IRQ + 1)"
    by (rule ram_at_mem, rule flat_ram, simp add: SNCPU_VECTOR_IRQ_def)+
  have k: "canonical (Regs ?c)" "rE (Regs ?c) = 0" "rP (Regs ?c) AND SNCPU_FLAG_I = 0" "uSignal ?c AND SNCPU_SIGNAL_WAI = 0"
    "(Regs ?c)\<lparr>rPC := rPC (Regs ?c) AND 0xFFFFFF\<rparr> = zero_regs\<lparr>rS := 0x1FF, rPC := 0x123456\<rparr>"
    by (simp_all add: canonical_def flat_cpu_def zero_regs_def)
  show ?thesis using interrupt_return [OF s k(2,1,3,4) v, of no_traps] unfolding k(5) by blast
qed

end
