(* ===== verification/Sn_Spc.thy ===== *)
theory Sn_Spc
  imports Prelude
begin

text \<open>
  The SPC700 sound processor (\<^verbatim>\<open>snspc.c\<close>, \<^verbatim>\<open>snspc.h\<close>, \<^verbatim>\<open>snspcdefs.h\<close>,
  \<^verbatim>\<open>snspcrom.c\<close>): registers, the 64 KB of memory with the boot ROM overlay, the memory
  operations, reset and the execution wrapper. An access outside \<^verbatim>\<open>Mem\<close> is undefined
  (\<^const>\<open>None\<close>).
\<close>

section \<open>Constants\<close>

definition SNSPC_FLAG_N :: u8 where "SNSPC_FLAG_N = 0x80"
definition SNSPC_FLAG_V :: u8 where "SNSPC_FLAG_V = 0x40"
definition SNSPC_FLAG_P :: u8 where "SNSPC_FLAG_P = 0x20"
definition SNSPC_FLAG_B :: u8 where "SNSPC_FLAG_B = 0x10"
definition SNSPC_FLAG_H :: u8 where "SNSPC_FLAG_H = 0x08"
definition SNSPC_FLAG_I :: u8 where "SNSPC_FLAG_I = 0x04"
definition SNSPC_FLAG_Z :: u8 where "SNSPC_FLAG_Z = 0x02"
definition SNSPC_FLAG_C :: u8 where "SNSPC_FLAG_C = 0x01"

definition SNSPC_MEM_SIZE :: nat where "SNSPC_MEM_SIZE = 0x10000"
definition SNSPC_ROM_ADDR :: nat where "SNSPC_ROM_ADDR = 0xFFC0"
definition SNSPC_ROM_SIZE :: nat where "SNSPC_ROM_SIZE = 0x40"
definition SNSPC_VECTOR_BRK :: u32 where "SNSPC_VECTOR_BRK = 0xFFDE"
definition SNSPC_VECTOR_RESET :: u32 where "SNSPC_VECTOR_RESET = 0xFFFE"
definition SNSPC_CYCLE :: int where "SNSPC_CYCLE = 21"

lemmas spc_flag_defs = SNSPC_FLAG_N_def SNSPC_FLAG_V_def SNSPC_FLAG_P_def SNSPC_FLAG_B_def SNSPC_FLAG_H_def
  SNSPC_FLAG_I_def SNSPC_FLAG_Z_def SNSPC_FLAG_C_def

lemmas spc_mem_defs = SNSPC_MEM_SIZE_def SNSPC_ROM_ADDR_def SNSPC_ROM_SIZE_def

section \<open>State\<close>

record SNSpcRegsT =
  rPC :: u16
  rA :: u8
  rY :: u8
  rX :: u8
  rSP :: u8
  rPSW :: u8

text \<open>
  A trap function: the default of \<^verbatim>\<open>snspc.c\<close> or one the client has installed. The two
  arrays are functions of the index; the operations check the bounds.
\<close>

datatype spc_trapfn = SpcDefaultFn | SpcUserFn nat

record 'w SNSpcT =
  Regs :: SNSpcRegsT
  Cycles :: int
  Counter :: "int list"
  pUserData :: 'w
  pReadTrapFunc :: spc_trapfn
  pWriteTrapFunc :: spc_trapfn
  Mem :: "nat \<Rightarrow> u8"
  ShadowMem :: "nat \<Rightarrow> u8"
  bRomEnable :: u8

text \<open>The client's trap functions, a parameter.\<close>

record 'w spc_traps =
  spc_rtrap :: "nat \<Rightarrow> 'w SNSpcT \<Rightarrow> u32 \<Rightarrow> (u8 \<times> 'w SNSpcT) option"
  spc_wtrap :: "nat \<Rightarrow> 'w SNSpcT \<Rightarrow> u32 \<Rightarrow> u8 \<Rightarrow> 'w SNSpcT option"

definition u_SNSPCDefaultRead :: "'w SNSpcT \<Rightarrow> u32 \<Rightarrow> u8 \<times> 'w SNSpcT" where
  "u_SNSPCDefaultRead c a = (0xFF, c)"

definition u_SNSPCDefaultWrite :: "'w SNSpcT \<Rightarrow> u32 \<Rightarrow> u8 \<Rightarrow> 'w SNSpcT" where
  "u_SNSPCDefaultWrite c a v = c"

definition u_SNSPCDefaultExecuteFunc :: "'w SNSpcT \<Rightarrow> 'w SNSpcT option" where
  "u_SNSPCDefaultExecuteFunc c = Some (c\<lparr>Cycles := 0\<rparr>)"

fun spc_call_read :: "'w spc_traps \<Rightarrow> spc_trapfn \<Rightarrow> 'w SNSpcT \<Rightarrow> u32 \<Rightarrow> (u8 \<times> 'w SNSpcT) option" where
  "spc_call_read T SpcDefaultFn c a = Some (u_SNSPCDefaultRead c a)"
| "spc_call_read T (SpcUserFn k) c a = spc_rtrap T k c a"

fun spc_call_write :: "'w spc_traps \<Rightarrow> spc_trapfn \<Rightarrow> 'w SNSpcT \<Rightarrow> u32 \<Rightarrow> u8 \<Rightarrow> 'w SNSpcT option" where
  "spc_call_write T SpcDefaultFn c a v = Some (u_SNSPCDefaultWrite c a v)"
| "spc_call_write T (SpcUserFn k) c a v = spc_wtrap T k c a v"

section \<open>Memory\<close>

definition mem_get :: "'w SNSpcT \<Rightarrow> u32 \<Rightarrow> u8 option" where
  "mem_get c a = (if unat a < SNSPC_MEM_SIZE then Some (Mem c (unat a)) else None)"

definition mem_set :: "'w SNSpcT \<Rightarrow> u32 \<Rightarrow> u8 \<Rightarrow> 'w SNSpcT option" where
  "mem_set c a v =
     (if unat a < SNSPC_MEM_SIZE then Some (c\<lparr>Mem := (Mem c)(unat a := v)\<rparr>) else None)"

definition SNSPCPeek8 :: "'w SNSpcT \<Rightarrow> u32 \<Rightarrow> u8 option" where
  "SNSPCPeek8 c uAddr = mem_get c uAddr"

fun SNSPCPeekMem :: "'w SNSpcT \<Rightarrow> u32 \<Rightarrow> nat \<Rightarrow> u8 list option" where
  "SNSPCPeekMem c Addr 0 = Some []"
| "SNSPCPeekMem c Addr (Suc n) =
     do { b \<leftarrow> SNSPCPeek8 c Addr; bs \<leftarrow> SNSPCPeekMem c (Addr + 1) n; Some (b # bs) }"

definition trapped :: "u32 \<Rightarrow> bool" where
  "trapped uAddr \<longleftrightarrow> uAddr \<ge> 0xF0 \<and> uAddr < 0x100"

definition SNSPCRead8 :: "'w spc_traps \<Rightarrow> 'w SNSpcT \<Rightarrow> u32 \<Rightarrow> (u8 \<times> 'w SNSpcT) option" where
  "SNSPCRead8 T c uAddr =
     (if trapped uAddr then spc_call_read T (pReadTrapFunc c) c uAddr
      else do { b \<leftarrow> mem_get c uAddr; Some (b, c) })"

definition SNSPCRead16 :: "'w spc_traps \<Rightarrow> 'w SNSpcT \<Rightarrow> u32 \<Rightarrow> (u16 \<times> 'w SNSpcT) option" where
  "SNSPCRead16 T c Addr =
     do { (l, c) \<leftarrow> SNSPCRead8 T c Addr;
          (h, c) \<leftarrow> SNSPCRead8 T c (Addr + 1);
          Some (mk16 h l, c) }"

fun SNSPCReadMem :: "'w spc_traps \<Rightarrow> 'w SNSpcT \<Rightarrow> u32 \<Rightarrow> nat \<Rightarrow> (u8 list \<times> 'w SNSpcT) option" where
  "SNSPCReadMem T c Addr 0 = Some ([], c)"
| "SNSPCReadMem T c Addr (Suc n) =
     do { (b, c) \<leftarrow> SNSPCRead8 T c Addr; (bs, c) \<leftarrow> SNSPCReadMem T c (Addr + 1) n; Some (b # bs, c) }"

text \<open>With the ROM enabled, its 64 addresses are written through to the shadow memory.\<close>

definition shadow_index :: "u32 \<Rightarrow> nat" where
  "shadow_index uAddr = unat (uAddr AND 0x3F)"

definition SNSPCWrite8 :: "'w spc_traps \<Rightarrow> 'w SNSpcT \<Rightarrow> u32 \<Rightarrow> u8 \<Rightarrow> 'w SNSpcT option" where
  "SNSPCWrite8 T c uAddr uData =
     do { c \<leftarrow> (if unat uAddr < SNSPC_ROM_ADDR \<or> bRomEnable c = 0 then mem_set c uAddr uData
                 else Some (c\<lparr>ShadowMem := (ShadowMem c)(shadow_index uAddr := uData)\<rparr>));
          (if trapped uAddr then spc_call_write T (pWriteTrapFunc c) c uAddr uData else Some c) }"

definition SNSPCWrite16 :: "'w spc_traps \<Rightarrow> 'w SNSpcT \<Rightarrow> u32 \<Rightarrow> u16 \<Rightarrow> 'w SNSpcT option" where
  "SNSPCWrite16 T c Addr Data =
     do { c \<leftarrow> SNSPCWrite8 T c Addr (lo8 Data);
          SNSPCWrite8 T c (Addr + 1) (hi8 Data) }"

definition SNSPCSetTrapFunc :: "'w SNSpcT \<Rightarrow> spc_trapfn \<Rightarrow> spc_trapfn \<Rightarrow> 'w SNSpcT" where
  "SNSPCSetTrapFunc c r w = c\<lparr>pReadTrapFunc := r, pWriteTrapFunc := w\<rparr>"

text \<open>\<^verbatim>\<open>memcpy\<close> into an array.\<close>

definition copy_to :: "nat \<Rightarrow> nat \<Rightarrow> (nat \<Rightarrow> u8) \<Rightarrow> (nat \<Rightarrow> u8) \<Rightarrow> (nat \<Rightarrow> u8)" where
  "copy_to off n src dst = (\<lambda>i. if off \<le> i \<and> i < off + n then src (i - off) else dst i)"

section \<open>The boot ROM\<close>

definition u_SNSPCRom_RomData :: "u8 list" where
  "u_SNSPCRom_RomData =
    [0xCD, 0xEF, 0xBD, 0xE8, 0x00, 0xC6, 0x1D, 0xD0,
     0xFC, 0x8F, 0xAA, 0xF4, 0x8F, 0xBB, 0xF5, 0x78,
     0xCC, 0xF4, 0xD0, 0xFB, 0x2F, 0x19, 0xEB, 0xF4,
     0xD0, 0xFC, 0x7E, 0xF4, 0xD0, 0x0B, 0xE4, 0xF5,
     0xCB, 0xF4, 0xD7, 0x00, 0xFC, 0xD0, 0xF3, 0xAB,
     0x01, 0x10, 0xEF, 0x7E, 0xF4, 0x10, 0xEB, 0xBA,
     0xF6, 0xDA, 0x00, 0xBA, 0xF4, 0xC4, 0xF4, 0xDD,
     0x5D, 0xD0, 0xDB, 0x1F, 0x00, 0x00, 0xC0, 0xFF]"

definition SNSpcRomGetRomData :: "nat \<Rightarrow> u8" where
  "SNSpcRomGetRomData i = u_SNSPCRom_RomData ! i"

text \<open>A \<^verbatim>\<open>Bool\<close> is a byte, and the comparison is one of bytes.\<close>

definition SNSPCSetRomEnable :: "'w SNSpcT \<Rightarrow> u8 \<Rightarrow> 'w SNSpcT" where
  "SNSPCSetRomEnable c bEnable =
     (if bEnable \<noteq> bRomEnable c
      then (if bEnable \<noteq> 0
            then c\<lparr>ShadowMem := copy_to 0 SNSPC_ROM_SIZE (\<lambda>i. Mem c (SNSPC_ROM_ADDR + i)) (ShadowMem c),
                   Mem := copy_to SNSPC_ROM_ADDR SNSPC_ROM_SIZE SNSpcRomGetRomData (Mem c)\<rparr>
            else c\<lparr>Mem := copy_to SNSPC_ROM_ADDR SNSPC_ROM_SIZE (ShadowMem c) (Mem c)\<rparr>)
           \<lparr>bRomEnable := bEnable\<rparr>
      else c)"

section \<open>Reset\<close>

definition SNSPCResetCounters :: "'w SNSpcT \<Rightarrow> 'w SNSpcT" where
  "SNSPCResetCounters c = c\<lparr>Cycles := 0, Counter := [0, 0]\<rparr>"

definition SNSPCResetRegs :: "'w SNSpcT \<Rightarrow> 'w SNSpcT" where
  "SNSPCResetRegs c = c\<lparr>Regs := \<lparr>rPC = 0, rA = 0, rY = 0, rX = 0, rSP = 0, rPSW = 0\<rparr>\<rparr>"

definition SNSPCReset :: "'w spc_traps \<Rightarrow> 'w SNSpcT \<Rightarrow> bool \<Rightarrow> 'w SNSpcT option" where
  "SNSPCReset T c bHardReset =
     (let c = (if bHardReset
               then let c = SNSPCResetCounters (SNSPCResetRegs c);
                        c = c\<lparr>bRomEnable := 0\<rparr>;
                        c = c\<lparr>Mem := copy_to 0 SNSPC_MEM_SIZE (\<lambda>i. 0) (Mem c)\<rparr>
                    in SNSPCSetRomEnable c 1
               else c);
          c = c\<lparr>Regs := (Regs c)\<lparr>rPSW := 0\<rparr>\<rparr>
      in do { (w, c) \<leftarrow> SNSPCRead16 T c SNSPC_VECTOR_RESET;
              Some (c\<lparr>Regs := (Regs c)\<lparr>rPC := w\<rparr>\<rparr>) })"

definition SNSPCNew :: "'w spc_traps \<Rightarrow> 'w SNSpcT \<Rightarrow> 'w SNSpcT option" where
  "SNSPCNew T c =
     SNSPCReset T (c\<lparr>pReadTrapFunc := SpcDefaultFn, pWriteTrapFunc := SpcDefaultFn, bRomEnable := 0\<rparr>) True"

section \<open>Execution and counters\<close>

definition SNSPCExecute :: "('w SNSpcT \<Rightarrow> 'w SNSpcT option) \<Rightarrow> 'w SNSpcT \<Rightarrow> int \<Rightarrow> (int \<times> 'w SNSpcT) option" where
  "SNSPCExecute ex c nExecCycles =
     do { c \<leftarrow> ex (c\<lparr>Cycles := Cycles c + nExecCycles, Counter := map (\<lambda>k. k + nExecCycles) (Counter c)\<rparr>);
          Some (nExecCycles - Cycles c, c) }"

definition SNSPCResetCounter :: "'w SNSpcT \<Rightarrow> nat \<Rightarrow> 'w SNSpcT option" where
  "SNSPCResetCounter c i =
     (if i < length (Counter c) then Some (c\<lparr>Counter := (Counter c)[i := 0]\<rparr>) else None)"

definition SNSPCGetCounter :: "'w SNSpcT \<Rightarrow> nat \<Rightarrow> int option" where
  "SNSPCGetCounter c i = (if i < length (Counter c) then Some (Counter c ! i - Cycles c) else None)"

text \<open>The sum of all bytes of memory, modulo \<open>2\<^sup>3\<^sup>2\<close>.\<close>

fun checksum_loop :: "'w SNSpcT \<Rightarrow> nat \<Rightarrow> nat \<Rightarrow> u32 \<Rightarrow> u32" where
  "checksum_loop c uAddr 0 uCheckSum = uCheckSum"
| "checksum_loop c uAddr (Suc n) uCheckSum = checksum_loop c (Suc uAddr) n (uCheckSum + ucast (Mem c uAddr))"

definition SNSPCMemChecksum :: "'w SNSpcT \<Rightarrow> u32" where
  "SNSPCMemChecksum c = checksum_loop c 0 SNSPC_MEM_SIZE 0"

end
