(* ===== verification/Sn_Spc_C.thy ===== *)
theory Sn_Spc_C
  imports Sn_Spc
begin

text \<open>
  The macros of the SPC700 interpreter (\<^verbatim>\<open>snspc_c.c\<close>). A handler of the switch is a list
  of them, run from left to right on the processor and the local variables of
  \<^verbatim>\<open>SNSPCExecute_C\<close>. The build has \<^verbatim>\<open>SNSPC_HALFFLAG\<close> off.
\<close>

section \<open>Memory and stack\<close>

definition u_SNSPCFetch8 :: "'w SNSpcT \<Rightarrow> u32 \<Rightarrow> u8 option" where
  "u_SNSPCFetch8 c uAddr = mem_get c uAddr"

definition u_SNSPCFetch16 :: "'w SNSpcT \<Rightarrow> u32 \<Rightarrow> u16 option" where
  "u_SNSPCFetch16 c uAddr = do { l \<leftarrow> mem_get c uAddr; h \<leftarrow> mem_get c (uAddr + 1); Some (mk16 h l) }"

definition uu_SNSPCRead8 :: "'w spc_traps \<Rightarrow> 'w SNSpcT \<Rightarrow> u32 \<Rightarrow> (u8 \<times> 'w SNSpcT) option" where
  "uu_SNSPCRead8 T c uAddr =
     (if trapped uAddr then spc_call_read T (pReadTrapFunc c) c uAddr
      else do { b \<leftarrow> mem_get c uAddr; Some (b, c) })"

definition u_SNSPCRead8 :: "'w spc_traps \<Rightarrow> 'w SNSpcT \<Rightarrow> u32 \<Rightarrow> (u8 \<times> 'w SNSpcT) option" where
  "u_SNSPCRead8 T c Addr = uu_SNSPCRead8 T c Addr"

definition u_SNSPCRead16 :: "'w spc_traps \<Rightarrow> 'w SNSpcT \<Rightarrow> u32 \<Rightarrow> (u16 \<times> 'w SNSpcT) option" where
  "u_SNSPCRead16 T c Addr =
     do { (l, c) \<leftarrow> uu_SNSPCRead8 T c Addr;
          (h, c) \<leftarrow> uu_SNSPCRead8 T c (Addr + 1);
          Some (mk16 h l, c) }"

definition uu_SNSPCWrite8 :: "'w spc_traps \<Rightarrow> 'w SNSpcT \<Rightarrow> u32 \<Rightarrow> u8 \<Rightarrow> 'w SNSpcT option" where
  "uu_SNSPCWrite8 T c uAddr uData =
     do { c \<leftarrow> (if unat uAddr < SNSPC_ROM_ADDR then mem_set c uAddr uData
                 else if bRomEnable c = 0 then mem_set c uAddr uData
                 else Some (c\<lparr>ShadowMem := (ShadowMem c)(shadow_index uAddr := uData)\<rparr>));
          (if trapped uAddr then spc_call_write T (pWriteTrapFunc c) c uAddr uData else Some c) }"

definition u_SNSPCWrite8 :: "'w spc_traps \<Rightarrow> 'w SNSpcT \<Rightarrow> u32 \<Rightarrow> u8 \<Rightarrow> 'w SNSpcT option" where
  "u_SNSPCWrite8 T c Addr Data = uu_SNSPCWrite8 T c Addr Data"

definition u_SNSPCWrite16 :: "'w spc_traps \<Rightarrow> 'w SNSpcT \<Rightarrow> u32 \<Rightarrow> u16 \<Rightarrow> 'w SNSpcT option" where
  "u_SNSPCWrite16 T c Addr Data =
     do { c \<leftarrow> uu_SNSPCWrite8 T c Addr (lo8 Data);
          uu_SNSPCWrite8 T c (Addr + 1) (hi8 Data) }"

text \<open>The stack is page one; its pointer is a byte, so every stack access is in bounds.\<close>

definition stack_cell :: "'w SNSpcT \<Rightarrow> nat" where
  "stack_cell c = unat (rSP (Regs c)) + 0x100"

definition move_SP :: "u8 \<Rightarrow> 'w SNSpcT \<Rightarrow> 'w SNSpcT" where
  "move_SP d c = c\<lparr>Regs := (Regs c)\<lparr>rSP := rSP (Regs c) + d\<rparr>\<rparr>"

definition u_SNSPCPush8 :: "'w SNSpcT \<Rightarrow> u8 \<Rightarrow> 'w SNSpcT" where
  "u_SNSPCPush8 c Data = move_SP (- 1) (c\<lparr>Mem := (Mem c)(stack_cell c := Data)\<rparr>)"

definition u_SNSPCPush16 :: "'w SNSpcT \<Rightarrow> u16 \<Rightarrow> 'w SNSpcT" where
  "u_SNSPCPush16 c Data =
     (let c = c\<lparr>Mem := (Mem c)(stack_cell c := hi8 Data)\<rparr>;
          c = move_SP (- 1) c;
          c = c\<lparr>Mem := (Mem c)(stack_cell c := lo8 Data)\<rparr>
      in move_SP (- 1) c)"

definition u_SNSPCPop8 :: "'w SNSpcT \<Rightarrow> u8 \<times> 'w SNSpcT" where
  "u_SNSPCPop8 c = (let c = move_SP 1 c in (Mem c (stack_cell c), c))"

definition u_SNSPCPop16 :: "'w SNSpcT \<Rightarrow> u16 \<times> 'w SNSpcT" where
  "u_SNSPCPop16 c =
     (let c = move_SP 1 c; l = Mem c (stack_cell c);
          c = move_SP 1 c; h = Mem c (stack_cell c)
      in (mk16 h l, c))"

section \<open>The local variables of SNSPCExecute_C\<close>

record 'w spx =
  pSpc :: "'w SNSpcT"
  nCycles :: int
  l_rPC :: u32
  l_rDP :: u32
  fN :: u32
  fZ :: u32
  fC :: u32
  l_t0 :: u32
  l_t1 :: u32
  l_t2 :: u32

definition spc_upd_regs :: "(SNSpcRegsT \<Rightarrow> SNSpcRegsT) \<Rightarrow> 'w spx \<Rightarrow> 'w spx" where
  "spc_upd_regs f x = x\<lparr>pSpc := (pSpc x)\<lparr>Regs := f (Regs (pSpc x))\<rparr>\<rparr>"

definition SNSPC_SUBCYCLES_x :: "nat \<Rightarrow> 'w spx \<Rightarrow> 'w spx" where
  "SNSPC_SUBCYCLES_x n x = x\<lparr>nCycles := nCycles x - int n * SNSPC_CYCLE\<rparr>"

definition SNSPC_UNPACKFLAGS :: "'w spx \<Rightarrow> 'w spx" where
  "SNSPC_UNPACKFLAGS x =
     (let p = rPSW (Regs (pSpc x))
      in x\<lparr>fC := ucast (p AND SNSPC_FLAG_C),
           l_rDP := push_bit 3 (ucast (p AND SNSPC_FLAG_P)),
           fZ := ucast ((p AND SNSPC_FLAG_Z) XOR SNSPC_FLAG_Z),
           fN := push_bit 8 (ucast p)\<rparr>)"

definition SNSPC_PACKFLAGS :: "'w spx \<Rightarrow> 'w spx" where
  "SNSPC_PACKFLAGS x =
     spc_upd_regs (\<lambda>r. let p = rPSW r AND NOT (SNSPC_FLAG_C OR SNSPC_FLAG_Z OR SNSPC_FLAG_N);
                        p = p OR (ucast (fC x) AND SNSPC_FLAG_C);
                        p = p OR (ucast (drop_bit 8 (fN x)) AND SNSPC_FLAG_N);
                        p = (if fZ x AND 0xFFFF = 0 then p OR SNSPC_FLAG_Z else p)
                    in r\<lparr>rPSW := p\<rparr>) x"

section \<open>The macros\<close>

datatype tmp = t0 | t1 | t2

datatype spc_src = Tmp tmp | Imm u32 | r_X | r_Y | r_DP

datatype reg8 = rgA | rgX | rgY | rgSP

text \<open>The two-operand macros, with a register or (\<^verbatim>\<open>...I\<close>) an immediate operand.\<close>

datatype spc_alu = AluMOVE | AluMUL | AluADD | AluSUB | AluOR | AluXOR | AluAND | AluSHL | AluSHR

datatype spc_adder = ADC8 | ADC16 | SBC8

datatype spc_flag = Z8 | Z16 | N8 | N16 | FC

datatype spc_cond = NotN | IsN | IsZ | NotZ | NoC | IsC | NoV | IsV | T12_ne | T1_nz | T1_z

datatype spc_op =
    SNSPC_FETCH8 tmp
  | SNSPC_FETCH16 tmp
  | SNSPC_WRITE8 tmp tmp
  | SNSPC_WRITE16 tmp tmp
  | SNSPC_READ8 tmp tmp
  | READ16 spc_src tmp
  | SNSPC_PUSH8 tmp
  | SNSPC_PUSH16 tmp
  | SNSPC_POP8 tmp
  | SNSPC_POP16 tmp
  | SET8 reg8 tmp
  | GET8 reg8 tmp
  | SNSPC_SET_YA16 tmp
  | SNSPC_GET_YA16 tmp
  | SNSPC_SET_PSW8 tmp
  | SNSPC_GET_PSW8 tmp
  | SNSPC_SET_PC16 tmp
  | SNSPC_GET_PC tmp
  | SETFLAG spc_flag spc_src
  | SNSPC_GETFLAG_C tmp
  | SETBIT u8
  | CLRBIT u8
  | SNSPC_SETFLAGI_V u32
  | SNSPC_SETFLAG_P
  | SNSPC_CLRFLAG_P
  | ALU spc_alu tmp spc_src
  | ADDI_rX u32
  | ADDER spc_adder tmp tmp
  | SNSPC_BRREL spc_cond
  | SNSPC_BRA
  | SNSPC_SUBCYCLES nat
  | SNSPC_ENDOP nat
  | DIV_block
  | MOV1_block
  | STOP_block

abbreviation "SNSPC_READ16 a \<equiv> READ16 (Tmp a)"
abbreviation "SNSPC_SET_A8 \<equiv> SET8 rgA"
abbreviation "SNSPC_SET_X8 \<equiv> SET8 rgX"
abbreviation "SNSPC_SET_Y8 \<equiv> SET8 rgY"
abbreviation "SNSPC_SET_SP8 \<equiv> SET8 rgSP"
abbreviation "SNSPC_GET_A8 \<equiv> GET8 rgA"
abbreviation "SNSPC_GET_X8 \<equiv> GET8 rgX"
abbreviation "SNSPC_GET_Y8 \<equiv> GET8 rgY"
abbreviation "SNSPC_GET_SP8 \<equiv> GET8 rgSP"
abbreviation "SNSPC_SETFLAG_Z8 t \<equiv> SETFLAG Z8 (Tmp t)"
abbreviation "SNSPC_SETFLAG_Z16 t \<equiv> SETFLAG Z16 (Tmp t)"
abbreviation "SNSPC_SETFLAG_N8 t \<equiv> SETFLAG N8 (Tmp t)"
abbreviation "SNSPC_SETFLAG_N16 t \<equiv> SETFLAG N16 (Tmp t)"
abbreviation "SNSPC_SETFLAG_C t \<equiv> SETFLAG FC (Tmp t)"
abbreviation "SNSPC_SETFLAGI_C i \<equiv> SETFLAG FC (Imm i)"
abbreviation "SNSPC_SETFLAG_V \<equiv> SETBIT SNSPC_FLAG_V"
abbreviation "SNSPC_CLRFLAG_V \<equiv> CLRBIT SNSPC_FLAG_V"
abbreviation "SNSPC_SETFLAG_I \<equiv> SETBIT SNSPC_FLAG_I"
abbreviation "SNSPC_CLRFLAG_I \<equiv> CLRBIT SNSPC_FLAG_I"
abbreviation "SNSPC_SETFLAG_B \<equiv> SETBIT SNSPC_FLAG_B"
abbreviation "SNSPC_SETFLAG_H i \<equiv> CLRBIT SNSPC_FLAG_H"
abbreviation "SNSPC_MOVE t u \<equiv> ALU AluMOVE t (Tmp u)"
abbreviation "SNSPC_GETI t i \<equiv> ALU AluMOVE t (Imm i)"
abbreviation "SNSPC_MUL t u \<equiv> ALU AluMUL t (Tmp u)"
abbreviation "SNSPC_ADD \<equiv> ALU AluADD"
abbreviation "SNSPC_SUB \<equiv> ALU AluSUB"
abbreviation "SNSPC_OR t u \<equiv> ALU AluOR t (Tmp u)"
abbreviation "SNSPC_XOR t u \<equiv> ALU AluXOR t (Tmp u)"
abbreviation "SNSPC_AND t u \<equiv> ALU AluAND t (Tmp u)"
abbreviation "SNSPC_SHL t u \<equiv> ALU AluSHL t (Tmp u)"
abbreviation "SNSPC_SHR t u \<equiv> ALU AluSHR t (Tmp u)"
abbreviation "SNSPC_ADDI t i \<equiv> ALU AluADD t (Imm i)"
abbreviation "SNSPC_SUBI t i \<equiv> ALU AluSUB t (Imm i)"
abbreviation "SNSPC_ORI t i \<equiv> ALU AluOR t (Imm i)"
abbreviation "SNSPC_XORI t i \<equiv> ALU AluXOR t (Imm i)"
abbreviation "SNSPC_ANDI t i \<equiv> ALU AluAND t (Imm i)"
abbreviation "SNSPC_SHLI t i \<equiv> ALU AluSHL t (Imm i)"
abbreviation "SNSPC_SHRI t i \<equiv> ALU AluSHR t (Imm i)"
abbreviation "SNSPC_NOT8 t \<equiv> ALU AluXOR t (Imm 0xFF)"
abbreviation "SNSPC_NOT16 t \<equiv> ALU AluXOR t (Imm 0xFFFF)"
abbreviation "SNSPC_ADC8 \<equiv> ADDER ADC8"
abbreviation "SNSPC_ADC16 \<equiv> ADDER ADC16"
abbreviation "SNSPC_SBC8 \<equiv> ADDER SBC8"

fun spc_get_t :: "tmp \<Rightarrow> 'w spx \<Rightarrow> u32" where
  "spc_get_t t0 x = l_t0 x"
| "spc_get_t t1 x = l_t1 x"
| "spc_get_t t2 x = l_t2 x"

fun spc_set_t :: "tmp \<Rightarrow> u32 \<Rightarrow> 'w spx \<Rightarrow> 'w spx" where
  "spc_set_t t0 v x = x\<lparr>l_t0 := v\<rparr>"
| "spc_set_t t1 v x = x\<lparr>l_t1 := v\<rparr>"
| "spc_set_t t2 v x = x\<lparr>l_t2 := v\<rparr>"

fun spc_get_src :: "spc_src \<Rightarrow> 'w spx \<Rightarrow> u32" where
  "spc_get_src (Tmp t) x = spc_get_t t x"
| "spc_get_src (Imm i) x = i"
| "spc_get_src r_X x = ucast (rX (Regs (pSpc x)))"
| "spc_get_src r_Y x = ucast (rY (Regs (pSpc x)))"
| "spc_get_src r_DP x = l_rDP x"

fun get_reg8 :: "reg8 \<Rightarrow> SNSpcRegsT \<Rightarrow> u8" where
  "get_reg8 rgA r = rA r"
| "get_reg8 rgX r = rX r"
| "get_reg8 rgY r = rY r"
| "get_reg8 rgSP r = rSP r"

fun set_reg8 :: "reg8 \<Rightarrow> u8 \<Rightarrow> SNSpcRegsT \<Rightarrow> SNSpcRegsT" where
  "set_reg8 rgA v r = r\<lparr>rA := v\<rparr>"
| "set_reg8 rgX v r = r\<lparr>rX := v\<rparr>"
| "set_reg8 rgY v r = r\<lparr>rY := v\<rparr>"
| "set_reg8 rgSP v r = r\<lparr>rSP := v\<rparr>"

fun spc_set_flag :: "spc_flag \<Rightarrow> u32 \<Rightarrow> 'w spx \<Rightarrow> 'w spx" where
  "spc_set_flag Z8 v x = x\<lparr>fZ := push_bit 8 v\<rparr>"
| "spc_set_flag Z16 v x = x\<lparr>fZ := push_bit 0 v\<rparr>"
| "spc_set_flag N8 v x = x\<lparr>fN := push_bit 8 v\<rparr>"
| "spc_set_flag N16 v x = x\<lparr>fN := push_bit 0 v\<rparr>"
| "spc_set_flag FC v x = x\<lparr>fC := v AND 1\<rparr>"

text \<open>A shift by the width of the operand or more is undefined in C.\<close>

fun spc_alu_op :: "spc_alu \<Rightarrow> u32 \<Rightarrow> u32 \<Rightarrow> u32 option" where
  "spc_alu_op AluMOVE a b = Some b"
| "spc_alu_op AluMUL a b = Some (a * b)"
| "spc_alu_op AluADD a b = Some (a + b)"
| "spc_alu_op AluSUB a b = Some (a - b)"
| "spc_alu_op AluOR a b = Some (a OR b)"
| "spc_alu_op AluXOR a b = Some (a XOR b)"
| "spc_alu_op AluAND a b = Some (a AND b)"
| "spc_alu_op AluSHL a b = (if unat b < 32 then Some (push_bit (unat b) a) else None)"
| "spc_alu_op AluSHR a b = (if unat b < 32 then Some (drop_bit (unat b) a) else None)"

text \<open>The add macros: the 16-bit one adds no carry.\<close>

fun adder_sum :: "spc_adder \<Rightarrow> u32 \<Rightarrow> u32 \<Rightarrow> u32 \<Rightarrow> u32" where
  "adder_sum ADC8 a b c = a + b + (c AND 1)"
| "adder_sum SBC8 a b c = a + b + (c AND 1)"
| "adder_sum ADC16 a b c = a + b"

fun spc_adder_sign :: "spc_adder \<Rightarrow> u32" where
  "spc_adder_sign ADC8 = 0x80"
| "spc_adder_sign SBC8 = 0x80"
| "spc_adder_sign ADC16 = 0x8000"

definition spc_add_macro :: "spc_adder \<Rightarrow> tmp \<Rightarrow> tmp \<Rightarrow> 'w spx \<Rightarrow> 'w spx" where
  "spc_add_macro k d s x =
     (let Target = spc_get_t d x;
          Src = spc_get_t s x;
          Dest = adder_sum k Target Src (fC x);
          x = spc_upd_regs (\<lambda>r. r\<lparr>rPSW := rPSW r AND NOT (SNSPC_FLAG_V OR SNSPC_FLAG_H)\<rparr>) x;
          x = (if NOT (Target XOR Src) AND (Target XOR Dest) AND spc_adder_sign k \<noteq> 0
               then spc_upd_regs (\<lambda>r. r\<lparr>rPSW := rPSW r OR SNSPC_FLAG_V\<rparr>) x else x)
      in spc_set_t d Dest x)"

fun spc_cond_test :: "spc_cond \<Rightarrow> 'w spx \<Rightarrow> bool" where
  "spc_cond_test NotN x \<longleftrightarrow> fN x AND 0x8000 = 0"
| "spc_cond_test IsN x \<longleftrightarrow> fN x AND 0x8000 \<noteq> 0"
| "spc_cond_test IsZ x \<longleftrightarrow> fZ x AND 0xFFFF = 0"
| "spc_cond_test NotZ x \<longleftrightarrow> fZ x AND 0xFFFF \<noteq> 0"
| "spc_cond_test NoC x \<longleftrightarrow> fC x = 0"
| "spc_cond_test IsC x \<longleftrightarrow> fC x \<noteq> 0"
| "spc_cond_test NoV x \<longleftrightarrow> rPSW (Regs (pSpc x)) AND SNSPC_FLAG_V = 0"
| "spc_cond_test IsV x \<longleftrightarrow> rPSW (Regs (pSpc x)) AND SNSPC_FLAG_V \<noteq> 0"
| "spc_cond_test T12_ne x \<longleftrightarrow> l_t1 x \<noteq> l_t2 x"
| "spc_cond_test T1_nz x \<longleftrightarrow> l_t1 x \<noteq> 0"
| "spc_cond_test T1_z x \<longleftrightarrow> l_t1 x = 0"

definition sign_extend8 :: "u8 \<Rightarrow> u32" where
  "sign_extend8 b = signed_drop_bit 24 (push_bit 24 (ucast b))"

definition fetch_rel :: "'w spx \<Rightarrow> (u32 \<times> 'w spx) option" where
  "fetch_rel x = do { b \<leftarrow> u_SNSPCFetch8 (pSpc x) (l_rPC x); Some (sign_extend8 b, x\<lparr>l_rPC := l_rPC x + 1\<rparr>) }"

definition branch_rel :: "spc_cond \<Rightarrow> 'w spx \<Rightarrow> 'w spx option" where
  "branch_rel k x =
     do { (iRel, x) \<leftarrow> fetch_rel x;
          Some (if spc_cond_test k x then SNSPC_SUBCYCLES_x 2 (x\<lparr>l_rPC := l_rPC x + iRel\<rparr>) else x) }"

definition branch_always :: "'w spx \<Rightarrow> 'w spx option" where
  "branch_always x = do { (iRel, x) \<leftarrow> fetch_rel x; Some (x\<lparr>l_rPC := l_rPC x + iRel\<rparr>) }"

text \<open>The division of \<^verbatim>\<open>YA\<close> by \<^verbatim>\<open>X\<close>: quotient in \<open>t2\<close>, remainder in \<open>t1\<close>.\<close>

definition div_block :: "'w spx \<Rightarrow> 'w spx" where
  "div_block x =
     (let x = (if l_t1 x \<noteq> 0 then x\<lparr>l_t2 := l_t0 x div l_t1 x, l_t1 := l_t0 x mod l_t1 x\<rparr>
               else x\<lparr>l_t1 := 0x0000, l_t2 := 0xFFFF\<rparr>)
      in if l_t2 x \<ge> 0x100 then spc_upd_regs (\<lambda>r. r\<lparr>rPSW := rPSW r OR SNSPC_FLAG_V\<rparr>) x else x)"

definition mov1_block :: "'w spx \<Rightarrow> 'w spx" where
  "mov1_block x =
     (if fC x AND 1 \<noteq> 0 then x\<lparr>l_t1 := l_t1 x OR l_t2 x\<rparr>
      else let x = x\<lparr>l_t1 := l_t1 x OR l_t2 x\<rparr> in x\<lparr>l_t1 := l_t1 x XOR l_t2 x\<rparr>)"

text \<open>Memory macros tell the processor the cycle count before they call a trap function.\<close>

definition sync :: "'w spx \<Rightarrow> 'w SNSpcT" where
  "sync x = (pSpc x)\<lparr>Cycles := nCycles x\<rparr>"

definition spc_lift_read :: "tmp \<Rightarrow> 'w spx \<Rightarrow> ('v \<Rightarrow> u32) \<Rightarrow> ('v \<times> 'w SNSpcT) option \<Rightarrow> 'w spx option" where
  "spc_lift_read t x f m = do { (v, c) \<leftarrow> m; Some (spc_set_t t (f v) (x\<lparr>pSpc := c\<rparr>)) }"

definition spc_lift_write :: "'w spx \<Rightarrow> 'w SNSpcT option \<Rightarrow> 'w spx option" where
  "spc_lift_write x m = do { c \<leftarrow> m; Some (x\<lparr>pSpc := c\<rparr>) }"

primrec exec_spc_op :: "'w spc_traps \<Rightarrow> spc_op \<Rightarrow> 'w spx \<Rightarrow> 'w spx option" where
  "exec_spc_op T (SNSPC_FETCH8 t) x =
     do { b \<leftarrow> u_SNSPCFetch8 (pSpc x) (l_rPC x); Some (spc_set_t t (ucast b) (x\<lparr>l_rPC := l_rPC x + 1\<rparr>)) }"
| "exec_spc_op T (SNSPC_FETCH16 t) x =
     do { w \<leftarrow> u_SNSPCFetch16 (pSpc x) (l_rPC x); Some (spc_set_t t (ucast w) (x\<lparr>l_rPC := l_rPC x + 2\<rparr>)) }"
| "exec_spc_op T (SNSPC_WRITE8 a d) x = spc_lift_write x (u_SNSPCWrite8 T (sync x) (spc_get_t a x) (ucast (spc_get_t d x)))"
| "exec_spc_op T (SNSPC_WRITE16 a d) x = spc_lift_write x (u_SNSPCWrite16 T (sync x) (spc_get_t a x) (ucast (spc_get_t d x)))"
| "exec_spc_op T (SNSPC_READ8 a t) x = spc_lift_read t x ucast (u_SNSPCRead8 T (sync x) (spc_get_t a x))"
| "exec_spc_op T (READ16 a t) x = spc_lift_read t x ucast (u_SNSPCRead16 T (sync x) (spc_get_src a x))"
| "exec_spc_op T (SNSPC_PUSH8 d) x = Some (x\<lparr>pSpc := u_SNSPCPush8 (pSpc x) (ucast (spc_get_t d x))\<rparr>)"
| "exec_spc_op T (SNSPC_PUSH16 d) x = Some (x\<lparr>pSpc := u_SNSPCPush16 (pSpc x) (ucast (spc_get_t d x))\<rparr>)"
| "exec_spc_op T (SNSPC_POP8 t) x = spc_lift_read t x ucast (Some (u_SNSPCPop8 (pSpc x)))"
| "exec_spc_op T (SNSPC_POP16 t) x = spc_lift_read t x ucast (Some (u_SNSPCPop16 (pSpc x)))"
| "exec_spc_op T (SET8 r t) x = Some (spc_upd_regs (set_reg8 r (ucast (spc_get_t t x))) x)"
| "exec_spc_op T (GET8 r t) x = Some (spc_set_t t (ucast (get_reg8 r (Regs (pSpc x)))) x)"
| "exec_spc_op T (SNSPC_SET_YA16 t) x =
     Some (spc_upd_regs (\<lambda>r. r\<lparr>rA := ucast (spc_get_t t x), rY := ucast (drop_bit 8 (spc_get_t t x))\<rparr>) x)"
| "exec_spc_op T (SNSPC_GET_YA16 t) x =
     Some (spc_set_t t (join16 (rY (Regs (pSpc x))) (rA (Regs (pSpc x)))) x)"
| "exec_spc_op T (SNSPC_SET_PSW8 t) x =
     Some (SNSPC_UNPACKFLAGS (spc_upd_regs (\<lambda>r. r\<lparr>rPSW := ucast (spc_get_t t x)\<rparr>) x))"
| "exec_spc_op T (SNSPC_GET_PSW8 t) x =
     Some (let x = SNSPC_PACKFLAGS x in spc_set_t t (ucast (rPSW (Regs (pSpc x)))) x)"
| "exec_spc_op T (SNSPC_SET_PC16 t) x = Some (x\<lparr>l_rPC := spc_get_t t x\<rparr>)"
| "exec_spc_op T (SNSPC_GET_PC t) x = Some (spc_set_t t (l_rPC x) x)"
| "exec_spc_op T (SETFLAG f s) x = Some (spc_set_flag f (spc_get_src s x) x)"
| "exec_spc_op T (SNSPC_GETFLAG_C t) x = Some (spc_set_t t (fC x AND 1) x)"
| "exec_spc_op T (SETBIT b) x = Some (spc_upd_regs (\<lambda>r. r\<lparr>rPSW := rPSW r OR b\<rparr>) x)"
| "exec_spc_op T (CLRBIT b) x = Some (spc_upd_regs (\<lambda>r. r\<lparr>rPSW := rPSW r AND NOT b\<rparr>) x)"
| "exec_spc_op T (SNSPC_SETFLAGI_V i) x =
     Some (spc_upd_regs (\<lambda>r. r\<lparr>rPSW := (rPSW r AND NOT SNSPC_FLAG_V) OR ucast (push_bit 6 (i AND 1))\<rparr>) x)"
| "exec_spc_op T SNSPC_SETFLAG_P x = Some ((spc_upd_regs (\<lambda>r. r\<lparr>rPSW := rPSW r OR SNSPC_FLAG_P\<rparr>) x)\<lparr>l_rDP := 0x100\<rparr>)"
| "exec_spc_op T SNSPC_CLRFLAG_P x = Some ((spc_upd_regs (\<lambda>r. r\<lparr>rPSW := rPSW r AND NOT SNSPC_FLAG_P\<rparr>) x)\<lparr>l_rDP := 0x000\<rparr>)"
| "exec_spc_op T (ALU k t s) x = do { v \<leftarrow> spc_alu_op k (spc_get_t t x) (spc_get_src s x); Some (spc_set_t t v x) }"
| "exec_spc_op T (ADDI_rX i) x = Some (spc_upd_regs (\<lambda>r. r\<lparr>rX := ucast (ucast (rX r) + i)\<rparr>) x)"
| "exec_spc_op T (ADDER k d s) x = Some (spc_add_macro k d s x)"
| "exec_spc_op T (SNSPC_BRREL k) x = branch_rel k x"
| "exec_spc_op T SNSPC_BRA x = branch_always x"
| "exec_spc_op T (SNSPC_SUBCYCLES n) x = Some (SNSPC_SUBCYCLES_x n x)"
| "exec_spc_op T (SNSPC_ENDOP n) x = Some (SNSPC_SUBCYCLES_x n x)"
| "exec_spc_op T DIV_block x = Some (div_block x)"
| "exec_spc_op T MOV1_block x = Some (mov1_block x)"
| "exec_spc_op T STOP_block x = Some (x\<lparr>l_rPC := l_rPC x - 1\<rparr>)"

end
