(* ===== verification/Op_Spc700.thy ===== *)
theory Op_Spc700
  imports Sn_Spc_C
begin

text \<open>
  The SPC700 instruction handlers of \<^verbatim>\<open>XML/opspc700_c.h\<close>, in the order of the file: the opcode,
  the cycles that \<^verbatim>\<open>SNSPC_OP\<close> asks for, and the macros of the handler.
\<close>

definition opspc700_flags_stack :: "(nat list \<times> nat \<times> spc_op list) list" where
  "opspc700_flags_stack =
   [
    \<comment> \<open>NOP_\<close> ([0x000], 2,
      [SNSPC_ENDOP 2]),
    \<comment> \<open>EI_\<close> ([0x0a0], 3,
      [SNSPC_SETFLAG_I, SNSPC_ENDOP 3]),
    \<comment> \<open>DI_\<close> ([0x0c0], 3,
      [SNSPC_CLRFLAG_I, SNSPC_ENDOP 3]),
    \<comment> \<open>CLV_\<close> ([0x0e0], 2,
      [SNSPC_SETFLAGI_V 0, SNSPC_SETFLAG_H 0, SNSPC_ENDOP 2]),
    \<comment> \<open>CLRC_\<close> ([0x060], 2,
      [SNSPC_SETFLAGI_C 0, SNSPC_ENDOP 2]),
    \<comment> \<open>SETC_\<close> ([0x080], 2,
      [SNSPC_SETFLAGI_C 1, SNSPC_ENDOP 2]),
    \<comment> \<open>NOTC_\<close> ([0x0ed], 3,
      [SNSPC_GETFLAG_C t0, SNSPC_XORI t0 1, SNSPC_SETFLAG_C t0, SNSPC_ENDOP 3]),
    \<comment> \<open>CLRP_\<close> ([0x020], 2,
      [SNSPC_CLRFLAG_P, SNSPC_ENDOP 2]),
    \<comment> \<open>SETP_\<close> ([0x040], 2,
      [SNSPC_SETFLAG_P, SNSPC_CLRFLAG_I, SNSPC_ENDOP 2]),
    \<comment> \<open>PUSHA_\<close> ([0x02d], 4,
      [SNSPC_GET_A8 t0, SNSPC_PUSH8 t0, SNSPC_ENDOP 4]),
    \<comment> \<open>PUSHX_\<close> ([0x04d], 4,
      [SNSPC_GET_X8 t0, SNSPC_PUSH8 t0, SNSPC_ENDOP 4]),
    \<comment> \<open>PUSHY_\<close> ([0x06d], 4,
      [SNSPC_GET_Y8 t0, SNSPC_PUSH8 t0, SNSPC_ENDOP 4]),
    \<comment> \<open>PUSHPSW_\<close> ([0x00d], 4,
      [SNSPC_GET_PSW8 t0, SNSPC_PUSH8 t0, SNSPC_ENDOP 4]),
    \<comment> \<open>POPA_\<close> ([0x0ae], 4,
      [SNSPC_POP8 t0, SNSPC_SET_A8 t0, SNSPC_ENDOP 4]),
    \<comment> \<open>POPX_\<close> ([0x0ce], 4,
      [SNSPC_POP8 t0, SNSPC_SET_X8 t0, SNSPC_ENDOP 4]),
    \<comment> \<open>POPY_\<close> ([0x0ee], 4,
      [SNSPC_POP8 t0, SNSPC_SET_Y8 t0, SNSPC_ENDOP 4]),
    \<comment> \<open>POPPSW_\<close> ([0x08e], 4,
      [SNSPC_POP8 t0, SNSPC_SET_PSW8 t0, SNSPC_ENDOP 4])]"

definition opspc700_shifts_1 :: "(nat list \<times> nat \<times> spc_op list) list" where
  "opspc700_shifts_1 =
   [
    \<comment> \<open>ASLA_\<close> ([0x01c], 2,
      [SNSPC_GET_A8 t1, SNSPC_SHLI t1 1, SNSPC_SET_A8 t1, SNSPC_SETFLAG_Z8 t1,
      SNSPC_SETFLAG_N8 t1, SNSPC_SHRI t1 8, SNSPC_SETFLAG_C t1, SNSPC_ENDOP 2]),
    \<comment> \<open>addr_dp_read_ASL_\<close> ([0x00b], 4,
      [SNSPC_FETCH8 t0, SNSPC_ADD t0 r_DP, SNSPC_READ8 t0 t1, SNSPC_SHLI t1 1,
      SNSPC_WRITE8 t0 t1, SNSPC_SETFLAG_Z8 t1, SNSPC_SETFLAG_N8 t1, SNSPC_SHRI t1 8,
      SNSPC_SETFLAG_C t1, SNSPC_ENDOP 4]),
    \<comment> \<open>addr_dp_ix_read_ASL_\<close> ([0x01b], 5,
      [SNSPC_FETCH8 t0, SNSPC_ADD t0 r_X, SNSPC_ANDI t0 0xFF, SNSPC_ADD t0 r_DP,
      SNSPC_READ8 t0 t1, SNSPC_SHLI t1 1, SNSPC_WRITE8 t0 t1, SNSPC_SETFLAG_Z8 t1,
      SNSPC_SETFLAG_N8 t1, SNSPC_SHRI t1 8, SNSPC_SETFLAG_C t1, SNSPC_ENDOP 5]),
    \<comment> \<open>addr_abs_read_ASL_\<close> ([0x00c], 5,
      [SNSPC_FETCH16 t0, SNSPC_READ8 t0 t1, SNSPC_SHLI t1 1, SNSPC_WRITE8 t0 t1,
      SNSPC_SETFLAG_Z8 t1, SNSPC_SETFLAG_N8 t1, SNSPC_SHRI t1 8, SNSPC_SETFLAG_C t1,
      SNSPC_ENDOP 5]),
    \<comment> \<open>LSRA_\<close> ([0x05c], 2,
      [SNSPC_GET_A8 t1, SNSPC_SETFLAG_C t1, SNSPC_SHRI t1 1, SNSPC_SET_A8 t1,
      SNSPC_SETFLAG_Z8 t1, SNSPC_SETFLAG_N8 t1, SNSPC_ENDOP 2]),
    \<comment> \<open>addr_dp_read_LSR_\<close> ([0x04b], 4,
      [SNSPC_FETCH8 t0, SNSPC_ADD t0 r_DP, SNSPC_READ8 t0 t1, SNSPC_SETFLAG_C t1,
      SNSPC_SHRI t1 1, SNSPC_WRITE8 t0 t1, SNSPC_SETFLAG_Z8 t1, SNSPC_SETFLAG_N8 t1,
      SNSPC_ENDOP 4]),
    \<comment> \<open>addr_dp_ix_read_LSR_\<close> ([0x05b], 5,
      [SNSPC_FETCH8 t0, SNSPC_ADD t0 r_X, SNSPC_ANDI t0 0xFF, SNSPC_ADD t0 r_DP,
      SNSPC_READ8 t0 t1, SNSPC_SETFLAG_C t1, SNSPC_SHRI t1 1, SNSPC_WRITE8 t0 t1,
      SNSPC_SETFLAG_Z8 t1, SNSPC_SETFLAG_N8 t1, SNSPC_ENDOP 5]),
    \<comment> \<open>addr_abs_read_LSR_\<close> ([0x04c], 5,
      [SNSPC_FETCH16 t0, SNSPC_READ8 t0 t1, SNSPC_SETFLAG_C t1, SNSPC_SHRI t1 1,
      SNSPC_WRITE8 t0 t1, SNSPC_SETFLAG_Z8 t1, SNSPC_SETFLAG_N8 t1, SNSPC_ENDOP 5]),
    \<comment> \<open>ROLA_\<close> ([0x03c], 2,
      [SNSPC_GET_A8 t1, SNSPC_GETFLAG_C t2, SNSPC_SHLI t1 1, SNSPC_OR t1 t2, SNSPC_SET_A8 t1,
      SNSPC_SETFLAG_Z8 t1, SNSPC_SETFLAG_N8 t1, SNSPC_SHRI t1 8, SNSPC_SETFLAG_C t1,
      SNSPC_ENDOP 2]),
    \<comment> \<open>addr_dp_read_ROL_\<close> ([0x02b], 4,
      [SNSPC_FETCH8 t0, SNSPC_ADD t0 r_DP, SNSPC_READ8 t0 t1, SNSPC_GETFLAG_C t2,
      SNSPC_SHLI t1 1, SNSPC_OR t1 t2, SNSPC_WRITE8 t0 t1, SNSPC_SETFLAG_Z8 t1,
      SNSPC_SETFLAG_N8 t1, SNSPC_SHRI t1 8, SNSPC_SETFLAG_C t1, SNSPC_ENDOP 4]),
    \<comment> \<open>addr_dp_ix_read_ROL_\<close> ([0x03b], 5,
      [SNSPC_FETCH8 t0, SNSPC_ADD t0 r_X, SNSPC_ANDI t0 0xFF, SNSPC_ADD t0 r_DP,
      SNSPC_READ8 t0 t1, SNSPC_GETFLAG_C t2, SNSPC_SHLI t1 1, SNSPC_OR t1 t2,
      SNSPC_WRITE8 t0 t1, SNSPC_SETFLAG_Z8 t1, SNSPC_SETFLAG_N8 t1, SNSPC_SHRI t1 8,
      SNSPC_SETFLAG_C t1, SNSPC_ENDOP 5])]"

definition opspc700_shifts_2 :: "(nat list \<times> nat \<times> spc_op list) list" where
  "opspc700_shifts_2 =
   [
    \<comment> \<open>addr_abs_read_ROL_\<close> ([0x02c], 5,
      [SNSPC_FETCH16 t0, SNSPC_READ8 t0 t1, SNSPC_GETFLAG_C t2, SNSPC_SHLI t1 1, SNSPC_OR t1 t2,
      SNSPC_WRITE8 t0 t1, SNSPC_SETFLAG_Z8 t1, SNSPC_SETFLAG_N8 t1, SNSPC_SHRI t1 8,
      SNSPC_SETFLAG_C t1, SNSPC_ENDOP 5]),
    \<comment> \<open>RORA_\<close> ([0x07c], 2,
      [SNSPC_GET_A8 t1, SNSPC_GETFLAG_C t2, SNSPC_SHLI t2 8, SNSPC_SETFLAG_C t1, SNSPC_OR t1 t2,
      SNSPC_SHRI t1 1, SNSPC_SET_A8 t1, SNSPC_SETFLAG_Z8 t1, SNSPC_SETFLAG_N8 t1, SNSPC_ENDOP 2]),
    \<comment> \<open>addr_dp_read_ROR_\<close> ([0x06b], 4,
      [SNSPC_FETCH8 t0, SNSPC_ADD t0 r_DP, SNSPC_READ8 t0 t1, SNSPC_GETFLAG_C t2,
      SNSPC_SHLI t2 8, SNSPC_SETFLAG_C t1, SNSPC_OR t1 t2, SNSPC_SHRI t1 1, SNSPC_WRITE8 t0 t1,
      SNSPC_SETFLAG_Z8 t1, SNSPC_SETFLAG_N8 t1, SNSPC_ENDOP 4]),
    \<comment> \<open>addr_dp_ix_read_ROR_\<close> ([0x07b], 5,
      [SNSPC_FETCH8 t0, SNSPC_ADD t0 r_X, SNSPC_ANDI t0 0xFF, SNSPC_ADD t0 r_DP,
      SNSPC_READ8 t0 t1, SNSPC_GETFLAG_C t2, SNSPC_SHLI t2 8, SNSPC_SETFLAG_C t1,
      SNSPC_OR t1 t2, SNSPC_SHRI t1 1, SNSPC_WRITE8 t0 t1, SNSPC_SETFLAG_Z8 t1,
      SNSPC_SETFLAG_N8 t1, SNSPC_ENDOP 5]),
    \<comment> \<open>addr_abs_read_ROR_\<close> ([0x06c], 5,
      [SNSPC_FETCH16 t0, SNSPC_READ8 t0 t1, SNSPC_GETFLAG_C t2, SNSPC_SHLI t2 8,
      SNSPC_SETFLAG_C t1, SNSPC_OR t1 t2, SNSPC_SHRI t1 1, SNSPC_WRITE8 t0 t1,
      SNSPC_SETFLAG_Z8 t1, SNSPC_SETFLAG_N8 t1, SNSPC_ENDOP 5]),
    \<comment> \<open>XCN_\<close> ([0x09f], 5,
      [SNSPC_GET_A8 t0, SNSPC_GET_A8 t1, SNSPC_SHLI t0 4, SNSPC_SHRI t1 4, SNSPC_OR t1 t0,
      SNSPC_SET_A8 t1, SNSPC_SETFLAG_Z8 t1, SNSPC_SETFLAG_N8 t1, SNSPC_ENDOP 5])]"

definition opspc700_LDA :: "(nat list \<times> nat \<times> spc_op list) list" where
  "opspc700_LDA =
   [
    \<comment> \<open>addr_imm8_LDA_\<close> ([0x0e8], 2,
      [SNSPC_FETCH8 t1, SNSPC_SET_A8 t1, SNSPC_SETFLAG_Z8 t1, SNSPC_SETFLAG_N8 t1, SNSPC_ENDOP 2]),
    \<comment> \<open>addr_x_indirect_read_LDA_\<close> ([0x0e6], 3,
      [SNSPC_GET_X8 t0, SNSPC_ADD t0 r_DP, SNSPC_READ8 t0 t1, SNSPC_SET_A8 t1,
      SNSPC_SETFLAG_Z8 t1, SNSPC_SETFLAG_N8 t1, SNSPC_ENDOP 3]),
    \<comment> \<open>addr_x_indirect_inc_read_LDA_\<close> ([0x0bf], 4,
      [SNSPC_GET_X8 t0, ADDI_rX 1, SNSPC_ADD t0 r_DP, SNSPC_READ8 t0 t1, SNSPC_SET_A8 t1,
      SNSPC_SETFLAG_Z8 t1, SNSPC_SETFLAG_N8 t1, SNSPC_ENDOP 4]),
    \<comment> \<open>addr_dp_read_LDA_\<close> ([0x0e4], 3,
      [SNSPC_FETCH8 t0, SNSPC_ADD t0 r_DP, SNSPC_READ8 t0 t1, SNSPC_SET_A8 t1,
      SNSPC_SETFLAG_Z8 t1, SNSPC_SETFLAG_N8 t1, SNSPC_ENDOP 3]),
    \<comment> \<open>addr_dp_ix_read_LDA_\<close> ([0x0f4], 4,
      [SNSPC_FETCH8 t0, SNSPC_ADD t0 r_X, SNSPC_ANDI t0 0xFF, SNSPC_ADD t0 r_DP,
      SNSPC_READ8 t0 t1, SNSPC_SET_A8 t1, SNSPC_SETFLAG_Z8 t1, SNSPC_SETFLAG_N8 t1,
      SNSPC_ENDOP 4]),
    \<comment> \<open>addr_abs_read_LDA_\<close> ([0x0e5], 4,
      [SNSPC_FETCH16 t0, SNSPC_READ8 t0 t1, SNSPC_SET_A8 t1, SNSPC_SETFLAG_Z8 t1,
      SNSPC_SETFLAG_N8 t1, SNSPC_ENDOP 4]),
    \<comment> \<open>addr_abs_ix_read_LDA_\<close> ([0x0f5], 5,
      [SNSPC_FETCH16 t0, SNSPC_ADD t0 r_X, SNSPC_READ8 t0 t1, SNSPC_SET_A8 t1,
      SNSPC_SETFLAG_Z8 t1, SNSPC_SETFLAG_N8 t1, SNSPC_ENDOP 5]),
    \<comment> \<open>addr_abs_iy_read_LDA_\<close> ([0x0f6], 5,
      [SNSPC_FETCH16 t0, SNSPC_ADD t0 r_Y, SNSPC_READ8 t0 t1, SNSPC_SET_A8 t1,
      SNSPC_SETFLAG_Z8 t1, SNSPC_SETFLAG_N8 t1, SNSPC_ENDOP 5]),
    \<comment> \<open>addr_dp_ix_indirect_read_LDA_\<close> ([0x0e7], 6,
      [SNSPC_FETCH8 t0, SNSPC_ADD t0 r_X, SNSPC_ANDI t0 0xFF, SNSPC_ADD t0 r_DP,
      SNSPC_READ16 t0 t0, SNSPC_READ8 t0 t1, SNSPC_SET_A8 t1, SNSPC_SETFLAG_Z8 t1,
      SNSPC_SETFLAG_N8 t1, SNSPC_ENDOP 6]),
    \<comment> \<open>addr_dp_indirect_iy_read_LDA_\<close> ([0x0f7], 6,
      [SNSPC_FETCH8 t0, SNSPC_ADD t0 r_DP, SNSPC_READ16 t0 t0, SNSPC_ADD t0 r_Y,
      SNSPC_READ8 t0 t1, SNSPC_SET_A8 t1, SNSPC_SETFLAG_Z8 t1, SNSPC_SETFLAG_N8 t1,
      SNSPC_ENDOP 6])]"

definition opspc700_LDX_LDY :: "(nat list \<times> nat \<times> spc_op list) list" where
  "opspc700_LDX_LDY =
   [
    \<comment> \<open>addr_imm8_LDX_\<close> ([0x0cd], 2,
      [SNSPC_FETCH8 t1, SNSPC_SET_X8 t1, SNSPC_SETFLAG_Z8 t1, SNSPC_SETFLAG_N8 t1, SNSPC_ENDOP 2]),
    \<comment> \<open>addr_dp_read_LDX_\<close> ([0x0f8], 3,
      [SNSPC_FETCH8 t0, SNSPC_ADD t0 r_DP, SNSPC_READ8 t0 t1, SNSPC_SET_X8 t1,
      SNSPC_SETFLAG_Z8 t1, SNSPC_SETFLAG_N8 t1, SNSPC_ENDOP 3]),
    \<comment> \<open>addr_dp_iy_read_LDX_\<close> ([0x0f9], 4,
      [SNSPC_FETCH8 t0, SNSPC_ADD t0 r_Y, SNSPC_ANDI t0 0xFF, SNSPC_ADD t0 r_DP,
      SNSPC_READ8 t0 t1, SNSPC_SET_X8 t1, SNSPC_SETFLAG_Z8 t1, SNSPC_SETFLAG_N8 t1,
      SNSPC_ENDOP 4]),
    \<comment> \<open>addr_abs_read_LDX_\<close> ([0x0e9], 4,
      [SNSPC_FETCH16 t0, SNSPC_READ8 t0 t1, SNSPC_SET_X8 t1, SNSPC_SETFLAG_Z8 t1,
      SNSPC_SETFLAG_N8 t1, SNSPC_ENDOP 4]),
    \<comment> \<open>addr_imm8_LDY_\<close> ([0x08d], 2,
      [SNSPC_FETCH8 t1, SNSPC_SET_Y8 t1, SNSPC_SETFLAG_Z8 t1, SNSPC_SETFLAG_N8 t1, SNSPC_ENDOP 2]),
    \<comment> \<open>addr_dp_read_LDY_\<close> ([0x0eb], 3,
      [SNSPC_FETCH8 t0, SNSPC_ADD t0 r_DP, SNSPC_READ8 t0 t1, SNSPC_SET_Y8 t1,
      SNSPC_SETFLAG_Z8 t1, SNSPC_SETFLAG_N8 t1, SNSPC_ENDOP 3]),
    \<comment> \<open>addr_dp_ix_read_LDY_\<close> ([0x0fb], 4,
      [SNSPC_FETCH8 t0, SNSPC_ADD t0 r_X, SNSPC_ANDI t0 0xFF, SNSPC_ADD t0 r_DP,
      SNSPC_READ8 t0 t1, SNSPC_SET_Y8 t1, SNSPC_SETFLAG_Z8 t1, SNSPC_SETFLAG_N8 t1,
      SNSPC_ENDOP 4]),
    \<comment> \<open>addr_abs_read_LDY_\<close> ([0x0ec], 4,
      [SNSPC_FETCH16 t0, SNSPC_READ8 t0 t1, SNSPC_SET_Y8 t1, SNSPC_SETFLAG_Z8 t1,
      SNSPC_SETFLAG_N8 t1, SNSPC_ENDOP 4])]"

definition opspc700_stores :: "(nat list \<times> nat \<times> spc_op list) list" where
  "opspc700_stores =
   [
    \<comment> \<open>addr_x_indirect_STA_\<close> ([0x0c6], 4,
      [SNSPC_GET_X8 t0, SNSPC_ADD t0 r_DP, SNSPC_GET_A8 t1, SNSPC_WRITE8 t0 t1, SNSPC_ENDOP 4]),
    \<comment> \<open>addr_x_indirect_inc_STA_\<close> ([0x0af], 4,
      [SNSPC_GET_X8 t0, ADDI_rX 1, SNSPC_ADD t0 r_DP, SNSPC_GET_A8 t1, SNSPC_WRITE8 t0 t1,
      SNSPC_ENDOP 4]),
    \<comment> \<open>addr_dp_STA_\<close> ([0x0c4], 4,
      [SNSPC_FETCH8 t0, SNSPC_ADD t0 r_DP, SNSPC_GET_A8 t1, SNSPC_WRITE8 t0 t1, SNSPC_ENDOP 4]),
    \<comment> \<open>addr_dp_ix_STA_\<close> ([0x0d4], 5,
      [SNSPC_FETCH8 t0, SNSPC_ADD t0 r_X, SNSPC_ANDI t0 0xFF, SNSPC_ADD t0 r_DP,
      SNSPC_GET_A8 t1, SNSPC_WRITE8 t0 t1, SNSPC_ENDOP 5]),
    \<comment> \<open>addr_abs_STA_\<close> ([0x0c5], 5,
      [SNSPC_FETCH16 t0, SNSPC_GET_A8 t1, SNSPC_WRITE8 t0 t1, SNSPC_ENDOP 5]),
    \<comment> \<open>addr_abs_ix_STA_\<close> ([0x0d5], 6,
      [SNSPC_FETCH16 t0, SNSPC_ADD t0 r_X, SNSPC_GET_A8 t1, SNSPC_WRITE8 t0 t1, SNSPC_ENDOP 6]),
    \<comment> \<open>addr_abs_iy_STA_\<close> ([0x0d6], 6,
      [SNSPC_FETCH16 t0, SNSPC_ADD t0 r_Y, SNSPC_GET_A8 t1, SNSPC_WRITE8 t0 t1, SNSPC_ENDOP 6]),
    \<comment> \<open>addr_dp_ix_indirect_STA_\<close> ([0x0c7], 7,
      [SNSPC_FETCH8 t0, SNSPC_ADD t0 r_X, SNSPC_ANDI t0 0xFF, SNSPC_ADD t0 r_DP,
      SNSPC_READ16 t0 t0, SNSPC_GET_A8 t1, SNSPC_WRITE8 t0 t1, SNSPC_ENDOP 7]),
    \<comment> \<open>addr_dp_indirect_iy_STA_\<close> ([0x0d7], 7,
      [SNSPC_FETCH8 t0, SNSPC_ADD t0 r_DP, SNSPC_READ16 t0 t0, SNSPC_ADD t0 r_Y,
      SNSPC_GET_A8 t1, SNSPC_WRITE8 t0 t1, SNSPC_ENDOP 7]),
    \<comment> \<open>addr_dp_STX_\<close> ([0x0d8], 4,
      [SNSPC_FETCH8 t0, SNSPC_ADD t0 r_DP, SNSPC_GET_X8 t1, SNSPC_WRITE8 t0 t1, SNSPC_ENDOP 4]),
    \<comment> \<open>addr_dp_iy_STX_\<close> ([0x0d9], 5,
      [SNSPC_FETCH8 t0, SNSPC_ADD t0 r_Y, SNSPC_ANDI t0 0xFF, SNSPC_ADD t0 r_DP,
      SNSPC_GET_X8 t1, SNSPC_WRITE8 t0 t1, SNSPC_ENDOP 5]),
    \<comment> \<open>addr_abs_STX_\<close> ([0x0c9], 5,
      [SNSPC_FETCH16 t0, SNSPC_GET_X8 t1, SNSPC_WRITE8 t0 t1, SNSPC_ENDOP 5]),
    \<comment> \<open>addr_dp_STY_\<close> ([0x0cb], 4,
      [SNSPC_FETCH8 t0, SNSPC_ADD t0 r_DP, SNSPC_GET_Y8 t1, SNSPC_WRITE8 t0 t1, SNSPC_ENDOP 4]),
    \<comment> \<open>addr_dp_ix_STY_\<close> ([0x0db], 5,
      [SNSPC_FETCH8 t0, SNSPC_ADD t0 r_X, SNSPC_ANDI t0 0xFF, SNSPC_ADD t0 r_DP,
      SNSPC_GET_Y8 t1, SNSPC_WRITE8 t0 t1, SNSPC_ENDOP 5]),
    \<comment> \<open>addr_abs_STY_\<close> ([0x0cc], 5,
      [SNSPC_FETCH16 t0, SNSPC_GET_Y8 t1, SNSPC_WRITE8 t0 t1, SNSPC_ENDOP 5])]"

definition opspc700_moves :: "(nat list \<times> nat \<times> spc_op list) list" where
  "opspc700_moves =
   [
    \<comment> \<open>MOV_A_X_\<close> ([0x07d], 2,
      [SNSPC_GET_X8 t0, SNSPC_SET_A8 t0, SNSPC_SETFLAG_N8 t0, SNSPC_SETFLAG_Z8 t0, SNSPC_ENDOP 2]),
    \<comment> \<open>MOV_A_Y_\<close> ([0x0dd], 2,
      [SNSPC_GET_Y8 t0, SNSPC_SET_A8 t0, SNSPC_SETFLAG_N8 t0, SNSPC_SETFLAG_Z8 t0, SNSPC_ENDOP 2]),
    \<comment> \<open>MOV_X_A_\<close> ([0x05d], 2,
      [SNSPC_GET_A8 t0, SNSPC_SET_X8 t0, SNSPC_SETFLAG_N8 t0, SNSPC_SETFLAG_Z8 t0, SNSPC_ENDOP 2]),
    \<comment> \<open>MOV_Y_A_\<close> ([0x0fd], 2,
      [SNSPC_GET_A8 t0, SNSPC_SET_Y8 t0, SNSPC_SETFLAG_N8 t0, SNSPC_SETFLAG_Z8 t0, SNSPC_ENDOP 2]),
    \<comment> \<open>MOV_X_SP_\<close> ([0x09d], 2,
      [SNSPC_GET_SP8 t0, SNSPC_SET_X8 t0, SNSPC_SETFLAG_N8 t0, SNSPC_SETFLAG_Z8 t0, SNSPC_ENDOP 2]),
    \<comment> \<open>MOV_SP_X_\<close> ([0x0bd], 2,
      [SNSPC_GET_X8 t0, SNSPC_SET_SP8 t0, SNSPC_ENDOP 2]),
    \<comment> \<open>addr_dp_addr_dp_\<close> ([0x0fa], 5,
      [SNSPC_FETCH8 t0, SNSPC_ADD t0 r_DP, SNSPC_READ8 t0 t1, SNSPC_FETCH8 t0,
      SNSPC_ADD t0 r_DP, SNSPC_WRITE8 t0 t1, SNSPC_ENDOP 5]),
    \<comment> \<open>addr_imm8_addr_dp_\<close> ([0x08f], 5,
      [SNSPC_FETCH8 t1, SNSPC_FETCH8 t0, SNSPC_ADD t0 r_DP, SNSPC_WRITE8 t0 t1, SNSPC_ENDOP 5])]"

definition opspc700_ADC_1 :: "(nat list \<times> nat \<times> spc_op list) list" where
  "opspc700_ADC_1 =
   [
    \<comment> \<open>addr_imm8_ADC_\<close> ([0x088], 2,
      [SNSPC_FETCH8 t1, SNSPC_GET_A8 t2, SNSPC_ADC8 t2 t1, SNSPC_SET_A8 t2, SNSPC_SETFLAG_Z8 t2,
      SNSPC_SETFLAG_N8 t2, SNSPC_SHRI t2 8, SNSPC_SETFLAG_C t2, SNSPC_ENDOP 2]),
    \<comment> \<open>addr_x_indirect_read_ADC_\<close> ([0x086], 3,
      [SNSPC_GET_X8 t0, SNSPC_ADD t0 r_DP, SNSPC_READ8 t0 t1, SNSPC_GET_A8 t2, SNSPC_ADC8 t2 t1,
      SNSPC_SET_A8 t2, SNSPC_SETFLAG_Z8 t2, SNSPC_SETFLAG_N8 t2, SNSPC_SHRI t2 8,
      SNSPC_SETFLAG_C t2, SNSPC_ENDOP 3]),
    \<comment> \<open>addr_dp_read_ADC_\<close> ([0x084], 3,
      [SNSPC_FETCH8 t0, SNSPC_ADD t0 r_DP, SNSPC_READ8 t0 t1, SNSPC_GET_A8 t2, SNSPC_ADC8 t2 t1,
      SNSPC_SET_A8 t2, SNSPC_SETFLAG_Z8 t2, SNSPC_SETFLAG_N8 t2, SNSPC_SHRI t2 8,
      SNSPC_SETFLAG_C t2, SNSPC_ENDOP 3]),
    \<comment> \<open>addr_dp_ix_read_ADC_\<close> ([0x094], 4,
      [SNSPC_FETCH8 t0, SNSPC_ADD t0 r_X, SNSPC_ANDI t0 0xFF, SNSPC_ADD t0 r_DP,
      SNSPC_READ8 t0 t1, SNSPC_GET_A8 t2, SNSPC_ADC8 t2 t1, SNSPC_SET_A8 t2,
      SNSPC_SETFLAG_Z8 t2, SNSPC_SETFLAG_N8 t2, SNSPC_SHRI t2 8, SNSPC_SETFLAG_C t2,
      SNSPC_ENDOP 4]),
    \<comment> \<open>addr_abs_read_ADC_\<close> ([0x085], 4,
      [SNSPC_FETCH16 t0, SNSPC_READ8 t0 t1, SNSPC_GET_A8 t2, SNSPC_ADC8 t2 t1, SNSPC_SET_A8 t2,
      SNSPC_SETFLAG_Z8 t2, SNSPC_SETFLAG_N8 t2, SNSPC_SHRI t2 8, SNSPC_SETFLAG_C t2,
      SNSPC_ENDOP 4]),
    \<comment> \<open>addr_abs_ix_read_ADC_\<close> ([0x095], 5,
      [SNSPC_FETCH16 t0, SNSPC_ADD t0 r_X, SNSPC_READ8 t0 t1, SNSPC_GET_A8 t2, SNSPC_ADC8 t2 t1,
      SNSPC_SET_A8 t2, SNSPC_SETFLAG_Z8 t2, SNSPC_SETFLAG_N8 t2, SNSPC_SHRI t2 8,
      SNSPC_SETFLAG_C t2, SNSPC_ENDOP 5]),
    \<comment> \<open>addr_abs_iy_read_ADC_\<close> ([0x096], 5,
      [SNSPC_FETCH16 t0, SNSPC_ADD t0 r_Y, SNSPC_READ8 t0 t1, SNSPC_GET_A8 t2, SNSPC_ADC8 t2 t1,
      SNSPC_SET_A8 t2, SNSPC_SETFLAG_Z8 t2, SNSPC_SETFLAG_N8 t2, SNSPC_SHRI t2 8,
      SNSPC_SETFLAG_C t2, SNSPC_ENDOP 5]),
    \<comment> \<open>addr_dp_ix_indirect_read_ADC_\<close> ([0x087], 6,
      [SNSPC_FETCH8 t0, SNSPC_ADD t0 r_X, SNSPC_ANDI t0 0xFF, SNSPC_ADD t0 r_DP,
      SNSPC_READ16 t0 t0, SNSPC_READ8 t0 t1, SNSPC_GET_A8 t2, SNSPC_ADC8 t2 t1,
      SNSPC_SET_A8 t2, SNSPC_SETFLAG_Z8 t2, SNSPC_SETFLAG_N8 t2, SNSPC_SHRI t2 8,
      SNSPC_SETFLAG_C t2, SNSPC_ENDOP 6]),
    \<comment> \<open>addr_dp_indirect_iy_read_ADC_\<close> ([0x097], 6,
      [SNSPC_FETCH8 t0, SNSPC_ADD t0 r_DP, SNSPC_READ16 t0 t0, SNSPC_ADD t0 r_Y,
      SNSPC_READ8 t0 t1, SNSPC_GET_A8 t2, SNSPC_ADC8 t2 t1, SNSPC_SET_A8 t2,
      SNSPC_SETFLAG_Z8 t2, SNSPC_SETFLAG_N8 t2, SNSPC_SHRI t2 8, SNSPC_SETFLAG_C t2,
      SNSPC_ENDOP 6]),
    \<comment> \<open>addr_y_indirect_addr_x_indirect_ADCM_\<close> ([0x099], 5,
      [SNSPC_GET_Y8 t0, SNSPC_ADD t0 r_DP, SNSPC_READ8 t0 t1, SNSPC_GET_X8 t0,
      SNSPC_ADD t0 r_DP, SNSPC_READ8 t0 t2, SNSPC_ADC8 t2 t1, SNSPC_WRITE8 t0 t2,
      SNSPC_SETFLAG_Z8 t2, SNSPC_SETFLAG_N8 t2, SNSPC_SHRI t2 8, SNSPC_SETFLAG_C t2,
      SNSPC_ENDOP 5])]"

definition opspc700_ADC_2 :: "(nat list \<times> nat \<times> spc_op list) list" where
  "opspc700_ADC_2 =
   [
    \<comment> \<open>addr_dp_addr_dp_ADCM_\<close> ([0x089], 6,
      [SNSPC_FETCH8 t0, SNSPC_ADD t0 r_DP, SNSPC_READ8 t0 t1, SNSPC_FETCH8 t0,
      SNSPC_ADD t0 r_DP, SNSPC_READ8 t0 t2, SNSPC_ADC8 t2 t1, SNSPC_WRITE8 t0 t2,
      SNSPC_SETFLAG_Z8 t2, SNSPC_SETFLAG_N8 t2, SNSPC_SHRI t2 8, SNSPC_SETFLAG_C t2,
      SNSPC_ENDOP 6]),
    \<comment> \<open>addr_imm8_addr_dp_ADCM_\<close> ([0x098], 5,
      [SNSPC_FETCH8 t1, SNSPC_FETCH8 t0, SNSPC_ADD t0 r_DP, SNSPC_READ8 t0 t2, SNSPC_ADC8 t2 t1,
      SNSPC_WRITE8 t0 t2, SNSPC_SETFLAG_Z8 t2, SNSPC_SETFLAG_N8 t2, SNSPC_SHRI t2 8,
      SNSPC_SETFLAG_C t2, SNSPC_ENDOP 5])]"

definition opspc700_SBC_1 :: "(nat list \<times> nat \<times> spc_op list) list" where
  "opspc700_SBC_1 =
   [
    \<comment> \<open>addr_imm8_SBC_\<close> ([0x0a8], 2,
      [SNSPC_FETCH8 t1, SNSPC_NOT8 t1, SNSPC_GET_A8 t2, SNSPC_SBC8 t2 t1, SNSPC_SET_A8 t2,
      SNSPC_SETFLAG_Z8 t2, SNSPC_SETFLAG_N8 t2, SNSPC_SHRI t2 8, SNSPC_SETFLAG_C t2,
      SNSPC_ENDOP 2]),
    \<comment> \<open>addr_x_indirect_read_SBC_\<close> ([0x0a6], 3,
      [SNSPC_GET_X8 t0, SNSPC_ADD t0 r_DP, SNSPC_READ8 t0 t1, SNSPC_NOT8 t1, SNSPC_GET_A8 t2,
      SNSPC_SBC8 t2 t1, SNSPC_SET_A8 t2, SNSPC_SETFLAG_Z8 t2, SNSPC_SETFLAG_N8 t2,
      SNSPC_SHRI t2 8, SNSPC_SETFLAG_C t2, SNSPC_ENDOP 3]),
    \<comment> \<open>addr_dp_read_SBC_\<close> ([0x0a4], 3,
      [SNSPC_FETCH8 t0, SNSPC_ADD t0 r_DP, SNSPC_READ8 t0 t1, SNSPC_NOT8 t1, SNSPC_GET_A8 t2,
      SNSPC_SBC8 t2 t1, SNSPC_SET_A8 t2, SNSPC_SETFLAG_Z8 t2, SNSPC_SETFLAG_N8 t2,
      SNSPC_SHRI t2 8, SNSPC_SETFLAG_C t2, SNSPC_ENDOP 3]),
    \<comment> \<open>addr_dp_ix_read_SBC_\<close> ([0x0b4], 4,
      [SNSPC_FETCH8 t0, SNSPC_ADD t0 r_X, SNSPC_ANDI t0 0xFF, SNSPC_ADD t0 r_DP,
      SNSPC_READ8 t0 t1, SNSPC_NOT8 t1, SNSPC_GET_A8 t2, SNSPC_SBC8 t2 t1, SNSPC_SET_A8 t2,
      SNSPC_SETFLAG_Z8 t2, SNSPC_SETFLAG_N8 t2, SNSPC_SHRI t2 8, SNSPC_SETFLAG_C t2,
      SNSPC_ENDOP 4]),
    \<comment> \<open>addr_abs_read_SBC_\<close> ([0x0a5], 4,
      [SNSPC_FETCH16 t0, SNSPC_READ8 t0 t1, SNSPC_NOT8 t1, SNSPC_GET_A8 t2, SNSPC_SBC8 t2 t1,
      SNSPC_SET_A8 t2, SNSPC_SETFLAG_Z8 t2, SNSPC_SETFLAG_N8 t2, SNSPC_SHRI t2 8,
      SNSPC_SETFLAG_C t2, SNSPC_ENDOP 4]),
    \<comment> \<open>addr_abs_ix_read_SBC_\<close> ([0x0b5], 5,
      [SNSPC_FETCH16 t0, SNSPC_ADD t0 r_X, SNSPC_READ8 t0 t1, SNSPC_NOT8 t1, SNSPC_GET_A8 t2,
      SNSPC_SBC8 t2 t1, SNSPC_SET_A8 t2, SNSPC_SETFLAG_Z8 t2, SNSPC_SETFLAG_N8 t2,
      SNSPC_SHRI t2 8, SNSPC_SETFLAG_C t2, SNSPC_ENDOP 5]),
    \<comment> \<open>addr_abs_iy_read_SBC_\<close> ([0x0b6], 5,
      [SNSPC_FETCH16 t0, SNSPC_ADD t0 r_Y, SNSPC_READ8 t0 t1, SNSPC_NOT8 t1, SNSPC_GET_A8 t2,
      SNSPC_SBC8 t2 t1, SNSPC_SET_A8 t2, SNSPC_SETFLAG_Z8 t2, SNSPC_SETFLAG_N8 t2,
      SNSPC_SHRI t2 8, SNSPC_SETFLAG_C t2, SNSPC_ENDOP 5]),
    \<comment> \<open>addr_dp_ix_indirect_read_SBC_\<close> ([0x0a7], 6,
      [SNSPC_FETCH8 t0, SNSPC_ADD t0 r_X, SNSPC_ANDI t0 0xFF, SNSPC_ADD t0 r_DP,
      SNSPC_READ16 t0 t0, SNSPC_READ8 t0 t1, SNSPC_NOT8 t1, SNSPC_GET_A8 t2, SNSPC_SBC8 t2 t1,
      SNSPC_SET_A8 t2, SNSPC_SETFLAG_Z8 t2, SNSPC_SETFLAG_N8 t2, SNSPC_SHRI t2 8,
      SNSPC_SETFLAG_C t2, SNSPC_ENDOP 6]),
    \<comment> \<open>addr_dp_indirect_iy_read_SBC_\<close> ([0x0b7], 6,
      [SNSPC_FETCH8 t0, SNSPC_ADD t0 r_DP, SNSPC_READ16 t0 t0, SNSPC_ADD t0 r_Y,
      SNSPC_READ8 t0 t1, SNSPC_NOT8 t1, SNSPC_GET_A8 t2, SNSPC_SBC8 t2 t1, SNSPC_SET_A8 t2,
      SNSPC_SETFLAG_Z8 t2, SNSPC_SETFLAG_N8 t2, SNSPC_SHRI t2 8, SNSPC_SETFLAG_C t2,
      SNSPC_ENDOP 6])]"

definition opspc700_SBC_2 :: "(nat list \<times> nat \<times> spc_op list) list" where
  "opspc700_SBC_2 =
   [
    \<comment> \<open>addr_y_indirect_addr_x_indirect_SBCM_\<close> ([0x0b9], 5,
      [SNSPC_GET_Y8 t0, SNSPC_ADD t0 r_DP, SNSPC_READ8 t0 t1, SNSPC_GET_X8 t0,
      SNSPC_ADD t0 r_DP, SNSPC_READ8 t0 t2, SNSPC_NOT8 t1, SNSPC_SBC8 t2 t1,
      SNSPC_WRITE8 t0 t2, SNSPC_SETFLAG_Z8 t2, SNSPC_SETFLAG_N8 t2, SNSPC_SHRI t2 8,
      SNSPC_SETFLAG_C t2, SNSPC_ENDOP 5]),
    \<comment> \<open>addr_dp_addr_dp_SBCM_\<close> ([0x0a9], 6,
      [SNSPC_FETCH8 t0, SNSPC_ADD t0 r_DP, SNSPC_READ8 t0 t1, SNSPC_FETCH8 t0,
      SNSPC_ADD t0 r_DP, SNSPC_READ8 t0 t2, SNSPC_NOT8 t1, SNSPC_SBC8 t2 t1,
      SNSPC_WRITE8 t0 t2, SNSPC_SETFLAG_Z8 t2, SNSPC_SETFLAG_N8 t2, SNSPC_SHRI t2 8,
      SNSPC_SETFLAG_C t2, SNSPC_ENDOP 6]),
    \<comment> \<open>addr_imm8_addr_dp_SBCM_\<close> ([0x0b8], 5,
      [SNSPC_FETCH8 t1, SNSPC_FETCH8 t0, SNSPC_ADD t0 r_DP, SNSPC_READ8 t0 t2, SNSPC_NOT8 t1,
      SNSPC_SBC8 t2 t1, SNSPC_WRITE8 t0 t2, SNSPC_SETFLAG_Z8 t2, SNSPC_SETFLAG_N8 t2,
      SNSPC_SHRI t2 8, SNSPC_SETFLAG_C t2, SNSPC_ENDOP 5])]"

definition opspc700_CMP_1 :: "(nat list \<times> nat \<times> spc_op list) list" where
  "opspc700_CMP_1 =
   [
    \<comment> \<open>addr_imm8_CMPA_\<close> ([0x068], 2,
      [SNSPC_FETCH8 t1, SNSPC_GET_A8 t2, SNSPC_SUB t2 (Tmp t1), SNSPC_SETFLAG_Z8 t2,
      SNSPC_SETFLAG_N8 t2, SNSPC_SHRI t2 8, SNSPC_XORI t2 1, SNSPC_SETFLAG_C t2, SNSPC_ENDOP 2]),
    \<comment> \<open>addr_x_indirect_read_CMPA_\<close> ([0x066], 3,
      [SNSPC_GET_X8 t0, SNSPC_ADD t0 r_DP, SNSPC_READ8 t0 t1, SNSPC_GET_A8 t2,
      SNSPC_SUB t2 (Tmp t1), SNSPC_SETFLAG_Z8 t2, SNSPC_SETFLAG_N8 t2, SNSPC_SHRI t2 8,
      SNSPC_XORI t2 1, SNSPC_SETFLAG_C t2, SNSPC_ENDOP 3]),
    \<comment> \<open>addr_dp_read_CMPA_\<close> ([0x064], 3,
      [SNSPC_FETCH8 t0, SNSPC_ADD t0 r_DP, SNSPC_READ8 t0 t1, SNSPC_GET_A8 t2,
      SNSPC_SUB t2 (Tmp t1), SNSPC_SETFLAG_Z8 t2, SNSPC_SETFLAG_N8 t2, SNSPC_SHRI t2 8,
      SNSPC_XORI t2 1, SNSPC_SETFLAG_C t2, SNSPC_ENDOP 3]),
    \<comment> \<open>addr_dp_ix_read_CMPA_\<close> ([0x074], 4,
      [SNSPC_FETCH8 t0, SNSPC_ADD t0 r_X, SNSPC_ANDI t0 0xFF, SNSPC_ADD t0 r_DP,
      SNSPC_READ8 t0 t1, SNSPC_GET_A8 t2, SNSPC_SUB t2 (Tmp t1), SNSPC_SETFLAG_Z8 t2,
      SNSPC_SETFLAG_N8 t2, SNSPC_SHRI t2 8, SNSPC_XORI t2 1, SNSPC_SETFLAG_C t2, SNSPC_ENDOP 4]),
    \<comment> \<open>addr_abs_read_CMPA_\<close> ([0x065], 4,
      [SNSPC_FETCH16 t0, SNSPC_READ8 t0 t1, SNSPC_GET_A8 t2, SNSPC_SUB t2 (Tmp t1),
      SNSPC_SETFLAG_Z8 t2, SNSPC_SETFLAG_N8 t2, SNSPC_SHRI t2 8, SNSPC_XORI t2 1,
      SNSPC_SETFLAG_C t2, SNSPC_ENDOP 4]),
    \<comment> \<open>addr_abs_ix_read_CMPA_\<close> ([0x075], 5,
      [SNSPC_FETCH16 t0, SNSPC_ADD t0 r_X, SNSPC_READ8 t0 t1, SNSPC_GET_A8 t2,
      SNSPC_SUB t2 (Tmp t1), SNSPC_SETFLAG_Z8 t2, SNSPC_SETFLAG_N8 t2, SNSPC_SHRI t2 8,
      SNSPC_XORI t2 1, SNSPC_SETFLAG_C t2, SNSPC_ENDOP 5]),
    \<comment> \<open>addr_abs_iy_read_CMPA_\<close> ([0x076], 5,
      [SNSPC_FETCH16 t0, SNSPC_ADD t0 r_Y, SNSPC_READ8 t0 t1, SNSPC_GET_A8 t2,
      SNSPC_SUB t2 (Tmp t1), SNSPC_SETFLAG_Z8 t2, SNSPC_SETFLAG_N8 t2, SNSPC_SHRI t2 8,
      SNSPC_XORI t2 1, SNSPC_SETFLAG_C t2, SNSPC_ENDOP 5]),
    \<comment> \<open>addr_dp_ix_indirect_read_CMPA_\<close> ([0x067], 6,
      [SNSPC_FETCH8 t0, SNSPC_ADD t0 r_X, SNSPC_ANDI t0 0xFF, SNSPC_ADD t0 r_DP,
      SNSPC_READ16 t0 t0, SNSPC_READ8 t0 t1, SNSPC_GET_A8 t2, SNSPC_SUB t2 (Tmp t1),
      SNSPC_SETFLAG_Z8 t2, SNSPC_SETFLAG_N8 t2, SNSPC_SHRI t2 8, SNSPC_XORI t2 1,
      SNSPC_SETFLAG_C t2, SNSPC_ENDOP 6]),
    \<comment> \<open>addr_dp_indirect_iy_read_CMPA_\<close> ([0x077], 6,
      [SNSPC_FETCH8 t0, SNSPC_ADD t0 r_DP, SNSPC_READ16 t0 t0, SNSPC_ADD t0 r_Y,
      SNSPC_READ8 t0 t1, SNSPC_GET_A8 t2, SNSPC_SUB t2 (Tmp t1), SNSPC_SETFLAG_Z8 t2,
      SNSPC_SETFLAG_N8 t2, SNSPC_SHRI t2 8, SNSPC_XORI t2 1, SNSPC_SETFLAG_C t2, SNSPC_ENDOP 6]),
    \<comment> \<open>addr_imm8_CMPX_\<close> ([0x0c8], 2,
      [SNSPC_FETCH8 t1, SNSPC_GET_X8 t2, SNSPC_SUB t2 (Tmp t1), SNSPC_SETFLAG_Z8 t2,
      SNSPC_SETFLAG_N8 t2, SNSPC_SHRI t2 8, SNSPC_XORI t2 1, SNSPC_SETFLAG_C t2, SNSPC_ENDOP 2])]"

definition opspc700_CMP_2 :: "(nat list \<times> nat \<times> spc_op list) list" where
  "opspc700_CMP_2 =
   [
    \<comment> \<open>addr_dp_read_CMPX_\<close> ([0x03e], 3,
      [SNSPC_FETCH8 t0, SNSPC_ADD t0 r_DP, SNSPC_READ8 t0 t1, SNSPC_GET_X8 t2,
      SNSPC_SUB t2 (Tmp t1), SNSPC_SETFLAG_Z8 t2, SNSPC_SETFLAG_N8 t2, SNSPC_SHRI t2 8,
      SNSPC_XORI t2 1, SNSPC_SETFLAG_C t2, SNSPC_ENDOP 3]),
    \<comment> \<open>addr_abs_read_CMPX_\<close> ([0x01e], 4,
      [SNSPC_FETCH16 t0, SNSPC_READ8 t0 t1, SNSPC_GET_X8 t2, SNSPC_SUB t2 (Tmp t1),
      SNSPC_SETFLAG_Z8 t2, SNSPC_SETFLAG_N8 t2, SNSPC_SHRI t2 8, SNSPC_XORI t2 1,
      SNSPC_SETFLAG_C t2, SNSPC_ENDOP 4]),
    \<comment> \<open>addr_imm8_CMPY_\<close> ([0x0ad], 2,
      [SNSPC_FETCH8 t1, SNSPC_GET_Y8 t2, SNSPC_SUB t2 (Tmp t1), SNSPC_SETFLAG_Z8 t2,
      SNSPC_SETFLAG_N8 t2, SNSPC_SHRI t2 8, SNSPC_XORI t2 1, SNSPC_SETFLAG_C t2, SNSPC_ENDOP 2]),
    \<comment> \<open>addr_dp_read_CMPY_\<close> ([0x07e], 3,
      [SNSPC_FETCH8 t0, SNSPC_ADD t0 r_DP, SNSPC_READ8 t0 t1, SNSPC_GET_Y8 t2,
      SNSPC_SUB t2 (Tmp t1), SNSPC_SETFLAG_Z8 t2, SNSPC_SETFLAG_N8 t2, SNSPC_SHRI t2 8,
      SNSPC_XORI t2 1, SNSPC_SETFLAG_C t2, SNSPC_ENDOP 3]),
    \<comment> \<open>addr_abs_read_CMPY_\<close> ([0x05e], 4,
      [SNSPC_FETCH16 t0, SNSPC_READ8 t0 t1, SNSPC_GET_Y8 t2, SNSPC_SUB t2 (Tmp t1),
      SNSPC_SETFLAG_Z8 t2, SNSPC_SETFLAG_N8 t2, SNSPC_SHRI t2 8, SNSPC_XORI t2 1,
      SNSPC_SETFLAG_C t2, SNSPC_ENDOP 4]),
    \<comment> \<open>addr_y_indirect_addr_x_indirect_CMP_\<close> ([0x079], 5,
      [SNSPC_GET_Y8 t0, SNSPC_ADD t0 r_DP, SNSPC_READ8 t0 t1, SNSPC_GET_X8 t0,
      SNSPC_ADD t0 r_DP, SNSPC_READ8 t0 t2, SNSPC_SUB t2 (Tmp t1), SNSPC_SETFLAG_Z8 t2,
      SNSPC_SETFLAG_N8 t2, SNSPC_SHRI t2 8, SNSPC_XORI t2 1, SNSPC_SETFLAG_C t2, SNSPC_ENDOP 5]),
    \<comment> \<open>addr_dp_addr_dp_CMP_\<close> ([0x069], 6,
      [SNSPC_FETCH8 t0, SNSPC_ADD t0 r_DP, SNSPC_READ8 t0 t1, SNSPC_FETCH8 t0,
      SNSPC_ADD t0 r_DP, SNSPC_READ8 t0 t2, SNSPC_SUB t2 (Tmp t1), SNSPC_SETFLAG_Z8 t2,
      SNSPC_SETFLAG_N8 t2, SNSPC_SHRI t2 8, SNSPC_XORI t2 1, SNSPC_SETFLAG_C t2, SNSPC_ENDOP 6]),
    \<comment> \<open>addr_imm8_addr_dp_CMP_\<close> ([0x078], 5,
      [SNSPC_FETCH8 t1, SNSPC_FETCH8 t0, SNSPC_ADD t0 r_DP, SNSPC_READ8 t0 t2,
      SNSPC_SUB t2 (Tmp t1), SNSPC_SETFLAG_Z8 t2, SNSPC_SETFLAG_N8 t2, SNSPC_SHRI t2 8,
      SNSPC_XORI t2 1, SNSPC_SETFLAG_C t2, SNSPC_ENDOP 5])]"

definition opspc700_AND_1 :: "(nat list \<times> nat \<times> spc_op list) list" where
  "opspc700_AND_1 =
   [
    \<comment> \<open>addr_imm8_AND_\<close> ([0x028], 2,
      [SNSPC_FETCH8 t1, SNSPC_GET_A8 t2, SNSPC_AND t2 t1, SNSPC_SET_A8 t2, SNSPC_SETFLAG_Z8 t2,
      SNSPC_SETFLAG_N8 t2, SNSPC_ENDOP 2]),
    \<comment> \<open>addr_x_indirect_read_AND_\<close> ([0x026], 3,
      [SNSPC_GET_X8 t0, SNSPC_ADD t0 r_DP, SNSPC_READ8 t0 t1, SNSPC_GET_A8 t2, SNSPC_AND t2 t1,
      SNSPC_SET_A8 t2, SNSPC_SETFLAG_Z8 t2, SNSPC_SETFLAG_N8 t2, SNSPC_ENDOP 3]),
    \<comment> \<open>addr_dp_read_AND_\<close> ([0x024], 3,
      [SNSPC_FETCH8 t0, SNSPC_ADD t0 r_DP, SNSPC_READ8 t0 t1, SNSPC_GET_A8 t2, SNSPC_AND t2 t1,
      SNSPC_SET_A8 t2, SNSPC_SETFLAG_Z8 t2, SNSPC_SETFLAG_N8 t2, SNSPC_ENDOP 3]),
    \<comment> \<open>addr_dp_ix_read_AND_\<close> ([0x034], 4,
      [SNSPC_FETCH8 t0, SNSPC_ADD t0 r_X, SNSPC_ANDI t0 0xFF, SNSPC_ADD t0 r_DP,
      SNSPC_READ8 t0 t1, SNSPC_GET_A8 t2, SNSPC_AND t2 t1, SNSPC_SET_A8 t2,
      SNSPC_SETFLAG_Z8 t2, SNSPC_SETFLAG_N8 t2, SNSPC_ENDOP 4]),
    \<comment> \<open>addr_abs_read_AND_\<close> ([0x025], 4,
      [SNSPC_FETCH16 t0, SNSPC_READ8 t0 t1, SNSPC_GET_A8 t2, SNSPC_AND t2 t1, SNSPC_SET_A8 t2,
      SNSPC_SETFLAG_Z8 t2, SNSPC_SETFLAG_N8 t2, SNSPC_ENDOP 4]),
    \<comment> \<open>addr_abs_ix_read_AND_\<close> ([0x035], 5,
      [SNSPC_FETCH16 t0, SNSPC_ADD t0 r_X, SNSPC_READ8 t0 t1, SNSPC_GET_A8 t2, SNSPC_AND t2 t1,
      SNSPC_SET_A8 t2, SNSPC_SETFLAG_Z8 t2, SNSPC_SETFLAG_N8 t2, SNSPC_ENDOP 5]),
    \<comment> \<open>addr_abs_iy_read_AND_\<close> ([0x036], 5,
      [SNSPC_FETCH16 t0, SNSPC_ADD t0 r_Y, SNSPC_READ8 t0 t1, SNSPC_GET_A8 t2, SNSPC_AND t2 t1,
      SNSPC_SET_A8 t2, SNSPC_SETFLAG_Z8 t2, SNSPC_SETFLAG_N8 t2, SNSPC_ENDOP 5]),
    \<comment> \<open>addr_dp_ix_indirect_read_AND_\<close> ([0x027], 6,
      [SNSPC_FETCH8 t0, SNSPC_ADD t0 r_X, SNSPC_ANDI t0 0xFF, SNSPC_ADD t0 r_DP,
      SNSPC_READ16 t0 t0, SNSPC_READ8 t0 t1, SNSPC_GET_A8 t2, SNSPC_AND t2 t1, SNSPC_SET_A8 t2,
      SNSPC_SETFLAG_Z8 t2, SNSPC_SETFLAG_N8 t2, SNSPC_ENDOP 6]),
    \<comment> \<open>addr_dp_indirect_iy_read_AND_\<close> ([0x037], 6,
      [SNSPC_FETCH8 t0, SNSPC_ADD t0 r_DP, SNSPC_READ16 t0 t0, SNSPC_ADD t0 r_Y,
      SNSPC_READ8 t0 t1, SNSPC_GET_A8 t2, SNSPC_AND t2 t1, SNSPC_SET_A8 t2,
      SNSPC_SETFLAG_Z8 t2, SNSPC_SETFLAG_N8 t2, SNSPC_ENDOP 6]),
    \<comment> \<open>addr_y_indirect_addr_x_indirect_ANDM_\<close> ([0x039], 5,
      [SNSPC_GET_Y8 t0, SNSPC_ADD t0 r_DP, SNSPC_READ8 t0 t1, SNSPC_GET_X8 t0,
      SNSPC_ADD t0 r_DP, SNSPC_READ8 t0 t2, SNSPC_AND t2 t1, SNSPC_WRITE8 t0 t2,
      SNSPC_SETFLAG_Z8 t2, SNSPC_SETFLAG_N8 t2, SNSPC_ENDOP 5]),
    \<comment> \<open>addr_dp_addr_dp_ANDM_\<close> ([0x029], 6,
      [SNSPC_FETCH8 t0, SNSPC_ADD t0 r_DP, SNSPC_READ8 t0 t1, SNSPC_FETCH8 t0,
      SNSPC_ADD t0 r_DP, SNSPC_READ8 t0 t2, SNSPC_AND t2 t1, SNSPC_WRITE8 t0 t2,
      SNSPC_SETFLAG_Z8 t2, SNSPC_SETFLAG_N8 t2, SNSPC_ENDOP 6])]"

definition opspc700_AND_2 :: "(nat list \<times> nat \<times> spc_op list) list" where
  "opspc700_AND_2 =
   [
    \<comment> \<open>addr_imm8_addr_dp_ANDM_\<close> ([0x038], 5,
      [SNSPC_FETCH8 t1, SNSPC_FETCH8 t0, SNSPC_ADD t0 r_DP, SNSPC_READ8 t0 t2, SNSPC_AND t2 t1,
      SNSPC_WRITE8 t0 t2, SNSPC_SETFLAG_Z8 t2, SNSPC_SETFLAG_N8 t2, SNSPC_ENDOP 5])]"

definition opspc700_ORA_1 :: "(nat list \<times> nat \<times> spc_op list) list" where
  "opspc700_ORA_1 =
   [
    \<comment> \<open>addr_imm8_ORA_\<close> ([0x008], 2,
      [SNSPC_FETCH8 t1, SNSPC_GET_A8 t2, SNSPC_OR t2 t1, SNSPC_SET_A8 t2, SNSPC_SETFLAG_Z8 t2,
      SNSPC_SETFLAG_N8 t2, SNSPC_ENDOP 2]),
    \<comment> \<open>addr_x_indirect_read_ORA_\<close> ([0x006], 3,
      [SNSPC_GET_X8 t0, SNSPC_ADD t0 r_DP, SNSPC_READ8 t0 t1, SNSPC_GET_A8 t2, SNSPC_OR t2 t1,
      SNSPC_SET_A8 t2, SNSPC_SETFLAG_Z8 t2, SNSPC_SETFLAG_N8 t2, SNSPC_ENDOP 3]),
    \<comment> \<open>addr_dp_read_ORA_\<close> ([0x004], 3,
      [SNSPC_FETCH8 t0, SNSPC_ADD t0 r_DP, SNSPC_READ8 t0 t1, SNSPC_GET_A8 t2, SNSPC_OR t2 t1,
      SNSPC_SET_A8 t2, SNSPC_SETFLAG_Z8 t2, SNSPC_SETFLAG_N8 t2, SNSPC_ENDOP 3]),
    \<comment> \<open>addr_dp_ix_read_ORA_\<close> ([0x014], 4,
      [SNSPC_FETCH8 t0, SNSPC_ADD t0 r_X, SNSPC_ANDI t0 0xFF, SNSPC_ADD t0 r_DP,
      SNSPC_READ8 t0 t1, SNSPC_GET_A8 t2, SNSPC_OR t2 t1, SNSPC_SET_A8 t2, SNSPC_SETFLAG_Z8 t2,
      SNSPC_SETFLAG_N8 t2, SNSPC_ENDOP 4]),
    \<comment> \<open>addr_abs_read_ORA_\<close> ([0x005], 4,
      [SNSPC_FETCH16 t0, SNSPC_READ8 t0 t1, SNSPC_GET_A8 t2, SNSPC_OR t2 t1, SNSPC_SET_A8 t2,
      SNSPC_SETFLAG_Z8 t2, SNSPC_SETFLAG_N8 t2, SNSPC_ENDOP 4]),
    \<comment> \<open>addr_abs_ix_read_ORA_\<close> ([0x015], 5,
      [SNSPC_FETCH16 t0, SNSPC_ADD t0 r_X, SNSPC_READ8 t0 t1, SNSPC_GET_A8 t2, SNSPC_OR t2 t1,
      SNSPC_SET_A8 t2, SNSPC_SETFLAG_Z8 t2, SNSPC_SETFLAG_N8 t2, SNSPC_ENDOP 5]),
    \<comment> \<open>addr_abs_iy_read_ORA_\<close> ([0x016], 5,
      [SNSPC_FETCH16 t0, SNSPC_ADD t0 r_Y, SNSPC_READ8 t0 t1, SNSPC_GET_A8 t2, SNSPC_OR t2 t1,
      SNSPC_SET_A8 t2, SNSPC_SETFLAG_Z8 t2, SNSPC_SETFLAG_N8 t2, SNSPC_ENDOP 5]),
    \<comment> \<open>addr_dp_ix_indirect_read_ORA_\<close> ([0x007], 6,
      [SNSPC_FETCH8 t0, SNSPC_ADD t0 r_X, SNSPC_ANDI t0 0xFF, SNSPC_ADD t0 r_DP,
      SNSPC_READ16 t0 t0, SNSPC_READ8 t0 t1, SNSPC_GET_A8 t2, SNSPC_OR t2 t1, SNSPC_SET_A8 t2,
      SNSPC_SETFLAG_Z8 t2, SNSPC_SETFLAG_N8 t2, SNSPC_ENDOP 6]),
    \<comment> \<open>addr_dp_indirect_iy_read_ORA_\<close> ([0x017], 6,
      [SNSPC_FETCH8 t0, SNSPC_ADD t0 r_DP, SNSPC_READ16 t0 t0, SNSPC_ADD t0 r_Y,
      SNSPC_READ8 t0 t1, SNSPC_GET_A8 t2, SNSPC_OR t2 t1, SNSPC_SET_A8 t2, SNSPC_SETFLAG_Z8 t2,
      SNSPC_SETFLAG_N8 t2, SNSPC_ENDOP 6]),
    \<comment> \<open>addr_y_indirect_addr_x_indirect_ORM_\<close> ([0x019], 5,
      [SNSPC_GET_Y8 t0, SNSPC_ADD t0 r_DP, SNSPC_READ8 t0 t1, SNSPC_GET_X8 t0,
      SNSPC_ADD t0 r_DP, SNSPC_READ8 t0 t2, SNSPC_OR t2 t1, SNSPC_WRITE8 t0 t2,
      SNSPC_SETFLAG_Z8 t2, SNSPC_SETFLAG_N8 t2, SNSPC_ENDOP 5]),
    \<comment> \<open>addr_dp_addr_dp_ORM_\<close> ([0x009], 6,
      [SNSPC_FETCH8 t0, SNSPC_ADD t0 r_DP, SNSPC_READ8 t0 t1, SNSPC_FETCH8 t0,
      SNSPC_ADD t0 r_DP, SNSPC_READ8 t0 t2, SNSPC_OR t2 t1, SNSPC_WRITE8 t0 t2,
      SNSPC_SETFLAG_Z8 t2, SNSPC_SETFLAG_N8 t2, SNSPC_ENDOP 6])]"

definition opspc700_ORA_2 :: "(nat list \<times> nat \<times> spc_op list) list" where
  "opspc700_ORA_2 =
   [
    \<comment> \<open>addr_imm8_addr_dp_ORM_\<close> ([0x018], 5,
      [SNSPC_FETCH8 t1, SNSPC_FETCH8 t0, SNSPC_ADD t0 r_DP, SNSPC_READ8 t0 t2, SNSPC_OR t2 t1,
      SNSPC_WRITE8 t0 t2, SNSPC_SETFLAG_Z8 t2, SNSPC_SETFLAG_N8 t2, SNSPC_ENDOP 5])]"

definition opspc700_EOR_1 :: "(nat list \<times> nat \<times> spc_op list) list" where
  "opspc700_EOR_1 =
   [
    \<comment> \<open>addr_imm8_EOR_\<close> ([0x048], 2,
      [SNSPC_FETCH8 t1, SNSPC_GET_A8 t2, SNSPC_XOR t2 t1, SNSPC_SET_A8 t2, SNSPC_SETFLAG_Z8 t2,
      SNSPC_SETFLAG_N8 t2, SNSPC_ENDOP 2]),
    \<comment> \<open>addr_x_indirect_read_EOR_\<close> ([0x046], 3,
      [SNSPC_GET_X8 t0, SNSPC_ADD t0 r_DP, SNSPC_READ8 t0 t1, SNSPC_GET_A8 t2, SNSPC_XOR t2 t1,
      SNSPC_SET_A8 t2, SNSPC_SETFLAG_Z8 t2, SNSPC_SETFLAG_N8 t2, SNSPC_ENDOP 3]),
    \<comment> \<open>addr_dp_read_EOR_\<close> ([0x044], 3,
      [SNSPC_FETCH8 t0, SNSPC_ADD t0 r_DP, SNSPC_READ8 t0 t1, SNSPC_GET_A8 t2, SNSPC_XOR t2 t1,
      SNSPC_SET_A8 t2, SNSPC_SETFLAG_Z8 t2, SNSPC_SETFLAG_N8 t2, SNSPC_ENDOP 3]),
    \<comment> \<open>addr_dp_ix_read_EOR_\<close> ([0x054], 4,
      [SNSPC_FETCH8 t0, SNSPC_ADD t0 r_X, SNSPC_ANDI t0 0xFF, SNSPC_ADD t0 r_DP,
      SNSPC_READ8 t0 t1, SNSPC_GET_A8 t2, SNSPC_XOR t2 t1, SNSPC_SET_A8 t2,
      SNSPC_SETFLAG_Z8 t2, SNSPC_SETFLAG_N8 t2, SNSPC_ENDOP 4]),
    \<comment> \<open>addr_abs_read_EOR_\<close> ([0x045], 4,
      [SNSPC_FETCH16 t0, SNSPC_READ8 t0 t1, SNSPC_GET_A8 t2, SNSPC_XOR t2 t1, SNSPC_SET_A8 t2,
      SNSPC_SETFLAG_Z8 t2, SNSPC_SETFLAG_N8 t2, SNSPC_ENDOP 4]),
    \<comment> \<open>addr_abs_ix_read_EOR_\<close> ([0x055], 5,
      [SNSPC_FETCH16 t0, SNSPC_ADD t0 r_X, SNSPC_READ8 t0 t1, SNSPC_GET_A8 t2, SNSPC_XOR t2 t1,
      SNSPC_SET_A8 t2, SNSPC_SETFLAG_Z8 t2, SNSPC_SETFLAG_N8 t2, SNSPC_ENDOP 5]),
    \<comment> \<open>addr_abs_iy_read_EOR_\<close> ([0x056], 5,
      [SNSPC_FETCH16 t0, SNSPC_ADD t0 r_Y, SNSPC_READ8 t0 t1, SNSPC_GET_A8 t2, SNSPC_XOR t2 t1,
      SNSPC_SET_A8 t2, SNSPC_SETFLAG_Z8 t2, SNSPC_SETFLAG_N8 t2, SNSPC_ENDOP 5]),
    \<comment> \<open>addr_dp_ix_indirect_read_EOR_\<close> ([0x047], 6,
      [SNSPC_FETCH8 t0, SNSPC_ADD t0 r_X, SNSPC_ANDI t0 0xFF, SNSPC_ADD t0 r_DP,
      SNSPC_READ16 t0 t0, SNSPC_READ8 t0 t1, SNSPC_GET_A8 t2, SNSPC_XOR t2 t1, SNSPC_SET_A8 t2,
      SNSPC_SETFLAG_Z8 t2, SNSPC_SETFLAG_N8 t2, SNSPC_ENDOP 6]),
    \<comment> \<open>addr_dp_indirect_iy_read_EOR_\<close> ([0x057], 6,
      [SNSPC_FETCH8 t0, SNSPC_ADD t0 r_DP, SNSPC_READ16 t0 t0, SNSPC_ADD t0 r_Y,
      SNSPC_READ8 t0 t1, SNSPC_GET_A8 t2, SNSPC_XOR t2 t1, SNSPC_SET_A8 t2,
      SNSPC_SETFLAG_Z8 t2, SNSPC_SETFLAG_N8 t2, SNSPC_ENDOP 6]),
    \<comment> \<open>addr_y_indirect_addr_x_indirect_EORM_\<close> ([0x059], 5,
      [SNSPC_GET_Y8 t0, SNSPC_ADD t0 r_DP, SNSPC_READ8 t0 t1, SNSPC_GET_X8 t0,
      SNSPC_ADD t0 r_DP, SNSPC_READ8 t0 t2, SNSPC_XOR t2 t1, SNSPC_WRITE8 t0 t2,
      SNSPC_SETFLAG_Z8 t2, SNSPC_SETFLAG_N8 t2, SNSPC_ENDOP 5]),
    \<comment> \<open>addr_dp_addr_dp_EORM_\<close> ([0x049], 6,
      [SNSPC_FETCH8 t0, SNSPC_ADD t0 r_DP, SNSPC_READ8 t0 t1, SNSPC_FETCH8 t0,
      SNSPC_ADD t0 r_DP, SNSPC_READ8 t0 t2, SNSPC_XOR t2 t1, SNSPC_WRITE8 t0 t2,
      SNSPC_SETFLAG_Z8 t2, SNSPC_SETFLAG_N8 t2, SNSPC_ENDOP 6])]"

definition opspc700_EOR_2 :: "(nat list \<times> nat \<times> spc_op list) list" where
  "opspc700_EOR_2 =
   [
    \<comment> \<open>addr_imm8_addr_dp_EORM_\<close> ([0x058], 5,
      [SNSPC_FETCH8 t1, SNSPC_FETCH8 t0, SNSPC_ADD t0 r_DP, SNSPC_READ8 t0 t2, SNSPC_XOR t2 t1,
      SNSPC_WRITE8 t0 t2, SNSPC_SETFLAG_Z8 t2, SNSPC_SETFLAG_N8 t2, SNSPC_ENDOP 5])]"

definition opspc700_incdec :: "(nat list \<times> nat \<times> spc_op list) list" where
  "opspc700_incdec =
   [
    \<comment> \<open>DECA_\<close> ([0x09c], 2,
      [SNSPC_GET_A8 t1, SNSPC_SUBI t1 1, SNSPC_SET_A8 t1, SNSPC_SETFLAG_Z8 t1,
      SNSPC_SETFLAG_N8 t1, SNSPC_ENDOP 2]),
    \<comment> \<open>DECX_\<close> ([0x01d], 2,
      [SNSPC_GET_X8 t1, SNSPC_SUBI t1 1, SNSPC_SET_X8 t1, SNSPC_SETFLAG_Z8 t1,
      SNSPC_SETFLAG_N8 t1, SNSPC_ENDOP 2]),
    \<comment> \<open>DECY_\<close> ([0x0dc], 2,
      [SNSPC_GET_Y8 t1, SNSPC_SUBI t1 1, SNSPC_SET_Y8 t1, SNSPC_SETFLAG_Z8 t1,
      SNSPC_SETFLAG_N8 t1, SNSPC_ENDOP 2]),
    \<comment> \<open>INCA_\<close> ([0x0bc], 2,
      [SNSPC_GET_A8 t1, SNSPC_ADDI t1 1, SNSPC_SET_A8 t1, SNSPC_SETFLAG_Z8 t1,
      SNSPC_SETFLAG_N8 t1, SNSPC_ENDOP 2]),
    \<comment> \<open>INCX_\<close> ([0x03d], 2,
      [SNSPC_GET_X8 t1, SNSPC_ADDI t1 1, SNSPC_SET_X8 t1, SNSPC_SETFLAG_Z8 t1,
      SNSPC_SETFLAG_N8 t1, SNSPC_ENDOP 2]),
    \<comment> \<open>INCY_\<close> ([0x0fc], 2,
      [SNSPC_GET_Y8 t1, SNSPC_ADDI t1 1, SNSPC_SET_Y8 t1, SNSPC_SETFLAG_Z8 t1,
      SNSPC_SETFLAG_N8 t1, SNSPC_ENDOP 2]),
    \<comment> \<open>addr_dp_read_INC_\<close> ([0x0ab], 4,
      [SNSPC_FETCH8 t0, SNSPC_ADD t0 r_DP, SNSPC_READ8 t0 t1, SNSPC_ADDI t1 1,
      SNSPC_WRITE8 t0 t1, SNSPC_SETFLAG_Z8 t1, SNSPC_SETFLAG_N8 t1, SNSPC_ENDOP 4]),
    \<comment> \<open>addr_dp_ix_read_INC_\<close> ([0x0bb], 5,
      [SNSPC_FETCH8 t0, SNSPC_ADD t0 r_X, SNSPC_ANDI t0 0xFF, SNSPC_ADD t0 r_DP,
      SNSPC_READ8 t0 t1, SNSPC_ADDI t1 1, SNSPC_WRITE8 t0 t1, SNSPC_SETFLAG_Z8 t1,
      SNSPC_SETFLAG_N8 t1, SNSPC_ENDOP 5]),
    \<comment> \<open>addr_abs_read_INC_\<close> ([0x0ac], 5,
      [SNSPC_FETCH16 t0, SNSPC_READ8 t0 t1, SNSPC_ADDI t1 1, SNSPC_WRITE8 t0 t1,
      SNSPC_SETFLAG_Z8 t1, SNSPC_SETFLAG_N8 t1, SNSPC_ENDOP 5]),
    \<comment> \<open>addr_dp_read_DEC_\<close> ([0x08b], 4,
      [SNSPC_FETCH8 t0, SNSPC_ADD t0 r_DP, SNSPC_READ8 t0 t1, SNSPC_SUBI t1 1,
      SNSPC_WRITE8 t0 t1, SNSPC_SETFLAG_Z8 t1, SNSPC_SETFLAG_N8 t1, SNSPC_ENDOP 4]),
    \<comment> \<open>addr_dp_ix_read_DEC_\<close> ([0x09b], 5,
      [SNSPC_FETCH8 t0, SNSPC_ADD t0 r_X, SNSPC_ANDI t0 0xFF, SNSPC_ADD t0 r_DP,
      SNSPC_READ8 t0 t1, SNSPC_SUBI t1 1, SNSPC_WRITE8 t0 t1, SNSPC_SETFLAG_Z8 t1,
      SNSPC_SETFLAG_N8 t1, SNSPC_ENDOP 5]),
    \<comment> \<open>addr_abs_read_DEC_\<close> ([0x08c], 5,
      [SNSPC_FETCH16 t0, SNSPC_READ8 t0 t1, SNSPC_SUBI t1 1, SNSPC_WRITE8 t0 t1,
      SNSPC_SETFLAG_Z8 t1, SNSPC_SETFLAG_N8 t1, SNSPC_ENDOP 5])]"

definition opspc700_words :: "(nat list \<times> nat \<times> spc_op list) list" where
  "opspc700_words =
   [
    \<comment> \<open>addr_dp_read16_LDYA_\<close> ([0x0ba], 5,
      [SNSPC_FETCH8 t0, SNSPC_ADD t0 r_DP, SNSPC_READ16 t0 t1, SNSPC_SET_YA16 t1,
      SNSPC_SETFLAG_Z16 t1, SNSPC_SETFLAG_N16 t1, SNSPC_ENDOP 5]),
    \<comment> \<open>addr_dp_STYA_\<close> ([0x0da], 5,
      [SNSPC_FETCH8 t0, SNSPC_ADD t0 r_DP, SNSPC_GET_YA16 t1, SNSPC_WRITE16 t0 t1, SNSPC_ENDOP 5]),
    \<comment> \<open>addr_dp_read16_INC_\<close> ([0x03a], 6,
      [SNSPC_FETCH8 t0, SNSPC_ADD t0 r_DP, SNSPC_READ16 t0 t1, SNSPC_ADDI t1 1,
      SNSPC_WRITE16 t0 t1, SNSPC_SETFLAG_Z16 t1, SNSPC_SETFLAG_N16 t1, SNSPC_ENDOP 6]),
    \<comment> \<open>addr_dp_read16_DEC_\<close> ([0x01a], 6,
      [SNSPC_FETCH8 t0, SNSPC_ADD t0 r_DP, SNSPC_READ16 t0 t1, SNSPC_SUBI t1 1,
      SNSPC_WRITE16 t0 t1, SNSPC_SETFLAG_Z16 t1, SNSPC_SETFLAG_N16 t1, SNSPC_ENDOP 6]),
    \<comment> \<open>addr_dp_read16_ADC16_\<close> ([0x07a], 5,
      [SNSPC_FETCH8 t0, SNSPC_ADD t0 r_DP, SNSPC_READ16 t0 t1, SNSPC_GET_YA16 t2,
      SNSPC_ADC16 t2 t1, SNSPC_SET_YA16 t2, SNSPC_SETFLAG_Z16 t2, SNSPC_SETFLAG_N16 t2,
      SNSPC_SHRI t2 16, SNSPC_SETFLAG_C t2, SNSPC_ENDOP 5]),
    \<comment> \<open>addr_dp_read16_SBC16_\<close> ([0x09a], 5,
      [SNSPC_FETCH8 t0, SNSPC_ADD t0 r_DP, SNSPC_READ16 t0 t1, SNSPC_NOT16 t1, SNSPC_ADDI t1 1,
      SNSPC_GET_YA16 t2, SNSPC_ADC16 t2 t1, SNSPC_SET_YA16 t2, SNSPC_SETFLAG_Z16 t2,
      SNSPC_SETFLAG_N16 t2, SNSPC_SHRI t2 16, SNSPC_SETFLAG_C t2, SNSPC_ENDOP 5]),
    \<comment> \<open>addr_dp_read16_CMP16_\<close> ([0x05a], 4,
      [SNSPC_FETCH8 t0, SNSPC_ADD t0 r_DP, SNSPC_READ16 t0 t1, SNSPC_GET_YA16 t2,
      SNSPC_SUB t2 (Tmp t1), SNSPC_SETFLAG_Z16 t2, SNSPC_SETFLAG_N16 t2, SNSPC_SHRI t2 16,
      SNSPC_XORI t2 1, SNSPC_SETFLAG_C t2, SNSPC_ENDOP 4]),
    \<comment> \<open>MUL_\<close> ([0x0cf], 9,
      [SNSPC_GET_Y8 t0, SNSPC_GET_A8 t1, SNSPC_MUL t1 t0, SNSPC_SET_YA16 t1,
      SNSPC_SETFLAG_Z16 t1, SNSPC_SETFLAG_N16 t1, SNSPC_ENDOP 9])]"

definition opspc700_jumps :: "(nat list \<times> nat \<times> spc_op list) list" where
  "opspc700_jumps =
   [
    \<comment> \<open>addr_abs_CALL_\<close> ([0x03f], 8,
      [SNSPC_FETCH16 t0, SNSPC_GET_PC t2, SNSPC_PUSH16 t2, SNSPC_SET_PC16 t0, SNSPC_ENDOP 8]),
    \<comment> \<open>RTS_\<close> ([0x06f], 5,
      [SNSPC_POP16 t0, SNSPC_SET_PC16 t0, SNSPC_ENDOP 5]),
    \<comment> \<open>addr_abs_JMP_\<close> ([0x05f], 3,
      [SNSPC_FETCH16 t0, SNSPC_SET_PC16 t0, SNSPC_ENDOP 3]),
    \<comment> \<open>addr_abs_ix_indirect_JMP_\<close> ([0x01f], 6,
      [SNSPC_FETCH16 t0, SNSPC_ADD t0 r_X, SNSPC_READ16 t0 t0, SNSPC_ANDI t0 0xFFFF,
      SNSPC_SET_PC16 t0, SNSPC_ENDOP 6])]"

definition opspc700_set_clear_1 :: "(nat list \<times> nat \<times> spc_op list) list" where
  "opspc700_set_clear_1 =
   [
    \<comment> \<open>addr_dp_SET1_\<close> ([0x002], 4,
      [SNSPC_FETCH8 t0, SNSPC_ADD t0 r_DP, SNSPC_READ8 t0 t1, SNSPC_ORI t1 0x01,
      SNSPC_WRITE8 t0 t1, SNSPC_ENDOP 4]),
    \<comment> \<open>addr_dp_SET1_\<close> ([0x022], 4,
      [SNSPC_FETCH8 t0, SNSPC_ADD t0 r_DP, SNSPC_READ8 t0 t1, SNSPC_ORI t1 0x02,
      SNSPC_WRITE8 t0 t1, SNSPC_ENDOP 4]),
    \<comment> \<open>addr_dp_SET1_\<close> ([0x042], 4,
      [SNSPC_FETCH8 t0, SNSPC_ADD t0 r_DP, SNSPC_READ8 t0 t1, SNSPC_ORI t1 0x04,
      SNSPC_WRITE8 t0 t1, SNSPC_ENDOP 4]),
    \<comment> \<open>addr_dp_SET1_\<close> ([0x062], 4,
      [SNSPC_FETCH8 t0, SNSPC_ADD t0 r_DP, SNSPC_READ8 t0 t1, SNSPC_ORI t1 0x08,
      SNSPC_WRITE8 t0 t1, SNSPC_ENDOP 4]),
    \<comment> \<open>addr_dp_SET1_\<close> ([0x082], 4,
      [SNSPC_FETCH8 t0, SNSPC_ADD t0 r_DP, SNSPC_READ8 t0 t1, SNSPC_ORI t1 0x10,
      SNSPC_WRITE8 t0 t1, SNSPC_ENDOP 4]),
    \<comment> \<open>addr_dp_SET1_\<close> ([0x0a2], 4,
      [SNSPC_FETCH8 t0, SNSPC_ADD t0 r_DP, SNSPC_READ8 t0 t1, SNSPC_ORI t1 0x20,
      SNSPC_WRITE8 t0 t1, SNSPC_ENDOP 4]),
    \<comment> \<open>addr_dp_SET1_\<close> ([0x0c2], 4,
      [SNSPC_FETCH8 t0, SNSPC_ADD t0 r_DP, SNSPC_READ8 t0 t1, SNSPC_ORI t1 0x40,
      SNSPC_WRITE8 t0 t1, SNSPC_ENDOP 4]),
    \<comment> \<open>addr_dp_SET1_\<close> ([0x0e2], 4,
      [SNSPC_FETCH8 t0, SNSPC_ADD t0 r_DP, SNSPC_READ8 t0 t1, SNSPC_ORI t1 0x80,
      SNSPC_WRITE8 t0 t1, SNSPC_ENDOP 4]),
    \<comment> \<open>addr_dp_CLR1_\<close> ([0x012], 4,
      [SNSPC_FETCH8 t0, SNSPC_ADD t0 r_DP, SNSPC_READ8 t0 t1, SNSPC_ORI t1 0x01,
      SNSPC_XORI t1 0x01, SNSPC_WRITE8 t0 t1, SNSPC_ENDOP 4]),
    \<comment> \<open>addr_dp_CLR1_\<close> ([0x032], 4,
      [SNSPC_FETCH8 t0, SNSPC_ADD t0 r_DP, SNSPC_READ8 t0 t1, SNSPC_ORI t1 0x02,
      SNSPC_XORI t1 0x02, SNSPC_WRITE8 t0 t1, SNSPC_ENDOP 4]),
    \<comment> \<open>addr_dp_CLR1_\<close> ([0x052], 4,
      [SNSPC_FETCH8 t0, SNSPC_ADD t0 r_DP, SNSPC_READ8 t0 t1, SNSPC_ORI t1 0x04,
      SNSPC_XORI t1 0x04, SNSPC_WRITE8 t0 t1, SNSPC_ENDOP 4]),
    \<comment> \<open>addr_dp_CLR1_\<close> ([0x072], 4,
      [SNSPC_FETCH8 t0, SNSPC_ADD t0 r_DP, SNSPC_READ8 t0 t1, SNSPC_ORI t1 0x08,
      SNSPC_XORI t1 0x08, SNSPC_WRITE8 t0 t1, SNSPC_ENDOP 4]),
    \<comment> \<open>addr_dp_CLR1_\<close> ([0x092], 4,
      [SNSPC_FETCH8 t0, SNSPC_ADD t0 r_DP, SNSPC_READ8 t0 t1, SNSPC_ORI t1 0x10,
      SNSPC_XORI t1 0x10, SNSPC_WRITE8 t0 t1, SNSPC_ENDOP 4]),
    \<comment> \<open>addr_dp_CLR1_\<close> ([0x0b2], 4,
      [SNSPC_FETCH8 t0, SNSPC_ADD t0 r_DP, SNSPC_READ8 t0 t1, SNSPC_ORI t1 0x20,
      SNSPC_XORI t1 0x20, SNSPC_WRITE8 t0 t1, SNSPC_ENDOP 4]),
    \<comment> \<open>addr_dp_CLR1_\<close> ([0x0d2], 4,
      [SNSPC_FETCH8 t0, SNSPC_ADD t0 r_DP, SNSPC_READ8 t0 t1, SNSPC_ORI t1 0x40,
      SNSPC_XORI t1 0x40, SNSPC_WRITE8 t0 t1, SNSPC_ENDOP 4])]"

definition opspc700_set_clear_2 :: "(nat list \<times> nat \<times> spc_op list) list" where
  "opspc700_set_clear_2 =
   [
    \<comment> \<open>addr_dp_CLR1_\<close> ([0x0f2], 4,
      [SNSPC_FETCH8 t0, SNSPC_ADD t0 r_DP, SNSPC_READ8 t0 t1, SNSPC_ORI t1 0x80,
      SNSPC_XORI t1 0x80, SNSPC_WRITE8 t0 t1, SNSPC_ENDOP 4])]"

definition opspc700_bits :: "(nat list \<times> nat \<times> spc_op list) list" where
  "opspc700_bits =
   [
    \<comment> \<open>TSET1_addr_abs_\<close> ([0x00e], 6,
      [SNSPC_FETCH16 t0, SNSPC_READ8 t0 t1, SNSPC_GET_A8 t2, SNSPC_AND t2 t1,
      SNSPC_SETFLAG_Z8 t2, SNSPC_SETFLAG_N8 t2, SNSPC_GET_A8 t2, SNSPC_OR t1 t2,
      SNSPC_WRITE8 t0 t1, SNSPC_ENDOP 6]),
    \<comment> \<open>TCLR1_addr_abs_\<close> ([0x04e], 6,
      [SNSPC_FETCH16 t0, SNSPC_READ8 t0 t1, SNSPC_GET_A8 t2, SNSPC_AND t2 t1,
      SNSPC_SETFLAG_Z8 t2, SNSPC_SETFLAG_N8 t2, SNSPC_GET_A8 t2, SNSPC_OR t1 t2,
      SNSPC_XOR t1 t2, SNSPC_WRITE8 t0 t1, SNSPC_ENDOP 6]),
    \<comment> \<open>PCALL_\<close> ([0x04f], 6,
      [SNSPC_FETCH8 t0, SNSPC_ADDI t0 0xFF00, SNSPC_GET_PC t1, SNSPC_PUSH16 t1,
      SNSPC_SET_PC16 t0, SNSPC_ENDOP 6]),
    \<comment> \<open>MOV1_addr_abs_\<close> ([0x0aa], 4,
      [SNSPC_FETCH16 t0, SNSPC_MOVE t2 t0, SNSPC_ANDI t0 0x1FFF, SNSPC_SHRI t2 13,
      SNSPC_READ8 t0 t1, SNSPC_SHR t1 t2, SNSPC_ANDI t1 1, SNSPC_SETFLAG_C t1, SNSPC_ENDOP 4]),
    \<comment> \<open>EOR1_addr_abs_\<close> ([0x08a], 5,
      [SNSPC_FETCH16 t0, SNSPC_MOVE t2 t0, SNSPC_ANDI t0 0x1FFF, SNSPC_SHRI t2 13,
      SNSPC_READ8 t0 t1, SNSPC_SHR t1 t2, SNSPC_ANDI t1 1, SNSPC_GETFLAG_C t2, SNSPC_XOR t2 t1,
      SNSPC_SETFLAG_C t2, SNSPC_ENDOP 5]),
    \<comment> \<open>NOT1_addr_abs_\<close> ([0x0ea], 5,
      [SNSPC_FETCH16 t0, SNSPC_MOVE t1 t0, SNSPC_GETI t2 1, SNSPC_ANDI t0 0x1FFF,
      SNSPC_SHRI t1 13, SNSPC_SHL t2 t1, SNSPC_READ8 t0 t1, SNSPC_XOR t1 t2,
      SNSPC_WRITE8 t0 t1, SNSPC_ENDOP 5])]"

lemmas opspc700_defs =
  opspc700_flags_stack_def
  opspc700_shifts_1_def
  opspc700_shifts_2_def
  opspc700_LDA_def
  opspc700_LDX_LDY_def
  opspc700_stores_def
  opspc700_moves_def
  opspc700_ADC_1_def
  opspc700_ADC_2_def
  opspc700_SBC_1_def
  opspc700_SBC_2_def
  opspc700_CMP_1_def
  opspc700_CMP_2_def
  opspc700_AND_1_def
  opspc700_AND_2_def
  opspc700_ORA_1_def
  opspc700_ORA_2_def
  opspc700_EOR_1_def
  opspc700_EOR_2_def
  opspc700_incdec_def
  opspc700_words_def
  opspc700_jumps_def
  opspc700_set_clear_1_def
  opspc700_set_clear_2_def
  opspc700_bits_def

definition opspc700 :: "(nat list \<times> nat \<times> spc_op list) list" where
  "opspc700 =
     opspc700_flags_stack @
     opspc700_shifts_1 @
     opspc700_shifts_2 @
     opspc700_LDA @
     opspc700_LDX_LDY @
     opspc700_stores @
     opspc700_moves @
     opspc700_ADC_1 @
     opspc700_ADC_2 @
     opspc700_SBC_1 @
     opspc700_SBC_2 @
     opspc700_CMP_1 @
     opspc700_CMP_2 @
     opspc700_AND_1 @
     opspc700_AND_2 @
     opspc700_ORA_1 @
     opspc700_ORA_2 @
     opspc700_EOR_1 @
     opspc700_EOR_2 @
     opspc700_incdec @
     opspc700_words @
     opspc700_jumps @
     opspc700_set_clear_1 @
     opspc700_set_clear_2 @
     opspc700_bits"

end
