(* ===== verification/Sn_Spc_Exec.thy ===== *)
theory Sn_Spc_Exec
  imports Op_Spc700
begin

text \<open>
  The interpreter of the SPC700, \<^verbatim>\<open>SNSPCExecute_C\<close>: the cases written out in
  \<^verbatim>\<open>snspc_c.c\<close>, the switch, and the loop, which ends by \<^verbatim>\<open>goto done\<close> as soon as the
  next instruction needs more cycles than are left.
\<close>

section \<open>The handlers of snspc_c.c\<close>

definition SNSPC_BBC :: "nat \<Rightarrow> spc_op list" where
  "SNSPC_BBC Bit =
    [SNSPC_FETCH8 t0, SNSPC_ADD t0 r_DP, SNSPC_READ8 t0 t1, SNSPC_ANDI t1 (push_bit Bit 1),
     SNSPC_BRREL T1_z, SNSPC_SUBCYCLES 5]"

definition SNSPC_BBS :: "nat \<Rightarrow> spc_op list" where
  "SNSPC_BBS Bit =
    [SNSPC_FETCH8 t0, SNSPC_ADD t0 r_DP, SNSPC_READ8 t0 t1, SNSPC_ANDI t1 (push_bit Bit 1),
     SNSPC_BRREL T1_nz, SNSPC_SUBCYCLES 5]"

definition SNSPC_TCALL :: "nat \<Rightarrow> spc_op list" where
  "SNSPC_TCALL n =
    [READ16 (Imm (0xFFC0 + (15 - of_nat n) * 2)) t0, SNSPC_GET_PC t2, SNSPC_PUSH16 t2, SNSPC_SET_PC16 t0]"

lemmas spc_macro_defs = SNSPC_BBC_def SNSPC_BBS_def SNSPC_TCALL_def SNSPC_VECTOR_BRK_def

definition spc_branches :: "(nat list \<times> nat \<times> spc_op list) list" where
  "spc_branches =
    [([0x10], 2, [SNSPC_BRREL NotN, SNSPC_ENDOP 2]),
     ([0x30], 2, [SNSPC_BRREL IsN, SNSPC_ENDOP 2]),
     ([0xF0], 2, [SNSPC_BRREL IsZ, SNSPC_ENDOP 2]),
     ([0xD0], 2, [SNSPC_BRREL NotZ, SNSPC_ENDOP 2]),
     ([0x90], 2, [SNSPC_BRREL NoC, SNSPC_ENDOP 2]),
     ([0xB0], 2, [SNSPC_BRREL IsC, SNSPC_ENDOP 2]),
     ([0x50], 2, [SNSPC_BRREL NoV, SNSPC_ENDOP 2]),
     ([0x70], 2, [SNSPC_BRREL IsV, SNSPC_ENDOP 2]),
     ([0x2F], 4, [SNSPC_BRA, SNSPC_ENDOP 4]),
     ([0x2E], 5, [SNSPC_FETCH8 t0, SNSPC_ADD t0 r_DP, SNSPC_READ8 t0 t1, SNSPC_GET_A8 t2, SNSPC_BRREL T12_ne,
                  SNSPC_ENDOP 5]),
     ([0xDE], 6, [SNSPC_FETCH8 t0, SNSPC_ADD t0 r_X, SNSPC_ANDI t0 0xFF, SNSPC_ADD t0 r_DP, SNSPC_READ8 t0 t1,
                  SNSPC_GET_A8 t2, SNSPC_BRREL T12_ne, SNSPC_ENDOP 6]),
     ([0x6E], 5, [SNSPC_FETCH8 t0, SNSPC_ADD t0 r_DP, SNSPC_READ8 t0 t1, SNSPC_SUBI t1 1, SNSPC_WRITE8 t0 t1,
                  SNSPC_BRREL T1_nz, SNSPC_ENDOP 5]),
     ([0xFE], 4, [SNSPC_GET_Y8 t1, SNSPC_SUBI t1 1, SNSPC_SET_Y8 t1, SNSPC_BRREL T1_nz, SNSPC_ENDOP 4])]"

definition spc_bit_branches :: "(nat list \<times> nat \<times> spc_op list) list" where
  "spc_bit_branches =
    [([0x03], 5, SNSPC_BBS 0), ([0x23], 5, SNSPC_BBS 1), ([0x43], 5, SNSPC_BBS 2), ([0x63], 5, SNSPC_BBS 3),
     ([0x83], 5, SNSPC_BBS 4), ([0xA3], 5, SNSPC_BBS 5), ([0xC3], 5, SNSPC_BBS 6), ([0xE3], 5, SNSPC_BBS 7),
     ([0x13], 5, SNSPC_BBC 0), ([0x33], 5, SNSPC_BBC 1), ([0x53], 5, SNSPC_BBC 2), ([0x73], 5, SNSPC_BBC 3),
     ([0x93], 5, SNSPC_BBC 4), ([0xB3], 5, SNSPC_BBC 5), ([0xD3], 5, SNSPC_BBC 6), ([0xF3], 5, SNSPC_BBC 7)]"

definition spc_misc :: "(nat list \<times> nat \<times> spc_op list) list" where
  "spc_misc =
    [([0x9E], 12, [SNSPC_GET_YA16 t0, SNSPC_GET_X8 t1, SNSPC_CLRFLAG_V, DIV_block, SNSPC_SET_A8 t2, SNSPC_SET_Y8 t1,
                   SNSPC_SETFLAG_N8 t2, SNSPC_SETFLAG_Z8 t2, SNSPC_ENDOP 12]),
     ([0xEF], 3, [SNSPC_SUBCYCLES 3]),
     ([0xFF], 3, [STOP_block, SNSPC_SUBCYCLES 3]),
     ([0xCA], 5, [SNSPC_FETCH16 t0, SNSPC_MOVE t1 t0, SNSPC_GETI t2 1, SNSPC_ANDI t0 0x1FFF, SNSPC_SHRI t1 13,
                  SNSPC_SHL t2 t1, SNSPC_READ8 t0 t1, MOV1_block, SNSPC_WRITE8 t0 t1, SNSPC_ENDOP 5]),
     ([0x0F], 8, [SNSPC_SETFLAG_I, SNSPC_SETFLAG_B, SNSPC_GET_PC t0, SNSPC_PUSH16 t0, SNSPC_GET_PSW8 t1, SNSPC_PUSH8 t1,
                  READ16 (Imm SNSPC_VECTOR_BRK) t0, SNSPC_SET_PC16 t0, SNSPC_ENDOP 8])]"

definition spc_tcalls :: "(nat list \<times> nat \<times> spc_op list) list" where
  "spc_tcalls =
    [([0x01], 8, SNSPC_TCALL 0 @ [SNSPC_ENDOP 8]), ([0x11], 8, SNSPC_TCALL 1 @ [SNSPC_ENDOP 8]),
     ([0x21], 8, SNSPC_TCALL 2 @ [SNSPC_ENDOP 8]), ([0x31], 8, SNSPC_TCALL 3 @ [SNSPC_ENDOP 8]),
     ([0x41], 8, SNSPC_TCALL 4 @ [SNSPC_ENDOP 8]), ([0x51], 8, SNSPC_TCALL 5 @ [SNSPC_ENDOP 8]),
     ([0x61], 8, SNSPC_TCALL 6 @ [SNSPC_ENDOP 8]), ([0x71], 8, SNSPC_TCALL 7 @ [SNSPC_ENDOP 8]),
     ([0x81], 8, SNSPC_TCALL 8 @ [SNSPC_ENDOP 8]), ([0x91], 8, SNSPC_TCALL 9 @ [SNSPC_ENDOP 8]),
     ([0xA1], 8, SNSPC_TCALL 10 @ [SNSPC_ENDOP 8]), ([0xB1], 8, SNSPC_TCALL 11 @ [SNSPC_ENDOP 8]),
     ([0xC1], 8, SNSPC_TCALL 12 @ [SNSPC_ENDOP 8]), ([0xD1], 8, SNSPC_TCALL 13 @ [SNSPC_ENDOP 8]),
     ([0xE1], 8, SNSPC_TCALL 14 @ [SNSPC_ENDOP 8]), ([0xF1], 8, SNSPC_TCALL 15 @ [SNSPC_ENDOP 8])]"

lemmas spc_hand_defs = spc_branches_def spc_bit_branches_def spc_misc_def spc_tcalls_def

section \<open>The switch and the loop\<close>

definition spc_switch :: "(nat list \<times> nat \<times> spc_op list) list" where
  "spc_switch = opspc700 @ spc_branches @ spc_bit_branches @ spc_misc @ spc_tcalls"

text \<open>An iteration goes on or leaves the loop by \<^verbatim>\<open>goto done\<close>.\<close>

datatype 'a iteration = Next 'a | Done 'a

definition spc_dispatch :: "'w spc_traps \<Rightarrow> nat \<Rightarrow> 'w spx \<Rightarrow> 'w spx iteration option" where
  "spc_dispatch T uOpcode x =
     (case find_case spc_switch uOpcode of
        Some (nOpCycles, us) \<Rightarrow>
          (if nCycles x < int nOpCycles * SNSPC_CYCLE then Some (Done x)
           else map_option Next (run_ops (exec_spc_op T) us x))
      | None \<Rightarrow> Some (Next (SNSPC_SUBCYCLES_x 1 x)))"

definition spc_step :: "'w spc_traps \<Rightarrow> 'w spx \<Rightarrow> 'w spx iteration option" where
  "spc_step T x =
     do { b \<leftarrow> u_SNSPCFetch8 (pSpc x) (l_rPC x);
          spc_dispatch T (unat b) (x\<lparr>l_rPC := l_rPC x + 1\<rparr>) }"

partial_function (option) spc_loop :: "'w spc_traps \<Rightarrow> 'w spx \<Rightarrow> 'w spx option option" where
  [code]: "spc_loop T x =
     (case spc_step T x of
        None \<Rightarrow> Some None
      | Some (Done y) \<Rightarrow> Some (Some y)
      | Some (Next y) \<Rightarrow> spc_loop T y)"

definition spc_enter :: "'w SNSpcT \<Rightarrow> 'w spx" where
  "spc_enter c = SNSPC_UNPACKFLAGS
     \<lparr>pSpc = c, nCycles = Cycles c, l_rPC = ucast (rPC (Regs c)), l_rDP = 0, fN = 0, fZ = 0, fC = 0,
      l_t0 = 0, l_t1 = 0, l_t2 = 0\<rparr>"

definition spc_leave :: "'w spx \<Rightarrow> 'w SNSpcT" where
  "spc_leave x =
     (let x = x\<lparr>l_rPC := l_rPC x - 1\<rparr>;
          x = SNSPC_PACKFLAGS x;
          c = (pSpc x)\<lparr>Cycles := nCycles x\<rparr>
      in c\<lparr>Regs := (Regs c)\<lparr>rPC := ucast (l_rPC x)\<rparr>\<rparr>)"

definition SNSPCExecute_C :: "'w spc_traps \<Rightarrow> 'w SNSpcT \<Rightarrow> 'w SNSpcT option option" where
  "SNSPCExecute_C T c =
     (if Cycles c \<le> 0 then Some (Some c) else map_option (map_option spc_leave) (spc_loop T (spc_enter c)))"

end
