(* ===== verification/Sn_Spc_Safe.thy ===== *)
theory Sn_Spc_Safe
  imports Sn_Spc_Exec C_Integers
begin

text \<open>
  A static check of the SPC700 handlers, as for the 65816: it bounds the temporaries and the program
  counter and accepts a memory macro only when the access lies in \<^verbatim>\<open>Mem\<close>. It rejects
  exactly the handlers that index an absolute or indirect address, for which see
  \<open>spc_wide\<close>.
\<close>

section \<open>Bounds\<close>

record sbnd =
  s0 :: nat
  s1 :: nat
  s2 :: nat
  sPC :: nat

fun sget :: "tmp \<Rightarrow> sbnd \<Rightarrow> nat" where
  "sget t0 b = s0 b"
| "sget t1 b = s1 b"
| "sget t2 b = s2 b"

fun sset :: "tmp \<Rightarrow> nat \<Rightarrow> sbnd \<Rightarrow> sbnd" where
  "sset t0 n b = b\<lparr>s0 := n\<rparr>"
| "sset t1 n b = b\<lparr>s1 := n\<rparr>"
| "sset t2 n b = b\<lparr>s2 := n\<rparr>"

fun ssrc :: "spc_src \<Rightarrow> sbnd \<Rightarrow> nat" where
  "ssrc (Tmp t) b = sget t b"
| "ssrc (Imm i) b = unat i"
| "ssrc r_DP b = 0x100"
| "ssrc _ b = 0xFF"

definition cap :: "nat \<Rightarrow> nat" where
  "cap n = min n btop"

fun salu :: "spc_alu \<Rightarrow> nat \<Rightarrow> nat \<Rightarrow> nat option" where
  "salu AluMOVE m n = Some n"
| "salu AluMUL m n = Some (cap (m * n))"
| "salu AluADD m n = Some (cap (m + n))"
| "salu AluSUB m n = Some btop"
| "salu AluOR m n = Some (orb m n)"
| "salu AluXOR m n = Some (orb m n)"
| "salu AluAND m n = Some (min m n)"
| "salu AluSHL m n = (if n < 32 then Some btop else None)"
| "salu AluSHR m n = (if n < 32 then Some m else None)"

text \<open>A shift right by a constant divides the bound.\<close>

fun sshift :: "spc_alu \<Rightarrow> spc_src \<Rightarrow> nat \<Rightarrow> nat \<Rightarrow> nat option" where
  "sshift AluSHR (Imm i) m n = (if n < 32 then Some (m div 2 ^ n) else None)"
| "sshift AluSHL (Imm i) m n = (if n < 32 then Some (cap (m * 2 ^ n)) else None)"
| "sshift k s m n = salu k m n"

primrec ab_spc :: "spc_op \<Rightarrow> sbnd \<Rightarrow> sbnd option" where
  "ab_spc (SNSPC_FETCH8 t) b =
     (if sPC b \<le> 0xFFFF then Some (sset t 0xFF (b\<lparr>sPC := sPC b + 1\<rparr>)) else None)"
| "ab_spc (SNSPC_FETCH16 t) b =
     (if sPC b + 1 \<le> 0xFFFF then Some (sset t 0xFFFF (b\<lparr>sPC := sPC b + 2\<rparr>)) else None)"
| "ab_spc (SNSPC_WRITE8 a d) b = (if sget a b \<le> 0xFFFF then Some b else None)"
| "ab_spc (SNSPC_WRITE16 a d) b = (if sget a b + 1 \<le> 0xFFFF then Some b else None)"
| "ab_spc (SNSPC_READ8 a t) b = (if sget a b \<le> 0xFFFF then Some (sset t 0xFF b) else None)"
| "ab_spc (READ16 a t) b = (if ssrc a b + 1 \<le> 0xFFFF then Some (sset t 0xFFFF b) else None)"
| "ab_spc (SNSPC_PUSH8 d) b = Some b"
| "ab_spc (SNSPC_PUSH16 d) b = Some b"
| "ab_spc (SNSPC_POP8 t) b = Some (sset t 0xFF b)"
| "ab_spc (SNSPC_POP16 t) b = Some (sset t 0xFFFF b)"
| "ab_spc (SET8 r t) b = Some b"
| "ab_spc (GET8 r t) b = Some (sset t 0xFF b)"
| "ab_spc (SNSPC_SET_YA16 t) b = Some b"
| "ab_spc (SNSPC_GET_YA16 t) b = Some (sset t 0xFFFF b)"
| "ab_spc (SNSPC_SET_PSW8 t) b = Some b"
| "ab_spc (SNSPC_GET_PSW8 t) b = Some (sset t 0xFF b)"
| "ab_spc (SNSPC_SET_PC16 t) b = Some (b\<lparr>sPC := sget t b\<rparr>)"
| "ab_spc (SNSPC_GET_PC t) b = Some (sset t (sPC b) b)"
| "ab_spc (SETFLAG f s) b = Some b"
| "ab_spc (SNSPC_GETFLAG_C t) b = Some (sset t 1 b)"
| "ab_spc (SETBIT v) b = Some b"
| "ab_spc (CLRBIT v) b = Some b"
| "ab_spc (SNSPC_SETFLAGI_V i) b = Some b"
| "ab_spc SNSPC_SETFLAG_P b = Some b"
| "ab_spc SNSPC_CLRFLAG_P b = Some b"
| "ab_spc (ALU k t s) b = do { n \<leftarrow> sshift k s (sget t b) (ssrc s b); Some (sset t n b) }"
| "ab_spc (ADDI_rX i) b = Some b"
| "ab_spc (ADDER k d s) b = Some (sset d btop b)"
| "ab_spc (SNSPC_BRREL k) b = (if sPC b \<le> 0xFFFF then Some (b\<lparr>sPC := btop\<rparr>) else None)"
| "ab_spc SNSPC_BRA b = (if sPC b \<le> 0xFFFF then Some (b\<lparr>sPC := btop\<rparr>) else None)"
| "ab_spc (SNSPC_SUBCYCLES n) b = Some b"
| "ab_spc (SNSPC_ENDOP n) b = Some b"
| "ab_spc DIV_block b = Some (b\<lparr>s1 := btop, s2 := btop\<rparr>)"
| "ab_spc MOV1_block b = Some (b\<lparr>s1 := btop\<rparr>)"
| "ab_spc STOP_block b = Some (b\<lparr>sPC := btop\<rparr>)"

text \<open>
  The state after the opcode was fetched: anything in the temporaries, and two more bytes at the
  program counter.
\<close>

definition sstart :: sbnd where
  "sstart = \<lparr>s0 = btop, s1 = btop, s2 = btop, sPC = 0xFFFE\<rparr>"

definition spc_handler_ok :: "spc_op list \<Rightarrow> bool" where
  "spc_handler_ok us = (check_ops ab_spc us sstart \<noteq> None)"

text \<open>
  The opcodes whose handlers add an index to a 16-bit address without reducing it to 16 bits:
  \<^verbatim>\<open>abs+X\<close>, \<^verbatim>\<open>abs+Y\<close>, \<^verbatim>\<open>[dp]+Y\<close> and \<^verbatim>\<open>JMP [abs+X]\<close>; and those that read a
  word at an absolute or direct address computed by other means.
\<close>

definition spc_wide :: "nat list" where
  "spc_wide = [0xF5, 0xF6, 0xF7, 0xD5, 0xD6, 0xD7, 0x95, 0x96, 0x97, 0xB5, 0xB6, 0xB7, 0x75, 0x76, 0x77,
               0x35, 0x36, 0x37, 0x15, 0x16, 0x17, 0x55, 0x56, 0x57, 0x1F]"

lemmas scheck_defs = spc_handler_ok_def sstart_def btop_def orb_def cap_def spc_wide_def

lemma spc_handlers_ok_700: "list_all (\<lambda>(ls, n, us). spc_handler_ok us \<or> hd ls \<in> set spc_wide) opspc700"
  by (simp add: opspc700_def opspc700_defs scheck_defs)

lemma spc_handlers_ok_hand:
  "list_all (\<lambda>(ls, n, us). spc_handler_ok us \<or> hd ls \<in> set spc_wide)
     (spc_branches @ spc_bit_branches @ spc_misc @ spc_tcalls)"
  by (simp add: spc_hand_defs spc_macro_defs scheck_defs)

section \<open>The contract of the trap functions\<close>

text \<open>
  \<open>good\<close> is the client's invariant. Processor state that the client does not look at may change under
  it: registers, cycle counter and the two memories. A trap function the client has installed
  returns, keeps the invariant and does not touch the registers.
\<close>

locale spc_contract =
  fixes T :: "'w spc_traps" and good :: "'w SNSpcT \<Rightarrow> bool"
  assumes good_regs: "good (c\<lparr>Regs := r\<rparr>) = good c"
    and good_cycles: "good (c\<lparr>Cycles := n\<rparr>) = good c"
    and good_mem: "good (c\<lparr>Mem := m\<rparr>) = good c"
    and good_shadow: "good (c\<lparr>ShadowMem := m\<rparr>) = good c"
    and rtrap_ok: "good c \<Longrightarrow> trapped a \<Longrightarrow> pReadTrapFunc c = SpcUserFn k \<Longrightarrow>
      returns (spc_rtrap T k c a) (\<lambda>(v, c'). good c' \<and> Regs c' = Regs c)"
    and wtrap_ok: "good c \<Longrightarrow> trapped a \<Longrightarrow> pWriteTrapFunc c = SpcUserFn k \<Longrightarrow>
      returns (spc_wtrap T k c a v) (\<lambda>c'. good c' \<and> Regs c' = Regs c)"

text \<open>A client that installs nothing.\<close>

definition no_spc_traps :: "'w spc_traps" where
  "no_spc_traps = \<lparr>spc_rtrap = (\<lambda>k c a. None), spc_wtrap = (\<lambda>k c a v. None)\<rparr>"

definition spc_default_only :: "'w SNSpcT \<Rightarrow> bool" where
  "spc_default_only c \<longleftrightarrow> pReadTrapFunc c = SpcDefaultFn \<and> pWriteTrapFunc c = SpcDefaultFn"

interpretation spc_defaults: spc_contract no_spc_traps spc_default_only
  by unfold_locales (simp_all add: spc_default_only_def)

section \<open>Soundness\<close>

definition spx_in :: "sbnd \<Rightarrow> 'w spx \<Rightarrow> bool" where
  "spx_in b x \<longleftrightarrow> unat (l_t0 x) \<le> s0 b \<and> unat (l_t1 x) \<le> s1 b \<and> unat (l_t2 x) \<le> s2 b
     \<and> unat (l_rPC x) \<le> sPC b \<and> unat (l_rDP x) \<le> 0x100"

lemma sget_bound: "spx_in b x \<Longrightarrow> unat (spc_get_t t x) \<le> sget t b"
  by (cases t) (simp_all add: spx_in_def)

lemma spx_in_set: "spx_in b x \<Longrightarrow> unat v \<le> n \<Longrightarrow> spx_in (sset t n b) (spc_set_t t v x)"
  by (cases t) (auto simp: spx_in_def)

lemma spx_in_pSpc [simp]: "spx_in b (x\<lparr>pSpc := c\<rparr>) = spx_in b x"
  and spx_in_regs [simp]: "spx_in b (spc_upd_regs f x) = spx_in b x"
  and spx_in_cycles [simp]: "spx_in b (SNSPC_SUBCYCLES_x k x) = spx_in b x"
  by (simp_all add: spx_in_def spc_upd_regs_def SNSPC_SUBCYCLES_x_def)

lemma spc_set_t_simps [simp]:
  "pSpc (spc_set_t t v x) = pSpc x" "nCycles (spc_set_t t v x) = nCycles x" "l_rPC (spc_set_t t v x) = l_rPC x"
  by (cases t; simp)+

lemma spc_upd_regs_simps [simp]:
  "pSpc (spc_upd_regs f x) = (pSpc x)\<lparr>Regs := f (Regs (pSpc x))\<rparr>" "nCycles (spc_upd_regs f x) = nCycles x"
  "l_rPC (spc_upd_regs f x) = l_rPC x" "l_rDP (spc_upd_regs f x) = l_rDP x"
  "l_t0 (spc_upd_regs f x) = l_t0 x" "l_t1 (spc_upd_regs f x) = l_t1 x" "l_t2 (spc_upd_regs f x) = l_t2 x"
  by (simp_all add: spc_upd_regs_def)

lemma spc_set_flag_simps [simp]:
  "pSpc (spc_set_flag f v x) = pSpc x" "nCycles (spc_set_flag f v x) = nCycles x"
  "spx_in b (spc_set_flag f v x) = spx_in b x"
  by (cases f; simp add: spx_in_def)+

lemma direct_page_bound: "unat (push_bit 3 (ucast (p AND SNSPC_FLAG_P :: u8)) :: u32) \<le> 0x100"
proof -
  have "unat (ucast (p AND SNSPC_FLAG_P) :: u32) \<le> 0x20"
    using and_le_right [of p SNSPC_FLAG_P] by (simp add: SNSPC_FLAG_P_def)
  from shl_bound [OF this, of 3] show ?thesis by (simp add: btop_def)
qed

lemma ssrc_bound: "spx_in b x \<Longrightarrow> unat (spc_get_src s x) \<le> ssrc s b"
  by (cases s) (auto simp: sget_bound spx_in_def intro: unat_u8_le)

lemma cap_bound: "unat (v :: u32) \<le> n \<Longrightarrow> unat v \<le> cap n"
  using unat_u32_le [of v] by (simp add: cap_def btop_def)

lemma salu_bound:
  assumes "unat v \<le> m" and "unat w \<le> n" and "salu k m n = Some l"
  shows "\<exists>r. spc_alu_op k v w = Some r \<and> unat r \<le> l"
proof (cases k)
  case AluMUL
  have "unat (v * w) \<le> unat v * unat w" by (simp add: unat_word_ariths)
  also have "\<dots> \<le> m * n" using assms by (simp add: mult_le_mono)
  finally show ?thesis using AluMUL assms cap_bound [of "v * w"] by auto
next
  case AluADD
  then show ?thesis using assms add_bound [of v m w n] cap_bound [of "v + w"] by auto
next
  case AluAND
  then show ?thesis using assms and_le_left [of v w] and_le_right [of v w] by auto
next
  case AluSHR
  have "unat (drop_bit (unat w) v) \<le> m div 2 ^ unat w" by (rule shr_bound [OF assms(1)])
  also have "\<dots> \<le> m" by simp
  finally show ?thesis using AluSHR assms by (auto split: if_splits)
next
  case AluSHL
  then show ?thesis using assms unat_u32_le by (auto simp: btop_def split: if_splits)
next
  case AluSUB
  then show ?thesis using assms unat_u32_le by (auto simp: btop_def)
qed (use assms orb_bound [OF assms(1,2)] in auto)

lemma sshift_bound:
  assumes "spx_in b x" and "unat v \<le> m" and "sshift k s m (ssrc s b) = Some l"
  shows "\<exists>r. spc_alu_op k v (spc_get_src s x) = Some r \<and> unat r \<le> l"
proof (cases "k \<in> {AluSHR, AluSHL} \<and> (\<exists>i. s = Imm i)")
  case True
  then obtain i where i: "s = Imm i" and k: "k = AluSHR \<or> k = AluSHL" by auto
  then show ?thesis
    using assms(3) shr_bound [OF assms(2), of "unat i"] shl_bound [OF assms(2), of "unat i"]
    by (auto simp: cap_def min_def split: if_splits)
next
  case False
  then have "sshift k s m (ssrc s b) = salu k m (ssrc s b)" by (cases k; cases s) auto
  with assms salu_bound [OF assms(2) ssrc_bound [OF assms(1)], of k s] show ?thesis by auto
qed

lemma mem_get_in: "unat a \<le> 0xFFFF \<Longrightarrow> mem_get c a = Some (Mem c (unat a))"
  by (simp add: mem_get_def SNSPC_MEM_SIZE_def)

lemma mem_set_in: "unat a \<le> 0xFFFF \<Longrightarrow> mem_set c a v = Some (c\<lparr>Mem := (Mem c)(unat a := v)\<rparr>)"
  by (simp add: mem_set_def SNSPC_MEM_SIZE_def)

lemma unat_succ: "unat (a :: u32) \<le> n \<Longrightarrow> unat (a + 1) \<le> n + 1"
  using add_bound [of a n 1 1] by simp

lemma div_block_simps [simp]: "spx_in b x \<Longrightarrow> spx_in (b\<lparr>s1 := btop, s2 := btop\<rparr>) (div_block x)"
  "nCycles (div_block x) = nCycles x"
  using unat_u32_le by (auto simp: div_block_def spx_in_def Let_def btop_def)

lemma mov1_block_simps [simp]: "spx_in b x \<Longrightarrow> spx_in (b\<lparr>s1 := btop\<rparr>) (mov1_block x)"
  "nCycles (mov1_block x) = nCycles x" "pSpc (mov1_block x) = pSpc x"
  using unat_u32_le by (auto simp: mov1_block_def spx_in_def Let_def btop_def)

lemma spc_add_macro_simps [simp]:
  "spx_in b x \<Longrightarrow> spx_in (sset d btop b) (spc_add_macro k d s x)" "nCycles (spc_add_macro k d s x) = nCycles x"
  using unat_u32_le by (auto simp: spc_add_macro_def Let_def btop_def intro: spx_in_set)

definition spc_within :: "('w SNSpcT \<Rightarrow> bool) \<Rightarrow> sbnd \<Rightarrow> 'w spx \<Rightarrow> bool" where
  "spc_within good b x \<longleftrightarrow> good (pSpc x) \<and> spx_in b x"

text \<open>What an access keeps.\<close>

definition spc_access :: "('w SNSpcT \<Rightarrow> bool) \<Rightarrow> 'w SNSpcT \<Rightarrow> 'w SNSpcT \<Rightarrow> bool" where
  "spc_access good c c' \<longleftrightarrow> good c' \<and> Regs c' = Regs c"

context spc_contract
begin

lemmas good_upd [simp] = good_regs good_cycles good_mem good_shadow

lemma read8_ok:
  assumes "good c" and "unat a \<le> 0xFFFF"
  shows "returns (uu_SNSPCRead8 T c a) (\<lambda>(v, c'). spc_access good c c')"
  using assms rtrap_ok [OF assms(1)]
  by (cases "pReadTrapFunc c") (auto simp: uu_SNSPCRead8_def spc_access_def mem_get_in u_SNSPCDefaultRead_def)

lemma write8_ok:
  assumes "good c" and "unat a \<le> 0xFFFF"
  shows "returns (uu_SNSPCWrite8 T c a v) (spc_access good c)"
proof -
  have "returns (if unat a < SNSPC_ROM_ADDR then mem_set c a v else if bRomEnable c = 0 then mem_set c a v
          else Some (c\<lparr>ShadowMem := (ShadowMem c)(shadow_index a := v)\<rparr>)) (\<lambda>c'. spc_access good c c')"
    using assms by (simp add: mem_set_in spc_access_def)
  then show ?thesis unfolding uu_SNSPCWrite8_def
  proof (rule returns_bind)
    fix c' assume c': "spc_access good c c'"
    show "returns (if trapped a then spc_call_write T (pWriteTrapFunc c') c' a v else Some c') (spc_access good c)"
      using c' wtrap_ok [of c' a _ v]
      by (cases "pWriteTrapFunc c'") (auto simp: spc_access_def [abs_def] u_SNSPCDefaultWrite_def)
  qed
qed

lemma read16_ok:
  assumes "good c" and "unat a \<le> 0xFFFE"
  shows "returns (u_SNSPCRead16 T c a) (\<lambda>(v, c'). spc_access good c c')"
  unfolding u_SNSPCRead16_def
proof (rule returns_bind [OF read8_ok [OF assms(1)]])
  show "unat a \<le> 0xFFFF" using assms by simp
  fix p :: "u8 \<times> 'w SNSpcT" assume p: "case p of (v, c') \<Rightarrow> spc_access good c c'"
  obtain l :: u8 and c1 where p1: "p = (l, c1)" by force
  have "returns (uu_SNSPCRead8 T c1 (a + 1)) (\<lambda>(v, c'). spc_access good c1 c')"
    using p unat_succ [OF assms(2)] by (intro read8_ok) (simp_all add: p1 spc_access_def)
  then have "returns (uu_SNSPCRead8 T c1 (a + 1) \<bind> (\<lambda>(h, c). Some (mk16 h l, c))) (\<lambda>(v, c'). spc_access good c c')"
    by (rule returns_bind) (use p in \<open>auto simp: p1 spc_access_def\<close>)
  then show "returns (case p of (l, c) \<Rightarrow> uu_SNSPCRead8 T c (a + 1) \<bind> (\<lambda>(h, c). Some (mk16 h l, c)))
      (\<lambda>(v, c'). spc_access good c c')"
    by (simp add: p1)
qed

lemma write16_ok:
  assumes "good c" and "unat a \<le> 0xFFFE"
  shows "returns (u_SNSPCWrite16 T c a w) (spc_access good c)"
  unfolding u_SNSPCWrite16_def
proof (rule returns_bind [OF write8_ok [OF assms(1)]])
  show "unat a \<le> 0xFFFF" using assms by simp
  fix c1 assume "spc_access good c c1"
  then show "returns (uu_SNSPCWrite8 T c1 (a + 1) (hi8 w)) (spc_access good c)"
    using write8_ok [of c1 "a + 1" "hi8 w"] unat_succ [OF assms(2)] by (auto simp: spc_access_def elim!: returns_mono)
qed

lemma spc_lift_read_ok:
  assumes "returns m (\<lambda>(v, c). spc_access good (sync x) c)" and "spc_within good b x" and "\<And>v. unat (f v) \<le> n"
  shows "returns (spc_lift_read t x f m) (spc_within good (sset t n b))"
  unfolding spc_lift_read_def
  by (rule returns_bind [OF assms(1)]) (use assms(2,3) in \<open>auto simp: spc_within_def spc_access_def intro!: spx_in_set\<close>)

lemma spc_lift_write_ok:
  assumes "returns m (spc_access good (sync x))" and "spc_within good b x"
  shows "returns (spc_lift_write x m) (spc_within good b)"
  unfolding spc_lift_write_def
  by (rule returns_bind [OF assms(1)]) (use assms(2) in \<open>auto simp: spc_within_def spc_access_def\<close>)

lemma within_sync [simp]: "spc_within good b x \<Longrightarrow> good (sync x)"
  by (simp add: spc_within_def sync_def)

lemma within_set: "spc_within good b x \<Longrightarrow> unat v \<le> n \<Longrightarrow> spc_within good (sset t n b) (spc_set_t t v x)"
  by (simp add: spc_within_def spx_in_set)

lemma spc_within_regs [simp]: "spc_within good b (spc_upd_regs f x) = spc_within good b x"
  by (simp add: spc_within_def)

lemma within_spx: "spc_within good b x \<Longrightarrow> spx_in b x"
  by (simp add: spc_within_def)

lemma within_UNPACK: "spc_within good b x \<Longrightarrow> spc_within good b (SNSPC_UNPACKFLAGS x)"
  using direct_page_bound by (auto simp: spc_within_def SNSPC_UNPACKFLAGS_def spx_in_def Let_def)

lemma within_PACK: "spc_within good b x \<Longrightarrow> spc_within good b (SNSPC_PACKFLAGS x)"
  by (simp add: SNSPC_PACKFLAGS_def)

lemma fetch8_within:
  "spc_within good b x \<Longrightarrow> sPC b \<le> 0xFFFF \<Longrightarrow> u_SNSPCFetch8 (pSpc x) (l_rPC x) = Some (Mem (pSpc x) (unat (l_rPC x)))"
  by (auto simp: spc_within_def spx_in_def u_SNSPCFetch8_def mem_get_in)

lemma within_bump:
  "spc_within good b x \<Longrightarrow> unat k \<le> n \<Longrightarrow> spc_within good (b\<lparr>sPC := sPC b + n\<rparr>) (x\<lparr>l_rPC := l_rPC x + k\<rparr>)"
  by (auto simp: spc_within_def spx_in_def add_bound)

lemma within_goto: "spc_within good b x \<Longrightarrow> unat w \<le> n \<Longrightarrow> spc_within good (b\<lparr>sPC := n\<rparr>) (x\<lparr>l_rPC := w\<rparr>)"
  by (auto simp: spc_within_def spx_in_def)

lemma within_branch:
  assumes "spc_within good b x" and "sPC b \<le> 0xFFFF"
  shows "returns (branch_rel k x) (spc_within good (b\<lparr>sPC := btop\<rparr>))"
    "returns (branch_always x) (spc_within good (b\<lparr>sPC := btop\<rparr>))"
  using assms unat_u32_le fetch8_within [OF assms]
  by (auto simp: branch_rel_def branch_always_def fetch_rel_def spc_within_def spx_in_def btop_def SNSPC_SUBCYCLES_x_def)

lemma within_sync_fetch: "spc_within good b x \<Longrightarrow> sPC b + 1 \<le> 0xFFFF \<Longrightarrow>
    u_SNSPCFetch16 (pSpc x) (l_rPC x) = Some (mk16 (Mem (pSpc x) (unat (l_rPC x + 1))) (Mem (pSpc x) (unat (l_rPC x))))"
  using unat_succ [of "l_rPC x" "sPC b"] by (auto simp: spc_within_def spx_in_def u_SNSPCFetch16_def mem_get_in)

lemma u8_le: "unat (ucast (v :: u8) :: u32) \<le> 0xFF"
  and u16_le: "unat (ucast (w :: u16) :: u32) \<le> 0xFFFF"
  by (simp_all add: unat_u8_le unat_u16_le)

lemma ab_spc_sound:
  assumes "ab_spc u b = Some b'" and w: "spc_within good b x"
  shows "returns (exec_spc_op T u x) (spc_within good b')"
proof (cases u)
  case (SNSPC_FETCH8 t)
  then show ?thesis
    using assms fetch8_within [OF w] within_bump [OF w, of 1 1]
    by (auto split: if_splits intro!: within_set u8_le)
next
  case (SNSPC_FETCH16 t)
  then show ?thesis
    using assms within_sync_fetch [OF w] within_bump [OF w, of 2 2]
    by (auto split: if_splits intro!: within_set u16_le)
next
  case (SNSPC_WRITE8 a d)
  then show ?thesis
    using assms sget_bound [OF within_spx [OF w], of a]
    by (auto simp: u_SNSPCWrite8_def split: if_splits intro!: spc_lift_write_ok write8_ok)
next
  case (SNSPC_WRITE16 a d)
  then show ?thesis
    using assms sget_bound [OF within_spx [OF w], of a]
    by (auto split: if_splits intro!: spc_lift_write_ok write16_ok)
next
  case (SNSPC_READ8 a t)
  then show ?thesis
    using assms sget_bound [OF within_spx [OF w], of a]
    by (auto simp: u_SNSPCRead8_def split: if_splits intro!: spc_lift_read_ok read8_ok u8_le)
next
  case (READ16 a t)
  then show ?thesis
    using assms ssrc_bound [OF within_spx [OF w], of a]
    by (auto split: if_splits intro!: spc_lift_read_ok read16_ok u16_le)
next
  case (SNSPC_PUSH8 d)
  then show ?thesis using assms by (auto simp: spc_within_def u_SNSPCPush8_def move_SP_def)
next
  case (SNSPC_PUSH16 d)
  then show ?thesis using assms by (auto simp: spc_within_def u_SNSPCPush16_def move_SP_def Let_def)
next
  case (SNSPC_POP8 t)
  then show ?thesis using assms
    by (auto simp: spc_within_def u_SNSPCPop8_def move_SP_def Let_def spc_lift_read_def intro!: spx_in_set u8_le)
next
  case (SNSPC_POP16 t)
  then show ?thesis using assms
    by (auto simp: spc_within_def u_SNSPCPop16_def move_SP_def Let_def spc_lift_read_def intro!: spx_in_set u16_le)
next
  case (GET8 r t)
  then show ?thesis using assms by (auto intro!: within_set u8_le)
next
  case (SNSPC_GET_YA16 t)
  have "unat (join16 h l) \<le> 0xFFFF" for h l
    using u16_le [of "mk16 h l"] join16_hi8_lo8 [of "mk16 h l"] by simp
  with SNSPC_GET_YA16 show ?thesis using assms by (auto intro!: within_set)
next
  case (SNSPC_GET_PSW8 t)
  then show ?thesis using assms by (auto simp: Let_def intro!: within_set u8_le within_PACK)
next
  case (SNSPC_GETFLAG_C t)
  then show ?thesis using assms and_le_right [of "fC x" 1] by (auto intro!: within_set)
next
  case (SNSPC_SET_PC16 t)
  then show ?thesis using assms sget_bound [OF within_spx [OF w], of t] by (auto intro!: within_goto)
next
  case (SNSPC_GET_PC t)
  have "unat (l_rPC x) \<le> sPC b" using w by (simp add: spc_within_def spx_in_def)
  with SNSPC_GET_PC show ?thesis using assms by (auto intro!: within_set)
next
  case (SNSPC_SET_PSW8 t)
  then show ?thesis using assms by (auto intro!: within_UNPACK)
next
  case (SETFLAG f s)
  then show ?thesis using assms by (auto simp: spc_within_def)
next
  case (ALU k t s)
  with assms obtain n where n: "sshift k s (sget t b) (ssrc s b) = Some n" "b' = sset t n b"
    by (auto split: bind_splits)
  from sshift_bound [OF within_spx [OF w] sget_bound [OF within_spx [OF w]] n(1)]
  show ?thesis using ALU w n(2) by (auto intro!: within_set)
next
  case (SNSPC_BRREL k)
  then show ?thesis using assms within_branch [OF w] by (auto split: if_splits)
next
  case SNSPC_BRA
  then show ?thesis using assms within_branch [OF w] by (auto split: if_splits)
next
  case STOP_block
  then show ?thesis using assms unat_u32_le by (auto simp: btop_def intro!: within_goto)
next
  case DIV_block
  then show ?thesis using assms
    by (auto simp: spc_within_def) (auto simp: div_block_def Let_def)
next
  case MOV1_block
  then show ?thesis using assms by (simp add: spc_within_def) (use mov1_block_simps(1) in blast)
next
  case SNSPC_SETFLAG_P
  then show ?thesis using assms by (auto simp: spc_within_def spx_in_def)
next
  case SNSPC_CLRFLAG_P
  then show ?thesis using assms by (auto simp: spc_within_def spx_in_def)
next
  case (ADDER k d s)
  then show ?thesis using assms by (auto simp: spc_within_def) (auto simp: spc_add_macro_def Let_def)
qed (use assms in \<open>auto simp: spc_within_def SNSPC_SUBCYCLES_x_def spx_in_def\<close>)

end

sublocale spc_contract \<subseteq> spc_handler: microcode "exec_spc_op T" ab_spc "spc_within good" "\<lambda>_ _. True"
  by unfold_locales (simp_all add: ab_spc_sound)

section \<open>One iteration\<close>

definition spc_ok :: "('w SNSpcT \<Rightarrow> bool) \<Rightarrow> 'w spx \<Rightarrow> bool" where
  "spc_ok good x \<longleftrightarrow> good (pSpc x) \<and> unat (l_rDP x) \<le> 0x100"

fun spx_of :: "'a iteration \<Rightarrow> 'a" where
  "spx_of (Next x) = x"
| "spx_of (Done x) = x"

text \<open>The opcode at the program counter.\<close>

definition opcode_at :: "'w spx \<Rightarrow> nat" where
  "opcode_at x = unat (Mem (pSpc x) (unat (l_rPC x)))"

lemma spc_labels_700: "list_all (\<lambda>(ls, n, us). ls = [hd ls]) opspc700"
  by (simp add: opspc700_def opspc700_defs)

lemma spc_labels_hand: "list_all (\<lambda>(ls, n, us). ls = [hd ls]) (spc_branches @ spc_bit_branches @ spc_misc @ spc_tcalls)"
  by (simp add: spc_hand_defs)

lemma spc_case:
  assumes "find_case spc_switch k = Some (n, us)"
  shows "([k], n, us) \<in> set spc_switch"
proof -
  from find_case_in [OF assms] obtain ls where ls: "(ls, n, us) \<in> set spc_switch" "k \<in> set ls" by blast
  with spc_labels_700 spc_labels_hand have "ls = [hd ls]"
    by (auto simp: spc_switch_def list_all_iff)
  with ls(2) have "ls = [k]" by (metis empty_set list.set(2) singletonD empty_iff insertE)
  with ls(1) show ?thesis by simp
qed

lemma spc_handler_checked:
  assumes "find_case spc_switch k = Some (n, us)" and "k \<notin> set spc_wide"
  shows "spc_handler_ok us"
proof -
  have "list_all (\<lambda>(ls, n, us). spc_handler_ok us \<or> hd ls \<in> set spc_wide) spc_switch"
    using spc_handlers_ok_700 spc_handlers_ok_hand by (simp add: spc_switch_def)
  with spc_case [OF assms(1)] have "case ([k], n, us) of (ls, n, us) \<Rightarrow> spc_handler_ok us \<or> hd ls \<in> set spc_wide"
    unfolding list_all_iff by (rule bspec [rotated])
  with assms(2) show ?thesis by simp
qed

lemma spc_ok_start: "spc_ok good x \<Longrightarrow> unat (l_rPC x) \<le> 0xFFFD \<Longrightarrow> spc_within good sstart (x\<lparr>l_rPC := l_rPC x + 1\<rparr>)"
  using unat_u32_le [of "l_t0 x"] unat_u32_le [of "l_t1 x"] unat_u32_le [of "l_t2 x"] unat_succ [of "l_rPC x" "0xFFFD"]
  by (simp add: spc_ok_def spc_within_def spx_in_def sstart_def btop_def)

lemma spc_within_ok: "spc_within good b x \<Longrightarrow> spc_ok good x"
  by (simp add: spc_within_def spx_in_def spc_ok_def)

context spc_contract
begin

lemma spc_step_ok:
  assumes "spc_ok good x" and "unat (l_rPC x) \<le> 0xFFFD" and "opcode_at x \<notin> set spc_wide"
  shows "returns (spc_step T x) (\<lambda>it. spc_ok good (spx_of it))"
proof -
  let ?x = "x\<lparr>l_rPC := l_rPC x + 1\<rparr>"
  note w = spc_ok_start [OF assms(1,2)]
  have f: "u_SNSPCFetch8 (pSpc x) (l_rPC x) = Some (Mem (pSpc x) (unat (l_rPC x)))"
    using assms(2) by (simp add: u_SNSPCFetch8_def mem_get_in)
  have "returns (spc_dispatch T (opcode_at x) ?x) (\<lambda>it. spc_ok good (spx_of it))"
  proof (cases "find_case spc_switch (opcode_at x)")
    case None
    then show ?thesis
      using assms(1) by (simp add: spc_dispatch_def spc_ok_def SNSPC_SUBCYCLES_x_def)
  next
    case (Some h)
    obtain n us where h: "h = (n, us)" by force
    from spc_handler_checked [OF Some [unfolded h] assms(3)] obtain b' where b': "check_ops ab_spc us sstart = Some b'"
      by (auto simp: spc_handler_ok_def)
    from spc_handler.check_sound [OF b' w] have "returns (run_ops (exec_spc_op T) us ?x) (spc_ok good)"
      by (rule returns_mono) (simp add: spc_within_ok)
    then show ?thesis
      using Some h assms(1) by (auto simp: spc_dispatch_def spc_ok_def returns_def)
  qed
  then show ?thesis by (simp add: spc_step_def f opcode_at_def)
qed

end

end
