(* ===== verification/Sn_Spc_Run.thy ===== *)
theory Sn_Spc_Run
  imports Sn_Spc_Safe
begin

text \<open>
  Running the SPC700: what a handler charges, the states a run reaches, and that a run ends.
\<close>

section \<open>Cycles\<close>

text \<open>
  The cycles a handler charges, and the branches in it; a branch that is taken costs two cycles more,
  which the guard of \<^verbatim>\<open>SNSPC_OP\<close> does not ask for.
\<close>

fun charge :: "spc_op \<Rightarrow> nat" where
  "charge (SNSPC_SUBCYCLES n) = n"
| "charge (SNSPC_ENDOP n) = n"
| "charge _ = 0"

fun is_branch :: "spc_op \<Rightarrow> bool" where
  "is_branch (SNSPC_BRREL k) = True"
| "is_branch _ = False"

definition total_charge :: "spc_op list \<Rightarrow> nat" where
  "total_charge us = sum_list (map charge us)"

definition branch_count :: "spc_op list \<Rightarrow> nat" where
  "branch_count us = length (filter is_branch us)"

text \<open>The guard of every case asks for what its handler charges, at least two and at most twelve cycles.\<close>

lemma guard_is_charge_700:
  "list_all (\<lambda>(ls, n, us). total_charge us = n \<and> branch_count us = 0 \<and> 2 \<le> n \<and> n \<le> 12) opspc700"
  by (simp add: opspc700_def opspc700_defs total_charge_def branch_count_def)

lemma guard_is_charge_hand:
  "list_all (\<lambda>(ls, n, us). total_charge us = n \<and> branch_count us \<le> 1 \<and> 2 \<le> n \<and> n \<le> 12)
     (spc_branches @ spc_bit_branches @ spc_misc @ spc_tcalls)"
  by (simp add: spc_hand_defs spc_macro_defs total_charge_def branch_count_def)

lemma guard_is_charge:
  assumes "find_case spc_switch k = Some (n, us)"
  shows "total_charge us = n" "branch_count us \<le> 1" "2 \<le> n" "n \<le> 12"
proof -
  have "list_all (\<lambda>(ls, n, us). total_charge us = n \<and> branch_count us \<le> 1 \<and> 2 \<le> n \<and> n \<le> 12) opspc700"
    by (rule list.pred_mono_strong [OF guard_is_charge_700]) auto
  then have "list_all (\<lambda>(ls, n, us). total_charge us = n \<and> branch_count us \<le> 1 \<and> 2 \<le> n \<and> n \<le> 12) spc_switch"
    using guard_is_charge_hand by (simp add: spc_switch_def)
  with spc_case [OF assms] have "case ([k], n, us) of (ls, n, us) \<Rightarrow> total_charge us = n \<and> branch_count us \<le> 1 \<and> 2 \<le> n \<and> n \<le> 12"
    unfolding list_all_iff by (rule bspec [rotated])
  then show "total_charge us = n" "branch_count us \<le> 1" "2 \<le> n" "n \<le> 12" by simp_all
qed

lemma op_cycles:
  "exec_spc_op T u x = Some x' \<Longrightarrow>
     nCycles x' = nCycles x - int (charge u) * 21 \<or> is_branch u \<and> nCycles x' = nCycles x - 42"
  by (cases u) (auto simp: spc_lift_read_def spc_lift_write_def SNSPC_SUBCYCLES_x_def SNSPC_CYCLE_def branch_rel_def
      branch_always_def fetch_rel_def SNSPC_UNPACKFLAGS_def SNSPC_PACKFLAGS_def Let_def split: bind_splits prod.splits)

lemma run_cycles:
  "run_ops (exec_spc_op T) us x = Some x' \<Longrightarrow>
     nCycles x' \<le> nCycles x - int (total_charge us) * 21 \<and>
     nCycles x' \<ge> nCycles x - int (total_charge us) * 21 - int (branch_count us) * 42"
proof (induction us arbitrary: x)
  case Nil
  then show ?case by (simp add: total_charge_def branch_count_def)
next
  case (Cons u us)
  from Cons.prems obtain x1 where u: "exec_spc_op T u x = Some x1" and us: "run_ops (exec_spc_op T) us x1 = Some x'"
    by (auto split: bind_splits)
  have "is_branch u \<Longrightarrow> charge u = 0" by (cases u) simp_all
  with op_cycles [OF u] Cons.IH [OF us] show ?case
    by (auto simp: total_charge_def branch_count_def algebra_simps)
qed

section \<open>Runs\<close>

inductive spc_reach :: "'w spc_traps \<Rightarrow> 'w spx \<Rightarrow> 'w spx \<Rightarrow> bool" for T :: "'w spc_traps" and x :: "'w spx" where
  reach_refl: "spc_reach T x x"
| reach_next: "spc_reach T x y \<Longrightarrow> spc_step T y = Some (Next z) \<Longrightarrow> spc_reach T x z"

definition implemented :: "nat \<Rightarrow> bool" where
  "implemented k \<longleftrightarrow> find_case spc_switch k \<noteq> None"

lemma step_fetch: "spc_step T x = Some it \<Longrightarrow> unat (l_rPC x) \<le> 0xFFFF \<and>
    spc_dispatch T (opcode_at x) (x\<lparr>l_rPC := l_rPC x + 1\<rparr>) = Some it"
  by (auto simp: spc_step_def u_SNSPCFetch8_def mem_get_def SNSPC_MEM_SIZE_def opcode_at_def split: if_splits)

lemma step_Next:
  assumes "spc_step T x = Some (Next y)" and "implemented (opcode_at x)"
  shows "0 < nCycles x" "nCycles y < nCycles x" "- 42 \<le> nCycles y"
proof -
  let ?x = "x\<lparr>l_rPC := l_rPC x + 1\<rparr>"
  obtain n us where h: "find_case spc_switch (opcode_at x) = Some (n, us)"
    using assms(2) by (auto simp: implemented_def)
  from step_fetch [OF assms(1)] h have g: "int n * 21 \<le> nCycles x" and r: "run_ops (exec_spc_op T) us ?x = Some y"
    by (auto simp: spc_dispatch_def SNSPC_CYCLE_def split: if_splits)
  from run_cycles [OF r] guard_is_charge [OF h] g show "0 < nCycles x" "nCycles y < nCycles x" "- 42 \<le> nCycles y"
    by auto
qed

lemma step_Next_default:
  assumes "spc_step T x = Some (Next y)" and "\<not> implemented (opcode_at x)"
  shows "nCycles y = nCycles x - 21" "l_rPC y = l_rPC x + 1"
proof -
  have "find_case spc_switch (opcode_at x) = None" using assms(2) unfolding implemented_def by blast
  with step_fetch [OF assms(1)] show "nCycles y = nCycles x - 21" "l_rPC y = l_rPC x + 1"
    by (auto simp: spc_dispatch_def SNSPC_SUBCYCLES_x_def SNSPC_CYCLE_def)
qed

lemma step_Done:
  assumes "spc_step T x = Some (Done y)"
  shows "y = x\<lparr>l_rPC := l_rPC x + 1\<rparr>" "nCycles x < 252" "implemented (opcode_at x)"
proof -
  from step_fetch [OF assms] obtain n us where h: "find_case spc_switch (opcode_at x) = Some (n, us)"
    and g: "nCycles x < int n * 21" "y = x\<lparr>l_rPC := l_rPC x + 1\<rparr>"
    by (auto simp: spc_dispatch_def SNSPC_CYCLE_def split: option.splits if_splits)
  with guard_is_charge [OF h] show "y = x\<lparr>l_rPC := l_rPC x + 1\<rparr>" "nCycles x < 252" "implemented (opcode_at x)"
    by (auto simp: implemented_def)
qed

text \<open>The measure of the loop: the cycles left, then, when they are used up, the memory left to fetch from.\<close>

definition spc_left :: "'w spx \<Rightarrow> nat \<times> nat" where
  "spc_left x = (nat (nCycles x), 0x10000 - unat (l_rPC x))"

lemma step_decreases:
  assumes "spc_step T x = Some (Next y)"
  shows "(spc_left y, spc_left x) \<in> less_than <*lex*> less_than"
proof (cases "implemented (opcode_at x)")
  case True
  with step_Next [OF assms] show ?thesis by (auto simp: spc_left_def)
next
  case False
  from step_fetch [OF assms] have "unat (l_rPC x) \<le> 0xFFFF" ..
  moreover from this have "unat (l_rPC x + 1) = unat (l_rPC x) + 1"
    by (simp add: unat_word_ariths)
  ultimately show ?thesis
    using step_Next_default [OF assms False] by (auto simp: spc_left_def)
qed

text \<open>A run in which no access is undefined ends.\<close>

lemma spc_loop_returns:
  assumes "\<And>y. spc_reach T x y \<Longrightarrow> spc_step T y \<noteq> None"
  shows "\<exists>y z. spc_reach T x y \<and> spc_step T y = Some (Done z) \<and> spc_loop T x = Some (Some z)"
  using assms
proof (induction "spc_left x" arbitrary: x rule: wf_induct [OF wf_lex_prod [OF wf_less_than wf_less_than]])
  case (1 x)
  from "1.prems" [OF reach_refl] obtain it where it: "spc_step T x = Some it" by blast
  show ?case
  proof (cases it)
    case (Done z)
    with it show ?thesis by (auto simp: spc_loop.simps intro: reach_refl)
  next
    case (Next y)
    have r: "spc_reach T x z" if "spc_reach T y z" for z
      using that by (induction rule: spc_reach.induct) (auto intro: reach_next reach_refl it [unfolded Next])
    from "1.hyps" step_decreases [OF it [unfolded Next]] "1.prems" [OF r]
    have "\<exists>v w. spc_reach T y v \<and> spc_step T v = Some (Done w) \<and> spc_loop T y = Some (Some w)" by blast
    with it Next r show ?thesis by (auto simp: spc_loop.simps)
  qed
qed

lemma reach_cycles:
  assumes "spc_reach T x y" and "0 < nCycles x" and "\<And>y. spc_reach T x y \<Longrightarrow> implemented (opcode_at y)"
  shows "- 42 \<le> nCycles y"
  using assms(1)
proof (cases rule: spc_reach.cases)
  case reach_refl
  with assms(2) show ?thesis by simp
next
  case (reach_next z)
  then show ?thesis using step_Next(3) [OF reach_next(2)] assms(3) by blast
qed

section \<open>Flags\<close>

text \<open>Packing what was unpacked gives the status word back.\<close>

lemma spc_pack_bits: "((p AND NOT 0x83) OR (ucast (ucast (p AND 1 :: u8) :: u32) AND 1))
    OR (ucast (drop_bit 8 (push_bit 8 (ucast p :: u32))) AND 0x80) OR (p AND 2) = (p :: u8)"
proof -
  have 1: "ucast (ucast (p AND 1) :: u32) AND 1 = p AND (1 :: u8)"
    by (rule bit_word_eqI) (auto simp: bit_simps)
  have 2: "ucast (drop_bit 8 (push_bit 8 (ucast p :: u32))) = p"
    by (rule bit_word_eqI) (auto simp: bit_simps dest: bit_imp_le_length)
  show ?thesis
    unfolding 1 2
    by (rule bit_word_eqI) (auto simp: bit_simps numeral_eq_Suc less_Suc_eq)
qed

lemma spc_pack_unpack:
  assumes "fC x = ucast (p AND SNSPC_FLAG_C)" and "fZ x = ucast ((p AND SNSPC_FLAG_Z) XOR SNSPC_FLAG_Z)"
    and "fN x = push_bit 8 (ucast p)" and "rPSW (Regs (pSpc x)) = p"
  shows "SNSPC_PACKFLAGS x = x"
proof -
  have z: "ucast ((p AND 2) XOR 2 :: u8) AND (0xFFFF :: u32) = 0 \<longleftrightarrow> p AND 2 = 2"
    using bit1_cases [of p] by auto
  have "spc_upd_regs (\<lambda>r. r\<lparr>rPSW := p\<rparr>) x = SNSPC_PACKFLAGS x"
    using assms spc_pack_bits [of p] z bit1_cases [of p]
    by (cases "p AND 2 = 2") (auto simp: SNSPC_PACKFLAGS_def spc_upd_regs_def Let_def spc_flag_defs or.assoc)
  moreover have "spc_upd_regs (\<lambda>r. r\<lparr>rPSW := p\<rparr>) x = x"
    by (simp add: spc_upd_regs_def flip: assms(4))
  ultimately show ?thesis by simp
qed

end
