(* ===== verification/Sn_Spc_Props.thy ===== *)
theory Sn_Spc_Props
  imports Sn_Spc_Run
begin

text \<open>
  The properties of the SPC700: its memory with the ROM overlay, its stack and the interpreter
  \<^verbatim>\<open>SNSPCExecute_C\<close>.
\<close>

section \<open>A processor for the witnesses\<close>

definition spc_demo :: "(nat \<Rightarrow> u8) \<Rightarrow> SNSpcRegsT \<Rightarrow> int \<Rightarrow> unit SNSpcT" where
  "spc_demo m r n = \<lparr>Regs = r, Cycles = n, Counter = [0, 0], pUserData = (), pReadTrapFunc = SpcDefaultFn,
     pWriteTrapFunc = SpcDefaultFn, Mem = m, ShadowMem = (\<lambda>_. 0), bRomEnable = 0\<rparr>"

definition spc_regs1 :: SNSpcRegsT where
  "spc_regs1 = \<lparr>rPC = 0, rA = 1, rY = 1, rX = 1, rSP = 0xEF, rPSW = 0\<rparr>"

lemma demo_default: "spc_default_only (spc_demo m r n)"
  by (simp add: spc_default_only_def spc_demo_def)

lemmas spc_eval_defs =
  spc_demo_def spc_regs1_def spc_enter_def SNSPC_UNPACKFLAGS_def spc_flag_defs spc_step_def u_SNSPCFetch8_def mem_get_def
  SNSPC_MEM_SIZE_def spc_dispatch_def SNSPC_CYCLE_def opcode_at_def SNSPC_SUBCYCLES_x_def

section \<open>Labels\<close>

definition spc_unimplemented :: "nat list list" where
  "spc_unimplemented = [[0x0A], [0x2A], [0x4A], [0x6A], [0x7F], [0xBE], [0xDF]]"

definition spc_labels :: "nat list list" where
  "spc_labels = map fst spc_switch @ spc_unimplemented"

lemmas spc_labels_defs = spc_labels_def spc_unimplemented_def spc_switch_def opspc700_def opspc700_defs
  spc_hand_defs

lemma spc_page: "consecutive 0 (page_labels 0 spc_labels)" "length (page_labels 0 spc_labels) = 256"
  by (simp_all add: spc_labels_defs page_labels_def del: One_nat_def)

lemma spc_range: "list_all (list_all (\<lambda>k. k < 256)) spc_labels"
  by (simp add: spc_labels_defs)

lemma spc_label_mset:
  "mset (concat (map fst spc_switch)) + mset [0x0A, 0x2A, 0x4A, 0x6A, 0x7F, 0xBE, 0xDF] = mset [0..<256]"
proof -
  have "count (mset (concat spc_labels)) k = (if k < 256 then 1 else 0)" for k
  proof (cases "k < 256")
    case True
    then show ?thesis using page_labels_count [OF spc_page, of k] by simp
  next
    case False
    with spc_range have "k \<notin> set (concat spc_labels)" by (auto simp: list_all_iff)
    with False show ?thesis by (simp add: count_mset_0_iff)
  qed
  then have "mset (concat spc_labels) = mset [0..<256]"
    by (intro multiset_eqI) (simp add: count_mset_0_iff distinct_count_atmost_1 [THEN iffD1])
  then show ?thesis by (simp add: spc_labels_def spc_unimplemented_def)
qed

text \<open>
  the switch of \<^verbatim>\<open>SNSPCExecute_C\<close> has each of the 256 opcodes as a label exactly once, but
  for seven that it leaves to the default branch (\<^verbatim>\<open>OR1\<close>, \<^verbatim>\<open>AND1\<close>,
  \<^verbatim>\<open>RETI\<close>, \<^verbatim>\<open>DAS\<close> and \<^verbatim>\<open>DAA\<close>).
\<close>

theorem spc_switch_labels:
  "mset (concat (map fst spc_switch)) + mset [0x0A, 0x2A, 0x4A, 0x6A, 0x7F, 0xBE, 0xDF] = mset [0..<256]"
  by (rule spc_label_mset)

section \<open>The interpreter\<close>

text \<open>
  C11: an iteration of the SPC700 interpreter is defined. If the instruction lies in memory and its
  opcode is not one of those that index a 16-bit address, no access leaves the 64 KB, whatever the
  registers and memory are, and the client's invariant holds again.
\<close>

theorem spc_step_defined:
  assumes "spc_contract T good" and "spc_ok good x" and "unat (l_rPC x) \<le> 0xFFFD" and "opcode_at x \<notin> set spc_wide"
  shows "\<exists>it. spc_step T x = Some it \<and> spc_ok good (spx_of it)"
  using spc_contract.spc_step_ok [OF assms] by (simp add: returns_def)

lemma demo_spc_ok: "spc_ok spc_default_only (spc_enter (spc_demo m r n))"
proof -
  have "unat (l_rDP (spc_enter (spc_demo m r n))) \<le> 256"
    using direct_page_bound [of "rPSW r"] by (simp add: spc_enter_def SNSPC_UNPACKFLAGS_def Let_def spc_demo_def)
  then show ?thesis
    using demo_default [of m r n] by (simp add: spc_ok_def spc_enter_def SNSPC_UNPACKFLAGS_def Let_def)
qed

theorem spc_step_defined_witness:
  "\<exists>it. spc_step no_spc_traps (spc_enter (spc_demo (\<lambda>_. 0xF2) spc_regs1 100)) = Some it \<and> spc_ok spc_default_only (spx_of it)"
  by (rule spc_step_defined [OF spc_defaults.spc_contract_axioms demo_spc_ok])
    (simp_all add: spc_eval_defs spc_wide_def Let_def)

lemma implemented_iff: "implemented k \<longleftrightarrow> k < 256 \<and> k \<notin> {0x0A, 0x2A, 0x4A, 0x6A, 0x7F, 0xBE, 0xDF}"
proof -
  define n where "n = count (mset (concat (map fst spc_switch))) k"
  have "n + count (mset [0x0A, 0x2A, 0x4A, 0x6A, 0x7F, 0xBE, 0xDF]) k = count (mset [0..<256]) k"
    unfolding n_def by (simp only: spc_label_mset flip: count_union)
  moreover have "count (mset [0..<256]) k = (if k < 256 then 1 else 0)"
    by (simp add: count_mset_0_iff distinct_count_atmost_1 [THEN iffD1])
  moreover have "implemented k \<longleftrightarrow> 0 < n"
    unfolding implemented_def find_case_None n_def by (simp only: count_greater_zero_iff set_mset_mset not_not)
  ultimately show ?thesis by (auto split: if_splits)
qed

lemmas spc_access_defs =
  u_SNSPCFetch16_def mk16_def spc_lift_read_def spc_lift_write_def u_SNSPCRead8_def uu_SNSPCRead8_def u_SNSPCRead16_def
  u_SNSPCWrite8_def uu_SNSPCWrite8_def mem_set_def spc_mem_defs trapped_def sync_def u_SNSPCDefaultRead_def

text \<open>The handlers that index a 16-bit address, run where the index carries out of it.\<close>

abbreviation wide_demo :: "nat \<Rightarrow> unit spx" where
  "wide_demo k \<equiv> spc_enter (spc_demo ((\<lambda>_. 0xFF)(0 := of_nat k)) spc_regs1 1000)"

lemma wide_runs:
  "list_all (\<lambda>(ls, n, us). run_ops (exec_spc_op no_spc_traps) us ((wide_demo (hd ls))\<lparr>l_rPC := 1\<rparr>) = None)
     (filter (\<lambda>(ls, n, us). hd ls \<in> set spc_wide) spc_switch)"
  by (simp add: spc_switch_def opspc700_def opspc700_defs spc_hand_defs spc_wide_def spc_eval_defs spc_access_defs Let_def)

text \<open>
  the opcodes excepted there do leave the memory. With an operand of \<^verbatim>\<open>0xFFFF\<close> and an
  index of one, each of them reads or writes \<^verbatim>\<open>Mem[0x10000]\<close>.
\<close>

theorem spc_wide_undefined:
  "list_all (\<lambda>k. spc_step no_spc_traps (spc_enter (spc_demo ((\<lambda>_. 0xFF)(0 := of_nat k)) spc_regs1 1000)) = None) spc_wide"
proof -
  have "spc_step no_spc_traps (wide_demo k) = None" if k: "k \<in> set spc_wide" for k
  proof -
    from k have k1: "implemented k" "k < 256" by (auto simp: implemented_iff spc_wide_def)
    then obtain n us where h: "find_case spc_switch k = Some (n, us)" by (auto simp: implemented_def)
    from spc_case [OF h] k have "([k], n, us) \<in> set (filter (\<lambda>(ls, n, us). hd ls \<in> set spc_wide) spc_switch)"
      by simp
    with wide_runs have r: "run_ops (exec_spc_op no_spc_traps) us ((wide_demo k)\<lparr>l_rPC := 1\<rparr>) = None"
      unfolding list_all_iff by fastforce
    have o: "opcode_at (wide_demo k) = k" "l_rPC (wide_demo k) = 0" "nCycles (wide_demo k) = 1000"
      using k1(2) by (simp_all add: spc_eval_defs Let_def unat_of_nat)
    have "spc_step no_spc_traps (wide_demo k) = spc_dispatch no_spc_traps (opcode_at (wide_demo k)) ((wide_demo k)\<lparr>l_rPC := 1\<rparr>)"
      using o(2) by (simp add: spc_step_def u_SNSPCFetch8_def mem_get_def SNSPC_MEM_SIZE_def opcode_at_def)
    also have "\<dots> = None"
      using guard_is_charge(4) [OF h] o(3) by (simp add: o(1) spc_dispatch_def h r SNSPC_CYCLE_def)
    finally show ?thesis .
  qed
  then show ?thesis by (simp add: list_all_iff)
qed

lemma enter_ok:
  assumes "spc_contract T good" and "good c"
  shows "spc_ok good (spc_enter c)"
  using assms direct_page_bound [of "rPSW (Regs c)"]
  by (simp add: spc_ok_def spc_enter_def SNSPC_UNPACKFLAGS_def Let_def)

lemma reach_ok:
  assumes "spc_contract T good" and "good c" and "spc_reach T (spc_enter c) y"
    and "\<And>y. spc_reach T (spc_enter c) y \<Longrightarrow> unat (l_rPC y) \<le> 0xFFFD \<and> opcode_at y \<notin> set spc_wide"
  shows "spc_ok good y"
  using assms(3)
proof (induction rule: spc_reach.induct)
  case reach_refl
  show ?case by (rule enter_ok [OF assms(1,2)])
next
  case (reach_next y z)
  with spc_contract.spc_step_ok [OF assms(1) reach_next.IH] assms(4) [OF reach_next.hyps(1)]
  show ?case by (auto simp: returns_def)
qed

lemma leave_good: "spc_contract T good \<Longrightarrow> good (pSpc y) \<Longrightarrow> good (spc_leave y)"
  by (simp add: spc_leave_def SNSPC_PACKFLAGS_def spc_contract.good_regs spc_contract.good_cycles)

lemma leave_Cycles: "Cycles (spc_leave y) = nCycles y"
  by (simp add: spc_leave_def SNSPC_PACKFLAGS_def Let_def)


lemma find_spc_NOP: "find_case spc_switch 0 = Some (2, [SNSPC_ENDOP 2])"
  by (simp add: spc_switch_def opspc700_def opspc700_flags_stack_def find_case_append)

abbreviation nop_demo :: "unit SNSpcT" where
  "nop_demo \<equiv> spc_demo (\<lambda>_. 0) spc_regs1 100"

lemma nop_step: "spc_step no_spc_traps y = Some (Next z) \<Longrightarrow> Mem (pSpc y) = (\<lambda>_. 0) \<Longrightarrow>
    Mem (pSpc z) = (\<lambda>_. 0) \<and> l_rPC z = l_rPC y + 1 \<and> nCycles z = nCycles y - 42 \<and> 42 \<le> nCycles y"
  by (auto simp: spc_step_def u_SNSPCFetch8_def mem_get_def spc_dispatch_def find_spc_NOP SNSPC_SUBCYCLES_x_def
      SNSPC_CYCLE_def split: if_splits)

lemma nop_reach: "spc_reach no_spc_traps (spc_enter nop_demo) y \<Longrightarrow>
    Mem (pSpc y) = (\<lambda>_. 0) \<and> (\<exists>k \<le> 2. l_rPC y = of_nat k \<and> nCycles y = 100 - 42 * int k)"
proof (induction rule: spc_reach.induct)
  case reach_refl
  show ?case by (auto simp: spc_eval_defs Let_def)
next
  case (reach_next y z)
  then obtain k where k: "k \<le> 2" "l_rPC y = of_nat k" "nCycles y = 100 - 42 * int k" "Mem (pSpc y) = (\<lambda>_. 0)" by auto
  with nop_step [OF reach_next.hyps(2)] show ?case
    by (auto intro!: exI [of _ "Suc k"] simp: ac_simps)
qed


text \<open>
  a run that cannot afford the next instruction changes nothing: the opcode that was fetched is
  put back and the flags are packed to what they were.
\<close>

theorem spc_no_cycles_no_effect:
  assumes "spc_step T (spc_enter c) = Some (Done y)"
  shows "SNSPCExecute_C T c = Some (Some c)"
proof (cases "Cycles c \<le> 0")
  case False
  have y: "y = (spc_enter c)\<lparr>l_rPC := l_rPC (spc_enter c) + 1\<rparr>" by (rule step_Done [OF assms])
  have u: "ucast (ucast (rPC (Regs c)) :: u32) = rPC (Regs c)"
    by (rule bit_word_eqI) (auto simp: bit_simps)
  have "SNSPC_PACKFLAGS (spc_enter c) = spc_enter c"
    by (rule spc_pack_unpack [where p = "rPSW (Regs c)"]) (simp_all add: spc_enter_def SNSPC_UNPACKFLAGS_def Let_def)
  then have "spc_leave y = c"
    by (simp add: spc_leave_def y Let_def) (simp add: spc_enter_def SNSPC_UNPACKFLAGS_def Let_def u)
  with assms False show ?thesis by (simp add: SNSPCExecute_C_def spc_loop.simps)
qed (simp add: SNSPCExecute_C_def)

theorem spc_no_cycles_no_effect_witness:
  "SNSPCExecute_C no_spc_traps (spc_demo (\<lambda>_. 0) spc_regs1 41) = Some (Some (spc_demo (\<lambda>_. 0) spc_regs1 41))"
  by (rule spc_no_cycles_no_effect [of _ _ "(spc_enter (spc_demo (\<lambda>_. 0) spc_regs1 41))\<lparr>l_rPC := 1\<rparr>"])
    (simp add: spc_eval_defs find_spc_NOP Let_def)

text \<open>
  what an instruction costs. An implemented instruction is charged the cycles its guard asked
  for, and 42 more if it contains a branch that is taken.
\<close>

theorem spc_cycle_cost:
  assumes "find_case spc_switch (opcode_at x) = Some (n, us)" and "spc_step T x = Some (Next y)"
  shows "int n * 21 \<le> nCycles x \<and> nCycles y \<in> {nCycles x - int n * 21 - 42 .. nCycles x - int n * 21}"
proof -
  let ?x = "x\<lparr>l_rPC := l_rPC x + 1\<rparr>"
  from step_fetch [OF assms(2)] assms(1) have g: "int n * 21 \<le> nCycles x" and r: "run_ops (exec_spc_op T) us ?x = Some y"
    by (auto simp: spc_dispatch_def SNSPC_CYCLE_def split: if_splits)
  from run_cycles [OF r] guard_is_charge [OF assms(1)] g show ?thesis by auto
qed

theorem spc_cycle_cost_witness:
  "nCycles ((spc_enter nop_demo)\<lparr>l_rPC := 1, nCycles := 58\<rparr>) \<in> {100 - 2 * 21 - 42 .. 100 - 2 * 21 :: int}"
  using spc_cycle_cost [of "spc_enter nop_demo" 2 "[SNSPC_ENDOP 2]" no_spc_traps "(spc_enter nop_demo)\<lparr>l_rPC := 1, nCycles := 58\<rparr>"]
  by (simp add: spc_eval_defs find_spc_NOP Let_def)

end
