(* ===== verification/Sn_Spc_Mem_Props.thy ===== *)
theory Sn_Spc_Mem_Props
  imports Sn_Spc_Props
begin

text \<open>
  The memory of the SPC700 as the program sees it: 64 KB of RAM, with the boot ROM in front of its
  last 64 bytes while it is enabled. Then the stack, subroutine calls, and the arithmetic of
  \<^verbatim>\<open>MUL\<close> and \<^verbatim>\<open>DIV\<close>.
\<close>

section \<open>RAM behind the boot ROM\<close>

text \<open>The abstraction: the RAM, wherever its bytes are kept.\<close>

definition ram :: "'w SNSpcT \<Rightarrow> nat \<Rightarrow> u8" where
  "ram c = (\<lambda>i. if bRomEnable c \<noteq> 0 \<and> SNSPC_ROM_ADDR \<le> i \<and> i < SNSPC_MEM_SIZE then ShadowMem c (i - SNSPC_ROM_ADDR) else Mem c i)"

text \<open>While the ROM is enabled its bytes are in place.\<close>

definition rom_ok :: "'w SNSpcT \<Rightarrow> bool" where
  "rom_ok c \<longleftrightarrow> (bRomEnable c \<noteq> 0 \<longrightarrow> (\<forall>i < SNSPC_ROM_SIZE. Mem c (SNSPC_ROM_ADDR + i) = SNSpcRomGetRomData i))"

text \<open>
  The flag is compared as a byte. The reset stores 1 in it and a write to the control register stores
  \<open>0x80\<close>, so the same request can count as a change.
\<close>

definition rom_clash :: "'w SNSpcT \<Rightarrow> u8 \<Rightarrow> bool" where
  "rom_clash c b \<longleftrightarrow> b \<noteq> 0 \<and> bRomEnable c \<noteq> 0 \<and> b \<noteq> bRomEnable c"

lemma SetRomEnable_ram: "\<not> rom_clash c b \<Longrightarrow> ram (SNSPCSetRomEnable c b) = ram c"
  by (rule ext) (auto simp: ram_def SNSPCSetRomEnable_def copy_to_def spc_mem_defs rom_clash_def)

lemma SetRomEnable_clash:
  "rom_clash c b \<Longrightarrow> ram (SNSPCSetRomEnable c b) = copy_to SNSPC_ROM_ADDR SNSPC_ROM_SIZE (\<lambda>i. Mem c (SNSPC_ROM_ADDR + i)) (ram c)"
  by (rule ext) (auto simp: ram_def SNSPCSetRomEnable_def copy_to_def spc_mem_defs rom_clash_def)

lemma SetRomEnable_rom_ok: "rom_ok c \<Longrightarrow> rom_ok (SNSPCSetRomEnable c b)"
  by (auto simp: rom_ok_def SNSPCSetRomEnable_def copy_to_def spc_mem_defs)

lemma shadow_index_eq:
  assumes "SNSPC_ROM_ADDR \<le> unat a" and "unat a < SNSPC_MEM_SIZE"
  shows "shadow_index a = unat a - SNSPC_ROM_ADDR"
proof -
  have "a AND 0x3F = take_bit 6 a" by (simp add: take_bit_eq_mask mask_eq_exp_minus_1)
  then have "shadow_index a = unat a mod 64"
    unfolding shadow_index_def by (simp only: unsigned_take_bit_eq) (simp add: take_bit_eq_mod)
  moreover obtain k where k: "unat a = k + 1023 * 64" "k < 64"
    using assms le_Suc_ex [of 65472 "unat a"] by (auto simp: spc_mem_defs)
  then have "unat a mod 64 = k" by (simp only: mod_mult_self1) simp
  ultimately show ?thesis using k by (simp add: spc_mem_defs)
qed

lemma Write8_untrapped:
  assumes "\<not> trapped a" and "unat a < SNSPC_MEM_SIZE"
  shows "SNSPCWrite8 T c a v = Some (if unat a < SNSPC_ROM_ADDR \<or> bRomEnable c = 0 then c\<lparr>Mem := (Mem c)(unat a := v)\<rparr>
           else c\<lparr>ShadowMem := (ShadowMem c)(shadow_index a := v)\<rparr>)"
  using assms by (simp add: SNSPCWrite8_def mem_set_def)

text \<open>The accessors inlined in the interpreter are those of \<^verbatim>\<open>snspc.c\<close>.\<close>

lemma inlined_accessors: "uu_SNSPCRead8 T c a = SNSPCRead8 T c a" "uu_SNSPCWrite8 T c a v = SNSPCWrite8 T c a v"
  by (simp_all add: uu_SNSPCRead8_def SNSPCRead8_def uu_SNSPCWrite8_def SNSPCWrite8_def)

text \<open>Outside the ROM and the trapped registers this is a memory as the interface has it.\<close>

definition spc_plain :: "'w SNSpcT \<Rightarrow> u32 \<Rightarrow> bool" where
  "spc_plain c a \<longleftrightarrow> \<not> trapped a \<and> unat a < SNSPC_MEM_SIZE \<and> (bRomEnable c \<noteq> 0 \<longrightarrow> unat a < SNSPC_ROM_ADDR)"

interpretation spc_bus: byte_bus "SNSPCRead8 T" "SNSPCWrite8 T" spc_plain "\<lambda>c. unat" Mem for T :: "'w spc_traps"
proof
  show "SNSPCRead8 T c a = Some (Mem c (unat a), c)" if "spc_plain c a" for c :: "'w SNSpcT" and a
    using that by (simp add: spc_plain_def SNSPCRead8_def mem_get_def)
  show "returns (SNSPCWrite8 T c a v) (\<lambda>c'. Mem c' = (Mem c)(unat a := v) \<and> spc_plain c' = spc_plain c \<and> unat = unat)"
    if "spc_plain c a" for c :: "'w SNSpcT" and a v
    using that by (auto simp: spc_plain_def [abs_def] Write8_untrapped)
qed

section \<open>Memory properties\<close>

text \<open>
  C13: switching the boot ROM on and off leaves the RAM behind it as it is, except when it is switched on
  with a different non-zero byte than the one it is on with: then the ROM overwrites the RAM.
\<close>

theorem rom_switch_keeps_ram:
  assumes "rom_ok c"
  shows "ram (SNSPCSetRomEnable c b) =
    (if b \<noteq> 0 \<and> bRomEnable c \<noteq> 0 \<and> b \<noteq> bRomEnable c
     then copy_to SNSPC_ROM_ADDR SNSPC_ROM_SIZE SNSpcRomGetRomData (ram c) else ram c)"
proof (cases "rom_clash c b")
  case True
  then have "Mem c (SNSPC_ROM_ADDR + i) = SNSpcRomGetRomData i" if "i < SNSPC_ROM_SIZE" for i
    using assms that by (simp add: rom_ok_def rom_clash_def)
  then have "Mem c i = SNSpcRomGetRomData (i - SNSPC_ROM_ADDR)" if "SNSPC_ROM_ADDR \<le> i" "i < SNSPC_ROM_ADDR + SNSPC_ROM_SIZE" for i
    using that by (metis le_add_diff_inverse nat_add_left_cancel_less)
  then have "copy_to SNSPC_ROM_ADDR SNSPC_ROM_SIZE (\<lambda>i. Mem c (SNSPC_ROM_ADDR + i)) (ram c) =
      copy_to SNSPC_ROM_ADDR SNSPC_ROM_SIZE SNSpcRomGetRomData (ram c)"
    by (auto simp: copy_to_def fun_eq_iff)
  with True show ?thesis using SetRomEnable_clash [OF True] by (simp add: rom_clash_def)
next
  case False
  then show ?thesis using SetRomEnable_ram [OF False] by (auto simp: rom_clash_def)
qed

theorem rom_switch_keeps_ram_witness:
  "ram (SNSPCSetRomEnable (SNSPCSetRomEnable (spc_demo (\<lambda>_. 7) spc_regs1 0) 1) 0x80) 0xFFC2 = 0xBD"
proof -
  have "rom_ok (SNSPCSetRomEnable (spc_demo (\<lambda>_. 7) spc_regs1 0) 1)"
    by (rule SetRomEnable_rom_ok) (simp add: rom_ok_def spc_demo_def)
  from rom_switch_keeps_ram [OF this, of "0x80"] show ?thesis
    by (simp add: SNSPCSetRomEnable_def spc_demo_def copy_to_def spc_mem_defs SNSpcRomGetRomData_def u_SNSPCRom_RomData_def)
qed

text \<open>
  C14: a write reaches the RAM also where the boot ROM is in front of it, and only the byte it is meant
  for; the ROM is not overwritten.
\<close>

theorem write_refines_ram:
  assumes "\<not> trapped a" and "unat a < SNSPC_MEM_SIZE" and "rom_ok c"
  shows "\<exists>c'. SNSPCWrite8 T c a v = Some c' \<and> ram c' = (ram c)(unat a := v) \<and> rom_ok c' \<and> bRomEnable c' = bRomEnable c"
proof (cases "unat a < SNSPC_ROM_ADDR \<or> bRomEnable c = 0")
  case True
  then show ?thesis
    using assms by (auto simp: Write8_untrapped ram_def rom_ok_def fun_eq_iff)
next
  case False
  with assms shadow_index_eq [of a] show ?thesis
    by (auto simp: Write8_untrapped ram_def rom_ok_def fun_eq_iff)
qed

theorem write_refines_ram_witness:
  "\<exists>c'. SNSPCWrite8 no_spc_traps (SNSPCSetRomEnable (spc_demo (\<lambda>_. 7) spc_regs1 0) 1) 0xFFC2 9 = Some c' \<and>
     ram c' = (\<lambda>_. 7)(0xFFC2 := 9) \<and> rom_ok c' \<and> bRomEnable c' = 1"
proof -
  let ?c = "SNSPCSetRomEnable (spc_demo (\<lambda>_. 7) spc_regs1 0) 1"
  have r: "ram ?c = (\<lambda>_. 7)" by (subst SetRomEnable_ram) (simp_all add: rom_clash_def ram_def spc_demo_def)
  have o: "rom_ok ?c" by (rule SetRomEnable_rom_ok) (simp add: rom_ok_def spc_demo_def)
  have b: "bRomEnable ?c = 1" by (simp add: SNSPCSetRomEnable_def spc_demo_def)
  have "\<not> trapped 0xFFC2" "unat (0xFFC2 :: u32) < SNSPC_MEM_SIZE" by (simp_all add: trapped_def SNSPC_MEM_SIZE_def)
  from write_refines_ram [OF this o, of no_spc_traps 9] r b show ?thesis by simp
qed

text \<open>
  C15: a read gives the RAM, or the boot ROM where that is in front, and has no effect.
\<close>

theorem read_refines_ram:
  assumes "\<not> trapped a" and "unat a < SNSPC_MEM_SIZE" and "rom_ok c"
  shows "SNSPCRead8 T c a = Some (if bRomEnable c \<noteq> 0 \<and> SNSPC_ROM_ADDR \<le> unat a then SNSpcRomGetRomData (unat a - SNSPC_ROM_ADDR)
           else ram c (unat a), c)"
proof (cases "bRomEnable c \<noteq> 0 \<and> SNSPC_ROM_ADDR \<le> unat a")
  case True
  with assms(2,3) have "unat a - SNSPC_ROM_ADDR < SNSPC_ROM_SIZE" "bRomEnable c \<noteq> 0"
    and r: "\<forall>i < SNSPC_ROM_SIZE. Mem c (SNSPC_ROM_ADDR + i) = SNSpcRomGetRomData i"
    by (auto simp: spc_mem_defs rom_ok_def)
  from r [rule_format, OF this(1)]
  have "Mem c (SNSPC_ROM_ADDR + (unat a - SNSPC_ROM_ADDR)) = SNSpcRomGetRomData (unat a - SNSPC_ROM_ADDR)" .
  with True assms show ?thesis by (simp add: SNSPCRead8_def mem_get_def)
next
  case False
  with assms show ?thesis by (auto simp: SNSPCRead8_def mem_get_def ram_def)
qed

theorem read_refines_ram_witness:
  "SNSPCRead8 no_spc_traps (SNSPCSetRomEnable (spc_demo (\<lambda>_. 7) spc_regs1 0) 1) 0xFFC2 =
     Some (0xBD, SNSPCSetRomEnable (spc_demo (\<lambda>_. 7) spc_regs1 0) 1)"
proof -
  let ?c = "SNSPCSetRomEnable (spc_demo (\<lambda>_. 7) spc_regs1 0) 1"
  have o: "rom_ok ?c" by (rule SetRomEnable_rom_ok) (simp add: rom_ok_def spc_demo_def)
  have b: "bRomEnable ?c = 1" by (simp add: SNSPCSetRomEnable_def spc_demo_def)
  have "\<not> trapped 0xFFC2" "unat (0xFFC2 :: u32) < SNSPC_MEM_SIZE" by (simp_all add: trapped_def SNSPC_MEM_SIZE_def)
  from read_refines_ram [OF this o, of no_spc_traps] b show ?thesis
    by (simp add: SNSPC_ROM_ADDR_def SNSpcRomGetRomData_def u_SNSPCRom_RomData_def)
qed

text \<open>
  power on. After \<^verbatim>\<open>SNSPCNew\<close> the RAM is clear, the boot ROM is in place and in front, and the
  processor is about to run its first instruction, at \<^verbatim>\<open>0xFFC0\<close>.
\<close>

theorem spc_boot:
  "\<exists>c'. SNSPCNew T c = Some c' \<and> rom_ok c' \<and> bRomEnable c' = 1 \<and> (\<forall>i. ram c' i = (if i < SNSPC_MEM_SIZE then 0 else Mem c i)) \<and>
     rPC (Regs c') = 0xFFC0 \<and> rPSW (Regs c') = 0 \<and> Cycles c' = 0"
proof -
  define c1 where "c1 = SNSPCResetCounters (SNSPCResetRegs (c\<lparr>pReadTrapFunc := SpcDefaultFn, pWriteTrapFunc := SpcDefaultFn, bRomEnable := 0\<rparr>))"
  define c2 where "c2 = SNSPCSetRomEnable (c1\<lparr>bRomEnable := 0, Mem := copy_to 0 SNSPC_MEM_SIZE (\<lambda>i. 0) (Mem c1)\<rparr>) 1"
  have m: "Mem c1 = Mem c" by (simp add: c1_def SNSPCResetCounters_def SNSPCResetRegs_def)
  have r: "ram c2 = (\<lambda>i. if i < SNSPC_MEM_SIZE then 0 else Mem c i)"
    unfolding c2_def by (subst SetRomEnable_ram) (simp_all add: rom_clash_def ram_def copy_to_def fun_eq_iff m)
  have o: "rom_ok c2" unfolding c2_def by (rule SetRomEnable_rom_ok) (simp add: rom_ok_def)
  have b: "bRomEnable c2 = 1" "Cycles c2 = 0" by (simp_all add: c2_def SNSPCSetRomEnable_def c1_def SNSPCResetCounters_def)
  define c3 where "c3 = c2\<lparr>Regs := (Regs c2)\<lparr>rPSW := 0\<rparr>\<rparr>"
  have m3: "Mem c3 0xFFFE = 0xC0" "Mem c3 0xFFFF = 0xFF"
    by (simp_all add: c3_def c2_def SNSPCSetRomEnable_def copy_to_def spc_mem_defs SNSpcRomGetRomData_def u_SNSPCRom_RomData_def)
  have v: "SNSPCRead16 T c3 SNSPC_VECTOR_RESET = Some (0xFFC0, c3)"
    by (simp add: SNSPCRead16_def SNSPC_VECTOR_RESET_def SNSPCRead8_def trapped_def mem_get_def SNSPC_MEM_SIZE_def m3 mk16_def)
  have "SNSPCNew T c = Some (c3\<lparr>Regs := (Regs c3)\<lparr>rPC := 0xFFC0\<rparr>\<rparr>)"
    by (simp add: SNSPCNew_def SNSPCReset_def Let_def c1_def [symmetric] c2_def [symmetric] c3_def [symmetric] v)
  moreover have "rom_ok (c3\<lparr>Regs := x\<rparr>)" "ram (c3\<lparr>Regs := x\<rparr>) = ram c2" for x
    using o by (simp_all add: rom_ok_def ram_def c3_def fun_eq_iff)
  ultimately show ?thesis using b r by (auto simp: c3_def)
qed

section \<open>Stack and calls\<close>

lemma spc_push_pop_lemma:
  "\<exists>m. u_SNSPCPop16 (u_SNSPCPush16 c w) = (w, c\<lparr>Mem := m\<rparr>) \<and>
     (\<forall>i. m i = Mem c i \<or> i = 0x100 + unat (rSP (Regs c)) \<or> i = 0x100 + unat (rSP (Regs c) - 1))"
proof -
  have "rSP (Regs c) - 1 \<noteq> rSP (Regs c)" by simp
  then have "unat (rSP (Regs c) - 1) \<noteq> unat (rSP (Regs c))" by (simp only: word_unat_eq_iff not_False_eq_True)
  then show ?thesis
    by (simp add: u_SNSPCPop16_def u_SNSPCPush16_def move_SP_def stack_cell_def Let_def) (intro exI conjI refl, auto split: if_splits)
qed

text \<open>
  the stack. A word that was pushed is popped again and the stack pointer is back; the pointer
  wraps inside page one, so this holds wherever it starts.
\<close>

theorem spc_push_pop:
  "\<exists>m. u_SNSPCPop16 (u_SNSPCPush16 c w) = (w, c\<lparr>Mem := m\<rparr>) \<and>
     (\<forall>i. m i = Mem c i \<or> i = 0x100 + unat (rSP (Regs c)) \<or> i = 0x100 + unat (rSP (Regs c) - 1))"
  by (rule spc_push_pop_lemma)

lemma spc_switch_case: "([k], n, us) \<in> set spc_switch \<Longrightarrow> find_case spc_switch k = Some (n, us)"
proof (rule find_case_unique [of _ "[k]"])
  have "mset (concat spc_labels) = mset [0..<256]"
    using spc_label_mset by (simp add: spc_labels_def spc_unimplemented_def)
  then have "distinct (concat spc_labels)" by (metis distinct_upt mset_eq_imp_distinct_iff)
  then show "distinct (concat (map fst spc_switch))" by (simp add: spc_labels_def)
qed simp_all

lemma spc_case_CALL: "find_case spc_switch 0x3F = Some (8, [SNSPC_FETCH16 t0, SNSPC_GET_PC t2, SNSPC_PUSH16 t2,
    SNSPC_SET_PC16 t0, SNSPC_ENDOP 8])"
  and spc_case_RET: "find_case spc_switch 0x6F = Some (5, [SNSPC_POP16 t0, SNSPC_SET_PC16 t0, SNSPC_ENDOP 5])"
  and spc_case_MUL: "find_case spc_switch 0xCF = Some (9, [SNSPC_GET_Y8 t0, SNSPC_GET_A8 t1, SNSPC_MUL t1 t0, SNSPC_SET_YA16 t1,
    SNSPC_SETFLAG_Z16 t1, SNSPC_SETFLAG_N16 t1, SNSPC_ENDOP 9])"
  and spc_case_DIV: "find_case spc_switch 0x9E = Some (12, [SNSPC_GET_YA16 t0, SNSPC_GET_X8 t1, SNSPC_CLRFLAG_V, DIV_block,
    SNSPC_SET_A8 t2, SNSPC_SET_Y8 t1, SNSPC_SETFLAG_N8 t2, SNSPC_SETFLAG_Z8 t2, SNSPC_ENDOP 12])"
  by (rule spc_switch_case; simp add: spc_switch_def opspc700_def opspc700_jumps_def opspc700_words_def spc_misc_def)+

text \<open>
  a subroutine call and its return. \<^verbatim>\<open>CALL\<close> goes to its operand with the address of
  the next instruction on the stack; \<^verbatim>\<open>RET\<close> from there comes back to it with all registers as
  before the call.
\<close>

theorem spc_call_return:
  assumes "unat (l_rPC x) \<le> 0xFFFD" and "13 * 21 \<le> nCycles x"
  shows "\<exists>y z. spc_dispatch T 0x3F x = Some (Next y) \<and> spc_dispatch T 0x6F y = Some (Next z) \<and>
     l_rPC y = ucast (mk16 (Mem (pSpc x) (unat (l_rPC x + 1))) (Mem (pSpc x) (unat (l_rPC x)))) \<and>
     l_rPC z = l_rPC x + 2 \<and> Regs (pSpc z) = Regs (pSpc x) \<and> nCycles z = nCycles x - 13 * 21"
proof -
  have 1: "unat (l_rPC x + 1) \<le> 0xFFFE" using unat_succ [OF assms(1)] by simp
  have 2: "unat (l_rPC x + 2) \<le> 0xFFFF" using add_bound [OF assms(1), of 2 2] by simp
  have f: "u_SNSPCFetch16 (pSpc x) (l_rPC x) = Some (mk16 (Mem (pSpc x) (unat (l_rPC x + 1))) (Mem (pSpc x) (unat (l_rPC x))))"
    using assms(1) 1 by (simp add: u_SNSPCFetch16_def mem_get_in)
  have u: "ucast (ucast (l_rPC x + 2) :: u16) = l_rPC x + 2"
    using 2 by (intro word_unat_eq_iff [THEN iffD2]) (simp add: unat_ucast_u32_u16)
  obtain m where m: "u_SNSPCPop16 (u_SNSPCPush16 (pSpc x) (ucast (l_rPC x + 2))) = (ucast (l_rPC x + 2), (pSpc x)\<lparr>Mem := m\<rparr>)"
    using spc_push_pop_lemma [of "pSpc x" "ucast (l_rPC x + 2)"] by blast
  show ?thesis
    using assms(2)
    by (simp add: spc_dispatch_def spc_case_CALL spc_case_RET SNSPC_CYCLE_def f SNSPC_SUBCYCLES_x_def spc_lift_read_def m u)
qed

theorem spc_call_return_witness:
  "\<exists>y z. spc_dispatch no_spc_traps 0x3F (spc_enter (spc_demo (\<lambda>_. 5) spc_regs1 1000)) = Some (Next y) \<and>
     spc_dispatch no_spc_traps 0x6F y = Some (Next z) \<and> l_rPC y = 0x505 \<and> l_rPC z = 2 \<and> Regs (pSpc z) = spc_regs1"
  using spc_call_return [of "spc_enter (spc_demo (\<lambda>_. 5) spc_regs1 1000)" no_spc_traps]
  by (simp add: spc_enter_def SNSPC_UNPACKFLAGS_def Let_def spc_demo_def) (simp add: spc_regs1_def mk16_def, blast)

section \<open>Multiplication and division\<close>

text \<open>
  \<^verbatim>\<open>MUL\<close>. The product of \<^verbatim>\<open>Y\<close> and \<^verbatim>\<open>A\<close> is left in
  \<^verbatim>\<open>YA\<close>, high byte in \<^verbatim>\<open>Y\<close>; it always fits.
\<close>

theorem spc_MUL:
  assumes "9 * 21 \<le> nCycles x"
  shows "\<exists>y. spc_dispatch T 0xCF x = Some (Next y) \<and>
     256 * unat (rY (Regs (pSpc y))) + unat (rA (Regs (pSpc y))) = unat (rY (Regs (pSpc x))) * unat (rA (Regs (pSpc x)))"
proof -
  define w :: u32 where "w = ucast (rA (Regs (pSpc x))) * ucast (rY (Regs (pSpc x)))"
  have n: "unat w = unat (rY (Regs (pSpc x))) * unat (rA (Regs (pSpc x)))"
    by (simp add: w_def unat_mult_u8)
  have "unat w \<le> 255 * 255" unfolding n by (intro mult_le_mono unat_u8_le)
  then have "256 * unat (ucast (drop_bit 8 w) :: u8) + unat (ucast w :: u8) = unat w"
    by (simp add: unat_ucast_u32_u8 drop_bit_eq_div unat_div)
  with n show ?thesis
    using assms by (simp add: spc_dispatch_def spc_case_MUL SNSPC_CYCLE_def SNSPC_SUBCYCLES_x_def w_def [symmetric])
qed

theorem spc_MUL_witness:
  "\<exists>y. spc_dispatch no_spc_traps 0xCF (spc_enter (spc_demo (\<lambda>_. 0) (spc_regs1\<lparr>rA := 200, rY := 100\<rparr>) 1000)) = Some (Next y) \<and>
     256 * unat (rY (Regs (pSpc y))) + unat (rA (Regs (pSpc y))) = 20000"
  using spc_MUL [of "spc_enter (spc_demo (\<lambda>_. 0) (spc_regs1\<lparr>rA := 200, rY := 100\<rparr>) 1000)" no_spc_traps]
  by (simp add: spc_enter_def SNSPC_UNPACKFLAGS_def Let_def spc_demo_def)

text \<open>
  \<^verbatim>\<open>DIV\<close>. With a non-zero divisor, \<^verbatim>\<open>A\<close> becomes the quotient of
  \<^verbatim>\<open>YA\<close> by \<^verbatim>\<open>X\<close> modulo 256 and \<^verbatim>\<open>Y\<close> the remainder; the overflow flag
  says whether the quotient needed more than a byte.
\<close>

theorem spc_DIV:
  assumes "12 * 21 \<le> nCycles x" and "rX (Regs (pSpc x)) \<noteq> 0"
  shows "\<exists>y. spc_dispatch T 0x9E x = Some (Next y) \<and>
     (let YA = 256 * unat (rY (Regs (pSpc x))) + unat (rA (Regs (pSpc x))); X = unat (rX (Regs (pSpc x))) in
      rA (Regs (pSpc y)) = of_nat (YA div X) \<and> unat (rY (Regs (pSpc y))) = YA mod X \<and>
      (rPSW (Regs (pSpc y)) AND SNSPC_FLAG_V \<noteq> 0 \<longleftrightarrow> 256 \<le> YA div X))"
proof -
  define YA where "YA = join16 (rY (Regs (pSpc x))) (rA (Regs (pSpc x)))"
  define X where "X = (ucast (rX (Regs (pSpc x))) :: u32)"
  have X: "X \<noteq> 0" "unat X = unat (rX (Regs (pSpc x)))" using assms(2) by (simp_all add: X_def word_unat_eq_iff)
  have q: "0x100 \<le> YA div X \<longleftrightarrow> 256 \<le> unat YA div unat X" by (simp add: word_le_nat_alt unat_div)
  have r: "(ucast (YA mod X) :: u8) = of_nat (unat YA mod unat X)" "(ucast (YA div X) :: u8) = of_nat (unat YA div unat X)"
    unfolding ucast_parts unat_mod unat_div by (rule refl)+
  have "unat YA mod unat X < 256" using X unat_u8_le [of "rX (Regs (pSpc x))"]
    by (intro less_le_trans [OF mod_less_divisor]) (simp_all add: word_unat_eq_iff)
  then have y: "unat (of_nat (unat YA mod unat X) :: u8) = unat YA mod unat X" by (simp add: unat_of_nat)
  have v: "(p AND NOT SNSPC_FLAG_V) AND SNSPC_FLAG_V = 0" "((p AND NOT SNSPC_FLAG_V) OR SNSPC_FLAG_V) AND SNSPC_FLAG_V \<noteq> 0" for p
    by (simp_all add: word_ao_dist and.assoc) (simp add: SNSPC_FLAG_V_def)
  show ?thesis
    using assms(1) X r y v q unfolding join16_unat [symmetric]
    by (simp add: spc_dispatch_def spc_case_DIV SNSPC_CYCLE_def SNSPC_SUBCYCLES_x_def div_block_def Let_def YA_def [symmetric] X_def [symmetric])
qed

theorem spc_DIV_witness:
  "\<exists>y. spc_dispatch no_spc_traps 0x9E (spc_enter (spc_demo (\<lambda>_. 0) (spc_regs1\<lparr>rA := 0x34, rY := 0x12, rX := 0x20\<rparr>) 1000)) = Some (Next y) \<and>
     rA (Regs (pSpc y)) = 0x91 \<and> unat (rY (Regs (pSpc y))) = 0x14 \<and> rPSW (Regs (pSpc y)) AND SNSPC_FLAG_V = 0"
  using spc_DIV [of "spc_enter (spc_demo (\<lambda>_. 0) (spc_regs1\<lparr>rA := 0x34, rY := 0x12, rX := 0x20\<rparr>) 1000)" no_spc_traps]
  by (simp add: spc_enter_def SNSPC_UNPACKFLAGS_def Let_def spc_demo_def)

end
