(* ===== verification/Queue_Contracts.thy ===== *)
theory Queue_Contracts
  imports Prelude
begin

text \<open>
  What the netplay protocol relies on in its queues, as two contracts. \<^verbatim>\<open>bounded_fifo\<close> is a
  first-in first-out queue of limited length, specified by a list. \<^verbatim>\<open>stream_window\<close> is a
  window of a stream: its elements have absolute positions, a receiver appends an element only at its
  position, and a sender can fetch again what has not been acknowledged. The lemmas of the second
  contract are the argument that makes the protocol deliver a stream in order: they are about any
  queue that meets the contract.
\<close>

section \<open>A bounded queue\<close>

datatype 'e fifo_op = Enq 'e | Deq

fun list_fifo :: "nat \<Rightarrow> 'e fifo_op \<Rightarrow> 'e list \<Rightarrow> (bool \<times> 'e option) \<times> 'e list" where
  "list_fifo cap (Enq e) xs = (if length xs < cap then ((True, None), xs @ [e]) else ((False, None), xs))"
| "list_fifo cap Deq [] = ((False, None), [])"
| "list_fifo cap Deq (x # xs) = ((True, Some x), xs)"

fun fifo_step :: "('q \<Rightarrow> 'e \<Rightarrow> bool \<times> 'q) \<Rightarrow> ('q \<Rightarrow> 'e option \<times> 'q) \<Rightarrow> 'e fifo_op \<Rightarrow> 'q \<Rightarrow> (bool \<times> 'e option) \<times> 'q" where
  "fifo_step enq deq (Enq e) q = (let (b, q) = enq q e in ((b, None), q))"
| "fifo_step enq deq Deq q = (let (r, q) = deq q in ((r \<noteq> None, r), q))"

fun fifo_trace :: "('o \<Rightarrow> 'q \<Rightarrow> 'r \<times> 'q) \<Rightarrow> 'o list \<Rightarrow> 'q \<Rightarrow> 'r list \<times> 'q" where
  "fifo_trace f [] q = ([], q)"
| "fifo_trace f (a # as) q = (let (r, q) = f a q; (rs, q) = fifo_trace f as q in (r # rs, q))"

locale bounded_fifo =
  fixes inv :: "'q \<Rightarrow> bool" and contents :: "'q \<Rightarrow> 'e list" and cap :: nat
    and enq :: "'q \<Rightarrow> 'e \<Rightarrow> bool \<times> 'q" and deq :: "'q \<Rightarrow> 'e option \<times> 'q"
  assumes enq_law: "inv q \<Longrightarrow> length (contents q) < cap \<Longrightarrow>
                      fst (enq q e) \<and> inv (snd (enq q e)) \<and> contents (snd (enq q e)) = contents q @ [e]"
    and full_law: "inv q \<Longrightarrow> \<not> length (contents q) < cap \<Longrightarrow> enq q e = (False, q)"
    and deq_law: "inv q \<Longrightarrow> contents q = x # xs \<Longrightarrow>
                      fst (deq q) = Some x \<and> inv (snd (deq q)) \<and> contents (snd (deq q)) = xs"
    and empty_law: "inv q \<Longrightarrow> contents q = [] \<Longrightarrow> deq q = (None, q)"
    and cap_law: "inv q \<Longrightarrow> length (contents q) \<le> cap"
begin

lemma step_refines:
  assumes "inv q"
  shows "fst (fifo_step enq deq a q) = fst (list_fifo cap a (contents q)) \<and> inv (snd (fifo_step enq deq a q)) \<and>
         contents (snd (fifo_step enq deq a q)) = snd (list_fifo cap a (contents q))"
proof (cases a)
  case (Enq e)
  then show ?thesis
    using enq_law [OF assms, of e] full_law [OF assms, of e] assms
    by (cases "length (contents q) < cap") (auto simp: case_prod_unfold Let_def)
next
  case Deq
  then show ?thesis
    using deq_law [OF assms] empty_law [OF assms] assms
    by (cases "contents q") (auto simp: case_prod_unfold Let_def)
qed

lemma trace_refines:
  "inv q \<Longrightarrow>
     fst (fifo_trace (fifo_step enq deq) as q) = fst (fifo_trace (list_fifo cap) as (contents q)) \<and>
     contents (snd (fifo_trace (fifo_step enq deq) as q)) = snd (fifo_trace (list_fifo cap) as (contents q)) \<and>
     inv (snd (fifo_trace (fifo_step enq deq) as q))"
proof (induction as arbitrary: q)
  case (Cons a as)
  from step_refines [OF Cons.prems, of a] have i: "inv (snd (fifo_step enq deq a q))" by simp
  from Cons.IH [OF i] step_refines [OF Cons.prems, of a] show ?case
    by (simp add: case_prod_unfold Let_def)
qed simp

end

section \<open>A window of a stream\<close>

record 'e window =
  w_head :: nat
  w_tail :: nat
  w_cell :: "nat \<Rightarrow> 'e"

definition w_full :: "nat \<Rightarrow> 'e window \<Rightarrow> bool" where
  "w_full cap w \<longleftrightarrow> w_head w + cap \<le> w_tail w"

definition w_push :: "nat \<Rightarrow> 'e \<Rightarrow> 'e window \<Rightarrow> 'e window" where
  "w_push cap e w =
     w\<lparr>w_tail := w_tail w + 1, w_cell := \<lambda>p. if p mod cap = w_tail w mod cap then e else w_cell w p\<rparr>"

definition w_pop :: "'e window \<Rightarrow> 'e window" where
  "w_pop w = w\<lparr>w_head := w_head w + 1\<rparr>"

text \<open>
  A stream is the list of its elements from position \<open>b\<close> on. \<open>retains\<close>: a sender still
  has what a receiver at position \<open>r\<close> lacks. \<open>says\<close>: a packet of elements from position
  \<open>st\<close> on says nothing wrong to a receiver at position \<open>r\<close> or later. \<open>receives\<close>:
  the window of a receiver is a part of the stream.
\<close>

definition retains :: "'e list \<Rightarrow> nat \<Rightarrow> nat \<Rightarrow> 'e window \<Rightarrow> bool" where
  "retains H b r w \<longleftrightarrow> w_tail w = b + length H \<and> b \<le> w_head w \<and> w_head w \<le> r \<and> r \<le> w_tail w \<and>
     (\<forall>p. r \<le> p \<and> p < w_tail w \<longrightarrow> w_cell w p = H ! (p - b))"

definition says :: "'e list \<Rightarrow> nat \<Rightarrow> nat \<Rightarrow> nat \<Rightarrow> 'e list \<Rightarrow> bool" where
  "says H b r st es \<longleftrightarrow> (\<forall>i < length es. r \<le> st + i \<longrightarrow> b \<le> st + i \<and> st + i < b + length H \<and> es ! i = H ! (st + i - b))"

definition receives :: "'e list \<Rightarrow> nat \<Rightarrow> nat \<Rightarrow> 'e window \<Rightarrow> bool" where
  "receives H b cap w \<longleftrightarrow> b \<le> w_head w \<and> w_head w \<le> w_tail w \<and> w_tail w \<le> b + length H \<and> w_tail w \<le> w_head w + cap \<and>
     (\<forall>p. w_head w \<le> p \<and> p < w_tail w \<longrightarrow> w_cell w p = H ! (p - b))"

lemma mod_window: "p mod cap \<noteq> t mod cap" if "p < t" "t < p + cap" for p t cap :: nat
proof
  assume "p mod cap = t mod cap"
  with that(1) have "cap dvd t - p" by (metis mod_eq_dvd_iff_nat less_imp_le)
  with that show False by (auto dest!: dvd_imp_le)
qed

lemma says_mono: "says H b r st es \<Longrightarrow> r \<le> r' \<Longrightarrow> says (H @ K) b r' st es"
  unfolding says_def by (auto simp: nth_append)

lemma says_shift: "says H b r st (e # es) \<Longrightarrow> says H b r (Suc st) es"
  unfolding says_def by fastforce

lemma says_first: "says H b r st (e # es) \<Longrightarrow> r \<le> st \<Longrightarrow> b \<le> st \<and> st < b + length H \<and> e = H ! (st - b)"
  unfolding says_def by fastforce

lemma receives_append: "receives H b cap w \<Longrightarrow> receives (H @ K) b cap w"
  unfolding receives_def by (auto simp: nth_append)

lemma retains_push:
  assumes "retains H b r w" and "\<not> w_full cap w"
  shows "retains (H @ [e]) b r (w_push cap e w)"
  unfolding retains_def
proof (intro conjI allI impI)
  fix p assume p: "r \<le> p \<and> p < w_tail (w_push cap e w)"
  show "w_cell (w_push cap e w) p = (H @ [e]) ! (p - b)"
  proof (cases "p = w_tail w")
    case True
    then show ?thesis using assms(1) by (simp add: w_push_def retains_def)
  next
    case False
    with p have "p < w_tail w" by (simp add: w_push_def)
    moreover from assms p have "w_tail w < p + cap" by (simp add: retains_def w_full_def)
    ultimately have "p mod cap \<noteq> w_tail w mod cap" by (rule mod_window)
    with p \<open>p < w_tail w\<close> assms(1) show ?thesis
      by (auto simp: w_push_def retains_def nth_append)
  qed
qed (use assms in \<open>auto simp: retains_def w_push_def\<close>)

lemma retains_progress: "retains H b r w \<Longrightarrow> r \<le> r' \<Longrightarrow> r' \<le> b + length H \<Longrightarrow> retains H b r' w"
  unfolding retains_def by auto

lemma retains_ack: "retains H b r w \<Longrightarrow> b \<le> a \<Longrightarrow> a \<le> r \<Longrightarrow> retains H b r (w\<lparr>w_head := a\<rparr>)"
  unfolding retains_def by simp

lemma retains_fetch:
  assumes "retains H b r w"
  shows "says H b r (w_head w) (map (w_cell w) [w_head w ..< w_tail w])"
  using assms unfolding says_def retains_def by auto

lemma receives_push:
  assumes "receives H b cap w" and "\<not> w_full cap w" and "w_tail w < b + length H" and "e = H ! (w_tail w - b)"
  shows "receives H b cap (w_push cap e w)"
  unfolding receives_def
proof (intro conjI allI impI)
  fix p assume p: "w_head (w_push cap e w) \<le> p \<and> p < w_tail (w_push cap e w)"
  show "w_cell (w_push cap e w) p = H ! (p - b)"
  proof (cases "p = w_tail w")
    case False
    with p have "p < w_tail w" by (simp add: w_push_def)
    moreover from assms p have "w_tail w < p + cap" by (simp add: w_push_def w_full_def)
    ultimately have "p mod cap \<noteq> w_tail w mod cap" by (rule mod_window)
    with p \<open>p < w_tail w\<close> assms(1) show ?thesis by (auto simp: w_push_def receives_def)
  qed (use assms in \<open>simp add: w_push_def\<close>)
qed (use assms in \<open>auto simp: receives_def w_push_def w_full_def\<close>)

lemma receives_pop: "receives H b cap w \<Longrightarrow> w_head w < w_tail w \<Longrightarrow> receives H b cap (w_pop w)"
  unfolding receives_def w_pop_def by auto

text \<open>A packet is fed to a receiver element by element.\<close>

fun feed :: "('q \<Rightarrow> 'p \<Rightarrow> 'e \<Rightarrow> bool \<times> 'q) \<Rightarrow> ('p \<Rightarrow> 'p) \<Rightarrow> 'q \<Rightarrow> 'p \<Rightarrow> 'e list \<Rightarrow> 'q" where
  "feed enq_at nxt q p [] = q"
| "feed enq_at nxt q p (e # es) = feed enq_at nxt (snd (enq_at q p e)) (nxt p) es"

locale stream_window =
  fixes wf :: "'q \<Rightarrow> bool" and abs :: "'q \<Rightarrow> 'e window" and cap lim :: nat
    and num :: "'p \<Rightarrow> nat" and nxt :: "'p \<Rightarrow> 'p"
    and enq :: "'q \<Rightarrow> 'e \<Rightarrow> bool \<times> 'q" and enq_at :: "'q \<Rightarrow> 'p \<Rightarrow> 'e \<Rightarrow> bool \<times> 'q"
    and deq :: "'q \<Rightarrow> 'e option \<times> 'q" and fetch :: "'q \<Rightarrow> 'e list"
  assumes order_law: "wf q \<Longrightarrow> w_head (abs q) \<le> w_tail (abs q)"
    and push_law: "wf q \<Longrightarrow> Suc (w_tail (abs q)) < lim \<Longrightarrow> \<not> w_full cap (abs q) \<Longrightarrow>
                     fst (enq q e) \<and> wf (snd (enq q e)) \<and> abs (snd (enq q e)) = w_push cap e (abs q)"
    and push_full_law: "wf q \<Longrightarrow> w_full cap (abs q) \<Longrightarrow> enq q e = (False, q)"
    and at_law: "wf q \<Longrightarrow> num p < lim \<Longrightarrow> enq_at q p e = (if num p = w_tail (abs q) then enq q e else (False, q))"
    and nxt_law: "Suc (num p) < lim \<Longrightarrow> num (nxt p) = Suc (num p)"
    and pop_law: "wf q \<Longrightarrow> w_head (abs q) < w_tail (abs q) \<Longrightarrow>
                     fst (deq q) = Some (w_cell (abs q) (w_head (abs q))) \<and> wf (snd (deq q)) \<and> abs (snd (deq q)) = w_pop (abs q)"
    and fetch_law: "wf q \<Longrightarrow> fetch q = map (w_cell (abs q)) [w_head (abs q) ..< w_tail (abs q)]"
begin

lemma send_enqueue:
  assumes "wf q" and "retains H b r (abs q)" and "\<not> w_full cap (abs q)" and "Suc (b + length H) < lim"
  shows "fst (enq q e)" and "wf (snd (enq q e))" and "retains (H @ [e]) b r (abs (snd (enq q e)))"
    and "w_head (abs (snd (enq q e))) = w_head (abs q)"
proof -
  from assms have "Suc (w_tail (abs q)) < lim" by (simp add: retains_def)
  from push_law [OF assms(1) this assms(3), of e] retains_push [OF assms(2,3), of e]
  show "fst (enq q e)" and "wf (snd (enq q e))" and "retains (H @ [e]) b r (abs (snd (enq q e)))"
    and "w_head (abs (snd (enq q e))) = w_head (abs q)"
    by (auto simp: w_push_def)
qed

lemma send_fetch:
  assumes "wf q" and "retains H b r (abs q)"
  shows "says H b r (w_head (abs q)) (fetch q)"
  using retains_fetch [OF assms(2)] by (simp add: fetch_law [OF assms(1)])

lemma feed_receives:
  assumes "wf q" and "receives H b cap (abs q)" and "says H b (w_tail (abs q)) (num p) es"
    and "b + length H < lim" and "num p < lim"
  shows "wf (feed enq_at nxt q p es) \<and> receives H b cap (abs (feed enq_at nxt q p es)) \<and>
         w_head (abs (feed enq_at nxt q p es)) = w_head (abs q) \<and> w_tail (abs q) \<le> w_tail (abs (feed enq_at nxt q p es))"
  using assms(1-3,5)
proof (induction es arbitrary: q p)
  case (Cons e es)
  define q' where "q' = snd (enq_at q p e)"
  have step: "wf q' \<and> receives H b cap (abs q') \<and> w_head (abs q') = w_head (abs q) \<and> w_tail (abs q) \<le> w_tail (abs q')"
  proof (cases "num p = w_tail (abs q) \<and> \<not> w_full cap (abs q)")
    case True
    with says_first [OF Cons.prems(3)] have t: "w_tail (abs q) < b + length H" "e = H ! (w_tail (abs q) - b)" by auto
    with assms(4) have "Suc (w_tail (abs q)) < lim" by simp
    from push_law [OF Cons.prems(1) this] True Cons.prems(1,4)
    have p: "wf q'" "abs q' = w_push cap e (abs q)" by (auto simp: q'_def at_law)
    have "receives H b cap (abs q')"
      unfolding p(2) using True t by (intro receives_push [OF Cons.prems(2)]) auto
    with p show ?thesis by (auto simp: w_push_def)
  next
    case False
    then show ?thesis using Cons.prems push_full_law [OF Cons.prems(1), of e] by (auto simp: q'_def at_law)
  qed
  have s: "says H b (w_tail (abs q')) (Suc (num p)) es"
    using says_mono [OF says_shift [OF Cons.prems(3)], of "w_tail (abs q')" "[]"] step by simp
  show ?case
  proof (cases "es = []")
    case True
    then show ?thesis using step by (simp add: q'_def)
  next
    case False
    have tl: "w_tail (abs q) \<le> b + length H" using Cons.prems(2) by (simp add: receives_def)
    have "Suc (num p) < lim"
    proof (cases "w_tail (abs q) \<le> Suc (num p)")
      case True
      from False obtain e' es' where "es = e' # es'" by (cases es) auto
      with Cons.prems(3) True have "Suc (num p) < b + length H" unfolding says_def by force
      with assms(4) show ?thesis by simp
    qed (use tl assms(4) in simp)
    then have n: "num (nxt p) = Suc (num p)" "num (nxt p) < lim" by (simp_all add: nxt_law)
    from Cons.IH [of q' "nxt p"] step s n show ?thesis by (auto simp: q'_def)
  qed
qed simp

lemma receive_dequeue:
  assumes "wf q" and "receives H b cap (abs q)" and "w_head (abs q) < w_tail (abs q)"
  shows "fst (deq q) = Some (H ! (w_head (abs q) - b)) \<and> wf (snd (deq q)) \<and> receives H b cap (abs (snd (deq q))) \<and>
         abs (snd (deq q)) = w_pop (abs q)"
  using pop_law [OF assms(1,3)] receives_pop [OF assms(2,3)] assms(2,3) by (auto simp: receives_def)

end

end
