(* ===== verification/Net_Queue.thy ===== *)
theory Net_Queue
  imports C_Integers Queue_Contracts
begin

text \<open>
  The ring buffer of the netplay module (\<^verbatim>\<open>netqueue.c\<close>): a window of 128 elements of a
  stream whose positions are unsigned 32-bit sequence numbers. Two contracts are stated for it. As a
  bounded FIFO it is compared with a list; there the sequence numbers may wrap. As a window of a
  stream (which the protocol relies on) its elements are named by their positions.
\<close>

section \<open>The queue\<close>

type_synonym NetQueueElementT = u32

definition NETQUEUE_SIZE :: nat where "NETQUEUE_SIZE = 128"
definition NETQUEUE_MASK :: u32 where "NETQUEUE_MASK = 127"

record NetQueueT =
  uHead :: u32
  uTail :: u32
  Elements :: "NetQueueElementT list"

definition NetQueueReset :: "NetQueueT \<Rightarrow> u32 \<Rightarrow> NetQueueT" where
  "NetQueueReset pQueue uSeqNum = pQueue\<lparr>uHead := uSeqNum, uTail := uSeqNum\<rparr>"

definition NetQueueNew :: "NetQueueT \<Rightarrow> NetQueueT" where
  "NetQueueNew pQueue = NetQueueReset pQueue 0"

definition NetQueueDelete :: "NetQueueT \<Rightarrow> NetQueueT" where
  "NetQueueDelete pQueue = NetQueueReset pQueue 0"

definition NetQueueGetCount :: "NetQueueT \<Rightarrow> int" where
  "NetQueueGetCount pQueue = sint (uTail pQueue - uHead pQueue)"

definition element_at :: "NetQueueT \<Rightarrow> u32 \<Rightarrow> NetQueueElementT" where
  "element_at pQueue uPos = Elements pQueue ! unat (uPos AND NETQUEUE_MASK)"

text \<open>The operations return what they store through their pointer, and \<^verbatim>\<open>None\<close> for FALSE.\<close>

definition NetQueueDequeue :: "NetQueueT \<Rightarrow> NetQueueElementT option \<times> NetQueueT" where
  "NetQueueDequeue pQueue =
     (if NetQueueGetCount pQueue > 0
      then (Some (element_at pQueue (uHead pQueue)), pQueue\<lparr>uHead := uHead pQueue + 1\<rparr>)
      else (None, pQueue))"

definition NetQueueEnqueue :: "NetQueueT \<Rightarrow> NetQueueElementT \<Rightarrow> bool \<times> NetQueueT" where
  "NetQueueEnqueue pQueue pElement =
     (if NetQueueGetCount pQueue < int NETQUEUE_SIZE
      then (True, pQueue\<lparr>Elements := (Elements pQueue)[unat (uTail pQueue AND NETQUEUE_MASK) := pElement],
                         uTail := uTail pQueue + 1\<rparr>)
      else (False, pQueue))"

definition NetQueueEnqueueAt :: "NetQueueT \<Rightarrow> u32 \<Rightarrow> NetQueueElementT \<Rightarrow> bool \<times> NetQueueT" where
  "NetQueueEnqueueAt pQueue uPos pElement =
     (if uPos = uTail pQueue then NetQueueEnqueue pQueue pElement else (False, pQueue))"

definition NetQueueGetElement :: "NetQueueT \<Rightarrow> u32 \<Rightarrow> NetQueueElementT option" where
  "NetQueueGetElement pQueue uPos =
     (if uHead pQueue \<le> uPos \<and> uPos < uTail pQueue then Some (element_at pQueue uPos) else None)"

lemma unat_dec: "unat (b - (a + 1)) < unat (b - a)" if "a \<noteq> b" for a b :: u32
proof -
  from that have "b - a \<noteq> 0" by simp
  then show ?thesis
    by (simp add: diff_diff_eq [symmetric] unat_minus_one unat_gt_0)
qed

function fetch_forward :: "NetQueueT \<Rightarrow> u32 \<Rightarrow> u32 \<Rightarrow> NetQueueElementT list" where
  "fetch_forward pQueue uStart uEnd =
     (if uStart \<noteq> uEnd
      then (case NetQueueGetElement pQueue uStart of
              None \<Rightarrow> []
            | Some e \<Rightarrow> e # fetch_forward pQueue (uStart + 1) uEnd)
      else [])"
  by pat_completeness auto
termination
  by (relation "measure (\<lambda>(q, s, e). unat (e - s))") (auto simp: unat_dec)

function fetch_backward :: "NetQueueT \<Rightarrow> u32 \<Rightarrow> u32 \<Rightarrow> NetQueueElementT list" where
  "fetch_backward pQueue uStart uEnd =
     (if uStart \<noteq> uEnd
      then (case NetQueueGetElement pQueue uEnd of
              None \<Rightarrow> []
            | Some e \<Rightarrow> e # fetch_backward pQueue uStart (uEnd - 1))
      else [])"
  by pat_completeness auto
termination
proof (relation "measure (\<lambda>(q, s, e). unat (e - s))", simp)
  show "((q, s, e - 1), q, s, e) \<in> measure (\<lambda>(q, s, e). unat (e - s))" if "s \<noteq> e" for q and s e :: u32
    using unat_dec [of s e] that by (simp add: diff_diff_eq add.commute)
qed

declare fetch_forward.simps [simp del] fetch_backward.simps [simp del]

text \<open>
  The bound on the number of elements only decides the direction: the loops run to the other end of
  the range.
\<close>

definition NetQueueFetchRange :: "NetQueueT \<Rightarrow> u32 \<Rightarrow> u32 \<Rightarrow> int \<Rightarrow> NetQueueElementT list" where
  "NetQueueFetchRange pQueue uStart uEnd nMaxElements =
     (let nLength = (if nMaxElements < sint (uEnd - uStart) then nMaxElements else sint (uEnd - uStart)) in
      if 0 \<le> nLength then fetch_forward pQueue uStart uEnd else fetch_backward pQueue uStart uEnd)"

section \<open>A bounded queue\<close>

definition nq_ok :: "NetQueueT \<Rightarrow> bool" where
  "nq_ok q \<longleftrightarrow> length (Elements q) = NETQUEUE_SIZE \<and> unat (uTail q - uHead q) \<le> NETQUEUE_SIZE"

definition nq_contents :: "NetQueueT \<Rightarrow> NetQueueElementT list" where
  "nq_contents q = map (\<lambda>i. element_at q (uHead q + of_nat i)) [0..<unat (uTail q - uHead q)]"

lemma masked_index: "unat (w AND NETQUEUE_MASK) = unat w mod 128" for w :: u32
  by (simp add: NETQUEUE_MASK_def unat_and_127)

lemma unat_add_mod128: "unat (w + of_nat i) mod 128 = (unat w + i) mod 128" for w :: u32
  by (simp add: unat_word_ariths unat_of_nat mod_mod_cancel mod_simps)

lemma nq_count: "nq_ok q \<Longrightarrow> NetQueueGetCount q = int (length (nq_contents q))"
  by (simp add: nq_ok_def NetQueueGetCount_def nq_contents_def sint_u32_small NETQUEUE_SIZE_def)

lemma nq_enqueue:
  assumes q: "nq_ok q" and l: "length (nq_contents q) < NETQUEUE_SIZE"
  shows "fst (NetQueueEnqueue q e) \<and> nq_ok (snd (NetQueueEnqueue q e)) \<and>
         nq_contents (snd (NetQueueEnqueue q e)) = nq_contents q @ [e]"
proof -
  define d where "d = uTail q - uHead q"
  define q' where "q' = q\<lparr>Elements := (Elements q)[unat (uTail q AND NETQUEUE_MASK) := e], uTail := uTail q + 1\<rparr>"
  from q l have len: "length (Elements q) = 128" and d: "unat d < 128"
    by (simp_all add: nq_ok_def nq_contents_def d_def NETQUEUE_SIZE_def)
  have t: "uTail q = uHead q + of_nat (unat d)" by (simp add: d_def)
  have h: "uHead q' = uHead q" and d1: "uTail q' - uHead q = d + 1" by (simp_all add: q'_def d_def)
  have u: "unat (d + 1) = Suc (unat d)" using d by (simp add: unat_plus_simple [THEN iffD1] word_le_nat_alt unat_word_ariths)
  have old: "element_at q' (uHead q + of_nat i) = element_at q (uHead q + of_nat i)" if "i < unat d" for i
  proof -
    have "(unat (uHead q) + i) mod 128 \<noteq> (unat (uHead q) + unat d) mod 128"
      using that d by (intro mod_window) auto
    then show ?thesis
      by (simp add: element_at_def q'_def masked_index t unat_add_mod128 del: of_nat_unat)
  qed
  have new: "element_at q' (uHead q + of_nat (unat d)) = e"
    using len by (simp add: element_at_def q'_def masked_index t del: of_nat_unat)
  have c: "NetQueueGetCount q < int NETQUEUE_SIZE" using l by (simp add: nq_count [OF q])
  have e: "NetQueueEnqueue q e = (True, q')" using c by (simp add: NetQueueEnqueue_def q'_def)
  have "nq_contents q' = nq_contents q @ [e]"
    unfolding nq_contents_def h d1 u using old new by (simp add: d_def [symmetric] del: of_nat_unat)
  moreover have "nq_ok q'" using len d by (simp add: nq_ok_def h d1 u) (simp add: q'_def NETQUEUE_SIZE_def)
  ultimately show ?thesis by (simp add: e)
qed

lemma nq_dequeue:
  assumes q: "nq_ok q" and c: "nq_contents q = x # xs"
  shows "fst (NetQueueDequeue q) = Some x \<and> nq_ok (snd (NetQueueDequeue q)) \<and> nq_contents (snd (NetQueueDequeue q)) = xs"
proof -
  define d where "d = uTail q - uHead q"
  from c have "0 < length (nq_contents q)" by simp
  then have d: "0 < unat d" by (simp add: nq_contents_def d_def)
  then have u: "unat (d - 1) = unat d - 1" by (simp add: unat_minus_one unat_gt_0)
  have d1: "uTail q - (uHead q + 1) = d - 1" by (simp add: d_def)
  have l: "[0..<unat d] = 0 # map Suc [0..<unat d - 1]"
    using d by (simp add: upt_conv_Cons map_Suc_upt)
  have h: "x = element_at q (uHead q)" and t: "xs = map (\<lambda>i. element_at q (uHead q + 1 + of_nat i)) [0..<unat d - 1]"
    using c by (simp_all add: nq_contents_def d_def [symmetric] l comp_def add.assoc del: upt_Suc)
  have "nq_ok (q\<lparr>uHead := uHead q + 1\<rparr>)"
    using q by (auto simp: nq_ok_def d1 u d_def [symmetric])
  moreover have "nq_contents (q\<lparr>uHead := uHead q + 1\<rparr>) = xs"
    by (simp add: nq_contents_def d1 u t element_at_def)
  ultimately show ?thesis
    using c by (simp add: NetQueueDequeue_def nq_count [OF q] h)
qed

interpretation nq_fifo: bounded_fifo nq_ok nq_contents NETQUEUE_SIZE NetQueueEnqueue NetQueueDequeue
proof unfold_locales
  show "NetQueueEnqueue q e = (False, q)" if "nq_ok q" "\<not> length (nq_contents q) < NETQUEUE_SIZE" for q e
    using that by (simp add: NetQueueEnqueue_def nq_count)
  show "NetQueueDequeue q = (None, q)" if "nq_ok q" "nq_contents q = []" for q
    using that by (simp add: NetQueueDequeue_def nq_count)
  show "length (nq_contents q) \<le> NETQUEUE_SIZE" if "nq_ok q" for q
    using that by (simp add: nq_ok_def nq_contents_def)
qed (use nq_enqueue nq_dequeue in auto)

section \<open>A window of a stream\<close>

text \<open>
  Positions are compared as unsigned numbers and counts as signed ones, so the window of a stream is
  limited to sequence numbers below \<open>2\<^sup>3\<^sup>1\<close>: more than a year of frames.
\<close>

definition seq_limit :: nat where "seq_limit = 2 ^ 31"

definition nq_wf :: "NetQueueT \<Rightarrow> bool" where
  "nq_wf q \<longleftrightarrow> length (Elements q) = NETQUEUE_SIZE \<and> uHead q \<le> uTail q \<and> unat (uTail q) < seq_limit"

definition nq_window :: "NetQueueT \<Rightarrow> NetQueueElementT window" where
  "nq_window q = \<lparr>w_head = unat (uHead q), w_tail = unat (uTail q), w_cell = \<lambda>p. Elements q ! (p mod NETQUEUE_SIZE)\<rparr>"

lemma nq_window_sel [simp]:
  "w_head (nq_window q) = unat (uHead q)" "w_tail (nq_window q) = unat (uTail q)"
  "w_cell (nq_window q) = (\<lambda>p. Elements q ! (p mod NETQUEUE_SIZE))"
  by (simp_all add: nq_window_def)

lemma nq_wf_count: "nq_wf q \<Longrightarrow> NetQueueGetCount q = int (unat (uTail q) - unat (uHead q))"
  unfolding nq_wf_def NetQueueGetCount_def seq_limit_def
  by (subst sint_u32_small) (auto simp: unat_sub)

lemma unat_seq_Suc: "Suc (unat p) < seq_limit \<Longrightarrow> unat (p + 1) = Suc (unat p)" for p :: u32
  by (simp add: seq_limit_def unat_word_ariths)

lemma nq_push:
  assumes "nq_wf q" and "Suc (unat (uTail q)) < seq_limit" and "\<not> w_full NETQUEUE_SIZE (nq_window q)"
  shows "fst (NetQueueEnqueue q e) \<and> nq_wf (snd (NetQueueEnqueue q e)) \<and>
         nq_window (snd (NetQueueEnqueue q e)) = w_push NETQUEUE_SIZE e (nq_window q)"
proof -
  have c: "NetQueueGetCount q < int NETQUEUE_SIZE"
    using assms(3) by (simp add: nq_wf_count [OF assms(1)] w_full_def NETQUEUE_SIZE_def)
  have t: "unat (uTail q + 1) = Suc (unat (uTail q))" by (rule unat_seq_Suc [OF assms(2)])
  show ?thesis
    using assms(1,2) c t
    by (auto simp: NetQueueEnqueue_def nq_wf_def nq_window_def w_push_def masked_index NETQUEUE_SIZE_def
        word_le_nat_alt fun_eq_iff)
qed

lemma fetch_window:
  assumes "nq_wf q" and "uHead q \<le> p" and "p \<le> uTail q"
  shows "fetch_forward q p (uTail q) = map (w_cell (nq_window q)) [unat p ..< unat (uTail q)]"
  using assms(2,3)
proof (induction "unat (uTail q) - unat p" arbitrary: p)
  case 0
  then have "p = uTail q" by (simp add: word_le_nat_alt word_unat_eq_iff)
  then show ?case by (simp add: fetch_forward.simps)
next
  case (Suc n)
  then have l: "unat p < unat (uTail q)" by simp
  with assms(1) have s: "unat (p + 1) = Suc (unat p)" by (intro unat_seq_Suc) (simp add: nq_wf_def)
  have g: "NetQueueGetElement q p = Some (w_cell (nq_window q) (unat p))"
    using Suc.prems l by (simp add: NetQueueGetElement_def word_less_nat_alt element_at_def masked_index NETQUEUE_SIZE_def)
  have "fetch_forward q (p + 1) (uTail q) = map (w_cell (nq_window q)) [unat (p + 1) ..< unat (uTail q)]"
    using Suc.hyps(2) Suc.prems l by (intro Suc.hyps(1)) (auto simp: s word_le_nat_alt)
  with l g show ?case
    by (subst fetch_forward.simps) (auto simp: s upt_conv_Cons)
qed

lemma fetch_all:
  assumes "nq_wf q" and "0 \<le> n"
  shows "NetQueueFetchRange q (uHead q) (uTail q) n = map (w_cell (nq_window q)) [unat (uHead q) ..< unat (uTail q)]"
proof -
  have "0 \<le> sint (uTail q - uHead q)"
    using nq_wf_count [OF assms(1)] by (simp add: NetQueueGetCount_def)
  with assms show ?thesis
    by (simp add: NetQueueFetchRange_def Let_def fetch_window nq_wf_def)
qed

interpretation nq_window: stream_window nq_wf nq_window NETQUEUE_SIZE seq_limit
  unat "\<lambda>p. p + 1" NetQueueEnqueue NetQueueEnqueueAt NetQueueDequeue
  "\<lambda>q. NetQueueFetchRange q (uHead q) (uTail q) 64"
proof unfold_locales
  fix q e and p :: u32
  assume q: "nq_wf q"
  show "w_head (nq_window q) \<le> w_tail (nq_window q)" using q by (simp add: nq_wf_def word_le_nat_alt)
  show "NetQueueEnqueue q e = (False, q)" if "w_full NETQUEUE_SIZE (nq_window q)"
  proof -
    from that have "NETQUEUE_SIZE \<le> unat (uTail q) - unat (uHead q)" by (simp add: w_full_def)
    then have "int NETQUEUE_SIZE \<le> NetQueueGetCount q" by (simp only: nq_wf_count [OF q] of_nat_le_iff)
    then show ?thesis by (simp add: NetQueueEnqueue_def)
  qed
  show "NetQueueEnqueueAt q p e = (if unat p = w_tail (nq_window q) then NetQueueEnqueue q e else (False, q))"
    by (simp add: NetQueueEnqueueAt_def word_unat_eq_iff)
  show "fst (NetQueueDequeue q) = Some (w_cell (nq_window q) (w_head (nq_window q))) \<and> nq_wf (snd (NetQueueDequeue q)) \<and>
        nq_window (snd (NetQueueDequeue q)) = w_pop (nq_window q)" if "w_head (nq_window q) < w_tail (nq_window q)"
  proof -
    have "Suc (unat (uHead q)) < seq_limit" using that q by (simp add: nq_wf_def)
    moreover from that have "0 < unat (uTail q) - unat (uHead q)" by simp
    then have "0 < NetQueueGetCount q" by (simp only: nq_wf_count [OF q] of_nat_0_less_iff)
    ultimately show ?thesis using that q unat_seq_Suc [of "uHead q"]
      by (auto simp: NetQueueDequeue_def nq_wf_def nq_window_def w_pop_def element_at_def masked_index
          NETQUEUE_SIZE_def word_le_nat_alt)
  qed
  show "NetQueueFetchRange q (uHead q) (uTail q) 64 = map (w_cell (nq_window q)) [w_head (nq_window q)..<w_tail (nq_window q)]"
    using fetch_all [OF q, of 64] by simp
qed (use nq_push unat_seq_Suc in auto)

end
