(* ===== verification/Net_Socket.thy ===== *)
theory Net_Socket
  imports C_Integers
begin

text \<open>
  The socket layer of the netplay module (\<^verbatim>\<open>netsocket.c\<close>) and the receiving end of its packets
  (\<^verbatim>\<open>netpacket.c\<close>). What the operating system returns (\<^verbatim>\<open>socket\<close>,
  \<^verbatim>\<open>bind\<close>, \<^verbatim>\<open>recv\<close>, the thread that is started) is an argument of the
  operation; addresses and the life cycle of a socket are the state.
\<close>

section \<open>Addresses\<close>

record NetSocketAddrT =
  sin_family :: u8
  sin_port :: u16
  sin_addr :: u32

definition AF_INET :: u8 where "AF_INET = 2"
definition zero_addr :: NetSocketAddrT where "zero_addr = \<lparr>sin_family = 0, sin_port = 0, sin_addr = 0\<rparr>"

definition NetSocketAddrIsEqual :: "NetSocketAddrT \<Rightarrow> NetSocketAddrT \<Rightarrow> bool" where
  "NetSocketAddrIsEqual pAddrA pAddrB \<longleftrightarrow> sin_addr pAddrA = sin_addr pAddrB \<and> sin_port pAddrA = sin_port pAddrB"

definition NetSocketIpAddr :: "u32 \<Rightarrow> u32 \<Rightarrow> u32 \<Rightarrow> u32 \<Rightarrow> u32" where
  "NetSocketIpAddr a b c d =
     push_bit 0 (a AND 0xFF) OR push_bit 8 (b AND 0xFF) OR push_bit 16 (c AND 0xFF) OR push_bit 24 (d AND 0xFF)"

text \<open>\<^verbatim>\<open>htons\<close> and \<^verbatim>\<open>htonl\<close> on the little-endian processors of the console.\<close>

definition htons :: "u16 \<Rightarrow> u16" where
  "htons w = push_bit 8 w OR drop_bit 8 w"

definition NetSocketAddrGetPort :: "NetSocketAddrT \<Rightarrow> u16" where
  "NetSocketAddrGetPort pAddr = htons (sin_port pAddr)"

section \<open>Sockets\<close>

datatype NetSocketStatusE =
  NETSOCKET_STATUS_INVALID | NETSOCKET_STATUS_LISTENING | NETSOCKET_STATUS_CONNECTING |
  NETSOCKET_STATUS_CONNECTED | NETSOCKET_STATUS_DISCONNECTING

record NetSocketT =
  status :: NetSocketStatusE
  socket :: int
  threadid :: int
  PeerAddr :: NetSocketAddrT

definition INVALID_SOCKET :: int where "INVALID_SOCKET = -1"
definition NETSYS_THREAD_INVALID :: int where "NETSYS_THREAD_INVALID = -1"

definition NetSocketNew :: "NetSocketT \<Rightarrow> NetSocketT" where
  "NetSocketNew s = s\<lparr>threadid := NETSYS_THREAD_INVALID, status := NETSOCKET_STATUS_INVALID, socket := INVALID_SOCKET\<rparr>"

definition NetSocketGetStatus :: "NetSocketT \<Rightarrow> NetSocketStatusE" where
  "NetSocketGetStatus s = status s"

definition NetSocketDisconnect :: "NetSocketT \<Rightarrow> NetSocketT" where
  "NetSocketDisconnect s =
     (if status s = NETSOCKET_STATUS_LISTENING \<or> status s = NETSOCKET_STATUS_CONNECTED
      then s\<lparr>status := NETSOCKET_STATUS_DISCONNECTING\<rparr> else s)"

definition NetSocketDelete :: "NetSocketT \<Rightarrow> NetSocketT" where
  "NetSocketDelete s = NetSocketDisconnect s"

definition NetSocketCopy :: "NetSocketT \<Rightarrow> NetSocketT \<Rightarrow> NetSocketT" where
  "NetSocketCopy pDest pSrc = pDest\<lparr>status := status pSrc, socket := socket pSrc, PeerAddr := PeerAddr pSrc\<rparr>"

definition NetSocketProcess :: "int \<Rightarrow> NetSocketT \<Rightarrow> int \<times> NetSocketT" where
  "NetSocketProcess thread s =
     (if thread \<le> 0 then (-4, s\<lparr>threadid := thread, status := NETSOCKET_STATUS_INVALID\<rparr>)
      else (0, s\<lparr>threadid := thread\<rparr>))"

text \<open>The listening and the UDP socket differ in one system call: \<^verbatim>\<open>listen\<close>.\<close>

definition NetSocketListen :: "int \<Rightarrow> int \<Rightarrow> int \<Rightarrow> int \<Rightarrow> NetSocketT \<Rightarrow> int \<times> NetSocketT" where
  "NetSocketListen fd bound listening thread s =
     (let s = s\<lparr>socket := fd\<rparr> in
      if fd < 0 then (-1, s)
      else if bound < 0 then (-3, s)
      else if listening < 0 then (-4, s)
      else NetSocketProcess thread (s\<lparr>status := NETSOCKET_STATUS_LISTENING\<rparr>))"

definition NetSocketBindUDP :: "int \<Rightarrow> int \<Rightarrow> int \<Rightarrow> NetSocketT \<Rightarrow> int \<times> NetSocketT" where
  "NetSocketBindUDP fd bound thread s =
     (let s = s\<lparr>socket := fd\<rparr> in
      if fd < 0 then (-1, s)
      else if bound < 0 then (-3, s)
      else NetSocketProcess thread (s\<lparr>status := NETSOCKET_STATUS_LISTENING\<rparr>))"

definition NetSocketConnect :: "int \<Rightarrow> int \<Rightarrow> u32 \<Rightarrow> u16 \<Rightarrow> NetSocketT \<Rightarrow> int \<times> NetSocketT" where
  "NetSocketConnect fd thread ipaddr port s =
     (if status s \<noteq> NETSOCKET_STATUS_INVALID then (-1, s)
      else
        let s = s\<lparr>status := NETSOCKET_STATUS_CONNECTING, socket := fd\<rparr> in
        if fd < 0 then (-1, s)
        else
          let s = s\<lparr>PeerAddr := \<lparr>sin_family = AF_INET, sin_port = htons port, sin_addr = ipaddr\<rparr>, threadid := thread\<rparr> in
          if thread \<le> 0 then (-5, s\<lparr>status := NETSOCKET_STATUS_INVALID\<rparr>) else (0, s))"

definition NetSocketAccept :: "int \<Rightarrow> NetSocketAddrT \<Rightarrow> NetSocketT \<Rightarrow> NetSocketT \<Rightarrow> int \<times> NetSocketT \<times> NetSocketT" where
  "NetSocketAccept fd addr pListen pAccept =
     (let pAccept = pAccept\<lparr>socket := fd, PeerAddr := addr\<rparr> in
      if fd < 0 then (-3, NetSocketDisconnect pListen, pAccept)
      else (0, pListen, pAccept\<lparr>status := NETSOCKET_STATUS_CONNECTED\<rparr>))"

text \<open>The end of the thread of a socket: its abort callback has run.\<close>

definition socket_thread_end :: "NetSocketT \<Rightarrow> NetSocketT" where
  "socket_thread_end s =
     s\<lparr>socket := INVALID_SOCKET, threadid := NETSYS_THREAD_INVALID, status := NETSOCKET_STATUS_INVALID\<rparr>"

section \<open>Receiving bytes\<close>

text \<open>
  The sequence of results of \<^verbatim>\<open>recv\<close> is a list; each is the bytes that arrived, none when the
  connection is closed or broken. \<^verbatim>\<open>recv\<close> stores at most as many bytes as it was asked for, and
  \<^verbatim>\<open>NetSocketRecvBytes\<close> asks for all it lacks, at the same address each time. An exhausted list
  is a connection that never delivers.
\<close>

definition store_bytes :: "nat \<Rightarrow> u8 list \<Rightarrow> u8 list \<Rightarrow> u8 list option" where
  "store_bytes off bs buf =
     (if off + length bs \<le> length buf then Some (take off buf @ bs @ drop (off + length bs) buf) else None)"

fun NetSocketRecvBytes :: "nat \<Rightarrow> nat \<Rightarrow> u8 list list \<Rightarrow> u8 list \<Rightarrow> nat \<Rightarrow> (nat \<times> u8 list list \<times> u8 list) option" where
  "NetSocketRecvBytes pBuffer nBytes incoming buf nBytesRead =
     (if nBytes = 0 then Some (nBytesRead, incoming, buf)
      else
        case incoming of
          [] \<Rightarrow> None
        | bs # rest \<Rightarrow>
            let got = take nBytes bs; rest = (if drop nBytes bs = [] then rest else drop nBytes bs # rest) in
            if got = [] then Some (0, rest, buf)
            else case store_bytes pBuffer got buf of
                   None \<Rightarrow> None
                 | Some buf \<Rightarrow> NetSocketRecvBytes pBuffer (nBytes - length got) rest buf (nBytesRead + length got))"

section \<open>Receiving packets\<close>

definition NETPACKET_TAG :: u8 where "NETPACKET_TAG = 0xCC"
definition NETPACKET_MAX_SIZE :: nat where "NETPACKET_MAX_SIZE = 512"
definition sizeof_NetPacketHdrT :: nat where "sizeof_NetPacketHdrT = 4"

definition hdr_Tag :: "u8 list \<Rightarrow> u8" where "hdr_Tag buf = buf ! 0"
definition hdr_ePacketType :: "u8 list \<Rightarrow> u8" where "hdr_ePacketType buf = buf ! 1"
definition hdr_uPacketLen :: "u8 list \<Rightarrow> nat" where "hdr_uPacketLen buf = unat (buf ! 2) + 256 * unat (buf ! 3)"

datatype recv_result = SocketDied | BadPacket | Received "u8 list"

definition NetPacketRecv :: "u8 list list \<Rightarrow> u8 list \<Rightarrow> NetSocketT \<Rightarrow> (recv_result \<times> u8 list list \<times> NetSocketT) option" where
  "NetPacketRecv incoming pBuffer s =
     (case NetSocketRecvBytes 0 sizeof_NetPacketHdrT incoming pBuffer 0 of
        None \<Rightarrow> None
      | Some (recvlen, incoming, buf) \<Rightarrow>
          if recvlen = 0 then Some (SocketDied, incoming, NetSocketDisconnect s)
          else
            let packetlen = int (hdr_uPacketLen buf) - int sizeof_NetPacketHdrT in
            if hdr_Tag buf \<noteq> NETPACKET_TAG \<or> NETPACKET_MAX_SIZE < hdr_uPacketLen buf \<or> packetlen < 0
            then Some (BadPacket, incoming, NetSocketDisconnect s)
            else if 0 < packetlen
            then (case NetSocketRecvBytes sizeof_NetPacketHdrT (nat packetlen) incoming buf 0 of
                    None \<Rightarrow> None
                  | Some (recvlen, incoming, buf) \<Rightarrow>
                      if recvlen = 0 then Some (SocketDied, incoming, NetSocketDisconnect s)
                      else Some (Received (take (hdr_uPacketLen buf) buf), incoming, s))
            else Some (Received (take (hdr_uPacketLen buf) buf), incoming, s))"

definition NetPacketRecvUDP :: "u8 list \<Rightarrow> u8 list \<Rightarrow> NetSocketT \<Rightarrow> recv_result \<times> NetSocketT" where
  "NetPacketRecvUDP datagram pBuffer s =
     (let recvlen = length (take (length pBuffer) datagram); buf = take (length pBuffer) datagram @ drop recvlen pBuffer in
      if recvlen = 0 then (SocketDied, NetSocketDisconnect s)
      else if hdr_Tag buf \<noteq> NETPACKET_TAG \<or> hdr_uPacketLen buf \<noteq> recvlen then (BadPacket, s)
      else (Received (take recvlen buf), s))"

end
