(* ===== verification/Net_Client.thy ===== *)
theory Net_Client
  imports Net_Queue Net_Socket "HOL-Library.Signed_Division" "HOL-Library.Monad_Syntax"
begin

text \<open>
  The client of a netplay session (\<^verbatim>\<open>netclient.c\<close>): its peers with their input and output
  queues, the encoding of a run of inputs, the handlers of the packets of the server and of the
  peers, and the functions the emulator calls once a frame. A handler returns \<^verbatim>\<open>None\<close> where the
  code would leave an array.

  Packets are typed: the structure the code casts the received bytes to, with the strings up to their
  terminator. What leaves a client is kept in a log: packets to the server, datagrams to peers and
  calls of the callback, in order. The fields of the two records of the source that share a name have a
  prefix (\<^verbatim>\<open>p_\<close> for a peer, \<^verbatim>\<open>c_\<close> for the client). Counters of type
  \<^verbatim>\<open>Int32\<close> are integers.
\<close>

section \<open>Packets\<close>

type_synonym NetPlayStatusE = nat

definition NETPLAY_STATUS_IDLE :: NetPlayStatusE where "NETPLAY_STATUS_IDLE = 0"
definition NETPLAY_STATUS_CONNECTING :: NetPlayStatusE where "NETPLAY_STATUS_CONNECTING = 1"
definition NETPLAY_STATUS_CONNECTED :: NetPlayStatusE where "NETPLAY_STATUS_CONNECTED = 2"

datatype NetPlayGameStateE =
  NETPLAY_GAMESTATE_IDLE | NETPLAY_GAMESTATE_LOADING | NETPLAY_GAMESTATE_LOADED | NETPLAY_GAMESTATE_LOADERROR |
  NETPLAY_GAMESTATE_UNLOAD | NETPLAY_GAMESTATE_PLAY | NETPLAY_GAMESTATE_PAUSE

datatype NetPlayCallbackE =
  NETPLAY_CALLBACK_NONE | NETPLAY_CALLBACK_CONNECTED | NETPLAY_CALLBACK_DISCONNECTED | NETPLAY_CALLBACK_LOADGAME |
  NETPLAY_CALLBACK_UNLOADGAME | NETPLAY_CALLBACK_STARTGAME | NETPLAY_CALLBACK_TEXTMSG

datatype NetPlayLoadAckE =
  NETPLAY_LOADACK_OK | NETPLAY_LOADACK_ERROR | NETPLAY_LOADACK_NOTFOUND | NETPLAY_LOADACK_CHECKSUM

definition NETPLAY_VERSION :: u32 where "NETPLAY_VERSION = 0x100"
definition NETPACKET_NAME_SIZE :: nat where "NETPACKET_NAME_SIZE = 16"

text \<open>The encoded inputs are the words the packet length covers.\<close>

record NetPacketInputDataT =
  uAckPos :: u32
  uStartPos :: u32
  EncodeData :: "u32 list"

datatype NetPacketT =
    ServerHello u32 int string
  | ClientHello u32 string int
  | Goodbye
  | TextPacket int string
  | Ping int
  | Pong int
  | PeerInfo NetPlayStatusE int string u32 int
  | LoadReq int string
  | LoadAck int NetPlayLoadAckE
  | StartGame nat u32
  | InputData NetPacketInputDataT
  | Throttle int

definition sizeof_EncodeData :: nat where "sizeof_EncodeData = 128 * 4"

fun uPacketLen :: "NetPacketT \<Rightarrow> nat" where
  "uPacketLen (ServerHello v i n) = 28"
| "uPacketLen (ClientHello v n p) = 28"
| "uPacketLen Goodbye = 4"
| "uPacketLen (TextPacket i s) = 136"
| "uPacketLen (Ping t) = 8"
| "uPacketLen (Pong t) = 8"
| "uPacketLen (PeerInfo st i n a p) = 36"
| "uPacketLen (LoadReq i n) = 136"
| "uPacketLen (LoadAck i r) = 20"
| "uPacketLen (StartGame l s) = 12"
| "uPacketLen (InputData d) = (length (EncodeData d) + 3) * 4"
| "uPacketLen (Throttle t) = 8"

text \<open>\<^verbatim>\<open>strcpy\<close> into an array of a given size.\<close>

definition strcpy :: "nat \<Rightarrow> string \<Rightarrow> string option" where
  "strcpy cap s = (if length s < cap then Some s else None)"

section \<open>The encoding of inputs\<close>

fun run_loop :: "u32 \<Rightarrow> u32 list \<Rightarrow> nat \<Rightarrow> nat" where
  "run_loop uRunData [] uLength = uLength"
| "run_loop uRunData (x # pData) uLength =
     (if pData \<noteq> [] \<and> hd pData = uRunData then run_loop uRunData pData (uLength + 1) else uLength + 1)"

definition u_NetClientCalcRunLength :: "u32 list \<Rightarrow> nat" where
  "u_NetClientCalcRunLength pData = (if pData = [] then 0 else run_loop (hd pData) pData 0)"

lemma run_loop_Cons: "run_loop d (x # xs) n = n + 1 + length (takeWhile (\<lambda>y. y = d) xs)"
  by (induction xs arbitrary: x n) auto

lemma run_length_eq:
  "u_NetClientCalcRunLength xs = (if xs = [] then 0 else 1 + length (takeWhile (\<lambda>x. x = hd xs) (tl xs)))"
  by (cases xs) (auto simp: u_NetClientCalcRunLength_def run_loop_Cons simp del: run_loop.simps)

function encode_loop :: "u32 list \<Rightarrow> nat \<Rightarrow> nat \<Rightarrow> u32 list" where
  "encode_loop pData nEncode nMaxEncode =
     (if pData \<noteq> [] \<and> nEncode < nMaxEncode
      then let uLength = u_NetClientCalcRunLength pData in
           of_nat uLength # hd pData # encode_loop (drop uLength pData) (nEncode + 2) nMaxEncode
      else [])"
  by pat_completeness auto
termination
  by (relation "measure (\<lambda>(d, n, m). length d)") (auto simp: run_length_eq)

declare encode_loop.simps [simp del]

definition u_NetClientEncodeData :: "u32 list \<Rightarrow> nat \<Rightarrow> u32 list" where
  "u_NetClientEncodeData pData nMaxEncode = encode_loop pData 0 nMaxEncode"

text \<open>
  The decoder stores into an array of \<^verbatim>\<open>cap\<close> elements; a run length is a signed number. An odd word
  at the end would be paired with what follows the packet.
\<close>

fun u_NetClientDecodeData :: "nat \<Rightarrow> u32 list \<Rightarrow> u32 list option" where
  "u_NetClientDecodeData cap [] = Some []"
| "u_NetClientDecodeData cap [n] = None"
| "u_NetClientDecodeData cap (n # uRunData # pEncode) =
     (if sint n \<le> int cap
      then map_option (\<lambda>es. replicate (nat (sint n)) uRunData @ es) (u_NetClientDecodeData (cap - nat (sint n)) pEncode)
      else None)"

section \<open>State\<close>

datatype NetPlayStatE =
  NETPLAY_STAT_SENTPACKETS | NETPLAY_STAT_RECVPACKETS | NETPLAY_STAT_SENTBYTES | NETPLAY_STAT_RECVBYTES |
  NETPLAY_STAT_INPUTQUEUE | NETPLAY_STAT_OUTPUTQUEUE | NETPLAY_STAT_INPUTSTALL

type_synonym net_stats = "NetPlayStatE \<Rightarrow> int"

record NetClientPeerT =
  p_clientid :: int
  p_eStatus :: NetPlayStatusE
  p_eGameState :: NetPlayGameStateE
  p_Name :: string
  Stats :: net_stats
  TotalStats :: net_stats
  AveStats :: net_stats
  iThrottleReq :: int
  p_Addr :: NetSocketAddrT
  OutputQueue :: NetQueueT
  InputQueue :: NetQueueT

datatype net_event =
  SentTCP NetPacketT | SentUDP NetSocketAddrT NetPacketT | Called NetPlayCallbackE string

record NetClientT =
  c_clientid :: int
  c_eStatus :: NetPlayStatusE
  c_eGameState :: NetPlayGameStateE
  c_Name :: string
  iThrottle :: int
  ServerName :: string
  c_Socket :: NetSocketT
  UDPSocket :: NetSocketT
  uFrame :: u32
  nStatFrames :: int
  Peers :: "NetClientPeerT list"
  c_log :: "net_event list"

definition NETCLIENT_MAXPEERS :: nat where "NETCLIENT_MAXPEERS = 4"
definition NETPLAY_STATUPDATEFRAMES :: int where "NETPLAY_STATUPDATEFRAMES = 64"
definition INADDR_LOOPBACK_n :: u32 where "INADDR_LOOPBACK_n = 0x0100007F"
definition INADDR_ANY_n :: u32 where "INADDR_ANY_n = 0"

definition log_event :: "net_event \<Rightarrow> NetClientT \<Rightarrow> NetClientT" where
  "log_event e c = c\<lparr>c_log := c_log c @ [e]\<rparr>"

definition upd_peer :: "nat \<Rightarrow> (NetClientPeerT \<Rightarrow> NetClientPeerT) \<Rightarrow> NetClientT \<Rightarrow> NetClientT" where
  "upd_peer i f c = c\<lparr>Peers := (Peers c)[i := f (Peers c ! i)]\<rparr>"

definition add_stat :: "NetPlayStatE \<Rightarrow> int \<Rightarrow> NetClientPeerT \<Rightarrow> NetClientPeerT" where
  "add_stat k n p = p\<lparr>Stats := (Stats p)(k := Stats p k + n)\<rparr>"

definition connected :: "NetClientPeerT \<Rightarrow> bool" where
  "connected p \<longleftrightarrow> p_eStatus p = NETPLAY_STATUS_CONNECTED"

definition playing :: "NetClientT \<Rightarrow> bool" where
  "playing c \<longleftrightarrow> c_eStatus c = NETPLAY_STATUS_CONNECTED \<and> c_eGameState c = NETPLAY_GAMESTATE_PLAY"

text \<open>The loops over the peers, by index; a step may fail.\<close>

fun each_peer :: "(nat \<Rightarrow> NetClientT \<Rightarrow> NetClientT option) \<Rightarrow> nat list \<Rightarrow> NetClientT \<Rightarrow> NetClientT option" where
  "each_peer f [] c = Some c"
| "each_peer f (i # is) c = do { c \<leftarrow> f i c; each_peer f is c }"

abbreviation peer_ids :: "nat list" where "peer_ids \<equiv> [0..<NETCLIENT_MAXPEERS]"

definition map_peers :: "(NetClientPeerT \<Rightarrow> NetClientPeerT) \<Rightarrow> NetClientT \<Rightarrow> NetClientT" where
  "map_peers f c = c\<lparr>Peers := map f (Peers c)\<rparr>"

section \<open>Sending to peers\<close>

definition NetClientSendUDP_peer :: "nat \<Rightarrow> NetPacketT \<Rightarrow> NetClientT \<Rightarrow> NetClientT" where
  "NetClientSendUDP_peer peerid pPacket c =
     (if connected (Peers c ! peerid)
      then log_event (SentUDP (p_Addr (Peers c ! peerid)) pPacket)
             (upd_peer peerid (add_stat NETPLAY_STAT_SENTBYTES (int (uPacketLen pPacket)) \<circ> add_stat NETPLAY_STAT_SENTPACKETS 1) c)
      else c)"

definition NetClientSendUDP :: "int \<Rightarrow> NetPacketT \<Rightarrow> NetClientT \<Rightarrow> NetClientT" where
  "NetClientSendUDP peerid pPacket c =
     (if peerid = -1 then fold (\<lambda>i. NetClientSendUDP_peer i pPacket) peer_ids c
      else NetClientSendUDP_peer (nat peerid) pPacket c)"

text \<open>
  The array \<^verbatim>\<open>Elements\<close> has 64 entries, and the packet has 128 words of encoded data.
\<close>

definition u_NetClientPeerTransmit :: "nat \<Rightarrow> NetClientT \<Rightarrow> NetClientT option" where
  "u_NetClientPeerTransmit peerid c =
     (let pPeer = Peers c ! peerid;
          uStart = uHead (OutputQueue pPeer); uEnd = uTail (OutputQueue pPeer);
          elements = NetQueueFetchRange (OutputQueue pPeer) uStart uEnd 64 in
      if 64 < length elements then None
      else if elements \<noteq> []
      then let nMaxEncode = sizeof_EncodeData div 4;
               packet = \<lparr>uAckPos = uTail (InputQueue pPeer), uStartPos = uStart,
                         EncodeData = u_NetClientEncodeData elements nMaxEncode\<rparr> in
           if sizeof_EncodeData div 4 < length (EncodeData packet) then None
           else Some (NetClientSendUDP (int peerid) (InputData packet) c)
      else Some c)"

section \<open>Input and output of a frame\<close>

text \<open>Both loops count into the statistics; the second stops at the first full queue.\<close>

fun input_ready_loop :: "nat list \<Rightarrow> bool \<Rightarrow> NetClientT \<Rightarrow> bool \<times> NetClientT" where
  "input_ready_loop [] bResult c = (bResult, c)"
| "input_ready_loop (i # is) bResult c =
     (if connected (Peers c ! i)
      then let nPeerInput = NetQueueGetCount (InputQueue (Peers c ! i));
               c = upd_peer i (add_stat NETPLAY_STAT_INPUTQUEUE nPeerInput) c in
           if nPeerInput = 0 then input_ready_loop is False (upd_peer i (add_stat NETPLAY_STAT_INPUTSTALL 1) c)
           else input_ready_loop is bResult c
      else input_ready_loop is bResult c)"

definition NetClientIsInputReady :: "NetClientT \<Rightarrow> bool \<times> NetClientT" where
  "NetClientIsInputReady c = input_ready_loop peer_ids True c"

fun output_limit_loop :: "int \<Rightarrow> nat list \<Rightarrow> NetClientT \<Rightarrow> bool \<times> NetClientT" where
  "output_limit_loop nCount [] c = (True, c)"
| "output_limit_loop nCount (i # is) c =
     (if connected (Peers c ! i)
      then let nPeerOutput = NetQueueGetCount (OutputQueue (Peers c ! i));
               c = upd_peer i (add_stat NETPLAY_STAT_OUTPUTQUEUE nPeerOutput) c in
           if nCount \<le> nPeerOutput then (False, c) else output_limit_loop nCount is c
      else output_limit_loop nCount is c)"

definition NetClientCheckOutputLimit :: "int \<Rightarrow> NetClientT \<Rightarrow> bool \<times> NetClientT" where
  "NetClientCheckOutputLimit nCount c = output_limit_loop nCount peer_ids c"

definition enqueue_output :: "u32 \<Rightarrow> NetClientPeerT \<Rightarrow> NetClientPeerT" where
  "enqueue_output Element p =
     (if connected p then p\<lparr>OutputQueue := snd (NetQueueEnqueue (OutputQueue p) Element)\<rparr> else p)"

definition NetClientEnqueueInput :: "u32 \<Rightarrow> NetClientT \<Rightarrow> bool \<times> NetClientT" where
  "NetClientEnqueueInput uInput c =
     (if playing c
      then let (ok, c) = NetClientCheckOutputLimit 128 c in
           if ok then (True, map_peers (enqueue_output uInput) c) else (False, c)
      else (False, c))"

definition NetClientTransmit :: "NetClientT \<Rightarrow> (bool \<times> NetClientT) option" where
  "NetClientTransmit c =
     (if playing c
      then let (ok, c) = NetClientCheckOutputLimit 128 c in
           if ok
           then do { c \<leftarrow> each_peer (\<lambda>i c. if connected (Peers c ! i) then u_NetClientPeerTransmit i c else Some c) peer_ids c;
                     Some (True, c) }
           else Some (False, c)
      else Some (False, c))"

text \<open>An element that was never dequeued has no value.\<close>

fun recv_input_loop :: "nat list \<Rightarrow> u32 option \<Rightarrow> NetClientT \<Rightarrow> (u32 list \<times> NetClientT) option" where
  "recv_input_loop [] Element c = Some ([], c)"
| "recv_input_loop (i # is) Element c =
     (if connected (Peers c ! i)
      then let (r, q) = NetQueueDequeue (InputQueue (Peers c ! i));
               Element = (if r = None then Element else r);
               c = upd_peer i (\<lambda>p. p\<lparr>InputQueue := q\<rparr>) c in
           do { e \<leftarrow> Element; (rest, c) \<leftarrow> recv_input_loop is Element c; Some (e # rest, c) }
      else do { (rest, c) \<leftarrow> recv_input_loop is Element c; Some (0xFFFFFFFF # rest, c) })"

definition NetClientRecvInput :: "int \<Rightarrow> NetClientT \<Rightarrow> (u32 list option \<times> NetClientT) option" where
  "NetClientRecvInput nInputs c =
     (if nInputs < int NETCLIENT_MAXPEERS then Some (None, c)
      else if playing c
      then let (ready, c) = NetClientIsInputReady c in
           if ready then do { (ins, c) \<leftarrow> recv_input_loop peer_ids None c; Some (Some ins, c) }
           else Some (None, c)
      else Some (None, c))"

end
