(* ===== verification/Net_Client_Loop.thy ===== *)
theory Net_Client_Loop
  imports Net_Client
begin

text \<open>
  The handlers of the client (\<^verbatim>\<open>netclient.c\<close>, continued): what a peer sends, what the server
  sends, the work of a frame, and starting and ending a session.
\<close>

section \<open>Packets of a peer\<close>

definition u_NetClientPeerThrottle :: "nat \<Rightarrow> int \<Rightarrow> NetClientT \<Rightarrow> NetClientT" where
  "u_NetClientPeerThrottle peerid throttle c = upd_peer peerid (\<lambda>p. p\<lparr>iThrottleReq := throttle\<rparr>) c"

fun enqueue_elements :: "NetQueueT \<Rightarrow> u32 \<Rightarrow> NetQueueElementT list \<Rightarrow> NetQueueT" where
  "enqueue_elements q uStart [] = q"
| "enqueue_elements q uStart (e # es) = enqueue_elements (snd (NetQueueEnqueueAt q uStart e)) (uStart + 1) es"

definition peer_ack :: "u32 \<Rightarrow> NetClientPeerT \<Rightarrow> NetClientPeerT" where
  "peer_ack ack p =
     (if ack \<le> uTail (OutputQueue p) then p\<lparr>OutputQueue := (OutputQueue p)\<lparr>uHead := ack\<rparr>\<rparr> else p)"

text \<open>The array the data are decoded to has 256 entries.\<close>

definition u_NetClientPeerInputData :: "nat \<Rightarrow> NetPacketInputDataT \<Rightarrow> NetClientT \<Rightarrow> NetClientT option" where
  "u_NetClientPeerInputData peerid pPacket c =
     (let c = upd_peer peerid (peer_ack (uAckPos pPacket)) c in
      do { es \<leftarrow> u_NetClientDecodeData 256 (EncodeData pPacket);
           Some (upd_peer peerid (\<lambda>p. p\<lparr>InputQueue := enqueue_elements (InputQueue p) (uStartPos pPacket) es\<rparr>) c) })"

definition count_received :: "NetPacketT \<Rightarrow> NetClientPeerT \<Rightarrow> NetClientPeerT" where
  "count_received pPacket = add_stat NETPLAY_STAT_RECVBYTES (int (uPacketLen pPacket)) \<circ> add_stat NETPLAY_STAT_RECVPACKETS 1"

definition peer_packet :: "nat \<Rightarrow> NetPacketT \<Rightarrow> NetClientT \<Rightarrow> NetClientT option" where
  "peer_packet i pPacket c =
     (case pPacket of
        InputData d \<Rightarrow> u_NetClientPeerInputData i d c
      | Throttle t \<Rightarrow> Some (u_NetClientPeerThrottle i t c)
      | _ \<Rightarrow> Some c)"

fun sender_loop :: "NetSocketAddrT \<Rightarrow> NetPacketT \<Rightarrow> nat list \<Rightarrow> NetClientT \<Rightarrow> NetClientT option" where
  "sender_loop Addr pPacket [] c = Some c"
| "sender_loop Addr pPacket (i # is) c =
     (if connected (Peers c ! i) \<and> NetSocketAddrIsEqual Addr (p_Addr (Peers c ! i))
      then peer_packet i pPacket (upd_peer i (count_received pPacket) c)
      else sender_loop Addr pPacket is c)"

text \<open>A datagram that is not a packet changes at most the socket.\<close>

datatype 'p arrival = Died | Malformed | Arrived 'p

fun u_NetClientSocketReadUDP :: "(NetSocketAddrT \<times> NetPacketT) arrival \<Rightarrow> NetClientT \<Rightarrow> NetClientT option" where
  "u_NetClientSocketReadUDP Died c = Some (c\<lparr>UDPSocket := NetSocketDisconnect (UDPSocket c)\<rparr>)"
| "u_NetClientSocketReadUDP Malformed c = Some c"
| "u_NetClientSocketReadUDP (Arrived (Addr, pPacket)) c =
     (if playing c then sender_loop Addr pPacket peer_ids c else Some c)"

section \<open>Packets of the server\<close>

definition peer_address :: "NetSocketAddrT \<Rightarrow> int \<Rightarrow> u32 \<Rightarrow> int \<Rightarrow> NetClientT \<Rightarrow> NetSocketAddrT" where
  "peer_address Local clientid ipaddr UDPPort c =
     (let Addr = \<lparr>sin_family = AF_INET, sin_port = of_int UDPPort, sin_addr = ipaddr\<rparr> in
      if clientid = c_clientid c then Addr\<lparr>sin_addr := INADDR_LOOPBACK_n, sin_port := sin_port Local\<rparr>
      else if ipaddr = INADDR_LOOPBACK_n then Addr\<lparr>sin_addr := sin_addr (PeerAddr (c_Socket c))\<rparr>
      else if ipaddr = INADDR_ANY_n \<and> UDPPort \<noteq> 0 then Addr\<lparr>sin_addr := sin_addr (PeerAddr (c_Socket c))\<rparr>
      else Addr)"

definition client_peer_info :: "NetSocketAddrT \<Rightarrow> NetPlayStatusE \<Rightarrow> int \<Rightarrow> string \<Rightarrow> u32 \<Rightarrow> int \<Rightarrow> NetClientT \<Rightarrow> NetClientT option" where
  "client_peer_info Local st clientid Name ipaddr UDPPort c =
     (if 0 \<le> clientid \<and> clientid < int NETCLIENT_MAXPEERS
      then do { name \<leftarrow> strcpy 16 Name;
                Some (upd_peer (nat clientid)
                        (\<lambda>p. p\<lparr>p_clientid := clientid, p_Name := name,
                               p_Addr := peer_address Local clientid ipaddr UDPPort c, p_eStatus := st\<rparr>) c) }
      else Some c)"

definition start_peer :: "u32 \<Rightarrow> NetClientPeerT \<Rightarrow> NetClientPeerT" where
  "start_peer seq p =
     p\<lparr>InputQueue := NetQueueReset (InputQueue p) seq, OutputQueue := NetQueueReset (OutputQueue p) seq,
       Stats := \<lambda>_. 0, TotalStats := \<lambda>_. 0, AveStats := \<lambda>_. 0, iThrottleReq := 0\<rparr>"

definition client_start_game :: "nat \<Rightarrow> u32 \<Rightarrow> NetClientT \<Rightarrow> NetClientT option" where
  "client_start_game uLatency uSeqNum c =
     (let c = (map_peers (start_peer uSeqNum) (c\<lparr>uFrame := 0\<rparr>))\<lparr>c_eGameState := NETPLAY_GAMESTATE_PLAY\<rparr>;
          c = ((\<lambda>c. snd (NetClientEnqueueInput 0 c)) ^^ uLatency) c in
      do { (sent, c) \<leftarrow> NetClientTransmit c;
           Some (log_event (Called NETPLAY_CALLBACK_STARTGAME []) c) })"

fun client_packet :: "NetSocketAddrT \<Rightarrow> NetPacketT \<Rightarrow> NetClientT \<Rightarrow> NetClientT option" where
  "client_packet Local (ServerHello version clientid name) c =
     do { n \<leftarrow> strcpy 16 name;
          Some (log_event (Called NETPLAY_CALLBACK_CONNECTED [])
                  (c\<lparr>ServerName := n, c_clientid := clientid, c_eStatus := NETPLAY_STATUS_CONNECTED\<rparr>)) }"
| "client_packet Local (PeerInfo st i name addr port) c = client_peer_info Local st i name addr port c"
| "client_packet Local (StartGame latency seq) c = client_start_game latency seq c"
| "client_packet Local (LoadReq i GameName) c =
     Some (if 0 < length GameName
           then log_event (Called NETPLAY_CALLBACK_LOADGAME GameName) (c\<lparr>c_eGameState := NETPLAY_GAMESTATE_LOADING\<rparr>)
           else log_event (Called NETPLAY_CALLBACK_UNLOADGAME []) (c\<lparr>c_eGameState := NETPLAY_GAMESTATE_IDLE\<rparr>))"
| "client_packet Local (Ping t) c = Some (log_event (SentTCP (Pong t)) c)"
| "client_packet Local _ c = Some c"

text \<open>\<^verbatim>\<open>NetPacketRecv\<close> disconnects the socket itself when the packet is bad or the connection dead.\<close>

fun u_NetClientSocketRead :: "NetSocketAddrT \<Rightarrow> NetPacketT arrival \<Rightarrow> NetClientT \<Rightarrow> NetClientT option" where
  "u_NetClientSocketRead Local (Arrived p) c = client_packet Local p c"
| "u_NetClientSocketRead Local _ c = Some (c\<lparr>c_Socket := NetSocketDisconnect (c_Socket c)\<rparr>)"

definition u_NetClientSocketConnect :: "NetSocketAddrT \<Rightarrow> NetClientT \<Rightarrow> NetClientT option" where
  "u_NetClientSocketConnect Local c =
     do { n \<leftarrow> strcpy NETPACKET_NAME_SIZE (c_Name c);
          Some (log_event (SentTCP (ClientHello NETPLAY_VERSION n (uint (sin_port Local)))) c) }"

definition idle_peer :: "NetClientPeerT \<Rightarrow> NetClientPeerT" where
  "idle_peer p = p\<lparr>p_eStatus := NETPLAY_STATUS_IDLE, p_eGameState := NETPLAY_GAMESTATE_IDLE\<rparr>"

definition u_NetClientSocketDisconnect :: "NetClientT \<Rightarrow> NetClientT" where
  "u_NetClientSocketDisconnect c =
     log_event (Called NETPLAY_CALLBACK_DISCONNECTED [])
       ((map_peers idle_peer
          (c\<lparr>UDPSocket := NetSocketDisconnect (UDPSocket c), c_eStatus := NETPLAY_STATUS_IDLE,
             c_eGameState := NETPLAY_GAMESTATE_IDLE\<rparr>))\<lparr>c_clientid := -1\<rparr>)"

section \<open>A frame\<close>

definition u_NetClientUpdateStats :: "NetClientT \<Rightarrow> NetClientT" where
  "u_NetClientUpdateStats =
     map_peers (\<lambda>p. p\<lparr>AveStats := Stats p, TotalStats := (\<lambda>k. TotalStats p k + Stats p k), Stats := \<lambda>_. 0\<rparr>)"

definition throttle_request :: "NetClientPeerT \<Rightarrow> int" where
  "throttle_request p =
     (let nStalls = AveStats p NETPLAY_STAT_INPUTSTALL;
          nAveInput = AveStats p NETPLAY_STAT_INPUTQUEUE sdiv NETPLAY_STATUPDATEFRAMES in
      if nStalls = 0 then (if 1 < nAveInput then (1 - nAveInput) sdiv 2 else 0)
      else if nAveInput < 1 then 1 else 0)"

definition u_NetClientSendThrottleReq :: "NetClientT \<Rightarrow> NetClientT" where
  "u_NetClientSendThrottleReq =
     fold (\<lambda>i c. if connected (Peers c ! i) \<and> 0 < AveStats (Peers c ! i) NETPLAY_STAT_INPUTQUEUE
                 then NetClientSendUDP (int i) (Throttle (throttle_request (Peers c ! i))) c else c) peer_ids"

definition u_NetClientUpdateThrottle :: "NetClientT \<Rightarrow> NetClientT" where
  "u_NetClientUpdateThrottle c =
     fold (\<lambda>i c. if connected (Peers c ! i) \<and> iThrottle c < iThrottleReq (Peers c ! i)
                 then c\<lparr>iThrottle := iThrottleReq (Peers c ! i)\<rparr> else c) peer_ids (c\<lparr>iThrottle := -5\<rparr>)"

definition pad_output :: "u32 \<Rightarrow> NetClientT \<Rightarrow> NetClientT" where
  "pad_output uInputSend c =
     ((\<lambda>c. let c = snd (NetClientEnqueueInput uInputSend c) in c\<lparr>iThrottle := iThrottle c - 1\<rparr>) ^^ nat (iThrottle c)) c"

definition update_period :: "NetClientT \<Rightarrow> NetClientT" where
  "update_period c =
     (let c = (if NETPLAY_STATUPDATEFRAMES \<le> nStatFrames c
               then (u_NetClientUpdateThrottle (u_NetClientSendThrottleReq (u_NetClientUpdateStats c)))\<lparr>nStatFrames := 0\<rparr>
               else c) in
      c\<lparr>nStatFrames := nStatFrames c + 1\<rparr>)"

definition NetClientProcess :: "u32 \<Rightarrow> int \<Rightarrow> NetClientT \<Rightarrow> (u32 list option \<times> NetClientT) option" where
  "NetClientProcess uInputSend nInputRecv c =
     (if playing c
      then do { (r, c) \<leftarrow> NetClientRecvInput nInputRecv c;
                let c = (if r \<noteq> None
                         then let c = (if 0 \<le> iThrottle c then snd (NetClientEnqueueInput uInputSend c)
                                       else c\<lparr>iThrottle := iThrottle c + 1\<rparr>) in c\<lparr>uFrame := uFrame c + 1\<rparr>
                         else c);
                (sent, c) \<leftarrow> NetClientTransmit (pad_output uInputSend c);
                Some (r, update_period c) }
      else Some (None, c))"

section \<open>Sessions\<close>

text \<open>The arguments of \<^verbatim>\<open>NetClientNew\<close> are what \<^verbatim>\<open>memset\<close> makes of a queue and a socket.\<close>

definition empty_queue :: NetQueueT where
  "empty_queue = \<lparr>uHead = 0, uTail = 0, Elements = replicate NETQUEUE_SIZE 0\<rparr>"

definition zero_socket :: NetSocketT where
  "zero_socket = \<lparr>status = NETSOCKET_STATUS_INVALID, socket = 0, threadid = 0, PeerAddr = zero_addr\<rparr>"

definition new_peer :: NetClientPeerT where
  "new_peer =
     \<lparr>p_clientid = 0, p_eStatus = NETPLAY_STATUS_IDLE, p_eGameState = NETPLAY_GAMESTATE_IDLE, p_Name = [],
      Stats = \<lambda>_. 0, TotalStats = \<lambda>_. 0, AveStats = \<lambda>_. 0, iThrottleReq = 0, p_Addr = zero_addr,
      OutputQueue = NetQueueNew empty_queue, InputQueue = NetQueueNew empty_queue\<rparr>"

definition NetClientNew :: NetClientT where
  "NetClientNew =
     \<lparr>c_clientid = 0, c_eStatus = NETPLAY_STATUS_IDLE, c_eGameState = NETPLAY_GAMESTATE_IDLE, c_Name = ''client'',
      iThrottle = 0, ServerName = [], c_Socket = NetSocketNew zero_socket, UDPSocket = NetSocketNew zero_socket,
      uFrame = 0, nStatFrames = 0, Peers = replicate NETCLIENT_MAXPEERS new_peer, c_log = []\<rparr>"

definition NetClientDelete :: "NetClientT \<Rightarrow> NetClientT" where
  "NetClientDelete c =
     map_peers (\<lambda>p. (idle_peer p)\<lparr>InputQueue := NetQueueDelete (InputQueue p), OutputQueue := NetQueueDelete (OutputQueue p)\<rparr>)
       (c\<lparr>c_Socket := NetSocketDelete (c_Socket c), UDPSocket := NetSocketDelete (UDPSocket c),
          c_eStatus := NETPLAY_STATUS_IDLE, c_eGameState := NETPLAY_GAMESTATE_IDLE\<rparr>)"

text \<open>What the system answers for the two sockets is a parameter.\<close>

record net_answers =
  udp_fd :: int
  udp_bound :: int
  udp_thread :: int
  tcp_fd :: int
  tcp_thread :: int

definition NetClientConnect :: "net_answers \<Rightarrow> u32 \<Rightarrow> u16 \<Rightarrow> NetClientT \<Rightarrow> int \<times> NetClientT" where
  "NetClientConnect sys ipaddr port c =
     (if c_eStatus c = NETPLAY_STATUS_IDLE
      then let c = map_peers (\<lambda>p. p\<lparr>p_eStatus := NETPLAY_STATUS_IDLE\<rparr>)
                     (c\<lparr>c_eStatus := NETPLAY_STATUS_CONNECTING, c_eGameState := NETPLAY_GAMESTATE_IDLE, c_clientid := -1\<rparr>);
               (rc, udp) = NetSocketBindUDP (udp_fd sys) (udp_bound sys) (udp_thread sys) (UDPSocket c);
               c = c\<lparr>UDPSocket := udp\<rparr> in
           if rc \<noteq> 0 then (-2, c)
           else let (rc, tcp) = NetSocketConnect (tcp_fd sys) (tcp_thread sys) ipaddr port (c_Socket c) in
                (-1, c\<lparr>c_Socket := tcp\<rparr>)
      else (-1, c))"

definition NetClientDisconnect :: "NetClientT \<Rightarrow> NetClientT" where
  "NetClientDisconnect c =
     (if c_eStatus c = NETPLAY_STATUS_CONNECTED
      then c\<lparr>c_Socket := NetSocketDisconnect (c_Socket c), UDPSocket := NetSocketDisconnect (UDPSocket c)\<rparr> else c)"

definition NetClientSendText :: "string \<Rightarrow> NetClientT \<Rightarrow> NetClientT option" where
  "NetClientSendText pText c = do { s \<leftarrow> strcpy 128 pText; Some (log_event (SentTCP (TextPacket (c_clientid c) s)) c) }"

definition NetClientPingServer :: "int \<Rightarrow> NetClientT \<Rightarrow> NetClientT" where
  "NetClientPingServer time c = log_event (SentTCP (Ping time)) c"

definition NetClientSendLoadReq :: "string option \<Rightarrow> NetClientT \<Rightarrow> NetClientT option" where
  "NetClientSendLoadReq pGameName c =
     do { s \<leftarrow> (case pGameName of Some n \<Rightarrow> strcpy 128 n | None \<Rightarrow> strcpy 128 []);
          Some (log_event (SentTCP (LoadReq (c_clientid c) s)) c) }"

definition NetClientSendLoadAck :: "NetPlayLoadAckE \<Rightarrow> NetClientT \<Rightarrow> NetClientT" where
  "NetClientSendLoadAck eLoadAck c = log_event (SentTCP (LoadAck (c_clientid c) eLoadAck)) c"

end
