(* ===== verification/Net_Views.thy ===== *)
theory Net_Views
  imports Net_Client_Loop
begin

text \<open>
  What the operations of a client do to the part of its state the protocol depends on: status and
  address of each peer, the queues, and the log. Statistics are not part of this view, so the
  functions that count are invisible in it.
\<close>

section \<open>The encoding\<close>

lemma takeWhile_eq_replicate: "takeWhile (\<lambda>y. y = x) ys = replicate (length (takeWhile (\<lambda>y. y = x) ys)) x"
  by (induction ys) auto

lemma take_run: "take (u_NetClientCalcRunLength xs) xs = replicate (u_NetClientCalcRunLength xs) (hd xs)"
  by (cases xs) (auto simp: run_length_eq takeWhile_eq_take [symmetric] simp flip: takeWhile_eq_replicate)

lemma run_length_bounds: "xs \<noteq> [] \<Longrightarrow> 0 < u_NetClientCalcRunLength xs \<and> u_NetClientCalcRunLength xs \<le> length xs"
  by (cases xs) (auto simp: run_length_eq length_takeWhile_le)

lemma decode_encode:
  assumes "n + 2 * length xs \<le> m" and "length xs \<le> cap" and "length xs < 2147483648"
  shows "u_NetClientDecodeData cap (encode_loop xs n m) = Some xs \<and> n + length (encode_loop xs n m) \<le> m"
  using assms
proof (induction xs n m arbitrary: cap rule: encode_loop.induct)
  case (1 xs n m)
  show ?case
  proof (cases "xs = []")
    case False
    define k where "k = u_NetClientCalcRunLength xs"
    from run_length_bounds [OF False] have k: "0 < k" "k \<le> length xs" by (auto simp: k_def)
    with 1(2,3,4) False have m: "n < m" by (cases xs) auto
    have kb: "unat (of_nat k :: u32) = k" using k 1(4) by (simp add: unat_of_nat)
    then have s: "sint (of_nat k :: u32) = int k" using k 1(4) by (subst sint_u32_small) auto
    have IH: "u_NetClientDecodeData (cap - k) (encode_loop (drop k xs) (n + 2) m) = Some (drop k xs) \<and>
              n + 2 + length (encode_loop (drop k xs) (n + 2) m) \<le> m"
      using k 1(2-4) False m by (intro 1(1) [of k "cap - k"]) (auto simp: k_def)
    have "replicate k (hd xs) @ drop k xs = xs"
      unfolding k_def take_run [symmetric] by (rule append_take_drop_id)
    with IH k 1(3) False m s show ?thesis
      by (subst (1 2) encode_loop.simps) (simp add: Let_def k_def [symmetric])
  qed (use 1(2) in \<open>simp add: encode_loop.simps\<close>)
qed

section \<open>The view\<close>

definition pv :: "NetClientPeerT \<Rightarrow> NetPlayStatusE \<times> NetSocketAddrT \<times> NetQueueT \<times> NetQueueT" where
  "pv p = (p_eStatus p, p_Addr p, OutputQueue p, InputQueue p)"

definition cv :: "NetClientT \<Rightarrow> NetPlayStatusE \<times> NetPlayGameStateE \<times> (NetPlayStatusE \<times> NetSocketAddrT \<times> NetQueueT \<times> NetQueueT) list \<times> net_event list" where
  "cv c = (c_eStatus c, c_eGameState c, map pv (Peers c), c_log c)"

lemma pv_cong: "pv p = pv p' \<Longrightarrow> connected p = connected p' \<and> p_Addr p = p_Addr p' \<and> OutputQueue p = OutputQueue p' \<and> InputQueue p = InputQueue p'"
  by (simp add: pv_def connected_def)

lemma cv_peer: "cv c = cv c' \<Longrightarrow> i < length (Peers c) \<Longrightarrow> pv (Peers c ! i) = pv (Peers c' ! i)"
proof -
  assume "cv c = cv c'" and i: "i < length (Peers c)"
  then have m: "map pv (Peers c) = map pv (Peers c')" by (simp add: cv_def)
  then have "length (Peers c) = length (Peers c')" by (rule map_eq_imp_length_eq)
  with m i show ?thesis by (metis nth_map)
qed

lemma cv_same_peer:
  "cv c = cv c' \<Longrightarrow> i < length (Peers c) \<Longrightarrow>
     connected (Peers c ! i) = connected (Peers c' ! i) \<and> p_Addr (Peers c ! i) = p_Addr (Peers c' ! i) \<and>
     OutputQueue (Peers c ! i) = OutputQueue (Peers c' ! i) \<and> InputQueue (Peers c ! i) = InputQueue (Peers c' ! i)"
  by (rule pv_cong) (rule cv_peer)

lemma cv_length: "cv c = cv c' \<Longrightarrow> length (Peers c) = length (Peers c')"
  by (auto simp: cv_def dest: map_eq_imp_length_eq)

lemma cv_playing: "cv c = cv c' \<Longrightarrow> playing c = playing c'"
  by (simp add: cv_def playing_def)

lemma pv_add_stat [simp]: "pv (add_stat k n p) = pv p"
  by (simp add: pv_def add_stat_def)

lemma cv_upd_peer: "(\<And>p. pv (f p) = pv p) \<Longrightarrow> cv (upd_peer i f c) = cv c"
  by (cases "i < length (Peers c)") (auto simp: cv_def upd_peer_def map_update list_update_same_conv not_less list_update_beyond)

lemma cv_add_stat [simp]: "cv (upd_peer i (add_stat k n) c) = cv c"
  by (rule cv_upd_peer) simp

lemma length_upd_peer [simp]: "length (Peers (upd_peer i f c)) = length (Peers c)"
  by (simp add: upd_peer_def)

text \<open>Counting loops.\<close>

lemma output_limit_view:
  "output_limit_loop n is c = (b, c') \<Longrightarrow> set is \<subseteq> {..<length (Peers c)} \<Longrightarrow>
     cv c' = cv c \<and> (b \<longrightarrow> (\<forall>i \<in> set is. connected (Peers c ! i) \<longrightarrow> NetQueueGetCount (OutputQueue (Peers c ! i)) < n))"
proof (induction "is" arbitrary: c)
  case (Cons i "is")
  show ?case
  proof (cases "connected (Peers c ! i)")
    case True
    define c1 where "c1 = upd_peer i (add_stat NETPLAY_STAT_OUTPUTQUEUE (NetQueueGetCount (OutputQueue (Peers c ! i)))) c"
    have v: "cv c1 = cv c" by (simp add: c1_def)
    show ?thesis
    proof (cases "n \<le> NetQueueGetCount (OutputQueue (Peers c ! i))")
      case False
      with Cons.prems True have r: "output_limit_loop n is c1 = (b, c')" by (simp add: Let_def c1_def)
      have "set is \<subseteq> {..<length (Peers c1)}" using Cons.prems(2) by (simp add: c1_def)
      from Cons.IH [OF r this] v False Cons.prems(2) cv_same_peer [OF v [symmetric]] show ?thesis
        by (simp add: subset_iff)
    qed (use Cons.prems True v in \<open>auto simp: Let_def c1_def\<close>)
  qed (use Cons in auto)
qed auto

lemma input_ready_view:
  "input_ready_loop is b0 c = (b, c') \<Longrightarrow> set is \<subseteq> {..<length (Peers c)} \<Longrightarrow>
     cv c' = cv c \<and> (b \<longrightarrow> b0 \<and> (\<forall>i \<in> set is. connected (Peers c ! i) \<longrightarrow> NetQueueGetCount (InputQueue (Peers c ! i)) \<noteq> 0))"
proof (induction "is" arbitrary: b0 c)
  case (Cons i "is")
  show ?case
  proof (cases "connected (Peers c ! i)")
    case True
    define k where "k = NetQueueGetCount (InputQueue (Peers c ! i))"
    define c1 where "c1 = upd_peer i (add_stat NETPLAY_STAT_INPUTQUEUE k) c"
    define c2 where "c2 = (if k = 0 then upd_peer i (add_stat NETPLAY_STAT_INPUTSTALL 1) c1 else c1)"
    have v: "cv c2 = cv c" by (simp add: c2_def c1_def)
    with Cons.prems True have r: "input_ready_loop is (b0 \<and> k \<noteq> 0) c2 = (b, c')"
      by (auto simp: Let_def c1_def c2_def k_def split: if_splits)
    have "set is \<subseteq> {..<length (Peers c2)}" using Cons.prems(2) by (simp add: c2_def c1_def)
    from Cons.IH [OF r this] v Cons.prems(2) cv_same_peer [OF v [symmetric]] show ?thesis
      by (auto simp add: subset_iff k_def)
  qed (use Cons in auto)
qed auto

text \<open>Sending to one peer is, in the view, one datagram in the log.\<close>

definition logged :: "net_event list \<Rightarrow> NetClientT \<Rightarrow> NetClientT \<Rightarrow> bool" where
  "logged es c c' \<longleftrightarrow> c_eStatus c' = c_eStatus c \<and> c_eGameState c' = c_eGameState c \<and>
     map pv (Peers c') = map pv (Peers c) \<and> c_log c' = c_log c @ es"

lemma logged_Nil: "logged [] c c' \<longleftrightarrow> cv c' = cv c"
  by (auto simp: logged_def cv_def)

lemma logged_trans: "logged es c c1 \<Longrightarrow> logged es' c1 c2 \<Longrightarrow> logged (es @ es') c c2"
  by (simp add: logged_def)

lemma logged_peer:
  "logged es c c' \<Longrightarrow> i < length (Peers c) \<Longrightarrow>
     connected (Peers c' ! i) = connected (Peers c ! i) \<and> p_Addr (Peers c' ! i) = p_Addr (Peers c ! i) \<and>
     OutputQueue (Peers c' ! i) = OutputQueue (Peers c ! i) \<and> InputQueue (Peers c' ! i) = InputQueue (Peers c ! i)"
proof -
  assume "logged es c c'" and i: "i < length (Peers c)"
  then have "cv (c\<lparr>c_log := []\<rparr>) = cv (c'\<lparr>c_log := []\<rparr>)" by (simp add: logged_def cv_def)
  from cv_same_peer [OF this, of i] i show ?thesis by (simp add: connected_def)
qed

lemma logged_length: "logged es c c' \<Longrightarrow> length (Peers c') = length (Peers c)"
  unfolding logged_def by (auto dest: map_eq_imp_length_eq)

lemma send_view:
  "logged (if connected (Peers c ! i) then [SentUDP (p_Addr (Peers c ! i)) p] else []) c (NetClientSendUDP_peer i p c)"
proof (cases "connected (Peers c ! i)")
  case True
  let ?c = "upd_peer i (add_stat NETPLAY_STAT_SENTBYTES (int (uPacketLen p)) \<circ> add_stat NETPLAY_STAT_SENTPACKETS 1) c"
  have "cv ?c = cv c" by (rule cv_upd_peer) simp
  with True show ?thesis by (simp add: NetClientSendUDP_peer_def logged_def log_event_def cv_def)
qed (simp add: NetClientSendUDP_peer_def logged_def)

text \<open>The datagram a client sends to a peer.\<close>

definition input_packet :: "NetClientPeerT \<Rightarrow> NetQueueElementT list \<Rightarrow> NetPacketT" where
  "input_packet p es = InputData \<lparr>uAckPos = uTail (InputQueue p), uStartPos = uHead (OutputQueue p),
                                  EncodeData = u_NetClientEncodeData es 128\<rparr>"

definition pending :: "NetClientPeerT \<Rightarrow> NetQueueElementT list" where
  "pending p = NetQueueFetchRange (OutputQueue p) (uHead (OutputQueue p)) (uTail (OutputQueue p)) 64"

lemma transmit_view:
  assumes "u_NetClientPeerTransmit i c = Some c'" and "connected (Peers c ! i)"
  shows "length (pending (Peers c ! i)) \<le> 64 \<and>
         logged (if pending (Peers c ! i) \<noteq> [] then [SentUDP (p_Addr (Peers c ! i)) (input_packet (Peers c ! i) (pending (Peers c ! i)))] else []) c c'"
proof -
  have "NetClientSendUDP (int i) p c = NetClientSendUDP_peer i p c" for p by (simp add: NetClientSendUDP_def)
  with assms send_view [of c i] show ?thesis
    by (auto simp: u_NetClientPeerTransmit_def Let_def pending_def input_packet_def sizeof_EncodeData_def logged_def split: if_splits)
qed

lemma transmit_defined:
  assumes "length (pending (Peers c ! i)) \<le> 64"
  shows "u_NetClientPeerTransmit i c \<noteq> None"
proof -
  have "length (u_NetClientEncodeData (pending (Peers c ! i)) 128) \<le> 128"
    using decode_encode [of 0 "pending (Peers c ! i)" 128 64] assms by (simp add: u_NetClientEncodeData_def)
  with assms show ?thesis
    by (auto simp: u_NetClientPeerTransmit_def Let_def pending_def sizeof_EncodeData_def)
qed

lemma transmit_loop_view:
  "each_peer (\<lambda>i c. if connected (Peers c ! i) then u_NetClientPeerTransmit i c else Some c) is c = Some c' \<Longrightarrow>
   set is \<subseteq> {..<length (Peers c)} \<Longrightarrow>
   \<exists>es. logged es c c' \<and>
     (\<forall>e \<in> set es. \<exists>i \<in> set is. connected (Peers c ! i) \<and> length (pending (Peers c ! i)) \<le> 64 \<and>
        e = SentUDP (p_Addr (Peers c ! i)) (input_packet (Peers c ! i) (pending (Peers c ! i))))"
proof (induction "is" arbitrary: c)
  case Nil
  then show ?case by (intro exI [of _ "[]"]) (simp add: logged_def)
next
  case (Cons i "is")
  obtain c1 es1 where c1: "(if connected (Peers c ! i) then u_NetClientPeerTransmit i c else Some c) = Some c1"
    and r: "each_peer (\<lambda>i c. if connected (Peers c ! i) then u_NetClientPeerTransmit i c else Some c) is c1 = Some c'"
    and l1: "logged es1 c c1" and p1: "\<forall>e \<in> set es1. connected (Peers c ! i) \<and> length (pending (Peers c ! i)) \<le> 64 \<and>
       e = SentUDP (p_Addr (Peers c ! i)) (input_packet (Peers c ! i) (pending (Peers c ! i)))"
  proof (cases "connected (Peers c ! i)")
    case True
    with Cons.prems(1) obtain y where y: "u_NetClientPeerTransmit i c = Some y"
      "each_peer (\<lambda>i c. if connected (Peers c ! i) then u_NetClientPeerTransmit i c else Some c) is y = Some c'"
      by (auto simp: bind_eq_Some_conv)
    let ?es = "if pending (Peers c ! i) \<noteq> [] then [SentUDP (p_Addr (Peers c ! i)) (input_packet (Peers c ! i) (pending (Peers c ! i)))] else []"
    show ?thesis by (rule that [of y ?es, OF _ y(2)]) (use y(1) True transmit_view [OF y(1) True] in \<open>auto split: if_splits\<close>)
  next
    case False
    with Cons.prems(1) that [of c "[]"] show ?thesis by (simp add: logged_def)
  qed
  have "set is \<subseteq> {..<length (Peers c1)}" using Cons.prems(2) logged_length [OF l1] by simp
  from Cons.IH [OF r this] obtain es2 where l2: "logged es2 c1 c'"
    and p2: "\<forall>e \<in> set es2. \<exists>i \<in> set is. connected (Peers c1 ! i) \<and> length (pending (Peers c1 ! i)) \<le> 64 \<and>
        e = SentUDP (p_Addr (Peers c1 ! i)) (input_packet (Peers c1 ! i) (pending (Peers c1 ! i)))" by blast
  have same: "connected (Peers c1 ! j) = connected (Peers c ! j)" "p_Addr (Peers c1 ! j) = p_Addr (Peers c ! j)"
    "pending (Peers c1 ! j) = pending (Peers c ! j)" "input_packet (Peers c1 ! j) = input_packet (Peers c ! j)" if "j \<in> set is" for j
    using logged_peer [OF l1, of j] that Cons.prems(2) by (auto simp: pending_def input_packet_def fun_eq_iff)
  show ?case
    using logged_trans [OF l1 l2] p1 p2 same by (intro exI [of _ "es1 @ es2"]) fastforce
qed

text \<open>The operations of a frame.\<close>

lemma peers_subset: "length (Peers c) = NETCLIENT_MAXPEERS \<Longrightarrow> set peer_ids \<subseteq> {..<length (Peers c)}"
  by auto

lemma Transmit_view:
  assumes "NetClientTransmit c = Some (b, c')" and "length (Peers c) = NETCLIENT_MAXPEERS"
  shows "\<exists>es. logged es c c' \<and>
    (\<forall>e \<in> set es. \<exists>i < NETCLIENT_MAXPEERS. connected (Peers c ! i) \<and> length (pending (Peers c ! i)) \<le> 64 \<and>
        e = SentUDP (p_Addr (Peers c ! i)) (input_packet (Peers c ! i) (pending (Peers c ! i))))"
proof -
  obtain ok c1 where l: "NetClientCheckOutputLimit 128 c = (ok, c1)" by fastforce
  from output_limit_view [OF l [unfolded NetClientCheckOutputLimit_def] peers_subset [OF assms(2)]]
  have v: "cv c1 = cv c" by simp
  show ?thesis
  proof (cases "playing c \<and> ok")
    case True
    from assms(1) True l
    have t: "each_peer (\<lambda>i c. if connected (Peers c ! i) then u_NetClientPeerTransmit i c else Some c) peer_ids c1 = Some c'"
      by (auto simp: NetClientTransmit_def bind_eq_Some_conv)
    have len: "length (Peers c1) = NETCLIENT_MAXPEERS" using cv_length [OF v] assms(2) by simp
    from transmit_loop_view [OF t peers_subset [OF len]] obtain es where e: "logged es c1 c'"
      and p: "\<forall>e \<in> set es. \<exists>i \<in> set peer_ids. connected (Peers c1 ! i) \<and> length (pending (Peers c1 ! i)) \<le> 64 \<and>
        e = SentUDP (p_Addr (Peers c1 ! i)) (input_packet (Peers c1 ! i) (pending (Peers c1 ! i)))" by blast
    have "logged es c c'" using e v by (simp add: logged_def cv_def)
    moreover have "connected (Peers c1 ! i) = connected (Peers c ! i)" "p_Addr (Peers c1 ! i) = p_Addr (Peers c ! i)"
      "pending (Peers c1 ! i) = pending (Peers c ! i)" "input_packet (Peers c1 ! i) = input_packet (Peers c ! i)"
      if "i < NETCLIENT_MAXPEERS" for i
      using cv_same_peer [OF v, of i] that len by (auto simp: pending_def input_packet_def fun_eq_iff)
    ultimately show ?thesis using p by (intro exI [of _ es]) fastforce
  next
    case False
    with assms(1) l v have "cv c' = cv c" by (auto simp: NetClientTransmit_def split: if_splits)
    then show ?thesis by (intro exI [of _ "[]"]) (simp add: logged_Nil)
  qed
qed

definition pushed :: "u32 \<Rightarrow> NetClientT \<Rightarrow> NetClientT \<Rightarrow> bool" where
  "pushed u c c' \<longleftrightarrow> c_eStatus c' = c_eStatus c \<and> c_eGameState c' = c_eGameState c \<and> c_log c' = c_log c \<and>
     map pv (Peers c') = map (pv \<circ> enqueue_output u) (Peers c) \<and>
     (\<forall>i < length (Peers c). connected (Peers c ! i) \<longrightarrow> NetQueueGetCount (OutputQueue (Peers c ! i)) < 128)"

lemma Enqueue_view:
  assumes "length (Peers c) = NETCLIENT_MAXPEERS"
  shows "cv (snd (NetClientEnqueueInput u c)) = cv c \<or> pushed u c (snd (NetClientEnqueueInput u c))"
proof -
  obtain ok c1 where l: "NetClientCheckOutputLimit 128 c = (ok, c1)" by fastforce
  from output_limit_view [OF l [unfolded NetClientCheckOutputLimit_def] peers_subset [OF assms]]
  have v: "cv c1 = cv c"
    and b: "ok \<longrightarrow> (\<forall>i < length (Peers c). connected (Peers c ! i) \<longrightarrow> NetQueueGetCount (OutputQueue (Peers c ! i)) < 128)"
    using assms by auto
  have e: "pv p = pv p' \<Longrightarrow> (pv \<circ> enqueue_output u) p = (pv \<circ> enqueue_output u) p'" for p p'
    by (auto simp: enqueue_output_def connected_def pv_def)
  have m: "map (pv \<circ> enqueue_output u) (Peers c1) = map (pv \<circ> enqueue_output u) (Peers c)"
  proof (rule nth_equalityI)
    show "length (map (pv \<circ> enqueue_output u) (Peers c1)) = length (map (pv \<circ> enqueue_output u) (Peers c))"
      using cv_length [OF v] by simp
    show "map (pv \<circ> enqueue_output u) (Peers c1) ! i = map (pv \<circ> enqueue_output u) (Peers c) ! i"
      if "i < length (map (pv \<circ> enqueue_output u) (Peers c1))" for i
      using that e [OF cv_peer [OF v]] cv_length [OF v] by simp
  qed
  show ?thesis
  proof (cases "playing c \<and> ok")
    case True
    with l v b m have "pushed u c (snd (NetClientEnqueueInput u c))"
      by (simp add: NetClientEnqueueInput_def pushed_def map_peers_def cv_def)
    then show ?thesis ..
  next
    case False
    with l v show ?thesis by (auto simp: NetClientEnqueueInput_def)
  qed
qed

definition popped :: "u32 list \<Rightarrow> nat list \<Rightarrow> NetClientT \<Rightarrow> NetClientT \<Rightarrow> bool" where
  "popped ins is c c' \<longleftrightarrow> c_eStatus c' = c_eStatus c \<and> c_eGameState c' = c_eGameState c \<and> c_log c' = c_log c \<and>
     length (Peers c') = length (Peers c) \<and> length ins = length is \<and>
     (\<forall>i < length (Peers c). p_eStatus (Peers c' ! i) = p_eStatus (Peers c ! i) \<and> p_Addr (Peers c' ! i) = p_Addr (Peers c ! i) \<and>
        OutputQueue (Peers c' ! i) = OutputQueue (Peers c ! i) \<and>
        InputQueue (Peers c' ! i) = (if i \<in> set is \<and> connected (Peers c ! i) then snd (NetQueueDequeue (InputQueue (Peers c ! i)))
                                     else InputQueue (Peers c ! i))) \<and>
     (\<forall>n < length is. let p = Peers c ! (is ! n) in
        if connected p then fst (NetQueueDequeue (InputQueue p)) \<noteq> None \<longrightarrow> fst (NetQueueDequeue (InputQueue p)) = Some (ins ! n)
        else ins ! n = 0xFFFFFFFF)"

lemma recv_loop_view:
  "recv_input_loop is e c = Some (ins, c') \<Longrightarrow> set is \<subseteq> {..<length (Peers c)} \<Longrightarrow> distinct is \<Longrightarrow> popped ins is c c'"
proof (induction "is" arbitrary: e c ins)
  case Nil
  then show ?case by (auto simp: popped_def)
next
  case (Cons i "is")
  show ?case
  proof (cases "connected (Peers c ! i)")
    case True
    obtain r q where d: "NetQueueDequeue (InputQueue (Peers c ! i)) = (r, q)" by fastforce
    define c1 where "c1 = upd_peer i (\<lambda>p. p\<lparr>InputQueue := q\<rparr>) c"
    from Cons.prems(1) True d obtain x rest where x: "(if r = None then e else r) = Some x"
      and rest: "recv_input_loop is (Some x) c1 = Some (rest, c')" and ins: "ins = x # rest"
      by (auto simp: Let_def c1_def bind_eq_Some_conv)
    have "set is \<subseteq> {..<length (Peers c1)}" "distinct is" using Cons.prems(2,3) by (auto simp: c1_def)
    from Cons.IH [OF rest this] have p: "popped rest is c1 c'" .
    have n: "Peers c1 ! j = (if j = i then (Peers c ! i)\<lparr>InputQueue := q\<rparr> else Peers c ! j)" if "j < length (Peers c)" for j
      using that by (simp add: c1_def upd_peer_def nth_list_update)
    have i: "i < length (Peers c)" "i \<notin> set is" using Cons.prems(2,3) by auto
    show ?thesis
      unfolding popped_def
    proof (intro conjI)
      show "\<forall>j<length (Peers c). p_eStatus (Peers c' ! j) = p_eStatus (Peers c ! j) \<and> p_Addr (Peers c' ! j) = p_Addr (Peers c ! j) \<and>
        OutputQueue (Peers c' ! j) = OutputQueue (Peers c ! j) \<and>
        InputQueue (Peers c' ! j) = (if j \<in> set (i # is) \<and> connected (Peers c ! j) then snd (NetQueueDequeue (InputQueue (Peers c ! j)))
                                     else InputQueue (Peers c ! j))"
        using p n i True d by (auto simp: popped_def c1_def connected_def)
      show "\<forall>k<length (i # is). let pr = Peers c ! ((i # is) ! k) in
        if connected pr then fst (NetQueueDequeue (InputQueue pr)) \<noteq> None \<longrightarrow> fst (NetQueueDequeue (InputQueue pr)) = Some (ins ! k)
        else ins ! k = 0xFFFFFFFF"
      proof (intro allI impI)
        fix k assume k: "k < length (i # is)"
        show "let pr = Peers c ! ((i # is) ! k) in
          if connected pr then fst (NetQueueDequeue (InputQueue pr)) \<noteq> None \<longrightarrow> fst (NetQueueDequeue (InputQueue pr)) = Some (ins ! k)
          else ins ! k = 0xFFFFFFFF"
        proof (cases k)
          case 0
          then show ?thesis using True d x ins by auto
        next
          case (Suc m)
          with k have l: "m < length is" by simp
          have "set is \<subseteq> {..<length (Peers c)}" using Cons.prems(2) by simp
          from subsetD [OF this nth_mem [OF l]] i(2) nth_mem [OF l]
          have m: "is ! m \<noteq> i" "is ! m < length (Peers c)" by (metis, simp)
          with l p Suc ins n [OF m(2)] show ?thesis by (auto simp: popped_def Let_def)
        qed
      qed
    qed (use p ins in \<open>auto simp: popped_def c1_def upd_peer_def\<close>)
  next
    case False
    from Cons.prems(1) False obtain rest where rest: "recv_input_loop is e c = Some (rest, c')" and ins: "ins = 0xFFFFFFFF # rest"
      by (auto simp: bind_eq_Some_conv)
    from Cons.IH [OF rest] Cons.prems have "popped rest is c c'" by simp
    with False ins show ?thesis by (auto simp: popped_def Let_def nth_Cons' less_Suc_eq_0_disj)
  qed
qed

end
