(* ===== verification/Net_Session.thy ===== *)
theory Net_Session
  imports Net_Views
begin

text \<open>
  A session: the clients \<open>S\<close> playing together over a network that may lose, repeat and
  reorder datagrams. A client starts when the server tells it to, runs a frame when the emulator calls
  it, and receives a datagram at any time after it was sent. The state records beside the clients what
  was entered into the session by each of them and what each of them was given to play.
\<close>

record session =
  cl :: "nat \<Rightarrow> NetClientT"
  entered :: "nat \<Rightarrow> u32 list"
  frames :: "nat \<Rightarrow> u32 list list"

definition outq :: "NetClientT \<Rightarrow> nat \<Rightarrow> NetQueueT" where "outq c j = OutputQueue (Peers c ! j)"
definition inq :: "NetClientT \<Rightarrow> nat \<Rightarrow> NetQueueT" where "inq c j = InputQueue (Peers c ! j)"

definition set_client :: "nat \<Rightarrow> NetClientT \<Rightarrow> u32 list \<Rightarrow> u32 list list \<Rightarrow> session \<Rightarrow> session" where
  "set_client i c es fs s = s\<lparr>cl := (cl s)(i := c), entered := (entered s)(i := es), frames := (frames s)(i := fs)\<rparr>"

text \<open>What a client entered in a step is read off the end of the output queue it keeps for itself.\<close>

definition entered_by :: "nat \<Rightarrow> nat \<Rightarrow> NetClientT \<Rightarrow> u32 \<Rightarrow> u32 list" where
  "entered_by i from c u = replicate (unat (uTail (outq c i)) - from) u"

text \<open>
  Client \<open>i\<close> sends to client \<open>j\<close> at \<open>addr i j\<close>, which is also where datagrams of
  \<open>j\<close> come from for \<open>i\<close>.
\<close>

inductive session_step :: "nat set \<Rightarrow> (nat \<Rightarrow> nat \<Rightarrow> NetSocketAddrT) \<Rightarrow> u32 \<Rightarrow> session \<Rightarrow> session \<Rightarrow> bool"
  for S addr seq where
  start: "i \<in> S \<Longrightarrow> \<not> playing (cl s i) \<Longrightarrow> client_packet Local (StartGame latency seq) (cl s i) = Some c \<Longrightarrow>
            session_step S addr seq s (set_client i c (entered_by i (unat seq) c 0) [] s)"
| frame: "i \<in> S \<Longrightarrow> playing (cl s i) \<Longrightarrow> unat seq + length (entered s i) + 129 \<le> seq_limit \<Longrightarrow>
            NetClientProcess u (int NETCLIENT_MAXPEERS) (cl s i) = Some (r, c) \<Longrightarrow>
            session_step S addr seq s
              (set_client i c (entered s i @ entered_by i (unat (uTail (outq (cl s i) i))) c u)
                 (frames s i @ (case r of None \<Rightarrow> [] | Some v \<Rightarrow> [v])) s)"
| deliver: "i \<in> S \<Longrightarrow> j \<in> S \<Longrightarrow> SentUDP (addr j i) p \<in> set (c_log (cl s j)) \<Longrightarrow>
            u_NetClientSocketReadUDP (Arrived (addr i j, p)) (cl s i) = Some c \<Longrightarrow>
            session_step S addr seq s (set_client i c (entered s i) (frames s i) s)"

inductive session_reach :: "nat set \<Rightarrow> (nat \<Rightarrow> nat \<Rightarrow> NetSocketAddrT) \<Rightarrow> u32 \<Rightarrow> session \<Rightarrow> session \<Rightarrow> bool"
  for S addr seq s0 where
  reach_refl: "session_reach S addr seq s0 s0"
| reach_step: "session_reach S addr seq s0 s \<Longrightarrow> session_step S addr seq s s' \<Longrightarrow> session_reach S addr seq s0 s'"

section \<open>The invariant\<close>

definition client_ok :: "nat set \<Rightarrow> (nat \<Rightarrow> NetSocketAddrT) \<Rightarrow> NetClientT \<Rightarrow> bool" where
  "client_ok S addr c \<longleftrightarrow> length (Peers c) = NETCLIENT_MAXPEERS \<and> c_eStatus c = NETPLAY_STATUS_CONNECTED \<and>
     (\<forall>k < NETCLIENT_MAXPEERS. connected (Peers c ! k) = (k \<in> S) \<and>
        (k \<in> S \<longrightarrow> p_Addr (Peers c ! k) = addr k) \<and>
        length (Elements (outq c k)) = NETQUEUE_SIZE \<and> length (Elements (inq c k)) = NETQUEUE_SIZE)"

definition out_ok :: "nat \<Rightarrow> u32 list \<Rightarrow> nat \<Rightarrow> NetQueueT \<Rightarrow> bool" where
  "out_ok b h r q \<longleftrightarrow> nq_wf q \<and> retains h b r (nq_window q)"

definition in_ok :: "nat \<Rightarrow> u32 list \<Rightarrow> nat \<Rightarrow> NetQueueT \<Rightarrow> bool" where
  "in_ok b h n q \<longleftrightarrow> nq_wf q \<and> receives h b NETQUEUE_SIZE (nq_window q) \<and> unat (uHead q) = b + n"

definition given_ok :: "nat set \<Rightarrow> (nat \<Rightarrow> u32 list) \<Rightarrow> nat \<Rightarrow> nat \<Rightarrow> u32 \<Rightarrow> bool" where
  "given_ok S H n k v \<longleftrightarrow> (if k \<in> S then n < length (H k) \<and> v = H k ! n else v = 0xFFFFFFFF)"

definition frames_ok :: "nat set \<Rightarrow> (nat \<Rightarrow> u32 list) \<Rightarrow> u32 list list \<Rightarrow> bool" where
  "frames_ok S H fs \<longleftrightarrow> (\<forall>n < length fs. length (fs ! n) = NETCLIENT_MAXPEERS \<and>
     (\<forall>k < NETCLIENT_MAXPEERS. given_ok S H n k (fs ! n ! k)))"

definition packet_ok :: "nat \<Rightarrow> u32 list \<Rightarrow> nat \<Rightarrow> nat \<Rightarrow> NetPacketT \<Rightarrow> bool" where
  "packet_ok b h r a p \<longleftrightarrow> (\<exists>t. p = Throttle t) \<or>
     (\<exists>d es. p = InputData d \<and> b \<le> unat (uAckPos d) \<and> unat (uAckPos d) \<le> a \<and> unat (uStartPos d) < seq_limit \<and>
        u_NetClientDecodeData 256 (EncodeData d) = Some es \<and> says h b r (unat (uStartPos d)) es)"

definition rpos :: "nat \<Rightarrow> session \<Rightarrow> nat \<Rightarrow> nat \<Rightarrow> nat" where
  "rpos b s j i = (if playing (cl s j) then unat (uTail (inq (cl s j) i)) else b)"

definition session_ok :: "nat set \<Rightarrow> (nat \<Rightarrow> nat \<Rightarrow> NetSocketAddrT) \<Rightarrow> nat \<Rightarrow> session \<Rightarrow> bool" where
  "session_ok S addr b s \<longleftrightarrow>
     (\<forall>i \<in> S. client_ok S (addr i) (cl s i)) \<and>
     (\<forall>i \<in> S. \<not> playing (cl s i) \<longrightarrow> entered s i = [] \<and> frames s i = [] \<and> (\<forall>a p. SentUDP a p \<notin> set (c_log (cl s i)))) \<and>
     (\<forall>i \<in> S. \<forall>j \<in> S. playing (cl s i) \<longrightarrow> out_ok b (entered s i) (rpos b s j i) (outq (cl s i) j)) \<and>
     (\<forall>i \<in> S. \<forall>j \<in> S. playing (cl s i) \<longrightarrow> in_ok b (entered s j) (length (frames s i)) (inq (cl s i) j)) \<and>
     (\<forall>i \<in> S. frames_ok S (entered s) (frames s i)) \<and>
     (\<forall>i \<in> S. \<forall>j \<in> S. \<forall>p. SentUDP (addr i j) p \<in> set (c_log (cl s i)) \<longrightarrow>
        packet_ok b (entered s i) (rpos b s j i) (rpos b s i j) p)"

lemma session_okD:
  assumes "session_ok S addr b s" and "i \<in> S"
  shows "client_ok S (addr i) (cl s i)"
    and "\<not> playing (cl s i) \<Longrightarrow> entered s i = [] \<and> frames s i = [] \<and> (\<forall>a p. SentUDP a p \<notin> set (c_log (cl s i)))"
    and "j \<in> S \<Longrightarrow> playing (cl s i) \<Longrightarrow> out_ok b (entered s i) (rpos b s j i) (outq (cl s i) j)"
    and "j \<in> S \<Longrightarrow> playing (cl s i) \<Longrightarrow> in_ok b (entered s j) (length (frames s i)) (inq (cl s i) j)"
    and "frames_ok S (entered s) (frames s i)"
    and "j \<in> S \<Longrightarrow> SentUDP (addr i j) p \<in> set (c_log (cl s i)) \<Longrightarrow> packet_ok b (entered s i) (rpos b s j i) (rpos b s i j) p"
  using assms unfolding session_ok_def by blast+

lemma packet_ok_mono:
  "packet_ok b h r a p \<Longrightarrow> r \<le> r' \<Longrightarrow> a \<le> a' \<Longrightarrow> packet_ok b (h @ k) r' a' p"
  unfolding packet_ok_def by (elim disjE exE conjE) (auto intro: says_mono)

lemma in_ok_append: "in_ok b h n q \<Longrightarrow> in_ok b (h @ k) n q"
  unfolding in_ok_def by (blast intro: receives_append)

lemma given_ok_append: "given_ok S H n k v \<Longrightarrow> given_ok S (H(i := H i @ es)) n k v"
  by (auto simp: given_ok_def nth_append split: if_splits)

lemma frames_ok_append: "frames_ok S H fs \<Longrightarrow> frames_ok S (H(i := H i @ es)) fs"
  unfolding frames_ok_def by (blast intro: given_ok_append)

lemma rpos_le: "session_ok S addr b s \<Longrightarrow> i \<in> S \<Longrightarrow> j \<in> S \<Longrightarrow> b \<le> rpos b s j i \<and> rpos b s j i \<le> b + length (entered s i)"
  using session_okD(4) [of S addr b s j i] by (auto simp: rpos_def in_ok_def receives_def)

lemma rpos_set_client:
  "rpos b (set_client i c es fs s) j k = (if j = i then (if playing c then unat (uTail (inq c k)) else b) else rpos b s j k)"
  by (simp add: rpos_def set_client_def)

text \<open>One client moves.\<close>

lemma session_ok_update:
  assumes ok: "session_ok S addr b s" and i: "i \<in> S"
    and c: "client_ok S (addr i) c" "playing c"
    and es: "es = entered s i @ k"
    and fr: "frames_ok S ((entered s)(i := es)) fs"
    and mono: "\<And>j. j \<in> S \<Longrightarrow> rpos b s i j \<le> unat (uTail (inq c j))"
    and out: "\<And>j. j \<in> S \<Longrightarrow> out_ok b es (if j = i then unat (uTail (inq c i)) else rpos b s j i) (outq c j)"
    and inn: "\<And>j. j \<in> S \<Longrightarrow> in_ok b (((entered s)(i := es)) j) (length fs) (inq c j)"
    and pk: "\<And>j p. j \<in> S \<Longrightarrow> SentUDP (addr i j) p \<in> set (c_log c) \<Longrightarrow>
               packet_ok b es (if j = i then unat (uTail (inq c i)) else rpos b s j i) (unat (uTail (inq c j))) p"
  shows "session_ok S addr b (set_client i c es fs s)"
proof -
  let ?s = "set_client i c es fs s"
  have sel: "cl ?s = (cl s)(i := c)" "entered ?s = (entered s)(i := es)" "frames ?s = (frames s)(i := fs)"
    by (simp_all add: set_client_def)
  have up: "rpos b s j k' \<le> rpos b ?s j k'" if "k' \<in> S" for j k'
    using mono [OF that] c(2) by (simp add: rpos_set_client)
  show ?thesis
    unfolding session_ok_def
  proof (intro conjI ballI allI impI)
    fix j assume j: "j \<in> S"
    show "client_ok S (addr j) (cl ?s j)" using c(1) session_okD(1) [OF ok j] by (simp add: sel)
    show "frames_ok S (entered ?s) (frames ?s j)"
      using fr frames_ok_append [OF session_okD(5) [OF ok j], of i k] by (simp add: sel flip: es)
    assume "\<not> playing (cl ?s j)"
    with c(2) have "j \<noteq> i" "\<not> playing (cl s j)" by (auto simp: sel split: if_splits)
    with session_okD(2) [OF ok j] show "entered ?s j = []" "frames ?s j = []"
      "\<And>a p. SentUDP a p \<notin> set (c_log (cl ?s j))" by (auto simp: sel)
  next
    fix j k' assume j: "j \<in> S" and k': "k' \<in> S" and p: "playing (cl ?s j)"
    show "out_ok b (entered ?s j) (rpos b ?s k' j) (outq (cl ?s j) k')"
    proof (cases "j = i")
      case True
      then show ?thesis using out [OF k'] c(2) by (auto simp: sel rpos_set_client split: if_splits)
    next
      case False
      with p have o: "out_ok b (entered s j) (rpos b s k' j) (outq (cl s j) k')"
        by (intro session_okD(3) [OF ok j k']) (simp add: sel)
      have r: "rpos b ?s k' j \<le> b + length (entered s j)"
      proof (cases "k' = i")
        case True
        with inn [OF j] False show ?thesis
          using c(2) by (simp add: rpos_set_client in_ok_def receives_def)
      next
        case F: False
        then show ?thesis using rpos_le [OF ok j k'] by (simp add: rpos_set_client)
      qed
      from o have "retains (entered s j) b (rpos b s k' j) (nq_window (outq (cl s j) k'))" by (simp add: out_ok_def)
      from retains_progress [OF this up [OF j] r] o False show ?thesis by (simp add: out_ok_def sel)
    qed
    show "in_ok b (entered ?s k') (length (frames ?s j)) (inq (cl ?s j) k')"
    proof (cases "j = i")
      case True
      then show ?thesis using inn [OF k'] by (simp add: sel)
    next
      case False
      with p have "in_ok b (entered s k') (length (frames s j)) (inq (cl s j) k')"
        by (intro session_okD(4) [OF ok j k']) (simp add: sel)
      from this in_ok_append [OF this, of k] False show ?thesis by (cases "k' = i") (simp_all add: sel flip: es)
    qed
  next
    fix j k' p assume j: "j \<in> S" and k': "k' \<in> S" and p: "SentUDP (addr j k') p \<in> set (c_log (cl ?s j))"
    show "packet_ok b (entered ?s j) (rpos b ?s k' j) (rpos b ?s j k') p"
    proof (cases "j = i")
      case True
      with p pk [OF k'] c(2) show ?thesis by (auto simp: sel rpos_set_client split: if_splits)
    next
      case False
      with p have "packet_ok b (entered s j) (rpos b s k' j) (rpos b s j k') p"
        by (intro session_okD(6) [OF ok j k']) (simp add: sel)
      from packet_ok_mono [OF this up [OF j] up [OF k'], of "[]"] False show ?thesis by (simp add: sel)
    qed
  qed
qed

lemma set_client_twice [simp]: "set_client i c es fs (set_client i c' es' fs' s) = set_client i c es fs s"
  by (simp add: set_client_def)

lemma set_client_sel [simp]:
  "cl (set_client i c es fs s) i = c" "entered (set_client i c es fs s) i = es" "frames (set_client i c es fs s) i = fs"
  by (simp_all add: set_client_def)

lemma set_client_same [simp]: "set_client i (cl s i) (entered s i) (frames s i) s = s"
  by (simp add: set_client_def)

lemma client_ok_cong:
  assumes "client_ok S addr c" and "length (Peers c') = length (Peers c)" and "c_eStatus c' = c_eStatus c"
    and "\<And>k. k < length (Peers c) \<Longrightarrow> connected (Peers c' ! k) = connected (Peers c ! k) \<and> p_Addr (Peers c' ! k) = p_Addr (Peers c ! k) \<and>
           length (Elements (outq c' k)) = length (Elements (outq c k)) \<and> length (Elements (inq c' k)) = length (Elements (inq c k))"
  shows "client_ok S addr c'"
  using assms unfolding client_ok_def by auto

lemma logged_queues:
  "logged es c c' \<Longrightarrow> i < length (Peers c) \<Longrightarrow> outq c' i = outq c i \<and> inq c' i = inq c i"
  using logged_peer by (auto simp: outq_def inq_def)

lemma client_peers: "client_ok S addr c \<Longrightarrow> length (Peers c) = NETCLIENT_MAXPEERS"
  by (simp add: client_ok_def)

text \<open>The clients of the session are clients: there are at most four.\<close>

lemma logged_ok:
  assumes ok: "session_ok S addr b s" and S: "S \<subseteq> {..<NETCLIENT_MAXPEERS}" and i: "i \<in> S" and pl: "playing (cl s i)"
    and l: "logged es (cl s i) c"
    and pk: "\<And>j p. j \<in> S \<Longrightarrow> SentUDP (addr i j) p \<in> set es \<Longrightarrow> packet_ok b (entered s i) (rpos b s j i) (rpos b s i j) p"
  shows "session_ok S addr b (set_client i c (entered s i) (frames s i) s)"
proof -
  have cok: "client_ok S (addr i) (cl s i)" by (rule session_okD(1) [OF ok i])
  have q: "outq c j = outq (cl s i) j" "inq c j = inq (cl s i) j" if "j \<in> S" for j
    using logged_queues [OF l, of j] that S client_peers [OF cok] by auto
  have r: "rpos b s i j = unat (uTail (inq (cl s i) j))" for j using pl by (simp add: rpos_def)
  show ?thesis
  proof (rule session_ok_update [OF ok i, where k = "[]"])
    show "client_ok S (addr i) c"
      using logged_peer [OF l] logged_queues [OF l] logged_length [OF l] l
      by (intro client_ok_cong [OF cok]) (auto simp: logged_def)
    show "playing c" using pl l by (simp add: playing_def logged_def)
    show "frames_ok S ((entered s)(i := entered s i)) (frames s i)" using session_okD(5) [OF ok i] by simp
    fix j assume j: "j \<in> S"
    show "rpos b s i j \<le> unat (uTail (inq c j))" using j by (simp add: q r)
    show "out_ok b (entered s i) (if j = i then unat (uTail (inq c i)) else rpos b s j i) (outq c j)"
      using session_okD(3) [OF ok i j pl] j i by (auto simp: q r)
    show "in_ok b (((entered s)(i := entered s i)) j) (length (frames s i)) (inq c j)"
      using session_okD(4) [OF ok i j pl] j by (simp add: q)
    fix p assume "SentUDP (addr i j) p \<in> set (c_log c)"
    with l have "SentUDP (addr i j) p \<in> set (c_log (cl s i)) \<or> SentUDP (addr i j) p \<in> set es" by (auto simp: logged_def)
    then show "packet_ok b (entered s i) (if j = i then unat (uTail (inq c i)) else rpos b s j i) (unat (uTail (inq c j))) p"
      using session_okD(6) [OF ok i j] pk [OF j] j i by (auto simp: q r)
  qed simp
qed

lemma view_ok:
  assumes "session_ok S addr b s" and "S \<subseteq> {..<NETCLIENT_MAXPEERS}" and "i \<in> S" and "playing (cl s i)"
    and "cv c = cv (cl s i)"
  shows "session_ok S addr b (set_client i c (entered s i) (frames s i) s)"
  by (rule logged_ok [OF assms(1-4), of "[]"]) (use assms(5) in \<open>simp_all add: logged_Nil\<close>)

text \<open>Sending what is pending.\<close>

lemma addr_inj:
  "client_ok S addr c \<Longrightarrow> S \<subseteq> {..<NETCLIENT_MAXPEERS} \<Longrightarrow> k < NETCLIENT_MAXPEERS \<Longrightarrow> connected (Peers c ! k) \<Longrightarrow> k \<in> S \<and> p_Addr (Peers c ! k) = addr k"
  by (auto simp: client_ok_def)

lemma input_packet_ok:
  assumes ok: "session_ok S addr b s" and i: "i \<in> S" and j: "j \<in> S" and pl: "playing (cl s i)"
    and n: "length (pending (Peers (cl s i) ! j)) \<le> 64"
  shows "packet_ok b (entered s i) (rpos b s j i) (rpos b s i j) (input_packet (Peers (cl s i) ! j) (pending (Peers (cl s i) ! j)))"
proof -
  let ?q = "outq (cl s i) j"
  from session_okD(3) [OF ok i j pl] have o: "nq_wf ?q" "retains (entered s i) b (rpos b s j i) (nq_window ?q)"
    by (simp_all add: out_ok_def)
  from nq_window.send_fetch [OF o] have "says (entered s i) b (rpos b s j i) (unat (uHead ?q)) (pending (Peers (cl s i) ! j))"
    by (simp add: pending_def outq_def)
  moreover have "u_NetClientDecodeData 256 (u_NetClientEncodeData (pending (Peers (cl s i) ! j)) 128) = Some (pending (Peers (cl s i) ! j))"
    using decode_encode [of 0 "pending (Peers (cl s i) ! j)" 128 256] n by (simp add: u_NetClientEncodeData_def)
  moreover have "unat (uHead ?q) < seq_limit" using o(1) by (simp add: nq_wf_def word_le_nat_alt)
  moreover have "b \<le> unat (uTail (inq (cl s i) j))"
    using session_okD(4) [OF ok i j pl] by (simp add: in_ok_def receives_def)
  ultimately show ?thesis
    unfolding packet_ok_def input_packet_def using pl by (auto simp: rpos_def outq_def inq_def)
qed

end
