(* ===== verification/Net_Lockstep.thy ===== *)
theory Net_Lockstep
  imports Net_Session
begin

text \<open>
  Every step of a session preserves its invariant. A step of a client is followed through its stages:
  receiving the inputs of a frame, entering the client's own, padding, sending, counting.
\<close>

section \<open>Entering an input\<close>

lemma pushed_queues:
  assumes "pushed u c c'" and "client_ok S addr c" and "j < NETCLIENT_MAXPEERS"
  shows "connected (Peers c' ! j) = connected (Peers c ! j)" and "p_Addr (Peers c' ! j) = p_Addr (Peers c ! j)"
    and "outq c' j = (if connected (Peers c ! j) then snd (NetQueueEnqueue (outq c j) u) else outq c j)"
    and "inq c' j = inq c j"
proof -
  have "length (Peers c') = length (Peers c)"
    using assms(1) unfolding pushed_def by (metis length_map)
  then have "pv (Peers c' ! j) = pv (enqueue_output u (Peers c ! j))"
    using assms unfolding pushed_def client_ok_def by (metis comp_apply nth_map)
  then show "connected (Peers c' ! j) = connected (Peers c ! j)" "p_Addr (Peers c' ! j) = p_Addr (Peers c ! j)"
    "outq c' j = (if connected (Peers c ! j) then snd (NetQueueEnqueue (outq c j) u) else outq c j)" "inq c' j = inq c j"
    by (auto simp: pv_def enqueue_output_def connected_def outq_def inq_def split: if_splits)
qed

lemma Enqueue_length [simp]: "length (Elements (snd (NetQueueEnqueue q e))) = length (Elements q)"
  by (simp add: NetQueueEnqueue_def)

lemma Enqueue_head [simp]: "uHead (snd (NetQueueEnqueue q e)) = uHead q"
  by (simp add: NetQueueEnqueue_def)

lemma Dequeue_length [simp]: "length (Elements (snd (NetQueueDequeue q))) = length (Elements q)"
  by (simp add: NetQueueDequeue_def)

lemma input_pushed_ok:
  assumes ok: "session_ok S addr b s" and S: "S \<subseteq> {..<NETCLIENT_MAXPEERS}" and i: "i \<in> S" and pl: "playing (cl s i)"
    and p: "pushed u (cl s i) c" and h: "unat (uHead (outq (cl s i) i)) + 129 \<le> seq_limit"
  shows "session_ok S addr b (set_client i c (entered s i @ [u]) (frames s i) s)"
proof -
  let ?es = "entered s i @ [u]"
  have cok: "client_ok S (addr i) (cl s i)" by (rule session_okD(1) [OF ok i])
  have con: "connected (Peers (cl s i) ! j)" and lt: "j < NETCLIENT_MAXPEERS" if "j \<in> S" for j
    using that S cok by (auto simp: client_ok_def)
  have q: "outq c j = snd (NetQueueEnqueue (outq (cl s i) j) u)" "inq c j = inq (cl s i) j" if "j \<in> S" for j
    using pushed_queues [OF p cok lt [OF that]] con [OF that] by simp_all
  have o: "nq_wf (outq (cl s i) j)" "retains (entered s i) b (rpos b s j i) (nq_window (outq (cl s i) j))" if "j \<in> S" for j
    using session_okD(3) [OF ok i that pl] by (simp_all add: out_ok_def)
  have nf: "\<not> w_full NETQUEUE_SIZE (nq_window (outq (cl s i) j))" if "j \<in> S" for j
  proof -
    have "NetQueueGetCount (outq (cl s i) j) < 128"
      using p con [OF that] lt [OF that] client_peers [OF cok] by (auto simp: pushed_def outq_def)
    then have "unat (uTail (outq (cl s i) j)) - unat (uHead (outq (cl s i) j)) < 128"
      by (simp only: nq_wf_count [OF o(1) [OF that]])
    then show ?thesis by (simp add: w_full_def NETQUEUE_SIZE_def)
  qed
  have lim: "Suc (b + length (entered s i)) < seq_limit"
    using nf [OF i] h o(2) [OF i] by (simp add: w_full_def retains_def NETQUEUE_SIZE_def)
  have r: "rpos b s i j = unat (uTail (inq (cl s i) j))" for j using pl by (simp add: rpos_def)
  show ?thesis
  proof (rule session_ok_update [OF ok i _ _ refl])
    show "client_ok S (addr i) c"
      using pushed_queues [OF p cok] p client_peers [OF cok]
      by (intro client_ok_cong [OF cok]) (auto simp: pushed_def dest: map_eq_imp_length_eq)
    show "playing c" using pl p by (simp add: playing_def pushed_def)
    show "frames_ok S ((entered s)(i := ?es)) (frames s i)" by (rule frames_ok_append [OF session_okD(5) [OF ok i]])
    fix j assume j: "j \<in> S"
    show "rpos b s i j \<le> unat (uTail (inq c j))" using j by (simp add: q r)
    show "out_ok b ?es (if j = i then unat (uTail (inq c i)) else rpos b s j i) (outq c j)"
      using nq_window.send_enqueue [OF o [OF j] nf [OF j] lim, of u] j i by (auto simp: q r out_ok_def)
    show "in_ok b (((entered s)(i := ?es)) j) (length (frames s i)) (inq c j)"
      using session_okD(4) [OF ok i j pl] j by (auto simp: q intro: in_ok_append)
    fix pk assume "SentUDP (addr i j) pk \<in> set (c_log c)"
    with p have "SentUDP (addr i j) pk \<in> set (c_log (cl s i))" by (simp add: pushed_def)
    from packet_ok_mono [OF session_okD(6) [OF ok i j this] order_refl order_refl, of "[u]"] j i
    show "packet_ok b ?es (if j = i then unat (uTail (inq c i)) else rpos b s j i) (unat (uTail (inq c j))) pk"
      by (auto simp: q r)
  qed
qed

section \<open>Receiving the inputs of a frame\<close>

lemma input_popped_ok:
  assumes ok: "session_ok S addr b s" and S: "S \<subseteq> {..<NETCLIENT_MAXPEERS}" and i: "i \<in> S" and pl: "playing (cl s i)"
    and p: "popped ins peer_ids (cl s i) c"
    and n: "\<And>j. j \<in> S \<Longrightarrow> NetQueueGetCount (inq (cl s i) j) \<noteq> 0"
  shows "session_ok S addr b (set_client i c (entered s i) (frames s i @ [ins]) s)"
proof -
  have cok: "client_ok S (addr i) (cl s i)" by (rule session_okD(1) [OF ok i])
  have con: "connected (Peers (cl s i) ! j) = (j \<in> S)" if "j < NETCLIENT_MAXPEERS" for j
    using that cok by (simp add: client_ok_def)
  have len: "length (Peers (cl s i)) = NETCLIENT_MAXPEERS" by (rule client_peers [OF cok])
  have q: "outq c j = outq (cl s i) j" "inq c j = (if j \<in> S then snd (NetQueueDequeue (inq (cl s i) j)) else inq (cl s i) j)"
    "connected (Peers c ! j) = connected (Peers (cl s i) ! j)" "p_Addr (Peers c ! j) = p_Addr (Peers (cl s i) ! j)"
    if "j < NETCLIENT_MAXPEERS" for j
    using p that len con [OF that] by (auto simp: popped_def outq_def inq_def connected_def)
  have d: "fst (NetQueueDequeue (inq (cl s i) j)) = Some (entered s j ! length (frames s i)) \<and> nq_wf (inq c j) \<and>
           receives (entered s j) b NETQUEUE_SIZE (nq_window (inq c j)) \<and>
           unat (uHead (inq c j)) = Suc (unat (uHead (inq (cl s i) j))) \<and> unat (uTail (inq c j)) = unat (uTail (inq (cl s i) j)) \<and>
           length (frames s i) < length (entered s j)" if j: "j \<in> S" for j
  proof -
    from session_okD(4) [OF ok i j pl]
    have w: "nq_wf (inq (cl s i) j)" and rc: "receives (entered s j) b NETQUEUE_SIZE (nq_window (inq (cl s i) j))"
      and h: "unat (uHead (inq (cl s i) j)) = b + length (frames s i)" by (simp_all add: in_ok_def)
    have "unat (uTail (inq (cl s i) j)) - unat (uHead (inq (cl s i) j)) \<noteq> 0"
      using n [OF j] by (simp only: nq_wf_count [OF w])
    then have lt: "w_head (nq_window (inq (cl s i) j)) < w_tail (nq_window (inq (cl s i) j))" by simp
    from nq_window.receive_dequeue [OF w rc lt] have
      "fst (NetQueueDequeue (inq (cl s i) j)) = Some (entered s j ! length (frames s i))" "nq_wf (inq c j)"
      "receives (entered s j) b NETQUEUE_SIZE (nq_window (inq c j))" and a: "nq_window (inq c j) = w_pop (nq_window (inq (cl s i) j))"
      using j S q(2) [of j] h by auto
    moreover have "unat (uHead (inq c j)) = Suc (unat (uHead (inq (cl s i) j)))" "unat (uTail (inq c j)) = unat (uTail (inq (cl s i) j))"
      using arg_cong [OF a, of w_head] arg_cong [OF a, of w_tail] by (simp_all add: w_pop_def)
    moreover have "length (frames s i) < length (entered s j)" using lt rc h by (simp add: receives_def)
    ultimately show ?thesis by simp
  qed
  have r: "rpos b s i j = unat (uTail (inq (cl s i) j))" for j using pl by (simp add: rpos_def)
  have S4: "j < NETCLIENT_MAXPEERS" if "j \<in> S" for j using that S by auto
  have given: "given_ok S (entered s) (length (frames s i)) k (ins ! k)" if k: "k < NETCLIENT_MAXPEERS" for k
  proof -
    have "let pr = Peers (cl s i) ! k in
        if connected pr then fst (NetQueueDequeue (InputQueue pr)) \<noteq> None \<longrightarrow> fst (NetQueueDequeue (InputQueue pr)) = Some (ins ! k)
        else ins ! k = 0xFFFFFFFF"
      using p k unfolding popped_def by (metis add_0 diff_zero length_upt nth_upt)
    then show ?thesis
      using con [OF k] d [of k] by (auto simp: given_ok_def Let_def inq_def)
  qed
  show ?thesis
  proof (rule session_ok_update [OF ok i, where k = "[]"])
    show "client_ok S (addr i) c"
      using q len p by (intro client_ok_cong [OF cok]) (auto simp: popped_def)
    show "playing c" using pl p by (simp add: playing_def popped_def)
    show "frames_ok S ((entered s)(i := entered s i)) (frames s i @ [ins])"
      using session_okD(5) [OF ok i] given p by (auto simp: frames_ok_def popped_def nth_append less_Suc_eq)
    fix j assume j: "j \<in> S"
    show "rpos b s i j \<le> unat (uTail (inq c j))" using d [OF j] by (simp add: r)
    show "out_ok b (entered s i) (if j = i then unat (uTail (inq c i)) else rpos b s j i) (outq c j)"
      using session_okD(3) [OF ok i j pl] d [OF i] q(1) [OF S4 [OF j]] by (auto simp: r)
    show "in_ok b (((entered s)(i := entered s i)) j) (length (frames s i @ [ins])) (inq c j)"
      using session_okD(4) [OF ok i j pl] d [OF j] by (auto simp: in_ok_def)
    fix pk assume "SentUDP (addr i j) pk \<in> set (c_log c)"
    with p have "SentUDP (addr i j) pk \<in> set (c_log (cl s i))" by (simp add: popped_def)
    from session_okD(6) [OF ok i j this] d [OF i] d [OF j]
    show "packet_ok b (entered s i) (if j = i then unat (uTail (inq c i)) else rpos b s j i) (unat (uTail (inq c j))) pk"
      by (auto simp: r)
  qed simp
qed

section \<open>The stages of a frame\<close>

text \<open>
  A stage of client \<open>i\<close>: the session with the client as it is now is well-formed, the inputs
  entered so far are all \<open>u\<close>, and no acknowledgement has been processed.
\<close>

definition stage :: "nat set \<Rightarrow> (nat \<Rightarrow> nat \<Rightarrow> NetSocketAddrT) \<Rightarrow> nat \<Rightarrow> session \<Rightarrow> nat \<Rightarrow> u32 \<Rightarrow> nat \<Rightarrow> u32 list list \<Rightarrow> NetClientT \<Rightarrow> bool" where
  "stage S addr b s i u h fs c \<longleftrightarrow> S \<subseteq> {..<NETCLIENT_MAXPEERS} \<and> i \<in> S \<and> playing c \<and> unat (uHead (outq c i)) = h \<and>
     (\<exists>m. session_ok S addr b (set_client i c (entered s i @ replicate m u) fs s))"

lemma stageD:
  assumes "stage S addr b s i u h fs c"
  obtains m where "session_ok S addr b (set_client i c (entered s i @ replicate m u) fs s)"
    "S \<subseteq> {..<NETCLIENT_MAXPEERS}" "i \<in> S" "playing c" "client_ok S (addr i) c" "unat (uHead (outq c i)) = h"
proof -
  from assms obtain m where ok: "session_ok S addr b (set_client i c (entered s i @ replicate m u) fs s)"
    and r: "S \<subseteq> {..<NETCLIENT_MAXPEERS}" "i \<in> S" "playing c" "unat (uHead (outq c i)) = h" by (auto simp: stage_def)
  from session_okD(1) [OF ok r(2)] have "client_ok S (addr i) c" by simp
  with that ok r show ?thesis by blast
qed

lemma stage_logged:
  assumes st: "stage S addr b s i u h fs c" and l: "logged es c c'"
    and es: "\<And>e. e \<in> set es \<Longrightarrow> (\<forall>a p. e \<noteq> SentUDP a p) \<or> (\<exists>a t. e = SentUDP a (Throttle t)) \<or> (\<exists>k < NETCLIENT_MAXPEERS. connected (Peers c ! k) \<and>
          length (pending (Peers c ! k)) \<le> 64 \<and> e = SentUDP (p_Addr (Peers c ! k)) (input_packet (Peers c ! k) (pending (Peers c ! k))))"
    and inj: "inj_on (addr i) S"
  shows "stage S addr b s i u h fs c'"
proof -
  from st obtain m where ok: "session_ok S addr b (set_client i c (entered s i @ replicate m u) fs s)" (is "session_ok S addr b ?s")
    and S: "S \<subseteq> {..<NETCLIENT_MAXPEERS}" "i \<in> S" and pl: "playing c" and cok: "client_ok S (addr i) c" and h: "unat (uHead (outq c i)) = h"
    by (rule stageD)
  have pl': "playing (cl ?s i)" using pl by simp
  have "session_ok S addr b (set_client i c' (entered ?s i) (frames ?s i) ?s)"
  proof (rule logged_ok [OF ok S pl'])
    show "logged es (cl ?s i) c'" using l by simp
    fix j p assume j: "j \<in> S" and e: "SentUDP (addr i j) p \<in> set es"
    from es [OF e] consider t where "p = Throttle t"
      | k where "k < NETCLIENT_MAXPEERS" "connected (Peers c ! k)" "length (pending (Peers c ! k)) \<le> 64"
        "addr i j = p_Addr (Peers c ! k)" "p = input_packet (Peers c ! k) (pending (Peers c ! k))" by auto
    then show "packet_ok b (entered ?s i) (rpos b ?s j i) (rpos b ?s i j) p"
    proof cases
      case 2
      with addr_inj [OF cok S(1) 2(1,2)] inj j have "k = j" by (metis inj_onD)
      with input_packet_ok [OF ok S(2) j pl'] 2 show ?thesis by simp
    qed (auto simp: packet_ok_def)
  qed
  moreover have "i < length (Peers c)" using S cok by (auto simp: client_ok_def)
  ultimately show ?thesis
    using S pl h l logged_queues [OF l] by (auto simp: stage_def playing_def logged_def)
qed

lemma stage_view:
  assumes "stage S addr b s i u h fs c" and "cv c' = cv c" and "inj_on (addr i) S"
  shows "stage S addr b s i u h fs c'"
  by (rule stage_logged [OF assms(1), of "[]"]) (use assms(2,3) in \<open>simp_all add: logged_Nil\<close>)

lemma stage_transmit:
  assumes st: "stage S addr b s i u h fs c" and t: "NetClientTransmit c = Some (x, c')" and inj: "inj_on (addr i) S"
  shows "stage S addr b s i u h fs c'"
proof -
  from st obtain m where "client_ok S (addr i) c" by (rule stageD)
  then have "length (Peers c) = NETCLIENT_MAXPEERS" by (rule client_peers)
  from Transmit_view [OF t this] obtain es where "logged es c c'" and
    "\<forall>e \<in> set es. \<exists>i < NETCLIENT_MAXPEERS. connected (Peers c ! i) \<and> length (pending (Peers c ! i)) \<le> 64 \<and>
        e = SentUDP (p_Addr (Peers c ! i)) (input_packet (Peers c ! i) (pending (Peers c ! i)))" by blast
  then show ?thesis by (intro stage_logged [OF st _ _ inj]) auto
qed

lemma stage_enqueue:
  assumes st: "stage S addr b s i u h fs c" and h: "h + 129 \<le> seq_limit" and inj: "inj_on (addr i) S"
  shows "stage S addr b s i u h fs (snd (NetClientEnqueueInput u c))"
proof -
  from st obtain m where ok: "session_ok S addr b (set_client i c (entered s i @ replicate m u) fs s)" (is "session_ok S addr b ?s")
    and S: "S \<subseteq> {..<NETCLIENT_MAXPEERS}" "i \<in> S" and pl: "playing c" and cok: "client_ok S (addr i) c" and hd: "unat (uHead (outq c i)) = h"
    by (rule stageD)
  have pl': "playing (cl ?s i)" using pl by simp
  from Enqueue_view [OF client_peers [OF cok], of u] show ?thesis
  proof
    assume "cv (snd (NetClientEnqueueInput u c)) = cv c"
    then show ?thesis by (rule stage_view [OF st _ inj])
  next
    assume p: "pushed u c (snd (NetClientEnqueueInput u c))" (is "pushed u c ?c")
    have "session_ok S addr b (set_client i ?c (entered ?s i @ [u]) (frames ?s i) ?s)"
      using p h hd by (intro input_pushed_ok [OF ok S pl']) simp_all
    then have "session_ok S addr b (set_client i ?c (entered s i @ replicate (Suc m) u) fs s)"
      by (simp add: replicate_append_same)
    moreover have "i < NETCLIENT_MAXPEERS" using S by auto
    ultimately show ?thesis
      using S pl p hd pushed_queues(3) [OF p cok, of i] unfolding stage_def
      by (auto simp: playing_def pushed_def simp del: replicate_Suc)
  qed
qed

lemma stage_funpow:
  "stage S addr b s i u h fs c \<Longrightarrow> (\<And>c. stage S addr b s i u h fs c \<Longrightarrow> stage S addr b s i u h fs (f c)) \<Longrightarrow>
   stage S addr b s i u h fs ((f ^^ n) c)"
  by (induction n) auto

lemma stage_pad:
  assumes "stage S addr b s i u h fs c" and "h + 129 \<le> seq_limit" and inj: "inj_on (addr i) S"
  shows "stage S addr b s i u h fs (pad_output u c)"
  unfolding pad_output_def
proof (rule stage_funpow [OF assms(1)])
  fix c assume "stage S addr b s i u h fs c"
  from stage_enqueue [OF this assms(2) inj]
  show "stage S addr b s i u h fs (let c = snd (NetClientEnqueueInput u c) in c\<lparr>iThrottle := iThrottle c - 1\<rparr>)"
    by (rule stage_view [where addr = addr and i = i, OF _ _ inj]) (simp add: Let_def cv_def)
qed

text \<open>Counting at the end of a period, and asking the peers to throttle.\<close>

lemma update_stats_view: "cv (u_NetClientUpdateStats c) = cv c"
  by (simp add: u_NetClientUpdateStats_def map_peers_def cv_def pv_def comp_def)

lemma update_throttle_view: "cv (u_NetClientUpdateThrottle c) = cv c"
proof -
  have "cv (fold (\<lambda>i c. if connected (Peers c ! i) \<and> iThrottle c < iThrottleReq (Peers c ! i)
                 then c\<lparr>iThrottle := iThrottleReq (Peers c ! i)\<rparr> else c) is c) = cv c" for "is" c
    by (induction "is" arbitrary: c) (auto simp: cv_def)
  then show ?thesis by (simp add: u_NetClientUpdateThrottle_def cv_def)
qed

lemma stage_throttle_req:
  assumes "stage S addr b s i u h fs c" and inj: "inj_on (addr i) S"
  shows "stage S addr b s i u h fs (u_NetClientSendThrottleReq c)"
proof -
  let ?f = "\<lambda>k c. if connected (Peers c ! k) \<and> 0 < AveStats (Peers c ! k) NETPLAY_STAT_INPUTQUEUE
                 then NetClientSendUDP (int k) (Throttle (throttle_request (Peers c ! k))) c else c"
  have f: "\<exists>es. logged es c (?f k c) \<and> (\<forall>e \<in> set es. \<exists>a t. e = SentUDP a (Throttle t))" for k c
  proof (cases "connected (Peers c ! k) \<and> 0 < AveStats (Peers c ! k) NETPLAY_STAT_INPUTQUEUE")
    case True
    with send_view [of c k "Throttle (throttle_request (Peers c ! k))"] show ?thesis
      by (intro exI [of _ "[SentUDP (p_Addr (Peers c ! k)) (Throttle (throttle_request (Peers c ! k)))]"])
        (auto simp: NetClientSendUDP_def)
  next
    case False
    then show ?thesis by (intro exI [of _ "[]"]) (auto simp: logged_def)
  qed
  have "stage S addr b s i u h fs (fold ?f ks c)" for ks
    using assms(1)
  proof (induction ks arbitrary: c)
    case (Cons k ks)
    from f [of c k] obtain es where "logged es c (?f k c)" "\<forall>e \<in> set es. \<exists>a t. e = SentUDP a (Throttle t)" by blast
    then have "stage S addr b s i u h fs (?f k c)" by (intro stage_logged [OF Cons.prems _ _ inj]) auto
    from Cons.IH [OF this] show ?case by simp
  qed simp
  then show ?thesis by (simp add: u_NetClientSendThrottleReq_def)
qed

lemma stage_period:
  assumes st: "stage S addr b s i u h fs c" and inj: "inj_on (addr i) S"
  shows "stage S addr b s i u h fs (update_period c)"
proof -
  note view = stage_view [where addr = addr and i = i, OF _ _ inj]
  let ?c = "if NETPLAY_STATUPDATEFRAMES \<le> nStatFrames c
            then (u_NetClientUpdateThrottle (u_NetClientSendThrottleReq (u_NetClientUpdateStats c)))\<lparr>nStatFrames := 0\<rparr> else c"
  have "stage S addr b s i u h fs (u_NetClientSendThrottleReq (u_NetClientUpdateStats c))"
    by (rule stage_throttle_req [OF view [OF st update_stats_view] inj])
  then have "stage S addr b s i u h fs (u_NetClientUpdateThrottle (u_NetClientSendThrottleReq (u_NetClientUpdateStats c)))"
    by (rule view) (rule update_throttle_view)
  then have "stage S addr b s i u h fs
      ((u_NetClientUpdateThrottle (u_NetClientSendThrottleReq (u_NetClientUpdateStats c)))\<lparr>nStatFrames := 0\<rparr>)"
    by (rule view) (simp add: cv_def)
  with st have "stage S addr b s i u h fs ?c" by simp
  then show ?thesis unfolding update_period_def Let_def by (rule view) (simp add: cv_def)
qed

lemma stage_recv:
  assumes st: "stage S addr b s i u h fs c" and r: "NetClientRecvInput n c = Some (r, c')" and inj: "inj_on (addr i) S"
  shows "stage S addr b s i u h (fs @ (case r of None \<Rightarrow> [] | Some v \<Rightarrow> [v])) c'"
proof -
  from st obtain m where ok: "session_ok S addr b (set_client i c (entered s i @ replicate m u) fs s)"
    and S: "S \<subseteq> {..<NETCLIENT_MAXPEERS}" "i \<in> S" and pl: "playing c" and cok: "client_ok S (addr i) c" and hd: "unat (uHead (outq c i)) = h"
    by (rule stageD)
  have len: "length (Peers c) = NETCLIENT_MAXPEERS" by (rule client_peers [OF cok])
  obtain ready c1 where l: "NetClientIsInputReady c = (ready, c1)" by fastforce
  from input_ready_view [OF l [unfolded NetClientIsInputReady_def] peers_subset [OF len]]
  have v: "cv c1 = cv c" and rd: "ready \<longrightarrow> (\<forall>j < NETCLIENT_MAXPEERS. connected (Peers c ! j) \<longrightarrow> NetQueueGetCount (InputQueue (Peers c ! j)) \<noteq> 0)"
    by auto
  have st1: "stage S addr b s i u h fs c1" by (rule stage_view [OF st v inj])
  show ?thesis
  proof (cases "r = None")
    case True
    with r l pl have "c' = c \<or> c' = c1" by (auto simp: NetClientRecvInput_def bind_eq_Some_conv split: if_splits)
    with st st1 True show ?thesis by auto
  next
    case False
    with r l pl obtain ins where ins: "r = Some ins" "recv_input_loop peer_ids None c1 = Some (ins, c')" and ready
      by (auto simp: NetClientRecvInput_def bind_eq_Some_conv split: if_splits)
    from st1 obtain m where ok1: "session_ok S addr b (set_client i c1 (entered s i @ replicate m u) fs s)" (is "session_ok S addr b ?s")
      and pl1: "playing c1" and cok1: "client_ok S (addr i) c1" and hd1: "unat (uHead (outq c1 i)) = h" by (rule stageD)
    have len1: "length (Peers c1) = NETCLIENT_MAXPEERS" by (rule client_peers [OF cok1])
    have p: "popped ins peer_ids c1 c'" by (rule recv_loop_view [OF ins(2) peers_subset [OF len1]]) simp
    have "session_ok S addr b (set_client i c' (entered ?s i) (frames ?s i @ [ins]) ?s)"
    proof (rule input_popped_ok [OF ok1 S])
      fix j assume "j \<in> S"
      with S cok rd \<open>ready\<close> have "NetQueueGetCount (inq c j) \<noteq> 0" by (auto simp: client_ok_def inq_def)
      moreover have "inq c1 j = inq c j"
        using cv_same_peer [OF v, of j] len1 S \<open>j \<in> S\<close> by (auto simp: inq_def)
      ultimately show "NetQueueGetCount (inq (cl ?s i) j) \<noteq> 0" by simp
    qed (use pl1 p in simp_all)
    then have "session_ok S addr b (set_client i c' (entered s i @ replicate m u) (fs @ [ins]) s)" by simp
    moreover have "outq c' i = outq c1 i" "playing c'"
      using p S len1 pl1 by (auto simp: popped_def outq_def playing_def)
    ultimately show ?thesis using ins S hd1 by (auto simp: stage_def)
  qed
qed

lemma stage_start:
  assumes "session_ok S addr b s" and "S \<subseteq> {..<NETCLIENT_MAXPEERS}" and "i \<in> S" and "playing (cl s i)"
  shows "stage S addr b s i u (unat (uHead (outq (cl s i) i))) (frames s i) (cl s i)"
  using assms unfolding stage_def by (auto intro: exI [of _ 0])

lemma process_stage:
  assumes st: "stage S addr b s i u h fs c" and p: "NetClientProcess u n c = Some (r, c')" and h: "h + 129 \<le> seq_limit"
    and inj: "inj_on (addr i) S"
  shows "stage S addr b s i u h (fs @ (case r of None \<Rightarrow> [] | Some v \<Rightarrow> [v])) c'"
proof -
  note view = stage_view [where addr = addr and i = i, OF _ _ inj]
  have pl: "playing c" using st by (simp add: stage_def)
  let ?next = "\<lambda>c1. if r \<noteq> None then let c = (if 0 \<le> iThrottle c1 then snd (NetClientEnqueueInput u c1)
                  else c1\<lparr>iThrottle := iThrottle c1 + 1\<rparr>) in c\<lparr>uFrame := uFrame c + 1\<rparr> else c1"
  from p pl obtain c1 x c2 where c1: "NetClientRecvInput n c = Some (r, c1)"
    and c2: "NetClientTransmit (pad_output u (?next c1)) = Some (x, c2)" and c': "c' = update_period c2"
    by (auto simp: NetClientProcess_def bind_eq_Some_conv)
  define fs' where "fs' = fs @ (case r of None \<Rightarrow> [] | Some v \<Rightarrow> [v])"
  have s1: "stage S addr b s i u h fs' c1" unfolding fs'_def by (rule stage_recv [OF st c1 inj])
  define c3 where "c3 = (if 0 \<le> iThrottle c1 then snd (NetClientEnqueueInput u c1) else c1\<lparr>iThrottle := iThrottle c1 + 1\<rparr>)"
  have "stage S addr b s i u h fs' c3"
  proof (cases "0 \<le> iThrottle c1")
    case True
    then show ?thesis using stage_enqueue [OF s1 h inj] by (simp add: c3_def)
  next
    case False
    then show ?thesis unfolding c3_def by (simp only: if_False) (rule view [OF s1], simp add: cv_def)
  qed
  then have "stage S addr b s i u h fs' (c3\<lparr>uFrame := uFrame c3 + 1\<rparr>)"
    by (rule view) (simp add: cv_def)
  with s1 have "stage S addr b s i u h fs' (?next c1)" by (simp add: Let_def c3_def)
  from stage_transmit [OF stage_pad [OF this h inj] c2 inj] show ?thesis
    unfolding c' fs'_def [symmetric] by (rule stage_period [where addr = addr and i = i, OF _ inj])
qed

section \<open>The steps of a session\<close>

definition addr_distinct :: "nat set \<Rightarrow> (nat \<Rightarrow> nat \<Rightarrow> NetSocketAddrT) \<Rightarrow> bool" where
  "addr_distinct S addr \<longleftrightarrow> (\<forall>i \<in> S. \<forall>j \<in> S. \<forall>k \<in> S. NetSocketAddrIsEqual (addr i j) (addr i k) \<longrightarrow> j = k)"

lemma addr_distinct_inj: "addr_distinct S addr \<Longrightarrow> i \<in> S \<Longrightarrow> inj_on (addr i) S"
  unfolding addr_distinct_def inj_on_def by (metis NetSocketAddrIsEqual_def)

lemma sender_found:
  "j \<in> set is \<Longrightarrow> (\<And>k. k \<in> set is \<Longrightarrow> (connected (Peers c ! k) \<and> NetSocketAddrIsEqual a (p_Addr (Peers c ! k))) = (k = j)) \<Longrightarrow>
     sender_loop a p is c = peer_packet j p (upd_peer j (count_received p) c)"
  by (induction "is") auto

lemma stage_entered:
  assumes "stage S addr b s i u h fs c"
  shows "session_ok S addr b (set_client i c (entered s i @ entered_by i (b + length (entered s i)) c u) fs s)"
proof -
  from assms obtain m where ok: "session_ok S addr b (set_client i c (entered s i @ replicate m u) fs s)" (is "session_ok S addr b ?s")
    and i: "i \<in> S" and pl: "playing c" by (auto simp: stage_def)
  from pl have "playing (cl ?s i)" by simp
  from session_okD(3) [OF ok i i this] have "unat (uTail (outq c i)) = b + length (entered s i) + m"
    by (simp add: out_ok_def retains_def)
  with ok show ?thesis by (simp add: entered_by_def)
qed

lemma frame_ok:
  assumes ok: "session_ok S addr (unat seq) s" and S: "S \<subseteq> {..<NETCLIENT_MAXPEERS}" and i: "i \<in> S" and pl: "playing (cl s i)"
    and l: "unat seq + length (entered s i) + 129 \<le> seq_limit" and inj: "inj_on (addr i) S"
    and p: "NetClientProcess u n (cl s i) = Some (r, c)"
  shows "session_ok S addr (unat seq) (set_client i c (entered s i @ entered_by i (unat (uTail (outq (cl s i) i))) c u)
           (frames s i @ (case r of None \<Rightarrow> [] | Some v \<Rightarrow> [v])) s)"
proof -
  from session_okD(3) [OF ok i i pl] have t: "unat (uTail (outq (cl s i) i)) = unat seq + length (entered s i)"
    and "unat (uHead (outq (cl s i) i)) \<le> unat (uTail (outq (cl s i) i))"
    by (auto simp: out_ok_def retains_def)
  with l have "unat (uHead (outq (cl s i) i)) + 129 \<le> seq_limit" by simp
  from process_stage [OF stage_start [OF ok S i pl] p this inj] stage_entered show ?thesis unfolding t by blast
qed

lemma reset_queue:
  "length (Elements q) = NETQUEUE_SIZE \<Longrightarrow> unat seq < seq_limit \<Longrightarrow> out_ok (unat seq) [] (unat seq) (NetQueueReset q seq)"
  "length (Elements q) = NETQUEUE_SIZE \<Longrightarrow> unat seq < seq_limit \<Longrightarrow> in_ok (unat seq) H 0 (NetQueueReset q seq)"
  by (auto simp: out_ok_def in_ok_def nq_wf_def NetQueueReset_def retains_def receives_def)

lemma start_ok:
  assumes ok: "session_ok S addr (unat seq) s" and S: "S \<subseteq> {..<NETCLIENT_MAXPEERS}" and i: "i \<in> S" and np: "\<not> playing (cl s i)"
    and l: "unat seq + 129 \<le> seq_limit" and inj: "inj_on (addr i) S"
    and p: "client_packet Local (StartGame latency seq) (cl s i) = Some c"
  shows "session_ok S addr (unat seq) (set_client i c (entered_by i (unat seq) c 0) [] s)"
proof -
  let ?b = "unat seq"
  define c0 where "c0 = (map_peers (start_peer seq) ((cl s i)\<lparr>uFrame := 0\<rparr>))\<lparr>c_eGameState := NETPLAY_GAMESTATE_PLAY\<rparr>"
  have cok: "client_ok S (addr i) (cl s i)" by (rule session_okD(1) [OF ok i])
  from session_okD(2) [OF ok i np] have e: "entered s i = []" "frames s i = []" and lg: "\<And>a p. SentUDP a p \<notin> set (c_log (cl s i))"
    by auto
  have n: "Peers c0 ! k = start_peer seq (Peers (cl s i) ! k)" if "k < NETCLIENT_MAXPEERS" for k
    using that client_peers [OF cok] by (simp add: c0_def map_peers_def)
  have q: "outq c0 k = NetQueueReset (outq (cl s i) k) seq" "inq c0 k = NetQueueReset (inq (cl s i) k) seq"
    if "k < NETCLIENT_MAXPEERS" for k
    using n [OF that] by (simp_all add: outq_def inq_def start_peer_def)
  have len: "length (Elements (outq (cl s i) k)) = NETQUEUE_SIZE" "length (Elements (inq (cl s i) k)) = NETQUEUE_SIZE"
    if "k < NETCLIENT_MAXPEERS" for k using that cok by (auto simp: client_ok_def)
  have lim: "?b < seq_limit" using l by simp
  have "session_ok S addr ?b (set_client i c0 [] [] s)"
  proof (rule session_ok_update [OF ok i, where k = "[]"])
    show "client_ok S (addr i) c0"
      using n q cok by (intro client_ok_cong [OF cok]) (auto simp: client_ok_def c0_def map_peers_def start_peer_def connected_def NetQueueReset_def)
    show "playing c0" using cok by (simp add: playing_def c0_def map_peers_def client_ok_def)
    show "frames_ok S ((entered s)(i := [])) []" by (simp add: frames_ok_def)
    fix j assume j: "j \<in> S"
    with S have j4: "j < NETCLIENT_MAXPEERS" by auto
    from i S have i4: "i < NETCLIENT_MAXPEERS" by auto
    show "rpos ?b s i j \<le> unat (uTail (inq c0 j))" using np j4 by (simp add: rpos_def q NetQueueReset_def)
    have "rpos ?b s j i = ?b" using rpos_le [OF ok i j] e by simp
    then show "out_ok ?b [] (if j = i then unat (uTail (inq c0 i)) else rpos ?b s j i) (outq c0 j)"
      using reset_queue(1) [OF len(1) [OF j4] lim] i4 j4 by (auto simp: q NetQueueReset_def)
    show "in_ok ?b (((entered s)(i := [])) j) (length []) (inq c0 j)"
      using reset_queue(2) [OF len(2) [OF j4] lim] j4 by (simp add: q)
    fix pk assume "SentUDP (addr i j) pk \<in> set (c_log c0)"
    with lg show "packet_ok ?b [] (if j = i then unat (uTail (inq c0 i)) else rpos ?b s j i) (unat (uTail (inq c0 j))) pk"
      by (simp add: c0_def map_peers_def)
  qed (simp add: e)
  moreover have "playing c0" using cok by (simp add: playing_def c0_def map_peers_def client_ok_def)
  ultimately have st: "stage S addr ?b s i 0 ?b [] c0"
    using S i q(1) [of i] by (auto simp: stage_def e NetQueueReset_def intro!: exI [of _ 0])
  have en: "stage S addr ?b s i 0 ?b [] (((\<lambda>c. snd (NetClientEnqueueInput 0 c)) ^^ latency) c0)"
    by (rule stage_funpow [OF st]) (rule stage_enqueue [where addr = addr and i = i, OF _ l inj])
  from p obtain x c1 where c1: "NetClientTransmit (((\<lambda>c. snd (NetClientEnqueueInput 0 c)) ^^ latency) c0) = Some (x, c1)"
    and c: "c = log_event (Called NETPLAY_CALLBACK_STARTGAME []) c1"
    by (auto simp: client_start_game_def Let_def bind_eq_Some_conv c0_def)
  have st1: "stage S addr ?b s i 0 ?b [] c1" by (rule stage_transmit [OF en c1 inj])
  have "stage S addr ?b s i 0 ?b [] c"
    by (rule stage_logged [OF st1 _ _ inj, of "[Called NETPLAY_CALLBACK_STARTGAME []]"])
      (simp_all add: c logged_def log_event_def)
  from stage_entered [OF this] show ?thesis by (simp add: e)
qed

text \<open>Receiving a datagram.\<close>

lemma enqueue_elements_feed: "enqueue_elements q p es = feed NetQueueEnqueueAt (\<lambda>p. p + 1) q p es"
  by (induction es arbitrary: q p) auto

lemma EnqueueAt_length [simp]: "length (Elements (snd (NetQueueEnqueueAt q p e))) = length (Elements q)"
  by (simp add: NetQueueEnqueueAt_def)

lemma enqueue_elements_length [simp]: "length (Elements (enqueue_elements q p es)) = length (Elements q)"
  by (induction es arbitrary: q p) auto

definition acked :: "u32 \<Rightarrow> NetQueueT \<Rightarrow> NetQueueT" where
  "acked a q = (if a \<le> uTail q then q\<lparr>uHead := a\<rparr> else q)"

lemma acked_ok:
  assumes "out_ok b h r q" and "b \<le> unat a" and "unat a \<le> r" and "r \<le> r'" and "r' \<le> b + length h"
  shows "out_ok b h r' (acked a q)"
proof (cases "a \<le> uTail q")
  case True
  have w: "nq_window (q\<lparr>uHead := a\<rparr>) = (nq_window q)\<lparr>w_head := unat a\<rparr>" by (simp add: nq_window_def)
  have "retains h b r' ((nq_window q)\<lparr>w_head := unat a\<rparr>)"
    using retains_progress [OF retains_ack assms(4,5)] assms(1-3) by (simp add: out_ok_def)
  then have "retains h b r' (nq_window (q\<lparr>uHead := a\<rparr>))" by (simp only: w)
  with assms(1) True show ?thesis by (simp add: out_ok_def acked_def nq_wf_def)
next
  case False
  with assms show ?thesis by (auto simp: out_ok_def acked_def intro: retains_progress)
qed

lemma deliver_peer:
  assumes cok: "client_ok S (addr i) c" and S: "S \<subseteq> {..<NETCLIENT_MAXPEERS}" and i: "i \<in> S" and j: "j \<in> S"
    and pl: "playing c" and d: "addr_distinct S addr"
  shows "u_NetClientSocketReadUDP (Arrived (addr i j, p)) c = peer_packet j p (upd_peer j (count_received p) c)"
proof -
  have "sender_loop (addr i j) p peer_ids c = peer_packet j p (upd_peer j (count_received p) c)"
  proof (rule sender_found)
    show "j \<in> set peer_ids" using j S by auto
    show "(connected (Peers c ! k) \<and> NetSocketAddrIsEqual (addr i j) (p_Addr (Peers c ! k))) = (k = j)"
      if "k \<in> set peer_ids" for k
      using that cok d i j S unfolding client_ok_def addr_distinct_def
      by (auto simp: NetSocketAddrIsEqual_def)
  qed
  with pl show ?thesis by simp
qed

lemma input_data_effect:
  assumes "u_NetClientDecodeData 256 (EncodeData d) = Some es" and "j < length (Peers c)"
  shows "\<exists>c'. peer_packet j (InputData d) (upd_peer j (count_received (InputData d)) c) = Some c' \<and>
     c_eStatus c' = c_eStatus c \<and> c_eGameState c' = c_eGameState c \<and> c_log c' = c_log c \<and> length (Peers c') = length (Peers c) \<and>
     (\<forall>k < length (Peers c). connected (Peers c' ! k) = connected (Peers c ! k) \<and> p_Addr (Peers c' ! k) = p_Addr (Peers c ! k) \<and>
        outq c' k = (if k = j then acked (uAckPos d) (outq c k) else outq c k) \<and>
        inq c' k = (if k = j then enqueue_elements (inq c k) (uStartPos d) es else inq c k))"
  using assms
  by (simp add: peer_packet_def u_NetClientPeerInputData_def Let_def upd_peer_def nth_list_update peer_ack_def
      count_received_def add_stat_def connected_def outq_def inq_def acked_def)

lemma packet_sent_ok:
  assumes ok: "session_ok S addr b s" and i: "i \<in> S" and j: "j \<in> S" and p: "SentUDP (addr j i) p \<in> set (c_log (cl s j))"
  shows "playing (cl s j)" and "packet_ok b (entered s j) (rpos b s i j) (rpos b s j i) p" and "b + length (entered s j) < seq_limit"
proof -
  show pl: "playing (cl s j)" using session_okD(2) [OF ok j] p by blast
  show "packet_ok b (entered s j) (rpos b s i j) (rpos b s j i) p" by (rule session_okD(6) [OF ok j i p])
  show "b + length (entered s j) < seq_limit"
    using session_okD(3) [OF ok j i pl] by (auto simp: out_ok_def retains_def nq_wf_def)
qed

lemma deliver_ok:
  assumes ok: "session_ok S addr b s" and S: "S \<subseteq> {..<NETCLIENT_MAXPEERS}" and i: "i \<in> S" and j: "j \<in> S"
    and d: "addr_distinct S addr" and p: "SentUDP (addr j i) p \<in> set (c_log (cl s j))" and pl: "playing (cl s i)"
  shows "\<exists>c. u_NetClientSocketReadUDP (Arrived (addr i j, p)) (cl s i) = Some c \<and>
             session_ok S addr b (set_client i c (entered s i) (frames s i) s)"
proof -
  have cok: "client_ok S (addr i) (cl s i)" by (rule session_okD(1) [OF ok i])
  note snt = packet_sent_ok [OF ok i j p]
  note del = deliver_peer [OF cok S i j pl d, of p]
  have j4: "j < length (Peers (cl s i))" using S j client_peers [OF cok] by auto
  show ?thesis
  proof (cases "\<exists>t. p = Throttle t")
    case True
    then obtain t where t: "p = Throttle t" by blast
    let ?c = "u_NetClientPeerThrottle j t (upd_peer j (count_received p) (cl s i))"
    have "cv ?c = cv (cl s i)"
      unfolding u_NetClientPeerThrottle_def count_received_def
      by (rule trans [OF cv_upd_peer cv_upd_peer]) (simp_all add: pv_def add_stat_def)
    from view_ok [OF ok S i pl this] show ?thesis unfolding del by (intro exI [of _ ?c]) (simp add: t peer_packet_def)
  next
    case False
    with snt(2) obtain dt es where t: "p = InputData dt" and a: "b \<le> unat (uAckPos dt)" "unat (uAckPos dt) \<le> rpos b s j i"
      and st: "unat (uStartPos dt) < seq_limit" and e: "u_NetClientDecodeData 256 (EncodeData dt) = Some es"
      and sy: "says (entered s j) b (rpos b s i j) (unat (uStartPos dt)) es" by (auto simp: packet_ok_def)
    have del: "u_NetClientSocketReadUDP (Arrived (addr i j, p)) (cl s i) =
        peer_packet j (InputData dt) (upd_peer j (count_received (InputData dt)) (cl s i))"
      using del unfolding t by assumption
    from input_data_effect [OF e j4] obtain c where c: "u_NetClientSocketReadUDP (Arrived (addr i j, p)) (cl s i) = Some c"
      and same: "c_eStatus c = c_eStatus (cl s i)" "c_eGameState c = c_eGameState (cl s i)" "c_log c = c_log (cl s i)"
        "length (Peers c) = length (Peers (cl s i))"
      and q: "\<And>k. k < length (Peers (cl s i)) \<Longrightarrow> connected (Peers c ! k) = connected (Peers (cl s i) ! k) \<and>
        p_Addr (Peers c ! k) = p_Addr (Peers (cl s i) ! k) \<and>
        outq c k = (if k = j then acked (uAckPos dt) (outq (cl s i) k) else outq (cl s i) k) \<and>
        inq c k = (if k = j then enqueue_elements (inq (cl s i) k) (uStartPos dt) es else inq (cl s i) k)"
      unfolding del by metis
    have r: "rpos b s i k = unat (uTail (inq (cl s i) k))" for k using pl by (simp add: rpos_def)
    have lt: "k < length (Peers (cl s i))" if "k \<in> S" for k using that S client_peers [OF cok] by auto
    have i_in: "nq_wf (inq (cl s i) j)" "receives (entered s j) b NETQUEUE_SIZE (nq_window (inq (cl s i) j))"
      using session_okD(4) [OF ok i j pl] by (simp_all add: in_ok_def)
    have "says (entered s j) b (w_tail (nq_window (inq (cl s i) j))) (unat (uStartPos dt)) es" using sy by (simp add: r)
    from nq_window.feed_receives [OF i_in this snt(3) st]
    have f: "in_ok b (entered s j) (length (frames s i)) (inq c j)" "unat (uTail (inq (cl s i) j)) \<le> unat (uTail (inq c j))"
      using session_okD(4) [OF ok i j pl] q [OF j4] by (simp_all add: in_ok_def enqueue_elements_feed)
    have up: "unat (uTail (inq (cl s i) k)) \<le> unat (uTail (inq c k))" if "k \<in> S" for k
      using q [OF lt [OF that]] f(2) by (cases "k = j") simp_all
    have inn: "in_ok b (entered s k) (length (frames s i)) (inq c k)" if "k \<in> S" for k
      using session_okD(4) [OF ok i that pl] q [OF lt [OF that]] f(1) by (cases "k = j") simp_all
    have "session_ok S addr b (set_client i c (entered s i) (frames s i) s)"
    proof (rule session_ok_update [OF ok i, where k = "[]"])
      show "client_ok S (addr i) c" using q same by (intro client_ok_cong [OF cok]) (auto simp: acked_def)
      show "playing c" using pl same by (simp add: playing_def)
      show "frames_ok S ((entered s)(i := entered s i)) (frames s i)" using session_okD(5) [OF ok i] by simp
      fix k assume k: "k \<in> S"
      show "rpos b s i k \<le> unat (uTail (inq c k))" using up [OF k] by (simp add: r)
      show "in_ok b (((entered s)(i := entered s i)) k) (length (frames s i)) (inq c k)" using inn [OF k] by simp
      let ?r = "if k = i then unat (uTail (inq c i)) else rpos b s k i"
      have le: "rpos b s k i \<le> ?r" using up [OF i] by (simp add: r)
      have ub: "?r \<le> b + length (entered s i)"
        using rpos_le [OF ok i k] inn [OF i] by (auto simp: in_ok_def receives_def)
      have o: "out_ok b (entered s i) (rpos b s k i) (outq (cl s i) k)" by (rule session_okD(3) [OF ok i k pl])
      show "out_ok b (entered s i) ?r (outq c k)"
      proof (cases "k = j")
        case True
        with acked_ok [OF o a(1) _ le ub] a(2) q [OF lt [OF k]] show ?thesis by simp
      next
        case False
        with o q [OF lt [OF k]] retains_progress [OF _ le ub] show ?thesis by (simp add: out_ok_def)
      qed
      fix pk assume "SentUDP (addr i k) pk \<in> set (c_log c)"
      then have "packet_ok b (entered s i) (rpos b s k i) (rpos b s i k) pk"
        using same by (intro session_okD(6) [OF ok i k]) simp
      from packet_ok_mono [OF this le, of "unat (uTail (inq c k))" "[]"] up [OF k]
      show "packet_ok b (entered s i) ?r (unat (uTail (inq c k))) pk" by (simp add: r)
    qed simp
    with c show ?thesis by blast
  qed
qed

section \<open>Sessions\<close>

text \<open>Before the game: connected clients that know each other's addresses and have sent nothing.\<close>

definition session_start :: "nat set \<Rightarrow> (nat \<Rightarrow> nat \<Rightarrow> NetSocketAddrT) \<Rightarrow> session \<Rightarrow> bool" where
  "session_start S addr s \<longleftrightarrow> S \<subseteq> {..<NETCLIENT_MAXPEERS} \<and> addr_distinct S addr \<and>
     (\<forall>i \<in> S. client_ok S (addr i) (cl s i) \<and> \<not> playing (cl s i) \<and> entered s i = [] \<and> frames s i = [] \<and>
        (\<forall>a p. SentUDP a p \<notin> set (c_log (cl s i))))"

lemma session_start_ok: "session_start S addr s \<Longrightarrow> session_ok S addr b s"
  unfolding session_start_def session_ok_def by (auto simp: frames_ok_def)

lemma session_step_ok:
  assumes "session_step S addr seq s s'" and "session_ok S addr (unat seq) s" and "S \<subseteq> {..<NETCLIENT_MAXPEERS}"
    and "addr_distinct S addr" and "unat seq + 129 \<le> seq_limit"
  shows "session_ok S addr (unat seq) s'"
  using assms
proof (cases rule: session_step.cases)
  case (start i Local latency c)
  then show ?thesis using assms start_ok addr_distinct_inj by auto
next
  case (frame i u r c)
  then show ?thesis using assms frame_ok [OF assms(2,3)] addr_distinct_inj by auto
next
  case (deliver i j p c)
  show ?thesis
  proof (cases "playing (cl s i)")
    case True
    with deliver_ok [OF assms(2,3) deliver(2,3) assms(4) deliver(4)] deliver show ?thesis by auto
  next
    case False
    with deliver have "c = cl s i" by simp
    with deliver assms(2) show ?thesis by (simp only: set_client_same)
  qed
qed

lemma session_reach_ok:
  assumes "session_reach S addr seq s0 s" and "session_start S addr s0" and "unat seq + 129 \<le> seq_limit"
  shows "session_ok S addr (unat seq) s"
  using assms
proof (induction rule: session_reach.induct)
  case reach_refl
  then show ?case by (simp add: session_start_ok)
next
  case (reach_step s s')
  then show ?case by (auto simp: session_start_def intro: session_step_ok)
qed

end
