(* ===== verification/Net_Server.thy ===== *)
theory Net_Server
  imports Net_Client_Loop
begin

text \<open>
  The server of a netplay session (\<^verbatim>\<open>netserver.c\<close>): its four client slots, the game state it
  drives them through (idle, loading, playing), and the handlers its sockets call. What it sends is kept
  in a log, with the slot it is sent to. The relay is only compiled for Windows and left out. Fields
  are prefixed \<^verbatim>\<open>s_\<close> for the server and \<^verbatim>\<open>sc_\<close> for a slot.
\<close>

record NetServerClientT =
  sc_clientid :: int
  sc_eGameState :: NetPlayGameStateE
  sc_Socket :: NetSocketT
  sc_Name :: string
  UDPPort :: int

datatype server_event = SentClient nat NetPacketT

record NetServerT =
  s_eStatus :: NetPlayStatusE
  s_eGameState :: NetPlayGameStateE
  s_Name :: string
  uStartLatency :: nat
  uSeqNum :: u32
  bRelay :: bool
  s_Socket :: NetSocketT
  clients :: "NetServerClientT list"
  s_log :: "server_event list"

definition NETSERVER_MAXCLIENTS :: nat where "NETSERVER_MAXCLIENTS = 4"

abbreviation client_ids :: "nat list" where "client_ids \<equiv> [0..<NETSERVER_MAXCLIENTS]"

definition upd_slot :: "nat \<Rightarrow> (NetServerClientT \<Rightarrow> NetServerClientT) \<Rightarrow> NetServerT \<Rightarrow> NetServerT" where
  "upd_slot i f s = s\<lparr>clients := (clients s)[i := f (clients s ! i)]\<rparr>"

section \<open>Sending\<close>

definition NetServerClientIsConnected :: "NetServerT \<Rightarrow> nat \<Rightarrow> bool" where
  "NetServerClientIsConnected s clientid \<longleftrightarrow> NetSocketGetStatus (sc_Socket (clients s ! clientid)) = NETSOCKET_STATUS_CONNECTED"

definition send_client :: "nat \<Rightarrow> NetPacketT \<Rightarrow> NetServerT \<Rightarrow> NetServerT" where
  "send_client i p s = s\<lparr>s_log := s_log s @ [SentClient i p]\<rparr>"

definition NetServerBroadcast :: "NetPacketT \<Rightarrow> NetServerT \<Rightarrow> NetServerT" where
  "NetServerBroadcast p s = fold (\<lambda>i s. if NetServerClientIsConnected s i then send_client i p s else s) client_ids s"

text \<open>An unconnected slot is announced as idle, with no name and no address.\<close>

definition peer_info :: "NetServerClientT \<Rightarrow> NetPacketT option" where
  "peer_info p =
     (if NetSocketGetStatus (sc_Socket p) = NETSOCKET_STATUS_CONNECTED
      then do { n \<leftarrow> strcpy NETPACKET_NAME_SIZE (sc_Name p);
                Some (PeerInfo NETPLAY_STATUS_CONNECTED (sc_clientid p) n (sin_addr (PeerAddr (sc_Socket p))) (UDPPort p)) }
      else Some (PeerInfo NETPLAY_STATUS_IDLE (sc_clientid p) [] 0 0))"

fun send_peer_infos :: "nat list \<Rightarrow> NetServerT \<Rightarrow> NetServerT option" where
  "send_peer_infos [] s = Some s"
| "send_peer_infos (i # is) s = do { p \<leftarrow> peer_info (clients s ! i); send_peer_infos is (NetServerBroadcast p s) }"

definition NetServerSendPeerInfo :: "NetServerT \<Rightarrow> NetServerT option" where
  "NetServerSendPeerInfo s = send_peer_infos client_ids s"

definition NetServerGetNumClients :: "NetServerT \<Rightarrow> nat" where
  "NetServerGetNumClients s =
     fold (\<lambda>i n. if NetSocketGetStatus (sc_Socket (clients s ! i)) = NETSOCKET_STATUS_CONNECTED then n + 1 else n) client_ids 0"

definition NetServerSendText :: "string \<Rightarrow> NetServerT \<Rightarrow> NetServerT option" where
  "NetServerSendText pText s = do { t \<leftarrow> strcpy 128 pText; Some (NetServerBroadcast (TextPacket (-1) t) s) }"

section \<open>The game state\<close>

definition u_NetServerSetGameState :: "NetPlayGameStateE \<Rightarrow> NetServerT \<Rightarrow> NetServerT" where
  "u_NetServerSetGameState g s = s\<lparr>s_eGameState := g, clients := map (\<lambda>p. p\<lparr>sc_eGameState := g\<rparr>) (clients s)\<rparr>"

definition NetServerLoadGame :: "int \<Rightarrow> string \<Rightarrow> NetServerT \<Rightarrow> NetServerT option" where
  "NetServerLoadGame clientid pGameName s =
     (if s_eGameState s \<noteq> NETPLAY_GAMESTATE_LOADING
      then do { n \<leftarrow> strcpy 128 pGameName;
                Some (u_NetServerSetGameState NETPLAY_GAMESTATE_LOADING (NetServerBroadcast (LoadReq clientid n) s)) }
      else Some s)"

definition NetServerUnloadGame :: "int \<Rightarrow> NetServerT \<Rightarrow> NetServerT" where
  "NetServerUnloadGame clientid s =
     (if s_eGameState s \<noteq> NETPLAY_GAMESTATE_IDLE
      then u_NetServerSetGameState NETPLAY_GAMESTATE_IDLE (NetServerBroadcast (LoadReq clientid []) s)
      else s)"

definition u_NetServerStartGame :: "NetServerT \<Rightarrow> NetServerT" where
  "u_NetServerStartGame s =
     (if s_eGameState s = NETPLAY_GAMESTATE_LOADED
      then u_NetServerSetGameState NETPLAY_GAMESTATE_PLAY (NetServerBroadcast (StartGame (uStartLatency s) (uSeqNum s)) s)
      else s)"

section \<open>Packets of a client\<close>

definition all_loaded :: "NetServerT \<Rightarrow> bool" where
  "all_loaded s \<longleftrightarrow>
     fold (\<lambda>i b. if NetServerClientIsConnected s i \<and> sc_eGameState (clients s ! i) \<noteq> NETPLAY_GAMESTATE_LOADED then False else b)
       client_ids True"

definition server_hello :: "nat \<Rightarrow> u32 \<Rightarrow> string \<Rightarrow> int \<Rightarrow> NetServerT \<Rightarrow> NetServerT option" where
  "server_hello i version name port s =
     (if version \<noteq> NETPLAY_VERSION then Some (upd_slot i (\<lambda>p. p\<lparr>sc_Socket := NetSocketDisconnect (sc_Socket p)\<rparr>) s)
      else do { n \<leftarrow> strcpy 16 name;
                let s = upd_slot i (\<lambda>p. p\<lparr>sc_eGameState := NETPLAY_GAMESTATE_IDLE, UDPPort := port, sc_Name := n\<rparr>) s;
                sn \<leftarrow> strcpy NETPACKET_NAME_SIZE (s_Name s);
                NetServerSendPeerInfo (send_client i (ServerHello NETPLAY_VERSION (sc_clientid (clients s ! i)) sn) s) })"

definition server_load_ack :: "nat \<Rightarrow> int \<Rightarrow> NetPlayLoadAckE \<Rightarrow> NetServerT \<Rightarrow> NetServerT" where
  "server_load_ack i clientid result s =
     (case result of
        NETPLAY_LOADACK_OK \<Rightarrow>
          (if sc_eGameState (clients s ! i) = NETPLAY_GAMESTATE_LOADING
           then let s = upd_slot i (\<lambda>p. p\<lparr>sc_eGameState := NETPLAY_GAMESTATE_LOADED\<rparr>) (NetServerBroadcast (LoadAck clientid result) s) in
                if all_loaded s then u_NetServerStartGame (s\<lparr>s_eGameState := NETPLAY_GAMESTATE_LOADED\<rparr>) else s
           else s)
      | NETPLAY_LOADACK_NOTFOUND \<Rightarrow> s
      | _ \<Rightarrow>
          (if sc_eGameState (clients s ! i) = NETPLAY_GAMESTATE_LOADING
           then NetServerUnloadGame (sc_clientid (clients s ! i)) (NetServerBroadcast (LoadAck clientid result) s)
           else s))"

fun server_packet :: "nat \<Rightarrow> NetPacketT \<Rightarrow> NetServerT \<Rightarrow> NetServerT option" where
  "server_packet i (ClientHello version name port) s = server_hello i version name port s"
| "server_packet i (TextPacket clientid str) s = Some (NetServerBroadcast (TextPacket clientid str) s)"
| "server_packet i (LoadReq clientid GameName) s =
     (if s_eGameState s \<noteq> NETPLAY_GAMESTATE_LOADING
      then if 0 < length GameName then NetServerLoadGame (sc_clientid (clients s ! i)) GameName s
           else Some (NetServerUnloadGame (sc_clientid (clients s ! i)) s)
      else Some s)"
| "server_packet i (LoadAck clientid result) s = Some (server_load_ack i clientid result s)"
| "server_packet i (Ping t) s = Some (send_client i (Pong t) s)"
| "server_packet i _ s = Some s"

fun u_NetServerClientRead :: "nat \<Rightarrow> NetPacketT arrival \<Rightarrow> NetServerT \<Rightarrow> NetServerT option" where
  "u_NetServerClientRead i (Arrived p) s = server_packet i p s"
| "u_NetServerClientRead i _ s = Some (upd_slot i (\<lambda>p. p\<lparr>sc_Socket := NetSocketDisconnect (sc_Socket p)\<rparr>) s)"

definition u_NetServerClientConnect :: "nat \<Rightarrow> NetServerT \<Rightarrow> NetServerT" where
  "u_NetServerClientConnect i s = s"

definition u_NetServerClientAbort :: "nat \<Rightarrow> NetServerT \<Rightarrow> NetServerT option" where
  "u_NetServerClientAbort i s =
     do { s \<leftarrow> NetServerSendPeerInfo s;
          let s = upd_slot i (\<lambda>p. p\<lparr>sc_eGameState := NETPLAY_GAMESTATE_IDLE\<rparr>) s;
          Some (if NetServerGetNumClients s = 0 then s\<lparr>s_eGameState := NETPLAY_GAMESTATE_IDLE\<rparr> else s) }"

definition u_NetServerClientDisconnect :: "nat \<Rightarrow> NetServerT \<Rightarrow> NetServerT" where
  "u_NetServerClientDisconnect i s =
     (if NetSocketGetStatus (sc_Socket (clients s ! i)) \<noteq> NETSOCKET_STATUS_INVALID
      then upd_slot i (\<lambda>p. p\<lparr>sc_Socket := NetSocketDisconnect (sc_Socket p)\<rparr>) s else s)"

section \<open>Connections\<close>

fun free_slot :: "NetServerT \<Rightarrow> nat list \<Rightarrow> nat option" where
  "free_slot s [] = None"
| "free_slot s (i # is) = (if \<not> NetServerClientIsConnected s i then Some i else free_slot s is)"

definition u_NetServerAccept :: "int \<Rightarrow> NetSocketAddrT \<Rightarrow> int \<Rightarrow> NetServerT \<Rightarrow> int \<times> NetServerT" where
  "u_NetServerAccept fd addr thread s =
     (let (rc, listen, acc) = NetSocketAccept fd addr (s_Socket s) zero_socket; s = s\<lparr>s_Socket := listen\<rparr> in
      if rc = 0
      then (case (if s_eGameState s = NETPLAY_GAMESTATE_IDLE then free_slot s client_ids else None) of
              Some i \<Rightarrow> (0, upd_slot i (\<lambda>p. p\<lparr>sc_Socket := snd (NetSocketProcess thread (NetSocketCopy (sc_Socket p) acc))\<rparr>) s)
            | None \<Rightarrow> (-1, s))
      else (-1, s))"

definition u_NetServerStart :: "NetServerT \<Rightarrow> NetServerT" where
  "u_NetServerStart s = s\<lparr>s_eStatus := NETPLAY_STATUS_CONNECTED\<rparr>"

definition u_NetServerStop :: "NetServerT \<Rightarrow> NetServerT" where
  "u_NetServerStop s = s\<lparr>s_eStatus := NETPLAY_STATUS_IDLE\<rparr>"

definition new_slot :: "nat \<Rightarrow> NetServerClientT" where
  "new_slot i = \<lparr>sc_clientid = int i, sc_eGameState = NETPLAY_GAMESTATE_IDLE, sc_Socket = NetSocketNew zero_socket,
                 sc_Name = [], UDPPort = 0\<rparr>"

definition NetServerNew :: NetServerT where
  "NetServerNew =
     \<lparr>s_eStatus = NETPLAY_STATUS_IDLE, s_eGameState = NETPLAY_GAMESTATE_IDLE, s_Name = ''server'', uStartLatency = 30,
      uSeqNum = 0, bRelay = False, s_Socket = NetSocketNew zero_socket, clients = map new_slot client_ids, s_log = []\<rparr>"

definition NetServerStop :: "NetServerT \<Rightarrow> NetServerT" where
  "NetServerStop s =
     (if NetSocketGetStatus (s_Socket s) = NETSOCKET_STATUS_LISTENING
      then fold (\<lambda>i s. if NetSocketGetStatus (sc_Socket (clients s ! i)) \<noteq> NETSOCKET_STATUS_INVALID
                       then u_NetServerClientDisconnect i s else s) client_ids
             (s\<lparr>s_Socket := NetSocketDisconnect (s_Socket s)\<rparr>)
      else s)"

definition NetServerDelete :: "NetServerT \<Rightarrow> NetServerT" where
  "NetServerDelete s =
     fold (\<lambda>i. upd_slot i (\<lambda>p. p\<lparr>sc_Socket := NetSocketDelete (sc_Socket p)\<rparr>)) client_ids (NetServerStop s)"

definition NetServerStart :: "int \<Rightarrow> int \<Rightarrow> int \<Rightarrow> int \<Rightarrow> NetServerT \<Rightarrow> int \<times> NetServerT" where
  "NetServerStart fd bound listening thread s =
     (if NetSocketGetStatus (s_Socket s) \<noteq> NETSOCKET_STATUS_INVALID then (-1, s)
      else (0, s\<lparr>s_Socket := snd (NetSocketListen fd bound listening thread (s_Socket s))\<rparr>))"

section \<open>What the server does\<close>

text \<open>The socket threads call the handlers; a slot's thread ends after its abort handler.\<close>

inductive server_step :: "NetServerT \<Rightarrow> NetServerT \<Rightarrow> bool" where
  accept: "u_NetServerAccept fd addr thread s = (rc, s') \<Longrightarrow> server_step s s'"
| read: "i < NETSERVER_MAXCLIENTS \<Longrightarrow> u_NetServerClientRead i a s = Some s' \<Longrightarrow> server_step s s'"
| abort: "i < NETSERVER_MAXCLIENTS \<Longrightarrow> NetSocketGetStatus (sc_Socket (clients s ! i)) = NETSOCKET_STATUS_DISCONNECTING \<Longrightarrow>
            u_NetServerClientAbort i s = Some s' \<Longrightarrow>
            server_step s (upd_slot i (\<lambda>p. p\<lparr>sc_Socket := socket_thread_end (sc_Socket p)\<rparr>) s')"

lemma broadcast_loop:
  "fold (\<lambda>i s. if NetServerClientIsConnected s i then send_client i p s else s) is s =
     s\<lparr>s_log := s_log s @ map (\<lambda>i. SentClient i p) (filter (NetServerClientIsConnected s) is)\<rparr>"
proof (induction "is" arbitrary: s)
  case (Cons i "is")
  have "NetServerClientIsConnected (send_client i p s) = NetServerClientIsConnected s"
    by (simp add: NetServerClientIsConnected_def send_client_def fun_eq_iff)
  with Cons show ?case by (simp add: send_client_def)
qed simp

lemma NetServerBroadcast_eq:
  "NetServerBroadcast p s = s\<lparr>s_log := s_log s @ map (\<lambda>i. SentClient i p) (filter (NetServerClientIsConnected s) client_ids)\<rparr>"
  by (simp add: NetServerBroadcast_def broadcast_loop)

lemma all_loaded_iff:
  "all_loaded s \<longleftrightarrow> (\<forall>i < NETSERVER_MAXCLIENTS. NetServerClientIsConnected s i \<longrightarrow> sc_eGameState (clients s ! i) = NETPLAY_GAMESTATE_LOADED)"
proof -
  have "fold (\<lambda>i b. if P i then False else b) is b \<longleftrightarrow> b \<and> (\<forall>i \<in> set is. \<not> P i)" for P and "is" :: "nat list" and b
    by (induction "is" arbitrary: b) auto
  then show ?thesis by (auto simp: all_loaded_def)
qed

lemma peer_infos_effect:
  "send_peer_infos is s = Some s' \<Longrightarrow>
     \<exists>es. s' = s\<lparr>s_log := s_log s @ es\<rparr> \<and> (\<forall>e \<in> set es. \<forall>k l q. e \<noteq> SentClient k (StartGame l q))"
proof (induction "is" arbitrary: s)
  case Nil
  then show ?case by (intro exI [of _ "[]"]) simp
next
  case (Cons i "is")
  then obtain p where p: "peer_info (clients s ! i) = Some p" and r: "send_peer_infos is (NetServerBroadcast p s) = Some s'"
    by (auto simp: bind_eq_Some_conv)
  from Cons.IH [OF r] obtain es where e: "s' = (NetServerBroadcast p s)\<lparr>s_log := s_log (NetServerBroadcast p s) @ es\<rparr>"
    "\<forall>e \<in> set es. \<forall>k l q. e \<noteq> SentClient k (StartGame l q)" by blast
  have "\<forall>l q. p \<noteq> StartGame l q" using p by (auto simp: peer_info_def bind_eq_Some_conv split: if_splits)
  with e show ?case
    by (intro exI [of _ "map (\<lambda>i. SentClient i p) (filter (NetServerClientIsConnected s) client_ids) @ es"])
      (auto simp: NetServerBroadcast_eq)
qed

end
