(* ===== verification/Net_Props.thy ===== *)
theory Net_Props
  imports Net_Lockstep Net_Server
begin

text \<open>
  The properties of the netplay module: when sending is defined, a session to run, and the theorems.
\<close>

section \<open>Starting a game\<close>

text \<open>
  When sending is defined: the array the pending inputs are copied to has 64 entries, the queue they
  come from 128.
\<close>

lemma output_limit_iff:
  "set is \<subseteq> {..<length (Peers c)} \<Longrightarrow>
     fst (output_limit_loop n is c) \<longleftrightarrow> (\<forall>i \<in> set is. connected (Peers c ! i) \<longrightarrow> NetQueueGetCount (OutputQueue (Peers c ! i)) < n)"
proof (induction "is" arbitrary: c)
  case (Cons i "is")
  show ?case
  proof (cases "connected (Peers c ! i)")
    case True
    define c1 where "c1 = upd_peer i (add_stat NETPLAY_STAT_OUTPUTQUEUE (NetQueueGetCount (OutputQueue (Peers c ! i)))) c"
    have v: "cv c1 = cv c" and l: "set is \<subseteq> {..<length (Peers c1)}" using Cons.prems by (simp_all add: c1_def)
    have step: "output_limit_loop n (i # is) c =
        (if n \<le> NetQueueGetCount (OutputQueue (Peers c ! i)) then (False, c1) else output_limit_loop n is c1)"
      using True by (simp add: Let_def c1_def)
    from Cons.IH [OF l] cv_same_peer [OF v [symmetric]] Cons.prems True show ?thesis
      unfolding step by (auto simp: subset_iff)
  qed (use Cons in auto)
qed simp

lemma transmit_loop_None:
  "set is \<subseteq> {..<length (Peers c)} \<Longrightarrow>
     each_peer (\<lambda>i c. if connected (Peers c ! i) then u_NetClientPeerTransmit i c else Some c) is c = None \<longleftrightarrow>
     (\<exists>i \<in> set is. connected (Peers c ! i) \<and> 64 < length (pending (Peers c ! i)))"
proof (induction "is" arbitrary: c)
  case (Cons i "is")
  show ?case
  proof (cases "connected (Peers c ! i)")
    case con: True
    show ?thesis
    proof (cases "64 < length (pending (Peers c ! i))")
      case True
      with con transmit_view [of i c] show ?thesis by (cases "u_NetClientPeerTransmit i c") auto
    next
      case False
      then have "u_NetClientPeerTransmit i c \<noteq> None" by (intro transmit_defined) simp
      then obtain c1 where c1: "u_NetClientPeerTransmit i c = Some c1" by blast
      from transmit_view [OF this con] obtain es where l: "logged es c c1" by blast
      have s: "set is \<subseteq> {..<length (Peers c1)}" using Cons.prems logged_length [OF l] by simp
      have "connected (Peers c1 ! j) = connected (Peers c ! j)" "pending (Peers c1 ! j) = pending (Peers c ! j)" if "j \<in> set is" for j
        using logged_peer [OF l, of j] that Cons.prems by (auto simp: pending_def)
      with Cons.IH [OF s] con False c1 show ?thesis by simp
    qed
  qed (use Cons in auto)
qed simp

lemma Transmit_None:
  assumes "length (Peers c) = NETCLIENT_MAXPEERS"
  shows "NetClientTransmit c = None \<longleftrightarrow> playing c \<and>
     (\<forall>i < NETCLIENT_MAXPEERS. connected (Peers c ! i) \<longrightarrow> NetQueueGetCount (OutputQueue (Peers c ! i)) < 128) \<and>
     (\<exists>i < NETCLIENT_MAXPEERS. connected (Peers c ! i) \<and> 64 < length (pending (Peers c ! i)))"
proof -
  obtain ok c1 where l: "NetClientCheckOutputLimit 128 c = (ok, c1)" by fastforce
  note l' = l [unfolded NetClientCheckOutputLimit_def]
  from output_limit_iff [OF peers_subset [OF assms], of 128]
  have ok: "ok \<longleftrightarrow> (\<forall>i < NETCLIENT_MAXPEERS. connected (Peers c ! i) \<longrightarrow> NetQueueGetCount (OutputQueue (Peers c ! i)) < 128)"
    by (simp add: l' Ball_def)
  from output_limit_view [OF l' peers_subset [OF assms]] have v: "cv c1 = cv c" by simp
  have len: "length (Peers c1) = NETCLIENT_MAXPEERS" using cv_length [OF v] assms by simp
  have "connected (Peers c1 ! j) = connected (Peers c ! j)" "pending (Peers c1 ! j) = pending (Peers c ! j)"
    if "j < NETCLIENT_MAXPEERS" for j
    using cv_same_peer [OF v, of j] that len by (auto simp: pending_def)
  with transmit_loop_None [OF peers_subset [OF len]] l ok show ?thesis
    by (auto simp: NetClientTransmit_def bind_eq_None_conv)
qed

text \<open>The start of a game enters the latency of the session and sends it.\<close>

definition started :: "nat set \<Rightarrow> u32 \<Rightarrow> nat \<Rightarrow> NetClientT \<Rightarrow> bool" where
  "started S seq n c \<longleftrightarrow> playing c \<and> length (Peers c) = NETCLIENT_MAXPEERS \<and>
     (\<forall>k < NETCLIENT_MAXPEERS. connected (Peers c ! k) = (k \<in> S) \<and>
        (k \<in> S \<longrightarrow> nq_wf (outq c k) \<and> uHead (outq c k) = seq \<and> unat (uTail (outq c k)) = unat seq + n))"

lemma started_count:
  "started S seq n c \<Longrightarrow> k \<in> S \<Longrightarrow> k < NETCLIENT_MAXPEERS \<Longrightarrow>
     NetQueueGetCount (OutputQueue (Peers c ! k)) = int n \<and> length (pending (Peers c ! k)) = n"
  using nq_wf_count [of "outq c k"] nq_window.fetch_law [of "outq c k"]
  by (auto simp: started_def outq_def pending_def)

lemma started_enqueue:
  assumes st: "started S seq n c" and l: "unat seq + 129 \<le> seq_limit" and n: "n \<le> 128"
  shows "started S seq (min (Suc n) 128) (snd (NetClientEnqueueInput 0 c))"
proof -
  have len: "length (Peers c) = NETCLIENT_MAXPEERS" and pl: "playing c" using st by (simp_all add: started_def)
  obtain ok c1 where lm: "NetClientCheckOutputLimit 128 c = (ok, c1)" by fastforce
  note lm' = lm [unfolded NetClientCheckOutputLimit_def]
  from output_limit_iff [OF peers_subset [OF len], of 128]
  have ok: "ok \<longleftrightarrow> (\<forall>i < NETCLIENT_MAXPEERS. connected (Peers c ! i) \<longrightarrow> NetQueueGetCount (OutputQueue (Peers c ! i)) < 128)"
    by (simp add: lm' Ball_def)
  from output_limit_view [OF lm' peers_subset [OF len]] have v: "cv c1 = cv c" by simp
  note same = cv_same_peer [OF v]
  have len1: "length (Peers c1) = NETCLIENT_MAXPEERS" using cv_length [OF v] len by simp
  have r: "snd (NetClientEnqueueInput 0 c) = (if ok then map_peers (enqueue_output 0) c1 else c1)"
    using pl lm by (auto simp: NetClientEnqueueInput_def)
  have sc: "NetQueueGetCount (OutputQueue (Peers c ! k)) = int n" if "k \<in> S" "k < NETCLIENT_MAXPEERS" for k
    using started_count [OF st that] by simp
  have con: "connected (Peers c ! k) = (k \<in> S)" if "k < NETCLIENT_MAXPEERS" for k using st that by (simp add: started_def)
  have q1: "outq c1 k = outq c k" "connected (Peers c1 ! k) = (k \<in> S)" if "k < NETCLIENT_MAXPEERS" for k
    using same [of k] len1 that con [OF that] by (simp_all add: outq_def)
  have pl1: "playing c1" using cv_playing [OF v] pl by simp
  show ?thesis
  proof (cases "n < 128")
    case True
    with ok sc con have "ok" by auto
    have "nq_wf (snd (NetQueueEnqueue (outq c k) 0)) \<and> unat (uTail (snd (NetQueueEnqueue (outq c k) 0))) = unat seq + Suc n"
      if k: "k \<in> S" "k < NETCLIENT_MAXPEERS" for k
    proof -
      have w: "nq_wf (outq c k)" "unat (uTail (outq c k)) = unat seq + n" "uHead (outq c k) = seq"
        using st k by (auto simp: started_def)
      have "Suc (w_tail (nq_window (outq c k))) < seq_limit" using w l True by simp
      moreover have "\<not> w_full NETQUEUE_SIZE (nq_window (outq c k))" using w True by (simp add: w_full_def NETQUEUE_SIZE_def)
      ultimately have p: "nq_wf (snd (NetQueueEnqueue (outq c k) 0))"
        "nq_window (snd (NetQueueEnqueue (outq c k) 0)) = w_push NETQUEUE_SIZE 0 (nq_window (outq c k))"
        using nq_window.push_law [OF w(1)] by auto
      from arg_cong [OF p(2), of w_tail] p(1) w show ?thesis by (simp add: w_push_def)
    qed
    with \<open>ok\<close> True q1 pl1 len1 st show ?thesis
      by (auto simp: r started_def map_peers_def playing_def enqueue_output_def outq_def connected_def)
  next
    case False
    with n have n128: "n = 128" by simp
    show ?thesis
    proof (cases ok)
      case True
      with ok sc con n128 have "k \<notin> S" if "k < NETCLIENT_MAXPEERS" for k using that by force
      with True q1 pl1 len1 n128 show ?thesis
        by (auto simp: r started_def map_peers_def playing_def enqueue_output_def outq_def connected_def)
    next
      case False
      with q1 pl1 len1 n128 st show ?thesis by (auto simp: r started_def)
    qed
  qed
qed

lemma started_funpow:
  assumes "started S seq 0 c" and "unat seq + 129 \<le> seq_limit"
  shows "started S seq (min n 128) (((\<lambda>c. snd (NetClientEnqueueInput 0 c)) ^^ n) c)"
proof (induction n)
  case (Suc n)
  have "min (Suc (min n 128)) 128 = min (Suc n) 128" by simp
  with started_enqueue [OF Suc assms(2)] show ?case by simp
qed (use assms(1) in simp)

lemma start_game_None:
  assumes c: "client_ok S addr c" and S: "S \<subseteq> {..<NETCLIENT_MAXPEERS}" "S \<noteq> {}" and l: "unat seq + 129 \<le> seq_limit"
  shows "client_start_game latency seq c = None \<longleftrightarrow> 64 < latency \<and> latency < 128"
proof -
  define c0 where "c0 = (map_peers (start_peer seq) (c\<lparr>uFrame := 0\<rparr>))\<lparr>c_eGameState := NETPLAY_GAMESTATE_PLAY\<rparr>"
  define c1 where "c1 = ((\<lambda>c. snd (NetClientEnqueueInput 0 c)) ^^ latency) c0"
  have "started S seq 0 c0"
    using c l by (auto simp: started_def c0_def map_peers_def start_peer_def client_ok_def playing_def connected_def
        outq_def nq_wf_def NetQueueReset_def)
  from started_funpow [OF this l] have st: "started S seq (min latency 128) c1" by (simp add: c1_def)
  then have len: "length (Peers c1) = NETCLIENT_MAXPEERS" by (simp add: started_def)
  have "client_start_game latency seq c = None \<longleftrightarrow> NetClientTransmit c1 = None"
    by (simp add: client_start_game_def Let_def c0_def c1_def bind_eq_None_conv)
      (auto split: prod.splits)
  also have "\<dots> \<longleftrightarrow> min latency 128 < 128 \<and> 64 < min latency 128"
    using st started_count [OF st] S unfolding Transmit_None [OF len] started_def by fastforce
  finally show ?thesis by (auto simp: min_def)
qed

section \<open>A session to run\<close>

text \<open>A small session that can be run: two clients, started with one frame of latency.\<close>

definition demo_addr :: "nat \<Rightarrow> nat \<Rightarrow> NetSocketAddrT" where
  "demo_addr i k = \<lparr>sin_family = AF_INET, sin_port = of_nat k, sin_addr = INADDR_LOOPBACK_n\<rparr>"

definition demo_client :: "nat set \<Rightarrow> NetClientT" where
  "demo_client S = NetClientNew
     \<lparr>c_eStatus := NETPLAY_STATUS_CONNECTED,
      Peers := map (\<lambda>k. if k \<in> S then new_peer\<lparr>p_eStatus := NETPLAY_STATUS_CONNECTED, p_Addr := demo_addr 0 k\<rparr> else new_peer)
                 peer_ids\<rparr>"

definition demo_session :: "nat set \<Rightarrow> session" where
  "demo_session S = \<lparr>cl = \<lambda>i. demo_client S, entered = \<lambda>i. [], frames = \<lambda>i. []\<rparr>"

lemmas net_defs =
  NETCLIENT_MAXPEERS_def NETPLAY_STATUS_IDLE_def NETPLAY_STATUS_CONNECTED_def connected_def playing_def log_event_def
  upd_peer_def add_stat_def map_peers_def client_start_game_def start_peer_def NetClientEnqueueInput_def
  NetClientCheckOutputLimit_def enqueue_output_def NetQueueReset_def NetQueueNew_def NetQueueGetCount_def NetQueueEnqueue_def
  NetQueueEnqueueAt_def NetQueueDequeue_def NetQueueFetchRange_def fetch_forward.simps NetQueueGetElement_def element_at_def
  NetClientTransmit_def u_NetClientPeerTransmit_def NetClientSendUDP_def NetClientSendUDP_peer_def sizeof_EncodeData_def
  u_NetClientEncodeData_def encode_loop.simps u_NetClientCalcRunLength_def

lemma upt4: "[0..<4] = [0, 1, 2, 3 :: nat]"
  by (simp add: upt_rec)

lemma queue_size: "0 < NETQUEUE_SIZE" "int NETQUEUE_SIZE = 128" "1 < NETQUEUE_SIZE" "Suc 0 < NETQUEUE_SIZE"
  by (simp_all add: NETQUEUE_SIZE_def)

lemmas net_eval = net_defs upt4 queue_size Let_def masked_index

definition demo_packet :: NetPacketT where
  "demo_packet = InputData \<lparr>uAckPos = 0, uStartPos = 0, EncodeData = [1, 0]\<rparr>"

lemma demo_addr_simps [simp]:
  "sin_port (demo_addr i k) = of_nat k" "sin_addr (demo_addr i k) = INADDR_LOOPBACK_n" "demo_addr (Suc i) k = demo_addr 0 k"
  by (simp_all add: demo_addr_def)

lemmas demo_eval = net_eval demo_client_def NetClientNew_def new_peer_def empty_queue_def zero_socket_def

text \<open>Both clients go through the same states.\<close>

lemma demo_run:
  "(do { d1 \<leftarrow> client_packet zero_addr (StartGame 1 0) (demo_client {0, 1});
         d2 \<leftarrow> u_NetClientSocketReadUDP (Arrived (demo_addr 0 0, demo_packet)) d1;
         d3 \<leftarrow> u_NetClientSocketReadUDP (Arrived (demo_addr 0 1, demo_packet)) d2;
         (r, d4) \<leftarrow> NetClientProcess 5 4 d3;
         Some (r, playing d3, set (c_log d3) = set (c_log d1) \<and> set (c_log d2) = set (c_log d1),
               uTail (outq d1 0) = 1 \<and> uTail (outq d1 1) = 1,
               SentUDP (demo_addr 0 0) demo_packet \<in> set (c_log d1) \<and> SentUDP (demo_addr 0 1) demo_packet \<in> set (c_log d1)) })
   = Some (Some [0, 0, 0xFFFFFFFF, 0xFFFFFFFF], True, True, True, True)"
  by (simp add: demo_eval demo_packet_def NetSocketAddrIsEqual_def peer_packet_def count_received_def
      u_NetClientPeerInputData_def peer_ack_def NetClientProcess_def NetClientRecvInput_def NetClientIsInputReady_def
      pad_output_def update_period_def NETPLAY_STATUPDATEFRAMES_def outq_def)

section \<open>A session\<close>

text \<open>
  C16: lockstep. In a session of any of the four clients, over a network that loses, repeats and
  reorders datagrams, two clients that have played frame \<open>n\<close> played it with the same inputs; and
  the input of each client in it is the \<open>n\<close>th that client entered.
\<close>

theorem lockstep:
  assumes "session_start S addr s0" and "unat seq + 129 \<le> seq_limit" and "session_reach S addr seq s0 s"
    and "i \<in> S" and "j \<in> S" and "n < length (frames s i)" and "n < length (frames s j)"
  shows "frames s i ! n = frames s j ! n \<and> length (frames s i ! n) = NETCLIENT_MAXPEERS \<and>
         (\<forall>k < NETCLIENT_MAXPEERS. frames s i ! n ! k = (if k \<in> S then entered s k ! n else 0xFFFFFFFF))"
proof -
  have ok: "session_ok S addr (unat seq) s" by (rule session_reach_ok [OF assms(3,1,2)])
  have g: "length (frames s m ! n) = NETCLIENT_MAXPEERS \<and>
      (\<forall>k < NETCLIENT_MAXPEERS. frames s m ! n ! k = (if k \<in> S then entered s k ! n else 0xFFFFFFFF))"
    if "m \<in> S" "n < length (frames s m)" for m
    using session_okD(5) [OF ok that(1)] that(2) by (auto simp: frames_ok_def given_ok_def split: if_splits)
  show ?thesis
    using g [OF assms(4,6)] g [OF assms(5,7)] by (auto intro: nth_equalityI)
qed

lemma demo_start: "session_start {0, 1} demo_addr (demo_session {0, 1})"
proof -
  have "demo_addr 0 k = demo_addr 1 k" for k by (simp add: demo_addr_def)
  then show ?thesis
    by (auto simp: session_start_def demo_session_def NETCLIENT_MAXPEERS_def addr_distinct_def NetSocketAddrIsEqual_def
        client_ok_def demo_client_def NetClientNew_def less_Suc_eq numeral_eq_Suc connected_def new_peer_def playing_def
        outq_def inq_def empty_queue_def NETQUEUE_SIZE_def NetQueueNew_def NetQueueReset_def NETPLAY_STATUS_CONNECTED_def
        NETPLAY_STATUS_IDLE_def)
qed

lemma net_demo_reach:
  "\<exists>s. session_reach {0, 1} demo_addr 0 (demo_session {0, 1}) s \<and>
       frames s 0 = [[0, 0, 0xFFFFFFFF, 0xFFFFFFFF]] \<and> frames s 1 = [[0, 0, 0xFFFFFFFF, 0xFFFFFFFF]]"
proof -
  from demo_run obtain d1 d2 d3 d4 where
    d1: "client_packet zero_addr (StartGame 1 0) (demo_client {0, 1}) = Some d1" and
    d2: "u_NetClientSocketReadUDP (Arrived (demo_addr 0 0, demo_packet)) d1 = Some d2" and
    d3: "u_NetClientSocketReadUDP (Arrived (demo_addr 0 1, demo_packet)) d2 = Some d3" and
    d4: "NetClientProcess 5 4 d3 = Some (Some [0, 0, 0xFFFFFFFF, 0xFFFFFFFF], d4)" and
    pl: "playing d3" and lg: "set (c_log d3) = set (c_log d1)" "set (c_log d2) = set (c_log d1)" and
    t: "uTail (outq d1 0) = 1" "uTail (outq d1 1) = 1" and
    sn: "SentUDP (demo_addr 0 0) demo_packet \<in> set (c_log d1)" "SentUDP (demo_addr 0 1) demo_packet \<in> set (c_log d1)"
    by (auto simp: bind_eq_Some_conv)
  let ?S = "{0, 1 :: nat}"
  have a: "demo_addr 1 k = demo_addr 0 k" for k by (simp add: demo_addr_def)
  let ?s0 = "demo_session ?S"
  have np: "\<not> playing (demo_client ?S)" by (simp add: demo_client_def playing_def NetClientNew_def)
  let ?e = "\<lambda>i. entered_by i 0 d1 0"
  let ?s1 = "set_client 0 d1 (?e 0) [] ?s0"
  let ?s2 = "set_client 1 d1 (?e 1) [] ?s1"
  let ?s3 = "set_client 0 d2 (?e 0) [] ?s2"
  let ?s4 = "set_client 0 d3 (?e 0) [] ?s3"
  let ?s5 = "set_client 1 d2 (?e 1) [] ?s4"
  let ?s6 = "set_client 1 d3 (?e 1) [] ?s5"
  have 1: "session_step ?S demo_addr 0 ?s0 ?s1"
    using session_step.start [of 0 ?S ?s0 zero_addr 1 0 d1 demo_addr] np d1 by (simp add: demo_session_def)
  have 2: "session_step ?S demo_addr 0 ?s1 ?s2"
    using session_step.start [of 1 ?S ?s1 zero_addr 1 0 d1 demo_addr] np d1 by (simp add: demo_session_def set_client_def)
  have 3: "session_step ?S demo_addr 0 ?s2 ?s3"
    using session_step.deliver [of 0 ?S 0 demo_addr demo_packet ?s2 d2 0] d2 sn by (simp add: set_client_def)
  have 4: "session_step ?S demo_addr 0 ?s3 ?s4"
    using session_step.deliver [of 0 ?S 1 demo_addr demo_packet ?s3 d3 0] d3 sn by (simp add: set_client_def a)
  have 5: "session_step ?S demo_addr 0 ?s4 ?s5"
    using session_step.deliver [of 1 ?S 0 demo_addr demo_packet ?s4 d2 0] d2 sn lg by (simp add: set_client_def a)
  have 6: "session_step ?S demo_addr 0 ?s5 ?s6"
    using session_step.deliver [of 1 ?S 1 demo_addr demo_packet ?s5 d3 0] d3 sn lg by (simp add: set_client_def a)
  have l: "length (?e i) = 1" if "i \<in> ?S" for i using that t by (auto simp: entered_by_def)
  let ?v = "[0, 0, 0xFFFFFFFF, 0xFFFFFFFF :: u32]"
  let ?f = "\<lambda>i. entered_by i (unat (uTail (outq d3 i))) d4 5"
  let ?s7 = "set_client 0 d4 (?e 0 @ ?f 0) [?v] ?s6"
  let ?s8 = "set_client 1 d4 (?e 1 @ ?f 1) [?v] ?s7"
  have 7: "session_step ?S demo_addr 0 ?s6 ?s7"
    using session_step.frame [of 0 ?S ?s6 0 5 "Some ?v" d4 demo_addr] d4 pl l
    by (simp add: set_client_def NETCLIENT_MAXPEERS_def seq_limit_def)
  have 8: "session_step ?S demo_addr 0 ?s7 ?s8"
    using session_step.frame [of 1 ?S ?s7 0 5 "Some ?v" d4 demo_addr] d4 pl l
    by (simp add: set_client_def NETCLIENT_MAXPEERS_def seq_limit_def)
  have "session_reach ?S demo_addr 0 ?s0 ?s2"
    by (rule session_reach.reach_step [OF session_reach.reach_step [OF session_reach.reach_refl 1] 2])
  from session_reach.reach_step [OF session_reach.reach_step [OF this 3] 4]
  have "session_reach ?S demo_addr 0 ?s0 ?s4" .
  from session_reach.reach_step [OF session_reach.reach_step [OF this 5] 6]
  have "session_reach ?S demo_addr 0 ?s0 ?s6" .
  from session_reach.reach_step [OF session_reach.reach_step [OF this 7] 8]
  have "session_reach ?S demo_addr 0 ?s0 ?s8" .
  then show ?thesis by (intro exI [of _ ?s8]) (simp add: set_client_def)
qed

theorem lockstep_witness:
  "\<exists>s. session_reach {0, 1} demo_addr 0 (demo_session {0, 1}) s \<and> frames s 0 ! 0 = frames s 1 ! 0 \<and>
       frames s 0 ! 0 = [0, 0, 0xFFFFFFFF, 0xFFFFFFFF]"
proof -
  from net_demo_reach obtain s where s: "session_reach {0, 1} demo_addr 0 (demo_session {0, 1}) s"
    "frames s 0 = [[0, 0, 0xFFFFFFFF, 0xFFFFFFFF]]" "frames s 1 = [[0, 0, 0xFFFFFFFF, 0xFFFFFFFF]]" by blast
  from lockstep [OF demo_start _ s(1), of 0 1 0] s show ?thesis by (auto simp: seq_limit_def)
qed

text \<open>
  C17: what arrives is within bounds. In a session every datagram a client has sent to another is
  handled by it without leaving an array, in whatever state the receiver is, and the receiver is left
  in a state of the session.
\<close>

theorem datagrams_handled:
  assumes "session_start S addr s0" and "unat seq + 129 \<le> seq_limit" and "session_reach S addr seq s0 s"
    and "i \<in> S" and "j \<in> S" and "SentUDP (addr j i) p \<in> set (c_log (cl s j))"
  shows "\<exists>c. u_NetClientSocketReadUDP (Arrived (addr i j, p)) (cl s i) = Some c \<and>
             session_ok S addr (unat seq) (set_client i c (entered s i) (frames s i) s)"
proof -
  have ok: "session_ok S addr (unat seq) s" by (rule session_reach_ok [OF assms(3,1,2)])
  have S: "S \<subseteq> {..<NETCLIENT_MAXPEERS}" "addr_distinct S addr" using assms(1) by (simp_all add: session_start_def)
  show ?thesis
  proof (cases "playing (cl s i)")
    case True
    from deliver_ok [OF ok S(1) assms(4,5) S(2) assms(6) True] show ?thesis .
  qed (use ok in simp)
qed

theorem datagrams_handled_witness:
  "\<exists>s. session_reach {0, 1} demo_addr 0 (demo_session {0, 1}) s \<and> SentUDP (demo_addr 0 1) demo_packet \<in> set (c_log (cl s 0)) \<and>
       u_NetClientSocketReadUDP (Arrived (demo_addr 1 0, demo_packet)) (cl s 1) \<noteq> None"
proof -
  from demo_run obtain d1 where d1: "client_packet zero_addr (StartGame 1 0) (demo_client {0, 1}) = Some d1"
    and sn: "SentUDP (demo_addr 0 1) demo_packet \<in> set (c_log d1)" by (auto simp: bind_eq_Some_conv)
  let ?s = "set_client 0 d1 (entered_by 0 0 d1 0) [] (demo_session {0, 1})"
  have "\<not> playing (demo_client {0, 1})" by (simp add: demo_client_def playing_def NetClientNew_def)
  then have "session_step {0, 1} demo_addr 0 (demo_session {0, 1}) ?s"
    using session_step.start [of 0 "{0, 1}" "demo_session {0, 1}" zero_addr 1 0 d1 demo_addr] d1 by (simp add: demo_session_def)
  from session_reach.reach_step [OF session_reach.reach_refl this]
  have r: "session_reach {0, 1} demo_addr 0 (demo_session {0, 1}) ?s" .
  from datagrams_handled [OF demo_start _ r, of 1 0 demo_packet] r sn show ?thesis
    by (intro exI [of _ ?s]) (auto simp: seq_limit_def)
qed

text \<open>
  C18: the run-length encoding. Up to 64 inputs fit into the 128 words of a packet, whatever they are,
  and decoding gives them back.
\<close>

theorem input_encoding:
  assumes "length xs \<le> 64"
  shows "u_NetClientDecodeData 256 (u_NetClientEncodeData xs 128) = Some xs \<and> length (u_NetClientEncodeData xs 128) \<le> 128"
  using decode_encode [of 0 xs 128 256] assms by (simp add: u_NetClientEncodeData_def)

theorem input_encoding_witness:
  "u_NetClientDecodeData 256 (u_NetClientEncodeData [7, 7, 7, 9] 128) = Some [7, 7, 7, 9] \<and>
   u_NetClientEncodeData [7, 7, 7, 9] 128 = [3, 7, 1, 9]"
  using input_encoding [of "[7, 7, 7, 9]"]
  by (simp add: u_NetClientEncodeData_def encode_loop.simps u_NetClientCalcRunLength_def)

text \<open>
  the latency of a session. A client that is told to start enters one input for each frame of
  latency and sends them at once; the array they are copied to has 64 entries while the queue has 128.
  The start leaves that array exactly for the latencies between the two.
\<close>

theorem start_latency:
  assumes "client_ok S addr c" and "S \<subseteq> {..<NETCLIENT_MAXPEERS}" and "S \<noteq> {}" and "unat seq + 129 \<le> seq_limit"
  shows "client_packet Local (StartGame latency seq) c = None \<longleftrightarrow> 64 < latency \<and> latency < 128"
  using start_game_None [OF assms] by simp

theorem start_latency_witness:
  "client_packet zero_addr (StartGame 65 0) (demo_client {0, 1}) = None \<and>
   client_packet zero_addr (StartGame 64 0) (demo_client {0, 1}) \<noteq> None"
proof -
  have c: "client_ok {0, 1} (demo_addr 0) (demo_client {0, 1})" and S: "{0, 1} \<subseteq> {..<NETCLIENT_MAXPEERS}"
    using demo_start by (simp_all add: session_start_def demo_session_def)
  show ?thesis
    using start_latency [OF c S _ , of 0 zero_addr 65] start_latency [OF c S _ , of 0 zero_addr 64]
    by (simp add: seq_limit_def)
qed

section \<open>The queue\<close>

text \<open>
  C19: the queue is a bounded FIFO. Every sequence of operations, from a queue that was reset to any
  sequence number, gives the results of a list of at most 128 elements; the sequence numbers may wrap.
\<close>

theorem queue_is_fifo:
  assumes "length (Elements q) = NETQUEUE_SIZE"
  shows "fst (fifo_trace (fifo_step NetQueueEnqueue NetQueueDequeue) ops (NetQueueReset q seq)) =
         fst (fifo_trace (list_fifo 128) ops [])"
proof -
  have "nq_ok (NetQueueReset q seq)" "nq_contents (NetQueueReset q seq) = []"
    using assms by (simp_all add: nq_ok_def nq_contents_def NetQueueReset_def)
  with nq_fifo.trace_refines [of "NetQueueReset q seq" ops] show ?thesis by (simp add: NETQUEUE_SIZE_def)
qed

theorem queue_is_fifo_witness:
  "fst (fifo_trace (fifo_step NetQueueEnqueue NetQueueDequeue) [Enq 5, Enq 6, Deq, Deq, Deq] (NetQueueReset empty_queue 0xFFFFFFFF)) =
   [(True, None), (True, None), (True, Some 5), (True, Some 6), (False, None)]"
  using queue_is_fifo [of empty_queue "[Enq 5, Enq 6, Deq, Deq, Deq]" "0xFFFFFFFF"]
  by (simp add: empty_queue_def)

section \<open>Connecting\<close>

text \<open>
  a connection attempt that fails before its thread runs is final. If the UDP socket cannot be set
  up, the client stays in the state of connecting; no later attempt and no disconnection changes it.
\<close>

theorem connect_failure_is_final:
  assumes "c_eStatus c = NETPLAY_STATUS_IDLE" and "udp_fd sys < 0" and "NetClientConnect sys ipaddr port c = (rc, c')"
  shows "rc = -2 \<and> c_eStatus c' = NETPLAY_STATUS_CONNECTING \<and>
         NetClientConnect sys' ipaddr' port' c' = (-1, c') \<and> NetClientDisconnect c' = c'"
  using assms
  by (auto simp: NetClientConnect_def NetSocketBindUDP_def Let_def map_peers_def NetClientDisconnect_def
      NETPLAY_STATUS_IDLE_def NETPLAY_STATUS_CONNECTING_def NETPLAY_STATUS_CONNECTED_def)

theorem connect_failure_is_final_witness:
  "\<exists>c'. NetClientConnect \<lparr>udp_fd = -1, udp_bound = 0, udp_thread = 0, tcp_fd = 0, tcp_thread = 0\<rparr> 0 0 NetClientNew = (-2, c') \<and>
        NetClientDisconnect c' = c'"
proof -
  let ?sys = "\<lparr>udp_fd = -1, udp_bound = 0, udp_thread = 0, tcp_fd = 0, tcp_thread = 0\<rparr>"
  have "c_eStatus NetClientNew = NETPLAY_STATUS_IDLE" by (simp add: NetClientNew_def)
  from connect_failure_is_final [OF this, of ?sys 0 0] show ?thesis
    by (cases "NetClientConnect ?sys 0 0 NetClientNew") auto
qed

section \<open>Receiving\<close>

text \<open>
  a packet that arrives in one piece is received as it was sent; one whose first two bytes come
  alone is received with its remaining bytes over them, since each piece is stored at the start of the
  buffer.
\<close>

theorem received_in_pieces:
  assumes "length buf = 512" and "length bs = n" and "0 < n" and "n \<le> 512" and "k < n" and "0 < k"
  shows "NetSocketRecvBytes 0 n [bs] buf 0 = Some (n, [], bs @ drop n buf) \<and>
         NetSocketRecvBytes 0 n [take k bs, drop k bs] buf 0 =
           Some (n, [], drop k bs @ drop (n - k) (take k bs @ drop k buf))"
  using assms by (auto simp: store_bytes_def Let_def min_def)

theorem received_in_pieces_witness:
  "NetSocketRecvBytes 0 4 [[0xCC, 5], [4, 0]] (replicate 512 0) 0 =
   Some (4, [], [4, 0] @ drop 2 ([0xCC, 5] @ drop 2 (replicate 512 0)))"
  using received_in_pieces [of "replicate 512 0" "[0xCC, 5, 4, 0]" 4 2] by simp

end
