(* ===== verification/Net_Server_Props.thy ===== *)
theory Net_Server_Props
  imports Net_Server
begin

text \<open>The properties of the netplay server.\<close>

definition sends_start :: "server_event list \<Rightarrow> bool" where
  "sends_start es \<longleftrightarrow> (\<exists>k l q. SentClient k (StartGame l q) \<in> set es)"

lemma sends_start_simps [simp]:
  "\<not> sends_start []"
  "sends_start (es @ fs) \<longleftrightarrow> sends_start es \<or> sends_start fs"
  by (auto simp: sends_start_def)

lemma sends_start_map [simp]:
  "sends_start (map (\<lambda>i. SentClient i p) is) \<longleftrightarrow> is \<noteq> [] \<and> (\<exists>l q. p = StartGame l q)"
  by (cases "is") (auto simp: sends_start_def)

text \<open>What a step adds to the log, and that it adds no start.\<close>

definition quiet :: "NetServerT \<Rightarrow> NetServerT \<Rightarrow> bool" where
  "quiet s s' \<longleftrightarrow> (\<exists>es. s_log s' = s_log s @ es \<and> \<not> sends_start es)"

lemma quiet_refl: "s_log s' = s_log s \<Longrightarrow> quiet s s'"
  unfolding quiet_def by (intro exI [of _ "[]"]) simp

lemma quiet_trans: "quiet s s' \<Longrightarrow> quiet s' s'' \<Longrightarrow> quiet s s''"
  unfolding quiet_def by (metis append_assoc sends_start_simps(2))

lemma quiet_broadcast: "(\<And>l q. p \<noteq> StartGame l q) \<Longrightarrow> s_log s'' = s_log (NetServerBroadcast p s) \<Longrightarrow> quiet s s''"
  unfolding quiet_def by (auto simp: NetServerBroadcast_eq)

lemma quiet_send: "(\<And>l q. p \<noteq> StartGame l q) \<Longrightarrow> s_log s'' = s_log (send_client i p s) \<Longrightarrow> quiet s s''"
  unfolding quiet_def by (auto simp: send_client_def sends_start_def)

lemma quiet_peer_info: "NetServerSendPeerInfo s = Some s' \<Longrightarrow> quiet s s'"
  unfolding NetServerSendPeerInfo_def quiet_def using peer_infos_effect by (fastforce simp: sends_start_def)

lemma peer_info_state: "NetServerSendPeerInfo s = Some s' \<Longrightarrow> s_eGameState s' = s_eGameState s \<and> clients s' = clients s"
  unfolding NetServerSendPeerInfo_def using peer_infos_effect by fastforce

lemma upd_slot_log [simp]: "s_log (upd_slot i f s) = s_log s" "s_eGameState (upd_slot i f s) = s_eGameState s"
  by (simp_all add: upd_slot_def)

lemma upd_nth: "xs[i := x] ! j = (if i = j \<and> i < length xs then x else xs ! j)"
  by (cases "i < length xs") (auto simp: nth_list_update list_update_beyond not_less)

lemma upd_slot_state:
  "(\<And>p. sc_eGameState (f p) = sc_eGameState p) \<Longrightarrow> sc_eGameState (clients (upd_slot i f s) ! j) = sc_eGameState (clients s ! j)"
  by (cases "i < length (clients s)"; cases "j = i") (auto simp: upd_slot_def list_update_beyond not_less)

lemma SetGameState_sel [simp]:
  "s_log (u_NetServerSetGameState g s) = s_log s" "s_eGameState (u_NetServerSetGameState g s) = g"
  "length (clients (u_NetServerSetGameState g s)) = length (clients s)"
  "j < length (clients s) \<Longrightarrow> sc_eGameState (clients (u_NetServerSetGameState g s) ! j) = g"
  by (simp_all add: u_NetServerSetGameState_def)

lemma quiet_hello: "server_hello i v n p s = Some s' \<Longrightarrow> quiet s s'"
proof (cases "v = NETPLAY_VERSION")
  case True
  assume "server_hello i v n p s = Some s'"
  with True obtain s1 k nm where "NetServerSendPeerInfo (send_client i (ServerHello NETPLAY_VERSION k nm) s1) = Some s'" "s_log s1 = s_log s"
    by (auto simp: server_hello_def bind_eq_Some_conv Let_def)
  then show ?thesis
    using quiet_trans [OF quiet_send [of "ServerHello NETPLAY_VERSION k nm" "send_client i (ServerHello NETPLAY_VERSION k nm) s1" i s]
        quiet_peer_info] by (simp add: send_client_def)
qed (auto simp: server_hello_def intro: quiet_refl)

lemma quiet_unload: "quiet s (NetServerUnloadGame k s)"
  by (auto simp: NetServerUnloadGame_def intro: quiet_refl quiet_broadcast [of "LoadReq k []"])

lemma quiet_load: "NetServerLoadGame k n s = Some s' \<Longrightarrow> quiet s s'"
  by (auto simp: NetServerLoadGame_def bind_eq_Some_conv intro: quiet_refl quiet_broadcast split: if_splits)

text \<open>The one place where a game starts.\<close>

lemma load_ack_start:
  assumes "length (clients s) = NETSERVER_MAXCLIENTS" and "i < NETSERVER_MAXCLIENTS"
  shows "quiet s (server_load_ack i k result s) \<or>
    (result = NETPLAY_LOADACK_OK \<and> sc_eGameState (clients s ! i) = NETPLAY_GAMESTATE_LOADING \<and>
     (\<forall>j < NETSERVER_MAXCLIENTS. j \<noteq> i \<and> NetServerClientIsConnected s j \<longrightarrow> sc_eGameState (clients s ! j) = NETPLAY_GAMESTATE_LOADED) \<and>
     s_eGameState (server_load_ack i k result s) = NETPLAY_GAMESTATE_PLAY \<and>
     (\<forall>j < NETSERVER_MAXCLIENTS. sc_eGameState (clients (server_load_ack i k result s) ! j) = NETPLAY_GAMESTATE_PLAY))"
proof (cases "sc_eGameState (clients s ! i) = NETPLAY_GAMESTATE_LOADING")
  case False
  then have "server_load_ack i k result s = s" by (cases result) (simp_all add: server_load_ack_def)
  then show ?thesis by (simp add: quiet_refl)
next
  case loading: True
  show ?thesis
  proof (cases "result = NETPLAY_LOADACK_OK")
    case False
    then have "server_load_ack i k result s = s \<or>
        server_load_ack i k result s = NetServerUnloadGame (sc_clientid (clients s ! i)) (NetServerBroadcast (LoadAck k result) s)"
      using loading by (cases result) (simp_all add: server_load_ack_def)
    then have "quiet s (server_load_ack i k result s)"
      using quiet_trans [OF quiet_broadcast [of "LoadAck k result" "NetServerBroadcast (LoadAck k result) s" s] quiet_unload]
      by (auto intro: quiet_refl)
    then show ?thesis ..
  next
    case True
    define s1 where "s1 = upd_slot i (\<lambda>p. p\<lparr>sc_eGameState := NETPLAY_GAMESTATE_LOADED\<rparr>) (NetServerBroadcast (LoadAck k result) s)"
    have r: "server_load_ack i k result s =
        (if all_loaded s1 then u_NetServerStartGame (s1\<lparr>s_eGameState := NETPLAY_GAMESTATE_LOADED\<rparr>) else s1)"
      using loading True by (simp add: server_load_ack_def s1_def Let_def)
    show ?thesis
    proof (cases "all_loaded s1")
      case False
      have "quiet s s1" by (rule quiet_broadcast [of "LoadAck k result"]) (simp_all add: s1_def)
      with False show ?thesis by (simp add: r)
    next
      case all: True
      have l1: "length (clients s1) = NETSERVER_MAXCLIENTS" using assms(1) by (simp add: s1_def upd_slot_def NetServerBroadcast_eq)
      have "sc_eGameState (clients s ! j) = NETPLAY_GAMESTATE_LOADED"
        if "j < NETSERVER_MAXCLIENTS" "j \<noteq> i" "NetServerClientIsConnected s j" for j
        using all that assms unfolding all_loaded_iff
        by (auto simp: s1_def upd_slot_def NetServerBroadcast_eq NetServerClientIsConnected_def)
      moreover have "s_eGameState (server_load_ack i k result s) = NETPLAY_GAMESTATE_PLAY"
        "\<And>j. j < NETSERVER_MAXCLIENTS \<Longrightarrow> sc_eGameState (clients (server_load_ack i k result s) ! j) = NETPLAY_GAMESTATE_PLAY"
        unfolding r using all l1 by (simp_all add: u_NetServerStartGame_def NetServerBroadcast_eq)
      ultimately show ?thesis using True loading by blast
    qed
  qed
qed

lemma abort_quiet: "u_NetServerClientAbort i s = Some s' \<Longrightarrow> quiet s s'"
  by (auto simp: u_NetServerClientAbort_def bind_eq_Some_conv Let_def intro!: quiet_trans [OF quiet_peer_info quiet_refl])

text \<open>
  C20: a game is started for everybody or for nobody. Whatever the server does, if it tells a client to
  start, then it does so on the acknowledgement of a client that was loading, every other connected
  client had loaded the game, and the server and all its clients are in the state of playing afterwards.
\<close>

theorem game_starts_when_all_loaded:
  assumes "server_step s s'" and "length (clients s) = NETSERVER_MAXCLIENTS" and "s_log s' = s_log s @ es" and "sends_start es"
  shows "\<exists>i < NETSERVER_MAXCLIENTS. sc_eGameState (clients s ! i) = NETPLAY_GAMESTATE_LOADING \<and>
     (\<forall>j < NETSERVER_MAXCLIENTS. j \<noteq> i \<and> NetServerClientIsConnected s j \<longrightarrow> sc_eGameState (clients s ! j) = NETPLAY_GAMESTATE_LOADED) \<and>
     s_eGameState s' = NETPLAY_GAMESTATE_PLAY \<and> (\<forall>j < NETSERVER_MAXCLIENTS. sc_eGameState (clients s' ! j) = NETPLAY_GAMESTATE_PLAY)"
proof -
  have nq: "\<not> quiet s s'" using assms(3,4) by (auto simp: quiet_def)
  from assms(1) show ?thesis
  proof cases
    case (accept fd addr thread rc)
    then have "quiet s s'"
      by (auto simp: u_NetServerAccept_def Let_def intro!: quiet_refl split: prod.splits option.splits if_splits)
    with nq show ?thesis ..
  next
    case (abort i s1)
    then show ?thesis using nq quiet_trans [OF abort_quiet quiet_refl] by auto
  next
    case (read i a)
    show ?thesis
    proof (cases a)
      case (Arrived p)
      have "quiet s s'" if "\<And>k r. p \<noteq> LoadAck k r"
        using that read(2) Arrived quiet_hello quiet_load quiet_unload
        by (cases p) (auto intro: quiet_refl quiet_broadcast quiet_send split: if_splits)
      with nq obtain k r where "p = LoadAck k r" by blast
      with read Arrived have "s' = server_load_ack i k r s" by simp
      with load_ack_start [OF assms(2) read(1), of k r] nq read(1) show ?thesis by blast
    qed (use read(2) nq in \<open>auto intro: quiet_refl\<close>)
  qed
qed

text \<open>A concrete server: two connected clients, one of which has loaded the game.\<close>

definition demo_server :: "NetPlayGameStateE \<Rightarrow> NetSocketStatusE \<Rightarrow> NetServerT" where
  "demo_server g st = NetServerNew\<lparr>s_eGameState := NETPLAY_GAMESTATE_LOADING,
     clients := [(new_slot 0)\<lparr>sc_eGameState := NETPLAY_GAMESTATE_LOADED, sc_Socket := zero_socket\<lparr>status := NETSOCKET_STATUS_CONNECTED\<rparr>\<rparr>,
                 (new_slot 1)\<lparr>sc_eGameState := g, sc_Socket := zero_socket\<lparr>status := st\<rparr>\<rparr>, new_slot 2, new_slot 3]\<rparr>"

lemma client_ids4: "client_ids = [0, 1, 2, 3]"
  by (simp add: NETSERVER_MAXCLIENTS_def upt_rec)

lemmas server_eval =
  demo_server_def NetServerNew_def new_slot_def zero_socket_def NetSocketNew_def NetServerBroadcast_eq client_ids4
  NetServerClientIsConnected_def NetSocketGetStatus_def upd_slot_def all_loaded_def u_NetServerStartGame_def
  u_NetServerSetGameState_def server_load_ack_def Let_def

theorem game_starts_when_all_loaded_witness:
  "\<exists>s' es. server_step (demo_server NETPLAY_GAMESTATE_LOADING NETSOCKET_STATUS_CONNECTED) s' \<and>
     s_log s' = s_log (demo_server NETPLAY_GAMESTATE_LOADING NETSOCKET_STATUS_CONNECTED) @ es \<and> sends_start es \<and>
     s_eGameState s' = NETPLAY_GAMESTATE_PLAY"
proof -
  let ?s = "demo_server NETPLAY_GAMESTATE_LOADING NETSOCKET_STATUS_CONNECTED"
  let ?s' = "server_load_ack 1 1 NETPLAY_LOADACK_OK ?s"
  have st: "server_step ?s ?s'"
    by (rule server_step.read [of 1 "Arrived (LoadAck 1 NETPLAY_LOADACK_OK)"]) (simp_all add: NETSERVER_MAXCLIENTS_def)
  have "s_log ?s = []" by (simp add: server_eval)
  moreover have "sends_start (s_log ?s')" by (simp add: server_eval) (auto simp: sends_start_def)
  ultimately obtain es where es: "s_log ?s' = s_log ?s @ es" "sends_start es" by simp
  have "length (clients ?s) = NETSERVER_MAXCLIENTS" by (simp add: demo_server_def NETSERVER_MAXCLIENTS_def)
  from game_starts_when_all_loaded [OF st this es] st es show ?thesis by blast
qed

section \<open>A client that leaves while the game is loaded\<close>

text \<open>The server waits, and nobody it waits for is left.\<close>

definition waiting_for_nobody :: "NetServerT \<Rightarrow> bool" where
  "waiting_for_nobody s \<longleftrightarrow> length (clients s) = NETSERVER_MAXCLIENTS \<and> s_eGameState s = NETPLAY_GAMESTATE_LOADING \<and>
     (\<forall>j < NETSERVER_MAXCLIENTS. sc_eGameState (clients s ! j) \<noteq> NETPLAY_GAMESTATE_LOADING)"

lemma num_clients_0: "NetServerGetNumClients s = 0 \<longleftrightarrow> (\<forall>i < NETSERVER_MAXCLIENTS. \<not> NetServerClientIsConnected s i)"
proof -
  have "fold (\<lambda>i n. if P i then n + 1 else n) is (m :: nat) = 0 \<longleftrightarrow> m = 0 \<and> (\<forall>i \<in> set is. \<not> P i)"
    for P :: "nat \<Rightarrow> bool" and "is" and m
    by (induction "is" arbitrary: m) auto
  then show ?thesis by (auto simp: NetServerGetNumClients_def NetServerClientIsConnected_def)
qed

lemma slot_waiting:
  "waiting_for_nobody s \<Longrightarrow> (\<And>p. sc_eGameState p \<noteq> NETPLAY_GAMESTATE_LOADING \<Longrightarrow> sc_eGameState (f p) \<noteq> NETPLAY_GAMESTATE_LOADING) \<Longrightarrow>
     waiting_for_nobody (upd_slot i f s)"
  by (auto simp: waiting_for_nobody_def upd_slot_def upd_nth split: if_splits)

lemma hello_waiting:
  "server_hello i v n p s = Some s' \<Longrightarrow> waiting_for_nobody s \<Longrightarrow> waiting_for_nobody s'"
proof (cases "v = NETPLAY_VERSION")
  case True
  assume "server_hello i v n p s = Some s'" and w: "waiting_for_nobody s"
  with True obtain k nm sn where "NetServerSendPeerInfo (send_client i (ServerHello NETPLAY_VERSION k sn)
      (upd_slot i (\<lambda>p'. p'\<lparr>sc_eGameState := NETPLAY_GAMESTATE_IDLE, UDPPort := p, sc_Name := nm\<rparr>) s)) = Some s'"
    by (auto simp: server_hello_def bind_eq_Some_conv Let_def)
  from peer_info_state [OF this] w show ?thesis
    by (auto simp: waiting_for_nobody_def send_client_def upd_slot_def upd_nth)
qed (auto simp: server_hello_def intro: slot_waiting)

lemma packet_waiting:
  assumes "server_packet i p s = Some s'" and w: "waiting_for_nobody s" and i: "i < NETSERVER_MAXCLIENTS"
  shows "waiting_for_nobody s'"
proof (cases p)
  case (ClientHello v n q)
  with assms hello_waiting show ?thesis by simp
next
  case (LoadAck k r)
  have "sc_eGameState (clients s ! i) \<noteq> NETPLAY_GAMESTATE_LOADING" using w i by (simp add: waiting_for_nobody_def)
  then have "server_load_ack i k r s = s" by (cases r) (simp_all add: server_load_ack_def)
  with LoadAck assms show ?thesis by simp
qed (use assms in \<open>auto simp: waiting_for_nobody_def NetServerBroadcast_eq send_client_def\<close>)

lemma abort_effect:
  assumes a: "u_NetServerClientAbort i s2 = Some s3"
  shows "s_eGameState s3 = (if \<forall>j < NETSERVER_MAXCLIENTS. \<not> NetServerClientIsConnected s2 j then NETPLAY_GAMESTATE_IDLE else s_eGameState s2) \<and>
      clients s3 = clients (upd_slot i (\<lambda>p. p\<lparr>sc_eGameState := NETPLAY_GAMESTATE_IDLE\<rparr>) s2)"
proof -
  from a obtain s4 where p: "NetServerSendPeerInfo s2 = Some s4"
    and s3: "s3 = (let s = upd_slot i (\<lambda>p. p\<lparr>sc_eGameState := NETPLAY_GAMESTATE_IDLE\<rparr>) s4 in
                   if NetServerGetNumClients s = 0 then s\<lparr>s_eGameState := NETPLAY_GAMESTATE_IDLE\<rparr> else s)"
    by (auto simp: u_NetServerClientAbort_def bind_eq_Some_conv Let_def)
  have "NetServerClientIsConnected (upd_slot i (\<lambda>p. p\<lparr>sc_eGameState := NETPLAY_GAMESTATE_IDLE\<rparr>) s4) j = NetServerClientIsConnected s2 j" for j
    using peer_info_state [OF p]
    by (cases "i < length (clients s2)"; cases "j = i")
      (auto simp: NetServerClientIsConnected_def upd_slot_def list_update_beyond not_less)
  then show ?thesis using peer_info_state [OF p] by (auto simp: s3 Let_def num_clients_0 upd_slot_def)
qed

lemma abort_waiting:
  fixes j :: nat and s4 :: NetServerT
  defines "s3 \<equiv> upd_slot j (\<lambda>p. p\<lparr>sc_Socket := socket_thread_end (sc_Socket p)\<rparr>) s4"
  assumes w: "waiting_for_nobody s2" and a: "u_NetServerClientAbort j s2 = Some s4"
  shows "waiting_for_nobody s3 \<or> s_eGameState s3 = NETPLAY_GAMESTATE_IDLE \<and> (\<forall>j < NETSERVER_MAXCLIENTS. \<not> NetServerClientIsConnected s3 j)"
proof -
  define g where "g = (\<lambda>p :: NetServerClientT. p\<lparr>sc_eGameState := NETPLAY_GAMESTATE_IDLE\<rparr>)"
  define h where "h = (\<lambda>p :: NetServerClientT. p\<lparr>sc_Socket := socket_thread_end (sc_Socket p)\<rparr>)"
  have s3: "s3 = upd_slot j h s4" by (simp add: s3_def h_def)
  have s4: "clients s4 = clients (upd_slot j g s2)"
    "s_eGameState s4 = (if \<forall>k < NETSERVER_MAXCLIENTS. \<not> NetServerClientIsConnected s2 k then NETPLAY_GAMESTATE_IDLE else s_eGameState s2)"
    using abort_effect [OF a] by (simp_all add: g_def)
  have w2: "waiting_for_nobody (upd_slot j h (upd_slot j g s2))"
    by (intro slot_waiting [OF slot_waiting [OF w]]) (simp_all add: g_def h_def)
  have c: "clients s3 = clients (upd_slot j h (upd_slot j g s2))" using s4(1) by (simp add: s3 upd_slot_def)
  have n: "NetServerClientIsConnected s3 k \<Longrightarrow> NetServerClientIsConnected s2 k" for k
    unfolding NetServerClientIsConnected_def c
    by (auto simp: upd_slot_def upd_nth g_def h_def socket_thread_end_def NetSocketGetStatus_def split: if_splits)
  show ?thesis
  proof (cases "\<forall>k < NETSERVER_MAXCLIENTS. \<not> NetServerClientIsConnected s2 k")
    case True
    with s4(2) n s3 show ?thesis by auto
  next
    case False
    with s4(2) w have "s_eGameState s3 = NETPLAY_GAMESTATE_LOADING" by (auto simp: s3 waiting_for_nobody_def)
    with w2 c show ?thesis by (simp add: waiting_for_nobody_def)
  qed
qed

lemma accept_waiting: "waiting_for_nobody s2 \<Longrightarrow> u_NetServerAccept fd addr thread s2 = (rc, s3) \<Longrightarrow> waiting_for_nobody s3"
proof -
  assume w: "waiting_for_nobody s2" and "u_NetServerAccept fd addr thread s2 = (rc, s3)"
  then have "clients s3 = clients s2" "s_eGameState s3 = s_eGameState s2"
    by (auto simp: u_NetServerAccept_def Let_def waiting_for_nobody_def split: prod.splits if_splits)
  with w show ?thesis by (simp add: waiting_for_nobody_def)
qed

text \<open>
  C21: the server can wait forever. If the last client that is loading leaves while another one that has
  loaded stays, the server waits for nobody; no message and no new connection then changes that, until
  all clients have left.
\<close>

theorem server_waits_for_nobody:
  assumes "length (clients s) = NETSERVER_MAXCLIENTS" and "s_eGameState s = NETPLAY_GAMESTATE_LOADING"
    and "i < NETSERVER_MAXCLIENTS" and "u_NetServerClientAbort i s = Some s1"
    and "\<And>j. j < NETSERVER_MAXCLIENTS \<Longrightarrow> j \<noteq> i \<Longrightarrow> sc_eGameState (clients s ! j) \<noteq> NETPLAY_GAMESTATE_LOADING"
    and "k < NETSERVER_MAXCLIENTS" and "NetServerClientIsConnected s k"
  shows "waiting_for_nobody s1 \<and>
    (\<forall>s2 s3. waiting_for_nobody s2 \<and> server_step s2 s3 \<longrightarrow> waiting_for_nobody s3 \<or>
       s_eGameState s3 = NETPLAY_GAMESTATE_IDLE \<and> (\<forall>j < NETSERVER_MAXCLIENTS. \<not> NetServerClientIsConnected s3 j))"
proof -
  have "waiting_for_nobody s1"
    using abort_effect [OF assms(4)] assms by (auto simp: waiting_for_nobody_def upd_slot_def upd_nth split: if_splits)
  moreover have "waiting_for_nobody s3 \<or> s_eGameState s3 = NETPLAY_GAMESTATE_IDLE \<and> (\<forall>j < NETSERVER_MAXCLIENTS. \<not> NetServerClientIsConnected s3 j)"
    if w: "waiting_for_nobody s2" and st: "server_step s2 s3" for s2 s3
    using st
  proof cases
    case accept
    with w accept_waiting show ?thesis by blast
  next
    case (read j a)
    with w packet_waiting show ?thesis by (cases a) (auto intro: slot_waiting)
  next
    case abort
    with w abort_waiting show ?thesis by blast
  qed
  ultimately show ?thesis by blast
qed

theorem server_waits_for_nobody_witness:
  "\<exists>s1. u_NetServerClientAbort 1 (demo_server NETPLAY_GAMESTATE_LOADING NETSOCKET_STATUS_DISCONNECTING) = Some s1 \<and> waiting_for_nobody s1"
proof -
  let ?s = "demo_server NETPLAY_GAMESTATE_LOADING NETSOCKET_STATUS_DISCONNECTING"
  have "u_NetServerClientAbort 1 ?s \<noteq> None"
    by (simp add: u_NetServerClientAbort_def NetServerSendPeerInfo_def peer_info_def strcpy_def server_eval NETPACKET_NAME_SIZE_def
        del: not_None_eq)
  then obtain s1 where s1: "u_NetServerClientAbort 1 ?s = Some s1" by blast
  have "sc_eGameState (clients ?s ! j) \<noteq> NETPLAY_GAMESTATE_LOADING" if "j < NETSERVER_MAXCLIENTS" "j \<noteq> 1" for j
    using that by (auto simp: server_eval NETSERVER_MAXCLIENTS_def less_Suc_eq numeral_eq_Suc)
  with server_waits_for_nobody [of ?s 1 s1 0] s1 show ?thesis
    by (auto simp: NETSERVER_MAXCLIENTS_def server_eval)
qed

end
