(* ===== verification/Sn_Spc_Timer.thy ===== *)
theory Sn_Spc_Timer
  imports C_Integers Sn_Spc "HOL-Library.Signed_Division"
begin

text \<open>
  The three timers of the sound processor (\<^verbatim>\<open>snspctimer.cpp\<close>). A timer is brought up to
  date only when it is looked at; the theorem about it compares this with counting cycle by cycle.
  The signed 32-bit fields are words, read with \<^const>\<open>sint\<close>, so that the wrap-around of the cycle
  counter is part of the model.
\<close>

section \<open>The timer\<close>

record SNSpcTimerT =
  iCycleSync :: u32
  nElapsedCycles :: u32
  iDivisor :: u32
  uCyclesPerTick :: u32
  uCompare :: u8
  uUpCounter :: u8
  bEnabled :: u8

definition SNSpcTimerReset :: "SNSpcTimerT \<Rightarrow> u32 \<Rightarrow> SNSpcTimerT" where
  "SNSpcTimerReset p perTick =
     p\<lparr>bEnabled := 0, uUpCounter := 0, uCompare := 0, uCyclesPerTick := perTick, iDivisor := perTick * 0x100,
       iCycleSync := 0, nElapsedCycles := 0\<rparr>"

text \<open>A division by zero is undefined.\<close>

definition timer_pulses :: "SNSpcTimerT \<Rightarrow> SNSpcTimerT option" where
  "timer_pulses p =
     (if sint (iDivisor p) \<le> sint (nElapsedCycles p)
      then if iDivisor p = 0 then None
           else let nCount = word_of_int (sint (nElapsedCycles p) sdiv sint (iDivisor p)) in
             Some (p\<lparr>nElapsedCycles := nElapsedCycles p - nCount * iDivisor p, uUpCounter := uUpCounter p + ucast nCount\<rparr>)
      else Some p)"

definition SNSpcTimerSync :: "SNSpcTimerT \<Rightarrow> u32 \<Rightarrow> SNSpcTimerT option" where
  "SNSpcTimerSync p nCycles =
     do { p \<leftarrow> (if bEnabled p \<noteq> 0
                 then timer_pulses (p\<lparr>nElapsedCycles := nElapsedCycles p + (nCycles - iCycleSync p)\<rparr>)
                 else Some p);
          Some (p\<lparr>iCycleSync := nCycles\<rparr>) }"

definition SNSpcTimerSetEnable :: "SNSpcTimerT \<Rightarrow> u32 \<Rightarrow> u8 \<Rightarrow> SNSpcTimerT option" where
  "SNSpcTimerSetEnable p nCycles bEnable =
     (if bEnable \<noteq> bEnabled p
      then do { p \<leftarrow> SNSpcTimerSync p nCycles;
                let p = (if bEnable \<noteq> 0 then p\<lparr>uUpCounter := 0\<rparr> else p);
                Some (p\<lparr>bEnabled := bEnable\<rparr>) }
      else Some p)"

definition SNSpcTimerSetTimer :: "SNSpcTimerT \<Rightarrow> u8 \<Rightarrow> SNSpcTimerT" where
  "SNSpcTimerSetTimer p uValue =
     (let p = p\<lparr>uCompare := uValue\<rparr> in
      if uValue \<noteq> 0 then p\<lparr>iDivisor := uCyclesPerTick p * ucast (uCompare p)\<rparr>
      else p\<lparr>iDivisor := uCyclesPerTick p * 0x100\<rparr>)"

definition SNSpcTimerGetCounter :: "SNSpcTimerT \<Rightarrow> u32 \<Rightarrow> (u8 \<times> SNSpcTimerT) option" where
  "SNSpcTimerGetCounter p iCycle =
     do { p \<leftarrow> SNSpcTimerSync p iCycle;
          Some (uUpCounter p AND 0xF, p\<lparr>uUpCounter := 0\<rparr>) }"

section \<open>Counting cycle by cycle\<close>

text \<open>One master cycle of the timer as the hardware counts: every \<open>iDivisor\<close> cycles a pulse.\<close>

definition timer_cycle :: "SNSpcTimerT \<Rightarrow> SNSpcTimerT" where
  "timer_cycle p =
     (let p = p\<lparr>iCycleSync := iCycleSync p + 1\<rparr> in
      if bEnabled p = 0 then p
      else if nElapsedCycles p + 1 = iDivisor p then p\<lparr>nElapsedCycles := 0, uUpCounter := uUpCounter p + 1\<rparr>
      else p\<lparr>nElapsedCycles := nElapsedCycles p + 1\<rparr>)"

definition timer_ok :: "SNSpcTimerT \<Rightarrow> bool" where
  "timer_ok p \<longleftrightarrow> unat (nElapsedCycles p) < unat (iDivisor p) \<and> unat (iDivisor p) < 2 ^ 31"

lemma last_cycle:
  fixes d :: u32
  assumes "0 < unat d" and "unat d < 2 ^ 31"
  shows "of_nat (e mod unat d) + 1 = d \<longleftrightarrow> Suc (e mod unat d) = unat d"
proof -
  have m: "e mod unat d < unat d" using assms by simp
  have "of_nat (e mod unat d) + 1 = (of_nat (Suc (e mod unat d)) :: u32)" by (simp add: add.commute)
  moreover have "(of_nat (Suc (e mod unat d)) :: u32) = d \<longleftrightarrow> Suc (e mod unat d) = unat d"
  proof
    assume a: "(of_nat (Suc (e mod unat d)) :: u32) = d"
    have "unat d < 2 ^ LENGTH(32)" using assms by simp
    from le_less_trans [OF Suc_leI [OF m] this] a show "Suc (e mod unat d) = unat d" by (metis of_nat_inverse)
  qed simp
  ultimately show ?thesis by (simp only:)
qed

lemma timer_cycle_step:
  fixes e :: nat and p :: SNSpcTimerT
  defines "d \<equiv> unat (iDivisor p)"
  assumes p: "0 < d" "d < 2 ^ 31" "bEnabled p \<noteq> 0"
  shows "timer_cycle (p\<lparr>iCycleSync := s, nElapsedCycles := of_nat (e mod d), uUpCounter := u + of_nat (e div d)\<rparr>) =
    p\<lparr>iCycleSync := s + 1, nElapsedCycles := of_nat (Suc e mod d), uUpCounter := u + of_nat (Suc e div d)\<rparr>"
proof -
  have "Suc e mod d = (if Suc (e mod d) = d then 0 else Suc (e mod d))" by (rule mod_Suc)
  moreover have "Suc e div d = (if Suc (e mod d) = d then Suc (e div d) else e div d)" by (simp add: div_Suc mod_Suc)
  ultimately show ?thesis
    using p last_cycle [of "iDivisor p" e] by (simp add: timer_cycle_def Let_def d_def ac_simps)
qed

lemma timer_cycles:
  assumes "timer_ok p" and "bEnabled p \<noteq> 0"
  shows "(timer_cycle ^^ k) p =
    p\<lparr>iCycleSync := iCycleSync p + of_nat k,
      nElapsedCycles := of_nat ((unat (nElapsedCycles p) + k) mod unat (iDivisor p)),
      uUpCounter := uUpCounter p + of_nat ((unat (nElapsedCycles p) + k) div unat (iDivisor p))\<rparr>"
proof (induction k)
  case 0
  then show ?case using assms by (simp add: timer_ok_def)
next
  case (Suc k)
  have "0 < unat (iDivisor p)" "unat (iDivisor p) < 2 ^ 31" using assms by (auto simp: timer_ok_def)
  from timer_cycle_step [OF this assms(2)] show ?case by (simp add: Suc ac_simps)
qed

lemma timer_cycles_off: "bEnabled p = 0 \<Longrightarrow> (timer_cycle ^^ k) p = p\<lparr>iCycleSync := iCycleSync p + of_nat k\<rparr>"
  by (induction k) (simp_all add: timer_cycle_def Let_def add.assoc)

lemma timer_sync_on:
  assumes p: "timer_ok p" and b: "bEnabled p \<noteq> 0" and k: "unat (nElapsedCycles p) + k < 2 ^ 31"
  shows "SNSpcTimerSync p (iCycleSync p + of_nat k) = Some ((timer_cycle ^^ k) p)"
proof -
  define d e where "d = unat (iDivisor p)" and "e = unat (nElapsedCycles p) + k"
  have d: "0 < d" "d < 2 ^ 31" using p by (auto simp: timer_ok_def d_def)
  have e: "e < 2 ^ 31" using k by (simp add: e_def)
  have D: "iDivisor p = of_nat d" by (simp add: d_def)
  have E: "nElapsedCycles p + of_nat k = of_nat e" by (simp add: e_def)
  have sd: "sint (of_nat d :: u32) = int d" "sint (of_nat e :: u32) = int e"
    using d e by (simp_all add: sint_u32_small unat_of_nat)
  have q: "word_of_int (int e sdiv int d) = (of_nat (e div d) :: u32)"
    by (simp add: signed_divide_int_def zdiv_int [symmetric])
  have r: "of_nat e - of_nat (e div d) * of_nat d = (of_nat (e mod d) :: u32)"
    by (simp add: of_nat_mult [symmetric] of_nat_diff [symmetric] minus_div_mult_eq_mod del: of_nat_mult of_nat_diff)
  have ud: "unat (of_nat d :: u32) = d" "(of_nat d :: u32) \<noteq> 0"
    using d by (simp_all add: unat_of_nat D [symmetric] d_def unat_gt_0)
  have c: "ucast (of_nat n :: u32) = (of_nat n :: u8)" for n by transfer (simp add: take_bit_of_nat)
  have small: "e mod d = e" "e div d = 0" if "e < d" using that by simp_all
  show ?thesis
    using d b small
    by (auto simp: SNSpcTimerSync_def timer_pulses_def timer_cycles [OF p b] E D sd q r ud c Let_def
        d_def [symmetric] e_def [symmetric])
qed

end
