(* ===== verification/Sn_Queue.thy ===== *)
theory Sn_Queue
  imports Prelude
begin

text \<open>
  The queue of timed register writes (\<^verbatim>\<open>snqueue.h\<close>) that the sound subsystem uses in two
  places: for the ports between the processors and for the DSP registers. It is filled from the
  front and only starts over when it is empty. The index variables are never negative.
\<close>

section \<open>The queue\<close>

definition SNQUEUE_SIZE :: nat where "SNQUEUE_SIZE = 512"

record SNQueueElementT =
  e_uCycle :: u32
  e_uAddr :: u16
  e_uData :: u8

record SNQueueT =
  m_iHead :: nat
  m_iTail :: nat
  m_Elements :: "SNQueueElementT list"

definition SNQueue_Reset :: "SNQueueT \<Rightarrow> SNQueueT" where
  "SNQueue_Reset q = q\<lparr>m_iHead := 0, m_iTail := 0\<rparr>"

definition SNQueue_IsEmpty :: "SNQueueT \<Rightarrow> bool" where
  "SNQueue_IsEmpty q \<longleftrightarrow> m_iHead q = m_iTail q"

definition SNQueue_Enqueue :: "u32 \<Rightarrow> u32 \<Rightarrow> u8 \<Rightarrow> SNQueueT \<Rightarrow> bool \<times> SNQueueT" where
  "SNQueue_Enqueue cyc addr dat q =
     (let q = (if SNQueue_IsEmpty q then SNQueue_Reset q else q) in
      if m_iTail q < SNQUEUE_SIZE
      then (True, q\<lparr>m_Elements := (m_Elements q)[m_iTail q := \<lparr>e_uCycle = cyc, e_uAddr = ucast addr, e_uData = dat\<rparr>],
                    m_iTail := m_iTail q + 1\<rparr>)
      else (False, q))"

definition SNQueue_DequeueBefore :: "u32 \<Rightarrow> SNQueueT \<Rightarrow> (SNQueueElementT \<times> SNQueueT) option" where
  "SNQueue_DequeueBefore cyc q =
     (if m_iHead q < m_iTail q \<and> cyc > e_uCycle (m_Elements q ! m_iHead q)
      then Some (m_Elements q ! m_iHead q, q\<lparr>m_iHead := m_iHead q + 1\<rparr>) else None)"

definition SNQueue_Dequeue :: "SNQueueT \<Rightarrow> (SNQueueElementT \<times> SNQueueT) option" where
  "SNQueue_Dequeue q =
     (if m_iHead q < m_iTail q then Some (m_Elements q ! m_iHead q, q\<lparr>m_iHead := m_iHead q + 1\<rparr>) else None)"

section \<open>The loop that performs pending writes\<close>

text \<open>
  Both users of the queue take elements from it, up to a cycle or all of them, and perform the
  write. The loop is shared; \<open>wr\<close> is the write, which does not touch the queue.
\<close>

definition take_pending :: "u32 option \<Rightarrow> SNQueueT \<Rightarrow> (SNQueueElementT \<times> SNQueueT) option" where
  "take_pending lim q = (case lim of Some cyc \<Rightarrow> SNQueue_DequeueBefore cyc q | None \<Rightarrow> SNQueue_Dequeue q)"

lemma take_pending_SomeD: "take_pending lim q = Some (e, q') \<Longrightarrow> m_iHead q < m_iTail q \<and> e = m_Elements q ! m_iHead q \<and>
    q' = q\<lparr>m_iHead := m_iHead q + 1\<rparr>"
  by (auto simp: take_pending_def SNQueue_DequeueBefore_def SNQueue_Dequeue_def split: option.splits if_splits)

function perform_pending :: "(SNQueueElementT \<Rightarrow> 's \<Rightarrow> 's option) \<Rightarrow> u32 option \<Rightarrow> SNQueueT \<Rightarrow> 's \<Rightarrow> (SNQueueT \<times> 's) option" where
  "perform_pending wr lim q s =
     (case take_pending lim q of
        None \<Rightarrow> Some (q, s)
      | Some (e, q') \<Rightarrow> do { s \<leftarrow> wr e s; perform_pending wr lim q' s })"
  by pat_completeness auto
termination
  by (relation "measure (\<lambda>(wr, lim, q, s). m_iTail q - m_iHead q)") (auto dest!: take_pending_SomeD)

declare perform_pending.simps [simp del]

section \<open>What the queue promises\<close>

definition snq_ok :: "SNQueueT \<Rightarrow> bool" where
  "snq_ok q \<longleftrightarrow> length (m_Elements q) = SNQUEUE_SIZE \<and> m_iHead q \<le> m_iTail q \<and> m_iTail q \<le> SNQUEUE_SIZE"

definition snq_pending :: "SNQueueT \<Rightarrow> SNQueueElementT list" where
  "snq_pending q = drop (m_iHead q) (take (m_iTail q) (m_Elements q))"

lemma snq_reset: "snq_ok q \<Longrightarrow> snq_ok (SNQueue_Reset q)" "snq_pending (SNQueue_Reset q) = []"
  by (simp_all add: snq_ok_def SNQueue_Reset_def snq_pending_def)

lemma length_pending: "snq_ok q \<Longrightarrow> length (snq_pending q) = m_iTail q - m_iHead q"
  by (simp add: snq_ok_def snq_pending_def)

lemma snq_empty_iff: "snq_ok q \<Longrightarrow> SNQueue_IsEmpty q \<longleftrightarrow> snq_pending q = []"
  by (auto simp: snq_ok_def SNQueue_IsEmpty_def snq_pending_def)

lemma snq_enqueue_ok: "snq_ok q \<Longrightarrow> snq_ok (snd (SNQueue_Enqueue cyc addr dat q))"
  by (auto simp: SNQueue_Enqueue_def Let_def snq_ok_def SNQueue_Reset_def)

lemma snq_enqueue_pending:
  assumes q: "snq_ok q"
  shows "snq_pending (snd (SNQueue_Enqueue cyc addr dat q)) =
    (if fst (SNQueue_Enqueue cyc addr dat q) then snq_pending q @ [\<lparr>e_uCycle = cyc, e_uAddr = ucast addr, e_uData = dat\<rparr>]
     else snq_pending q)"
proof -
  have "drop h (take (Suc t) (xs[t := x])) = drop h (take t xs) @ [x]" if "h \<le> t" "t < length xs" for h t x and xs :: "SNQueueElementT list"
    using that by (simp add: take_Suc_conv_app_nth)
  moreover have "take (Suc 0) ((m_Elements q)[0 := x]) = [x]" for x
    using q by (cases "m_Elements q") (simp_all add: snq_ok_def SNQUEUE_SIZE_def)
  ultimately show ?thesis
    using q snq_empty_iff [OF q]
    by (auto simp: SNQueue_Enqueue_def Let_def snq_pending_def snq_ok_def SNQueue_Reset_def SNQueue_IsEmpty_def SNQUEUE_SIZE_def)
qed

lemma snq_enqueue_empty: "snq_ok q \<Longrightarrow> snq_pending q = [] \<Longrightarrow> fst (SNQueue_Enqueue cyc addr dat q)"
  using snq_empty_iff [of q] by (simp add: SNQueue_Enqueue_def Let_def SNQueue_Reset_def SNQUEUE_SIZE_def)

definition due :: "u32 option \<Rightarrow> SNQueueElementT \<Rightarrow> bool" where
  "due lim e \<longleftrightarrow> (case lim of Some cyc \<Rightarrow> cyc > e_uCycle e | None \<Rightarrow> True)"

lemma take_pending_eq:
  assumes "snq_ok q"
  shows "take_pending lim q =
    (case snq_pending q of [] \<Rightarrow> None | e # es \<Rightarrow> if due lim e then Some (e, q\<lparr>m_iHead := m_iHead q + 1\<rparr>) else None)"
proof (cases "m_iHead q < m_iTail q")
  case True
  with assms have "snq_pending q = (m_Elements q ! m_iHead q) # drop (Suc (m_iHead q)) (take (m_iTail q) (m_Elements q))"
    by (simp add: snq_pending_def snq_ok_def Cons_nth_drop_Suc [symmetric])
  with True show ?thesis
    by (simp add: take_pending_def SNQueue_DequeueBefore_def SNQueue_Dequeue_def due_def split: option.splits)
next
  case False
  with assms show ?thesis
    by (simp add: take_pending_def SNQueue_DequeueBefore_def SNQueue_Dequeue_def snq_pending_def split: option.splits)
qed

lemma snq_step:
  assumes "snq_ok q" and "snq_pending q = e # es"
  shows "snq_ok (q\<lparr>m_iHead := m_iHead q + 1\<rparr>) \<and> snq_pending (q\<lparr>m_iHead := m_iHead q + 1\<rparr>) = es"
proof -
  from assms length_pending [OF assms(1)] have "m_iHead q < m_iTail q" by simp
  moreover have "drop (Suc (m_iHead q)) (take (m_iTail q) (m_Elements q)) = tl (snq_pending q)"
    by (simp add: snq_pending_def drop_Suc tl_drop)
  ultimately show ?thesis using assms by (simp add: snq_ok_def snq_pending_def)
qed

text \<open>The loop performs the writes that are due, in order, up to the first that is not.\<close>

lemma perform_pending_eq:
  assumes "snq_ok q"
  shows "perform_pending wr lim q s =
    do { s' \<leftarrow> fold (\<lambda>e s. Option.bind s (wr e)) (takeWhile (due lim) (snq_pending q)) (Some s);
         Some (q\<lparr>m_iHead := m_iHead q + length (takeWhile (due lim) (snq_pending q))\<rparr>, s') }"
  using assms
proof (induction wr lim q s rule: perform_pending.induct)
  case (1 wr lim q s)
  have none: "fold (\<lambda>e s. Option.bind s (wr e)) es None = None" for es by (induction es) simp_all
  show ?case
  proof (cases "take_pending lim q")
    case None
    with take_pending_eq [OF 1(2), of lim] show ?thesis
      by (simp add: perform_pending.simps [of wr lim q] split: list.splits if_splits)
  next
    case (Some p)
    then obtain e q' where p: "take_pending lim q = Some (e, q')" by (cases p) auto
    with take_pending_eq [OF 1(2), of lim] obtain es
      where es: "snq_pending q = e # es" "due lim e" "q' = q\<lparr>m_iHead := m_iHead q + 1\<rparr>" by (auto split: list.splits if_splits)
    from snq_step [OF 1(2) es(1)] have q': "snq_ok q'" "snq_pending q' = es" by (simp_all add: es(3))
    show ?thesis
    proof (cases "wr e s")
      case None
      with p es show ?thesis by (simp add: perform_pending.simps [of wr lim q] none)
    next
      case (Some s')
      with 1(1) [OF p refl Some q'(1)] p es q' show ?thesis
        by (simp add: perform_pending.simps [of wr lim q])
    qed
  qed
qed

lemma perform_pending_ok:
  assumes "snq_ok q" and "I s" and "\<And>e s. e \<in> set (snq_pending q) \<Longrightarrow> I s \<Longrightarrow> returns (wr e s) I"
  shows "returns (perform_pending wr lim q s)
    (\<lambda>(q', s'). snq_ok q' \<and> set (snq_pending q') \<subseteq> set (snq_pending q) \<and> I s' \<and> (lim = None \<longrightarrow> snq_pending q' = []))"
  using assms
proof (induction wr lim q s rule: perform_pending.induct)
  case (1 wr lim q s)
  show ?case
  proof (cases "take_pending lim q")
    case None
    with take_pending_eq [OF 1(2), of lim] 1(2,3) show ?thesis
      by (auto simp: perform_pending.simps [of wr lim q] due_def split: list.splits if_splits option.splits)
  next
    case (Some p)
    then obtain e q' where p: "take_pending lim q = Some (e, q')" by (cases p) auto
    with take_pending_eq [OF 1(2), of lim] obtain es
      where es: "snq_pending q = e # es" "q' = q\<lparr>m_iHead := m_iHead q + 1\<rparr>" by (auto split: list.splits if_splits)
    from snq_step [OF 1(2) es(1)] have q': "snq_ok q'" "snq_pending q' = es" by (simp_all add: es(2))
    from 1(4) [of e s] 1(3) es(1) obtain s' where s': "wr e s = Some s'" "I s'" by (auto simp: returns_def)
    from 1(1) [OF p refl s'(1) q'(1) s'(2)] 1(4) p es(1) q' s' show ?thesis
      by (auto simp: perform_pending.simps [of wr lim q] elim!: returns_mono)
  qed
qed

lemma pending_after: "snq_ok q \<Longrightarrow> n \<le> length (snq_pending q) \<Longrightarrow>
    snq_ok (q\<lparr>m_iHead := m_iHead q + n\<rparr>) \<and> snq_pending (q\<lparr>m_iHead := m_iHead q + n\<rparr>) = drop n (snq_pending q)"
  by (auto simp: snq_ok_def snq_pending_def add.commute)

end
