(* ===== verification/Sn_Spc_Dsp.thy ===== *)
theory Sn_Spc_Dsp
  imports Sn_Queue Sn_Spc
begin

text \<open>
  The registers of the sound DSP (\<^verbatim>\<open>snspcdsp.cpp\<close>, \<^verbatim>\<open>snspcdsp.h\<close>), and the part of a
  mixer that the DSP calls: key on, key off and the state of a channel (\<^verbatim>\<open>SNSpcDspMix\<close> in
  \<^verbatim>\<open>snspcmix.cpp\<close>). The DSP owns its two mixers here; the sound memory \<^verbatim>\<open>m_pMem\<close> is an
  argument.
\<close>

section \<open>Registers\<close>

definition SNSPCDSP_REG_SRCN :: nat where "SNSPCDSP_REG_SRCN = 0x04"
definition SNSPCDSP_REG_ENVX :: nat where "SNSPCDSP_REG_ENVX = 0x08"
definition SNSPCDSP_REG_OUTX :: nat where "SNSPCDSP_REG_OUTX = 0x09"
definition SNSPCDSP_REG_KON :: nat where "SNSPCDSP_REG_KON = 0x4C"
definition SNSPCDSP_REG_KOFF :: nat where "SNSPCDSP_REG_KOFF = 0x5C"
definition SNSPCDSP_REG_FLG :: nat where "SNSPCDSP_REG_FLG = 0x6C"
definition SNSPCDSP_REG_ENDX :: nat where "SNSPCDSP_REG_ENDX = 0x7C"
definition SNSPCDSP_REG_DIR :: nat where "SNSPCDSP_REG_DIR = 0x5D"
definition SNSPCDSP_REG_NUM :: nat where "SNSPCDSP_REG_NUM = 128"
definition SNSPCDSP_CHANNEL_NUM :: nat where "SNSPCDSP_CHANNEL_NUM = 8"

lemmas dsp_reg_defs = SNSPCDSP_REG_SRCN_def SNSPCDSP_REG_ENVX_def SNSPCDSP_REG_OUTX_def SNSPCDSP_REG_KON_def SNSPCDSP_REG_KOFF_def
  SNSPCDSP_REG_FLG_def SNSPCDSP_REG_ENDX_def SNSPCDSP_REG_DIR_def SNSPCDSP_REG_NUM_def SNSPCDSP_CHANNEL_NUM_def

datatype SNSpcEnvStateE =
  SNSPCDSP_ENVSTATE_SILENCE | SNSPCDSP_ENVSTATE_KEYON | SNSPCDSP_ENVSTATE_ATTACK | SNSPCDSP_ENVSTATE_DECAY
| SNSPCDSP_ENVSTATE_SUSTAIN | SNSPCDSP_ENVSTATE_RELEASE | SNSPCDSP_ENVSTATE_DIRECT
| SNSPCDSP_ENVSTATE_INCREASELINEAR | SNSPCDSP_ENVSTATE_INCREASEBENTLINE | SNSPCDSP_ENVSTATE_DECREASELINEAR
| SNSPCDSP_ENVSTATE_DECREASEEXP

text \<open>\<^verbatim>\<open>BlockData[2][16]\<close> is one row of 32 samples, as it lies in memory.\<close>

record SNSpcChannelT =
  eEnvState :: SNSpcEnvStateE
  iEnvelope :: int
  nEnvCount :: int
  iPhase :: int
  uBlockAddr :: u16
  uOldBlockAddr :: u16
  envx :: u8
  outx :: u8
  endx :: bool
  BlockData :: "int list"

text \<open>The register of a voice: the structure \<^verbatim>\<open>SNSpcVoiceRegsT\<close> over the register file.\<close>

definition voice_reg :: "u8 list \<Rightarrow> nat \<Rightarrow> nat \<Rightarrow> u8" where
  "voice_reg regs iChannel off = regs ! (16 * iChannel + off)"

definition GetSampleDir :: "(nat \<Rightarrow> u8) \<Rightarrow> u8 list \<Rightarrow> u8 \<Rightarrow> u32 \<Rightarrow> u16 option" where
  "GetSampleDir mem regs uSrcN uOffset =
     (let d = unat (ucast (regs ! SNSPCDSP_REG_DIR) * 0x100 + ucast uSrcN * 4 + ucast uOffset :: u16) in
      if d + 1 < SNSPC_MEM_SIZE then Some (mk16 (mem (d + 1)) (mem d)) else None)"

section \<open>Mixer channels\<close>

record SNSpcDspMixT =
  m_Channels :: "SNSpcChannelT list"
  m_nSampleRate :: u32
  m_AttackTicks :: "u32 list"
  m_DecayTicks :: "u32 list"
  m_SustainTicks :: "u32 list"
  m_LinearTicks :: "u32 list"
  m_BentLineTicks :: "u32 list"

definition upd_channel :: "nat \<Rightarrow> (SNSpcChannelT \<Rightarrow> SNSpcChannelT) \<Rightarrow> 'a SNSpcDspMixT_scheme \<Rightarrow> 'a SNSpcDspMixT_scheme" where
  "upd_channel i f m = m\<lparr>m_Channels := (m_Channels m)[i := f (m_Channels m ! i)]\<rparr>"

definition MixKeyOn :: "(nat \<Rightarrow> u8) \<Rightarrow> u8 list \<Rightarrow> nat \<Rightarrow> 'a SNSpcDspMixT_scheme \<Rightarrow> 'a SNSpcDspMixT_scheme option" where
  "MixKeyOn mem regs iChannel m =
     do { dir \<leftarrow> GetSampleDir mem regs (voice_reg regs iChannel SNSPCDSP_REG_SRCN) 0;
          Some (upd_channel iChannel (\<lambda>c. c\<lparr>eEnvState := SNSPCDSP_ENVSTATE_ATTACK, nEnvCount := 0,
                                          uBlockAddr := dir, endx := False\<rparr>) m) }"

definition MixKeyOff :: "nat \<Rightarrow> 'a SNSpcDspMixT_scheme \<Rightarrow> 'a SNSpcDspMixT_scheme" where
  "MixKeyOff iChannel m =
     upd_channel iChannel
       (\<lambda>c. if eEnvState c \<noteq> SNSPCDSP_ENVSTATE_RELEASE \<and> eEnvState c \<noteq> SNSPCDSP_ENVSTATE_SILENCE
            then c\<lparr>eEnvState := SNSPCDSP_ENVSTATE_RELEASE, nEnvCount := 0\<rparr> else c) m"

definition MixGetChannelState :: "nat \<Rightarrow> 'a SNSpcDspMixT_scheme \<Rightarrow> bool \<times> u8 \<times> u8 \<times> 'a SNSpcDspMixT_scheme" where
  "MixGetChannelState iChannel m =
     (let c = m_Channels m ! iChannel in (endx c, envx c, outx c, upd_channel iChannel (\<lambda>c. c\<lparr>endx := False\<rparr>) m))"

section \<open>The full mixer's own state\<close>

record SNSpcFIRFilterT =
  Line :: "int list"
  iPos :: int

record SNSpcEchoT =
  Filter :: "SNSpcFIRFilterT list"
  uEchoAddr :: u16

record SNSpcDspMixFullT = SNSpcDspMixT +
  m_Echo :: SNSpcEchoT
  m_EchoBuffer :: "int list"
  m_iNoisePhase :: int
  m_uNoiseGen :: u32

section \<open>The DSP\<close>

text \<open>The full mixer is the first of \<^verbatim>\<open>m_pMixer\<close>, the silent one the second; either may be missing.\<close>

record SNSpcDspT =
  m_Regs :: "u8 list"
  m_pMixer_0 :: "SNSpcDspMixFullT option"
  m_pMixer_1 :: "SNSpcDspMixT option"
  dsp_Queue :: SNQueueT

definition set_dsp_reg :: "nat \<Rightarrow> u8 \<Rightarrow> SNSpcDspT \<Rightarrow> SNSpcDspT" where
  "set_dsp_reg r v d = d\<lparr>m_Regs := (m_Regs d)[r := v]\<rparr>"

definition SNSpcDsp_Reset :: "SNSpcDspT \<Rightarrow> SNSpcDspT" where
  "SNSpcDsp_Reset d =
     (let d = d\<lparr>m_Regs := replicate SNSPCDSP_REG_NUM 0\<rparr>; d = set_dsp_reg SNSPCDSP_REG_FLG 0x40 d in
      d\<lparr>dsp_Queue := SNQueue_Reset (dsp_Queue d)\<rparr>)"

definition SNSpcDsp_KeyOn :: "(nat \<Rightarrow> u8) \<Rightarrow> nat \<Rightarrow> SNSpcDspT \<Rightarrow> SNSpcDspT option" where
  "SNSpcDsp_KeyOn mem iChannel d =
     do { let d = set_dsp_reg SNSPCDSP_REG_ENDX (m_Regs d ! SNSPCDSP_REG_ENDX AND NOT (push_bit iChannel 1)) d;
          d \<leftarrow> (case m_pMixer_0 d of None \<Rightarrow> Some d
                 | Some m \<Rightarrow> do { m \<leftarrow> MixKeyOn mem (m_Regs d) iChannel m; Some (d\<lparr>m_pMixer_0 := Some m\<rparr>) });
          (case m_pMixer_1 d of None \<Rightarrow> Some d
           | Some m \<Rightarrow> do { m \<leftarrow> MixKeyOn mem (m_Regs d) iChannel m; Some (d\<lparr>m_pMixer_1 := Some m\<rparr>) }) }"

definition SNSpcDsp_KeyOff :: "nat \<Rightarrow> SNSpcDspT \<Rightarrow> SNSpcDspT" where
  "SNSpcDsp_KeyOff iChannel d =
     d\<lparr>m_pMixer_0 := map_option (MixKeyOff iChannel) (m_pMixer_0 d),
       m_pMixer_1 := map_option (MixKeyOff iChannel) (m_pMixer_1 d)\<rparr>"

fun key_on_loop :: "(nat \<Rightarrow> u8) \<Rightarrow> u8 \<Rightarrow> nat list \<Rightarrow> SNSpcDspT \<Rightarrow> SNSpcDspT option" where
  "key_on_loop mem dat [] d = Some d"
| "key_on_loop mem dat (i # is) d =
     do { d \<leftarrow> (if drop_bit i dat AND 1 \<noteq> 0 then SNSpcDsp_KeyOn mem i d else Some d);
          key_on_loop mem dat is d }"

definition key_off_loop :: "u8 \<Rightarrow> nat list \<Rightarrow> SNSpcDspT \<Rightarrow> SNSpcDspT" where
  "key_off_loop dat = fold (\<lambda>i d. if drop_bit i dat AND 1 \<noteq> 0 then SNSpcDsp_KeyOff i d else d)"

definition SNSpcDsp_Write8 :: "(nat \<Rightarrow> u8) \<Rightarrow> u32 \<Rightarrow> u8 \<Rightarrow> SNSpcDspT \<Rightarrow> SNSpcDspT option" where
  "SNSpcDsp_Write8 mem addr dat d =
     (let a = unat (addr AND 0x7F); d = set_dsp_reg a dat d in
      if a = SNSPCDSP_REG_FLG then
        Some (if dat AND 0x80 \<noteq> 0
              then set_dsp_reg SNSPCDSP_REG_ENDX 0 (set_dsp_reg SNSPCDSP_REG_KON 0 (set_dsp_reg SNSPCDSP_REG_KOFF 0
                    (set_dsp_reg SNSPCDSP_REG_FLG (m_Regs d ! SNSPCDSP_REG_FLG OR (0x40 OR 0x20)) d)))
              else d)
      else if a = SNSPCDSP_REG_KON then
        (if dat \<noteq> 0 then key_on_loop mem dat [0..<SNSPCDSP_CHANNEL_NUM] d else Some d)
      else if a = SNSPCDSP_REG_ENDX then Some (set_dsp_reg SNSPCDSP_REG_ENDX 0 d)
      else if a = SNSPCDSP_REG_KOFF then
        Some (if dat \<noteq> 0 then key_off_loop dat [0..<SNSPCDSP_CHANNEL_NUM] d else d)
      else Some d)"

definition SNSpcDsp_Read8 :: "u32 \<Rightarrow> SNSpcDspT \<Rightarrow> u8" where
  "SNSpcDsp_Read8 addr d = m_Regs d ! unat (addr AND 0x7F)"

definition SNSpcDsp_EnqueueWrite :: "u32 \<Rightarrow> u32 \<Rightarrow> u8 \<Rightarrow> SNSpcDspT \<Rightarrow> bool \<times> SNSpcDspT" where
  "SNSpcDsp_EnqueueWrite cyc addr dat d =
     (let (b, q) = SNQueue_Enqueue cyc addr dat (dsp_Queue d) in (b, d\<lparr>dsp_Queue := q\<rparr>))"

definition dsp_perform :: "(nat \<Rightarrow> u8) \<Rightarrow> SNQueueElementT \<Rightarrow> SNSpcDspT \<Rightarrow> SNSpcDspT option" where
  "dsp_perform mem e d = SNSpcDsp_Write8 mem (ucast (e_uAddr e)) (e_uData e) d"

definition SNSpcDsp_SyncTo :: "(nat \<Rightarrow> u8) \<Rightarrow> u32 \<Rightarrow> SNSpcDspT \<Rightarrow> SNSpcDspT option" where
  "SNSpcDsp_SyncTo mem cyc d =
     do { (q, d) \<leftarrow> perform_pending (dsp_perform mem) (Some cyc) (dsp_Queue d) d; Some (d\<lparr>dsp_Queue := q\<rparr>) }"

definition SNSpcDsp_Sync :: "(nat \<Rightarrow> u8) \<Rightarrow> SNSpcDspT \<Rightarrow> SNSpcDspT option" where
  "SNSpcDsp_Sync mem d =
     do { (q, d) \<leftarrow> perform_pending (dsp_perform mem) None (dsp_Queue d) d;
          Some (d\<lparr>dsp_Queue := SNQueue_Reset q\<rparr>) }"

text \<open>
  \<^verbatim>\<open>UpdateFlags\<close> asks a mixer for the state of each channel, or clears the two registers of a
  voice when it has none. The caller passes one of the DSP's own mixers; \<open>get\<close> is its
  \<^verbatim>\<open>GetChannelState\<close>.
\<close>

definition update_flag :: "(nat \<Rightarrow> SNSpcDspT \<Rightarrow> bool \<times> u8 \<times> u8 \<times> SNSpcDspT) \<Rightarrow> nat \<Rightarrow> SNSpcDspT \<Rightarrow> SNSpcDspT" where
  "update_flag get i d =
     (let (off, ex, ox, d) = get i d;
          d = set_dsp_reg (16 * i + SNSPCDSP_REG_OUTX) ox (set_dsp_reg (16 * i + SNSPCDSP_REG_ENVX) ex d) in
      if off
      then let d = set_dsp_reg SNSPCDSP_REG_ENDX (m_Regs d ! SNSPCDSP_REG_ENDX OR push_bit i 1) d;
               d = set_dsp_reg SNSPCDSP_REG_KON (m_Regs d ! SNSPCDSP_REG_KON AND NOT (push_bit i 1)) d
           in set_dsp_reg SNSPCDSP_REG_KOFF (m_Regs d ! SNSPCDSP_REG_KOFF AND NOT (push_bit i 1)) d
      else d)"

datatype mixer_choice = NoMixer | FullMixer | SilentMixer

fun get_channel_state :: "mixer_choice \<Rightarrow> nat \<Rightarrow> SNSpcDspT \<Rightarrow> bool \<times> u8 \<times> u8 \<times> SNSpcDspT" where
  "get_channel_state NoMixer i d = (False, 0, 0, d)"
| "get_channel_state FullMixer i d =
     (case m_pMixer_0 d of None \<Rightarrow> (False, 0, 0, d)
      | Some m \<Rightarrow> let (off, ex, ox, m) = MixGetChannelState i m in (off, ex, ox, d\<lparr>m_pMixer_0 := Some m\<rparr>))"
| "get_channel_state SilentMixer i d =
     (case m_pMixer_1 d of None \<Rightarrow> (False, 0, 0, d)
      | Some m \<Rightarrow> let (off, ex, ox, m) = MixGetChannelState i m in (off, ex, ox, d\<lparr>m_pMixer_1 := Some m\<rparr>))"

definition SNSpcDsp_UpdateFlags :: "mixer_choice \<Rightarrow> SNSpcDspT \<Rightarrow> SNSpcDspT" where
  "SNSpcDsp_UpdateFlags pMixer d = fold (update_flag (get_channel_state pMixer)) [0..<SNSPCDSP_CHANNEL_NUM] d"

end
