(* ===== verification/Sn_Spc_IO.thy ===== *)
theory Sn_Spc_IO
  imports Sn_Spc_Timer Sn_Spc_Dsp
begin

text \<open>
  The I/O registers of the sound processor (\<^verbatim>\<open>snspcio.cpp\<close>): the four ports to the main
  processor, whose writes arrive through a queue, the control register, the DSP registers and the
  timers. The two trap functions are what \<^verbatim>\<open>snes.cpp\<close> installs in the SPC700; its state is
  the user data of the processor, with the DSP inside.
\<close>

section \<open>State\<close>

definition SNSPC_COUNTER_TOTAL :: nat where "SNSPC_COUNTER_TOTAL = 0"
definition SNSPC_COUNTER_FRAME :: nat where "SNSPC_COUNTER_FRAME = 1"

record SNSpcIOT =
  apu_r :: "u8 list"
  apu_w :: "u8 list"
  spc_timer :: "SNSpcTimerT list"
  io_Queue :: SNQueueT
  m_pSpcDsp :: SNSpcDspT

definition upd_timer :: "nat \<Rightarrow> SNSpcTimerT \<Rightarrow> SNSpcIOT \<Rightarrow> SNSpcIOT" where
  "upd_timer i t io = io\<lparr>spc_timer := (spc_timer io)[i := t]\<rparr>"

text \<open>\<^verbatim>\<open>memset\<close> of the registers clears the timers too, which the resets after it set anyway.\<close>

definition SNSpcIO_Reset :: "SNSpcIOT \<Rightarrow> SNSpcIOT" where
  "SNSpcIO_Reset io =
     io\<lparr>apu_r := replicate 4 0, apu_w := replicate 4 0, io_Queue := SNQueue_Reset (io_Queue io),
        spc_timer := map2 SNSpcTimerReset (spc_timer io)
          [128 * word_of_int SNSPC_CYCLE, 128 * word_of_int SNSPC_CYCLE, 16 * word_of_int SNSPC_CYCLE]\<rparr>"

section \<open>The ports\<close>

definition SNSpcIO_EnqueueWrite :: "u32 \<Rightarrow> u32 \<Rightarrow> u8 \<Rightarrow> SNSpcIOT \<Rightarrow> bool \<times> SNSpcIOT" where
  "SNSpcIO_EnqueueWrite cyc addr dat io =
     (let (b, q) = SNQueue_Enqueue cyc addr dat (io_Queue io) in (b, io\<lparr>io_Queue := q\<rparr>))"

text \<open>An address beyond the four ports would leave the array.\<close>

definition port_perform :: "SNQueueElementT \<Rightarrow> SNSpcIOT \<Rightarrow> SNSpcIOT option" where
  "port_perform e io =
     (if unat (e_uAddr e) < 4 then Some (io\<lparr>apu_w := (apu_w io)[unat (e_uAddr e) := e_uData e]\<rparr>) else None)"

definition SNSpcIO_SyncQueueAll :: "SNSpcIOT \<Rightarrow> SNSpcIOT option" where
  "SNSpcIO_SyncQueueAll io =
     do { (q, io) \<leftarrow> perform_pending port_perform None (io_Queue io) io;
          Some (io\<lparr>io_Queue := SNQueue_Reset q\<rparr>) }"

definition SNSpcIO_SyncQueue :: "u32 \<Rightarrow> SNSpcIOT \<Rightarrow> SNSpcIOT option" where
  "SNSpcIO_SyncQueue cyc io =
     do { (q, io) \<leftarrow> perform_pending port_perform (Some cyc) (io_Queue io) io;
          Some (io\<lparr>io_Queue := q\<rparr>) }"

section \<open>The trap functions\<close>

definition dsp_sync :: "SNSpcIOT SNSpcT \<Rightarrow> SNSpcIOT SNSpcT option" where
  "dsp_sync c =
     do { d \<leftarrow> SNSpcDsp_Sync (Mem c) (m_pSpcDsp (pUserData c));
          Some (c\<lparr>pUserData := (pUserData c)\<lparr>m_pSpcDsp := d\<rparr>\<rparr>) }"

definition read_timer :: "nat \<Rightarrow> SNSpcIOT SNSpcT \<Rightarrow> (u8 \<times> SNSpcIOT SNSpcT) option" where
  "read_timer i c =
     do { t \<leftarrow> SNSPCGetCounter c SNSPC_COUNTER_TOTAL;
          (v, p) \<leftarrow> SNSpcTimerGetCounter (spc_timer (pUserData c) ! i) (word_of_int t);
          Some (v, c\<lparr>pUserData := upd_timer i p (pUserData c)\<rparr>) }"

definition SNSpcIO_Read8Trap :: "SNSpcIOT SNSpcT \<Rightarrow> u32 \<Rightarrow> (u8 \<times> SNSpcIOT SNSpcT) option" where
  "SNSpcIO_Read8Trap c addr =
     (if addr = 0xF2 then do { b \<leftarrow> mem_get c addr; Some (b, c) }
      else if addr = 0xF3 then
        do { c \<leftarrow> dsp_sync c;
             Some (SNSpcDsp_Read8 (ucast (Mem c 0xF2)) (m_pSpcDsp (pUserData c)), c) }
      else if addr = 0xF4 \<or> addr = 0xF5 \<or> addr = 0xF6 \<or> addr = 0xF7 then
        do { t \<leftarrow> SNSPCGetCounter c SNSPC_COUNTER_FRAME;
             io \<leftarrow> SNSpcIO_SyncQueue (word_of_int t) (pUserData c);
             Some (apu_w io ! unat (addr AND 3), c\<lparr>pUserData := io\<rparr>) }
      else if addr = 0xFD then read_timer 0 c
      else if addr = 0xFE then read_timer 1 c
      else if addr = 0xFF then read_timer 2 c
      else do { b \<leftarrow> mem_get c addr; Some (b, c) })"

definition clear_port :: "nat \<Rightarrow> SNSpcIOT SNSpcT \<Rightarrow> SNSpcIOT SNSpcT" where
  "clear_port i c =
     c\<lparr>pUserData := (pUserData c)\<lparr>apu_w := (apu_w (pUserData c))[i := 0]\<rparr>, Mem := (Mem c)(0xF4 + i := 0)\<rparr>"

definition set_timer_enable :: "nat \<Rightarrow> u32 \<Rightarrow> u8 \<Rightarrow> SNSpcIOT SNSpcT \<Rightarrow> SNSpcIOT SNSpcT option" where
  "set_timer_enable i iCycle b c =
     do { p \<leftarrow> SNSpcTimerSetEnable (spc_timer (pUserData c) ! i) iCycle b;
          Some (c\<lparr>pUserData := upd_timer i p (pUserData c)\<rparr>) }"

definition write_control :: "u32 \<Rightarrow> u8 \<Rightarrow> SNSpcIOT SNSpcT \<Rightarrow> SNSpcIOT SNSpcT option" where
  "write_control iCycle dat c =
     do { let c = (if dat AND 0x10 \<noteq> 0 then clear_port 1 (clear_port 0 c) else c);
          let c = (if dat AND 0x20 \<noteq> 0 then clear_port 3 (clear_port 2 c) else c);
          c \<leftarrow> set_timer_enable 0 iCycle (dat AND 1) c;
          c \<leftarrow> set_timer_enable 1 iCycle (dat AND 2) c;
          c \<leftarrow> set_timer_enable 2 iCycle (dat AND 4) c;
          Some (SNSPCSetRomEnable c (dat AND 0x80)) }"

definition enqueue_dsp_write :: "u8 \<Rightarrow> SNSpcIOT SNSpcT \<Rightarrow> (bool \<times> SNSpcIOT SNSpcT) option" where
  "enqueue_dsp_write dat c =
     do { t \<leftarrow> SNSPCGetCounter c SNSPC_COUNTER_FRAME;
          let (b, d) = SNSpcDsp_EnqueueWrite (word_of_int t) (ucast (Mem c 0xF2 AND 0x7F)) dat (m_pSpcDsp (pUserData c));
          Some (b, c\<lparr>pUserData := (pUserData c)\<lparr>m_pSpcDsp := d\<rparr>\<rparr>) }"

text \<open>
  A DSP write is retried after the pending ones have been performed, for as long as the queue is
  full. \<open>fuel\<close> bounds the attempts; two are enough.
\<close>

fun write_dsp :: "nat \<Rightarrow> u8 \<Rightarrow> SNSpcIOT SNSpcT \<Rightarrow> SNSpcIOT SNSpcT option" where
  "write_dsp 0 dat c = None"
| "write_dsp (Suc fuel) dat c =
     do { (b, c) \<leftarrow> enqueue_dsp_write dat c;
          (if b then Some c else do { c \<leftarrow> dsp_sync c; write_dsp fuel dat c }) }"

definition dsp_write_fuel :: nat where "dsp_write_fuel = 2"

definition write_timer :: "nat \<Rightarrow> u32 \<Rightarrow> u8 \<Rightarrow> SNSpcIOT SNSpcT \<Rightarrow> SNSpcIOT SNSpcT option" where
  "write_timer i iCycle dat c =
     do { p \<leftarrow> SNSpcTimerSync (spc_timer (pUserData c) ! i) iCycle;
          Some (c\<lparr>pUserData := upd_timer i (SNSpcTimerSetTimer p dat) (pUserData c)\<rparr>) }"

definition SNSpcIO_Write8Trap :: "SNSpcIOT SNSpcT \<Rightarrow> u32 \<Rightarrow> u8 \<Rightarrow> SNSpcIOT SNSpcT option" where
  "SNSpcIO_Write8Trap c addr dat =
     do { t \<leftarrow> SNSPCGetCounter c SNSPC_COUNTER_TOTAL;
          let iCycle = word_of_int t;
          c \<leftarrow> (if addr = 0xF1 then write_control iCycle dat c
                else if addr = 0xF3 then write_dsp dsp_write_fuel dat c
                else if addr = 0xF4 \<or> addr = 0xF5 \<or> addr = 0xF6 \<or> addr = 0xF7 then
                  Some (c\<lparr>pUserData := (pUserData c)\<lparr>apu_r := (apu_r (pUserData c))[unat (addr AND 3) := dat]\<rparr>\<rparr>)
                else if addr = 0xFA then write_timer 0 iCycle dat c
                else if addr = 0xFB then write_timer 1 iCycle dat c
                else if addr = 0xFC then write_timer 2 iCycle dat c
                else Some c);
          mem_set c addr dat }"

definition spc_io_traps :: "SNSpcIOT spc_traps" where
  "spc_io_traps = \<lparr>spc_rtrap = (\<lambda>_. SNSpcIO_Read8Trap), spc_wtrap = (\<lambda>_. SNSpcIO_Write8Trap)\<rparr>"

end
