(* ===== verification/Sn_Spc_IO_Ok.thy ===== *)
theory Sn_Spc_IO_Ok
  imports Sn_Spc_IO Sn_Spc_Props
begin

text \<open>
  The invariant of the sound I/O registers, and that its trap functions meet the contract of the
  SPC700 interpreter: they are defined for every trapped address and keep the invariant.
\<close>

section \<open>DSP\<close>

definition mix_ok :: "'a SNSpcDspMixT_scheme \<Rightarrow> bool" where
  "mix_ok m \<longleftrightarrow> length (m_Channels m) = SNSPCDSP_CHANNEL_NUM"

definition dsp_ok :: "SNSpcDspT \<Rightarrow> bool" where
  "dsp_ok d \<longleftrightarrow> length (m_Regs d) = SNSPCDSP_REG_NUM \<and> snq_ok (dsp_Queue d) \<and>
     pred_option mix_ok (m_pMixer_0 d) \<and> pred_option mix_ok (m_pMixer_1 d)"

lemma GetSampleDir_defined: "even (unat off) \<Longrightarrow> \<exists>w. GetSampleDir mem regs src off = Some w"
proof -
  assume off: "even (unat off)"
  define d where "d = unat (ucast (regs ! SNSPCDSP_REG_DIR) * 0x100 + ucast src * 4 + ucast off :: u16)"
  have "d = (unat (regs ! SNSPCDSP_REG_DIR) * 256 + unat src * 4 + unat off) mod 65536"
    by (simp add: d_def unat_word_ariths unsigned_ucast_eq take_bit_eq_mod mod_simps)
  then have "even d" using off by (simp add: dvd_mod_iff)
  moreover have "d < 65536" using unat_u16_le [of "ucast (regs ! SNSPCDSP_REG_DIR) * 0x100 + ucast src * 4 + ucast off :: u16"]
    by (simp add: d_def)
  ultimately have "d + 1 < SNSPC_MEM_SIZE" unfolding SNSPC_MEM_SIZE_def by presburger
  then show ?thesis by (simp add: GetSampleDir_def d_def [symmetric] Let_def)
qed

lemma set_dsp_reg_sel [simp]:
  "dsp_Queue (set_dsp_reg r v d) = dsp_Queue d" "m_pMixer_0 (set_dsp_reg r v d) = m_pMixer_0 d"
  "m_pMixer_1 (set_dsp_reg r v d) = m_pMixer_1 d" "length (m_Regs (set_dsp_reg r v d)) = length (m_Regs d)"
  by (simp_all add: set_dsp_reg_def)

lemma dsp_ok_reg [simp]: "dsp_ok (set_dsp_reg r v d) = dsp_ok d"
  by (simp add: dsp_ok_def)

lemma dsp_ok_queue: "dsp_ok d \<Longrightarrow> snq_ok q \<Longrightarrow> dsp_ok (d\<lparr>dsp_Queue := q\<rparr>)"
  by (simp add: dsp_ok_def)

lemma mix_ok_upd [simp]: "mix_ok (upd_channel i f m) = mix_ok m"
  by (simp add: mix_ok_def upd_channel_def)

abbreviation keeps_queue :: "SNSpcDspT \<Rightarrow> SNSpcDspT \<Rightarrow> bool" where
  "keeps_queue d d' \<equiv> dsp_ok d' \<and> dsp_Queue d' = dsp_Queue d"

lemma MixKeyOn_ok: "mix_ok m \<Longrightarrow> returns (MixKeyOn mem regs i m) mix_ok"
  using GetSampleDir_defined [of 0 mem regs "voice_reg regs i SNSPCDSP_REG_SRCN"] by (auto simp: MixKeyOn_def)

lemma KeyOn_ok:
  assumes "dsp_ok d"
  shows "returns (SNSpcDsp_KeyOn mem i d) (keeps_queue d)"
proof -
  define d1 where "d1 = set_dsp_reg SNSPCDSP_REG_ENDX (m_Regs d ! SNSPCDSP_REG_ENDX AND NOT (push_bit i 1)) d"
  have d1: "keeps_queue d d1" using assms by (simp add: d1_def)
  have 0: "returns (case m_pMixer_0 d1 of None \<Rightarrow> Some d1
      | Some m \<Rightarrow> do { m \<leftarrow> MixKeyOn mem (m_Regs d1) i m; Some (d1\<lparr>m_pMixer_0 := Some m\<rparr>) }) (keeps_queue d)"
    using d1 by (cases "m_pMixer_0 d1") (auto simp: returns_bind_iff dsp_ok_def intro!: returns_mono [OF MixKeyOn_ok])
  show ?thesis
    unfolding SNSpcDsp_KeyOn_def d1_def [symmetric] Let_def
  proof (rule returns_bind [OF 0])
    fix d2 assume d2: "keeps_queue d d2"
    then show "returns (case m_pMixer_1 d2 of None \<Rightarrow> Some d2
      | Some m \<Rightarrow> do { m \<leftarrow> MixKeyOn mem (m_Regs d2) i m; Some (d2\<lparr>m_pMixer_1 := Some m\<rparr>) }) (keeps_queue d)"
      by (cases "m_pMixer_1 d2") (auto simp: returns_bind_iff dsp_ok_def intro!: returns_mono [OF MixKeyOn_ok])
  qed
qed

lemma key_on_loop_ok: "dsp_ok d \<Longrightarrow> returns (key_on_loop mem v is d) (keeps_queue d)"
proof (induction "is" arbitrary: d)
  case (Cons i "is")
  have "returns (if drop_bit i v AND 1 \<noteq> 0 then SNSpcDsp_KeyOn mem i d else Some d) (keeps_queue d)"
    using KeyOn_ok [OF Cons.prems] Cons.prems by simp
  then show ?case unfolding key_on_loop.simps by (rule returns_bind) (auto intro: returns_mono [OF Cons.IH])
qed simp

lemma KeyOff_ok: "dsp_ok d \<Longrightarrow> keeps_queue d (SNSpcDsp_KeyOff i d)"
  by (auto simp: SNSpcDsp_KeyOff_def dsp_ok_def MixKeyOff_def option.pred_map comp_def)

lemma key_off_loop_ok: "dsp_ok d \<Longrightarrow> keeps_queue d (key_off_loop v is d)"
  unfolding key_off_loop_def by (induction "is" arbitrary: d) (use KeyOff_ok in auto)

lemma dsp_Write8_ok:
  assumes "dsp_ok d"
  shows "returns (SNSpcDsp_Write8 mem a v d) (keeps_queue d)"
proof -
  have "keeps_queue d (key_off_loop v is (set_dsp_reg r v d))" for r "is"
    using key_off_loop_ok [of "set_dsp_reg r v d" v "is"] assms by simp
  moreover have "returns (key_on_loop mem v is (set_dsp_reg r v d)) (keeps_queue d)" for r "is"
    using key_on_loop_ok [of "set_dsp_reg r v d" mem v "is"] assms by simp
  ultimately show ?thesis using assms by (simp add: SNSpcDsp_Write8_def Let_def)
qed

lemma dsp_pending_ok:
  assumes "dsp_ok d"
  shows "returns (perform_pending (dsp_perform mem) lim (dsp_Queue d) d)
    (\<lambda>(q, d'). snq_ok q \<and> dsp_ok d' \<and> (lim = None \<longrightarrow> snq_pending q = []))"
  by (rule returns_mono [OF perform_pending_ok [where I = dsp_ok]])
    (use assms in \<open>auto simp: dsp_ok_def [of d] dsp_perform_def intro: returns_mono [OF dsp_Write8_ok]\<close>)

lemma dsp_SyncTo_ok: "dsp_ok d \<Longrightarrow> returns (SNSpcDsp_SyncTo mem cyc d) dsp_ok"
  unfolding SNSpcDsp_SyncTo_def by (rule returns_bind [OF dsp_pending_ok]) (auto intro: dsp_ok_queue)

lemma dsp_Sync_ok: "dsp_ok d \<Longrightarrow> returns (SNSpcDsp_Sync mem d) (\<lambda>d. dsp_ok d \<and> snq_pending (dsp_Queue d) = [])"
  unfolding SNSpcDsp_Sync_def
  by (rule returns_bind [OF dsp_pending_ok]) (auto intro!: dsp_ok_queue simp: snq_reset)

lemma dsp_Enqueue_ok: "dsp_ok d \<Longrightarrow> SNSpcDsp_EnqueueWrite cyc a v d = (b, d') \<Longrightarrow>
    dsp_ok d' \<and> (snq_pending (dsp_Queue d) = [] \<longrightarrow> b)"
  using snq_enqueue_ok [of "dsp_Queue d" cyc a v] snq_enqueue_empty [of "dsp_Queue d" cyc a v]
  by (auto simp: SNSpcDsp_EnqueueWrite_def Let_def split: prod.splits intro!: dsp_ok_queue)
    (auto simp: dsp_ok_def)

section \<open>Timers\<close>

text \<open>The period follows from the two values it is set from, and is never zero.\<close>

definition timer_inv :: "SNSpcTimerT \<Rightarrow> bool" where
  "timer_inv p \<longleftrightarrow> (uCyclesPerTick p = 2688 \<or> uCyclesPerTick p = 336) \<and>
     iDivisor p = uCyclesPerTick p * (if uCompare p = 0 then 0x100 else ucast (uCompare p))"

lemma timer_inv_divisor: "timer_inv p \<Longrightarrow> 0 < unat (iDivisor p) \<and> unat (iDivisor p) \<le> 688128"
proof -
  have "unat (k * ucast u :: u32) = unat k * unat u" if "unat k \<le> 2688" for k and u :: u8
  proof -
    have "unat k * unat u \<le> 2688 * 255" using that unat_u8_le [of u] by (intro mult_le_mono)
    then show ?thesis by (simp add: unat_word_ariths unsigned_ucast_eq take_bit_eq_mod)
  qed
  note m = this [of 2688] this [of 336]
  assume p: "timer_inv p"
  have "0 < unat (uCompare p)" if "uCompare p \<noteq> 0" using that by (simp add: unat_gt_0)
  with p m [of "uCompare p"] unat_u8_le [of "uCompare p"] show ?thesis
    by (cases "uCompare p = 0") (auto simp: timer_inv_def)
qed

lemma timer_inv_cong: "uCyclesPerTick q = uCyclesPerTick p \<Longrightarrow> iDivisor q = iDivisor p \<Longrightarrow> uCompare q = uCompare p \<Longrightarrow>
    timer_inv q = timer_inv p"
  by (simp add: timer_inv_def)

lemma timer_Sync_ok: "timer_inv p \<Longrightarrow> returns (SNSpcTimerSync p n) timer_inv"
  using timer_inv_divisor [of p]
  by (auto simp: SNSpcTimerSync_def timer_pulses_def Let_def timer_inv_def)

lemma timer_SetEnable_ok: "timer_inv p \<Longrightarrow> returns (SNSpcTimerSetEnable p n b) timer_inv"
  by (auto simp: SNSpcTimerSetEnable_def Let_def returns_bind_iff timer_inv_def [of "_\<lparr>bEnabled := _\<rparr>"]
      timer_inv_def [of "_\<lparr>uUpCounter := _, bEnabled := _\<rparr>"] intro!: returns_mono [OF timer_Sync_ok])
    (auto simp: timer_inv_def)

lemma timer_SetTimer_ok: "timer_inv p \<Longrightarrow> timer_inv (SNSpcTimerSetTimer p v)"
  by (auto simp: SNSpcTimerSetTimer_def Let_def timer_inv_def)

lemma timer_GetCounter_ok: "timer_inv p \<Longrightarrow> returns (SNSpcTimerGetCounter p n) (\<lambda>(v, p). timer_inv p)"
  by (auto simp: SNSpcTimerGetCounter_def returns_bind_iff intro!: returns_mono [OF timer_Sync_ok])
    (auto simp: timer_inv_def)

lemma timer_Reset_ok: "timer_inv (SNSpcTimerReset p 2688)" "timer_inv (SNSpcTimerReset p 336)"
  by (simp_all add: SNSpcTimerReset_def timer_inv_def)

section \<open>The registers\<close>

definition io_ok :: "SNSpcIOT \<Rightarrow> bool" where
  "io_ok io \<longleftrightarrow> length (apu_r io) = 4 \<and> length (apu_w io) = 4 \<and> length (spc_timer io) = 3 \<and>
     list_all timer_inv (spc_timer io) \<and> snq_ok (io_Queue io) \<and>
     list_all (\<lambda>e. unat (e_uAddr e) < 4) (snq_pending (io_Queue io)) \<and> dsp_ok (m_pSpcDsp io)"

definition spc_io_good :: "SNSpcIOT SNSpcT \<Rightarrow> bool" where
  "spc_io_good c \<longleftrightarrow> length (Counter c) = 2 \<and> io_ok (pUserData c)"

lemma io_ok_dsp: "io_ok io \<Longrightarrow> dsp_ok d \<Longrightarrow> io_ok (io\<lparr>m_pSpcDsp := d\<rparr>)"
  by (simp add: io_ok_def)

lemma io_ok_timer: "io_ok io \<Longrightarrow> timer_inv p \<Longrightarrow> io_ok (upd_timer i p io)"
  by (auto simp: io_ok_def upd_timer_def list_all_iff dest!: subsetD [OF set_update_subset_insert])

lemma io_timer: "io_ok io \<Longrightarrow> i < 3 \<Longrightarrow> timer_inv (spc_timer io ! i)"
  by (simp add: io_ok_def list_all_length)

lemma io_port: "io_ok io \<Longrightarrow> io_ok (io\<lparr>apu_w := (apu_w io)[i := v]\<rparr>)" "io_ok io \<Longrightarrow> io_ok (io\<lparr>apu_r := (apu_r io)[i := v]\<rparr>)"
  by (simp_all add: io_ok_def)

lemma io_pending_ok:
  assumes "io_ok io"
  shows "returns (perform_pending port_perform lim (io_Queue io) io)
    (\<lambda>(q, io'). io_ok io' \<and> snq_ok q \<and> set (snq_pending q) \<subseteq> set (snq_pending (io_Queue io)))"
  by (rule returns_mono [OF perform_pending_ok [where I = io_ok]])
    (use assms in \<open>auto simp: io_ok_def [of io] port_perform_def list_all_iff intro: io_port\<close>)

lemma SyncQueue_ok: "io_ok io \<Longrightarrow> returns (SNSpcIO_SyncQueue cyc io) io_ok"
  unfolding SNSpcIO_SyncQueue_def
  by (rule returns_bind [OF io_pending_ok]) (auto simp: io_ok_def list_all_iff subset_eq)

lemma SyncQueueAll_ok: "io_ok io \<Longrightarrow> returns (SNSpcIO_SyncQueueAll io) io_ok"
  unfolding SNSpcIO_SyncQueueAll_def
  by (rule returns_bind [OF io_pending_ok]) (auto simp: io_ok_def snq_reset)

lemma EnqueueWrite_ok: "io_ok io \<Longrightarrow> unat a < 4 \<Longrightarrow> io_ok (snd (SNSpcIO_EnqueueWrite cyc a v io))"
  using snq_enqueue_ok [of "io_Queue io" cyc a v] snq_enqueue_pending [of "io_Queue io" cyc a v]
  by (auto simp: SNSpcIO_EnqueueWrite_def io_ok_def Let_def unsigned_ucast_eq take_bit_eq_mod split: prod.splits if_splits)

section \<open>The trap functions\<close>

abbreviation keeps_regs :: "SNSpcIOT SNSpcT \<Rightarrow> SNSpcIOT SNSpcT \<Rightarrow> bool" where
  "keeps_regs c c' \<equiv> spc_io_good c' \<and> Regs c' = Regs c"

lemma io_counter: "spc_io_good c \<Longrightarrow> \<exists>t. SNSPCGetCounter c SNSPC_COUNTER_TOTAL = Some t"
  "spc_io_good c \<Longrightarrow> \<exists>t. SNSPCGetCounter c SNSPC_COUNTER_FRAME = Some t"
  by (simp_all add: spc_io_good_def SNSPCGetCounter_def SNSPC_COUNTER_TOTAL_def SNSPC_COUNTER_FRAME_def)

lemma io_good_user: "spc_io_good c \<Longrightarrow> io_ok io \<Longrightarrow> spc_io_good (c\<lparr>pUserData := io\<rparr>)"
  by (simp add: spc_io_good_def)

lemma io_goodD: "spc_io_good c \<Longrightarrow> io_ok (pUserData c)"
  by (simp add: spc_io_good_def)

lemma dsp_sync_ok: "spc_io_good c \<Longrightarrow>
    returns (dsp_sync c) (\<lambda>c'. keeps_regs c c' \<and> snq_pending (dsp_Queue (m_pSpcDsp (pUserData c'))) = [])"
  unfolding dsp_sync_def
  by (rule returns_bind [OF dsp_Sync_ok]) (auto simp: io_ok_def dest: io_goodD intro!: io_good_user io_ok_dsp)

lemma read_timer_ok: "spc_io_good c \<Longrightarrow> i < 3 \<Longrightarrow> returns (read_timer i c) (\<lambda>(v, c'). keeps_regs c c')"
proof -
  assume c: "spc_io_good c" and i: "i < 3"
  from io_counter(1) [OF c] obtain t where t: "SNSPCGetCounter c SNSPC_COUNTER_TOTAL = Some t" by blast
  show ?thesis
    by (simp add: read_timer_def t returns_bind_iff)
      (auto intro!: returns_mono [OF timer_GetCounter_ok] io_good_user c io_ok_timer io_goodD io_timer i)
qed

lemma Read8Trap_ok: "spc_io_good c \<Longrightarrow> trapped a \<Longrightarrow> returns (SNSpcIO_Read8Trap c a) (\<lambda>(v, c'). keeps_regs c c')"
proof -
  assume c: "spc_io_good c" and "trapped a"
  then have a: "unat a \<le> 0xFFFF" by (auto simp: trapped_def word_less_nat_alt)
  from io_counter(2) [OF c] obtain t where t: "SNSPCGetCounter c SNSPC_COUNTER_FRAME = Some t" by blast
  show ?thesis
    unfolding SNSpcIO_Read8Trap_def
    by (auto simp: mem_get_in a c t returns_bind_iff
        intro!: read_timer_ok [OF c] returns_mono [OF dsp_sync_ok [OF c]] returns_mono [OF SyncQueue_ok [OF io_goodD [OF c]]] io_good_user)
qed

lemma clear_port_ok: "spc_io_good c \<Longrightarrow> keeps_regs c (clear_port i c)"
  by (auto simp: clear_port_def spc_io_good_def io_port)

lemma SetRomEnable_sel: "Regs (SNSPCSetRomEnable c b) = Regs c" "pUserData (SNSPCSetRomEnable c b) = pUserData c"
  "Counter (SNSPCSetRomEnable c b) = Counter c" "Cycles (SNSPCSetRomEnable c b) = Cycles c"
  by (simp_all add: SNSPCSetRomEnable_def)

lemma set_timer_enable_ok: "spc_io_good c \<Longrightarrow> i < 3 \<Longrightarrow> returns (set_timer_enable i n b c) (keeps_regs c)"
  unfolding set_timer_enable_def
  by (rule returns_bind [OF timer_SetEnable_ok]) (auto intro!: io_timer io_good_user io_ok_timer dest: io_goodD)

lemma write_control_ok:
  assumes "spc_io_good c"
  shows "returns (write_control n v c) (keeps_regs c)"
proof -
  define c1 where "c1 = (if v AND 0x10 \<noteq> 0 then clear_port 1 (clear_port 0 c) else c)"
  define c2 where "c2 = (if v AND 0x20 \<noteq> 0 then clear_port 3 (clear_port 2 c1) else c1)"
  have "keeps_regs c c1" using assms clear_port_ok by (simp add: c1_def)
  then have c2: "keeps_regs c c2" using clear_port_ok by (simp add: c2_def)
  then show ?thesis
    by (simp add: write_control_def c1_def [symmetric] c2_def [symmetric] returns_bind_iff)
      (auto intro!: returns_mono [OF set_timer_enable_ok] simp: SetRomEnable_sel spc_io_good_def)
qed

lemma enqueue_dsp_write_ok: "spc_io_good c \<Longrightarrow> returns (enqueue_dsp_write v c)
    (\<lambda>(b, c'). keeps_regs c c' \<and> (snq_pending (dsp_Queue (m_pSpcDsp (pUserData c))) = [] \<longrightarrow> b))"
proof -
  assume c: "spc_io_good c"
  from io_counter(2) [OF c] obtain t where t: "SNSPCGetCounter c SNSPC_COUNTER_FRAME = Some t" by blast
  obtain b d where e: "SNSpcDsp_EnqueueWrite (word_of_int t) (ucast (Mem c 0xF2 AND 0x7F)) v (m_pSpcDsp (pUserData c)) = (b, d)"
    by force
  have "dsp_ok (m_pSpcDsp (pUserData c))" using io_goodD [OF c] by (simp add: io_ok_def)
  from dsp_Enqueue_ok [OF this e] c show ?thesis
    by (auto simp: enqueue_dsp_write_def t e intro!: io_good_user io_ok_dsp io_goodD)
qed

text \<open>After the pending DSP writes have been performed there is room, so the loop ends at once.\<close>

lemma write_dsp_ok:
  assumes c: "spc_io_good c"
  shows "returns (write_dsp dsp_write_fuel v c) (keeps_regs c)"
proof -
  have again: "returns (write_dsp (Suc 0) v c) (keeps_regs c)"
    if "spc_io_good c" "snq_pending (dsp_Queue (m_pSpcDsp (pUserData c))) = []" for c
    unfolding write_dsp.simps by (rule returns_bind [OF enqueue_dsp_write_ok [OF that(1)]]) (use that(2) in auto)
  have "returns (do { c \<leftarrow> dsp_sync c1; write_dsp (Suc 0) v c }) (keeps_regs c)" if "keeps_regs c c1" for c1
    by (rule returns_bind [OF dsp_sync_ok]) (use that in \<open>auto intro!: returns_mono [OF again] simp del: write_dsp.simps\<close>)
  then show ?thesis
    unfolding dsp_write_fuel_def numeral_2_eq_2 write_dsp.simps(2) [of "Suc 0"]
    by (intro returns_bind [OF enqueue_dsp_write_ok [OF c]]) (auto simp del: write_dsp.simps)
qed

lemma write_timer_ok: "spc_io_good c \<Longrightarrow> i < 3 \<Longrightarrow> returns (write_timer i n v c) (keeps_regs c)"
  unfolding write_timer_def
  by (rule returns_bind [OF timer_Sync_ok]) (auto intro!: io_timer io_good_user io_ok_timer timer_SetTimer_ok dest: io_goodD)

lemma Write8Trap_ok:
  assumes c: "spc_io_good c" and "trapped a"
  shows "returns (SNSpcIO_Write8Trap c a v) (keeps_regs c)"
proof -
  have a: "unat a \<le> 0xFFFF" using assms(2) by (auto simp: trapped_def word_less_nat_alt)
  from io_counter(1) [OF c] obtain t where t: "SNSPCGetCounter c SNSPC_COUNTER_TOTAL = Some t" by blast
  have m: "returns (mem_set c' a v) (keeps_regs c)" if "keeps_regs c c'" for c'
    using that by (simp add: mem_set_in a spc_io_good_def)
  show ?thesis
    unfolding SNSpcIO_Write8Trap_def t Option.bind_lunit Let_def
    by (rule returns_bind [where P = "keeps_regs c"])
      (use c m in \<open>auto intro!: write_control_ok write_dsp_ok write_timer_ok io_good_user io_port io_goodD\<close>)
qed

text \<open>The processor with the I/O registers behind its trapped addresses.\<close>

interpretation spc_io: spc_contract spc_io_traps spc_io_good
  by unfold_locales (auto simp: spc_io_good_def [of "_\<lparr>Regs := _\<rparr>"] spc_io_good_def [of "_\<lparr>Cycles := _\<rparr>"]
      spc_io_good_def [of "_\<lparr>Mem := _\<rparr>"] spc_io_good_def [of "_\<lparr>ShadowMem := _\<rparr>"] spc_io_good_def [symmetric]
      spc_io_traps_def Read8Trap_ok Write8Trap_ok)

end
