(* ===== verification/Sn_Spc_Brr.thy ===== *)
theory Sn_Spc_Brr
  imports C_Integers Sn_Spc
begin

text \<open>
  The sample decoder (\<^verbatim>\<open>snspcbrr.c\<close>): blocks of nine bytes, a header and sixteen nibbles, each
  block filtered with the last two samples of the one before. Only the filter that is compiled in,
  \<^verbatim>\<open>_SNSpcBRRFilter3\<close>, is modelled.
\<close>

section \<open>The decoder\<close>

definition u_SNSpcDsp_FilterParm :: "(int \<times> int) list" where
  "u_SNSpcDsp_FilterParm =
     [(0x100 * 0 div 16, 0x100 * 0 div 16),
      (0x100 * 15 div 16, 0x100 * 0 div 16),
      (0x100 * 61 div 32, 0x100 * -15 div 16),
      (0x100 * 115 div 64, 0x100 * -13 div 16)]"

text \<open>One sample: the filtered value before and after it is stored.\<close>

definition brr_sum :: "int \<Rightarrow> int \<Rightarrow> int \<Rightarrow> int \<Rightarrow> int \<Rightarrow> int" where
  "brr_sum iFilter0 iFilter1 pIn iPrev0 iPrev1 =
     drop_bit 1 pIn + (drop_bit 9 (iPrev0 * iFilter0) + drop_bit 9 (iPrev1 * iFilter1))"

definition brr_sample :: "int \<Rightarrow> int \<Rightarrow> int \<Rightarrow> int \<Rightarrow> int \<Rightarrow> int" where
  "brr_sample iFilter0 iFilter1 pIn iPrev0 iPrev1 =
     to_Int16 (push_bit 1 (clamp16 (brr_sum iFilter0 iFilter1 pIn iPrev0 iPrev1)))"

fun brr_filter_loop :: "int \<Rightarrow> int \<Rightarrow> int list \<Rightarrow> int \<Rightarrow> int \<Rightarrow> int list" where
  "brr_filter_loop iFilter0 iFilter1 [] iPrev0 iPrev1 = []"
| "brr_filter_loop iFilter0 iFilter1 (pIn # ins) iPrev0 iPrev1 =
     (let pOut = brr_sample iFilter0 iFilter1 pIn iPrev0 iPrev1 in
      pOut # brr_filter_loop iFilter0 iFilter1 ins pOut iPrev0)"

definition u_SNSpcBRRFilter3 :: "int list \<Rightarrow> nat \<Rightarrow> int \<Rightarrow> int \<Rightarrow> int list" where
  "u_SNSpcBRRFilter3 pIn eFilterType iPrev0 iPrev1 =
     brr_filter_loop (fst (u_SNSpcDsp_FilterParm ! eFilterType)) (snd (u_SNSpcDsp_FilterParm ! eFilterType)) pIn iPrev0 iPrev1"

text \<open>The shifts by 24 and 28 sign-extend the two nibbles of a byte.\<close>

definition brr_nibble :: "nat \<Rightarrow> int \<Rightarrow> int" where
  "brr_nibble uRange n = to_Int16 (push_bit uRange (signed_take_bit 3 n))"

definition brr_range :: "u8 \<Rightarrow> nat" where
  "brr_range uHeader = (let uRange = unat (drop_bit 4 uHeader) in if uRange > 12 then uRange - 4 else uRange)"

definition brr_nibbles :: "nat \<Rightarrow> u8 list \<Rightarrow> int list" where
  "brr_nibbles uRange bs =
     concat (map (\<lambda>b. [brr_nibble uRange (drop_bit 4 (uint b)), brr_nibble uRange (uint b)]) bs)"

text \<open>The decoder reads nine bytes, the block, and returns the end and loop bits with sixteen samples.\<close>

definition SNSpcBRRDecode :: "u8 list \<Rightarrow> int \<Rightarrow> int \<Rightarrow> u8 \<times> int list" where
  "SNSpcBRRDecode pBRRBlock iPrev0 iPrev1 =
     (let uHeader = hd pBRRBlock;
          Decode = brr_nibbles (brr_range uHeader) (tl pBRRBlock) in
      (uHeader AND 3, u_SNSpcBRRFilter3 Decode (unat (drop_bit 2 uHeader AND 3)) iPrev0 iPrev1))"

definition SNSpcBRRClear :: "int \<Rightarrow> int list" where
  "SNSpcBRRClear iPrev = replicate 16 iPrev"

section \<open>What it computes\<close>

lemma brr_range_le: "brr_range h \<le> 12"
proof -
  have "unat (drop_bit 4 h) = unat h div 16" by (simp add: drop_bit_eq_div unat_div_distrib)
  with unat_u8_le [of h] show ?thesis by (simp add: brr_range_def Let_def) arith
qed

lemma sign_nibble: "-8 \<le> signed_take_bit 3 n" "signed_take_bit 3 n \<le> 7" for n :: int
  using signed_take_bit_int_greater_eq_minus_exp [of 3 n] signed_take_bit_int_less_exp [of 3 n] by simp_all

text \<open>A shifted nibble always fits: no bit is lost.\<close>

lemma brr_nibble_exact:
  assumes "r \<le> 12"
  shows "brr_nibble r n = signed_take_bit 3 n * 2 ^ r"
proof -
  let ?s = "signed_take_bit 3 n"
  have p: "(0::int) < 2 ^ r" "(2::int) ^ r \<le> 4096" using assms power_increasing [of r 12 "2 :: int"] by simp_all
  have "?s * 2 ^ r \<le> 7 * 2 ^ r" "-8 * 2 ^ r \<le> ?s * 2 ^ r"
    using p(1) by (intro mult_right_mono sign_nibble; simp)+
  with p have "-0x8000 \<le> ?s * 2 ^ r" "?s * 2 ^ r \<le> 0x7FFF" by linarith+
  then show ?thesis by (simp add: brr_nibble_def push_bit_eq_mult to_Int16_id)
qed

lemma length_brr_nibbles: "length (brr_nibbles r bs) = 2 * length bs"
  by (induction bs) (simp_all add: brr_nibbles_def)

lemma length_brr_filter_loop: "length (brr_filter_loop f0 f1 ins p0 p1) = length ins"
  by (induction ins arbitrary: p0 p1) (simp_all add: Let_def)

lemma brr_sample_even: "even (brr_sample f0 f1 i p0 p1)"
  by (simp add: brr_sample_def to_Int16_even push_bit_eq_mult)

lemma brr_sample_range: "-0x8000 \<le> brr_sample f0 f1 i p0 p1" "brr_sample f0 f1 i p0 p1 \<le> 0x7FFF"
  by (simp_all only: brr_sample_def to_Int16_range)

text \<open>The samples of a block are those of the recurrence, with the two before the block in front.\<close>

lemma brr_filter_nth: "i < length ins \<Longrightarrow>
   (p1 # p0 # brr_filter_loop f0 f1 ins p0 p1) ! (i + 2) =
     brr_sample f0 f1 (ins ! i) ((p1 # p0 # brr_filter_loop f0 f1 ins p0 p1) ! (i + 1)) ((p1 # p0 # brr_filter_loop f0 f1 ins p0 p1) ! i)"
proof (induction ins arbitrary: i p0 p1)
  case (Cons x ins)
  show ?case
  proof (cases i)
    case (Suc j)
    with Cons.prems Cons.IH [where i = j and ?p0.0 = "brr_sample f0 f1 x p0 p1" and ?p1.0 = p0] show ?thesis by (simp add: Let_def)
  qed (simp add: Let_def)
qed simp

text \<open>Rounding: three shifts, each down by less than one.\<close>

lemma brr_sum_bounds:
  "512 * brr_sum f0 f1 i p0 p1 \<le> 256 * i + (p0 * f0 + p1 * f1)"
  "256 * i + (p0 * f0 + p1 * f1) \<le> 512 * brr_sum f0 f1 i p0 p1 + (256 + 511 + 511)"
  using drop_bit_int_bounds [where n = 1 and v = i] drop_bit_int_bounds [where n = 9 and v = "p0 * f0"]
    drop_bit_int_bounds [where n = 9 and v = "p1 * f1"]
  by (simp_all add: brr_sum_def)

lemma brr_sample_exact:
  assumes "-0x4000 \<le> brr_sum f0 f1 i p0 p1" and "brr_sum f0 f1 i p0 p1 < 0x4000"
  shows "brr_sample f0 f1 i p0 p1 = 2 * brr_sum f0 f1 i p0 p1"
  using assms by (simp add: brr_sample_def clamp16_def push_bit_eq_mult to_Int16_id)

end
