(* ===== verification/Sn_Sound_Props.thy ===== *)
theory Sn_Sound_Props
  imports Sn_Spc_IO_Ok Sn_Spc_Mem_Props Sn_Spc_Brr
begin

text \<open>
  Properties of the sound subsystem: the sound processor together with its I/O registers, the
  timers, the queue of port writes and the sample decoder.
\<close>

section \<open>The processor with its I/O registers\<close>

definition demo_timer :: SNSpcTimerT where
  "demo_timer = \<lparr>iCycleSync = 0, nElapsedCycles = 0, iDivisor = 0, uCyclesPerTick = 0, uCompare = 0, uUpCounter = 0, bEnabled = 0\<rparr>"

definition demo_queue :: SNQueueT where
  "demo_queue = \<lparr>m_iHead = 0, m_iTail = 0, m_Elements = replicate SNQUEUE_SIZE \<lparr>e_uCycle = 0, e_uAddr = 0, e_uData = 0\<rparr>\<rparr>"

definition demo_dsp :: SNSpcDspT where
  "demo_dsp = SNSpcDsp_Reset \<lparr>m_Regs = [], m_pMixer_0 = None, m_pMixer_1 = None, dsp_Queue = demo_queue\<rparr>"

definition demo_io :: SNSpcIOT where
  "demo_io = SNSpcIO_Reset \<lparr>apu_r = [], apu_w = [], spc_timer = replicate 3 demo_timer, io_Queue = demo_queue, m_pSpcDsp = demo_dsp\<rparr>"

definition demo_sound :: "(nat \<Rightarrow> u8) \<Rightarrow> SNSpcIOT SNSpcT" where
  "demo_sound m = \<lparr>Regs = \<lparr>rPC = 0, rA = 7, rY = 0, rX = 0, rSP = 0xEF, rPSW = 0\<rparr>, Cycles = 100, Counter = [100, 100], pUserData = demo_io,
     pReadTrapFunc = SpcUserFn 0, pWriteTrapFunc = SpcUserFn 0, Mem = m, ShadowMem = (\<lambda>_. 0), bRomEnable = 0\<rparr>"

lemma snq_demo: "snq_ok demo_queue" "snq_pending demo_queue = []"
  by (simp_all add: snq_ok_def snq_pending_def demo_queue_def)

lemma demo_sound_good: "spc_io_good (demo_sound m)"
proof -
  have "dsp_ok demo_dsp"
    using snq_reset(1) [OF snq_demo(1)]
    by (simp add: dsp_ok_def demo_dsp_def SNSpcDsp_Reset_def Let_def)
  then have "io_ok demo_io"
    using snq_reset(1) [OF snq_demo(1)] timer_Reset_ok
    by (simp add: io_ok_def demo_io_def SNSpcIO_Reset_def snq_reset(2) SNSPC_CYCLE_def numeral_3_eq_3)
  then show ?thesis by (simp add: spc_io_good_def demo_sound_def)
qed


lemma demo_sound_ok: "spc_ok spc_io_good (spc_enter (demo_sound m))"
proof -
  have "unat (l_rDP (spc_enter (demo_sound m))) \<le> 256"
    using direct_page_bound [of 0] by (simp add: spc_enter_def SNSPC_UNPACKFLAGS_def Let_def demo_sound_def)
  then show ?thesis
    using demo_sound_good [of m] by (simp add: spc_ok_def spc_enter_def SNSPC_UNPACKFLAGS_def Let_def)
qed


section \<open>Timers\<close>



section \<open>Ports\<close>

definition store_port :: "SNQueueElementT \<Rightarrow> u8 list \<Rightarrow> u8 list" where
  "store_port e ports = ports[unat (e_uAddr e) := e_uData e]"

lemma port_fold: "list_all (\<lambda>e. unat (e_uAddr e) < 4) es \<Longrightarrow>
    fold (\<lambda>e s. Option.bind s (port_perform e)) es (Some io) = Some (io\<lparr>apu_w := fold store_port es (apu_w io)\<rparr>)"
  by (induction es arbitrary: io) (simp_all add: port_perform_def store_port_def)

text \<open>
  when the sound processor reads a port at cycle \<open>t\<close>, the writes of the main processor that are
  due (before \<open>t\<close>) have been performed, in their order and each once, and the later ones wait.
\<close>

theorem port_writes_in_order:
  assumes "io_ok io"
  shows "\<exists>io'. SNSpcIO_SyncQueue t io = Some io' \<and>
    apu_w io' = fold store_port (takeWhile (\<lambda>e. e_uCycle e < t) (snq_pending (io_Queue io))) (apu_w io) \<and>
    snq_pending (io_Queue io') = dropWhile (\<lambda>e. e_uCycle e < t) (snq_pending (io_Queue io))"
proof -
  let ?es = "takeWhile (\<lambda>e. e_uCycle e < t) (snq_pending (io_Queue io))"
  have q: "snq_ok (io_Queue io)" and p: "list_all (\<lambda>e. unat (e_uAddr e) < 4) (snq_pending (io_Queue io))"
    using assms by (simp_all add: io_ok_def)
  have "list_all (\<lambda>e. unat (e_uAddr e) < 4) ?es" using p by (auto simp: list_all_iff dest: set_takeWhileD)
  moreover have "due (Some t) = (\<lambda>e. e_uCycle e < t)" by (simp add: due_def fun_eq_iff)
  moreover have "length ?es \<le> length (snq_pending (io_Queue io))" by (rule length_takeWhile_le)
  moreover have "drop (length ?es) (snq_pending (io_Queue io)) = dropWhile (\<lambda>e. e_uCycle e < t) (snq_pending (io_Queue io))"
    by (simp add: dropWhile_eq_drop)
  ultimately show ?thesis
    using pending_after [OF q, of "length ?es"]
    by (simp add: SNSpcIO_SyncQueue_def perform_pending_eq [OF q] port_fold)
qed

lemma demo_io_ok: "io_ok demo_io"
  using demo_sound_good by (simp add: spc_io_good_def demo_sound_def)

theorem port_writes_in_order_witness:
  "map_option (\<lambda>io. (apu_w io, map e_uData (snq_pending (io_Queue io))))
     (SNSpcIO_SyncQueue 7 (snd (SNSpcIO_EnqueueWrite 9 1 8 (snd (SNSpcIO_EnqueueWrite 5 1 3 demo_io))))) = Some ([0, 3, 0, 0], [8])"
proof -
  let ?io1 = "snd (SNSpcIO_EnqueueWrite 5 1 3 demo_io)"
  let ?io = "snd (SNSpcIO_EnqueueWrite 9 1 8 ?io1)"
  have ok1: "io_ok ?io1" by (rule EnqueueWrite_ok [OF demo_io_ok]) simp
  have ok: "io_ok ?io" by (rule EnqueueWrite_ok [OF ok1]) simp
  note enq_defs = SNSpcIO_EnqueueWrite_def demo_io_def SNSpcIO_Reset_def SNQueue_Enqueue_def SNQueue_Reset_def SNQueue_IsEmpty_def
    demo_queue_def Let_def SNQUEUE_SIZE_def
  have q: "snq_ok (SNQueue_Reset demo_queue)" "snq_pending (SNQueue_Reset demo_queue) = []"
    using snq_reset snq_demo by simp_all
  have p1: "snq_pending (io_Queue ?io1) = [\<lparr>e_uCycle = 5, e_uAddr = 1, e_uData = 3\<rparr>]"
    using snq_enqueue_pending [OF q(1), of 5 1 3] snq_enqueue_empty [OF q, of 5 1 3] q(2)
    by (simp add: SNSpcIO_EnqueueWrite_def demo_io_def SNSpcIO_Reset_def case_prod_unfold Let_def)
  have f: "fst (SNQueue_Enqueue 9 1 8 (io_Queue ?io1))" by (simp add: enq_defs)
  have p: "snq_pending (io_Queue ?io) = [\<lparr>e_uCycle = 5, e_uAddr = 1, e_uData = 3\<rparr>, \<lparr>e_uCycle = 9, e_uAddr = 1, e_uData = 8\<rparr>]"
    using snq_enqueue_pending [of "io_Queue ?io1" 9 1 8] f p1 ok1
    by (simp add: io_ok_def SNSpcIO_EnqueueWrite_def [of 9] case_prod_unfold Let_def)
  have w: "apu_w ?io = [0, 0, 0, 0]"
    by (simp add: SNSpcIO_EnqueueWrite_def demo_io_def SNSpcIO_Reset_def Let_def case_prod_unfold numeral_eq_Suc)
  show ?thesis using port_writes_in_order [OF ok, of 7] by (auto simp: p w store_port_def)
qed

section \<open>Samples\<close>

text \<open>The samples a block stands for: its nibbles, sign-extended and scaled, high nibble first.\<close>

definition brr_input :: "u8 list \<Rightarrow> nat \<Rightarrow> int" where
  "brr_input block i =
     signed_take_bit 3 (let b = uint (block ! (1 + i div 2)) in if even i then drop_bit 4 b else b) * 2 ^ brr_range (hd block)"

lemma brr_nibbles_nth:
  assumes "r \<le> 12" and "i < 2 * length bs"
  shows "brr_nibbles r bs ! i = signed_take_bit 3 (let b = uint (bs ! (i div 2)) in if even i then drop_bit 4 b else b) * 2 ^ r"
  using assms(2)
proof (induction bs arbitrary: i)
  case (Cons b bs)
  have e: "brr_nibbles r (b # bs) = brr_nibble r (drop_bit 4 (uint b)) # brr_nibble r (uint b) # brr_nibbles r bs"
    by (simp add: brr_nibbles_def)
  consider "i = 0" | "i = 1" | j where "i = j + 2" by (metis One_nat_def Suc_1 add_2_eq_Suc' not0_implies_Suc)
  then show ?case
  proof cases
    case 3
    with Cons show ?thesis by (simp add: e)
  qed (simp_all add: e brr_nibble_exact [OF assms(1)])
qed simp

text \<open>
  C24: the sample decoder. A block gives sixteen even 16-bit samples. Where the linear prediction from
  the block's input and the two preceding samples stays in range, the decoded sample is that
  prediction, rounded down by less than five units.
\<close>

theorem brr_accuracy:
  assumes "length block = 9" and "i < 16"
  shows "let out = p1 # p0 # snd (SNSpcBRRDecode block p0 p1);
             (f0, f1) = u_SNSpcDsp_FilterParm ! unat (drop_bit 2 (hd block) AND 3);
             ideal = 256 * brr_input block i + f0 * out ! (i + 1) + f1 * out ! i in
    length out = 18 \<and> even (out ! (i + 2)) \<and> -0x8000 \<le> out ! (i + 2) \<and> out ! (i + 2) \<le> 0x7FFF \<and>
    (-8387330 \<le> ideal \<and> ideal < 8388608 \<longrightarrow> 256 * out ! (i + 2) \<le> ideal \<and> ideal < 256 * (out ! (i + 2) + 5))"
proof -
  define out where "out = p1 # p0 # snd (SNSpcBRRDecode block p0 p1)"
  define f where "f = u_SNSpcDsp_FilterParm ! unat (drop_bit 2 (hd block) AND 3)"
  define ideal where "ideal = 256 * brr_input block i + fst f * out ! (i + 1) + snd f * out ! i"
  let ?ins = "brr_nibbles (brr_range (hd block)) (tl block)"
  have l: "length (tl block) = 8" "tl block ! (i div 2) = block ! (1 + i div 2)"
    using assms(1,2) by (simp_all add: nth_tl)
  have ins: "length ?ins = 16" "?ins ! i = brr_input block i"
    using brr_nibbles_nth [OF brr_range_le [of "hd block"], of i "tl block"] l assms(2)
    by (simp_all add: length_brr_nibbles brr_input_def)
  have out: "out = p1 # p0 # brr_filter_loop (fst f) (snd f) ?ins p0 p1"
    by (simp add: out_def f_def SNSpcBRRDecode_def Let_def u_SNSpcBRRFilter3_def)
  have s: "out ! (i + 2) = brr_sample (fst f) (snd f) (brr_input block i) (out ! (i + 1)) (out ! i)"
    unfolding out ins(2) [symmetric] by (rule brr_filter_nth) (simp add: ins assms(2))
  let ?sum = "brr_sum (fst f) (snd f) (brr_input block i) (out ! (i + 1)) (out ! i)"
  have b: "512 * ?sum \<le> ideal" "ideal \<le> 512 * ?sum + 1278"
    using brr_sum_bounds [where ?f0.0 = "fst f" and ?f1.0 = "snd f" and i = "brr_input block i" and ?p0.0 = "out ! (i + 1)" and ?p1.0 = "out ! i"]
    by (simp_all add: ideal_def ac_simps)
  have "256 * out ! (i + 2) \<le> ideal \<and> ideal < 256 * (out ! (i + 2) + 5)" if "-8387330 \<le> ideal" "ideal < 8388608"
  proof -
    have "out ! (i + 2) = 2 * ?sum" unfolding s by (rule brr_sample_exact) (use b that in linarith)+
    with b show ?thesis by simp
  qed
  moreover have "length out = 18" by (simp add: out length_brr_filter_loop ins)
  moreover have "even (out ! (i + 2))" "-0x8000 \<le> out ! (i + 2)" "out ! (i + 2) \<le> 0x7FFF"
    unfolding s by (rule brr_sample_even brr_sample_range)+
  ultimately have "length out = 18 \<and> even (out ! (i + 2)) \<and> -0x8000 \<le> out ! (i + 2) \<and> out ! (i + 2) \<le> 0x7FFF \<and>
    (-8387330 \<le> ideal \<and> ideal < 8388608 \<longrightarrow> 256 * out ! (i + 2) \<le> ideal \<and> ideal < 256 * (out ! (i + 2) + 5))"
    by blast
  then show ?thesis unfolding ideal_def f_def out_def Let_def case_prod_unfold .
qed

text \<open>A block of the second filter (header \<open>0x94\<close>: scale 9, \<open>15/16\<close> of the previous sample).\<close>

theorem brr_accuracy_witness:
  "256 * snd (SNSpcBRRDecode [0x94, 0x71, 0, 0, 0, 0, 0, 0, 0] 1000 0) ! 0 \<le> (256 * 3584 + 240 * 1000 :: int) \<and>
   256 * 3584 + 240 * 1000 < 256 * (snd (SNSpcBRRDecode [0x94, 0x71, 0, 0, 0, 0, 0, 0, 0] 1000 0) ! 0 + 5)"
proof -
  have i: "brr_input [0x94, 0x71, 0, 0, 0, 0, 0, 0, 0] 0 = 3584"
    by (simp add: brr_input_def brr_range_def drop_bit_eq_div signed_take_bit_eq_if_positive)
  show ?thesis
    using brr_accuracy [of "[0x94, 0x71, 0, 0, 0, 0, 0, 0, 0]" 0 0 1000]
    by (simp add: i u_SNSpcDsp_FilterParm_def drop_bit_eq_div)
qed

end
