(* ===== verification/C_Arrays.thy ===== *)
theory C_Arrays
  imports Prelude
begin

text \<open>
  Fixed-size C arrays as lists. An access outside the array is undefined behaviour: \<^const>\<open>None\<close>.
\<close>

definition arr_get :: "'a list \<Rightarrow> nat \<Rightarrow> 'a option" where
  "arr_get xs i = (if i < length xs then Some (xs ! i) else None)"

definition arr_set :: "'a list \<Rightarrow> nat \<Rightarrow> 'a \<Rightarrow> 'a list option" where
  "arr_set xs i v = (if i < length xs then Some (xs[i := v]) else None)"

definition arr_upd :: "'a list \<Rightarrow> nat \<Rightarrow> ('a \<Rightarrow> 'a) \<Rightarrow> 'a list option" where
  "arr_upd xs i f = (if i < length xs then Some (xs[i := f (xs ! i)]) else None)"

lemma arr_get_in [simp]: "i < length xs \<Longrightarrow> arr_get xs i = Some (xs ! i)"
  and arr_set_in [simp]: "i < length xs \<Longrightarrow> arr_set xs i v = Some (xs[i := v])"
  and arr_upd_in [simp]: "i < length xs \<Longrightarrow> arr_upd xs i f = Some (xs[i := f (xs ! i)])"
  by (simp_all add: arr_get_def arr_set_def arr_upd_def)

lemma arr_set_length: "arr_set xs i v = Some ys \<Longrightarrow> length ys = length xs"
  and arr_upd_length: "arr_upd xs i f = Some ys \<Longrightarrow> length ys = length xs"
  by (auto simp: arr_set_def arr_upd_def split: if_splits)

text \<open>Masking an index keeps it below a power of two.\<close>

lemma unat_and_mask_less: "unat (a AND mask n) < 2 ^ n" for a :: "'a::len word"
  by (simp add: unat_and_mask)

lemma and_masks [simp]:
  "unat (a AND 0xFF) = unat a mod 256" "unat (a AND 0x1F) = unat a mod 32" "unat (a AND 7) = unat a mod 8"
  "unat (a AND 3) = unat a mod 4" for a :: "'a::len word"
  using unat_and_mask [of a 8] unat_and_mask [of a 5] unat_and_mask [of a 3] unat_and_mask [of a 2]
  by (simp_all add: mask_eq_exp_minus_1)

end
