(* ===== verification/Sn_Ppu.thy ===== *)
theory Sn_Ppu
  imports C_Arrays C_Integers Sn_Queue
begin

text \<open>
  The picture processor (\<^verbatim>\<open>snppu.cpp\<close>, \<^verbatim>\<open>snppu.h\<close>, \<^verbatim>\<open>snesreg.cpp\<close>): its registers,
  the palette, video and object memories behind data ports, and the queue that delays register
  writes until the lines before them have been drawn. The renderer is behind the abstract class
  \<^verbatim>\<open>ISnesPPURender\<close>: a base object with the update flags, which the PPU sets, and three virtual
  functions, the parameter \<open>V\<close>, which see the PPU through its public functions.
\<close>

section \<open>Registers that are written or read twice\<close>

text \<open>\<^verbatim>\<open>Write8LoHi\<close>: the last byte written is the high one.\<close>

definition Write8LoHi :: "u16 \<Rightarrow> u8 \<Rightarrow> u16" where
  "Write8LoHi w uData = drop_bit 8 w OR push_bit 8 (ucast uData)"

record SnesReg16FT =
  ft_Reg :: u16
  bFlip :: bool

definition SnesReg16FT_Write8 :: "SnesReg16FT \<Rightarrow> u8 \<Rightarrow> SnesReg16FT" where
  "SnesReg16FT_Write8 r uData =
     (if \<not> bFlip r then r\<lparr>ft_Reg := set_lo8 (ft_Reg r) uData, bFlip := True\<rparr>
      else r\<lparr>ft_Reg := set_hi8 (ft_Reg r) uData, bFlip := False\<rparr>)"

definition SnesReg16FT_Read8 :: "SnesReg16FT \<Rightarrow> u8 \<times> SnesReg16FT" where
  "SnesReg16FT_Read8 r =
     (if \<not> bFlip r then (lo8 (ft_Reg r), r\<lparr>bFlip := True\<rparr>) else (hi8 (ft_Reg r), r\<lparr>bFlip := False\<rparr>))"

definition SnesReg16FT_Reset :: "SnesReg16FT \<Rightarrow> SnesReg16FT" where
  "SnesReg16FT_Reset r = r\<lparr>bFlip := False\<rparr>"

section \<open>State\<close>

record SnesPPURegsT =
  r_inidisp :: u8
  r_obsel :: u8
  r_oamaddr :: u16
  r_oamaddrlatch :: u16
  r_oampri :: u16
  r_bgmode :: u8
  r_mosaic :: u8
  r_bg1sc :: u8
  r_bg2sc :: u8
  r_bg3sc :: u8
  r_bg4sc :: u8
  r_bg12nba :: u8
  r_bg34nba :: u8
  r_bgofslo :: u8
  r_bg1hofs :: u16
  r_bg1vofs :: u16
  r_bg2hofs :: u16
  r_bg2vofs :: u16
  r_bg3hofs :: u16
  r_bg3vofs :: u16
  r_bg4hofs :: u16
  r_bg4vofs :: u16
  r_vmain :: u8
  r_vmaddr :: u16
  r_vmreadlatch :: u16
  r_vminc :: "u8 \<times> u8"
  r_m7sel :: u8
  r_m7a :: u16
  r_m7b :: u16
  r_m7c :: u16
  r_m7d :: u16
  r_m7x :: u16
  r_m7y :: u16
  r_mpyl :: u8
  r_mpym :: u8
  r_mpyh :: u8
  r_cgadd :: u16
  r_w12sel :: u8
  r_w34sel :: u8
  r_wobjsel :: u8
  r_wh0 :: u8
  r_wh1 :: u8
  r_wh2 :: u8
  r_wh3 :: u8
  r_wbglog :: u8
  r_wobjlog :: u8
  r_tm :: u8
  r_ts :: u8
  r_tmw :: u8
  r_tsw :: u8
  r_cgwsel :: u8
  r_cgadsub :: u8
  r_coldata :: u16
  r_setini :: u8
  r_ophct :: SnesReg16FT
  r_opvct :: SnesReg16FT
  r_stat77 :: u8
  r_stat78 :: u8

text \<open>The base class of the renderer; a renderer extends it with its own state.\<close>

record ISnesPPURenderT =
  m_UpdateFlags :: u32

definition SNESPPURENDER_UPDATE_OBJ :: u32 where "SNESPPURENDER_UPDATE_OBJ = 0x01"
definition SNESPPURENDER_UPDATE_PAL :: u32 where "SNESPPURENDER_UPDATE_PAL = 0x02"
definition SNESPPURENDER_UPDATE_BGSCR :: u32 where "SNESPPURENDER_UPDATE_BGSCR = 0x04"
definition SNESPPURENDER_UPDATE_BGCHR :: u32 where "SNESPPURENDER_UPDATE_BGCHR = 0x08"
definition SNESPPURENDER_UPDATE_OBJPRI :: u32 where "SNESPPURENDER_UPDATE_OBJPRI = 0x10"
definition SNESPPURENDER_UPDATE_WINDOW :: u32 where "SNESPPURENDER_UPDATE_WINDOW = 0x20"
definition SNESPPURENDER_UPDATE_ALL :: u32 where "SNESPPURENDER_UPDATE_ALL = 0xFFFFFFFF"

definition SetUpdateFlags :: "u32 \<Rightarrow> 'r ISnesPPURenderT_scheme \<Rightarrow> 'r ISnesPPURenderT_scheme" where
  "SetUpdateFlags uFlags r = r\<lparr>m_UpdateFlags := m_UpdateFlags r OR uFlags\<rparr>"

definition SNESPPU_VRAM_NUMWORDS :: nat where "SNESPPU_VRAM_NUMWORDS = 0x8000"
definition SNESPPU_CGRAM_NUM :: nat where "SNESPPU_CGRAM_NUM = 256"
definition SNESPPU_OAM_SIZE :: nat where "SNESPPU_OAM_SIZE = 544"

text \<open>
  What the public functions of the class show: the registers and the memories. \<open>m_OAM\<close> is the
  struct of the objects as the bytes the data port sees: 128 objects of four bytes and 32 bytes of
  high bits.
\<close>

record ppu_view =
  ppu_Regs :: SnesPPURegsT
  m_CGRAM :: "u16 list"
  m_VRAM :: "u16 list"
  m_OAM :: "u8 list"

record 'r SnesPPUT = ppu_view +
  ppu_uLine :: u32
  m_bVBlank :: bool
  m_pRender :: "'r ISnesPPURenderT_scheme"
  ppu_Queue :: SNQueueT

record 'r render_vt =
  v_UpdateVRAM :: "u32 \<Rightarrow> 'r ISnesPPURenderT_scheme \<Rightarrow> 'r ISnesPPURenderT_scheme option"
  v_UpdateCGRAM :: "ppu_view \<Rightarrow> u32 \<Rightarrow> u16 \<Rightarrow> 'r ISnesPPURenderT_scheme \<Rightarrow> 'r ISnesPPURenderT_scheme option"
  v_RenderLine :: "ppu_view \<Rightarrow> u32 \<Rightarrow> 'r ISnesPPURenderT_scheme \<Rightarrow> 'r ISnesPPURenderT_scheme option"

text \<open>Calling the renderer.\<close>

definition call_render :: "('r ISnesPPURenderT_scheme \<Rightarrow> 'r ISnesPPURenderT_scheme option) \<Rightarrow> 'r SnesPPUT \<Rightarrow> 'r SnesPPUT option" where
  "call_render f p = do { r \<leftarrow> f (m_pRender p); Some (p\<lparr>m_pRender := r\<rparr>) }"

definition UpdateVRAM :: "'r render_vt \<Rightarrow> u32 \<Rightarrow> 'r SnesPPUT \<Rightarrow> 'r SnesPPUT option" where
  "UpdateVRAM V a p = call_render (v_UpdateVRAM V a) p"

definition UpdateCGRAM :: "'r render_vt \<Rightarrow> u32 \<Rightarrow> u16 \<Rightarrow> 'r SnesPPUT \<Rightarrow> 'r SnesPPUT option" where
  "UpdateCGRAM V a c p = call_render (v_UpdateCGRAM V (ppu_view.truncate p) a c) p"

definition RenderLine :: "'r render_vt \<Rightarrow> u32 \<Rightarrow> 'r SnesPPUT \<Rightarrow> 'r SnesPPUT option" where
  "RenderLine V iLine p = call_render (v_RenderLine V (ppu_view.truncate p) iLine) p"

definition ppu_upd :: "(SnesPPURegsT \<Rightarrow> SnesPPURegsT) \<Rightarrow> 'r SnesPPUT \<Rightarrow> 'r SnesPPUT" where
  "ppu_upd f p = p\<lparr>ppu_Regs := f (ppu_Regs p)\<rparr>"

definition render_flags :: "u32 \<Rightarrow> 'r SnesPPUT \<Rightarrow> 'r SnesPPUT" where
  "render_flags uFlags p = p\<lparr>m_pRender := SetUpdateFlags uFlags (m_pRender p)\<rparr>"

definition IsForceBlank :: "'z ppu_view_scheme \<Rightarrow> bool" where
  "IsForceBlank p \<longleftrightarrow> r_inidisp (ppu_Regs p) AND 0x80 = 0"

definition GetIntensity :: "'z ppu_view_scheme \<Rightarrow> u32" where
  "GetIntensity p = ucast (r_inidisp (ppu_Regs p) AND 0xF)"

section \<open>The palette\<close>

definition cg_index :: "SnesPPURegsT \<Rightarrow> u32" where
  "cg_index r = drop_bit 1 (ucast (r_cgadd r)) AND 0xFF"

definition cg_next :: "SnesPPURegsT \<Rightarrow> SnesPPURegsT" where
  "cg_next r = r\<lparr>r_cgadd := r_cgadd r + 1\<rparr>"

definition WriteCGDATA :: "'r render_vt \<Rightarrow> u8 \<Rightarrow> 'r SnesPPUT \<Rightarrow> 'r SnesPPUT option" where
  "WriteCGDATA V uData p =
     do { let uCGAddr = cg_index (ppu_Regs p);
          cg \<leftarrow> arr_upd (m_CGRAM p) (unat uCGAddr)
                  (\<lambda>c. if r_cgadd (ppu_Regs p) AND 1 = 0 then (c AND 0xFF00) OR ucast uData
                       else (c AND 0x00FF) OR push_bit 8 (ucast uData));
          UpdateCGRAM V uCGAddr (cg ! unat uCGAddr) (ppu_upd cg_next (p\<lparr>m_CGRAM := cg\<rparr>)) }"

definition ReadCGDATA :: "'r SnesPPUT \<Rightarrow> (u8 \<times> 'r SnesPPUT) option" where
  "ReadCGDATA p =
     do { c \<leftarrow> arr_get (m_CGRAM p) (unat (cg_index (ppu_Regs p)));
          let uData = (if r_cgadd (ppu_Regs p) AND 1 = 0 then ucast (c AND 0xFF) else ucast (drop_bit 8 c));
          Some (uData, ppu_upd cg_next p) }"

section \<open>Video memory\<close>

definition u_SwizzleVramAddr :: "u32 \<Rightarrow> u32 \<Rightarrow> u32" where
  "u_SwizzleVramAddr a full =
     (if full = 1 then (a AND 0x7F00) OR push_bit 3 (a AND 0x1F) OR (drop_bit 5 a AND 7)
      else if full = 2 then (a AND 0x7E00) OR push_bit 3 (a AND 0x3F) OR (drop_bit 6 a AND 7)
      else if full = 3 then (a AND 0x7C00) OR push_bit 3 (a AND 0x7F) OR (drop_bit 7 a AND 7)
      else a AND 0x7FFF)"

definition vm_index :: "u16 \<Rightarrow> SnesPPURegsT \<Rightarrow> u32" where
  "vm_index a r = u_SwizzleVramAddr (ucast a) (drop_bit 2 (ucast (r_vmain r)) AND 3)"

definition WriteVMDATAL :: "'r render_vt \<Rightarrow> u8 \<Rightarrow> 'r SnesPPUT \<Rightarrow> 'r SnesPPUT option" where
  "WriteVMDATAL V uData p =
     do { let r = ppu_Regs p;
          let uVramAddr = vm_index (r_vmaddr r) r;
          vm \<leftarrow> arr_upd (m_VRAM p) (unat uVramAddr) (\<lambda>w. set_lo8 w uData);
          UpdateVRAM V uVramAddr (p\<lparr>m_VRAM := vm,
            ppu_Regs := r\<lparr>r_vmreadlatch := r_vmaddr r, r_vmaddr := r_vmaddr r + ucast (fst (r_vminc r))\<rparr>\<rparr>) }"

definition WriteVMDATAH :: "'r render_vt \<Rightarrow> u8 \<Rightarrow> 'r SnesPPUT \<Rightarrow> 'r SnesPPUT option" where
  "WriteVMDATAH V uData p =
     do { let r = ppu_Regs p;
          let uVramAddr = vm_index (r_vmaddr r) r;
          vm \<leftarrow> arr_upd (m_VRAM p) (unat uVramAddr) (\<lambda>w. set_hi8 w uData);
          UpdateVRAM V uVramAddr (p\<lparr>m_VRAM := vm,
            ppu_Regs := r\<lparr>r_vmreadlatch := r_vmaddr r, r_vmaddr := r_vmaddr r + ucast (snd (r_vminc r))\<rparr>\<rparr>) }"

definition WriteVMDATALH :: "'r render_vt \<Rightarrow> u8 \<Rightarrow> u8 \<Rightarrow> 'r SnesPPUT \<Rightarrow> 'r SnesPPUT option" where
  "WriteVMDATALH V uDataL uDataH p =
     do { let r = ppu_Regs p;
          let uVramAddr = vm_index (r_vmaddr r) r;
          vm \<leftarrow> arr_upd (m_VRAM p) (unat uVramAddr) (\<lambda>w. set_lo8 w uDataL);
          let (r, uVramAddr) =
            (if fst (r_vminc r) \<noteq> 0
             then let r = r\<lparr>r_vmaddr := r_vmaddr r + ucast (fst (r_vminc r))\<rparr> in (r, vm_index (r_vmaddr r) r)
             else (r, uVramAddr));
          vm \<leftarrow> arr_upd vm (unat uVramAddr) (\<lambda>w. set_hi8 w uDataH);
          UpdateVRAM V uVramAddr (p\<lparr>m_VRAM := vm,
            ppu_Regs := r\<lparr>r_vmaddr := r_vmaddr r + ucast (snd (r_vminc r))\<rparr>\<rparr>) }"

definition ReadVMDATAL :: "'r SnesPPUT \<Rightarrow> (u8 \<times> 'r SnesPPUT) option" where
  "ReadVMDATAL p =
     do { let r = ppu_Regs p;
          w \<leftarrow> arr_get (m_VRAM p) (unat (vm_index (r_vmreadlatch r) r));
          let p = (if fst (r_vminc r) \<noteq> 0
                   then p\<lparr>ppu_Regs := r\<lparr>r_vmreadlatch := r_vmaddr r, r_vmaddr := r_vmaddr r + ucast (fst (r_vminc r))\<rparr>\<rparr>
                   else p);
          Some (lo8 w, p) }"

definition ReadVMDATAH :: "'r SnesPPUT \<Rightarrow> (u8 \<times> 'r SnesPPUT) option" where
  "ReadVMDATAH p =
     do { let r = ppu_Regs p;
          w \<leftarrow> arr_get (m_VRAM p) (unat (vm_index (r_vmreadlatch r) r));
          let p = (if snd (r_vminc r) \<noteq> 0
                   then p\<lparr>ppu_Regs := r\<lparr>r_vmreadlatch := r_vmaddr r, r_vmaddr := r_vmaddr r + ucast (snd (r_vminc r))\<rparr>\<rparr>
                   else p);
          Some (hi8 w, p) }"

section \<open>Object memory\<close>

definition oam_index :: "SnesPPURegsT \<Rightarrow> u32" where
  "oam_index r =
     (let a = ucast (r_oamaddr r) AND 0x3FF in
      if unat a \<ge> SNESPPU_OAM_SIZE then a AND (of_nat SNESPPU_OAM_SIZE - 1) else a)"

definition oam_next :: "SnesPPURegsT \<Rightarrow> SnesPPURegsT" where
  "oam_next r = r\<lparr>r_oamaddr := r_oamaddr r + 1\<rparr>"

definition WriteOAMDATA :: "u8 \<Rightarrow> 'r SnesPPUT \<Rightarrow> 'r SnesPPUT option" where
  "WriteOAMDATA uData p =
     do { oam \<leftarrow> arr_set (m_OAM p) (unat (oam_index (ppu_Regs p))) uData;
          Some (render_flags SNESPPURENDER_UPDATE_OBJ (ppu_upd oam_next (p\<lparr>m_OAM := oam\<rparr>))) }"

definition ReadOAMDATA :: "'r SnesPPUT \<Rightarrow> (u8 \<times> 'r SnesPPUT) option" where
  "ReadOAMDATA p =
     do { uData \<leftarrow> arr_get (m_OAM p) (unat (oam_index (ppu_Regs p)));
          Some (uData, ppu_upd oam_next p) }"

section \<open>The multiplier of mode 7\<close>

text \<open>The product of two Int16 values fits an Int32.\<close>

definition mat_product :: "SnesPPURegsT \<Rightarrow> int" where
  "mat_product r = to_Int16 (uint (r_m7a r)) * drop_bit 8 (to_Int16 (uint (r_m7b r)))"

definition UpdateMatMul :: "SnesPPURegsT \<Rightarrow> SnesPPURegsT" where
  "UpdateMatMul r =
     (let iProduct = mat_product r in
      r\<lparr>r_mpyl := word_of_int iProduct, r_mpym := word_of_int (drop_bit 8 iProduct),
        r_mpyh := word_of_int (drop_bit 16 iProduct)\<rparr>)"

section \<open>Register writes\<close>

text \<open>Writes that store the byte; those of the second kind tell the renderer when it has changed.\<close>

definition wr_reg :: "(u8 \<Rightarrow> SnesPPURegsT \<Rightarrow> SnesPPURegsT) \<Rightarrow> u8 \<Rightarrow> 'r SnesPPUT \<Rightarrow> 'r SnesPPUT option" where
  "wr_reg f uData p = Some (ppu_upd (f uData) p)"

definition wr_flag :: "(SnesPPURegsT \<Rightarrow> u8) \<Rightarrow> (u8 \<Rightarrow> SnesPPURegsT \<Rightarrow> SnesPPURegsT) \<Rightarrow> u32 \<Rightarrow> u8 \<Rightarrow> 'r SnesPPUT \<Rightarrow> 'r SnesPPUT option" where
  "wr_flag g f uFlags uData p =
     (let p = (if g (ppu_Regs p) \<noteq> uData then render_flags uFlags p else p) in Some (ppu_upd (f uData) p))"

definition scroll :: "u8 \<Rightarrow> SnesPPURegsT \<Rightarrow> u16" where
  "scroll uData r = push_bit 8 (ucast uData) OR ucast (r_bgofslo r)"

definition oam_pri :: "SnesPPURegsT \<Rightarrow> SnesPPURegsT" where
  "oam_pri r =
     (let r = (if r_oamaddr r AND 0x8000 \<noteq> 0 then r\<lparr>r_oampri := drop_bit 2 (r_oamaddr r AND 0x1FF)\<rparr> else r)
      in r\<lparr>r_oamaddrlatch := r_oamaddr r\<rparr>)"

definition w_oamaddl :: "u8 \<Rightarrow> SnesPPURegsT \<Rightarrow> SnesPPURegsT" where
  "w_oamaddl uData r = oam_pri (r\<lparr>r_oamaddr := (r_oamaddr r AND 0x8000) OR push_bit 1 (ucast uData)\<rparr>)"

definition w_oamaddh :: "u8 \<Rightarrow> SnesPPURegsT \<Rightarrow> SnesPPURegsT" where
  "w_oamaddh uData r = oam_pri (r\<lparr>r_oamaddr :=
     (r_oamaddr r AND 0x1FF) OR push_bit 9 (ucast (uData AND 0x01)) OR push_bit 8 (ucast (uData AND 0x80))\<rparr>)"

definition u_SNPPU_VramInc :: "u8 list" where
  "u_SNPPU_VramInc = [1, 32, 128, 128]"

definition w_vmain :: "u8 \<Rightarrow> SnesPPURegsT \<Rightarrow> SnesPPURegsT" where
  "w_vmain uData r =
     (let i = u_SNPPU_VramInc ! unat (uData AND 3) in
      if uData AND 0x80 \<noteq> 0 then r\<lparr>r_vmain := uData, r_vminc := (0, i)\<rparr>
      else r\<lparr>r_vmain := uData, r_vminc := (i, 0)\<rparr>)"

text \<open>One component of the fixed colour.\<close>

definition col_part :: "u8 \<Rightarrow> nat \<Rightarrow> u8 \<Rightarrow> u16 \<Rightarrow> u16" where
  "col_part b s uData c =
     (if uData AND b \<noteq> 0 then (c AND NOT (push_bit s 0x1F)) OR push_bit s (ucast (uData AND 0x1F)) else c)"

definition w_coldata :: "u8 \<Rightarrow> SnesPPURegsT \<Rightarrow> SnesPPURegsT" where
  "w_coldata uData r =
     r\<lparr>r_coldata := col_part 0x80 10 uData (col_part 0x40 5 uData (col_part 0x20 0 uData (r_coldata r)))\<rparr>"

text \<open>The switch of \<^verbatim>\<open>Write8\<close>: a register without an entry ignores the write.\<close>

definition ppu_write_cases :: "'r render_vt \<Rightarrow> (u32 \<times> (u8 \<Rightarrow> 'r SnesPPUT \<Rightarrow> 'r SnesPPUT option)) list" where
  "ppu_write_cases V =
    [(0x2100, wr_reg (\<lambda>d r. r\<lparr>r_inidisp := d\<rparr>)),
     (0x2101, wr_flag r_obsel (\<lambda>d r. r\<lparr>r_obsel := d\<rparr>) SNESPPURENDER_UPDATE_OBJ),
     (0x2102, wr_reg w_oamaddl),
     (0x2103, wr_reg w_oamaddh),
     (0x2104, WriteOAMDATA),
     (0x2105, wr_flag r_bgmode (\<lambda>d r. r\<lparr>r_bgmode := d\<rparr>) (SNESPPURENDER_UPDATE_BGSCR OR SNESPPURENDER_UPDATE_BGCHR)),
     (0x2106, wr_reg (\<lambda>d r. r\<lparr>r_mosaic := d\<rparr>)),
     (0x2107, wr_flag r_bg1sc (\<lambda>d r. r\<lparr>r_bg1sc := d\<rparr>) SNESPPURENDER_UPDATE_BGSCR),
     (0x2108, wr_flag r_bg2sc (\<lambda>d r. r\<lparr>r_bg2sc := d\<rparr>) SNESPPURENDER_UPDATE_BGSCR),
     (0x2109, wr_flag r_bg3sc (\<lambda>d r. r\<lparr>r_bg3sc := d\<rparr>) SNESPPURENDER_UPDATE_BGSCR),
     (0x210A, wr_flag r_bg4sc (\<lambda>d r. r\<lparr>r_bg4sc := d\<rparr>) SNESPPURENDER_UPDATE_BGSCR),
     (0x210B, wr_flag r_bg12nba (\<lambda>d r. r\<lparr>r_bg12nba := d\<rparr>) SNESPPURENDER_UPDATE_BGCHR),
     (0x210C, wr_flag r_bg34nba (\<lambda>d r. r\<lparr>r_bg34nba := d\<rparr>) SNESPPURENDER_UPDATE_BGCHR),
     (0x210D, wr_reg (\<lambda>d r. r\<lparr>r_bg1hofs := scroll d r, r_bgofslo := d\<rparr>)),
     (0x210E, wr_reg (\<lambda>d r. r\<lparr>r_bg1vofs := scroll d r, r_bgofslo := d\<rparr>)),
     (0x210F, wr_reg (\<lambda>d r. r\<lparr>r_bg2hofs := scroll d r, r_bgofslo := d\<rparr>)),
     (0x2110, wr_reg (\<lambda>d r. r\<lparr>r_bg2vofs := scroll d r, r_bgofslo := d\<rparr>)),
     (0x2111, wr_reg (\<lambda>d r. r\<lparr>r_bg3hofs := scroll d r, r_bgofslo := d\<rparr>)),
     (0x2112, wr_reg (\<lambda>d r. r\<lparr>r_bg3vofs := scroll d r, r_bgofslo := d\<rparr>)),
     (0x2113, wr_reg (\<lambda>d r. r\<lparr>r_bg4hofs := scroll d r, r_bgofslo := d\<rparr>)),
     (0x2114, wr_reg (\<lambda>d r. r\<lparr>r_bg4vofs := scroll d r, r_bgofslo := d\<rparr>)),
     (0x2115, wr_reg w_vmain),
     (0x2116, wr_reg (\<lambda>d r. r\<lparr>r_vmaddr := set_lo8 (r_vmaddr r) d, r_vmreadlatch := set_lo8 (r_vmreadlatch r) d\<rparr>)),
     (0x2117, wr_reg (\<lambda>d r. r\<lparr>r_vmaddr := set_hi8 (r_vmaddr r) d, r_vmreadlatch := set_hi8 (r_vmreadlatch r) d\<rparr>)),
     (0x2118, WriteVMDATAL V),
     (0x2119, WriteVMDATAH V),
     (0x211A, wr_reg (\<lambda>d r. r\<lparr>r_m7sel := d\<rparr>)),
     (0x211B, wr_reg (\<lambda>d r. UpdateMatMul (r\<lparr>r_m7a := Write8LoHi (r_m7a r) d\<rparr>))),
     (0x211C, wr_reg (\<lambda>d r. UpdateMatMul (r\<lparr>r_m7b := Write8LoHi (r_m7b r) d\<rparr>))),
     (0x211D, wr_reg (\<lambda>d r. r\<lparr>r_m7c := Write8LoHi (r_m7c r) d\<rparr>)),
     (0x211E, wr_reg (\<lambda>d r. r\<lparr>r_m7d := Write8LoHi (r_m7d r) d\<rparr>)),
     (0x211F, wr_reg (\<lambda>d r. r\<lparr>r_m7x := Write8LoHi (r_m7x r) d\<rparr>)),
     (0x2120, wr_reg (\<lambda>d r. r\<lparr>r_m7y := Write8LoHi (r_m7y r) d\<rparr>)),
     (0x2121, wr_reg (\<lambda>d r. r\<lparr>r_cgadd := push_bit 1 (ucast d)\<rparr>)),
     (0x2122, WriteCGDATA V),
     (0x2123, wr_flag r_w12sel (\<lambda>d r. r\<lparr>r_w12sel := d\<rparr>) SNESPPURENDER_UPDATE_WINDOW),
     (0x2124, wr_flag r_w34sel (\<lambda>d r. r\<lparr>r_w34sel := d\<rparr>) SNESPPURENDER_UPDATE_WINDOW),
     (0x2125, wr_flag r_wobjsel (\<lambda>d r. r\<lparr>r_wobjsel := d\<rparr>) SNESPPURENDER_UPDATE_WINDOW),
     (0x2126, wr_flag r_wh0 (\<lambda>d r. r\<lparr>r_wh0 := d\<rparr>) SNESPPURENDER_UPDATE_WINDOW),
     (0x2127, wr_flag r_wh1 (\<lambda>d r. r\<lparr>r_wh1 := d\<rparr>) SNESPPURENDER_UPDATE_WINDOW),
     (0x2128, wr_flag r_wh2 (\<lambda>d r. r\<lparr>r_wh2 := d\<rparr>) SNESPPURENDER_UPDATE_WINDOW),
     (0x2129, wr_flag r_wh3 (\<lambda>d r. r\<lparr>r_wh3 := d\<rparr>) SNESPPURENDER_UPDATE_WINDOW),
     (0x212A, wr_flag r_wbglog (\<lambda>d r. r\<lparr>r_wbglog := d\<rparr>) SNESPPURENDER_UPDATE_WINDOW),
     (0x212B, wr_flag r_wobjlog (\<lambda>d r. r\<lparr>r_wobjlog := d\<rparr>) SNESPPURENDER_UPDATE_WINDOW),
     (0x212C, wr_reg (\<lambda>d r. r\<lparr>r_tm := d\<rparr>)),
     (0x212D, wr_reg (\<lambda>d r. r\<lparr>r_ts := d\<rparr>)),
     (0x212E, wr_reg (\<lambda>d r. r\<lparr>r_tmw := d\<rparr>)),
     (0x212F, wr_reg (\<lambda>d r. r\<lparr>r_tsw := d\<rparr>)),
     (0x2130, wr_reg (\<lambda>d r. r\<lparr>r_cgwsel := d\<rparr>)),
     (0x2131, wr_reg (\<lambda>d r. r\<lparr>r_cgadsub := d\<rparr>)),
     (0x2132, wr_reg w_coldata),
     (0x2133, wr_reg (\<lambda>d r. r\<lparr>r_setini := d\<rparr>))]"

definition SnesPPU_Write8 :: "'r render_vt \<Rightarrow> u32 \<Rightarrow> u8 \<Rightarrow> 'r SnesPPUT \<Rightarrow> 'r SnesPPUT option" where
  "SnesPPU_Write8 V uAddr uData p =
     (case map_of (ppu_write_cases V) uAddr of Some w \<Rightarrow> w uData p | None \<Rightarrow> Some p)"

section \<open>Frames and lines\<close>

definition SnesPPU_BeginFrame :: "'r SnesPPUT \<Rightarrow> 'r SnesPPUT" where
  "SnesPPU_BeginFrame p = p\<lparr>ppu_uLine := 0, m_bVBlank := False\<rparr>"

definition SnesPPU_EndFrame :: "'r SnesPPUT \<Rightarrow> 'r SnesPPUT" where
  "SnesPPU_EndFrame p =
     (let p = ppu_upd (\<lambda>r. r\<lparr>r_stat78 := r_stat78 r XOR 0x80\<rparr>) (p\<lparr>m_bVBlank := True\<rparr>) in
      if r_inidisp (ppu_Regs p) AND 0x80 = 0 then ppu_upd (\<lambda>r. r\<lparr>r_oamaddr := r_oamaddrlatch r\<rparr>) p else p)"

definition SnesPPU_EnqueueWrite :: "u32 \<Rightarrow> u32 \<Rightarrow> u8 \<Rightarrow> 'r SnesPPUT \<Rightarrow> bool \<times> 'r SnesPPUT" where
  "SnesPPU_EnqueueWrite uLine uAddr uData p =
     (let (b, q) = SNQueue_Enqueue uLine uAddr uData (ppu_Queue p) in (b, p\<lparr>ppu_Queue := q\<rparr>))"

definition ppu_perform :: "'r render_vt \<Rightarrow> SNQueueElementT \<Rightarrow> 'r SnesPPUT \<Rightarrow> 'r SnesPPUT option" where
  "ppu_perform V e p = SnesPPU_Write8 V (ucast (e_uAddr e)) (e_uData e) p"

definition perform_writes :: "'r render_vt \<Rightarrow> u32 option \<Rightarrow> 'r SnesPPUT \<Rightarrow> 'r SnesPPUT option" where
  "perform_writes V lim p =
     do { (q, p) \<leftarrow> perform_pending (ppu_perform V) lim (ppu_Queue p) p;
          Some (p\<lparr>ppu_Queue := q\<rparr>) }"

definition render_line :: "'r render_vt \<Rightarrow> 'r SnesPPUT \<Rightarrow> 'r SnesPPUT option" where
  "render_line V p =
     (if ppu_uLine p > 0 \<and> ppu_uLine p < 224 + 1 then RenderLine V (ppu_uLine p) p else Some p)"

text \<open>\<^verbatim>\<open>while (m_uLine <= uLine)\<close>: not returning is \<^const>\<open>None\<close>.\<close>

partial_function (option) sync_lines :: "'r render_vt \<Rightarrow> u32 \<Rightarrow> 'r SnesPPUT \<Rightarrow> 'r SnesPPUT option" where
  "sync_lines V uLine p =
     (if ppu_uLine p \<le> uLine then
        do { p \<leftarrow> perform_writes V (Some (ppu_uLine p)) p;
             p \<leftarrow> render_line V p;
             sync_lines V uLine (p\<lparr>ppu_uLine := ppu_uLine p + 1\<rparr>) }
      else Some p)"

definition SnesPPU_Sync :: "'r render_vt \<Rightarrow> u32 \<Rightarrow> 'r SnesPPUT \<Rightarrow> 'r SnesPPUT option" where
  "SnesPPU_Sync V uLine p =
     do { p \<leftarrow> (if \<not> m_bVBlank p then sync_lines V uLine p else Some p);
          perform_writes V None p }"

section \<open>Reset\<close>

definition zero_ppu_regs :: SnesPPURegsT where
  "zero_ppu_regs =
     \<lparr>r_inidisp = 0, r_obsel = 0, r_oamaddr = 0, r_oamaddrlatch = 0, r_oampri = 0, r_bgmode = 0, r_mosaic = 0,
      r_bg1sc = 0, r_bg2sc = 0, r_bg3sc = 0, r_bg4sc = 0, r_bg12nba = 0, r_bg34nba = 0, r_bgofslo = 0,
      r_bg1hofs = 0, r_bg1vofs = 0, r_bg2hofs = 0, r_bg2vofs = 0, r_bg3hofs = 0, r_bg3vofs = 0, r_bg4hofs = 0,
      r_bg4vofs = 0, r_vmain = 0, r_vmaddr = 0, r_vmreadlatch = 0, r_vminc = (0, 0), r_m7sel = 0, r_m7a = 0,
      r_m7b = 0, r_m7c = 0, r_m7d = 0, r_m7x = 0, r_m7y = 0, r_mpyl = 0, r_mpym = 0, r_mpyh = 0, r_cgadd = 0,
      r_w12sel = 0, r_w34sel = 0, r_wobjsel = 0, r_wh0 = 0, r_wh1 = 0, r_wh2 = 0, r_wh3 = 0, r_wbglog = 0,
      r_wobjlog = 0, r_tm = 0, r_ts = 0, r_tmw = 0, r_tsw = 0, r_cgwsel = 0, r_cgadsub = 0, r_coldata = 0,
      r_setini = 0, r_ophct = \<lparr>ft_Reg = 0, bFlip = False\<rparr>, r_opvct = \<lparr>ft_Reg = 0, bFlip = False\<rparr>,
      r_stat77 = 0, r_stat78 = 0\<rparr>"

definition SNPPU_VERSION_5C77 :: u8 where "SNPPU_VERSION_5C77 = 0x01"
definition SNPPU_VERSION_5C78 :: u8 where "SNPPU_VERSION_5C78 = 0x01"

definition SnesPPU_Reset :: "'r SnesPPUT \<Rightarrow> 'r SnesPPUT" where
  "SnesPPU_Reset p =
     (render_flags SNESPPURENDER_UPDATE_ALL p)
       \<lparr>ppu_Queue := SNQueue_Reset (ppu_Queue p), ppu_uLine := 0,
        ppu_Regs := zero_ppu_regs\<lparr>r_stat77 := SNPPU_VERSION_5C77, r_stat78 := SNPPU_VERSION_5C78\<rparr>,
        m_CGRAM := replicate SNESPPU_CGRAM_NUM 0, m_VRAM := replicate SNESPPU_VRAM_NUMWORDS 0,
        m_OAM := replicate SNESPPU_OAM_SIZE 0\<rparr>"

end
