(* ===== verification/Sn_Ppu_Ok.thy ===== *)
theory Sn_Ppu_Ok
  imports Sn_Ppu
begin

text \<open>
  What every operation of the PPU keeps, the interface to the renderer as a locale, and the order
  in which the queued writes and the lines of a frame happen.
\<close>

section \<open>The invariant\<close>

definition mem_ok :: "'z ppu_view_scheme \<Rightarrow> bool" where
  "mem_ok p \<longleftrightarrow> length (m_CGRAM p) = SNESPPU_CGRAM_NUM \<and> length (m_VRAM p) = SNESPPU_VRAM_NUMWORDS
     \<and> length (m_OAM p) = SNESPPU_OAM_SIZE"

definition ppu_ok :: "'r SnesPPUT \<Rightarrow> bool" where
  "ppu_ok p \<longleftrightarrow> mem_ok p \<and> snq_ok (ppu_Queue p)"

lemmas ppu_sizes = SNESPPU_CGRAM_NUM_def SNESPPU_VRAM_NUMWORDS_def SNESPPU_OAM_SIZE_def

section \<open>Addresses stay inside the memories\<close>

lemma cg_index_less: "unat (cg_index r) < SNESPPU_CGRAM_NUM"
  by (simp add: cg_index_def ppu_sizes)

lemma and_bound: "m < 2 ^ n \<Longrightarrow> unat (a AND word_of_nat m) < 2 ^ n" for a :: u32
  using and_le_right [of a "word_of_nat m :: u32"]
  by (rule le_less_trans) (auto simp: unsigned_of_nat take_bit_nat_less_self_iff intro: le_less_trans [OF take_bit_nat_less_eq_self])

lemma push3_bound: "unat (push_bit 3 (a AND mask n) :: u32) < 2 ^ 15" if "n \<le> 7"
proof -
  have "push_bit 3 (a AND mask n) = take_bit 15 (push_bit 3 (a AND mask n) :: u32)"
    using that by (intro bit_word_eqI) (auto simp: bit_simps)
  then show ?thesis by (metis take_bit_nat_less_exp unsigned_take_bit_eq)
qed

lemma swizzle_less: "unat (u_SwizzleVramAddr a full) < SNESPPU_VRAM_NUMWORDS"
proof -
  have m: "unat (a AND m) < 2 ^ 15" if "unat m < 2 ^ 15" for a m :: u32
    using le_less_trans [OF and_le_right that] .
  have mk: "(0x1F :: u32) = mask 5" "(0x3F :: u32) = mask 6" "(0x7F :: u32) = mask 7" by (simp_all add: mask_eq_exp_minus_1)
  have p: "unat (push_bit 3 (a AND 0x1F)) < 2 ^ 15" "unat (push_bit 3 (a AND 0x3F)) < 2 ^ 15"
     "unat (push_bit 3 (a AND 0x7F)) < 2 ^ 15"
    unfolding mk by (rule push3_bound, simp)+
  have c: "unat (0x7F00 :: u32) < 2 ^ 15" "unat (0x7E00 :: u32) < 2 ^ 15" "unat (0x7C00 :: u32) < 2 ^ 15"
      "unat (7 :: u32) < 2 ^ 15" "unat (0x7FFF :: u32) < 2 ^ 15" by simp_all
  have "unat (u_SwizzleVramAddr a full) < 2 ^ 15"
    unfolding u_SwizzleVramAddr_def
    by (split if_split)+ (intro conjI impI or_lt_two_power m p c)
  then show ?thesis by (simp add: ppu_sizes)
qed

lemma vm_index_less: "unat (vm_index a r) < SNESPPU_VRAM_NUMWORDS"
  by (simp add: vm_index_def swizzle_less)

text \<open>The bytes behind the objects repeat every 32 addresses.\<close>

lemma oam_index_eq:
  "unat (oam_index r) = (let a = unat (r_oamaddr r) mod 1024 in if a < 544 then a else 512 + a mod 32)"
proof -
  let ?a = "ucast (r_oamaddr r) AND 0x3FF :: u32"
  have a: "unat ?a = unat (r_oamaddr r) mod 1024"
    using unat_and_mask [of "ucast (r_oamaddr r) :: u32" 10] by (simp add: mask_eq_exp_minus_1)
  have m10: "(0x3FF :: u32) = mask 10" by (simp add: mask_eq_exp_minus_1)
  have m5: "(0x21F :: u32) = 0x200 OR mask 5" "(0x200 :: u32) = push_bit 9 1" "(0x1F :: u32) = mask 5"
    by (simp_all add: mask_eq_exp_minus_1)
  have b9: "bit (0x200 :: u32) n \<longleftrightarrow> n = 9" for n
    by (subst m5(2), simp only: bit_push_bit_iff bit_1_iff) auto
  have "unat (?a AND 0x21F) = 512 + unat ?a mod 32" if "544 \<le> unat ?a"
  proof -
    have lt: "unat ?a < 2 ^ 10" using a by simp
    have 9: "bit ?a 9"
    proof (rule ccontr)
      assume n9: "\<not> bit ?a 9"
      have "?a = take_bit 9 ?a"
      proof (rule bit_word_eqI)
        fix n
        show "bit ?a n = bit (take_bit 9 ?a) n"
          using n9 by (cases "n = 9") (auto simp: bit_take_bit_iff m10 bit_and_iff bit_mask_iff)
      qed
      then have "unat ?a < 2 ^ 9" by (metis take_bit_nat_less_exp unsigned_take_bit_eq)
      with that show False by simp
    qed
    have "?a AND 0x21F = 0x200 OR (?a AND 0x1F)"
    proof (rule bit_word_eqI)
      fix n assume "n < LENGTH(32)"
      show "bit (?a AND 0x21F) n = bit (0x200 OR (?a AND 0x1F)) n"
        using 9 unfolding m5(1,3) m10 bit_and_iff bit_or_iff bit_mask_iff b9 by auto
    qed
    moreover have "0x200 OR (?a AND 0x1F) = 0x200 + (?a AND 0x1F)"
      unfolding m5(3) m10 by (rule disjunctive_add [symmetric], unfold b9 bit_and_iff bit_mask_iff) auto
    ultimately have "unat (?a AND 0x21F) = unat (0x200 + (?a AND 0x1F))" by simp
    also have "\<dots> = 512 + unat ?a mod 32" by (simp add: unat_word_ariths)
    finally show ?thesis .
  qed
  then show ?thesis by (simp add: oam_index_def Let_def ppu_sizes a)
qed

lemma oam_index_less: "unat (oam_index r) < SNESPPU_OAM_SIZE"
  using mod_less_divisor [of 32 "unat (r_oamaddr r) mod 1024"]
  by (simp add: oam_index_eq Let_def ppu_sizes)

lemmas index_less = cg_index_less vm_index_less oam_index_less


section \<open>What the PPU asks of a renderer\<close>

text \<open>
  \<open>rinv\<close> is the renderer's own invariant. Its functions are defined, for the addresses and lines the
  PPU passes, as long as the memories have their sizes, and keep the invariant. Nothing else of
  the PPU is in their reach.
\<close>

locale ppu_renderer =
  fixes V :: "'r render_vt" and rinv :: "'r ISnesPPURenderT_scheme \<Rightarrow> bool"
  assumes vram_ok: "rinv r \<Longrightarrow> unat a < SNESPPU_VRAM_NUMWORDS \<Longrightarrow> returns (v_UpdateVRAM V a r) rinv"
    and cgram_ok: "rinv r \<Longrightarrow> mem_ok m \<Longrightarrow> unat a < SNESPPU_CGRAM_NUM \<Longrightarrow> returns (v_UpdateCGRAM V m a c r) rinv"
    and line_ok: "rinv r \<Longrightarrow> mem_ok m \<Longrightarrow> 0 < l \<Longrightarrow> l < 225 \<Longrightarrow> returns (v_RenderLine V m l r) rinv"
    and flags_ok: "rinv r \<Longrightarrow> rinv (SetUpdateFlags f r)"

definition ppu_inv :: "('r ISnesPPURenderT_scheme \<Rightarrow> bool) \<Rightarrow> 'r SnesPPUT \<Rightarrow> bool" where
  "ppu_inv rinv p \<longleftrightarrow> ppu_ok p \<and> rinv (m_pRender p)"

text \<open>What a register write changes at most: not the queue, the line and the blanking flag.\<close>

definition ppu_write :: "('r ISnesPPURenderT_scheme \<Rightarrow> bool) \<Rightarrow> 'r SnesPPUT \<Rightarrow> 'r SnesPPUT \<Rightarrow> bool" where
  "ppu_write rinv p p' \<longleftrightarrow> ppu_inv rinv p' \<and> ppu_Queue p' = ppu_Queue p \<and> ppu_uLine p' = ppu_uLine p
     \<and> m_bVBlank p' = m_bVBlank p"

lemma mem_ok_truncate [simp]: "mem_ok (ppu_view.truncate p) = mem_ok p"
  by (simp add: mem_ok_def ppu_view.truncate_def)

lemma mem_ok_upd [simp]:
  "mem_ok (p\<lparr>ppu_Regs := r\<rparr>) = mem_ok p"
  "length cg = length (m_CGRAM p) \<Longrightarrow> mem_ok (p\<lparr>m_CGRAM := cg\<rparr>) = mem_ok p"
  "length vm = length (m_VRAM p) \<Longrightarrow> mem_ok (p\<lparr>m_VRAM := vm\<rparr>) = mem_ok p"
  "length oam = length (m_OAM p) \<Longrightarrow> mem_ok (p\<lparr>m_OAM := oam\<rparr>) = mem_ok p"
  by (simp_all add: mem_ok_def)

lemma mem_ok_ext [simp]:
  "mem_ok (p\<lparr>ppu_uLine := l\<rparr>) = mem_ok p"
  "mem_ok (p\<lparr>m_bVBlank := b\<rparr>) = mem_ok p"
  "mem_ok (p\<lparr>m_pRender := r\<rparr>) = mem_ok p"
  "mem_ok (p\<lparr>ppu_Queue := q\<rparr>) = mem_ok p"
  for p :: "'r SnesPPUT"
  by (simp_all add: mem_ok_def)

lemma mem_ok_lengths: "mem_ok p \<Longrightarrow> length (m_CGRAM p) = 256 \<and> length (m_VRAM p) = 0x8000 \<and> length (m_OAM p) = 544"
  by (simp add: mem_ok_def ppu_sizes)

context ppu_renderer
begin

lemma UpdateVRAM_ok: "ppu_inv rinv p \<Longrightarrow> unat a < SNESPPU_VRAM_NUMWORDS \<Longrightarrow> returns (UpdateVRAM V a p) (ppu_write rinv p)"
  unfolding UpdateVRAM_def call_render_def ppu_inv_def
  by (rule returns_bind [OF vram_ok]) (auto simp: ppu_write_def ppu_inv_def ppu_ok_def)

lemma UpdateCGRAM_ok: "ppu_inv rinv p \<Longrightarrow> unat a < SNESPPU_CGRAM_NUM \<Longrightarrow> returns (UpdateCGRAM V a c p) (ppu_write rinv p)"
  unfolding UpdateCGRAM_def call_render_def ppu_inv_def
  by (rule returns_bind [OF cgram_ok]) (auto simp: ppu_write_def ppu_inv_def ppu_ok_def)

lemma RenderLine_ok: "ppu_inv rinv p \<Longrightarrow> 0 < l \<Longrightarrow> l < 225 \<Longrightarrow> returns (RenderLine V l p) (ppu_write rinv p)"
  unfolding RenderLine_def call_render_def ppu_inv_def
  by (rule returns_bind [OF line_ok]) (auto simp: ppu_write_def ppu_inv_def ppu_ok_def)

lemma render_flags_ok: "ppu_inv rinv p \<Longrightarrow> ppu_write rinv p (render_flags f p)"
  by (simp add: ppu_write_def ppu_inv_def ppu_ok_def render_flags_def flags_ok)

lemma ppu_upd_ok: "ppu_inv rinv p \<Longrightarrow> ppu_write rinv p (ppu_upd f p)"
  by (simp add: ppu_write_def ppu_inv_def ppu_ok_def ppu_upd_def)

lemma ppu_write_trans: "ppu_write rinv p p' \<Longrightarrow> ppu_write rinv p' p'' \<Longrightarrow> ppu_write rinv p p''"
  by (simp add: ppu_write_def)

lemma wr_reg_ok: "ppu_inv rinv p \<Longrightarrow> returns (wr_reg f d p) (ppu_write rinv p)"
  by (simp add: wr_reg_def ppu_upd_ok)

lemma wr_flag_ok: "ppu_inv rinv p \<Longrightarrow> returns (wr_flag g f fl d p) (ppu_write rinv p)"
  using render_flags_ok [of p fl] ppu_upd_ok [of "render_flags fl p" "f d"] ppu_upd_ok [of p "f d"]
  by (auto simp: wr_flag_def Let_def ppu_write_def)

lemma WriteOAMDATA_ok:
  assumes "ppu_inv rinv p"
  shows "returns (WriteOAMDATA d p) (ppu_write rinv p)"
proof -
  have "unat (oam_index (ppu_Regs p)) < length (m_OAM p)"
    using assms oam_index_less by (simp add: ppu_inv_def ppu_ok_def mem_ok_def)
  with assms show ?thesis
    by (simp add: WriteOAMDATA_def ppu_write_def ppu_inv_def ppu_ok_def render_flags_def ppu_upd_def flags_ok)
qed

lemma WriteVMDATAL_ok:
  assumes "ppu_inv rinv p"
  shows "returns (WriteVMDATAL V d p) (ppu_write rinv p)"
proof -
  let ?a = "vm_index (r_vmaddr (ppu_Regs p)) (ppu_Regs p)"
  have "unat ?a < length (m_VRAM p)"
    using assms vm_index_less by (simp add: ppu_inv_def ppu_ok_def mem_ok_def)
  with assms show ?thesis
    by (auto simp: WriteVMDATAL_def Let_def ppu_inv_def ppu_ok_def ppu_write_def vm_index_less
        intro!: returns_mono [OF UpdateVRAM_ok])
qed

lemma WriteVMDATAH_ok:
  assumes "ppu_inv rinv p"
  shows "returns (WriteVMDATAH V d p) (ppu_write rinv p)"
proof -
  let ?a = "vm_index (r_vmaddr (ppu_Regs p)) (ppu_Regs p)"
  have "unat ?a < length (m_VRAM p)"
    using assms vm_index_less by (simp add: ppu_inv_def ppu_ok_def mem_ok_def)
  with assms show ?thesis
    by (auto simp: WriteVMDATAH_def Let_def ppu_inv_def ppu_ok_def ppu_write_def vm_index_less
        intro!: returns_mono [OF UpdateVRAM_ok])
qed

lemma WriteVMDATALH_ok:
  assumes "ppu_inv rinv p"
  shows "returns (WriteVMDATALH V dl dh p) (ppu_write rinv p)"
proof -
  have "unat (vm_index a r) < length (m_VRAM p)" for a r
    using assms vm_index_less by (simp add: ppu_inv_def ppu_ok_def mem_ok_def)
  with assms show ?thesis
    by (auto simp: WriteVMDATALH_def Let_def ppu_inv_def ppu_ok_def ppu_write_def vm_index_less
        intro!: returns_mono [OF UpdateVRAM_ok])
qed

lemma WriteCGDATA_ok:
  assumes "ppu_inv rinv p"
  shows "returns (WriteCGDATA V d p) (ppu_write rinv p)"
proof -
  have "unat (cg_index (ppu_Regs p)) < length (m_CGRAM p)"
    using assms cg_index_less by (simp add: ppu_inv_def ppu_ok_def mem_ok_def)
  with assms show ?thesis
    by (auto simp: WriteCGDATA_def Let_def ppu_inv_def ppu_ok_def ppu_write_def ppu_upd_def cg_index_less
        intro!: returns_mono [OF UpdateCGRAM_ok])
qed

lemmas ppu_port_ok = WriteOAMDATA_ok WriteVMDATAL_ok WriteVMDATAH_ok WriteCGDATA_ok WriteVMDATALH_ok

lemma write_cases_ok: "(a, w) \<in> set (ppu_write_cases V) \<Longrightarrow> ppu_inv rinv p \<Longrightarrow> returns (w d p) (ppu_write rinv p)"
  unfolding ppu_write_cases_def list.set insert_iff prod.inject empty_iff
  by (elim disjE conjE; simp only: wr_reg_ok wr_flag_ok ppu_port_ok)

lemma ppu_write_refl: "ppu_inv rinv p \<Longrightarrow> ppu_write rinv p p"
  by (simp add: ppu_write_def)

lemma Write8_ok: "ppu_inv rinv p \<Longrightarrow> returns (SnesPPU_Write8 V a d p) (ppu_write rinv p)"
  unfolding SnesPPU_Write8_def
  by (cases "map_of (ppu_write_cases V) a") (auto simp: ppu_write_refl dest!: map_of_SomeD intro: write_cases_ok)

lemma perform_writes_ok:
  assumes "ppu_inv rinv p"
  shows "returns (perform_writes V lim p) (\<lambda>p'. ppu_inv rinv p' \<and> ppu_uLine p' = ppu_uLine p \<and> m_bVBlank p' = m_bVBlank p
     \<and> (lim = None \<longrightarrow> snq_pending (ppu_Queue p') = []))"
proof -
  have q: "snq_ok (ppu_Queue p)" using assms by (simp add: ppu_inv_def ppu_ok_def)
  have step: "returns (ppu_perform V e p') (ppu_write rinv p)" if "ppu_write rinv p p'" for e p'
    unfolding ppu_perform_def using that
    by (auto simp: ppu_write_def intro!: returns_mono [OF Write8_ok])
  have "returns (perform_pending (ppu_perform V) lim (ppu_Queue p) p)
    (\<lambda>(q', p'). snq_ok q' \<and> set (snq_pending q') \<subseteq> set (snq_pending (ppu_Queue p)) \<and> ppu_write rinv p p' \<and> (lim = None \<longrightarrow> snq_pending q' = []))"
    by (rule perform_pending_ok [OF q ppu_write_refl [OF assms] step])
  then show ?thesis
    unfolding perform_writes_def by (rule returns_bind) (auto simp: ppu_write_def ppu_inv_def ppu_ok_def)
qed

lemma render_line_ok:
  "ppu_inv rinv p \<Longrightarrow> returns (render_line V p) (\<lambda>p'. ppu_inv rinv p' \<and> ppu_uLine p' = ppu_uLine p \<and> m_bVBlank p' = m_bVBlank p)"
  by (auto simp: render_line_def ppu_write_def intro!: returns_mono [OF RenderLine_ok])

lemma sync_lines_ok:
  assumes "ppu_inv rinv p" and "uLine < 0xFFFFFFFF"
  shows "returns (sync_lines V uLine p) (\<lambda>p'. ppu_inv rinv p' \<and> uLine < ppu_uLine p' \<and> m_bVBlank p' = m_bVBlank p)"
  using assms
proof (induction "unat uLine + 1 - unat (ppu_uLine p)" arbitrary: p)
  case 0
  then have "uLine < ppu_uLine p" by (simp add: word_less_nat_alt)
  with 0 show ?case by (subst sync_lines.simps) (simp add: not_le [symmetric])
next
  case (Suc n)
  then have le: "ppu_uLine p \<le> uLine" by (simp add: word_le_nat_alt)
  with Suc.prems have next': "unat (ppu_uLine p + 1) = unat (ppu_uLine p) + 1"
    by (auto simp: word_le_nat_alt word_less_nat_alt unat_word_ariths)
  show ?case
    by (subst sync_lines.simps, simp add: le, rule returns_bind [OF perform_writes_ok [OF Suc.prems(1)]],
        rule returns_bind [OF render_line_ok], simp, rule returns_mono [OF Suc.hyps(1)])
      (use Suc.hyps(2) Suc.prems next' in \<open>auto simp: ppu_inv_def ppu_ok_def\<close>)
qed

lemma Sync_ok:
  assumes "ppu_inv rinv p" and "uLine < 0xFFFFFFFF"
  shows "returns (SnesPPU_Sync V uLine p) (\<lambda>p'. ppu_inv rinv p' \<and> m_bVBlank p' = m_bVBlank p \<and> snq_pending (ppu_Queue p') = [])"
proof -
  have "returns (if \<not> m_bVBlank p then sync_lines V uLine p else Some p) (\<lambda>p'. ppu_inv rinv p' \<and> m_bVBlank p' = m_bVBlank p)"
    using assms by (auto intro!: returns_mono [OF sync_lines_ok])
  then show ?thesis
    unfolding SnesPPU_Sync_def
    by (rule returns_bind) (rule returns_mono [OF perform_writes_ok]; auto)
qed

lemma ppu_EnqueueWrite: "ppu_inv rinv p \<Longrightarrow> ppu_inv rinv (snd (SnesPPU_EnqueueWrite l a d p))"
  using snq_enqueue_ok [of "ppu_Queue p" l a d]
  by (auto simp: SnesPPU_EnqueueWrite_def ppu_inv_def ppu_ok_def split: prod.splits)

lemma Reset_ok: "rinv (m_pRender p) \<Longrightarrow> snq_ok (ppu_Queue p) \<Longrightarrow> ppu_inv rinv (SnesPPU_Reset p)"
  by (simp add: SnesPPU_Reset_def ppu_inv_def ppu_ok_def mem_ok_def render_flags_def flags_ok snq_reset)

lemma ppu_frame: "ppu_inv rinv p \<Longrightarrow> ppu_inv rinv (SnesPPU_BeginFrame p)" "ppu_inv rinv p \<Longrightarrow> ppu_inv rinv (SnesPPU_EndFrame p)"
  by (simp_all add: SnesPPU_BeginFrame_def SnesPPU_EndFrame_def Let_def ppu_upd_def ppu_inv_def ppu_ok_def)

end

section \<open>The order of a frame\<close>

text \<open>The effects of a frame: writes that are performed and lines that are drawn.\<close>

datatype ppu_event = PerformWrite SNQueueElementT | DrawLine u32

definition run_event :: "'r render_vt \<Rightarrow> ppu_event \<Rightarrow> 'r SnesPPUT \<Rightarrow> 'r SnesPPUT option" where
  "run_event V ev p = (case ev of PerformWrite e \<Rightarrow> ppu_perform V e p | DrawLine l \<Rightarrow> RenderLine V l p)"

definition run_events :: "'r render_vt \<Rightarrow> ppu_event list \<Rightarrow> 'r SnesPPUT option \<Rightarrow> 'r SnesPPUT option" where
  "run_events V evs p = fold (\<lambda>ev p. Option.bind p (run_event V ev)) evs p"

fun line_events :: "SNQueueElementT list \<Rightarrow> u32 list \<Rightarrow> ppu_event list" where
  "line_events es [] = []"
| "line_events es (l # ls) = map PerformWrite (takeWhile (due (Some l)) es) @ (if 0 < l \<and> l < 225 then [DrawLine l] else [])
     @ line_events (dropWhile (due (Some l)) es) ls"

fun left_over :: "SNQueueElementT list \<Rightarrow> u32 list \<Rightarrow> SNQueueElementT list" where
  "left_over es [] = es"
| "left_over es (l # ls) = left_over (dropWhile (due (Some l)) es) ls"

fun performed :: "ppu_event list \<Rightarrow> SNQueueElementT list" where
  "performed [] = []"
| "performed (PerformWrite e # evs) = e # performed evs"
| "performed (DrawLine l # evs) = performed evs"

fun drawn :: "ppu_event list \<Rightarrow> u32 list" where
  "drawn [] = []"
| "drawn (PerformWrite e # evs) = drawn evs"
| "drawn (DrawLine l # evs) = l # drawn evs"

lemma performed_append [simp]: "performed (xs @ ys) = performed xs @ performed ys"
  and drawn_append [simp]: "drawn (xs @ ys) = drawn xs @ drawn ys"
  and performed_writes [simp]: "performed (map PerformWrite es) = es"
  and drawn_writes [simp]: "drawn (map PerformWrite es) = []"
  by (induction xs rule: performed.induct) (simp_all, (induction es, simp_all)+)


text \<open>Register writes neither see nor change the queue and the line.\<close>

definition at_line :: "u32 \<Rightarrow> SNQueueT \<Rightarrow> 'r SnesPPUT \<Rightarrow> 'r SnesPPUT" where
  "at_line l q p = p\<lparr>ppu_uLine := l, ppu_Queue := q\<rparr>"

lemma at_line_simps [simp]:
  "ppu_Regs (at_line l q p) = ppu_Regs p" "m_CGRAM (at_line l q p) = m_CGRAM p" "m_VRAM (at_line l q p) = m_VRAM p"
  "m_OAM (at_line l q p) = m_OAM p" "m_bVBlank (at_line l q p) = m_bVBlank p" "m_pRender (at_line l q p) = m_pRender p"
  "ppu_uLine (at_line l q p) = l" "ppu_Queue (at_line l q p) = q"
  "at_line l q (at_line l' q' p) = at_line l q p"
  by (simp_all add: at_line_def)

lemma at_line_upd:
  "(at_line l q p)\<lparr>ppu_Regs := r\<rparr> = at_line l q (p\<lparr>ppu_Regs := r\<rparr>)"
  "(at_line l q p)\<lparr>m_CGRAM := cg\<rparr> = at_line l q (p\<lparr>m_CGRAM := cg\<rparr>)"
  "(at_line l q p)\<lparr>m_VRAM := vm\<rparr> = at_line l q (p\<lparr>m_VRAM := vm\<rparr>)"
  "(at_line l q p)\<lparr>m_OAM := oam\<rparr> = at_line l q (p\<lparr>m_OAM := oam\<rparr>)"
  "(at_line l q p)\<lparr>m_pRender := rr\<rparr> = at_line l q (p\<lparr>m_pRender := rr\<rparr>)"
  "(at_line l q p)\<lparr>ppu_uLine := l'\<rparr> = at_line l' q p"
  "(at_line l q p)\<lparr>ppu_Queue := q'\<rparr> = at_line l q' p"
  "ppu_view.truncate (at_line l q p) = ppu_view.truncate p"
  by (simp_all add: at_line_def ppu_view.truncate_def)

lemma at_line_self: "at_line (ppu_uLine p) (ppu_Queue p) p = p"
  by (simp add: at_line_def)

lemma call_render_at_line: "call_render f (at_line l q p) = map_option (at_line l q) (call_render f p)"
  by (cases "f (m_pRender p)") (simp_all add: call_render_def at_line_upd)

lemmas handler_defs = WriteOAMDATA_def WriteVMDATAL_def WriteVMDATAH_def WriteCGDATA_def UpdateVRAM_def UpdateCGRAM_def
  wr_reg_def wr_flag_def ppu_upd_def render_flags_def

lemma write_cases_at_line:
  "(a, w) \<in> set (ppu_write_cases V) \<Longrightarrow> w d (at_line l q p) = map_option (at_line l q) (w d p)"
  unfolding ppu_write_cases_def list.set insert_iff prod.inject empty_iff
  by (elim disjE conjE; simp add: handler_defs Let_def at_line_upd call_render_at_line map_option_bind comp_def)

lemma ppu_perform_at_line: "ppu_perform V e (at_line l q p) = map_option (at_line l q) (ppu_perform V e p)"
  unfolding ppu_perform_def SnesPPU_Write8_def
  by (cases "map_of (ppu_write_cases V) (ucast (e_uAddr e))") (auto dest!: map_of_SomeD simp: write_cases_at_line)

lemma run_event_at_line: "run_event V ev (at_line l q p) = map_option (at_line l q) (run_event V ev p)"
  by (cases ev) (simp_all add: run_event_def ppu_perform_at_line RenderLine_def call_render_at_line at_line_upd)

lemma run_events_at_line: "run_events V evs (map_option (at_line l q) p) = map_option (at_line l q) (run_events V evs p)"
proof (induction evs arbitrary: p)
  case Nil
  then show ?case by (simp add: run_events_def)
next
  case (Cons ev evs)
  have "Option.bind (map_option (at_line l q) p) (run_event V ev) = map_option (at_line l q) (Option.bind p (run_event V ev))"
    by (cases p) (simp_all add: run_event_at_line)
  with Cons.IH [of "Option.bind p (run_event V ev)"] show ?case by (simp add: run_events_def)
qed

lemma run_events_append: "run_events V (xs @ ys) p = run_events V ys (run_events V xs p)"
  by (simp add: run_events_def)

end
