(* ===== verification/Sn_Ppu_Props.thy ===== *)
theory Sn_Ppu_Props
  imports Sn_Ppu_Ok
begin

text \<open>
  Properties of the PPU: the order of writes and lines in a frame, the address translation of
  the video memory, the pairwise data port, and the multiplier.
\<close>

section \<open>Lines and writes\<close>

definition advance :: "nat \<Rightarrow> SNQueueT \<Rightarrow> SNQueueT" where
  "advance n q = q\<lparr>m_iHead := m_iHead q + n\<rparr>"

definition line_range :: "u32 \<Rightarrow> u32 \<Rightarrow> u32 list" where
  "line_range a b = map word_of_nat [unat a..<Suc (unat b)]"

lemma line_range_empty: "b < a \<Longrightarrow> line_range a b = []"
  by (simp add: line_range_def word_less_nat_alt)

lemma line_range_Cons: "a \<le> b \<Longrightarrow> b < 0xFFFFFFFF \<Longrightarrow> line_range a b = a # line_range (a + 1) b"
proof -
  assume ab: "a \<le> b" "b < 0xFFFFFFFF"
  then have "unat (a + 1) = Suc (unat a)"
    by (auto simp: word_le_nat_alt word_less_nat_alt unat_word_ariths)
  with ab show ?thesis
    by (simp add: line_range_def word_le_nat_alt upt_conv_Cons del: upt_Suc)
qed

lemma run_events_writes: "run_events V (map PerformWrite es) s = fold (\<lambda>e s. Option.bind s (ppu_perform V e)) es s"
proof (induction es arbitrary: s)
  case Nil
  then show ?case by (simp add: run_events_def)
next
  case (Cons e es)
  have "Option.bind s (run_event V (PerformWrite e)) = Option.bind s (ppu_perform V e)"
    by (cases s) (simp_all add: run_event_def)
  with Cons show ?case by (simp add: run_events_def)
qed

lemma run_events_none [simp]: "run_events V evs None = None"
  by (induction evs) (simp_all add: run_events_def)

lemma perform_writes_events:
  assumes "snq_ok (ppu_Queue p)"
  shows "perform_writes V lim p =
    map_option (at_line (ppu_uLine p) (advance (length (takeWhile (due lim) (snq_pending (ppu_Queue p)))) (ppu_Queue p)))
      (run_events V (map PerformWrite (takeWhile (due lim) (snq_pending (ppu_Queue p)))) (Some p))"
proof -
  let ?es = "takeWhile (due lim) (snq_pending (ppu_Queue p))"
  have "run_events V (map PerformWrite ?es) (Some p) =
      map_option (at_line (ppu_uLine p) (ppu_Queue p)) (run_events V (map PerformWrite ?es) (Some p))"
    using run_events_at_line [of V "map PerformWrite ?es" "ppu_uLine p" "ppu_Queue p" "Some p"] by (simp add: at_line_self)
  then have keep: "ppu_uLine s = ppu_uLine p" if "run_events V (map PerformWrite ?es) (Some p) = Some s" for s
    using that by (metis at_line_simps(7) option.inject option.simps(9))
  show ?thesis
  proof (cases "run_events V (map PerformWrite ?es) (Some p)")
    case None
    then show ?thesis
      using perform_pending_eq [OF assms, of "ppu_perform V" lim p]
      by (simp add: perform_writes_def run_events_writes)
  next
    case (Some s)
    then show ?thesis
      using perform_pending_eq [OF assms, of "ppu_perform V" lim p] keep [OF Some]
      by (simp add: perform_writes_def run_events_writes advance_def at_line_def)
  qed
qed

lemma advance_ok:
  "snq_ok q \<Longrightarrow> n \<le> length (snq_pending q) \<Longrightarrow> snq_ok (advance n q) \<and> snq_pending (advance n q) = drop n (snq_pending q)"
  unfolding advance_def by (rule pending_after)

lemma advance_advance [simp]: "advance m (advance n q) = advance (n + m) q"
  by (simp add: advance_def)

lemma advance_takeWhile: "snq_ok q \<Longrightarrow>
    snq_ok (advance (length (takeWhile P (snq_pending q))) q)
    \<and> snq_pending (advance (length (takeWhile P (snq_pending q))) q) = dropWhile P (snq_pending q)"
  using advance_ok [of q "length (takeWhile P (snq_pending q))"] by (simp add: dropWhile_eq_drop length_takeWhile_le)

lemma length_left_over: "length (left_over es ls) \<le> length es"
  by (induction es ls rule: left_over.induct) (auto intro: le_trans length_dropWhile_le)

lemma render_line_event:
  "render_line V (at_line l q p) =
     map_option (at_line l q) (run_events V (if 0 < l \<and> l < 225 then [DrawLine l] else []) (Some p))"
proof (cases "0 < l \<and> l < 225")
  case True
  then show ?thesis
    using run_event_at_line [of V "DrawLine l" l q p]
    by (simp add: render_line_def run_events_def run_event_def)
next
  case False
  then show ?thesis by (auto simp: render_line_def run_events_def)
qed

lemma sync_lines_events:
  assumes "snq_ok (ppu_Queue p)" and "uLine < 0xFFFFFFFF"
  shows "sync_lines V uLine p =
    (let es = snq_pending (ppu_Queue p); ls = line_range (ppu_uLine p) uLine in
     map_option (at_line (max (ppu_uLine p) (uLine + 1)) (advance (length es - length (left_over es ls)) (ppu_Queue p)))
       (run_events V (line_events es ls) (Some p)))"
  using assms
proof (induction "unat uLine + 1 - unat (ppu_uLine p)" arbitrary: p)
  case 0
  then have l: "uLine < ppu_uLine p" by (simp add: word_less_nat_alt)
  with 0 have "uLine + 1 \<le> ppu_uLine p"
    by (metis inc_le)
  with l show ?case
    by (subst sync_lines.simps)
      (simp add: line_range_empty Let_def run_events_def not_le [symmetric] max_def advance_def at_line_self
        del: not_le)
next
  case (Suc n)
  let ?q = "ppu_Queue p" and ?l = "ppu_uLine p"
  let ?es = "snq_pending ?q"
  let ?k = "length (takeWhile (due (Some ?l)) ?es)" and ?es' = "dropWhile (due (Some ?l)) ?es"
  have le: "?l \<le> uLine" using Suc.hyps(2) by (simp add: word_le_nat_alt)
  with Suc.prems have next': "unat (?l + 1) = unat ?l + 1"
    by (auto simp: word_le_nat_alt word_less_nat_alt unat_word_ariths)
  have q': "snq_ok (advance ?k ?q)" "snq_pending (advance ?k ?q) = ?es'"
    using advance_takeWhile [OF Suc.prems(1)] by simp_all
  have max': "max (?l + 1) (uLine + 1) = max ?l (uLine + 1)"
    using le Suc.prems(2) next' by (auto simp: max_def word_le_nat_alt word_less_nat_alt unat_word_ariths)
  have lo: "length ?es - length (left_over ?es (line_range ?l uLine)) = ?k + (length ?es' - length (left_over ?es' (line_range (?l + 1) uLine)))"
  proof -
    have "length ?es = ?k + length ?es'"
      by (metis length_append takeWhile_dropWhile_id)
    with length_left_over [of ?es' "line_range (?l + 1) uLine"] show ?thesis
      by (simp add: line_range_Cons [OF le Suc.prems(2)])
  qed
  have ih: "sync_lines V uLine (at_line (?l + 1) (advance ?k ?q) s) =
     map_option (at_line (max ?l (uLine + 1)) (advance (length ?es - length (left_over ?es (line_range ?l uLine))) ?q))
       (run_events V (line_events ?es' (line_range (?l + 1) uLine)) (Some s))" for s
    using Suc.hyps(1) [of "at_line (?l + 1) (advance ?k ?q) s"] Suc.hyps(2) Suc.prems(2) q' next'
      run_events_at_line [of V "line_events ?es' (line_range (?l + 1) uLine)" "?l + 1" "advance ?k ?q" "Some s"]
    by (simp add: Let_def max' lo option.map_comp comp_def)
  show ?case
  proof (cases "run_events V (map PerformWrite (takeWhile (due (Some ?l)) ?es)) (Some p)")
    case None
    then show ?thesis
      by (subst sync_lines.simps)
        (simp add: le perform_writes_events [OF Suc.prems(1)] line_range_Cons [OF le Suc.prems(2)] run_events_append Let_def
          run_events_none)
  next
    case (Some s)
    show ?thesis
    proof (cases "run_events V (if 0 < ?l \<and> ?l < 225 then [DrawLine ?l] else []) (Some s)")
      case None
      with Some show ?thesis
        by (subst sync_lines.simps)
          (simp add: le perform_writes_events [OF Suc.prems(1)] line_range_Cons [OF le Suc.prems(2)] run_events_append Let_def
            run_events_none render_line_event)
    next
      case (Some s')
      with \<open>run_events V (map PerformWrite _) (Some p) = Some s\<close> show ?thesis
        by (subst sync_lines.simps)
          (simp add: le perform_writes_events [OF Suc.prems(1)] line_range_Cons [OF le Suc.prems(2)] run_events_append Let_def
            render_line_event at_line_upd ih)
    qed
  qed
qed


definition frame_events :: "SNQueueElementT list \<Rightarrow> u32 list \<Rightarrow> ppu_event list" where
  "frame_events es ls = line_events es ls @ map PerformWrite (left_over es ls)"

lemma performed_frame: "performed (frame_events es ls) = es"
proof -
  have "performed (line_events es ls) @ left_over es ls = es"
    by (induction es ls rule: line_events.induct) auto
  then show ?thesis by (simp add: frame_events_def)
qed

lemma drawn_frame: "drawn (frame_events es ls) = filter (\<lambda>l. 0 < l \<and> l < 225) ls"
proof -
  have "drawn (line_events es ls) = filter (\<lambda>l. 0 < l \<and> l < 225) ls"
    by (induction es ls rule: line_events.induct) auto
  then show ?thesis by (simp add: frame_events_def)
qed

lemma draw_not_write: "map PerformWrite es = pre @ DrawLine l # post \<longleftrightarrow> False"
  by (induction pre arbitrary: es) (auto simp: Cons_eq_append_conv map_eq_Cons_conv)

lemma writes_then_draw:
  "map PerformWrite es @ xs = pre @ DrawLine l # post \<longleftrightarrow> (\<exists>pre'. pre = map PerformWrite es @ pre' \<and> xs = pre' @ DrawLine l # post)"
  by (induction es arbitrary: pre) (auto simp: Cons_eq_append_conv)

lemma takeWhile_dropWhile_mono: "(\<And>x. P x \<Longrightarrow> Q x) \<Longrightarrow> takeWhile P xs @ takeWhile Q (dropWhile P xs) = takeWhile Q xs"
  by (induction xs) auto

lemma line_events_before:
  "sorted_wrt (<) ls \<Longrightarrow> line_events es ls = pre @ DrawLine l # post \<Longrightarrow> performed pre = takeWhile (due (Some l)) es \<and> l \<in> set ls"
proof (induction es ls arbitrary: pre rule: line_events.induct)
  case (1 es)
  then show ?case by simp
next
  case (2 es l0 ls)
  from 2(3) obtain pre' where pre: "pre = map PerformWrite (takeWhile (due (Some l0)) es) @ pre'"
    and rest: "(if 0 < l0 \<and> l0 < 225 then [DrawLine l0] else []) @ line_events (dropWhile (due (Some l0)) es) ls = pre' @ DrawLine l # post"
    by (auto simp: writes_then_draw)
  show ?case
  proof (cases "pre' = []")
    case True
    show ?thesis
    proof (cases "0 < l0 \<and> l0 < 225")
      case True
      with \<open>pre' = []\<close> pre rest show ?thesis by auto
    next
      case False
      with rest have "line_events (dropWhile (due (Some l0)) es) ls = [] @ DrawLine l # post" using \<open>pre' = []\<close> by (auto split: if_splits)
      from 2(1) [OF _ this] 2(2) have ih: "[] = takeWhile (due (Some l)) (dropWhile (due (Some l0)) es)" "l \<in> set ls" by auto
      with 2(2) have "due (Some l0) e \<Longrightarrow> due (Some l) e" for e by (auto simp: due_def)
      from takeWhile_dropWhile_mono [of "due (Some l0)" "due (Some l)" es, OF this] ih pre \<open>pre' = []\<close> show ?thesis by auto
    qed
  next
    case False
    then obtain pre2 where rest': "line_events (dropWhile (due (Some l0)) es) ls = pre2 @ DrawLine l # post"
      and perf: "performed pre' = performed pre2"
      using rest by (auto simp: Cons_eq_append_conv split: if_splits)
    from 2(1) [OF _ rest'] 2(2) have ih: "performed pre2 = takeWhile (due (Some l)) (dropWhile (due (Some l0)) es)" "l \<in> set ls" by auto
    with 2(2) have "due (Some l0) e \<Longrightarrow> due (Some l) e" for e by (auto simp: due_def)
    from takeWhile_dropWhile_mono [of "due (Some l0)" "due (Some l)" es, OF this] ih pre perf show ?thesis by auto
  qed
qed

lemma line_range_sorted: "sorted_wrt (<) (line_range a b)"
proof -
  have "sorted_wrt (\<lambda>x y. x < y \<and> y \<le> unat b) [unat a..<Suc (unat b)]"
    by (auto simp: sorted_wrt_iff_nth_less simp del: upt_Suc)
  then show ?thesis
    unfolding line_range_def sorted_wrt_map
    by (rule sorted_wrt_mono_rel [rotated])
      (use unsigned_less [of b, where 'a = nat] in \<open>auto simp: word_less_nat_alt unat_of_nat intro!: le_less_trans [of _ "unat b"]\<close>)
qed

lemma takeWhile_due_sorted:
  "sorted (map e_uCycle es) \<Longrightarrow> takeWhile (due (Some l)) es = filter (\<lambda>e. e_uCycle e < l) es"
proof (induction es)
  case (Cons e es)
  show ?case
  proof (cases "e_uCycle e < l")
    case False
    with Cons.prems have "\<forall>x\<in>set es. \<not> e_uCycle x < l" by (auto simp: not_less intro: order_trans)
    with False show ?thesis by (simp add: due_def)
  qed (use Cons in \<open>simp add: due_def\<close>)
qed simp

lemma frame_events_before:
  assumes "sorted_wrt (<) ls" and "sorted (map e_uCycle es)" and "frame_events es ls = pre @ DrawLine l # post"
  shows "performed pre = filter (\<lambda>e. e_uCycle e < l) es"
proof -
  from assms(3) consider post' where "line_events es ls = pre @ DrawLine l # post'"
    | pre' where "map PerformWrite (left_over es ls) = pre' @ DrawLine l # post"
    unfolding frame_events_def by (auto simp: append_eq_append_conv2 append_eq_Cons_conv Cons_eq_append_conv)
  then show ?thesis
  proof cases
    case 1
    from line_events_before [OF assms(1) this] assms(2) show ?thesis by (simp add: takeWhile_due_sorted)
  next
    case 2
    then show ?thesis by (simp add: draw_not_write)
  qed
qed

lemma Sync_events:
  assumes "snq_ok (ppu_Queue p)" and "\<not> m_bVBlank p" and "uLine < 0xFFFFFFFF"
  shows "SnesPPU_Sync V uLine p =
    (let es = snq_pending (ppu_Queue p) in
     map_option (at_line (max (ppu_uLine p) (uLine + 1)) (advance (length es) (ppu_Queue p)))
       (run_events V (frame_events es (line_range (ppu_uLine p) uLine)) (Some p)))"
proof -
  let ?es = "snq_pending (ppu_Queue p)" and ?ls = "line_range (ppu_uLine p) uLine"
  let ?n = "length ?es - length (left_over ?es ?ls)" and ?l = "max (ppu_uLine p) (uLine + 1)"
  have lo: "drop ?n ?es = left_over ?es ?ls"
  proof -
    have "\<exists>xs. es = xs @ left_over es ls" for es ls
      by (induction es ls rule: left_over.induct) (auto, metis append.assoc takeWhile_dropWhile_id)
    then obtain xs where "?es = xs @ left_over ?es ?ls" by blast
    then show ?thesis by (metis append_eq_conv_conj length_append diff_add_inverse2)
  qed
  have q: "snq_ok (advance ?n (ppu_Queue p))" "snq_pending (advance ?n (ppu_Queue p)) = left_over ?es ?ls"
    using advance_ok [OF assms(1), of ?n] lo by simp_all
  have all: "takeWhile (due None) xs = xs" for xs by (simp add: due_def takeWhile_eq_all_conv)
  show ?thesis
  proof (cases "run_events V (line_events ?es ?ls) (Some p)")
    case None
    then show ?thesis
      using sync_lines_events [OF assms(1,3), of V] assms(2)
      by (simp add: SnesPPU_Sync_def Let_def frame_events_def run_events_append)
  next
    case (Some s)
    then show ?thesis
      using sync_lines_events [OF assms(1,3), of V] assms(2) q length_left_over [of ?es ?ls]
        perform_writes_events [of "at_line ?l (advance ?n (ppu_Queue p)) s" V None]
        run_events_at_line [of V "map PerformWrite (left_over ?es ?ls)" ?l "advance ?n (ppu_Queue p)" "Some s"]
      by (simp add: SnesPPU_Sync_def Let_def frame_events_def run_events_append all option.map_comp comp_def)
  qed
qed

text \<open>
  C25: a synchronisation outside the vertical blank performs every queued register write exactly
  once, in the order of the queue, and draws every line that is visible and due exactly once, in
  order; each line is drawn after precisely the writes of earlier lines, whatever the renderer does.
\<close>
theorem sync_in_line_order:
  assumes "snq_ok (ppu_Queue p)" and "\<not> m_bVBlank p" and "uLine < 0xFFFFFFFF"
    and "sorted (map e_uCycle (snq_pending (ppu_Queue p)))"
  shows "\<exists>evs. SnesPPU_Sync V uLine p =
      map_option (at_line (max (ppu_uLine p) (uLine + 1)) (advance (length (snq_pending (ppu_Queue p))) (ppu_Queue p)))
        (run_events V evs (Some p))
    \<and> performed evs = snq_pending (ppu_Queue p)
    \<and> drawn evs = filter (\<lambda>l. 0 < l \<and> l < 225) (line_range (ppu_uLine p) uLine)
    \<and> (\<forall>pre l post. evs = pre @ DrawLine l # post \<longrightarrow> performed pre = filter (\<lambda>e. e_uCycle e < l) (snq_pending (ppu_Queue p)))"
  by (rule exI [of _ "frame_events (snq_pending (ppu_Queue p)) (line_range (ppu_uLine p) uLine)"])
    (use Sync_events [OF assms(1-3)] frame_events_before [OF line_range_sorted assms(4)] in
      \<open>auto simp: Let_def performed_frame drawn_frame\<close>)


section \<open>The data port that writes both bytes\<close>

text \<open>The renderer's base object aside, what a write leaves in the PPU.\<close>

definition same_vram :: "'r SnesPPUT \<Rightarrow> 'r SnesPPUT \<Rightarrow> bool" where
  "same_vram p p' \<longleftrightarrow> m_VRAM p' = m_VRAM p \<and> m_CGRAM p' = m_CGRAM p \<and> m_OAM p' = m_OAM p
     \<and> (ppu_Regs p')\<lparr>r_vmreadlatch := 0\<rparr> = (ppu_Regs p)\<lparr>r_vmreadlatch := 0\<rparr>
     \<and> ppu_uLine p' = ppu_uLine p \<and> m_bVBlank p' = m_bVBlank p \<and> ppu_Queue p' = ppu_Queue p"

lemma vm_index_cong [simp]:
  "vm_index a (r\<lparr>r_vmaddr := b\<rparr>) = vm_index a r" "vm_index a (r\<lparr>r_vmreadlatch := b\<rparr>) = vm_index a r"
  by (simp_all add: vm_index_def)

text \<open>
  C33: the DMA controller's write of a pair of bytes leaves in the video memory, the address and all
  other registers exactly what a write of the low and a write of the high byte leave, in every
  increment mode; only the latch of the read port differs, which the pair does not set.
\<close>
theorem vram_pair_write:
  assumes "mem_ok p" and "v_UpdateVRAM V = (\<lambda>a r. Some r)"
  shows "\<exists>p1 p2. WriteVMDATALH V l h p = Some p1 \<and> WriteVMDATAL V l p \<bind> WriteVMDATAH V h = Some p2
    \<and> same_vram p1 p2 \<and> m_pRender p1 = m_pRender p2
    \<and> r_vmreadlatch (ppu_Regs p1) = r_vmreadlatch (ppu_Regs p)
    \<and> r_vmreadlatch (ppu_Regs p2) = r_vmaddr (ppu_Regs p) + ucast (fst (r_vminc (ppu_Regs p)))"
proof -
  have i: "unat (vm_index a r) < length (m_VRAM p)" for a r
    using assms(1) vm_index_less by (simp add: mem_ok_def)
  show ?thesis
    by (cases "fst (r_vminc (ppu_Regs p)) = 0")
      (simp_all add: WriteVMDATALH_def WriteVMDATAL_def WriteVMDATAH_def Let_def UpdateVRAM_def call_render_def assms(2) i same_vram_def)
qed

section \<open>Address translation\<close>

text \<open>The bits of a translated address.\<close>

lemma swizzle_bits:
  "bit (u_SwizzleVramAddr a full) n \<longleftrightarrow>
    n < 15 \<and> (let k = (if full = 1 then 5 else if full = 2 then 6 else if full = 3 then 7 else 0) in
      if k = 0 \<or> k + 3 \<le> n then bit a n else if n < 3 then bit a (n + k) else bit a (n - 3))"
proof -
  have m: "(0x7FFF :: u32) = mask 15" "(0x7F00 :: u32) = push_bit 8 (mask 7)" "(0x7E00 :: u32) = push_bit 9 (mask 6)"
     "(0x7C00 :: u32) = push_bit 10 (mask 5)" "(0x1F :: u32) = mask 5" "(0x3F :: u32) = mask 6" "(0x7F :: u32) = mask 7"
     "(7 :: u32) = mask 3"
    by (simp_all add: mask_eq_exp_minus_1)
  show ?thesis
    unfolding u_SwizzleVramAddr_def m
    by (auto simp: bit_simps Let_def add.commute dest: bit_imp_le_length)
qed

lemma swizzle_inj:
  assumes "u_SwizzleVramAddr a full = u_SwizzleVramAddr b full" and "unat a < 0x8000" and "unat b < 0x8000"
  shows "a = b"
proof (rule bit_word_eqI)
  fix n assume "n < LENGTH(32)"
  have eq: "bit (u_SwizzleVramAddr a full) i = bit (u_SwizzleVramAddr b full) i" for i
    using assms(1) by simp
  have hi: "\<not> bit x i" if "unat x < 0x8000" and "15 \<le> i" for x :: u32 and i
  proof -
    have "take_bit 15 x = x"
      using that(1) by (simp add: word_unat_eq_iff unsigned_take_bit_eq take_bit_nat_eq_self_iff)
    then show ?thesis using that(2) bit_take_bit_iff [of 15 x i] by simp
  qed
  define k where "k = (if full = 1 then 5 else if full = 2 then 6 else if full = 3 then 7 else (0::nat))"
  have k: "k \<in> {0, 5, 6, 7}" by (simp add: k_def)
  let ?i = "if k = 0 \<or> k + 3 \<le> n then n else if n < k then n + 3 else n - k"
  show "bit a n = bit b n"
  proof (cases "n < 15")
    case True
    with k eq [of ?i] show ?thesis
      unfolding swizzle_bits k_def [symmetric] by (auto simp: Let_def split: if_splits)
  next
    case False
    with assms hi show ?thesis by simp
  qed
qed

text \<open>
  in every full-graphic mode the translation of video memory addresses is a permutation of the
  32768 words: no two addresses share a word and every word has an address.
\<close>
theorem vram_translation:
  "bij_betw (\<lambda>a. u_SwizzleVramAddr a full) {a. unat a < 0x8000} {a. unat a < 0x8000}"
proof -
  let ?S = "{a :: u32. unat a < 0x8000}" and ?f = "\<lambda>a. u_SwizzleVramAddr a full"
  have "inj_on ?f ?S" by (rule inj_onI) (simp add: swizzle_inj)
  moreover have "?f ` ?S \<subseteq> ?S"
    using swizzle_less by (auto simp: ppu_sizes)
  ultimately show ?thesis
    by (simp add: bij_betw_def endo_inj_surj)
qed

section \<open>The multiplier\<close>

lemma bytes_of_int:
  "uint (word_of_int v :: u8) + 256 * uint (word_of_int (drop_bit 8 v) :: u8) + 65536 * uint (word_of_int (drop_bit 16 v) :: u8)
     = v mod 0x1000000"
proof -
  have "v mod 0x1000000 = v mod 256 + 256 * (v div 256 mod 0x10000)"
    using zmod_zmult2_eq [of "0x10000" v 256] by simp
  moreover have "v div 256 mod 0x10000 = v div 256 mod 256 + 256 * (v div 256 div 256 mod 256)"
    using zmod_zmult2_eq [of 256 "v div 256" 256] by simp
  moreover have "v div 256 div 256 = v div 65536"
    using zdiv_zmult2_eq [of 256 v 256] by simp
  ultimately show ?thesis
    by (simp add: uint_word_of_int drop_bit_eq_div)
qed

lemma high_byte_signed: "drop_bit 8 (to_Int16 (uint w)) = Int8_of (hi8 w)"
proof -
  have "min 15 (8 + n) = 8 + min 7 n" for n :: nat by (simp add: min_def)
  then show ?thesis
    unfolding to_Int16_def Int8_of_def to_Int8_def hi8_def
    by (intro bit_eqI) (auto simp: bit_simps)
qed

text \<open>
  the three product registers hold the 24-bit signed product of the 16-bit register m7a and the
  8-bit value written last to m7b.
\<close>
theorem matrix_product:
  "let r' = UpdateMatMul r in
   signed_take_bit 23 (uint (r_mpyl r') + 256 * uint (r_mpym r') + 65536 * uint (r_mpyh r'))
     = to_Int16 (uint (r_m7a r)) * Int8_of (hi8 (r_m7b r))"
proof -
  have "\<bar>to_Int16 (uint (r_m7a r)) * Int8_of (hi8 (r_m7b r))\<bar> \<le> 0x8000 * 0x80"
    unfolding abs_mult using to_Int16_range [of "uint (r_m7a r)"] Int8_of_range [of "hi8 (r_m7b r)"]
    by (intro mult_mono) auto
  then have "signed_take_bit 23 (mat_product r) = mat_product r"
    unfolding mat_product_def high_byte_signed
    by (intro signed_take_bit_int_eq_self) (simp_all add: abs_le_iff)
  moreover have "mat_product r mod 0x1000000 = take_bit 24 (mat_product r)"
    by (simp add: take_bit_eq_mod)
  ultimately have "signed_take_bit 23 (mat_product r mod 0x1000000) = mat_product r"
    by (simp only: signed_take_bit_take_bit) simp
  then show ?thesis
    by (simp add: UpdateMatMul_def Let_def bytes_of_int) (simp add: mat_product_def high_byte_signed)
qed

section \<open>The properties at concrete states\<close>

definition quiet_render :: "unit render_vt" where
  "quiet_render = \<lparr>v_UpdateVRAM = (\<lambda>a r. Some r), v_UpdateCGRAM = (\<lambda>m a c r. Some r), v_RenderLine = (\<lambda>m l r. Some r)\<rparr>"

definition no_writes :: SNQueueT where
  "no_writes = \<lparr>m_iHead = 0, m_iTail = 0, m_Elements = replicate SNQUEUE_SIZE \<lparr>e_uCycle = 0, e_uAddr = 0, e_uData = 0\<rparr>\<rparr>"

definition demo_ppu :: "unit SnesPPUT" where
  "demo_ppu = SnesPPU_Reset \<lparr>ppu_Regs = zero_ppu_regs, m_CGRAM = [], m_VRAM = [], m_OAM = [], ppu_uLine = 7,
     m_bVBlank = False, m_pRender = \<lparr>m_UpdateFlags = 0\<rparr>, ppu_Queue = no_writes\<rparr>"

text \<open>A brightness is written during line 1 of the frame.\<close>

definition demo_frame :: "unit SnesPPUT" where
  "demo_frame = snd (SnesPPU_EnqueueWrite 1 0x2100 0x0F demo_ppu)"

lemma no_writes_ok: "snq_ok no_writes" "snq_pending no_writes = []"
  by (simp_all add: snq_ok_def snq_pending_def no_writes_def)

lemma demo_ppu_simps: "mem_ok demo_ppu" "m_bVBlank demo_ppu = False" "ppu_uLine demo_ppu = 0" "ppu_Queue demo_ppu = no_writes"
  by (simp_all add: demo_ppu_def SnesPPU_Reset_def mem_ok_def render_flags_def SNQueue_Reset_def no_writes_def)

lemma demo_frame_simps: "m_bVBlank demo_frame = False" "ppu_uLine demo_frame = 0" "snq_ok (ppu_Queue demo_frame)"
  "snq_pending (ppu_Queue demo_frame) = [\<lparr>e_uCycle = 1, e_uAddr = 0x2100, e_uData = 0x0F\<rparr>]"
  using snq_enqueue_ok [OF no_writes_ok(1), of 1 "0x2100" "0x0F"] snq_enqueue_pending [OF no_writes_ok(1), of 1 "0x2100" "0x0F"]
    snq_enqueue_empty [OF no_writes_ok, of 1 "0x2100" "0x0F"]
  by (auto simp: demo_frame_def SnesPPU_EnqueueWrite_def demo_ppu_simps no_writes_ok split: prod.splits)

theorem sync_in_line_order_witness:
  "\<exists>evs. SnesPPU_Sync quiet_render 2 demo_frame =
      map_option (at_line 3 (advance 1 (ppu_Queue demo_frame))) (run_events quiet_render evs (Some demo_frame))
    \<and> performed evs = [\<lparr>e_uCycle = 1, e_uAddr = 0x2100, e_uData = 0x0F\<rparr>] \<and> drawn evs = [1, 2]"
proof -
  have "line_range 0 2 = [0, 1, 2]" by (simp add: line_range_Cons line_range_empty)
  with sync_in_line_order [of demo_frame 2 quiet_render] show ?thesis
    by (auto simp: demo_frame_simps)
qed

theorem vram_pair_write_witness:
  "\<exists>p1 p2. WriteVMDATALH quiet_render 0x34 0x12 demo_ppu = Some p1
    \<and> WriteVMDATAL quiet_render 0x34 demo_ppu \<bind> WriteVMDATAH quiet_render 0x12 = Some p2 \<and> same_vram p1 p2"
  using vram_pair_write [where p = demo_ppu and V = quiet_render and l = "0x34" and h = "0x12"] by (auto simp: demo_ppu_simps quiet_render_def)

end
