(* ===== verification/Sn_Io.thy ===== *)
theory Sn_Io
  imports Prelude
begin

text \<open>
  The I/O chip next to the main processor (\<^verbatim>\<open>snio.cpp\<close>, \<^verbatim>\<open>snio.h\<close>, \<^verbatim>\<open>emuinput.h\<close>): its
  registers and the joypads behind the two serial ports. A pad is a word of buttons; \<^verbatim>\<open>0xFFFF\<close>
  says that nothing is plugged in. The arrays have five elements and are indexed with constants.
\<close>

section \<open>State\<close>

definition EMUSYS_DEVICE_NUM :: nat where "EMUSYS_DEVICE_NUM = 5"
definition EMUSYS_DEVICE_DISCONNECTED :: u16 where "EMUSYS_DEVICE_DISCONNECTED = 0xFFFF"
definition SNESIO_DEVICE_NUM :: nat where "SNESIO_DEVICE_NUM = 5"
definition SNIO_VERSION_5A22 :: u8 where "SNIO_VERSION_5A22 = 0x02"

record SnesIORegsT =
  i_wrdiv :: u16
  i_rdmpy :: u16
  i_rddiv :: u16
  i_wrmpya :: u8
  i_wrmpyb :: u8
  i_wrdivb :: u8
  i_nmitimen :: u8
  i_vtime :: u16
  i_htime :: u16
  i_timeup :: u8
  i_rdnmi :: u8
  i_hvbjoy :: u8
  i_memsel :: u8
  i_wrio :: u8
  i_wmadd :: u32
  i_joydata :: u8
  i_joy1 :: u16
  i_joy2 :: u16
  i_joy3 :: u16
  i_joy4 :: u16
  i_joyserial :: "u16 list"

record SnesIOT =
  m_Input :: "u16 list"
  io_Regs :: SnesIORegsT

definition upd_io :: "(SnesIORegsT \<Rightarrow> SnesIORegsT) \<Rightarrow> SnesIOT \<Rightarrow> SnesIOT" where
  "upd_io f io = io\<lparr>io_Regs := f (io_Regs io)\<rparr>"

definition zero_io_regs :: SnesIORegsT where
  "zero_io_regs = \<lparr>i_wrdiv = 0, i_rdmpy = 0, i_rddiv = 0, i_wrmpya = 0, i_wrmpyb = 0, i_wrdivb = 0, i_nmitimen = 0,
     i_vtime = 0, i_htime = 0, i_timeup = 0, i_rdnmi = 0, i_hvbjoy = 0, i_memsel = 0, i_wrio = 0, i_wmadd = 0,
     i_joydata = 0, i_joy1 = 0, i_joy2 = 0, i_joy3 = 0, i_joy4 = 0, i_joyserial = replicate SNESIO_DEVICE_NUM 0\<rparr>"

definition SnesIO_Reset :: "SnesIOT \<Rightarrow> SnesIOT" where
  "SnesIO_Reset io = \<lparr>m_Input = replicate EMUSYS_DEVICE_NUM 0, io_Regs = zero_io_regs\<lparr>i_rdnmi := SNIO_VERSION_5A22\<rparr>\<rparr>"

section \<open>The serial ports\<close>

definition ReadSerialPad :: "nat \<Rightarrow> SnesIOT \<Rightarrow> u8" where
  "ReadSerialPad uPad io = ucast (drop_bit 15 (i_joyserial (io_Regs io) ! uPad) AND 1)"

definition upd_serial :: "nat \<Rightarrow> u16 \<Rightarrow> SnesIOT \<Rightarrow> SnesIOT" where
  "upd_serial uPad w = upd_io (\<lambda>r. r\<lparr>i_joyserial := (i_joyserial r)[uPad := w]\<rparr>)"

definition ShiftSerialPad :: "nat \<Rightarrow> SnesIOT \<Rightarrow> SnesIOT" where
  "ShiftSerialPad uPad io =
     (let w = push_bit 1 (i_joyserial (io_Regs io) ! uPad) in
      upd_serial uPad (if m_Input io ! uPad \<noteq> EMUSYS_DEVICE_DISCONNECTED then w OR 1 else w) io)"

definition ReadSerial0 :: "SnesIOT \<Rightarrow> u8 \<times> SnesIOT" where
  "ReadSerial0 io =
     (ReadSerialPad 0 io, if i_joydata (io_Regs io) AND 1 = 0 then ShiftSerialPad 0 io else io)"

definition ReadSerial1 :: "SnesIOT \<Rightarrow> u8 \<times> SnesIOT" where
  "ReadSerial1 io =
     (let (uData, io) =
        (if m_Input io ! 2 = EMUSYS_DEVICE_DISCONNECTED \<and> m_Input io ! 3 = EMUSYS_DEVICE_DISCONNECTED \<and>
            m_Input io ! 4 = EMUSYS_DEVICE_DISCONNECTED
         then (ReadSerialPad 1 io, if i_joydata (io_Regs io) AND 1 = 0 then ShiftSerialPad 1 io else io)
         else if i_joydata (io_Regs io) AND 1 \<noteq> 0 then (0x02, io)
         else if i_wrio (io_Regs io) AND 0x80 \<noteq> 0
         then (ReadSerialPad 1 io OR push_bit 1 (ReadSerialPad 2 io), ShiftSerialPad 2 (ShiftSerialPad 1 io))
         else (ReadSerialPad 3 io OR push_bit 1 (ReadSerialPad 4 io), ShiftSerialPad 4 (ShiftSerialPad 3 io)))
      in (uData OR 0x1C, io))"

text \<open>The loop over the pads when the strobe line goes up.\<close>

definition latch_pad :: "u16 \<Rightarrow> u16" where
  "latch_pad w = (if w \<noteq> EMUSYS_DEVICE_DISCONNECTED then w AND 0xFFF0 else 0)"

definition WriteSerial :: "u8 \<Rightarrow> SnesIOT \<Rightarrow> SnesIOT" where
  "WriteSerial uData io =
     (let io = (if uData AND 1 \<noteq> 0 \<and> i_joydata (io_Regs io) AND 1 = 0
                then upd_io (\<lambda>r. r\<lparr>i_joyserial := map (\<lambda>iPad. latch_pad (m_Input io ! iPad)) [0..<SNESIO_DEVICE_NUM]\<rparr>) io
                else io)
      in upd_io (\<lambda>r. r\<lparr>i_joydata := uData\<rparr>) io)"

definition UpdateJoyPads :: "SnesIOT \<Rightarrow> SnesIOT" where
  "UpdateJoyPads io =
     (let io = WriteSerial 0 (WriteSerial 1 (WriteSerial 0 io));
          s = i_joyserial (io_Regs io);
          io = upd_io (\<lambda>r. r\<lparr>i_joy1 := s ! 0, i_joy2 := s ! 1\<rparr>) io;
          io = upd_io (\<lambda>r. if i_wrio r AND 0x80 \<noteq> 0 then r\<lparr>i_joy3 := s ! 1, i_joy4 := s ! 2\<rparr>
                           else r\<lparr>i_joy3 := s ! 3, i_joy4 := s ! 4\<rparr>) io
      in ((\<lambda>io. snd (ReadSerial1 (snd (ReadSerial0 io)))) ^^ 16) io)"

definition LatchInput :: "u16 list option \<Rightarrow> SnesIOT \<Rightarrow> SnesIOT" where
  "LatchInput pInput io =
     (case pInput of Some ps \<Rightarrow> io\<lparr>m_Input := ps\<rparr>
      | None \<Rightarrow> io\<lparr>m_Input := replicate EMUSYS_DEVICE_NUM EMUSYS_DEVICE_DISCONNECTED\<rparr>)"

section \<open>What a program reads from the first port\<close>

definition joy_ok :: "SnesIOT \<Rightarrow> bool" where
  "joy_ok io \<longleftrightarrow> length (m_Input io) = EMUSYS_DEVICE_NUM \<and> length (i_joyserial (io_Regs io)) = SNESIO_DEVICE_NUM"

text \<open>\<open>n\<close> reads in a row.\<close>

fun reads0 :: "nat \<Rightarrow> SnesIOT \<Rightarrow> u8 list" where
  "reads0 0 io = []"
| "reads0 (Suc n) io = (let (b, io) = ReadSerial0 io in b # reads0 n io)"

text \<open>The port as a shift register: the bits of \<open>w\<close> from the top, then ones if a pad is there.\<close>

definition serial_bits :: "nat \<Rightarrow> bool \<Rightarrow> u16 \<Rightarrow> u8 list" where
  "serial_bits n conn w = map (\<lambda>i. if i < 16 then of_bool (bit w (15 - i)) else of_bool conn) [0..<n]"

lemma serial_bits_Suc:
  "serial_bits (Suc n) conn w = of_bool (bit w 15) # serial_bits n conn (push_bit 1 w OR of_bool conn)"
proof -
  let ?v = "push_bit 1 w OR of_bool conn"
  have shifted: "bit ?v j \<longleftrightarrow> bit w (j - 1)" if "0 < j" "j < 16" for j
    using that unfolding bit_or_iff bit_push_bit_iff by (auto simp: bit_simps)
  have low: "bit ?v 0 \<longleftrightarrow> conn"
    unfolding bit_or_iff bit_push_bit_iff by (auto simp: bit_simps)
  have "(if Suc i < 16 then of_bool (bit w (15 - Suc i)) else of_bool conn) =
      (if i < 16 then of_bool (bit ?v (15 - i)) else (of_bool conn :: u8))" for i
  proof (cases "i < 15")
    case True
    then show ?thesis using shifted [of "15 - i"] by simp
  next
    case False
    then show ?thesis using low by (cases "i = 15") (simp_all del: bit_0)
  qed
  then show ?thesis
    by (simp add: serial_bits_def upt_conv_Cons map_Suc_upt [symmetric] del: upt_Suc map_Suc_upt)
qed

lemma ReadSerialPad_bit: "ReadSerialPad i io = of_bool (bit (i_joyserial (io_Regs io) ! i) 15)"
  unfolding ReadSerialPad_def by (rule bit_word_eqI) (auto simp: bit_simps bit_1_iff)

lemma reads0_bits:
  assumes "joy_ok io" and "i_joydata (io_Regs io) AND 1 = 0"
  shows "reads0 n io = serial_bits n (m_Input io ! 0 \<noteq> EMUSYS_DEVICE_DISCONNECTED) (i_joyserial (io_Regs io) ! 0)"
  using assms
proof (induction n arbitrary: io)
  case 0
  then show ?case by (simp add: serial_bits_def)
next
  case (Suc n)
  let ?io = "ShiftSerialPad 0 io"
  have io: "joy_ok ?io" "i_joydata (io_Regs ?io) = i_joydata (io_Regs io)" "m_Input ?io = m_Input io"
    "i_joyserial (io_Regs ?io) ! 0 = push_bit 1 (i_joyserial (io_Regs io) ! 0) OR of_bool (m_Input io ! 0 \<noteq> EMUSYS_DEVICE_DISCONNECTED)"
    using Suc.prems by (simp_all add: ShiftSerialPad_def upd_serial_def upd_io_def joy_ok_def Let_def SNESIO_DEVICE_NUM_def)
  from Suc.IH [OF io(1)] Suc.prems(2) io show ?case
    by (simp add: ReadSerial0_def serial_bits_Suc ReadSerialPad_bit)
qed

lemma WriteSerial_strobe:
  "joy_ok io \<Longrightarrow> joy_ok (WriteSerial b io) \<and> m_Input (WriteSerial b io) = m_Input io"
  by (auto simp: WriteSerial_def joy_ok_def upd_io_def Let_def)

lemma WriteSerial_pulse:
  assumes "joy_ok io" and "i_joydata (io_Regs io) AND 1 = 0"
  shows "joy_ok (WriteSerial 0 (WriteSerial 1 io))"
    and "i_joydata (io_Regs (WriteSerial 0 (WriteSerial 1 io))) = 0"
    and "m_Input (WriteSerial 0 (WriteSerial 1 io)) = m_Input io"
    and "i_joyserial (io_Regs (WriteSerial 0 (WriteSerial 1 io))) = map (\<lambda>p. latch_pad (m_Input io ! p)) [0..<SNESIO_DEVICE_NUM]"
  using assms by (simp_all add: WriteSerial_def upd_io_def joy_ok_def Let_def)

section \<open>Properties\<close>

text \<open>
  C34: A program that pulses the strobe line (writes 1, then 0, to the port register) and then reads the first
  serial port receives the twelve buttons of the latched pad from the top bit down, four zero bits, and from
  the seventeenth read on ones if a pad is plugged in and zeros if none is, however often it reads.
\<close>
theorem joypad_serial_protocol:
  assumes "joy_ok io" and "i_joydata (io_Regs io) AND 1 = 0"
  shows "reads0 n (WriteSerial 0 (WriteSerial 1 io)) =
    serial_bits n (m_Input io ! 0 \<noteq> EMUSYS_DEVICE_DISCONNECTED) (latch_pad (m_Input io ! 0))"
  using reads0_bits [of "WriteSerial 0 (WriteSerial 1 io)" n] WriteSerial_pulse [OF assms]
  by (simp add: SNESIO_DEVICE_NUM_def)

definition demo_pads :: SnesIOT where
  "demo_pads = \<lparr>m_Input = [0x9000, 0, 0xFFFF, 0xFFFF, 0xFFFF], io_Regs = zero_io_regs\<rparr>"

theorem joypad_serial_protocol_witness:
  "reads0 18 (WriteSerial 0 (WriteSerial 1 demo_pads)) = serial_bits 18 True 0x9000"
  using joypad_serial_protocol [of demo_pads 18]
  by (simp add: demo_pads_def joy_ok_def zero_io_regs_def EMUSYS_DEVICE_NUM_def EMUSYS_DEVICE_DISCONNECTED_def
      SNESIO_DEVICE_NUM_def latch_pad_def)

end
