(* ===== verification/Sn_System.thy ===== *)
theory Sn_System
  imports Sn_Spc_IO Sn_Io Sn_Ppu Sn_Cpu_Control
begin

text \<open>
  The system (\<^verbatim>\<open>snes.h\<close>, \<^verbatim>\<open>snes.cpp\<close>): its state, the synchronisation of the chips, and the
  trap functions through which the processor reaches them. The processor is the machine state; the
  other chips are its user data, as \<^verbatim>\<open>pUserData\<close> points to the system. Work RAM and cartridge RAM
  are blocks of the host memory, because the bank table points into them.

  Parameters: \<open>V\<close> is the renderer behind the PPU and \<open>ex\<close> the function that
  \<^verbatim>\<open>_SNSPC_pExecuteFunc\<close> points to. \<^verbatim>\<open>SNES_DSP1\<close> is false on this platform, so the coprocessor's
  handlers are never installed.
\<close>

section \<open>State\<close>

definition SNES_RAMSIZE :: nat where "SNES_RAMSIZE = 0x20000"
definition SNES_SRAMSIZE :: nat where "SNES_SRAMSIZE = 256 * 1024"
definition SNESDMAC_CHANNEL_NUM :: nat where "SNESDMAC_CHANNEL_NUM = 8"
definition SNCPU_COUNTER_FRAME :: nat where "SNCPU_COUNTER_FRAME = 1"
definition SNCPU_COUNTER_LINE :: nat where "SNCPU_COUNTER_LINE = 2"
definition SNES_SPCMINCYCLES :: int where "SNES_SPCMINCYCLES = 0"
definition SNES_SPCWRITE_LATENCY :: int where "SNES_SPCWRITE_LATENCY = 0"

record SnesDMAChT =
  dmapx :: u8
  bbadx :: u8
  a1tx :: u16
  dasx :: u16
  a1bx :: u8
  dasbx :: u8
  a2ax :: u16
  ntlrx :: u8
  unknown :: u8

record SnesDMACT =
  dma_Channels :: "SnesDMAChT list"
  m_MDMAEnable :: u8
  m_HDMAEnable :: u8

record 'r SnesSystemT =
  m_PPU :: "'r SnesPPUT"
  m_DMAC :: SnesDMACT
  m_IO :: SnesIOT
  m_Spc :: "SNSpcIOT SNSpcT"
  m_uSramSize :: u32
  m_uLine :: u32
  m_uFrame :: u32

type_synonym 'r snes = "'r SnesSystemT SNCpuT"

text \<open>The blocks of the host memory: pointers to the first byte of \<^verbatim>\<open>m_Ram\<close>, \<^verbatim>\<open>m_SRam\<close> and the ROM.\<close>

definition m_Ram :: ptr where "m_Ram = (1, 0)"
definition m_SRam :: ptr where "m_SRam = (2, 0)"
definition m_pRomData :: ptr where "m_pRomData = (3, 0)"

abbreviation sys :: "'w SNCpuT \<Rightarrow> 'w" where "sys \<equiv> SNCpuT.pUserData"

definition upd_sys :: "('w \<Rightarrow> 'w) \<Rightarrow> 'w SNCpuT \<Rightarrow> 'w SNCpuT" where
  "upd_sys f c = c\<lparr>SNCpuT.pUserData := f (sys c)\<rparr>"

definition set_io :: "SnesIOT \<Rightarrow> 'r snes \<Rightarrow> 'r snes" where
  "set_io io = upd_sys (\<lambda>s. s\<lparr>m_IO := io\<rparr>)"

definition upd_io_regs :: "(SnesIORegsT \<Rightarrow> SnesIORegsT) \<Rightarrow> 'r snes \<Rightarrow> 'r snes" where
  "upd_io_regs f = upd_sys (\<lambda>s. s\<lparr>m_IO := upd_io f (m_IO s)\<rparr>)"

abbreviation io_regs :: "'r snes \<Rightarrow> SnesIORegsT" where "io_regs c \<equiv> io_Regs (m_IO (sys c))"

text \<open>The registers of the sound processor's I/O, which are behind \<^verbatim>\<open>m_SpcIO\<close>.\<close>

definition upd_spc_io :: "(SNSpcIOT \<Rightarrow> SNSpcIOT) \<Rightarrow> 'r snes \<Rightarrow> 'r snes" where
  "upd_spc_io f = upd_sys (\<lambda>s. s\<lparr>m_Spc := (m_Spc s)\<lparr>SNSpcT.pUserData := f (SNSpcT.pUserData (m_Spc s))\<rparr>\<rparr>)"

abbreviation spc_io :: "'r snes \<Rightarrow> SNSpcIOT" where "spc_io c \<equiv> SNSpcT.pUserData (m_Spc (sys c))"

text \<open>Operations of the PPU inside the system.\<close>

definition with_ppu :: "('r SnesPPUT \<Rightarrow> 'r SnesPPUT option) \<Rightarrow> 'r snes \<Rightarrow> 'r snes option" where
  "with_ppu f c = do { p \<leftarrow> f (m_PPU (sys c)); Some (upd_sys (\<lambda>s. s\<lparr>m_PPU := p\<rparr>) c) }"

definition read_ppu :: "('r SnesPPUT \<Rightarrow> ('a \<times> 'r SnesPPUT) option) \<Rightarrow> 'r snes \<Rightarrow> ('a \<times> 'r snes) option" where
  "read_ppu f c = do { (v, p) \<leftarrow> f (m_PPU (sys c)); Some (v, upd_sys (\<lambda>s. s\<lparr>m_PPU := p\<rparr>) c) }"

abbreviation ppu_regs :: "'r snes \<Rightarrow> SnesPPURegsT" where "ppu_regs c \<equiv> ppu_Regs (m_PPU (sys c))"

section \<open>Synchronisation\<close>

text \<open>
  The sound processor runs as far as the main processor has come in this frame, and then gets the
  port writes that are still queued.
\<close>

definition SyncSPC :: "(SNSpcIOT SNSpcT \<Rightarrow> SNSpcIOT SNSpcT option) \<Rightarrow> int \<Rightarrow> 'r snes \<Rightarrow> 'r snes option" where
  "SyncSPC ex uExtra c =
     do { CpuTime \<leftarrow> SNCPUGetCounter c SNCPU_COUNTER_FRAME;
          SpcTime \<leftarrow> SNSPCGetCounter (m_Spc (sys c)) SNSPC_COUNTER_FRAME;
          let nCycles = CpuTime - SpcTime - SNSpcT.Cycles (m_Spc (sys c)) + uExtra;
          (if nCycles > SNSPC_CYCLE * SNES_SPCMINCYCLES
           then do { (_, spc) \<leftarrow> SNSPCExecute ex (m_Spc (sys c)) nCycles;
                     io \<leftarrow> SNSpcIO_SyncQueueAll (SNSpcT.pUserData spc);
                     Some (upd_sys (\<lambda>s. s\<lparr>m_Spc := spc\<lparr>SNSpcT.pUserData := io\<rparr>\<rparr>) c) }
           else Some c) }"

definition SyncPPU :: "'r render_vt \<Rightarrow> 'r snes \<Rightarrow> 'r snes option" where
  "SyncPPU V c = with_ppu (SnesPPU_Sync V (m_uLine (sys c))) c"

section \<open>The handlers of unmapped memory and cartridge RAM\<close>

definition ReadMem :: "'r snes \<Rightarrow> u32 \<Rightarrow> (u8 \<times> 'r snes) option" where
  "ReadMem c uAddr = Some (0, c)"

definition WriteMem :: "'r snes \<Rightarrow> u32 \<Rightarrow> u8 \<Rightarrow> 'r snes option" where
  "WriteMem c uAddr uData = Some c"

definition sram_index :: "'r snes \<Rightarrow> u32 \<Rightarrow> int" where
  "sram_index c uAddr = uint (uAddr AND (m_uSramSize (sys c) - 1))"

definition ReadSRAM :: "'r snes \<Rightarrow> u32 \<Rightarrow> (u8 \<times> 'r snes) option" where
  "ReadSRAM c uAddr = do { v \<leftarrow> hload (hMem c) (ptr_add m_SRam (sram_index c uAddr)); Some (v, c) }"

definition WriteSRAM :: "'r snes \<Rightarrow> u32 \<Rightarrow> u8 \<Rightarrow> 'r snes option" where
  "WriteSRAM c uAddr uData =
     do { m \<leftarrow> hstore (hMem c) (ptr_add m_SRam (sram_index c uAddr)) uData; Some (c\<lparr>hMem := m\<rparr>) }"

section \<open>The registers at 2000\<close>

text \<open>The port into work RAM.\<close>

definition next_wmadd :: "'r snes \<Rightarrow> 'r snes" where
  "next_wmadd = upd_io_regs (\<lambda>r. r\<lparr>i_wmadd := (i_wmadd r + 1) AND 0x1FFFF\<rparr>)"

definition read_WMDATA :: "'r snes \<Rightarrow> (u8 \<times> 'r snes) option" where
  "read_WMDATA c = do { v \<leftarrow> hload (hMem c) (ptr_add m_Ram (uint (i_wmadd (io_regs c)))); Some (v, next_wmadd c) }"

definition write_WMDATA :: "u8 \<Rightarrow> 'r snes \<Rightarrow> 'r snes option" where
  "write_WMDATA uData c =
     do { m \<leftarrow> hstore (hMem c) (ptr_add m_Ram (uint (i_wmadd (io_regs c)))) uData; Some (next_wmadd (c\<lparr>hMem := m\<rparr>)) }"

text \<open>Latching the beam position.\<close>

definition read_slhv :: "'r snes \<Rightarrow> (u8 \<times> 'r snes) option" where
  "read_slhv c =
     do { t \<leftarrow> SNCPUGetCounter c SNCPU_COUNTER_LINE;
          c \<leftarrow> with_ppu (\<lambda>p. Some (ppu_upd (\<lambda>r. r\<lparr>r_ophct := (r_ophct r)\<lparr>ft_Reg := word_of_int (drop_bit 2 (t + 14))\<rparr>,
                 r_opvct := (r_opvct r)\<lparr>ft_Reg := ucast (m_uLine (sys c) AND 0x1FF)\<rparr>\<rparr>) p)) c;
          Some (0, c) }"

definition read_counter :: "(SnesPPURegsT \<Rightarrow> SnesReg16FT) \<Rightarrow> (SnesReg16FT \<Rightarrow> SnesPPURegsT \<Rightarrow> SnesPPURegsT) \<Rightarrow> 'r snes \<Rightarrow> (u8 \<times> 'r snes) option" where
  "read_counter g f = read_ppu (\<lambda>p. let (v, ft) = SnesReg16FT_Read8 (g (ppu_Regs p)) in Some (v, ppu_upd (f ft) p))"

definition read_stat78 :: "'r snes \<Rightarrow> (u8 \<times> 'r snes) option" where
  "read_stat78 = read_ppu (\<lambda>p.
     let p = ppu_upd (\<lambda>r. r\<lparr>r_ophct := SnesReg16FT_Reset (r_ophct r), r_opvct := SnesReg16FT_Reset (r_opvct r)\<rparr>) p
     in Some (r_stat78 (ppu_Regs p), p))"

definition sync_read :: "'r render_vt \<Rightarrow> ('r SnesPPUT \<Rightarrow> (u8 \<times> 'r SnesPPUT) option) \<Rightarrow> 'r snes \<Rightarrow> (u8 \<times> 'r snes) option" where
  "sync_read V f c = do { c \<leftarrow> SyncPPU V c; read_ppu f c }"

definition read_apu :: "(SNSpcIOT SNSpcT \<Rightarrow> SNSpcIOT SNSpcT option) \<Rightarrow> u32 \<Rightarrow> 'r snes \<Rightarrow> (u8 \<times> 'r snes) option" where
  "read_apu ex uAddr c =
     do { c \<leftarrow> SyncSPC ex 0 c;
          v \<leftarrow> arr_get (apu_r (spc_io c)) (unat (uAddr AND 3));
          Some (v, c) }"

definition read2000_cases :: "'r render_vt \<Rightarrow> (SNSpcIOT SNSpcT \<Rightarrow> SNSpcIOT SNSpcT option) \<Rightarrow> (u32 \<times> ('r snes \<Rightarrow> (u8 \<times> 'r snes) option)) list" where
  "read2000_cases V ex =
    [(0x2137, read_slhv),
     (0x2138, sync_read V ReadOAMDATA),
     (0x213C, read_counter r_ophct (\<lambda>ft r. r\<lparr>r_ophct := ft\<rparr>)),
     (0x213D, read_counter r_opvct (\<lambda>ft r. r\<lparr>r_opvct := ft\<rparr>)),
     (0x213E, \<lambda>c. Some (r_stat77 (ppu_regs c), c)),
     (0x213F, read_stat78),
     (0x2134, sync_read V (\<lambda>p. Some (r_mpyl (ppu_Regs p), p))),
     (0x2135, sync_read V (\<lambda>p. Some (r_mpym (ppu_Regs p), p))),
     (0x2136, sync_read V (\<lambda>p. Some (r_mpyh (ppu_Regs p), p))),
     (0x2139, sync_read V ReadVMDATAL),
     (0x213A, sync_read V ReadVMDATAH),
     (0x213B, sync_read V ReadCGDATA),
     (0x2140, read_apu ex 0x2140), (0x2141, read_apu ex 0x2141), (0x2142, read_apu ex 0x2142), (0x2143, read_apu ex 0x2143),
     (0x2180, read_WMDATA)]"

definition open_bus :: "u32 \<Rightarrow> u8" where "open_bus uAddr = ucast (drop_bit 8 uAddr)"

definition Read2000 :: "'r render_vt \<Rightarrow> (SNSpcIOT SNSpcT \<Rightarrow> SNSpcIOT SNSpcT option) \<Rightarrow> 'r snes \<Rightarrow> u32 \<Rightarrow> (u8 \<times> 'r snes) option" where
  "Read2000 V ex c uAddr =
     (let uAddr = uAddr AND 0xFFFF in
      case map_of (read2000_cases V ex) uAddr of Some f \<Rightarrow> f c | None \<Rightarrow> Some (open_bus uAddr, c))"

text \<open>\<^verbatim>\<open>while (!EnqueueWrite(...)) SyncPPU()\<close>: not returning is \<^const>\<open>None\<close>.\<close>

partial_function (option) enqueue_ppu_write :: "'r render_vt \<Rightarrow> u32 \<Rightarrow> u8 \<Rightarrow> 'r snes \<Rightarrow> 'r snes option" where
  "enqueue_ppu_write V uAddr uData c =
     (let (b, p) = SnesPPU_EnqueueWrite (m_uLine (sys c)) uAddr uData (m_PPU (sys c));
          c = upd_sys (\<lambda>s. s\<lparr>m_PPU := p\<rparr>) c
      in if b then Some c
         else do { c \<leftarrow> SyncPPU V c; enqueue_ppu_write V uAddr uData c })"

definition write_apu :: "(SNSpcIOT SNSpcT \<Rightarrow> SNSpcIOT SNSpcT option) \<Rightarrow> u32 \<Rightarrow> u8 \<Rightarrow> 'r snes \<Rightarrow> 'r snes option" where
  "write_apu ex uAddr uData c =
     do { t \<leftarrow> SNCPUGetCounter c SNCPU_COUNTER_FRAME;
          let (b, io) = SNSpcIO_EnqueueWrite (word_of_int (t + SNES_SPCWRITE_LATENCY)) (uAddr AND 3) uData (spc_io c);
          let c = upd_spc_io (\<lambda>_. io) c;
          (if b then Some c
           else do { c \<leftarrow> SyncSPC ex SNES_SPCWRITE_LATENCY c;
                     w \<leftarrow> arr_set (apu_w (spc_io c)) (unat (uAddr AND 3)) uData;
                     Some (upd_spc_io (\<lambda>io. io\<lparr>apu_w := w\<rparr>) c) }) }"

definition write_wmadd :: "u32 \<Rightarrow> u8 \<Rightarrow> nat \<Rightarrow> u8 \<Rightarrow> 'r snes \<Rightarrow> 'r snes option" where
  "write_wmadd keep m s uData c =
     Some (upd_io_regs (\<lambda>r. r\<lparr>i_wmadd := (i_wmadd r AND NOT keep) OR push_bit s (ucast (uData AND m))\<rparr>) c)"

definition write2000_cases :: "(SNSpcIOT SNSpcT \<Rightarrow> SNSpcIOT SNSpcT option) \<Rightarrow> (u32 \<times> (u8 \<Rightarrow> 'r snes \<Rightarrow> 'r snes option)) list" where
  "write2000_cases ex =
    [(0x2140, write_apu ex 0x2140), (0x2141, write_apu ex 0x2141), (0x2142, write_apu ex 0x2142), (0x2143, write_apu ex 0x2143),
     (0x2180, write_WMDATA),
     (0x2181, write_wmadd 0x0000FF 0xFF 0),
     (0x2182, write_wmadd 0x00FF00 0xFF 8),
     (0x2183, write_wmadd 0xFF0000 0x01 16)]"

definition Write2000 :: "'r render_vt \<Rightarrow> (SNSpcIOT SNSpcT \<Rightarrow> SNSpcIOT SNSpcT option) \<Rightarrow> 'r snes \<Rightarrow> u32 \<Rightarrow> u8 \<Rightarrow> 'r snes option" where
  "Write2000 V ex c uAddr uData =
     (let uAddr = uAddr AND 0xFFFF in
      if uAddr < 0x2140 then enqueue_ppu_write V uAddr uData c
      else case map_of (write2000_cases ex) uAddr of Some f \<Rightarrow> f uData c | None \<Rightarrow> Some c)"

end
