(* ===== verification/Sn_Traps.thy ===== *)
theory Sn_Traps
  imports Sn_System
begin

text \<open>
  The registers at 4000 (\<^verbatim>\<open>snes.cpp\<close>), the register file of the DMA controller
  (\<^verbatim>\<open>sndma.cpp\<close>) and the table of all trap functions that the memory map installs.
\<close>

section \<open>The register file of the DMA controller\<close>

definition upd_dmac :: "(SnesDMACT \<Rightarrow> SnesDMACT) \<Rightarrow> 'r snes \<Rightarrow> 'r snes" where
  "upd_dmac f = upd_sys (\<lambda>s. s\<lparr>m_DMAC := f (m_DMAC s)\<rparr>)"

definition dma_reg_read :: "SnesDMAChT \<Rightarrow> u32 \<Rightarrow> u8" where
  "dma_reg_read p a =
     (if a = 0x0 then dmapx p else if a = 0x1 then bbadx p
      else if a = 0x2 then ucast (a1tx p AND 0xFF) else if a = 0x3 then ucast (drop_bit 8 (a1tx p))
      else if a = 0x4 then a1bx p
      else if a = 0x5 then ucast (dasx p AND 0xFF) else if a = 0x6 then ucast (drop_bit 8 (dasx p))
      else if a = 0x7 then dasbx p
      else if a = 0x8 then ucast (a2ax p AND 0xFF) else if a = 0x9 then ucast (drop_bit 8 (a2ax p))
      else if a = 0xA then ntlrx p
      else if a = 0xB \<or> a = 0xF then unknown p
      else 0)"

definition low_byte :: "u8 \<Rightarrow> u16 \<Rightarrow> u16" where
  "low_byte d w = (w AND 0xFF00) OR ucast d"

definition high_byte :: "u8 \<Rightarrow> u16 \<Rightarrow> u16" where
  "high_byte d w = (w AND 0x00FF) OR push_bit 8 (ucast d)"

definition dma_reg_write :: "u32 \<Rightarrow> u8 \<Rightarrow> SnesDMAChT \<Rightarrow> SnesDMAChT" where
  "dma_reg_write a d p =
     (if a = 0x0 then p\<lparr>dmapx := d\<rparr> else if a = 0x1 then p\<lparr>bbadx := d\<rparr>
      else if a = 0x2 then p\<lparr>a1tx := low_byte d (a1tx p)\<rparr> else if a = 0x3 then p\<lparr>a1tx := high_byte d (a1tx p)\<rparr>
      else if a = 0x4 then p\<lparr>a1bx := d\<rparr>
      else if a = 0x5 then p\<lparr>dasx := low_byte d (dasx p)\<rparr> else if a = 0x6 then p\<lparr>dasx := high_byte d (dasx p)\<rparr>
      else if a = 0x7 then p\<lparr>dasbx := d\<rparr>
      else if a = 0x8 then p\<lparr>a2ax := low_byte d (a2ax p)\<rparr> else if a = 0x9 then p\<lparr>a2ax := high_byte d (a2ax p)\<rparr>
      else if a = 0xA then p\<lparr>ntlrx := d\<rparr>
      else if a = 0xB \<or> a = 0xF then p\<lparr>unknown := d\<rparr>
      else p)"

definition SnesDMAC_Read8 :: "u32 \<Rightarrow> u32 \<Rightarrow> SnesDMACT \<Rightarrow> u8 option" where
  "SnesDMAC_Read8 uChan uAddr d =
     do { p \<leftarrow> arr_get (dma_Channels d) (unat uChan); Some (dma_reg_read p (uAddr AND 0xF)) }"

definition SnesDMAC_Write8 :: "u32 \<Rightarrow> u32 \<Rightarrow> u8 \<Rightarrow> SnesDMACT \<Rightarrow> SnesDMACT option" where
  "SnesDMAC_Write8 uChan uAddr uData d =
     do { chs \<leftarrow> arr_upd (dma_Channels d) (unat uChan) (dma_reg_write (uAddr AND 0xF) uData);
          Some (d\<lparr>dma_Channels := chs\<rparr>) }"

section \<open>Reads\<close>

definition is_dma_reg :: "u32 \<Rightarrow> bool" where
  "is_dma_reg uAddr \<longleftrightarrow> 0x4300 \<le> uAddr \<and> uAddr < 0x4380"

definition dma_chan :: "u32 \<Rightarrow> u32" where
  "dma_chan uAddr = drop_bit 4 uAddr AND 7"

text \<open>The NMI line follows the flag of \<^verbatim>\<open>RDNMI\<close> and its enable bit.\<close>

definition update_nmi :: "'r snes \<Rightarrow> 'r snes" where
  "update_nmi c = SNCPUSignalNMI c (i_rdnmi (io_regs c) AND i_nmitimen (io_regs c) AND 0x80 \<noteq> 0)"

definition read_RDNMI :: "'r snes \<Rightarrow> (u8 \<times> 'r snes) option" where
  "read_RDNMI c = Some (i_rdnmi (io_regs c), update_nmi (upd_io_regs (\<lambda>r. r\<lparr>i_rdnmi := i_rdnmi r AND NOT 0x80\<rparr>) c))"

definition clear_timeup :: "'r snes \<Rightarrow> 'r snes" where
  "clear_timeup = upd_io_regs (\<lambda>r. r\<lparr>i_timeup := i_timeup r AND NOT 0x80\<rparr>)"

definition read_TIMEUP :: "'r snes \<Rightarrow> (u8 \<times> 'r snes) option" where
  "read_TIMEUP c = Some (i_timeup (io_regs c), SNCPUSignalIRQ (clear_timeup c) False)"

definition read_serial :: "(SnesIOT \<Rightarrow> u8 \<times> SnesIOT) \<Rightarrow> 'r snes \<Rightarrow> (u8 \<times> 'r snes) option" where
  "read_serial f c =
     (let c = SNCPUConsumeCycles c 2; (v, io) = f (m_IO (sys c)) in Some (v, set_io io c))"

definition read_io :: "(SnesIORegsT \<Rightarrow> u8) \<Rightarrow> 'r snes \<Rightarrow> (u8 \<times> 'r snes) option" where
  "read_io f c = Some (f (io_regs c), c)"

definition read4000_cases :: "(u32 \<times> ('r snes \<Rightarrow> (u8 \<times> 'r snes) option)) list" where
  "read4000_cases =
    [(0x4016, read_serial ReadSerial0),
     (0x4017, read_serial ReadSerial1),
     (0x4202, \<lambda>c. Some (0, c)),
     (0x4203, \<lambda>c. Some (0, c)),
     (0x420B, \<lambda>c. Some (m_MDMAEnable (m_DMAC (sys c)), c)),
     (0x420C, \<lambda>c. Some (m_HDMAEnable (m_DMAC (sys c)), c)),
     (0x4210, read_RDNMI),
     (0x4211, read_TIMEUP),
     (0x4212, read_io i_hvbjoy),
     (0x4213, \<lambda>c. Some (0, c)),
     (0x4214, read_io (\<lambda>r. lo8 (i_rddiv r))), (0x4215, read_io (\<lambda>r. hi8 (i_rddiv r))),
     (0x4216, read_io (\<lambda>r. lo8 (i_rdmpy r))), (0x4217, read_io (\<lambda>r. hi8 (i_rdmpy r))),
     (0x4218, read_io (\<lambda>r. lo8 (i_joy1 r))), (0x4219, read_io (\<lambda>r. hi8 (i_joy1 r))),
     (0x421A, read_io (\<lambda>r. lo8 (i_joy2 r))), (0x421B, read_io (\<lambda>r. hi8 (i_joy2 r))),
     (0x421C, read_io (\<lambda>r. lo8 (i_joy3 r))), (0x421D, read_io (\<lambda>r. hi8 (i_joy3 r))),
     (0x421E, read_io (\<lambda>r. lo8 (i_joy4 r))), (0x421F, read_io (\<lambda>r. hi8 (i_joy4 r)))]"

definition Read4000 :: "'r snes \<Rightarrow> u32 \<Rightarrow> (u8 \<times> 'r snes) option" where
  "Read4000 c uAddr =
     (let uAddr = uAddr AND 0xFFFF in
      if is_dma_reg uAddr
      then do { v \<leftarrow> SnesDMAC_Read8 (dma_chan uAddr) (uAddr AND 0xF) (m_DMAC (sys c)); Some (v, c) }
      else case map_of read4000_cases uAddr of Some f \<Rightarrow> f c | None \<Rightarrow> Some (open_bus uAddr, c))"

section \<open>Writes\<close>

definition write_nmitimen :: "u8 \<Rightarrow> 'r snes \<Rightarrow> 'r snes option" where
  "write_nmitimen uData c =
     (let c = upd_io_regs (\<lambda>r. r\<lparr>i_nmitimen := uData\<rparr>) c;
          c = (if uData AND (0x20 OR 0x10) = 0
               then SNCPUSignalIRQ (if i_timeup (io_regs c) AND 0x80 \<noteq> 0 then clear_timeup c else c) False
               else c)
      in Some (update_nmi c))"

definition io_write :: "(u8 \<Rightarrow> SnesIORegsT \<Rightarrow> SnesIORegsT) \<Rightarrow> u8 \<Rightarrow> 'r snes \<Rightarrow> 'r snes option" where
  "io_write f uData c = Some (upd_io_regs (f uData) c)"

definition w_wrmpyb :: "u8 \<Rightarrow> SnesIORegsT \<Rightarrow> SnesIORegsT" where
  "w_wrmpyb uData r = r\<lparr>i_wrmpyb := uData, i_rdmpy := ucast (i_wrmpya r) * ucast uData\<rparr>"

definition w_wrdivb :: "u8 \<Rightarrow> SnesIORegsT \<Rightarrow> SnesIORegsT" where
  "w_wrdivb uData r =
     (let r = r\<lparr>i_wrdivb := uData\<rparr> in
      if uData \<noteq> 0
      then r\<lparr>i_rddiv := i_wrdiv r div ucast (i_wrdivb r), i_rdmpy := i_wrdiv r mod ucast (i_wrdivb r)\<rparr>
      else r\<lparr>i_rddiv := 0xFFFF, i_rdmpy := i_wrdiv r\<rparr>)"

definition write_serial :: "u8 \<Rightarrow> 'r snes \<Rightarrow> 'r snes option" where
  "write_serial uData c =
     (let c = SNCPUConsumeCycles c 2 in Some (set_io (WriteSerial uData (m_IO (sys c))) c))"

definition write_mdmaen :: "u8 \<Rightarrow> 'r snes \<Rightarrow> 'r snes option" where
  "write_mdmaen uData c =
     (let c = upd_dmac (\<lambda>d. d\<lparr>m_MDMAEnable := uData\<rparr>) c
      in Some (if uData \<noteq> 0 then SNCPUSignalDMA c True else c))"

definition write_hdmaen :: "u8 \<Rightarrow> 'r snes \<Rightarrow> 'r snes option" where
  "write_hdmaen uData c = Some (upd_dmac (\<lambda>d. d\<lparr>m_HDMAEnable := uData\<rparr>) c)"

definition SetFastRom :: "'w SNCpuT \<Rightarrow> 'w SNCpuT option" where
  "SetFastRom c = SNCPUSetRomSpeed c 0x800000 0x800000 (word_of_int SNCPU_CYCLE_FAST)"

definition SetSlowRom :: "'w SNCpuT \<Rightarrow> 'w SNCpuT option" where
  "SetSlowRom c = SNCPUSetRomSpeed c 0x800000 0x800000 (word_of_int SNCPU_CYCLE_SLOW)"

definition write_memsel :: "u8 \<Rightarrow> 'r snes \<Rightarrow> 'r snes option" where
  "write_memsel uData c =
     (if (i_memsel (io_regs c) XOR uData) AND 1 \<noteq> 0
      then do { c \<leftarrow> (if uData AND 1 \<noteq> 0 then SetFastRom c else SetSlowRom c);
                Some (upd_io_regs (\<lambda>r. r\<lparr>i_memsel := uData\<rparr>) c) }
      else Some c)"

definition write_TIMEUP :: "u8 \<Rightarrow> 'r snes \<Rightarrow> 'r snes option" where
  "write_TIMEUP uData c = Some (SNCPUSignalIRQ (clear_timeup c) False)"

definition write4000_cases :: "(u32 \<times> (u8 \<Rightarrow> 'r snes \<Rightarrow> 'r snes option)) list" where
  "write4000_cases =
    [(0x4016, write_serial),
     (0x4200, write_nmitimen),
     (0x4201, io_write (\<lambda>d r. r\<lparr>i_wrio := d\<rparr>)),
     (0x4202, io_write (\<lambda>d r. r\<lparr>i_wrmpya := d\<rparr>)),
     (0x4203, io_write w_wrmpyb),
     (0x4204, io_write (\<lambda>d r. r\<lparr>i_wrdiv := set_lo8 (i_wrdiv r) d\<rparr>)),
     (0x4205, io_write (\<lambda>d r. r\<lparr>i_wrdiv := set_hi8 (i_wrdiv r) d\<rparr>)),
     (0x4206, io_write w_wrdivb),
     (0x4207, io_write (\<lambda>d r. r\<lparr>i_htime := set_lo8 (i_htime r) d\<rparr>)),
     (0x4208, io_write (\<lambda>d r. r\<lparr>i_htime := set_hi8 (i_htime r) (d AND 1)\<rparr>)),
     (0x4209, io_write (\<lambda>d r. r\<lparr>i_vtime := set_lo8 (i_vtime r) d\<rparr>)),
     (0x420A, io_write (\<lambda>d r. r\<lparr>i_vtime := set_hi8 (i_vtime r) (d AND 1)\<rparr>)),
     (0x420B, write_mdmaen),
     (0x420C, write_hdmaen),
     (0x420D, write_memsel),
     (0x4211, write_TIMEUP)]"

definition Write4000 :: "'r snes \<Rightarrow> u32 \<Rightarrow> u8 \<Rightarrow> 'r snes option" where
  "Write4000 c uAddr uData =
     (let uAddr = uAddr AND 0xFFFF in
      if is_dma_reg uAddr
      then do { d \<leftarrow> SnesDMAC_Write8 (dma_chan uAddr) (uAddr AND 0xF) uData (m_DMAC (sys c));
                Some (upd_dmac (\<lambda>_. d) c) }
      else case map_of write4000_cases uAddr of Some f \<Rightarrow> f uData c | None \<Rightarrow> Some c)"

section \<open>The table of the trap functions\<close>

definition fn_Mem :: trapfn where "fn_Mem = UserFn 0"
definition fn_2000 :: trapfn where "fn_2000 = UserFn 1"
definition fn_4000 :: trapfn where "fn_4000 = UserFn 2"
definition fn_SRAM :: trapfn where "fn_SRAM = UserFn 3"

definition snes_traps :: "'r render_vt \<Rightarrow> (SNSpcIOT SNSpcT \<Rightarrow> SNSpcIOT SNSpcT option) \<Rightarrow> 'r SnesSystemT traps" where
  "snes_traps V ex =
     \<lparr>rtrap = (\<lambda>k c a. if k = 0 then ReadMem c a else if k = 1 then Read2000 V ex c a
                      else if k = 2 then Read4000 c a else if k = 3 then ReadSRAM c a else None),
      wtrap = (\<lambda>k c a d. if k = 0 then WriteMem c a d else if k = 1 then Write2000 V ex c a d
                      else if k = 2 then Write4000 c a d else if k = 3 then WriteSRAM c a d else None)\<rparr>"

end
