(* ===== verification/Sn_Dma.thy ===== *)
theory Sn_Dma
  imports Sn_Traps
begin

text \<open>
  The DMA controller (\<^verbatim>\<open>sndma.cpp\<close>). A channel moves bytes between the bus of the processor and the
  256 registers at 2100, all at once (general DMA) or a few on every line (HDMA). Its registers are
  read again after every bus access, because an access may change them. \<open>V\<close> is the renderer and \<open>T\<close>
  the trap functions behind the bus. Debug output is left out.
\<close>

section \<open>Channels\<close>

definition get_chan :: "nat \<Rightarrow> 'r snes \<Rightarrow> SnesDMAChT" where
  "get_chan i c = dma_Channels (m_DMAC (sys c)) ! i"

definition upd_chan :: "nat \<Rightarrow> (SnesDMAChT \<Rightarrow> SnesDMAChT) \<Rightarrow> 'r snes \<Rightarrow> 'r snes" where
  "upd_chan i f = upd_dmac (\<lambda>d. d\<lparr>dma_Channels := (dma_Channels d)[i := f (dma_Channels d ! i)]\<rparr>)"

definition u_SNDma_MDMATransfer :: "u32 list list" where
  "u_SNDma_MDMATransfer = [[0,0,0,0], [0,1,0,1], [0,0,0,0], [0,0,1,1], [0,1,2,3], [0,1,0,1], [0,0,0,0], [0,0,1,1]]"

definition u_SNDma_MDMAInc :: "int list" where
  "u_SNDma_MDMAInc = [1, 0, -1, 0]"

definition dma_mode :: "SnesDMAChT \<Rightarrow> nat" where "dma_mode p = unat (dmapx p AND 7)"
definition dma_inc :: "SnesDMAChT \<Rightarrow> nat" where "dma_inc p = unat (drop_bit 3 (dmapx p) AND 3)"

text \<open>\<^verbatim>\<open>a1tx | (a1bx << 16)\<close>.\<close>

definition bus_addr :: "u32 \<Rightarrow> u8 \<Rightarrow> u32" where
  "bus_addr a b = a OR push_bit 16 (ucast b)"

definition src_addr :: "SnesDMAChT \<Rightarrow> u32" where "src_addr p = bus_addr (ucast (a1tx p)) (a1bx p)"

definition SNESDMA_Reset :: "SnesDMACT \<Rightarrow> SnesDMACT" where
  "SNESDMA_Reset d =
     \<lparr>dma_Channels = replicate SNESDMAC_CHANNEL_NUM
        \<lparr>dmapx = 0xFF, bbadx = 0xFF, a1tx = 0xFFFF, dasx = 0xFFFF, a1bx = 0xFF, dasbx = 0xFF, a2ax = 0xFFFF, ntlrx = 0xFF, unknown = 0xFF\<rparr>,
      m_MDMAEnable = 0, m_HDMAEnable = 0\<rparr>"

definition clear_enable :: "nat \<Rightarrow> 'r snes \<Rightarrow> 'r snes" where
  "clear_enable uChan = upd_dmac (\<lambda>d. d\<lparr>m_MDMAEnable := m_MDMAEnable d AND NOT (push_bit uChan 1)\<rparr>)"

definition chan_done :: "nat \<Rightarrow> 'r snes \<Rightarrow> 'r snes" where
  "chan_done uChan c = (if dasx (get_chan uChan c) = 0 then clear_enable uChan c else c)"

section \<open>General DMA to the processor's bus\<close>

partial_function (option) mdma_read_loop :: "'r SnesSystemT traps \<Rightarrow> nat \<Rightarrow> int \<Rightarrow> u32 list \<Rightarrow> nat \<Rightarrow> 'r snes \<Rightarrow> 'r snes option" where
  "mdma_read_loop T uChan uSrcDelta pTransfer iTransfer c =
     do { let uAddr = 0x2100 + ucast (bbadx (get_chan uChan c)) + pTransfer ! (iTransfer mod 4);
          (uData, c) \<leftarrow> SNCPURead8 T c uAddr;
          c \<leftarrow> SNCPUWrite8 T c (src_addr (get_chan uChan c)) uData;
          let c = upd_chan uChan (\<lambda>p. p\<lparr>a1tx := a1tx p + word_of_int uSrcDelta\<rparr>) c;
          let c = upd_chan uChan (\<lambda>p. p\<lparr>dasx := dasx p - 1\<rparr>) c;
          let c = SNCPUConsumeCycles c (SNCPU_CYCLE_SLOW * 1);
          (if dasx (get_chan uChan c) \<noteq> 0 \<and> SNCpuT.Cycles c > 0
           then mdma_read_loop T uChan uSrcDelta pTransfer (iTransfer + 1) c else Some c) }"

definition ProcessMDMAChRead :: "'r SnesSystemT traps \<Rightarrow> nat \<Rightarrow> 'r snes \<Rightarrow> 'r snes option" where
  "ProcessMDMAChRead T uChan c =
     (if \<not> uChan < SNESDMAC_CHANNEL_NUM then None
      else if SNCpuT.Cycles c \<le> 0 then Some c
      else let p = get_chan uChan c in
        do { c \<leftarrow> mdma_read_loop T uChan (u_SNDma_MDMAInc ! dma_inc p) (u_SNDma_MDMATransfer ! dma_mode p) 0 c;
             Some (chan_done uChan c) })"

section \<open>General DMA to the registers\<close>

text \<open>The loops of \<^verbatim>\<open>TransferData\<close> over the buffer.\<close>

fun each_byte :: "(u8 \<Rightarrow> 'c \<Rightarrow> 'c option) \<Rightarrow> u8 list \<Rightarrow> 'c \<Rightarrow> 'c option" where
  "each_byte f [] c = Some c"
| "each_byte f (b # bs) c = do { c \<leftarrow> f b c; each_byte f bs c }"

fun each_pair :: "(u8 \<Rightarrow> u8 \<Rightarrow> 'c \<Rightarrow> 'c option) \<Rightarrow> (u8 \<Rightarrow> 'c \<Rightarrow> 'c option) \<Rightarrow> u8 list \<Rightarrow> 'c \<Rightarrow> 'c option" where
  "each_pair f g (b0 # b1 # bs) c = do { c \<leftarrow> f b0 b1 c; each_pair f g bs c }"
| "each_pair f g [b] c = g b c"
| "each_pair f g [] c = Some c"

text \<open>The data ports are written directly, every other register through the bus.\<close>

definition port_write :: "'r render_vt \<Rightarrow> 'r SnesSystemT traps \<Rightarrow> u32 \<Rightarrow> u8 \<Rightarrow> 'r snes \<Rightarrow> 'r snes option" where
  "port_write V T uAddr uData =
     (if uAddr = 0x04 then with_ppu (WriteOAMDATA uData)
      else if uAddr = 0x18 then with_ppu (WriteVMDATAL V uData)
      else if uAddr = 0x19 then with_ppu (WriteVMDATAH V uData)
      else if uAddr = 0x22 then with_ppu (WriteCGDATA V uData)
      else (\<lambda>c. SNCPUWrite8 T c (0x2100 + uAddr) uData))"

text \<open>The simple mode: the switch is before the loop.\<close>

definition simple_write :: "'r render_vt \<Rightarrow> 'r SnesSystemT traps \<Rightarrow> nat \<Rightarrow> u8 \<Rightarrow> u8 \<Rightarrow> 'r snes \<Rightarrow> 'r snes option" where
  "simple_write V T uChan bb uData =
     (if bb \<in> {0x04, 0x18, 0x19, 0x22} then port_write V T (ucast bb) uData
      else (\<lambda>c. SNCPUWrite8 T c (0x2100 + ucast (bbadx (get_chan uChan c))) uData))"

fun pattern_write :: "'r render_vt \<Rightarrow> 'r SnesSystemT traps \<Rightarrow> nat \<Rightarrow> u32 list \<Rightarrow> nat \<Rightarrow> u8 list \<Rightarrow> 'r snes \<Rightarrow> 'r snes option" where
  "pattern_write V T uChan pTransfer iTransfer [] c = Some c"
| "pattern_write V T uChan pTransfer iTransfer (b # bs) c =
     do { c \<leftarrow> port_write V T (ucast (bbadx (get_chan uChan c)) + pTransfer ! (iTransfer mod 4)) b c;
          pattern_write V T uChan pTransfer (iTransfer + 1) bs c }"

definition TransferData :: "'r render_vt \<Rightarrow> 'r SnesSystemT traps \<Rightarrow> nat \<Rightarrow> u8 list \<Rightarrow> 'r snes \<Rightarrow> 'r snes option" where
  "TransferData V T uChan pData c =
     (let c = SNCPUConsumeCycles c (SNCPU_CYCLE_SLOW * int (length pData));
          p = get_chan uChan c
      in if dma_mode p = 0 then each_byte (simple_write V T uChan (bbadx p)) pData c
         else if dma_mode p = 1 \<and> bbadx p = 0x18
         then each_pair (\<lambda>b0 b1. with_ppu (WriteVMDATALH V b0 b1)) (\<lambda>b. with_ppu (WriteVMDATAL V b)) pData c
         else pattern_write V T uChan (u_SNDma_MDMATransfer ! dma_mode p) 0 pData c)"

text \<open>How many bytes the next round moves: at most the buffer, and the cycles left rounded up to four bytes.\<close>

definition mdma_bytes :: "SnesDMAChT \<Rightarrow> int \<Rightarrow> int" where
  "mdma_bytes p cycles =
     (let nBytes = (if dasx p \<noteq> 0 then uint (dasx p) else 0x10000);
          nBytes = (if nBytes > 256 then 256 else nBytes);
          nMaxBytes = drop_bit 3 (cycles + 7);
          nMaxBytes = (nMaxBytes + 3) AND NOT 3
      in if nBytes > nMaxBytes then nMaxBytes else nBytes)"

text \<open>The reads of the decrementing mode.\<close>

fun dec_reads :: "'r SnesSystemT traps \<Rightarrow> nat \<Rightarrow> nat \<Rightarrow> 'r snes \<Rightarrow> (u8 list \<times> 'r snes) option" where
  "dec_reads T uChan 0 c = Some ([], c)"
| "dec_reads T uChan (Suc n) c =
     do { (v, c) \<leftarrow> SNCPURead8 T c (src_addr (get_chan uChan c));
          let c = upd_chan uChan (\<lambda>p. p\<lparr>a1tx := a1tx p - 1\<rparr>) c;
          (vs, c) \<leftarrow> dec_reads T uChan n c;
          Some (v # vs, c) }"

definition fill_buffer :: "'r SnesSystemT traps \<Rightarrow> nat \<Rightarrow> int \<Rightarrow> 'r snes \<Rightarrow> (u8 list \<times> 'r snes) option" where
  "fill_buffer T uChan nBytes c =
     (let p = get_chan uChan c in
      if dma_inc p = 0 then
        let nBytes = (if uint (a1tx p) + nBytes > 0x10000 then 0x10000 - uint (a1tx p) else nBytes)
        in do { (vs, c) \<leftarrow> SNCPUReadMem T c (src_addr p) (nat nBytes);
                Some (vs, upd_chan uChan (\<lambda>p. p\<lparr>a1tx := a1tx p + word_of_int nBytes\<rparr>) c) }
      else if dma_inc p = 2 then dec_reads T uChan (nat nBytes) c
      else do { (v, c) \<leftarrow> SNCPURead8 T c (src_addr p); Some (replicate (nat nBytes) v, c) })"

definition mdma_round :: "'r render_vt \<Rightarrow> 'r SnesSystemT traps \<Rightarrow> nat \<Rightarrow> 'r snes \<Rightarrow> 'r snes option" where
  "mdma_round V T uChan c =
     (let nBytes = mdma_bytes (get_chan uChan c) (SNCpuT.Cycles c) in
      if nBytes > 0
      then do { (buf, c) \<leftarrow> fill_buffer T uChan nBytes c;
                c \<leftarrow> TransferData V T uChan buf c;
                Some (upd_chan uChan (\<lambda>p. p\<lparr>dasx := dasx p - word_of_nat (length buf)\<rparr>) c) }
      else Some c)"

partial_function (option) mdma_loop :: "'r render_vt \<Rightarrow> 'r SnesSystemT traps \<Rightarrow> nat \<Rightarrow> 'r snes \<Rightarrow> 'r snes option" where
  "mdma_loop V T uChan c =
     do { c \<leftarrow> mdma_round V T uChan c;
          (if dasx (get_chan uChan c) \<noteq> 0 \<and> SNCpuT.Cycles c > 0 then mdma_loop V T uChan c else Some c) }"

definition ProcessMDMAChFast :: "'r render_vt \<Rightarrow> 'r SnesSystemT traps \<Rightarrow> nat \<Rightarrow> 'r snes \<Rightarrow> 'r snes option" where
  "ProcessMDMAChFast V T uChan c =
     (if \<not> uChan < SNESDMAC_CHANNEL_NUM then None
      else if SNCpuT.Cycles c \<le> 0 then Some c
      else if dmapx (get_chan uChan c) AND 0x80 \<noteq> 0 then ProcessMDMAChRead T uChan c
      else do { c \<leftarrow> mdma_loop V T uChan c; Some (chan_done uChan c) })"

text \<open>Shifting a 32-bit integer by more than 31 is undefined.\<close>

partial_function (option) mdma_channels :: "'r render_vt \<Rightarrow> 'r SnesSystemT traps \<Rightarrow> nat \<Rightarrow> 'r snes \<Rightarrow> 'r snes option" where
  "mdma_channels V T uChan c =
     (if m_MDMAEnable (m_DMAC (sys c)) \<noteq> 0 \<and> SNCpuT.Cycles c > 0
      then if \<not> uChan < 32 then None
           else if uChan < 8 \<and> bit (m_MDMAEnable (m_DMAC (sys c))) uChan
           then do { c \<leftarrow> ProcessMDMAChFast V T uChan c; mdma_channels V T uChan c }
           else mdma_channels V T (uChan + 1) c
      else Some c)"

definition ProcessMDMA :: "'r render_vt \<Rightarrow> 'r SnesSystemT traps \<Rightarrow> 'r snes \<Rightarrow> 'r snes option" where
  "ProcessMDMA V T c = mdma_channels V T 0 c"

section \<open>HDMA\<close>

definition begin_chan :: "u8 \<Rightarrow> nat \<Rightarrow> SnesDMAChT \<Rightarrow> SnesDMAChT" where
  "begin_chan uEnabled uChan p = (if bit uEnabled uChan then p\<lparr>a2ax := a1tx p, ntlrx := 0\<rparr> else p)"

definition BeginHDMA :: "SnesDMACT \<Rightarrow> SnesDMACT" where
  "BeginHDMA d = d\<lparr>dma_Channels := map2 (begin_chan (m_HDMAEnable d)) [0..<length (dma_Channels d)] (dma_Channels d)\<rparr>"

text \<open>The transfers of a line by mode: offset of the data byte, offset of the register, cycles.\<close>

definition hdma_units :: "nat \<Rightarrow> (u32 \<times> u32 \<times> int) list" where
  "hdma_units mode =
     (let fast = SNCPU_CYCLE_SLOW + SNCPU_CYCLE_FAST in
      [[(0, 0, SNCPU_CYCLE_SLOW * 1 + SNCPU_CYCLE_FAST * 3 - 1 - 8 - 4 - 1)],
       [(0, 0, fast), (1, 1, fast)],
       [(0, 0, fast), (1, 0, fast)],
       [(0, 0, 12), (1, 0, 12), (2, 1, 12), (3, 1, 12)],
       [(0, 0, 12), (1, 1, 12), (2, 2, 12), (3, 3, 12)],
       [(0, 0, fast), (1, 1, fast)],
       [(0, 0, fast), (1, 0, fast)],
       [(0, 0, 12), (1, 0, 12), (2, 1, 12), (3, 1, 12)]] ! mode)"

text \<open>\<^verbatim>\<open>(dasx + k) | (dasbx << 16)\<close>, computed as integers: a carry goes into the bank.\<close>

definition hdma_addr :: "SnesDMAChT \<Rightarrow> u32 \<Rightarrow> u32" where
  "hdma_addr p k = bus_addr (ucast (dasx p) + k) (dasbx p)"

fun hdma_transfer :: "'r SnesSystemT traps \<Rightarrow> nat \<Rightarrow> (u32 \<times> u32 \<times> int) list \<Rightarrow> 'r snes \<Rightarrow> 'r snes option" where
  "hdma_transfer T uChan [] c = Some c"
| "hdma_transfer T uChan ((k, r, n) # us) c =
     do { (uData, c) \<leftarrow> SNCPURead8 T c (hdma_addr (get_chan uChan c) k);
          c \<leftarrow> SNCPUWrite8 T c (0x2100 + r + ucast (bbadx (get_chan uChan c))) uData;
          hdma_transfer T uChan us (SNCPUConsumeCycles c n) }"

definition table_addr :: "SnesDMAChT \<Rightarrow> u32" where "table_addr p = bus_addr (ucast (a2ax p)) (a1bx p)"

text \<open>Fetching the next entry of the table; the flag says that the table has ended.\<close>

definition hdma_fetch :: "'r SnesSystemT traps \<Rightarrow> nat \<Rightarrow> 'r snes \<Rightarrow> (bool \<times> 'r snes) option" where
  "hdma_fetch T uChan c =
     do { (v, c) \<leftarrow> SNCPURead8 T c (table_addr (get_chan uChan c));
          let c = SNCPUConsumeCycles (upd_chan uChan (\<lambda>p. p\<lparr>ntlrx := v\<rparr>) c) (SNCPU_CYCLE_SLOW * 1);
          (if ntlrx (get_chan uChan c) = 0 then Some (True, c)
           else let c = upd_chan uChan (\<lambda>p. p\<lparr>ntlrx := ntlrx p - 1, a2ax := a2ax p + 1\<rparr>) c in
             if dmapx (get_chan uChan c) AND 0x40 \<noteq> 0
             then do { (w, c) \<leftarrow> SNCPURead16 T c (table_addr (get_chan uChan c));
                       let c = SNCPUConsumeCycles (upd_chan uChan (\<lambda>p. p\<lparr>dasx := w\<rparr>) c) (SNCPU_CYCLE_SLOW * 2);
                       Some (False, upd_chan uChan (\<lambda>p. p\<lparr>a2ax := a2ax p + 2\<rparr>) c) }
             else Some (False, upd_chan uChan (\<lambda>p. p\<lparr>dasx := a2ax p, dasbx := a1bx p\<rparr>) c)) }"

definition hdma_line :: "'r SnesSystemT traps \<Rightarrow> nat \<Rightarrow> 'r snes \<Rightarrow> 'r snes option" where
  "hdma_line T uChan c =
     do { let us = hdma_units (dma_mode (get_chan uChan c));
          c \<leftarrow> hdma_transfer T uChan us c;
          let c = upd_chan uChan (\<lambda>p. p\<lparr>dasx := dasx p + word_of_nat (length us)\<rparr>) c;
          Some (if dmapx (get_chan uChan c) AND 0x40 = 0 then upd_chan uChan (\<lambda>p. p\<lparr>a2ax := dasx p\<rparr>) c else c) }"

definition ProcessHDMACh :: "'r SnesSystemT traps \<Rightarrow> nat \<Rightarrow> 'r snes \<Rightarrow> (u32 \<times> 'r snes) option" where
  "ProcessHDMACh T uChan c =
     (if \<not> uChan < SNESDMAC_CHANNEL_NUM then None
      else if ntlrx (get_chan uChan c) AND 0x7F = 0
      then do { (over, c) \<leftarrow> hdma_fetch T uChan c;
                (if over then Some (1, c) else do { c \<leftarrow> hdma_line T uChan c; Some (0, c) }) }
      else let c = upd_chan uChan (\<lambda>p. p\<lparr>ntlrx := ntlrx p - 1\<rparr>) c in
           if ntlrx (get_chan uChan c) < 0x80 then Some (0, c)
           else do { c \<leftarrow> hdma_line T uChan c; Some (0, c) })"

partial_function (option) hdma_channels :: "'r SnesSystemT traps \<Rightarrow> u8 \<Rightarrow> nat \<Rightarrow> 'r snes \<Rightarrow> 'r snes option" where
  "hdma_channels T uEnable uChan c =
     (if uEnable \<noteq> 0
      then do { c \<leftarrow> (if uEnable AND 1 \<noteq> 0 then do { (_, c) \<leftarrow> ProcessHDMACh T uChan c; Some c } else Some c);
                hdma_channels T (drop_bit 1 uEnable) (uChan + 1) c }
      else Some c)"

definition ProcessHDMA :: "'r SnesSystemT traps \<Rightarrow> 'r snes \<Rightarrow> 'r snes option" where
  "ProcessHDMA T c = hdma_channels T (m_HDMAEnable (m_DMAC (sys c))) 0 c"

end
