(* ===== verification/Sn_System_Ok.thy ===== *)
theory Sn_System_Ok
  imports Sn_Traps Sn_Ppu_Ok Sn_Spc_IO_Ok Sn_Cpu_Safe
begin

text \<open>
  The trap functions of the system meet the contract that the 65816 interpreter asks of them: the
  invariant of the system, the interface of the sound processor as a locale, and the proof for
  every handler.
\<close>

section \<open>The sound processor as the system sees it\<close>

text \<open>
  \<open>ex\<close> runs the sound processor and \<open>sgood\<close> is what its program keeps: from such a state, whatever
  the main processor writes to the ports, a run of any length is defined and leads to such a state.
\<close>

locale sound_cpu =
  fixes ex :: "SNSpcIOT SNSpcT \<Rightarrow> SNSpcIOT SNSpcT option" and sgood :: "SNSpcIOT SNSpcT \<Rightarrow> bool"
  assumes sgood_io: "sgood c \<Longrightarrow> spc_io_good c"
    and sgood_run: "sgood c \<Longrightarrow> length k = 2 \<Longrightarrow> returns (ex (c\<lparr>SNSpcT.Cycles := n, SNSpcT.Counter := k\<rparr>)) sgood"
    and sgood_ports: "sgood c \<Longrightarrow> io_ok io \<Longrightarrow> sgood (c\<lparr>SNSpcT.pUserData := io\<rparr>)"
    and sgood_counter: "sgood c \<Longrightarrow> length k = 2 \<Longrightarrow> sgood (c\<lparr>SNSpcT.Counter := k\<rparr>)"

section \<open>The invariant of the system\<close>

definition fn_ok :: "u32 \<Rightarrow> trapfn \<Rightarrow> bool" where
  "fn_ok n f \<longleftrightarrow> f \<in> {NullFn, DefaultFn, fn_Mem, fn_2000, fn_4000} \<or> (f = fn_SRAM \<and> 0 < unat n \<and> unat n \<le> SNES_SRAMSIZE)"

definition bank_fns_ok :: "u32 \<Rightarrow> SNCpuBankT \<Rightarrow> bool" where
  "bank_fns_ok n b \<longleftrightarrow> fn_ok n (SNCpuBankT.pReadTrapFunc b) \<and> fn_ok n (SNCpuBankT.pWriteTrapFunc b)"

definition blocks_ok :: "ptr set \<Rightarrow> bool" where
  "blocks_ok D \<longleftrightarrow> (\<forall>i < SNES_RAMSIZE. ptr_add m_Ram (int i) \<in> D) \<and> (\<forall>i < SNES_SRAMSIZE. ptr_add m_SRam (int i) \<in> D)"

definition line_limit :: u32 where "line_limit = 0xFFFFFFFF"

definition snes_state_ok :: "('r ISnesPPURenderT_scheme \<Rightarrow> bool) \<Rightarrow> (SNSpcIOT SNSpcT \<Rightarrow> bool) \<Rightarrow> 'r SnesSystemT \<Rightarrow> bool" where
  "snes_state_ok rinv sgood s \<longleftrightarrow> ppu_inv rinv (m_PPU s) \<and> sgood (m_Spc s) \<and> joy_ok (m_IO s)
     \<and> unat (i_wmadd (io_Regs (m_IO s))) < SNES_RAMSIZE \<and> length (dma_Channels (m_DMAC s)) = SNESDMAC_CHANNEL_NUM
     \<and> m_uLine s < line_limit"

definition snes_inv :: "('r ISnesPPURenderT_scheme \<Rightarrow> bool) \<Rightarrow> (SNSpcIOT SNSpcT \<Rightarrow> bool) \<Rightarrow>
    'r SnesSystemT \<Rightarrow> (nat \<Rightarrow> SNCpuBankT) \<Rightarrow> ptr set \<Rightarrow> bool" where
  "snes_inv rinv sgood s bs D \<longleftrightarrow> snes_state_ok rinv sgood s \<and> blocks_ok D \<and> (\<forall>i < SNCPU_BANK_NUM. bank_fns_ok (m_uSramSize s) (bs i))"

lemmas fn_defs = fn_Mem_def fn_2000_def fn_4000_def fn_SRAM_def

text \<open>What a handler changes: the system's state, the contents of memory, signals and cycles.\<close>

lemma sys_upd [simp]:
  "sys (upd_sys f c) = f (sys c)" "SNCpuT.Regs (upd_sys f c) = SNCpuT.Regs c" "SNCpuT.Cycles (upd_sys f c) = SNCpuT.Cycles c"
  "SNCpuT.Counter (upd_sys f c) = SNCpuT.Counter c" "Bank (upd_sys f c) = Bank c" "hMem (upd_sys f c) = hMem c"
  "uSignal (upd_sys f c) = uSignal c" "bRunning (upd_sys f c) = bRunning c" "nAbortCycles (upd_sys f c) = nAbortCycles c"
  by (simp_all add: upd_sys_def)

lemma bus_ok_sys [simp]: "bus_ok (upd_sys f c) = bus_ok c"
  by (simp add: bus_ok_def)

lemma upd_sys_twice [simp]: "upd_sys f (upd_sys g c) = upd_sys (f \<circ> g) c"
  by (simp add: upd_sys_def)

abbreviation snes_ok :: "('r ISnesPPURenderT_scheme \<Rightarrow> bool) \<Rightarrow> (SNSpcIOT SNSpcT \<Rightarrow> bool) \<Rightarrow> 'r snes \<Rightarrow> bool" where
  "snes_ok rinv sgood \<equiv> machine_ok (snes_inv rinv sgood)"

abbreviation snes_access :: "('r ISnesPPURenderT_scheme \<Rightarrow> bool) \<Rightarrow> (SNSpcIOT SNSpcT \<Rightarrow> bool) \<Rightarrow> 'r snes \<Rightarrow> 'r snes \<Rightarrow> bool" where
  "snes_access rinv sgood \<equiv> access (snes_inv rinv sgood)"

lemma snes_okD:
  assumes "snes_ok rinv sgood c"
  shows "ppu_inv rinv (m_PPU (sys c))" "sgood (m_Spc (sys c))" "joy_ok (m_IO (sys c))" "m_uLine (sys c) < line_limit"
    "unat (i_wmadd (io_regs c)) < SNES_RAMSIZE" "length (dma_Channels (m_DMAC (sys c))) = SNESDMAC_CHANNEL_NUM"
    "length (SNCpuT.Counter c) = 4" "blocks_ok (dom (hMem c))" "snes_state_ok rinv sgood (sys c)"
  using assms by (simp_all add: machine_ok_def snes_inv_def snes_state_ok_def)

lemma access_upd_sys:
  assumes "snes_ok rinv sgood c" and "snes_state_ok rinv sgood (f (sys c))" and "m_uSramSize (f (sys c)) = m_uSramSize (sys c)"
  shows "snes_access rinv sgood c (upd_sys f c)"
  using assms by (simp add: access_def machine_ok_def snes_inv_def)

lemma access_memory:
  assumes "snes_ok rinv sgood c" and "hstore (hMem c) p v = Some m"
  shows "snes_access rinv sgood c (c\<lparr>hMem := m\<rparr>)"
proof -
  have d: "dom m = dom (hMem c)" by (rule conjunct2 [OF hstore_SomeD [OF assms(2)]])
  with assms(1) show ?thesis by (simp add: access_def machine_ok_def bus_ok_hMem)
qed

lemma ram_cell: "blocks_ok D \<Longrightarrow> unat a < SNES_RAMSIZE \<Longrightarrow> ptr_add m_Ram (uint (a :: u32)) \<in> D"
  unfolding blocks_ok_def by (metis uint_nat)

lemma sram_cell:
  assumes "blocks_ok D" and "0 < unat (n :: u32)" and "unat n \<le> SNES_SRAMSIZE"
  shows "ptr_add m_SRam (uint (a AND (n - 1))) \<in> D"
proof -
  have "unat (a AND (n - 1)) \<le> unat (n - 1)"
    by (rule and_le_right)
  also have "\<dots> < SNES_SRAMSIZE"
    using assms(2,3) by (simp add: unat_sub word_le_nat_alt)
  finally show ?thesis using assms(1) unfolding blocks_ok_def by (metis uint_nat)
qed

lemma arrays_ok:
  assumes "snes_ok rinv sgood c"
  shows "\<exists>t. SNCPUGetCounter c SNCPU_COUNTER_FRAME = Some t" "\<exists>t. SNCPUGetCounter c SNCPU_COUNTER_LINE = Some t"
  using snes_okD(7) [OF assms] by (simp_all add: SNCPUGetCounter_def SNCPU_COUNTER_FRAME_def SNCPU_COUNTER_LINE_def)

section \<open>Signals\<close>

lemma Abort_access: "machine_ok winv c \<Longrightarrow> access winv c (SNCPUAbort c)"
  by (auto simp: SNCPUAbort_def access_def)

lemma SignalIRQ_access: "machine_ok winv c \<Longrightarrow> access winv c (SNCPUSignalIRQ c b)"
  using Abort_access [of winv "c\<lparr>uSignal := uSignal c OR SNCPU_SIGNAL_IRQ\<rparr>"]
  by (auto simp: SNCPUSignalIRQ_def access_def)

lemma SignalDMA_access: "machine_ok winv c \<Longrightarrow> access winv c (SNCPUSignalDMA c b)"
  using Abort_access [of winv "c\<lparr>uSignal := uSignal c OR SNCPU_SIGNAL_DMA\<rparr>"]
  by (auto simp: SNCPUSignalDMA_def access_def)

lemma SignalNMI_access: "machine_ok winv c \<Longrightarrow> access winv c (SNCPUSignalNMI c b)"
  using Abort_access [of winv "c\<lparr>uSignal := uSignal c OR SNCPU_SIGNAL_NMIEDGE\<rparr>"]
  by (auto simp: SNCPUSignalNMI_def access_def Let_def)

lemma Consume_access: "machine_ok winv c \<Longrightarrow> 0 \<le> n \<Longrightarrow> access winv c (SNCPUConsumeCycles c n)"
  by (simp add: SNCPUConsumeCycles_def access_def)

section \<open>The handlers\<close>

locale snes_machine = ppu_renderer V rinv + sound_cpu ex sgood
  for V :: "'r render_vt" and rinv and ex :: "SNSpcIOT SNSpcT \<Rightarrow> SNSpcIOT SNSpcT option" and sgood
begin

lemma state_upd:
  assumes "snes_state_ok rinv sgood s"
  shows "ppu_inv rinv p \<Longrightarrow> snes_state_ok rinv sgood (s\<lparr>m_PPU := p\<rparr>)"
    and "sgood spc \<Longrightarrow> snes_state_ok rinv sgood (s\<lparr>m_Spc := spc\<rparr>)"
    and "joy_ok io \<Longrightarrow> unat (i_wmadd (io_Regs io)) < SNES_RAMSIZE \<Longrightarrow> snes_state_ok rinv sgood (s\<lparr>m_IO := io\<rparr>)"
    and "length (dma_Channels d) = SNESDMAC_CHANNEL_NUM \<Longrightarrow> snes_state_ok rinv sgood (s\<lparr>m_DMAC := d\<rparr>)"
  using assms by (simp_all add: snes_state_ok_def)

lemma with_ppu_ok:
  assumes "snes_ok rinv sgood c" and "returns (f (m_PPU (sys c))) (ppu_inv rinv)"
  shows "returns (with_ppu f c) (snes_access rinv sgood c)"
  unfolding with_ppu_def
  by (rule returns_bind [OF assms(2)]) (simp add: access_upd_sys assms(1) snes_okD state_upd)

lemma read_ppu_ok:
  assumes "snes_ok rinv sgood c" and "returns (f (m_PPU (sys c))) (\<lambda>(v, p). ppu_inv rinv p)"
  shows "returns (read_ppu f c) (\<lambda>(v, c'). snes_access rinv sgood c c')"
  unfolding read_ppu_def
  by (rule returns_bind [OF assms(2)]) (auto simp: access_upd_sys assms(1) snes_okD state_upd)

lemma SyncPPU_ok:
  assumes "snes_ok rinv sgood c"
  shows "returns (SyncPPU V c) (\<lambda>c'. snes_access rinv sgood c c' \<and> snq_pending (ppu_Queue (m_PPU (sys c'))) = []
     \<and> m_uLine (sys c') = m_uLine (sys c))"
  unfolding SyncPPU_def with_ppu_def
  by (rule returns_bind [OF Sync_ok])
    (use snes_okD [OF assms] in \<open>simp_all add: line_limit_def access_upd_sys assms state_upd\<close>)

lemma sync_read_ok:
  assumes "snes_ok rinv sgood c" and "\<And>p. ppu_inv rinv p \<Longrightarrow> returns (f p) (\<lambda>(v, p). ppu_inv rinv p)"
  shows "returns (sync_read V f c) (\<lambda>(v, c'). snes_access rinv sgood c c')"
  unfolding sync_read_def
proof (rule returns_bind [OF SyncPPU_ok [OF assms(1)]])
  fix c' assume c': "snes_access rinv sgood c c' \<and> snq_pending (ppu_Queue (m_PPU (sys c'))) = [] \<and> m_uLine (sys c') = m_uLine (sys c)"
  then have ok: "snes_ok rinv sgood c'" by (auto dest: access_ok)
  show "returns (read_ppu f c') (\<lambda>(v, c'). snes_access rinv sgood c c')"
    by (rule returns_prod_mono [OF read_ppu_ok [OF ok assms(2)]])
      (use c' ok in \<open>auto simp: snes_okD intro: access_trans\<close>)
qed

lemma SyncSPC_ok:
  assumes "snes_ok rinv sgood c"
  shows "returns (SyncSPC ex n c) (\<lambda>c'. snes_access rinv sgood c c')"
proof -
  let ?spc = "m_Spc (sys c)"
  obtain t where t: "SNCPUGetCounter c SNCPU_COUNTER_FRAME = Some t" using arrays_ok(1) [OF assms] by blast
  have good: "sgood ?spc" using assms by (simp add: snes_okD)
  then have len: "length (SNSpcT.Counter ?spc) = 2" using sgood_io by (simp add: spc_io_good_def)
  then obtain u where u: "SNSPCGetCounter ?spc SNSPC_COUNTER_FRAME = Some u"
    by (simp add: SNSPCGetCounter_def SNSPC_COUNTER_FRAME_def)
  have run: "returns (SNSPCExecute ex ?spc k) (\<lambda>(m, c'). sgood c')" for k
    unfolding SNSPCExecute_def by (rule returns_bind [OF sgood_run [OF good]]) (simp_all add: len)
  have io: "returns (SNSpcIO_SyncQueueAll (SNSpcT.pUserData spc)) io_ok" if "sgood spc" for spc
    using sgood_io [OF that] by (intro SyncQueueAll_ok io_goodD)
  have "returns (do { (m, spc) \<leftarrow> SNSPCExecute ex ?spc k; io \<leftarrow> SNSpcIO_SyncQueueAll (SNSpcT.pUserData spc);
       Some (upd_sys (\<lambda>s. s\<lparr>m_Spc := spc\<lparr>SNSpcT.pUserData := io\<rparr>\<rparr>) c) }) (\<lambda>c'. snes_access rinv sgood c c')" for k
    by (rule returns_bind [OF run], clarsimp, rule returns_bind [OF io], assumption)
      (simp add: access_upd_sys assms snes_okD state_upd sgood_ports)
  then show ?thesis
    by (simp add: SyncSPC_def t u Let_def access_refl assms)
qed

lemma spc_io_ok: "snes_ok rinv sgood c \<Longrightarrow> io_ok (spc_io c)"
  by (rule io_goodD, rule sgood_io, rule snes_okD(2))

lemma upd_spc_io_ok:
  assumes "snes_ok rinv sgood c" and "io_ok (f (spc_io c))"
  shows "snes_access rinv sgood c (upd_spc_io f c)"
  using assms unfolding upd_spc_io_def
  by (intro access_upd_sys) (simp_all add: snes_okD state_upd sgood_ports)

lemma read_apu_ok:
  assumes "snes_ok rinv sgood c"
  shows "returns (read_apu ex a c) (\<lambda>(v, c'). snes_access rinv sgood c c')"
proof -
  have "unat (a AND 3) < 4" by simp
  then have "returns (arr_get (apu_r (spc_io c')) (unat (a AND 3))) (\<lambda>v. True)" if "snes_ok rinv sgood c'" for c'
    using spc_io_ok [OF that] by (simp add: io_ok_def)
  then show ?thesis
    unfolding read_apu_def
    by (intro returns_bind [OF SyncSPC_ok [OF assms]]) (auto dest: access_ok simp del: and_masks elim: returns_mono intro!: returns_bind)
qed

lemma write_apu_ok:
  assumes "snes_ok rinv sgood c"
  shows "returns (write_apu ex a d c) (\<lambda>c'. snes_access rinv sgood c c')"
proof -
  obtain t where t: "SNCPUGetCounter c SNCPU_COUNTER_FRAME = Some t" using arrays_ok(1) [OF assms] by blast
  have a: "unat (a AND 3) < 4" by simp
  obtain b io where e: "SNSpcIO_EnqueueWrite (word_of_int (t + SNES_SPCWRITE_LATENCY)) (a AND 3) d (spc_io c) = (b, io)"
    by (cases "SNSpcIO_EnqueueWrite (word_of_int (t + SNES_SPCWRITE_LATENCY)) (a AND 3) d (spc_io c)")
  have io: "io_ok io"
    using Sn_Spc_IO_Ok.EnqueueWrite_ok [OF spc_io_ok [OF assms] a, of "word_of_int (t + SNES_SPCWRITE_LATENCY)" d]
    by (simp add: e del: of_int_add)
  let ?c = "upd_spc_io (\<lambda>_. io) c"
  have c: "snes_access rinv sgood c ?c" by (rule upd_spc_io_ok [OF assms io])
  have "returns (do { c \<leftarrow> SyncSPC ex SNES_SPCWRITE_LATENCY ?c;
                     w \<leftarrow> arr_set (apu_w (spc_io c)) (unat (a AND 3)) d;
                     Some (upd_spc_io (\<lambda>io. io\<lparr>apu_w := w\<rparr>) c) }) (\<lambda>c'. snes_access rinv sgood c c')"
  proof (rule returns_bind [OF SyncSPC_ok [OF access_ok [OF c]]])
    fix c' assume c': "snes_access rinv sgood ?c c'"
    then have ok: "snes_ok rinv sgood c'" by (rule access_ok)
    have "length (apu_w (spc_io c')) = 4" using spc_io_ok [OF ok] by (simp add: io_ok_def)
    then show "returns (do { w \<leftarrow> arr_set (apu_w (spc_io c')) (unat (a AND 3)) d;
                     Some (upd_spc_io (\<lambda>io. io\<lparr>apu_w := w\<rparr>) c') }) (\<lambda>c'. snes_access rinv sgood c c')"
      using a access_trans [OF c access_trans [OF c' upd_spc_io_ok [OF ok]]] io_port(1) [OF spc_io_ok [OF ok]]
      by simp
  qed
  with c show ?thesis by (simp add: write_apu_def t e Let_def del: of_int_add and_masks)
qed

lemma write_joy: "joy_ok (upd_io f io) \<longleftrightarrow> length (m_Input io) = EMUSYS_DEVICE_NUM \<and> length (i_joyserial (f (io_Regs io))) = SNESIO_DEVICE_NUM"
  by (simp add: joy_ok_def upd_io_def)

lemma upd_io_regs_ok:
  assumes "snes_ok rinv sgood c" and "i_joyserial (f (io_regs c)) = i_joyserial (io_regs c)" and "unat (i_wmadd (f (io_regs c))) < SNES_RAMSIZE"
  shows "snes_access rinv sgood c (upd_io_regs f c)"
  unfolding upd_io_regs_def
  by (rule access_upd_sys [OF assms(1)], rule state_upd(3) [OF snes_okD(9) [OF assms(1)]])
    (use assms snes_okD(3) [OF assms(1)] in \<open>simp_all add: write_joy joy_ok_def [of "m_IO (sys c)"], simp add: upd_io_def\<close>)

lemma ram_limit: "unat (w AND 0x1FFFF) < SNES_RAMSIZE" for w :: u32
  using unat_and_mask_less [of w 17] by (simp add: mask_eq_exp_minus_1 SNES_RAMSIZE_def)

lemma next_wmadd_ok: "snes_ok rinv sgood c \<Longrightarrow> snes_access rinv sgood c (next_wmadd c)"
  unfolding next_wmadd_def by (rule upd_io_regs_ok) (simp_all add: ram_limit)

lemma read_WMDATA_ok:
  assumes "snes_ok rinv sgood c"
  shows "returns (read_WMDATA c) (\<lambda>(v, c'). snes_access rinv sgood c c')"
  using ram_cell [OF snes_okD(8,5) [OF assms]] next_wmadd_ok [OF assms]
  by (auto simp: read_WMDATA_def hload_def)

lemma write_WMDATA_ok:
  assumes "snes_ok rinv sgood c"
  shows "returns (write_WMDATA d c) (snes_access rinv sgood c)"
proof -
  let ?p = "ptr_add m_Ram (uint (i_wmadd (io_regs c)))"
  have s: "hstore (hMem c) ?p d = Some ((hMem c)(?p \<mapsto> d))"
    by (rule hstore_in_dom) (rule ram_cell [OF snes_okD(8,5) [OF assms]])
  note a = access_memory [OF assms s]
  have "snes_access rinv sgood c (next_wmadd (c\<lparr>hMem := (hMem c)(?p \<mapsto> d)\<rparr>))"
    by (rule access_trans [OF a next_wmadd_ok [OF access_ok [OF a]]])
  then show ?thesis by (simp add: write_WMDATA_def s)
qed

lemma ReadSRAM_ok:
  assumes "snes_ok rinv sgood c" and "fn_ok (m_uSramSize (sys c)) fn_SRAM"
  shows "returns (ReadSRAM c a) (\<lambda>(v, c'). snes_access rinv sgood c c')"
  using sram_cell [OF snes_okD(8) [OF assms(1)], of "m_uSramSize (sys c)" a] assms
  by (auto simp: ReadSRAM_def sram_index_def hload_def fn_ok_def fn_defs access_refl)

lemma WriteSRAM_ok:
  assumes "snes_ok rinv sgood c" and "fn_ok (m_uSramSize (sys c)) fn_SRAM"
  shows "returns (WriteSRAM c a d) (snes_access rinv sgood c)"
proof -
  have "ptr_add m_SRam (sram_index c a) \<in> dom (hMem c)"
    using sram_cell [OF snes_okD(8) [OF assms(1)], of "m_uSramSize (sys c)" a] assms(2)
    by (auto simp: sram_index_def fn_ok_def fn_defs)
  note s = hstore_in_dom [OF this, of d]
  show ?thesis using access_memory [OF assms(1) s] by (simp add: WriteSRAM_def s)
qed

lemma read_slhv_ok:
  assumes "snes_ok rinv sgood c"
  shows "returns (read_slhv c) (\<lambda>(v, c'). snes_access rinv sgood c c')"
proof -
  obtain t where t: "SNCPUGetCounter c SNCPU_COUNTER_LINE = Some t" using arrays_ok(2) [OF assms] by blast
  have "returns (with_ppu (\<lambda>p. Some (ppu_upd f p)) c) (snes_access rinv sgood c)" for f
    using ppu_upd_ok [OF snes_okD(1) [OF assms]] by (intro with_ppu_ok assms) (simp add: ppu_write_def)
  then show ?thesis unfolding read_slhv_def t by (simp add: returns_bind_iff)
qed

lemma ppu_upd_inv: "ppu_inv rinv p \<Longrightarrow> ppu_inv rinv (ppu_upd f p)"
  using ppu_upd_ok [of p f] by (simp add: ppu_write_def)

lemma ppu_reads_ok:
  assumes "ppu_inv rinv p"
  shows "returns (ReadOAMDATA p) (\<lambda>(v, p). ppu_inv rinv p)" "returns (ReadCGDATA p) (\<lambda>(v, p). ppu_inv rinv p)"
    "returns (ReadVMDATAL p) (\<lambda>(v, p). ppu_inv rinv p)" "returns (ReadVMDATAH p) (\<lambda>(v, p). ppu_inv rinv p)"
  using assms index_less mem_ok_lengths [of p]
  by (auto simp: ReadOAMDATA_def ReadCGDATA_def ReadVMDATAL_def ReadVMDATAH_def Let_def ppu_upd_inv
      ppu_inv_def [of rinv p] ppu_ok_def [of p] ppu_sizes intro: ppu_upd_inv)
    (simp_all add: ppu_inv_def ppu_ok_def)

lemma enqueue_step:
  assumes "snes_ok rinv sgood c" and "SnesPPU_EnqueueWrite l a d (m_PPU (sys c)) = (b, p)"
  shows "snes_access rinv sgood c (upd_sys (\<lambda>s. s\<lparr>m_PPU := p\<rparr>) c)"
    and "snq_pending (ppu_Queue (m_PPU (sys c))) = [] \<Longrightarrow> b"
proof -
  have "ppu_inv rinv p" using ppu_EnqueueWrite [OF snes_okD(1) [OF assms(1)], of l a d] assms(2) by simp
  then show "snes_access rinv sgood c (upd_sys (\<lambda>s. s\<lparr>m_PPU := p\<rparr>) c)"
    by (intro access_upd_sys [OF assms(1)] state_upd(1) [OF snes_okD(9) [OF assms(1)]]) simp_all
  have "snq_ok (ppu_Queue (m_PPU (sys c)))" using snes_okD(1) [OF assms(1)] by (simp add: ppu_inv_def ppu_ok_def)
  with snq_enqueue_empty [of "ppu_Queue (m_PPU (sys c))" l a d] assms(2)
  show "snq_pending (ppu_Queue (m_PPU (sys c))) = [] \<Longrightarrow> b"
    by (auto simp: SnesPPU_EnqueueWrite_def split: prod.splits)
qed

lemma enqueue_ppu_write_ok:
  assumes "snes_ok rinv sgood c"
  shows "returns (enqueue_ppu_write V a d c) (snes_access rinv sgood c)"
proof -
  have once: "returns (enqueue_ppu_write V a d c') (snes_access rinv sgood c')"
    if ok: "snes_ok rinv sgood c'" and "snq_pending (ppu_Queue (m_PPU (sys c'))) = []" for c'
  proof -
    obtain b p where e: "SnesPPU_EnqueueWrite (m_uLine (sys c')) a d (m_PPU (sys c')) = (b, p)" by (metis surj_pair)
    from enqueue_step [OF ok e] that(2) e show ?thesis by (subst enqueue_ppu_write.simps) simp
  qed
  obtain b p where e: "SnesPPU_EnqueueWrite (m_uLine (sys c)) a d (m_PPU (sys c)) = (b, p)" by (metis surj_pair)
  let ?c = "upd_sys (\<lambda>s. s\<lparr>m_PPU := p\<rparr>) c"
  have a1: "snes_access rinv sgood c ?c" by (rule enqueue_step(1) [OF assms e])
  have "returns (do { c \<leftarrow> SyncPPU V ?c; enqueue_ppu_write V a d c }) (snes_access rinv sgood c)"
    by (rule returns_bind [OF SyncPPU_ok [OF access_ok [OF a1]]], rule returns_mono [OF once])
      (use access_trans [OF a1] in \<open>auto dest: access_ok intro: access_trans\<close>)
  with a1 e show ?thesis by (subst enqueue_ppu_write.simps) (simp add: Let_def)
qed

lemma read2000_ok:
  assumes "(k, f) \<in> set (read2000_cases V ex)" and "snes_ok rinv sgood c"
  shows "returns (f c) (\<lambda>(v, c'). snes_access rinv sgood c c')"
proof -
  have same: "returns (Some (v, c)) (\<lambda>(v, c'). snes_access rinv sgood c c')" for v
    using assms(2) by (simp add: access_refl)
  have counter: "returns (read_counter g h c) (\<lambda>(v, c'). snes_access rinv sgood c c')" for g h
    unfolding read_counter_def using snes_okD(1) [OF assms(2)]
    by (intro read_ppu_ok assms(2)) (simp add: Let_def split_def ppu_upd_inv)
  have stat: "returns (read_stat78 c) (\<lambda>(v, c'). snes_access rinv sgood c c')"
    unfolding read_stat78_def using snes_okD(1) [OF assms(2)]
    by (intro read_ppu_ok assms(2)) (simp add: Let_def ppu_upd_inv)
  have sync: "returns (sync_read V g c) (\<lambda>(v, c'). snes_access rinv sgood c c')"
    if "\<And>p. ppu_inv rinv p \<Longrightarrow> returns (g p) (\<lambda>(v, p). ppu_inv rinv p)" for g
    by (rule sync_read_ok [OF assms(2) that])
  have self: "returns (Some (v, p)) (\<lambda>(v, p). ppu_inv rinv p)" if "ppu_inv rinv p" for v :: u8 and p
    using that by simp
  from assms(1) show ?thesis
    unfolding read2000_cases_def list.set insert_iff prod.inject empty_iff
    by (elim disjE conjE FalseE; hypsubst)
      (rule read_slhv_ok read_WMDATA_ok read_apu_ok counter stat same assms(2) sync ppu_reads_ok self | assumption)+
qed

lemma Read2000_ok:
  assumes "snes_ok rinv sgood c"
  shows "returns (Read2000 V ex c a) (\<lambda>(v, c'). snes_access rinv sgood c c')"
  using assms
  by (cases "map_of (read2000_cases V ex) (a AND 0xFFFF)") (auto simp: Read2000_def access_refl dest!: map_of_SomeD intro: read2000_ok)

lemma wmadd_limit: "unat ((w AND NOT k) OR push_bit s (ucast (d AND m))) < SNES_RAMSIZE"
  if "unat w < SNES_RAMSIZE" and "(m, s) \<in> {(0xFF, 0), (0xFF, 8), (0x01, 16)}" for w k :: u32 and d m :: u8
proof -
  have "unat (w AND NOT k) < 2 ^ 17"
    using le_less_trans [OF and_le_left that(1)] by (simp add: SNES_RAMSIZE_def)
  moreover have "unat (push_bit s (ucast (d AND m)) :: u32) < 2 ^ 17"
  proof -
    have "unat (d AND m) \<le> unat m" by (rule and_le_right)
    with that(2) shl_bound [of "ucast (d AND m)" 255 8] shl_bound [of "ucast (d AND m)" 1 16] unat_u8_le [of "d AND m"]
    show ?thesis by (auto simp: btop_def)
  qed
  ultimately show ?thesis unfolding SNES_RAMSIZE_def using or_lt_two_power [of _ 17] by simp
qed

lemma write_wmadd_ok:
  assumes "snes_ok rinv sgood c" and "(m, s) \<in> {(0xFF, 0), (0xFF, 8), (0x01, 16)}"
  shows "returns (write_wmadd k m s d c) (snes_access rinv sgood c)"
  using upd_io_regs_ok [OF assms(1)] wmadd_limit [OF snes_okD(5) [OF assms(1)] assms(2)]
  by (simp add: write_wmadd_def)

lemma write2000_ok:
  assumes "(k, f) \<in> set (write2000_cases ex)" and "snes_ok rinv sgood c"
  shows "returns (f d c) (snes_access rinv sgood c)"
  using assms(1) unfolding write2000_cases_def list.set insert_iff prod.inject empty_iff
  by (elim disjE conjE FalseE; hypsubst) (rule write_apu_ok write_WMDATA_ok write_wmadd_ok assms(2) | simp)+

lemma Write2000_ok:
  assumes "snes_ok rinv sgood c"
  shows "returns (Write2000 V ex c a d) (snes_access rinv sgood c)"
  using assms enqueue_ppu_write_ok [OF assms]
  by (cases "map_of (write2000_cases ex :: (u32 \<times> (u8 \<Rightarrow> 'r snes \<Rightarrow> 'r snes option)) list) (a AND 0xFFFF)")
    (auto simp: Write2000_def Let_def access_refl dest!: map_of_SomeD intro: write2000_ok)

section \<open>The registers at 4000\<close>

lemma arr_upd_returns: "i < length xs \<Longrightarrow> returns (arr_upd xs i f) (\<lambda>ys. length ys = length xs)"
  by simp

lemma chan_less: "unat (dma_chan a) < SNESDMAC_CHANNEL_NUM"
  by (simp add: dma_chan_def SNESDMAC_CHANNEL_NUM_def)

lemma upd_dmac_ok:
  assumes "snes_ok rinv sgood c" and "length (dma_Channels (f (m_DMAC (sys c)))) = SNESDMAC_CHANNEL_NUM"
  shows "snes_access rinv sgood c (upd_dmac f c)"
  unfolding upd_dmac_def
  by (rule access_upd_sys [OF assms(1)], rule state_upd(4) [OF snes_okD(9) [OF assms(1)]]) (simp_all add: assms)

lemma update_nmi_ok: "snes_ok rinv sgood c \<Longrightarrow> snes_access rinv sgood c (update_nmi c)"
  unfolding update_nmi_def by (rule SignalNMI_access)

lemma io_field_ok:
  assumes "snes_ok rinv sgood c" and "\<And>r. i_joyserial (f r) = i_joyserial r \<and> i_wmadd (f r) = i_wmadd r"
  shows "snes_access rinv sgood c (upd_io_regs f c)"
  using assms(1,2) snes_okD(5) [OF assms(1)] by (intro upd_io_regs_ok) simp_all

lemma clear_timeup_ok: "snes_ok rinv sgood c \<Longrightarrow> snes_access rinv sgood c (clear_timeup c)"
  unfolding clear_timeup_def by (rule io_field_ok) simp_all

lemma read_RDNMI_ok:
  assumes "snes_ok rinv sgood c"
  shows "returns (read_RDNMI c) (\<lambda>(v, c'). snes_access rinv sgood c c')"
proof -
  have a: "snes_access rinv sgood c (upd_io_regs (\<lambda>r. r\<lparr>i_rdnmi := i_rdnmi r AND NOT 0x80\<rparr>) c)"
    by (rule io_field_ok [OF assms]) simp
  show ?thesis using access_trans [OF a update_nmi_ok [OF access_ok [OF a]]] by (simp add: read_RDNMI_def)
qed

lemma read_TIMEUP_ok:
  assumes "snes_ok rinv sgood c"
  shows "returns (read_TIMEUP c) (\<lambda>(v, c'). snes_access rinv sgood c c')"
  using access_trans [OF clear_timeup_ok [OF assms] SignalIRQ_access [OF access_ok [OF clear_timeup_ok [OF assms]]]]
  by (simp add: read_TIMEUP_def)

lemma write_TIMEUP_ok: "snes_ok rinv sgood c \<Longrightarrow> returns (write_TIMEUP d c) (snes_access rinv sgood c)"
  using access_trans [OF clear_timeup_ok SignalIRQ_access [OF access_ok [OF clear_timeup_ok]]]
  by (simp add: write_TIMEUP_def)

lemma set_io_ok:
  assumes "snes_ok rinv sgood c" and "joy_ok io" and "i_wmadd (io_Regs io) = i_wmadd (io_regs c)"
  shows "snes_access rinv sgood c (set_io io c)"
  unfolding set_io_def
  by (rule access_upd_sys [OF assms(1)], rule state_upd(3) [OF snes_okD(9) [OF assms(1)]])
    (use assms snes_okD(5) [OF assms(1)] in simp_all)

lemma ShiftSerialPad_ok:
  "joy_ok io \<Longrightarrow> joy_ok (ShiftSerialPad i io)" "i_wmadd (io_Regs (ShiftSerialPad i io)) = i_wmadd (io_Regs io)"
  by (simp_all add: ShiftSerialPad_def upd_serial_def Let_def joy_ok_def upd_io_def)

lemma serial_reads_ok:
  assumes "joy_ok io"
  shows "joy_ok (snd (ReadSerial0 io)) \<and> i_wmadd (io_Regs (snd (ReadSerial0 io))) = i_wmadd (io_Regs io)"
    and "joy_ok (snd (ReadSerial1 io)) \<and> i_wmadd (io_Regs (snd (ReadSerial1 io))) = i_wmadd (io_Regs io)"
  using assms by (simp_all add: ReadSerial0_def ReadSerial1_def ShiftSerialPad_ok)

lemma read_serial_ok:
  assumes "snes_ok rinv sgood c" and "\<And>io. joy_ok io \<Longrightarrow> joy_ok (snd (f io)) \<and> i_wmadd (io_Regs (snd (f io))) = i_wmadd (io_Regs io)"
  shows "returns (read_serial f c) (\<lambda>(v, c'). snes_access rinv sgood c c')"
proof -
  let ?c = "SNCPUConsumeCycles c 2"
  have a: "snes_access rinv sgood c ?c" by (rule Consume_access) (use assms in simp_all)
  have s: "sys ?c = sys c" by (simp add: SNCPUConsumeCycles_def)
  have "snes_access rinv sgood ?c (set_io (snd (f (m_IO (sys ?c)))) ?c)"
    using assms(2) [OF snes_okD(3) [OF assms(1)]] by (intro set_io_ok access_ok [OF a]) (simp_all add: s)
  from access_trans [OF a this] show ?thesis by (simp add: read_serial_def Let_def split_def)
qed

lemma write_serial_ok:
  assumes "snes_ok rinv sgood c"
  shows "returns (write_serial d c) (snes_access rinv sgood c)"
proof -
  let ?c = "SNCPUConsumeCycles c 2"
  have a: "snes_access rinv sgood c ?c" by (rule Consume_access) (use assms in simp_all)
  have s: "sys ?c = sys c" by (simp add: SNCPUConsumeCycles_def)
  have "snes_access rinv sgood ?c (set_io (WriteSerial d (m_IO (sys ?c))) ?c)"
    using WriteSerial_strobe [OF snes_okD(3) [OF assms(1)]]
    by (intro set_io_ok access_ok [OF a]) (simp_all add: s, simp add: WriteSerial_def Let_def upd_io_def)
  from access_trans [OF a this] show ?thesis by (simp add: write_serial_def Let_def)
qed

lemma write_nmitimen_ok:
  assumes "snes_ok rinv sgood c"
  shows "returns (write_nmitimen d c) (snes_access rinv sgood c)"
proof -
  let ?c = "upd_io_regs (\<lambda>r. r\<lparr>i_nmitimen := d\<rparr>) c"
  have a: "snes_access rinv sgood c ?c" by (rule io_field_ok [OF assms]) simp
  let ?d = "if i_timeup (io_regs ?c) AND 0x80 \<noteq> 0 then clear_timeup ?c else ?c"
  have b: "snes_access rinv sgood ?c ?d"
    using clear_timeup_ok [OF access_ok [OF a]] access_refl [OF access_ok [OF a]] by simp
  let ?e = "if d AND (0x20 OR 0x10) = 0 then SNCPUSignalIRQ ?d False else ?c"
  have e: "snes_access rinv sgood ?c ?e"
    using access_trans [OF b SignalIRQ_access [OF access_ok [OF b]]] access_refl [OF access_ok [OF a]] by simp
  from access_trans [OF a access_trans [OF e update_nmi_ok [OF access_ok [OF e]]]] show ?thesis
    by (simp only: write_nmitimen_def Let_def returns_Some)
qed

lemma write_mdmaen_ok:
  assumes "snes_ok rinv sgood c"
  shows "returns (write_mdmaen d c) (snes_access rinv sgood c)"
proof -
  let ?c = "upd_dmac (\<lambda>d'. d'\<lparr>m_MDMAEnable := d\<rparr>) c"
  have a: "snes_access rinv sgood c ?c" by (rule upd_dmac_ok [OF assms]) (simp add: snes_okD [OF assms])
  show ?thesis using a access_trans [OF a SignalDMA_access [OF access_ok [OF a]]] by (auto simp: write_mdmaen_def Let_def)
qed

lemma write_hdmaen_ok: "snes_ok rinv sgood c \<Longrightarrow> returns (write_hdmaen d c) (snes_access rinv sgood c)"
  using upd_dmac_ok [of c "\<lambda>d'. d'\<lparr>m_HDMAEnable := d\<rparr>"] by (simp add: write_hdmaen_def snes_okD)

lemma RomSpeed_ok:
  assumes "snes_ok rinv sgood c" and "n \<in> {6, 8}"
  shows "returns (SNCPUSetRomSpeed c 0x800000 0x800000 n) (snes_access rinv sgood c)"
proof -
  let ?f = "\<lambda>b. if SNCpuBankT.pMem b \<noteq> None \<and> bRAM b = 0 then b\<lparr>uBankCycle := ucast n\<rparr> else b"
  define bs where "bs = (\<lambda>j. if bank_index 0x800000 \<le> j \<and> j < bank_index 0x800000 + bank_index 0x800000 \<and> j < 2056 then ?f (Bank c j) else Bank c j)"
  have s: "SNCPUSetRomSpeed c 0x800000 0x800000 n = Some (c\<lparr>Bank := bs\<rparr>)"
    by (simp add: SNCPUSetRomSpeed_def bank_update_eq bs_def del: not_None_eq)
  have "bank_ok m i (Bank c i) \<Longrightarrow> bank_ok m i (bs i)" for m i
    using assms(2) by (auto simp: bank_ok_def bs_def split: option.splits)
  moreover have "bank_fns_ok k (bs i) = bank_fns_ok k (Bank c i)" for k i
    by (simp add: bank_fns_ok_def bs_def)
  ultimately show ?thesis
    using assms(1) by (simp add: s access_def machine_ok_def bus_ok_def snes_inv_def)
qed

lemma write_memsel_ok:
  assumes "snes_ok rinv sgood c"
  shows "returns (write_memsel d c) (snes_access rinv sgood c)"
proof -
  have 1: "returns (if d AND 1 \<noteq> 0 then SetFastRom c else SetSlowRom c) (snes_access rinv sgood c)"
    using RomSpeed_ok [OF assms, of 6] RomSpeed_ok [OF assms, of 8]
    by (simp add: SetFastRom_def SetSlowRom_def SNCPU_CYCLE_FAST_def SNCPU_CYCLE_SLOW_def)
  have 2: "snes_access rinv sgood c' (upd_io_regs (\<lambda>r. r\<lparr>i_memsel := d\<rparr>) c')" if "snes_ok rinv sgood c'" for c'
    by (rule io_field_ok [OF that]) simp
  have "returns (do { c \<leftarrow> (if d AND 1 \<noteq> 0 then SetFastRom c else SetSlowRom c);
                Some (upd_io_regs (\<lambda>r. r\<lparr>i_memsel := d\<rparr>) c) }) (snes_access rinv sgood c)"
    by (rule returns_bind [OF 1]) (use 2 in \<open>auto dest: access_ok intro: access_trans\<close>)
  then show ?thesis using access_refl [OF assms] by (simp add: write_memsel_def)
qed

lemma read4000_ok:
  assumes "(k, f) \<in> set read4000_cases" and "snes_ok rinv sgood c"
  shows "returns (f c) (\<lambda>(v, c'). snes_access rinv sgood c c')"
proof -
  have same: "returns (Some (v, c)) (\<lambda>(v, c'). snes_access rinv sgood c c')" for v
    using assms(2) by (simp add: access_refl)
  have field: "returns (read_io g c) (\<lambda>(v, c'). snes_access rinv sgood c c')" for g
    using assms(2) by (simp add: read_io_def access_refl)
  from assms(1) show ?thesis
    unfolding read4000_cases_def list.set insert_iff prod.inject empty_iff
    by (elim disjE conjE FalseE; hypsubst)
      (rule same field read_RDNMI_ok read_TIMEUP_ok read_serial_ok serial_reads_ok assms(2) | assumption)+
qed

lemma Read4000_ok:
  assumes "snes_ok rinv sgood c"
  shows "returns (Read4000 c a) (\<lambda>(v, c'). snes_access rinv sgood c c')"
proof -
  have "returns (SnesDMAC_Read8 (dma_chan b) r (m_DMAC (sys c))) (\<lambda>v. True)" for b r
    using chan_less snes_okD(6) [OF assms] by (simp add: SnesDMAC_Read8_def)
  then show ?thesis
    using assms
    by (cases "map_of (read4000_cases :: (u32 \<times> ('r snes \<Rightarrow> (u8 \<times> 'r snes) option)) list) (a AND 0xFFFF)")
      (auto simp: Read4000_def Let_def access_refl returns_bind_iff dest!: map_of_SomeD intro: read4000_ok elim!: returns_mono)
qed

lemma write4000_ok:
  assumes "(k, f) \<in> set write4000_cases" and "snes_ok rinv sgood c"
  shows "returns (f d c) (snes_access rinv sgood c)"
proof -
  have field: "returns (io_write g d c) (snes_access rinv sgood c)"
    if "\<And>r. i_joyserial (g d r) = i_joyserial r \<and> i_wmadd (g d r) = i_wmadd r" for g
    using io_field_ok [OF assms(2) that] by (simp add: io_write_def)
  from assms(1) show ?thesis
    unfolding write4000_cases_def list.set insert_iff prod.inject empty_iff
    by (elim disjE conjE FalseE; hypsubst)
      (rule write_serial_ok write_nmitimen_ok write_mdmaen_ok write_hdmaen_ok write_memsel_ok write_TIMEUP_ok assms(2) field
       | simp add: w_wrmpyb_def w_wrdivb_def Let_def)+
qed

lemma Write4000_ok:
  assumes "snes_ok rinv sgood c"
  shows "returns (Write4000 c a d) (snes_access rinv sgood c)"
proof -
  have "returns (SnesDMAC_Write8 (dma_chan b) r d (m_DMAC (sys c))) (\<lambda>d'. snes_access rinv sgood c (upd_dmac (\<lambda>_. d') c))" for b r
    using chan_less upd_dmac_ok [OF assms] snes_okD(6) [OF assms] by (simp add: SnesDMAC_Write8_def)
  then show ?thesis
    using assms
    by (cases "map_of (write4000_cases :: (u32 \<times> (u8 \<Rightarrow> 'r snes \<Rightarrow> 'r snes option)) list) (a AND 0xFFFF)")
      (auto simp: Write4000_def Let_def access_refl returns_bind_iff dest!: map_of_SomeD intro: write4000_ok elim!: returns_mono)
qed

section \<open>The contract\<close>

lemma bank_fns:
  assumes "snes_ok rinv sgood c" and "unat a < 0x1010000"
  shows "bank_fns_ok (m_uSramSize (sys c)) (Bank c (bank_index a))"
  using assms bank_index_lt [OF assms(2)] by (simp add: machine_ok_def snes_inv_def)

lemma snes_rtrap_ok:
  assumes "snes_ok rinv sgood c" and "fn_ok (m_uSramSize (sys c)) (UserFn k)"
  shows "returns (rtrap (snes_traps V ex) k c a) (\<lambda>(v, c'). snes_access rinv sgood c c')"
  using assms ReadSRAM_ok [OF assms(1)] Read2000_ok [OF assms(1)] Read4000_ok [OF assms(1)]
  by (auto simp: fn_ok_def fn_defs snes_traps_def ReadMem_def access_refl)

lemma snes_wtrap_ok:
  assumes "snes_ok rinv sgood c" and "fn_ok (m_uSramSize (sys c)) (UserFn k)"
  shows "returns (wtrap (snes_traps V ex) k c a d) (snes_access rinv sgood c)"
  using assms WriteSRAM_ok [OF assms(1)] Write2000_ok [OF assms(1)] Write4000_ok [OF assms(1)]
  by (auto simp: fn_ok_def fn_defs snes_traps_def WriteMem_def access_refl)

end

sublocale snes_machine \<subseteq> cpu: trap_contract "snes_traps V ex" "snes_inv rinv sgood"
proof
  show "returns (rtrap (snes_traps V ex) k c a) (\<lambda>(v, c'). snes_access rinv sgood c c')"
    if "snes_ok rinv sgood c" "unat a < 0x1010000" "SNCpuBankT.pReadTrapFunc (Bank c (bank_index a)) = UserFn k" for c a k
    using bank_fns [OF that(1,2)] that(3) by (intro snes_rtrap_ok that(1)) (simp add: bank_fns_ok_def)
  show "returns (wtrap (snes_traps V ex) k c a v) (snes_access rinv sgood c)"
    if "snes_ok rinv sgood c" "unat a < 0x1010000" "SNCpuBankT.pWriteTrapFunc (Bank c (bank_index a)) = UserFn k" for c a k v
    using bank_fns [OF that(1,2)] that(3) by (intro snes_wtrap_ok that(1)) (simp add: bank_fns_ok_def)
qed

end
