(* ===== verification/Sn_Dma_Ok.thy ===== *)
theory Sn_Dma_Ok
  imports Sn_Dma Sn_System_Ok
begin

text \<open>
  Every DMA transfer inside the system is defined and keeps the invariant; loops of general DMA end
  because each byte costs eight cycles. Block reads of the processor equal byte reads in the
  system, because no read handler remaps a bank.
\<close>

section \<open>Reads leave the bank table and the controller alone\<close>

definition same_dma :: "'r snes \<Rightarrow> 'r snes \<Rightarrow> bool" where
  "same_dma c c' \<longleftrightarrow> Bank c' = Bank c \<and> m_DMAC (sys c') = m_DMAC (sys c)"

lemma same_dma_refl [simp]: "same_dma c c"
  by (simp add: same_dma_def)

lemma same_dma_trans: "same_dma c c' \<Longrightarrow> same_dma c' c'' \<Longrightarrow> same_dma c c''"
  by (simp add: same_dma_def)

lemma same_dma_sys [simp]: "m_DMAC (f (sys c)) = m_DMAC (sys c) \<Longrightarrow> same_dma c (upd_sys f c)"
  by (simp add: same_dma_def)

lemma with_ppu_same: "with_ppu f c = Some c' \<Longrightarrow> same_dma c c'"
  by (auto simp: with_ppu_def split: bind_splits)

lemma read_ppu_same: "read_ppu f c = Some (v, c') \<Longrightarrow> same_dma c c'"
  by (auto simp: read_ppu_def split: bind_splits)

lemma SyncPPU_same: "SyncPPU V c = Some c' \<Longrightarrow> same_dma c c'"
  unfolding SyncPPU_def by (rule with_ppu_same)

lemma SyncSPC_same: "SyncSPC ex n c = Some c' \<Longrightarrow> same_dma c c'"
  by (auto simp: SyncSPC_def Let_def split: bind_splits if_splits)

lemmas chip_same = with_ppu_same read_ppu_same SyncPPU_same SyncSPC_same

lemma io_regs_same [simp]: "same_dma c (upd_io_regs f c') = same_dma c c'" "same_dma c (set_io io c') = same_dma c c'"
    "same_dma c (upd_spc_io g c') = same_dma c c'" "same_dma c (next_wmadd c') = same_dma c c'" "same_dma c (c'\<lparr>hMem := m\<rparr>) = same_dma c c'"
    "same_dma (upd_spc_io g c) c' = same_dma c c'"
  by (simp_all add: upd_io_regs_def set_io_def upd_spc_io_def next_wmadd_def same_dma_def)

lemma signal_same [simp]:
  "same_dma c (SNCPUSignalNMI c' b) = same_dma c c'" "same_dma c (SNCPUSignalIRQ c' b) = same_dma c c'"
  "same_dma c (SNCPUConsumeCycles c' n) = same_dma c c'"
  by (simp_all add: SNCPUSignalNMI_def SNCPUSignalIRQ_def SNCPUAbort_def SNCPUConsumeCycles_def same_dma_def Let_def)

lemma read2000_same:
  assumes "(k, f) \<in> set (read2000_cases V ex)" and "f c = Some (v, c')"
  shows "same_dma c c'"
  using assms unfolding read2000_cases_def list.set insert_iff prod.inject empty_iff
  by (elim disjE conjE FalseE)
    (auto simp: read_slhv_def sync_read_def read_counter_def read_stat78_def read_apu_def read_WMDATA_def
      split: bind_splits dest!: chip_same intro: same_dma_trans)

lemma read4000_same:
  assumes "(k, f) \<in> set read4000_cases" and "f c = Some (v, c')"
  shows "same_dma c c'"
  using assms unfolding read4000_cases_def list.set insert_iff prod.inject empty_iff
  by (elim disjE conjE FalseE)
    (auto simp: read_serial_def read_RDNMI_def read_TIMEUP_def clear_timeup_def update_nmi_def read_io_def Let_def split: prod.splits)

lemma snes_read_same:
  assumes "rtrap (snes_traps V ex) k c a = Some (v, c')"
  shows "same_dma c c'"
proof -
  have 1: "same_dma c c'" if "Read2000 V ex c a = Some (v, c')"
    using that by (auto simp: Read2000_def Let_def split: option.splits dest!: map_of_SomeD dest: read2000_same)
  have 2: "same_dma c c'" if "Read4000 c a = Some (v, c')"
    using that by (auto simp: Read4000_def Let_def split: option.splits if_splits bind_splits dest!: map_of_SomeD dest: read4000_same)
  from assms 1 2 show ?thesis
    by (auto simp: snes_traps_def ReadMem_def ReadSRAM_def split: if_splits bind_splits)
qed

lemma call_read_same: "call_read (snes_traps V ex) f c a = Some (v, c') \<Longrightarrow> same_dma c c'"
  by (cases f) (auto simp: u_SNCPUDefaultRead_def dest: snes_read_same)

lemma SNCPURead8_same: "SNCPURead8 (snes_traps V ex) c a = Some (v, c') \<Longrightarrow> same_dma c c'"
  by (auto simp: SNCPURead8_def bank_at_def split: bind_splits option.splits if_splits dest: call_read_same)

text \<open>A write does so too, except through the handler of the registers at 4000.\<close>

lemma enqueue_ppu_same:
  assumes "enqueue_ppu_write V a d c = Some c'"
  shows "same_dma c c'"
proof (rule enqueue_ppu_write.raw_induct [where P = "\<lambda>V a d c c'. same_dma c c'", OF _ assms])
  fix f V a d c c'
  assume IH: "\<And>V a d c c'. f V a d c = Some c' \<Longrightarrow> same_dma c c'"
    and body: "(let (b, p) = SnesPPU_EnqueueWrite (m_uLine (sys c)) a d (m_PPU (sys c)); c = upd_sys (\<lambda>s. s\<lparr>m_PPU := p\<rparr>) c
      in if b then Some c else SyncPPU V c \<bind> f V a d) = Some c'"
  obtain b p where e: "SnesPPU_EnqueueWrite (m_uLine (sys c)) a d (m_PPU (sys c)) = (b, p)" by (metis surj_pair)
  have s: "same_dma c (upd_sys (\<lambda>s. s\<lparr>m_PPU := p\<rparr>) c)" by simp
  from body e show "same_dma c c'"
    by (auto simp: Let_def split: if_splits bind_splits dest!: SyncPPU_same IH intro: same_dma_trans [OF s] same_dma_trans)
qed

lemma write2000_same:
  assumes "(k, f) \<in> set (write2000_cases ex)" and "f d c = Some c'"
  shows "same_dma c c'"
  using assms unfolding write2000_cases_def list.set insert_iff prod.inject empty_iff
  by (elim disjE conjE FalseE)
    (auto simp: write_apu_def write_WMDATA_def write_wmadd_def Let_def split: bind_splits if_splits prod.splits
      dest!: SyncSPC_same)

lemma Write2000_same: "Write2000 V ex c a d = Some c' \<Longrightarrow> same_dma c c'"
  by (auto simp: Write2000_def Let_def split: option.splits if_splits dest!: map_of_SomeD dest: write2000_same enqueue_ppu_same)

lemma snes_write_same:
  assumes "wtrap (snes_traps V ex) k c a d = Some c'" and "UserFn k \<noteq> fn_4000"
  shows "same_dma c c'"
  using assms by (auto simp: snes_traps_def WriteMem_def WriteSRAM_def fn_defs split: if_splits bind_splits dest: Write2000_same)

lemma call_write_same: "call_write (snes_traps V ex) f c a d = Some c' \<Longrightarrow> f \<noteq> fn_4000 \<Longrightarrow> same_dma c c'"
  by (cases f) (auto simp: u_SNCPUDefaultWrite_def dest: snes_write_same)

lemma SNCPUWrite8_same:
  assumes "SNCPUWrite8 (snes_traps V ex) c a d = Some c'" and "SNCpuBankT.pWriteTrapFunc (Bank c (bank_index a)) \<noteq> fn_4000"
  shows "same_dma c c'"
  using assms
  by (auto simp: SNCPUWrite8_def bank_at_def split: bind_splits if_splits dest: call_write_same)

interpretation system_bus: steady_reads "snes_traps V ex" for V ex
  by unfold_locales (drule snes_read_same, simp add: same_dma_def)

section \<open>Addresses\<close>

lemma bus_addr_less: "unat a < 2 ^ 24 \<Longrightarrow> unat (bus_addr a b) < 2 ^ 24"
  unfolding bus_addr_def
  by (rule or_lt_two_power) (use shl_bound [of "ucast b" 255 16] unat_u8_le [of b] in \<open>simp_all add: btop_def\<close>)

lemma src_addr_less: "unat (src_addr p) < 0x1010000" "unat (table_addr p) < 0x1010000"
  using bus_addr_less [of "ucast (a1tx p)" "a1bx p"] bus_addr_less [of "ucast (a2ax p)" "a1bx p"] unat_u16_le [of "a1tx p"] unat_u16_le [of "a2ax p"]
  by (simp_all add: src_addr_def table_addr_def)

lemma table_addr_next: "unat (table_addr p) + 1 < 0x1010000"
  using bus_addr_less [of "ucast (a2ax p)" "a1bx p"] unat_u16_le [of "a2ax p"] by (simp add: table_addr_def)

lemma port_addr_less: "unat t < 0x100 \<Longrightarrow> unat (0x2100 + ucast (b :: u8) + t :: u32) < 0x1010000"
  "unat t < 0x100 \<Longrightarrow> unat (0x2100 + t + ucast (b :: u8) :: u32) < 0x1010000"
  "unat t < 0x100 \<Longrightarrow> unat (0x2100 + (ucast (b :: u8) + t) :: u32) < 0x1010000"
  using unat_u8_le [of b] by (simp_all add: unat_word_ariths)

lemma hdma_addr_less: "unat k < 0x100 \<Longrightarrow> unat (hdma_addr p k) < 0x1010000"
  using bus_addr_less [of "ucast (dasx p) + k" "dasbx p"] unat_u16_le [of "dasx p"]
  by (simp add: hdma_addr_def unat_word_ariths)

lemma pattern_small: "m < 8 \<Longrightarrow> unat (u_SNDma_MDMATransfer ! m ! (i mod 4)) < 0x100"
proof -
  have "\<forall>r \<in> set u_SNDma_MDMATransfer. length r = 4 \<and> (\<forall>t \<in> set r. unat t < 0x100)"
    by (simp add: u_SNDma_MDMATransfer_def)
  moreover assume "m < 8"
  then have "u_SNDma_MDMATransfer ! m \<in> set u_SNDma_MDMATransfer"
    by (intro nth_mem) (simp add: u_SNDma_MDMATransfer_def)
  ultimately show ?thesis by (metis mod_less_divisor nth_mem zero_less_numeral)
qed

lemma mode_less: "dma_mode p < 8" "dma_inc p < 4"
  by (simp_all add: dma_mode_def dma_inc_def)

section \<open>General DMA leaves the other channels alone\<close>

text \<open>\<open>ports_safe\<close>: the handler of the registers at 4000 is not behind the addresses from 2000 to 3FFF.\<close>

definition ports_safe :: "'r snes \<Rightarrow> bool" where
  "ports_safe c \<longleftrightarrow> SNCpuBankT.pWriteTrapFunc (Bank c 1) \<noteq> fn_4000"

definition dma_steady :: "'r snes \<Rightarrow> 'r snes \<Rightarrow> bool" where
  "dma_steady c c' \<longleftrightarrow> Bank c' = Bank c \<and> m_MDMAEnable (m_DMAC (sys c')) = m_MDMAEnable (m_DMAC (sys c))
     \<and> map dmapx (dma_Channels (m_DMAC (sys c'))) = map dmapx (dma_Channels (m_DMAC (sys c)))"

lemma same_steady: "same_dma c c' \<Longrightarrow> dma_steady c c'"
  by (simp add: dma_steady_def same_dma_def)

lemma dma_steady_refl [simp]: "dma_steady c c"
  by (simp add: dma_steady_def)

lemma dma_steady_trans: "dma_steady c c' \<Longrightarrow> dma_steady c' c'' \<Longrightarrow> dma_steady c c''"
  by (simp add: dma_steady_def)

lemma ports_safe_steady: "dma_steady c c' \<Longrightarrow> ports_safe c' = ports_safe c"
  by (simp add: dma_steady_def ports_safe_def)

lemma steady_chan: "(\<And>p. dmapx (f p) = dmapx p) \<Longrightarrow> dma_steady c (upd_chan i f c)"
  by (cases "i < length (dma_Channels (m_DMAC (sys c)))")
    (simp_all add: dma_steady_def upd_chan_def upd_dmac_def map_update list_update_same_conv list_update_beyond not_less)

lemma steady_consume [simp]: "dma_steady c (SNCPUConsumeCycles c' n) = dma_steady c c'"
  by (simp add: dma_steady_def SNCPUConsumeCycles_def)

lemma port_bank: "unat a < 0x1000 \<Longrightarrow> bank_index (0x2100 + a) = 1"
  by (simp add: bank_index_eq unat_word_ariths)

lemma port_write_steady:
  assumes "port_write V (snes_traps V ex) a d c = Some c'" and "ports_safe c" and "unat a < 0x1000"
  shows "dma_steady c c'"
  using assms SNCPUWrite8_same [of V ex c "0x2100 + a" d c'] port_bank [OF assms(3)]
  by (auto simp: port_write_def ports_safe_def split: if_splits dest!: with_ppu_same intro: same_steady)

lemma simple_write_steady:
  assumes "simple_write V (snes_traps V ex) i b d c = Some c'" and "ports_safe c"
  shows "dma_steady c c'"
proof -
  have b: "unat (ucast (x :: u8) :: u32) < 0x1000" for x using unat_u8_le [of x] by simp
  show ?thesis
    using assms port_write_steady [OF _ assms(2) b] SNCPUWrite8_same [of V ex c "0x2100 + ucast (bbadx (get_chan i c))" d c'] port_bank [OF b]
    by (auto simp: simple_write_def ports_safe_def simp del: unat_ucast_u8_u32 split: if_splits intro: same_steady)
qed

lemma each_byte_steady:
  assumes "\<And>b c c'. f b c = Some c' \<Longrightarrow> ports_safe c \<Longrightarrow> dma_steady c c'"
  shows "each_byte f bs c = Some c' \<Longrightarrow> ports_safe c \<Longrightarrow> dma_steady c c'"
proof (induction bs arbitrary: c)
  case (Cons b bs)
  then obtain c1 where c1: "f b c = Some c1" "each_byte f bs c1 = Some c'" by (auto split: bind_splits)
  from assms [OF c1(1) Cons.prems(2)] Cons.IH [OF c1(2)] Cons.prems(2) show ?case
    by (auto simp: ports_safe_steady intro: dma_steady_trans)
qed simp

lemma each_pair_steady:
  assumes "\<And>b b' c c'. f b b' c = Some c' \<Longrightarrow> dma_steady c c'" and "\<And>b c c'. g b c = Some c' \<Longrightarrow> dma_steady c c'"
  shows "each_pair f g bs c = Some c' \<Longrightarrow> dma_steady c c'"
proof (induction bs arbitrary: c rule: induct_list012)
  case (3 b0 b1 bs)
  then show ?case by (auto split: bind_splits intro: dma_steady_trans [OF assms(1)])
qed (simp_all add: assms(2))

lemma pattern_write_steady:
  assumes "\<And>i. unat (pt ! (i mod 4)) < 0x100"
  shows "pattern_write V (snes_traps V ex) uChan pt i bs c = Some c' \<Longrightarrow> ports_safe c \<Longrightarrow> dma_steady c c'"
proof (induction bs arbitrary: c i)
  case (Cons b bs)
  let ?a = "ucast (bbadx (get_chan uChan c)) + pt ! (i mod 4)"
  obtain c1 where c1: "port_write V (snes_traps V ex) ?a b c = Some c1" "pattern_write V (snes_traps V ex) uChan pt (i + 1) bs c1 = Some c'"
    using Cons.prems(1) by (auto split: bind_splits)
  have "unat ?a < 0x1000"
    using assms [of i] unat_u8_le [of "bbadx (get_chan uChan c)"] by (simp add: unat_word_ariths)
  from port_write_steady [OF c1(1) Cons.prems(2) this] Cons.IH [OF c1(2)] Cons.prems(2) show ?case
    by (auto simp: ports_safe_steady intro: dma_steady_trans)
qed simp

lemma TransferData_steady:
  assumes "TransferData V (snes_traps V ex) i bs c = Some c'" and "ports_safe c"
  shows "dma_steady c c'"
proof -
  let ?c = "SNCPUConsumeCycles c (SNCPU_CYCLE_SLOW * int (length bs))"
  have s: "dma_steady c ?c" by simp
  then have safe: "ports_safe ?c" using assms(2) by (simp only: ports_safe_steady)
  have "dma_steady ?c c'"
    using assms(1) pattern_write_steady [OF pattern_small [OF mode_less(1)] _ safe]
      each_pair_steady [of "\<lambda>b0 b1. with_ppu (WriteVMDATALH V b0 b1)" "\<lambda>b. with_ppu (WriteVMDATAL V b)" bs ?c c']
      each_byte_steady [of "simple_write V (snes_traps V ex) i (bbadx (get_chan i ?c))" bs ?c c'] safe
    by (auto simp: TransferData_def Let_def split: if_splits dest: with_ppu_same [THEN same_steady] simple_write_steady)
  with s show ?thesis by (rule dma_steady_trans)
qed

lemma dec_reads_steady: "dec_reads (snes_traps V ex) i n c = Some (vs, c') \<Longrightarrow> dma_steady c c'"
proof (induction n arbitrary: c vs)
  case (Suc n)
  then obtain v c1 ws where r: "SNCPURead8 (snes_traps V ex) c (src_addr (get_chan i c)) = Some (v, c1)"
    "dec_reads (snes_traps V ex) i n (upd_chan i (\<lambda>p. p\<lparr>a1tx := a1tx p - 1\<rparr>) c1) = Some (ws, c')"
    by (auto simp: Let_def split: bind_splits)
  have "dma_steady c1 (upd_chan i (\<lambda>p. p\<lparr>a1tx := a1tx p - 1\<rparr>) c1)" by (rule steady_chan) simp
  with SNCPURead8_same [OF r(1), THEN same_steady] Suc.IH [OF r(2)] show ?case by (blast intro: dma_steady_trans)
qed simp

lemma read_slow_steady: "SNCPUReadMem_slow (snes_traps V ex) c a n = Some (vs, c') \<Longrightarrow> dma_steady c c'"
proof (induction n arbitrary: c a vs)
  case (Suc n)
  then obtain v c1 ws where r: "SNCPURead8 (snes_traps V ex) c a = Some (v, c1)" "SNCPUReadMem_slow (snes_traps V ex) c1 (a + 1) n = Some (ws, c')"
    by (auto split: bind_splits)
  from SNCPURead8_same [OF r(1), THEN same_steady] Suc.IH [OF r(2)] show ?case by (rule dma_steady_trans)
qed simp

lemma fill_buffer_steady: "fill_buffer (snes_traps V ex) i n c = Some (vs, c') \<Longrightarrow> dma_steady c c'"
  unfolding fill_buffer_def system_bus.fast_eq_slow Let_def
  by (auto split: if_splits bind_splits dest!: read_slow_steady SNCPURead8_same [THEN same_steady] dest: dec_reads_steady
      intro: dma_steady_trans [OF _ steady_chan])

lemma mdma_round_steady:
  assumes "mdma_round V (snes_traps V ex) i c = Some c'" and "ports_safe c"
  shows "dma_steady c c'"
proof (cases "mdma_bytes (get_chan i c) (SNCpuT.Cycles c) > 0")
  case True
  then obtain buf c1 c2 where r: "fill_buffer (snes_traps V ex) i (mdma_bytes (get_chan i c) (SNCpuT.Cycles c)) c = Some (buf, c1)"
    "TransferData V (snes_traps V ex) i buf c1 = Some c2" "c' = upd_chan i (\<lambda>p. p\<lparr>dasx := dasx p - word_of_nat (length buf)\<rparr>) c2"
    using assms(1) by (auto simp: mdma_round_def Let_def split: bind_splits)
  from fill_buffer_steady [OF r(1)] have 1: "dma_steady c c1" .
  then have "ports_safe c1" using assms(2) by (simp add: ports_safe_steady)
  from dma_steady_trans [OF 1 TransferData_steady [OF r(2) this]] show ?thesis
    unfolding r(3) by (rule dma_steady_trans) (simp add: steady_chan)
qed (use assms in \<open>simp add: mdma_round_def\<close>)

lemma mdma_loop_steady:
  assumes "mdma_loop V (snes_traps V ex) i c = Some c'" and "ports_safe c"
  shows "dma_steady c c'"
proof -
  have "T = snes_traps V ex \<longrightarrow> ports_safe c \<longrightarrow> dma_steady c c'" if "mdma_loop V T i c = Some c'" for T
  proof (rule mdma_loop.raw_induct [where P = "\<lambda>V T i c c'. T = snes_traps V ex \<longrightarrow> ports_safe c \<longrightarrow> dma_steady c c'", OF _ that])
    fix f V T i c c'
    assume IH: "\<And>V T i c c'. f V T i c = Some c' \<Longrightarrow> T = snes_traps V ex \<longrightarrow> ports_safe c \<longrightarrow> dma_steady c c'"
      and body: "do { c \<leftarrow> mdma_round V T i c;
         if dasx (get_chan i c) \<noteq> 0 \<and> 0 < SNCpuT.Cycles c then f V T i c else Some c } = Some c'"
    then show "T = snes_traps V ex \<longrightarrow> ports_safe c \<longrightarrow> dma_steady c c'"
      by (auto split: bind_splits if_splits dest!: mdma_round_steady IH simp: ports_safe_steady intro: dma_steady_trans)
  qed
  with assms show ?thesis by simp
qed

text \<open>A channel to the registers that is processed changes the enable bits at most by clearing its own.\<close>

lemma ProcessMDMAChFast_steady:
  assumes "ProcessMDMAChFast V (snes_traps V ex) i c = Some c'" and "ports_safe c" and "dmapx (get_chan i c) AND 0x80 = 0"
  shows "ports_safe c' \<and> map dmapx (dma_Channels (m_DMAC (sys c'))) = map dmapx (dma_Channels (m_DMAC (sys c)))
    \<and> (bit (m_MDMAEnable (m_DMAC (sys c'))) j \<longrightarrow> bit (m_MDMAEnable (m_DMAC (sys c))) j)"
proof (cases "0 < SNCpuT.Cycles c")
  case True
  then obtain c1 where c1: "mdma_loop V (snes_traps V ex) i c = Some c1" "c' = chan_done i c1"
    using assms by (auto simp: ProcessMDMAChFast_def split: if_splits bind_splits)
  from mdma_loop_steady [OF c1(1) assms(2)] have s: "dma_steady c c1" .
  then have "ports_safe c1" using assms(2) by (simp only: ports_safe_steady)
  then have "ports_safe c'" by (simp add: c1(2) chan_done_def clear_enable_def upd_dmac_def ports_safe_def)
  moreover have "bit (m_MDMAEnable (m_DMAC (sys c1)) AND NOT (push_bit i 1)) j \<longrightarrow> bit (m_MDMAEnable (m_DMAC (sys c1))) j"
    unfolding bit_and_iff by simp
  ultimately show ?thesis
    using s by (auto simp: c1(2) chan_done_def clear_enable_def upd_dmac_def dma_steady_def)
qed (use assms in \<open>auto simp: ProcessMDMAChFast_def split: if_splits\<close>)

definition to_ports :: "'r snes \<Rightarrow> bool" where
  "to_ports c \<longleftrightarrow> (\<forall>i < SNESDMAC_CHANNEL_NUM. bit (m_MDMAEnable (m_DMAC (sys c))) i \<longrightarrow> dmapx (get_chan i c) AND 0x80 = 0)"

section \<open>Accesses of the controller\<close>

text \<open>As an access of the processor, but a transfer may also consume cycles.\<close>

context snes_machine
begin

abbreviation T :: "'r SnesSystemT traps" where "T \<equiv> snes_traps V ex"

abbreviation ok :: "'r snes \<Rightarrow> bool" where "ok \<equiv> snes_ok rinv sgood"

text \<open>\<open>xfer\<close>: what a step of a transfer keeps; \<open>spent n\<close>: it also uses up \<open>n\<close> cycles.\<close>

definition spent :: "nat \<Rightarrow> 'r snes \<Rightarrow> 'r snes \<Rightarrow> bool" where
  "spent n c c' \<longleftrightarrow> ok c' \<and> SNCpuT.Regs c' = SNCpuT.Regs c \<and> nat (SNCpuT.Cycles c') \<le> nat (SNCpuT.Cycles c) - n"

lemma spent_access: "snes_access rinv sgood c c' \<Longrightarrow> spent 0 c c'"
  by (simp add: spent_def access_def)

lemma spent_refl: "ok c \<Longrightarrow> spent 0 c c"
  by (simp add: spent_def)

lemma spent_trans: "spent m c c' \<Longrightarrow> spent n c' c'' \<Longrightarrow> spent (m + n) c c''"
  by (auto simp: spent_def)

lemma spent_mono: "spent n c c' \<Longrightarrow> m \<le> n \<Longrightarrow> spent m c c'"
  by (auto simp: spent_def)

lemma spent_ok: "spent n c c' \<Longrightarrow> ok c'"
  by (simp add: spent_def)

lemma spent_consume: "ok c \<Longrightarrow> spent (nat n) c (SNCPUConsumeCycles c n)" if "0 \<le> n"
  using that by (auto simp: spent_def SNCPUConsumeCycles_def)

lemma spent_chan:
  assumes "ok c"
  shows "spent 0 c (upd_chan i f c)"
  unfolding upd_chan_def
  by (rule spent_access, rule upd_dmac_ok [OF assms]) (simp add: snes_okD [OF assms])

lemma spent_ppu: "ok c \<Longrightarrow> returns (f (m_PPU (sys c))) (ppu_write rinv (m_PPU (sys c))) \<Longrightarrow> returns (with_ppu f c) (spent 0 c)"
  by (rule returns_mono [OF with_ppu_ok]) (auto simp: ppu_write_def intro: spent_access elim: returns_mono)

lemma spent_bind:
  assumes "returns m (spent k c)" and "\<And>x. spent k c x \<Longrightarrow> returns (f x) (spent l x)"
  shows "returns (m \<bind> f) (spent (k + l) c)"
  by (rule returns_bind [OF assms(1)], rule returns_mono [OF assms(2)]) (auto intro: spent_trans)

lemma spent_read: "ok c \<Longrightarrow> unat a < 0x1010000 \<Longrightarrow> returns (SNCPURead8 T c a) (\<lambda>(v, c'). spent 0 c c')"
  by (rule returns_prod_mono [OF cpu.read8_ok]) (auto intro: spent_access)

lemma spent_write: "ok c \<Longrightarrow> unat a < 0x1010000 \<Longrightarrow> returns (SNCPUWrite8 T c a v) (spent 0 c)"
  by (rule returns_mono [OF cpu.write8_ok]) (auto intro: spent_access)

lemma spent_read_bind:
  assumes "ok c" and "unat a < 0x1010000" and "\<And>v x. spent 0 c x \<Longrightarrow> returns (f (v, x)) (spent l x)"
  shows "returns (SNCPURead8 T c a \<bind> f) (spent l c)"
  by (rule returns_bind [OF spent_read [OF assms(1,2)]], clarify, rule returns_mono [OF assms(3)])
    (use spent_trans [of 0] in auto)

lemma SNCPUReadMem_ok:
  assumes "ok c" and "unat a + n \<le> 2 ^ 24"
  shows "returns (SNCPUReadMem T c a n) (\<lambda>(vs, c'). spent 0 c c' \<and> length vs = n)"
  unfolding system_bus.fast_eq_slow using assms
proof (induction n arbitrary: c a)
  case 0
  then show ?case by (simp add: spent_refl)
next
  case (Suc n)
  have a: "unat a < 0x1010000" using Suc.prems(2) by simp
  show ?case
    unfolding SNCPUReadMem_slow.simps
  proof (rule returns_bind [OF spent_read [OF Suc.prems(1) a]], clarify)
    fix v c' assume c': "spent 0 c c'"
    have n: "unat (a + 1) + n \<le> 2 ^ 24 \<or> n = 0" using Suc.prems(2) by (auto simp: unat_word_ariths)
    have "returns (SNCPUReadMem_slow T c' (a + 1) n) (\<lambda>(vs, c''). spent 0 c' c'' \<and> length vs = n)"
      using n Suc.IH [OF spent_ok [OF c']] spent_ok [OF c'] by (auto simp: spent_refl)
    then show "returns (do { (vs, c) \<leftarrow> SNCPUReadMem_slow T c' (a + 1) n; Some (v # vs, c) }) (\<lambda>(vs, c'). spent 0 c c' \<and> length vs = Suc n)"
      by (rule returns_bind) (use spent_trans [OF c'] in auto)
  qed
qed

section \<open>General DMA\<close>

lemma port_write_ok:
  assumes "ok c" and "unat (0x2100 + a) < 0x1010000"
  shows "returns (port_write V T a d c) (spent 0 c)"
  unfolding port_write_def
  by (split if_split)+
    (intro conjI impI spent_ppu spent_write assms ppu_port_ok snes_okD(1) [OF assms(1)])

lemma simple_write_ok:
  assumes "ok c"
  shows "returns (simple_write V T i b d c) (spent 0 c)"
  using port_write_ok [OF assms, of "ucast b" d] spent_write [OF assms, of "0x2100 + ucast (bbadx (get_chan i c))" d]
    port_addr_less(1) [of 0 b] port_addr_less(1) [of 0 "bbadx (get_chan i c)"]
  by (simp add: simple_write_def)

lemma each_byte_ok:
  assumes "\<And>b c. ok c \<Longrightarrow> returns (f b c) (spent 0 c)" and "ok c"
  shows "returns (each_byte f bs c) (spent 0 c)"
  using assms(2)
proof (induction bs arbitrary: c)
  case (Cons b bs)
  from spent_bind [OF assms(1) [OF Cons.prems] Cons.IH [OF spent_ok]] show ?case by simp
qed (simp add: spent_refl)

lemma each_pair_ok:
  assumes "\<And>b b' c. ok c \<Longrightarrow> returns (f b b' c) (spent 0 c)" and "\<And>b c. ok c \<Longrightarrow> returns (g b c) (spent 0 c)" and "ok c"
  shows "returns (each_pair f g bs c) (spent 0 c)"
  using assms(3)
proof (induction bs arbitrary: c rule: induct_list012)
  case (3 b0 b1 bs)
  from spent_bind [OF assms(1) [OF 3(3)] 3(1) [OF spent_ok]] show ?case by simp
qed (simp_all add: spent_refl assms(2))

lemma pattern_write_ok:
  assumes "\<And>i. unat (pt ! (i mod 4)) < 0x100" and "ok c"
  shows "returns (pattern_write V T uChan pt i bs c) (spent 0 c)"
  using assms(2)
proof (induction bs arbitrary: c i)
  case (Cons b bs)
  have "returns (port_write V T (ucast (bbadx (get_chan uChan c)) + pt ! (i mod 4)) b c) (spent 0 c)"
    using Cons.prems assms(1) by (intro port_write_ok port_addr_less(3))
  from spent_bind [OF this Cons.IH [OF spent_ok]] show ?case by simp
qed (simp add: spent_refl)

lemma TransferData_ok:
  assumes "ok c"
  shows "returns (TransferData V T i bs c) (spent (8 * length bs) c)"
proof -
  let ?c = "SNCPUConsumeCycles c (SNCPU_CYCLE_SLOW * int (length bs))"
  have s: "spent (8 * length bs) c ?c"
    using spent_consume [OF _ assms, of "SNCPU_CYCLE_SLOW * int (length bs)"] by (simp add: SNCPU_CYCLE_SLOW_def nat_mult_distrib)
  note o = spent_ok [OF s]
  have pair: "returns (with_ppu (WriteVMDATALH V b0 b1) c') (spent 0 c')" "returns (with_ppu (WriteVMDATAL V b0) c') (spent 0 c')"
    if "ok c'" for b0 b1 c'
    using that by (intro spent_ppu ppu_port_ok snes_okD(1); assumption)+
  have pat: "returns (pattern_write V T i (u_SNDma_MDMATransfer ! dma_mode p) 0 bs ?c) (spent 0 ?c)" for p
    by (intro pattern_write_ok pattern_small mode_less o)
  have "returns (TransferData V T i bs c) (spent 0 ?c)"
    unfolding TransferData_def Let_def
    using each_byte_ok [OF simple_write_ok o] each_pair_ok [OF pair o] pat by simp
  then show ?thesis by (rule returns_mono) (use spent_trans [OF s, of 0] in simp)
qed

text \<open>A round moves at least one byte when cycles are left.\<close>

lemma mdma_bytes_bounds:
  assumes "0 < cy"
  shows "0 < mdma_bytes p cy" "mdma_bytes p cy \<le> 256" "8 * mdma_bytes p cy \<le> cy + 31"
proof -
  define m where "m = drop_bit 3 (cy + 7)"
  have m: "m = (cy + 7) div 8" by (simp add: m_def drop_bit_int_def)
  have "(m + 3) AND NOT (mask 2) = push_bit 2 (drop_bit 2 (m + 3))"
    by (rule bit_eqI) (auto simp: bit_simps not_less dest!: le_Suc_ex)
  then have k: "(m + 3) AND NOT 3 = (m + 3) div 4 * 4"
    by (simp add: mask_eq_exp_minus_1 push_bit_int_def drop_bit_int_def)
  have "(m + 3) AND NOT 3 \<ge> 4" "8 * ((m + 3) AND NOT 3) \<le> cy + 31"
    unfolding k using assms m by presburger+
  moreover have "0 < (if dasx p \<noteq> 0 then uint (dasx p) else 0x10000)"
    using uint_ge_0 [of "dasx p"] uint_0_iff [of "dasx p"] by (auto simp only: less_le split: if_splits)
  ultimately show "0 < mdma_bytes p cy" "mdma_bytes p cy \<le> 256" "8 * mdma_bytes p cy \<le> cy + 31"
    by (auto simp: mdma_bytes_def Let_def m_def [symmetric])
qed

lemma spent_upd: "spent n c c' \<Longrightarrow> spent n c (upd_chan i f c')"
  using spent_trans [where m = n and n = 0, OF _ spent_chan [OF spent_ok]] by simp

lemma dec_reads_ok: "ok c \<Longrightarrow> returns (dec_reads T i n c) (\<lambda>(vs, c'). spent 0 c c' \<and> length vs = n)"
proof (induction n arbitrary: c)
  case (Suc n)
  show ?case
    unfolding dec_reads.simps Let_def
  proof (rule returns_bind [OF spent_read [OF Suc.prems src_addr_less(1)]], clarify)
    fix v c' assume c': "spent 0 c c'"
    let ?c = "upd_chan i (\<lambda>p. p\<lparr>a1tx := a1tx p - 1\<rparr>) c'"
    have u: "spent 0 c ?c" by (rule spent_upd [OF c'])
    show "returns (do { (vs, c) \<leftarrow> dec_reads T i n ?c; Some (v # vs, c) }) (\<lambda>(vs, c'). spent 0 c c' \<and> length vs = Suc n)"
      by (rule returns_bind [OF Suc.IH [OF spent_ok [OF u]]]) (use spent_trans [OF u] in auto)
  qed
qed (simp add: spent_refl)

lemma block_addr: "uint (a1tx p) + int n \<le> 0x10000 \<Longrightarrow> unat (src_addr p) + n \<le> 2 ^ 24"
proof -
  assume n: "uint (a1tx p) + int n \<le> 0x10000"
  have m: "take_bit 16 (src_addr p) = ucast (a1tx p)"
    unfolding src_addr_def bus_addr_def by (rule bit_word_eqI) (auto simp: bit_simps dest: bit_imp_le_length)
  have "unat (src_addr p) mod 65536 = unat (a1tx p)"
    using arg_cong [OF m, of unat] by (simp add: unsigned_take_bit_eq take_bit_nat_def)
  moreover have "unat (src_addr p) < 2 ^ 24"
    unfolding src_addr_def using unat_u16_le [of "a1tx p"] by (intro bus_addr_less) simp
  moreover have "unat (a1tx p) + n \<le> 65536"
    using n unfolding uint_nat by linarith
  moreover have "unat (src_addr p) div 65536 \<le> 255" using div_le_mono [of "unat (src_addr p)" "2 ^ 24 - 1" 65536] calculation(2) by simp
  moreover have "(2 :: nat) ^ 24 = 256 * 65536" "(2 :: nat) ^ 16 = 65536" by simp_all
  ultimately show ?thesis using div_mult_mod_eq [of "unat (src_addr p)" 65536] by linarith
qed

lemma fill_buffer_ok:
  assumes "ok c" and "0 < n" and "n \<le> 256"
  shows "returns (fill_buffer T i n c) (\<lambda>(vs, c'). spent 0 c c' \<and> 0 < length vs \<and> length vs \<le> nat n)"
proof -
  let ?p = "get_chan i c"
  let ?n = "if uint (a1tx ?p) + n > 0x10000 then 0x10000 - uint (a1tx ?p) else n"
  have n: "0 < ?n" "?n \<le> n" "uint (a1tx ?p) + ?n \<le> 0x10000" using assms(2) uint_bounded [of "a1tx ?p"] by auto
  have 1: "returns (do { (vs, c) \<leftarrow> SNCPUReadMem T c (src_addr ?p) (nat ?n); Some (vs, upd_chan i (\<lambda>p. p\<lparr>a1tx := a1tx p + word_of_int ?n\<rparr>) c) })
     (\<lambda>(vs, c'). spent 0 c c' \<and> 0 < length vs \<and> length vs \<le> nat n)"
    by (rule returns_bind [OF SNCPUReadMem_ok [OF assms(1) block_addr]]) (use n in \<open>auto simp: spent_upd split: if_splits\<close>)
  have 2: "returns (dec_reads T i (nat n) c) (\<lambda>(vs, c'). spent 0 c c' \<and> 0 < length vs \<and> length vs \<le> nat n)"
    by (rule returns_prod_mono [OF dec_reads_ok [OF assms(1)]]) (use assms in auto)
  have 3: "returns (do { (v, c) \<leftarrow> SNCPURead8 T c (src_addr ?p); Some (replicate (nat n) v, c) }) (\<lambda>(vs, c'). spent 0 c c' \<and> 0 < length vs \<and> length vs \<le> nat n)"
    by (rule returns_bind [OF spent_read [OF assms(1) src_addr_less(1)]]) (use assms in auto)
  from 1 2 3 show ?thesis by (simp add: fill_buffer_def Let_def)
qed

lemma mdma_round_ok:
  assumes "ok c" and "0 < SNCpuT.Cycles c"
  shows "returns (mdma_round V T i c) (spent 8 c)"
proof -
  let ?n = "mdma_bytes (get_chan i c) (SNCpuT.Cycles c)"
  note b = mdma_bytes_bounds [OF assms(2), of "get_chan i c"]
  have "returns (do { (buf, c) \<leftarrow> fill_buffer T i ?n c; c \<leftarrow> TransferData V T i buf c;
       Some (upd_chan i (\<lambda>p. p\<lparr>dasx := dasx p - word_of_nat (length buf)\<rparr>) c) }) (spent 8 c)"
  proof (rule returns_bind [OF fill_buffer_ok [OF assms(1) b(1,2)]])
    fix x :: "u8 list \<times> 'r snes"
    assume "case x of (vs, c') \<Rightarrow> spent 0 c c' \<and> 0 < length vs \<and> length vs \<le> nat ?n"
    then obtain vs c' where x: "x = (vs, c')" and c': "spent 0 c c'" and vs: "0 < length vs" by (cases x) simp
    have l: "8 \<le> 8 * length vs" using vs by (cases vs) auto
    show "returns (case x of (buf, c) \<Rightarrow> do { c \<leftarrow> TransferData V T i buf c; Some (upd_chan i (\<lambda>p. p\<lparr>dasx := dasx p - word_of_nat (length buf)\<rparr>) c) }) (spent 8 c)"
      unfolding x prod.case
    proof (rule returns_bind [OF TransferData_ok [OF spent_ok [OF c']]])
      fix x assume "spent (8 * length vs) c' x"
      then have "spent 8 c x" using spent_trans [OF c'] by (intro spent_mono [OF _ l]) simp
      then show "returns (Some (upd_chan i (\<lambda>p. p\<lparr>dasx := dasx p - word_of_nat (length vs)\<rparr>) x)) (spent 8 c)"
        by (simp add: spent_upd)
    qed
  qed
  then show ?thesis using b(1) by (simp add: mdma_round_def Let_def)
qed

lemma mdma_loop_ok:
  assumes "ok c" and "0 < SNCpuT.Cycles c"
  shows "returns (mdma_loop V T i c) (\<lambda>c'. spent 8 c c' \<and> (dasx (get_chan i c') = 0 \<or> SNCpuT.Cycles c' \<le> 0))"
  using assms
proof (induction "nat (SNCpuT.Cycles c)" arbitrary: c rule: less_induct)
  case less
  show ?case
  proof (subst mdma_loop.simps, rule returns_bind [OF mdma_round_ok [OF less.prems]])
    fix c' assume c': "spent 8 c c'"
    have "returns (mdma_loop V T i c') (\<lambda>c''. spent 8 c c'' \<and> (dasx (get_chan i c'') = 0 \<or> SNCpuT.Cycles c'' \<le> 0))" if "0 < SNCpuT.Cycles c'"
      by (rule returns_mono [OF less.hyps]) (use c' that less.prems in \<open>auto simp: spent_def\<close>)
    with c' show "returns (if dasx (get_chan i c') \<noteq> 0 \<and> 0 < SNCpuT.Cycles c' then mdma_loop V T i c' else Some c')
        (\<lambda>c'. spent 8 c c' \<and> (dasx (get_chan i c') = 0 \<or> SNCpuT.Cycles c' \<le> 0))"
      by auto
  qed
qed

lemma read_byte_ok:
  assumes "ok c" and "m < 8"
  shows "returns (do { let uAddr = 0x2100 + ucast (bbadx (get_chan i c)) + u_SNDma_MDMATransfer ! m ! (k mod 4);
          (uData, c) \<leftarrow> SNCPURead8 T c uAddr;
          c \<leftarrow> SNCPUWrite8 T c (src_addr (get_chan i c)) uData;
          let c = upd_chan i (\<lambda>p. p\<lparr>a1tx := a1tx p + word_of_int d\<rparr>) c;
          let c = upd_chan i (\<lambda>p. p\<lparr>dasx := dasx p - 1\<rparr>) c;
          Some (SNCPUConsumeCycles c (SNCPU_CYCLE_SLOW * 1)) }) (spent 8 c)"
  unfolding Let_def
proof (rule spent_read_bind [OF assms(1) port_addr_less(1) [OF pattern_small [OF assms(2)]]], clarify)
  fix v c' assume c': "spent 0 c c'"
  show "returns (do { c \<leftarrow> SNCPUWrite8 T c' (src_addr (get_chan i c')) v;
          Some (SNCPUConsumeCycles (upd_chan i (\<lambda>p. p\<lparr>dasx := dasx p - 1\<rparr>) (upd_chan i (\<lambda>p. p\<lparr>a1tx := a1tx p + word_of_int d\<rparr>) c)) (SNCPU_CYCLE_SLOW * 1)) })
       (spent 8 c')"
  proof (rule returns_bind [OF spent_write [OF spent_ok [OF c'] src_addr_less(1)]])
    fix x assume "spent 0 c' x"
    then have x: "spent 0 c' (upd_chan i (\<lambda>p. p\<lparr>dasx := dasx p - 1\<rparr>) (upd_chan i (\<lambda>p. p\<lparr>a1tx := a1tx p + word_of_int d\<rparr>) x))"
      by (intro spent_upd)
    from spent_trans [OF x spent_consume [OF _ spent_ok [OF x], of "SNCPU_CYCLE_SLOW * 1"]]
    show "returns (Some (SNCPUConsumeCycles (upd_chan i (\<lambda>p. p\<lparr>dasx := dasx p - 1\<rparr>) (upd_chan i (\<lambda>p. p\<lparr>a1tx := a1tx p + word_of_int d\<rparr>) x))
        (SNCPU_CYCLE_SLOW * 1))) (spent 8 c')"
      by (simp add: SNCPU_CYCLE_SLOW_def)
  qed
qed

lemma mdma_read_loop_ok:
  assumes "ok c" and "0 < SNCpuT.Cycles c" and "m < 8"
  shows "returns (mdma_read_loop T i d (u_SNDma_MDMATransfer ! m) k c) (spent 8 c)"
  using assms(1,2)
proof (induction "nat (SNCpuT.Cycles c)" arbitrary: c k rule: less_induct)
  case less
  have unfolded: "mdma_read_loop T i d (u_SNDma_MDMATransfer ! m) k c =
     do { c \<leftarrow> do { let uAddr = 0x2100 + ucast (bbadx (get_chan i c)) + u_SNDma_MDMATransfer ! m ! (k mod 4);
          (uData, c) \<leftarrow> SNCPURead8 T c uAddr;
          c \<leftarrow> SNCPUWrite8 T c (src_addr (get_chan i c)) uData;
          let c = upd_chan i (\<lambda>p. p\<lparr>a1tx := a1tx p + word_of_int d\<rparr>) c;
          let c = upd_chan i (\<lambda>p. p\<lparr>dasx := dasx p - 1\<rparr>) c;
          Some (SNCPUConsumeCycles c (SNCPU_CYCLE_SLOW * 1)) };
        (if dasx (get_chan i c) \<noteq> 0 \<and> SNCpuT.Cycles c > 0
         then mdma_read_loop T i d (u_SNDma_MDMATransfer ! m) (k + 1) c else Some c) }"
    by (subst mdma_read_loop.simps) (simp add: Let_def split_def)
  show ?case
    unfolding unfolded
  proof (rule returns_bind [OF read_byte_ok [OF less.prems(1) assms(3)]])
    fix c' assume c': "spent 8 c c'"
    have "returns (mdma_read_loop T i d (u_SNDma_MDMATransfer ! m) (k + 1) c') (spent 8 c)" if "0 < SNCpuT.Cycles c'"
      by (rule returns_mono [OF less.hyps]) (use c' that less.prems in \<open>auto simp: spent_def\<close>)
    with c' show "returns (if dasx (get_chan i c') \<noteq> 0 \<and> SNCpuT.Cycles c' > 0
         then mdma_read_loop T i d (u_SNDma_MDMATransfer ! m) (k + 1) c' else Some c') (spent 8 c)" by simp
  qed
qed

lemma spent_done: "spent n c c' \<Longrightarrow> spent n c (chan_done i c')"
proof -
  assume c': "spent n c c'"
  have "spent 0 c' (clear_enable i c')"
    unfolding clear_enable_def
    by (rule spent_access, rule upd_dmac_ok [OF spent_ok [OF c']]) (simp add: snes_okD [OF spent_ok [OF c']])
  with spent_trans [OF c' this] c' show ?thesis by (simp add: chan_done_def)
qed

lemma ProcessMDMAChRead_ok: "ok c \<Longrightarrow> 0 < SNCpuT.Cycles c \<Longrightarrow> i < 8 \<Longrightarrow> returns (ProcessMDMAChRead T i c) (spent 8 c)"
  unfolding ProcessMDMAChRead_def
  by (auto simp: SNESDMAC_CHANNEL_NUM_def Let_def mode_less intro!: returns_bind [OF mdma_read_loop_ok] spent_done)

lemma ProcessMDMAChFast_ok:
  assumes "ok c" and "0 < SNCpuT.Cycles c" and "i < 8"
  shows "returns (ProcessMDMAChFast V T i c) (spent 8 c)"
proof -
  have "returns (do { c \<leftarrow> mdma_loop V T i c; Some (chan_done i c) }) (spent 8 c)"
    by (rule returns_bind [OF mdma_loop_ok [OF assms(1,2)]]) (simp add: spent_done)
  with ProcessMDMAChRead_ok [OF assms] assms show ?thesis
    by (simp add: ProcessMDMAChFast_def SNESDMAC_CHANNEL_NUM_def)
qed

section \<open>HDMA\<close>

lemma hdma_units_small: "m < 8 \<Longrightarrow> \<forall>(k, r, n) \<in> set (hdma_units m). unat k < 0x100 \<and> unat r < 0x100 \<and> 0 \<le> n"
proof -
  assume "m < 8"
  then have "m \<in> {0, 1, 2, 3, 4, 5, 6, 7}" by auto
  then show ?thesis by (auto simp: hdma_units_def Let_def SNCPU_CYCLE_SLOW_def SNCPU_CYCLE_FAST_def)
qed

lemma hdma_transfer_ok:
  assumes "\<forall>(k, r, n) \<in> set us. unat k < 0x100 \<and> unat r < 0x100 \<and> 0 \<le> n" and "ok c"
  shows "returns (hdma_transfer T i us c) (spent 0 c)"
  using assms
proof (induction us arbitrary: c)
  case (Cons u us)
  obtain k r n where u: "u = (k, r, n)" by (cases u)
  have small: "unat k < 0x100" "unat r < 0x100" "0 \<le> n" using Cons.prems(1) by (simp_all add: u)
  show ?case
    unfolding u hdma_transfer.simps
  proof (rule spent_read_bind [OF Cons.prems(2) hdma_addr_less [OF small(1)]], unfold prod.case)
    fix v c' assume c': "spent 0 c c'"
    show "returns (do { c \<leftarrow> SNCPUWrite8 T c' (0x2100 + r + ucast (bbadx (get_chan i c'))) v; hdma_transfer T i us (SNCPUConsumeCycles c n) }) (spent 0 c')"
    proof (rule returns_bind [OF spent_write [OF spent_ok [OF c'] port_addr_less(2) [OF small(2)]]])
      fix x assume x: "spent 0 c' x"
      have y: "spent 0 c' (SNCPUConsumeCycles x n)"
        by (rule spent_mono [OF spent_trans [OF x spent_consume [OF small(3) spent_ok [OF x]]]]) simp
      show "returns (hdma_transfer T i us (SNCPUConsumeCycles x n)) (spent 0 c')"
        by (rule returns_mono [OF Cons.IH]) (use Cons.prems y spent_ok spent_trans [OF y, of 0] in auto)
    qed
  qed
qed (simp add: spent_refl)

lemma spent_consume_after: "spent 0 c c' \<Longrightarrow> 0 \<le> n \<Longrightarrow> spent 0 c (SNCPUConsumeCycles c' n)"
  by (rule spent_mono [OF spent_trans [OF _ spent_consume]]) (auto dest: spent_ok)

lemma hdma_line_ok:
  assumes "ok c"
  shows "returns (hdma_line T i c) (spent 0 c)"
  unfolding hdma_line_def Let_def
  by (rule returns_bind [OF hdma_transfer_ok [OF hdma_units_small [OF mode_less(1)] assms]]) (simp add: spent_upd)

lemma Read16_ok:
  assumes "ok c" and "unat a + 1 < 0x1010000"
  shows "returns (SNCPURead16 T c a) (\<lambda>(v, c'). spent 0 c c')"
proof -
  have a: "unat a < 0x1010000" "unat (a + 1) < 0x1010000" using assms(2) by (simp_all add: unat_word_ariths)
  show ?thesis
    unfolding SNCPURead16_def
  proof (rule returns_bind [OF spent_read [OF assms(1) a(1)]], clarify)
    fix v c' assume c': "spent 0 c c'"
    show "returns (do { (h, c) \<leftarrow> SNCPURead8 T c' (a + 1); Some (ucast (join16 h v), c) }) (\<lambda>(v, c'). spent 0 c c')"
      by (rule returns_bind [OF spent_read [OF spent_ok [OF c'] a(2)]]) (use spent_trans [OF c', of 0] in auto)
  qed
qed

lemma hdma_fetch_ok:
  assumes "ok c"
  shows "returns (hdma_fetch T i c) (\<lambda>(over, c'). spent 0 c c')"
  unfolding hdma_fetch_def
proof (rule returns_bind [OF spent_read [OF assms src_addr_less(2)]], unfold split_paired_all prod.case Let_def)
  fix v c' assume c': "spent 0 c c'"
  define c1 where "c1 = SNCPUConsumeCycles (upd_chan i (\<lambda>p. p\<lparr>ntlrx := v\<rparr>) c') (SNCPU_CYCLE_SLOW * 1)"
  have c1: "spent 0 c c1"
    unfolding c1_def by (rule spent_consume_after [OF spent_upd [OF c']]) (simp add: SNCPU_CYCLE_SLOW_def)
  define c2 where "c2 = upd_chan i (\<lambda>p. p\<lparr>ntlrx := ntlrx p - 1, a2ax := a2ax p + 1\<rparr>) c1"
  have c2: "spent 0 c c2" unfolding c2_def by (rule spent_upd [OF c1])
  have "returns (do { (w, c) \<leftarrow> SNCPURead16 T c2 (table_addr (get_chan i c2));
      Some (False, upd_chan i (\<lambda>p. p\<lparr>a2ax := a2ax p + 2\<rparr>) (SNCPUConsumeCycles (upd_chan i (\<lambda>p. p\<lparr>dasx := w\<rparr>) c) (SNCPU_CYCLE_SLOW * 2))) })
      (\<lambda>(over, c'). spent 0 c c')"
    by (rule returns_bind [OF Read16_ok [OF spent_ok [OF c2] table_addr_next]])
      (use spent_trans [OF c2, of 0] in \<open>auto intro!: spent_upd spent_consume_after simp: SNCPU_CYCLE_SLOW_def\<close>)
  then show "returns (if ntlrx (get_chan i c1) = 0 then Some (True, c1)
      else if dmapx (get_chan i c2) AND 0x40 \<noteq> 0
        then do { (w, c) \<leftarrow> SNCPURead16 T c2 (table_addr (get_chan i c2));
                  Some (False, upd_chan i (\<lambda>p. p\<lparr>a2ax := a2ax p + 2\<rparr>) (SNCPUConsumeCycles (upd_chan i (\<lambda>p. p\<lparr>dasx := w\<rparr>) c) (SNCPU_CYCLE_SLOW * 2))) }
        else Some (False, upd_chan i (\<lambda>p. p\<lparr>dasx := a2ax p, dasbx := a1bx p\<rparr>) c2)) (\<lambda>(over, c'). spent 0 c c')"
    using c1 spent_upd [OF c2] by simp
qed

lemma ProcessHDMACh_ok:
  assumes "ok c" and "i < 8"
  shows "returns (ProcessHDMACh T i c) (\<lambda>(r, c'). spent 0 c c')"
proof -
  have line: "returns (do { c \<leftarrow> hdma_line T i c'; Some (0 :: u32, c) }) (\<lambda>(r, c'). spent 0 c c')" if "spent 0 c c'" for c'
    by (rule returns_bind [OF hdma_line_ok [OF spent_ok [OF that]]]) (use spent_trans [OF that, of 0] in auto)
  have "returns (do { (over, c) \<leftarrow> hdma_fetch T i c; if over then Some (1 :: u32, c) else do { c \<leftarrow> hdma_line T i c; Some (0, c) } }) (\<lambda>(r, c'). spent 0 c c')"
    by (rule returns_bind [OF hdma_fetch_ok [OF assms(1)]]) (use line in auto)
  then show ?thesis
    using assms line [OF spent_chan [OF assms(1)]] spent_chan [OF assms(1)]
    by (simp add: ProcessHDMACh_def SNESDMAC_CHANNEL_NUM_def Let_def)
qed

lemma hdma_channels_ok:
  assumes "ok c" and "unat e < 2 ^ (8 - i)" and "i \<le> 8"
  shows "returns (hdma_channels T e i c) (spent 0 c)"
  using assms
proof (induction "8 - i" arbitrary: i e c)
  case 0
  then have "e = 0" using unat_gt_0 [of e] by (cases "e = 0") simp_all
  with 0 show ?case by (subst hdma_channels.simps) (simp add: spent_refl)
next
  case (Suc n)
  have i: "i < 8" using Suc.hyps(2) by simp
  have e: "unat (drop_bit 1 e) < 2 ^ (8 - (i + 1))"
  proof -
    have "2 ^ (8 - i) = 2 * (2 :: nat) ^ (8 - (i + 1))" using i by (simp flip: power_Suc add: Suc_diff_Suc)
    with Suc.prems(2) have "unat e div 2 < 2 ^ (8 - (i + 1))" by simp
    then show ?thesis by (simp only: unat_drop_bit_eq drop_bit_nat_def power_one_right)
  qed
  have 1: "returns (if e AND 1 \<noteq> 0 then do { (_, c) \<leftarrow> ProcessHDMACh T i c; Some c } else Some c) (spent 0 c)"
    using spent_refl [OF Suc.prems(1)] by (auto intro!: returns_bind [OF ProcessHDMACh_ok [OF Suc.prems(1) i]])
  have 2: "returns (hdma_channels T (drop_bit 1 e) (i + 1) c') (spent 0 c)" if "spent 0 c c'" for c'
    by (rule returns_mono [OF Suc.hyps(1)]) (use Suc.hyps(2) e i spent_ok [OF that] spent_trans [OF that, of 0] in auto)
  show ?case
    by (subst hdma_channels.simps, cases "e = 0") (simp_all add: spent_refl Suc.prems(1) returns_bind [OF 1 2] del: One_nat_def)
qed

lemma ProcessHDMA_ok: "ok c \<Longrightarrow> returns (ProcessHDMA T c) (spent 0 c)"
  unfolding ProcessHDMA_def by (rule hdma_channels_ok) (use unat_u8_le in \<open>simp_all add: le_imp_less_Suc less_Suc_eq_le [symmetric]\<close>)

section \<open>All channels of a general DMA\<close>

lemma enabled_above:
  assumes "(e :: u8) \<noteq> 0" and "\<forall>j < i. \<not> bit e j"
  shows "i < 8"
proof (rule ccontr)
  assume "\<not> i < 8"
  then have "e = 0" using assms(2) by (intro bit_word_eqI) simp
  with assms(1) show False by simp
qed

lemma mdma_channels_ok:
  assumes "ok c" and "ports_safe c" and "to_ports c" and "\<forall>j < i. \<not> bit (m_MDMAEnable (m_DMAC (sys c))) j"
  shows "returns (mdma_channels V T i c) (\<lambda>c'. spent 0 c c' \<and> (m_MDMAEnable (m_DMAC (sys c')) = 0 \<or> SNCpuT.Cycles c' \<le> 0))"
  using assms
proof (induction "nat (SNCpuT.Cycles c) * 9 + (8 - i)" arbitrary: i c rule: less_induct)
  case less
  let ?E = "m_MDMAEnable (m_DMAC (sys c))"
  let ?P = "\<lambda>c'. spent 0 c c' \<and> (m_MDMAEnable (m_DMAC (sys c')) = 0 \<or> SNCpuT.Cycles c' \<le> 0)"
  show ?case
  proof (cases "?E \<noteq> 0 \<and> 0 < SNCpuT.Cycles c")
    case False
    then show ?thesis by (subst mdma_channels.simps) (auto simp: spent_refl less.prems(1))
  next
    case True
    have i: "i < 8" by (rule enabled_above [OF conjunct1 [OF True] less.prems(4)])
    show ?thesis
    proof (cases "bit ?E i")
      case False
      then have "\<forall>j < i + 1. \<not> bit ?E j" using less.prems(4) by (auto simp: less_Suc_eq)
      then have "returns (mdma_channels V T (i + 1) c) ?P"
        using i less.prems(1-3) by (intro less.hyps) simp_all
      with True i False show ?thesis by (subst mdma_channels.simps) simp
    next
      case bit: True
      have d: "dmapx (get_chan i c) AND 0x80 = 0" using less.prems(3) i bit by (simp add: to_ports_def SNESDMAC_CHANNEL_NUM_def)
      from returns_Ex [OF ProcessMDMAChFast_ok [OF less.prems(1) conjunct2 [OF True] i]] obtain c1
        where c1: "ProcessMDMAChFast V T i c = Some c1" "spent 8 c c1" by blast
      note st = ProcessMDMAChFast_steady [OF c1(1) less.prems(2) d]
      have len: "length (dma_Channels (m_DMAC (sys c1))) = 8" "length (dma_Channels (m_DMAC (sys c))) = 8"
        using snes_okD(6) [OF spent_ok [OF c1(2)]] snes_okD(6) [OF less.prems(1)] by (simp_all add: SNESDMAC_CHANNEL_NUM_def)
      have "dmapx (get_chan k c1) = dmapx (get_chan k c)" if "k < 8" for k
        using st [THEN conjunct2, THEN conjunct1, THEN arg_cong, of "\<lambda>xs. xs ! k"] that len by (simp add: get_chan_def)
      then have "to_ports c1" using less.prems(3) st by (auto simp: to_ports_def SNESDMAC_CHANNEL_NUM_def)
      moreover have "\<forall>j < i. \<not> bit (m_MDMAEnable (m_DMAC (sys c1))) j" using st less.prems(4) by blast
      ultimately have "returns (mdma_channels V T i c1) (\<lambda>c'. spent 0 c1 c' \<and> (m_MDMAEnable (m_DMAC (sys c')) = 0 \<or> SNCpuT.Cycles c' \<le> 0))"
        using st spent_ok [OF c1(2)] c1(2) True by (intro less.hyps) (auto simp: spent_def)
      then have "returns (mdma_channels V T i c1) ?P"
        by (rule returns_mono) (use spent_trans [OF spent_mono [OF c1(2), of 0], of 0] in auto)
      with True i bit c1(1) show ?thesis by (subst mdma_channels.simps) simp
    qed
  qed
qed

lemma ProcessMDMA_ok:
  assumes "ok c" and "ports_safe c" and "to_ports c"
  shows "returns (ProcessMDMA V T c) (\<lambda>c'. spent 0 c c' \<and> (m_MDMAEnable (m_DMAC (sys c')) = 0 \<or> SNCpuT.Cycles c' \<le> 0))"
  unfolding ProcessMDMA_def by (rule mdma_channels_ok [OF assms]) simp

end

end
