(* ===== verification/Data_IO.thy ===== *)
theory Data_IO
  imports Prelude C_Integers
begin

text \<open>
  Files (\<^verbatim>\<open>Gep/Include/common/dataio.h\<close>, \<^verbatim>\<open>dataio.cpp\<close>): the interface \<^verbatim>\<open>CDataIO\<close> as a record of its
  virtual functions, and its two implementations, a file of the C library and a block of memory.
  \<open>data_io\<close> states what a reader relies on; both implementations are shown to provide it.
\<close>

section \<open>The interface\<close>

datatype whence = SEEK_SET | SEEK_CUR | SEEK_END

text \<open>
  A read yields the bytes that it stores, a write gets the bytes that it is given. The pointer of
  \<^verbatim>\<open>ReadPtr\<close> is what it points to.
\<close>

record 's CDataIO =
  io_Read :: "int \<Rightarrow> 's \<Rightarrow> (u8 list \<times> 's) option"
  io_ReadPtr :: "int \<Rightarrow> 's \<Rightarrow> (u8 list option \<times> 's) option"
  io_Write :: "u8 list \<Rightarrow> 's \<Rightarrow> (nat \<times> 's) option"
  io_Seek :: "int \<Rightarrow> whence \<Rightarrow> 's \<Rightarrow> (int \<times> 's) option"
  io_GetPos :: "'s \<Rightarrow> u32"

section \<open>A file of the C library\<close>

text \<open>An open stream is the contents of the file and the position; a closed one is \<^const>\<open>None\<close>.\<close>

record CFileIO =
  m_pFile :: "(u8 list \<times> nat) option"

definition fread :: "nat \<Rightarrow> u8 list \<times> nat \<Rightarrow> u8 list \<times> (u8 list \<times> nat)" where
  "fread n = (\<lambda>(bs, p). (take n (drop p bs), (bs, p + min n (length bs - p))))"

definition fwrite :: "u8 list \<Rightarrow> u8 list \<times> nat \<Rightarrow> u8 list \<times> nat" where
  "fwrite d = (\<lambda>(bs, p). (take p bs @ replicate (p - length bs) 0 @ d @ drop (p + length d) bs, p + length d))"

definition seek_base :: "whence \<Rightarrow> u8 list \<times> nat \<Rightarrow> int" where
  "seek_base w = (\<lambda>(bs, p). case w of SEEK_SET \<Rightarrow> 0 | SEEK_CUR \<Rightarrow> int p | SEEK_END \<Rightarrow> int (length bs))"

definition fseek :: "int \<Rightarrow> whence \<Rightarrow> u8 list \<times> nat \<Rightarrow> int \<times> (u8 list \<times> nat)" where
  "fseek i w f = (let q = seek_base w f + i in if q < 0 then (- 1, f) else (0, (fst f, nat q)))"

text \<open>A negative count becomes a huge \<^verbatim>\<open>size_t\<close>: more than the caller's buffer holds.\<close>

definition CFileIO_Read :: "int \<Rightarrow> CFileIO \<Rightarrow> (u8 list \<times> CFileIO) option" where
  "CFileIO_Read nBytes s =
     (case m_pFile s of None \<Rightarrow> Some ([], s)
      | Some f \<Rightarrow> if nBytes < 0 then None else let (bs, f) = fread (nat nBytes) f in Some (bs, s\<lparr>m_pFile := Some f\<rparr>))"

definition CFileIO_Write :: "u8 list \<Rightarrow> CFileIO \<Rightarrow> (nat \<times> CFileIO) option" where
  "CFileIO_Write pBuffer s =
     (case m_pFile s of None \<Rightarrow> Some (0, s) | Some f \<Rightarrow> Some (length pBuffer, s\<lparr>m_pFile := Some (fwrite pBuffer f)\<rparr>))"

definition CFileIO_Seek :: "int \<Rightarrow> whence \<Rightarrow> CFileIO \<Rightarrow> (int \<times> CFileIO) option" where
  "CFileIO_Seek iPos w s =
     (case m_pFile s of None \<Rightarrow> Some (- 1, s)
      | Some f \<Rightarrow> let (r, f) = fseek iPos w f in Some (r, s\<lparr>m_pFile := Some f\<rparr>))"

definition CFileIO_GetPos :: "CFileIO \<Rightarrow> u32" where
  "CFileIO_GetPos s = (case m_pFile s of None \<Rightarrow> 0 | Some (bs, p) \<Rightarrow> word_of_nat p)"

definition CFileIO_Close :: "CFileIO \<Rightarrow> CFileIO" where
  "CFileIO_Close s = s\<lparr>m_pFile := None\<rparr>"

text \<open>\<open>fopen\<close> is the file system: the stream that opening the path yields, if it can be opened.\<close>

definition CFileIO_Open :: "(string \<Rightarrow> string \<Rightarrow> (u8 list \<times> nat) option) \<Rightarrow> string \<Rightarrow> string \<Rightarrow> CFileIO \<Rightarrow> bool \<times> CFileIO" where
  "CFileIO_Open fopen pFilePath pMode s =
     (let s = (CFileIO_Close s)\<lparr>m_pFile := fopen pFilePath pMode\<rparr> in (m_pFile s \<noteq> None, s))"

text \<open>\<^verbatim>\<open>ReadPtr\<close> is inherited from \<^verbatim>\<open>CDataIO\<close> and returns null.\<close>

definition CDataIO_ReadPtr :: "int \<Rightarrow> 's \<Rightarrow> (u8 list option \<times> 's) option" where
  "CDataIO_ReadPtr nBytes s = Some (None, s)"

definition vt_CFileIO :: "CFileIO CDataIO" where
  "vt_CFileIO = \<lparr>io_Read = CFileIO_Read, io_ReadPtr = CDataIO_ReadPtr, io_Write = CFileIO_Write,
     io_Seek = CFileIO_Seek, io_GetPos = CFileIO_GetPos\<rparr>"

section \<open>A block of memory\<close>

record CMemFileIO =
  m_pMem :: "u8 list option"
  m_uPos :: u32
  m_uSize :: u32

definition CMemFileIO_Close :: "CMemFileIO \<Rightarrow> CMemFileIO" where
  "CMemFileIO_Close s = s\<lparr>m_pMem := None, m_uPos := 0, m_uSize := 0\<rparr>"

definition CMemFileIO_Open :: "u8 list \<Rightarrow> u32 \<Rightarrow> CMemFileIO \<Rightarrow> CMemFileIO" where
  "CMemFileIO_Open pMem uSize s = (CMemFileIO_Close s)\<lparr>m_pMem := Some pMem, m_uPos := 0, m_uSize := uSize\<rparr>"

definition nBytesLeft :: "CMemFileIO \<Rightarrow> int" where
  "nBytesLeft s = sint (m_uSize s - m_uPos s)"

text \<open>The bytes at the position; outside the block, or with a negative count, undefined.\<close>

definition mem_bytes :: "CMemFileIO \<Rightarrow> u8 list \<Rightarrow> int \<Rightarrow> u8 list option" where
  "mem_bytes s mem n =
     (if 0 \<le> n \<and> unat (m_uPos s) + nat n \<le> length mem then Some (take (nat n) (drop (unat (m_uPos s)) mem)) else None)"

definition advance :: "int \<Rightarrow> CMemFileIO \<Rightarrow> CMemFileIO" where
  "advance n s = s\<lparr>m_uPos := m_uPos s + word_of_int n\<rparr>"

definition CMemFileIO_Read :: "int \<Rightarrow> CMemFileIO \<Rightarrow> (u8 list \<times> CMemFileIO) option" where
  "CMemFileIO_Read nBytes s =
     (case m_pMem s of None \<Rightarrow> Some ([], s)
      | Some mem \<Rightarrow>
          let nBytes = (if nBytes > nBytesLeft s then nBytesLeft s else nBytes)
          in do { bs \<leftarrow> mem_bytes s mem nBytes; Some (bs, advance nBytes s) })"

definition CMemFileIO_Write :: "u8 list \<Rightarrow> CMemFileIO \<Rightarrow> (nat \<times> CMemFileIO) option" where
  "CMemFileIO_Write pBuffer s =
     (case m_pMem s of None \<Rightarrow> Some (0, s)
      | Some mem \<Rightarrow>
          let nBytes = (if int (length pBuffer) > nBytesLeft s then nBytesLeft s else int (length pBuffer)); p = unat (m_uPos s)
          in do { _ \<leftarrow> mem_bytes s mem nBytes;
                  Some (nat nBytes, advance nBytes
                    (s\<lparr>m_pMem := Some (take p mem @ take (nat nBytes) pBuffer @ drop (p + nat nBytes) mem)\<rparr>)) })"

definition CMemFileIO_Seek :: "int \<Rightarrow> whence \<Rightarrow> CMemFileIO \<Rightarrow> (int \<times> CMemFileIO) option" where
  "CMemFileIO_Seek iPos w s =
     (let uPos = (case w of SEEK_CUR \<Rightarrow> m_uPos s + word_of_int iPos
                  | SEEK_SET \<Rightarrow> word_of_int iPos
                  | SEEK_END \<Rightarrow> m_uSize s - word_of_int iPos)
      in Some (0, s\<lparr>m_uPos := if uPos > m_uSize s then m_uSize s else uPos\<rparr>))"

definition CMemFileIO_ReadPtr :: "int \<Rightarrow> CMemFileIO \<Rightarrow> (u8 list option \<times> CMemFileIO) option" where
  "CMemFileIO_ReadPtr nBytes s =
     (case m_pMem s of None \<Rightarrow> Some (None, s)
      | Some mem \<Rightarrow> if nBytes > nBytesLeft s then Some (None, s)
                    else do { bs \<leftarrow> mem_bytes s mem nBytes; Some (Some bs, advance nBytes s) })"

definition vt_CMemFileIO :: "CMemFileIO CDataIO" where
  "vt_CMemFileIO = \<lparr>io_Read = CMemFileIO_Read, io_ReadPtr = CMemFileIO_ReadPtr, io_Write = CMemFileIO_Write,
     io_Seek = CMemFileIO_Seek, io_GetPos = m_uPos\<rparr>"

section \<open>What a reader relies on\<close>

text \<open>\<open>img\<close> is what the file holds, \<open>pos\<close> the position and \<open>good\<close> says that the file is open.\<close>

locale data_io =
  fixes vt :: "'s CDataIO" and img :: "'s \<Rightarrow> u8 list" and pos :: "'s \<Rightarrow> nat" and good :: "'s \<Rightarrow> bool"
  assumes small: "good s \<Longrightarrow> length (img s) < 2 ^ 31"
    and get_pos: "good s \<Longrightarrow> pos s \<le> length (img s) \<Longrightarrow> unat (io_GetPos vt s) = pos s"
    and seek_set: "good s \<Longrightarrow> 0 \<le> n \<Longrightarrow> n \<le> int (length (img s)) \<Longrightarrow>
      returns (io_Seek vt n SEEK_SET s) (\<lambda>(_, s'). good s' \<and> img s' = img s \<and> pos s' = nat n)"
    and seek_end: "good s \<Longrightarrow>
      returns (io_Seek vt 0 SEEK_END s) (\<lambda>(_, s'). good s' \<and> img s' = img s \<and> pos s' = length (img s))"
    and read: "good s \<Longrightarrow> pos s \<le> length (img s) \<Longrightarrow> 0 \<le> n \<Longrightarrow> n < 2 ^ 31 \<Longrightarrow>
      returns (io_Read vt n s) (\<lambda>(bs, s'). bs = take (nat n) (drop (pos s) (img s)) \<and> good s' \<and> img s' = img s \<and> pos s' = pos s + length bs)"
    and read_ptr: "good s \<Longrightarrow> pos s \<le> length (img s) \<Longrightarrow> 0 \<le> n \<Longrightarrow> n < 2 ^ 31 \<Longrightarrow>
      returns (io_ReadPtr vt n s) (\<lambda>(p, s'). case p of None \<Rightarrow> s' = s
        | Some bs \<Rightarrow> bs = take (nat n) (drop (pos s) (img s)) \<and> int (length bs) = n \<and> good s' \<and> img s' = img s \<and> pos s' = pos s + length bs)"
begin

text \<open>Whole files.\<close>

lemma file_size:
  assumes "good s"
  shows "returns (do { (_, s) \<leftarrow> io_Seek vt 0 SEEK_END s; let n = io_GetPos vt s; (_, s) \<leftarrow> io_Seek vt 0 SEEK_SET s; Some (n, s) })
    (\<lambda>(n, s'). unat n = length (img s) \<and> good s' \<and> img s' = img s \<and> pos s' = 0)"
proof -
  obtain r1 s1 where 1: "io_Seek vt 0 SEEK_END s = Some (r1, s1)" "good s1" "img s1 = img s" "pos s1 = length (img s)"
    using seek_end [OF assms] by (auto dest: returns_Ex)
  obtain r2 s2 where 2: "io_Seek vt 0 SEEK_SET s1 = Some (r2, s2)" "good s2" "img s2 = img s" "pos s2 = 0"
    using seek_set [OF 1(2), of 0] 1(3) by (auto dest: returns_Ex)
  show ?thesis using 1 2 get_pos [OF 1(2)] by simp
qed

end

section \<open>Both implementations provide it\<close>

definition file_img :: "CFileIO \<Rightarrow> u8 list" where
  "file_img s = (case m_pFile s of None \<Rightarrow> [] | Some (bs, p) \<Rightarrow> bs)"

definition file_pos :: "CFileIO \<Rightarrow> nat" where
  "file_pos s = (case m_pFile s of None \<Rightarrow> 0 | Some (bs, p) \<Rightarrow> p)"

definition file_good :: "CFileIO \<Rightarrow> bool" where
  "file_good s \<longleftrightarrow> m_pFile s \<noteq> None \<and> length (file_img s) < 2 ^ 31"

lemmas file_io = vt_CFileIO_def file_img_def file_pos_def file_good_def CFileIO_GetPos_def CFileIO_Seek_def CFileIO_Read_def
  CDataIO_ReadPtr_def fseek_def seek_base_def fread_def Let_def

interpretation file_io: data_io vt_CFileIO file_img file_pos file_good
  by unfold_locales (auto simp: file_io unat_of_nat take_bit_nat_eq_self)

definition mem_img :: "CMemFileIO \<Rightarrow> u8 list" where
  "mem_img s = (case m_pMem s of None \<Rightarrow> [] | Some mem \<Rightarrow> take (unat (m_uSize s)) mem)"

definition mem_good :: "CMemFileIO \<Rightarrow> bool" where
  "mem_good s \<longleftrightarrow> (\<exists>mem. m_pMem s = Some mem \<and> unat (m_uSize s) \<le> length mem) \<and> m_uPos s \<le> m_uSize s \<and> m_uSize s < 2 ^ 31"

lemma unat_of_int_u32: "0 \<le> n \<Longrightarrow> n < 4294967296 \<Longrightarrow> unat (word_of_int n :: u32) = nat n"
  by (simp add: unsigned_of_int take_bit_int_eq_self)

lemma unat_add_u32: "unat a + unat b < 4294967296 \<Longrightarrow> unat (a + b) = unat a + unat b" for a b :: u32
  by (simp add: unat_word_ariths)

lemma mem_goodD:
  assumes "mem_good s"
  obtains mem where "m_pMem s = Some mem" "unat (m_uSize s) \<le> length mem" "unat (m_uPos s) \<le> unat (m_uSize s)"
    "unat (m_uSize s) < 2147483648" "nBytesLeft s = int (unat (m_uSize s)) - int (unat (m_uPos s))"
    "length (mem_img s) = unat (m_uSize s)"
proof -
  obtain mem where m: "m_pMem s = Some mem" "unat (m_uSize s) \<le> length mem"
    using assms by (auto simp: mem_good_def)
  have le: "unat (m_uPos s) \<le> unat (m_uSize s)" and lt: "unat (m_uSize s) < 2147483648"
    using assms by (auto simp: mem_good_def word_le_nat_alt word_less_nat_alt)
  have d: "unat (m_uSize s - m_uPos s) = unat (m_uSize s) - unat (m_uPos s)"
    using le by (simp add: unat_sub word_le_nat_alt)
  have "nBytesLeft s = int (unat (m_uSize s - m_uPos s))"
    unfolding nBytesLeft_def by (rule sint_u32_small) (use d lt in simp)
  then show thesis
    using that [OF m le lt] d le m(2) by (simp add: mem_img_def m(1) of_nat_diff)
qed

text \<open>Reading inside the block, and what advancing the position does.\<close>

lemma mem_bytes_good:
  assumes "mem_good s" and "m_pMem s = Some mem" and "0 \<le> n" and "n \<le> nBytesLeft s"
  shows "mem_bytes s mem n = Some (take (nat n) (drop (unat (m_uPos s)) (mem_img s)))"
proof -
  obtain mem' where g: "m_pMem s = Some mem'" "unat (m_uSize s) \<le> length mem'" "unat (m_uPos s) \<le> unat (m_uSize s)"
    "nBytesLeft s = int (unat (m_uSize s)) - int (unat (m_uPos s))"
    using mem_goodD [OF assms(1)] by metis
  have "mem' = mem" using g(1) assms(2) by simp
  have le: "nat n + unat (m_uPos s) \<le> unat (m_uSize s)" using assms(3,4) g(3,4) by linarith
  show ?thesis
    using le g(2) \<open>mem' = mem\<close> assms(2,3)
    by (simp add: mem_bytes_def mem_img_def drop_take min_def add.commute)
qed

lemma advance_good:
  assumes "mem_good s" and "0 \<le> n" and "n \<le> nBytesLeft s"
  shows "mem_good (advance n s) \<and> mem_img (advance n s) = mem_img s \<and> unat (m_uPos (advance n s)) = unat (m_uPos s) + nat n"
proof -
  obtain mem where g: "unat (m_uPos s) \<le> unat (m_uSize s)" "unat (m_uSize s) < 2147483648"
    "nBytesLeft s = int (unat (m_uSize s)) - int (unat (m_uPos s))"
    using mem_goodD [OF assms(1)] by metis
  have le: "unat (m_uPos s) + nat n \<le> unat (m_uSize s)" using assms(2,3) g(1,3) by linarith
  have "n < 4294967296" using le g(2) by linarith
  then have "unat (word_of_int n :: u32) = nat n" by (rule unat_of_int_u32 [OF assms(2)])
  then have "unat (m_uPos s + word_of_int n) = unat (m_uPos s) + nat n"
    using le g(2) by (subst unat_add_u32) simp_all
  then show ?thesis
    using assms(1) le by (auto simp: advance_def mem_good_def mem_img_def word_le_nat_alt)
qed

interpretation mem_io: data_io vt_CMemFileIO mem_img "\<lambda>s. unat (m_uPos s)" mem_good
proof
  fix s :: CMemFileIO assume g: "mem_good s"
  obtain mem where m: "m_pMem s = Some mem" "unat (m_uSize s) \<le> length mem" "unat (m_uPos s) \<le> unat (m_uSize s)"
    "unat (m_uSize s) < 2147483648" "nBytesLeft s = int (unat (m_uSize s)) - int (unat (m_uPos s))"
    "length (mem_img s) = unat (m_uSize s)"
    by (rule mem_goodD [OF g])
  show "length (mem_img s) < 2 ^ 31" using m by simp
  show "unat (io_GetPos vt_CMemFileIO s) = unat (m_uPos s)" by (simp add: vt_CMemFileIO_def)
  show "returns (io_Seek vt_CMemFileIO 0 SEEK_END s)
      (\<lambda>(_, s'). mem_good s' \<and> mem_img s' = mem_img s \<and> unat (m_uPos s') = length (mem_img s))"
    using g m by (simp add: vt_CMemFileIO_def CMemFileIO_Seek_def mem_good_def mem_img_def)
  { fix n :: int assume n: "0 \<le> n" "n \<le> int (length (mem_img s))"
    have u: "unat (word_of_int n :: u32) = nat n"
      using n m(4,6) by (intro unat_of_int_u32) linarith+
    have "\<not> m_uSize s < word_of_int n" using n m(6) u unfolding word_less_nat_alt by linarith
    then show "returns (io_Seek vt_CMemFileIO n SEEK_SET s)
        (\<lambda>(_, s'). mem_good s' \<and> mem_img s' = mem_img s \<and> unat (m_uPos s') = nat n)"
      using g u by (auto simp: vt_CMemFileIO_def CMemFileIO_Seek_def mem_good_def mem_img_def not_less Let_def) }
  fix n :: int assume n: "0 \<le> n"
  define d where "d = drop (unat (m_uPos s)) (mem_img s)"
  have d: "int (length d) = nBytesLeft s"
    unfolding d_def length_drop m(6) m(5) by (rule of_nat_diff [OF m(3)])
  define k where "k = min n (nBytesLeft s)"
  have k: "0 \<le> k" "k \<le> nBytesLeft s" "(if n > nBytesLeft s then nBytesLeft s else n) = k"
    using n by (auto simp: k_def simp flip: d)
  note b = mem_bytes_good [OF g m(1) k(1,2), folded d_def] advance_good [OF g k(1,2)]
  have t: "take (nat k) d = take (nat n) d" and len: "length (take (nat n) d) = nat k"
    using n by (auto simp: k_def min_def simp flip: d)
  show "returns (io_Read vt_CMemFileIO n s) (\<lambda>(bs, s'). bs = take (nat n) (drop (unat (m_uPos s)) (mem_img s))
      \<and> mem_good s' \<and> mem_img s' = mem_img s \<and> unat (m_uPos s') = unat (m_uPos s) + length bs)"
    unfolding d_def [symmetric] using b t len
    by (simp only: vt_CMemFileIO_def CMemFileIO_Read_def m(1) k(3) Let_def option.case CDataIO.select_convs) simp
  show "returns (io_ReadPtr vt_CMemFileIO n s) (\<lambda>(p, s'). case p of None \<Rightarrow> s' = s
      | Some bs \<Rightarrow> bs = take (nat n) (drop (unat (m_uPos s)) (mem_img s)) \<and> int (length bs) = n
        \<and> mem_good s' \<and> mem_img s' = mem_img s \<and> unat (m_uPos s') = unat (m_uPos s) + length bs)"
  proof (cases "n > nBytesLeft s")
    case True
    then show ?thesis by (simp add: vt_CMemFileIO_def CMemFileIO_ReadPtr_def m(1))
  next
    case False
    then have "k = n" by (simp add: k_def)
    with False b len n show ?thesis unfolding d_def [symmetric]
      by (simp only: vt_CMemFileIO_def CMemFileIO_ReadPtr_def m(1) option.case CDataIO.select_convs if_False) simp
  qed
qed

end
