(* ===== verification/Sn_Rom.thy ===== *)
theory Sn_Rom
  imports Data_IO C_Arrays
begin

text \<open>
  Cartridge images (\<^verbatim>\<open>snrom.h\<close>, \<^verbatim>\<open>snrom.cpp\<close>): loading an image from a file, with or without the
  header of a copier, and what the information block in it says. The ROM's pointer is the list of
  bytes it points to.
\<close>

section \<open>Types\<close>

datatype LoadErrorE = LOADERROR_NONE | LOADERROR_INVALID | LOADERROR_OPENFILE | LOADERROR_BADHEADERSIZE
  | LOADERROR_BADROMSIZE | LOADERROR_READFILE | LOADERROR_NOCARTINFO | LOADERROR_OUTOFSPACE

datatype SNRomHdrTypeE = SNROM_HDRTYPE_UNKNOWN | SNROM_HDRTYPE_SWC | SNROM_HDRTYPE_FIG | SNROM_HDRTYPE_GAMEDOCTOR
datatype SNRomVideoE = SNROM_VIDEO_NTSC | SNROM_VIDEO_PAL
datatype SNRomMappingE = SNROM_MAPPING_LOROM | SNROM_MAPPING_HIROM

definition SNROM_FLAG_ROM :: u32 where "SNROM_FLAG_ROM = 0x01"
definition SNROM_FLAG_RAM :: u32 where "SNROM_FLAG_RAM = 0x02"
definition SNROM_FLAG_SAVERAM :: u32 where "SNROM_FLAG_SAVERAM = 0x04"
definition SNROM_FLAG_DSP1 :: u32 where "SNROM_FLAG_DSP1 = 0x08"
definition SNROM_FLAG_SUPERFX :: u32 where "SNROM_FLAG_SUPERFX = 0x10"
definition SNROM_FLAG_GAMEBOY :: u32 where "SNROM_FLAG_GAMEBOY = 0x20"
definition SNROM_FLAG_DSP2 :: u32 where "SNROM_FLAG_DSP2 = 0x40"

record SNRomInfoT =
  Title :: "u8 list"
  RomMakeup :: u8
  RomType :: u8
  RomSize :: u8
  SRAMSize :: u8
  Country :: u8
  License :: u8
  GameVersion :: u8
  InverseChecksum :: u16
  Checksum :: u16

definition sizeof_SNRomInfoT :: nat where "sizeof_SNRomInfoT = 32"
definition sizeof_SNRomHdrU :: nat where "sizeof_SNRomHdrU = 512"

record SnesRomT =
  m_bLoaded :: bool
  m_uRomBytes :: u32
  m_pRomMem :: bool
  m_RomData :: "u8 list option"
  m_pCartInfo :: "SNRomInfoT option"
  m_Flags :: u32
  m_eMapping :: SNRomMappingE
  m_eVideoType :: SNRomVideoE
  m_uROMSize :: u32
  m_uSRAMSize :: u32

text \<open>The little-endian half word at an offset, and the information block that lies over the bytes.\<close>

definition le16 :: "u8 list \<Rightarrow> nat \<Rightarrow> u16" where
  "le16 bs i = ucast (bs ! i) OR push_bit 8 (ucast (bs ! (i + 1)))"

definition cart_info_at :: "u8 list \<Rightarrow> nat \<Rightarrow> SNRomInfoT" where
  "cart_info_at bs o' =
     \<lparr>Title = take 21 (drop o' bs), RomMakeup = bs ! (o' + 21), RomType = bs ! (o' + 22), RomSize = bs ! (o' + 23),
      SRAMSize = bs ! (o' + 24), Country = bs ! (o' + 25), License = bs ! (o' + 26), GameVersion = bs ! (o' + 27),
      InverseChecksum = le16 bs (o' + 28), Checksum = le16 bs (o' + 30)\<rparr>"

section \<open>Tables\<close>

definition u_SNRom_Country :: "(string \<times> SNRomVideoE) list" where
  "u_SNRom_Country =
   [
    (''Japan'', SNROM_VIDEO_NTSC), (''USA'', SNROM_VIDEO_NTSC),
    (''Australia, Europe, Oceania and Asia'', SNROM_VIDEO_PAL), (''Sweden'', SNROM_VIDEO_PAL),
    (''Finland'', SNROM_VIDEO_PAL), (''Denmark'', SNROM_VIDEO_PAL), (''France'', SNROM_VIDEO_PAL),
    (''Holland'', SNROM_VIDEO_PAL), (''Spain'', SNROM_VIDEO_PAL),
    (''Germany, Austria and Switzerland'', SNROM_VIDEO_PAL), (''Italy'', SNROM_VIDEO_PAL),
    (''Hong Kong and China'', SNROM_VIDEO_PAL), (''Indonesia'', SNROM_VIDEO_PAL), (''Korea'', SNROM_VIDEO_PAL)]"

definition licenses :: "(u8 \<times> string option) list" where
  "licenses =
   [
    (1, Some ''Nintendo''), (3, Some ''Imagineer-Zoom''), (5, Some ''Zamuse''), (6, Some ''Falcom''),
    (8, Some ''Capcom''), (9, Some ''HOT-B''), (10, Some ''Jaleco''), (11, Some ''Coconuts''),
    (12, Some ''Rage Software''), (14, Some ''Technos''), (15, Some ''Mebio Software''),
    (18, Some ''Gremlin Graphics''), (19, Some ''Electronic Arts''), (21, Some ''COBRA Team''),
    (22, Some ''Human/Field''), (23, Some ''KOEI''), (24, Some ''Hudson Soft''), (26, Some ''Yanoman''),
    (28, Some ''Tecmo''), (30, Some ''Open System''), (31, Some ''Virgin Games''), (32, Some ''KSS''),
    (33, Some ''Sunsoft''), (34, Some ''POW''), (35, Some ''Micro World''), (38, Some ''Enix''),
    (39, Some ''Loriciel/Electro Brain''), (40, Some ''Kemco''), (41, Some ''Seta Co.,Ltd.''),
    (45, Some ''Visit Co.,Ltd.''), (49, Some ''Carrozzeria''), (50, Some ''Dynamic''), (51, Some ''Nintendo''),
    (52, Some ''Magifact''), (53, Some ''Hect''), (60, Some ''Empire Software''), (61, Some ''Loriciel''),
    (64, Some ''Seika Corp.''), (65, Some ''UBI Soft''), (70, Some ''System 3''), (71, Some ''Spectrum Holobyte''),
    (73, Some ''Irem''), (75, Some ''Raya Systems/Sculptured Software''), (76, Some ''Renovation Products''),
    (77, Some ''Malibu Games/Black Pearl''), (79, Some ''U.S. Gold''), (80, Some ''Absolute Entertainment''),
    (81, Some ''Acclaim''), (82, Some ''Activision''), (83, Some ''American Sammy''), (84, Some ''GameTek''),
    (85, Some ''Hi Tech Expressions''), (86, Some ''LJN Toys''), (90, Some ''Mindscape''), (93, Some ''Tradewest''),
    (95, Some ''American Softworks Corp.''), (96, Some ''Titus''), (97, Some ''Virgin Interactive Entertainment''),
    (98, Some ''Maxis''), (103, Some ''Ocean''), (105, Some ''Electronic Arts''), (107, Some ''Laser Beam''),
    (110, Some ''Elite''), (111, Some ''Electro Brain''), (112, Some ''Infogrames''), (113, Some ''Interplay''),
    (114, Some ''LucasArts''), (115, Some ''Parker Brothers''), (117, Some ''STORM''), (120, Some ''THQ Software''),
    (121, Some ''Accolade Inc.''), (122, Some ''Triffix Entertainment''), (124, Some ''Microprose''),
    (127, Some ''Kemco''), (128, Some ''Misawa''), (129, Some ''Teichio''), (130, Some ''Namco Ltd.''),
    (131, Some ''Lozc''), (132, Some ''Koei''), (134, Some ''Tokuma Shoten Intermedia''),
    (136, Some ''DATAM-Polystar''), (139, Some ''Bullet-Proof Software''), (140, Some ''Vic Tokai''),
    (142, Some ''Character Soft''), (143, Some (''I'' @ [CHR 0x27, CHR 0x27] @ ''Max'')), (144, Some ''Takara''),
    (145, Some ''CHUN Soft''), (146, Some ''Video System Co., Ltd.''), (147, Some ''BEC''), (149, Some ''Varie''),
    (151, Some ''Kaneco''), (153, Some ''Pack in Video''), (154, Some ''Nichibutsu''), (155, Some ''TECMO''),
    (156, Some ''Imagineer Co.''), (160, Some ''Telenet''), (164, Some ''Konami''),
    (165, Some ''K.Amusement Leasing Co.''), (167, Some ''Takara''), (169, Some ''Technos Jap.''),
    (170, Some ''JVC''), (172, Some ''Toei Animation''), (173, Some ''Toho''), (175, Some ''Namco Ltd.''),
    (177, Some ''ASCII Co. Activison''), (178, Some ''BanDai America''), (180, Some ''Enix''),
    (182, Some ''Halken''), (186, Some ''Culture Brain''), (187, Some ''Sunsoft''), (188, Some ''Toshiba EMI''),
    (189, Some ''Sony Imagesoft''), (191, Some ''Sammy''), (192, Some ''Taito''), (194, Some ''Kemco''),
    (195, Some ''Square''), (196, Some ''Tokuma Soft''), (197, Some ''Data East''), (198, Some ''Tonkin House''),
    (200, Some ''KOEI''), (202, Some ''Konami USA''), (203, Some ''NTVIC''), (205, Some ''Meldac''),
    (206, Some ''Pony Canyon''), (207, Some ''Sotsu Agency/Sunrise''), (208, Some ''Disco/Taito''),
    (209, Some ''Sofel''), (210, Some ''Quest Corp.''), (211, Some ''Sigma''), (214, Some ''Naxat''),
    (216, Some ''Capcom Co., Ltd.''), (217, Some ''Banpresto''), (218, Some ''Tomy''), (219, Some ''Acclaim''),
    (221, Some ''NCS''), (222, Some ''Human Entertainment''), (223, Some ''Altron''), (224, Some ''Jaleco''),
    (226, Some ''Yutaka''), (228, Some ''T&ESoft''), (229, Some ''EPOCH Co.,Ltd.''), (231, Some ''Athena''),
    (232, Some ''Asmik''), (233, Some ''Natsume''), (234, Some ''King Records''), (235, Some ''Atlus''),
    (236, Some ''Sony Music Entertainment''), (238, Some ''IGS''), (241, Some ''Motown Software''),
    (242, Some ''Left Field Entertainment''), (243, Some ''Beam Software''), (244, Some ''Tec Magik''),
    (249, Some ''Cybersoft''), (255, Some ''Hudson Soft'')]"

definition u_SNRom_License :: "(u8 \<times> string option) list" where
  "u_SNRom_License = licenses @ [(0, None)]"

definition u_SNRomGetCountry :: "u8 \<Rightarrow> (string \<times> SNRomVideoE) option" where
  "u_SNRomGetCountry uCode =
     (if unat uCode < length u_SNRom_Country then Some (u_SNRom_Country ! unat uCode) else None)"

text \<open>The loop ends at the entry without a name; a table without one would be left.\<close>

fun license_loop :: "(u8 \<times> string option) list \<Rightarrow> u8 \<Rightarrow> (u8 \<times> string) option option" where
  "license_loop [] uCode = None"
| "license_loop ((c, None) # ls) uCode = Some None"
| "license_loop ((c, Some n) # ls) uCode = (if c = uCode then Some (Some (c, n)) else license_loop ls uCode)"

definition u_SNRomGetLicense :: "u8 \<Rightarrow> (u8 \<times> string) option option" where
  "u_SNRomGetLicense uCode = license_loop u_SNRom_License uCode"

section \<open>Headers and the information block\<close>

definition SNRomGetHdrType :: "u8 list \<Rightarrow> SNRomHdrTypeE" where
  "SNRomGetHdrType hdr =
     (if hdr ! 8 = 0xAA \<and> hdr ! 9 = 0xBB \<and> hdr ! 10 = 0x04 then SNROM_HDRTYPE_SWC else SNROM_HDRTYPE_UNKNOWN)"

definition u_SNRomIsValidCartInfo :: "SNRomInfoT option \<Rightarrow> bool" where
  "u_SNRomIsValidCartInfo p = (case p of None \<Rightarrow> False | Some i \<Rightarrow> InverseChecksum i XOR Checksum i = 0xFFFF)"

definition SnesRom_init :: "SnesRomT \<Rightarrow> SnesRomT" where
  "SnesRom_init r = r\<lparr>m_bLoaded := False, m_pRomMem := False, m_RomData := None, m_pCartInfo := None, m_uRomBytes := 0\<rparr>"

definition Unload :: "SnesRomT \<Rightarrow> SnesRomT" where
  "Unload r = r\<lparr>m_pRomMem := False, m_pCartInfo := None, m_RomData := None, m_uRomBytes := 0, m_bLoaded := False\<rparr>"

definition GetSRAMBytes :: "SnesRomT \<Rightarrow> u32" where
  "GetSRAMBytes r = m_uSRAMSize r * 1024 div 8"

text \<open>The bytes must exist behind the pointer; \<^verbatim>\<open>m_uRomBytes\<close> only claims it.\<close>

definition GetCartInfo :: "SnesRomT \<Rightarrow> nat \<Rightarrow> SNRomInfoT option option" where
  "GetCartInfo r uOffset =
     (case m_RomData r of None \<Rightarrow> Some None
      | Some bs \<Rightarrow> if uOffset + sizeof_SNRomInfoT \<le> unat (m_uRomBytes r)
                   then if uOffset + sizeof_SNRomInfoT \<le> length bs then Some (Some (cart_info_at bs uOffset)) else None
                   else Some None)"

text \<open>\<^verbatim>\<open>1 << n\<close> with a negative or too large \<open>n\<close> is undefined.\<close>

definition shift_one :: "int \<Rightarrow> u32 option" where
  "shift_one n = (if 0 \<le> n \<and> n < 31 then Some (push_bit (nat n) 1) else None)"

definition sram_kilobits :: "u8 \<Rightarrow> u32" where
  "sram_kilobits n = (if n = 1 then 16 else if n = 2 then 32 else if n = 3 then 64 else 0)"

definition rom_flags :: "u8 \<Rightarrow> u32 option" where
  "rom_flags t =
     map_of [(0, SNROM_FLAG_ROM), (1, SNROM_FLAG_ROM OR SNROM_FLAG_RAM), (2, SNROM_FLAG_ROM OR SNROM_FLAG_SAVERAM),
       (3, SNROM_FLAG_ROM OR SNROM_FLAG_DSP1), (4, SNROM_FLAG_ROM OR SNROM_FLAG_RAM OR SNROM_FLAG_DSP1),
       (5, SNROM_FLAG_ROM OR SNROM_FLAG_SAVERAM OR SNROM_FLAG_DSP1), (19, SNROM_FLAG_ROM OR SNROM_FLAG_SUPERFX),
       (227, SNROM_FLAG_ROM OR SNROM_FLAG_RAM OR SNROM_FLAG_GAMEBOY), (246, SNROM_FLAG_ROM OR SNROM_FLAG_DSP2)] t"

text \<open>For a type that is not in the table \<^verbatim>\<open>m_Flags\<close> keeps its old value.\<close>

definition SetCartInfo :: "SNRomInfoT option \<Rightarrow> SnesRomT \<Rightarrow> SnesRomT option" where
  "SetCartInfo p r =
     (let r = r\<lparr>m_pCartInfo := p\<rparr> in
      case p of
        None \<Rightarrow> Some (r\<lparr>m_eVideoType := SNROM_VIDEO_NTSC, m_Flags := SNROM_FLAG_ROM, m_uROMSize := 0, m_uSRAMSize := 0\<rparr>)
      | Some i \<Rightarrow>
          do { let pCountry = u_SNRomGetCountry (Country i);
               _ \<leftarrow> u_SNRomGetLicense (License i);
               uROMSize \<leftarrow> shift_one (uint (RomSize i) - 7);
               Some (r\<lparr>m_eVideoType := (case pCountry of Some c \<Rightarrow> snd c | None \<Rightarrow> SNROM_VIDEO_NTSC),
                 m_uROMSize := uROMSize, m_uSRAMSize := sram_kilobits (SRAMSize i),
                 m_Flags := (case rom_flags (RomType i) of Some f \<Rightarrow> f | None \<Rightarrow> m_Flags r)\<rparr>) })"

section \<open>Loading\<close>

definition file_header :: "u32 \<Rightarrow> u32" where
  "file_header nFileBytes =
     (let n = nFileBytes AND 0x1FFF in if n \<noteq> 0 \<and> n \<noteq> word_of_nat sizeof_SNRomHdrU then 0 else n)"

text \<open>The header of a copier: the size of the ROM in units of 8 KB, as an \<^verbatim>\<open>int\<close>, and the mapping.\<close>

definition copier_header :: "u8 list \<Rightarrow> u32 \<Rightarrow> (u32 \<times> SNRomMappingE) option" where
  "copier_header hdr nRomBytes =
     (if length hdr < sizeof_SNRomHdrU then None
      else case SNRomGetHdrType hdr of
        SNROM_HDRTYPE_SWC \<Rightarrow>
          if uint (le16 hdr 0) * 1024 * 1024 < 2 ^ 31
          then Some (word_of_int (uint (le16 hdr 0) * 1024 * 1024 div 8 div 16),
                     if hdr ! 2 AND 0x10 \<noteq> 0 then SNROM_MAPPING_HIROM else SNROM_MAPPING_LOROM)
          else None
      | _ \<Rightarrow> Some (nRomBytes, SNROM_MAPPING_LOROM))"

definition read_header :: "'s CDataIO \<Rightarrow> u32 \<Rightarrow> 's \<Rightarrow> SnesRomT \<Rightarrow> ('s \<times> SnesRomT) option" where
  "read_header vt nFileBytes f r =
     (let nHeaderBytes = file_header nFileBytes;
          nRomBytes = nFileBytes - (nFileBytes AND 0x1FFF);
          r = r\<lparr>m_eMapping := SNROM_MAPPING_LOROM\<rparr>
      in if nHeaderBytes = word_of_nat sizeof_SNRomHdrU
         then do { (hdr, f) \<leftarrow> io_Read vt (int sizeof_SNRomHdrU) f;
                   (n, m) \<leftarrow> copier_header hdr nRomBytes;
                   Some (f, r\<lparr>m_uRomBytes := n, m_eMapping := m\<rparr>) }
         else Some (f, r\<lparr>m_uRomBytes := nRomBytes\<rparr>))"

text \<open>
  The memory for the data: the file's own, a buffer of the caller (\<open>pBuffer\<close> is its size), or new
  memory, if the system has it (\<open>bMalloc\<close>).
\<close>

definition read_data :: "'s CDataIO \<Rightarrow> bool \<Rightarrow> u32 option \<Rightarrow> 's \<Rightarrow> SnesRomT \<Rightarrow> (LoadErrorE \<times> 's \<times> SnesRomT) option" where
  "read_data vt bMalloc pBuffer f r =
     do { (p, f) \<leftarrow> io_ReadPtr vt (sint (m_uRomBytes r)) f;
          let r = r\<lparr>m_pRomMem := False, m_RomData := p\<rparr>;
          (if p \<noteq> None then Some (LOADERROR_NONE, f, r)
           else if (case pBuffer of Some n \<Rightarrow> \<not> m_uRomBytes r < n | None \<Rightarrow> \<not> bMalloc) then Some (LOADERROR_OUTOFSPACE, f, r)
           else do { (bs, f) \<leftarrow> io_Read vt (sint (m_uRomBytes r)) f;
                     (if length bs \<noteq> unat (m_uRomBytes r) then Some (LOADERROR_READFILE, f, Unload r)
                      else Some (LOADERROR_NONE, f, r\<lparr>m_pRomMem := (pBuffer = None), m_RomData := Some bs\<rparr>)) }) }"

definition find_cart_info :: "SnesRomT \<Rightarrow> SnesRomT option" where
  "find_cart_info r =
     do { lo \<leftarrow> GetCartInfo r 32704;
          (if u_SNRomIsValidCartInfo lo then SetCartInfo lo (r\<lparr>m_eMapping := SNROM_MAPPING_LOROM\<rparr>)
           else do { hi \<leftarrow> GetCartInfo r 65472;
                     (if u_SNRomIsValidCartInfo hi then SetCartInfo hi (r\<lparr>m_eMapping := SNROM_MAPPING_HIROM\<rparr>)
                      else SetCartInfo None r) }) }"

definition LoadRom :: "'s CDataIO \<Rightarrow> bool \<Rightarrow> u32 option \<Rightarrow> 's \<Rightarrow> SnesRomT \<Rightarrow> (LoadErrorE \<times> 's \<times> SnesRomT) option" where
  "LoadRom vt bMalloc pBuffer f r =
     do { (nFileBytes, f) \<leftarrow> do { (_, f) \<leftarrow> io_Seek vt 0 SEEK_END f; let n = io_GetPos vt f; (_, f) \<leftarrow> io_Seek vt 0 SEEK_SET f; Some (n, f) };
          (if nFileBytes = 0 then Some (LOADERROR_BADHEADERSIZE, f, r)
           else do { (f, r) \<leftarrow> read_header vt nFileBytes f r;
                     (if m_uRomBytes r = 0 then Some (LOADERROR_BADROMSIZE, f, r)
                      else do { (e, f, r) \<leftarrow> read_data vt bMalloc pBuffer f r;
                                (if e \<noteq> LOADERROR_NONE then Some (e, f, r)
                                 else do { r \<leftarrow> find_cart_info r; Some (LOADERROR_NONE, f, r\<lparr>m_bLoaded := True\<rparr>) }) }) }) }"

section \<open>Regions and names\<close>

definition GetNumRomRegions :: u32 where "GetNumRomRegions = 1"

definition GetRomRegionName :: "u32 \<Rightarrow> string option" where
  "GetRomRegionName eRegion = (if eRegion = 0 then Some ''ROM'' else None)"

definition GetRomRegionSize :: "SnesRomT \<Rightarrow> u32 \<Rightarrow> u32" where
  "GetRomRegionSize r eRegion = (if eRegion = 0 then m_uRomBytes r else 0)"

definition GetRomTitle :: "SnesRomT \<Rightarrow> u8 list option" where
  "GetRomTitle r = map_option Title (m_pCartInfo r)"

definition GetNumExts :: u32 where "GetNumExts = 2"

definition GetExtName :: "u32 \<Rightarrow> string option" where
  "GetExtName uExt = (if uExt = 0 then Some ''smc'' else if uExt = 1 then Some ''fig'' else None)"

end
