(* ===== verification/Sn_Snes.thy ===== *)
theory Sn_Snes
  imports Sn_Dma
begin

text \<open>
  The system loop (\<^verbatim>\<open>snes.cpp\<close>): running the processor with its signals, a line with its
  interrupt and HDMA, a frame, and the resets. The trap functions \<open>T\<close> are \<^const>\<open>snes_traps\<close> of the
  same host. What is behind function pointers and virtual functions is a parameter, the record
  below: the two interpreters, the renderer and the mixers. A failed \<^verbatim>\<open>assert\<close> is \<^const>\<open>None\<close>.
\<close>

record 'r snes_host =
  h_render :: "'r render_vt"
  h_spc :: "SNSpcIOT SNSpcT \<Rightarrow> SNSpcIOT SNSpcT option"
  h_cpu :: "'r snes \<Rightarrow> 'r snes option"
  h_BeginRender :: "'r ISnesPPURenderT_scheme \<Rightarrow> 'r ISnesPPURenderT_scheme option"
  h_EndRender :: "'r ISnesPPURenderT_scheme \<Rightarrow> 'r ISnesPPURenderT_scheme option"
  h_Mix :: "(nat \<Rightarrow> u8) \<Rightarrow> SNSpcDspT \<Rightarrow> SNSpcDspT option"
  h_MixSilent :: "(nat \<Rightarrow> u8) \<Rightarrow> SNSpcDspT \<Rightarrow> SNSpcDspT option"

definition h_traps :: "'r snes_host \<Rightarrow> 'r SnesSystemT traps" where
  "h_traps H = snes_traps (h_render H) (h_spc H)"

definition SNES_CYCLESPERLINE :: int where "SNES_CYCLESPERLINE = 1364"
definition SNES_LINECYCLEDELAY :: int where "SNES_LINECYCLEDELAY = 40"
definition SNES_HBLANKCYCLES :: int where "SNES_HBLANKCYCLES = SNES_CYCLESPERLINE - 1024"
definition SNCPU_SIGNAL_RESET :: u8 where "SNCPU_SIGNAL_RESET = 0x10"

section \<open>Running the processor\<close>

definition drop_signal :: "u8 \<Rightarrow> 'w SNCpuT \<Rightarrow> 'w SNCpuT" where
  "drop_signal s c = c\<lparr>uSignal := uSignal c AND NOT s\<rparr>"

definition signals :: u8 where
  "signals = SNCPU_SIGNAL_IRQ OR SNCPU_SIGNAL_NMIEDGE OR SNCPU_SIGNAL_RESET OR SNCPU_SIGNAL_DMA"

definition service_dma :: "'r snes_host \<Rightarrow> 'r snes \<Rightarrow> 'r snes option" where
  "service_dma H c =
     do { c \<leftarrow> SyncPPU (h_render H) c;
          c \<leftarrow> ProcessMDMA (h_render H) (h_traps H) c;
          Some (if m_MDMAEnable (m_DMAC (sys c)) = 0 then drop_signal SNCPU_SIGNAL_DMA c else c) }"

definition service_nmi :: "'r snes_host \<Rightarrow> 'r snes \<Rightarrow> 'r snes option" where
  "service_nmi H c =
     do { c \<leftarrow> (if uSignal c AND SNCPU_SIGNAL_WAI = 0
                then do { (_, c) \<leftarrow> SNCPUExecuteOne (h_cpu H) c; Some c } else Some c);
          c \<leftarrow> SNCPUNMI (h_traps H) c;
          Some (drop_signal SNCPU_SIGNAL_NMIEDGE c) }"

text \<open>The signals other than DMA, in the order of the tests.\<close>

definition service_signal :: "'r snes_host \<Rightarrow> 'r snes \<Rightarrow> 'r snes option" where
  "service_signal H c =
     (if uSignal c AND signals = 0 then Some c
      else if uSignal c AND SNCPU_SIGNAL_NMIEDGE \<noteq> 0 then service_nmi H c
      else if uSignal c AND SNCPU_SIGNAL_IRQ \<noteq> 0 then SNCPUIRQ (h_traps H) c
      else if uSignal c AND SNCPU_SIGNAL_RESET \<noteq> 0
      then do { c \<leftarrow> SNCPUReset (h_traps H) c False; Some (drop_signal SNCPU_SIGNAL_RESET c) }
      else Some c)"

text \<open>\<^verbatim>\<open>while (m_Cpu.Cycles > 0)\<close>: not returning is \<^const>\<open>None\<close>.\<close>

partial_function (option) cpu_loop :: "'r snes_host \<Rightarrow> 'r snes \<Rightarrow> 'r snes option" where
  "cpu_loop H c =
     (if SNCpuT.Cycles c > 0
      then if uSignal c AND SNCPU_SIGNAL_DMA \<noteq> 0
           then do { c \<leftarrow> service_dma H c; cpu_loop H c }
           else do { c \<leftarrow> service_signal H c;
                     (if m_MDMAEnable (m_DMAC (sys c)) \<noteq> 0 then None
                      else do { (_, c) \<leftarrow> SNCPUExecute (h_cpu H) c; cpu_loop H c }) }
      else Some c)"

definition ExecuteCPU :: "'r snes_host \<Rightarrow> int \<Rightarrow> 'r snes \<Rightarrow> 'r snes option" where
  "ExecuteCPU H nCycles c = cpu_loop H (SNCPUAddCycles c nCycles)"

section \<open>A line\<close>

definition raise_irq :: "'r snes \<Rightarrow> 'r snes" where
  "raise_irq c = SNCPUSignalIRQ (upd_io_regs (\<lambda>r. r\<lparr>i_timeup := i_timeup r OR 0x80\<rparr>) c) True"

definition ExecuteWithIRQ :: "'r snes_host \<Rightarrow> int \<Rightarrow> int \<Rightarrow> 'r snes \<Rightarrow> (int \<times> 'r snes) option" where
  "ExecuteWithIRQ H nCycles nIRQCycles c =
     do { c \<leftarrow> (if nIRQCycles \<ge> 0 \<and> nIRQCycles < nCycles
                then do { c \<leftarrow> ExecuteCPU H nIRQCycles c;
                          ExecuteCPU H (nCycles - nIRQCycles) (raise_irq c) }
                else ExecuteCPU H nCycles c);
          Some (nIRQCycles - nCycles, c) }"

text \<open>The position of the interrupt on the current line, negative for none.\<close>

definition nHIRQCycles :: "'r snes \<Rightarrow> int" where
  "nHIRQCycles c =
     (let r = io_regs c in
      if i_nmitimen r AND 0x20 \<noteq> 0
      then if m_uLine (sys c) = ucast (i_vtime r)
           then if i_nmitimen r AND 0x10 \<noteq> 0 then uint (i_htime r) * 4 else 0
           else - 1
      else if i_nmitimen r AND 0x10 \<noteq> 0 then uint (i_htime r) * 4 else - 1)"

definition begin_hblank :: "'r snes \<Rightarrow> 'r snes" where
  "begin_hblank = upd_io_regs (\<lambda>r. r\<lparr>i_hvbjoy := i_hvbjoy r OR 0x40\<rparr>)"

definition end_hblank :: "'r snes \<Rightarrow> 'r snes" where
  "end_hblank = upd_io_regs (\<lambda>r. r\<lparr>i_hvbjoy := i_hvbjoy r AND NOT 0x40\<rparr>)"

definition line_hdma :: "'r snes_host \<Rightarrow> 'r snes \<Rightarrow> 'r snes option" where
  "line_hdma H c = (if i_hvbjoy (io_regs c) AND 0x80 = 0 then ProcessHDMA (h_traps H) c else Some c)"

definition ExecuteLine :: "'r snes_host \<Rightarrow> 'r snes \<Rightarrow> 'r snes option" where
  "ExecuteLine H c =
     do { c \<leftarrow> SNCPUResetCounter c SNCPU_COUNTER_LINE;
          let n = nHIRQCycles c;
          let c = SNCPUConsumeCycles c SNES_LINECYCLEDELAY;
          (n, c) \<leftarrow> ExecuteWithIRQ H (SNES_CYCLESPERLINE - SNES_HBLANKCYCLES) n c;
          c \<leftarrow> line_hdma H (begin_hblank c);
          (n, c) \<leftarrow> ExecuteWithIRQ H SNES_HBLANKCYCLES n c;
          Some (end_hblank c) }"

section \<open>A frame\<close>

datatype ModeE = MODE_INACCURATEDETERMINISTIC | MODE_ACCURATENONDETERMINISTIC | MODE_ACCURATEDETERMINISTIC

text \<open>\<^verbatim>\<open>for (; m_uLine < limit; m_uLine++)\<close> with a statement after each line.\<close>

partial_function (option) frame_lines :: "'r snes_host \<Rightarrow> u32 \<Rightarrow> ('r snes \<Rightarrow> 'r snes) \<Rightarrow> 'r snes \<Rightarrow> 'r snes option" where
  "frame_lines H limit after c =
     (if m_uLine (sys c) < limit
      then do { c \<leftarrow> ExecuteLine H c;
                let c = after c;
                frame_lines H limit after (upd_sys (\<lambda>s. s\<lparr>m_uLine := m_uLine s + 1\<rparr>) c) }
      else Some c)"

definition joypad_done :: "'r snes \<Rightarrow> 'r snes" where
  "joypad_done c = (if m_uLine (sys c) = 225 + 2 then upd_io_regs (\<lambda>r. r\<lparr>i_hvbjoy := i_hvbjoy r AND NOT 0x01\<rparr>) c else c)"

definition begin_frame :: "'r snes_host \<Rightarrow> u16 list option \<Rightarrow> 'r snes \<Rightarrow> 'r snes option" where
  "begin_frame H pInput c =
     do { let c = upd_sys (\<lambda>s. s\<lparr>m_uLine := 0, m_IO := LatchInput pInput (m_IO s)\<rparr>) c;
          c \<leftarrow> SNCPUResetCounter c SNCPU_COUNTER_FRAME;
          c \<leftarrow> SNCPUResetCounter c SNCPU_COUNTER_LINE;
          spc \<leftarrow> SNSPCResetCounter (m_Spc (sys c)) SNCPU_COUNTER_FRAME;
          let c = upd_dmac BeginHDMA (upd_sys (\<lambda>s. s\<lparr>m_Spc := spc\<rparr>) c);
          c \<leftarrow> with_ppu (call_render (h_BeginRender H)) c;
          with_ppu (\<lambda>p. Some (SnesPPU_BeginFrame p)) c }"

definition end_picture :: "'r snes_host \<Rightarrow> 'r snes \<Rightarrow> 'r snes option" where
  "end_picture H c =
     do { c \<leftarrow> SyncPPU (h_render H) c;
          c \<leftarrow> with_ppu (\<lambda>p. Some (SnesPPU_EndFrame p)) c;
          with_ppu (call_render (h_EndRender H)) c }"

definition begin_vblank :: "'r snes \<Rightarrow> 'r snes" where
  "begin_vblank c =
     (let c = upd_io_regs (\<lambda>r. r\<lparr>i_hvbjoy := i_hvbjoy r OR 0x80\<rparr>) c;
          c = (if i_nmitimen (io_regs c) AND 1 \<noteq> 0
               then upd_sys (\<lambda>s. s\<lparr>m_IO := UpdateJoyPads (m_IO s)\<rparr>) (upd_io_regs (\<lambda>r. r\<lparr>i_hvbjoy := i_hvbjoy r OR 0x01\<rparr>) c)
               else c)
      in update_nmi (upd_io_regs (\<lambda>r. r\<lparr>i_rdnmi := i_rdnmi r OR 0x80\<rparr>) c))"

definition end_vblank :: "'r snes \<Rightarrow> 'r snes" where
  "end_vblank c =
     upd_io_regs (\<lambda>r. r\<lparr>i_hvbjoy := i_hvbjoy r AND NOT 0x80\<rparr>)
       (update_nmi (upd_io_regs (\<lambda>r. r\<lparr>i_rdnmi := i_rdnmi r AND NOT 0x80\<rparr>) c))"

text \<open>The sound of the frame: timers, mixing, and the feedback of a mixer to the DSP registers.\<close>

fun sync_timers :: "u32 \<Rightarrow> nat list \<Rightarrow> SNSpcIOT \<Rightarrow> SNSpcIOT option" where
  "sync_timers t [] io = Some io"
| "sync_timers t (i # is) io =
     do { p \<leftarrow> arr_get (spc_timer io) i; p \<leftarrow> SNSpcTimerSync p t; sync_timers t is (upd_timer i p io) }"

definition frame_dsp :: "'r snes_host \<Rightarrow> ModeE \<Rightarrow> (nat \<Rightarrow> u8) \<Rightarrow> SNSpcDspT \<Rightarrow> SNSpcDspT option" where
  "frame_dsp H eMode mem d =
     do { d \<leftarrow> h_Mix H mem d;
          d \<leftarrow> SNSpcDsp_Sync mem d;
          (case eMode of
             MODE_INACCURATEDETERMINISTIC \<Rightarrow> Some (SNSpcDsp_UpdateFlags NoMixer d)
           | MODE_ACCURATENONDETERMINISTIC \<Rightarrow> Some (SNSpcDsp_UpdateFlags FullMixer d)
           | MODE_ACCURATEDETERMINISTIC \<Rightarrow> do { d \<leftarrow> h_MixSilent H mem d; Some (SNSpcDsp_UpdateFlags SilentMixer d) }) }"

definition frame_sound :: "'r snes_host \<Rightarrow> ModeE \<Rightarrow> 'r snes \<Rightarrow> 'r snes option" where
  "frame_sound H eMode c =
     do { t \<leftarrow> SNSPCGetCounter (m_Spc (sys c)) SNSPC_COUNTER_TOTAL;
          io \<leftarrow> sync_timers (word_of_int t) [0, 1, 2] (spc_io c);
          d \<leftarrow> frame_dsp H eMode (SNSpcT.Mem (m_Spc (sys c))) (m_pSpcDsp io);
          Some (upd_spc_io (\<lambda>_. io\<lparr>m_pSpcDsp := d\<rparr>) c) }"

definition ExecuteFrame :: "'r snes_host \<Rightarrow> u16 list option \<Rightarrow> ModeE \<Rightarrow> 'r snes \<Rightarrow> 'r snes option" where
  "ExecuteFrame H pInput eMode c =
     do { c \<leftarrow> begin_frame H pInput c;
          c \<leftarrow> frame_lines H (224 + 1) (\<lambda>c. c) (upd_sys (\<lambda>s. s\<lparr>m_uLine := 0\<rparr>) c);
          c \<leftarrow> end_picture H c;
          c \<leftarrow> frame_lines H 262 joypad_done (begin_vblank c);
          c \<leftarrow> SyncPPU (h_render H) (end_vblank c);
          c \<leftarrow> SyncSPC (h_spc H) 0 c;
          c \<leftarrow> frame_sound H eMode c;
          Some (upd_sys (\<lambda>s. s\<lparr>m_uFrame := m_uFrame s + 1\<rparr>) c) }"

section \<open>Resets\<close>

definition clear_block :: "ptr \<Rightarrow> nat \<Rightarrow> heap \<Rightarrow> heap" where
  "clear_block p n m = (\<lambda>q. if fst q = fst p \<and> snd p \<le> snd q \<and> snd q < snd p + int n then Some 0 else m q)"

definition zero_channel :: SNSpcChannelT where
  "zero_channel = \<lparr>eEnvState = SNSPCDSP_ENVSTATE_SILENCE, iEnvelope = 0, nEnvCount = 0, iPhase = 0, uBlockAddr = 0,
     uOldBlockAddr = 0, envx = 0, outx = 0, endx = False, BlockData = replicate 32 0\<rparr>"

definition MixReset :: "'a SNSpcDspMixT_scheme \<Rightarrow> 'a SNSpcDspMixT_scheme" where
  "MixReset m = m\<lparr>m_Channels := replicate SNSPCDSP_CHANNEL_NUM zero_channel\<rparr>"

definition SNSPCDSP_ECHOBUFFER_SIZE :: nat where "SNSPCDSP_ECHOBUFFER_SIZE = 512 * 2 * 15 * 48000 div 32000"

definition zero_filter :: SNSpcFIRFilterT where
  "zero_filter = \<lparr>Line = replicate 16 0, iPos = 0\<rparr>"

definition MixFullReset :: "SNSpcDspMixFullT \<Rightarrow> SNSpcDspMixFullT" where
  "MixFullReset m =
     (MixReset m)\<lparr>m_Echo := \<lparr>Filter = replicate 2 zero_filter, uEchoAddr = 0\<rparr>,
        m_EchoBuffer := replicate SNSPCDSP_ECHOBUFFER_SIZE 0, m_iNoisePhase := 0, m_uNoiseGen := 1\<rparr>"

definition reset_mixers :: "SNSpcDspT \<Rightarrow> SNSpcDspT" where
  "reset_mixers d = d\<lparr>m_pMixer_0 := map_option MixFullReset (m_pMixer_0 d), m_pMixer_1 := map_option MixReset (m_pMixer_1 d)\<rparr>"

definition reset_sound :: "SNSpcIOT \<Rightarrow> SNSpcIOT" where
  "reset_sound io = (let io = SNSpcIO_Reset io in io\<lparr>m_pSpcDsp := reset_mixers (SNSpcDsp_Reset (m_pSpcDsp io))\<rparr>)"

definition reset_processors :: "'r snes_host \<Rightarrow> bool \<Rightarrow> 'r snes \<Rightarrow> 'r snes option" where
  "reset_processors H bHard c =
     do { c \<leftarrow> SNCPUReset (h_traps H) c bHard;
          spc \<leftarrow> SNSPCReset spc_io_traps (m_Spc (sys c)) bHard;
          Some (upd_sys (\<lambda>s. s\<lparr>m_Spc := spc\<rparr>) c) }"

definition SnesSystem_Reset :: "'r snes_host \<Rightarrow> 'r snes \<Rightarrow> 'r snes option" where
  "SnesSystem_Reset H c =
     do { c \<leftarrow> SetSlowRom c;
          c \<leftarrow> with_ppu (\<lambda>p. Some (SnesPPU_Reset p)) c;
          let c = set_io (SnesIO_Reset (m_IO (sys c))) (upd_dmac SNESDMA_Reset c);
          let c = upd_spc_io reset_sound c;
          let c = c\<lparr>hMem := clear_block m_SRam SNES_SRAMSIZE (clear_block m_Ram SNES_RAMSIZE (hMem c))\<rparr>;
          c \<leftarrow> reset_processors H True c;
          Some (upd_sys (\<lambda>s. s\<lparr>m_uFrame := 0, m_uLine := 0\<rparr>) c) }"

definition SoftReset :: "'r snes_host \<Rightarrow> 'r snes \<Rightarrow> 'r snes option" where
  "SoftReset H c = reset_processors H False c"

end
