(* ===== verification/Sn_MemMap.thy ===== *)
theory Sn_MemMap
  imports Sn_System_Ok Sn_Rom Sn_Snes
begin

text \<open>
  The memory map of a cartridge (\<^verbatim>\<open>snmemmap.h\<close>, \<^verbatim>\<open>snmemmap.cpp\<close>) and connecting a ROM to the
  system. A row of a map says which addresses of a range of 64 KB banks show which memory. The
  data of the ROM is the block behind \<^const>\<open>m_pRomData\<close>.
\<close>

section \<open>Maps\<close>

datatype SnesMemTypeE = SNESMEM_TYPE_NONE | SNESMEM_TYPE_UNMAPPED | SNESMEM_TYPE_ROM | SNESMEM_TYPE_RAM
  | SNESMEM_TYPE_LORAM | SNESMEM_TYPE_SRAM | SNESMEM_TYPE_PPU0 | SNESMEM_TYPE_PPU1 | SNESMEM_TYPE_DSP1

record SnesMemMapT =
  uStartBank :: u8
  uEndBank :: u8
  uStartAddr :: u16
  uEndAddr :: u16
  uSpeed :: u8
  eMemType :: SnesMemTypeE
  uOffset :: u32

definition map_row :: "u8 \<Rightarrow> u8 \<Rightarrow> u16 \<Rightarrow> u16 \<Rightarrow> int \<Rightarrow> SnesMemTypeE \<Rightarrow> SnesMemMapT" where
  "map_row b0 b1 a0 a1 n t = \<lparr>uStartBank = b0, uEndBank = b1, uStartAddr = a0, uEndAddr = a1, uSpeed = word_of_int n, eMemType = t, uOffset = 0\<rparr>"

definition u_SnesMemMap_LoRom :: "SnesMemMapT list" where
  "u_SnesMemMap_LoRom =
    [
     map_row 0x00 0x6F 0x8000 0xFFFF SNCPU_CYCLE_SLOW SNESMEM_TYPE_ROM,
     map_row 0x80 0xEF 0x8000 0xFFFF SNCPU_CYCLE_SLOW SNESMEM_TYPE_ROM,
     map_row 0x40 0x6F 0x0000 0x7FFF SNCPU_CYCLE_SLOW SNESMEM_TYPE_ROM,
     map_row 0xC0 0xEF 0x0000 0x7FFF SNCPU_CYCLE_SLOW SNESMEM_TYPE_ROM,
     map_row 0x70 0x77 0x0000 0x7FFF SNCPU_CYCLE_SLOW SNESMEM_TYPE_SRAM,
     map_row 0x7E 0x7F 0x0000 0xFFFF SNCPU_CYCLE_SLOW SNESMEM_TYPE_RAM,
     map_row 0x00 0x3F 0x0000 0x1FFF SNCPU_CYCLE_SLOW SNESMEM_TYPE_LORAM,
     map_row 0x00 0x3F 0x2000 0x3FFF SNCPU_CYCLE_FAST SNESMEM_TYPE_PPU0,
     map_row 0x00 0x3F 0x4000 0x5FFF SNCPU_CYCLE_FAST SNESMEM_TYPE_PPU1,
     map_row 0x80 0xBF 0x0000 0x1FFF SNCPU_CYCLE_SLOW SNESMEM_TYPE_LORAM,
     map_row 0x80 0xBF 0x2000 0x3FFF SNCPU_CYCLE_FAST SNESMEM_TYPE_PPU0,
     map_row 0x80 0xBF 0x4000 0x5FFF SNCPU_CYCLE_FAST SNESMEM_TYPE_PPU1,
     map_row 0 0 0 0 0 SNESMEM_TYPE_NONE]"

definition u_SnesMemMap_HiRom :: "SnesMemMapT list" where
  "u_SnesMemMap_HiRom =
    [
     map_row 0x00 0x3F 0x0000 0xFFFF SNCPU_CYCLE_SLOW SNESMEM_TYPE_ROM,
     map_row 0x40 0x6F 0x0000 0xFFFF SNCPU_CYCLE_SLOW SNESMEM_TYPE_ROM,
     map_row 0x80 0xBF 0x0000 0xFFFF SNCPU_CYCLE_SLOW SNESMEM_TYPE_ROM,
     map_row 0xC0 0xFF 0x0000 0xFFFF SNCPU_CYCLE_SLOW SNESMEM_TYPE_ROM,
     map_row 0x70 0x77 0x0000 0x7FFF SNCPU_CYCLE_SLOW SNESMEM_TYPE_SRAM,
     map_row 0x00 0x0F 0x6000 0x7FFF SNCPU_CYCLE_SLOW SNESMEM_TYPE_SRAM,
     map_row 0x10 0x1F 0x6000 0x7FFF SNCPU_CYCLE_SLOW SNESMEM_TYPE_SRAM,
     map_row 0x20 0x2F 0x6000 0x7FFF SNCPU_CYCLE_SLOW SNESMEM_TYPE_SRAM,
     map_row 0x30 0x3F 0x6000 0x7FFF SNCPU_CYCLE_SLOW SNESMEM_TYPE_SRAM,
     map_row 0x80 0x8F 0x6000 0x7FFF SNCPU_CYCLE_SLOW SNESMEM_TYPE_SRAM,
     map_row 0x90 0x9F 0x6000 0x7FFF SNCPU_CYCLE_SLOW SNESMEM_TYPE_SRAM,
     map_row 0xA0 0xAF 0x6000 0x7FFF SNCPU_CYCLE_SLOW SNESMEM_TYPE_SRAM,
     map_row 0xB0 0xBF 0x6000 0x7FFF SNCPU_CYCLE_SLOW SNESMEM_TYPE_SRAM,
     map_row 0x7E 0x7F 0x0000 0xFFFF SNCPU_CYCLE_SLOW SNESMEM_TYPE_RAM,
     map_row 0x00 0x3F 0x0000 0x1FFF SNCPU_CYCLE_SLOW SNESMEM_TYPE_LORAM,
     map_row 0x00 0x3F 0x2000 0x3FFF SNCPU_CYCLE_FAST SNESMEM_TYPE_PPU0,
     map_row 0x00 0x3F 0x4000 0x5FFF SNCPU_CYCLE_FAST SNESMEM_TYPE_PPU1,
     map_row 0x80 0xBF 0x0000 0x1FFF SNCPU_CYCLE_SLOW SNESMEM_TYPE_LORAM,
     map_row 0x80 0xBF 0x2000 0x3FFF SNCPU_CYCLE_FAST SNESMEM_TYPE_PPU0,
     map_row 0x80 0xBF 0x4000 0x5FFF SNCPU_CYCLE_FAST SNESMEM_TYPE_PPU1,
     map_row 0 0 0 0 0 SNESMEM_TYPE_NONE]"

section \<open>Mapping\<close>

definition map_size :: "SnesRomT \<Rightarrow> u32 \<Rightarrow> SnesMemTypeE \<Rightarrow> u32" where
  "map_size r sram t =
     (case t of SNESMEM_TYPE_NONE \<Rightarrow> 0 | SNESMEM_TYPE_UNMAPPED \<Rightarrow> 0 | SNESMEM_TYPE_ROM \<Rightarrow> m_uRomBytes r
      | SNESMEM_TYPE_RAM \<Rightarrow> word_of_nat SNES_RAMSIZE | SNESMEM_TYPE_SRAM \<Rightarrow> sram | _ \<Rightarrow> 0x2000)"

definition aligned_bytes :: "u32 \<Rightarrow> u32" where
  "aligned_bytes n = (n + 0x2000 - 1) AND NOT 0x1FFF"

text \<open>Handlers of the coprocessor; no map of this platform names them.\<close>

definition fn_DSP1 :: trapfn where "fn_DSP1 = UserFn 4"

partial_function (option) map_mirrored :: "u32 \<Rightarrow> u32 \<Rightarrow> u32 \<Rightarrow> u32 \<Rightarrow> 'w SNCpuT \<Rightarrow> 'w SNCpuT option" where
  "map_mirrored nBytes off uStart uEnd c =
     (if uStart < uEnd
      then do { c \<leftarrow> SNCPUSetBank c uStart nBytes (Some (ptr_add m_SRam (uint off))) True;
                map_mirrored nBytes off (uStart + nBytes) uEnd c }
      else Some c)"

definition map_region :: "SnesMemTypeE \<Rightarrow> u32 \<Rightarrow> u32 \<Rightarrow> u32 \<Rightarrow> u32 \<Rightarrow> 'w SNCpuT \<Rightarrow> 'w SNCpuT option" where
  "map_region t uStart uEnd nBytes off c =
     (case t of
        SNESMEM_TYPE_ROM \<Rightarrow> SNCPUSetBank c uStart nBytes (Some (ptr_add m_pRomData (uint off))) False
      | SNESMEM_TYPE_SRAM \<Rightarrow> (if nBytes AND 0x1FFF \<noteq> 0 then SNCPUSetTrap c uStart (aligned_bytes nBytes) fn_SRAM fn_SRAM
                              else map_mirrored nBytes off uStart uEnd c)
      | SNESMEM_TYPE_RAM \<Rightarrow> SNCPUSetBank c uStart nBytes (Some (ptr_add m_Ram (uint off))) True
      | SNESMEM_TYPE_LORAM \<Rightarrow> SNCPUSetBank c uStart nBytes (Some (ptr_add m_Ram (uint off))) True
      | SNESMEM_TYPE_PPU0 \<Rightarrow> SNCPUSetTrap c uStart nBytes fn_2000 fn_2000
      | SNESMEM_TYPE_PPU1 \<Rightarrow> SNCPUSetTrap c uStart nBytes fn_4000 fn_4000
      | SNESMEM_TYPE_DSP1 \<Rightarrow> SNCPUSetTrap c uStart nBytes fn_DSP1 fn_DSP1
      | _ \<Rightarrow> Some c)"

definition wrap_offset :: "u32 \<Rightarrow> u32 \<Rightarrow> u32" where
  "wrap_offset z off = (if off \<ge> z then 0 else off)"

definition region_start :: "SnesMemMapT \<Rightarrow> u32 \<Rightarrow> u32" where
  "region_start m uBank = push_bit 16 uBank OR ucast (uStartAddr m)"

definition region_end :: "SnesMemMapT \<Rightarrow> u32 \<Rightarrow> u32" where
  "region_end m uBank = (push_bit 16 uBank OR ucast (uEndAddr m)) + 1"

definition map_bank :: "SnesMemMapT \<Rightarrow> u32 \<Rightarrow> u32 \<Rightarrow> u32 \<Rightarrow> 'w SNCpuT \<Rightarrow> (u32 \<times> 'w SNCpuT) option" where
  "map_bank m z uBank off c =
     (let uStart = region_start m uBank; uEnd = region_end m uBank in
      if \<not> uStart \<le> uEnd then None
      else let off = wrap_offset z off; nBytes = (if uEnd - uStart \<ge> z then z else uEnd - uStart) in
        do { c \<leftarrow> (if nBytes > 0
                   then do { c \<leftarrow> SNCPUSetMemSpeed c uStart (aligned_bytes nBytes) (ucast (uSpeed m));
                             map_region (eMemType m) uStart uEnd nBytes off c }
                   else Some c);
             Some (off + nBytes, c) })"

fun map_banks :: "SnesMemMapT \<Rightarrow> u32 \<Rightarrow> nat list \<Rightarrow> u32 \<Rightarrow> 'w SNCpuT \<Rightarrow> 'w SNCpuT option" where
  "map_banks m z [] off c = Some c"
| "map_banks m z (b # bs) off c = do { (off, c) \<leftarrow> map_bank m z (word_of_nat b) off c; map_banks m z bs off c }"

text \<open>The loop over the rows, up to the row without memory.\<close>

fun map_rows :: "SnesRomT \<Rightarrow> u32 \<Rightarrow> SnesMemMapT list \<Rightarrow> 'w SNCpuT \<Rightarrow> 'w SNCpuT option" where
  "map_rows r sram [] c = None"
| "map_rows r sram (m # ms) c =
     (if eMemType m = SNESMEM_TYPE_NONE then Some c
      else do { c \<leftarrow> map_banks m (map_size r sram (eMemType m)) [unat (uStartBank m)..<Suc (unat (uEndBank m))] (uOffset m) c;
                map_rows r sram ms c })"

definition clamp_sram :: "u32 \<Rightarrow> u32" where
  "clamp_sram n = (if n > word_of_nat SNES_SRAMSIZE then word_of_nat SNES_SRAMSIZE else n)"

definition MapMem_table :: "SnesRomT \<Rightarrow> SnesMemMapT list \<Rightarrow> 'r snes \<Rightarrow> 'r snes option" where
  "MapMem_table r pMemMap c =
     (let n = clamp_sram (GetSRAMBytes r) in map_rows r n pMemMap (upd_sys (\<lambda>s. s\<lparr>m_uSramSize := n\<rparr>) c))"

definition MapMem :: "SnesRomT \<Rightarrow> SNRomMappingE \<Rightarrow> 'r snes \<Rightarrow> 'r snes option" where
  "MapMem r eRomMapping c =
     do { c \<leftarrow> SNCPUSetTrap c 0 SNCPU_MEM_SIZE fn_Mem fn_Mem;
          c \<leftarrow> SNCPUSetMemSpeed c 0 SNCPU_MEM_SIZE (word_of_int SNCPU_CYCLE_SLOW);
          (case eRomMapping of SNROM_MAPPING_LOROM \<Rightarrow> MapMem_table r u_SnesMemMap_LoRom c
           | SNROM_MAPPING_HIROM \<Rightarrow> MapMem_table r u_SnesMemMap_HiRom c) }"

definition SetSnesRom :: "SnesRomT option \<Rightarrow> 'r snes \<Rightarrow> 'r snes option" where
  "SetSnesRom pRom c =
     (case pRom of
        Some r \<Rightarrow> MapMem r (m_eMapping r) c
      | None \<Rightarrow> do { c \<leftarrow> SNCPUSetBank c 0 SNCPU_MEM_SIZE None True;
                     c \<leftarrow> SNCPUSetTrap c 0 SNCPU_MEM_SIZE NullFn NullFn;
                     Some (upd_sys (\<lambda>s. s\<lparr>m_uSramSize := 0\<rparr>) c) })"

end
