(* ===== verification/Sn_Rom_Props.thy ===== *)
theory Sn_Rom_Props
  imports Sn_Rom
begin

text \<open>
  Loading a cartridge image: what the loaded ROM is as a function of the file alone, for every
  implementation of \<^verbatim>\<open>CDataIO\<close> that meets \<open>data_io\<close>.
\<close>

section \<open>The ROM in an image\<close>

definition header_bytes :: "u8 list \<Rightarrow> nat" where
  "header_bytes img = (if length img mod 8192 = 512 then 512 else 0)"

definition is_swc :: "u8 list \<Rightarrow> bool" where
  "is_swc img \<longleftrightarrow> header_bytes img = 512 \<and> img ! 8 = 0xAA \<and> img ! 9 = 0xBB \<and> img ! 10 = 0x04"

definition rom_bytes :: "u8 list \<Rightarrow> nat" where
  "rom_bytes img = (if is_swc img then unat (le16 img 0) * 8192 else length img - length img mod 8192)"

definition rom_image :: "u8 list \<Rightarrow> u8 list" where
  "rom_image img = take (rom_bytes img) (drop (header_bytes img) img)"

definition info_at :: "u8 list \<Rightarrow> nat \<Rightarrow> SNRomInfoT option" where
  "info_at bs n = (if n + 32 \<le> length bs \<and> u_SNRomIsValidCartInfo (Some (cart_info_at bs n)) then Some (cart_info_at bs n) else None)"

definition rom_info :: "u8 list \<Rightarrow> SNRomInfoT option" where
  "rom_info img = (if info_at (rom_image img) 32704 \<noteq> None then info_at (rom_image img) 32704 else info_at (rom_image img) 65472)"

definition rom_mapping :: "u8 list \<Rightarrow> SNRomMappingE" where
  "rom_mapping img =
     (if info_at (rom_image img) 32704 \<noteq> None then SNROM_MAPPING_LOROM
      else if info_at (rom_image img) 65472 \<noteq> None \<or> (is_swc img \<and> img ! 2 AND 0x10 \<noteq> 0) then SNROM_MAPPING_HIROM
      else SNROM_MAPPING_LOROM)"

text \<open>The sizes that the header and the information block give are in the range of the C expressions.\<close>

definition image_ok :: "u8 list \<Rightarrow> bool" where
  "image_ok img \<longleftrightarrow> (is_swc img \<longrightarrow> unat (le16 img 0) < 2048)
     \<and> (case rom_info img of None \<Rightarrow> True | Some i \<Rightarrow> 7 \<le> unat (RomSize i) \<and> unat (RomSize i) < 38)"

section \<open>The steps of loading\<close>

lemma license_loop_Some:
  "(0, None) \<in> set ls \<Longrightarrow> \<exists>x. license_loop ls uCode = Some x"
  by (induction ls uCode rule: license_loop.induct) auto

lemma license_found: "\<exists>x. u_SNRomGetLicense uCode = Some x"
  unfolding u_SNRomGetLicense_def by (rule license_loop_Some) (simp add: u_SNRom_License_def)

definition with_info :: "SNRomInfoT option \<Rightarrow> SnesRomT \<Rightarrow> bool" where
  "with_info p r \<longleftrightarrow> m_pCartInfo r = p \<and> unat (GetSRAMBytes r) \<in> {0, 2048, 4096, 8192}"

lemma sram_kilobits_cases: "sram_kilobits n \<in> {0, 16, 32, 64}"
  by (simp add: sram_kilobits_def)

lemma SetCartInfo_ok:
  assumes "case p of None \<Rightarrow> True | Some i \<Rightarrow> 7 \<le> unat (RomSize i) \<and> unat (RomSize i) < 38"
  shows "returns (SetCartInfo p r) (\<lambda>r'. with_info p r' \<and> m_RomData r' = m_RomData r \<and> m_uRomBytes r' = m_uRomBytes r
    \<and> m_eMapping r' = m_eMapping r)"
proof (cases p)
  case None
  then show ?thesis by (simp add: SetCartInfo_def with_info_def GetSRAMBytes_def Let_def)
next
  case (Some i)
  obtain x where x: "u_SNRomGetLicense (License i) = Some x" using license_found by blast
  have "7 \<le> uint (RomSize i) \<and> uint (RomSize i) < 38"
    using assms unfolding Some option.case uint_nat by linarith
  then have s: "shift_one (uint (RomSize i) - 7) = Some (push_bit (nat (uint (RomSize i) - 7)) 1)"
    by (simp add: shift_one_def)
  show ?thesis
    using sram_kilobits_cases [of "SRAMSize i"]
    by (auto simp: SetCartInfo_def Some x s with_info_def GetSRAMBytes_def Let_def)
qed

lemma GetCartInfo_data:
  assumes "m_RomData r = Some bs" and "length bs = unat (m_uRomBytes r)"
  shows "\<exists>p. GetCartInfo r n = Some p \<and> (u_SNRomIsValidCartInfo p \<longleftrightarrow> info_at bs n \<noteq> None)
    \<and> (info_at bs n \<noteq> None \<longrightarrow> p = info_at bs n)"
  using assms by (auto simp: GetCartInfo_def info_at_def sizeof_SNRomInfoT_def u_SNRomIsValidCartInfo_def)

lemma find_cart_info_ok:
  assumes "m_RomData r = Some bs" and "length bs = unat (m_uRomBytes r)"
    and "case (if info_at bs 32704 \<noteq> None then info_at bs 32704 else info_at bs 65472) of None \<Rightarrow> True
      | Some i \<Rightarrow> 7 \<le> unat (RomSize i) \<and> unat (RomSize i) < 38"
  shows "returns (find_cart_info r) (\<lambda>r'. with_info (if info_at bs 32704 \<noteq> None then info_at bs 32704 else info_at bs 65472) r'
    \<and> m_RomData r' = Some bs \<and> m_uRomBytes r' = m_uRomBytes r
    \<and> m_eMapping r' = (if info_at bs 32704 \<noteq> None then SNROM_MAPPING_LOROM
        else if info_at bs 65472 \<noteq> None then SNROM_MAPPING_HIROM else m_eMapping r))"
proof -
  obtain lo where lo: "GetCartInfo r 32704 = Some lo" "u_SNRomIsValidCartInfo lo \<longleftrightarrow> info_at bs 32704 \<noteq> None"
    "info_at bs 32704 \<noteq> None \<longrightarrow> lo = info_at bs 32704"
    using GetCartInfo_data [OF assms(1,2)] by metis
  obtain hi where hi: "GetCartInfo r 65472 = Some hi" "u_SNRomIsValidCartInfo hi \<longleftrightarrow> info_at bs 65472 \<noteq> None"
    "info_at bs 65472 \<noteq> None \<longrightarrow> hi = info_at bs 65472"
    using GetCartInfo_data [OF assms(1,2)] by metis
  consider "info_at bs 32704 \<noteq> None" | "info_at bs 32704 = None" "info_at bs 65472 \<noteq> None"
    | "info_at bs 32704 = None" "info_at bs 65472 = None" by blast
  then show ?thesis
  proof cases
    case 1
    then show ?thesis
      using lo assms(1,3) SetCartInfo_ok [of lo "r\<lparr>m_eMapping := SNROM_MAPPING_LOROM\<rparr>"]
      by (simp add: find_cart_info_def)
  next
    case 2
    then show ?thesis
      using lo hi assms(1,3) SetCartInfo_ok [of hi "r\<lparr>m_eMapping := SNROM_MAPPING_HIROM\<rparr>"]
      by (simp add: find_cart_info_def)
  next
    case 3
    then show ?thesis
      using lo hi assms(1) SetCartInfo_ok [of None r] by (simp add: find_cart_info_def)
  qed
qed

text \<open>The header as the word arithmetic finds it.\<close>

lemma and_0x1FFF: "unat (w AND 0x1FFF) = unat w mod 8192" for w :: u32
proof -
  have "(0x1FFF :: u32) = mask 13" by (simp add: mask_eq_exp_minus_1)
  then show ?thesis using unat_and_mask [of w 13] by simp
qed

lemma file_header_eq: "unat n = length img \<Longrightarrow> unat (file_header n) = header_bytes img"
proof -
  assume n: "unat n = length img"
  have m: "unat (n AND 0x1FFF) = length img mod 8192" using and_0x1FFF [of n] n by simp
  have e: "n AND 0x1FFF = 512 \<longleftrightarrow> length img mod 8192 = 512"
    by (simp only: word_unat_eq_iff m) simp
  show ?thesis
    by (simp only: file_header_def header_bytes_def sizeof_SNRomHdrU_def Let_def e of_nat_numeral split: if_split) (use m e in auto)
qed

lemma length_rom_image:
  assumes "\<not> is_swc img"
  shows "length (rom_image img) = rom_bytes img"
proof -
  have "header_bytes img \<le> length img mod 8192" by (simp add: header_bytes_def)
  then have "length img - length img mod 8192 \<le> length img - header_bytes img" by (rule diff_le_mono2)
  then show ?thesis using assms by (simp add: rom_image_def rom_bytes_def)
qed

lemma rom_image_complete:
  "rom_bytes img \<le> length img - header_bytes img \<longleftrightarrow> length (rom_image img) = rom_bytes img"
  by (auto simp: rom_image_def)

section \<open>The result of loading\<close>

definition loaded :: "u8 list \<Rightarrow> SnesRomT \<Rightarrow> bool" where
  "loaded img r \<longleftrightarrow> m_bLoaded r \<and> m_RomData r = Some (rom_image img) \<and> unat (m_uRomBytes r) = rom_bytes img
     \<and> length (rom_image img) = rom_bytes img \<and> m_eMapping r = rom_mapping img \<and> with_info (rom_info img) r"

definition load_result :: "bool \<Rightarrow> u8 list \<Rightarrow> LoadErrorE \<Rightarrow> SnesRomT \<Rightarrow> bool" where
  "load_result space img e r \<longleftrightarrow>
     (if img = [] then e = LOADERROR_BADHEADERSIZE
      else if rom_bytes img = 0 then e = LOADERROR_BADROMSIZE
      else (e = LOADERROR_OUTOFSPACE \<and> \<not> space)
        \<or> (if length (rom_image img) = rom_bytes img then e = LOADERROR_NONE \<and> loaded img r
           else e = LOADERROR_READFILE \<and> \<not> m_bLoaded r \<and> m_RomData r = None))"

text \<open>A buffer must be larger than the ROM; without a buffer the system must have memory.\<close>

definition has_space :: "bool \<Rightarrow> u32 option \<Rightarrow> u8 list \<Rightarrow> bool" where
  "has_space bMalloc pBuffer img = (case pBuffer of Some n \<Rightarrow> rom_bytes img < unat n | None \<Rightarrow> bMalloc)"

text \<open>After the header: the position, the size, and the mapping that the header names.\<close>

definition header_read :: "u8 list \<Rightarrow> SnesRomT \<Rightarrow> bool" where
  "header_read img r \<longleftrightarrow> unat (m_uRomBytes r) = rom_bytes img
     \<and> m_eMapping r = (if is_swc img \<and> img ! 2 AND 0x10 \<noteq> 0 then SNROM_MAPPING_HIROM else SNROM_MAPPING_LOROM)"

lemma take_nths: "n \<le> length xs \<Longrightarrow> i < n \<Longrightarrow> take n xs ! i = xs ! i"
  by simp

lemma le16_take: "i + 1 < n \<Longrightarrow> n \<le> length xs \<Longrightarrow> le16 (take n xs) i = le16 xs i"
  by (simp add: le16_def)

lemma copier_header_ok:
  assumes "header_bytes img = 512" and "512 \<le> length img" and "image_ok img" and "unat n = length img - length img mod 8192"
  shows "returns (copier_header (take 512 img) n) (\<lambda>(n', m). unat n' = rom_bytes img
    \<and> m = (if is_swc img \<and> img ! 2 AND 0x10 \<noteq> 0 then SNROM_MAPPING_HIROM else SNROM_MAPPING_LOROM))"
proof -
  have t: "SNRomGetHdrType (take 512 img) = (if is_swc img then SNROM_HDRTYPE_SWC else SNROM_HDRTYPE_UNKNOWN)"
    using assms(1,2) by (simp add: SNRomGetHdrType_def is_swc_def take_nths)
  show ?thesis
  proof (cases "is_swc img")
    case True
    then have lt: "unat (le16 img 0) < 2048" using assms(3) by (simp add: image_ok_def)
    then have u: "uint (le16 img 0) < 2048" unfolding uint_nat by linarith
    have v: "uint (le16 img 0) * 1024 * 1024 div 8 div 16 = uint (le16 img 0) * 8192" by simp
    have "unat (word_of_int (uint (le16 img 0) * 8192) :: u32) = nat (uint (le16 img 0) * 8192)"
      using u by (intro unat_of_int_u32) auto
    also have "\<dots> = unat (le16 img 0) * 8192" by (simp add: nat_mult_distrib)
    finally show ?thesis
      using True t u assms(2) v by (simp add: mult.commute copier_header_def sizeof_SNRomHdrU_def le16_take rom_bytes_def)
  next
    case False
    then show ?thesis
      using t assms(2,4) by (simp add: copier_header_def sizeof_SNRomHdrU_def rom_bytes_def)
  qed
qed

context data_io
begin

lemma read_header_ok:
  assumes "good f" and "pos f = 0" and "unat n = length (img f)" and "image_ok (img f)"
  shows "returns (read_header vt n f r) (\<lambda>(f', r'). header_read (img f) r' \<and> good f' \<and> img f' = img f \<and> pos f' = header_bytes (img f))"
proof -
  have h: "file_header n = word_of_nat sizeof_SNRomHdrU \<longleftrightarrow> header_bytes (img f) = 512"
    using file_header_eq [OF assms(3)] by (simp add: sizeof_SNRomHdrU_def word_unat_eq_iff)
  have sz: "unat (n - (n AND 0x1FFF)) = length (img f) - length (img f) mod 8192"
    using assms(3) and_0x1FFF [of n] by (simp add: unat_sub word_le_nat_alt)
  show ?thesis
  proof (cases "header_bytes (img f) = 512")
    case True
    then have len: "512 \<le> length (img f)" by (auto simp: header_bytes_def split: if_splits)
    obtain f' where f': "io_Read vt 512 f = Some (take 512 (img f), f')" "good f'" "img f' = img f" "pos f' = 512"
      using read [OF assms(1), of 512] assms(2) len by (auto dest!: returns_Ex)
    obtain n' m where c: "copier_header (take 512 (img f)) (n - (n AND 0x1FFF)) = Some (n', m)" "unat n' = rom_bytes (img f)"
      "m = (if is_swc (img f) \<and> img f ! 2 AND 0x10 \<noteq> 0 then SNROM_MAPPING_HIROM else SNROM_MAPPING_LOROM)"
      using copier_header_ok [OF True len assms(4) sz] by (auto dest!: returns_Ex)
    show ?thesis
      using h True f' c by (simp add: read_header_def Let_def sizeof_SNRomHdrU_def header_read_def)
  next
    case False
    then have "header_bytes (img f) = 0" "\<not> is_swc (img f)" by (auto simp: header_bytes_def is_swc_def)
    then show ?thesis
      using h False assms(1,2) sz by (simp add: read_header_def Let_def header_read_def rom_bytes_def)
  qed
qed

lemma read_data_ok:
  assumes "good f" and "pos f = header_bytes (img f)" and "header_read (img f) r" and "rom_bytes (img f) < 2 ^ 31" and "img f \<noteq> []"
  shows "returns (read_data vt bMalloc pBuffer f r) (\<lambda>(e, f', r').
    (e = LOADERROR_OUTOFSPACE \<and> \<not> has_space bMalloc pBuffer (img f))
    \<or> (e = LOADERROR_NONE \<and> length (rom_image (img f)) = rom_bytes (img f) \<and> header_read (img f) r' \<and> m_RomData r' = Some (rom_image (img f)))
    \<or> (e = LOADERROR_READFILE \<and> length (rom_image (img f)) \<noteq> rom_bytes (img f) \<and> \<not> m_bLoaded r' \<and> m_RomData r' = None))"
proof -
  let ?n = "rom_bytes (img f)"
  have n: "unat (m_uRomBytes r) = ?n" using assms(3) by (simp add: header_read_def)
  have s: "sint (m_uRomBytes r) = int ?n" using n assms(4) by (simp add: sint_u32_small)
  have le: "pos f \<le> length (img f)"
    using assms(2) mod_less_eq_dividend [of "length (img f)" 8192] by (auto simp: header_bytes_def split: if_splits)
  have im: "take ?n (drop (pos f) (img f)) = rom_image (img f)" by (simp add: rom_image_def assms(2))
  obtain p f1 where p: "io_ReadPtr vt (int ?n) f = Some (p, f1)"
    "case p of None \<Rightarrow> f1 = f | Some bs \<Rightarrow> bs = rom_image (img f) \<and> length bs = ?n"
    using read_ptr [OF assms(1) le, of "int ?n"] assms(4) im by (auto dest!: returns_Ex split: option.splits)
  show ?thesis
  proof (cases p)
    case (Some bs)
    then show ?thesis
      using p s assms(3) by (auto simp: read_data_def Let_def header_read_def)
  next
    case None
    have sp: "(case pBuffer of Some k \<Rightarrow> \<not> m_uRomBytes (r\<lparr>m_pRomMem := False, m_RomData := None\<rparr>) < k | None \<Rightarrow> \<not> bMalloc) \<longleftrightarrow> \<not> has_space bMalloc pBuffer (img f)"
      using n by (simp add: has_space_def word_less_nat_alt split: option.split)
    obtain bs f2 where b: "io_Read vt (int ?n) f = Some (bs, f2)" "bs = rom_image (img f)"
      using read [OF assms(1) le, of "int ?n"] assms(4) im by (auto dest!: returns_Ex)
    have s': "sint (m_uRomBytes (r\<lparr>m_pRomMem := False, m_RomData := None\<rparr>)) = int ?n" using s by simp
    show ?thesis
      using None p b n assms(3) sp
      by (cases "has_space bMalloc pBuffer (img f)")
        (simp_all only: read_data_def Let_def s s' p(1) sp option.simps bind.simps prod.case simp_thms if_True if_False,
          simp_all add: header_read_def Unload_def)
  qed
qed

lemma LoadRom_ok:
  assumes "good f" and "image_ok (img f)"
  shows "returns (LoadRom vt bMalloc pBuffer f r) (\<lambda>(e, _, r'). load_result (has_space bMalloc pBuffer (img f)) (img f) e r')"
proof -
  obtain n f1 where n: "do { (_, f) \<leftarrow> io_Seek vt 0 SEEK_END f; let n = io_GetPos vt f; (_, f) \<leftarrow> io_Seek vt 0 SEEK_SET f; Some (n, f) } = Some (n, f1)"
    "unat n = length (img f)" "good f1" "img f1 = img f" "pos f1 = 0"
    using file_size [OF assms(1)] by (auto dest!: returns_Ex)
  show ?thesis
  proof (cases "img f = []")
    case True
    then show ?thesis using n by (simp add: LoadRom_def load_result_def unat_eq_0)
  next
    case False
    then have n0: "n \<noteq> 0" using n(2) by (auto simp: unat_eq_0)
    have n1: "unat n = length (img f1)" and ok1: "image_ok (img f1)" using n(2,4) assms(2) by simp_all
    obtain f2 r2 where h: "read_header vt n f1 r = Some (f2, r2)" "header_read (img f) r2" "good f2" "img f2 = img f"
      "pos f2 = header_bytes (img f)"
      using read_header_ok [OF n(3,5) n1 ok1, of r] n(4) by (auto dest!: returns_Ex)
    have m: "unat (m_uRomBytes r2) = rom_bytes (img f)" using h(2) by (simp add: header_read_def)
    show ?thesis
    proof (cases "rom_bytes (img f) = 0")
      case True
      then have "m_uRomBytes r2 = 0" using m by (simp add: unat_eq_0)
      then show ?thesis using n(1) n0 h(1) False True by (simp add: LoadRom_def load_result_def)
    next
      case nz: False
      then have m0: "m_uRomBytes r2 \<noteq> 0" using m by auto
      have "rom_bytes (img f) < 2 ^ 31"
        using small [OF assms(1)] assms(2) by (auto simp: rom_bytes_def image_ok_def)
      with read_data_ok [OF h(3), of r2 bMalloc pBuffer] h m False obtain e f3 r3 where
        d: "read_data vt bMalloc pBuffer f2 r2 = Some (e, f3, r3)"
        "(e = LOADERROR_OUTOFSPACE \<and> \<not> has_space bMalloc pBuffer (img f))
          \<or> (e = LOADERROR_NONE \<and> length (rom_image (img f)) = rom_bytes (img f) \<and> header_read (img f) r3 \<and> m_RomData r3 = Some (rom_image (img f)))
          \<or> (e = LOADERROR_READFILE \<and> length (rom_image (img f)) \<noteq> rom_bytes (img f) \<and> \<not> m_bLoaded r3 \<and> m_RomData r3 = None)"
        by (auto dest!: returns_Ex)
      show ?thesis
      proof (cases "e = LOADERROR_NONE")
        case True
        then have d': "length (rom_image (img f)) = rom_bytes (img f)" "header_read (img f) r3" "m_RomData r3 = Some (rom_image (img f))"
          using d(2) by auto
        have "length (rom_image (img f)) = unat (m_uRomBytes r3)" using d'(1,2) by (simp add: header_read_def)
        from find_cart_info_ok [OF d'(3) this] assms(2)
        have "returns (find_cart_info r3) (\<lambda>r'. with_info (rom_info (img f)) r' \<and> m_RomData r' = Some (rom_image (img f))
          \<and> m_uRomBytes r' = m_uRomBytes r3 \<and> m_eMapping r' = rom_mapping (img f))"
          using d'(2) by (auto simp: image_ok_def rom_info_def rom_mapping_def header_read_def elim!: returns_mono)
        then obtain r4 where r4: "find_cart_info r3 = Some r4" "with_info (rom_info (img f)) r4" "m_RomData r4 = Some (rom_image (img f))"
          "m_uRomBytes r4 = m_uRomBytes r3" "m_eMapping r4 = rom_mapping (img f)"
          by (auto dest: returns_Ex)
        show ?thesis
          using n(1) n0 h(1) m0 d(1) True r4 d' False nz
          by (simp add: LoadRom_def load_result_def loaded_def header_read_def with_info_def GetSRAMBytes_def)
      next
        case ne: False
        then show ?thesis
          using n(1) n0 h(1) m0 d False nz by (auto simp: LoadRom_def load_result_def)
      qed
    qed
  qed
qed

end

section \<open>Files\<close>


definition no_rom :: SnesRomT where
  "no_rom = \<lparr>m_bLoaded = False, m_uRomBytes = 0, m_pRomMem = False, m_RomData = None, m_pCartInfo = None, m_Flags = 0,
     m_eMapping = SNROM_MAPPING_LOROM, m_eVideoType = SNROM_VIDEO_NTSC, m_uROMSize = 0, m_uSRAMSize = 0\<rparr>"

text \<open>A file of 16 KB and the same bytes behind the header of a copier.\<close>

lemma plain_file:
  "image_ok (replicate 16384 0)" "rom_bytes (replicate 16384 0) = 16384" "rom_image (replicate 16384 0) = replicate 16384 0"
  by (simp_all add: image_ok_def rom_info_def info_at_def rom_image_def rom_bytes_def is_swc_def header_bytes_def)


end
