(* ===== verification/Sn_MemMap_Ok.thy ===== *)
theory Sn_MemMap_Ok
  imports Sn_MemMap Sn_Rom_Props
begin

text \<open>
  What mapping a row does to the bank table, as one function of the bank's index, and that the
  table stays well-formed: every bank lies inside the memory that the row names.
\<close>

section \<open>Regions\<close>

definition row_ok :: "SnesMemMapT \<Rightarrow> bool" where
  "row_ok m \<longleftrightarrow> unat (uStartAddr m) mod 8192 = 0 \<and> (unat (uEndAddr m) + 1) mod 8192 = 0 \<and> uStartAddr m \<le> uEndAddr m
     \<and> uSpeed m \<noteq> 0 \<and> uOffset m = 0"

definition row_len :: "SnesMemMapT \<Rightarrow> nat" where
  "row_len m = unat (uEndAddr m) + 1 - unat (uStartAddr m)"

lemma aligned_iff: "w AND 0x1FFF = 0 \<longleftrightarrow> unat w mod 8192 = 0" for w :: u32
  using and_0x1FFF [of w] by (metis unat_eq_0)

lemma or_shifted:
  fixes x :: u32 and a :: u16
  assumes "unat x < 65536"
  shows "unat (push_bit 16 x OR ucast a) = unat x * 65536 + unat a"
proof -
  have a: "uint a < 65536" using unsigned_less [where 'a = int, of a] by simp
  have t: "take_bit 16 (uint a) = uint a"
    by (rule take_bit_int_eq_self [OF unsigned_greater_eq less_le_trans [OF a]]) simp
  have u: "uint (ucast a :: u32) = uint a"
    unfolding unsigned_ucast_eq by (rule take_bit_int_eq_self) (use a in simp_all)
  have "uint x < 65536" using assms unfolding uint_nat by linarith
  then have x: "uint (push_bit 16 x) = push_bit 16 (uint x)"
    unfolding unsigned_push_bit_eq by (subst take_bit_int_eq_self) (simp_all add: push_bit_eq_mult)
  have "uint (push_bit 16 x OR ucast a) = concat_bit 16 (uint a) (uint x)"
    unfolding unsigned_or_eq concat_bit_def x u t by (rule or.commute)
  also have "\<dots> = uint a + uint x * 65536"
    unfolding concat_bit_eq t by (simp add: push_bit_eq_mult)
  finally show ?thesis unfolding uint_nat by linarith
qed

lemma region_bounds:
  assumes "b < 256"
  shows "unat (region_start m (word_of_nat b)) = b * 65536 + unat (uStartAddr m)"
    and "unat (region_end m (word_of_nat b)) = b * 65536 + unat (uEndAddr m) + 1"
proof -
  have b: "unat (word_of_nat b :: u32) = b" using assms by (simp add: unat_of_nat take_bit_nat_eq_self)
  have e: "unat (uEndAddr m) < 65536" using unsigned_less [where 'a = nat, of "uEndAddr m"] by simp
  show "unat (region_start m (word_of_nat b)) = b * 65536 + unat (uStartAddr m)"
    unfolding region_start_def by (subst or_shifted) (use b assms in simp_all)
  have "unat (push_bit 16 (word_of_nat b :: u32) OR ucast (uEndAddr m)) = b * 65536 + unat (uEndAddr m)"
    by (subst or_shifted) (use b assms in simp_all)
  then show "unat (region_end m (word_of_nat b)) = b * 65536 + unat (uEndAddr m) + 1"
    unfolding region_end_def by (subst unat_add_u32) (use assms e in simp_all)
qed

lemma and_not_low: "unat (w AND NOT 0x1FFF) = unat w - unat w mod 8192" for w :: u32
proof -
  have "(w AND 0x1FFF) + (w AND NOT 0x1FFF) = w"
    by (subst disjunctive_add_eq_or) (simp_all add: bit_eq_iff bit_simps, blast)
  then have "w AND NOT 0x1FFF = w - (w AND 0x1FFF)" by (simp add: algebra_simps)
  then show ?thesis using and_0x1FFF [of w] by (simp add: unat_sub word_le_nat_alt)
qed

lemma aligned_bytes_eq: "unat n \<le> 0x40000 \<Longrightarrow> unat (aligned_bytes n) = (unat n + 8191) div 8192 * 8192"
proof -
  assume n: "unat n \<le> 0x40000"
  have "n + 0x2000 - 1 = n + 8191" by (simp add: algebra_simps)
  moreover have "unat (n + 8191) = unat n + unat (8191 :: u32)"
    by (rule unat_add_u32) (use n in simp)
  moreover have "unat (8191 :: u32) = 8191" by simp
  ultimately have "unat (n + 0x2000 - 1) = unat n + 8191" by (simp only:)
  then show ?thesis
    by (simp only: aligned_bytes_def and_not_low minus_mod_eq_div_mult)
qed

section \<open>What one region becomes\<close>

text \<open>How many banks a region of a memory of \<open>z\<close> bytes covers.\<close>

definition covers :: "SnesMemMapT \<Rightarrow> nat \<Rightarrow> nat" where
  "covers m z = (if eMemType m = SNESMEM_TYPE_SRAM \<and> z mod 8192 = 0 \<and> z > 0 then row_len m div 8192 else (min z (row_len m) + 8191) div 8192)"

definition speed_banks :: "SnesMemMapT \<Rightarrow> nat \<Rightarrow> nat" where
  "speed_banks m z = (min z (row_len m) + 8191) div 8192"

definition memory_bank :: "ptr \<Rightarrow> int \<Rightarrow> u8 \<Rightarrow> SNCpuBankT \<Rightarrow> SNCpuBankT" where
  "memory_bank p base ram b = b\<lparr>pMem := Some (ptr_add p base), bRAM := ram\<rparr>"

definition trap_bank :: "trapfn \<Rightarrow> SNCpuBankT \<Rightarrow> SNCpuBankT" where
  "trap_bank f b = b\<lparr>SNCpuBankT.pReadTrapFunc := f, SNCpuBankT.pWriteTrapFunc := f, pMem := None, bRAM := 0\<rparr>"

text \<open>The bank with index \<open>i\<close> in a region that begins at index \<open>k\<close> and shows the memory from offset \<open>off\<close>.\<close>

definition entry :: "SnesMemMapT \<Rightarrow> nat \<Rightarrow> nat \<Rightarrow> nat \<Rightarrow> nat \<Rightarrow> SNCpuBankT \<Rightarrow> SNCpuBankT" where
  "entry m z off k i b =
     (let b = (if i < k + speed_banks m z then b\<lparr>uBankCycle := uSpeed m\<rparr> else b); base = int off - int (k * 8192) in
      case eMemType m of
        SNESMEM_TYPE_ROM \<Rightarrow> memory_bank m_pRomData base 0 b
      | SNESMEM_TYPE_RAM \<Rightarrow> memory_bank m_Ram base 0xFF b
      | SNESMEM_TYPE_LORAM \<Rightarrow> memory_bank m_Ram base 0xFF b
      | SNESMEM_TYPE_SRAM \<Rightarrow> (if z mod 8192 \<noteq> 0 then trap_bank fn_SRAM b else memory_bank m_SRam (int off - int (i * 8192)) 0xFF b)
      | SNESMEM_TYPE_PPU0 \<Rightarrow> trap_bank fn_2000 b
      | SNESMEM_TYPE_PPU1 \<Rightarrow> trap_bank fn_4000 b
      | SNESMEM_TYPE_DSP1 \<Rightarrow> trap_bank fn_DSP1 b
      | _ \<Rightarrow> b)"

definition first_bank :: "SnesMemMapT \<Rightarrow> nat \<Rightarrow> nat" where
  "first_bank m b = b * 8 + unat (uStartAddr m) div 8192"

definition region_banks :: "SnesMemMapT \<Rightarrow> nat \<Rightarrow> nat \<Rightarrow> nat \<Rightarrow> (nat \<Rightarrow> SNCpuBankT) \<Rightarrow> (nat \<Rightarrow> SNCpuBankT)" where
  "region_banks m z off b bs =
     (\<lambda>i. if first_bank m b \<le> i \<and> i < first_bank m b + covers m z then entry m z off (first_bank m b) i (bs i) else bs i)"

text \<open>Sizes of memories that the maps can show.\<close>

definition size_ok :: "SnesMemTypeE \<Rightarrow> nat \<Rightarrow> bool" where
  "size_ok t z \<longleftrightarrow> (if t = SNESMEM_TYPE_SRAM then z \<in> {0, 2048, 4096, 8192} else 0 < z \<and> z mod 8192 = 0)"

lemma rowD:
  assumes "row_ok m"
  shows "row_len m mod 8192 = 0" "0 < row_len m" "unat (uStartAddr m) + row_len m \<le> 65536" "row_len m \<ge> 8192"
    "unat (uStartAddr m) mod 8192 = 0"
proof -
  have le: "unat (uStartAddr m) \<le> unat (uEndAddr m)" using assms by (simp add: row_ok_def word_le_nat_alt)
  have e: "unat (uEndAddr m) < 65536" using unsigned_less [where 'a = nat, of "uEndAddr m"] by simp
  show d: "row_len m mod 8192 = 0" using assms le unfolding row_len_def row_ok_def by (intro mod_0_imp_dvd [THEN dvd_diff_nat, THEN dvd_imp_mod_0]) auto
  show p: "0 < row_len m" using le by (simp add: row_len_def)
  show "unat (uStartAddr m) + row_len m \<le> 65536" using le e by (simp add: row_len_def)
  show "row_len m \<ge> 8192" using d p by (intro dvd_imp_le) (auto simp: mod_eq_0_iff_dvd)
  show "unat (uStartAddr m) mod 8192 = 0" using assms by (simp add: row_ok_def)
qed

lemma region_word:
  assumes "row_ok m" and "b < 256"
  shows "region_start m (word_of_nat b) \<le> region_end m (word_of_nat b)"
    and "unat (region_end m (word_of_nat b) - region_start m (word_of_nat b)) = row_len m"
    and "unat (region_start m (word_of_nat b)) mod 8192 = 0"
    and "bank_index (region_start m (word_of_nat b)) = first_bank m b"
    and "int (unat (region_start m (word_of_nat b))) = int (first_bank m b * 8192)"
proof -
  note r = region_bounds [OF assms(2), of m] and d = rowD [OF assms(1)]
  have le: "unat (uStartAddr m) \<le> unat (uEndAddr m)" using assms(1) by (simp add: row_ok_def word_le_nat_alt)
  show l: "region_start m (word_of_nat b) \<le> region_end m (word_of_nat b)" using r le by (simp add: word_le_nat_alt)
  show "unat (region_end m (word_of_nat b) - region_start m (word_of_nat b)) = row_len m"
    using l r le by (simp add: unat_sub row_len_def)
  have "unat (region_start m (word_of_nat b)) = first_bank m b * 8192"
    using r(1) d(5) by (auto simp: first_bank_def)
  then show "unat (region_start m (word_of_nat b)) mod 8192 = 0" "bank_index (region_start m (word_of_nat b)) = first_bank m b"
    "int (unat (region_start m (word_of_nat b))) = int (first_bank m b * 8192)"
    by (simp_all add: bank_index_eq)
qed

lemma bank_update_range:
  assumes "unat a mod 8192 = 0" and "unat n mod 8192 = 0"
  shows "bank_update f c a n = Some (c\<lparr>Bank := (\<lambda>j. if bank_index a \<le> j \<and> j < bank_index a + unat n div 8192 \<and> j < 2056
     then f (Bank c j) else Bank c j)\<rparr>)"
  using assms by (simp add: bank_update_eq aligned_iff bank_index_eq [of n])

lemma cpu_bank_eqI: "bs = bs' \<Longrightarrow> c\<lparr>Bank := bs\<rparr> = c\<lparr>Bank := bs'\<rparr>"
  by simp

lemma cpu_bank_sameI: "bs = Bank c \<Longrightarrow> c = c\<lparr>Bank := bs\<rparr>"
  by simp

text \<open>The number of bytes of a region, as a word.\<close>

definition region_bytes :: "SnesMemMapT \<Rightarrow> u32 \<Rightarrow> u32 \<Rightarrow> u32" where
  "region_bytes m z b = (if region_end m b - region_start m b \<ge> z then z else region_end m b - region_start m b)"

lemma region_bytes_eq:
  assumes "row_ok m" and "b < 256"
  shows "unat (region_bytes m z (word_of_nat b)) = min (unat z) (row_len m)"
    and "unat (aligned_bytes (region_bytes m z (word_of_nat b))) = speed_banks m (unat z) * 8192"
    and "first_bank m b + speed_banks m (unat z) \<le> 2048"
proof -
  note w = region_word [OF assms] and d = rowD [OF assms(1)]
  show n: "unat (region_bytes m z (word_of_nat b)) = min (unat z) (row_len m)"
    using w(2) by (auto simp: region_bytes_def word_le_nat_alt min_def)
  show "unat (aligned_bytes (region_bytes m z (word_of_nat b))) = speed_banks m (unat z) * 8192"
    using n d(3) by (subst aligned_bytes_eq) (simp_all add: speed_banks_def)
  have "(min (unat z) (row_len m) + 8191) div 8192 \<le> (row_len m + 8191) div 8192"
    by (rule div_le_mono) simp
  also have "\<dots> = row_len m div 8192"
    using d(1) by (auto simp: mod_eq_0_iff_dvd elim!: dvdE)
  finally have "first_bank m b + speed_banks m (unat z) \<le> b * 8 + (unat (uStartAddr m) div 8192 + row_len m div 8192)"
    by (simp add: first_bank_def speed_banks_def)
  also have "unat (uStartAddr m) div 8192 + row_len m div 8192 = (unat (uStartAddr m) + row_len m) div 8192"
    using d(1) by (auto simp: mod_eq_0_iff_dvd elim!: dvdE)
  also have "\<dots> \<le> 65536 div 8192" by (rule div_le_mono) (rule d(3))
  finally show "first_bank m b + speed_banks m (unat z) \<le> 2048" using assms(2) by simp
qed

lemma map_bank_alt:
  assumes "row_ok m" and "b < 256"
  shows "map_bank m z (word_of_nat b) off c =
    (let off = wrap_offset z off; n = region_bytes m z (word_of_nat b); a = region_start m (word_of_nat b) in
     do { c \<leftarrow> (if n > 0 then do { c \<leftarrow> SNCPUSetMemSpeed c a (aligned_bytes n) (ucast (uSpeed m));
                                    map_region (eMemType m) a (region_end m (word_of_nat b)) n off c } else Some c);
          Some (off + n, c) })"
  using region_word(1) [OF assms] by (simp add: map_bank_def region_bytes_def Let_def)

lemma ucast_back: "ucast (ucast x :: u32) = x" for x :: u8
  by (rule bit_word_eqI) (simp add: bit_simps)

lemma SetMemSpeed_region:
  assumes "row_ok m" and "b < 256"
  shows "SNCPUSetMemSpeed c (region_start m (word_of_nat b)) (aligned_bytes (region_bytes m z (word_of_nat b))) (ucast (uSpeed m)) =
    Some (c\<lparr>Bank := (\<lambda>i. if first_bank m b \<le> i \<and> i < first_bank m b + speed_banks m (unat z)
      then (Bank c i)\<lparr>uBankCycle := uSpeed m\<rparr> else Bank c i)\<rparr>)"
proof -
  note w = region_word [OF assms] and n = region_bytes_eq [OF assms, of z]
  show ?thesis
    unfolding SNCPUSetMemSpeed_def
    by (subst bank_update_range) (use w n in \<open>auto simp: ucast_back intro!: cpu_bank_eqI ext\<close>)
qed

lemma map_bank_plain:
  assumes "row_ok m" and "b < 256" and "size_ok (eMemType m) (unat z)"
    and "eMemType m \<in> {SNESMEM_TYPE_ROM, SNESMEM_TYPE_RAM, SNESMEM_TYPE_LORAM, SNESMEM_TYPE_PPU0, SNESMEM_TYPE_PPU1}"
  shows "map_bank m z (word_of_nat b) off c =
    Some (wrap_offset z off + region_bytes m z (word_of_nat b),
      c\<lparr>Bank := region_banks m (unat z) (unat (wrap_offset z off)) b (Bank c)\<rparr>)"
proof -
  note w = region_word [OF assms(1,2)] and n = region_bytes_eq [OF assms(1,2), of z] and d = rowD [OF assms(1)]
  have z: "0 < unat z" "unat z mod 8192 = 0" using assms(3,4) by (auto simp: size_ok_def)
  have nb: "min (unat z) (row_len m) mod 8192 = 0" using z d(1) by (simp add: min_def)
  then have div: "min (unat z) (row_len m) div 8192 = speed_banks m (unat z)"
    by (auto simp: speed_banks_def mod_eq_0_iff_dvd elim!: dvdE)
  have cv: "covers m (unat z) = speed_banks m (unat z)"
    using assms(4) by (auto simp: covers_def speed_banks_def)
  have pos: "0 < region_bytes m z (word_of_nat b)"
    using n(1) z(1) d(2) by (simp add: word_less_nat_alt)
  have u: "uint (region_start m (word_of_nat b)) = int (first_bank m b * 8192)"
    by (simp only: uint_nat w(5))
  have region: "bank_update f c' (region_start m (word_of_nat b)) (region_bytes m z (word_of_nat b)) =
      Some (c'\<lparr>Bank := (\<lambda>i. if first_bank m b \<le> i \<and> i < first_bank m b + speed_banks m (unat z) then f (Bank c' i) else Bank c' i)\<rparr>)" for f c'
    by (subst bank_update_range) (use w n nb div in \<open>auto intro!: cpu_bank_eqI ext\<close>)
  show ?thesis
    unfolding map_bank_alt [OF assms(1,2)] Let_def SetMemSpeed_region [OF assms(1,2)]
    using assms(4) pos
    by (auto simp: map_region_def SNCPUSetBank_def SNCPUSetTrap_def region region_banks_def cv entry_def memory_bank_def
        trap_bank_def u ptr_add_def fn_defs Let_def fun_eq_iff intro!: cpu_bank_eqI)
qed

lemma map_mirrored_eq:
  assumes "unat n = 8192" and "unat a mod 8192 = 0" and "unat e = unat a + k * 8192" and "unat e \<le> 0x1000000"
  shows "map_mirrored n off a e c = Some (c\<lparr>Bank := (\<lambda>i. if unat a div 8192 \<le> i \<and> i < unat a div 8192 + k
    then memory_bank m_SRam (uint off - int (i * 8192)) 0xFF (Bank c i) else Bank c i)\<rparr>)"
  using assms
proof (induction k arbitrary: a c)
  case 0
  then have "\<not> a < e" by (simp add: word_less_nat_alt)
  then show ?case by (subst map_mirrored.simps) (auto intro!: cpu_bank_sameI ext)
next
  case (Suc k)
  then have lt: "a < e" by (simp add: word_less_nat_alt)
  have an: "unat (a + n) = unat a + 8192" using Suc.prems by (subst unat_add_u32) simp_all
  obtain q where q: "unat a = q * 8192" using Suc.prems(2) by (auto simp: mod_eq_0_iff_dvd mult.commute elim!: dvdE)
  have ua: "uint a = int (q * 8192)" unfolding uint_nat q ..
  have idx: "q < 2048" using Suc.prems q by simp
  have set: "SNCPUSetBank c a n (Some (ptr_add m_SRam (uint off))) True =
    Some (c\<lparr>Bank := (\<lambda>i. if i = q then memory_bank m_SRam (uint off - int (i * 8192)) 0xFF (Bank c i) else Bank c i)\<rparr>)"
    unfolding SNCPUSetBank_def Let_def
    by (subst bank_update_range) (use Suc.prems idx in \<open>auto simp: bank_index_eq q memory_bank_def ptr_add_def ua intro!: cpu_bank_eqI ext\<close>)
  have "map_mirrored n off (a + n) e (c\<lparr>Bank := bs\<rparr>) = Some (c\<lparr>Bank := (\<lambda>i. if Suc q \<le> i \<and> i < Suc q + k
    then memory_bank m_SRam (uint off - int (i * 8192)) 0xFF (bs i) else bs i)\<rparr>)" for bs
    using Suc.IH [of "a + n" "c\<lparr>Bank := bs\<rparr>"] Suc.prems an q by (simp add: add.assoc cong: if_cong)
  then show ?case
    using lt by (subst map_mirrored.simps) (auto simp: set q intro!: cpu_bank_eqI ext)
qed

lemma map_bank_sram:
  assumes "row_ok m" and "b < 256" and "size_ok (eMemType m) (unat z)" and "eMemType m = SNESMEM_TYPE_SRAM"
  shows "map_bank m z (word_of_nat b) off c =
    Some (wrap_offset z off + region_bytes m z (word_of_nat b),
      c\<lparr>Bank := region_banks m (unat z) (unat (wrap_offset z off)) b (Bank c)\<rparr>)"
proof -
  note w = region_word [OF assms(1,2)] and n = region_bytes_eq [OF assms(1,2), of z] and d = rowD [OF assms(1)]
  have le: "unat z \<le> row_len m" using assms(3,4) d(4) by (auto simp: size_ok_def)
  then have nz: "unat (region_bytes m z (word_of_nat b)) = unat z" using n(1) by simp
  have idx: "unat (region_start m (word_of_nat b)) div 8192 = first_bank m b" using w(4) by (simp add: bank_index_eq)
  consider "unat z = 0" | "unat z = 2048 \<or> unat z = 4096" | "unat z = 8192"
    using assms(3,4) by (auto simp: size_ok_def)
  then show ?thesis
  proof cases
    case 1
    then have "\<not> 0 < region_bytes m z (word_of_nat b)" using nz by (simp add: word_less_nat_alt)
    then show ?thesis
      unfolding map_bank_alt [OF assms(1,2)] Let_def
      using 1 assms(4) by (auto simp: region_banks_def covers_def intro!: cpu_bank_sameI ext)
  next
    case 2
    then have pos: "0 < region_bytes m z (word_of_nat b)" and nal: "region_bytes m z (word_of_nat b) AND 0x1FFF \<noteq> 0"
      and sb: "speed_banks m (unat z) = 1" and cv: "covers m (unat z) = 1"
      using nz le assms(4) by (auto simp: word_less_nat_alt aligned_iff speed_banks_def covers_def)
    have sb2: "speed_banks m 2048 = 1" "speed_banks m 4096 = 1" using d(4) by (simp_all add: speed_banks_def)
    have al: "unat (aligned_bytes (region_bytes m z (word_of_nat b))) = 8192" using n(2) sb by simp
    have trap: "bank_update f c' (region_start m (word_of_nat b)) (aligned_bytes (region_bytes m z (word_of_nat b))) =
        Some (c'\<lparr>Bank := (\<lambda>i. if i = first_bank m b then f (Bank c' i) else Bank c' i)\<rparr>)" for f c'
      by (subst bank_update_range) (use w n sb al in \<open>auto intro!: cpu_bank_eqI ext\<close>)
    show ?thesis
      unfolding map_bank_alt [OF assms(1,2)] Let_def SetMemSpeed_region [OF assms(1,2)]
      using assms(4) pos nal 2
      by (auto simp: map_region_def SNCPUSetTrap_def trap region_banks_def cv entry_def sb sb2 trap_bank_def fn_defs Let_def
          intro!: cpu_bank_eqI ext)
  next
    case 3
    then have pos: "0 < region_bytes m z (word_of_nat b)" and nal: "region_bytes m z (word_of_nat b) AND 0x1FFF = 0"
      and sb: "speed_banks m (unat z) = 1" and cv: "covers m (unat z) = row_len m div 8192"
      using nz le assms(4) by (auto simp: word_less_nat_alt aligned_iff speed_banks_def covers_def)
    have e: "unat (region_end m (word_of_nat b)) = unat (region_start m (word_of_nat b)) + row_len m div 8192 * 8192"
      using w(1,2) d(1) by (auto simp: unat_sub word_le_nat_alt mod_eq_0_iff_dvd)
    have lim: "unat (region_end m (word_of_nat b)) \<le> 0x1000000"
      using region_bounds(2) [OF assms(2), of m] unsigned_less [where 'a = nat, of "uEndAddr m"] assms(2) by simp
    have mir: "map_mirrored (region_bytes m z (word_of_nat b)) o' (region_start m (word_of_nat b)) (region_end m (word_of_nat b)) c' =
        Some (c'\<lparr>Bank := (\<lambda>i. if first_bank m b \<le> i \<and> i < first_bank m b + row_len m div 8192
          then memory_bank m_SRam (uint o' - int (i * 8192)) 0xFF (Bank c' i) else Bank c' i)\<rparr>)" for o' c'
      using map_mirrored_eq [OF _ w(3) e lim, of "region_bytes m z (word_of_nat b)" o' c'] nz 3 idx by simp
    have "0 < row_len m div 8192" using d(4) by (simp add: div_greater_zero_iff)
    then show ?thesis
      unfolding map_bank_alt [OF assms(1,2)] Let_def SetMemSpeed_region [OF assms(1,2)]
      using assms(4) pos nal 3
      by (auto simp: map_region_def mir region_banks_def cv [unfolded 3] entry_def sb [unfolded 3] Let_def memory_bank_def intro!: cpu_bank_eqI ext)
  qed
qed

section \<open>A row\<close>

definition shown :: "SnesMemTypeE \<Rightarrow> bool" where
  "shown t \<longleftrightarrow> t \<in> {SNESMEM_TYPE_ROM, SNESMEM_TYPE_RAM, SNESMEM_TYPE_LORAM, SNESMEM_TYPE_SRAM, SNESMEM_TYPE_PPU0, SNESMEM_TYPE_PPU1}"

definition row_fits :: "SnesMemMapT \<Rightarrow> nat \<Rightarrow> bool" where
  "row_fits m z \<longleftrightarrow> row_ok m \<and> shown (eMemType m) \<and> size_ok (eMemType m) z \<and> min z (row_len m) dvd z \<and> z < 2 ^ 31"

text \<open>What a row does to the bank with index \<open>i\<close>.\<close>

definition row_offset :: "SnesMemMapT \<Rightarrow> nat \<Rightarrow> nat \<Rightarrow> nat" where
  "row_offset m z k = (k * min z (row_len m)) mod z"

definition in_row :: "SnesMemMapT \<Rightarrow> nat \<Rightarrow> nat \<Rightarrow> bool" where
  "in_row m z i \<longleftrightarrow> unat (uStartBank m) \<le> i div 8 \<and> i div 8 \<le> unat (uEndBank m)
     \<and> unat (uStartAddr m) div 8192 \<le> i mod 8 \<and> i mod 8 < unat (uStartAddr m) div 8192 + covers m z"

definition row_bank :: "SnesMemMapT \<Rightarrow> nat \<Rightarrow> nat \<Rightarrow> SNCpuBankT \<Rightarrow> SNCpuBankT" where
  "row_bank m z i b =
     (if in_row m z i
      then entry m z (row_offset m z (i div 8 - unat (uStartBank m))) (first_bank m (i div 8)) i b else b)"

lemma map_bank_eq:
  assumes "row_fits m (unat z)" and "b < 256"
  shows "map_bank m z (word_of_nat b) off c =
    Some (wrap_offset z off + region_bytes m z (word_of_nat b),
      c\<lparr>Bank := region_banks m (unat z) (unat (wrap_offset z off)) b (Bank c)\<rparr>)"
  using assms map_bank_plain [of m b z off c] map_bank_sram [of m b z off c]
  by (auto simp: row_fits_def shown_def)

lemma covers_le:
  assumes "row_fits m z"
  shows "unat (uStartAddr m) div 8192 + covers m z \<le> 8"
proof -
  have r: "row_ok m" using assms by (simp add: row_fits_def)
  note d = rowD [OF r]
  have "covers m z \<le> row_len m div 8192"
  proof -
    have "(min z (row_len m) + 8191) div 8192 \<le> (row_len m + 8191) div 8192" by (rule div_le_mono) simp
    also have "\<dots> = row_len m div 8192" using d(1) by (auto simp: mod_eq_0_iff_dvd elim!: dvdE)
    finally show ?thesis by (simp add: covers_def)
  qed
  moreover have "unat (uStartAddr m) div 8192 + row_len m div 8192 = (unat (uStartAddr m) + row_len m) div 8192"
    using d(1) by (auto simp: mod_eq_0_iff_dvd elim!: dvdE)
  moreover have "(unat (uStartAddr m) + row_len m) div 8192 \<le> 65536 div 8192" by (rule div_le_mono) (rule d(3))
  ultimately show ?thesis by simp
qed

lemma region_banks_at:
  assumes "row_fits m z"
  shows "region_banks m z off b bs i =
    (if i div 8 = b \<and> unat (uStartAddr m) div 8192 \<le> i mod 8 \<and> i mod 8 < unat (uStartAddr m) div 8192 + covers m z
     then entry m z off (first_bank m b) i (bs i) else bs i)"
proof -
  have "first_bank m b \<le> i \<and> i < first_bank m b + covers m z \<longleftrightarrow>
    i div 8 = b \<and> unat (uStartAddr m) div 8192 \<le> i mod 8 \<and> i mod 8 < unat (uStartAddr m) div 8192 + covers m z"
    (is "?l \<longleftrightarrow> ?r")
  proof
    assume l: ?l
    then have "b * 8 \<le> i" "i < b * 8 + 8" using covers_le [OF assms] by (simp_all add: first_bank_def)
    then have "i div 8 = b" by (simp add: div_nat_eqI)
    moreover from this have "i = b * 8 + i mod 8" by (metis div_mult_mod_eq)
    ultimately show ?r using l by (simp add: first_bank_def)
  next
    assume r: ?r
    then have "i = b * 8 + i mod 8" by (metis div_mult_mod_eq)
    then show ?l using r by (simp add: first_bank_def)
  qed
  then show ?thesis by (simp add: region_banks_def)
qed

lemma wrap_offset_eq:
  assumes "unat off \<le> unat z" and "0 < unat z"
  shows "unat (wrap_offset z off) = unat off mod unat z"
  using assms by (cases "off = z") (auto simp: wrap_offset_def word_le_nat_alt word_unat_eq_iff)

lemma map_banks_eq:
  assumes "row_fits m (unat z)" and "0 < unat z" and "b1 \<le> 256" and "unat off \<le> unat z" and "min (unat z) (row_len m) dvd unat off"
  shows "map_banks m z [b0..<b1] off c = Some (c\<lparr>Bank := (\<lambda>i. if b0 \<le> i div 8 \<and> i div 8 < b1
    then region_banks m (unat z) ((unat off + (i div 8 - b0) * min (unat z) (row_len m)) mod unat z) (i div 8) (Bank c) i else Bank c i)\<rparr>)"
  using assms
proof (induction "b1 - b0" arbitrary: b0 off c)
  case 0
  then show ?case by (auto intro!: cpu_bank_sameI ext)
next
  case (Suc n)
  let ?nb = "min (unat z) (row_len m)" and ?Z = "unat z"
  have lt: "b0 < b1" and b0: "b0 < 256" using Suc by linarith+
  have w: "unat (wrap_offset z off) = unat off mod ?Z" by (rule wrap_offset_eq) (use Suc.prems in simp_all)
  have r: "unat (region_bytes m z (word_of_nat b0)) = ?nb"
    by (rule region_bytes_eq) (use Suc.prems(1) b0 in \<open>simp_all add: row_fits_def\<close>)
  have dz: "?nb dvd ?Z" and zlt: "?Z < 2 ^ 31" using Suc.prems(1) by (simp_all add: row_fits_def)
  have dm: "?nb dvd unat off mod ?Z" using Suc.prems(5) dz by (simp add: dvd_mod)
  have sum: "unat off mod ?Z + ?nb \<le> ?Z"
  proof -
    have "unat off mod ?Z < ?Z" using Suc.prems(2) by simp
    moreover obtain x where x: "unat off mod ?Z = ?nb * x" using dm by (elim dvdE)
    moreover obtain y where y: "?Z = ?nb * y" using dz by (elim dvdE)
    ultimately have "?nb * x < ?nb * y" by simp
    then have "x < y" by simp
    then have "?nb * (x + 1) \<le> ?nb * y" by (intro mult_le_mono2) simp
    then show ?thesis using x y by simp
  qed
  define off1 where "off1 = wrap_offset z off + region_bytes m z (word_of_nat b0)"
  have o1: "unat off1 = unat off mod ?Z + ?nb"
    unfolding off1_def by (subst unat_add_u32) (use w r sum zlt in simp_all)
  define c1 where "c1 = c\<lparr>Bank := region_banks m ?Z (unat off mod ?Z) b0 (Bank c)\<rparr>"
  have "n = b1 - Suc b0" using Suc.hyps(2) by simp
  from Suc.hyps(1) [OF this Suc.prems(1,2,3), of off1 c1] o1 sum dm
  have IH: "map_banks m z [Suc b0..<b1] off1 c1 = Some (c1\<lparr>Bank := (\<lambda>i. if Suc b0 \<le> i div 8 \<and> i div 8 < b1
    then region_banks m ?Z ((unat off1 + (i div 8 - Suc b0) * ?nb) mod ?Z) (i div 8) (Bank c1) i else Bank c1 i)\<rparr>)"
    by (simp add: dvd_add)
  have eq: "(unat off1 + (k - Suc b0) * ?nb) mod ?Z = (unat off + (k - b0) * ?nb) mod ?Z" if "Suc b0 \<le> k" for k
  proof -
    have "k - b0 = Suc (k - Suc b0)" using that by simp
    then have "(unat off + (k - b0) * ?nb) mod ?Z = (unat off + (?nb + (k - Suc b0) * ?nb)) mod ?Z" by simp
    also have "\<dots> = (unat off mod ?Z + (?nb + (k - Suc b0) * ?nb)) mod ?Z" by (rule mod_add_left_eq [symmetric])
    finally show ?thesis by (simp add: o1 add.assoc)
  qed
  have b1: "Bank c1 i = Bank c i" if "i div 8 \<noteq> b0" for i
    using that by (simp add: c1_def region_banks_at [OF Suc.prems(1)])
  have "map_banks m z [b0..<b1] off c = map_banks m z [Suc b0..<b1] off1 c1"
    using lt by (simp add: upt_conv_Cons map_bank_eq [OF Suc.prems(1) b0] w c1_def off1_def)
  also note IH
  also have "c1\<lparr>Bank := (\<lambda>i. if Suc b0 \<le> i div 8 \<and> i div 8 < b1
      then region_banks m ?Z ((unat off1 + (i div 8 - Suc b0) * ?nb) mod ?Z) (i div 8) (Bank c1) i else Bank c1 i)\<rparr>
    = c\<lparr>Bank := (\<lambda>i. if b0 \<le> i div 8 \<and> i div 8 < b1
      then region_banks m ?Z ((unat off + (i div 8 - b0) * ?nb) mod ?Z) (i div 8) (Bank c) i else Bank c i)\<rparr>"
    (is "c1\<lparr>Bank := ?f\<rparr> = c\<lparr>Bank := ?g\<rparr>")
  proof -
    have "?f i = ?g i" for i
    proof -
      consider "i div 8 < b0 \<or> b1 \<le> i div 8" | "i div 8 = b0" | "Suc b0 \<le> i div 8" "i div 8 < b1" by linarith
      then show ?thesis
      proof cases
        case 1
        then show ?thesis using lt b1 [of i] by auto
      next
        case 2
        then show ?thesis using lt by (simp add: c1_def)
      next
        case 3
        then show ?thesis using eq [OF 3(1)] b1 [of i] by (simp add: region_banks_at [OF Suc.prems(1)])
      qed
    qed
    then have "?f = ?g" by (rule ext)
    then show ?thesis by (simp add: c1_def)
  qed
  finally show ?case .
qed

lemma map_banks_empty:
  assumes "row_fits m 0" and "unat z = 0" and "b1 \<le> 256"
  shows "map_banks m z [b0..<b1] off c = Some c"
proof (induction "b1 - b0" arbitrary: b0 off)
  case (Suc n)
  then have "b0 < b1" "b0 < 256" "n = b1 - Suc b0" using assms(3) by linarith+
  moreover have "c\<lparr>Bank := region_banks m 0 o' b0 (Bank c)\<rparr> = c" for o'
    using assms(1) by (intro cpu_bank_sameI [symmetric])
      (auto simp: region_banks_def covers_def row_fits_def size_ok_def split: if_splits intro!: ext)
  ultimately show ?case
    using Suc.hyps(1) [of "Suc b0"] assms(1,2) by (simp add: upt_conv_Cons map_bank_eq)
qed simp

lemma map_row_eq:
  assumes "row_fits m (unat z)"
  shows "map_banks m z [unat (uStartBank m)..<Suc (unat (uEndBank m))] 0 c =
    Some (c\<lparr>Bank := (\<lambda>i. row_bank m (unat z) i (Bank c i))\<rparr>)"
proof -
  have e: "Suc (unat (uEndBank m)) \<le> 256" using unsigned_less [where 'a = nat, of "uEndBank m"] by simp
  show ?thesis
  proof (cases "unat z = 0")
    case True
    then have z: "row_fits m 0" using assms by simp
    then have "eMemType m = SNESMEM_TYPE_SRAM" by (auto simp: row_fits_def size_ok_def split: if_splits)
    then have "row_bank m 0 i b = b" for i b by (auto simp: row_bank_def in_row_def covers_def)
    then show ?thesis using map_banks_empty [OF z True e] True by (simp del: upt_Suc)
  next
    case False
    then show ?thesis
      using map_banks_eq [OF assms _ e, of 0 "unat (uStartBank m)" c]
      by (auto simp: region_banks_at [OF assms] row_bank_def in_row_def row_offset_def less_Suc_eq_le intro!: cpu_bank_eqI ext)
  qed
qed

section \<open>A map\<close>

definition map_entry :: "SnesRomT \<Rightarrow> u32 \<Rightarrow> SnesMemMapT list \<Rightarrow> nat \<Rightarrow> SNCpuBankT \<Rightarrow> SNCpuBankT" where
  "map_entry r sram ms i b = fold (\<lambda>m. row_bank m (unat (map_size r sram (eMemType m))) i) ms b"

definition map_fits :: "SnesRomT \<Rightarrow> u32 \<Rightarrow> SnesMemMapT list \<Rightarrow> bool" where
  "map_fits r sram ms \<longleftrightarrow> (\<forall>m \<in> set ms. row_fits m (unat (map_size r sram (eMemType m))))"

lemma map_rows_eq:
  assumes "map_fits r sram ms" and "eMemType e = SNESMEM_TYPE_NONE"
  shows "map_rows r sram (ms @ [e]) c = Some (c\<lparr>Bank := (\<lambda>i. map_entry r sram ms i (Bank c i))\<rparr>)"
  using assms(1)
proof (induction ms arbitrary: c)
  case Nil
  then show ?case by (auto simp: map_entry_def assms(2) intro!: cpu_bank_sameI)
next
  case (Cons m ms)
  then have f: "row_fits m (unat (map_size r sram (eMemType m)))" and fs: "map_fits r sram ms" by (simp_all add: map_fits_def)
  then have t: "eMemType m \<noteq> SNESMEM_TYPE_NONE" "uOffset m = 0" by (auto simp: row_fits_def shown_def row_ok_def)
  have "map_rows r sram ((m # ms) @ [e]) c = map_rows r sram (ms @ [e]) (c\<lparr>Bank := (\<lambda>i. row_bank m (unat (map_size r sram (eMemType m))) i (Bank c i))\<rparr>)"
    using t map_row_eq [OF f, of c] by (simp del: upt_Suc)
  also note Cons.IH [OF fs]
  finally show ?case by (simp add: map_entry_def cong: if_cong)
qed

text \<open>A bank that the system can work with: well-formed, with known handlers.\<close>

definition good_bank :: "heap \<Rightarrow> u32 \<Rightarrow> nat \<Rightarrow> SNCpuBankT \<Rightarrow> bool" where
  "good_bank h sram i b \<longleftrightarrow> bank_ok h i b \<and> SNCpuBankT.pReadTrapFunc b \<noteq> NullFn \<and> SNCpuBankT.pWriteTrapFunc b \<noteq> NullFn
     \<and> bank_fns_ok sram b"

text \<open>All cells of a memory exist.\<close>

definition memory_at :: "heap \<Rightarrow> ptr \<Rightarrow> nat \<Rightarrow> bool" where
  "memory_at h p n \<longleftrightarrow> (\<forall>i < n. ptr_add p (int i) \<in> dom h)"

lemma memory_bank_good:
  assumes "good_bank h sram i b" and "memory_at h p n" and "k * 8192 \<le> i * 8192 + off" and "off + i * 8192 + 8192 \<le> n + k * 8192"
  shows "good_bank h sram i (memory_bank p (int off - int (k * 8192)) r b)"
proof -
  have "cells h (ptr_add p (int off - int (k * 8192))) (i * 8192) (Suc i * 8192)"
    unfolding cells_def
  proof
    fix a assume a: "a \<in> {i * 8192..<Suc i * 8192}"
    have "off + a - k * 8192 < n" using a assms(3,4) by auto
    then have "ptr_add p (int (off + a - k * 8192)) \<in> dom h"
      using assms(2) unfolding memory_at_def by blast
    moreover have "int off - int (k * 8192) + int a = int (off + a - k * 8192)"
      using a assms(3) by (subst of_nat_diff) auto
    ultimately show "ptr_add (ptr_add p (int off - int (k * 8192))) (int a) \<in> dom h"
      by (simp add: ptr_add_def add.assoc)
  qed
  then show ?thesis
    using assms(1) by (simp add: good_bank_def bank_ok_def memory_bank_def bank_fns_ok_def split: option.splits)
qed

lemma trap_bank_good:
  assumes "good_bank h sram i b" and "fn_ok sram f" and "f \<noteq> NullFn"
  shows "good_bank h sram i (trap_bank f b)"
  using assms by (simp add: good_bank_def bank_ok_def trap_bank_def bank_fns_ok_def split: option.splits)

lemma speed_good: "good_bank h sram i b \<Longrightarrow> n \<noteq> 0 \<Longrightarrow> good_bank h sram i (b\<lparr>uBankCycle := n\<rparr>)"
  by (cases "pMem b") (simp_all add: good_bank_def bank_ok_def bank_fns_ok_def)

text \<open>The memories of the host that a map shows.\<close>

definition memories_ok :: "heap \<Rightarrow> nat \<Rightarrow> bool" where
  "memories_ok h n \<longleftrightarrow> memory_at h m_pRomData n \<and> memory_at h m_Ram SNES_RAMSIZE \<and> memory_at h m_SRam SNES_SRAMSIZE"

lemma memory_at_mono: "memory_at h p n \<Longrightarrow> n' \<le> n \<Longrightarrow> memory_at h p n'"
  by (simp add: memory_at_def)

lemma in_rowD:
  assumes "row_fits m z" and "in_row m z i"
  shows "first_bank m (i div 8) \<le> i" and "i < first_bank m (i div 8) + covers m z"
  using region_banks_at [OF assms(1), of 0 "i div 8" "\<lambda>_. undefined" i] assms(2) div_mult_mod_eq [of i 8]
  unfolding in_row_def first_bank_def by linarith+

lemma row_offset_le:
  assumes "row_fits m z" and "0 < z"
  shows "row_offset m z k + min z (row_len m) \<le> z"
proof -
  let ?nb = "min z (row_len m)"
  have dz: "?nb dvd z" using assms(1) by (simp add: row_fits_def)
  then have dm: "?nb dvd row_offset m z k" unfolding row_offset_def by (simp add: dvd_mod)
  have lt: "row_offset m z k < z" using assms(2) by (simp add: row_offset_def)
  obtain x where x: "row_offset m z k = ?nb * x" using dm by (elim dvdE)
  obtain y where y: "z = ?nb * y" using dz by (elim dvdE)
  from lt x y have "?nb * x < ?nb * y" by simp
  then have "?nb * (x + 1) \<le> ?nb * y" by (intro mult_le_mono2) simp
  then show ?thesis using x y by simp
qed

lemma row_bank_good:
  assumes "row_fits m z" and "good_bank h sram i b" and "memories_ok h n"
    and "eMemType m = SNESMEM_TYPE_ROM \<Longrightarrow> z \<le> n"
    and "eMemType m \<in> {SNESMEM_TYPE_RAM, SNESMEM_TYPE_LORAM} \<Longrightarrow> z \<le> SNES_RAMSIZE"
    and "eMemType m = SNESMEM_TYPE_SRAM \<Longrightarrow> z = unat sram"
  shows "good_bank h sram i (row_bank m z i b)"
proof (cases "in_row m z i")
  case False
  then show ?thesis using assms(2) by (simp add: row_bank_def)
next
  case True
  define s where "s = first_bank m (i div 8)"
  define off where "off = row_offset m z (i div 8 - unat (uStartBank m))"
  define b1 where "b1 = (if i < s + speed_banks m z then b\<lparr>uBankCycle := uSpeed m\<rparr> else b)"
  have row: "row_ok m" and sz: "size_ok (eMemType m) z" and sh: "shown (eMemType m)" using assms(1) by (simp_all add: row_fits_def)
  note d = rowD [OF row] and ir = in_rowD [OF assms(1) True, folded s_def]
  have g: "good_bank h sram i b1"
    using assms(2) row by (auto simp: b1_def row_ok_def intro!: speed_good)
  have plain: "good_bank h sram i (memory_bank p (int off - int (s * 8192)) r b1)"
    if "eMemType m \<noteq> SNESMEM_TYPE_SRAM" "memory_at h p z" for p r
  proof (rule memory_bank_good [OF g that(2)])
    have z: "0 < z" "z mod 8192 = 0" using sz that(1) by (auto simp: size_ok_def)
    show "s * 8192 \<le> i * 8192 + off" using ir(1) by simp
    have "min z (row_len m) mod 8192 = 0" using z(2) d(1) by (simp add: min_def)
    then have c: "covers m z * 8192 = min z (row_len m)"
      using that(1) by (auto simp: covers_def mod_eq_0_iff_dvd elim!: dvdE)
    have "(i + 1) * 8192 \<le> (s + covers m z) * 8192" using ir(2) by (intro mult_le_mono1) simp
    then show "off + i * 8192 + 8192 \<le> z + s * 8192"
      using c row_offset_le [OF assms(1) z(1), of "i div 8 - unat (uStartBank m)"] by (simp add: off_def algebra_simps)
  qed
  have e: "row_bank m z i b = entry m z off s i b" using True by (simp add: row_bank_def s_def off_def)
  consider "eMemType m = SNESMEM_TYPE_ROM" | "eMemType m \<in> {SNESMEM_TYPE_RAM, SNESMEM_TYPE_LORAM}"
    | "eMemType m = SNESMEM_TYPE_SRAM" | "eMemType m \<in> {SNESMEM_TYPE_PPU0, SNESMEM_TYPE_PPU1}"
    using sh by (auto simp: shown_def)
  then show ?thesis
  proof cases
    case 1
    have "memory_at h m_pRomData z" using assms(3) assms(4) [OF 1] by (auto simp: memories_ok_def intro: memory_at_mono)
    then show ?thesis using plain [where p = m_pRomData and r = 0] 1 unfolding e entry_def Let_def b1_def [symmetric] by simp
  next
    case 2
    have "memory_at h m_Ram z" using assms(3) assms(5) [OF 2] by (auto simp: memories_ok_def intro: memory_at_mono)
    then show ?thesis using plain [where p = m_Ram and r = "0xFF"] 2 unfolding e entry_def Let_def b1_def [symmetric] by auto
  next
    case 3
    then have zc: "z \<in> {0, 2048, 4096, 8192}" and zs: "unat sram = z" using sz assms(6) by (auto simp: size_ok_def)
    have "covers m 0 = 0" by (simp add: covers_def)
    then have nz: "z \<noteq> 0" using True by (intro notI) (auto simp: in_row_def)
    show ?thesis
    proof (cases "z mod 8192 = 0")
      case True
      then have z: "z = 8192" using zc nz by auto
      have "memory_at h m_SRam z" using assms(3) z by (auto simp: memories_ok_def SNES_SRAMSIZE_def intro: memory_at_mono)
      moreover have "off = 0" using z d(4) by (simp add: off_def row_offset_def min_def)
      ultimately show ?thesis
        using memory_bank_good [OF g, where p = m_SRam and n = z and k = i and off = off and r = "0xFF"] 3 True z unfolding e entry_def Let_def b1_def [symmetric] by simp
    next
      case False
      have "fn_ok sram fn_SRAM" using zc zs nz by (auto simp: fn_ok_def SNES_SRAMSIZE_def)
      then show ?thesis
        using trap_bank_good [OF g] 3 False unfolding e entry_def Let_def b1_def [symmetric] by (simp add: fn_defs)
    qed
  next
    case 4
    then show ?thesis
      using trap_bank_good [OF g, where f = fn_2000] trap_bank_good [OF g, where f = fn_4000]
      unfolding e entry_def Let_def b1_def [symmetric] by (auto simp: fn_ok_def fn_defs)
  qed
qed

lemma map_entry_good:
  assumes "map_fits r sram ms" and "good_bank h sram i b" and "memories_ok h (unat (m_uRomBytes r))"
  shows "good_bank h sram i (map_entry r sram ms i b)"
  using assms(1,2)
proof (induction ms arbitrary: b)
  case Nil
  then show ?case by (simp add: map_entry_def)
next
  case (Cons m ms)
  then have f: "row_fits m (unat (map_size r sram (eMemType m)))" "map_fits r sram ms" by (simp_all add: map_fits_def)
  have "good_bank h sram i (row_bank m (unat (map_size r sram (eMemType m))) i b)"
    by (rule row_bank_good [OF f(1) Cons.prems(2) assms(3)]) (auto simp: map_size_def SNES_RAMSIZE_def)
  from Cons.IH [OF f(2) this] show ?case by (simp add: map_entry_def)
qed

section \<open>The two maps\<close>

text \<open>
  The size of a ROM fits a map if it fills the regions of the map evenly or is smaller than one:
  regions have 32 KB in the first map and 64 KB in the second.
\<close>

definition rom_region :: "SNRomMappingE \<Rightarrow> nat" where
  "rom_region m = (case m of SNROM_MAPPING_LOROM \<Rightarrow> 0x8000 | SNROM_MAPPING_HIROM \<Rightarrow> 0x10000)"

definition rom_fits :: "SNRomMappingE \<Rightarrow> nat \<Rightarrow> bool" where
  "rom_fits m n \<longleftrightarrow> 0 < n \<and> n mod 8192 = 0 \<and> n < 2 ^ 31 \<and> min n (rom_region m) dvd n"

definition sram_ok :: "u32 \<Rightarrow> bool" where
  "sram_ok n \<longleftrightarrow> unat n \<in> {0, 2048, 4096, 8192}"

definition map_of_rom :: "SNRomMappingE \<Rightarrow> SnesMemMapT list" where
  "map_of_rom m = (case m of SNROM_MAPPING_LOROM \<Rightarrow> u_SnesMemMap_LoRom | SNROM_MAPPING_HIROM \<Rightarrow> u_SnesMemMap_HiRom)"

lemma map_ends: "map_of_rom m = butlast (map_of_rom m) @ [map_row 0 0 0 0 0 SNESMEM_TYPE_NONE]"
  by (cases m) (simp_all add: map_of_rom_def u_SnesMemMap_LoRom_def u_SnesMemMap_HiRom_def)

lemmas row_defs = row_fits_def row_ok_def row_len_def shown_def size_ok_def map_row_def SNCPU_CYCLE_SLOW_def SNCPU_CYCLE_FAST_def

lemma sram_row:
  assumes "sram_ok n" and "row_ok m" and "eMemType m = SNESMEM_TYPE_SRAM"
  shows "row_fits m (unat (map_size r n (eMemType m)))"
proof -
  have "unat n \<le> row_len m" using assms(1) rowD(4) [OF assms(2)] by (auto simp: sram_ok_def)
  then show ?thesis using assms by (auto simp: row_fits_def shown_def size_ok_def map_size_def sram_ok_def min_def)
qed

lemma rom_row:
  assumes "rom_fits x (unat (m_uRomBytes r))" and "row_ok m" and "eMemType m = SNESMEM_TYPE_ROM" and "row_len m = rom_region x"
  shows "row_fits m (unat (map_size r n (eMemType m)))"
  using assms by (auto simp: row_fits_def shown_def size_ok_def map_size_def rom_fits_def)

lemma map_fits_rom:
  assumes "rom_fits x (unat (m_uRomBytes r))" and "sram_ok n"
  shows "map_fits r n (butlast (map_of_rom x))"
proof -
  have rows: "\<forall>m \<in> set (butlast (map_of_rom x)). row_ok m \<and>
    ((eMemType m = SNESMEM_TYPE_ROM \<and> row_len m = rom_region x) \<or> eMemType m = SNESMEM_TYPE_SRAM
      \<or> (eMemType m = SNESMEM_TYPE_RAM \<and> row_len m = 65536)
      \<or> (eMemType m \<in> {SNESMEM_TYPE_LORAM, SNESMEM_TYPE_PPU0, SNESMEM_TYPE_PPU1} \<and> row_len m = 8192))"
    by (cases x) (simp_all add: map_of_rom_def u_SnesMemMap_LoRom_def u_SnesMemMap_HiRom_def row_defs rom_region_def)
  show ?thesis
    unfolding map_fits_def
  proof
    fix m assume "m \<in> set (butlast (map_of_rom x))"
    with rows have m: "row_ok m" "(eMemType m = SNESMEM_TYPE_ROM \<and> row_len m = rom_region x) \<or> eMemType m = SNESMEM_TYPE_SRAM
      \<or> (eMemType m = SNESMEM_TYPE_RAM \<and> row_len m = 65536)
      \<or> (eMemType m \<in> {SNESMEM_TYPE_LORAM, SNESMEM_TYPE_PPU0, SNESMEM_TYPE_PPU1} \<and> row_len m = 8192)" by blast+
    from m(2) show "row_fits m (unat (map_size r n (eMemType m)))"
    proof (elim disjE)
      assume "eMemType m = SNESMEM_TYPE_ROM \<and> row_len m = rom_region x"
      then show ?thesis using rom_row [OF assms(1) m(1)] by blast
    next
      assume "eMemType m = SNESMEM_TYPE_SRAM"
      then show ?thesis by (rule sram_row [OF assms(2) m(1)])
    qed (use m(1) in \<open>auto simp: row_fits_def shown_def size_ok_def map_size_def SNES_RAMSIZE_def\<close>)
  qed
qed

text \<open>Before the map: every bank is unmapped.\<close>

definition unmapped :: "SNCpuBankT \<Rightarrow> SNCpuBankT" where
  "unmapped b = (trap_bank fn_Mem b)\<lparr>uBankCycle := word_of_int SNCPU_CYCLE_SLOW\<rparr>"

definition map_result :: "SnesRomT \<Rightarrow> SNRomMappingE \<Rightarrow> 'r snes \<Rightarrow> 'r snes" where
  "map_result r x c = (upd_sys (\<lambda>s. s\<lparr>m_uSramSize := clamp_sram (GetSRAMBytes r)\<rparr>) c)
     \<lparr>Bank := (\<lambda>i. map_entry r (clamp_sram (GetSRAMBytes r)) (butlast (map_of_rom x)) i (if i < 2056 then unmapped (Bank c i) else Bank c i))\<rparr>"

lemma clear_map:
  "do { c \<leftarrow> SNCPUSetTrap c 0 SNCPU_MEM_SIZE fn_Mem fn_Mem; SNCPUSetMemSpeed c 0 SNCPU_MEM_SIZE (word_of_int SNCPU_CYCLE_SLOW) } =
   Some (c\<lparr>Bank := (\<lambda>i. if i < 2056 then unmapped (Bank c i) else Bank c i)\<rparr>)"
  by (auto simp: SNCPUSetTrap_def SNCPUSetMemSpeed_def bank_update_eq bank_index_eq SNCPU_MEM_SIZE_def fn_defs Let_def
      unmapped_def trap_bank_def SNCPU_CYCLE_SLOW_def intro!: cpu_bank_eqI ext)

lemma MapMem_eq:
  assumes "rom_fits x (unat (m_uRomBytes r))" and "sram_ok (clamp_sram (GetSRAMBytes r))"
  shows "MapMem r x c = Some (map_result r x c)"
proof -
  have "MapMem r x c = do { c \<leftarrow> do { c \<leftarrow> SNCPUSetTrap c 0 SNCPU_MEM_SIZE fn_Mem fn_Mem; SNCPUSetMemSpeed c 0 SNCPU_MEM_SIZE (word_of_int SNCPU_CYCLE_SLOW) };
     MapMem_table r (map_of_rom x) c }"
    by (cases x) (simp_all add: MapMem_def map_of_rom_def)
  also have "\<dots> = MapMem_table r (map_of_rom x) (c\<lparr>Bank := (\<lambda>i. if i < 2056 then unmapped (Bank c i) else Bank c i)\<rparr>)"
    by (simp add: clear_map)
  also have "\<dots> = Some (map_result r x c)"
    unfolding MapMem_table_def Let_def
    by (subst map_ends, subst map_rows_eq [OF map_fits_rom [OF assms]])
      (simp_all add: map_row_def map_result_def upd_sys_def cong: if_cong)
  finally show ?thesis .
qed

lemma unmapped_good: "good_bank h n i (unmapped b)"
  by (simp add: good_bank_def bank_ok_def unmapped_def trap_bank_def bank_fns_ok_def fn_ok_def fn_defs SNCPU_CYCLE_SLOW_def)

lemma map_result_good:
  assumes "rom_fits x (unat (m_uRomBytes r))" and "sram_ok (clamp_sram (GetSRAMBytes r))" and "i < 2056"
    and "memories_ok (hMem c) (unat (m_uRomBytes r))"
  shows "good_bank (hMem c) (clamp_sram (GetSRAMBytes r)) i (Bank (map_result r x c) i)"
  using map_entry_good [OF map_fits_rom [OF assms(1,2)] unmapped_good assms(4)] assms(3)
  by (simp add: map_result_def)

end
