(* ===== verification/Sn_MemMap_Props.thy ===== *)
theory Sn_MemMap_Props
  imports Sn_MemMap_Ok
begin

text \<open>
  What the processor sees of a cartridge: which byte of the ROM, of work RAM and which register is
  at an address.
\<close>

section \<open>The row that decides\<close>

definition outside :: "SnesMemMapT \<Rightarrow> nat \<Rightarrow> bool" where
  "outside m i \<longleftrightarrow> \<not> (unat (uStartBank m) \<le> i div 8 \<and> i div 8 \<le> unat (uEndBank m)
     \<and> unat (uStartAddr m) div 8192 \<le> i mod 8 \<and> i mod 8 \<le> unat (uEndAddr m) div 8192)"

lemma covers_row:
  assumes "row_fits m z"
  shows "unat (uStartAddr m) div 8192 + covers m z \<le> unat (uEndAddr m) div 8192 + 1"
proof -
  have r: "row_ok m" using assms by (simp add: row_fits_def)
  note d = rowD [OF r]
  have le: "unat (uStartAddr m) \<le> unat (uEndAddr m)" using r by (simp add: row_ok_def word_le_nat_alt)
  have "(min z (row_len m) + 8191) div 8192 \<le> (row_len m + 8191) div 8192" by (rule div_le_mono) simp
  also have "\<dots> = row_len m div 8192" using d(1) by (auto simp: mod_eq_0_iff_dvd elim!: dvdE)
  finally have "covers m z \<le> row_len m div 8192" by (simp add: covers_def)
  moreover have "unat (uStartAddr m) div 8192 + row_len m div 8192 = (unat (uStartAddr m) + row_len m) div 8192"
    using d(1) by (auto simp: mod_eq_0_iff_dvd elim!: dvdE)
  moreover have "(unat (uStartAddr m) + row_len m) div 8192 = unat (uEndAddr m) div 8192 + 1"
    using r le by (auto simp: row_len_def row_ok_def Suc_div_eq_add3_div mod_eq_0_iff_dvd div_Suc)
  ultimately show ?thesis by simp
qed

lemma outside_row: "row_fits m z \<Longrightarrow> outside m i \<Longrightarrow> row_bank m z i b = b"
  using covers_row [of m z] by (auto simp: outside_def row_bank_def in_row_def)

lemma map_entry_last:
  assumes "map_fits r n (xs @ m # ys)" and "\<forall>m' \<in> set ys. outside m' i"
  shows "map_entry r n (xs @ m # ys) i b = row_bank m (unat (map_size r n (eMemType m))) i (map_entry r n xs i b)"
proof -
  have "fold (\<lambda>m. row_bank m (unat (map_size r n (eMemType m))) i) ys b' = b'" for b'
    using assms unfolding map_fits_def by (induction ys arbitrary: b') (auto simp: outside_row)
  then show ?thesis by (simp add: map_entry_def)
qed

lemma map_entry_nth:
  assumes "map_fits r n ms" and "k < length ms" and "\<forall>m' \<in> set (drop (Suc k) ms). outside m' i"
  shows "map_entry r n ms i b = row_bank (ms ! k) (unat (map_size r n (eMemType (ms ! k)))) i (map_entry r n (take k ms) i b)"
  using map_entry_last [of r n "take k ms" "ms ! k" "drop (Suc k) ms" i b] assms
  by (simp add: id_take_nth_drop [symmetric])

section \<open>Where the ROM is\<close>

text \<open>
  The offset of an address in the ROM, before it is reduced to the size of the ROM, and the row of
  the map that says so.
\<close>

definition rom_at :: "SNRomMappingE \<Rightarrow> nat \<Rightarrow> nat \<Rightarrow> (nat \<times> nat) option" where
  "rom_at x b a =
     (case x of
        SNROM_MAPPING_LOROM \<Rightarrow>
          if a \<ge> 0x8000 \<and> b \<le> 0x6F then Some (0, b * 0x8000 + (a - 0x8000))
          else if a \<ge> 0x8000 \<and> 0x80 \<le> b \<and> b \<le> 0xEF then Some (1, (b - 0x80) * 0x8000 + (a - 0x8000))
          else if a < 0x8000 \<and> 0x40 \<le> b \<and> b \<le> 0x6F then Some (2, (b - 0x40) * 0x8000 + a)
          else if a < 0x8000 \<and> 0xC0 \<le> b \<and> b \<le> 0xEF then Some (3, (b - 0xC0) * 0x8000 + a)
          else None
      | SNROM_MAPPING_HIROM \<Rightarrow>
          if a \<ge> 0x8000 \<and> b \<le> 0x3F then Some (0, b * 0x10000 + a)
          else if 0x40 \<le> b \<and> b \<le> 0x6F then Some (1, (b - 0x40) * 0x10000 + a)
          else if a \<ge> 0x8000 \<and> 0x80 \<le> b \<and> b \<le> 0xBF then Some (2, (b - 0x80) * 0x10000 + a)
          else if 0xC0 \<le> b \<and> b \<le> 0xFF then Some (3, (b - 0xC0) * 0x10000 + a)
          else None)"

definition cpu_addr :: "nat \<Rightarrow> nat \<Rightarrow> u32" where
  "cpu_addr b a = word_of_nat (b * 0x10000 + a)"

lemma cpu_addr_unat: "b < 256 \<Longrightarrow> a < 0x10000 \<Longrightarrow> unat (cpu_addr b a) = b * 0x10000 + a"
  unfolding cpu_addr_def unat_of_nat by (rule mod_less) simp

lemma cpu_addr_index:
  assumes "b < 256" and "a < 0x10000"
  shows "bank_index (cpu_addr b a) = b * 8 + a div 8192" "bank_index (cpu_addr b a) div 8 = b" "bank_index (cpu_addr b a) mod 8 = a div 8192"
proof -
  have "a div 8192 < 8" using assms(2) by (simp add: div_less_iff_less_mult)
  moreover show "bank_index (cpu_addr b a) = b * 8 + a div 8192"
    using assms by (simp add: bank_index_eq cpu_addr_unat)
  ultimately show "bank_index (cpu_addr b a) div 8 = b" "bank_index (cpu_addr b a) mod 8 = a div 8192"
    by simp_all
qed

lemma rom_row_index:
  assumes "rom_at x b a = Some (k, off)" and "b < 256" and "a < 0x10000" and "i div 8 = b" and "i mod 8 = a div 8192"
  defines "ms \<equiv> butlast (map_of_rom x)"
  shows "k < length ms" and "\<forall>m' \<in> set (drop (Suc k) ms). outside m' i" and "eMemType (ms ! k) = SNESMEM_TYPE_ROM"
    and "\<not> outside (ms ! k) i" and "row_len (ms ! k) = rom_region x"
    and "off = (b - unat (uStartBank (ms ! k))) * rom_region x + (a - unat (uStartAddr (ms ! k)))"
    and "unat (uStartAddr (ms ! k)) \<le> a"
proof -
  have a: "4 \<le> a div 8192 \<longleftrightarrow> 0x8000 \<le> a" "a div 8192 \<le> 7" "a div 8192 \<le> 3 \<longleftrightarrow> a < 0x8000"
    using assms(3) by linarith+
  note e = map_of_rom_def u_SnesMemMap_LoRom_def u_SnesMemMap_HiRom_def map_row_def
  show "k < length ms" "\<forall>m' \<in> set (drop (Suc k) ms). outside m' i" "eMemType (ms ! k) = SNESMEM_TYPE_ROM"
    "\<not> outside (ms ! k) i" "row_len (ms ! k) = rom_region x"
    "off = (b - unat (uStartBank (ms ! k))) * rom_region x + (a - unat (uStartAddr (ms ! k)))"
    "unat (uStartAddr (ms ! k)) \<le> a"
    using assms(1) a unfolding ms_def
    by (auto simp: rom_at_def e outside_def assms(4,5) row_len_def rom_region_def split: SNRomMappingE.splits if_splits)
qed

text \<open>Reading a bank that shows memory.\<close>

lemma read_memory_bank:
  assumes "Bank c (bank_index a) = memory_bank p base r b" and "bank_index a < 2056"
  shows "SNCPURead8 T c a = map_option (\<lambda>v. (v, c)) (hMem c (ptr_add p (base + uint a)))"
  using assms by (simp add: SNCPURead8_def bank_at_def memory_bank_def ptr_add_def hload_def add.assoc map_option_case split: option.split)

lemma rom_bank:
  assumes "rom_fits x (unat (m_uRomBytes r))" and "rom_region x \<le> unat (m_uRomBytes r)" and "sram_ok n"
    and "rom_at x b a = Some (k, off)" and "b < 256" and "a < 0x10000"
  defines "i \<equiv> bank_index (cpu_addr b a)" and "z \<equiv> unat (m_uRomBytes r)"
  shows "\<exists>base b'. map_entry r n (butlast (map_of_rom x)) i b0 = memory_bank m_pRomData base 0 b' \<and> base + uint (cpu_addr b a) = int (off mod z)"
proof -
  let ?ms = "butlast (map_of_rom x)"
  define m where "m = ?ms ! k"
  note idx = cpu_addr_index [OF assms(5,6), folded i_def]
  note rr = rom_row_index [OF assms(4,5,6) idx(2,3), folded m_def]
  have fits: "map_fits r n ?ms" by (rule map_fits_rom [OF assms(1,3)])
  have me: "map_size r n (eMemType m) = m_uRomBytes r" using rr(3) by (simp add: map_size_def)
  have rf: "row_fits m z" using fits rr(1) me unfolding map_fits_def m_def z_def by (metis nth_mem)
  have row: "row_ok m" using rf by (simp add: row_fits_def)
  note d = rowD [OF row]
  have mn: "min z (row_len m) = rom_region x" using assms(2) rr(5) by (simp add: z_def)
  have cv: "covers m z = rom_region x div 8192"
    using mn d(1) rr(5) rr(3) by (auto simp: covers_def mod_eq_0_iff_dvd elim!: dvdE)
  have e1: "unat (uEndAddr m) div 8192 + 1 = unat (uStartAddr m) div 8192 + rom_region x div 8192"
  proof -
    have le: "unat (uStartAddr m) \<le> unat (uEndAddr m)" using row by (simp add: row_ok_def word_le_nat_alt)
    have "unat (uEndAddr m) + 1 = unat (uStartAddr m) + rom_region x" using rr(5) le by (simp add: row_len_def)
    moreover have "(unat (uEndAddr m) + 1) div 8192 = unat (uEndAddr m) div 8192 + 1"
      using row by (auto simp: row_ok_def div_Suc)
    moreover have "(unat (uStartAddr m) + rom_region x) div 8192 = unat (uStartAddr m) div 8192 + rom_region x div 8192"
      using d(5) by (auto simp: mod_eq_0_iff_dvd elim!: dvdE)
    ultimately show ?thesis by simp
  qed
  have inr: "in_row m z i" using rr(4) cv e1 unfolding in_row_def outside_def by linarith
  define j where "j = b - unat (uStartBank m)"
  have "map_entry r n ?ms i b0 = row_bank m z i (map_entry r n (take k ?ms) i b0)"
    using map_entry_nth [OF fits rr(1,2), of b0] me unfolding m_def [symmetric] by (simp add: z_def)
  also have "\<dots> = entry m z (row_offset m z j) (first_bank m b) i (map_entry r n (take k ?ms) i b0)"
    using inr by (simp add: row_bank_def idx(2) j_def)
  finally obtain b' where eq: "map_entry r n ?ms i b0 =
      memory_bank m_pRomData (int (row_offset m z j) - int (first_bank m b * 8192)) 0 b'"
    using rr(3) by (auto simp: entry_def Let_def)
  have fb: "first_bank m b * 8192 = b * 0x10000 + unat (uStartAddr m)"
    using d(5) by (auto simp: first_bank_def mod_eq_0_iff_dvd elim!: dvdE)
  have ua: "uint (cpu_addr b a) = int (b * 0x10000 + a)"
    unfolding uint_nat cpu_addr_unat [OF assms(5,6)] ..
  have z: "0 < z" using assms(1) by (simp add: rom_fits_def z_def)
  have dv: "rom_region x dvd z" using assms(1,2) by (simp add: rom_fits_def z_def min_def split: if_splits)
  have lt: "a - unat (uStartAddr m) < rom_region x"
  proof -
    have "a div 8192 \<le> unat (uEndAddr m) div 8192" using rr(4) idx(3) by (simp add: outside_def)
    then have "a < (unat (uEndAddr m) div 8192 + 1) * 8192" using dividend_less_div_times [of 8192 a] by simp
    also have "\<dots> = unat (uStartAddr m) + rom_region x"
      unfolding e1 using d(1,5) rr(5) by (auto simp: mod_eq_0_iff_dvd add_mult_distrib elim!: dvdE)
    finally show ?thesis using rr(7) by linarith
  qed
  have "row_offset m z j + (a - unat (uStartAddr m)) = off mod z"
  proof -
    have o': "off mod z = (j * rom_region x mod z + (a - unat (uStartAddr m))) mod z"
      unfolding rr(6) j_def by (simp add: mod_simps)
    have "row_offset m z j + rom_region x \<le> z" using row_offset_le [OF rf z, of j] mn by simp
    then have "row_offset m z j + (a - unat (uStartAddr m)) < z" using lt by linarith
    then show ?thesis unfolding o' using mn by (simp add: row_offset_def)
  qed
  then have "int (row_offset m z j) - int (first_bank m b * 8192) + uint (cpu_addr b a) = int (off mod z)"
    unfolding fb ua using rr(7) by (simp add: of_nat_diff flip: of_nat_add)
  with eq show ?thesis by blast
qed


definition demo_rom :: SnesRomT where
  "demo_rom = no_rom\<lparr>m_bLoaded := True, m_uRomBytes := 0x18000, m_uSRAMSize := 64\<rparr>"


end
