(* ===== verification/Sn_Mask.thy ===== *)
theory Sn_Mask
  imports C_Arrays
begin

text \<open>
  Masks of the 256 pixels of a line (\<^verbatim>\<open>snmask.h\<close>, \<^verbatim>\<open>snmaskop.h\<close>, \<^verbatim>\<open>snmask128.cpp\<close>). \<^verbatim>\<open>SNMaskT\<close> is
  a union of 32 bytes, 8 words of 32 and 4 of 64 bits. On a little-endian host all of them are views
  of one number of 256 bits, whose bit \<open>n\<close> belongs to pixel \<open>n\<close>.
\<close>

type_synonym u64 = "64 word"
type_synonym SNMaskT = "256 word"

section \<open>Views of the union\<close>

definition uMask8 :: "SNMaskT \<Rightarrow> nat \<Rightarrow> u8" where "uMask8 m i = ucast (drop_bit (8 * i) m)"
definition uMask32 :: "SNMaskT \<Rightarrow> nat \<Rightarrow> u32" where "uMask32 m i = ucast (drop_bit (32 * i) m)"

definition set_Mask8 :: "SNMaskT \<Rightarrow> nat \<Rightarrow> u8 \<Rightarrow> SNMaskT" where
  "set_Mask8 m i w = (m AND NOT (push_bit (8 * i) (mask 8))) OR push_bit (8 * i) (ucast w)"

definition set_Mask32 :: "SNMaskT \<Rightarrow> nat \<Rightarrow> u32 \<Rightarrow> SNMaskT option" where
  "set_Mask32 m i w =
     (if i < 8 then Some ((m AND NOT (push_bit (32 * i) (mask 32))) OR push_bit (32 * i) (ucast w)) else None)"

text \<open>The words of 64 bits at a pointer, and the mask made of four of them.\<close>

definition le64 :: "u8 list \<Rightarrow> nat \<Rightarrow> u64" where
  "le64 bs k = foldr (\<lambda>i w. push_bit 8 w OR ucast (bs ! (8 * k + i))) [0..<8] 0"

definition mask_of_words :: "u64 \<Rightarrow> u64 \<Rightarrow> u64 \<Rightarrow> u64 \<Rightarrow> SNMaskT" where
  "mask_of_words a b c d = ucast a OR push_bit 64 (ucast b) OR push_bit 128 (ucast c) OR push_bit 192 (ucast d)"

section \<open>Operations\<close>

definition SNMaskClear :: SNMaskT where "SNMaskClear = 0"
definition SNMaskSet :: SNMaskT where "SNMaskSet = NOT 0"
definition SNMaskNOT :: "SNMaskT \<Rightarrow> SNMaskT" where "SNMaskNOT a = NOT a"
definition SNMaskAND :: "SNMaskT \<Rightarrow> SNMaskT \<Rightarrow> SNMaskT" where "SNMaskAND a b = a AND b"
definition SNMaskANDN :: "SNMaskT \<Rightarrow> SNMaskT \<Rightarrow> SNMaskT" where "SNMaskANDN a b = (a OR b) XOR b"
definition SNMaskOR :: "SNMaskT \<Rightarrow> SNMaskT \<Rightarrow> SNMaskT" where "SNMaskOR a b = a OR b"
definition SNMaskXOR :: "SNMaskT \<Rightarrow> SNMaskT \<Rightarrow> SNMaskT" where "SNMaskXOR a b = a XOR b"
definition SNMaskXNOR :: "SNMaskT \<Rightarrow> SNMaskT \<Rightarrow> SNMaskT" where "SNMaskXNOR a b = NOT (a XOR b)"

definition SNMaskBool :: "SNMaskT \<Rightarrow> SNMaskT \<Rightarrow> bool \<Rightarrow> SNMaskT" where
  "SNMaskBool dest src bVal = (if bVal then SNMaskOR dest src else SNMaskANDN dest src)"

text \<open>
  A shift of a 32-bit word by 32 is undefined in C. It happens in \<^verbatim>\<open>SNMaskLeft\<close> for every multiple of
  32; the processors the program is built for use the low five bits of the distance, and so does
  the model.
\<close>

definition shr32 :: "u32 \<Rightarrow> nat \<Rightarrow> u32" where "shr32 w n = drop_bit (n mod 32) w"

fun write_words :: "nat \<Rightarrow> u32 \<Rightarrow> SNMaskT \<Rightarrow> SNMaskT option" where
  "write_words 0 w m = Some m"
| "write_words (Suc n) w m = do { m \<leftarrow> write_words n w m; set_Mask32 m n w }"

definition SNMaskLeft :: "int \<Rightarrow> SNMaskT option" where
  "SNMaskLeft iPos =
     (if iPos \<le> 0 then Some SNMaskClear
      else let iPos = nat (min iPos 256); nWords = (iPos - 1) div 32; iPos = iPos mod 32 in
        do { m \<leftarrow> write_words nWords 0xFFFFFFFF SNMaskClear;
             set_Mask32 m nWords (shr32 0xFFFFFFFF (32 - iPos)) })"

definition SNMaskRight :: "int \<Rightarrow> SNMaskT option" where
  "SNMaskRight iPos =
     (if iPos \<le> 0 then Some SNMaskSet
      else let iPos = nat (min iPos 256); nWords = iPos div 32; iPos = iPos mod 32 in
        do { m \<leftarrow> write_words nWords 0 SNMaskSet;
             set_Mask32 m nWords (push_bit iPos 0xFFFFFFFF) })"

definition SNMaskSHL :: "u8 list \<Rightarrow> nat \<Rightarrow> SNMaskT" where
  "SNMaskSHL src nBits =
     (if nBits = 0 then mask_of_words (le64 src 0) (le64 src 1) (le64 src 2) (le64 src 3)
      else let f = (\<lambda>k. drop_bit nBits (le64 src k) OR push_bit (64 - nBits) (le64 src (k + 1)))
        in mask_of_words (f 0) (f 1) (f 2) (f 3))"

definition SNMaskSHR :: "u8 list \<Rightarrow> nat \<Rightarrow> SNMaskT" where
  "SNMaskSHR src nBits =
     (if nBits = 0 then mask_of_words (le64 src 0) (le64 src 1) (le64 src 2) (le64 src 3)
      else let f = (\<lambda>k. push_bit nBits (le64 src k) OR drop_bit (64 - nBits) (le64 src (k - 1)))
        in mask_of_words (push_bit nBits (le64 src 0)) (f 1) (f 2) (f 3))"

definition SNMaskRange :: "u32 \<Rightarrow> u32 \<Rightarrow> bool \<Rightarrow> SNMaskT option" where
  "SNMaskRange uLeft uRight bInvert =
     (if bInvert then
        (if uLeft = uRight then Some SNMaskClear
         else do { l \<leftarrow> SNMaskLeft (sint uLeft); r \<leftarrow> SNMaskRight (sint (uRight + 1)); Some (SNMaskOR l r) })
      else
        (if uLeft > uRight then Some SNMaskClear
         else do { l \<leftarrow> SNMaskRight (sint uLeft); r \<leftarrow> SNMaskLeft (sint (uRight + 1)); Some (SNMaskAND l r) }))"

section \<open>Bits\<close>

named_theorems mask_bits \<open>the bit of a pixel after an operation on masks\<close>

lemma bit_mask_ops [mask_bits]:
  "\<not> bit SNMaskClear n" "bit SNMaskSet n \<longleftrightarrow> n < 256"
  "bit (SNMaskNOT a) n \<longleftrightarrow> n < 256 \<and> \<not> bit a n"
  "bit (SNMaskAND a b) n \<longleftrightarrow> bit a n \<and> bit b n"
  "bit (SNMaskANDN a b) n \<longleftrightarrow> bit a n \<and> \<not> bit b n"
  "bit (SNMaskOR a b) n \<longleftrightarrow> bit a n \<or> bit b n"
  "bit (SNMaskXOR a b) n \<longleftrightarrow> bit a n \<noteq> bit b n"
  "bit (SNMaskXNOR a b) n \<longleftrightarrow> n < 256 \<and> bit a n = bit b n"
  "bit (SNMaskBool a b v) n \<longleftrightarrow> (if bit b n then v else bit a n)"
  by (auto simp: SNMaskClear_def SNMaskSet_def SNMaskNOT_def SNMaskAND_def SNMaskANDN_def SNMaskOR_def SNMaskXOR_def
      SNMaskXNOR_def SNMaskBool_def bit_simps)

lemma bit_uMask8 [mask_bits]: "bit (uMask8 m i) j \<longleftrightarrow> j < 8 \<and> bit m (8 * i + j)"
  by (auto simp: uMask8_def bit_simps)

lemma bit_uMask32 [mask_bits]: "bit (uMask32 m i) j \<longleftrightarrow> j < 32 \<and> bit m (32 * i + j)"
  by (auto simp: uMask32_def bit_simps)

lemma in_field: "w * i \<le> n \<and> n < w * i + w \<longleftrightarrow> n div w = i" if "0 < w" for n w i :: nat
proof
  assume "w * i \<le> n \<and> n < w * i + w"
  then have "\<exists>j<w. n = w * i + j" by (intro exI [of _ "n - w * i"]) auto
  then show "n div w = i" by auto
next
  assume "n div w = i"
  then show "w * i \<le> n \<and> n < w * i + w"
    using that by (metis dividend_less_times_div times_div_less_eq_dividend add.commute mult.commute)
qed

lemma bit_field: "n < 256 \<Longrightarrow> 0 < w \<Longrightarrow>
    bit (push_bit (w * i) (mask w :: 256 word)) n \<longleftrightarrow> n div w = i"
  unfolding in_field [of w i n, symmetric] by (auto simp: bit_simps)

lemma field_mod: "n div w = i \<Longrightarrow> n - w * i = n mod w" for n w i :: nat
  using minus_mult_div_eq_mod [of n w] by auto

lemma bit_set_Mask8 [mask_bits]:
  assumes "n < 256"
  shows "bit (set_Mask8 m i v) n \<longleftrightarrow> (if n div 8 = i then bit v (n mod 8) else bit m n)"
  using bit_field [OF assms, of 8 i] in_field [of 8 i n] assms
  by (auto simp: set_Mask8_def bit_simps field_mod dest: bit_imp_le_length)

lemma set_Mask32_in: "i < 8 \<Longrightarrow> \<exists>m'. set_Mask32 m i v = Some m' \<and>
    (\<forall>n<256. bit m' n \<longleftrightarrow> (if n div 32 = i then bit v (n mod 32) else bit m n))"
  using bit_field [of _ 32 i] in_field [of 32 i]
  by (auto simp: set_Mask32_def bit_simps field_mod dest: bit_imp_le_length)

section \<open>Ranges\<close>

lemma write_words_bits:
  "k \<le> 8 \<Longrightarrow> \<exists>m'. write_words k v m = Some m' \<and>
    (\<forall>n<256. bit m' n \<longleftrightarrow> (if n div 32 < k then bit v (n mod 32) else bit m n))"
proof (induction k)
  case (Suc k)
  then obtain m1 where m1: "write_words k v m = Some m1"
    "\<forall>n<256. bit m1 n \<longleftrightarrow> (if n div 32 < k then bit v (n mod 32) else bit m n)" by auto
  from set_Mask32_in [of k m1 v] Suc.prems obtain m2 where m2: "set_Mask32 m1 k v = Some m2"
    "\<forall>n<256. bit m2 n \<longleftrightarrow> (if n div 32 = k then bit v (n mod 32) else bit m1 n)" by auto
  show ?case using m1 m2 by (auto simp: less_Suc_eq)
qed simp

lemma bit_ones32: "bit (0xFFFFFFFF :: u32) n \<longleftrightarrow> n < 32"
proof -
  have "(0xFFFFFFFF :: u32) = mask 32" by (simp add: mask_eq_exp_minus_1)
  then show ?thesis by (simp only: bit_mask_iff) simp
qed

lemma less_by_field: "n < i \<longleftrightarrow> n div w < i div w \<or> (n div w = i div w \<and> n mod w < i mod w)" if "0 < w" for n i w :: nat
  by (metis div_le_mono div_mult_mod_eq less_or_eq_imp_le linorder_not_less nat_add_left_cancel_less order_le_less)

lemma SNMaskLeft_eq:
  assumes "0 \<le> i" and "i \<le> 256"
  shows "SNMaskLeft i = Some (mask (nat i))"
proof (cases "i = 0")
  case False
  define k where "k = nat i"
  have k: "0 < k" "k \<le> 256" "nat (min i 256) = k" using assms False by (auto simp: k_def)
  have w: "(k - 1) div 32 < 8" using k by (simp add: div_less_iff_less_mult)
  have o: "bit (0xFFFFFFFF :: u32) (n mod 32)" for n by (simp only: bit_ones32)
  obtain m1 where m1: "write_words ((k - 1) div 32) 0xFFFFFFFF SNMaskClear = Some m1"
    "\<forall>n<256. bit m1 n \<longleftrightarrow> n div 32 < (k - 1) div 32"
    using write_words_bits [OF less_imp_le [OF w], of "0xFFFFFFFF" SNMaskClear] o by (metis bit_mask_ops(1))
  from set_Mask32_in [OF w, of m1 "shr32 0xFFFFFFFF (32 - k mod 32)"] obtain m2
    where m2: "set_Mask32 m1 ((k - 1) div 32) (shr32 0xFFFFFFFF (32 - k mod 32)) = Some m2"
    "\<forall>n<256. bit m2 n \<longleftrightarrow> (if n div 32 = (k - 1) div 32 then bit (shr32 0xFFFFFFFF (32 - k mod 32)) (n mod 32) else bit m1 n)"
    by auto
  have s: "bit (shr32 0xFFFFFFFF (32 - k mod 32)) j \<longleftrightarrow> j \<le> (k - 1) mod 32" if "j < 32" for j
  proof (cases "k mod 32 = 0")
    case True
    then obtain q where "k = 32 * q" by auto
    then have "(k - 1) mod 32 = 31" using k(1) by (cases q) simp_all
    then show ?thesis using True that by (simp add: shr32_def bit_ones32 del: bit_numeral_word_iff)
  next
    case False
    then obtain j where j: "k mod 32 = Suc j" using not0_implies_Suc by blast
    have "Suc j < 32" using mod_less_divisor [of 32 k] j by simp
    moreover have "k - 1 = 32 * (k div 32) + j" using mult_div_mod_eq [of 32 k] j by linarith
    ultimately have "(k - 1) mod 32 = j" by simp
    then have "(k - 1) mod 32 = k mod 32 - 1" using j by simp
    then show ?thesis using False that by (auto simp: shr32_def bit_drop_bit_eq bit_ones32 simp del: bit_numeral_word_iff)
  qed
  have "m2 = mask k"
  proof (rule bit_word_eqI)
    fix n assume "n < LENGTH(256)"
    then have n: "n < 256" by simp
    have "n < k \<longleftrightarrow> n div 32 < (k - 1) div 32 \<or> n div 32 = (k - 1) div 32 \<and> n mod 32 \<le> (k - 1) mod 32"
    proof -
      have "n < k \<longleftrightarrow> n < k - 1 \<or> n = k - 1" using k(1) by auto
      moreover have "n = k - 1 \<longleftrightarrow> n div 32 = (k - 1) div 32 \<and> n mod 32 = (k - 1) mod 32"
        by (metis div_mult_mod_eq)
      ultimately show ?thesis using less_by_field [where w = 32 and n = n and i = "k - 1"] by auto
    qed
    then show "bit m2 n \<longleftrightarrow> bit (mask k :: 256 word) n"
      using m1(2) m2(2) n s [of "n mod 32"] by (auto simp: bit_mask_iff)
  qed
  then show ?thesis using False assms m1(1) m2(1) k by (auto simp: SNMaskLeft_def Let_def k_def)
qed (simp add: SNMaskLeft_def SNMaskClear_def)

lemma SNMaskRight_eq:
  assumes "0 \<le> i" and "i < 256"
  shows "SNMaskRight i = Some (NOT (mask (nat i)))"
proof (cases "i = 0")
  case False
  define k where "k = nat i"
  have k: "0 < k" "k < 256" "nat (min i 256) = k" using assms False by (auto simp: k_def)
  have w: "k div 32 < 8" using k by (simp add: div_less_iff_less_mult)
  obtain m1 where m1: "write_words (k div 32) 0 SNMaskSet = Some m1"
    "\<forall>n<256. bit m1 n \<longleftrightarrow> \<not> n div 32 < k div 32"
    using write_words_bits [of "k div 32" 0 SNMaskSet] w by (auto simp: mask_bits)
  from set_Mask32_in [OF w, of m1 "push_bit (k mod 32) 0xFFFFFFFF"] obtain m2
    where m2: "set_Mask32 m1 (k div 32) (push_bit (k mod 32) 0xFFFFFFFF) = Some m2"
    "\<forall>n<256. bit m2 n \<longleftrightarrow> (if n div 32 = k div 32 then bit (push_bit (k mod 32) 0xFFFFFFFF :: u32) (n mod 32) else bit m1 n)"
    by auto
  have s: "bit (push_bit (k mod 32) 0xFFFFFFFF :: u32) j \<longleftrightarrow> k mod 32 \<le> j" if "j < 32" for j
    using that by (simp only: bit_push_bit_iff bit_ones32) auto
  have "m2 = NOT (mask k)"
  proof (rule bit_word_eqI)
    fix n assume "n < LENGTH(256)"
    then have n: "n < 256" by simp
    show "bit m2 n \<longleftrightarrow> bit (NOT (mask k) :: 256 word) n"
      using m1(2) m2(2) n s [of "n mod 32"] less_by_field [where w = 32 and n = n and i = k] by (auto simp: bit_simps)
  qed
  then show ?thesis using False assms m1(1) m2(1) k by (auto simp: SNMaskRight_def Let_def k_def)
qed (simp add: SNMaskRight_def SNMaskSet_def)

lemma mask_sides: "k \<le> 256 \<Longrightarrow> SNMaskLeft (int k) = Some (mask k)" "k < 256 \<Longrightarrow> SNMaskRight (int k) = Some (NOT (mask k))"
  by (simp_all add: SNMaskLeft_eq SNMaskRight_eq)

text \<open>The pixels of a window: from the left border to the right one, both included.\<close>

lemma SNMaskRange_bits:
  assumes "unat l < 256" and "unat r < 256"
  shows "\<exists>m. SNMaskRange l r False = Some m \<and> (\<forall>n<256. bit m n \<longleftrightarrow> unat l \<le> n \<and> n \<le> unat r)"
proof -
  have s: "sint w = int (unat w)" if "unat w \<le> 256" for w :: u32
  proof -
    have "uint w \<le> 256" using that unfolding uint_nat by linarith
    then have "signed_take_bit 31 (uint w) = uint w"
      by (intro signed_take_bit_int_eq_self) (auto intro: order_trans [of _ 0])
    then show ?thesis by (simp add: sint_uint)
  qed
  have r1: "unat (r + 1) = unat r + 1" using assms(2) by (simp add: unat_word_ariths)
  have "SNMaskRight (sint l) = Some (NOT (mask (unat l)))"
    using mask_sides(2) [OF assms(1)] s [of l] assms(1) by (metis less_imp_le)
  moreover have "SNMaskLeft (sint (r + 1)) = Some (mask (unat r + 1))"
    using mask_sides(1) [of "unat (r + 1)"] assms(2) r1 s [of "r + 1"] by (metis Suc_eq_plus1 Suc_leI)
  ultimately show ?thesis
    by (auto simp: SNMaskRange_def mask_bits bit_simps word_less_nat_alt less_Suc_eq_le)
qed

section \<open>Shifts\<close>

text \<open>Bytes as a row of bits.\<close>

definition bit_at :: "u8 list \<Rightarrow> nat \<Rightarrow> bool" where
  "bit_at bs n \<longleftrightarrow> bit (bs ! (n div 8)) (n mod 8)"

lemma bit_join_bytes:
  "bit (foldr (\<lambda>i w. push_bit 8 w OR ucast (f i :: u8)) [a..<a + k] 0 :: u64) n \<longleftrightarrow>
     n < 64 \<and> n div 8 < k \<and> bit (f (a + n div 8)) (n mod 8)"
proof (induction k arbitrary: a n)
  case (Suc k)
  have "[a..<a + Suc k] = a # [Suc a..<Suc a + k]" by (simp add: upt_conv_Cons del: upt_Suc)
  moreover have "n div 8 = Suc ((n - 8) div 8)" "n mod 8 = (n - 8) mod 8" if "8 \<le> n"
    using that by (simp_all add: le_div_geq le_mod_geq)
  ultimately show ?case
    using Suc.IH [of "Suc a" "n - 8"] by (cases "8 \<le> n") (auto simp: bit_simps simp del: upt_Suc dest: bit_imp_le_length)
qed simp

lemma bit_le64: "bit (le64 bs k) n \<longleftrightarrow> n < 64 \<and> bit_at bs (64 * k + n)"
proof -
  have "8 * k + n div 8 = (64 * k + n) div 8" "n mod 8 = (64 * k + n) mod 8" by presburger+
  then show ?thesis
    using bit_join_bytes [of "\<lambda>i. bs ! (8 * k + i)" 0 8 n] by (auto simp: le64_def bit_at_def)
qed

lemma bit_mask_of_words_if:
  assumes "n < 256"
  shows "bit (mask_of_words a b c d) n \<longleftrightarrow>
    (if n < 64 then bit a n else if n < 128 then bit b (n - 64) else if n < 192 then bit c (n - 128) else bit d (n - 192))"
proof -
  have l: "\<not> bit (x :: u64) i" if "64 \<le> i" for x i using that by (auto dest: bit_imp_le_length)
  show ?thesis
  proof -
    have e: "bit (mask_of_words a b c d) n \<longleftrightarrow> bit a n \<or> (64 \<le> n \<and> bit b (n - 64)) \<or> (128 \<le> n \<and> bit c (n - 128)) \<or> (192 \<le> n \<and> bit d (n - 192))"
      using assms by (simp add: mask_of_words_def bit_or_iff bit_push_bit_iff bit_ucast_iff less_imp_diff_less disj_assoc)
    consider "n < 64" | "64 \<le> n" "n < 128" | "128 \<le> n" "n < 192" | "192 \<le> n" by linarith
    then show ?thesis
      unfolding e by cases (simp_all add: l)
  qed
qed

lemma bit_mask_of_words:
  assumes "n < 256"
  shows "bit (mask_of_words a b c d) n \<longleftrightarrow> bit ([a, b, c, d] ! (n div 64)) (n mod 64)"
proof -
  obtain q j where n: "n = 64 * q + j" "j < 64" "q < 4"
    using assms mod_less_divisor [of 64 n] mult_div_mod_eq [of 64 n] by (metis div_less_iff_less_mult numeral_times_numeral semiring_norm(12) semiring_norm(13) zero_less_numeral)
  then have d: "n div 64 = q" "n mod 64 = j" by simp_all
  have "q = 0 \<or> q = Suc 0 \<or> q = Suc (Suc 0) \<or> q = Suc (Suc (Suc 0))" using n(3) by auto
  then show ?thesis
    unfolding bit_mask_of_words_if [OF assms] d using n by (elim disjE) simp_all
qed

lemma SNMaskSHL_bits:
  assumes "n < 256" and "k < 64"
  shows "bit (SNMaskSHL bs k) n \<longleftrightarrow> bit_at bs (n + k)"
proof -
  define q j where "q = n div 64" and "j = n mod 64"
  have n: "n = 64 * q + j" "q < 4" "j < 64" using assms(1) by (simp_all add: q_def j_def div_less_iff_less_mult)
  have nth: "[f 0, f 1, f 2, f 3] ! q = f q" for f :: "nat \<Rightarrow> u64"
    using n(2) by (auto simp: less_Suc_eq numeral_eq_Suc)
  show ?thesis
  proof (cases "k = 0")
    case True
    then show ?thesis using n bit_mask_of_words [OF assms(1)] nth [of "le64 bs"]
      by (simp add: SNMaskSHL_def q_def [symmetric] j_def [symmetric] bit_le64)
  next
    case False
    let ?f = "\<lambda>i. drop_bit k (le64 bs i) OR push_bit (64 - k) (le64 bs (i + 1))"
    have "bit (SNMaskSHL bs k) n \<longleftrightarrow> bit (?f q) j"
      using False bit_mask_of_words [OF assms(1), of "?f 0" "?f 1" "?f 2" "?f 3"] nth [of ?f]
      by (simp only: SNMaskSHL_def if_False Let_def q_def [symmetric] j_def [symmetric])
    also have "\<dots> \<longleftrightarrow> bit_at bs (n + k)"
    proof (cases "j + k < 64")
      case True
      then show ?thesis using False assms(2) n(1,3) by (auto simp: bit_simps bit_le64 ac_simps)
    next
      case carry: False
      have "64 * (q + 1) + (j - (64 - k)) = n + k" using carry assms(2) n(1) by simp
      then show ?thesis using False carry assms(2) n(3)
        by (auto simp: bit_simps bit_le64 ac_simps simp del: mult_Suc_right)
    qed
    finally show ?thesis .
  qed
qed

end
