(* ===== verification/Sn_Bg.thy ===== *)
theory Sn_Bg
  imports Sn_Mask Sn_Ppu
begin

text \<open>
  The first half of drawing a line (\<^verbatim>\<open>snppubg.cpp\<close>): what the registers say of the four
  backgrounds, which tiles of a background lie on a line, and the windows. A local array that
  the code does not initialise has arbitrary contents, which are an argument.
\<close>

section \<open>Data\<close>

record SnesRenderTileT =
  tile_uTile :: u16
  tile_uPal :: u8
  tile_uFlip :: u8
  tile_uOffsetY :: u8

record SnesBGInfoT =
  bg_uScrollX :: u32
  bg_uScrollY :: u32
  bg_uScrAddr :: u32
  bg_uChrAddr :: u32
  bg_uScrSize :: u8
  bg_uChrSize :: u8
  bg_uBitDepth :: u8
  bg_uPalBase :: u8
  bg_Priority :: u8
  bg_uMosaic :: u32

definition SNPPU_BGFLAGS_FETCHCHR :: u32 where "SNPPU_BGFLAGS_FETCHCHR = 1"
definition SNPPU_BGFLAGS_FETCHPAL :: u32 where "SNPPU_BGFLAGS_FETCHPAL = 2"
definition SNPPU_BGFLAGS_OFFSET :: u32 where "SNPPU_BGFLAGS_OFFSET = 4"

definition SNPPU_BGWINDOW_BG1 :: nat where "SNPPU_BGWINDOW_BG1 = 0"
definition SNPPU_BGWINDOW_BG2 :: nat where "SNPPU_BGWINDOW_BG2 = 1"
definition SNPPU_BGWINDOW_BG3 :: nat where "SNPPU_BGWINDOW_BG3 = 2"
definition SNPPU_BGWINDOW_BG4 :: nat where "SNPPU_BGWINDOW_BG4 = 3"
definition SNPPU_BGWINDOW_OBJ :: nat where "SNPPU_BGWINDOW_OBJ = 4"
definition SNPPU_BGWINDOW_COLOR :: nat where "SNPPU_BGWINDOW_COLOR = 5"

text \<open>
  The word at an index from the start of the video memory. The object memory follows it in the
  object, so a pointer that runs over the end reads it.
\<close>

definition vram_word :: "ppu_view \<Rightarrow> nat \<Rightarrow> u16 option" where
  "vram_word v i =
     (if i < SNESPPU_VRAM_NUMWORDS then arr_get (m_VRAM v) i
      else do { l \<leftarrow> arr_get (m_OAM v) (2 * (i - SNESPPU_VRAM_NUMWORDS));
                h \<leftarrow> arr_get (m_OAM v) (2 * (i - SNESPPU_VRAM_NUMWORDS) + 1);
                Some (mk16 h l) })"

definition GetVramPtr :: "u32 \<Rightarrow> nat" where
  "GetVramPtr uVramAddr = unat (uVramAddr AND 0x7FFF)"

section \<open>Screens\<close>

definition u_SnesPPU_ScrSizeOffset :: "u32 list list" where
  "u_SnesPPU_ScrSizeOffset =
    [
     [0x0000, 0x0000, 0x0000, 0x0000],
     [0x0000, 0x0400, 0x0000, 0x0400],
     [0x0000, 0x0000, 0x0400, 0x0400],
     [0x0000, 0x0400, 0x0800, 0x0C00]]"

definition u_SNPPUBg_Tile16Pos :: "u8 list list" where
  "u_SNPPUBg_Tile16Pos =
    [
     [0, 1, 0, 0],
     [1, 0, 0, 0],
     [16, 17, 0, 0],
     [17, 16, 0, 0]]"

definition u_GetScreenPtrs :: "u32 \<Rightarrow> u8 \<Rightarrow> nat list option" where
  "u_GetScreenPtrs uScrAddr uScrSize =
     do { os \<leftarrow> arr_get u_SnesPPU_ScrSizeOffset (unat uScrSize);
          Some (map (\<lambda>off. GetVramPtr (uScrAddr + off)) os) }"

definition screen_at :: "nat list \<Rightarrow> 'a::len word \<Rightarrow> nat" where
  "screen_at ppScreen uAddr = ppScreen ! unat (drop_bit 10 uAddr AND 3)"

text \<open>To the next column: at the end of a row of 32 to its start, on the screen beside it.\<close>

definition next_column :: "nat list \<Rightarrow> 'a::len word \<times> nat \<Rightarrow> 'a word \<times> nat" where
  "next_column ppScreen = (\<lambda>(uAddr, pScrData).
     let uAddr = uAddr + 1 in
     if uAddr AND 0x1F = 0
     then let uAddr = (uAddr - 32) XOR 0x400 in (uAddr, screen_at ppScreen uAddr)
     else (uAddr, pScrData))"

definition scr_data :: "ppu_view \<Rightarrow> 'a::len word \<times> nat \<Rightarrow> u16 option" where
  "scr_data v = (\<lambda>(uAddr, pScrData). vram_word v (pScrData + unat (uAddr AND 0x3FF)))"

text \<open>Screen data is of format \<^verbatim>\<open>YX?cccNNNNNNNNNN\<close>.\<close>

definition tile_of :: "u16 \<Rightarrow> u8 \<Rightarrow> SnesRenderTileT" where
  "tile_of w y = \<lparr>tile_uTile = w AND 0x3FF, tile_uPal = ucast (drop_bit 10 w AND 0xF), tile_uFlip = ucast (drop_bit 14 w AND 3),
     tile_uOffsetY = y\<rparr>"

section \<open>Rows of tiles\<close>

fun fetch_offset_loop :: "ppu_view \<Rightarrow> nat list \<Rightarrow> nat \<Rightarrow> u16 \<times> nat \<Rightarrow> nat \<Rightarrow> u32 \<Rightarrow> u16 list \<Rightarrow> (u32 \<times> u16 list) option" where
  "fetch_offset_loop v ppScreen 0 p i uOffsetOR os = Some (uOffsetOR, os)"
| "fetch_offset_loop v ppScreen (Suc n) p i uOffsetOR os =
     do { w \<leftarrow> scr_data v p;
          os \<leftarrow> arr_set os i w;
          fetch_offset_loop v ppScreen n (next_column ppScreen p) (i + 2) (uOffsetOR OR ucast w) os }"

text \<open>\<open>base\<close> is the index that \<^verbatim>\<open>pOffset\<close> points to.\<close>

definition u_FetchOffset :: "ppu_view \<Rightarrow> u16 \<Rightarrow> nat \<Rightarrow> nat \<Rightarrow> nat list \<Rightarrow> u16 list \<Rightarrow> (u32 \<times> u16 list) option" where
  "u_FetchOffset v uAddr base nTiles ppScreen os =
     do { os \<leftarrow> arr_set os base 0;
          os \<leftarrow> arr_set os (base + 1) 0;
          fetch_offset_loop v ppScreen (nTiles - 1) (uAddr, screen_at ppScreen uAddr) (base + 2) 0 os }"

fun fetch8_loop :: "ppu_view \<Rightarrow> nat list \<Rightarrow> nat \<Rightarrow> u32 \<times> nat \<Rightarrow> nat \<Rightarrow> SnesRenderTileT list \<Rightarrow> SnesRenderTileT list option" where
  "fetch8_loop v ppScreen 0 p i ts = Some ts"
| "fetch8_loop v ppScreen (Suc n) p i ts =
     do { w \<leftarrow> scr_data v p;
          ts \<leftarrow> arr_set ts i (tile_of w 0);
          fetch8_loop v ppScreen n (next_column ppScreen p) (i + 1) ts }"

definition u_FetchBG8x8 :: "ppu_view \<Rightarrow> u32 \<Rightarrow> nat \<Rightarrow> nat list \<Rightarrow> SnesRenderTileT list \<Rightarrow> SnesRenderTileT list option" where
  "u_FetchBG8x8 v uAddr nTiles ppScreen ts = fetch8_loop v ppScreen nTiles (uAddr, screen_at ppScreen uAddr) 0 ts"

text \<open>A tile of 16 pixels is two of 8; the first one of the line may be a right half.\<close>

function fetch16_loop :: "ppu_view \<Rightarrow> nat list \<Rightarrow> int \<Rightarrow> u32 \<times> nat \<Rightarrow> nat \<Rightarrow> u32 \<Rightarrow> SnesRenderTileT list \<Rightarrow> SnesRenderTileT list option" where
  "fetch16_loop v ppScreen nTiles p i uFlipXOR ts =
     (if nTiles > 0 then
        do { w \<leftarrow> scr_data v p;
             let t = tile_of w 0;
             pOffset \<leftarrow> arr_get u_SNPPUBg_Tile16Pos (unat (ucast (tile_uFlip t) XOR uFlipXOR));
             ts \<leftarrow> arr_set ts i (t\<lparr>tile_uTile := tile_uTile t + ucast (pOffset ! 0)\<rparr>);
             (ts, k) \<leftarrow> (if uFlipXOR AND 1 = 0
                        then do { ts \<leftarrow> arr_set ts (i + 1) (t\<lparr>tile_uTile := tile_uTile t + ucast (pOffset ! 1)\<rparr>);
                                  Some (ts, 2) }
                        else Some (ts, 1));
             fetch16_loop v ppScreen (nTiles - int k) (next_column ppScreen p) (i + k) (uFlipXOR AND NOT 1) ts }
      else Some ts)"
  by pat_completeness auto
termination
  by (relation "measure (\<lambda>(v, s, n, p, i, u, ts). nat n)") (auto split: if_splits bind_splits)

declare fetch16_loop.simps [simp del]

definition u_FetchBG16x16 :: "ppu_view \<Rightarrow> u32 \<Rightarrow> nat \<Rightarrow> nat list \<Rightarrow> u32 \<Rightarrow> SnesRenderTileT list \<Rightarrow> SnesRenderTileT list option" where
  "u_FetchBG16x16 v uAddr nTiles ppScreen uFlipXOR ts =
     fetch16_loop v ppScreen (int nTiles) (uAddr, screen_at ppScreen uAddr) 0 uFlipXOR ts"

text \<open>The address of a tile in the format \<^verbatim>\<open>ssyyyyyxxxxx\<close>.\<close>

definition tile_address :: "u32 \<Rightarrow> u32 \<Rightarrow> u32" where
  "tile_address uTileX uTileY =
     (uTileX AND 0x1F) OR push_bit 5 (uTileY AND 0x1F) OR push_bit 10 (drop_bit 5 uTileX) OR push_bit 11 (drop_bit 5 uTileY)"

text \<open>With an offset per tile every column computes its own address.\<close>

definition offset_tile :: "ppu_view \<Rightarrow> nat list \<Rightarrow> u32 \<Rightarrow> u32 \<Rightarrow> SnesRenderTileT option" where
  "offset_tile v ppScreen uTileScrollX uTileScrollY =
     (let uAddr = tile_address (drop_bit 3 uTileScrollX AND 63) (drop_bit 3 uTileScrollY AND 63) in
      do { w \<leftarrow> scr_data v (uAddr, screen_at ppScreen uAddr);
           Some (tile_of w (ucast (uTileScrollY AND 7))) })"

fun fetch8_offset_loop :: "(u16 list \<Rightarrow> nat \<Rightarrow> u32 \<Rightarrow> u32 \<times> u32) \<Rightarrow> ppu_view \<Rightarrow> nat list \<Rightarrow> u32 \<Rightarrow> u16 list \<Rightarrow> u32 \<Rightarrow> nat \<Rightarrow> nat \<Rightarrow> u32 \<Rightarrow>
    SnesRenderTileT list \<Rightarrow> SnesRenderTileT list option" where
  "fetch8_offset_loop sc v ppScreen iLine os uOffsetMask 0 i uX ts = Some ts"
| "fetch8_offset_loop sc v ppScreen iLine os uOffsetMask (Suc n) i uX ts =
     (if 2 * i + 1 < length os then
        do { let (x, y) = sc os (2 * i) uOffsetMask;
             t \<leftarrow> offset_tile v ppScreen (x + uX) (y + iLine);
             ts \<leftarrow> arr_set ts i t;
             fetch8_offset_loop sc v ppScreen iLine os uOffsetMask n (i + 1) (uX + 8) ts }
      else None)"

definition scroll_both :: "u32 \<Rightarrow> u32 \<Rightarrow> u16 list \<Rightarrow> nat \<Rightarrow> u32 \<Rightarrow> u32 \<times> u32" where
  "scroll_both uScrollX uScrollY os k m =
     (if ucast (os ! k) AND m \<noteq> 0 then ucast (os ! k) AND 0x7FF else uScrollX,
      if ucast (os ! (k + 1)) AND m \<noteq> 0 then ucast (os ! (k + 1)) AND 0x7FF else uScrollY)"

definition scroll_either :: "u32 \<Rightarrow> u32 \<Rightarrow> u16 list \<Rightarrow> nat \<Rightarrow> u32 \<Rightarrow> u32 \<times> u32" where
  "scroll_either uScrollX uScrollY os k m =
     (if ucast (os ! k) AND m \<noteq> 0
      then if os ! k AND 0x8000 \<noteq> 0 then (uScrollX, ucast (os ! k) AND 0x7FF) else (ucast (os ! k) AND 0x7FF, uScrollY)
      else (uScrollX, uScrollY))"

definition u_FetchBG8x8Offset :: "ppu_view \<Rightarrow> u32 \<Rightarrow> u32 \<Rightarrow> u32 \<Rightarrow> nat \<Rightarrow> nat list \<Rightarrow> u16 list \<Rightarrow> u32 \<Rightarrow>
    SnesRenderTileT list \<Rightarrow> SnesRenderTileT list option" where
  "u_FetchBG8x8Offset v uScrollX uScrollY iLine nTiles ppScreen os m ts =
     fetch8_offset_loop (scroll_both uScrollX uScrollY) v ppScreen iLine os m nTiles 0 0 ts"

definition u_FetchBG8x8Offset2 :: "ppu_view \<Rightarrow> u32 \<Rightarrow> u32 \<Rightarrow> u32 \<Rightarrow> nat \<Rightarrow> nat list \<Rightarrow> u16 list \<Rightarrow> u32 \<Rightarrow>
    SnesRenderTileT list \<Rightarrow> SnesRenderTileT list option" where
  "u_FetchBG8x8Offset2 v uScrollX uScrollY iLine nTiles ppScreen os m ts =
     fetch8_offset_loop (scroll_either uScrollX uScrollY) v ppScreen iLine os m nTiles 0 0 ts"

text \<open>A line of tiles is fetched again only when its address is another than that of the last line.\<close>

definition mosaic_line :: "u32 \<Rightarrow> u32 \<Rightarrow> u32" where
  "mosaic_line uMosaic iLine = (if uMosaic > 0 then iLine div (uMosaic + 1) * (uMosaic + 1) else iLine)"

definition fine_flags :: "u32 \<Rightarrow> u32 \<Rightarrow> u32 \<Rightarrow> u32" where
  "fine_flags uOldVramAddr uScrollX uScrollY =
     (if drop_bit 16 uOldVramAddr AND 7 \<noteq> uScrollX AND 7 then SNPPU_BGFLAGS_FETCHPAL else 0) OR
     (if drop_bit 24 uOldVramAddr AND 7 \<noteq> uScrollY AND 7 then SNPPU_BGFLAGS_FETCHCHR else 0)"

definition FetchBG :: "ppu_view \<Rightarrow> SnesBGInfoT \<Rightarrow> nat \<Rightarrow> u32 \<Rightarrow> SnesRenderTileT list \<Rightarrow> u32 \<Rightarrow> (u32 \<times> SnesRenderTileT list \<times> u32) option" where
  "FetchBG v b nTiles iLine ts uOldVramAddr =
     (if bg_uBitDepth b = 0 then Some (0, ts, uOldVramAddr)
      else
        let uScrollX = bg_uScrollX b; uScrollY = bg_uScrollY b + mosaic_line (bg_uMosaic b) iLine;
            uResult = fine_flags uOldVramAddr uScrollX uScrollY;
            fetched = uResult OR SNPPU_BGFLAGS_FETCHCHR OR SNPPU_BGFLAGS_FETCHPAL
        in do { (uResult, ts, uVramAddr) \<leftarrow>
                  (if bg_uChrSize b = 0 then
                     let uVramAddr = tile_address (drop_bit 3 uScrollX AND 63) (drop_bit 3 uScrollY AND 63) in
                     if uVramAddr \<noteq> uOldVramAddr AND 0xFFFF
                     then do { s \<leftarrow> u_GetScreenPtrs (bg_uScrAddr b) (bg_uScrSize b);
                               ts \<leftarrow> u_FetchBG8x8 v uVramAddr nTiles s ts;
                               Some (fetched, ts, uVramAddr) }
                     else Some (uResult, ts, uVramAddr)
                   else if bg_uChrSize b = 1 then
                     let uFlipXOR = (if uScrollX AND 8 \<noteq> 0 then 1 else 0) OR (if uScrollY AND 8 \<noteq> 0 then 2 else 0);
                         uVramAddr = tile_address (drop_bit 4 uScrollX AND 63) (drop_bit 4 uScrollY AND 63) OR push_bit 12 uFlipXOR in
                     if uVramAddr \<noteq> uOldVramAddr AND 0xFFFF
                     then do { s \<leftarrow> u_GetScreenPtrs (bg_uScrAddr b) (bg_uScrSize b);
                               ts \<leftarrow> u_FetchBG16x16 v (uVramAddr AND 0xFFF) nTiles s uFlipXOR ts;
                               Some (fetched, ts, uVramAddr) }
                     else Some (uResult, ts, uVramAddr)
                   else None);
                Some (uResult, ts, uVramAddr OR push_bit 16 (uScrollX AND 7) OR push_bit 24 (uScrollY AND 7)) })"

definition FetchBGOffset :: "ppu_view \<Rightarrow> SnesBGInfoT \<Rightarrow> nat \<Rightarrow> u32 \<Rightarrow> u16 list \<Rightarrow> u32 \<Rightarrow> bool \<Rightarrow> SnesRenderTileT list \<Rightarrow>
    (u32 \<times> SnesRenderTileT list) option" where
  "FetchBGOffset v b nTiles iLine os uOffsetMask bVOffset ts =
     (if bg_uBitDepth b = 0 then Some (0, ts)
      else do { ts \<leftarrow> (if bg_uChrSize b = 0
                     then do { s \<leftarrow> u_GetScreenPtrs (bg_uScrAddr b) (bg_uScrSize b);
                               (if bVOffset
                                then u_FetchBG8x8Offset2 v (bg_uScrollX b) (bg_uScrollY b) iLine nTiles s os uOffsetMask ts
                                else u_FetchBG8x8Offset v (bg_uScrollX b) (bg_uScrollY b) iLine nTiles s os uOffsetMask ts) }
                     else if bg_uChrSize b = 1 then Some ts else None);
                Some (SNPPU_BGFLAGS_FETCHCHR OR SNPPU_BGFLAGS_FETCHPAL OR SNPPU_BGFLAGS_OFFSET, ts) })"

definition FetchOffset :: "ppu_view \<Rightarrow> SnesBGInfoT \<Rightarrow> u16 list \<Rightarrow> u32 \<Rightarrow> bool \<Rightarrow> (u32 \<times> u16 list \<times> u32) option" where
  "FetchOffset v b os uOldVramAddr bVOffset =
     (let uVramAddr = tile_address (drop_bit 3 (bg_uScrollX b) AND 63) (drop_bit 3 (bg_uScrollY b) AND 63) in
      if bg_uScrSize b = 0 \<or> bg_uScrSize b = 1 then
        (if uVramAddr \<noteq> uOldVramAddr
         then do { s \<leftarrow> u_GetScreenPtrs (bg_uScrAddr b) (bg_uScrSize b);
                   (uOffsetOR, os) \<leftarrow> u_FetchOffset v (ucast uVramAddr) 0 32 s os;
                   (uOffsetOR, os) \<leftarrow> (if bVOffset
                      then do { (n, os) \<leftarrow> u_FetchOffset v (ucast (uVramAddr + 32)) 1 32 s os; Some (uOffsetOR OR n, os) }
                      else Some (uOffsetOR, os));
                   os \<leftarrow> arr_set os 64 (ucast uOffsetOR);
                   Some (uOffsetOR, os, uVramAddr) }
         else do { n \<leftarrow> arr_get os 64; Some (ucast n, os, uOldVramAddr) })
      else Some (0, os, uOldVramAddr))"

section \<open>Windows\<close>

definition u_SetBGMask :: "SNMaskT list \<Rightarrow> u8 \<Rightarrow> u8 \<Rightarrow> SNMaskT" where
  "u_SetBGMask pWindow uWSel uWLog =
     (let pWindow1 = (if uWSel AND 2 \<noteq> 0 then Some (if uWSel AND 1 \<noteq> 0 then pWindow ! 2 else pWindow ! 0) else None);
          pWindow2 = (if uWSel AND 8 \<noteq> 0 then Some (if uWSel AND 4 \<noteq> 0 then pWindow ! 3 else pWindow ! 1) else None)
      in case pWindow1 of
           Some w1 \<Rightarrow>
             (case pWindow2 of
                Some w2 \<Rightarrow>
                  (if uWLog AND 3 = 0 then SNMaskOR w1 w2 else if uWLog AND 3 = 1 then SNMaskAND w1 w2
                   else if uWLog AND 3 = 2 then SNMaskXOR w1 w2 else SNMaskXNOR w1 w2)
              | None \<Rightarrow> w1)
         | None \<Rightarrow> (case pWindow2 of Some w2 \<Rightarrow> w2 | None \<Rightarrow> SNMaskClear))"

definition DecodeWindows :: "SnesPPURegsT \<Rightarrow> (SNMaskT list \<times> SNMaskT list) option" where
  "DecodeWindows r =
     do { w0 \<leftarrow> SNMaskRange (ucast (r_wh0 r)) (ucast (r_wh1 r)) False;
          w1 \<leftarrow> SNMaskRange (ucast (r_wh2 r)) (ucast (r_wh3 r)) False;
          let w = [w0, w1, SNMaskNOT w0, SNMaskNOT w1];
          Some (w,
            [u_SetBGMask w (r_w12sel r AND 0xF) (r_wbglog r AND 3),
             u_SetBGMask w (drop_bit 4 (r_w12sel r) AND 0xF) (drop_bit 2 (r_wbglog r) AND 3),
             u_SetBGMask w (r_w34sel r AND 0xF) (drop_bit 4 (r_wbglog r) AND 3),
             u_SetBGMask w (drop_bit 4 (r_w34sel r) AND 0xF) (drop_bit 6 (r_wbglog r) AND 3),
             u_SetBGMask w (r_wobjsel r AND 0xF) (r_wobjlog r AND 3),
             u_SetBGMask w (drop_bit 4 (r_wobjsel r) AND 0xF) (drop_bit 2 (r_wobjlog r) AND 3)]) }"

section \<open>Backgrounds\<close>

definition bg1_regs :: "SnesPPURegsT \<Rightarrow> SnesBGInfoT \<Rightarrow> SnesBGInfoT" where
  "bg1_regs r b = b\<lparr>bg_uScrollX := ucast (r_bg1hofs r) AND 0x7FF, bg_uScrollY := ucast (r_bg1vofs r) AND 0x7FF,
     bg_uScrAddr := push_bit 10 (ucast (drop_bit 2 (r_bg1sc r))), bg_uScrSize := r_bg1sc r AND 3,
     bg_uChrAddr := push_bit 12 (ucast (r_bg12nba r AND 0xF)), bg_uChrSize := drop_bit 4 (r_bgmode r) AND 1,
     bg_uMosaic := (if r_mosaic r AND 1 \<noteq> 0 then ucast (drop_bit 4 (r_mosaic r)) else 0)\<rparr>"

definition bg2_regs :: "SnesPPURegsT \<Rightarrow> SnesBGInfoT \<Rightarrow> SnesBGInfoT" where
  "bg2_regs r b = b\<lparr>bg_uScrollX := ucast (r_bg2hofs r) AND 0x7FF, bg_uScrollY := ucast (r_bg2vofs r) AND 0x7FF,
     bg_uScrAddr := push_bit 10 (ucast (drop_bit 2 (r_bg2sc r))), bg_uScrSize := r_bg2sc r AND 3,
     bg_uChrAddr := push_bit 12 (ucast (drop_bit 4 (r_bg12nba r) AND 0xF)), bg_uChrSize := drop_bit 5 (r_bgmode r) AND 1,
     bg_uMosaic := (if r_mosaic r AND 2 \<noteq> 0 then ucast (drop_bit 4 (r_mosaic r)) else 0)\<rparr>"

definition bg3_regs :: "SnesPPURegsT \<Rightarrow> SnesBGInfoT \<Rightarrow> SnesBGInfoT" where
  "bg3_regs r b = b\<lparr>bg_uScrollX := ucast (r_bg3hofs r) AND 0x7FF, bg_uScrollY := ucast (r_bg3vofs r) AND 0x7FF,
     bg_uScrAddr := push_bit 10 (ucast (drop_bit 2 (r_bg3sc r))), bg_uScrSize := r_bg3sc r AND 3,
     bg_uChrAddr := push_bit 12 (ucast (r_bg34nba r AND 0xF)), bg_uChrSize := drop_bit 6 (r_bgmode r) AND 1,
     bg_uMosaic := (if r_mosaic r AND 4 \<noteq> 0 then ucast (drop_bit 4 (r_mosaic r)) else 0)\<rparr>"

definition bg4_regs :: "SnesPPURegsT \<Rightarrow> SnesBGInfoT \<Rightarrow> SnesBGInfoT" where
  "bg4_regs r b = b\<lparr>bg_uScrollX := ucast (r_bg4hofs r) AND 0x7FF, bg_uScrollY := ucast (r_bg4vofs r) AND 0x7FF,
     bg_uScrAddr := push_bit 10 (ucast (drop_bit 2 (r_bg4sc r))), bg_uScrSize := r_bg4sc r AND 3,
     bg_uChrAddr := push_bit 12 (ucast (drop_bit 4 (r_bg34nba r) AND 0xF)), bg_uChrSize := drop_bit 7 (r_bgmode r) AND 1,
     bg_uMosaic := (if r_mosaic r AND 8 \<noteq> 0 then ucast (drop_bit 4 (r_mosaic r)) else 0)\<rparr>"

text \<open>Bit depth, base of the palette and place in the order of the layers.\<close>

definition depth :: "u8 \<Rightarrow> SnesBGInfoT \<Rightarrow> SnesBGInfoT" where "depth n b = b\<lparr>bg_uBitDepth := n\<rparr>"
definition pal_base :: "u8 \<Rightarrow> SnesBGInfoT \<Rightarrow> SnesBGInfoT" where "pal_base n b = b\<lparr>bg_uPalBase := n\<rparr>"
definition prio :: "u8 \<Rightarrow> SnesBGInfoT \<Rightarrow> SnesBGInfoT" where "prio n b = b\<lparr>bg_Priority := n\<rparr>"

definition bg_modes :: "u8 \<Rightarrow> (SnesBGInfoT \<Rightarrow> SnesBGInfoT) list" where
  "bg_modes m =
     (if m = 0 then [prio 3 \<circ> pal_base 0 \<circ> depth 2, prio 2 \<circ> pal_base 1 \<circ> depth 2, prio 1 \<circ> pal_base 2 \<circ> depth 2,
                     prio 0 \<circ> pal_base 3 \<circ> depth 2]
      else if m = 1 then [prio 3 \<circ> pal_base 0 \<circ> depth 4, prio 2 \<circ> pal_base 0 \<circ> depth 4, prio 1 \<circ> pal_base 0 \<circ> depth 2,
                          prio 0 \<circ> pal_base 0 \<circ> depth 0]
      else if m = 3 then [prio 5 \<circ> depth 8, prio 4 \<circ> depth 4, depth 0, depth 0]
      else if m = 2 then [prio 5 \<circ> depth 4, prio 4 \<circ> depth 4, depth 0, depth 0]
      else if m = 4 then [prio 5 \<circ> depth 8, prio 4 \<circ> depth 2, depth 0, depth 0]
      else if m = 5 then [prio 5 \<circ> depth 4, prio 4 \<circ> depth 2, depth 0, depth 0]
      else if m = 6 then [prio 5 \<circ> depth 8, prio 4 \<circ> depth 0, id, id]
      else [prio 7 \<circ> (\<lambda>b. b\<lparr>bg_uScrollX := 0, bg_uScrollY := 0\<rparr>) \<circ> depth 8, prio 7 \<circ> depth 0, prio 7 \<circ> depth 0, prio 7 \<circ> depth 0])"

text \<open>
  \<open>J\<close> is what the array holds before: mode 6 does not set the bit depths of the last two
  backgrounds, and modes other than 0 and 1 do not set the base of the palette.
\<close>

definition DecodeBGInfo :: "SnesBGInfoT list \<Rightarrow> SnesPPURegsT \<Rightarrow> SnesBGInfoT list" where
  "DecodeBGInfo J r =
     (let m = bg_modes (r_bgmode r AND 7) in
      [(m ! 0) (bg1_regs r (J ! 0)), (m ! 1) (bg2_regs r (J ! 1)), (m ! 2) (bg3_regs r (J ! 2)), (m ! 3) (bg4_regs r (J ! 3))])"

end
