(* ===== verification/Sn_Obj.thy ===== *)
theory Sn_Obj
  imports Sn_Bg
begin

text \<open>
  Objects (\<^verbatim>\<open>snppuobj.cpp\<close> and \<^verbatim>\<open>_FetchOBJ\<close> of \<^verbatim>\<open>snppurender8.cpp\<close>): decoding the object memory, the
  lists of the objects of every line, and the columns of eight pixels of the objects of a line.
\<close>

section \<open>Decoding\<close>

record SnesRenderObjT =
  obj_uPosX :: u16
  obj_uPosY :: u8
  obj_uTile :: u16
  obj_bHFlip :: u8
  obj_uVXOR :: u8
  obj_uSize :: u8
  obj_uSizeShift :: u8
  obj_uPri :: u8
  obj_uPal :: u8

definition SNESPPU_OBJ_NUM :: nat where "SNESPPU_OBJ_NUM = 128"
definition SNPPU_MAXLINE :: nat where "SNPPU_MAXLINE = 225"
definition SNPPU_MAXOBJ :: nat where "SNPPU_MAXOBJ = 32"
definition SNPPU_MAXOBJCHR :: nat where "SNPPU_MAXOBJCHR = 34"

definition u_SnesPPU_OAMSize :: "(u8 \<times> u8) list" where
  "u_SnesPPU_OAMSize =
    [
     (0, 1),
     (0, 2),
     (0, 3),
     (1, 2),
     (1, 3),
     (2, 3),
     (0, 0),
     (0, 0)]"

text \<open>A byte of the high table has two bits for each of four objects.\<close>

definition decode_ex :: "u8 \<times> u8 \<Rightarrow> u8 \<Rightarrow> SnesRenderObjT \<Rightarrow> SnesRenderObjT" where
  "decode_ex pOAMSize uObjEx o' =
     o'\<lparr>obj_uPosX := push_bit 8 (ucast (uObjEx AND 1)),
       obj_uSizeShift := (if drop_bit 1 uObjEx AND 1 = 0 then fst pOAMSize else snd pOAMSize)\<rparr>"

fun u_DecodeOBJEX :: "u8 \<times> u8 \<Rightarrow> u8 list \<Rightarrow> SnesRenderObjT list \<Rightarrow> SnesRenderObjT list option" where
  "u_DecodeOBJEX sz (e # es) (a # b # c # d # os) =
     do { os \<leftarrow> u_DecodeOBJEX sz es os;
          Some (decode_ex sz e a # decode_ex sz (drop_bit 2 e) b # decode_ex sz (drop_bit 4 e) c # decode_ex sz (drop_bit 6 e) d # os) }"
| "u_DecodeOBJEX sz es [] = Some []"
| "u_DecodeOBJEX sz es os = None"

definition decode_obj :: "u8 \<Rightarrow> u8 \<Rightarrow> u8 \<Rightarrow> u8 \<Rightarrow> SnesRenderObjT \<Rightarrow> SnesRenderObjT" where
  "decode_obj uX uY uTile uAttrib o' =
     (let uSize = push_bit (unat (obj_uSizeShift o')) 8 in
      o'\<lparr>obj_uPosX := obj_uPosX o' OR ucast uX, obj_uPosY := uY + 1, obj_uPal := drop_bit 1 uAttrib AND 7,
        obj_uPri := drop_bit 4 uAttrib AND 3, obj_bHFlip := drop_bit 6 uAttrib AND 1, obj_uSize := uSize,
        obj_uVXOR := (if uAttrib AND 0x80 \<noteq> 0 then uSize - 1 else 0),
        obj_uTile := ucast uTile OR push_bit 8 (ucast (uAttrib AND 1))\<rparr>)"

fun u_DecodeOBJ :: "u8 list \<Rightarrow> SnesRenderObjT list \<Rightarrow> SnesRenderObjT list option" where
  "u_DecodeOBJ (x # y # t # a # bs) (o' # os) = do { os \<leftarrow> u_DecodeOBJ bs os; Some (decode_obj x y t a o' # os) }"
| "u_DecodeOBJ bs [] = Some []"
| "u_DecodeOBJ bs os = None"

text \<open>\<^verbatim>\<open>pObjY\<close> and \<^verbatim>\<open>pObjSize\<close> are the positions and sizes once more, as two arrays.\<close>

definition UpdateOBJ :: "ppu_view \<Rightarrow> SnesRenderObjT list \<Rightarrow> (SnesRenderObjT list \<times> u8 list \<times> u8 list) option" where
  "UpdateOBJ v objs =
     do { sz \<leftarrow> arr_get u_SnesPPU_OAMSize (unat (drop_bit 5 (r_obsel (ppu_Regs v)) AND 7));
          objs \<leftarrow> u_DecodeOBJEX sz (drop (4 * SNESPPU_OBJ_NUM) (m_OAM v)) objs;
          objs \<leftarrow> u_DecodeOBJ (take (4 * SNESPPU_OBJ_NUM) (m_OAM v)) objs;
          Some (objs, map obj_uPosY objs, map obj_uSize objs) }"

section \<open>The objects of a line\<close>

text \<open>Scanning all objects for one line; the two functions of this name differ in where they read.\<close>

definition covers_line :: "u32 \<Rightarrow> u8 \<Rightarrow> u8 \<Rightarrow> bool" where
  "covers_line iLine y sz \<longleftrightarrow> (iLine - ucast y) AND 0xFF < ucast sz"

fun CheckOBJ_arrays :: "u8 list \<Rightarrow> u8 list \<Rightarrow> u32 \<Rightarrow> nat \<Rightarrow> nat \<Rightarrow> u32 \<Rightarrow> u8 list \<Rightarrow> u8 list option" where
  "CheckOBJ_arrays ys sizes iObj 0 MaxObjLine iLine l = Some l"
| "CheckOBJ_arrays ys sizes iObj (Suc n) MaxObjLine iLine l =
     (let iObj = iObj AND 0x7F in
      do { sz \<leftarrow> arr_get sizes (unat iObj);
           y \<leftarrow> arr_get ys (unat iObj);
           let l' = (if covers_line iLine y sz then l @ [ucast iObj] else l);
           (if covers_line iLine y sz \<and> length l' \<ge> MaxObjLine then Some l'
            else CheckOBJ_arrays ys sizes (iObj + 1) n MaxObjLine iLine l') })"

fun CheckOBJ_objs :: "SnesRenderObjT list \<Rightarrow> u32 \<Rightarrow> nat \<Rightarrow> nat \<Rightarrow> u32 \<Rightarrow> u8 list \<Rightarrow> u8 list option" where
  "CheckOBJ_objs objs iObj 0 MaxObjLine iLine l = Some l"
| "CheckOBJ_objs objs iObj (Suc n) MaxObjLine iLine l =
     do { o' \<leftarrow> arr_get objs (unat (iObj AND 0x7F));
          let b = covers_line iLine (obj_uPosY o') (obj_uSize o');
          let l' = (if b then l @ [ucast iObj] else l);
          (if b \<and> length l' \<ge> MaxObjLine then Some l' else CheckOBJ_objs objs (iObj + 1) n MaxObjLine iLine l') }"

text \<open>
  Filling the lists of all lines at once. \<^verbatim>\<open>m_nObjLine\<close> are the lengths, \<^verbatim>\<open>m_ObjLine\<close> rows of
  \<open>SNPPU_MAXOBJ\<close> bytes.
\<close>

definition add_obj :: "u8 \<Rightarrow> u32 \<Rightarrow> u8 list \<times> u8 list list \<Rightarrow> (u8 list \<times> u8 list list) option" where
  "add_obj iObj uObjY = (\<lambda>(ns, ls).
     if unat uObjY < SNPPU_MAXLINE then
       do { n \<leftarrow> arr_get ns (unat uObjY);
            (if unat n < SNPPU_MAXOBJ
             then do { l \<leftarrow> arr_get ls (unat uObjY);
                       l \<leftarrow> arr_set l (unat n) iObj;
                       ls \<leftarrow> arr_set ls (unat uObjY) l;
                       Some (ns[unat uObjY := n + 1], ls) }
             else Some (ns, ls)) }
     else Some (ns, ls))"

fun add_rows :: "u8 \<Rightarrow> nat \<Rightarrow> u32 \<Rightarrow> u8 list \<times> u8 list list \<Rightarrow> (u8 list \<times> u8 list list) option" where
  "add_rows iObj 0 uObjY s = Some s"
| "add_rows iObj (Suc n) uObjY s = do { s \<leftarrow> add_obj iObj uObjY s; add_rows iObj n ((uObjY + 1) AND 0xFF) s }"

fun visibility_loop :: "u8 list \<Rightarrow> u8 list \<Rightarrow> u32 \<Rightarrow> nat \<Rightarrow> u8 list \<times> u8 list list \<Rightarrow> (u8 list \<times> u8 list list) option" where
  "visibility_loop ys sizes iObj 0 s = Some s"
| "visibility_loop ys sizes iObj (Suc n) s =
     (let iObj = iObj AND 0x7F in
      do { sz \<leftarrow> arr_get sizes (unat iObj);
           y \<leftarrow> arr_get ys (unat iObj);
           s \<leftarrow> add_rows (ucast iObj) (unat sz) (ucast y) s;
           visibility_loop ys sizes (iObj + 1) n s })"

definition UpdateOBJVisibility :: "u8 list \<Rightarrow> u8 list \<Rightarrow> u32 \<Rightarrow> nat \<Rightarrow> u8 list list \<Rightarrow> (u8 list \<times> u8 list list) option" where
  "UpdateOBJVisibility ys sizes iObj nObjs ls = visibility_loop ys sizes iObj nObjs (replicate SNPPU_MAXLINE 0, ls)"

definition CheckOBJ_line :: "u8 list \<Rightarrow> u8 list list \<Rightarrow> int \<Rightarrow> (u8 list \<times> nat) option" where
  "CheckOBJ_line ns ls iLine =
     (if 0 \<le> iLine \<and> iLine < int SNPPU_MAXLINE
      then do { l \<leftarrow> arr_get ls (nat iLine); n \<leftarrow> arr_get ns (nat iLine); Some (take SNPPU_MAXOBJ l, unat n) }
      else Some ([], 0))"

section \<open>Lookup tables\<close>

text \<open>
  \<^verbatim>\<open>_SnesPPU_PlaneLookup\<close> spreads the bits of a byte to the bytes of a word of 64 bits: the leftmost
  pixel first, or mirrored; \<^verbatim>\<open>_SnesPPU_HFlipLookup\<close> mirrors a byte or not.
\<close>

definition u_HFlipBits :: "u8 \<Rightarrow> u8" where
  "u_HFlipBits Bits = fold (\<lambda>n FlipBits. if Bits AND push_bit n 1 \<noteq> 0 then FlipBits OR drop_bit n 0x80 else FlipBits) [0..<8] 0"

definition set_byte64 :: "nat \<Rightarrow> u8 \<Rightarrow> u64 \<Rightarrow> u64" where
  "set_byte64 i b w = (w AND NOT (push_bit (8 * i) 0xFF)) OR push_bit (8 * i) (ucast b)"

definition PlaneLookup :: "nat \<Rightarrow> u8 \<Rightarrow> u64" where
  "PlaneLookup k i =
     (let i = ucast i :: u32 in
      fold (\<lambda>iBit w. set_byte64 iBit
        (if k = 0 then (if push_bit iBit i AND 0x80 \<noteq> 0 then 1 else 0)
         else (if drop_bit iBit i AND 0x01 \<noteq> 0 then 1 else 0)) w) [0..<8] 0)"

definition HFlipLookup :: "nat \<Rightarrow> u8 \<Rightarrow> u8" where
  "HFlipLookup k i = (if k = 0 then i else u_HFlipBits i)"

text \<open>The two 32-bit halves of an entry.\<close>

definition PlaneLookup32 :: "nat \<Rightarrow> u8 \<Rightarrow> nat \<Rightarrow> u32" where
  "PlaneLookup32 k i h = ucast (drop_bit (32 * h) (PlaneLookup k i))"

definition bytes32 :: "u32 \<Rightarrow> u8 list" where
  "bytes32 w = map (\<lambda>i. ucast (drop_bit (8 * i) w)) [0..<4]"

definition bytes64 :: "u64 \<Rightarrow> u8 list" where
  "bytes64 w = map (\<lambda>i. ucast (drop_bit (8 * i) w)) [0..<8]"

section \<open>Columns of objects\<close>

record SnesRenderObj8T =
  o8_iPosX :: int
  o8_uPri :: u8
  o8_uPal :: u8
  o8_pixels :: "u8 list"
  o8_opaque :: u8

definition u_SnesPPU_Obj4PalLookup :: "u32 list" where
  "u_SnesPPU_Obj4PalLookup =
    [
     0x80808080 + 0x10101010 * 0,
     0x80808080 + 0x10101010 * 1,
     0x80808080 + 0x10101010 * 2,
     0x80808080 + 0x10101010 * 3,
     0x80808080 + 0x10101010 * 4,
     0x80808080 + 0x10101010 * 5,
     0x80808080 + 0x10101010 * 6,
     0x80808080 + 0x10101010 * 7]"

text \<open>The four planes of a row of a tile: a word, and the word eight further on.\<close>

definition planes4 :: "ppu_view \<Rightarrow> nat \<Rightarrow> u8 list option" where
  "planes4 v a = do { w0 \<leftarrow> vram_word v a; w1 \<leftarrow> vram_word v (a + 8); Some [lo8 w0, hi8 w0, lo8 w1, hi8 w1] }"

definition planes_word :: "nat \<Rightarrow> u8 list \<Rightarrow> nat \<Rightarrow> u32 \<Rightarrow> u32" where
  "planes_word k ps h w = fold (\<lambda>i w. w OR push_bit i (PlaneLookup32 k (ps ! i) h)) [0..<4] w"

definition obj_column :: "SnesRenderObjT \<Rightarrow> int \<Rightarrow> u8 list \<Rightarrow> SnesRenderObj8T option" where
  "obj_column o' ObjX ps =
     (let k = (if obj_bHFlip o' \<noteq> 0 then 1 else 0) in
      do { pal \<leftarrow> arr_get u_SnesPPU_Obj4PalLookup (unat (obj_uPal o'));
           Some \<lparr>o8_iPosX = ObjX, o8_uPri = obj_uPri o', o8_uPal = obj_uPal o',
             o8_pixels = bytes32 (planes_word k ps 0 pal) @ bytes32 (planes_word k ps 1 pal),
             o8_opaque = HFlipLookup (1 - k) (ps ! 0 OR ps ! 1 OR ps ! 2 OR ps ! 3)\<rparr> })"

text \<open>The columns of an object, for sizes that are multiples of eight; the last argument is \<^verbatim>\<open>pObjLine\<close>.\<close>

function obj_columns :: "ppu_view \<Rightarrow> SnesRenderObjT \<Rightarrow> nat \<Rightarrow> int \<Rightarrow> int \<Rightarrow> nat \<Rightarrow> nat \<Rightarrow> SnesRenderObj8T list \<Rightarrow>
    (bool \<times> SnesRenderObj8T list) option" where
  "obj_columns v o' MaxObj8Line ObjX iDeltaX uSize a l =
     (if uSize = 0 then Some (False, l)
      else if uSize < 8 then None
      else if - 8 \<le> ObjX \<and> ObjX < 256
      then do { ps \<leftarrow> planes4 v a;
                c \<leftarrow> obj_column o' ObjX ps;
                (if length (l @ [c]) \<ge> MaxObj8Line then Some (True, l @ [c])
                 else obj_columns v o' MaxObj8Line (ObjX + iDeltaX) iDeltaX (uSize - 8) (a + 16) (l @ [c])) }
      else obj_columns v o' MaxObj8Line (ObjX + iDeltaX) iDeltaX (uSize - 8) (a + 16) l)"
  by pat_completeness auto
termination by (relation "measure (\<lambda>(v, o', m, x, dx, n, a, l). n)") auto

declare obj_columns.simps [simp del]

definition sign_extend9 :: "u16 \<Rightarrow> int" where
  "sign_extend9 x = signed_take_bit 8 (uint x)"

definition obj_row :: "SnesRenderObjT \<Rightarrow> u32 \<Rightarrow> u32" where
  "obj_row o' iLine = ((iLine - ucast (obj_uPosY o')) XOR ucast (obj_uVXOR o')) AND (ucast (obj_uSize o') - 1)"

definition obj_address :: "SnesRenderObjT \<Rightarrow> u32 \<Rightarrow> u32 \<Rightarrow> u32 \<Rightarrow> nat" where
  "obj_address o' ObjY uBaseAddr uNameSelect =
     (let uTile = ucast (obj_uTile o') + push_bit 4 (drop_bit 3 ObjY);
          uTileAddr = uBaseAddr + uTile * 16;
          uTileAddr = (if uTile AND 0x100 \<noteq> 0 then uTileAddr + uNameSelect else uTileAddr)
      in unat (uTileAddr AND 0x7FFF) + unat (ObjY AND 7))"

text \<open>The objects are taken from the end of the list.\<close>

fun fetch_objs :: "ppu_view \<Rightarrow> SnesRenderObjT list \<Rightarrow> u8 list \<Rightarrow> nat \<Rightarrow> u32 \<Rightarrow> u32 \<Rightarrow> u32 \<Rightarrow> SnesRenderObj8T list \<Rightarrow> SnesRenderObj8T list option" where
  "fetch_objs v objs [] MaxObj8Line iLine uBaseAddr uNameSelect l = Some l"
| "fetch_objs v objs (i # is) MaxObj8Line iLine uBaseAddr uNameSelect l =
     do { o' \<leftarrow> arr_get objs (unat i);
          let uSize = unat (obj_uSize o');
          let ObjY = obj_row o' iLine;
          let a = obj_address o' ObjY uBaseAddr uNameSelect;
          (full, l) \<leftarrow>
            (if obj_bHFlip o' \<noteq> 0
             then obj_columns v o' MaxObj8Line (sign_extend9 (obj_uPosX o') + int uSize - 8) (- 8) uSize a l
             else obj_columns v o' MaxObj8Line (sign_extend9 (obj_uPosX o')) 8 uSize a l);
          (if full then Some l else fetch_objs v objs is MaxObj8Line iLine uBaseAddr uNameSelect l) }"

definition u_FetchOBJ :: "ppu_view \<Rightarrow> SnesRenderObjT list \<Rightarrow> u8 list \<Rightarrow> nat \<Rightarrow> nat \<Rightarrow> u32 \<Rightarrow> u32 \<Rightarrow> u32 \<Rightarrow> SnesRenderObj8T list option" where
  "u_FetchOBJ v objs pObjList nObjList MaxObj8Line iLine uBaseAddr uNameSelect =
     fetch_objs v objs (rev (take nObjList pObjList)) MaxObj8Line iLine uBaseAddr uNameSelect []"

end
