(* ===== verification/Sn_Chr.thy ===== *)
theory Sn_Chr
  imports Sn_Obj
begin

text \<open>
  The pixels of a background line (\<^verbatim>\<open>snppurender8.cpp\<close>): decoding of tiles of 2, 4 and 8 bits, mosaic,
  and the rotated background of mode 7. A background line is the part of \<^verbatim>\<open>BGPlanes\<close> before the
  two masks: 288 bytes, of which the code uses 33 tiles of eight.
\<close>

section \<open>Tables\<close>

definition u_SnesPPU_Tile2PalLookup64 :: "u64 list list" where
  "u_SnesPPU_Tile2PalLookup64 =
    map (\<lambda>base. map (\<lambda>k. base + 0x0404040404040404 * k) ([0, 1, 2, 3, 4, 5, 6, 7] @ [0, 1, 2, 3, 4, 5, 6, 7]))
      [0, 0x2020202020202020, 0x4040404040404040, 0x6060606060606060]"

definition u_SnesPPU_Tile4PalLookup64 :: "u64 list" where
  "u_SnesPPU_Tile4PalLookup64 = map (\<lambda>k. 0x1010101010101010 * k) ([0, 1, 2, 3, 4, 5, 6, 7] @ [0, 1, 2, 3, 4, 5, 6, 7])"

text \<open>The row is mirrored by exclusive or with 7; the other two say which lookup tables are used.\<close>

definition u_FlipTable8 :: "(u32 \<times> nat \<times> nat) list" where
  "u_FlipTable8 =
    [(0, 1, 0),
     (0, 0, 1),
     (7, 1, 0),
     (7, 0, 1)]"

section \<open>Tiles\<close>

text \<open>The bytes of \<open>n\<close> pairs of planes.\<close>

fun chr_planes :: "ppu_view \<Rightarrow> nat \<Rightarrow> nat \<Rightarrow> u8 list option" where
  "chr_planes v a 0 = Some []"
| "chr_planes v a (Suc n) = do { w \<leftarrow> vram_word v a; ps \<leftarrow> chr_planes v (a + 8) n; Some (lo8 w # hi8 w # ps) }"

definition chr_word :: "nat \<Rightarrow> u64 \<Rightarrow> u8 list \<Rightarrow> u64" where
  "chr_word k pal ps = fold (\<lambda>i w. w OR push_bit i (PlaneLookup k (ps ! i))) [0..<length ps] pal"

text \<open>The pixels of a tile, its mask, and its mask if it has priority. \<open>n\<close> is the number of pairs of planes.\<close>

definition chr_tile :: "ppu_view \<Rightarrow> u32 \<Rightarrow> nat \<Rightarrow> u32 \<Rightarrow> u64 \<Rightarrow> SnesRenderTileT \<Rightarrow> (u8 list \<times> u8 \<times> u8) option" where
  "chr_tile v uBaseAddr n uScrollY pal t =
     do { (uFlipXOR, h, k) \<leftarrow> arr_get u_FlipTable8 (unat (tile_uFlip t));
          let uTileAddr = (uBaseAddr + ucast (tile_uTile t) * word_of_nat (8 * n)) AND 0x7FFF;
          ps \<leftarrow> chr_planes v (unat uTileAddr + unat ((uScrollY + ucast (tile_uOffsetY t)) XOR uFlipXOR)) n;
          let uMask = HFlipLookup h (fold (OR) ps 0);
          Some (bytes64 (chr_word k pal ps), uMask, if tile_uPal t AND 8 \<noteq> 0 then uMask else 0) }"

fun chr_tiles :: "(SnesRenderTileT \<Rightarrow> (u8 list \<times> u8 \<times> u8) option) \<Rightarrow> SnesRenderTileT list \<Rightarrow> (u8 list \<times> u8 list \<times> u8 list) option" where
  "chr_tiles f [] = Some ([], [], [])"
| "chr_tiles f (t # ts) =
     do { (px, m, p) \<leftarrow> f t; (pxs, ms, ps) \<leftarrow> chr_tiles f ts; Some (px @ pxs, m # ms, p # ps) }"

definition u_FetchCHR2_64 :: "ppu_view \<Rightarrow> u32 \<Rightarrow> SnesRenderTileT list \<Rightarrow> u32 \<Rightarrow> u64 list \<Rightarrow> (u8 list \<times> u8 list \<times> u8 list) option" where
  "u_FetchCHR2_64 v uBaseAddr ts uScrollY pPalLookup =
     chr_tiles (\<lambda>t. do { pal \<leftarrow> arr_get pPalLookup (unat (tile_uPal t)); chr_tile v uBaseAddr 1 uScrollY pal t }) ts"

definition u_FetchCHR4_64 :: "ppu_view \<Rightarrow> u32 \<Rightarrow> SnesRenderTileT list \<Rightarrow> u32 \<Rightarrow> (u8 list \<times> u8 list \<times> u8 list) option" where
  "u_FetchCHR4_64 v uBaseAddr ts uScrollY =
     chr_tiles (\<lambda>t. do { pal \<leftarrow> arr_get u_SnesPPU_Tile4PalLookup64 (unat (tile_uPal t)); chr_tile v uBaseAddr 2 uScrollY pal t }) ts"

definition u_FetchCHR8_64 :: "ppu_view \<Rightarrow> u32 \<Rightarrow> SnesRenderTileT list \<Rightarrow> u32 \<Rightarrow> (u8 list \<times> u8 list \<times> u8 list) option" where
  "u_FetchCHR8_64 v uBaseAddr ts uScrollY = chr_tiles (chr_tile v uBaseAddr 4 uScrollY 0) ts"

section \<open>Mosaic\<close>

text \<open>Pixels are repeated, here for blocks of two in steps of eight pixels.\<close>

fun mosaic_pairs :: "nat \<Rightarrow> nat \<Rightarrow> u8 list \<Rightarrow> u8 list option" where
  "mosaic_pairs i 0 bs = Some bs"
| "mosaic_pairs i (Suc n) bs =
     (if i + 7 < length bs
      then mosaic_pairs (i + 8) n (bs[i + 1 := bs ! i, i + 3 := bs ! (i + 2), i + 5 := bs ! (i + 4), i + 7 := bs ! (i + 6)])
      else None)"

fun mosaic_fill :: "nat \<Rightarrow> u8 \<Rightarrow> nat \<Rightarrow> u8 list \<Rightarrow> u8 list option" where
  "mosaic_fill i d 0 bs = Some bs"
| "mosaic_fill i d (Suc n) bs = do { bs \<leftarrow> arr_set bs i d; mosaic_fill (i + 1) d n bs }"

text \<open>The general loop does not end for blocks of no pixels.\<close>

function mosaic_blocks :: "nat \<Rightarrow> nat \<Rightarrow> nat \<Rightarrow> u8 list \<Rightarrow> u8 list option" where
  "mosaic_blocks uMosaic i nPixels bs =
     (if nPixels = 0 then Some bs
      else if uMosaic = 0 then None
      else do { d \<leftarrow> arr_get bs i;
                bs \<leftarrow> mosaic_fill i d (min nPixels uMosaic) bs;
                mosaic_blocks uMosaic (i + min nPixels uMosaic) (nPixels - min nPixels uMosaic) bs })"
  by pat_completeness auto
termination by (relation "measure (\<lambda>(m, i, n, bs). n)") auto

declare mosaic_blocks.simps [simp del]

definition u_MosaicBG8 :: "u8 list \<Rightarrow> nat \<Rightarrow> nat \<Rightarrow> u32 \<Rightarrow> u8 list option" where
  "u_MosaicBG8 pLine base nPixels uMosaic =
     (if uMosaic = 2 then mosaic_pairs base ((nPixels + 7) div 8) pLine else mosaic_blocks (unat uMosaic) base nPixels pLine)"

definition set_pixel :: "nat \<Rightarrow> bool \<Rightarrow> SNMaskT \<Rightarrow> SNMaskT" where
  "set_pixel n b m =
     (if b then set_Mask8 m (n div 8) (uMask8 m (n div 8) OR push_bit (n mod 8) 1)
      else set_Mask8 m (n div 8) (uMask8 m (n div 8) AND NOT (push_bit (n mod 8) 1)))"

function mosaic_planar :: "nat \<Rightarrow> nat \<Rightarrow> nat \<Rightarrow> SNMaskT \<Rightarrow> SNMaskT option" where
  "mosaic_planar uMosaic i nTotalPixels m =
     (if i < nTotalPixels
      then if uMosaic = 0 then None
           else let k = min (nTotalPixels - i) uMosaic; b = (drop_bit (i mod 8) (uMask8 m (i div 8)) AND 1 \<noteq> 0) in
             mosaic_planar uMosaic (i + k) nTotalPixels (fold (\<lambda>n. set_pixel n b) [i..<i + k] m)
      else Some m)"
  by pat_completeness auto
termination by (relation "measure (\<lambda>(m, i, n, bs). n - i)") auto

declare mosaic_planar.simps [simp del]

definition u_MosaicBGPlanar :: "SNMaskT \<Rightarrow> nat \<Rightarrow> u32 \<Rightarrow> SNMaskT option" where
  "u_MosaicBGPlanar m nTotalPixels uMosaic =
     (if uMosaic = 2
      then Some (fold (\<lambda>i m. let d = uMask8 m i AND 0x55 in set_Mask8 m i (d OR push_bit 1 d)) [0..<(nTotalPixels + 7) div 8] m)
      else mosaic_planar (unat uMosaic) 0 nTotalPixels m)"

section \<open>A line of tiles\<close>

text \<open>
  The pixels, and both rows of \<^verbatim>\<open>TempMask\<close>, whose old contents \<open>tmp\<close> are arbitrary.
\<close>

definition u_FetchCHR_64 :: "ppu_view \<Rightarrow> SnesBGInfoT \<Rightarrow> SnesRenderTileT list \<Rightarrow> u32 \<Rightarrow> bool \<Rightarrow> u8 list \<times> u8 list \<Rightarrow> u8 list \<Rightarrow>
    (u8 list \<times> u8 list \<times> u8 list) option" where
  "u_FetchCHR_64 v b ts iLine bOffset tmp pLine =
     (let iLine = mosaic_line (bg_uMosaic b) iLine;
          uScrollY = (if \<not> bOffset then bg_uScrollY b + iLine else 0) AND 7
      in do { (px, ms, ps) \<leftarrow>
                (if bg_uBitDepth b = 2
                 then do { pal \<leftarrow> arr_get u_SnesPPU_Tile2PalLookup64 (unat (bg_uPalBase b)); u_FetchCHR2_64 v (bg_uChrAddr b) ts uScrollY pal }
                 else if bg_uBitDepth b = 4 then u_FetchCHR4_64 v (bg_uChrAddr b) ts uScrollY
                 else if bg_uBitDepth b = 8 then u_FetchCHR8_64 v (bg_uChrAddr b) ts uScrollY
                 else Some ([], [], []));
              let pLine = px @ drop (length px) pLine;
              pLine \<leftarrow> (if bg_uMosaic b > 0 then u_MosaicBG8 pLine (unat (bg_uScrollX b AND 7)) 256 (bg_uMosaic b + 1) else Some pLine);
              Some (pLine, ms @ drop (length ms) (fst tmp), ps @ drop (length ps) (snd tmp)) })"

section \<open>Mode 7\<close>

text \<open>
  A byte of the video memory: the low bytes of the words are the map, the high bytes the pixels.
  All numbers stay far below \<open>2\<^sup>3\<^sup>1\<close>, so \<^verbatim>\<open>Int32\<close> is \<^typ>\<open>int\<close>.
\<close>

definition vram_byte :: "ppu_view \<Rightarrow> nat \<Rightarrow> u8 option" where
  "vram_byte v i = map_option (\<lambda>w. if i mod 2 = 0 then lo8 w else hi8 w) (vram_word v (i div 2))"

definition mode7_tile :: "int \<Rightarrow> int \<Rightarrow> nat" where
  "mode7_tile x2 y2 = nat ((push_bit 7 (drop_bit 3 y2) OR drop_bit 3 x2) AND 0x3FFF)"

definition mode7_chr :: "u8 \<Rightarrow> int \<Rightarrow> int \<Rightarrow> nat" where
  "mode7_chr c x2 y2 = unat c * 64 + nat (x2 AND 7) + nat (push_bit 3 (y2 AND 7))"

definition mode7_repeat :: "ppu_view \<Rightarrow> int \<Rightarrow> int \<Rightarrow> u8 option" where
  "mode7_repeat v x y =
     (let x2 = drop_bit 8 x AND 0x3FF; y2 = drop_bit 8 y AND 0x3FF in
      do { c \<leftarrow> vram_byte v (mode7_tile x2 y2 * 2); vram_byte v (mode7_chr c x2 y2 * 2 + 1) })"

definition mode7_clamp :: "ppu_view \<Rightarrow> int \<Rightarrow> int \<Rightarrow> u8 option" where
  "mode7_clamp v x y =
     (let x2 = drop_bit 8 x; y2 = drop_bit 8 y in
      do { c \<leftarrow> vram_byte v (mode7_tile x2 y2 * 2);
           let c = (if drop_bit 10 (x2 OR y2) \<noteq> 0 then 0 else c);
           vram_byte v (mode7_chr c x2 y2 * 2 + 1) })"

definition mode7_black :: "ppu_view \<Rightarrow> int \<Rightarrow> int \<Rightarrow> u8 option" where
  "mode7_black v x y =
     (let x2 = drop_bit 8 x; y2 = drop_bit 8 y in
      do { c \<leftarrow> vram_byte v (mode7_tile x2 y2 * 2);
           d \<leftarrow> vram_byte v (mode7_chr c x2 y2 * 2 + 1);
           Some (if drop_bit 10 (x2 OR y2) \<noteq> 0 then 0 else d) })"

fun mode7_loop :: "(int \<Rightarrow> int \<Rightarrow> u8 option) \<Rightarrow> nat \<Rightarrow> int \<Rightarrow> int \<Rightarrow> int \<Rightarrow> int \<Rightarrow> u8 list option" where
  "mode7_loop f 0 x y dx dy = Some []"
| "mode7_loop f (Suc n) x y dx dy = do { d \<leftarrow> f x y; ds \<leftarrow> mode7_loop f n (x + dx) (y + dy) dx dy; Some (d # ds) }"

definition u_FetchMode7_Repeat where "u_FetchMode7_Repeat v x y dx dy = mode7_loop (mode7_repeat v) 256 x y dx dy"
definition u_FetchMode7_Clamp where "u_FetchMode7_Clamp v x y dx dy = mode7_loop (mode7_clamp v) 256 x y dx dy"
definition u_FetchMode7_Black where "u_FetchMode7_Black v x y dx dy = mode7_loop (mode7_black v) 256 x y dx dy"

text \<open>The top bit of a pixel is its priority. Eight pixels are one word of 64 bits.\<close>

definition mode7_priority :: "u64 \<Rightarrow> u8 \<times> u64" where
  "mode7_priority uData64 =
     (let uMask64 = 0x8080808080808080; uPri64 = uData64 AND uMask64 in
      (ucast (fold (\<lambda>k w. w OR push_bit k (drop_bit (8 * k + 7) uPri64)) [0..<8] 0), (uData64 OR uMask64) XOR uMask64))"

definition mode7_opaque :: "u64 \<Rightarrow> u8" where
  "mode7_opaque uData64 =
     ucast (fold (\<lambda>k w. w OR (if drop_bit (8 * k) uData64 AND 0xFF \<noteq> 0 then push_bit k 1 else 0)) [0..<8] (0 :: u64))"

definition mask_of_bytes :: "(nat \<Rightarrow> u8) \<Rightarrow> SNMaskT \<Rightarrow> SNMaskT" where
  "mask_of_bytes f m = fold (\<lambda>k m. set_Mask8 m k (f k)) [0..<32] m"

definition u_FetchMode7Priority :: "u8 list \<Rightarrow> SNMaskT \<Rightarrow> SNMaskT \<times> u8 list" where
  "u_FetchMode7Priority px pPriority =
     (mask_of_bytes (\<lambda>k. fst (mode7_priority (le64 px k))) pPriority,
      concat (map (\<lambda>k. bytes64 (snd (mode7_priority (le64 px k)))) [0..<32]))"

definition u_FetchMode7Opaque :: "u8 list \<Rightarrow> SNMaskT \<Rightarrow> SNMaskT" where
  "u_FetchMode7Opaque px pMask = mask_of_bytes (\<lambda>k. mode7_opaque (le64 px k)) pMask"

definition sign_extend13 :: "u16 \<Rightarrow> int" where
  "sign_extend13 w = signed_take_bit 12 (uint w)"

text \<open>The left pixel of the line in the picture, and the steps to the right.\<close>

definition mode7_start :: "SnesPPURegsT \<Rightarrow> int \<Rightarrow> int \<times> int \<times> int \<times> int" where
  "mode7_start r iLine =
     (let x1 = sign_extend13 (r_bg1hofs r); y1 = sign_extend13 (r_bg1vofs r) + iLine;
          m7a = sint (r_m7a r); m7b = sint (r_m7b r); m7c = sint (r_m7c r); m7d = sint (r_m7d r);
          m7x = sign_extend13 (r_m7x r); m7y = sign_extend13 (r_m7y r);
          x = (x1 - m7x) * m7a + (y1 - m7y) * m7b + m7x * 256;
          y = (x1 - m7x) * m7c + (y1 - m7y) * m7d + m7y * 256;
          (x, y, m7a, m7c) = (if r_m7sel r AND 1 \<noteq> 0 then (x + 256 * m7a, y + 256 * m7c, - m7a, - m7c) else (x, y, m7a, m7c));
          (x, y) = (if r_m7sel r AND 2 \<noteq> 0 then (x + 262 * m7b, y + 262 * m7d) else (x, y))
      in (x, y, m7a, m7c))"

text \<open>The pixels, the mask of priority and the mask of opaque pixels.\<close>

definition u_FetchMode7 :: "ppu_view \<Rightarrow> u32 \<Rightarrow> SNMaskT \<Rightarrow> SNMaskT \<Rightarrow> (u8 list \<times> SNMaskT \<times> SNMaskT) option" where
  "u_FetchMode7 v iLine pPriority pOpaque =
     (let r = ppu_Regs v; (x, y, dx, dy) = mode7_start r (uint iLine) in
      do { px \<leftarrow> (if drop_bit 6 (r_m7sel r) = 0 then u_FetchMode7_Repeat v x y dx dy
                 else if drop_bit 6 (r_m7sel r) = 3 then u_FetchMode7_Clamp v x y dx dy
                 else u_FetchMode7_Black v x y dx dy);
           let (pri, px) = (if r_setini r AND 0x40 \<noteq> 0 then u_FetchMode7Priority px pPriority else (SNMaskSet, px));
           Some (px, pri, u_FetchMode7Opaque px pOpaque) })"

end
