(* ===== verification/Sn_Layers.thy ===== *)
theory Sn_Layers
  imports Sn_Chr
begin

text \<open>
  Putting layers on a line (\<^verbatim>\<open>snppurender8.cpp\<close>): copying the visible pixels of a background, the
  order of backgrounds and objects, and the pixels that take part in color addition.
\<close>

section \<open>Copying pixels\<close>

definition rd32 :: "u8 list \<Rightarrow> nat \<Rightarrow> u32 option" where
  "rd32 bs i =
     (if i + 3 < length bs
      then Some (ucast (bs ! i) OR push_bit 8 (ucast (bs ! (i + 1))) OR push_bit 16 (ucast (bs ! (i + 2))) OR push_bit 24 (ucast (bs ! (i + 3))))
      else None)"

fun wr_bytes :: "u8 list \<Rightarrow> nat \<Rightarrow> u8 list \<Rightarrow> u8 list option" where
  "wr_bytes ln i [] = Some ln"
| "wr_bytes ln i (b # bs) = do { ln \<leftarrow> arr_set ln i b; wr_bytes ln (i + 1) bs }"

text \<open>The eight pixels whose bit is set in \<open>m\<close>.\<close>

fun wr_masked :: "u8 \<Rightarrow> nat \<Rightarrow> nat \<Rightarrow> u8 list \<Rightarrow> u8 list \<Rightarrow> u8 list option" where
  "wr_masked m x i [] ln = Some ln"
| "wr_masked m x i (b # bs) ln =
     do { ln \<leftarrow> (if m AND push_bit x 1 \<noteq> 0 then arr_set ln (i + x) b else Some ln); wr_masked m (x + 1) i bs ln }"

definition bg_pixels :: "nat \<Rightarrow> u8 list \<Rightarrow> nat \<Rightarrow> (u32 \<times> u32) option" where
  "bg_pixels uShift src s =
     (if uShift = 0 then do { t0 \<leftarrow> rd32 src s; t2 \<leftarrow> rd32 src (s + 4); Some (t0, t2) }
      else do { t0 \<leftarrow> rd32 src s; t1 \<leftarrow> rd32 src (s + 4); t3 \<leftarrow> rd32 src (s + 8);
                let t2 = t1;
                Some (drop_bit uShift t0 OR push_bit (32 - uShift) t1, drop_bit uShift t2 OR push_bit (32 - uShift) t3) })"

fun render_tiles :: "nat \<Rightarrow> u8 list \<Rightarrow> nat \<Rightarrow> SNMaskT \<Rightarrow> nat \<Rightarrow> nat \<Rightarrow> u8 list \<Rightarrow> u8 list option" where
  "render_tiles uShift src s m i 0 ln = Some ln"
| "render_tiles uShift src s m i (Suc n) ln =
     (let uMask = uMask8 m i in
      do { ln \<leftarrow> (if uMask = 0 then Some ln
                 else do { (t0, t2) \<leftarrow> bg_pixels uShift src s;
                           (if uMask = 0xFF then wr_bytes ln (8 * i) (bytes32 t0 @ bytes32 t2)
                            else wr_masked uMask 0 (8 * i) (bytes32 t0 @ bytes32 t2) ln) });
           render_tiles uShift src (s + 8) m (i + 1) n ln })"

definition u_RenderBGData :: "u8 list \<Rightarrow> u8 list \<Rightarrow> SNMaskT \<Rightarrow> u32 \<Rightarrow> nat \<Rightarrow> u8 list option" where
  "u_RenderBGData pLine8 pSrc8 pBGMask uScrollX nTiles =
     render_tiles (unat (push_bit 3 (uScrollX AND 3))) pSrc8 (unat (uScrollX AND 4)) pBGMask 0 nTiles pLine8"

definition u_RenderBGData_O :: "u8 list \<Rightarrow> u8 list \<Rightarrow> SNMaskT \<Rightarrow> u32 \<Rightarrow> nat \<Rightarrow> u8 list option" where
  "u_RenderBGData_O pLine8 pSrc8 pBGMask uScrollX nTiles =
     u_RenderBGData (replicate 256 0 @ drop 256 pLine8) pSrc8 pBGMask uScrollX nTiles"

section \<open>Backgrounds\<close>

text \<open>The planes of a screen that are used: two bits per pixel that say which layer is in front there.\<close>

record SnesLineT =
  ln_plane7 :: SNMaskT
  ln_layer0 :: SNMaskT
  ln_layer1 :: SNMaskT

record SnesBGPlaneT =
  bp_pixels :: "u8 list"
  bp_opaque :: SNMaskT
  bp_pri :: SNMaskT

text \<open>A screen while it is drawn: pixels, planes, the mask of addition, and whether it holds a layer yet.\<close>

record screenT =
  sc_pixels :: "u8 list"
  sc_line :: SnesLineT
  sc_AddSubMask :: SNMaskT
  sc_bRendered :: bool

definition bg_visible :: "SnesBGPlaneT \<Rightarrow> SNMaskT option \<Rightarrow> SNMaskT option \<Rightarrow> SNMaskT" where
  "bg_visible p pWindow pExtraMask =
     (let m = (case pWindow of Some w \<Rightarrow> SNMaskANDN (bp_opaque p) w | None \<Rightarrow> bp_opaque p)
      in case pExtraMask of Some e \<Rightarrow> SNMaskANDN m e | None \<Rightarrow> m)"

text \<open>The switch over the order of the layer: the pixels to draw, and the planes after it.\<close>

definition bg_order :: "u8 \<Rightarrow> SNMaskT \<Rightarrow> SNMaskT \<Rightarrow> SnesLineT \<Rightarrow> SNMaskT \<times> SnesLineT" where
  "bg_order uPriority BGMask BGPri l =
     (let l0 = ln_layer0 l; l1 = ln_layer1 l in
      if uPriority = 0 then (BGMask, l\<lparr>ln_layer0 := SNMaskBool l0 BGPri True\<rparr>)
      else if uPriority = 1 then
        (SNMaskOR (SNMaskANDN BGMask l0) BGPri, l\<lparr>ln_layer0 := SNMaskBool l0 BGPri True\<rparr>)
      else if uPriority = 2 then
        (BGMask, l\<lparr>ln_layer0 := SNMaskBool (SNMaskBool l0 BGMask False) BGPri True, ln_layer1 := SNMaskBool l1 BGMask True\<rparr>)
      else if uPriority = 3 then
        (let temp = SNMaskAND l0 l1; m = SNMaskOR (SNMaskANDN BGMask temp) BGPri in
         (m, l\<lparr>ln_layer1 := SNMaskBool l1 m True, ln_layer0 := SNMaskBool (SNMaskBool l0 m False) BGPri True\<rparr>))
      else if uPriority = 4 then (BGMask, l\<lparr>ln_layer0 := SNMaskClear, ln_layer1 := BGPri\<rparr>)
      else if uPriority = 5 then
        (let m = SNMaskOR (SNMaskANDN BGMask l1) BGPri in
         (m, l\<lparr>ln_layer0 := SNMaskBool l0 m True, ln_layer1 := SNMaskBool (SNMaskBool l1 m False) BGPri True\<rparr>))
      else if uPriority = 7 then (BGMask, l\<lparr>ln_layer0 := SNMaskClear, ln_layer1 := BGPri\<rparr>)
      else (BGMask, l))"

text \<open>The second result is the mask of the pixels with priority, which \<^verbatim>\<open>pBGPri\<close> points to.\<close>

definition u_RenderBG8 :: "SnesBGPlaneT \<Rightarrow> SNMaskT option \<Rightarrow> u8 \<Rightarrow> bool \<Rightarrow> SNMaskT \<Rightarrow> SNMaskT option \<Rightarrow> u8 \<Rightarrow> u32 \<Rightarrow> screenT \<Rightarrow>
    (screenT \<times> SNMaskT) option" where
  "u_RenderBG8 p pWindow uBitDepth bAddSubMask oldPri pExtraMask uPriority uScrollX s =
     (if uBitDepth = 0 then Some (s, oldPri)
      else
        let BGMask = bg_visible p pWindow pExtraMask;
            BGPri = SNMaskAND BGMask (bp_pri p);
            (BGMask, l) = bg_order uPriority BGMask BGPri (sc_line s)
        in do { px \<leftarrow> (if \<not> sc_bRendered s then u_RenderBGData_O (sc_pixels s) (bp_pixels p) BGMask uScrollX 32
                      else u_RenderBGData (sc_pixels s) (bp_pixels p) BGMask uScrollX 32);
                Some (\<lparr>sc_pixels = px, sc_line = l, sc_AddSubMask = SNMaskBool (sc_AddSubMask s) BGMask bAddSubMask, sc_bRendered = True\<rparr>, BGPri) })"

section \<open>Objects\<close>

text \<open>
  A word of 32 pixels of a mask, for the word an object column begins in and the next one. Columns
  at the borders touch a word before or after the mask. \<^verbatim>\<open>ObjMask\<close> has words of ones there, so
  what is read from the neighbouring memory never matters, and what is written is what was read.
\<close>

definition layer_word :: "SNMaskT \<Rightarrow> int \<Rightarrow> u32" where
  "layer_word m k = (if 0 \<le> k \<and> k < 8 then uMask32 m (nat k) else 0)"

definition upd_word :: "int \<Rightarrow> (u32 \<Rightarrow> u32) \<Rightarrow> SNMaskT \<Rightarrow> SNMaskT" where
  "upd_word k f m = (if 0 \<le> k \<and> k < 8 then the (set_Mask32 m (nat k) (f (uMask32 m (nat k)))) else m)"

definition shl32 :: "u32 \<Rightarrow> nat \<Rightarrow> u32" where "shl32 w n = push_bit (n mod 32) w"

definition obj_behind :: "u8 \<Rightarrow> SnesLineT \<Rightarrow> int \<Rightarrow> u32" where
  "obj_behind uPri l k =
     (if uPri = 0 then layer_word (ln_layer0 l) k OR layer_word (ln_layer1 l) k
      else if uPri = 1 then layer_word (ln_layer1 l) k
      else if uPri = 2 then layer_word (ln_layer0 l) k AND layer_word (ln_layer1 l) k
      else 0)"

fun obj_pixels :: "u32 \<Rightarrow> nat \<Rightarrow> int \<Rightarrow> u8 list \<Rightarrow> u8 list \<Rightarrow> u8 list option" where
  "obj_pixels uMask0 x iPosX [] ln = Some ln"
| "obj_pixels uMask0 x iPosX (b # bs) ln =
     do { ln \<leftarrow> (if uMask0 AND push_bit x 1 \<noteq> 0
                then if iPosX + int x < 0 then None else arr_set ln (nat (iPosX + int x)) b
                else Some ln);
          obj_pixels uMask0 (x + 1) iPosX bs ln }"

text \<open>\<open>om\<close> are the 16 words of \<^verbatim>\<open>ObjMask\<close>.\<close>

definition render_column :: "SnesLineT \<Rightarrow> bool \<Rightarrow> bool \<Rightarrow> SnesRenderObj8T \<Rightarrow> u32 list \<Rightarrow> u8 list \<Rightarrow> SNMaskT \<Rightarrow>
    (u32 list \<times> u8 list \<times> SNMaskT) option" where
  "render_column l bAdd bAll o8 om px addsub =
     (let iPosX = o8_iPosX o8 in
      if iPosX > - 8 \<and> iPosX < 256 \<and> o8_opaque o8 \<noteq> 0 then
        let k = drop_bit 5 iPosX; uShift = nat (iPosX AND 0x1F); uInvShift = 32 - uShift;
            uMask0 = shl32 (ucast (o8_opaque o8)) uShift;
            uMask1 = (if uShift = 0 then 0 else drop_bit uInvShift (ucast (o8_opaque o8)))
        in do { uObjMask0 \<leftarrow> arr_get om (nat (4 + k));
                uObjMask1 \<leftarrow> arr_get om (nat (5 + k));
                let om = om[nat (4 + k) := uObjMask0 OR uMask0, nat (5 + k) := uObjMask1 OR uMask1];
                let uMask0 = uMask0 AND NOT (uObjMask0 OR obj_behind (o8_uPri o8) l k);
                let uMask1 = uMask1 AND NOT (uObjMask1 OR obj_behind (o8_uPri o8) l (k + 1));
                let addsub = (if bAdd \<and> (o8_uPal o8 AND 4 \<noteq> 0 \<or> bAll)
                              then upd_word (k + 1) (\<lambda>w. w OR uMask1) (upd_word k (\<lambda>w. w OR uMask0) addsub)
                              else upd_word (k + 1) (\<lambda>w. w AND NOT uMask1) (upd_word k (\<lambda>w. w AND NOT uMask0) addsub));
                px \<leftarrow> obj_pixels (drop_bit uShift uMask0 OR shl32 uMask1 uInvShift) 0 iPosX (o8_pixels o8) px;
                Some (om, px, addsub) }
      else Some (om, px, addsub))"

fun render_columns :: "SnesLineT \<Rightarrow> bool \<Rightarrow> bool \<Rightarrow> SnesRenderObj8T list \<Rightarrow> u32 list \<Rightarrow> u8 list \<Rightarrow> SNMaskT \<Rightarrow> (u8 list \<times> SNMaskT) option" where
  "render_columns l bAdd bAll [] om px addsub = Some (px, addsub)"
| "render_columns l bAdd bAll (o8 # os) om px addsub =
     do { (om, px, addsub) \<leftarrow> render_column l bAdd bAll o8 om px addsub; render_columns l bAdd bAll os om px addsub }"

definition obj_mask_words :: "SNMaskT \<Rightarrow> u32 list" where
  "obj_mask_words m = replicate 4 0xFFFFFFFF @ map (uMask32 m) [0..<8] @ replicate 4 0xFFFFFFFF"

text \<open>Columns are drawn from the last one, and a pixel that is taken stays taken. Bits 0 and 2 of \<open>flags\<close> are \<^verbatim>\<open>bAddSubMask\<close>.\<close>

definition u_RenderOBJ8 :: "SnesRenderObj8T list \<Rightarrow> SNMaskT option \<Rightarrow> SNMaskT option \<Rightarrow> bool \<Rightarrow> bool \<Rightarrow> screenT \<Rightarrow> screenT option" where
  "u_RenderOBJ8 pObjLine pWindow pMask bAdd bAll s =
     (if pObjLine = [] then Some s
      else let m = (case pWindow of Some w \<Rightarrow> w | None \<Rightarrow> SNMaskClear);
               m = (case pMask of Some e \<Rightarrow> SNMaskOR m e | None \<Rightarrow> m)
           in do { (px, addsub) \<leftarrow> render_columns (sc_line s) bAdd bAll (rev pObjLine) (obj_mask_words m) (sc_pixels s) (sc_AddSubMask s);
                   Some (s\<lparr>sc_pixels := px, sc_AddSubMask := addsub\<rparr>) })"

end
