(* ===== verification/Sn_Render.thy ===== *)
theory Sn_Render
  imports Sn_Layers
begin

text \<open>
  The renderer (\<^verbatim>\<open>snppurender.h\<close>, \<^verbatim>\<open>snppurender.cpp\<close>, \<^verbatim>\<open>RenderLine8\<close>, \<^verbatim>\<open>snppublend_c.cpp\<close>): a line
  of the picture from the registers and memories of the PPU. This is the portable variant; the
  one for the PS2 does the last step on its graphics processor.
\<close>

section \<open>State\<close>

record PixelFormatT =
  pf_uBitDepth :: u8
  pf_uRedShift :: nat
  pf_uGreenShift :: nat
  pf_uBlueShift :: nat
  pf_uAlphaShift :: nat

text \<open>The surface that is drawn to: its format and the lines that were submitted.\<close>

record CRenderSurface =
  sf_Format :: PixelFormatT
  sf_lines :: "u32 \<Rightarrow> u32 list"

record SNPPUBlendInfoT =
  bi_Pal :: "u32 list list"
  bi_uMain32 :: "u32 list"
  bi_uSub32 :: "u32 list"
  bi_uLine32 :: "u32 list"
  bi_uMain8 :: "u8 list"
  bi_uSub8 :: "u8 list"

record SnesRender8pInfoT =
  ri_BlendInfo :: SNPPUBlendInfoT
  ri_Main :: SnesLineT
  ri_Sub :: SnesLineT
  ri_BGPlanes :: "SnesBGPlaneT list"
  ri_Tiles :: "SnesRenderTileT list list"
  ri_BGOffset :: "u16 list"
  ri_MainAddSubMask :: SNMaskT
  ri_SubAddSubMask :: SNMaskT
  ri_WindowMask :: "SNMaskT list"
  ri_BGWindow :: "SNMaskT list"
  ri_uBGVramAddr :: "u32 list"
  ri_uObjY :: "u8 list"
  ri_uObjSize :: "u8 list"

text \<open>
  The object and what its pointers point to: \<^verbatim>\<open>m_pRenderInfo\<close> and \<^verbatim>\<open>m_pBlend\<close> are set or not, and
  \<^verbatim>\<open>m_bBlendTarget\<close> is whether the target of the blender, the same surface, is set.
\<close>

record SnesPPURender = ISnesPPURenderT +
  m_pRenderInfo :: bool
  m_RenderInfo :: SnesRender8pInfoT
  m_Objs :: "SnesRenderObjT list"
  m_pTarget :: "CRenderSurface option"
  m_nObjLine :: "u8 list"
  m_ObjLine :: "u8 list list"
  m_pBlend :: bool
  m_bBlendTarget :: bool

text \<open>
  What the renderer finds on the stack in arrays it does not initialise, and the table of
  \<^verbatim>\<open>snppucolor.cpp\<close>, which is computed from settings of the screen in floating point or loaded.
\<close>

record render_env =
  env_bg :: "SnesBGInfoT list"
  env_mask :: "u8 list \<times> u8 list"
  env_color :: "u16 \<Rightarrow> u32"

definition SNPPUColorConvert15to32 :: "render_env \<Rightarrow> u16 \<Rightarrow> u32" where
  "SNPPUColorConvert15to32 E uColor15 = env_color E (uColor15 AND 0x7FFF)"

section \<open>Blending\<close>

definition u_ConvertColor16to32 :: "render_env \<Rightarrow> u16 \<Rightarrow> PixelFormatT \<Rightarrow> u32 \<Rightarrow> u32 \<Rightarrow> u32" where
  "u_ConvertColor16to32 E uColor16 f uIntensity uShift =
     (let c = SNPPUColorConvert15to32 E uColor16;
          dim = (\<lambda>x. if uIntensity < 15 then x * uIntensity div 15 else x);
          half = (\<lambda>x. if uShift = 2 then drop_bit 1 x else x);
          uR = half (dim (c AND 0xFF)); uG = half (dim (drop_bit 8 c AND 0xFF)); uB = half (dim (drop_bit 16 c AND 0xFF)); uA = 0
      in push_bit (pf_uRedShift f) uR OR push_bit (pf_uGreenShift f) uG OR push_bit (pf_uBlueShift f) uB OR
         push_bit (pf_uAlphaShift f) uA)"

text \<open>
  A pixel selects one of 1024 colors: the four palettes are black twice, full and half brightness.
\<close>

definition pal32 :: "u32 list list \<Rightarrow> nat \<Rightarrow> u32 option" where
  "pal32 Pal i = do { p \<leftarrow> arr_get Pal (i div 256); arr_get p (i mod 256) }"

definition color_index :: "SNMaskT \<Rightarrow> SNMaskT \<Rightarrow> nat \<Rightarrow> u8 \<Rightarrow> nat" where
  "color_index pColorMask pHalfColorMask i s =
     unat s + (if bit (uMask8 pColorMask (i div 8)) (i mod 8) then 512 else 0) + (if bit (uMask8 pHalfColorMask (i div 8)) (i mod 8) then 256 else 0)"

fun u_Color8to32 :: "u32 list list \<Rightarrow> SNMaskT \<Rightarrow> SNMaskT \<Rightarrow> nat \<Rightarrow> u8 list \<Rightarrow> u32 list option" where
  "u_Color8to32 Pal pColorMask pHalfColorMask i [] = Some []"
| "u_Color8to32 Pal pColorMask pHalfColorMask i (s # ss) =
     do { c \<leftarrow> pal32 Pal (color_index pColorMask pHalfColorMask i s);
          cs \<leftarrow> u_Color8to32 Pal pColorMask pHalfColorMask (i + 1) ss; Some (c # cs) }"

text \<open>Sum and difference of two colors, byte by byte, clamped to a byte.\<close>

definition bytewise :: "(int \<Rightarrow> int \<Rightarrow> int) \<Rightarrow> u32 \<Rightarrow> u32 \<Rightarrow> u32" where
  "bytewise f a b =
     foldr (\<lambda>k w. push_bit 8 w OR ucast (word_of_int (f (uint (ucast (drop_bit (8 * k) a) :: u8)) (uint (ucast (drop_bit (8 * k) b) :: u8))) :: u8)) [0..<4] 0"

definition u_ColorAdd :: "u32 list \<Rightarrow> u32 list \<Rightarrow> u32 list" where
  "u_ColorAdd pMain pSub = map2 (bytewise (\<lambda>m s. if m + s > 0xFF then 0xFF else m + s)) pMain pSub"

definition u_ColorSub :: "u32 list \<Rightarrow> u32 list \<Rightarrow> u32 list" where
  "u_ColorSub pMain pSub = map2 (bytewise (\<lambda>m s. if m - s < 0 then 0 else m - s)) pMain pSub"

definition palette_entry :: "render_env \<Rightarrow> PixelFormatT \<Rightarrow> nat \<Rightarrow> u16 \<Rightarrow> u32 list list \<Rightarrow> u32 list list option" where
  "palette_entry E f i c Pal =
     do { p0 \<leftarrow> arr_get Pal 0; p1 \<leftarrow> arr_get Pal 1; p2 \<leftarrow> arr_get Pal 2; p3 \<leftarrow> arr_get Pal 3;
          p0 \<leftarrow> arr_set p0 i 0; p1 \<leftarrow> arr_set p1 i 0;
          p2 \<leftarrow> arr_set p2 i (u_ConvertColor16to32 E c f 0xF 3);
          p3 \<leftarrow> arr_set p3 i (u_ConvertColor16to32 E c f 0xF 2);
          Some [p0, p1, p2, p3] }"

fun palette_entries :: "render_env \<Rightarrow> PixelFormatT \<Rightarrow> nat \<Rightarrow> u16 list \<Rightarrow> u32 list list \<Rightarrow> u32 list list option" where
  "palette_entries E f i [] Pal = Some Pal"
| "palette_entries E f i (c # cs) Pal = do { Pal \<leftarrow> palette_entry E f i c Pal; palette_entries E f (i + 1) cs Pal }"

definition blend_format :: "SnesPPURender \<Rightarrow> PixelFormatT option" where
  "blend_format r = (if m_bBlendTarget r then map_option sf_Format (m_pTarget r) else None)"

definition SNPPUBlendC_UpdatePalette :: "render_env \<Rightarrow> PixelFormatT option \<Rightarrow> u16 list \<Rightarrow> SNPPUBlendInfoT \<Rightarrow> SNPPUBlendInfoT option" where
  "SNPPUBlendC_UpdatePalette E tf pCGRam b =
     (case tf of None \<Rightarrow> Some b
      | Some f \<Rightarrow> do { Pal \<leftarrow> palette_entries E f 0 (take 256 pCGRam) (bi_Pal b); Some (b\<lparr>bi_Pal := Pal\<rparr>) })"

definition SNPPUBlendC_UpdatePaletteEntry :: "render_env \<Rightarrow> PixelFormatT option \<Rightarrow> u32 \<Rightarrow> u16 \<Rightarrow> SNPPUBlendInfoT \<Rightarrow> SNPPUBlendInfoT option" where
  "SNPPUBlendC_UpdatePaletteEntry E tf uAddr uData b =
     (case tf of None \<Rightarrow> Some b
      | Some f \<Rightarrow> do { Pal \<leftarrow> palette_entry E f (unat uAddr) uData (bi_Pal b); Some (b\<lparr>bi_Pal := Pal\<rparr>) })"

text \<open>The line of colors. The entry 0 of the bright palette is the fixed color while the sub screen is converted.\<close>

definition SNPPUBlendC_Exec :: "render_env \<Rightarrow> PixelFormatT \<Rightarrow> u16 \<Rightarrow> SNMaskT list \<Rightarrow> bool \<Rightarrow> u32 \<Rightarrow> SNPPUBlendInfoT \<Rightarrow> SNPPUBlendInfoT option" where
  "SNPPUBlendC_Exec E f uFixedColor16 pColorMask bAddSub uIntensity b =
     do { m0 \<leftarrow> arr_get pColorMask 0; m1 \<leftarrow> arr_get pColorMask 1; m2 \<leftarrow> arr_get pColorMask 2;
          p2 \<leftarrow> arr_get (bi_Pal b) 2;
          p2' \<leftarrow> arr_set p2 0 (u_ConvertColor16to32 E uFixedColor16 f uIntensity 3);
          sub32 \<leftarrow> u_Color8to32 ((bi_Pal b)[2 := p2']) m1 m2 0 (bi_uSub8 b);
          main32 \<leftarrow> u_Color8to32 (bi_Pal b) m0 m2 0 (bi_uMain8 b);
          Some (b\<lparr>bi_uSub32 := sub32, bi_uMain32 := main32,
            bi_uLine32 := (if bAddSub then u_ColorSub main32 sub32 else u_ColorAdd main32 sub32)\<rparr>) }"

definition SNPPUBlendC_Clear :: "SNPPUBlendInfoT \<Rightarrow> SNPPUBlendInfoT" where
  "SNPPUBlendC_Clear b = b\<lparr>bi_uLine32 := replicate 256 0\<rparr>"

definition submit_line :: "u32 \<Rightarrow> SnesPPURender \<Rightarrow> SnesPPURender" where
  "submit_line iLine r =
     r\<lparr>m_pTarget := map_option (\<lambda>t. t\<lparr>sf_lines := (sf_lines t)(iLine := bi_uLine32 (ri_BlendInfo (m_RenderInfo r)))\<rparr>) (m_pTarget r)\<rparr>"

section \<open>The layers of a line\<close>

definition SNESPPU_MASK_BG1 :: u8 where "SNESPPU_MASK_BG1 = 0x01"
definition SNESPPU_MASK_BG2 :: u8 where "SNESPPU_MASK_BG2 = 0x02"
definition SNESPPU_MASK_BG3 :: u8 where "SNESPPU_MASK_BG3 = 0x04"
definition SNESPPU_MASK_BG4 :: u8 where "SNESPPU_MASK_BG4 = 0x08"
definition SNESPPU_MASK_OBJ :: u8 where "SNESPPU_MASK_OBJ = 0x10"

text \<open>Switches for debugging, which nothing changes.\<close>

definition u_tm :: u8 where "u_tm = 0x3F"
definition u_tmw :: u8 where "u_tmw = 0x3F"
definition u_ts :: u8 where "u_ts = 0x3F"
definition u_tsw :: u8 where "u_tsw = 0x3F"

text \<open>The tiles of the four backgrounds: addresses first, with the state that is carried from line to line.\<close>

definition fetch_bg :: "ppu_view \<Rightarrow> SnesBGInfoT list \<Rightarrow> u32 \<Rightarrow> u32 \<Rightarrow> nat \<Rightarrow> SnesRender8pInfoT \<Rightarrow> (u32 \<times> SnesRender8pInfoT) option" where
  "fetch_bg v BGInfo iLine uOffsetOR iBG ri =
     do { b \<leftarrow> arr_get BGInfo iBG; ts \<leftarrow> arr_get (ri_Tiles ri) iBG; old \<leftarrow> arr_get (ri_uBGVramAddr ri) iBG;
          (fl, ts, a) \<leftarrow>
            (if uOffsetOR AND push_bit iBG 0x2000 \<noteq> 0
             then do { (fl, ts) \<leftarrow> FetchBGOffset v b 33 iLine (ri_BGOffset ri) (push_bit iBG 0x2000) (r_bgmode (ppu_Regs v) AND 7 = 4) ts;
                       Some (fl, ts, 0xFFFFFFFF) }
             else FetchBG v b 33 iLine ts old);
          Some (fl, ri\<lparr>ri_Tiles := (ri_Tiles ri)[iBG := ts], ri_uBGVramAddr := (ri_uBGVramAddr ri)[iBG := a]\<rparr>) }"

definition fetch_chr :: "render_env \<Rightarrow> ppu_view \<Rightarrow> SnesBGInfoT list \<Rightarrow> u32 \<Rightarrow> u32 \<Rightarrow> nat \<Rightarrow> SnesRender8pInfoT \<Rightarrow> SnesRender8pInfoT option" where
  "fetch_chr E v BGInfo iLine fl iBG ri =
     (if fl AND SNPPU_BGFLAGS_FETCHCHR = 0 then Some ri
      else do { b \<leftarrow> arr_get BGInfo iBG; ts \<leftarrow> arr_get (ri_Tiles ri) iBG; p \<leftarrow> arr_get (ri_BGPlanes ri) iBG;
                (px, ms, ps) \<leftarrow> u_FetchCHR_64 v b (take 33 ts) iLine (fl AND SNPPU_BGFLAGS_OFFSET \<noteq> 0) (env_mask E) (bp_pixels p);
                let k = unat (bg_uScrollX b AND 7);
                let op = SNMaskSHL ms k;
                let pri = SNMaskSHL ps k;
                (op, pri) \<leftarrow> (if bg_uMosaic b > 0
                  then do { op \<leftarrow> u_MosaicBGPlanar op 256 (bg_uMosaic b + 1); pri \<leftarrow> u_MosaicBGPlanar pri 256 (bg_uMosaic b + 1); Some (op, pri) }
                  else Some (op, pri));
                Some (ri\<lparr>ri_BGPlanes := (ri_BGPlanes ri)[iBG := \<lparr>bp_pixels = px, bp_opaque = op, bp_pri = pri\<rparr>]\<rparr>) })"

definition fetch_tiles :: "render_env \<Rightarrow> ppu_view \<Rightarrow> SnesBGInfoT list \<Rightarrow> u32 \<Rightarrow> SnesRender8pInfoT \<Rightarrow> SnesRender8pInfoT option" where
  "fetch_tiles E v BGInfo iLine ri =
     (let m = r_bgmode (ppu_Regs v) AND 7 in
      do { (uOffsetOR, ri) \<leftarrow>
             (if m = 2 \<or> m = 4
              then do { b \<leftarrow> arr_get BGInfo 2; old \<leftarrow> arr_get (ri_uBGVramAddr ri) 2;
                        (n, os, a) \<leftarrow> FetchOffset v b (ri_BGOffset ri) old (m = 2);
                        Some (n, ri\<lparr>ri_BGOffset := os, ri_uBGVramAddr := (ri_uBGVramAddr ri)[2 := a]\<rparr>) }
              else Some (0, ri));
           (f0, ri) \<leftarrow> fetch_bg v BGInfo iLine uOffsetOR 0 ri;
           (f1, ri) \<leftarrow> fetch_bg v BGInfo iLine uOffsetOR 1 ri;
           (f2, ri) \<leftarrow> fetch_bg v BGInfo iLine uOffsetOR 2 ri;
           (f3, ri) \<leftarrow> fetch_bg v BGInfo iLine uOffsetOR 3 ri;
           ri \<leftarrow> fetch_chr E v BGInfo iLine f0 0 ri;
           ri \<leftarrow> fetch_chr E v BGInfo iLine f1 1 ri;
           ri \<leftarrow> fetch_chr E v BGInfo iLine f2 2 ri;
           fetch_chr E v BGInfo iLine f3 3 ri })"

definition fetch_mode7 :: "ppu_view \<Rightarrow> u32 \<Rightarrow> SnesRender8pInfoT \<Rightarrow> SnesRender8pInfoT option" where
  "fetch_mode7 v iLine ri =
     do { p \<leftarrow> arr_get (ri_BGPlanes ri) 0;
          (px, pri, op) \<leftarrow> u_FetchMode7 v iLine (bp_pri p) (bp_opaque p);
          Some (ri\<lparr>ri_BGPlanes := (ri_BGPlanes ri)[0 := \<lparr>bp_pixels = px @ drop 256 (bp_pixels p), bp_opaque = op, bp_pri = pri\<rparr>]\<rparr>) }"

text \<open>In mode 7 only the first background is drawn, for the second one too.\<close>

definition mode7_only :: "u8 \<Rightarrow> u8" where
  "mode7_only tm = (if tm AND 0x3 \<noteq> 0 then (tm AND NOT 0xF) OR SNESPPU_MASK_BG1 else tm)"

text \<open>
  A screen: the backgrounds from the last to the first, then the objects. \<open>add\<close> says which layers
  take part in color addition, \<open>all\<close> whether objects of all palettes do. The high pixels of the third
  background may hide the others.
\<close>

definition clear_screen :: "u8 list \<Rightarrow> SNMaskT \<Rightarrow> screenT" where
  "clear_screen px addsub =
     \<lparr>sc_pixels = px, sc_line = \<lparr>ln_plane7 = SNMaskClear, ln_layer0 = SNMaskClear, ln_layer1 = SNMaskClear\<rparr>, sc_AddSubMask = addsub,
      sc_bRendered = False\<rparr>"

definition render_bg :: "SnesRender8pInfoT \<Rightarrow> SnesBGInfoT list \<Rightarrow> u8 \<Rightarrow> u8 \<Rightarrow> u8 \<Rightarrow> u8 \<Rightarrow> nat \<Rightarrow> SNMaskT \<Rightarrow> SNMaskT option \<Rightarrow> screenT \<Rightarrow>
    (screenT \<times> SNMaskT) option" where
  "render_bg ri BGInfo tm tmw add layer iBG oldPri pExtra s =
     (if tm AND layer = 0 then Some (s, oldPri)
      else do { b \<leftarrow> arr_get BGInfo iBG; p \<leftarrow> arr_get (ri_BGPlanes ri) iBG; w \<leftarrow> arr_get (ri_BGWindow ri) iBG;
                u_RenderBG8 p (if tmw AND layer \<noteq> 0 then Some w else None) (bg_uBitDepth b) (add AND layer \<noteq> 0) oldPri pExtra (bg_Priority b)
                  (bg_uScrollX b) s })"

definition render_screen :: "SnesRender8pInfoT \<Rightarrow> SnesBGInfoT list \<Rightarrow> u8 \<Rightarrow> u8 \<Rightarrow> u8 \<Rightarrow> u8 \<Rightarrow> bool \<Rightarrow> SnesRenderObj8T list \<Rightarrow> screenT \<Rightarrow> screenT option" where
  "render_screen ri BGInfo bgmode tm tmw add all ObjLine s =
     (let bBG3Pri = (bgmode AND 8 \<noteq> 0 \<and> tm AND SNESPPU_MASK_BG3 \<noteq> 0 \<and> bgmode AND 7 = 1) in
      do { (s, _) \<leftarrow> render_bg ri BGInfo tm tmw add SNESPPU_MASK_BG4 3 0 None s;
           (s, BG3Pri) \<leftarrow> render_bg ri BGInfo tm tmw add SNESPPU_MASK_BG3 2 0 None s;
           let pExtra = (if bBG3Pri then Some BG3Pri else None);
           (s, _) \<leftarrow> render_bg ri BGInfo tm tmw add SNESPPU_MASK_BG2 1 0 pExtra s;
           (s, _) \<leftarrow> render_bg ri BGInfo tm tmw add SNESPPU_MASK_BG1 0 0 pExtra s;
           let s = (if \<not> sc_bRendered s then s\<lparr>sc_pixels := replicate 256 0 @ drop 256 (sc_pixels s)\<rparr> else s);
           (if tm AND SNESPPU_MASK_OBJ \<noteq> 0
            then do { w \<leftarrow> arr_get (ri_BGWindow ri) SNPPU_BGWINDOW_OBJ;
                      u_RenderOBJ8 ObjLine (if tmw AND SNESPPU_MASK_OBJ \<noteq> 0 then Some w else None) pExtra (add AND 0x10 \<noteq> 0) all s }
            else Some s) })"

definition RenderLine8 :: "render_env \<Rightarrow> ppu_view \<Rightarrow> u32 \<Rightarrow> SnesPPURender \<Rightarrow> SnesPPURender option" where
  "RenderLine8 E v iLine r =
     (let g = ppu_Regs v; ri = m_RenderInfo r; b = ri_BlendInfo ri;
          tm = r_tm g AND u_tm; tmw = r_tmw g AND u_tmw; cgadsub = r_cgadsub g AND 0x3F;
          ts = r_ts g AND u_ts; tsw = r_tsw g AND u_tsw;
          BGInfo = DecodeBGInfo (env_bg E) g
      in do { l \<leftarrow> arr_get (m_ObjLine r) (unat iLine); n \<leftarrow> arr_get (m_nObjLine r) (unat iLine);
              ObjLine \<leftarrow> u_FetchOBJ v (m_Objs r) l (unat n) SNPPU_MAXOBJCHR iLine (push_bit 13 (ucast (r_obsel g AND 3)))
                (push_bit 12 (ucast (drop_bit 3 (r_obsel g) AND 3)));
              let m7 = (r_bgmode g AND 7 = 7);
              ri \<leftarrow> (if \<not> m7 then fetch_tiles E v BGInfo iLine ri else fetch_mode7 v iLine ri);
              let tm = (if m7 then mode7_only tm else tm);
              let ts = (if m7 then mode7_only ts else ts);
              main \<leftarrow> render_screen ri BGInfo (r_bgmode g) tm tmw cgadsub False ObjLine
                (clear_screen (bi_uMain8 b) (if cgadsub AND 0x20 \<noteq> 0 then SNMaskSet else SNMaskClear));
              let fixed = (r_cgwsel g AND 0x02 = 0);
              let ts = (if fixed then 0 else ts);
              sub \<leftarrow> render_screen ri BGInfo (r_bgmode g) ts tsw 0xFF True ObjLine
                (clear_screen (bi_uSub8 b) (if fixed then SNMaskSet else SNMaskClear));
              Some (r\<lparr>m_RenderInfo := ri\<lparr>ri_Main := sc_line main, ri_MainAddSubMask := sc_AddSubMask main, ri_Sub := sc_line sub,
                ri_SubAddSubMask := sc_AddSubMask sub, ri_BlendInfo := b\<lparr>bi_uMain8 := sc_pixels main, bi_uSub8 := sc_pixels sub\<rparr>\<rparr>\<rparr>) })"

section \<open>A line\<close>

definition UpdateFlag :: "u32 \<Rightarrow> SnesPPURender \<Rightarrow> bool" where
  "UpdateFlag f r \<longleftrightarrow> m_UpdateFlags r AND f \<noteq> 0"

definition ClearFlag :: "u32 \<Rightarrow> SnesPPURender \<Rightarrow> SnesPPURender" where
  "ClearFlag f r = r\<lparr>m_UpdateFlags := m_UpdateFlags r AND NOT f\<rparr>"

definition upd_info :: "(SnesRender8pInfoT \<Rightarrow> SnesRender8pInfoT) \<Rightarrow> SnesPPURender \<Rightarrow> SnesPPURender" where
  "upd_info f r = r\<lparr>m_RenderInfo := f (m_RenderInfo r)\<rparr>"

definition update_palette :: "render_env \<Rightarrow> ppu_view \<Rightarrow> SnesPPURender \<Rightarrow> SnesPPURender option" where
  "update_palette E v r =
     (if UpdateFlag SNESPPURENDER_UPDATE_PAL r
      then do { b \<leftarrow> SNPPUBlendC_UpdatePalette E (blend_format r) (m_CGRAM v) (ri_BlendInfo (m_RenderInfo r));
                Some (ClearFlag SNESPPURENDER_UPDATE_PAL (upd_info (\<lambda>ri. ri\<lparr>ri_BlendInfo := b\<rparr>) r)) }
      else Some r)"

definition update_objects :: "ppu_view \<Rightarrow> SnesPPURender \<Rightarrow> SnesPPURender option" where
  "update_objects v r =
     (if UpdateFlag SNESPPURENDER_UPDATE_OBJ r
      then do { (objs, ys, sizes) \<leftarrow> UpdateOBJ v (m_Objs r);
                (ns, ls) \<leftarrow> UpdateOBJVisibility ys sizes (ucast (r_oampri (ppu_Regs v))) SNESPPU_OBJ_NUM (m_ObjLine r);
                Some (ClearFlag SNESPPURENDER_UPDATE_OBJ (upd_info (\<lambda>ri. ri\<lparr>ri_uObjY := ys, ri_uObjSize := sizes\<rparr>)
                  (r\<lparr>m_Objs := objs, m_nObjLine := ns, m_ObjLine := ls\<rparr>))) }
      else Some r)"

definition update_screens :: "SnesPPURender \<Rightarrow> SnesPPURender" where
  "update_screens r =
     (if UpdateFlag SNESPPURENDER_UPDATE_BGSCR r
      then ClearFlag SNESPPURENDER_UPDATE_BGSCR (upd_info (\<lambda>ri. ri\<lparr>ri_uBGVramAddr := replicate 4 0xFFFFFFFF\<rparr>) r)
      else r)"

definition update_windows :: "ppu_view \<Rightarrow> SnesPPURender \<Rightarrow> SnesPPURender option" where
  "update_windows v r =
     (if UpdateFlag SNESPPURENDER_UPDATE_WINDOW r
      then do { (w, bw) \<leftarrow> DecodeWindows (ppu_Regs v);
                Some (ClearFlag SNESPPURENDER_UPDATE_WINDOW (upd_info (\<lambda>ri. ri\<lparr>ri_WindowMask := w, ri_BGWindow := bw\<rparr>) r)) }
      else Some r)"

text \<open>The pixels of the main screen that show, those of the sub screen that are added, and those that are halved.\<close>

definition color_masks :: "SnesPPURegsT \<Rightarrow> SnesRender8pInfoT \<Rightarrow> SNMaskT list option" where
  "color_masks g ri =
     do { w \<leftarrow> arr_get (ri_BGWindow ri) SNPPU_BGWINDOW_COLOR;
          let k0 = drop_bit 6 (r_cgwsel g) AND 3;
          let k1 = drop_bit 4 (r_cgwsel g) AND 3;
          let m0 = (if k0 = 0 then SNMaskSet else if k0 = 1 then w else if k0 = 2 then SNMaskNOT w else SNMaskClear);
          let m1 = (if k1 = 0 then ri_MainAddSubMask ri else if k1 = 1 then SNMaskAND (ri_MainAddSubMask ri) w
                    else if k1 = 2 then SNMaskANDN (ri_MainAddSubMask ri) w else SNMaskClear);
          let m2 = (if r_cgadsub g AND 0x40 \<noteq> 0 then SNMaskAND (SNMaskAND (ri_SubAddSubMask ri) m1) m0 else SNMaskClear);
          Some [m0, m1, m2] }"

definition RenderLine32 :: "render_env \<Rightarrow> ppu_view \<Rightarrow> u32 \<Rightarrow> CRenderSurface \<Rightarrow> SnesPPURender \<Rightarrow> SnesPPURender option" where
  "RenderLine32 E v iLine t r =
     (let g = ppu_Regs v in
      if r_inidisp g AND 0x80 \<noteq> 0
      then Some (submit_line iLine (upd_info (\<lambda>ri. ri\<lparr>ri_BlendInfo := SNPPUBlendC_Clear (ri_BlendInfo ri)\<rparr>) r))
      else do { r \<leftarrow> update_palette E v r;
                r \<leftarrow> update_objects v r;
                let r = update_screens r;
                r \<leftarrow> update_windows v r;
                r \<leftarrow> RenderLine8 E v iLine r;
                cm \<leftarrow> color_masks g (m_RenderInfo r);
                b \<leftarrow> SNPPUBlendC_Exec E (sf_Format t) (r_coldata g) cm (r_cgadsub g AND 0x80 \<noteq> 0) (GetIntensity v) (ri_BlendInfo (m_RenderInfo r));
                Some (submit_line iLine (upd_info (\<lambda>ri. ri\<lparr>ri_BlendInfo := b\<rparr>) r)) })"

definition SnesPPURender_RenderLine :: "render_env \<Rightarrow> ppu_view \<Rightarrow> u32 \<Rightarrow> SnesPPURender \<Rightarrow> SnesPPURender option" where
  "SnesPPURender_RenderLine E v iLine r =
     (case m_pTarget r of
        None \<Rightarrow> Some r
      | Some t \<Rightarrow> (if pf_uBitDepth (sf_Format t) = 32
                   then if m_pRenderInfo r \<and> m_pBlend r \<and> m_bBlendTarget r then RenderLine32 E v iLine t r else None
                   else Some r))"

definition SnesPPURender_UpdateCGRAM :: "render_env \<Rightarrow> ppu_view \<Rightarrow> u32 \<Rightarrow> u16 \<Rightarrow> SnesPPURender \<Rightarrow> SnesPPURender option" where
  "SnesPPURender_UpdateCGRAM E v uAddr uData r =
     (if m_pRenderInfo r \<and> m_pBlend r
      then do { b \<leftarrow> SNPPUBlendC_UpdatePaletteEntry E (blend_format r) uAddr uData (ri_BlendInfo (m_RenderInfo r));
                Some (upd_info (\<lambda>ri. ri\<lparr>ri_BlendInfo := b\<rparr>) r) }
      else Some r)"

definition SnesPPURender_UpdateVRAM :: "u32 \<Rightarrow> SnesPPURender \<Rightarrow> SnesPPURender option" where
  "SnesPPURender_UpdateVRAM uVramAddr r = Some r"

section \<open>A frame\<close>

definition BeginRender :: "CRenderSurface option \<Rightarrow> SnesPPURender \<Rightarrow> SnesPPURender" where
  "BeginRender pTarget r =
     SetUpdateFlags SNESPPURENDER_UPDATE_ALL
       (r\<lparr>m_pBlend := True, m_pRenderInfo := True, m_pTarget := pTarget, m_bBlendTarget := (pTarget \<noteq> None \<or> m_bBlendTarget r)\<rparr>)"

definition EndRender :: "SnesPPURender \<Rightarrow> SnesPPURender" where
  "EndRender r =
     (let r = (if m_pTarget r \<noteq> None then r\<lparr>m_bBlendTarget := False, m_pBlend := False\<rparr> else r)
      in r\<lparr>m_pRenderInfo := False, m_pTarget := None\<rparr>)"

text \<open>The table of virtual functions of the renderer.\<close>

definition vt_SnesPPURender :: "render_env \<Rightarrow> unit SnesPPURender_ext render_vt" where
  "vt_SnesPPURender E = \<lparr>v_UpdateVRAM = SnesPPURender_UpdateVRAM, v_UpdateCGRAM = SnesPPURender_UpdateCGRAM E,
     v_RenderLine = SnesPPURender_RenderLine E\<rparr>"

end
