(* ===== verification/Sn_Bg_Ok.thy ===== *)
theory Sn_Bg_Ok
  imports Sn_Bg Sn_Ppu_Ok
begin

text \<open>
  Fetching the tiles of a background line is defined for all contents of the memories and registers:
  the indices of its tables come from fields of registers and of video memory, and the lemmas bound
  them.
\<close>

section \<open>Memory\<close>

definition pixel_end :: nat where "pixel_end = 0x8110"

lemma vram_word_ok: "mem_ok v \<Longrightarrow> i < pixel_end \<Longrightarrow> \<exists>w. vram_word v i = Some w"
  by (auto simp: vram_word_def pixel_end_def mem_ok_def ppu_sizes)

lemma GetVramPtr_eq: "GetVramPtr a = unat a mod 2 ^ 15"
proof -
  have "(0x7FFF :: u32) = mask 15" by (simp add: mask_eq_exp_minus_1)
  then show ?thesis using unat_and_mask [of a 15] by (simp add: GetVramPtr_def)
qed

definition screens_ok :: "nat list \<Rightarrow> bool" where
  "screens_ok s \<longleftrightarrow> length s = 4 \<and> (\<forall>x \<in> set s. x \<le> 0x7C00)"

lemma aligned_below: "a mod 0x400 = 0 \<Longrightarrow> a mod 2 ^ 15 \<le> 0x7C00" for a :: nat
proof -
  assume "a mod 0x400 = 0"
  then obtain q where "a = 0x400 * q" by auto
  moreover have "(0x400 * q) mod 2 ^ 15 = 0x400 * (q mod 32)" using mult_mod_right [of "0x400" q 32] by simp
  moreover have "q mod 32 \<le> 31" using mod_less_divisor [of 32 q] by linarith
  ultimately show ?thesis by simp
qed

lemma GetScreenPtrs_ok:
  assumes "unat a mod 0x400 = 0" and "unat z < 4"
  shows "returns (u_GetScreenPtrs a z) screens_ok"
proof -
  have "GetVramPtr (a + off) \<le> 0x7C00" if "unat off mod 0x400 = 0" for off
  proof -
    have "0x400 dvd unat a + unat off" using assms(1) that by (intro dvd_add) (simp_all only: dvd_eq_mod_eq_0)
    moreover have "(unat a + unat off) mod 2 ^ 32 mod 0x400 = (unat a + unat off) mod 0x400" by (rule mod_mod_cancel) simp
    ultimately have "unat (a + off) mod 0x400 = 0" by (simp only: unat_word_ariths dvd_eq_mod_eq_0) simp
    then show ?thesis unfolding GetVramPtr_eq by (rule aligned_below)
  qed
  moreover have "arr_get u_SnesPPU_ScrSizeOffset (unat z) = Some (u_SnesPPU_ScrSizeOffset ! unat z)"
    using assms(2) by (simp add: u_SnesPPU_ScrSizeOffset_def)
  moreover have "length (u_SnesPPU_ScrSizeOffset ! unat z) = 4 \<and> (\<forall>off \<in> set (u_SnesPPU_ScrSizeOffset ! unat z). unat off mod 0x400 = 0)"
    using nth_mem [of "unat z" u_SnesPPU_ScrSizeOffset] assms(2)
    by (simp add: u_SnesPPU_ScrSizeOffset_def del: nth_mem) (elim disjE; simp)
  ultimately show ?thesis
    by (simp add: u_GetScreenPtrs_def screens_ok_def)
qed

lemma screen_at_ok: "screens_ok s \<Longrightarrow> screen_at s a \<le> 0x7C00"
  by (simp add: screens_ok_def screen_at_def)

lemma next_column_ok: "screens_ok s \<Longrightarrow> snd p \<le> 0x7C00 \<Longrightarrow> snd (next_column s p) \<le> 0x7C00"
  by (auto simp: next_column_def Let_def screen_at_ok split: prod.split)

lemma scr_data_ok:
  assumes "mem_ok v" and "snd p \<le> 0x7C00"
  shows "\<exists>w. scr_data v p = Some w"
proof -
  have "unat (fst p AND 0x3FF) \<le> 0x3FF"
    using and_le_right [of "fst p" "0x3FF"] by (rule order_trans) (simp add: unsigned_numeral take_bit_nat_less_eq_self)
  then show ?thesis using vram_word_ok [OF assms(1), of "snd p + unat (fst p AND 0x3FF)"] assms(2)
    by (auto simp: scr_data_def pixel_end_def split: prod.split)
qed

section \<open>Tiles\<close>

definition tile_ok :: "SnesRenderTileT \<Rightarrow> bool" where
  "tile_ok t \<longleftrightarrow> unat (tile_uPal t) < 16 \<and> unat (tile_uFlip t) < 4 \<and> unat (tile_uOffsetY t) < 8"

definition tiles_ok :: "SnesRenderTileT list \<Rightarrow> bool" where
  "tiles_ok ts \<longleftrightarrow> length ts = 34 \<and> list_all tile_ok ts"

lemma tiles_ok_upd: "tiles_ok ts \<Longrightarrow> tile_ok t \<Longrightarrow> tiles_ok (ts[i := t])"
  by (auto simp: tiles_ok_def list_all_iff dest!: subsetD [OF set_update_subset_insert])

lemma ucast_low:
  "unat (w AND 0xF :: u16) < 16" "unat (w AND 3 :: u16) < 4" "unat (ucast (w AND 0xF :: u16) :: u8) < 16" "unat (ucast (w AND 3 :: u16) :: u8) < 4"
proof -
  have a: "unat (w AND 0xF) < 16" "unat (w AND 3) < 4"
    using and_le_right [of w "0xF"] and_le_right [of w 3] by simp_all
  then show "unat (w AND 0xF :: u16) < 16" "unat (w AND 3 :: u16) < 4" by blast+
  show "unat (ucast (w AND 0xF :: u16) :: u8) < 16" "unat (ucast (w AND 3 :: u16) :: u8) < 4"
    using a by (metis le_less_trans take_bit_nat_less_eq_self unsigned_ucast_eq)+
qed

lemma tile_of_ok: "unat y < 8 \<Longrightarrow> tile_ok (tile_of w y)"
  by (simp only: tile_ok_def tile_of_def SnesRenderTileT.simps ucast_low simp_thms)

lemma fetch_offset_loop_ok:
  "mem_ok v \<Longrightarrow> screens_ok s \<Longrightarrow> snd p \<le> 0x7C00 \<Longrightarrow> i + 2 * n \<le> length os + 1 \<Longrightarrow>
   returns (fetch_offset_loop v s n p i u os) (\<lambda>(n', os'). length os' = length os)"
proof (induction n arbitrary: p i u os)
  case (Suc n)
  obtain w where w: "scr_data v p = Some w" using scr_data_ok Suc.prems by blast
  have "i < length os" using Suc.prems by simp
  with w Suc.IH [of "next_column s p" "i + 2" "os[i := w]" "u OR ucast w"] Suc.prems
  show ?case by (simp add: next_column_ok)
qed simp

lemma u_FetchOffset_ok:
  assumes "mem_ok v" and "screens_ok s" and "length os = 68" and "base \<le> 1"
  shows "returns (u_FetchOffset v a base 32 s os) (\<lambda>(n', os'). length os' = 68)"
  using fetch_offset_loop_ok [OF assms(1,2), of "(a, screen_at s a)" "base + 2" 31 "os[base := 0, base + 1 := 0]" 0] assms
  by (simp add: u_FetchOffset_def screen_at_ok)

lemma fetch8_loop_ok:
  "mem_ok v \<Longrightarrow> screens_ok s \<Longrightarrow> snd p \<le> 0x7C00 \<Longrightarrow> i + n \<le> 34 \<Longrightarrow> tiles_ok ts \<Longrightarrow> returns (fetch8_loop v s n p i ts) tiles_ok"
proof (induction n arbitrary: p i ts)
  case (Suc n)
  obtain w where w: "scr_data v p = Some w" using scr_data_ok Suc.prems by blast
  have "i < length ts" using Suc.prems by (simp add: tiles_ok_def)
  with w Suc.IH [of "next_column s p" "i + 1" "ts[i := tile_of w 0]"] Suc.prems
  show ?case by (simp add: next_column_ok tiles_ok_upd tile_of_ok)
qed simp

lemma tile_ok_uTile [simp]: "tile_ok (t\<lparr>tile_uTile := w\<rparr>) = tile_ok t"
  by (simp add: tile_ok_def)

lemma flip_index: "unat (f :: u8) < 4 \<Longrightarrow> unat x < 4 \<Longrightarrow> unat (ucast f XOR x :: u32) < 4"
  using xor_lt_two_power [of "ucast f :: u32" 2 x] by simp

lemma fetch16_loop_ok:
  "mem_ok v \<Longrightarrow> screens_ok s \<Longrightarrow> snd p \<le> 0x7C00 \<Longrightarrow> int i + n \<le> 33 \<Longrightarrow> unat u < 4 \<Longrightarrow> tiles_ok ts \<Longrightarrow>
   returns (fetch16_loop v s n p i u ts) tiles_ok"
proof (induction v s n p i u ts rule: fetch16_loop.induct)
  case (1 v s n p i u ts)
  show ?case
  proof (cases "n > 0")
    case True
    obtain w where w: "scr_data v p = Some w" using scr_data_ok "1.prems" by blast
    have i: "i + 1 < length ts" using "1.prems" True by (simp add: tiles_ok_def)
    have t: "tile_ok (tile_of w 0)" by (simp add: tile_of_ok)
    then have "unat (ucast (tile_uFlip (tile_of w 0)) XOR u) < 4"
      using flip_index "1.prems"(5) unfolding tile_ok_def by blast
    then obtain os where o: "arr_get u_SNPPUBg_Tile16Pos (unat (ucast (tile_uFlip (tile_of w 0)) XOR u)) = Some os"
      by (simp add: arr_get_def u_SNPPUBg_Tile16Pos_def)
    have u': "unat (u AND NOT 1) < 4" using and_le_left [of u "NOT 1"] "1.prems"(5) by linarith
    define k where "k = (if u AND 1 = 0 then 2 else 1 :: nat)"
    define ts' where "ts' = (let t = tile_of w 0; ts = ts[i := t\<lparr>tile_uTile := tile_uTile t + ucast (os ! 0)\<rparr>] in
      if u AND 1 = 0 then ts[i + 1 := t\<lparr>tile_uTile := tile_uTile t + ucast (os ! 1)\<rparr>] else ts)"
    have e: "fetch16_loop v s n p i u ts = fetch16_loop v s (n - int k) (next_column s p) (i + k) (u AND NOT 1) ts'"
      using True w o i by (subst fetch16_loop.simps) (simp add: k_def ts'_def Let_def del: fetch16_loop.simps)
    have ts': "tiles_ok ts'" using "1.prems"(6) t by (simp add: ts'_def Let_def tiles_ok_upd)
    have s1: "arr_set ts i (tile_of w 0\<lparr>tile_uTile := tile_uTile (tile_of w 0) + ucast (os ! 0)\<rparr>) =
        Some (ts[i := tile_of w 0\<lparr>tile_uTile := tile_uTile (tile_of w 0) + ucast (os ! 0)\<rparr>])" (is "_ = Some ?ts1")
      using i by simp
    have s2: "(if u AND 1 = 0 then arr_set ?ts1 (i + 1) (tile_of w 0\<lparr>tile_uTile := tile_uTile (tile_of w 0) + ucast (os ! 1)\<rparr>) \<bind>
        (\<lambda>ts. Some (ts, 2)) else Some (?ts1, 1)) = Some (ts', k)"
      using i by (simp add: ts'_def k_def Let_def)
    have "returns (fetch16_loop v s (n - int k) (next_column s p) (i + k) (u AND NOT 1) ts') tiles_ok"
      by (rule "1.IH" [OF True w refl o s1 s2 refl]) (use "1.prems" u' ts' in \<open>auto simp: next_column_ok\<close>)
    then show ?thesis by (simp only: e)
  next
    case False
    then show ?thesis using "1.prems"(6) by (subst fetch16_loop.simps) simp
  qed
qed

lemma offset_tile_ok:
  assumes "mem_ok v" and "screens_ok s"
  shows "returns (offset_tile v s x y) tile_ok"
proof -
  let ?a = "tile_address (drop_bit 3 x AND 63) (drop_bit 3 y AND 63)"
  have "snd (?a, screen_at s ?a) \<le> 0x7C00" by (simp add: screen_at_ok [OF assms(2)])
  from scr_data_ok [OF assms(1) this] obtain w where w: "scr_data v (?a, screen_at s ?a) = Some w" by blast
  have "unat (y AND 7) < 8" by simp
  then have "unat (ucast (y AND 7) :: u8) < 8"
    by (metis le_less_trans take_bit_nat_less_eq_self unsigned_ucast_eq)
  with w show ?thesis by (simp add: offset_tile_def Let_def tile_of_ok)
qed

lemma fetch8_offset_ok:
  "mem_ok v \<Longrightarrow> screens_ok s \<Longrightarrow> length os = 68 \<Longrightarrow> i + n \<le> 34 \<Longrightarrow> tiles_ok ts \<Longrightarrow>
   returns (fetch8_offset_loop sc v s l os m n i uX ts) tiles_ok"
proof (induction n arbitrary: i uX ts)
  case (Suc n)
  obtain x y where sc: "sc os (2 * i) m = (x, y)" by (cases "sc os (2 * i) m")
  obtain t where t: "offset_tile v s (x + uX) (y + l) = Some t" "tile_ok t"
    using offset_tile_ok [OF Suc.prems(1,2)] returns_Ex by blast
  have "i < length ts" "2 * i + 1 < length os" using Suc.prems by (simp_all add: tiles_ok_def)
  with sc t Suc.IH [of "i + 1" "ts[i := t]" "uX + 8"] Suc.prems show ?case by (simp add: tiles_ok_upd)
qed simp

section \<open>Backgrounds\<close>

definition info_ok :: "SnesBGInfoT \<Rightarrow> bool" where
  "info_ok b \<longleftrightarrow> unat (bg_uScrAddr b) mod 0x400 = 0 \<and> unat (bg_uScrSize b) < 4 \<and> bg_uChrSize b \<in> {0, 1} \<and> unat (bg_uPalBase b) < 4
     \<and> unat (bg_uMosaic b) < 16"

lemma push_mod: "unat (push_bit 10 w :: u32) mod 0x400 = 0"
proof -
  have "unat (push_bit 10 w) = (unat w * 2 ^ 10) mod 2 ^ 32"
    unfolding unsigned_push_bit_eq by (simp add: take_bit_eq_mod push_bit_eq_mult)
  moreover have "(unat w * 2 ^ 10) mod 2 ^ 32 mod 2 ^ 10 = (unat w * 2 ^ 10) mod (2 ^ 10 :: nat)"
    by (rule mod_mod_cancel) (rule le_imp_power_dvd, simp)
  ultimately show ?thesis by simp
qed

lemma single_bit: "w AND 1 = 0 \<or> w AND 1 = (1 :: u8)"
  by (cases "even w") (simp_all add: and_one_eq even_iff_mod_2_eq_zero odd_iff_mod_2_eq_one)

lemma regs_info_ok:
  assumes "info_ok b"
  shows "info_ok (bg1_regs r b)" "info_ok (bg2_regs r b)" "info_ok (bg3_regs r b)" "info_ok (bg4_regs r b)"
proof -
  have a: "unat (x AND 3 :: u8) < 4" for x by simp
  have m: "unat (drop_bit 4 (x :: u8)) < 16" for x
  proof -
    have "unat x < 256" using unat_u8_le [of x] by simp
    moreover have "unat (drop_bit 4 x) = unat x div 2 ^ 4" unfolding unat_drop_bit_eq by (rule drop_bit_eq_div)
    ultimately show ?thesis by simp
  qed
  show "info_ok (bg1_regs r b)" "info_ok (bg2_regs r b)" "info_ok (bg3_regs r b)" "info_ok (bg4_regs r b)"
    using assms single_bit a m
    by (simp_all only: info_ok_def bg1_regs_def bg2_regs_def bg3_regs_def bg4_regs_def SnesBGInfoT.simps push_mod simp_thms
        insert_iff empty_iff split: if_split) (auto simp: push_mod)
qed

lemma mode_info_ok:
  assumes "k < 4" and "info_ok b"
  shows "info_ok ((bg_modes m ! k) b)"
proof -
  have "k = 0 \<or> k = 1 \<or> k = 2 \<or> k = 3" using assms(1) by linarith
  then show ?thesis using assms(2)
    by (elim disjE) (simp_all add: bg_modes_def info_ok_def prio_def depth_def pal_base_def)
qed

definition junk_ok :: "SnesBGInfoT list \<Rightarrow> bool" where
  "junk_ok J \<longleftrightarrow> length J = 4 \<and> list_all (\<lambda>b. unat (bg_uPalBase b) < 4) J"

definition infos_ok :: "SnesBGInfoT list \<Rightarrow> bool" where
  "infos_ok bs \<longleftrightarrow> length bs = 4 \<and> list_all info_ok bs"

lemma DecodeBGInfo_ok: "junk_ok J \<Longrightarrow> infos_ok (DecodeBGInfo J r)"
proof -
  assume E: "junk_ok J"
  define b0 :: "SnesBGInfoT \<Rightarrow> SnesBGInfoT" where
    "b0 b = b\<lparr>bg_uScrAddr := 0, bg_uScrSize := 0, bg_uChrSize := 0, bg_uMosaic := 0\<rparr>" for b
  have b0: "info_ok (b0 (J ! k))" if "k < 4" for k
    using E that by (auto simp: junk_ok_def b0_def info_ok_def list_all_length)
  have "bg1_regs r b = bg1_regs r (b0 b)" "bg2_regs r b = bg2_regs r (b0 b)" "bg3_regs r b = bg3_regs r (b0 b)" "bg4_regs r b = bg4_regs r (b0 b)" for b
    by (simp_all add: bg1_regs_def bg2_regs_def bg3_regs_def bg4_regs_def b0_def)
  then have "info_ok (bg1_regs r (J ! 0))" "info_ok (bg2_regs r (J ! 1))" "info_ok (bg3_regs r (J ! 2))" "info_ok (bg4_regs r (J ! 3))"
    using b0 regs_info_ok by (metis zero_less_numeral one_less_numeral_iff numeral_less_iff semiring_norm)+
  then show ?thesis
    using mode_info_ok by (simp add: DecodeBGInfo_def Let_def infos_ok_def)
qed

lemma FetchBG_ok:
  assumes "mem_ok v" and "info_ok b" and "tiles_ok ts"
  shows "returns (FetchBG v b 33 l ts old) (\<lambda>(f, ts', a). tiles_ok ts')"
proof -
  obtain s where s: "u_GetScreenPtrs (bg_uScrAddr b) (bg_uScrSize b) = Some s" "screens_ok s"
    using returns_Ex [OF GetScreenPtrs_ok [of "bg_uScrAddr b" "bg_uScrSize b"]] assms(2) unfolding info_ok_def by metis
  have 8: "returns (u_FetchBG8x8 v a 33 s ts) tiles_ok" for a
    unfolding u_FetchBG8x8_def by (rule fetch8_loop_ok) (use assms s in \<open>simp_all add: screen_at_ok\<close>)
  have 16: "returns (u_FetchBG16x16 v a 33 s x ts) tiles_ok" if "unat x < 4" for a x
    unfolding u_FetchBG16x16_def by (rule fetch16_loop_ok) (use assms s that in \<open>simp_all add: screen_at_ok\<close>)
  have x: "unat ((if p then 1 else 0) OR (if q then 2 else 0) :: u32) < 4" for p q
    using or_lt_two_power [of "if p then 1 else 0 :: u32" 2 "if q then 2 else 0"] by simp
  have "bg_uChrSize b = 0 \<or> bg_uChrSize b = 1" using assms(2) by (simp add: info_ok_def)
  then show ?thesis
    using assms(3) s(1)
    by (elim disjE)
      (auto simp: FetchBG_def Let_def intro!: returns_bind [OF 8] returns_bind [OF 16] x)
qed

lemma FetchBGOffset_ok:
  assumes "mem_ok v" and "info_ok b" and "tiles_ok ts" and "length os = 68"
  shows "returns (FetchBGOffset v b 33 l os m vo ts) (\<lambda>(f, ts'). tiles_ok ts')"
proof -
  obtain s where s: "u_GetScreenPtrs (bg_uScrAddr b) (bg_uScrSize b) = Some s" "screens_ok s"
    using returns_Ex [OF GetScreenPtrs_ok [of "bg_uScrAddr b" "bg_uScrSize b"]] assms(2) unfolding info_ok_def by metis
  have "returns (fetch8_offset_loop sc v s l os m 33 0 0 ts) tiles_ok" for sc
    by (rule fetch8_offset_ok) (use assms s in simp_all)
  then have f: "\<exists>ts'. fetch8_offset_loop sc v s l os m 33 0 0 ts = Some ts' \<and> tiles_ok ts'" for sc
    by (rule returns_Ex)
  show ?thesis
    using assms(2,3) s(1) f [of "scroll_both (bg_uScrollX b) (bg_uScrollY b)"] f [of "scroll_either (bg_uScrollX b) (bg_uScrollY b)"]
    by (auto simp: FetchBGOffset_def info_ok_def u_FetchBG8x8Offset_def u_FetchBG8x8Offset2_def)
qed

lemma FetchOffset_ok:
  assumes "mem_ok v" and "info_ok b" and "length os = 68"
  shows "returns (FetchOffset v b os old vo) (\<lambda>(n, os', a). length os' = 68)"
proof -
  obtain s where s: "u_GetScreenPtrs (bg_uScrAddr b) (bg_uScrSize b) = Some s" "screens_ok s"
    using returns_Ex [OF GetScreenPtrs_ok [of "bg_uScrAddr b" "bg_uScrSize b"]] assms(2) unfolding info_ok_def by metis
  have f: "\<exists>n os'. u_FetchOffset v a k 32 s os = Some (n, os') \<and> length os' = 68" if "length os = 68" "k \<le> 1" for a k os
    using u_FetchOffset_ok [OF assms(1) s(2) that] by (rule returns_pair)
  obtain n1 os1 where 1: "u_FetchOffset v (ucast (tile_address (drop_bit 3 (bg_uScrollX b) AND 63) (drop_bit 3 (bg_uScrollY b) AND 63))) 0 32 s os = Some (n1, os1)" "length os1 = 68"
    using f [OF assms(3), of 0] by (metis zero_le)
  obtain n2 os2 where 2: "u_FetchOffset v (ucast (tile_address (drop_bit 3 (bg_uScrollX b) AND 63) (drop_bit 3 (bg_uScrollY b) AND 63) + 32)) 1 32 s os1 = Some (n2, os2)" "length os2 = 68"
    using f [OF 1(2), of 1] by (metis order_refl)
  show ?thesis
    using s(1) 1 2 assms(3) by (cases "bg_uScrSize b = 0 \<or> bg_uScrSize b = 1"; cases vo) (auto simp: FetchOffset_def Let_def)
qed

lemma DecodeWindows_ok: "\<exists>w bw. DecodeWindows r = Some (w, bw) \<and> length w = 4 \<and> length bw = 6"
proof -
  have "unat (ucast (a :: u8) :: u32) < 256" for a
    using unat_u8_le [of a] by (simp add: unsigned_ucast_eq take_bit_nat_eq_self_iff)
  then have "\<exists>m. SNMaskRange (ucast (a :: u8)) (ucast (b :: u8)) False = Some m" for a b
    using SNMaskRange_bits [of "ucast a" "ucast b"] by metis
  then obtain m where "SNMaskRange (ucast (a :: u8)) (ucast (b :: u8)) False = Some (m a b)" for a b by metis
  then show ?thesis by (simp add: DecodeWindows_def Let_def)
qed

end
