(* ===== verification/Sn_Obj_Ok.thy ===== *)
theory Sn_Obj_Ok
  imports Sn_Obj Sn_Bg_Ok
begin

text \<open>
  Decoding the object memory, the lists of the objects of every line and the columns of the objects
  of a line: they are defined, and the lists are what a scan of all objects for the line finds.
\<close>

section \<open>Objects\<close>

definition obj_ok :: "SnesRenderObjT \<Rightarrow> bool" where
  "obj_ok o' \<longleftrightarrow> unat (obj_uPal o') < 8 \<and> obj_uSize o' \<in> {0, 8, 16, 32, 64}"

definition objs_ok :: "SnesRenderObjT list \<Rightarrow> bool" where
  "objs_ok os \<longleftrightarrow> length os = SNESPPU_OBJ_NUM \<and> list_all obj_ok os"

lemma DecodeOBJEX_ok:
  "unat (fst sz) < 4 \<Longrightarrow> unat (snd sz) < 4 \<Longrightarrow> length os = 4 * length es \<Longrightarrow>
   returns (u_DecodeOBJEX sz es os) (\<lambda>os'. length os' = length os \<and> list_all (\<lambda>o'. unat (obj_uSizeShift o') < 4) os')"
proof (induction sz es os rule: u_DecodeOBJEX.induct)
  case (1 sz e es a b c d os)
  then show ?case
    by (simp only: u_DecodeOBJEX.simps) (rule returns_bind [OF "1.IH"], auto simp: decode_ex_def)
qed (simp_all, presburger+)

lemma DecodeOBJ_ok:
  "list_all (\<lambda>o'. unat (obj_uSizeShift o') < 4) os \<Longrightarrow> length bs = 4 * length os \<Longrightarrow>
   returns (u_DecodeOBJ bs os) (\<lambda>os'. length os' = length os \<and> list_all obj_ok os')"
proof (induction bs os rule: u_DecodeOBJ.induct)
  case (1 x y t a bs o' os)
  have "unat (obj_uSizeShift o') = 0 \<or> unat (obj_uSizeShift o') = 1 \<or> unat (obj_uSizeShift o') = 2 \<or> unat (obj_uSizeShift o') = 3"
    using "1.prems"(1) by auto
  moreover have "unat (drop_bit 1 a AND 7) < 8" by simp
  ultimately have "obj_ok (decode_obj x y t a o')"
    by (elim disjE) (simp_all only: obj_ok_def decode_obj_def Let_def SnesRenderObjT.simps, simp_all)
  then show ?case
    using "1.prems" by (simp only: u_DecodeOBJ.simps) (rule returns_bind [OF "1.IH"], auto)
qed (auto simp: returns_def)

lemma UpdateOBJ_ok:
  assumes "mem_ok v" and "length os = SNESPPU_OBJ_NUM"
  shows "\<exists>os' ys zs. UpdateOBJ v os = Some (os', ys, zs) \<and> objs_ok os' \<and> ys = map obj_uPosY os' \<and> zs = map obj_uSize os'"
proof -
  have k: "unat (drop_bit 5 (r_obsel (ppu_Regs v)) AND 7) < length u_SnesPPU_OAMSize" by (simp add: u_SnesPPU_OAMSize_def)
  define sz where "sz = u_SnesPPU_OAMSize ! unat (drop_bit 5 (r_obsel (ppu_Regs v)) AND 7)"
  have sz: "arr_get u_SnesPPU_OAMSize (unat (drop_bit 5 (r_obsel (ppu_Regs v)) AND 7)) = Some sz"
    unfolding sz_def by (rule arr_get_in) (rule k)
  have "\<forall>sz \<in> set u_SnesPPU_OAMSize. unat (fst sz) < 4 \<and> unat (snd sz) < 4" by (simp add: u_SnesPPU_OAMSize_def)
  moreover have "sz \<in> set u_SnesPPU_OAMSize" unfolding sz_def by (rule nth_mem) (rule k)
  ultimately have z: "unat (fst sz) < 4" "unat (snd sz) < 4" by blast+
  have l: "length (drop (4 * SNESPPU_OBJ_NUM) (m_OAM v)) = 32" "length (take (4 * SNESPPU_OBJ_NUM) (m_OAM v)) = 4 * 128"
    using assms(1) by (simp_all add: mem_ok_def ppu_sizes SNESPPU_OBJ_NUM_def)
  obtain os1 where 1: "u_DecodeOBJEX sz (drop (4 * SNESPPU_OBJ_NUM) (m_OAM v)) os = Some os1" "length os1 = 128"
     "list_all (\<lambda>o'. unat (obj_uSizeShift o') < 4) os1"
    using returns_Ex [OF DecodeOBJEX_ok [OF z, of os "drop (4 * SNESPPU_OBJ_NUM) (m_OAM v)"]] assms(2) l by (auto simp: SNESPPU_OBJ_NUM_def)
  obtain os2 where 2: "u_DecodeOBJ (take (4 * SNESPPU_OBJ_NUM) (m_OAM v)) os1 = Some os2" "length os2 = 128" "list_all obj_ok os2"
    using returns_Ex [OF DecodeOBJ_ok [OF 1(3), of "take (4 * SNESPPU_OBJ_NUM) (m_OAM v)"]] 1(2) l by auto
  show ?thesis using sz 1 2 by (simp add: UpdateOBJ_def objs_ok_def SNESPPU_OBJ_NUM_def)
qed

text \<open>The list of a line, and adding an object to it if there is room.\<close>

definition line_of :: "u8 list \<times> u8 list list \<Rightarrow> nat \<Rightarrow> u8 list" where
  "line_of s k = take (unat (fst s ! k)) (snd s ! k)"

definition lists_ok :: "u8 list \<times> u8 list list \<Rightarrow> bool" where
  "lists_ok s \<longleftrightarrow> length (fst s) = SNPPU_MAXLINE \<and> length (snd s) = SNPPU_MAXLINE \<and>
     (\<forall>k < SNPPU_MAXLINE. unat (fst s ! k) \<le> SNPPU_MAXOBJ \<and> length (snd s ! k) = SNPPU_MAXOBJ \<and> list_all (\<lambda>i. unat i < 128) (line_of s k))"

definition ext_line :: "'a \<Rightarrow> bool \<Rightarrow> 'a list \<Rightarrow> 'a list" where
  "ext_line i b l = (if b \<and> length l < SNPPU_MAXOBJ then l @ [i] else l)"

lemma line_of_length: "lists_ok s \<Longrightarrow> k < SNPPU_MAXLINE \<Longrightarrow> length (line_of s k) = unat (fst s ! k)"
  by (simp add: lists_ok_def line_of_def)

lemma take_snoc_upd: "n < length l \<Longrightarrow> take (Suc n) (l[n := x]) = take n l @ [x]"
  by (simp add: take_Suc_conv_app_nth)

lemma add_obj_line:
  assumes ok: "lists_ok s" and i: "unat i < 128"
  shows "returns (add_obj i y s) (\<lambda>s'. lists_ok s' \<and> (\<forall>k < SNPPU_MAXLINE. line_of s' k = ext_line i (k = unat y) (line_of s k)))"
proof (cases "unat y < SNPPU_MAXLINE \<and> unat (fst s ! unat y) < SNPPU_MAXOBJ")
  case True
  obtain ns ls where s: "s = (ns, ls)" by (cases s)
  let ?y = "unat y" and ?n = "unat (ns ! unat y)"
  have l: "length ns = SNPPU_MAXLINE" "length ls = SNPPU_MAXLINE" "length (ls ! ?y) = SNPPU_MAXOBJ"
    using ok True by (simp_all add: lists_ok_def s)
  have n: "?n < SNPPU_MAXOBJ" using True by (simp add: s)
  define s' where "s' = (ns[?y := ns ! ?y + 1], ls[?y := (ls ! ?y)[?n := i]])"
  have e: "add_obj i y s = Some s'" using True l n by (simp add: add_obj_def s s'_def)
  have u: "unat (ns ! ?y + 1) = Suc ?n"
    using n by (simp add: SNPPU_MAXOBJ_def unat_word_ariths)
  have line: "line_of s' k = ext_line i (k = ?y) (line_of s k)" if "k < SNPPU_MAXLINE" for k
    using that l n u by (cases "k = ?y") (simp_all add: s'_def s line_of_def ext_line_def take_snoc_upd)
  moreover have "lists_ok s'"
  proof -
    have "unat (fst s' ! k) \<le> SNPPU_MAXOBJ \<and> length (snd s' ! k) = SNPPU_MAXOBJ \<and> list_all (\<lambda>i. unat i < 128) (line_of s' k)"
      if k: "k < SNPPU_MAXLINE" for k
      using ok k l n u i line [OF k] by (cases "k = ?y") (auto simp: lists_ok_def s s'_def ext_line_def)
    then show ?thesis using l by (simp add: lists_ok_def s'_def)
  qed
  ultimately show ?thesis by (simp add: e)
next
  case False
  obtain ns ls where s: "s = (ns, ls)" by (cases s)
  have "add_obj i y s = Some s" using False ok by (auto simp: add_obj_def s lists_ok_def)
  moreover have "ext_line i (k = unat y) (line_of s k) = line_of s k" if "k < SNPPU_MAXLINE" for k
    using False that line_of_length [OF ok that] by (auto simp: ext_line_def)
  ultimately show ?thesis using ok by simp
qed

lemma ext_line_twice: "\<not> (a \<and> b) \<Longrightarrow> ext_line i b (ext_line i a l) = ext_line i (a \<or> b) l"
  by (auto simp: ext_line_def)

lemma next_row: "((uint (y :: u32) + 1) mod 256 = uint ((y + 1) AND 0xFF))"
proof -
  have "uint ((y + 1) AND 0xFF) = uint (y + 1) mod 256"
    using and_masks(1) [of "y + 1"] unfolding uint_nat by (simp only: zmod_int of_nat_numeral)
  moreover have "(uint y + 1) mod 2 ^ 32 mod 256 = (uint y + 1) mod 256" by (rule mod_mod_cancel) simp
  ultimately show ?thesis by (simp add: uint_word_ariths)
qed

lemma rows_mod: "0 \<le> y \<Longrightarrow> y < 256 \<Longrightarrow> 0 \<le> k \<Longrightarrow> k < 256 \<Longrightarrow> (k - y) mod 256 = (if y \<le> k then k - y else k - y + 256)" for k y :: int
  using mod_pos_pos_trivial [of "k - y" 256] mod_pos_pos_trivial [of "k - y + 256" 256] mod_add_self2 [of "k - y" 256] by auto

lemma rows_step:
  fixes k y n :: int
  assumes "0 \<le> y" "y < 256" "0 \<le> k" "k < 256" "0 \<le> n" "n \<le> 255"
  shows "(k - y) mod 256 < 1 + n \<longleftrightarrow> k = y \<or> (k - (y + 1) mod 256) mod 256 < n" (is ?E)
    and "\<not> (k = y \<and> (k - (y + 1) mod 256) mod 256 < n)" (is ?N)
proof -
  have "0 \<le> (y + 1) mod 256 \<and> (y + 1) mod 256 < 256 \<and> (y + 1) mod 256 = (if y = 255 then 0 else y + 1)"
    using assms(1,2) by simp
  then show ?E ?N using assms rows_mod [OF assms(1-4)] rows_mod [of "(y + 1) mod 256" k] by (auto split: if_splits)
qed

lemma add_rows_line:
  assumes "lists_ok s" and i: "unat i < 128" and "n \<le> 256" and "uint y < 256"
  shows "returns (add_rows i n y s) (\<lambda>s'. lists_ok s' \<and>
     (\<forall>k < SNPPU_MAXLINE. line_of s' k = ext_line i ((int k - uint y) mod 256 < int n) (line_of s k)))"
  using assms(1,3,4)
proof (induction n arbitrary: y s)
  case (Suc n)
  show ?case
  proof (simp only: add_rows.simps, rule returns_bind [OF add_obj_line [OF Suc.prems(1) i, of y]], elim conjE)
    fix s1 assume s1: "lists_ok s1" "\<forall>k < SNPPU_MAXLINE. line_of s1 k = ext_line i (k = unat y) (line_of s k)"
    have y: "uint ((y + 1) AND 0xFF) < 256" by (simp flip: next_row)
    show "returns (add_rows i n ((y + 1) AND 0xFF) s1) (\<lambda>s'. lists_ok s' \<and>
      (\<forall>k < SNPPU_MAXLINE. line_of s' k = ext_line i ((int k - uint y) mod 256 < int (Suc n)) (line_of s k)))"
    proof (rule returns_mono [OF Suc.IH [OF s1(1) _ y]])
      fix s' assume s': "lists_ok s' \<and> (\<forall>k < SNPPU_MAXLINE. line_of s' k =
        ext_line i ((int k - uint ((y + 1) AND 0xFF)) mod 256 < int n) (line_of s1 k))"
      have "line_of s' k = ext_line i ((int k - uint y) mod 256 < int (Suc n)) (line_of s k)" if k: "k < SNPPU_MAXLINE" for k
      proof -
        have b: "0 \<le> uint y" "uint y < 256" "0 \<le> int k" "int k < 256" "0 \<le> int n" "int n \<le> 255"
          using k Suc.prems by (simp_all add: SNPPU_MAXLINE_def)
        have u: "k = unat y \<longleftrightarrow> int k = uint y" by (metis of_nat_eq_iff uint_nat)
        show ?thesis
          using s' s1(2) k rows_step(1) [OF b] ext_line_twice [OF rows_step(2) [OF b]]
          by (simp only: u next_row [symmetric] of_nat_Suc)
      qed
      then show "lists_ok s' \<and> (\<forall>k < SNPPU_MAXLINE. line_of s' k = ext_line i ((int k - uint y) mod 256 < int (Suc n)) (line_of s k))"
        using s' by blast
    qed (use Suc.prems in simp)
  qed
qed (simp add: ext_line_def not_less [of _ "0 :: int", THEN iffD2])

text \<open>The scan of all objects for one line.\<close>

lemma uint_ucast_up: "uint (ucast (y :: u8) :: u32) = uint y"
  using uint_lt2p [of y] by (simp add: unsigned_ucast_eq take_bit_int_eq_self_iff)

lemma covers_line_eq:
  assumes "k < 256"
  shows "covers_line (word_of_nat k) y sz \<longleftrightarrow> (int k - uint y) mod 256 < int (unat sz)"
proof -
  have k: "uint (word_of_nat k :: u32) = int k" using assms by (simp add: unsigned_of_nat take_bit_nat_eq_self_iff)
  have "uint ((word_of_nat k - ucast y :: u32) AND 0xFF) = uint (word_of_nat k - ucast y :: u32) mod 256"
    using and_masks(1) [of "word_of_nat k - ucast y :: u32"] unfolding uint_nat by (simp only: zmod_int of_nat_numeral)
  also have "\<dots> = (int k - uint y) mod 2 ^ 32 mod 256" by (simp only: uint_word_ariths k uint_ucast_up) simp
  also have "\<dots> = (int k - uint y) mod 256" by (rule mod_mod_cancel) simp
  finally show ?thesis by (simp only: covers_line_def word_less_def uint_ucast_up) simp
qed

lemma visibility_line:
  assumes "length ys = 128" and "length sizes = 128" and "lists_ok s" and "k < SNPPU_MAXLINE"
  shows "returns (visibility_loop ys sizes i n s) (\<lambda>s'. lists_ok s' \<and>
    (if length (line_of s k) < SNPPU_MAXOBJ then CheckOBJ_arrays ys sizes i n SNPPU_MAXOBJ (word_of_nat k) (line_of s k) = Some (line_of s' k)
     else line_of s' k = line_of s k))"
  using assms(3)
proof (induction n arbitrary: i s)
  case (Suc n)
  define j where "j = i AND 0x7F"
  have j: "unat j < 128" using and_le_right [of i "0x7F"] by (simp add: j_def le_less_trans)
  have jb: "unat (ucast j :: u8) < 128" using j by (metis le_less_trans take_bit_nat_less_eq_self unsigned_ucast_eq)
  define y where "y = ys ! unat j"
  define sz where "sz = sizes ! unat j"
  have sz: "unat sz \<le> 256" using unat_u8_le [of sz] by simp
  have y: "uint (ucast y :: u32) < 256" using uint_lt2p [of y] by (simp only: uint_ucast_up) simp
  have c: "covers_line (word_of_nat k) y sz \<longleftrightarrow> (int k - uint y) mod 256 < int (unat sz)"
    using assms(4) by (intro covers_line_eq) (simp add: SNPPU_MAXLINE_def)
  show ?case
  proof (simp only: visibility_loop.simps Let_def assms(1,2) j arr_get_in bind.bind_lunit j_def [symmetric] y_def [symmetric] sz_def [symmetric],
      rule returns_bind [OF add_rows_line [OF Suc.prems jb sz y, unfolded uint_ucast_up]], elim conjE)
    fix s1 assume s1: "lists_ok s1" "\<forall>k < SNPPU_MAXLINE. line_of s1 k =
      ext_line (ucast j) ((int k - uint y) mod 256 < int (unat sz)) (line_of s k)"
    have l1: "line_of s1 k = ext_line (ucast j) (covers_line (word_of_nat k) y sz) (line_of s k)" using s1(2) assms(4) c by simp
    show "returns (visibility_loop ys sizes (j + 1) n s1) (\<lambda>s'. lists_ok s' \<and>
      (if length (line_of s k) < SNPPU_MAXOBJ then CheckOBJ_arrays ys sizes i (Suc n) SNPPU_MAXOBJ (word_of_nat k) (line_of s k) = Some (line_of s' k)
       else line_of s' k = line_of s k))"
      by (rule returns_mono [OF Suc.IH [OF s1(1), of "j + 1"]])
        (auto simp: l1 ext_line_def Let_def assms(1,2) j j_def [symmetric] y_def [symmetric] sz_def [symmetric] split: if_splits)
  qed
qed simp

lemma UpdateOBJVisibility_line:
  assumes "length ys = 128" and "length sizes = 128" and "length ls = SNPPU_MAXLINE" and "\<forall>l \<in> set ls. length l = SNPPU_MAXOBJ"
  shows "returns (UpdateOBJVisibility ys sizes i n ls) (\<lambda>s'. lists_ok s' \<and>
    (\<forall>k < SNPPU_MAXLINE. CheckOBJ_arrays ys sizes i n SNPPU_MAXOBJ (word_of_nat k) [] = Some (line_of s' k)))"
proof -
  let ?s = "(replicate SNPPU_MAXLINE 0, ls) :: u8 list \<times> u8 list list"
  have e: "line_of ?s k = []" if "k < SNPPU_MAXLINE" for k using that by (simp add: line_of_def)
  have ok: "lists_ok ?s" using assms(3,4) e by (simp add: lists_ok_def)
  note v = visibility_line [OF assms(1,2) ok, of _ i n]
  obtain s' where s': "visibility_loop ys sizes i n ?s = Some s'" "lists_ok s'"
    using returns_Ex [OF v [of 0]] by (auto simp: SNPPU_MAXLINE_def)
  have "CheckOBJ_arrays ys sizes i n SNPPU_MAXOBJ (word_of_nat k) [] = Some (line_of s' k)" if "k < SNPPU_MAXLINE" for k
    using v [OF that] s'(1) e [OF that] by (simp add: SNPPU_MAXOBJ_def)
  then show ?thesis using s' by (simp add: UpdateOBJVisibility_def)
qed

section \<open>Columns\<close>

lemma planes4_ok: "mem_ok v \<Longrightarrow> a + 8 < pixel_end \<Longrightarrow> \<exists>ps. planes4 v a = Some ps"
  using vram_word_ok [of v a] vram_word_ok [of v "a + 8"] by (auto simp: planes4_def)

text \<open>A column lies on the line at least in part, except the one at -8, which is skipped.\<close>

definition column_ok :: "SnesRenderObj8T \<Rightarrow> bool" where
  "column_ok c \<longleftrightarrow> length (o8_pixels c) = 8 \<and> - 8 \<le> o8_iPosX c \<and> o8_iPosX c < 256"

lemma obj_column_ok: "obj_ok o' \<Longrightarrow> - 8 \<le> x \<Longrightarrow> x < 256 \<Longrightarrow> \<exists>c. obj_column o' x ps = Some c \<and> column_ok c"
  by (auto simp: obj_column_def obj_ok_def column_ok_def bytes32_def u_SnesPPU_Obj4PalLookup_def Let_def)

lemma obj_columns_ok:
  assumes "mem_ok v" and "obj_ok o'"
  shows "n mod 8 = 0 \<Longrightarrow> a + 2 * n \<le> 0x8100 \<Longrightarrow> list_all column_ok l \<Longrightarrow>
    returns (obj_columns v o' m x dx n a l) (\<lambda>(f, l'). list_all column_ok l')"
proof (induction n arbitrary: a x l rule: less_induct)
  case (less n)
  show ?case
  proof (cases "n = 0")
    case True
    then show ?thesis using less.prems by (subst obj_columns.simps) simp
  next
    case False
    then have n: "8 \<le> n" "n - 8 < n" "(n - 8) mod 8 = 0" "a + 16 + 2 * (n - 8) \<le> 0x8100"
      using less.prems(1,2) by (auto simp: dvd_eq_mod_eq_0 [symmetric] dvd_diff_nat intro: dvd_imp_le)
    note IH = less.IH [OF n(2-4)]
    show ?thesis
    proof (cases "- 8 \<le> x \<and> x < 256")
      case True
      have "a + 8 < pixel_end" using n(4) by (simp add: pixel_end_def)
      then obtain ps c where "planes4 v a = Some ps" "obj_column o' x ps = Some c" "column_ok c"
        using planes4_ok [OF assms(1)] obj_column_ok [OF assms(2)] True by metis
      then show ?thesis using False n(1) True less.prems(3) IH by (subst obj_columns.simps) simp
    next
      case False
      then show ?thesis using n(1) \<open>n \<noteq> 0\<close> less.prems(3) IH by (subst obj_columns.simps) (simp only: if_False simp_thms, simp)
    qed
  qed
qed

lemma obj_address_le: "obj_address o' y b n + 2 * unat (obj_uSize o') \<le> 0x8100" if "obj_ok o'"
proof -
  have "unat (x AND 0x7FFF) \<le> 0x7FFF" for x :: u32
    using and_le_right [of x "0x7FFF"] by simp
  moreover have "unat (y AND 7) \<le> 7" by simp
  moreover have "unat (obj_uSize o') \<le> 64" using that by (auto simp: obj_ok_def)
  ultimately have t: "unat (x AND 0x7FFF) + unat (y AND 7) + 2 * unat (obj_uSize o') \<le> 0x7FFF + 7 + 2 * 64" for x :: u32
    by (intro add_mono mult_left_mono) simp_all
  show ?thesis unfolding obj_address_def Let_def by (rule order_trans [OF t]) simp
qed

lemma fetch_objs_ok:
  assumes "mem_ok v" and "objs_ok os"
  shows "list_all (\<lambda>i. unat i < 128) is \<Longrightarrow> list_all column_ok l \<Longrightarrow> returns (fetch_objs v os is m y b n l) (list_all column_ok)"
proof (induction "is" arbitrary: l)
  case (Cons i "is")
  have o': "obj_ok (os ! unat i)" "unat i < length os"
    using assms(2) Cons.prems(1) by (auto simp: objs_ok_def list_all_length SNESPPU_OBJ_NUM_def)
  have s: "unat (obj_uSize (os ! unat i)) mod 8 = 0" using o'(1) by (auto simp: obj_ok_def)
  let ?o = "os ! unat i"
  let ?x = "if obj_bHFlip ?o \<noteq> 0 then sign_extend9 (obj_uPosX ?o) + int (unat (obj_uSize ?o)) - 8 else sign_extend9 (obj_uPosX ?o)"
  let ?dx = "if obj_bHFlip ?o \<noteq> 0 then - 8 else 8 :: int"
  obtain full l' where c: "obj_columns v ?o m ?x ?dx (unat (obj_uSize ?o)) (obj_address ?o (obj_row ?o y) b n) l = Some (full, l')"
      "list_all column_ok l'"
    using obj_columns_ok [OF assms(1) o'(1) s obj_address_le [OF o'(1)] Cons.prems(2), THEN returns_pair] by blast
  have "fetch_objs v os (i # is) m y b n l = (if full then Some l' else fetch_objs v os is m y b n l')"
    using c(1) o'(2) by (cases "obj_bHFlip ?o = 0") (simp_all add: Let_def)
  then show ?case using Cons.IH [of l'] Cons.prems(1) c(2) by simp
qed simp

lemma u_FetchOBJ_ok:
  "mem_ok v \<Longrightarrow> objs_ok os \<Longrightarrow> list_all (\<lambda>i. unat i < 128) (take n l) \<Longrightarrow> returns (u_FetchOBJ v os l n m y b s) (list_all column_ok)"
  unfolding u_FetchOBJ_def by (rule fetch_objs_ok) simp_all

end
