(* ===== verification/Sn_Chr_Ok.thy ===== *)
theory Sn_Chr_Ok
  imports Sn_Chr Sn_Obj_Ok
begin

text \<open>
  Decoding tiles, mosaic and mode 7 are defined for all contents of the memories and registers.
\<close>

section \<open>Tiles\<close>

lemma chr_planes_ok: "mem_ok v \<Longrightarrow> a + 8 * n \<le> pixel_end \<Longrightarrow> returns (chr_planes v a n) (\<lambda>ps. length ps = 2 * n)"
proof (induction n arbitrary: a)
  case (Suc n)
  obtain w where "vram_word v a = Some w" using vram_word_ok [of v a] Suc.prems by auto
  moreover obtain ps where "chr_planes v (a + 8) n = Some ps" "length ps = 2 * n"
    using returns_Ex [OF Suc.IH [of "a + 8"]] Suc.prems by auto
  ultimately show ?case by simp
qed simp

lemma chr_row_less:
  assumes "unat (y :: u32) < 8" and "unat (o' :: u8) < 8" and "unat f < 16"
  shows "unat ((y + ucast o') XOR f) < 16"
proof -
  have "unat (ucast o' :: u32) < 8" using assms(2) by (metis le_less_trans take_bit_nat_less_eq_self unsigned_ucast_eq)
  then have "unat (y + ucast o') < 2 ^ 4" using assms(1) by (simp add: unat_word_ariths)
  then show ?thesis using xor_lt_two_power [of "y + ucast o'" 4 f] assms(3) by simp
qed

definition tile_out :: "u8 list \<times> u8 \<times> u8 \<Rightarrow> bool" where
  "tile_out = (\<lambda>(px, m, p). length px = 8)"

lemma chr_tile_ok:
  assumes "mem_ok v" and "tile_ok t" and "unat y < 8" and "n \<le> 4"
  shows "returns (chr_tile v b n y pal t) tile_out"
proof -
  have "unat (tile_uFlip t) < length u_FlipTable8" using assms(2) by (simp add: tile_ok_def u_FlipTable8_def)
  moreover obtain f h k where f: "u_FlipTable8 ! unat (tile_uFlip t) = (f, h, k)" by (metis prod_cases3)
  ultimately have "(f, h, k) \<in> set u_FlipTable8" by (metis nth_mem)
  then have "unat f < 16" by (auto simp: u_FlipTable8_def)
  then have "unat ((y + ucast (tile_uOffsetY t)) XOR f) < 16"
    using chr_row_less assms(2,3) by (simp add: tile_ok_def)
  then have a: "unat (x AND 0x7FFF) + unat ((y + ucast (tile_uOffsetY t)) XOR f) + 8 * n \<le> pixel_end" for x :: u32
  proof -
    have "unat (x AND 0x7FFF) \<le> 0x7FFF" using and_le_right [of x "0x7FFF"] by simp
    then have "unat (x AND 0x7FFF) + unat ((y + ucast (tile_uOffsetY t)) XOR f) + 8 * n \<le> 0x7FFF + 16 + 8 * 4"
      using \<open>unat ((y + ucast (tile_uOffsetY t)) XOR f) < 16\<close> assms(4) by (intro add_mono mult_left_mono) simp_all
    then show ?thesis by (simp add: pixel_end_def)
  qed
  obtain ps where "chr_planes v (unat ((b + ucast (tile_uTile t) * word_of_nat (8 * n)) AND 0x7FFF) +
      unat ((y + ucast (tile_uOffsetY t)) XOR f)) n = Some ps"
    using returns_Ex [OF chr_planes_ok [OF assms(1) a]] by metis
  moreover have "arr_get u_FlipTable8 (unat (tile_uFlip t)) = Some (f, h, k)"
    using f assms(2) by (simp add: tile_ok_def u_FlipTable8_def arr_get_def)
  ultimately show ?thesis by (simp add: chr_tile_def Let_def tile_out_def bytes64_def)
qed

definition row_out :: "nat \<Rightarrow> u8 list \<times> u8 list \<times> u8 list \<Rightarrow> bool" where
  "row_out n = (\<lambda>(px, ms, ps). length px = 8 * n \<and> length ms = n \<and> length ps = n)"

lemma chr_tiles_ok: "\<forall>t \<in> set ts. returns (f t) tile_out \<Longrightarrow> returns (chr_tiles f ts) (row_out (length ts))"
proof (induction ts)
  case (Cons t ts)
  then obtain px m p pxs ms ps where "f t = Some (px, m, p)" "length px = 8" "chr_tiles f ts = Some (pxs, ms, ps)"
    "row_out (length ts) (pxs, ms, ps)"
    by (auto simp: returns_def tile_out_def)
  then show ?case by (simp add: row_out_def)
qed (simp add: row_out_def)

lemma pal_lookup_lengths:
  "length u_SnesPPU_Tile4PalLookup64 = 16" "length u_SnesPPU_Tile2PalLookup64 = 4" "\<forall>p \<in> set u_SnesPPU_Tile2PalLookup64. length p = 16"
  by (simp_all add: u_SnesPPU_Tile4PalLookup64_def u_SnesPPU_Tile2PalLookup64_def)

lemma FetchCHR_ok:
  assumes "mem_ok v" and "list_all tile_ok ts" and "unat y < 8"
  shows "length pal = 16 \<Longrightarrow> returns (u_FetchCHR2_64 v b ts y pal) (row_out (length ts))"
    and "returns (u_FetchCHR4_64 v b ts y) (row_out (length ts))" and "returns (u_FetchCHR8_64 v b ts y) (row_out (length ts))"
proof -
  have t: "\<forall>t \<in> set ts. tile_ok t \<and> unat (tile_uPal t) < 16" using assms(2) by (auto simp: list_all_iff tile_ok_def)
  note c = chr_tile_ok [OF assms(1) _ assms(3)]
  show "returns (u_FetchCHR2_64 v b ts y pal) (row_out (length ts))" if "length pal = 16"
    unfolding u_FetchCHR2_64_def by (rule chr_tiles_ok) (use t c that in simp)
  show "returns (u_FetchCHR4_64 v b ts y) (row_out (length ts))"
    unfolding u_FetchCHR4_64_def by (rule chr_tiles_ok) (use t c in \<open>simp add: pal_lookup_lengths\<close>)
  show "returns (u_FetchCHR8_64 v b ts y) (row_out (length ts))"
    unfolding u_FetchCHR8_64_def by (rule chr_tiles_ok) (use t c in simp)
qed

section \<open>Mosaic\<close>

lemma mosaic_pairs_ok: "i + 8 * n \<le> length bs \<Longrightarrow> returns (mosaic_pairs i n bs) (\<lambda>bs'. length bs' = length bs)"
proof (induction n arbitrary: i bs)
  case (Suc n)
  then have "i + 7 < length bs" by simp
  then show ?case using Suc.IH [of "i + 8" "bs[i + 1 := bs ! i, i + 3 := bs ! (i + 2), i + 5 := bs ! (i + 4), i + 7 := bs ! (i + 6)]"] Suc.prems
    by simp
qed simp

lemma mosaic_fill_ok: "i + n \<le> length bs \<Longrightarrow> returns (mosaic_fill i d n bs) (\<lambda>bs'. length bs' = length bs)"
proof (induction n arbitrary: i bs)
  case (Suc n)
  then show ?case using Suc.IH [of "i + 1" "bs[i := d]"] by simp
qed simp

lemma mosaic_blocks_ok: "i + n \<le> length bs \<Longrightarrow> 0 < m \<Longrightarrow> returns (mosaic_blocks m i n bs) (\<lambda>bs'. length bs' = length bs)"
proof (induction n arbitrary: i bs rule: less_induct)
  case (less n)
  show ?case
  proof (cases "n = 0")
    case True
    then show ?thesis by (subst mosaic_blocks.simps) simp
  next
    case False
    obtain bs' where b: "mosaic_fill i (bs ! i) (min n m) bs = Some bs'" "length bs' = length bs"
      using returns_Ex [OF mosaic_fill_ok [of i "min n m" bs "bs ! i"]] less.prems by (metis add_left_mono min.cobounded1 order_trans)
    have "n - min n m < n" "i + min n m + (n - min n m) \<le> length bs'" using False less.prems b(2) by auto
    from less.IH [OF this less.prems(2)] show ?thesis
      using False less.prems b by (subst mosaic_blocks.simps) simp
  qed
qed

lemma mosaic_planar_ok: "0 < m \<Longrightarrow> \<exists>w'. mosaic_planar m i n w = Some w'"
proof (induction "n - i" arbitrary: i w rule: less_induct)
  case less
  show ?case
  proof (cases "i < n")
    case True
    have "n - (i + min (n - i) m) < n - i" using True less.prems by auto
    from less.hyps [OF this less.prems] show ?thesis
      using True less.prems by (subst mosaic_planar.simps) (simp add: Let_def)
  next
    case False
    then show ?thesis by (subst mosaic_planar.simps) simp
  qed
qed

lemma u_MosaicBGPlanar_ok: "m \<noteq> 0 \<Longrightarrow> \<exists>w'. u_MosaicBGPlanar w n m = Some w'"
  using mosaic_planar_ok [of "unat m"] by (simp add: u_MosaicBGPlanar_def unat_gt_0)

lemma u_MosaicBG8_ok:
  assumes "length bs = 288" and "base < 8" and "m \<noteq> 0"
  shows "returns (u_MosaicBG8 bs base 256 m) (\<lambda>bs'. length bs' = 288)"
  using mosaic_pairs_ok [of base 32 bs] mosaic_blocks_ok [of base 256 bs "unat m"] assms
  by (simp add: u_MosaicBG8_def unat_gt_0)

section \<open>A line of tiles\<close>

lemma u_FetchCHR_64_ok:
  assumes "mem_ok v" and "info_ok b" and "list_all tile_ok ts" and "length ts = 33" and "length px = 288"
  shows "returns (u_FetchCHR_64 v b ts l o' tmp px) (\<lambda>(px', ms, ps). length px' = 288)"
proof -
  define y where "y = (if \<not> o' then bg_uScrollY b + mosaic_line (bg_uMosaic b) l else 0) AND 7"
  have y: "unat y < 8" by (simp add: y_def)
  have "length (u_SnesPPU_Tile2PalLookup64 ! unat (bg_uPalBase b)) = 16" and p: "unat (bg_uPalBase b) < length u_SnesPPU_Tile2PalLookup64"
    using assms(2) pal_lookup_lengths by (auto simp: info_ok_def)
  note f = FetchCHR_ok(1) [OF assms(1,3) y this(1)] FetchCHR_ok(2,3) [OF assms(1,3) y]
  have g: "returns m (row_out (length ts)) \<Longrightarrow> returns m (\<lambda>(px, ms, ps). length px \<le> 288)" for m
    using assms(4) by (elim returns_mono) (auto simp: row_out_def)
  have t: "returns (if bg_uBitDepth b = 2
                 then do { pal \<leftarrow> arr_get u_SnesPPU_Tile2PalLookup64 (unat (bg_uPalBase b)); u_FetchCHR2_64 v (bg_uChrAddr b) ts y pal }
                 else if bg_uBitDepth b = 4 then u_FetchCHR4_64 v (bg_uChrAddr b) ts y
                 else if bg_uBitDepth b = 8 then u_FetchCHR8_64 v (bg_uChrAddr b) ts y
                 else Some ([], [], [])) (\<lambda>(px, ms, ps). length px \<le> 288)"
    using f [THEN g] p by simp
  have m: "returns (u_MosaicBG8 q (unat (bg_uScrollX b AND 7)) 256 (bg_uMosaic b + 1)) (\<lambda>q'. length q' = 288)" if "length q = 288" for q
  proof (rule u_MosaicBG8_ok [OF that])
    show "bg_uMosaic b + 1 \<noteq> 0" using assms(2) by (auto simp: info_ok_def unat_eq_zero unat_word_ariths dest!: arg_cong [where f = unat])
  qed simp
  show ?thesis
    unfolding u_FetchCHR_64_def Let_def
    by (fold y_def, rule returns_bind [OF t]) (use assms(5) in \<open>auto intro!: returns_bind [OF m [unfolded and_masks]]\<close>)
qed

section \<open>Mode 7\<close>

lemma int_and_less: "nat (x AND 0x3FFF) < 0x4000" "nat (x AND 7) < 8" "nat (push_bit 3 (x AND 7)) \<le> 56" for x :: int
proof -
  have a: "x AND 0x3FFF \<le> 0x3FFF" "x AND 7 \<le> 7" by (rule AND_upper2; simp)+
  have "(x AND 7) * 8 \<le> 7 * 8" using a(2) by (rule mult_right_mono) simp
  then have "push_bit 3 (x AND 7) \<le> 56" by (simp only: push_bit_eq_mult) simp
  with a show "nat (x AND 0x3FFF) < 0x4000" "nat (x AND 7) < 8" "nat (push_bit 3 (x AND 7)) \<le> 56"
    by linarith+
qed

lemma vram_byte_ok: "mem_ok v \<Longrightarrow> i < 0x8000 \<Longrightarrow> \<exists>c. vram_byte v i = Some c"
  using vram_word_ok [of v "i div 2"] by (auto simp: vram_byte_def pixel_end_def)

lemma mode7_chr_less: "mode7_chr c x y * 2 + 1 < 0x8000"
proof -
  have "unat c * 64 \<le> 255 * 64" using unat_u8_le [of c] by simp
  then have "unat c * 64 + nat (x AND 7) + nat (push_bit 3 (y AND 7)) \<le> 255 * 64 + 7 + 56"
    using int_and_less(2) [of x] int_and_less(3) [of y] by linarith
  then have "mode7_chr c x y \<le> 16383" by (simp add: mode7_chr_def)
  then show ?thesis by simp
qed

lemma mode7_tile_less: "mode7_tile x y * 2 < 0x8000"
  using int_and_less(1) [of "push_bit 7 (drop_bit 3 y) OR drop_bit 3 x"] by (simp add: mode7_tile_def)

lemma mode7_pixel_ok:
  assumes "mem_ok v"
  shows "\<exists>d. mode7_repeat v x y = Some d" "\<exists>d. mode7_clamp v x y = Some d" "\<exists>d. mode7_black v x y = Some d"
proof -
  obtain c where c: "vram_byte v (mode7_tile x y * 2) = Some (c x y)" for x y
    using vram_byte_ok [OF assms mode7_tile_less] by metis
  obtain d where d: "vram_byte v (mode7_chr e x y * 2 + 1) = Some (d e x y)" for e x y
    using vram_byte_ok [OF assms mode7_chr_less] by metis
  show "\<exists>d. mode7_repeat v x y = Some d" "\<exists>d. mode7_clamp v x y = Some d" "\<exists>d. mode7_black v x y = Some d"
    using c d by (simp_all only: mode7_repeat_def mode7_clamp_def mode7_black_def Let_def bind.bind_lunit) blast+
qed

lemma mode7_loop_ok: "(\<And>x y. \<exists>d. f x y = Some d) \<Longrightarrow> returns (mode7_loop f n x y dx dy) (\<lambda>ds. length ds = n)"
proof (induction n arbitrary: x y)
  case (Suc n)
  obtain d where "f x y = Some d" using Suc.prems by blast
  moreover obtain ds where "mode7_loop f n (x + dx) (y + dy) dx dy = Some ds" "length ds = n"
    using returns_Ex [OF Suc.IH [OF Suc.prems]] by blast
  ultimately show ?case by simp
qed simp

lemma u_FetchMode7_ok:
  assumes "mem_ok v"
  shows "returns (u_FetchMode7 v l p o') (\<lambda>(px, pri, op). length px = 256)"
proof -
  obtain x y dx dy where s: "mode7_start (ppu_Regs v) (uint l) = (x, y, dx, dy)" by (metis prod_cases4)
  note f = mode7_pixel_ok [OF assms]
  have t: "returns (if drop_bit 6 (r_m7sel (ppu_Regs v)) = 0 then u_FetchMode7_Repeat v x y dx dy
                 else if drop_bit 6 (r_m7sel (ppu_Regs v)) = 3 then u_FetchMode7_Clamp v x y dx dy
                 else u_FetchMode7_Black v x y dx dy) (\<lambda>ds. length ds = 256)"
    unfolding u_FetchMode7_Repeat_def u_FetchMode7_Clamp_def u_FetchMode7_Black_def
    by (split if_split)+ (intro conjI impI mode7_loop_ok f)
  have l: "length (concat (map (\<lambda>k. bytes64 (g k)) [0..<n])) = 8 * n" for g n by (induction n) (simp_all add: bytes64_def)
  show ?thesis
    unfolding u_FetchMode7_def Let_def s prod.case
    by (rule returns_bind [OF t]) (simp add: u_FetchMode7Priority_def l)
qed

end
