(* ===== verification/Sn_Layers_Ok.thy ===== *)
theory Sn_Layers_Ok
  imports Sn_Layers Sn_Chr_Ok
begin

text \<open>
  Copying the pixels of a background is, pixel by pixel, a shift by the low bits of the scroll
  position under a mask. Drawing objects stays on the line, because the words beside the mask of
  taken pixels are full.
\<close>

section \<open>Backgrounds\<close>

text \<open>Four bytes as a word, as they are read and written on a little-endian machine.\<close>

definition le32 :: "u8 \<Rightarrow> u8 \<Rightarrow> u8 \<Rightarrow> u8 \<Rightarrow> u32" where
  "le32 a b c d = ucast a OR push_bit 8 (ucast b) OR push_bit 16 (ucast c) OR push_bit 24 (ucast d)"

lemma bit_le32: "bit (le32 a b c d) n \<longleftrightarrow>
    (if n < 8 then bit a n else if n < 16 then bit b (n - 8) else if n < 24 then bit c (n - 16) else n < 32 \<and> bit d (n - 24))"
  by (auto simp: le32_def bit_simps dest: bit_imp_le_length)

lemma bytes32_le32: "bytes32 (le32 a b c d) = [a, b, c, d]"
proof -
  have "ucast (drop_bit (8 * i) (le32 a b c d)) = [a, b, c, d] ! i" if "i < 4" for i
  proof (rule bit_word_eqI)
    fix n assume "n < LENGTH(8)"
    then have n: "n < 8" by simp
    have "i = 0 \<or> i = 1 \<or> i = 2 \<or> i = 3" using that by linarith
    then show "bit (ucast (drop_bit (8 * i) (le32 a b c d)) :: u8) n = bit ([a, b, c, d] ! i) n"
      using n by (elim disjE) (auto simp: bit_simps bit_le32)
  qed
  then have "map (\<lambda>i. ucast (drop_bit (8 * i) (le32 a b c d)) :: u8) [0..<4] = map ((!) [a, b, c, d]) [0..<4]" by simp
  then show ?thesis unfolding bytes32_def by (simp add: upt_rec)
qed

lemma join_le32:
  "drop_bit 8 (le32 a b c d) OR push_bit (32 - 8) (le32 e f g h) = le32 b c d e"
  "drop_bit 16 (le32 a b c d) OR push_bit (32 - 16) (le32 e f g h) = le32 c d e f"
  "drop_bit 24 (le32 a b c d) OR push_bit (32 - 24) (le32 e f g h) = le32 d e f g"
  by (rule bit_word_eqI; auto simp: bit_simps bit_le32)+

lemma rd32_le32: "i + 3 < length bs \<Longrightarrow> rd32 bs i = Some (le32 (bs ! i) (bs ! (i + 1)) (bs ! (i + 2)) (bs ! (i + 3)))"
  by (simp add: rd32_def le32_def)

lemma upto8: "[0..<8] = [0, 1, 2, 3, 4, 5, 6, 7]"
  by (simp add: upt_rec eval_nat_numeral)

lemma bg_pixels_bytes:
  assumes "s + 12 \<le> length src" and "k < 4"
  shows "\<exists>t0 t2. bg_pixels (8 * k) src s = Some (t0, t2) \<and> bytes32 t0 @ bytes32 t2 = map (\<lambda>j. src ! (s + k + j)) [0..<8]"
proof -
  have r: "rd32 src s = Some (le32 (src ! s) (src ! (s + 1)) (src ! (s + 2)) (src ! (s + 3)))"
    "rd32 src (s + 4) = Some (le32 (src ! (s + 4)) (src ! (s + 5)) (src ! (s + 6)) (src ! (s + 7)))"
    "rd32 src (s + 8) = Some (le32 (src ! (s + 8)) (src ! (s + 9)) (src ! (s + 10)) (src ! (s + 11)))"
    using rd32_le32 [of s src] rd32_le32 [of "s + 4" src] rd32_le32 [of "s + 8" src] assms(1) by (simp_all add: ac_simps)
  have "k = 0 \<or> k = 1 \<or> k = 2 \<or> k = 3" using assms(2) by linarith
  then show ?thesis
    by (elim disjE) (simp_all add: bg_pixels_def r join_le32 [simplified] bytes32_le32 upto8 ac_simps, simp_all add: eval_nat_numeral)
qed

lemma wr_bytes_nth:
  "i + length bs \<le> length ln \<Longrightarrow> returns (wr_bytes ln i bs) (\<lambda>ln'. length ln' = length ln \<and>
     (\<forall>k < length ln. ln' ! k = (if i \<le> k \<and> k < i + length bs then bs ! (k - i) else ln ! k)))"
proof (induction bs arbitrary: i ln)
  case (Cons b bs)
  have i: "i < length ln" "i + 1 + length bs \<le> length (ln[i := b])" using Cons.prems by simp_all
  show ?case
    using i(1) by (simp only: wr_bytes.simps arr_set_in bind.bind_lunit)
      (rule returns_mono [OF Cons.IH [OF i(2)]], use i in \<open>auto simp: nth_Cons' nth_list_update\<close>)
qed auto

lemma wr_masked_nth:
  "i + x + length bs \<le> length ln \<Longrightarrow> returns (wr_masked m x i bs ln) (\<lambda>ln'. length ln' = length ln \<and>
     (\<forall>k < length ln. ln' ! k = (if i + x \<le> k \<and> k < i + x + length bs \<and> bit m (k - i) then bs ! (k - (i + x)) else ln ! k)))"
proof (induction bs arbitrary: x ln)
  case (Cons b bs)
  define ln1 where "ln1 = (if bit m x then ln[i + x := b] else ln)"
  have b: "m AND push_bit x 1 \<noteq> 0 \<longleftrightarrow> bit m x" by (simp add: bit_iff_and_push_bit_not_eq_0)
  have i: "i + (x + 1) + length bs \<le> length ln1" using Cons.prems by (simp add: ln1_def)
  have "wr_masked m x i (b # bs) ln = wr_masked m (x + 1) i bs ln1" using Cons.prems b by (simp add: ln1_def)
  then show ?case
    by (simp only:) (rule returns_mono [OF Cons.IH [OF i]], use Cons.prems in \<open>auto simp: nth_Cons' nth_list_update ln1_def\<close>)
qed auto

lemma render_tiles_nth:
  assumes k: "k < 4"
  shows "8 * (i + n) \<le> length ln \<Longrightarrow> s + 8 * n + 4 \<le> length src \<Longrightarrow> returns (render_tiles (8 * k) src s m i n ln) (\<lambda>ln'. length ln' = length ln \<and>
     (\<forall>x < length ln. ln' ! x = (if 8 * i \<le> x \<and> x < 8 * (i + n) \<and> bit m x then src ! (s + k + (x - 8 * i)) else ln ! x)))"
proof (induction n arbitrary: i s ln)
  case (Suc n)
  have s: "s + 12 \<le> length src" using Suc.prems(2) by simp
  obtain t0 t2 where t: "bg_pixels (8 * k) src s = Some (t0, t2)" "bytes32 t0 @ bytes32 t2 = map (\<lambda>j. src ! (s + k + j)) [0..<8]"
    using bg_pixels_bytes [OF s k] by blast
  let ?w = "if uMask8 m i = 0 then Some ln
                 else do { (t0, t2) \<leftarrow> bg_pixels (8 * k) src s;
                           (if uMask8 m i = 0xFF then wr_bytes ln (8 * i) (bytes32 t0 @ bytes32 t2)
                            else wr_masked (uMask8 m i) 0 (8 * i) (bytes32 t0 @ bytes32 t2) ln) }"
  have len: "length (bytes32 t0 @ bytes32 t2) = 8" by (simp add: bytes32_def)
  have m: "bit m x \<longleftrightarrow> bit (uMask8 m i) (x - 8 * i)" if "8 * i \<le> x" "x < 8 * i + 8" for x
    using that by (auto simp: bit_uMask8)
  have ff: "bit (0xFF :: u8) n \<longleftrightarrow> n < 8" for n using bit_mask_iff [where 'a = u8, of 8 n] by (simp add: mask_eq_exp_minus_1)
  have l: "8 * i + length (bytes32 t0 @ bytes32 t2) \<le> length ln" "8 * i + 0 + length (bytes32 t0 @ bytes32 t2) \<le> length ln"
    using Suc.prems(1) len by simp_all
  have w: "returns ?w (\<lambda>ln'. length ln' = length ln \<and>
     (\<forall>x < length ln. ln' ! x = (if 8 * i \<le> x \<and> x < 8 * i + 8 \<and> bit m x then src ! (s + k + (x - 8 * i)) else ln ! x)))"
  proof -
    consider "uMask8 m i = 0" | "uMask8 m i = 0xFF" | "uMask8 m i \<noteq> 0" "uMask8 m i \<noteq> 0xFF" by blast
    then show ?thesis
    proof cases
      case 1 then show ?thesis using m by auto
    next
      case 2
      then show ?thesis using t(1) by (simp only: t(1) bind.bind_lunit prod.case if_True)
          (simp, rule returns_mono [OF wr_bytes_nth [OF l(1)]], use m ff 2 len in \<open>auto simp: t(2)\<close>)
    next
      case 3
      then show ?thesis using t(1) by (simp only: t(1) bind.bind_lunit prod.case if_False)
          (rule returns_mono [OF wr_masked_nth [OF l(2)]], use m len in \<open>auto simp: t(2)\<close>)
    qed
  qed
  show ?case
  proof (simp only: render_tiles.simps Let_def, rule returns_bind [OF w], elim conjE)
    fix ln1 assume ln1: "length ln1 = length ln" "\<forall>x < length ln. ln1 ! x = (if 8 * i \<le> x \<and> x < 8 * i + 8 \<and> bit m x then src ! (s + k + (x - 8 * i)) else ln ! x)"
    have p: "8 * (i + 1 + n) \<le> length ln1" "s + 8 + 8 * n + 4 \<le> length src" using Suc.prems ln1(1) by simp_all
    have e: "s + 8 + k + (x - 8 * (i + 1)) = s + k + (x - 8 * i)" if "8 * (i + 1) \<le> x" for x using that by simp
    show "returns (render_tiles (8 * k) src (s + 8) m (i + 1) n ln1) (\<lambda>ln'. length ln' = length ln \<and>
     (\<forall>x < length ln. ln' ! x = (if 8 * i \<le> x \<and> x < 8 * (i + Suc n) \<and> bit m x then src ! (s + k + (x - 8 * i)) else ln ! x)))"
      by (rule returns_mono [OF Suc.IH [OF p]]) (use ln1 e in \<open>auto simp: not_less not_le\<close>)
  qed
qed auto

text \<open>Pixel \<open>x\<close> of the line is taken from the background where the mask has a bit.\<close>

lemma u_RenderBGData_nth:
  assumes "8 * n \<le> length ln" and "8 * n + 8 \<le> length src"
  shows "returns (u_RenderBGData ln src m sx n) (\<lambda>ln'. length ln' = length ln \<and>
    (\<forall>x < length ln. ln' ! x = (if x < 8 * n \<and> bit m x then src ! (x + unat (sx AND 7)) else ln ! x)))"
proof -
  have p: "unat (push_bit 3 (sx AND 3)) = 8 * (unat sx mod 4)"
  proof -
    have "unat (push_bit 3 (sx AND 3)) = take_bit 32 (8 * (unat sx mod 4))"
      unfolding unsigned_push_bit_eq by (simp add: push_bit_eq_mult mult.commute)
    moreover have "8 * (unat sx mod 4) < 2 ^ 32" using mod_less_divisor [of 4 "unat sx"] by simp
    ultimately show ?thesis by (simp only: take_bit_nat_eq_self)
  qed
  have le: "unat (sx AND 4) \<le> 4" using and_le_right [of sx 4] by simp
  have "(sx AND 4) + (sx AND 3) = ((sx AND 4) AND (sx AND 3)) + ((sx AND 4) OR (sx AND 3))" by (simp only: word_plus_and_or)
  also have "(sx AND 4) AND (sx AND 3) = sx AND (4 AND 3)" by (simp only: ac_simps and.left_idem)
  also have "(sx AND 4) OR (sx AND 3) = sx AND (4 OR 3)" by (simp only: bit.conj_disj_distrib)
  finally have "sx AND 7 = (sx AND 4) + (sx AND 3)" by simp
  then have "unat (sx AND 7) = unat (sx AND 4) + unat (sx AND 3)" using le by (simp add: unat_word_ariths)
  then have a: "unat (sx AND 7) = unat (sx AND 4) + unat sx mod 4" by simp
  show ?thesis
    unfolding u_RenderBGData_def p
    by (rule returns_mono [OF render_tiles_nth]) (use assms a le in \<open>auto simp: ac_simps\<close>)
qed

definition screen_ok :: "screenT \<Rightarrow> bool" where
  "screen_ok s \<longleftrightarrow> length (sc_pixels s) = 256"

lemma u_RenderBG8_ok:
  assumes "screen_ok s" and "length (bp_pixels p) = 288"
  shows "returns (u_RenderBG8 p w d ad old e k sx s) (\<lambda>(s', m). screen_ok s')"
proof -
  have 1: "returns (u_RenderBGData (sc_pixels s) (bp_pixels p) m sx 32) (\<lambda>px. length px = 256)" for m
    by (rule returns_mono [OF u_RenderBGData_nth]) (use assms in \<open>auto simp: screen_ok_def\<close>)
  have 2: "returns (u_RenderBGData_O (sc_pixels s) (bp_pixels p) m sx 32) (\<lambda>px. length px = 256)" for m
    unfolding u_RenderBGData_O_def by (rule returns_mono [OF u_RenderBGData_nth]) (use assms in \<open>auto simp: screen_ok_def\<close>)
  show ?thesis
    using assms(1) by (auto simp: u_RenderBG8_def Let_def screen_ok_def split: prod.split intro!: returns_bind [OF 1] returns_bind [OF 2])
qed

section \<open>Objects\<close>

lemma obj_pixels_nth:
  "(\<And>j. j < length bs \<Longrightarrow> bit m (x + j) \<Longrightarrow> 0 \<le> pos + int (x + j) \<and> pos + int (x + j) < int (length px)) \<Longrightarrow>
   returns (obj_pixels m x pos bs px) (\<lambda>px'. length px' = length px \<and> (\<forall>n < length px. px' ! n =
     (if pos + int x \<le> int n \<and> int n < pos + int x + int (length bs) \<and> bit m (nat (int n - pos)) then bs ! nat (int n - pos - int x) else px ! n)))"
proof (induction bs arbitrary: x px)
  case (Cons b bs)
  define px1 where "px1 = (if bit m x then px[nat (pos + int x) := b] else px)"
  have "m AND push_bit x 1 \<noteq> 0 \<longleftrightarrow> bit m x" by (simp add: bit_iff_and_push_bit_not_eq_0)
  then have e: "obj_pixels m x pos (b # bs) px = obj_pixels m (x + 1) pos bs px1"
    using Cons.prems [of 0] by (auto simp: px1_def nat_less_iff)
  have l: "length px1 = length px" by (simp add: px1_def)
  have IH: "returns (obj_pixels m (x + 1) pos bs px1) (\<lambda>px'. length px' = length px1 \<and> (\<forall>n < length px1. px' ! n =
     (if pos + int (x + 1) \<le> int n \<and> int n < pos + int (x + 1) + int (length bs) \<and> bit m (nat (int n - pos)) then bs ! nat (int n - pos - int (x + 1)) else px1 ! n)))"
  proof (rule Cons.IH)
    fix j assume "j < length bs" "bit m (x + 1 + j)"
    then show "0 \<le> pos + int (x + 1 + j) \<and> pos + int (x + 1 + j) < int (length px1)" using Cons.prems [of "j + 1"] l by simp
  qed
  have s: "(b # bs) ! nat (int n - pos - int x) = bs ! nat (int n - pos - int (x + 1))" if "pos + int (x + 1) \<le> int n" for n
  proof -
    have "nat (int n - pos - int x) = Suc (nat (int n - pos - int (x + 1)))" using that by simp
    then show ?thesis by simp
  qed
  have h: "px1 ! n = (if int n = pos + int x \<and> bit m x then b else px ! n)" if "n < length px" for n
    using that Cons.prems [of 0] by (auto simp: px1_def nth_list_update)
  show ?case unfolding e
  proof (rule returns_mono [OF IH])
    fix px' assume px': "length px' = length px1 \<and> (\<forall>n < length px1. px' ! n =
     (if pos + int (x + 1) \<le> int n \<and> int n < pos + int (x + 1) + int (length bs) \<and> bit m (nat (int n - pos)) then bs ! nat (int n - pos - int (x + 1)) else px1 ! n))"
    have "px' ! n = (if pos + int x \<le> int n \<and> int n < pos + int x + int (length (b # bs)) \<and> bit m (nat (int n - pos)) then (b # bs) ! nat (int n - pos - int x) else px ! n)"
      if n: "n < length px" for n
    proof (cases "int n = pos + int x")
      case True
      then have "nat (int n - pos) = x" "nat (int n - pos - int x) = 0" by simp_all
      then show ?thesis using px' n l h [OF n] True by simp
    next
      case False
      then show ?thesis using px' n l h [OF n] s [of n] by (cases "pos + int (x + 1) \<le> int n") auto
    qed
    then show "length px' = length px \<and> (\<forall>n < length px. px' ! n = (if pos + int x \<le> int n \<and> int n < pos + int x + int (length (b # bs)) \<and>
        bit m (nat (int n - pos)) then (b # bs) ! nat (int n - pos - int x) else px ! n))"
      using px' l by simp
  qed
qed auto

definition borders_full :: "u32 list \<Rightarrow> bool" where
  "borders_full om \<longleftrightarrow> length om = 16 \<and> om ! 3 = NOT 0 \<and> om ! 12 = NOT 0"

lemma borders_full_or: "borders_full om \<Longrightarrow> i < 15 \<Longrightarrow> borders_full (om[i := om ! i OR a, i + 1 := om ! (i + 1) OR b])"
  by (auto simp: borders_full_def nth_list_update)

lemma obj_mask_words_full: "borders_full (obj_mask_words m)"
  by (simp add: borders_full_def obj_mask_words_def nth_append)

lemma column_place:
  fixes x :: int
  assumes "- 8 < x" and "x < 256"
  shows "drop_bit 5 x = x div 32" "x AND 0x1F = x mod 32" "0 \<le> 4 + x div 32" "nat (4 + x div 32) < 15"
    "nat (5 + x div 32) = nat (4 + x div 32) + 1" "- 1 \<le> x div 32" "x div 32 \<le> 7"
proof -
  show "drop_bit 5 x = x div 32" by (simp add: drop_bit_eq_div)
  show "x AND 0x1F = x mod 32" using take_bit_eq_mask [of 5 x] by (simp add: take_bit_eq_mod mask_eq_exp_minus_1)
  show b: "- 1 \<le> x div 32" "x div 32 \<le> 7" using zdiv_mono1 [of "- 7" x 32] zdiv_mono1 [of x 255 32] assms by simp_all
  from b show "0 \<le> 4 + x div 32" "nat (4 + x div 32) < 15" "nat (5 + x div 32) = nat (4 + x div 32) + 1" by auto
qed

lemma word_place:
  assumes "int n = 32 * q + int r" and "r < 32"
  shows "0 \<le> q" "n div 32 = nat q" "n mod 32 = r"
proof -
  show q: "0 \<le> q" using assms by linarith
  then have "n = 32 * nat q + r" using assms(1) by linarith
  with assms(2) show "n div 32 = nat q" "n mod 32 = r" by simp_all
qed

text \<open>Pixel \<open>n\<close> of the line: whether it is taken, whether a column covers it, and whether a background is in front.\<close>

definition taken :: "u32 list \<Rightarrow> nat \<Rightarrow> bool" where
  "taken om n \<longleftrightarrow> bit (om ! (4 + n div 32)) (n mod 32)"

definition covers :: "SnesRenderObj8T \<Rightarrow> nat \<Rightarrow> bool" where
  "covers c n \<longleftrightarrow> - 8 < o8_iPosX c \<and> o8_iPosX c < 256 \<and> o8_iPosX c \<le> int n \<and> int n < o8_iPosX c + 8 \<and> bit (o8_opaque c) (nat (int n - o8_iPosX c))"

definition behind :: "SnesLineT \<Rightarrow> u8 \<Rightarrow> nat \<Rightarrow> bool" where
  "behind l p n =
     (if p = 0 then bit (ln_layer0 l) n \<or> bit (ln_layer1 l) n else if p = 1 then bit (ln_layer1 l) n
      else if p = 2 then bit (ln_layer0 l) n \<and> bit (ln_layer1 l) n else False)"

lemma bit_obj_behind:
  "0 \<le> k \<Longrightarrow> k < 8 \<Longrightarrow> bit (obj_behind p l k) i \<longleftrightarrow> i < 32 \<and> behind l p (32 * nat k + i)"
  by (auto simp: obj_behind_def behind_def layer_word_def bit_simps mask_bits)

definition column_drawn :: "SnesLineT \<Rightarrow> SnesRenderObj8T \<Rightarrow> u32 list \<Rightarrow> u8 list \<Rightarrow> u32 list \<Rightarrow> u8 list \<Rightarrow> bool" where
  "column_drawn l c om px om' px' \<longleftrightarrow> borders_full om' \<and> length px' = 256 \<and> (\<forall>n < 256. (taken om' n \<longleftrightarrow> taken om n \<or> covers c n)
     \<and> px' ! n = (if covers c n \<and> \<not> taken om n \<and> \<not> behind l (o8_uPri c) n then o8_pixels c ! nat (int n - o8_iPosX c) else px ! n))"

lemma render_column_spec:
  assumes c: "column_ok c" and om: "borders_full om" and px: "length px = 256"
  shows "returns (render_column l a al c om px m) (\<lambda>(om', px', m'). column_drawn l c om px om' px')"
proof (cases "o8_iPosX c > - 8 \<and> o8_iPosX c < 256 \<and> o8_opaque c \<noteq> 0")
  case False
  then have "\<not> covers c n" for n by (auto simp: covers_def)
  moreover have "render_column l a al c om px m = Some (om, px, m)" by (simp only: render_column_def Let_def if_not_P [OF False])
  ultimately show ?thesis using om px by (simp add: column_drawn_def)
next
  case True
  define x where "x = o8_iPosX c"
  define q where "q = x div 32"
  define k where "k = nat (4 + q)"
  define sh where "sh = nat (x mod 32)"
  have x: "- 8 < x" "x < 256" using True by (simp_all add: x_def)
  note pl = column_place [OF x, folded q_def]
  have sh: "sh < 32" "int sh = x mod 32" by (simp_all add: sh_def nat_less_iff)
  have xq: "x = 32 * q + int sh" by (simp add: q_def sh(2))
  have k: "k < 15" "k + 1 < 16" using pl(4) by (simp_all add: k_def)
  define m0 where "m0 = shl32 (ucast (o8_opaque c)) sh"
  define m1 :: u32 where "m1 = (if sh = 0 then 0 else drop_bit (32 - sh) (ucast (o8_opaque c)))"
  have b0: "bit m0 i \<longleftrightarrow> i < 32 \<and> sh \<le> i \<and> bit (o8_opaque c) (i - sh)" for i
    using sh(1) by (auto simp: m0_def shl32_def bit_simps dest: bit_imp_le_length)
  have b1: "bit m1 i \<longleftrightarrow> bit (o8_opaque c) (32 - sh + i)" for i
    by (auto simp: m1_def bit_simps dest: bit_imp_le_length)
  define A where "A = m0 AND NOT (om ! k OR obj_behind (o8_uPri c) l q)"
  define B where "B = m1 AND NOT (om ! (k + 1) OR obj_behind (o8_uPri c) l (q + 1))"
  define M where "M = drop_bit sh A OR shl32 B (32 - sh)"
  have bM: "bit M j \<longleftrightarrow> (if sh + j < 32 then bit A (sh + j) else bit B (sh + j - 32))" if "j < 8" for j
  proof (cases "sh = 0")
    case True
    then have "B = 0" by (simp add: B_def m1_def)
    then show ?thesis using True that by (simp add: M_def bit_simps shl32_def)
  next
    case False
    have "bit M j \<longleftrightarrow> bit A (sh + j) \<or> 32 - sh \<le> j \<and> bit B (j - (32 - sh))"
      using False that by (simp add: M_def bit_simps shl32_def)
    moreover have "\<not> bit A (sh + j)" if "\<not> sh + j < 32" using that by (auto dest: bit_imp_le_length)
    moreover have "j - (32 - sh) = sh + j - 32" using sh(1) by simp
    ultimately show ?thesis using sh(1) by auto
  qed
  have bA: "bit A i \<longleftrightarrow> bit m0 i \<and> \<not> bit (om ! k) i \<and> \<not> bit (obj_behind (o8_uPri c) l q) i" for i
    by (auto simp: A_def bit_simps dest: bit_imp_le_length)
  have bB: "bit B i \<longleftrightarrow> bit m1 i \<and> \<not> bit (om ! (k + 1)) i \<and> \<not> bit (obj_behind (o8_uPri c) l (q + 1)) i" for i
    by (auto simp: B_def bit_simps dest: bit_imp_le_length)
  have pix: "bit M j \<longleftrightarrow> bit (o8_opaque c) j \<and> \<not> taken om n \<and> \<not> behind l (o8_uPri c) n" if "j < 8" "x + int j = int n" "n < 256" for j n
  proof (cases "sh + j < 32")
    case True
    note w = word_place [of n q "sh + j"]
    have "0 \<le> q" "n div 32 = nat q" "n mod 32 = sh + j" using w that(2) xq True by simp_all
    moreover have "q < 8" "n = 32 * nat q + (sh + j)" using calculation that(3) mult_div_mod_eq [of 32 n] by linarith+
    moreover have "k = 4 + n div 32" using calculation by (simp add: k_def nat_add_distrib)
    ultimately show ?thesis using bM [OF that(1)] True by (simp add: bA b0 taken_def bit_obj_behind)
  next
    case False
    note w = word_place [of n "q + 1" "sh + j - 32"]
    have "0 \<le> q + 1" "n div 32 = nat (q + 1)" "n mod 32 = sh + j - 32" using w that(1,2) xq sh(1) False by simp_all
    moreover have "q + 1 < 8" "n = 32 * nat (q + 1) + (sh + j - 32)" using calculation that(3) mult_div_mod_eq [of 32 n] by linarith+
    moreover have "k + 1 = 4 + n div 32" using calculation pl(3) by (simp add: k_def)
    moreover have "32 - sh + (sh + j - 32) = j" "sh + j - 32 < 32" using sh(1) that(1) False by simp_all
    ultimately show ?thesis using bM [OF that(1)] False by (simp add: bB b1 taken_def bit_obj_behind)
  qed
  have vis: "0 \<le> x + int j \<and> x + int j < 256" if "j < 8" "bit M j" for j
  proof (cases "sh + j < 32")
    case True
    then have "bit A (sh + j)" using bM that by simp
    then have "\<not> bit (om ! k) (sh + j)" by (simp add: bA)
    then have "k \<noteq> 3" using om True by (auto simp: borders_full_def bit_simps)
    then have "0 \<le> q" using pl(6) by (auto simp: k_def)
    then show ?thesis using xq True pl(7) by linarith
  next
    case False
    then have "bit B (sh + j - 32)" using bM that by simp
    then have "\<not> bit (om ! (k + 1)) (sh + j - 32)" by (simp add: bB)
    then have "k \<noteq> 11" using om False sh(1) that(1) by (auto simp: borders_full_def bit_simps)
    then have "q \<le> 6" using pl(3,7) by (auto simp: k_def)
    then show ?thesis using xq False pl(6) sh(1) that(1) by linarith
  qed
  define om' where "om' = om[k := om ! k OR m0, k + 1 := om ! (k + 1) OR m1]"
  have tk: "taken om' n \<longleftrightarrow> taken om n \<or> covers c n" if "n < 256" for n
  proof -
    define i where "i = n mod 32"
    have n: "int n = 32 * int (n div 32) + int i" "i < 32"
      unfolding i_def by (metis mult_div_mod_eq of_nat_add of_nat_mult of_nat_numeral) simp
    have cov: "covers c n \<longleftrightarrow> x \<le> int n \<and> int n < x + 8 \<and> bit (o8_opaque c) (nat (int n - x))" using x by (simp add: covers_def x_def)
    have len: "length om = 16" using om by (simp add: borders_full_def)
    consider "4 + n div 32 = k" | "4 + n div 32 = k + 1" | "4 + n div 32 \<noteq> k" "4 + n div 32 \<noteq> k + 1" by blast
    then show ?thesis
    proof cases
      case 1
      then have "int (n div 32) = q" using pl(3) by (simp add: k_def)
      then have d: "int n - x = int i - int sh" using n xq by simp
      have "covers c n \<longleftrightarrow> bit m0 i"
        unfolding cov b0 using d n(2) by (auto simp: nat_diff_distrib dest: bit_imp_le_length)
      then show ?thesis using 1 k len by (simp add: taken_def om'_def i_def bit_or_iff)
    next
      case 2
      then have "int (n div 32) = q + 1" using pl(3) by (simp add: k_def)
      then have d: "int n - x = int (32 - sh + i)" using n xq sh(1) by simp
      have "covers c n \<longleftrightarrow> bit m1 i"
        unfolding cov b1 d nat_int using d by (auto dest: bit_imp_le_length)
      then show ?thesis unfolding taken_def om'_def i_def [symmetric] 2 using k len by (simp add: bit_or_iff)
    next
      case 3
      have "\<not> covers c n"
      proof
        assume "covers c n"
        then have "x \<le> int n" "int n < x + 8" by (simp_all add: cov)
        then have "q \<le> int (n div 32)" "int (n div 32) \<le> q + 1" using n xq sh(1) by linarith+
        then have "int (n div 32) = q \<or> int (n div 32) = q + 1" by linarith
        then show False using 3 pl(3) by (auto simp: k_def)
      qed
      then show ?thesis using 3 by (simp add: taken_def om'_def)
    qed
  qed
  have o': "returns (obj_pixels M 0 x (o8_pixels c) px) (\<lambda>px'. column_drawn l c om px om' px')"
  proof (rule returns_mono [OF obj_pixels_nth [of "o8_pixels c" M 0 x px]], goal_cases)
    case (1 j)
    then show ?case using vis [of j] c px by (simp add: column_ok_def)
  next
    case (2 px')
    have "px' ! n = (if covers c n \<and> \<not> taken om n \<and> \<not> behind l (o8_uPri c) n then o8_pixels c ! nat (int n - x) else px ! n)" if n: "n < 256" for n
    proof (cases "x \<le> int n \<and> int n < x + 8")
      case True
      then have "bit M (nat (int n - x)) \<longleftrightarrow> bit (o8_opaque c) (nat (int n - x)) \<and> \<not> taken om n \<and> \<not> behind l (o8_uPri c) n"
        using n by (intro pix) auto
      then show ?thesis using 2 n px c x True by (simp add: covers_def column_ok_def x_def [symmetric])
    qed (use 2 n px c x in \<open>auto simp: covers_def column_ok_def x_def [symmetric]\<close>)
    then show ?case using 2 tk px borders_full_or [OF om k(1)] by (simp add: column_drawn_def om'_def x_def [symmetric])
  qed
  have g: "arr_get om k = Some (om ! k)" "arr_get om (k + 1) = Some (om ! (k + 1))" using om k by (simp_all add: borders_full_def)
  have T: "- 8 < x \<and> x < 256 \<and> o8_opaque c \<noteq> 0" using True by (simp add: x_def)
  show ?thesis
    unfolding render_column_def Let_def x_def [symmetric] pl(1,2,5) q_def [symmetric] k_def [symmetric] sh_def [symmetric] m0_def [symmetric] m1_def [symmetric]
      if_P [OF T] g bind.bind_lunit A_def [symmetric] B_def [symmetric] M_def [symmetric] om'_def [symmetric]
    by (rule returns_bind [OF o']) simp
qed

text \<open>The columns are drawn from the last one, and the first that covers a pixel decides it.\<close>

fun drawn_pixel :: "SnesLineT \<Rightarrow> SnesRenderObj8T list \<Rightarrow> nat \<Rightarrow> u8 \<Rightarrow> u8" where
  "drawn_pixel l [] n old = old"
| "drawn_pixel l (c # cs) n old =
     (if covers c n then if behind l (o8_uPri c) n then old else o8_pixels c ! nat (int n - o8_iPosX c) else drawn_pixel l cs n old)"

lemma render_columns_spec:
  "list_all column_ok cs \<Longrightarrow> borders_full om \<Longrightarrow> length px = 256 \<Longrightarrow>
   returns (render_columns l a al cs om px m) (\<lambda>(px', m'). length px' = 256 \<and>
     (\<forall>n < 256. px' ! n = (if taken om n then px ! n else drawn_pixel l cs n (px ! n))))"
proof (induction cs arbitrary: om px m)
  case (Cons c cs)
  obtain om' px' m' where r: "render_column l a al c om px m = Some (om', px', m')" and d: "column_drawn l c om px om' px'"
    using returns_Ex [OF render_column_spec [of c om px l a al m]] Cons.prems by auto
  have b: "borders_full om'" "length px' = 256" using d by (simp_all add: column_drawn_def)
  show ?case
    unfolding render_columns.simps r bind.bind_lunit prod.case
    by (rule returns_mono [OF Cons.IH [OF _ b]]) (use Cons.prems(1) d in \<open>auto simp: column_drawn_def\<close>)
qed auto

lemma taken_mask: "n < 256 \<Longrightarrow> taken (obj_mask_words m) n \<longleftrightarrow> bit m n"
  by (auto simp: taken_def obj_mask_words_def nth_append bit_uMask32 less_mult_imp_div_less)

lemma u_RenderOBJ8_spec:
  assumes "screen_ok s" and "list_all column_ok cs"
  shows "returns (u_RenderOBJ8 cs w e a al s) (\<lambda>s'. screen_ok s' \<and> (\<forall>n < 256. sc_pixels s' ! n =
    (if (\<exists>m. w = Some m \<and> bit m n) \<or> (\<exists>m. e = Some m \<and> bit m n) then sc_pixels s ! n
     else drawn_pixel (sc_line s) (rev cs) n (sc_pixels s ! n))))"
proof (cases "cs = []")
  case True
  then show ?thesis using assms(1) by (simp add: u_RenderOBJ8_def)
next
  case False
  define m where "m = (case e of Some e \<Rightarrow> SNMaskOR (case w of Some w \<Rightarrow> w | None \<Rightarrow> SNMaskClear) e | None \<Rightarrow> (case w of Some w \<Rightarrow> w | None \<Rightarrow> SNMaskClear))"
  have m: "bit m n \<longleftrightarrow> (\<exists>m. w = Some m \<and> bit m n) \<or> (\<exists>m. e = Some m \<and> bit m n)" for n
    by (auto simp: m_def mask_bits split: option.splits)
  have "returns (render_columns (sc_line s) a al (rev cs) (obj_mask_words m) (sc_pixels s) (sc_AddSubMask s)) (\<lambda>(px', m'). length px' = 256 \<and>
     (\<forall>n < 256. px' ! n = (if taken (obj_mask_words m) n then sc_pixels s ! n else drawn_pixel (sc_line s) (rev cs) n (sc_pixels s ! n))))"
    by (rule render_columns_spec [OF _ obj_mask_words_full]) (use assms in \<open>simp_all add: screen_ok_def\<close>)
  then show ?thesis
    unfolding u_RenderOBJ8_def Let_def if_not_P [OF False] m_def [symmetric]
    by (rule returns_bind) (auto simp: screen_ok_def taken_mask m)
qed

lemma u_RenderOBJ8_ok: "screen_ok s \<Longrightarrow> list_all column_ok cs \<Longrightarrow> returns (u_RenderOBJ8 cs w e a al s) screen_ok"
  by (rule returns_mono [OF u_RenderOBJ8_spec]) auto

end
