(* ===== verification/Sn_Render_Ok.thy ===== *)
theory Sn_Render_Ok
  imports Sn_Render Sn_Layers_Ok
begin

text \<open>
  The renderer is defined for all contents of the memories and registers and every visible line,
  and keeps its invariant: it is a renderer in the sense of \<open>ppu_renderer\<close>.
\<close>

section \<open>The invariant\<close>

definition blend_ok :: "SNPPUBlendInfoT \<Rightarrow> bool" where
  "blend_ok b \<longleftrightarrow> length (bi_Pal b) = 4 \<and> list_all (\<lambda>p. length p = 256) (bi_Pal b) \<and> length (bi_uMain8 b) = 256 \<and> length (bi_uSub8 b) = 256"

definition ri_ok :: "SnesRender8pInfoT \<Rightarrow> bool" where
  "ri_ok ri \<longleftrightarrow> blend_ok (ri_BlendInfo ri) \<and> length (ri_BGPlanes ri) = 4 \<and> list_all (\<lambda>p. length (bp_pixels p) = 288) (ri_BGPlanes ri)
     \<and> length (ri_Tiles ri) = 4 \<and> list_all tiles_ok (ri_Tiles ri) \<and> length (ri_BGOffset ri) = 68 \<and> length (ri_BGWindow ri) = 6
     \<and> length (ri_uBGVramAddr ri) = 4"

definition render_ok :: "render_env \<Rightarrow> SnesPPURender \<Rightarrow> bool" where
  "render_ok E r \<longleftrightarrow> junk_ok (env_bg E) \<and> ri_ok (m_RenderInfo r) \<and> objs_ok (m_Objs r) \<and> lists_ok (m_nObjLine r, m_ObjLine r)
     \<and> (m_pTarget r \<noteq> None \<longrightarrow> m_pRenderInfo r \<and> m_pBlend r \<and> m_bBlendTarget r)"

lemma list_all_upd: "list_all P xs \<Longrightarrow> P x \<Longrightarrow> list_all P (xs[i := x])"
  by (auto simp: list_all_iff dest!: subsetD [OF set_update_subset_insert])

section \<open>Blending\<close>

lemma pal_length: "blend_ok b \<Longrightarrow> i < 4 \<Longrightarrow> length (bi_Pal b ! i) = 256"
  by (simp add: blend_ok_def list_all_length)

lemma palette_entry_ok:
  assumes "blend_ok b" and "i < 256"
  shows "returns (palette_entry E f i c (bi_Pal b)) (\<lambda>p. blend_ok (b\<lparr>bi_Pal := p\<rparr>))"
  using assms pal_length [OF assms(1)] by (simp add: palette_entry_def blend_ok_def)

lemma palette_entries_ok:
  "blend_ok (b\<lparr>bi_Pal := p\<rparr>) \<Longrightarrow> i + length cs \<le> 256 \<Longrightarrow> returns (palette_entries E f i cs p) (\<lambda>p. blend_ok (b\<lparr>bi_Pal := p\<rparr>))"
proof (induction cs arbitrary: i p)
  case (Cons c cs)
  have i: "i < 256" "i + 1 + length cs \<le> 256" using Cons.prems by simp_all
  show ?case
    by (simp only: palette_entries.simps, rule returns_bind [OF palette_entry_ok [OF Cons.prems(1) i(1), simplified]])
      (rule Cons.IH [OF _ i(2)], simp)
qed simp

lemma UpdatePalette_ok:
  assumes "blend_ok b"
  shows "returns (SNPPUBlendC_UpdatePalette E tf cg b) blend_ok"
proof (cases tf)
  case (Some f)
  have "returns (palette_entries E f 0 (take 256 cg) (bi_Pal b)) (\<lambda>p. blend_ok (b\<lparr>bi_Pal := p\<rparr>))"
    by (rule palette_entries_ok) (use assms in simp_all)
  from returns_Ex [OF this] show ?thesis by (auto simp: SNPPUBlendC_UpdatePalette_def Some)
qed (use assms in \<open>simp add: SNPPUBlendC_UpdatePalette_def\<close>)

lemma UpdatePaletteEntry_ok:
  assumes "blend_ok b" and "unat a < 256"
  shows "returns (SNPPUBlendC_UpdatePaletteEntry E tf a c b) blend_ok"
proof (cases tf)
  case (Some f)
  from returns_Ex [OF palette_entry_ok [OF assms, of E f c]] show ?thesis by (auto simp: SNPPUBlendC_UpdatePaletteEntry_def Some)
qed (use assms in \<open>simp add: SNPPUBlendC_UpdatePaletteEntry_def\<close>)

lemma Color8to32_ok:
  "length P = 4 \<Longrightarrow> list_all (\<lambda>p. length p = 256) P \<Longrightarrow> returns (u_Color8to32 P m h i ss) (\<lambda>cs. length cs = length ss)"
proof (induction ss arbitrary: i)
  case (Cons s ss)
  have "color_index m h i s < 1024" using unat_u8_le [of s] by (simp add: color_index_def)
  then have "color_index m h i s div 256 < 4" by simp
  then obtain c where "pal32 P (color_index m h i s) = Some c" using Cons.prems by (simp add: pal32_def list_all_length)
  moreover obtain cs where "u_Color8to32 P m h (i + 1) ss = Some cs" "length cs = length ss"
    using returns_Ex [OF Cons.IH [OF Cons.prems]] by blast
  ultimately show ?case by simp
qed simp

lemma Exec_ok:
  assumes "blend_ok b" and "length cm = 3"
  shows "returns (SNPPUBlendC_Exec E f fc cm ad iv b) blend_ok"
proof -
  let ?p2 = "(bi_Pal b ! 2)[0 := u_ConvertColor16to32 E fc f iv 3]"
  have p: "length (bi_Pal b) = 4" "list_all (\<lambda>p. length p = 256) (bi_Pal b)" using assms(1) by (simp_all add: blend_ok_def)
  then have p2: "length ((bi_Pal b)[2 := ?p2]) = 4" "list_all (\<lambda>p. length p = 256) ((bi_Pal b)[2 := ?p2])"
    by (auto simp: list_all_length nth_list_update)
  obtain s where s: "u_Color8to32 ((bi_Pal b)[2 := ?p2]) (cm ! 1) (cm ! 2) 0 (bi_uSub8 b) = Some s"
    using Color8to32_ok [OF p2] returns_Ex by blast
  obtain m where m: "u_Color8to32 (bi_Pal b) (cm ! 0) (cm ! 2) 0 (bi_uMain8 b) = Some m"
    using Color8to32_ok [OF p] returns_Ex by blast
  show ?thesis using assms s m pal_length [OF assms(1), of 2]
    by (simp add: SNPPUBlendC_Exec_def) (simp add: blend_ok_def)
qed

section \<open>Fetching\<close>

lemma ri_parts:
  assumes "ri_ok ri" and "k < 4"
  shows "length (bp_pixels (ri_BGPlanes ri ! k)) = 288" "tiles_ok (ri_Tiles ri ! k)" "k < length (ri_BGPlanes ri)" "k < length (ri_Tiles ri)"
    "k < length (ri_uBGVramAddr ri)" "length (ri_BGOffset ri) = 68"
  using assms by (simp_all add: ri_ok_def list_all_length)

lemma infos_nth: "infos_ok bs \<Longrightarrow> k < 4 \<Longrightarrow> k < length bs \<and> info_ok (bs ! k)"
  by (simp add: infos_ok_def list_all_length)

lemma fetch_bg_ok:
  assumes "mem_ok v" and "infos_ok bs" and ri: "ri_ok ri" and k: "k < 4"
  shows "returns (fetch_bg v bs l n k ri) (\<lambda>(f, ri'). ri_ok ri')"
proof -
  note p = ri_parts [OF ri k] and b = infos_nth [OF assms(2) k]
  obtain f1 t1 a1 where 1: "FetchBG v (bs ! k) 33 l (ri_Tiles ri ! k) (ri_uBGVramAddr ri ! k) = Some (f1, t1, a1)" "tiles_ok t1"
    using returns_Ex [OF FetchBG_ok [OF assms(1) conjunct2 [OF b] p(2), of l "ri_uBGVramAddr ri ! k"]] by auto
  obtain f2 t2 where 2: "FetchBGOffset v (bs ! k) 33 l (ri_BGOffset ri) (push_bit k 0x2000) (r_bgmode (ppu_Regs v) AND 7 = 4) (ri_Tiles ri ! k) = Some (f2, t2)" "tiles_ok t2"
    using returns_Ex [OF FetchBGOffset_ok [OF assms(1) conjunct2 [OF b] p(2,6), of l "push_bit k 0x2000" "r_bgmode (ppu_Regs v) AND 7 = 4"]] by auto
  have "ri_ok (ri\<lparr>ri_Tiles := (ri_Tiles ri)[k := t], ri_uBGVramAddr := (ri_uBGVramAddr ri)[k := a]\<rparr>)" if "tiles_ok t" for t a
    using ri that by (simp add: ri_ok_def list_all_upd)
  with 1 2 p b show ?thesis by (simp add: fetch_bg_def)
qed

lemma fetch_chr_ok:
  assumes "mem_ok v" and "infos_ok bs" and ri: "ri_ok ri" and k: "k < 4"
  shows "returns (fetch_chr E v bs l f k ri) ri_ok"
proof (cases "f AND SNPPU_BGFLAGS_FETCHCHR = 0")
  case False
  note p = ri_parts [OF ri k] and b = infos_nth [OF assms(2) k]
  let ?b = "bs ! k" and ?px = "bp_pixels (ri_BGPlanes ri ! k)"
  have t: "list_all tile_ok (take 33 (ri_Tiles ri ! k))" "length (take 33 (ri_Tiles ri ! k)) = 33"
    using p(2) by (auto simp: tiles_ok_def list_all_iff dest: in_set_takeD)
  obtain px ms ps where c: "u_FetchCHR_64 v ?b (take 33 (ri_Tiles ri ! k)) l (f AND SNPPU_BGFLAGS_OFFSET \<noteq> 0) (env_mask E) ?px = Some (px, ms, ps)"
      "length px = 288"
    using returns_Ex [OF u_FetchCHR_64_ok [OF assms(1) conjunct2 [OF b] t p(1), of l "f AND SNPPU_BGFLAGS_OFFSET \<noteq> 0" "env_mask E"]] by auto
  have m: "bg_uMosaic ?b + 1 \<noteq> 0"
    using b by (auto simp: info_ok_def unat_word_ariths dest!: arg_cong [where f = unat])
  have "\<forall>w. \<exists>w'. u_MosaicBGPlanar w 256 (bg_uMosaic ?b + 1) = Some w'"
    using u_MosaicBGPlanar_ok [OF m] by blast
  then obtain g where g: "u_MosaicBGPlanar w 256 (bg_uMosaic ?b + 1) = Some (g w)" for w
    by metis
  have "ri_ok (ri\<lparr>ri_BGPlanes := (ri_BGPlanes ri)[k := \<lparr>bp_pixels = px, bp_opaque = x, bp_pri = y\<rparr>]\<rparr>)" for x y
    using ri c(2) by (simp add: ri_ok_def list_all_upd)
  with False p b c(1) g show ?thesis by (simp add: fetch_chr_def Let_def)
qed (use ri in \<open>simp add: fetch_chr_def\<close>)

lemma fetch_tiles_ok:
  assumes "mem_ok v" and "infos_ok bs" and ri: "ri_ok ri"
  shows "returns (fetch_tiles E v bs l ri) ri_ok"
proof -
  note b = infos_nth [OF assms(2), of 2] and p = ri_parts [OF ri, of 2]
  have o': "returns (if r_bgmode (ppu_Regs v) AND 7 = 2 \<or> r_bgmode (ppu_Regs v) AND 7 = 4
              then do { b \<leftarrow> arr_get bs 2; old \<leftarrow> arr_get (ri_uBGVramAddr ri) 2;
                        (n, os, a) \<leftarrow> FetchOffset v b (ri_BGOffset ri) old (r_bgmode (ppu_Regs v) AND 7 = 2);
                        Some (n, ri\<lparr>ri_BGOffset := os, ri_uBGVramAddr := (ri_uBGVramAddr ri)[2 := a]\<rparr>) }
              else Some (0, ri)) (\<lambda>(n, ri'). ri_ok ri')"
  proof -
    obtain n os a where "FetchOffset v (bs ! 2) (ri_BGOffset ri) (ri_uBGVramAddr ri ! 2) (r_bgmode (ppu_Regs v) AND 7 = 2) = Some (n, os, a)" "length os = 68"
      using returns_Ex [OF FetchOffset_ok [OF assms(1), of "bs ! 2" "ri_BGOffset ri" "ri_uBGVramAddr ri ! 2" "r_bgmode (ppu_Regs v) AND 7 = 2"]] b p by auto
    moreover from this(2) have "ri_ok (ri\<lparr>ri_BGOffset := os, ri_uBGVramAddr := (ri_uBGVramAddr ri)[2 := a]\<rparr>)"
      using ri by (simp add: ri_ok_def)
    ultimately show ?thesis using ri b p by simp
  qed
  note fb = fetch_bg_ok [OF assms(1,2)] and fc = fetch_chr_ok [OF assms(1,2)]
  show ?thesis
    unfolding fetch_tiles_def Let_def
    by (rule returns_bind [OF o'], unfold split_paired_all prod.case, rule returns_bind [OF fb], assumption, simp,
        unfold split_paired_all prod.case, rule returns_bind [OF fb], assumption, simp,
        unfold split_paired_all prod.case, rule returns_bind [OF fb], assumption, simp,
        unfold split_paired_all prod.case, rule returns_bind [OF fb], assumption, simp,
        unfold split_paired_all prod.case) (rule returns_bind [OF fc] fc | assumption | simp)+
qed

lemma fetch_mode7_ok:
  assumes "mem_ok v" and ri: "ri_ok ri"
  shows "returns (fetch_mode7 v l ri) ri_ok"
proof -
  note p = ri_parts [OF ri, of 0]
  obtain px pri op where m: "u_FetchMode7 v l (bp_pri (ri_BGPlanes ri ! 0)) (bp_opaque (ri_BGPlanes ri ! 0)) = Some (px, pri, op)" "length px = 256"
    using returns_Ex [OF u_FetchMode7_ok [OF assms(1), of l "bp_pri (ri_BGPlanes ri ! 0)" "bp_opaque (ri_BGPlanes ri ! 0)"]] by auto
  have "ri_ok (ri\<lparr>ri_BGPlanes := (ri_BGPlanes ri)[0 := \<lparr>bp_pixels = px @ drop 256 (bp_pixels (ri_BGPlanes ri ! 0)), bp_opaque = op, bp_pri = pri\<rparr>]\<rparr>)"
    using ri m(2) p by (simp add: ri_ok_def list_all_upd)
  with m p show ?thesis by (simp add: fetch_mode7_def)
qed

section \<open>Screens\<close>

lemma render_bg_ok:
  assumes "ri_ok ri" and "infos_ok bs" and "k < 4" and "screen_ok s"
  shows "returns (render_bg ri bs tm tmw ad ly k old e s) (\<lambda>(s', m). screen_ok s')"
  using ri_parts [OF assms(1,3)] infos_nth [OF assms(2,3)] u_RenderBG8_ok [OF assms(4)] assms
  by (simp add: render_bg_def ri_ok_def)

lemma render_screen_ok:
  assumes "ri_ok ri" and "infos_ok bs" and "list_all column_ok cs" and "screen_ok s"
  shows "returns (render_screen ri bs md tm tmw ad al cs s) screen_ok"
proof -
  note rb = render_bg_ok [OF assms(1,2)]
  have w: "SNPPU_BGWINDOW_OBJ < length (ri_BGWindow ri)" using assms(1) by (simp add: ri_ok_def SNPPU_BGWINDOW_OBJ_def)
  have z: "screen_ok s \<Longrightarrow> screen_ok (if b then s\<lparr>sc_pixels := replicate 256 0 @ drop 256 (sc_pixels s)\<rparr> else s)" for s b
    by (simp add: screen_ok_def)
  have o': "screen_ok s \<Longrightarrow> returns (if b then do { w \<leftarrow> arr_get (ri_BGWindow ri) SNPPU_BGWINDOW_OBJ; u_RenderOBJ8 cs (f w) e x al s } else Some s) screen_ok"
    for s b f e x using u_RenderOBJ8_ok [OF _ assms(3)] w by simp
  show ?thesis
    unfolding render_screen_def Let_def
    by (rule returns_bind [OF rb], simp, rule assms(4), unfold split_paired_all prod.case, rule returns_bind [OF rb], simp, assumption,
        unfold split_paired_all prod.case, rule returns_bind [OF rb], simp, assumption,
        unfold split_paired_all prod.case, rule returns_bind [OF rb], simp, assumption,
        unfold split_paired_all prod.case, intro o' z)
qed

section \<open>A line\<close>

lemma line_objs:
  assumes "lists_ok (ns, ls)" and "k < SNPPU_MAXLINE"
  shows "k < length ns" "k < length ls" "list_all (\<lambda>i. unat i < 128) (take (unat (ns ! k)) (ls ! k))"
  using assms by (simp_all add: lists_ok_def line_of_def)

lemma RenderLine8_ok:
  assumes "mem_ok v" and r: "render_ok E r" and "unat l < 225"
  shows "returns (RenderLine8 E v l r) (\<lambda>r'. render_ok E r' \<and> m_pTarget r' = m_pTarget r)"
proof -
  let ?bs = "DecodeBGInfo (env_bg E) (ppu_Regs v)"
  have bs: "infos_ok ?bs" using r DecodeBGInfo_ok by (simp add: render_ok_def)
  have ri: "ri_ok (m_RenderInfo r)" and os: "objs_ok (m_Objs r)" and ls: "lists_ok (m_nObjLine r, m_ObjLine r)"
    using r by (simp_all add: render_ok_def)
  note lo = line_objs [OF ls, of "unat l"]
  have lo: "unat l < length (m_nObjLine r)" "unat l < length (m_ObjLine r)"
     "list_all (\<lambda>i. unat i < 128) (take (unat (m_nObjLine r ! unat l)) (m_ObjLine r ! unat l))"
    using line_objs [OF ls, of "unat l"] assms(3) by (simp_all add: SNPPU_MAXLINE_def)
  have fo: "returns (u_FetchOBJ v (m_Objs r) (m_ObjLine r ! unat l) (unat (m_nObjLine r ! unat l)) m y b n) (list_all column_ok)" for m y b n
    by (rule u_FetchOBJ_ok [OF assms(1) os lo(3)])
  have ft: "returns (if b then fetch_tiles E v ?bs l (m_RenderInfo r) else fetch_mode7 v l (m_RenderInfo r)) ri_ok" for b
    using fetch_tiles_ok [OF assms(1) bs ri] fetch_mode7_ok [OF assms(1) ri] by simp
  have sc: "screen_ok (clear_screen (bi_uMain8 (ri_BlendInfo (m_RenderInfo r))) m)" "screen_ok (clear_screen (bi_uSub8 (ri_BlendInfo (m_RenderInfo r))) m)" for m
    using ri by (simp_all add: ri_ok_def blend_ok_def clear_screen_def screen_ok_def)
  show ?thesis
    unfolding RenderLine8_def Let_def arr_get_in [OF lo(1)] arr_get_in [OF lo(2)] bind.bind_lunit
  proof (rule returns_bind [OF fo], rule returns_bind [OF ft], rule returns_bind [OF render_screen_ok [OF _ bs _ sc(1)]], assumption, assumption,
      rule returns_bind [OF render_screen_ok [OF _ bs _ sc(2)]], assumption, assumption)
    fix ri' m s assume "ri_ok ri'" "screen_ok m" "screen_ok s"
    then show "returns (Some (r\<lparr>m_RenderInfo := ri'\<lparr>ri_Main := sc_line m, ri_MainAddSubMask := sc_AddSubMask m, ri_Sub := sc_line s,
                ri_SubAddSubMask := sc_AddSubMask s,
                ri_BlendInfo := ri_BlendInfo (m_RenderInfo r)\<lparr>bi_uMain8 := sc_pixels m, bi_uSub8 := sc_pixels s\<rparr>\<rparr>\<rparr>))
          (\<lambda>r'. render_ok E r' \<and> m_pTarget r' = m_pTarget r)"
      using r by (simp add: render_ok_def ri_ok_def blend_ok_def screen_ok_def)
  qed
qed

definition render_step :: "render_env \<Rightarrow> SnesPPURender \<Rightarrow> SnesPPURender \<Rightarrow> bool" where
  "render_step E r r' \<longleftrightarrow> render_ok E r' \<and> m_pTarget r' = m_pTarget r"

lemma render_stepD: "render_step E r r' \<Longrightarrow> render_ok E r'"
  by (simp add: render_step_def)

lemmas render_stepE = render_stepD [elim_format]

lemma updates_ok:
  assumes "mem_ok v" and r: "render_ok E r"
  shows "returns (update_palette E v r) (render_step E r)" and "returns (update_objects v r) (render_step E r)"
    and "render_step E r (update_screens r)" and "returns (update_windows v r) (render_step E r)"
proof -
  have b: "blend_ok (ri_BlendInfo (m_RenderInfo r))" using r by (simp add: render_ok_def ri_ok_def)
  from returns_Ex [OF UpdatePalette_ok [OF b, of E "blend_format r" "m_CGRAM v"]]
  show "returns (update_palette E v r) (render_step E r)"
    using r by (auto simp: update_palette_def render_step_def render_ok_def ri_ok_def ClearFlag_def upd_info_def)
  have os: "length (m_Objs r) = SNESPPU_OBJ_NUM" using r by (simp add: render_ok_def objs_ok_def)
  obtain os' ys zs where u: "UpdateOBJ v (m_Objs r) = Some (os', ys, zs)" "objs_ok os'" "length ys = 128" "length zs = 128"
    using UpdateOBJ_ok [OF assms(1) os] by (auto simp: objs_ok_def SNESPPU_OBJ_NUM_def)
  have ls: "length (m_ObjLine r) = SNPPU_MAXLINE" "\<forall>l \<in> set (m_ObjLine r). length l = SNPPU_MAXOBJ"
    using r by (auto simp: render_ok_def lists_ok_def in_set_conv_nth)
  obtain ns ls' where w: "UpdateOBJVisibility ys zs (ucast (r_oampri (ppu_Regs v))) SNESPPU_OBJ_NUM (m_ObjLine r) = Some (ns, ls')" "lists_ok (ns, ls')"
    using returns_Ex [OF UpdateOBJVisibility_line [OF u(3,4) ls]] by (metis surj_pair)
  show "returns (update_objects v r) (render_step E r)"
    using r u(1,2) w by (simp add: update_objects_def render_step_def render_ok_def ri_ok_def ClearFlag_def upd_info_def)
  show "render_step E r (update_screens r)"
    using r by (simp add: update_screens_def render_step_def render_ok_def ri_ok_def ClearFlag_def upd_info_def)
  from DecodeWindows_ok [of "ppu_Regs v"] show "returns (update_windows v r) (render_step E r)"
    using r by (auto simp: update_windows_def render_step_def render_ok_def ri_ok_def ClearFlag_def upd_info_def)
qed

lemma submit_line_ok: "render_ok E r \<Longrightarrow> render_ok E (submit_line l r)"
  by (simp add: render_ok_def submit_line_def)

lemma color_masks_ok: "render_ok E r \<Longrightarrow> returns (color_masks g (m_RenderInfo r)) (\<lambda>cm. length cm = 3)"
  by (simp add: color_masks_def render_ok_def ri_ok_def SNPPU_BGWINDOW_COLOR_def Let_def)

lemma RenderLine32_ok:
  assumes "mem_ok v" and r: "render_ok E r" and "unat l < 225"
  shows "returns (RenderLine32 E v l t r) (render_ok E)"
proof (cases "r_inidisp (ppu_Regs v) AND 0x80 \<noteq> 0")
  case True
  have "render_ok E (upd_info (\<lambda>ri. ri\<lparr>ri_BlendInfo := SNPPUBlendC_Clear (ri_BlendInfo ri)\<rparr>) r)"
    using r by (simp add: render_ok_def ri_ok_def blend_ok_def SNPPUBlendC_Clear_def upd_info_def)
  with True show ?thesis by (simp add: RenderLine32_def submit_line_ok)
next
  case False
  note u = updates_ok [OF assms(1)]
  show ?thesis
    unfolding RenderLine32_def Let_def if_not_P [OF False]
  proof (rule returns_bind [OF u(1) [OF r]], elim render_stepE, rule returns_bind [OF u(2)], assumption, elim render_stepE,
      rule returns_bind [OF u(4) [OF render_stepD [OF u(3)]]], assumption)
    fix r2 r3 assume "render_step E (update_screens r2) r3"
    then have r3: "render_ok E r3" by (simp add: render_step_def)
    show "returns (do { r \<leftarrow> RenderLine8 E v l r3; cm \<leftarrow> color_masks (ppu_Regs v) (m_RenderInfo r);
        b \<leftarrow> SNPPUBlendC_Exec E (sf_Format t) (r_coldata (ppu_Regs v)) cm (r_cgadsub (ppu_Regs v) AND 0x80 \<noteq> 0) (GetIntensity v) (ri_BlendInfo (m_RenderInfo r));
        Some (submit_line l (upd_info (\<lambda>ri. ri\<lparr>ri_BlendInfo := b\<rparr>) r)) }) (render_ok E)"
    proof (rule returns_bind [OF RenderLine8_ok [OF assms(1) r3 assms(3)]])
      fix r4 assume r4: "render_ok E r4 \<and> m_pTarget r4 = m_pTarget r3"
      then have b: "blend_ok (ri_BlendInfo (m_RenderInfo r4))" by (simp add: render_ok_def ri_ok_def)
      show "returns (color_masks (ppu_Regs v) (m_RenderInfo r4) \<bind> (\<lambda>cm.
         SNPPUBlendC_Exec E (sf_Format t) (r_coldata (ppu_Regs v)) cm (r_cgadsub (ppu_Regs v) AND 0x80 \<noteq> 0) (GetIntensity v) (ri_BlendInfo (m_RenderInfo r4)) \<bind>
         (\<lambda>b. Some (submit_line l (upd_info (\<lambda>ri. ri\<lparr>ri_BlendInfo := b\<rparr>) r4))))) (render_ok E)"
        by (rule returns_bind [OF color_masks_ok [OF conjunct1 [OF r4]]], rule returns_bind [OF Exec_ok [OF b]], assumption)
          (use r4 in \<open>simp add: render_ok_def ri_ok_def upd_info_def submit_line_def\<close>)
    qed
  qed
qed

text \<open>The renderer keeps the interface that the PPU relies on.\<close>

interpretation snes_renderer: ppu_renderer "vt_SnesPPURender E" "render_ok E"
proof
  show "returns (v_UpdateVRAM (vt_SnesPPURender E) a r) (render_ok E)" if "render_ok E r" for r a
    using that by (simp add: vt_SnesPPURender_def SnesPPURender_UpdateVRAM_def)
  show "returns (v_UpdateCGRAM (vt_SnesPPURender E) m a c r) (render_ok E)" if "render_ok E r" "unat a < SNESPPU_CGRAM_NUM" for r m a c
  proof -
    have "blend_ok (ri_BlendInfo (m_RenderInfo r))" using that(1) by (simp add: render_ok_def ri_ok_def)
    from returns_Ex [OF UpdatePaletteEntry_ok [OF this, of a E "blend_format r" c]] show ?thesis
      using that by (auto simp: vt_SnesPPURender_def SnesPPURender_UpdateCGRAM_def ppu_sizes upd_info_def render_ok_def ri_ok_def)
  qed
  show "returns (v_RenderLine (vt_SnesPPURender E) m l r) (render_ok E)" if "render_ok E r" "mem_ok m" "l < 225" for r m l
  proof (cases "m_pTarget r")
    case (Some t)
    then have "m_pRenderInfo r \<and> m_pBlend r \<and> m_bBlendTarget r" using that(1) by (simp add: render_ok_def)
    moreover have "unat l < 225" using that(3) by (simp add: word_less_nat_alt)
    ultimately show ?thesis
      using that RenderLine32_ok by (simp add: vt_SnesPPURender_def SnesPPURender_RenderLine_def Some)
  qed (use that in \<open>simp add: vt_SnesPPURender_def SnesPPURender_RenderLine_def\<close>)
  show "render_ok E (SetUpdateFlags f r)" if "render_ok E r" for r f
    using that by (simp add: SetUpdateFlags_def render_ok_def)
qed

end
