(* ===== verification/Sn_Pixel_Props.thy ===== *)
theory Sn_Pixel_Props
  imports Sn_Layers_Ok Sn_Chr_Ok
begin

text \<open>
  What the parts of the renderer compute, against definitions that do not use the words of the code:
  the windows pixel by pixel, the objects of a line as a filtered list, and the offsets per tile.
\<close>

section \<open>Windows\<close>

definition window_nibble :: "SnesPPURegsT \<Rightarrow> nat \<Rightarrow> u8" where
  "window_nibble r k = (let s = [r_w12sel r, r_w34sel r, r_wobjsel r] ! (k div 2) in if even k then s AND 0xF else drop_bit 4 s AND 0xF)"

definition window_logic :: "SnesPPURegsT \<Rightarrow> nat \<Rightarrow> u8" where
  "window_logic r k = (if k < 4 then drop_bit (2 * k) (r_wbglog r) AND 3 else drop_bit (2 * (k - 4)) (r_wobjlog r) AND 3)"

text \<open>
  Two areas of the line, each of which is used or not and inverted or not, and a logical operation
  when both are used.
\<close>

definition window_pixel :: "SnesPPURegsT \<Rightarrow> nat \<Rightarrow> nat \<Rightarrow> bool" where
  "window_pixel r k n =
     (let s = window_nibble r k; l = window_logic r k;
          a = ((unat (r_wh0 r) \<le> n \<and> n \<le> unat (r_wh1 r)) \<noteq> bit s 0);
          b = ((unat (r_wh2 r) \<le> n \<and> n \<le> unat (r_wh3 r)) \<noteq> bit s 2)
      in if bit s 1 \<and> bit s 3 then (if l = 0 then a \<or> b else if l = 1 then a \<and> b else if l = 2 then a \<noteq> b else a = b)
         else if bit s 1 then a else if bit s 3 then b else False)"

lemma test_bits: "w AND 1 \<noteq> 0 \<longleftrightarrow> bit w 0" "w AND 2 \<noteq> 0 \<longleftrightarrow> bit w 1" "w AND 4 \<noteq> 0 \<longleftrightarrow> bit w 2" "w AND 8 \<noteq> 0 \<longleftrightarrow> bit w 3"
  for w :: u8
  using bit_iff_and_push_bit_not_eq_0 [of w 0] bit_iff_and_push_bit_not_eq_0 [of w 1] bit_iff_and_push_bit_not_eq_0 [of w 2]
    bit_iff_and_push_bit_not_eq_0 [of w 3] by (simp_all add: push_bit_of_1)

lemma SetBGMask_bit:
  assumes "n < 256" and "l AND 3 = l"
  shows "bit (u_SetBGMask [w0, w1, SNMaskNOT w0, SNMaskNOT w1] s l) n =
    (let a = (bit w0 n \<noteq> bit s 0); b = (bit w1 n \<noteq> bit s 2)
     in if bit s 1 \<and> bit s 3 then (if l = 0 then a \<or> b else if l = 1 then a \<and> b else if l = 2 then a \<noteq> b else a = b)
        else if bit s 1 then a else if bit s 3 then b else False)"
  unfolding u_SetBGMask_def Let_def test_bits using assms by (auto simp: mask_bits)

lemma decode_windows:
  "\<exists>w bw. DecodeWindows r = Some (w, bw) \<and> length bw = 6 \<and> (\<forall>k < 6. \<forall>n < 256. bit (bw ! k) n = window_pixel r k n)"
proof -
  have u: "unat (ucast (a :: u8) :: u32) = unat a" for a
    using unat_u8_le [of a] by (simp add: unsigned_ucast_eq take_bit_nat_eq_self_iff)
  have lt: "unat (ucast (a :: u8) :: u32) < 256" for a unfolding u using unat_u8_le [of a] by simp
  obtain w0 where w0: "SNMaskRange (ucast (r_wh0 r)) (ucast (r_wh1 r)) False = Some w0"
      "\<forall>n < 256. bit w0 n \<longleftrightarrow> unat (r_wh0 r) \<le> n \<and> n \<le> unat (r_wh1 r)"
    using SNMaskRange_bits [OF lt lt, of "r_wh0 r" "r_wh1 r"] by (simp only: u) blast
  obtain w1 where w1: "SNMaskRange (ucast (r_wh2 r)) (ucast (r_wh3 r)) False = Some w1"
      "\<forall>n < 256. bit w1 n \<longleftrightarrow> unat (r_wh2 r) \<le> n \<and> n \<le> unat (r_wh3 r)"
    using SNMaskRange_bits [OF lt lt, of "r_wh2 r" "r_wh3 r"] by (simp only: u) blast
  define bw where "bw = map (\<lambda>k. u_SetBGMask [w0, w1, SNMaskNOT w0, SNMaskNOT w1] (window_nibble r k) (window_logic r k)) [0..<6]"
  have "DecodeWindows r = Some ([w0, w1, SNMaskNOT w0, SNMaskNOT w1], bw)"
    by (simp add: DecodeWindows_def Let_def w0 w1 bw_def upt_rec window_nibble_def window_logic_def)
  moreover have "bit (bw ! k) n = window_pixel r k n" if "k < 6" "n < 256" for k n
  proof -
    have "window_logic r k AND 3 = window_logic r k" by (simp add: window_logic_def and.assoc)
    then show ?thesis using that w0(2) w1(2) SetBGMask_bit [of n "window_logic r k"]
      by (simp add: bw_def window_pixel_def Let_def)
  qed
  ultimately show ?thesis by (simp add: bw_def)
qed

section \<open>The objects of a line\<close>

text \<open>All objects in their order of priority, which begins at an index from a register.\<close>

definition obj_order :: "u32 \<Rightarrow> nat \<Rightarrow> u8 list" where
  "obj_order i n = map (\<lambda>d. ucast ((i + word_of_nat d) AND 0x7F)) [0..<n]"

definition line_objects :: "u8 list \<Rightarrow> u8 list \<Rightarrow> u32 \<Rightarrow> nat \<Rightarrow> u8 list" where
  "line_objects ys sizes i k = take SNPPU_MAXOBJ (filter (\<lambda>j. covers_line (word_of_nat k) (ys ! unat j) (sizes ! unat j)) (obj_order i SNESPPU_OBJ_NUM))"

lemma and7F_step: "((i AND 0x7F) + j) AND 0x7F = (i + j) AND 0x7F" for i j :: u32
proof -
  have m: "unat (x AND 0x7F) = unat x mod 128" for x :: u32
    using unat_and_mask [of x 7] by (simp add: mask_eq_exp_minus_1)
  have c: "n mod 4294967296 mod 128 = n mod 128" for n :: nat by (rule mod_mod_cancel) simp
  show ?thesis by (simp only: word_unat_eq_iff m unat_word_ariths) (simp add: c mod_add_left_eq)
qed

lemma obj_order_Suc: "obj_order i (Suc n) = ucast (i AND 0x7F) # obj_order ((i AND 0x7F) + 1) n"
  by (simp add: obj_order_def upt_conv_Cons map_Suc_upt [symmetric] and7F_step add.assoc del: upt_Suc)

lemma CheckOBJ_arrays_filter:
  assumes "length ys = 128" and "length sizes = 128"
  shows "length l < SNPPU_MAXOBJ \<Longrightarrow> CheckOBJ_arrays ys sizes i n SNPPU_MAXOBJ y l =
    Some (take SNPPU_MAXOBJ (l @ filter (\<lambda>j. covers_line y (ys ! unat j) (sizes ! unat j)) (obj_order i n)))"
proof (induction n arbitrary: i l)
  case (Suc n)
  have j: "unat (i AND 0x7F) < 128" using and_le_right [of i "0x7F"] by (simp add: le_less_trans)
  have u: "unat (ucast (i AND 0x7F) :: u8) = unat (i AND 0x7F)"
    using j by (simp add: unsigned_ucast_eq take_bit_nat_eq_self_iff)
  show ?case
  proof (cases "Suc (length l) < SNPPU_MAXOBJ")
    case True
    then show ?thesis
      using Suc.prems Suc.IH [of l "(i AND 0x7F) + 1"] Suc.IH [of "l @ [ucast (i AND 0x7F)]" "(i AND 0x7F) + 1"]
      by (simp add: obj_order_Suc u assms j Let_def)
  next
    case False
    then have "SNPPU_MAXOBJ - length l = Suc 0" "SNPPU_MAXOBJ \<le> Suc (length l)" "length l \<le> SNPPU_MAXOBJ" using Suc.prems by simp_all
    then show ?thesis
      using Suc.prems Suc.IH [of l "(i AND 0x7F) + 1"]
      by (simp add: obj_order_Suc u assms j Let_def)
  qed
qed (simp add: obj_order_def)

lemma visible_objects:
  assumes "length ys = SNESPPU_OBJ_NUM" and "length sizes = SNESPPU_OBJ_NUM" and "length ls = SNPPU_MAXLINE" and "\<forall>l \<in> set ls. length l = SNPPU_MAXOBJ"
  shows "\<exists>ns ls'. UpdateOBJVisibility ys sizes i SNESPPU_OBJ_NUM ls = Some (ns, ls') \<and>
    (\<forall>k < SNPPU_MAXLINE. \<exists>l n. CheckOBJ_line ns ls' (int k) = Some (l, n) \<and> take n l = line_objects ys sizes i k)"
proof -
  have l: "length ys = 128" "length sizes = 128" using assms(1,2) by (simp_all add: SNESPPU_OBJ_NUM_def)
  obtain ns ls' where u: "UpdateOBJVisibility ys sizes i SNESPPU_OBJ_NUM ls = Some (ns, ls')" "lists_ok (ns, ls')"
      "\<forall>k < SNPPU_MAXLINE. CheckOBJ_arrays ys sizes i SNESPPU_OBJ_NUM SNPPU_MAXOBJ (word_of_nat k) [] = Some (line_of (ns, ls') k)"
    using returns_Ex [OF UpdateOBJVisibility_line [OF l assms(3,4), of i SNESPPU_OBJ_NUM]] by auto
  have "\<exists>l n. CheckOBJ_line ns ls' (int k) = Some (l, n) \<and> take n l = line_objects ys sizes i k" if k: "k < SNPPU_MAXLINE" for k
  proof -
    have "line_of (ns, ls') k = line_objects ys sizes i k"
      using u(3) k CheckOBJ_arrays_filter [OF l, of "[]" i SNESPPU_OBJ_NUM "word_of_nat k"] by (simp add: line_objects_def SNPPU_MAXOBJ_def)
    moreover have "CheckOBJ_line ns ls' (int k) = Some (take SNPPU_MAXOBJ (ls' ! k), unat (ns ! k))"
      using u(2) k by (simp add: CheckOBJ_line_def lists_ok_def)
    moreover have "take (unat (ns ! k)) (take SNPPU_MAXOBJ (ls' ! k)) = line_of (ns, ls') k"
      using u(2) k by (simp add: lists_ok_def line_of_def)
    ultimately show ?thesis by auto
  qed
  with u(1) show ?thesis by blast
qed

section \<open>Offsets per tile\<close>

lemma fetch_offset_loop_keeps:
  "fetch_offset_loop v s n p i u os = Some (u', os') \<Longrightarrow> k < i \<Longrightarrow> length os' = length os \<and> os' ! k = os ! k"
proof (induction n arbitrary: p i u os)
  case (Suc n)
  obtain w where w: "i < length os" "fetch_offset_loop v s n (next_column s p) (i + 2) (u OR ucast w) (os[i := w]) = Some (u', os')"
    using Suc.prems(1) by (auto simp: arr_set_def split: bind_splits if_splits)
  from Suc.IH [OF w(2)] Suc.prems(2) show ?case by simp
qed simp

lemma second_pass_clears:
  assumes "u_FetchOffset v a 1 n s os = Some (u, os')"
  shows "2 < length os \<and> length os' = length os \<and> os' ! 2 = 0"
  using assms fetch_offset_loop_keeps [of v s "n - 1" "(a, screen_at s a)" 3 0 "os[1 := 0, 2 := 0]" u os' 2]
  by (auto simp: u_FetchOffset_def arr_set_def eval_nat_numeral split: bind_splits if_splits)

lemma first_offset_lost:
  assumes "FetchOffset v b os old True = Some (u, os', a)" and "bg_uScrSize b \<in> {0, 1}"
    and "tile_address (drop_bit 3 (bg_uScrollX b) AND 63) (drop_bit 3 (bg_uScrollY b) AND 63) \<noteq> old"
  shows "os' ! 2 = 0"
  using assms by (auto simp: FetchOffset_def Let_def arr_set_def split: bind_splits if_splits dest!: second_pass_clears [unfolded One_nat_def])

text \<open>
  Decoding a row of a tile: the tables spread the bits of a plane to eight bytes, so that bit \<open>i\<close> of
  a pixel comes from plane \<open>i\<close>.
\<close>

section \<open>The tables\<close>

lemma bit_set_byte64:
  assumes "i < 8"
  shows "bit (set_byte64 i b w) n \<longleftrightarrow> n < 64 \<and> (if n div 8 = i then bit b (n mod 8) else bit w n)"
proof -
  have ff: "bit (0xFF :: u64) m \<longleftrightarrow> m < 8" for m 
  proof -
    have "(0xFF :: u64) = mask 8" by (simp add: mask_eq_exp_minus_1)
    then show ?thesis by (simp only: bit_mask_iff) auto
  qed
  have f: "n div 8 = i \<longleftrightarrow> 8 * i \<le> n \<and> n - 8 * i < 8" by auto
  have m: "8 * i \<le> n \<Longrightarrow> n - 8 * i < 8 \<Longrightarrow> n mod 8 = n - 8 * i"
    using f field_mod [of n 8 i] by simp
  show ?thesis
    unfolding set_byte64_def using assms m
    by (auto simp: f bit_or_iff bit_and_iff bit_not_iff bit_push_bit_iff bit_ucast_iff ff dest: bit_imp_le_length simp del: bit_numeral_word_iff)
qed

lemma bit_fold_bytes:
  "k \<le> 8 \<Longrightarrow> bit (fold (\<lambda>j w. set_byte64 j (f j) w) [0..<k] 0) n \<longleftrightarrow> n < 8 * k \<and> bit (f (n div 8)) (n mod 8)"
proof (induction k)
  case (Suc k)
  have "n < 8 * Suc k \<longleftrightarrow> n < 8 * k \<or> n div 8 = k" by auto
  then show ?case using Suc by (auto simp: bit_set_byte64)
qed simp

text \<open>The column of a plane that a pixel comes from.\<close>

definition column_bit :: "nat \<Rightarrow> nat \<Rightarrow> nat" where
  "column_bit k j = (if k = 0 then 7 - j else j)"

lemma bit_PlaneLookup:
  assumes "j < 8" and "b < 8"
  shows "bit (PlaneLookup k i) (8 * j + b) \<longleftrightarrow> b = 0 \<and> bit i (column_bit k j)"
proof -
  have t: "(w :: u32) AND 0x80 \<noteq> 0 \<longleftrightarrow> bit w 7" "w AND 1 \<noteq> 0 \<longleftrightarrow> bit w 0" for w
    using bit_iff_and_push_bit_not_eq_0 [of w 7] bit_iff_and_push_bit_not_eq_0 [of w 0] by (simp_all add: push_bit_of_1)
  have d: "(8 * j + b) div 8 = j" "(8 * j + b) mod 8 = b" using assms(2) by simp_all
  show ?thesis
    unfolding PlaneLookup_def Let_def bit_fold_bytes [OF order_refl] d t using assms
    by (auto simp: column_bit_def bit_push_bit_iff bit_drop_bit_eq bit_ucast_iff bit_1_iff)
qed

lemma bit_HFlipBits: "bit (u_HFlipBits b) n \<longleftrightarrow> n < 8 \<and> bit b (7 - n)"
proof -
  have d: "bit (drop_bit m (0x80 :: u8)) n \<longleftrightarrow> n + m = 7" for m n
  proof -
    have "(0x80 :: u8) = push_bit 7 1" by (simp add: push_bit_of_1)
    then show ?thesis by (simp only: bit_drop_bit_eq comp_def bit_push_bit_iff bit_1_iff) auto
  qed
  have "k \<le> 8 \<Longrightarrow> bit (fold (\<lambda>n f. if bit b n then f OR drop_bit n (0x80 :: u8) else f) [0..<k] 0) n \<longleftrightarrow> n < 8 \<and> 7 - n < k \<and> bit b (7 - n)" for k
  proof (induction k)
    case (Suc k)
    then have "n + k = 7 \<longleftrightarrow> n < 8 \<and> 7 - n = k" by auto
    with Suc show ?case by (auto simp: bit_or_iff d less_Suc_eq)
  qed simp
  from this [of 8] show ?thesis unfolding u_HFlipBits_def bit_iff_and_push_bit_not_eq_0 [symmetric] by auto
qed

section \<open>A row of a tile\<close>

text \<open>The number that the planes have for a pixel.\<close>

definition planar_pixel :: "nat \<Rightarrow> u8 list \<Rightarrow> nat \<Rightarrow> u8" where
  "planar_pixel k ps j = horner_sum of_bool 2 (map (\<lambda>p. bit p (column_bit k j)) ps)"

lemma bit_planar_pixel: "length ps \<le> 8 \<Longrightarrow> bit (planar_pixel k ps j) b \<longleftrightarrow> b < length ps \<and> bit (ps ! b) (column_bit k j)"
  by (auto simp: planar_pixel_def bit_horner_sum_bit_word_iff)

lemma bit_fold_or: "bit (fold (\<lambda>i w. w OR f i) xs w) n \<longleftrightarrow> bit w n \<or> (\<exists>i \<in> set xs. bit (f i) n)" for w :: "'a::len word"
  by (induction xs arbitrary: w) (auto simp: bit_or_iff)

lemma chr_word_bytes:
  assumes "length ps \<le> 8" and "j < 8"
  shows "bytes64 (chr_word k pal ps) ! j = bytes64 pal ! j OR planar_pixel k ps j"
proof -
  have "(ucast (drop_bit (8 * j) (chr_word k pal ps)) :: u8) = ucast (drop_bit (8 * j) pal) OR planar_pixel k ps j"
  proof (rule bit_word_eqI)
    fix b assume "b < LENGTH(8)"
    then have b: "b < 8" by simp
    have p: "bit (push_bit i (PlaneLookup k (ps ! i)) :: u64) (8 * j + b) \<longleftrightarrow> i = b \<and> bit (ps ! b) (column_bit k j)" if i: "i < length ps" for i
    proof (cases "i \<le> b")
      case True
      then have "8 * j + b - i = 8 * j + (b - i)" by simp
      then show ?thesis using b True i assms bit_PlaneLookup [of j "b - i" k "ps ! i"] by (auto simp: bit_push_bit_iff)
    next
      case False
      then have i8: "i - b < 8" "0 < i - b" using i assms(1) by auto
      have "\<not> bit (PlaneLookup k (ps ! i)) (8 * j + b - i)" if "i \<le> 8 * j + b"
      proof -
        have j: "0 < j" using that False by (cases j) auto
        then have "8 * j + b - i = 8 * (j - 1) + (8 - (i - b))" using False i8 by (cases j) auto
        moreover have "j - 1 < 8" "8 - (i - b) < 8" using assms(2) i8 by auto
        ultimately show ?thesis using bit_PlaneLookup [of "j - 1" "8 - (i - b)" k "ps ! i"] i8 by auto
      qed
      then show ?thesis using False by (auto simp: bit_push_bit_iff)
    qed
    have "bit (chr_word k pal ps) (8 * j + b) \<longleftrightarrow> bit pal (8 * j + b) \<or> b < length ps \<and> bit (ps ! b) (column_bit k j)"
      unfolding chr_word_def bit_fold_or using p by auto
    then show "bit (ucast (drop_bit (8 * j) (chr_word k pal ps)) :: u8) b = bit (ucast (drop_bit (8 * j) pal) OR planar_pixel k ps j) b"
      using b by (simp add: bit_or_iff bit_ucast_iff bit_drop_bit_eq bit_planar_pixel [OF assms(1)])
  qed
  then show ?thesis using assms(2) by (simp add: bytes64_def)
qed

lemma opaque_bit:
  assumes "length ps \<le> 8" and "j < 8" and "k \<le> 1"
  shows "bit (HFlipLookup (1 - k) (fold (OR) ps 0)) j \<longleftrightarrow> planar_pixel k ps j \<noteq> 0"
proof -
  have o': "bit (fold (OR) ps w) n \<longleftrightarrow> bit w n \<or> (\<exists>p \<in> set ps. bit p n)" for w :: u8 and n
    by (induction ps arbitrary: w) (auto simp: bit_or_iff)
  have "planar_pixel k ps j \<noteq> 0 \<longleftrightarrow> (\<exists>b. bit (planar_pixel k ps j) b)" 
  proof
    assume "planar_pixel k ps j \<noteq> 0"
    then obtain b where "bit (planar_pixel k ps j) b \<noteq> bit (0 :: u8) b" using bit_word_eqI by blast
    then show "\<exists>b. bit (planar_pixel k ps j) b" by auto
  qed auto
  also have "\<dots> \<longleftrightarrow> (\<exists>p \<in> set ps. bit p (column_bit k j))" by (auto simp: bit_planar_pixel [OF assms(1)] in_set_conv_nth) (use nth_mem in blast)
  finally show ?thesis using assms(2,3) by (auto simp: HFlipLookup_def bit_HFlipBits o' column_bit_def)
qed

lemma chr_planes_length: "chr_planes v a n = Some ps \<Longrightarrow> length ps = 2 * n"
  by (induction n arbitrary: a ps) (auto split: bind_splits)

lemma mirror_row: "unat r < 8 \<Longrightarrow> unat (r XOR 7) = 7 - unat r" for r :: u32
proof -
  assume "unat r < 8"
  then have "unat r = 0 \<or> unat r = 1 \<or> unat r = 2 \<or> unat r = 3 \<or> unat r = 4 \<or> unat r = 5 \<or> unat r = 6 \<or> unat r = 7" by linarith
  then have "r = 0 \<or> r = 1 \<or> r = 2 \<or> r = 3 \<or> r = 4 \<or> r = 5 \<or> r = 6 \<or> r = 7" by (simp add: word_unat_eq_iff)
  then show ?thesis by (elim disjE) simp_all
qed

lemma tile_row:
  assumes "mem_ok v" and "tile_ok t" and "n \<le> 4" and "unat y + unat (tile_uOffsetY t) < 8"
  shows "\<exists>px m p ps. chr_tile v base n y pal t = Some (px, m, p)
    \<and> chr_planes v ((unat base + unat (tile_uTile t) * (8 * n)) mod 0x8000 +
        (if bit (tile_uFlip t) 1 then 7 - (unat y + unat (tile_uOffsetY t)) else unat y + unat (tile_uOffsetY t))) n = Some ps
    \<and> (\<forall>j < 8. let c = planar_pixel (if bit (tile_uFlip t) 0 then 1 else 0) ps j in
         px ! j = bytes64 pal ! j OR c \<and> bit m j = (c \<noteq> 0) \<and> bit p j = (c \<noteq> 0 \<and> bit (tile_uPal t) 3))"
proof -
  let ?k = "if bit (tile_uFlip t) 0 then 1 else 0 :: nat" and ?x = "if bit (tile_uFlip t) 1 then 7 else 0 :: u32"
  have "unat (tile_uFlip t) = 0 \<or> unat (tile_uFlip t) = 1 \<or> unat (tile_uFlip t) = 2 \<or> unat (tile_uFlip t) = 3"
    using assms(2) unfolding tile_ok_def by linarith
  then have "tile_uFlip t = 0 \<or> tile_uFlip t = 1 \<or> tile_uFlip t = 2 \<or> tile_uFlip t = 3" by (simp add: word_unat_eq_iff)
  then have f: "arr_get u_FlipTable8 (unat (tile_uFlip t)) = Some (?x, 1 - ?k, ?k)"
    by (elim disjE) (simp_all add: u_FlipTable8_def arr_get_def)
  have u: "unat (ucast w :: u32) = unat w" for w :: u8
    using unat_u8_le [of w] by (simp add: unsigned_ucast_eq take_bit_nat_eq_self_iff)
  let ?r = "y + ucast (tile_uOffsetY t)"
  have r: "unat ?r = unat y + unat (tile_uOffsetY t)" using assms(4) by (simp add: unat_word_ariths u)
  have row: "unat (?r XOR ?x) = (if bit (tile_uFlip t) 1 then 7 - unat ?r else unat ?r)"
    using mirror_row [of ?r] assms(4) r by simp
  have ut: "unat (ucast (tile_uTile t) :: u32) = unat (tile_uTile t)"
    using unat_u16_le [of "tile_uTile t"] by (simp add: unsigned_ucast_eq take_bit_nat_eq_self_iff)
  have a: "unat ((base + ucast (tile_uTile t) * word_of_nat (8 * n)) AND 0x7FFF) = (unat base + unat (tile_uTile t) * (8 * n)) mod 0x8000"
  proof -
    have "unat (x AND 0x7FFF) = unat x mod 0x8000" for x :: u32 using GetVramPtr_eq [of x] by (simp add: GetVramPtr_def)
    moreover have "unat (word_of_nat (8 * n) :: u32) = 8 * n" 
      using assms(3) by (simp only: unsigned_of_nat) (simp add: take_bit_nat_eq_self_iff)
    moreover have "m mod 4294967296 mod 0x8000 = m mod 0x8000" for m :: nat by (rule mod_mod_cancel) simp
    ultimately show ?thesis by (simp add: unat_word_ariths ut mod_simps)
  qed
  have y: "unat y < 8" using assms(4) by simp
  obtain px m p where c: "chr_tile v base n y pal t = Some (px, m, p)"
    using returns_Ex [OF chr_tile_ok [OF assms(1,2) y assms(3)]] by (metis prod_cases3)
  then obtain ps where ps: "chr_planes v (unat ((base + ucast (tile_uTile t) * word_of_nat (8 * n)) AND 0x7FFF) + unat (?r XOR ?x)) n = Some ps"
      "px = bytes64 (chr_word ?k pal ps)" "m = HFlipLookup (1 - ?k) (fold (OR) ps 0)" "p = (if tile_uPal t AND 8 \<noteq> 0 then m else 0)"
    unfolding chr_tile_def f by (auto simp: Let_def split: bind_splits)
  have l: "length ps \<le> 8" using chr_planes_length [OF ps(1)] assms(3) by simp
  have "tile_uPal t AND 8 \<noteq> 0 \<longleftrightarrow> bit (tile_uPal t) 3"
    using bit_iff_and_push_bit_not_eq_0 [of "tile_uPal t" 3] by (simp add: push_bit_of_1)
  then have "\<forall>j < 8. let c = planar_pixel ?k ps j in px ! j = bytes64 pal ! j OR c \<and> bit m j = (c \<noteq> 0) \<and> bit p j = (c \<noteq> 0 \<and> bit (tile_uPal t) 3)"
    using chr_word_bytes [OF l] opaque_bit [OF l, of _ ?k] ps by (auto simp: Let_def)
  with c ps(1) show ?thesis unfolding a row r by blast
qed

end
