(* ===== verification/Sn_Render_Props.thy ===== *)
theory Sn_Render_Props
  imports Sn_Render_Ok Sn_Pixel_Props Sn_Ppu_Props
begin

text \<open>
  The properties of the renderer, with concrete states at which they apply.
\<close>

section \<open>Concrete states\<close>

definition demo_view :: "u16 list \<Rightarrow> ppu_view" where
  "demo_view vm = \<lparr>ppu_Regs = zero_ppu_regs, m_CGRAM = replicate SNESPPU_CGRAM_NUM 0x7FFF, m_VRAM = vm, m_OAM = replicate SNESPPU_OAM_SIZE 0\<rparr>"

lemma demo_view_ok: "length vm = SNESPPU_VRAM_NUMWORDS \<Longrightarrow> mem_ok (demo_view vm)"
  by (simp add: demo_view_def mem_ok_def)

definition zero_bg_info :: SnesBGInfoT where
  "zero_bg_info = \<lparr>bg_uScrollX = 0, bg_uScrollY = 0, bg_uScrAddr = 0, bg_uChrAddr = 0, bg_uScrSize = 0, bg_uChrSize = 0, bg_uBitDepth = 4,
     bg_uPalBase = 0, bg_Priority = 0, bg_uMosaic = 0\<rparr>"

definition demo_env :: render_env where
  "demo_env = \<lparr>env_bg = replicate 4 zero_bg_info, env_mask = ([], []), env_color = ucast\<rparr>"

definition zero_line :: SnesLineT where
  "zero_line = \<lparr>ln_plane7 = 0, ln_layer0 = 0, ln_layer1 = 0\<rparr>"

definition zero_obj :: SnesRenderObjT where
  "zero_obj = \<lparr>obj_uPosX = 0, obj_uPosY = 0, obj_uTile = 0, obj_bHFlip = 0, obj_uVXOR = 0, obj_uSize = 0, obj_uSizeShift = 0, obj_uPri = 0, obj_uPal = 0\<rparr>"

text \<open>The renderer as static memory has it, in the middle of a frame on a surface of 32 bits per pixel.\<close>

definition zero_info :: SnesRender8pInfoT where
  "zero_info = \<lparr>ri_BlendInfo = \<lparr>bi_Pal = replicate 4 (replicate 256 0), bi_uMain32 = [], bi_uSub32 = [], bi_uLine32 = [],
       bi_uMain8 = replicate 256 0, bi_uSub8 = replicate 256 0\<rparr>,
     ri_Main = zero_line, ri_Sub = zero_line,
     ri_BGPlanes = replicate 4 \<lparr>bp_pixels = replicate 288 0, bp_opaque = 0, bp_pri = 0\<rparr>,
     ri_Tiles = replicate 4 (replicate 34 \<lparr>tile_uTile = 0, tile_uPal = 0, tile_uFlip = 0, tile_uOffsetY = 0\<rparr>),
     ri_BGOffset = replicate 68 0, ri_MainAddSubMask = 0, ri_SubAddSubMask = 0, ri_WindowMask = replicate 4 0, ri_BGWindow = replicate 6 0,
     ri_uBGVramAddr = replicate 4 0, ri_uObjY = replicate 128 0, ri_uObjSize = replicate 128 0\<rparr>"

definition demo_render :: SnesPPURender where
  "demo_render = BeginRender (Some \<lparr>sf_Format = \<lparr>pf_uBitDepth = 32, pf_uRedShift = 0, pf_uGreenShift = 8, pf_uBlueShift = 16, pf_uAlphaShift = 24\<rparr>,
      sf_lines = (\<lambda>_. [])\<rparr>)
     \<lparr>m_UpdateFlags = 0, m_pRenderInfo = False, m_RenderInfo = zero_info, m_Objs = replicate SNESPPU_OBJ_NUM zero_obj, m_pTarget = None,
      m_nObjLine = replicate SNPPU_MAXLINE 0, m_ObjLine = replicate SNPPU_MAXLINE (replicate SNPPU_MAXOBJ 0), m_pBlend = False, m_bBlendTarget = False\<rparr>"

lemma demo_render_ok: "render_ok demo_env demo_render"
proof -
  have "junk_ok (env_bg demo_env)" by (simp add: junk_ok_def demo_env_def zero_bg_info_def list_all_length)
  moreover have "ri_ok zero_info"
    by (simp add: ri_ok_def blend_ok_def zero_info_def tiles_ok_def tile_ok_def list_all_length)
  moreover have "objs_ok (replicate SNESPPU_OBJ_NUM zero_obj)"
    by (simp add: objs_ok_def obj_ok_def zero_obj_def list_all_length)
  moreover have "lists_ok (replicate SNPPU_MAXLINE 0, replicate SNPPU_MAXLINE (replicate SNPPU_MAXOBJ 0))"
    by (simp add: lists_ok_def line_of_def)
  ultimately show ?thesis by (simp add: render_ok_def demo_render_def BeginRender_def SetUpdateFlags_def)
qed

section \<open>A line\<close>



section \<open>Windows\<close>

text \<open>
  C27: The masks that the renderer computes from the window registers are, for every background, the
  objects and the color window and for every pixel, what the registers say of the pixel: whether it
  lies in the two areas, inverted where the registers say so, combined by the logical operation.
\<close>
theorem windows_by_pixel:
  assumes "k < 6" and "n < 256"
  shows "\<exists>w bw. DecodeWindows r = Some (w, bw) \<and> length bw = 6 \<and> bit (bw ! k) n = window_pixel r k n"
  using decode_windows [of r] assms by blast

text \<open>Window 1 from 10 to 20, inverted, for the second background.\<close>

theorem windows_by_pixel_witness:
  "\<exists>w bw. DecodeWindows (zero_ppu_regs\<lparr>r_wh0 := 10, r_wh1 := 20, r_w12sel := 0x30\<rparr>) = Some (w, bw) \<and> length bw = 6 \<and> \<not> bit (bw ! 1) 15"
  using windows_by_pixel [of 1 15 "zero_ppu_regs\<lparr>r_wh0 := 10, r_wh1 := 20, r_w12sel := 0x30\<rparr>"]
  by (simp add: window_pixel_def window_nibble_def window_logic_def zero_ppu_regs_def)

section \<open>Backgrounds\<close>

text \<open>
  C28: Copying \<open>n\<close> tiles of a background to the line, eight pixels at a time with two word shifts and
  a case for full and empty groups, gives pixel by pixel the source pixel shifted by the low three
  bits of the scroll position where the mask has a bit, and the old pixel elsewhere.
\<close>
theorem background_copied:
  assumes "8 * n \<le> length ln" and "8 * n + 8 \<le> length src"
  shows "\<exists>ln'. u_RenderBGData ln src m sx n = Some ln' \<and> length ln' = length ln \<and>
    (\<forall>x < length ln. ln' ! x = (if x < 8 * n \<and> bit m x then src ! (x + unat sx mod 8) else ln ! x))"
  using returns_Ex [OF u_RenderBGData_nth [OF assms, of m sx]] by (simp only: and_masks)

theorem background_copied_witness:
  "\<exists>ln'. u_RenderBGData (replicate 256 7) (map word_of_nat [0..<288]) 0xF0F5 11 32 = Some ln' \<and> ln' ! 0 = 3 \<and> ln' ! 1 = 7 \<and> ln' ! 13 = 16"
proof -
  have "bit (0xF0F5 :: SNMaskT) 0" "\<not> bit (0xF0F5 :: SNMaskT) 1" "bit (0xF0F5 :: SNMaskT) 13" by simp_all
  with background_copied [of 32 "replicate 256 7" "map word_of_nat [0..<288]" "0xF0F5" 11] show ?thesis
    by (auto simp del: upt_Suc)
qed

text \<open>
  C29: Decoding a row of a tile with the lookup tables: bit \<open>i\<close> of a pixel comes from plane \<open>i\<close>, from
  the left or mirrored, of the row or the mirrored row, on top of the palette; the masks have a bit
  for the pixels that are not 0, and for those with priority.
\<close>
theorem tile_decoded:
  assumes "mem_ok v" and "tile_ok t" and "n \<le> 4" and "unat y + unat (tile_uOffsetY t) < 8" and "j < 8"
  shows "\<exists>px m p ps c. chr_tile v base n y pal t = Some (px, m, p)
    \<and> chr_planes v ((unat base + unat (tile_uTile t) * (8 * n)) mod 0x8000 +
        (if bit (tile_uFlip t) 1 then 7 - (unat y + unat (tile_uOffsetY t)) else unat y + unat (tile_uOffsetY t))) n = Some ps
    \<and> c = planar_pixel (if bit (tile_uFlip t) 0 then 1 else 0) ps j
    \<and> px ! j = bytes64 pal ! j OR c \<and> bit m j = (c \<noteq> 0) \<and> bit p j = (c \<noteq> 0 \<and> bit (tile_uPal t) 3)"
  using tile_row [OF assms(1-4), of base pal] assms(5) by (auto simp: Let_def)

text \<open>The planes of row 6 are 0F and 33 (hexadecimal); the tile is mirrored both ways.\<close>

theorem tile_decoded_witness:
  "\<exists>px m p. chr_tile (demo_view ((replicate SNESPPU_VRAM_NUMWORDS 0)[0x1016 := 0x330F])) 0x1000 1 1 0x2020202020202020
      \<lparr>tile_uTile = 2, tile_uPal = 8, tile_uFlip = 3, tile_uOffsetY = 0\<rparr> = Some (px, m, p)
    \<and> px ! 0 = 0x23 \<and> bit m 0 \<and> bit p 0"
proof -
  let ?v = "demo_view ((replicate SNESPPU_VRAM_NUMWORDS 0)[0x1016 := 0x330F])"
  let ?t = "\<lparr>tile_uTile = 2, tile_uPal = 8, tile_uFlip = 3, tile_uOffsetY = 0\<rparr>"
  have m: "mem_ok ?v" by (rule demo_view_ok) simp
  have p: "chr_planes ?v 0x1016 (Suc 0) = Some [0x0F, 0x33]"
    by (simp add: vram_word_def demo_view_def SNESPPU_VRAM_NUMWORDS_def arr_get_def lo8_def hi8_def)
  have c: "planar_pixel (Suc 0) [0x0F, 0x33] 0 = 3" by (simp add: planar_pixel_def column_bit_def horner_sum_foldr)
  from tile_decoded [OF m, of ?t 1 1 0 "0x1000" "0x2020202020202020"] show ?thesis
    by (auto simp: tile_ok_def p c bytes64_def simp del: chr_planes.simps)
qed

text \<open>
  C32: In mode 2 every offset of a row for the vertical direction is fetched after those for the
  horizontal one, and clearing the entry before its first column overwrites the horizontal offset of
  the first column that has one: it is always 0 after a fetch.
\<close>
theorem first_offset_is_lost:
  assumes "FetchOffset v b os old True = Some (u, os', a)" and "bg_uScrSize b \<in> {0, 1}"
    and "tile_address (drop_bit 3 (bg_uScrollX b) AND 63) (drop_bit 3 (bg_uScrollY b) AND 63) \<noteq> old"
  shows "os' ! 2 = 0"
  by (rule first_offset_lost [OF assms])

theorem first_offset_is_lost_witness:
  "\<exists>u os' a. FetchOffset (demo_view (replicate SNESPPU_VRAM_NUMWORDS 0x2008)) zero_bg_info (replicate 68 0) 0xFFFFFFFF True = Some (u, os', a) \<and> os' ! 2 = 0"
proof -
  let ?v = "demo_view (replicate SNESPPU_VRAM_NUMWORDS 0x2008)"
  have "mem_ok ?v" by (rule demo_view_ok) simp
  from FetchOffset_ok [OF this, of zero_bg_info "replicate 68 0" "0xFFFFFFFF" True] obtain u os' a
    where f: "FetchOffset ?v zero_bg_info (replicate 68 0) 0xFFFFFFFF True = Some (u, os', a)"
    by (auto simp: info_ok_def zero_bg_info_def returns_def)
  have "os' ! 2 = 0"
    by (rule first_offset_is_lost [OF f]) (simp_all add: zero_bg_info_def tile_address_def)
  with f show ?thesis by blast
qed

section \<open>Objects\<close>

text \<open>
  C30: The lists of the objects of all lines, filled in one pass over the objects, hold for every line
  the first 32 objects, in the order that begins with the one of highest priority, whose rows cover
  the line.
\<close>
theorem objects_of_lines:
  assumes "length ys = SNESPPU_OBJ_NUM" and "length sizes = SNESPPU_OBJ_NUM" and "length ls = SNPPU_MAXLINE"
    and "list_all (\<lambda>l. length l = SNPPU_MAXOBJ) ls" and "k < SNPPU_MAXLINE"
  shows "\<exists>ns ls' l n. UpdateOBJVisibility ys sizes i SNESPPU_OBJ_NUM ls = Some (ns, ls') \<and> CheckOBJ_line ns ls' (int k) = Some (l, n)
    \<and> take n l = line_objects ys sizes i k"
  using visible_objects [OF assms(1-3), of i] assms(4,5) by (auto simp: list_all_iff)

text \<open>40 objects of eight lines at line 100: the list of line 107 has 32 of them, from the first on.\<close>

theorem objects_of_lines_witness:
  "\<exists>ns ls' l n. UpdateOBJVisibility (replicate SNESPPU_OBJ_NUM 100) (replicate SNESPPU_OBJ_NUM 8) 120 SNESPPU_OBJ_NUM
      (replicate SNPPU_MAXLINE (replicate SNPPU_MAXOBJ 0)) = Some (ns, ls') \<and> CheckOBJ_line ns ls' (int 107) = Some (l, n)
    \<and> take n l = map (\<lambda>d. ucast ((120 + word_of_nat d :: u32) AND 0x7F)) [0..<32]"
proof -
  have u: "unat (ucast ((120 + word_of_nat d :: u32) AND 0x7F) :: u8) < 128" for d
  proof -
    have "unat ((120 + word_of_nat d :: u32) AND 0x7F) < 128"
      using and_le_right [of "120 + word_of_nat d :: u32" "0x7F"] by (simp add: le_less_trans)
    then show ?thesis by (metis le_less_trans take_bit_nat_less_eq_self unsigned_ucast_eq)
  qed
  have "filter (\<lambda>j. covers_line (word_of_nat 107) (replicate 128 100 ! unat j) (replicate 128 8 ! unat j)) (obj_order 120 128) = obj_order 120 128"
    by (rule filter_True) (auto simp: obj_order_def u covers_line_def)
  then have e: "line_objects (replicate SNESPPU_OBJ_NUM 100) (replicate SNESPPU_OBJ_NUM 8) 120 107 = take 32 (obj_order 120 128)"
    by (simp only: line_objects_def SNESPPU_OBJ_NUM_def SNPPU_MAXOBJ_def)
  have "take 32 (obj_order 120 128) = map (\<lambda>d. ucast ((120 + word_of_nat d :: u32) AND 0x7F)) [0..<32]"
    by (simp add: obj_order_def take_map take_upt del: upt_Suc)
  with e objects_of_lines [of "replicate SNESPPU_OBJ_NUM 100" "replicate SNESPPU_OBJ_NUM 8" "replicate SNPPU_MAXLINE (replicate SNPPU_MAXOBJ 0)" 107 120]
  show ?thesis by (simp add: list_all_length SNPPU_MAXLINE_def del: upt_Suc)
qed

text \<open>
  C31: Drawing the objects of a line, by words of 32 pixels that are taken or not: at every pixel
  outside the window the last column of the list that covers it decides, drawn or hidden behind a
  background; an object that is hidden hides the ones after it as well.
\<close>
theorem objects_drawn:
  assumes "length (sc_pixels s) = 256" and "list_all column_ok cs" and "n < 256"
  shows "\<exists>s'. u_RenderOBJ8 cs w e a al s = Some s' \<and> length (sc_pixels s') = 256 \<and> sc_pixels s' ! n =
    (if (\<exists>m. w = Some m \<and> bit m n) \<or> (\<exists>m. e = Some m \<and> bit m n) then sc_pixels s ! n
     else drawn_pixel (sc_line s) (rev cs) n (sc_pixels s ! n))"
  using returns_Ex [OF u_RenderOBJ8_spec [of s cs w e a al]] assms by (auto simp: screen_ok_def)

text \<open>Two columns at -3 and 2; the one drawn last is hidden behind a background at pixel 4, where the other would be drawn.\<close>

theorem objects_drawn_witness:
  "\<exists>s'. u_RenderOBJ8 [\<lparr>o8_iPosX = 2, o8_uPri = 3, o8_uPal = 0, o8_pixels = replicate 8 0x81, o8_opaque = 0xFF\<rparr>,
      \<lparr>o8_iPosX = - 3, o8_uPri = 1, o8_uPal = 0, o8_pixels = replicate 8 0x92, o8_opaque = 0xFF\<rparr>] None None False False
      \<lparr>sc_pixels = replicate 256 5, sc_line = \<lparr>ln_plane7 = 0, ln_layer0 = 0, ln_layer1 = 0x10\<rparr>, sc_AddSubMask = 0, sc_bRendered = True\<rparr> = Some s'
    \<and> sc_pixels s' ! 4 = 5"
proof -
  let ?cs = "[\<lparr>o8_iPosX = 2, o8_uPri = 3, o8_uPal = 0, o8_pixels = replicate 8 0x81, o8_opaque = 0xFF\<rparr>,
      \<lparr>o8_iPosX = - 3, o8_uPri = 1, o8_uPal = 0, o8_pixels = replicate 8 0x92, o8_opaque = 0xFF\<rparr>]"
  let ?s = "\<lparr>sc_pixels = replicate 256 5, sc_line = \<lparr>ln_plane7 = 0, ln_layer0 = 0, ln_layer1 = 0x10\<rparr>, sc_AddSubMask = 0, sc_bRendered = True\<rparr>"
  have "bit (0xFF :: u8) 7" "bit (0x10 :: SNMaskT) 4" by simp_all
  then have "drawn_pixel (sc_line ?s) (rev ?cs) 4 5 = 5" by (simp add: covers_def behind_def)
  with objects_drawn [of ?s ?cs 4 None None False False] show ?thesis by (auto simp: column_ok_def)
qed

end
