(* ===== verification/Sn_Machine.thy ===== *)
theory Sn_Machine
  imports Sn_System_Ok Sn_Spc_Props Sn_Render_Props Sn_Dma_Ok Sn_MemMap_Props Sn_Sound_Props
begin

text \<open>
  The whole machine. First the sound processor: the interpreter of \<^verbatim>\<open>snspc_c.c\<close> with the I/O registers of
  \<^verbatim>\<open>snspcio.cpp\<close> behind the function pointer of \<^verbatim>\<open>snspc.c\<close>, and the default function of that pointer.
  Both meet the contract \<open>sound_cpu\<close> of the machine.
\<close>

section \<open>The interpreter as the function pointer\<close>

definition spc_execute :: "SNSpcIOT SNSpcT \<Rightarrow> SNSpcIOT SNSpcT option" where
  "spc_execute c = (case SNSPCExecute_C spc_io_traps c of Some r \<Rightarrow> r | None \<Rightarrow> None)"

text \<open>
  The interpreter does not wrap addresses, so the contract holds for the programs that stay inside
  memory whatever the main processor writes to the ports, and however the runs are cut.
\<close>

coinductive spc_safe :: "SNSpcIOT SNSpcT \<Rightarrow> bool" where
  spc_safeI: "spc_io_good c \<Longrightarrow>
   \<forall>n k. length k = 2 \<longrightarrow> (\<exists>c'. spc_execute (c\<lparr>SNSpcT.Cycles := n, SNSpcT.Counter := k\<rparr>) = Some c' \<and> spc_safe c') \<Longrightarrow>
   \<forall>io. io_ok io \<longrightarrow> spc_safe (c\<lparr>SNSpcT.pUserData := io\<rparr>) \<Longrightarrow>
   \<forall>k. length k = 2 \<longrightarrow> spc_safe (c\<lparr>SNSpcT.Counter := k\<rparr>) \<Longrightarrow> spc_safe c"

interpretation spc_sound: sound_cpu spc_execute spc_safe
  by unfold_locales (auto elim: spc_safe.cases simp: returns_def)

interpretation default_sound: sound_cpu u_SNSPCDefaultExecuteFunc spc_io_good
  by unfold_locales (auto simp: u_SNSPCDefaultExecuteFunc_def spc_io_good_def)

section \<open>A program that stays\<close>

text \<open>\<^verbatim>\<open>BRA -2\<close> at address 200 (hexadecimal): the processor waits there for ever.\<close>

definition waits :: "SNSpcIOT SNSpcT \<Rightarrow> bool" where
  "waits c \<longleftrightarrow> spc_io_good c \<and> SNSpcRegsT.rPC (SNSpcT.Regs c) = 0x200 \<and> Mem c 0x200 = 0x2F \<and> Mem c 0x201 = 0xFE"

lemma find_spc_BRA: "find_case spc_switch 0x2F = Some (4, [SNSPC_BRA, SNSPC_ENDOP 4])"
  by (simp add: spc_switch_def opspc700_def opspc700_defs spc_hand_defs find_case_append)

definition at_wait :: "SNSpcIOT spx \<Rightarrow> bool" where
  "at_wait y \<longleftrightarrow> spc_io_good (pSpc y) \<and> spx.l_rPC y = 0x200 \<and> Mem (pSpc y) 0x200 = 0x2F \<and> Mem (pSpc y) 0x201 = 0xFE"

lemma wait_step:
  assumes "at_wait y"
  shows "\<exists>z. spc_step spc_io_traps y = Some (if spx.nCycles y < 84 then Done (y\<lparr>spx.l_rPC := 0x201\<rparr>) else Next z) \<and> at_wait z"
  using assms
  by (auto simp: at_wait_def spc_step_def u_SNSPCFetch8_def mem_get_def spc_dispatch_def find_spc_BRA SNSPC_CYCLE_def
      branch_always_def fetch_rel_def SNSPC_MEM_SIZE_def SNSPC_SUBCYCLES_x_def sign_extend8_def)

lemma wait_reach: "spc_reach spc_io_traps x y \<Longrightarrow> at_wait x \<Longrightarrow> at_wait y"
proof (induction rule: spc_reach.induct)
  case (reach_next y z)
  from wait_step [OF reach_next.IH [OF reach_next.prems]] reach_next.hyps(2) show ?case by (auto split: if_splits)
qed

lemma wait_execute:
  assumes "waits c" and "length k = 2"
  shows "\<exists>c'. spc_execute (c\<lparr>SNSpcT.Cycles := n, SNSpcT.Counter := k\<rparr>) = Some c' \<and> waits c'"
proof (cases "n \<le> 0")
  case True
  then show ?thesis using assms by (simp add: spc_execute_def SNSPCExecute_C_def waits_def spc_io_good_def)
next
  case False
  let ?d = "c\<lparr>SNSpcT.Cycles := n, SNSpcT.Counter := k\<rparr>"
  have w: "at_wait (spc_enter ?d)"
    using assms by (simp add: at_wait_def waits_def spc_enter_def SNSPC_UNPACKFLAGS_def Let_def spc_io_good_def)
  have "spc_step spc_io_traps y \<noteq> None" if "spc_reach spc_io_traps (spc_enter ?d) y" for y
    using wait_step [OF wait_reach [OF that w]] by auto
  from spc_loop_returns [OF this] obtain y z where r: "spc_reach spc_io_traps (spc_enter ?d) y"
    and d: "spc_step spc_io_traps y = Some (Done z)" and l: "spc_loop spc_io_traps (spc_enter ?d) = Some (Some z)"
    by blast
  have y: "at_wait y" by (rule wait_reach [OF r w])
  have z: "z = y\<lparr>spx.l_rPC := spx.l_rPC y + 1\<rparr>" by (rule step_Done [OF d])
  have "waits (spc_leave z)"
    using y by (simp add: z at_wait_def waits_def spc_leave_def SNSPC_PACKFLAGS_def Let_def spc_io_good_def)
  then show ?thesis using False l by (simp add: spc_execute_def SNSPCExecute_C_def)
qed

lemma wait_safe: "waits c \<Longrightarrow> spc_safe c"
proof (coinduction arbitrary: c rule: spc_safe.coinduct)
  case spc_safe
  then have g: "spc_io_good c" by (simp add: waits_def)
  have u: "waits (c\<lparr>SNSpcT.pUserData := io\<rparr>)" if "io_ok io" for io
    using that spc_safe by (simp add: waits_def spc_io_good_def)
  have k: "waits (c\<lparr>SNSpcT.Counter := k\<rparr>)" if "length k = 2" for k
    using that spc_safe by (simp add: waits_def spc_io_good_def)
  show ?case
    using g u k wait_execute [OF spc_safe] by (intro exI [of _ c]) blast
qed

section \<open>The machine\<close>

text \<open>
  The machine put together: the system of \<^verbatim>\<open>snes.cpp\<close> with the portable renderer and the interpreter
  of the sound processor behind its function pointers, and its memory map.
\<close>

interpretation snes: snes_machine "vt_SnesPPURender E" "render_ok E" spc_execute spc_safe ..

definition snes_bus :: "render_env \<Rightarrow> unit SnesPPURender_ext SnesSystemT traps" where
  "snes_bus E = snes_traps (vt_SnesPPURender E) spc_execute"

abbreviation snes_good :: "render_env \<Rightarrow> unit SnesPPURender_ext snes \<Rightarrow> bool" where
  "snes_good E \<equiv> snes_ok (render_ok E) spc_safe"

section \<open>The memory map\<close>

lemma map_result_ok:
  assumes "rom_fits x (unat (m_uRomBytes r))" and "sram_ok (clamp_sram (GetSRAMBytes r))" and "memories_ok (hMem c) (unat (m_uRomBytes r))"
    and "snes_state_ok rinv sgood (sys c)" and "length (SNCpuT.Counter c) = 4"
  shows "snes_ok rinv sgood (map_result r x c)"
proof -
  have g: "good_bank (hMem c) (clamp_sram (GetSRAMBytes r)) i (Bank (map_result r x c) i)" if "i < SNCPU_BANK_NUM" for i
    using map_result_good [OF assms(1,2) _ assms(3), of i] that by (simp add: SNCPU_BANK_NUM_def)
  have "blocks_ok (dom (hMem c))"
    using assms(3) by (simp add: blocks_ok_def memories_ok_def memory_at_def)
  moreover have "snes_state_ok rinv sgood (sys (map_result r x c))"
    using assms(4) by (simp add: map_result_def snes_state_ok_def)
  moreover have "bus_ok (map_result r x c)" using g by (simp add: bus_ok_def good_bank_def map_result_def)
  moreover have "\<forall>i < SNCPU_BANK_NUM. bank_fns_ok (m_uSramSize (sys (map_result r x c))) (Bank (map_result r x c) i)"
    using g by (simp add: good_bank_def map_result_def)
  moreover have "length (SNCpuT.Counter (map_result r x c)) = 4" "hMem (map_result r x c) = hMem c" using assms(5) by (simp_all add: map_result_def)
  ultimately show ?thesis by (simp add: machine_ok_def snes_inv_def)
qed


text \<open>
  A machine with a ROM of 96 KB; its sound processor waits in a loop. The memory of the host has
  all cells.
\<close>

definition demo_spc :: "SNSpcIOT SNSpcT" where
  "demo_spc = (demo_sound ((\<lambda>_. 0)(0x200 := 0x2F, 0x201 := 0xFE)))\<lparr>SNSpcT.Regs := \<lparr>SNSpcRegsT.rPC = 0x200, rA = 0, rY = 0, rX = 0, rSP = 0, rPSW = 0\<rparr>\<rparr>"

definition demo_sys :: "unit SnesPPURender_ext SnesSystemT" where
  "demo_sys = \<lparr>m_PPU = SnesPPU_Reset \<lparr>ppu_Regs = zero_ppu_regs, m_CGRAM = [], m_VRAM = [], m_OAM = [], ppu_uLine = 0, m_bVBlank = False,
       m_pRender = demo_render, ppu_Queue = no_writes\<rparr>,
     m_DMAC = \<lparr>dma_Channels = replicate SNESDMAC_CHANNEL_NUM \<lparr>dmapx = 0, bbadx = 0x18, a1tx = 0, dasx = 16, a1bx = 0x7E, dasbx = 0, a2ax = 0, ntlrx = 0, unknown = 0\<rparr>,
       m_MDMAEnable = 0, m_HDMAEnable = 0\<rparr>,
     m_IO = SnesIO_Reset demo_pads, m_Spc = demo_spc, m_uSramSize = 0, m_uLine = 0, m_uFrame = 0\<rparr>"

definition demo_machine :: "unit SnesPPURender_ext snes" where
  "demo_machine = \<lparr>SNCpuT.Regs = zero_regs, SNCpuT.Cycles = 1000, SNCpuT.Counter = [0, 0, 0, 0], SNCpuT.pUserData = demo_sys, nAbortCycles = 0,
     bRunning = True, uSignal = 0, Bank = (\<lambda>_. zero_bank), hMem = (\<lambda>_. Some 0)\<rparr>"

lemma demo_spc_safe: "spc_safe demo_spc"
  using demo_sound_good by (intro wait_safe) (simp add: waits_def demo_spc_def spc_io_good_def demo_sound_def)

lemma demo_sys_ok: "snes_state_ok (render_ok demo_env) spc_safe demo_sys"
proof -
  have r: "render_ok demo_env (SetUpdateFlags f demo_render)" for f by (rule snes_renderer.flags_ok [OF demo_render_ok])
  show ?thesis
    using demo_spc_safe r snq_reset(1) [OF no_writes_ok(1)]
    by (simp add: snes_state_ok_def demo_sys_def ppu_inv_def ppu_ok_def SnesPPU_Reset_def mem_ok_def render_flags_def SnesIO_Reset_def joy_ok_def
        zero_io_regs_def line_limit_def SNES_RAMSIZE_def)
qed

lemma demo_rom_fits: "rom_fits SNROM_MAPPING_LOROM (unat (m_uRomBytes demo_rom))" "sram_ok (clamp_sram (GetSRAMBytes demo_rom))"
  by (simp_all add: demo_rom_def no_rom_def rom_fits_def rom_region_def sram_ok_def clamp_sram_def GetSRAMBytes_def SNES_SRAMSIZE_def)


section \<open>DMA\<close>

text \<open>Both maps have the registers of the PPU at 2000, so DMA does not reach its own registers.\<close>

lemma mapped_ports_safe:
  assumes "rom_fits x (unat (m_uRomBytes r))" and "sram_ok (clamp_sram (GetSRAMBytes r))"
  shows "ports_safe (map_result r x c)"
proof -
  let ?n = "clamp_sram (GetSRAMBytes r)"
  define k :: nat where "k = (case x of SNROM_MAPPING_LOROM \<Rightarrow> 7 | SNROM_MAPPING_HIROM \<Rightarrow> 15)"
  have k: "k < length (butlast (map_of_rom x))" "\<forall>m \<in> set (drop (Suc k) (butlast (map_of_rom x))). outside m 1"
    "butlast (map_of_rom x) ! k = map_row 0x00 0x3F 0x2000 0x3FFF SNCPU_CYCLE_FAST SNESMEM_TYPE_PPU0"
    by (cases x; simp add: k_def map_of_rom_def u_SnesMemMap_LoRom_def u_SnesMemMap_HiRom_def outside_def map_row_def)+
  have "in_row (map_row 0x00 0x3F 0x2000 0x3FFF SNCPU_CYCLE_FAST SNESMEM_TYPE_PPU0) (unat (map_size r ?n SNESMEM_TYPE_PPU0)) 1"
    by (simp add: in_row_def map_row_def covers_def row_len_def map_size_def)
  then have "SNCpuBankT.pWriteTrapFunc (map_entry r ?n (butlast (map_of_rom x)) 1 b) = fn_2000" for b
    unfolding map_entry_nth [OF map_fits_rom [OF assms] k(1,2)] k(3)
    by (simp add: row_bank_def entry_def map_row_def trap_bank_def Let_def)
  then show ?thesis by (simp add: ports_safe_def map_result_def fn_2000_def fn_4000_def)
qed


definition demo_dma :: "unit SnesPPURender_ext snes" where
  "demo_dma = map_result demo_rom SNROM_MAPPING_LOROM (demo_machine\<lparr>SNCpuT.pUserData := demo_sys\<lparr>m_DMAC := (m_DMAC demo_sys)\<lparr>m_MDMAEnable := 0x21\<rparr>\<rparr>\<rparr>)"


end
