(* ===== verification/Sn_State.thy ===== *)
theory Sn_State
  imports Sn_System_Ok Sn_Spc_Mem_Props
begin

text \<open>
  Saved states (\<^verbatim>\<open>snstate.cpp\<close>, \<^verbatim>\<open>snstate.h\<close>): the structure that is written to a file, and how the
  system and its parts fill it and read it back. The structure is a value; the buffer that the caller
  passes is an argument and a result, so that what \<^verbatim>\<open>SaveState\<close> does not write keeps its old
  contents. The size of the structure is that of the compiler, a parameter.
\<close>

section \<open>The structure\<close>

record SNStateCPUT =
  sc_Regs :: SNCpuRegsT
  sc_Cycles :: int
  sc_Counter :: "int list"
  sc_uSignal :: u8

record SNStatePPUT =
  sp_Regs :: SnesPPURegsT
  sp_CGRAM :: "u16 list"
  sp_VRAM :: "u16 list"
  sp_OAM :: "u8 list"

record SNStateIOT =
  si_Input :: "u16 list"
  si_Regs :: SnesIORegsT

record SNStateDMACT =
  sd_Channels :: "SnesDMAChT list"
  sd_MDMAEnable :: u8
  sd_HDMAEnable :: u8

text \<open>\<^verbatim>\<open>SNSpcIORegsT\<close>: the ports and the timers.\<close>

record SNStateSPCIOT =
  so_apu_r :: "u8 list"
  so_apu_w :: "u8 list"
  so_spc_timer :: "SNSpcTimerT list"

record SNStateSPCT =
  ss_Regs :: SNSpcRegsT
  ss_Cycles :: int
  ss_Counter :: "int list"
  ss_bRomEnable :: u8
  ss_uCycleShift :: u8

record SNStateSPCDSPT =
  sm_Regs :: "u8 list"
  sm_Channels :: "SNSpcChannelT list"

record SnesStateT =
  Tag :: "u8 list"
  st_uFrame :: u32
  st_uLine :: u32
  st_CPU :: SNStateCPUT
  st_PPU :: SNStatePPUT
  st_IO :: SNStateIOT
  st_DMAC :: SNStateDMACT
  st_SPC :: SNStateSPCT
  st_SPCDSP :: SNStateSPCDSPT
  st_SPCIO :: SNStateSPCIOT
  st_Ram :: "u8 list"
  st_SpcRam :: "u8 list"
  st_SRam :: "u8 list"

section \<open>The parts\<close>

definition SnesIO_SaveState :: "SnesIOT \<Rightarrow> SNStateIOT" where
  "SnesIO_SaveState io = \<lparr>si_Input = m_Input io, si_Regs = io_Regs io\<rparr>"

definition SnesIO_RestoreState :: "SNStateIOT \<Rightarrow> SnesIOT \<Rightarrow> SnesIOT" where
  "SnesIO_RestoreState p io = io\<lparr>m_Input := si_Input p, io_Regs := si_Regs p\<rparr>"

definition SNSpcIO_SaveState :: "SNSpcIOT \<Rightarrow> SNStateSPCIOT" where
  "SNSpcIO_SaveState io = \<lparr>so_apu_r = apu_r io, so_apu_w = apu_w io, so_spc_timer = spc_timer io\<rparr>"

definition SNSpcIO_RestoreState :: "SNStateSPCIOT \<Rightarrow> SNSpcIOT \<Rightarrow> SNSpcIOT" where
  "SNSpcIO_RestoreState p io = io\<lparr>apu_r := so_apu_r p, apu_w := so_apu_w p, spc_timer := so_spc_timer p\<rparr>"

definition SnesDMAC_SaveState :: "SnesDMACT \<Rightarrow> SNStateDMACT" where
  "SnesDMAC_SaveState d = \<lparr>sd_Channels = dma_Channels d, sd_MDMAEnable = m_MDMAEnable d, sd_HDMAEnable = m_HDMAEnable d\<rparr>"

definition SnesDMAC_RestoreState :: "SNStateDMACT \<Rightarrow> SnesDMACT \<Rightarrow> SnesDMACT" where
  "SnesDMAC_RestoreState p d =
     d\<lparr>m_HDMAEnable := sd_HDMAEnable p, m_MDMAEnable := sd_MDMAEnable p, dma_Channels := sd_Channels p\<rparr>"

definition SnesPPU_SaveState :: "'r SnesPPUT \<Rightarrow> SNStatePPUT" where
  "SnesPPU_SaveState p = \<lparr>sp_Regs = ppu_Regs p, sp_CGRAM = m_CGRAM p, sp_VRAM = m_VRAM p, sp_OAM = m_OAM p\<rparr>"

definition SnesPPU_RestoreState :: "SNStatePPUT \<Rightarrow> 'r SnesPPUT \<Rightarrow> 'r SnesPPUT" where
  "SnesPPU_RestoreState q p = p\<lparr>ppu_Regs := sp_Regs q, m_CGRAM := sp_CGRAM q, m_VRAM := sp_VRAM q, m_OAM := sp_OAM q\<rparr>"

definition SNSpcDsp_SaveState :: "SNSpcDspT \<Rightarrow> SNStateSPCDSPT \<Rightarrow> SNStateSPCDSPT" where
  "SNSpcDsp_SaveState d p = p\<lparr>sm_Regs := m_Regs d\<rparr>"

definition SNSpcDsp_RestoreState :: "SNStateSPCDSPT \<Rightarrow> SNSpcDspT \<Rightarrow> SNSpcDspT" where
  "SNSpcDsp_RestoreState p d = d\<lparr>m_Regs := sm_Regs p\<rparr>"

definition SNSpcDspMix_SaveState :: "'a SNSpcDspMixT_scheme \<Rightarrow> SNStateSPCDSPT \<Rightarrow> SNStateSPCDSPT" where
  "SNSpcDspMix_SaveState m p = p\<lparr>sm_Channels := m_Channels m\<rparr>"

definition SNSpcDspMix_RestoreState :: "SNStateSPCDSPT \<Rightarrow> 'a SNSpcDspMixT_scheme \<Rightarrow> 'a SNSpcDspMixT_scheme" where
  "SNSpcDspMix_RestoreState p m = m\<lparr>m_Channels := sm_Channels p\<rparr>"

section \<open>Blocks of memory\<close>

definition load_block :: "heap \<Rightarrow> ptr \<Rightarrow> nat \<Rightarrow> u8 list option" where
  "load_block h p n =
     (if \<forall>i < n. ptr_add p (int i) \<in> dom h then Some (map (\<lambda>i. the (h (ptr_add p (int i)))) [0..<n]) else None)"

definition store_block :: "heap \<Rightarrow> ptr \<Rightarrow> u8 list \<Rightarrow> heap option" where
  "store_block h p bs =
     (if \<forall>i < length bs. ptr_add p (int i) \<in> dom h
      then Some (\<lambda>q. if fst q = fst p \<and> snd p \<le> snd q \<and> snd q < snd p + int (length bs)
                     then Some (bs ! nat (snd q - snd p)) else h q)
      else None)"

text \<open>\<^verbatim>\<open>memcpy\<close> over the front of an array.\<close>

definition over_front :: "'a list \<Rightarrow> 'a list \<Rightarrow> 'a list" where
  "over_front new old = new @ drop (length new) old"

section \<open>The processors\<close>

definition save_cpu :: "'r snes \<Rightarrow> SNStateCPUT option" where
  "save_cpu c =
     do { k0 \<leftarrow> arr_get (SNCpuT.Counter c) 0; k1 \<leftarrow> arr_get (SNCpuT.Counter c) 1;
          k2 \<leftarrow> arr_get (SNCpuT.Counter c) 2; k3 \<leftarrow> arr_get (SNCpuT.Counter c) 3;
          Some \<lparr>sc_Regs = SNCpuT.Regs c, sc_Cycles = SNCpuT.Cycles c, sc_Counter = [k0, k1, k2, k3], sc_uSignal = uSignal c\<rparr> }"

definition restore_cpu :: "SNStateCPUT \<Rightarrow> 'r snes \<Rightarrow> 'r snes option" where
  "restore_cpu p c =
     do { k0 \<leftarrow> arr_get (sc_Counter p) 0; k1 \<leftarrow> arr_get (sc_Counter p) 1;
          k2 \<leftarrow> arr_get (sc_Counter p) 2; k3 \<leftarrow> arr_get (sc_Counter p) 3;
          Some (c\<lparr>SNCpuT.Regs := sc_Regs p, SNCpuT.Cycles := sc_Cycles p, SNCpuT.Counter := [k0, k1, k2, k3],
                  nAbortCycles := 0, uSignal := sc_uSignal p\<rparr>) }"

definition save_spc :: "'w SNSpcT \<Rightarrow> SNStateSPCT option" where
  "save_spc c =
     do { k0 \<leftarrow> arr_get (SNSpcT.Counter c) 0; k1 \<leftarrow> arr_get (SNSpcT.Counter c) 1;
          Some \<lparr>ss_Regs = SNSpcT.Regs c, ss_Cycles = SNSpcT.Cycles c, ss_Counter = [k0, k1],
                ss_bRomEnable = bRomEnable c, ss_uCycleShift = 0\<rparr> }"

definition restore_spc :: "SNStateSPCT \<Rightarrow> 'w SNSpcT \<Rightarrow> 'w SNSpcT option" where
  "restore_spc p c =
     do { k0 \<leftarrow> arr_get (ss_Counter p) 0; k1 \<leftarrow> arr_get (ss_Counter p) 1;
          Some (c\<lparr>SNSpcT.Regs := ss_Regs p, SNSpcT.Cycles := ss_Cycles p, SNSpcT.Counter := [k0, k1]\<rparr>) }"

text \<open>The sound memory without the boot ROM in front of it; the flag is the byte the structure holds.\<close>

definition save_spc_ram :: "'w SNSpcT \<Rightarrow> u8 list \<times> 'w SNSpcT" where
  "save_spc_ram c =
     (let b = bRomEnable c; c = SNSPCSetRomEnable c 0; r = map (Mem c) [0..<SNSPC_MEM_SIZE]
      in (r, SNSPCSetRomEnable c b))"

definition restore_spc_ram :: "u8 list \<Rightarrow> u8 \<Rightarrow> 'w SNSpcT \<Rightarrow> 'w SNSpcT" where
  "restore_spc_ram r b c =
     (let c = SNSPCSetRomEnable c 0; c = c\<lparr>Mem := copy_to 0 SNSPC_MEM_SIZE (\<lambda>i. r ! i) (Mem c)\<rparr>
      in SNSPCSetRomEnable c b)"

section \<open>The system\<close>

definition SnesState_Tag :: "u8 list" where
  "SnesState_Tag = [0x53, 0x4E, 0x53, 0]"

text \<open>The registers of the sound DSP and the channels of the full mixer, the one behind \<^verbatim>\<open>m_SpcDspMixer\<close>.\<close>

definition save_dsp :: "SNSpcDspT \<Rightarrow> SNStateSPCDSPT \<Rightarrow> SNStateSPCDSPT option" where
  "save_dsp d p = do { m \<leftarrow> m_pMixer_0 d; Some (SNSpcDspMix_SaveState m (SNSpcDsp_SaveState d p)) }"

definition restore_dsp :: "SNStateSPCDSPT \<Rightarrow> SNSpcDspT \<Rightarrow> SNSpcDspT option" where
  "restore_dsp p d =
     (let d = SNSpcDsp_RestoreState p d in
      do { m \<leftarrow> m_pMixer_0 d; Some (d\<lparr>m_pMixer_0 := Some (SNSpcDspMix_RestoreState p m)\<rparr>) })"

text \<open>
  The second \<^verbatim>\<open>memcpy\<close> has the size of the wrong array: 128 KB of the 256 KB of cartridge RAM.
\<close>

definition SaveState :: "SnesStateT \<Rightarrow> 'r snes \<Rightarrow> (SnesStateT \<times> 'r snes) option" where
  "SaveState p c =
     do { cpu \<leftarrow> save_cpu c;
          spc \<leftarrow> save_spc (m_Spc (sys c));
          dsp \<leftarrow> save_dsp (m_pSpcDsp (SNSpcT.pUserData (m_Spc (sys c)))) (st_SPCDSP p);
          r \<leftarrow> load_block (hMem c) m_Ram SNES_RAMSIZE;
          sr \<leftarrow> load_block (hMem c) m_SRam SNES_RAMSIZE;
          let (sm, s) = save_spc_ram (m_Spc (sys c));
          Some (p\<lparr>Tag := SnesState_Tag, st_uFrame := m_uFrame (sys c), st_uLine := m_uLine (sys c), st_CPU := cpu, st_SPC := spc,
                  st_PPU := SnesPPU_SaveState (m_PPU (sys c)), st_DMAC := SnesDMAC_SaveState (m_DMAC (sys c)),
                  st_IO := SnesIO_SaveState (m_IO (sys c)), st_SPCDSP := dsp,
                  st_SPCIO := SNSpcIO_SaveState (SNSpcT.pUserData (m_Spc (sys c))),
                  st_Ram := r, st_SRam := over_front sr (st_SRam p), st_SpcRam := sm\<rparr>,
                upd_sys (\<lambda>y. y\<lparr>m_Spc := s\<rparr>) c) }"

definition restore_sys :: "SnesStateT \<Rightarrow> 'r SnesSystemT \<Rightarrow> 'r SnesSystemT option" where
  "restore_sys p s =
     do { spc \<leftarrow> restore_spc (st_SPC p) (m_Spc s);
          let io = SNSpcT.pUserData spc;
          d \<leftarrow> restore_dsp (st_SPCDSP p) (m_pSpcDsp io);
          let io = SNSpcIO_RestoreState (st_SPCIO p) (io\<lparr>m_pSpcDsp := d\<rparr>);
          let spc = restore_spc_ram (st_SpcRam p) (ss_bRomEnable (st_SPC p)) (spc\<lparr>SNSpcT.pUserData := io\<rparr>);
          Some (s\<lparr>m_uFrame := st_uFrame p, m_uLine := st_uLine p, m_PPU := SnesPPU_RestoreState (st_PPU p) (m_PPU s),
                  m_DMAC := SnesDMAC_RestoreState (st_DMAC p) (m_DMAC s), m_IO := SnesIO_RestoreState (st_IO p) (m_IO s),
                  m_Spc := spc\<rparr>) }"

definition RestoreState :: "SnesStateT \<Rightarrow> 'r snes \<Rightarrow> (bool \<times> 'r snes) option" where
  "RestoreState p c =
     (if Tag p \<noteq> SnesState_Tag then Some (False, c)
      else do { c \<leftarrow> restore_cpu (st_CPU p) c;
                s \<leftarrow> restore_sys p (sys c);
                let c = upd_sys (\<lambda>_. s) c;
                m \<leftarrow> store_block (hMem c) m_Ram (st_Ram p);
                m \<leftarrow> store_block m m_SRam (st_SRam p);
                let c = c\<lparr>hMem := m\<rparr>;
                c \<leftarrow> (if i_memsel (io_regs c) AND 1 \<noteq> 0 then SetFastRom c else SetSlowRom c);
                Some (True, c) })"

section \<open>The interface of an emulated system\<close>

text \<open>\<^verbatim>\<open>sizeof(SnesStateT)\<close> is the argument \<open>z\<close>.\<close>

definition GetStateSize :: "int \<Rightarrow> int" where
  "GetStateSize z = z"

definition SaveState_buffer :: "int \<Rightarrow> int \<Rightarrow> SnesStateT \<Rightarrow> 'r snes \<Rightarrow> (SnesStateT \<times> 'r snes) option" where
  "SaveState_buffer z nStateBytes p c = (if nStateBytes = z then SaveState p c else Some (p, c))"

definition RestoreState_buffer :: "int \<Rightarrow> int \<Rightarrow> SnesStateT \<Rightarrow> 'r snes \<Rightarrow> 'r snes option" where
  "RestoreState_buffer z nStateBytes p c =
     (if nStateBytes = z then do { (_, c) \<leftarrow> RestoreState p c; Some c } else Some c)"

section \<open>Comparing two states\<close>

text \<open>The lines of the debug output: where the bytes of an array differ, and both values.\<close>

definition u_SNStateMemDiff :: "u8 list \<Rightarrow> u8 list \<Rightarrow> nat \<Rightarrow> (nat \<times> u8 \<times> u8) list" where
  "u_SNStateMemDiff pA pB nBytes = map (\<lambda>i. (i, pA ! i, pB ! i)) (filter (\<lambda>i. pA ! i \<noteq> pB ! i) [0..<nBytes])"

end
