(* ===== verification/Emu_Movie.thy ===== *)
theory Emu_Movie
  imports C_Arrays
begin

text \<open>
  Movie clips (\<^verbatim>\<open>emumovie.cpp\<close>, \<^verbatim>\<open>emumovie.h\<close>): the state of an emulated system and the joypads of
  the frames that follow, recorded and played back. The system is behind the virtual functions of
  \<^verbatim>\<open>Emu::System\<close>, of which a clip calls three; they are a record here, and what a clip relies on is a
  locale. A failed \<^verbatim>\<open>assert\<close> is \<^const>\<open>None\<close>.
\<close>

section \<open>The clip\<close>

type_synonym SysInputT = "u16 list"

record ('s, 'b) System =
  v_GetStateSize :: int
  v_SaveState :: "int \<Rightarrow> 'b \<Rightarrow> 's \<Rightarrow> ('b \<times> 's) option"
  v_RestoreState :: "int \<Rightarrow> 'b \<Rightarrow> 's \<Rightarrow> 's option"

record 'b MovieClip =
  m_pStateData :: 'b
  m_uMaxStateSize :: u32
  m_uStateSize :: u32
  m_pFrames :: "SysInputT list"
  m_uMaxFrames :: u32
  m_bRecording :: bool
  m_bPlaying :: bool
  m_nRecordedFrames :: u32
  m_uPlayFrame :: u32

text \<open>The contents of the two allocated blocks are arbitrary.\<close>

definition MovieClip_new :: "'b \<Rightarrow> SysInputT list \<Rightarrow> u32 \<Rightarrow> u32 \<Rightarrow> 'b MovieClip" where
  "MovieClip_new b fs uStateSize uMaxFrames =
     \<lparr>m_pStateData = b, m_uMaxStateSize = uStateSize, m_uStateSize = 0, m_pFrames = fs, m_uMaxFrames = uMaxFrames,
      m_bRecording = False, m_bPlaying = False, m_nRecordedFrames = 0, m_uPlayFrame = 0\<rparr>"

definition RecordBegin :: "('s, 'b) System \<Rightarrow> 'b MovieClip \<Rightarrow> 's \<Rightarrow> ('b MovieClip \<times> 's) option" where
  "RecordBegin V m s =
     (if m_bRecording m \<or> m_bPlaying m then None
      else let m = m\<lparr>m_uStateSize := word_of_int (v_GetStateSize V)\<rparr> in
           if m_uStateSize m \<le> m_uMaxStateSize m
           then do { (b, s) \<leftarrow> v_SaveState V (sint (m_uStateSize m)) (m_pStateData m) s;
                     Some (m\<lparr>m_pStateData := b, m_nRecordedFrames := 0, m_bRecording := True\<rparr>, s) }
           else None)"

definition RecordEnd :: "'b MovieClip \<Rightarrow> 'b MovieClip option" where
  "RecordEnd m = (if m_bRecording m then Some (m\<lparr>m_bRecording := False\<rparr>) else None)"

definition RecordFrame :: "SysInputT \<Rightarrow> 'b MovieClip \<Rightarrow> (bool \<times> 'b MovieClip) option" where
  "RecordFrame input m =
     (if m_nRecordedFrames m < m_uMaxFrames m
      then do { fs \<leftarrow> arr_set (m_pFrames m) (unat (m_nRecordedFrames m)) input;
                Some (True, m\<lparr>m_pFrames := fs, m_nRecordedFrames := m_nRecordedFrames m + 1\<rparr>) }
      else Some (False, m))"

definition PlayBegin :: "('s, 'b) System \<Rightarrow> 'b MovieClip \<Rightarrow> 's \<Rightarrow> ('b MovieClip \<times> 's) option" where
  "PlayBegin V m s =
     (if m_bRecording m \<or> m_bPlaying m \<or> m_uStateSize m = 0 then None
      else do { s \<leftarrow> v_RestoreState V (sint (m_uStateSize m)) (m_pStateData m) s;
                Some (m\<lparr>m_uPlayFrame := 0, m_bPlaying := True\<rparr>, s) })"

definition PlayEnd :: "'b MovieClip \<Rightarrow> 'b MovieClip option" where
  "PlayEnd m = (if m_bPlaying m then Some (m\<lparr>m_bPlaying := False\<rparr>) else None)"

text \<open>The input of the frame, or \<^const>\<open>None\<close> for \<^verbatim>\<open>FALSE\<close>, when \<^verbatim>\<open>input\<close> is left alone.\<close>

definition PlayFrame :: "'b MovieClip \<Rightarrow> (SysInputT option \<times> 'b MovieClip) option" where
  "PlayFrame m =
     (if m_uPlayFrame m < m_nRecordedFrames m
      then do { i \<leftarrow> arr_get (m_pFrames m) (unat (m_uPlayFrame m)); Some (Some i, m\<lparr>m_uPlayFrame := m_uPlayFrame m + 1\<rparr>) }
      else Some (None, m))"

section \<open>A session\<close>

fun record_frames :: "SysInputT list \<Rightarrow> 'b MovieClip \<Rightarrow> (bool list \<times> 'b MovieClip) option" where
  "record_frames [] m = Some ([], m)"
| "record_frames (i # is) m = do { (r, m) \<leftarrow> RecordFrame i m; (rs, m) \<leftarrow> record_frames is m; Some (r # rs, m) }"

fun play_frames :: "nat \<Rightarrow> 'b MovieClip \<Rightarrow> (SysInputT option list \<times> 'b MovieClip) option" where
  "play_frames 0 m = Some ([], m)"
| "play_frames (Suc n) m = do { (i, m) \<leftarrow> PlayFrame m; (is, m) \<leftarrow> play_frames n m; Some (i # is, m) }"

text \<open>Record a run from \<open>s\<close>, then play it on a system in the state \<open>t\<close>.\<close>

definition record_and_play :: "('s, 'b) System \<Rightarrow> SysInputT list \<Rightarrow> 'b MovieClip \<Rightarrow> 's \<Rightarrow> 's
    \<Rightarrow> (bool list \<times> 's \<times> SysInputT option list \<times> 's) option" where
  "record_and_play V is m s t =
     do { (m, s) \<leftarrow> RecordBegin V m s; (rs, m) \<leftarrow> record_frames is m; m \<leftarrow> RecordEnd m;
          (m, t) \<leftarrow> PlayBegin V m t; (os, m) \<leftarrow> play_frames (length is) m; m \<leftarrow> PlayEnd m;
          Some (rs, s, os, t) }"

section \<open>The frames\<close>

definition recorded :: "'b MovieClip \<Rightarrow> SysInputT list" where
  "recorded m = take (unat (m_nRecordedFrames m)) (m_pFrames m)"

definition clip_ok :: "'b MovieClip \<Rightarrow> bool" where
  "clip_ok m \<longleftrightarrow> length (m_pFrames m) = unat (m_uMaxFrames m) \<and> m_nRecordedFrames m \<le> m_uMaxFrames m"

lemma length_recorded: "clip_ok m \<Longrightarrow> length (recorded m) = unat (m_nRecordedFrames m)"
  by (simp add: recorded_def clip_ok_def word_le_nat_alt)

text \<open>Everything but the frames and their number stays.\<close>

definition same_clip :: "'b MovieClip \<Rightarrow> 'b MovieClip \<Rightarrow> bool" where
  "same_clip m m' \<longleftrightarrow> m_pStateData m' = m_pStateData m \<and> m_uStateSize m' = m_uStateSize m \<and> m_uMaxFrames m' = m_uMaxFrames m
     \<and> m_bRecording m' = m_bRecording m \<and> m_bPlaying m' = m_bPlaying m"

lemma unat_Suc: "a < b \<Longrightarrow> unat (a + 1) = Suc (unat a)" for a b :: u32
  using unat_u32_le [of b] by (simp add: unat_word_ariths word_less_nat_alt)

lemma record_frame:
  assumes "clip_ok m"
  shows "\<exists>m'. RecordFrame i m = Some (length (recorded m) < unat (m_uMaxFrames m), m') \<and> clip_ok m' \<and> same_clip m m'
    \<and> recorded m' = take (unat (m_uMaxFrames m)) (recorded m @ [i])"
proof (cases "m_nRecordedFrames m < m_uMaxFrames m")
  case True
  let ?n = "unat (m_nRecordedFrames m)"
  have n: "?n < length (m_pFrames m)" "unat (m_nRecordedFrames m + 1) = Suc ?n"
    using True assms by (simp_all add: clip_ok_def word_less_nat_alt unat_Suc [OF True])
  let ?m = "m\<lparr>m_pFrames := (m_pFrames m)[?n := i], m_nRecordedFrames := m_nRecordedFrames m + 1\<rparr>"
  have "RecordFrame i m = Some (True, ?m)" using True n(1) by (simp add: RecordFrame_def)
  moreover have "recorded ?m = recorded m @ [i]"
    using n by (simp add: recorded_def take_Suc_conv_app_nth)
  moreover have "clip_ok ?m" using assms n by (simp add: clip_ok_def word_le_nat_alt)
  ultimately show ?thesis using True assms length_recorded [OF assms] n
    by (simp add: same_clip_def clip_ok_def word_less_nat_alt)
next
  case False
  with assms have "m_nRecordedFrames m = m_uMaxFrames m" by (simp add: clip_ok_def)
  with False assms show ?thesis
    using length_recorded [OF assms] by (auto simp: RecordFrame_def same_clip_def)
qed

lemma record_frames_eq:
  "clip_ok m \<Longrightarrow> \<exists>m'. record_frames is m =
      Some (map (\<lambda>k. length (recorded m) + k < unat (m_uMaxFrames m)) [0..<length is], m') \<and> clip_ok m' \<and> same_clip m m'
    \<and> recorded m' = take (unat (m_uMaxFrames m)) (recorded m @ is)"
proof (induction "is" arbitrary: m)
  case Nil
  then show ?case using length_recorded [OF Nil] by (auto simp: clip_ok_def same_clip_def word_le_nat_alt)
next
  case (Cons i "is")
  let ?N = "unat (m_uMaxFrames m)"
  obtain m1 where 1: "RecordFrame i m = Some (length (recorded m) < ?N, m1)" "clip_ok m1" "same_clip m m1"
    "recorded m1 = take ?N (recorded m @ [i])" using record_frame [OF Cons.prems] by blast
  obtain m2 where 2: "record_frames is m1 = Some (map (\<lambda>k. length (recorded m1) + k < ?N) [0..<length is], m2)"
    "clip_ok m2" "same_clip m1 m2" "recorded m2 = take ?N (recorded m1 @ is)"
    using Cons.IH [OF 1(2)] 1(3) by (auto simp: same_clip_def)
  have l: "length (recorded m) \<le> ?N" using length_recorded [OF Cons.prems] Cons.prems by (simp add: clip_ok_def word_le_nat_alt)
  then have "take ?N (take ?N (recorded m @ [i]) @ is) = take ?N (recorded m @ i # is)"
    by (cases "length (recorded m) = ?N") simp_all
  moreover have "map (\<lambda>k. length (recorded m) + k < ?N) [0..<length (i # is)] =
      (length (recorded m) < ?N) # map (\<lambda>k. length (recorded m1) + k < ?N) [0..<length is]"
    using l by (auto simp: 1(4) map_upt_Suc simp del: upt_Suc)
  ultimately show ?case using 1 2 by (auto simp: same_clip_def)
qed

lemma play_frames_eq:
  assumes "clip_ok m" and "m_uPlayFrame m \<le> m_nRecordedFrames m"
  shows "\<exists>m'. play_frames n m = Some (map (\<lambda>k. let j = unat (m_uPlayFrame m) + k in if j < length (recorded m) then Some (recorded m ! j) else None) [0..<n], m')
    \<and> same_clip m m'"
  using assms
proof (induction n arbitrary: m)
  case (Suc n)
  let ?p = "unat (m_uPlayFrame m)" and ?l = "length (recorded m)"
  have l: "?l = unat (m_nRecordedFrames m)" by (rule length_recorded [OF Suc.prems(1)])
  show ?case
  proof (cases "m_uPlayFrame m < m_nRecordedFrames m")
    case True
    let ?m = "m\<lparr>m_uPlayFrame := m_uPlayFrame m + 1\<rparr>"
    have p: "?p < ?l" "unat (m_uPlayFrame m + 1) = Suc ?p" using True l by (simp_all add: word_less_nat_alt unat_Suc [OF True])
    then have "?p < length (m_pFrames m)" by (simp add: recorded_def)
    then have 1: "PlayFrame m = Some (Some (recorded m ! ?p), ?m)" using True p(1) by (simp add: PlayFrame_def recorded_def)
    have "clip_ok ?m" "m_uPlayFrame ?m \<le> m_nRecordedFrames ?m" using Suc.prems p l by (simp_all add: clip_ok_def word_le_nat_alt)
    from Suc.IH [OF this] obtain m' where 2: "play_frames n ?m =
        Some (map (\<lambda>k. let j = Suc ?p + k in if j < ?l then Some (recorded m ! j) else None) [0..<n], m')" "same_clip ?m m'"
      using p(2) by (auto simp: recorded_def)
    then show ?thesis using 1 p(1) by (auto simp: same_clip_def map_upt_Suc simp del: upt_Suc)
  next
    case False
    then have p: "?p = ?l" using Suc.prems(2) l by simp
    have 1: "PlayFrame m = Some (None, m)" using False by (simp add: PlayFrame_def)
    from Suc.IH [OF Suc.prems] obtain m' where "play_frames n m =
        Some (map (\<lambda>k. let j = ?p + k in if j < ?l then Some (recorded m ! j) else None) [0..<n], m')" "same_clip m m'" by blast
    then show ?thesis using 1 p by (auto simp: map_upt_Suc simp del: upt_Suc)
  qed
qed (simp add: same_clip_def)

section \<open>What a clip asks of a system\<close>

locale emu_system =
  fixes V :: "('s, 'b) System" and good :: "'s \<Rightarrow> bool" and fits :: "'b \<Rightarrow> bool" and same :: "'s \<Rightarrow> 's \<Rightarrow> bool"
  assumes size_ok: "good s \<Longrightarrow> 0 < v_GetStateSize V \<and> v_GetStateSize V < 0x80000000"
    and saves: "good s \<Longrightarrow> fits b \<Longrightarrow> \<exists>b'. v_SaveState V (v_GetStateSize V) b s = Some (b', s)"
    and restores: "good s \<Longrightarrow> good t \<Longrightarrow> fits b \<Longrightarrow> v_SaveState V (v_GetStateSize V) b s = Some (b', s) \<Longrightarrow>
      \<exists>t'. v_RestoreState V (v_GetStateSize V) b' t = Some t' \<and> same s t'"
begin

lemma size_word:
  assumes "good s"
  shows "sint (word_of_int (v_GetStateSize V) :: u32) = v_GetStateSize V" "(word_of_int (v_GetStateSize V) :: u32) \<noteq> 0"
proof -
  note z = size_ok [OF assms]
  have u: "uint (word_of_int (v_GetStateSize V) :: u32) = v_GetStateSize V"
    using z by (simp add: take_bit_int_eq_self_iff unsigned_of_int)
  then show "sint (word_of_int (v_GetStateSize V) :: u32) = v_GetStateSize V"
    using z by (simp add: sint_uint signed_take_bit_int_eq_self)
  from u show "(word_of_int (v_GetStateSize V) :: u32) \<noteq> 0" using z by (metis unsigned_0 less_irrefl)
qed

text \<open>A run that was recorded is played back: its state, and its frames as far as they fit the clip.\<close>

lemma replays:
  assumes "good s" and "good t" and "fits b" and "length fs = unat n" and "word_of_int (v_GetStateSize V) \<le> z"
  shows "\<exists>t'. record_and_play V is (MovieClip_new b fs z n) s t =
      Some (map (\<lambda>k. k < unat n) [0..<length is], s, map (\<lambda>k. if k < unat n then Some (is ! k) else None) [0..<length is], t')
    \<and> same s t'"
proof -
  obtain b' where b: "v_SaveState V (v_GetStateSize V) b s = Some (b', s)" using saves [OF assms(1,3)] by blast
  obtain t' where t: "v_RestoreState V (v_GetStateSize V) b' t = Some t'" "same s t'" using restores [OF assms(1-3) b] by blast
  let ?m = "(MovieClip_new b fs z n)\<lparr>m_uStateSize := word_of_int (v_GetStateSize V), m_pStateData := b', m_bRecording := True\<rparr>"
  have 1: "RecordBegin V (MovieClip_new b fs z n) s = Some (?m, s)"
    using assms(5) b size_word(1) [OF assms(1)] by (simp add: RecordBegin_def MovieClip_new_def)
  have "clip_ok ?m" "recorded ?m = []" using assms(4) by (simp_all add: clip_ok_def recorded_def MovieClip_new_def)
  from record_frames_eq [OF this(1), of "is"] this(2)
  obtain m where 2: "record_frames is ?m = Some (map (\<lambda>k. k < unat n) [0..<length is], m)" "clip_ok m" "same_clip ?m m"
    "recorded m = take (unat n) is" by (auto simp: MovieClip_new_def)
  let ?p = "m\<lparr>m_bRecording := False, m_uPlayFrame := 0, m_bPlaying := True\<rparr>"
  have 3: "RecordEnd m = Some (m\<lparr>m_bRecording := False\<rparr>)" "PlayBegin V (m\<lparr>m_bRecording := False\<rparr>) t = Some (?p, t')"
    using 2(3) t(1) size_word [OF assms(1)] by (simp_all add: RecordEnd_def PlayBegin_def same_clip_def MovieClip_new_def)
  have "clip_ok ?p" "m_uPlayFrame ?p \<le> m_nRecordedFrames ?p" "recorded ?p = take (unat n) is"
    using 2(2,4) by (simp_all add: clip_ok_def recorded_def)
  from play_frames_eq [OF this(1,2), of "length is"] this(3) obtain q where
    q: "play_frames (length is) ?p = Some (map (\<lambda>k. if k < length (take (unat n) is) then Some (take (unat n) is ! k) else None) [0..<length is], q)"
    "same_clip ?p q" by auto
  have "map (\<lambda>k. if k < length (take (unat n) is) then Some (take (unat n) is ! k) else None) [0..<length is] =
      map (\<lambda>k. if k < unat n then Some (is ! k) else None) [0..<length is]" by simp
  moreover have "PlayEnd q = Some (q\<lparr>m_bPlaying := False\<rparr>)" using q(2) by (simp add: PlayEnd_def same_clip_def)
  ultimately show ?thesis using 1 2(1) 3 q(1) t(2) by (auto simp: record_and_play_def)
qed

end

end
