(* ===== verification/Sn_State_Props.thy ===== *)
theory Sn_State_Props
  imports Sn_State Sn_Machine Emu_Movie
begin

text \<open>
  What a saved state keeps and what it loses: saving leaves the machine as it is, restoring gives the
  machine back but for the upper half of the cartridge RAM, and the restored machine is well-formed.
\<close>

section \<open>Blocks\<close>

lemma load_block_eq:
  "(\<forall>i < n. ptr_add p (int i) \<in> dom h) \<Longrightarrow> load_block h p n = Some (map (\<lambda>i. the (h (ptr_add p (int i)))) [0..<n])"
  by (simp add: load_block_def)

lemma store_block_eq:
  assumes "\<forall>i < length bs. ptr_add p (int i) \<in> dom h"
  shows "\<exists>h'. store_block h p bs = Some h' \<and> dom h' = dom h \<and> (\<forall>i < length bs. h' (ptr_add p (int i)) = Some (bs ! i))
    \<and> (\<forall>q. fst q \<noteq> fst p \<longrightarrow> h' q = h q)"
proof -
  let ?h = "\<lambda>q. if fst q = fst p \<and> snd p \<le> snd q \<and> snd q < snd p + int (length bs) then Some (bs ! nat (snd q - snd p)) else h q"
  have s: "store_block h p bs = Some ?h" using assms by (simp add: store_block_def)
  have "q \<in> dom h" if "fst q = fst p" "snd p \<le> snd q" "snd q < snd p + int (length bs)" for q
  proof -
    have "q = ptr_add p (int (nat (snd q - snd p)))" using that by (simp add: ptr_add_def prod_eq_iff)
    with assms that show ?thesis by (metis (no_types, lifting) add.commute diff_less_eq nat_less_iff diff_ge_0_iff_ge)
  qed
  then have "{q. fst q = fst p \<and> snd p \<le> snd q \<and> snd q < snd p + int (length bs)} \<subseteq> dom h" by blast
  moreover have "dom ?h = {q. fst q = fst p \<and> snd p \<le> snd q \<and> snd q < snd p + int (length bs)} \<union> dom h"
    by (auto split: if_splits)
  ultimately have "dom ?h = dom h" by blast
  then show ?thesis using s by (auto simp: ptr_add_def)
qed

lemma over_front_nth: "i < length new + length old \<Longrightarrow> length new \<le> length old \<Longrightarrow>
   over_front new old ! i = (if i < length new then new ! i else old ! i)"
  by (auto simp: over_front_def nth_append)

lemma length_over_front [simp]: "length new \<le> length old \<Longrightarrow> length (over_front new old) = length old"
  by (simp add: over_front_def)

section \<open>The parts\<close>

lemma parts_round_trip:
  "SnesIO_RestoreState (SnesIO_SaveState io) io' = io"
  "SnesDMAC_RestoreState (SnesDMAC_SaveState d) d' = d"
  "SnesPPU_SaveState (SnesPPU_RestoreState q p') = q"
  "SNSpcIO_SaveState (SNSpcIO_RestoreState o1 s') = o1"
  by (simp_all add: SnesIO_RestoreState_def SnesIO_SaveState_def SnesDMAC_RestoreState_def SnesDMAC_SaveState_def
      SnesPPU_SaveState_def SnesPPU_RestoreState_def SNSpcIO_SaveState_def SNSpcIO_RestoreState_def)

lemma list4: "length k = 4 \<Longrightarrow> [k ! 0, k ! 1, k ! 2, k ! 3] = k"
  by (rule nth_equalityI) (auto simp: less_Suc_eq numeral_eq_Suc)

lemma list2: "length k = 2 \<Longrightarrow> [k ! 0, k ! 1] = k"
  by (rule nth_equalityI) (auto simp: less_Suc_eq numeral_eq_Suc)

lemma save_cpu_eq:
  "length (SNCpuT.Counter c) = 4 \<Longrightarrow>
   save_cpu c = Some \<lparr>sc_Regs = SNCpuT.Regs c, sc_Cycles = SNCpuT.Cycles c, sc_Counter = SNCpuT.Counter c, sc_uSignal = uSignal c\<rparr>"
  using list4 [of "SNCpuT.Counter c"] by (simp add: save_cpu_def)

lemma restore_cpu_eq:
  "length (sc_Counter p) = 4 \<Longrightarrow> restore_cpu p c =
     Some (c\<lparr>SNCpuT.Regs := sc_Regs p, SNCpuT.Cycles := sc_Cycles p, SNCpuT.Counter := sc_Counter p, nAbortCycles := 0, uSignal := sc_uSignal p\<rparr>)"
  using list4 [of "sc_Counter p"] by (simp add: restore_cpu_def)

lemma save_spc_eq:
  "length (SNSpcT.Counter c) = 2 \<Longrightarrow> save_spc c = Some \<lparr>ss_Regs = SNSpcT.Regs c, ss_Cycles = SNSpcT.Cycles c,
     ss_Counter = SNSpcT.Counter c, ss_bRomEnable = bRomEnable c, ss_uCycleShift = 0\<rparr>"
  using list2 [of "SNSpcT.Counter c"] by (simp add: save_spc_def)

lemma restore_spc_eq:
  "length (ss_Counter p) = 2 \<Longrightarrow> restore_spc p c =
     Some (c\<lparr>SNSpcT.Regs := ss_Regs p, SNSpcT.Cycles := ss_Cycles p, SNSpcT.Counter := ss_Counter p\<rparr>)"
  using list2 [of "ss_Counter p"] by (simp add: restore_spc_def)

text \<open>Taking the boot ROM out and putting it back changes nothing, and what is copied is the RAM behind it.\<close>

lemma save_spc_ram_eq:
  assumes "rom_ok c"
  shows "save_spc_ram c = (map (ram c) [0..<SNSPC_MEM_SIZE], c)"
proof (cases "bRomEnable c = 0")
  case True
  then show ?thesis by (simp add: save_spc_ram_def SNSPCSetRomEnable_def ram_def)
next
  case False
  let ?d = "SNSPCSetRomEnable c 0"
  have "Mem ?d i = ram c i" if "i < SNSPC_MEM_SIZE" for i
    using False that by (simp add: SNSPCSetRomEnable_def copy_to_def ram_def spc_mem_defs)
  then have "map (Mem ?d) [0..<SNSPC_MEM_SIZE] = map (ram c) [0..<SNSPC_MEM_SIZE]" by simp
  moreover have "SNSPCSetRomEnable ?d (bRomEnable c) = c"
  proof (rule SNSpcT.equality)
    have m: "SNSpcRomGetRomData (i - SNSPC_ROM_ADDR) = Mem c i" if "SNSPC_ROM_ADDR \<le> i" "i < SNSPC_MEM_SIZE" for i
      using assms False that by (auto simp: rom_ok_def spc_mem_defs dest!: spec [of _ "i - SNSPC_ROM_ADDR"])
    show "Mem (SNSPCSetRomEnable ?d (bRomEnable c)) = Mem c"
      using False m by (auto simp: SNSPCSetRomEnable_def copy_to_def spc_mem_defs fun_eq_iff)
    show "ShadowMem (SNSPCSetRomEnable ?d (bRomEnable c)) = ShadowMem c"
      using False by (auto simp: SNSPCSetRomEnable_def copy_to_def spc_mem_defs fun_eq_iff)
  qed (use False in \<open>simp_all add: SNSPCSetRomEnable_def\<close>)
  ultimately show ?thesis by (simp add: save_spc_ram_def Let_def)
qed

lemma SetRomEnable_same:
  "SNSpcT.Regs (SNSPCSetRomEnable c b) = SNSpcT.Regs c" "SNSpcT.Cycles (SNSPCSetRomEnable c b) = SNSpcT.Cycles c"
  "SNSpcT.Counter (SNSPCSetRomEnable c b) = SNSpcT.Counter c" "SNSpcT.pUserData (SNSPCSetRomEnable c b) = SNSpcT.pUserData c"
  "bRomEnable (SNSPCSetRomEnable c b) = b"
  by (auto simp: SNSPCSetRomEnable_def)

lemma restore_spc_ram_eq:
  assumes "length r = SNSPC_MEM_SIZE"
  shows "i < SNSPC_MEM_SIZE \<Longrightarrow> ram (restore_spc_ram r b c) i = r ! i" "rom_ok (restore_spc_ram r b c)"
    "SNSpcT.Regs (restore_spc_ram r b c) = SNSpcT.Regs c" "SNSpcT.Cycles (restore_spc_ram r b c) = SNSpcT.Cycles c"
    "SNSpcT.Counter (restore_spc_ram r b c) = SNSpcT.Counter c" "SNSpcT.pUserData (restore_spc_ram r b c) = SNSpcT.pUserData c"
    "bRomEnable (restore_spc_ram r b c) = b"
proof -
  let ?d = "(SNSPCSetRomEnable c 0)\<lparr>Mem := copy_to 0 SNSPC_MEM_SIZE (\<lambda>i. r ! i) (Mem (SNSPCSetRomEnable c 0))\<rparr>"
  have e: "restore_spc_ram r b c = SNSPCSetRomEnable ?d b" by (simp add: restore_spc_ram_def Let_def)
  have z: "bRomEnable ?d = 0" by (simp add: SetRomEnable_same)
  have "ram (SNSPCSetRomEnable ?d b) = ram ?d" by (rule SetRomEnable_ram) (simp add: rom_clash_def z)
  moreover have "i < SNSPC_MEM_SIZE \<Longrightarrow> ram ?d i = r ! i" by (simp add: ram_def SetRomEnable_same copy_to_def)
  ultimately show "i < SNSPC_MEM_SIZE \<Longrightarrow> ram (restore_spc_ram r b c) i = r ! i" by (simp only: e)
  show "rom_ok (restore_spc_ram r b c)" unfolding e by (rule SetRomEnable_rom_ok) (simp add: rom_ok_def z)
qed (simp_all add: restore_spc_ram_def SetRomEnable_same Let_def)

section \<open>The system\<close>

definition savable :: "'r snes \<Rightarrow> bool" where
  "savable c \<longleftrightarrow> length (SNCpuT.Counter c) = 4 \<and> length (SNSpcT.Counter (m_Spc (sys c))) = 2 \<and> rom_ok (m_Spc (sys c))
     \<and> m_pMixer_0 (m_pSpcDsp (SNSpcT.pUserData (m_Spc (sys c)))) \<noteq> None \<and> blocks_ok (dom (hMem c))"

text \<open>The structure that a machine is saved as, without the intermediate steps.\<close>

definition saved :: "SnesStateT \<Rightarrow> 'r snes \<Rightarrow> SnesStateT" where
  "saved p c =
     (let s = sys c; spc = m_Spc s; io = SNSpcT.pUserData spc; d = m_pSpcDsp io in
      p\<lparr>Tag := SnesState_Tag, st_uFrame := m_uFrame s, st_uLine := m_uLine s,
        st_CPU := \<lparr>sc_Regs = SNCpuT.Regs c, sc_Cycles = SNCpuT.Cycles c, sc_Counter = SNCpuT.Counter c, sc_uSignal = uSignal c\<rparr>,
        st_SPC := \<lparr>ss_Regs = SNSpcT.Regs spc, ss_Cycles = SNSpcT.Cycles spc, ss_Counter = SNSpcT.Counter spc,
          ss_bRomEnable = bRomEnable spc, ss_uCycleShift = 0\<rparr>,
        st_PPU := SnesPPU_SaveState (m_PPU s), st_DMAC := SnesDMAC_SaveState (m_DMAC s), st_IO := SnesIO_SaveState (m_IO s),
        st_SPCDSP := (st_SPCDSP p)\<lparr>sm_Regs := m_Regs d, sm_Channels := m_Channels (the (m_pMixer_0 d))\<rparr>,
        st_SPCIO := SNSpcIO_SaveState io,
        st_Ram := map (\<lambda>i. the (hMem c (ptr_add m_Ram (int i)))) [0..<SNES_RAMSIZE],
        st_SRam := over_front (map (\<lambda>i. the (hMem c (ptr_add m_SRam (int i)))) [0..<SNES_RAMSIZE]) (st_SRam p),
        st_SpcRam := map (ram spc) [0..<SNSPC_MEM_SIZE]\<rparr>)"

lemma SaveState_eq:
  assumes "savable c"
  shows "SaveState p c = Some (saved p c, c)"
proof -
  have "SNES_RAMSIZE \<le> SNES_SRAMSIZE" by (simp add: SNES_RAMSIZE_def SNES_SRAMSIZE_def)
  with assms have b: "\<forall>i < SNES_RAMSIZE. ptr_add m_Ram (int i) \<in> dom (hMem c)" "\<forall>i < SNES_RAMSIZE. ptr_add m_SRam (int i) \<in> dom (hMem c)"
    by (auto simp: savable_def blocks_ok_def)
  have r: "rom_ok (m_Spc (sys c))" using assms by (simp add: savable_def)
  obtain m where m: "m_pMixer_0 (m_pSpcDsp (SNSpcT.pUserData (m_Spc (sys c)))) = Some m"
    using assms by (auto simp: savable_def)
  have "upd_sys (\<lambda>y. y\<lparr>m_Spc := m_Spc (sys c)\<rparr>) c = c" by (simp add: upd_sys_def)
  with assms m show ?thesis
    by (simp add: SaveState_def savable_def save_cpu_eq save_spc_eq save_dsp_def load_block_eq [OF b(1)] load_block_eq [OF b(2)]
        save_spc_ram_eq [OF r] saved_def Let_def SNSpcDspMix_SaveState_def SNSpcDsp_SaveState_def)
qed

text \<open>Fast or slow ROM: the banks from \<open>80\<close> (hexadecimal) on that are mapped to ROM.\<close>

definition rom_banks :: "(nat \<Rightarrow> SNCpuBankT) \<Rightarrow> nat set" where
  "rom_banks bs = {j. 1024 \<le> j \<and> j < 2048 \<and> SNCpuBankT.pMem (bs j) \<noteq> None \<and> bRAM (bs j) = 0}"

lemma SetRom_eq:
  "(if b then SetFastRom c else SetSlowRom c) =
     Some (c\<lparr>Bank := (\<lambda>j. if j \<in> rom_banks (Bank c) then (Bank c j)\<lparr>uBankCycle := (if b then 6 else 8)\<rparr> else Bank c j)\<rparr>)"
proof -
  have "bank_index 0x800000 = 1024" by (simp add: bank_index_def SNCPU_BANK_SHIFT_def drop_bit_eq_div unat_div)
  then show ?thesis
    by (auto simp: SetFastRom_def SetSlowRom_def SNCPUSetRomSpeed_def bank_update_eq rom_banks_def SNCPU_CYCLE_FAST_def SNCPU_CYCLE_SLOW_def
        fun_eq_iff simp del: not_None_eq)
qed

definition state_fits :: "SnesStateT \<Rightarrow> bool" where
  "state_fits p \<longleftrightarrow> Tag p = SnesState_Tag \<and> length (sc_Counter (st_CPU p)) = 4 \<and> length (ss_Counter (st_SPC p)) = 2
     \<and> length (st_Ram p) = SNES_RAMSIZE \<and> length (st_SpcRam p) = SNSPC_MEM_SIZE \<and> length (st_SRam p) = SNES_SRAMSIZE"

text \<open>What the machine holds after a restore, part by part.\<close>

definition sys_restored :: "SnesStateT \<Rightarrow> 'r SnesSystemT \<Rightarrow> 'r SnesSystemT \<Rightarrow> bool" where
  "sys_restored p s s' \<longleftrightarrow> m_uFrame s' = st_uFrame p \<and> m_uLine s' = st_uLine p \<and> m_uSramSize s' = m_uSramSize s
     \<and> m_PPU s' = SnesPPU_RestoreState (st_PPU p) (m_PPU s)
     \<and> m_DMAC s' = SnesDMAC_RestoreState (st_DMAC p) (m_DMAC s) \<and> m_IO s' = SnesIO_RestoreState (st_IO p) (m_IO s)
     \<and> SNSpcT.Regs (m_Spc s') = ss_Regs (st_SPC p) \<and> SNSpcT.Cycles (m_Spc s') = ss_Cycles (st_SPC p)
     \<and> SNSpcT.Counter (m_Spc s') = ss_Counter (st_SPC p) \<and> bRomEnable (m_Spc s') = ss_bRomEnable (st_SPC p)
     \<and> rom_ok (m_Spc s') \<and> (\<forall>i < SNSPC_MEM_SIZE. ram (m_Spc s') i = st_SpcRam p ! i)
     \<and> SNSpcT.pUserData (m_Spc s') = SNSpcIO_RestoreState (st_SPCIO p) (SNSpcT.pUserData (m_Spc s))
         \<lparr>m_pSpcDsp := (m_pSpcDsp (SNSpcT.pUserData (m_Spc s)))\<lparr>m_Regs := sm_Regs (st_SPCDSP p),
            m_pMixer_0 := map_option (\<lambda>m. m\<lparr>m_Channels := sm_Channels (st_SPCDSP p)\<rparr>) (m_pMixer_0 (m_pSpcDsp (SNSpcT.pUserData (m_Spc s))))\<rparr>\<rparr>"

lemma restore_sys_eq:
  assumes "state_fits p" and "m_pMixer_0 (m_pSpcDsp (SNSpcT.pUserData (m_Spc s))) \<noteq> None"
  shows "\<exists>s'. restore_sys p s = Some s' \<and> sys_restored p s s'"
proof -
  have l: "length (st_SpcRam p) = SNSPC_MEM_SIZE" "length (ss_Counter (st_SPC p)) = 2"
    using assms(1) by (simp_all add: state_fits_def)
  obtain m where "m_pMixer_0 (m_pSpcDsp (SNSpcT.pUserData (m_Spc s))) = Some m" using assms(2) by auto
  then show ?thesis
    by (simp add: restore_sys_def restore_spc_eq [OF l(2)] restore_dsp_def sys_restored_def restore_spc_ram_eq [OF l(1)] Let_def
        SNSpcDsp_RestoreState_def SNSpcDspMix_RestoreState_def SNSpcIO_RestoreState_def)
qed

definition cpu_restored :: "SnesStateT \<Rightarrow> 'r snes \<Rightarrow> bool" where
  "cpu_restored p c \<longleftrightarrow> SNCpuT.Regs c = sc_Regs (st_CPU p) \<and> SNCpuT.Cycles c = sc_Cycles (st_CPU p)
     \<and> SNCpuT.Counter c = sc_Counter (st_CPU p) \<and> nAbortCycles c = 0 \<and> uSignal c = sc_uSignal (st_CPU p)
     \<and> (\<forall>i < SNES_RAMSIZE. hMem c (ptr_add m_Ram (int i)) = Some (st_Ram p ! i))
     \<and> (\<forall>i < SNES_SRAMSIZE. hMem c (ptr_add m_SRam (int i)) = Some (st_SRam p ! i))
     \<and> (\<forall>j \<in> rom_banks (Bank c). uBankCycle (Bank c j) = (if i_memsel (io_regs c) AND 1 \<noteq> 0 then 6 else 8))"

text \<open>Of the banks only the speed changes.\<close>

definition bank_speeds :: "(nat \<Rightarrow> SNCpuBankT) \<Rightarrow> (nat \<Rightarrow> SNCpuBankT) \<Rightarrow> bool" where
  "bank_speeds bs bs' \<longleftrightarrow> (\<forall>j. \<exists>n. n \<noteq> 0 \<and> (bs' j = bs j \<or> bs' j = (bs j)\<lparr>uBankCycle := n\<rparr>))"

lemma RestoreState_eq:
  assumes "state_fits p" and "blocks_ok (dom (hMem c))" and "m_pMixer_0 (m_pSpcDsp (SNSpcT.pUserData (m_Spc (sys c)))) \<noteq> None"
  shows "\<exists>c'. RestoreState p c = Some (True, c') \<and> cpu_restored p c' \<and> sys_restored p (sys c) (sys c') \<and> dom (hMem c') = dom (hMem c)
    \<and> bank_speeds (Bank c) (Bank c')"
proof -
  have f: "Tag p = SnesState_Tag" "length (sc_Counter (st_CPU p)) = 4" "length (st_Ram p) = SNES_RAMSIZE" "length (st_SRam p) = SNES_SRAMSIZE"
    using assms(1) by (simp_all add: state_fits_def)
  obtain s' where s: "restore_sys p (sys c) = Some s'" "sys_restored p (sys c) s'" using restore_sys_eq [OF assms(1,3)] by blast
  have b: "\<forall>i < length (st_Ram p). ptr_add m_Ram (int i) \<in> dom (hMem c)" using assms(2) f(3) by (simp add: blocks_ok_def)
  obtain m1 where m1: "store_block (hMem c) m_Ram (st_Ram p) = Some m1" "dom m1 = dom (hMem c)"
    "\<And>i. i < SNES_RAMSIZE \<Longrightarrow> m1 (ptr_add m_Ram (int i)) = Some (st_Ram p ! i)"
    using store_block_eq [OF b] f(3) by auto
  have b2: "\<forall>i < length (st_SRam p). ptr_add m_SRam (int i) \<in> dom m1" using assms(2) f(4) by (simp add: blocks_ok_def m1(2))
  obtain m2 where m2: "store_block m1 m_SRam (st_SRam p) = Some m2" "dom m2 = dom m1"
    "\<And>i. i < SNES_SRAMSIZE \<Longrightarrow> m2 (ptr_add m_SRam (int i)) = Some (st_SRam p ! i)" "\<And>q. fst q \<noteq> fst m_SRam \<Longrightarrow> m2 q = m1 q"
    using store_block_eq [OF b2] f(4) by auto
  have r: "m2 (ptr_add m_Ram (int i)) = Some (st_Ram p ! i)" if "i < SNES_RAMSIZE" for i
    using m1(3) [OF that] m2(4) [of "ptr_add m_Ram (int i)"] by (simp add: ptr_add_def m_Ram_def m_SRam_def)
  let ?c = "upd_sys (\<lambda>_. s') (c\<lparr>SNCpuT.Regs := sc_Regs (st_CPU p), SNCpuT.Cycles := sc_Cycles (st_CPU p), SNCpuT.Counter := sc_Counter (st_CPU p),
      nAbortCycles := 0, uSignal := sc_uSignal (st_CPU p)\<rparr>)\<lparr>hMem := m2\<rparr>"
  let ?b = "i_memsel (io_Regs (m_IO s')) AND 1 \<noteq> 0"
  let ?d = "?c\<lparr>Bank := (\<lambda>j. if j \<in> rom_banks (Bank ?c) then (Bank ?c j)\<lparr>uBankCycle := (if ?b then 6 else 8)\<rparr> else Bank ?c j)\<rparr>"
  have "RestoreState p c = do { c \<leftarrow> (if ?b then SetFastRom ?c else SetSlowRom ?c); Some (True, c) }"
    by (simp add: RestoreState_def f(1) restore_cpu_eq [OF f(2)] s(1) m1(1) m2(1) upd_sys_def)
  then have "RestoreState p c = Some (True, ?d)" by (simp only: SetRom_eq Option.bind.simps)
  moreover have "rom_banks (Bank ?d) = rom_banks (Bank ?c)" by (auto simp: rom_banks_def)
  moreover have "bank_speeds (Bank c) (Bank ?d)"
    unfolding bank_speeds_def by (intro allI exI [of _ "if ?b then 6 else 8"]) (auto simp: upd_sys_def)
  ultimately show ?thesis using s(2) m1(2) m2(2,3) r
    by (intro exI [of _ ?d]) (simp add: cpu_restored_def upd_sys_def)
qed

section \<open>Saving and restoring\<close>

text \<open>Two machines with the same emulated state: all that the program running in them can see, but for the second half of cartridge RAM.\<close>

definition same_cpu :: "'r snes \<Rightarrow> 'r snes \<Rightarrow> bool" where
  "same_cpu s t \<longleftrightarrow> SNCpuT.Regs t = SNCpuT.Regs s \<and> SNCpuT.Cycles t = SNCpuT.Cycles s \<and> SNCpuT.Counter t = SNCpuT.Counter s
     \<and> uSignal t = uSignal s
     \<and> (\<forall>i < SNES_RAMSIZE. hMem t (ptr_add m_Ram (int i)) = hMem s (ptr_add m_Ram (int i)))
     \<and> (\<forall>i < SNES_RAMSIZE. hMem t (ptr_add m_SRam (int i)) = hMem s (ptr_add m_SRam (int i)))"

definition same_sound :: "SNSpcIOT SNSpcT \<Rightarrow> SNSpcIOT SNSpcT \<Rightarrow> bool" where
  "same_sound s t \<longleftrightarrow> SNSpcT.Regs t = SNSpcT.Regs s \<and> SNSpcT.Cycles t = SNSpcT.Cycles s \<and> SNSpcT.Counter t = SNSpcT.Counter s
     \<and> bRomEnable t = bRomEnable s \<and> (\<forall>i < SNSPC_MEM_SIZE. ram t i = ram s i)
     \<and> apu_r (SNSpcT.pUserData t) = apu_r (SNSpcT.pUserData s) \<and> apu_w (SNSpcT.pUserData t) = apu_w (SNSpcT.pUserData s)
     \<and> spc_timer (SNSpcT.pUserData t) = spc_timer (SNSpcT.pUserData s)
     \<and> m_Regs (m_pSpcDsp (SNSpcT.pUserData t)) = m_Regs (m_pSpcDsp (SNSpcT.pUserData s))
     \<and> map_option m_Channels (m_pMixer_0 (m_pSpcDsp (SNSpcT.pUserData t))) = map_option m_Channels (m_pMixer_0 (m_pSpcDsp (SNSpcT.pUserData s)))"

definition same_state :: "'r snes \<Rightarrow> 'r snes \<Rightarrow> bool" where
  "same_state s t \<longleftrightarrow> same_cpu s t \<and> same_sound (m_Spc (sys s)) (m_Spc (sys t))
     \<and> m_uFrame (sys t) = m_uFrame (sys s) \<and> m_uLine (sys t) = m_uLine (sys s)
     \<and> ppu_Regs (m_PPU (sys t)) = ppu_Regs (m_PPU (sys s)) \<and> m_CGRAM (m_PPU (sys t)) = m_CGRAM (m_PPU (sys s))
     \<and> m_VRAM (m_PPU (sys t)) = m_VRAM (m_PPU (sys s)) \<and> m_OAM (m_PPU (sys t)) = m_OAM (m_PPU (sys s))
     \<and> m_DMAC (sys t) = m_DMAC (sys s) \<and> m_IO (sys t) = m_IO (sys s)"

definition restorable :: "'r snes \<Rightarrow> bool" where
  "restorable t \<longleftrightarrow> blocks_ok (dom (hMem t)) \<and> m_pMixer_0 (m_pSpcDsp (SNSpcT.pUserData (m_Spc (sys t)))) \<noteq> None"

lemma savable_restorable: "savable s \<Longrightarrow> restorable s"
  by (simp add: savable_def restorable_def)

lemma ram_size_le: "SNES_RAMSIZE \<le> SNES_SRAMSIZE"
  by (simp add: SNES_RAMSIZE_def SNES_SRAMSIZE_def)

lemma saved_fits: "savable s \<Longrightarrow> length (st_SRam b) = SNES_SRAMSIZE \<Longrightarrow> state_fits (saved b s)"
  using ram_size_le by (simp add: state_fits_def saved_def savable_def Let_def)

lemma saved_same_sys:
  "savable s \<Longrightarrow> restorable t \<Longrightarrow> sys_restored (saved b s) (sys t) (sys t') \<Longrightarrow>
   same_sound (m_Spc (sys s)) (m_Spc (sys t')) \<and> m_uFrame (sys t') = m_uFrame (sys s) \<and> m_uLine (sys t') = m_uLine (sys s)
     \<and> ppu_Regs (m_PPU (sys t')) = ppu_Regs (m_PPU (sys s)) \<and> m_CGRAM (m_PPU (sys t')) = m_CGRAM (m_PPU (sys s))
     \<and> m_VRAM (m_PPU (sys t')) = m_VRAM (m_PPU (sys s)) \<and> m_OAM (m_PPU (sys t')) = m_OAM (m_PPU (sys s))
     \<and> m_DMAC (sys t') = m_DMAC (sys s) \<and> m_IO (sys t') = m_IO (sys s)"
  by (auto simp: sys_restored_def saved_def same_sound_def parts_round_trip SnesPPU_RestoreState_def SnesPPU_SaveState_def savable_def restorable_def
      SNSpcIO_RestoreState_def SNSpcIO_SaveState_def Let_def)

lemma heap_cell: "blocks_ok (dom h) \<Longrightarrow> i < SNES_RAMSIZE \<Longrightarrow> Some (the (h (ptr_add m_Ram (int i)))) = h (ptr_add m_Ram (int i))"
  "blocks_ok (dom h) \<Longrightarrow> i < SNES_RAMSIZE \<Longrightarrow> Some (the (h (ptr_add m_SRam (int i)))) = h (ptr_add m_SRam (int i))"
  using less_le_trans [OF _ ram_size_le, of i] by (auto simp: blocks_ok_def)

lemma RestoreState_saved:
  assumes "savable s" and "restorable t" and "length (st_SRam b) = SNES_SRAMSIZE"
  obtains t' where "RestoreState (saved b s) t = Some (True, t')" "cpu_restored (saved b s) t'"
    "sys_restored (saved b s) (sys t) (sys t')" "dom (hMem t') = dom (hMem t)"
    "bank_speeds (Bank t) (Bank t')"
  using RestoreState_eq [OF saved_fits [OF assms(1,3)], of t] assms(2) unfolding restorable_def by blast

lemma saved_same_cpu:
  assumes "savable s" and "length (st_SRam b) = SNES_SRAMSIZE" and "cpu_restored (saved b s) t'"
  shows "same_cpu s t'"
proof -
  have b: "blocks_ok (dom (hMem s))" using assms(1) by (simp add: savable_def)
  have "st_SRam (saved b s) ! i = the (hMem s (ptr_add m_SRam (int i)))" if "i < SNES_RAMSIZE" for i
    using that assms(2) ram_size_le by (simp add: saved_def Let_def over_front_nth)
  moreover have "st_Ram (saved b s) ! i = the (hMem s (ptr_add m_Ram (int i)))" if "i < SNES_RAMSIZE" for i
    using that by (simp add: saved_def Let_def)
  ultimately show ?thesis
    using assms(3) ram_size_le by (simp add: cpu_restored_def same_cpu_def heap_cell [OF b]) (simp add: saved_def Let_def)
qed

lemma saved_cong:
  assumes "same_state s t" and "savable s" and "savable t"
  shows "saved b t = saved b s"
proof -
  have m: "map (\<lambda>i. the (hMem t (ptr_add m_Ram (int i)))) [0..<SNES_RAMSIZE] = map (\<lambda>i. the (hMem s (ptr_add m_Ram (int i)))) [0..<SNES_RAMSIZE]"
    "map (\<lambda>i. the (hMem t (ptr_add m_SRam (int i)))) [0..<SNES_RAMSIZE] = map (\<lambda>i. the (hMem s (ptr_add m_SRam (int i)))) [0..<SNES_RAMSIZE]"
    "map (ram (m_Spc (sys t))) [0..<SNSPC_MEM_SIZE] = map (ram (m_Spc (sys s))) [0..<SNSPC_MEM_SIZE]"
    using assms(1) by (simp_all add: same_state_def same_cpu_def same_sound_def)
  have "m_Channels (the (m_pMixer_0 (m_pSpcDsp (SNSpcT.pUserData (m_Spc (sys t)))))) = m_Channels (the (m_pMixer_0 (m_pSpcDsp (SNSpcT.pUserData (m_Spc (sys s))))))"
    using assms by (auto simp: same_state_def same_sound_def savable_def)
  then show ?thesis
    using assms(1) unfolding saved_def m Let_def
    by (simp add: same_state_def same_cpu_def same_sound_def SnesPPU_SaveState_def SNSpcIO_SaveState_def)
qed

lemma restored_same:
  assumes "savable s" and "restorable t" and "length (st_SRam b) = SNES_SRAMSIZE"
  obtains t' where "RestoreState (saved b s) t = Some (True, t')" "same_state s t'" "savable t'"
proof -
  obtain t' where r: "RestoreState (saved b s) t = Some (True, t')" "cpu_restored (saved b s) t'" "sys_restored (saved b s) (sys t) (sys t')"
    "dom (hMem t') = dom (hMem t)"
    by (rule RestoreState_saved [OF assms])
  have same: "same_state s t'"
    using saved_same_cpu [OF assms(1,3) r(2)] saved_same_sys [OF assms(1,2) r(3)] by (simp add: same_state_def)
  moreover have "savable t'"
    using assms(1,2) same r(3,4) by (auto simp: savable_def restorable_def same_state_def same_cpu_def same_sound_def sys_restored_def)
  ultimately show ?thesis using r(1) that by blast
qed


text \<open>
  C38: The second half of cartridge RAM is not saved: a restore fills it with what the caller's buffer
  happened to hold before the save, whatever the machine had there.
\<close>
theorem sram_half_not_saved:
  assumes "savable s" and "restorable t" and "length (st_SRam b) = SNES_SRAMSIZE" and "SNES_RAMSIZE \<le> i" and "i < SNES_SRAMSIZE"
  shows "\<exists>p t'. SaveState b s = Some (p, s) \<and> RestoreState p t = Some (True, t') \<and> hMem t' (ptr_add m_SRam (int i)) = Some (st_SRam b ! i)"
proof -
  obtain t' where r: "RestoreState (saved b s) t = Some (True, t')" "cpu_restored (saved b s) t'"
    by (rule RestoreState_saved [OF assms(1-3)])
  have "st_SRam (saved b s) ! i = st_SRam b ! i"
    using assms(3-5) by (simp add: saved_def Let_def over_front_nth)
  with r assms(5) SaveState_eq [OF assms(1), of b] show ?thesis by (simp add: cpu_restored_def)
qed

text \<open>A structure without the tag is refused, and a buffer of another size is left alone.\<close>

lemma wrong_state_refused:
  "Tag p \<noteq> SnesState_Tag \<Longrightarrow> RestoreState p c = Some (False, c)"
  "n \<noteq> z \<Longrightarrow> RestoreState_buffer z n p c = Some c"
  "n \<noteq> z \<Longrightarrow> SaveState_buffer z n p c = Some (p, c)"
  by (simp_all add: RestoreState_def RestoreState_buffer_def SaveState_buffer_def)

lemma MemDiff_Nil: "u_SNStateMemDiff a b n = [] \<longleftrightarrow> (\<forall>i < n. a ! i = b ! i)"
  by (auto simp: u_SNStateMemDiff_def filter_empty_conv)

section \<open>The restored machine\<close>

lemma bank_speeds_ok:
  assumes "bank_speeds bs bs'"
  shows "bank_ok m i (bs i) \<Longrightarrow> bank_ok m i (bs' i)" "bank_fns_ok k (bs' i) = bank_fns_ok k (bs i)"
proof -
  obtain n where "n \<noteq> 0" "bs' i = bs i \<or> bs' i = (bs i)\<lparr>uBankCycle := n\<rparr>" using assms unfolding bank_speeds_def by blast
  then show "bank_ok m i (bs i) \<Longrightarrow> bank_ok m i (bs' i)" "bank_fns_ok k (bs' i) = bank_fns_ok k (bs i)"
    by (auto simp: bank_ok_def bank_fns_ok_def split: option.splits)
qed

lemma sound_restored_ok:
  assumes "spc_io_good (m_Spc s)" and "spc_io_good (m_Spc t)" and "same_sound (m_Spc s) (m_Spc t')" and "sys_restored p t t'"
    and "m_pMixer_0 (m_pSpcDsp (SNSpcT.pUserData (m_Spc s))) \<noteq> None"
  shows "spc_io_good (m_Spc t')"
proof -
  let ?u = "SNSpcT.pUserData (m_Spc s)" and ?v = "SNSpcT.pUserData (m_Spc t)" and ?w = "SNSpcT.pUserData (m_Spc t')"
  have q: "io_Queue ?w = io_Queue ?v" "dsp_Queue (m_pSpcDsp ?w) = dsp_Queue (m_pSpcDsp ?v)" "m_pMixer_1 (m_pSpcDsp ?w) = m_pMixer_1 (m_pSpcDsp ?v)"
    using assms(4) by (simp_all add: sys_restored_def SNSpcIO_RestoreState_def)
  have "pred_option mix_ok (m_pMixer_0 (m_pSpcDsp ?w))"
    using assms(1,3,5) by (cases "m_pMixer_0 (m_pSpcDsp ?w)")
      (auto simp: same_sound_def spc_io_good_def io_ok_def dsp_ok_def mix_ok_def)
  then have "dsp_ok (m_pSpcDsp ?w)"
    using assms(1-3) q by (simp add: dsp_ok_def spc_io_good_def io_ok_def same_sound_def)
  then show ?thesis
    using assms(1-3) q by (simp add: spc_io_good_def io_ok_def same_sound_def)
qed

text \<open>
  C36: Restoring a state saved from a well-formed machine into a well-formed machine with the same
  cartridge gives a well-formed machine: every access to the bus is defined, all tables have their
  sizes, and the queues of the machine stay usable.
\<close>
theorem restored_machine_ok:
  assumes "snes_ok rinv spc_io_good s" and "savable s" and "snes_ok rinv spc_io_good t" and "restorable t"
    and "length (st_SRam b) = SNES_SRAMSIZE"
  shows "\<exists>p t'. SaveState b s = Some (p, s) \<and> RestoreState p t = Some (True, t') \<and> snes_ok rinv spc_io_good t'"
proof -
  obtain t' where r: "RestoreState (saved b s) t = Some (True, t')" "cpu_restored (saved b s) t'" "sys_restored (saved b s) (sys t) (sys t')"
    "dom (hMem t') = dom (hMem t)" "bank_speeds (Bank t) (Bank t')"
    by (rule RestoreState_saved [OF assms(2,4,5)])
  note s = snes_okD [OF assms(1)] and t = snes_okD [OF assms(3)] and same = saved_same_sys [OF assms(2,4) r(3)]
  have "spc_io_good (m_Spc (sys t'))"
    using same assms(2) by (intro sound_restored_ok [OF s(2) t(2) _ r(3)]) (simp_all add: savable_def)
  moreover have "m_pRender (m_PPU (sys t')) = m_pRender (m_PPU (sys t))" "ppu_Queue (m_PPU (sys t')) = ppu_Queue (m_PPU (sys t))"
    "m_uSramSize (sys t') = m_uSramSize (sys t)"
    using r(3) by (simp_all add: sys_restored_def SnesPPU_RestoreState_def)
  moreover from this have "ppu_inv rinv (m_PPU (sys t'))"
    using s(1) t(1) same by (simp add: ppu_inv_def ppu_ok_def mem_ok_def)
  ultimately have st: "snes_state_ok rinv spc_io_good (sys t')" "m_uSramSize (sys t') = m_uSramSize (sys t)"
    using same s(3-6) by (simp_all add: snes_state_ok_def)
  have "bank_ok (hMem t) i (Bank t i)" "bank_fns_ok (m_uSramSize (sys t)) (Bank t i)" if "i < SNCPU_BANK_NUM" for i
    using assms(3) that by (simp_all add: machine_ok_def bus_ok_def snes_inv_def)
  then have "bank_ok (hMem t') i (Bank t' i)" "bank_fns_ok (m_uSramSize (sys t')) (Bank t' i)" if "i < SNCPU_BANK_NUM" for i
    using that st(2) bank_speeds_ok [OF r(5)] by (simp_all add: bank_ok_dom_cong [OF r(4)])
  moreover have "SNCpuT.Counter t' = SNCpuT.Counter s"
    using r(2) by (simp add: cpu_restored_def saved_def Let_def)
  ultimately have "snes_ok rinv spc_io_good t'"
    using st(1) t(8) s(7) r(4) by (simp add: machine_ok_def bus_ok_def snes_inv_def)
  with r(1) SaveState_eq [OF assms(2), of b] show ?thesis by simp
qed

section \<open>Movie clips of the machine\<close>

definition snes_System :: "int \<Rightarrow> ('r snes, SnesStateT) System" where
  "snes_System z = \<lparr>v_GetStateSize = GetStateSize z, v_SaveState = SaveState_buffer z, v_RestoreState = RestoreState_buffer z\<rparr>"

interpretation snes_clip: emu_system "snes_System z" "\<lambda>s. savable s \<and> 0 < z \<and> z < 0x80000000" "\<lambda>b. length (st_SRam b) = SNES_SRAMSIZE" same_state
proof
  fix s t :: "'a snes" and b b'
  assume s: "savable s \<and> 0 < z \<and> z < 0x80000000" and t: "savable t \<and> 0 < z \<and> z < 0x80000000" and b: "length (st_SRam b) = SNES_SRAMSIZE"
    and v: "v_SaveState (snes_System z) (v_GetStateSize (snes_System z)) b s = Some (b', s)"
  have "restorable t" using t by (simp add: savable_restorable)
  moreover have "b' = saved b s" using s v by (simp add: snes_System_def SaveState_buffer_def GetStateSize_def SaveState_eq)
  ultimately obtain t' where "RestoreState b' t = Some (True, t')" "same_state s t'"
    using s b by (metis restored_same)
  then show "\<exists>t'. v_RestoreState (snes_System z) (v_GetStateSize (snes_System z)) b' t = Some t' \<and> same_state s t'"
    by (simp add: snes_System_def RestoreState_buffer_def GetStateSize_def)
qed (auto simp: snes_System_def SaveState_buffer_def GetStateSize_def SaveState_eq)

text \<open>
  C37: A movie clip of the machine: the state at its beginning is recorded with the joypads of as many
  frames as the clip has room for, each frame beyond is reported; playing the clip on any machine with
  the same cartridge gives back that state and exactly those frames in their order, then reports the
  end. Recording does not disturb the machine.
\<close>
theorem movie_replayed:
  assumes "savable s" and "savable t" and "length (st_SRam b) = SNES_SRAMSIZE" and "length fs = unat n"
    and "0 < z" and "z < 0x80000000" and "word_of_int z \<le> m"
  shows "\<exists>t'. record_and_play (snes_System z) is (MovieClip_new b fs m n) s t =
      Some (map (\<lambda>k. k < unat n) [0..<length is], s, map (\<lambda>k. if k < unat n then Some (is ! k) else None) [0..<length is], t')
    \<and> same_state s t'"
  using assms by (intro snes_clip.replays) (simp_all add: snes_System_def GetStateSize_def)

section \<open>A machine with something to save\<close>

text \<open>The machine of \<^theory_text>\<open>Sn_Machine\<close> with a mixer, at the address \<open>a\<close>, with the byte \<open>v\<close> in all memory of the host.\<close>

definition demo_full_mixer :: SNSpcDspMixFullT where
  "demo_full_mixer = MixFullReset \<lparr>m_Channels = [], m_nSampleRate = 0, m_AttackTicks = [], m_DecayTicks = [], m_SustainTicks = [], m_LinearTicks = [],
     m_BentLineTicks = [], m_Echo = \<lparr>Filter = [], uEchoAddr = 0\<rparr>, m_EchoBuffer = [], m_iNoisePhase = 0, m_uNoiseGen = 0\<rparr>"

definition demo_spc_mixed :: "SNSpcIOT SNSpcT" where
  "demo_spc_mixed = demo_spc\<lparr>SNSpcT.pUserData := (SNSpcT.pUserData demo_spc)\<lparr>m_pSpcDsp := (m_pSpcDsp (SNSpcT.pUserData demo_spc))\<lparr>m_pMixer_0 := Some demo_full_mixer\<rparr>\<rparr>\<rparr>"

definition demo_playing :: "u32 \<Rightarrow> u8 \<Rightarrow> unit SnesPPURender_ext snes" where
  "demo_playing a v = map_result demo_rom SNROM_MAPPING_LOROM
     (demo_machine\<lparr>SNCpuT.Regs := zero_regs\<lparr>SNCpuRegsT.rPC := a\<rparr>, SNCpuT.pUserData := demo_sys\<lparr>m_Spc := demo_spc_mixed\<rparr>, hMem := (\<lambda>_. Some v)\<rparr>)"

definition demo_buffer :: "u8 \<Rightarrow> SnesStateT" where
  "demo_buffer v = \<lparr>Tag = [], st_uFrame = 0, st_uLine = 0, st_CPU = \<lparr>sc_Regs = zero_regs, sc_Cycles = 0, sc_Counter = [], sc_uSignal = 0\<rparr>,
     st_PPU = \<lparr>sp_Regs = zero_ppu_regs, sp_CGRAM = [], sp_VRAM = [], sp_OAM = []\<rparr>, st_IO = \<lparr>si_Input = [], si_Regs = zero_io_regs\<rparr>,
     st_DMAC = \<lparr>sd_Channels = [], sd_MDMAEnable = 0, sd_HDMAEnable = 0\<rparr>,
     st_SPC = \<lparr>ss_Regs = \<lparr>SNSpcRegsT.rPC = 0, rA = 0, rY = 0, rX = 0, rSP = 0, rPSW = 0\<rparr>, ss_Cycles = 0, ss_Counter = [], ss_bRomEnable = 0, ss_uCycleShift = 0\<rparr>,
     st_SPCDSP = \<lparr>sm_Regs = [], sm_Channels = []\<rparr>, st_SPCIO = \<lparr>so_apu_r = [], so_apu_w = [], so_spc_timer = []\<rparr>,
     st_Ram = [], st_SpcRam = [], st_SRam = replicate SNES_SRAMSIZE v\<rparr>"

lemma demo_buffer_size: "length (st_SRam (demo_buffer v)) = SNES_SRAMSIZE"
  by (simp add: demo_buffer_def)

lemma demo_playing_savable: "savable (demo_playing a v)"
  by (auto simp: savable_def demo_playing_def map_result_def demo_machine_def demo_spc_mixed_def demo_spc_def demo_sound_def rom_ok_def blocks_ok_def)

lemma demo_playing_good: "snes_ok (render_ok demo_env) spc_io_good (demo_playing a v)"
  unfolding demo_playing_def
proof (rule map_result_ok [OF demo_rom_fits])
  have g: "spc_io_good demo_spc" using demo_sound_good by (simp add: demo_spc_def spc_io_good_def demo_sound_def)
  have "mix_ok demo_full_mixer" by (simp add: mix_ok_def demo_full_mixer_def MixFullReset_def MixReset_def)
  with g have "spc_io_good demo_spc_mixed"
    by (simp add: spc_io_good_def demo_spc_mixed_def io_ok_def dsp_ok_def)
  then show "snes_state_ok (render_ok demo_env) spc_io_good (sys (demo_machine\<lparr>SNCpuT.Regs := zero_regs\<lparr>SNCpuRegsT.rPC := a\<rparr>,
      SNCpuT.pUserData := demo_sys\<lparr>m_Spc := demo_spc_mixed\<rparr>, hMem := (\<lambda>_. Some v)\<rparr>))"
    using demo_sys_ok by (simp add: snes_state_ok_def)
qed (auto simp: demo_machine_def memories_ok_def memory_at_def)


theorem sram_half_not_saved_witness:
  "\<exists>p t'. SaveState (demo_buffer 0xAA) (demo_playing 0x8000 0x55) = Some (p, demo_playing 0x8000 0x55)
    \<and> RestoreState p (demo_playing 0x8000 0x55) = Some (True, t') \<and> hMem t' (ptr_add m_SRam 0x30000) = Some 0xAA"
  using sram_half_not_saved [OF demo_playing_savable savable_restorable [OF demo_playing_savable] demo_buffer_size [of "0xAA"],
      of "0x30000" "0x8000" "0x55" "0x8000" "0x55"]
  by (simp add: SNES_RAMSIZE_def SNES_SRAMSIZE_def demo_buffer_def)

theorem restored_machine_ok_witness:
  "\<exists>p t'. SaveState (demo_buffer 0) (demo_playing 0x8000 0x55) = Some (p, demo_playing 0x8000 0x55)
    \<and> RestoreState p (demo_playing 0 0) = Some (True, t') \<and> snes_ok (render_ok demo_env) spc_io_good t'"
  by (rule restored_machine_ok [OF demo_playing_good demo_playing_savable demo_playing_good savable_restorable [OF demo_playing_savable] demo_buffer_size])

theorem movie_replayed_witness:
  "\<exists>t'. record_and_play (snes_System 0x80000) [[1], [2], [3]] (MovieClip_new (demo_buffer 0) [[], []] 0x80000 2) (demo_playing 0x8000 0x55) (demo_playing 0 0) =
      Some ([True, True, False], demo_playing 0x8000 0x55, [Some [1], Some [2], None], t') \<and> same_state (demo_playing 0x8000 0x55) t'"
  using movie_replayed [OF demo_playing_savable [of "0x8000" "0x55"] demo_playing_savable [of 0 0] demo_buffer_size [of 0],
      of "[[], []]" 2 "0x80000" "0x80000" "[[1], [2], [3]]"]
  by (simp add: upt_rec)

end
