(* ===== verification/Spec2Isabelle.thy ===== *)
theory Spec2Isabelle
  imports Sn_Cpu_Props Sn_Cpu_Bus_Props Sn_Cpu_Irq Sn_Spc_Mem_Props Net_Props Net_Server_Props
    Sn_Sound_Props Sn_Ppu_Props Sn_Io Sn_Dma_Ok Sn_MemMap_Props Sn_Machine Sn_State_Props
begin

text \<open>
  SNESticle is an emulator of the Super Nintendo. This development models the parts of it that
  decide what an emulated program does and what two machines that play together agree on, and
  states what makes them correct. Sources are named relative to \<^verbatim>\<open>src/\<close>; common sources
  of the emulator are in \<^verbatim>\<open>SNESticle/Source/common\<close>.

  \<^bold>\<open>The program.\<close> \<^verbatim>\<open>snes.cpp\<close> connects the 65816 processor (\<^verbatim>\<open>sncpu.c\<close>), whose bus is a
  table of 8 KB banks with trap functions for registers, with the sound processor SPC700
  (\<^verbatim>\<open>snspc.c\<close>) with its own memory and I/O registers (\<^verbatim>\<open>snspcio.cpp\<close>), the sound DSP
  (\<^verbatim>\<open>snspcdsp.cpp\<close>), the PPU and the DMA controller. Both interpreters are a switch over opcodes
  whose cases are generated headers (\<^verbatim>\<open>XML/op65816.h\<close>, \<^verbatim>\<open>XML/opspc700_c.h\<close>) of macros.
  \<^verbatim>\<open>Modules/netplay\<close> lets up to five machines run the same game in lockstep: clients exchange
  inputs over UDP and hold a frame until every input of it has arrived; a server on TCP collects
  the players and starts the game.

  \<^bold>\<open>Shared theories.\<close> \<open>Prelude\<close> has words and bytes, total correctness of option computations
  (\<open>returns\<close>), lists of microcode with an abstract interpretation (locale \<open>microcode\<close>), switches,
  and the interface of a byte bus. \<open>Host_Memory\<close> is the memory of the host behind the bank table.
  \<open>C_Integers\<close> is about machine integers, \<open>C_Arrays\<close> about arrays with bounds. \<open>Queue_Contracts\<close> states
  what a queue promises, as a bounded list and as a window of a stream.

  \<^bold>\<open>65816.\<close> \<open>Sn_Cpu\<close>: registers, bank table and constants. \<open>Sn_Cpu_Bus\<close> and \<open>Sn_Cpu_Control\<close>: the
  operations of \<^verbatim>\<open>sncpu.c\<close>, each a function of its name. \<open>Sn_Cpu_C\<close>: the macros of
  \<^verbatim>\<open>sncpu_c.c\<close> as a datatype \<open>uop\<close> with its execution. \<open>Op65816_Move\<close>, \<open>Op65816_Arith\<close>,
  \<open>Op65816_Logic\<close>: the generated cases as tables of microcode, one definition for a group of
  handlers. \<open>Sn_Cpu_Exec\<close>: hand-written cases, the loop, and the labels of the switch. Lemmas: \<open>Sn_Cpu_Safe\<close> (an abstract interpretation of microcode that bounds every address;
  the contract \<open>trap_contract\<close> of the client's handlers), \<open>Sn_Cpu_Run\<close> (reachability, termination,
  and a second interpretation for the uninitialised C locals), \<open>Sn_Cpu_Arith\<close> (decimal
  arithmetic). Properties: \<open>Sn_Cpu_Props\<close>, \<open>Sn_Cpu_Bus_Props\<close>, \<open>Sn_Cpu_Irq\<close>.

  \<^bold>\<open>SPC700.\<close> The same structure: \<open>Sn_Spc\<close>, \<open>Sn_Spc_C\<close>, \<open>Op_Spc700\<close>, \<open>Sn_Spc_Exec\<close>; lemmas in
  \<open>Sn_Spc_Safe\<close> (contract \<open>spc_contract\<close>) and \<open>Sn_Spc_Run\<close>; properties in \<open>Sn_Spc_Props\<close> and
  \<open>Sn_Spc_Mem_Props\<close>, the latter with the RAM behind the boot ROM as the abstract state.

  \<^bold>\<open>Sound.\<close> \<open>Sn_Queue\<close>: the queue of timed writes and the loop that performs them. \<open>Sn_Spc_Timer\<close>:
  timers. \<open>Sn_Spc_Dsp\<close>: DSP registers and the interface of the mixers. \<open>Sn_Spc_IO\<close>: ports and trap
  functions. \<open>Sn_Spc_IO_Ok\<close> proves that they meet \<open>spc_contract\<close> and interprets it, so the theorems
  on the interpreter hold for the processor with its registers. \<open>Sn_Spc_Brr\<close>: the sample decoder.
  Properties: \<open>Sn_Sound_Props\<close>.

  \<^bold>\<open>PPU and I/O.\<close> \<open>Sn_Ppu\<close>: registers and memories of the picture processor, its queue of writes and
  the loop over the lines; the renderer is the table of virtual functions of \<^verbatim>\<open>ISnesPPURender\<close>.
  \<open>Sn_Ppu_Ok\<close>: every operation stays inside the memories whatever renderer meets the contract
  \<open>ppu_renderer\<close>. Properties: \<open>Sn_Ppu_Props\<close>. \<open>Sn_Io\<close>: joypads and the registers at 4200.

  \<^bold>\<open>Renderer.\<close> How a line of the picture is drawn. \<open>Sn_Mask\<close>: masks of the 256 pixels of a line
  (\<^verbatim>\<open>snmaskop.h\<close>, \<^verbatim>\<open>ps2/snmask128.cpp\<close>). \<open>Sn_Bg\<close>: registers of the backgrounds, the tiles of a line,
  offsets per tile, windows (\<^verbatim>\<open>snppubg.cpp\<close>). \<open>Sn_Obj\<close>: objects (\<^verbatim>\<open>snppuobj.cpp\<close>). \<open>Sn_Chr\<close>: pixels of
  tiles, mosaic and mode 7; \<open>Sn_Layers\<close>: layers and their order (\<^verbatim>\<open>snppurender8.cpp\<close>). \<open>Sn_Render\<close>: a
  line and a frame (\<^verbatim>\<open>snppurender.cpp\<close>) and color addition (\<^verbatim>\<open>snppublend_c.cpp\<close>). It is the portable
  variant; arrays that the code does not initialise and the table of colors are an argument, the
  record \<open>render_env\<close>. \<open>Sn_Bg_Ok\<close>, \<open>Sn_Obj_Ok\<close>, \<open>Sn_Chr_Ok\<close>, \<open>Sn_Layers_Ok\<close> and \<open>Sn_Render_Ok\<close> show
  that every operation is defined and keeps the renderer well-formed; the last one interprets
  \<open>ppu_renderer\<close>. \<open>Sn_Pixel_Props\<close> and \<open>Sn_Render_Props\<close> say what is drawn, pixel by
  pixel.

  \<^bold>\<open>The system.\<close> \<open>Sn_System\<close> and \<open>Sn_Traps\<close>: the chips as user data of the processor, their
  synchronisation, and the trap functions of the bus (\<^verbatim>\<open>snes.cpp\<close>). \<open>Sn_System_Ok\<close> proves that they
  meet \<open>trap_contract\<close>, so everything shown for the 65816 holds for the processor in the machine.
  \<open>Sn_Dma\<close> translates \<^verbatim>\<open>sndma.cpp\<close>, \<open>Sn_Dma_Ok\<close> shows that transfers return. \<open>Sn_Snes\<close>: the loop
  over signals, lines and frames, and the resets. \<open>Sn_Machine\<close> puts the SPC700 interpreter behind the
  function pointer of \<^verbatim>\<open>snspc.c\<close> and everything together: the interpreters, the
  renderer and a mapped cartridge as one machine, which meets the contract \<open>snes_machine\<close>.

  \<^bold>\<open>Cartridges.\<close> \<open>Data_IO\<close>: files of the C library and files in memory (\<^verbatim>\<open>dataio.cpp\<close>), with the
  contract \<open>data_io\<close> that both are shown to meet. \<open>Sn_Rom\<close> translates \<^verbatim>\<open>snrom.cpp\<close>; \<open>Sn_Rom_Props\<close> says
  what is loaded as a function of the bytes of the file. \<open>Sn_MemMap\<close> translates \<^verbatim>\<open>snmemmap.cpp\<close>,
  \<open>Sn_MemMap_Ok\<close> computes the bank table it makes and shows that every bank of it is safe,
  \<open>Sn_MemMap_Props\<close> says which byte of the ROM an address shows.

  \<^bold>\<open>Saved states.\<close> \<open>Sn_State\<close> translates \<^verbatim>\<open>snstate.cpp\<close>: the structure of a saved state as a value, and
  the functions that fill it and read it back. \<open>Emu_Movie\<close> is the recorder of \<^verbatim>\<open>emumovie.cpp\<close> in
  \<^verbatim>\<open>Gep\<close>, over any system that meets the contract \<open>emu_system\<close>. \<open>Sn_State_Props\<close> shows what a saved
  state keeps and loses, and that the machine meets that contract.

  \<^bold>\<open>Netplay.\<close> \<open>Net_Queue\<close>, \<open>Net_Socket\<close>, \<open>Net_Client\<close>, \<open>Net_Client_Loop\<close> and \<open>Net_Server\<close> translate
  the files of the same names. \<open>Net_Session\<close> composes clients to a session: a step is a frame of a
  client, the start of the game, or the arrival of any datagram ever sent, so a network that loses,
  repeats and reorders is covered; handlers of the two threads interleave as whole steps.
  \<open>Net_Views\<close> abstracts a client to streams of inputs, \<open>Net_Lockstep\<close> proves that every step keeps
  the invariant. Properties: \<open>Net_Props\<close>,
  \<open>Net_Server_Props\<close>.

  \<^bold>\<open>Conventions.\<close> Unsigned C integers are words; signed ones are integers where they provably fit
  and words read with \<^const>\<open>sint\<close> where they may wrap. An access outside an array, a division by
  zero or a shift by too much is undefined in C; it is \<^const>\<open>None\<close> here, and safety theorems say
  that a result exists. A leading underscore of a C name becomes \<open>u_\<close>.

  \<^bold>\<open>Bounds.\<close> Theorems on single instructions assume that the instruction itself lies in the address
  space: the program counter is at most \<open>pc_limit\<close> on the 65816 and \<open>0xFFFD\<close> on the SPC700; the
  interpreters do not wrap it. Loops over a decreasing cycle count use fuel, and the theorems say
  that enough fuel exists. A DSP write is tried at most \<open>dsp_write_fuel\<close> times, which is shown to
  suffice. The lockstep theorem covers sequence numbers below \<open>seq_limit\<close>, \<open>2\<^sup>3\<^sup>1\<close> frames of a
  game, more than a year of play.

  \<^bold>\<open>Not modelled.\<close> Code that talks to hardware, files or the user (the PS2 front end, drivers, socket
  system calls, remote procedure calls); third-party code (zlib, unzip, libcdvd); the interpreters
  in MIPS assembly, whose generated cases are those of the C interpreters; disassemblers and debug
  output; blending on the graphics processor of the PS2 and the table of colors
  (\<^verbatim>\<open>snppucolor.cpp\<close>, floating point). System calls and third-party functions that the modelled code uses are parameters.
\<close>

end
